(* ===== verification/Go_Prelude.thy ===== *)
theory Go_Prelude
  imports Main "HOL-Library.Word"
begin

text \<open>
  What the Go code shares: machine integers and their wrap-around, byte slices and strings,
  fallible calls as sums, and the generic list and word facts the components use.

  Go's \<open>int\<close> is 64 bits wide on the platforms the chain is built for (linux/amd64).  Slice
  indices are HOL integers; every addition the code makes to an index is followed by
  \<open>wrap64\<close>, which reduces the sum to the two's complement 64-bit value, so an index that
  overflows becomes negative exactly where Go's does.  A Go string is its bytes, so \<open>string\<close>
  and \<open>[]byte\<close> are both \<open>byte list\<close> and the conversions between them are the identity.
\<close>

unbundle bit_operations_syntax

section \<open>Types\<close>

type_synonym byte = "8 word"
type_synonym bytes = "byte list"
type_synonym gostring = "byte list"
type_synonym uint64 = "64 word"
type_synonym int32 = "32 word"

text \<open>String literals of the source, as bytes.\<close>

definition lit :: "string \<Rightarrow> gostring" where
  "lit s = map of_char s"

section \<open>Fallible calls\<close>

text \<open>\<open>if err != nil \<dots> return err\<close> after a call: the error is passed on.\<close>

definition rbind :: "'e + 'a \<Rightarrow> ('a \<Rightarrow> 'e + 'b) \<Rightarrow> 'e + 'b" where
  "rbind r k = (case r of Inl e \<Rightarrow> Inl e | Inr x \<Rightarrow> k x)"

lemma rbind_simps [simp]:
  "rbind (Inl e) k = Inl e"
  "rbind (Inr x) k = k x"
  by (simp_all add: rbind_def)

lemma rbind_eq_Inr: "rbind r k = Inr y \<longleftrightarrow> (\<exists>x. r = Inr x \<and> k x = Inr y)"
  by (cases r) auto

lemma rbind_eq_Inl: "rbind r k = Inl e \<longleftrightarrow> r = Inl e \<or> (\<exists>x. r = Inr x \<and> k x = Inl e)"
  by (cases r) auto

lemma rbind_cong [fundef_cong]:
  "r = r' \<Longrightarrow> (\<And>x. r' = Inr x \<Longrightarrow> k x = k' x) \<Longrightarrow> rbind r k = rbind r' k'"
  by (cases r') auto

text \<open>A Go \<open>for\<close> over a slice whose body may return an error.\<close>

fun rfold :: "('a \<Rightarrow> 's \<Rightarrow> 'e + 's) \<Rightarrow> 'a list \<Rightarrow> 's \<Rightarrow> 'e + 's" where
  "rfold f [] s = Inr s"
| "rfold f (x # xs) s = rbind (f x s) (rfold f xs)"

lemma rfold_append: "rfold f (xs @ ys) s = rbind (rfold f xs s) (rfold f ys)"
proof (induction xs arbitrary: s)
  case Nil
  show ?case by simp
next
  case (Cons x xs)
  then show ?case by (cases "f x s") simp_all
qed

section \<open>64-bit integers\<close>

definition wrap64 :: "int \<Rightarrow> int" where
  "wrap64 x = sint (word_of_int x :: 64 word)"

abbreviation in_int64 :: "int \<Rightarrow> bool" where
  "in_int64 x \<equiv> - (2 ^ 63) \<le> x \<and> x < 2 ^ 63"

lemma wrap64_in_int64: "in_int64 (wrap64 x)"
  using sint_ge [of "word_of_int x :: 64 word"] sint_lt [of "word_of_int x :: 64 word"]
  by (simp add: wrap64_def)

lemma wrap64_id: "in_int64 x \<Longrightarrow> wrap64 x = x"
  unfolding wrap64_def by (simp add: sint_sbintrunc' signed_take_bit_int_eq_self)

lemma wrap64_nonneg_id: "0 \<le> x \<Longrightarrow> x < 2 ^ 63 \<Longrightarrow> wrap64 x = x"
  by (rule wrap64_id) simp

text \<open>The sum of two non-negative 64-bit integers is negative exactly when it overflows.\<close>

lemma wrap64_overflow:
  assumes "2 ^ 63 \<le> x" and "x < 2 ^ 64"
  shows "wrap64 x = x - 2 ^ 64"
proof -
  have "(word_of_int x :: 64 word) = word_of_int (x - 2 ^ 64)"
    by (simp add: word_of_int_eq_iff take_bit_eq_mod)
  then have "wrap64 x = wrap64 (x - 2 ^ 64)"
    by (simp only: wrap64_def)
  also have "\<dots> = x - 2 ^ 64"
    using assms by (intro wrap64_id) simp
  finally show ?thesis .
qed

lemma wrap64_add_cases:
  assumes "0 \<le> a" "a < 2 ^ 63" "0 \<le> b" "b < 2 ^ 63"
  shows "a + b < 2 ^ 63 \<and> wrap64 (a + b) = a + b \<or> 2 ^ 63 \<le> a + b \<and> wrap64 (a + b) < 0"
  using assms wrap64_nonneg_id [of "a + b"] wrap64_overflow [of "a + b"]
  by (cases "a + b < 2 ^ 63") auto

text \<open>
  What an index loop decreases.  An index outside the 64-bit range cannot arise in Go, but a HOL
  integer can be one, so the measure covers it too.
\<close>

definition idx_measure :: "int \<Rightarrow> nat" where
  "idx_measure i = (if i < 0 then 0 else if i < 2 ^ 63 then nat (2 ^ 63 - i) else 2 ^ 64)"

lemma idx_measure_wrap:
  assumes "0 \<le> i"
  shows "idx_measure (wrap64 (i + 1)) < idx_measure i"
proof (cases "i < 2 ^ 63")
  case True
  then show ?thesis
    using assms wrap64_add_cases [of i 1] by (auto simp: idx_measure_def)
next
  case False
  then show ?thesis
    using wrap64_in_int64 [of "i + 1"] by (auto simp: idx_measure_def)
qed

lemma idx_measure_step:
  assumes "0 \<le> i" "i < j" "in_int64 j"
  shows "idx_measure j < idx_measure i"
  using assms by (auto simp: idx_measure_def)

section \<open>Lists\<close>

lemma split_at_length:
  assumes "length zs = length (as @ bs)"
  obtains zs1 zs2 where "zs = zs1 @ zs2" "length zs1 = length as" "length zs2 = length bs"
proof
  show "zs = take (length as) zs @ drop (length as) zs" by simp
  show "length (take (length as) zs) = length as" "length (drop (length as) zs) = length bs"
    using assms by simp_all
qed

text \<open>\<open>x\<close> occurs and \<open>y\<close> occurs after the first \<open>x\<close>.\<close>

fun precedes :: "'a \<Rightarrow> 'a \<Rightarrow> 'a list \<Rightarrow> bool" where
  "precedes x y [] = False"
| "precedes x y (z # zs) = (if z = x then y \<in> set zs else precedes x y zs)"

lemma precedes_split: "precedes x y zs \<longleftrightarrow> (\<exists>as bs cs. zs = as @ x # bs @ y # cs \<and> x \<notin> set as)"
proof
  show "precedes x y zs \<Longrightarrow> \<exists>as bs cs. zs = as @ x # bs @ y # cs \<and> x \<notin> set as"
  proof (induction zs)
    case (Cons z zs)
    show ?case
    proof (cases "z = x")
      case True
      with Cons.prems have "y \<in> set zs" by simp
      then obtain bs cs where "zs = bs @ y # cs" by (auto simp: in_set_conv_decomp)
      with True show ?thesis by (intro exI [of _ "[]"] exI [of _ bs] exI [of _ cs]) simp
    next
      case False
      with Cons obtain as bs cs where "zs = as @ x # bs @ y # cs" "x \<notin> set as" by auto
      with False show ?thesis by (intro exI [of _ "z # as"] exI [of _ bs] exI [of _ cs]) simp
    qed
  qed simp
next
  assume "\<exists>as bs cs. zs = as @ x # bs @ y # cs \<and> x \<notin> set as"
  then obtain as bs cs where "zs = as @ x # bs @ y # cs" "x \<notin> set as" by blast
  then show "precedes x y zs"
    by (induction as arbitrary: zs) auto
qed

end
