(* ===== verification/Proto_Decode.thy ===== *)
theory Proto_Decode
  imports Go_Prelude
begin

text \<open>
  The decoding half of the protobuf code that gogoproto generates into every
  \<open>x/*/types/*.pb.go\<close>: the varint loops, \<open>skipX\<close>, the length-delimited reads and the
  \<open>for iNdEx < l\<close> loop of \<open>Unmarshal\<close>.  The generated text of these parts is the same in
  every file up to the file's suffix in the error names (\<open>ErrIntOverflowDenom\<close>,
  \<open>ErrIntOverflowTx\<close>, \<dots>), so they take the file as a parameter.  The \<open>switch fieldNum\<close> of
  a message is a function from field numbers to the kind of its \<open>case\<close> and the field it sets.
\<close>

section \<open>Errors\<close>

datatype gomod = Mod_tokenfactory | Mod_medasdigital | Mod_cosmos_proto

datatype pbsuffix = PbDenom | PbGenesis | PbParams | PbQuery | PbTx | PbRuntime

type_synonym pbfile = "gomod \<times> pbsuffix"

text \<open>
  \<open>Panic\<close> is a Go run-time panic (an index or a slice bound out of range); the other
  constructors are the errors the generated code returns.
\<close>

datatype pb_error =
    ErrIntOverflow pbfile
  | ErrInvalidLength pbfile
  | ErrUnexpectedEndOfGroup pbfile
  | ErrUnexpectedEOF
  | ErrEndGroupForNonGroup string
  | ErrIllegalTag string int32 uint64
  | ErrWrongWireType nat string
  | ErrIllegalWireType nat
  | Panic

section \<open>Reading bytes\<close>

definition byte_at :: "bytes \<Rightarrow> int \<Rightarrow> pb_error + byte" where
  "byte_at d i = (if 0 \<le> i \<and> i < int (length d) then Inr (d ! nat i) else Inl Panic)"

definition slice :: "bytes \<Rightarrow> int \<Rightarrow> int \<Rightarrow> pb_error + bytes" where
  "slice d i j =
     (if 0 \<le> i \<and> i \<le> j \<and> j \<le> int (length d)
      then Inr (take (nat (j - i)) (drop (nat i) d)) else Inl Panic)"

text \<open>
  \<^verbatim>\<open>
  for shift := uint(0); ; shift += 7 {
    if shift >= 64 { return ErrIntOverflow }
    if iNdEx >= l { return io.ErrUnexpectedEOF }
    b := dAtA[iNdEx]; iNdEx++
    v |= T(b&0x7F) << shift
    if b < 0x80 { break }
  } \<close>
  The type \<open>T\<close> of the accumulated value is the word type of the result: \<open>uint64\<close> and
  \<open>int\<close> are 64 bits wide, \<open>int32\<close> fields 32.
\<close>

function read_varint ::
  "pbfile \<Rightarrow> bytes \<Rightarrow> int \<Rightarrow> nat \<Rightarrow> 'a::len word \<Rightarrow> pb_error + 'a word \<times> int" where
  "read_varint f d i shift v =
     (if 64 \<le> shift then Inl (ErrIntOverflow f)
      else if int (length d) \<le> i then Inl ErrUnexpectedEOF
      else rbind (byte_at d i) (\<lambda>b.
        let i' = wrap64 (i + 1);
            v' = v OR push_bit shift (ucast (b AND 0x7F))
        in if b < 0x80 then Inr (v', i') else read_varint f d i' (shift + 7) v'))"
  by pat_completeness auto
termination
  by (relation "measure (\<lambda>(f, d, i, shift, v). 64 - shift)") auto

declare read_varint.simps [simp del]

text \<open>
  The varint loop of \<open>skipX\<close>, which reads no value.  It increments first and then looks at
  \<open>dAtA[iNdEx-1]\<close>, the byte at the index it started from.
\<close>

function skip_varint :: "pbfile \<Rightarrow> bytes \<Rightarrow> int \<Rightarrow> nat \<Rightarrow> pb_error + int" where
  "skip_varint f d i shift =
     (if 64 \<le> shift then Inl (ErrIntOverflow f)
      else if int (length d) \<le> i then Inl ErrUnexpectedEOF
      else rbind (byte_at d i) (\<lambda>b.
        if b < 0x80 then Inr (wrap64 (i + 1)) else skip_varint f d (wrap64 (i + 1)) (shift + 7)))"
  by pat_completeness auto
termination
  by (relation "measure (\<lambda>(f, d, i, shift). 64 - shift)") auto

declare skip_varint.simps [simp del]

subsection \<open>Progress of an index\<close>

text \<open>
  \<open>j\<close> is an index reached from \<open>i\<close>: it is a 64-bit integer, and it is past \<open>i\<close> unless the
  increment overflowed.
\<close>

definition advances :: "int \<Rightarrow> int \<Rightarrow> bool" where
  "advances i j \<longleftrightarrow> 0 \<le> i \<and> in_int64 j \<and> (i < 2 ^ 63 \<longrightarrow> i < j \<or> j = - (2 ^ 63))"

lemma advances_measure: "advances i j \<Longrightarrow> idx_measure j < idx_measure i"
  by (auto simp: advances_def idx_measure_def)

lemma advances_wrap_Suc:
  assumes "0 \<le> i"
  shows "advances i (wrap64 (i + 1))"
proof (cases "i + 1 < 2 ^ 63")
  case True
  then show ?thesis using assms wrap64_nonneg_id [of "i + 1"] by (simp add: advances_def)
next
  case False
  have "i < 2 ^ 63 \<longrightarrow> i = 2 ^ 63 - 1"
    using False by simp
  then show ?thesis
    using assms wrap64_in_int64 [of "i + 1"] wrap64_overflow [of "i + 1"]
    by (auto simp: advances_def)
qed

lemma advances_trans: "advances i j \<Longrightarrow> advances j k \<Longrightarrow> advances i k"
  by (auto simp: advances_def)

lemma advances_add:
  assumes "advances i j" "0 \<le> n" "n < 2 ^ 63" "0 \<le> wrap64 (j + n)"
  shows "advances i (wrap64 (j + n))"
proof (cases "0 \<le> j")
  case True
  then show ?thesis
    using assms wrap64_add_cases [of j n] wrap64_in_int64 [of "j + n"]
    by (auto simp: advances_def)
next
  case False
  have "j = - (2 ^ 63) \<Longrightarrow> wrap64 (j + n) = j + n"
    using assms by (intro wrap64_id) auto
  then show ?thesis
    using False assms wrap64_in_int64 [of "j + n"] by (auto simp: advances_def)
qed

lemma byte_at_Inr: "byte_at d i = Inr b \<longleftrightarrow> 0 \<le> i \<and> i < int (length d) \<and> b = d ! nat i"
  by (auto simp: byte_at_def)

lemma read_varint_advances:
  "read_varint f d i shift v = Inr (w, j) \<Longrightarrow> advances i j"
proof (induction f d i shift v rule: read_varint.induct)
  case (1 f d i shift v)
  note eq = read_varint.simps [of f d i shift v]
  from "1.prems" obtain b where b: "byte_at d i = Inr b" and lt: "shift < 64"
      and l: "i < int (length d)"
    by (subst (asm) eq) (auto simp: rbind_eq_Inr split: if_splits)
  then have s: "advances i (wrap64 (i + 1))"
    by (simp add: byte_at_Inr advances_wrap_Suc)
  show ?case
  proof (cases "b < 0x80")
    case True
    with "1.prems" b lt l s show ?thesis by (subst (asm) eq) (simp add: Let_def)
  next
    case False
    with "1.prems" b lt l
    have "read_varint f d (wrap64 (i + 1)) (shift + 7)
        (v OR push_bit shift (ucast (b AND 0x7F))) = Inr (w, j)"
      by (subst (asm) eq) (simp add: Let_def)
    then have "advances (wrap64 (i + 1)) j"
      using "1.IH" b lt l False by simp
    with s show ?thesis by (rule advances_trans)
  qed
qed

lemma skip_varint_advances: "skip_varint f d i shift = Inr j \<Longrightarrow> advances i j"
proof (induction f d i shift rule: skip_varint.induct)
  case (1 f d i shift)
  note eq = skip_varint.simps [of f d i shift]
  from "1.prems" obtain b where b: "byte_at d i = Inr b" and lt: "shift < 64"
      and l: "i < int (length d)"
    by (subst (asm) eq) (auto simp: rbind_eq_Inr split: if_splits)
  then have s: "advances i (wrap64 (i + 1))"
    by (simp add: byte_at_Inr advances_wrap_Suc)
  show ?case
  proof (cases "b < 0x80")
    case True
    with "1.prems" b lt l s show ?thesis by (subst (asm) eq) simp
  next
    case False
    with "1.prems" b lt l have "skip_varint f d (wrap64 (i + 1)) (shift + 7) = Inr j"
      by (subst (asm) eq) simp
    then have "advances (wrap64 (i + 1)) j"
      using "1.IH" b lt l False by simp
    with s show ?thesis by (rule advances_trans)
  qed
qed

section \<open>skipX: the length of an unknown field\<close>

text \<open>One turn of the loop, up to the checks at its end.\<close>

definition skip_step :: "pbfile \<Rightarrow> bytes \<Rightarrow> int \<Rightarrow> nat \<Rightarrow> pb_error + int \<times> nat" where
  "skip_step f d i depth =
     rbind (read_varint f d i 0 (0 :: uint64)) (\<lambda>(wire, i1).
       let wireType = unat (wire AND 7) in
       if wireType = 0 then rbind (skip_varint f d i1 0) (\<lambda>i2. Inr (i2, depth))
       else if wireType = 1 then Inr (wrap64 (i1 + 8), depth)
       else if wireType = 2 then
         rbind (read_varint f d i1 0 (0 :: uint64)) (\<lambda>(len, i2).
           if sint len < 0 then Inl (ErrInvalidLength f)
           else Inr (wrap64 (i2 + sint len), depth))
       else if wireType = 3 then Inr (i1, depth + 1)
       else if wireType = 4 then
         (if depth = 0 then Inl (ErrUnexpectedEndOfGroup f) else Inr (i1, depth - 1))
       else if wireType = 5 then Inr (wrap64 (i1 + 4), depth)
       else Inl (ErrIllegalWireType wireType))"

lemma sint64_bound: "sint (w :: uint64) < 2 ^ 63"
  using sint_lt [of w] by simp

lemma skip_step_advances:
  assumes "skip_step f d i depth = Inr (j, depth')" and "0 \<le> j"
  shows "advances i j"
proof -
  from assms(1) obtain wire i1 where w: "read_varint f d i 0 (0 :: uint64) = Inr (wire, i1)"
    by (auto simp: skip_step_def rbind_eq_Inr)
  then have a: "advances i i1" by (rule read_varint_advances)
  show ?thesis
    using assms w a
    by (auto simp: skip_step_def rbind_eq_Inr Let_def not_less
        intro: advances_add advances_trans [OF a] skip_varint_advances read_varint_advances
          sint64_bound advances_add [OF advances_trans [OF a read_varint_advances]]
          split: if_splits)
qed

text \<open>
  The loop over the (possibly nested) groups.  A field that is not a group ends it at depth 0
  after one turn.
\<close>

function skip_loop :: "pbfile \<Rightarrow> bytes \<Rightarrow> int \<Rightarrow> nat \<Rightarrow> pb_error + int" where
  "skip_loop f d i depth =
     (if i < int (length d) then
        (case skip_step f d i depth of
          Inl e \<Rightarrow> Inl e
        | Inr (i', depth') \<Rightarrow>
            if i' < 0 then Inl (ErrInvalidLength f)
            else if depth' = 0 then Inr i'
            else skip_loop f d i' depth')
      else Inl ErrUnexpectedEOF)"
  by pat_completeness auto
termination
  by (relation "measure (\<lambda>(f, d, i, depth). idx_measure i)")
    (auto simp: not_less intro!: advances_measure elim: skip_step_advances)

declare skip_loop.simps [simp del]

definition skip_field :: "pbfile \<Rightarrow> bytes \<Rightarrow> pb_error + int" where
  "skip_field f d = skip_loop f d 0 0"

lemma skip_loop_advances: "skip_loop f d i depth = Inr j \<Longrightarrow> advances i j \<and> 0 \<le> j"
proof (induction f d i depth rule: skip_loop.induct)
  case (1 f d i depth)
  note eq = skip_loop.simps [of f d i depth]
  from "1.prems" obtain i' depth' where s: "skip_step f d i depth = Inr (i', depth')"
      and l: "i < int (length d)" and nn: "0 \<le> i'"
    by (subst (asm) eq) (auto split: if_splits sum.splits)
  then have a: "advances i i'" by (auto intro: skip_step_advances)
  show ?case
  proof (cases "depth' = 0")
    case True
    with "1.prems" s l nn a show ?thesis by (subst (asm) eq) simp
  next
    case False
    with "1.prems" s l nn have "skip_loop f d i' depth' = Inr j"
      by (subst (asm) eq) simp
    then have "advances i' j \<and> 0 \<le> j"
      using "1.IH" s l nn False by simp
    with a show ?thesis by (auto intro: advances_trans)
  qed
qed

section \<open>The cases of a switch\<close>

text \<open>
  The kinds of \<open>case\<close> the generator emits for the fields of this repository, with the
  assignment the case makes: \<open>FString\<close> for \<open>m.X = string(dAtA[iNdEx:postIndex])\<close>,
  \<open>FInt32\<close> for \<open>m.X = 0\<close> and the varint loop into it, \<open>FBool\<close> for
  \<open>m.X = bool(v != 0)\<close>, \<open>FMessage\<close> for \<open>m.X.Unmarshal(dAtA[iNdEx:postIndex])\<close> (after an
  \<open>append\<close> or a \<open>new\<close> where the field is repeated or a pointer).
\<close>

datatype 'm field =
    FString "gostring \<Rightarrow> 'm \<Rightarrow> 'm"
  | FInt32 "int32 \<Rightarrow> 'm \<Rightarrow> 'm"
  | FBool "bool \<Rightarrow> 'm \<Rightarrow> 'm"
  | FMessage "bytes \<Rightarrow> 'm \<Rightarrow> pb_error + 'm"

text \<open>The length of a length-delimited field: the bounds of its bytes.\<close>

definition read_len :: "pbfile \<Rightarrow> bytes \<Rightarrow> int \<Rightarrow> pb_error + int \<times> int" where
  "read_len f d i =
     rbind (read_varint f d i 0 (0 :: uint64)) (\<lambda>(len, i1).
       let n = sint len; post = wrap64 (i1 + n) in
       if n < 0 then Inl (ErrInvalidLength f)
       else if post < 0 then Inl (ErrInvalidLength f)
       else if int (length d) < post then Inl ErrUnexpectedEOF
       else Inr (i1, post))"

fun read_field ::
  "pbfile \<Rightarrow> string \<Rightarrow> 'm field \<Rightarrow> nat \<Rightarrow> bytes \<Rightarrow> int \<Rightarrow> 'm \<Rightarrow> pb_error + int \<times> 'm" where
  "read_field f name (FString upd) wireType d i m =
     (if wireType \<noteq> 2 then Inl (ErrWrongWireType wireType name)
      else rbind (read_len f d i) (\<lambda>(i1, post).
        rbind (slice d i1 post) (\<lambda>s. Inr (post, upd s m))))"
| "read_field f name (FInt32 upd) wireType d i m =
     (if wireType \<noteq> 0 then Inl (ErrWrongWireType wireType name)
      else rbind (read_varint f d i 0 (0 :: int32)) (\<lambda>(v, i1). Inr (i1, upd v m)))"
| "read_field f name (FBool upd) wireType d i m =
     (if wireType \<noteq> 0 then Inl (ErrWrongWireType wireType name)
      else rbind (read_varint f d i 0 (0 :: uint64)) (\<lambda>(v, i1). Inr (i1, upd (v \<noteq> 0) m)))"
| "read_field f name (FMessage dec) wireType d i m =
     (if wireType \<noteq> 2 then Inl (ErrWrongWireType wireType name)
      else rbind (read_len f d i) (\<lambda>(i1, post).
        rbind (slice d i1 post) (\<lambda>s. rbind (dec s m) (\<lambda>m'. Inr (post, m')))))"

lemma read_len_advances:
  assumes "read_len f d i = Inr (i1, post)"
  shows "advances i post"
  using assms
  by (auto simp: read_len_def rbind_eq_Inr Let_def not_less
      intro: advances_add [OF read_varint_advances] sint64_bound split: if_splits)

lemma read_field_advances: "read_field f name k wt d i m = Inr (j, m') \<Longrightarrow> advances i j"
  by (cases k)
    (auto simp: rbind_eq_Inr intro: read_len_advances read_varint_advances split: if_splits)

section \<open>Unmarshal\<close>

text \<open>The \<open>switch fieldNum\<close> of a message: the name and the kind of each of its cases.\<close>

type_synonym 'm fields = "int32 \<Rightarrow> (string \<times> 'm field) option"

text \<open>
  One turn of \<open>for iNdEx < l\<close>: the key, the checks on it, and the case of its field number.
  The default case skips the field, starting again from its key.
\<close>

definition unmarshal_step ::
  "pbfile \<Rightarrow> string \<Rightarrow> 'm fields \<Rightarrow> bytes \<Rightarrow> int \<Rightarrow> 'm \<Rightarrow> pb_error + int \<times> 'm" where
  "unmarshal_step f msg flds d i m =
     rbind (read_varint f d i 0 (0 :: uint64)) (\<lambda>(wire, i1).
       let fieldNum = (ucast (drop_bit 3 wire) :: int32); wireType = unat (wire AND 7) in
       if wireType = 4 then Inl (ErrEndGroupForNonGroup msg)
       else if sint fieldNum \<le> 0 then Inl (ErrIllegalTag msg fieldNum wire)
       else case flds fieldNum of
         Some (name, k) \<Rightarrow> read_field f name k wireType d i1 m
       | None \<Rightarrow>
           rbind (slice d i (int (length d))) (\<lambda>rest.
           rbind (skip_field f rest) (\<lambda>skippy.
             let j = wrap64 (i + skippy) in
             if skippy < 0 \<or> j < 0 then Inl (ErrInvalidLength f)
             else if int (length d) < j then Inl ErrUnexpectedEOF
             else Inr (j, m))))"

lemma unmarshal_step_advances:
  assumes "unmarshal_step f msg flds d i m = Inr (j, m')"
  shows "advances i j"
proof -
  from assms obtain wire i1 where w: "read_varint f d i 0 (0 :: uint64) = Inr (wire, i1)"
    by (auto simp: unmarshal_step_def rbind_eq_Inr)
  then have a: "advances i i1" by (rule read_varint_advances)
  show ?thesis
  proof (cases "flds (ucast (drop_bit 3 wire))")
    case None
    with assms w obtain rest skippy where s: "skip_field f rest = Inr skippy"
        and j: "j = wrap64 (i + skippy)" "0 \<le> j"
      by (auto simp: unmarshal_step_def rbind_eq_Inr Let_def split: if_splits)
    from s have "0 < skippy" "skippy < 2 ^ 63"
      using skip_loop_advances [of f rest 0 0 skippy] by (auto simp: skip_field_def advances_def)
    moreover have "0 \<le> i" using a by (simp add: advances_def)
    ultimately show ?thesis
      using j wrap64_add_cases [of i skippy] wrap64_in_int64 [of "i + skippy"]
      by (auto simp: advances_def)
  next
    case (Some k)
    then show ?thesis
      using assms w a
      by (cases k) (auto simp: unmarshal_step_def Let_def
          intro: advances_trans [OF a read_field_advances] split: if_splits)
  qed
qed

function unmarshal_loop ::
  "pbfile \<Rightarrow> string \<Rightarrow> 'm fields \<Rightarrow> bytes \<Rightarrow> int \<Rightarrow> 'm \<Rightarrow> pb_error + 'm" where
  "unmarshal_loop f msg flds d i m =
     (if i < int (length d) then
        (case unmarshal_step f msg flds d i m of
          Inl e \<Rightarrow> Inl e
        | Inr (j, m') \<Rightarrow> unmarshal_loop f msg flds d j m')
      else if int (length d) < i then Inl ErrUnexpectedEOF
      else Inr m)"
  by pat_completeness auto
termination
  by (relation "measure (\<lambda>(f, msg, flds, d, i, m). idx_measure i)")
    (auto intro!: advances_measure elim: unmarshal_step_advances)

declare unmarshal_loop.simps [simp del]

text \<open>\<open>m.Unmarshal(dAtA)\<close>, which sets fields of the message it is called on.\<close>

definition unmarshal ::
  "pbfile \<Rightarrow> string \<Rightarrow> 'm fields \<Rightarrow> bytes \<Rightarrow> 'm \<Rightarrow> pb_error + 'm" where
  "unmarshal f msg flds d m = unmarshal_loop f msg flds d 0 m"

section \<open>Decoding never panics\<close>

text \<open>
  Go slices have at most \<open>2^63 - 1\<close> elements.  Every index the generated code computes from
  input bytes is checked before it is used, so no input makes it index or slice out of range.
\<close>

definition go_slice :: "'a list \<Rightarrow> bool" where
  "go_slice d \<longleftrightarrow> int (length d) < 2 ^ 63"

lemma go_slice_wrap:
  "go_slice d \<Longrightarrow> 0 \<le> i \<Longrightarrow> i < int (length d) \<Longrightarrow> wrap64 (i + 1) = i + 1"
  unfolding go_slice_def by (intro wrap64_nonneg_id) linarith+

text \<open>The result of a read from index \<open>i\<close>: an error that is no panic, or a later index.\<close>

definition read_ok :: "bytes \<Rightarrow> int \<Rightarrow> ('a \<Rightarrow> int) \<Rightarrow> pb_error + 'a \<Rightarrow> bool" where
  "read_ok d i idx r \<longleftrightarrow>
     (case r of Inl e \<Rightarrow> e \<noteq> Panic | Inr x \<Rightarrow> i < idx x \<and> idx x \<le> int (length d))"

lemma read_ok_simps [simp]:
  "read_ok d i idx (Inl e) \<longleftrightarrow> e \<noteq> Panic"
  "read_ok d i idx (Inr x) \<longleftrightarrow> i < idx x \<and> idx x \<le> int (length d)"
  by (simp_all add: read_ok_def)

lemma read_ok_mono: "read_ok d j idx r \<Longrightarrow> i \<le> j \<Longrightarrow> read_ok d i idx r"
  by (cases r) auto

lemma read_varint_ok:
  assumes "go_slice d" "0 \<le> i"
  shows "read_ok d i snd (read_varint f d i shift v)"
  using assms
proof (induction f d i shift v rule: read_varint.induct)
  case (1 f d i shift v)
  note eq = read_varint.simps [of f d i shift v]
  show ?case
  proof (cases "64 \<le> shift \<or> int (length d) \<le> i")
    case True
    then show ?thesis by (subst eq) auto
  next
    case False
    then have b: "byte_at d i = Inr (d ! nat i)"
      using "1.prems" by (simp add: byte_at_def)
    have w: "wrap64 (i + 1) = i + 1"
      using False "1.prems" by (intro go_slice_wrap [of d]) auto
    show ?thesis
    proof (cases "d ! nat i < 0x80")
      case True
      with False b w show ?thesis by (subst eq) (simp add: Let_def)
    next
      case big: False
      have "read_ok d (i + 1) snd (read_varint f d (i + 1) (shift + 7)
          (v OR push_bit shift (ucast ((d ! nat i) AND 0x7F))))"
        using "1.IH" False b w big "1.prems" by simp
      then show ?thesis
        using False b w big by (subst eq) (auto simp: Let_def intro: read_ok_mono)
    qed
  qed
qed

lemma skip_varint_ok:
  assumes "go_slice d" "0 \<le> i"
  shows "read_ok d i (\<lambda>j. j) (skip_varint f d i shift)"
  using assms
proof (induction f d i shift rule: skip_varint.induct)
  case (1 f d i shift)
  note eq = skip_varint.simps [of f d i shift]
  show ?case
  proof (cases "64 \<le> shift \<or> int (length d) \<le> i")
    case True
    then show ?thesis by (subst eq) auto
  next
    case False
    then have b: "byte_at d i = Inr (d ! nat i)"
      using "1.prems" by (simp add: byte_at_def)
    have w: "wrap64 (i + 1) = i + 1"
      using False "1.prems" by (intro go_slice_wrap [of d]) auto
    show ?thesis
    proof (cases "d ! nat i < 0x80")
      case True
      with False b w show ?thesis by (subst eq) simp
    next
      case big: False
      have "read_ok d (i + 1) (\<lambda>j. j) (skip_varint f d (i + 1) (shift + 7))"
        using "1.IH" False b w big "1.prems" by simp
      then show ?thesis
        using False b w big by (subst eq) (auto intro: read_ok_mono)
    qed
  qed
qed

lemma read_len_ok:
  assumes "go_slice d" "0 \<le> i"
  shows "read_ok d i snd (read_len f d i) \<and>
    (\<forall>i1 post. read_len f d i = Inr (i1, post) \<longrightarrow> i < i1 \<and> i1 \<le> post)"
proof (cases "read_varint f d i 0 (0 :: uint64)")
  case (Inl e)
  then show ?thesis
    using read_varint_ok [OF assms, of f 0 "0 :: uint64"] by (simp add: read_len_def)
next
  case (Inr r)
  then obtain len i1 where r: "read_varint f d i 0 (0 :: uint64) = Inr (len, i1)"
    by (cases r) auto
  have i1: "i < i1" "i1 \<le> int (length d)"
    using read_varint_ok [OF assms, of f 0 "0 :: uint64"] r by simp_all
  have "wrap64 (i1 + sint len) = i1 + sint len \<or> wrap64 (i1 + sint len) < 0" if "0 \<le> sint len"
    using wrap64_add_cases [of i1 "sint len"] that sint64_bound [of len] i1 assms
    by (auto simp: go_slice_def)
  then show ?thesis
    using r i1 by (auto simp: read_len_def Let_def)
qed

lemma slice_Inr: "0 \<le> i \<Longrightarrow> i \<le> j \<Longrightarrow> j \<le> int (length d) \<Longrightarrow>
    slice d i j = Inr (take (nat (j - i)) (drop (nat i) d))"
  by (simp add: slice_def)

lemma go_slice_take_drop: "go_slice d \<Longrightarrow> go_slice (take n (drop k d))"
  unfolding go_slice_def by (simp add: le_less_trans [of "min _ _" "length d"]) 

lemma read_field_ok:
  assumes d: "go_slice d" and i: "0 \<le> i"
    and dec: "\<And>dec s m. k = FMessage dec \<Longrightarrow> go_slice s \<Longrightarrow> dec s m \<noteq> Inl Panic"
  shows "read_ok d i fst (read_field f name k wt d i m)"
proof -
  note len = read_len_ok [OF d i, of f]
  note v32 = read_varint_ok [OF d i, of f 0 "0 :: int32"]
  note v64 = read_varint_ok [OF d i, of f 0 "0 :: uint64"]
  have sl: "\<exists>s. slice d i1 post = Inr s \<and> go_slice s"
    if "read_len f d i = Inr (i1, post)" for i1 post
    using len that i d by (auto simp: slice_def go_slice_take_drop)
  show ?thesis
  proof (cases k)
    case (FString upd)
    then show ?thesis
      using len sl by (cases "read_len f d i") (auto split: prod.splits)
  next
    case (FInt32 upd)
    then show ?thesis
      using v32 by (cases "read_varint f d i 0 (0 :: int32)") (auto split: prod.splits)
  next
    case (FBool upd)
    then show ?thesis
      using v64 by (cases "read_varint f d i 0 (0 :: uint64)") (auto split: prod.splits)
  next
    case (FMessage g)
    show ?thesis
    proof (cases "read_len f d i")
      case (Inl e)
      then show ?thesis using FMessage len by auto
    next
      case (Inr r)
      obtain i1 post where r: "r = (i1, post)" by (cases r)
      then obtain s where s: "slice d i1 post = Inr s" "go_slice s"
        using sl Inr by blast
      then show ?thesis
        using FMessage Inr r len dec [OF FMessage s(2), of m] by (cases "g s m") auto
    qed
  qed
qed

lemma skip_step_ok:
  assumes d: "go_slice d" and i: "0 \<le> i"
  shows "skip_step f d i depth \<noteq> Inl Panic"
proof (cases "read_varint f d i 0 (0 :: uint64)")
  case (Inl e)
  then show ?thesis
    using read_varint_ok [OF d i, of f 0 "0 :: uint64"] by (simp add: skip_step_def)
next
  case (Inr r)
  then obtain wire i1 where r: "read_varint f d i 0 (0 :: uint64) = Inr (wire, i1)"
    by (cases r) auto
  then have i1: "0 \<le> i1"
    using read_varint_ok [OF d i, of f 0 "0 :: uint64"] i by simp
  show ?thesis
    using r skip_varint_ok [OF d i1, of f 0] read_varint_ok [OF d i1, of f 0 "0 :: uint64"]
    by (auto simp: skip_step_def Let_def rbind_eq_Inl)
qed

lemma skip_loop_ok: "go_slice d \<Longrightarrow> 0 \<le> i \<Longrightarrow> skip_loop f d i depth \<noteq> Inl Panic"
proof (induction f d i depth rule: skip_loop.induct)
  case (1 f d i depth)
  then show ?case
    using skip_step_ok [OF "1.prems", of f depth]
    by (subst skip_loop.simps) (auto split: sum.splits)
qed

lemma unmarshal_step_ok:
  assumes d: "go_slice d" and i: "0 \<le> i"
    and dec: "\<And>n name dec s m. flds n = Some (name, FMessage dec) \<Longrightarrow> go_slice s \<Longrightarrow>
      dec s m \<noteq> Inl Panic"
  shows "read_ok d i fst (unmarshal_step f msg flds d i m)"
proof (cases "read_varint f d i 0 (0 :: uint64)")
  case (Inl e)
  then show ?thesis
    using read_varint_ok [OF d i, of f 0 "0 :: uint64"] by (simp add: unmarshal_step_def)
next
  case (Inr r)
  then obtain wire i1 where r: "read_varint f d i 0 (0 :: uint64) = Inr (wire, i1)"
    by (cases r) auto
  then have i1: "i < i1" "i1 \<le> int (length d)"
    using read_varint_ok [OF d i, of f 0 "0 :: uint64"] by simp_all
  show ?thesis
  proof (cases "flds (ucast (drop_bit 3 wire))")
    case None
    let ?rest = "drop (nat i) d"
    have s: "slice d i (int (length d)) = Inr ?rest" and "go_slice ?rest"
      using i i1 d by (auto simp: slice_def go_slice_def)
    then have sk: "skip_field f ?rest \<noteq> Inl Panic"
      by (simp add: skip_field_def skip_loop_ok)
    have adv: "i < wrap64 (i + k)" if "skip_field f ?rest = Inr k" "0 \<le> wrap64 (i + k)" for k
      using skip_loop_advances [of f ?rest 0 0 k] that i i1 d wrap64_add_cases [of i k]
      by (auto simp: skip_field_def advances_def go_slice_def)
    show ?thesis
      using None r s sk adv
      by (cases "skip_field f ?rest") (auto simp: unmarshal_step_def Let_def)
  next
    case (Some p)
    obtain name k where p: "p = (name, k)" by (cases p)
    have "read_ok d i1 fst (read_field f name k (unat (wire AND 7)) d i1 m)"
      using i i1 dec Some p by (intro read_field_ok [OF d]) auto
    then show ?thesis
      using Some r p i1 by (auto simp: unmarshal_step_def Let_def intro: read_ok_mono)
  qed
qed

theorem unmarshal_no_panic:
  assumes d: "go_slice d"
    and dec: "\<And>n name dec s m. flds n = Some (name, FMessage dec) \<Longrightarrow> go_slice s \<Longrightarrow>
      dec s m \<noteq> Inl Panic"
  shows "unmarshal f msg flds d m \<noteq> Inl Panic"
proof -
  have "unmarshal_loop f msg flds d i m \<noteq> Inl Panic" if "0 \<le> i" for i
    using d dec that
  proof (induction f msg flds d i m rule: unmarshal_loop.induct)
    case (1 f msg flds d i m)
    have ok: "read_ok d i fst (unmarshal_step f msg flds d i m)"
      using "1.prems" by (intro unmarshal_step_ok) auto
    show ?case
    proof (cases "unmarshal_step f msg flds d i m")
      case (Inl e)
      then show ?thesis using ok by (subst unmarshal_loop.simps) auto
    next
      case (Inr r)
      then show ?thesis
        using ok "1.IH" "1.prems" by (subst unmarshal_loop.simps) (cases r, auto)
    qed
  qed
  then show ?thesis by (simp add: unmarshal_def)
qed

end
