(* ===== verification/Proto_Varint.thy ===== *)
theory Proto_Varint
  imports Proto_Decode
begin

text \<open>
  Varints: the bytes \<open>encodeVarintX\<close> writes, the size \<open>sovX\<close> computes for them, and the
  proof that the decoding loops read them back, at 64 bits and truncated to 32.
\<close>

section \<open>The encoding\<close>

lemma unat_drop_7: "unat (drop_bit 7 (v :: uint64)) = unat v div 128"
  using drop_bit_eq_div [of 7 "unat v"] by (simp only: unat_drop_bit_eq) simp

function varint :: "uint64 \<Rightarrow> bytes" where
  "varint v =
     (if v < 0x80 then [ucast v] else ucast (v AND 0x7F OR 0x80) # varint (drop_bit 7 v))"
  by pat_completeness auto
termination
proof (relation "measure unat")
  fix v :: uint64
  assume "\<not> v < 0x80"
  then have "128 \<le> unat v" by (simp add: word_less_nat_alt)
  then show "(drop_bit 7 v, v) \<in> measure unat"
    by (simp add: unat_drop_7)
qed simp

declare varint.simps [simp del]

text \<open>\<open>bits.Len64\<close> of the Go library: the number of bits of a number, 0 for 0.\<close>

fun bit_len :: "nat \<Rightarrow> nat" where
  "bit_len n = (if n = 0 then 0 else Suc (bit_len (n div 2)))"

declare bit_len.simps [simp del]

definition sov :: "uint64 \<Rightarrow> nat" where
  "sov x = (bit_len (unat (x OR 1)) + 6) div 7"

text \<open>
  \<open>sozX\<close>, the size of a zigzag-encoded value: \<open>int64(x) >> 63\<close> repeats the sign bit.  No field
  of the repository is zigzag-encoded.
\<close>

definition soz :: "uint64 \<Rightarrow> nat" where
  "soz x = sov (push_bit 1 x XOR signed_drop_bit 63 x)"

section \<open>sov is the length of the encoding\<close>

lemma bit_len_shift: "0 < n div 2 ^ k \<Longrightarrow> bit_len n = bit_len (n div 2 ^ k) + k"
proof (induction k arbitrary: n)
  case 0
  then show ?case by simp
next
  case (Suc k)
  have d: "n div 2 ^ Suc k = n div 2 div 2 ^ k"
    by (simp add: div_mult2_eq)
  then have n: "n \<noteq> 0"
    using Suc.prems by (metis div_0 less_not_refl)
  have "bit_len n = Suc (bit_len (n div 2))"
    using n by (subst bit_len.simps) simp
  then show ?case
    using Suc d by simp
qed

lemma bit_len_le: "n < 2 ^ k \<Longrightarrow> bit_len n \<le> k"
proof (induction k arbitrary: n)
  case 0
  then show ?case by (simp add: bit_len.simps)
next
  case (Suc k)
  then have "n div 2 < 2 ^ k" by simp
  with Suc.IH have "bit_len (n div 2) \<le> k" .
  then show ?case by (subst bit_len.simps) simp
qed

lemma bit_len_pos: "0 < n \<Longrightarrow> 0 < bit_len n"
  by (subst bit_len.simps) simp

text \<open>Setting the lowest bit (\<open>x|1\<close>) changes the number of bits of 0 only.\<close>

lemma nat_or_1: "(n :: nat) OR 1 = n + of_bool (even n)"
  by (rule or_one_eq)

lemma bit_len_or_1: "0 < n \<Longrightarrow> bit_len (n OR 1) = bit_len n"
proof -
  assume n: "0 < n"
  have "(n OR 1) div 2 = n div 2"
    unfolding nat_or_1 by (cases "even n") auto
  moreover have "n OR 1 \<noteq> 0"
    unfolding nat_or_1 using n by simp
  ultimately show ?thesis
    using n by (subst (1 2) bit_len.simps) simp
qed

lemma sov_unat: "sov v = (if v = 0 then 1 else (bit_len (unat v) + 6) div 7)"
proof -
  have "unat (v OR 1) = unat v OR 1"
    by (simp only: unsigned_or_eq unsigned_1)
  moreover have "bit_len (0 OR 1) = 1"
    by (simp add: bit_len.simps)
  ultimately show ?thesis
    by (simp add: sov_def bit_len_or_1 unat_gt_0 del: One_nat_def)
qed

lemma sov_small: "v < 0x80 \<Longrightarrow> sov v = 1"
proof -
  assume "v < 0x80"
  then have "unat v < 2 ^ 7" by (simp add: word_less_nat_alt)
  then have "bit_len (unat v) \<le> 7" by (rule bit_len_le)
  moreover have "v \<noteq> 0 \<Longrightarrow> 0 < bit_len (unat v)"
    by (simp add: bit_len_pos unat_gt_0)
  ultimately show ?thesis by (auto simp: sov_unat)
qed

lemma sov_big: "\<not> v < 0x80 \<Longrightarrow> sov v = Suc (sov (drop_bit 7 v))"
proof -
  assume "\<not> v < 0x80"
  then have big: "128 \<le> unat v" by (simp add: word_less_nat_alt)
  then have nz: "unat (drop_bit 7 v) \<noteq> 0" and "v \<noteq> 0"
    by (auto simp: unat_drop_7 div_eq_0_iff)
  then have "drop_bit 7 v \<noteq> 0" by auto
  moreover have "bit_len (unat v) = bit_len (unat (drop_bit 7 v)) + 7"
    using bit_len_shift [of "unat v" 7] nz by (simp add: unat_drop_7)
  ultimately show ?thesis
    using \<open>v \<noteq> 0\<close> by (simp add: sov_unat)
qed

lemma length_varint: "length (varint v) = sov v"
proof (induction v rule: varint.induct)
  case (1 v)
  then show ?case
    by (subst varint.simps) (auto simp: sov_small sov_big)
qed

lemma sov_pos: "0 < sov v"
  by (cases "v < 0x80") (simp_all add: sov_small sov_big)

lemma varint_nonempty [simp]: "varint v \<noteq> []"
  by (subst varint.simps) simp

lemma sov_le: "sov v \<le> 10"
proof -
  have "bit_len (unat v) \<le> 64"
    by (rule bit_len_le) (use unsigned_less [of v, where 'a = nat] in simp)
  then show ?thesis by (auto simp: sov_unat)
qed

section \<open>Reading a varint back\<close>

text \<open>The seven low bits of a varint byte are seven bits of the value.\<close>

lemma x7f_mask: "(0x7F :: 'a::len word) = mask 7"
  by (simp add: mask_eq_exp_minus_1)
lemma bit_0x80: "bit (0x80 :: 'a::len word) n \<longleftrightarrow> n = 7 \<and> 7 < LENGTH('a)"
proof -
  have "(0x80 :: 'a word) = push_bit 7 1" by simp
  then have "bit (0x80 :: 'a word) n = bit (push_bit 7 1 :: 'a word) n" by (simp only:)
  also have "\<dots> \<longleftrightarrow> n = 7 \<and> 7 < LENGTH('a)"
    by (auto simp only: bit_simps bit_1_iff possible_bit_word)
  finally show ?thesis .
qed
lemma low_bits_continued: "(ucast ((ucast (v AND 0x7F OR 0x80) :: byte) AND 0x7F) :: 'a::len word) = ucast ((v :: uint64) AND 0x7F)"
proof (rule bit_word_eqI)
  fix n
  assume n: "n < LENGTH('a)"
  have "bit (v AND 0x7F OR 0x80) n = bit v n" if "n < 7"
    using that bit_0x80 [where 'a = 64, of n] unfolding x7f_mask
    by (simp add: bit_or_iff bit_and_iff bit_mask_iff)
  then show "bit (ucast ((ucast (v AND 0x7F OR 0x80) :: byte) AND 0x7F) :: 'a word) n = bit (ucast (v AND 0x7F) :: 'a word) n"
    using n unfolding x7f_mask by (auto simp: bit_ucast_iff bit_and_iff bit_mask_iff)
qed
lemma join_low_bits:
  fixes v :: "'a::len word"
  shows "(v OR push_bit k (ucast (w AND 0x7F))) OR push_bit (k + 7) (ucast (drop_bit 7 w))
    = v OR push_bit k (ucast (w :: uint64))"
proof (rule bit_word_eqI)
  fix n assume "n < LENGTH('a)"
  have "7 + (n - (k + 7)) = n - k" if "\<not> n - k < 7"
    using that by simp
  moreover have "bit w (n - k) \<Longrightarrow> n - k < 64"
    using bit_imp_le_length by force
  ultimately show "bit ((v OR push_bit k (ucast (w AND 0x7F))) OR push_bit (k + 7) (ucast (drop_bit 7 w))) n
    = bit (v OR push_bit k (ucast w)) n"
    unfolding x7f_mask by (cases "n - k < 7") (auto simp: bit_simps)
qed
lemma low_bits_small:
 "w < 0x80 \<Longrightarrow> (w::uint64) AND 0x7F = w"
  unfolding x7f_mask by (rule less_mask_eq) simp
lemma low_bits_last: "w < 0x80 \<Longrightarrow> (ucast ((ucast (w::uint64) :: byte) AND 0x7F) :: 'a::len word) = ucast w"
proof -
  assume "w < 0x80"
  then have "w AND mask 7 = w"  by (intro less_mask_eq) simp
  then have "\<And>n. bit w n \<Longrightarrow> n < 7"
    by (metis bit_and_iff bit_mask_iff)
  then show ?thesis
    unfolding x7f_mask by (intro bit_word_eqI) (auto simp: bit_simps intro: order.strict_trans [of _ 7])
qed
lemma continued_big: "\<not> ((ucast (v AND 0x7F OR 0x80 :: uint64) :: byte) < 0x80)"
proof
  assume "(ucast (v AND 0x7F OR 0x80 :: uint64) :: byte) < 0x80"
  then have "(ucast (v AND 0x7F OR 0x80 :: uint64) :: byte) AND mask 7 = (ucast (v AND 0x7F OR 0x80 :: uint64) :: byte)"
    by (intro less_mask_eq) simp
  then have "bit (ucast (v AND 0x7F OR 0x80 :: uint64) :: byte) 7 = False"
    by (metis bit_and_iff bit_mask_iff less_irrefl)
  then show False by (auto simp: bit_simps bit_0x80)
qed
lemma last_small: "w < 0x80 \<Longrightarrow> ((ucast (w :: uint64) :: byte) < 0x80)"
  by (simp add: word_less_nat_alt unsigned_ucast_eq take_bit_nat_eq_self)
lemma read_varint_varint:
  fixes v :: "'a::len word"
  assumes "go_slice (pre @ varint w @ post)" and "shift = 7 * k" and "k + sov w \<le> 10"
  shows "read_varint f (pre @ varint w @ post) (int (length pre)) shift v
    = Inr (v OR push_bit shift (ucast w), int (length pre) + int (sov w))"
  using assms
proof (induction w arbitrary: pre shift k v rule: varint.induct)
  case (1 w)
  let ?d = "pre @ varint w @ post"
  have lt: "shift < 64" and l: "int (length pre) < int (length ?d)"
    using "1.prems"(2,3) sov_pos [of w] length_varint [of w] by simp_all
  have wr: "wrap64 (int (length pre) + 1) = int (length pre) + 1"
    using "1.prems"(1) l by (intro go_slice_wrap [of ?d]) auto
  show ?case
  proof (cases "w < 0x80")
    case True
    then have "byte_at ?d (int (length pre)) = Inr (ucast w)" and "sov w = 1"
      by (simp_all add: byte_at_def varint.simps [of w] nth_append sov_small)
    then show ?thesis
      using True lt l wr
      by (subst read_varint.simps) (simp add: last_small low_bits_last)
  next
    case False
    let ?b = "ucast (w AND 0x7F OR 0x80) :: byte"
    have vw: "varint w = ?b # varint (drop_bit 7 w)"
      using False by (subst varint.simps) simp
    have b: "byte_at ?d (int (length pre)) = Inr ?b"
      by (simp add: byte_at_def vw nth_append)
    have sv: "sov w = Suc (sov (drop_bit 7 w))"
      using False by (rule sov_big)
    have "read_varint f ((pre @ [?b]) @ varint (drop_bit 7 w) @ post) (int (length (pre @ [?b])))
        (7 * Suc k) (v OR push_bit shift (ucast (w AND 0x7F)))
      = Inr ((v OR push_bit shift (ucast (w AND 0x7F))) OR push_bit (7 * Suc k) (ucast (drop_bit 7 w)),
          int (length (pre @ [?b])) + int (sov (drop_bit 7 w)))"
      using "1.prems" sv by (intro "1.IH" [OF False, where k = "Suc k"]) (simp_all add: vw)
    then have "read_varint f ?d (int (length pre) + 1) (shift + 7)
        (v OR push_bit shift (ucast (w AND 0x7F)))
      = Inr (v OR push_bit shift (ucast w), int (length pre) + int (sov w))"
      using "1.prems"(2) join_low_bits [of v shift w] sv by (simp add: vw add.commute)
    then show ?thesis
      using lt l wr b
      by (subst read_varint.simps) (simp add: continued_big low_bits_continued)
  qed
qed

lemma skip_varint_varint:
  assumes "go_slice (pre @ varint w @ post)" and "shift = 7 * k" and "k + sov w \<le> 10"
  shows "skip_varint f (pre @ varint w @ post) (int (length pre)) shift
    = Inr (int (length pre) + int (sov w))"
  using assms
proof (induction w arbitrary: pre shift k rule: varint.induct)
  case (1 w)
  let ?d = "pre @ varint w @ post"
  have lt: "shift < 64" and l: "int (length pre) < int (length ?d)"
    using "1.prems"(2,3) sov_pos [of w] length_varint [of w] by simp_all
  have wr: "wrap64 (int (length pre) + 1) = int (length pre) + 1"
    using "1.prems"(1) l by (intro go_slice_wrap [of ?d]) auto
  show ?case
  proof (cases "w < 0x80")
    case True
    then have "byte_at ?d (int (length pre)) = Inr (ucast w)" and "sov w = 1"
      by (simp_all add: byte_at_def varint.simps [of w] nth_append sov_small)
    then show ?thesis
      using True lt l wr by (subst skip_varint.simps) (simp add: last_small)
  next
    case False
    let ?b = "ucast (w AND 0x7F OR 0x80) :: byte"
    have vw: "varint w = ?b # varint (drop_bit 7 w)"
      using False by (subst varint.simps) simp
    have b: "byte_at ?d (int (length pre)) = Inr ?b"
      by (simp add: byte_at_def vw nth_append)
    have sv: "sov w = Suc (sov (drop_bit 7 w))"
      using False by (rule sov_big)
    have "skip_varint f ((pre @ [?b]) @ varint (drop_bit 7 w) @ post) (int (length (pre @ [?b])))
        (7 * Suc k) = Inr (int (length (pre @ [?b])) + int (sov (drop_bit 7 w)))"
      using "1.prems" sv by (intro "1.IH" [OF False, where k = "Suc k"]) (simp_all add: vw)
    then have "skip_varint f ?d (int (length pre) + 1) (shift + 7)
      = Inr (int (length pre) + int (sov w))"
      using "1.prems"(2) sv by (simp add: vw add.commute)
    then show ?thesis
      using lt l wr b by (subst skip_varint.simps) (simp add: continued_big)
  qed
qed

text \<open>The two instances the field readers use: at shift 0, into 64 and into 32 bits.\<close>

lemma read_varint_0:
  assumes "go_slice (pre @ varint w @ post)"
  shows "read_varint f (pre @ varint w @ post) (int (length pre)) 0 (0 :: 'a::len word)
    = Inr (ucast w, int (length pre) + int (sov w))"
  using read_varint_varint [OF assms, of 0 0 f 0] sov_le by simp

lemma skip_varint_0:
  assumes "go_slice (pre @ varint w @ post)"
  shows "skip_varint f (pre @ varint w @ post) (int (length pre)) 0
    = Inr (int (length pre) + int (sov w))"
  using skip_varint_varint [OF assms, of 0 0 f] sov_le by simp

end
