(* ===== verification/Proto_Encode.thy ===== *)
theory Proto_Encode
  imports Proto_Varint
begin

text \<open>
  The encoding half of the generated protobuf code.  \<open>MarshalToSizedBuffer\<close> fills a buffer of
  the size \<open>Size\<close> computed from its end towards its start, so its state is the buffer
  \<open>dAtA\<close> and the index \<open>i\<close> of the first byte written; every write may index out of range,
  which in Go panics.  The lemmas describe an operation by the bytes it puts in front of what is
  there.
\<close>

section \<open>Writes into the buffer\<close>

type_synonym cursor = "bytes \<times> int"
type_synonym writer = "cursor \<Rightarrow> pb_error + cursor"

definition set_byte :: "bytes \<Rightarrow> int \<Rightarrow> byte \<Rightarrow> pb_error + bytes" where
  "set_byte d i b = (if 0 \<le> i \<and> i < int (length d) then Inr (d[nat i := b]) else Inl Panic)"

text \<open>\<^verbatim>\<open>i--; dAtA[i] = b\<close>\<close>

definition put_byte :: "byte \<Rightarrow> writer" where
  "put_byte b = (\<lambda>(d, i). rbind (set_byte d (i - 1) b) (\<lambda>d'. Inr (d', i - 1)))"

text \<open>
  \<^verbatim>\<open>i -= len(s); copy(dAtA[i:], s)\<close>: the slice expression panics when \<open>i\<close> is out of
  range, and \<open>copy\<close> writes as many bytes as fit.
\<close>

definition put_copy :: "bytes \<Rightarrow> writer" where
  "put_copy s = (\<lambda>(d, i).
     let j = i - int (length s) in
     if 0 \<le> j \<and> j \<le> int (length d)
     then let n = min (length d - nat j) (length s)
          in Inr (take (nat j) d @ take n s @ drop (nat j + n) d, j)
     else Inl Panic)"

text \<open>The loop of \<open>encodeVarintX\<close>, and the function with the offset it returns.\<close>

function write_varint :: "bytes \<Rightarrow> int \<Rightarrow> uint64 \<Rightarrow> pb_error + bytes" where
  "write_varint d off v =
     (if 0x80 \<le> v
      then rbind (set_byte d off (ucast (v AND 0x7F OR 0x80))) (\<lambda>d'.
        write_varint d' (off + 1) (drop_bit 7 v))
      else set_byte d off (ucast v))"
  by pat_completeness auto
termination
proof (relation "measure (\<lambda>(d, off, v). unat v)")
  fix d d' :: bytes and off :: int and v :: uint64
  assume "0x80 \<le> v"
  then have "128 \<le> unat v" by (simp add: word_le_nat_alt)
  then show "((d', off + 1, drop_bit 7 v), (d, off, v)) \<in> measure (\<lambda>(d, off, v). unat v)"
    by (simp add: unat_drop_7)
qed simp

declare write_varint.simps [simp del]

definition put_varint :: "uint64 \<Rightarrow> writer" where
  "put_varint v = (\<lambda>(d, i).
     let base = i - int (sov v) in rbind (write_varint d base v) (\<lambda>d'. Inr (d', base)))"

text \<open>Statements in sequence.\<close>

definition put_seq :: "writer list \<Rightarrow> writer" where
  "put_seq ws = rfold (\<lambda>w c. w c) ws"

section \<open>The fields of a message\<close>

text \<open>
  What the generator emits per field: the value, its length where it has one, and the key.  A
  scalar with its zero value is left out.  The integer conversions are Go's: \<open>uint64(m.X)\<close> of
  an \<open>int32\<close> extends the sign.
\<close>

definition put_string :: "byte \<Rightarrow> gostring \<Rightarrow> writer" where
  "put_string key s =
     (if 0 < length s
      then put_seq [put_copy s, put_varint (of_nat (length s)), put_byte key] else Inr)"

definition put_int32 :: "byte \<Rightarrow> int32 \<Rightarrow> writer" where
  "put_int32 key v = (if v \<noteq> 0 then put_seq [put_varint (scast v), put_byte key] else Inr)"

definition put_bool :: "byte \<Rightarrow> bool \<Rightarrow> writer" where
  "put_bool key b =
     (if b then put_seq [put_byte (if b then 1 else 0), put_byte key] else Inr)"

text \<open>
  \<^verbatim>\<open>size, err := m.X.MarshalToSizedBuffer(dAtA[:i]); i -= size;
  i = encodeVarint(dAtA, i, uint64(size)); i--; dAtA[i] = key\<close>
  The nested call writes into the same array through the shorter slice.
\<close>

definition put_message :: "byte \<Rightarrow> (bytes \<Rightarrow> pb_error + bytes \<times> int) \<Rightarrow> writer" where
  "put_message key sub = (\<lambda>(d, i).
     rbind (slice d 0 i) (\<lambda>front.
     rbind (sub front) (\<lambda>(front', n).
       put_seq [put_varint (word_of_int n), put_byte key]
         (front' @ drop (nat i) d, i - n))))"

text \<open>\<open>for iNdEx := len(xs) - 1; iNdEx >= 0; iNdEx--\<close> over a repeated field.\<close>

definition put_repeated :: "byte \<Rightarrow> (bytes \<Rightarrow> pb_error + bytes \<times> int) list \<Rightarrow> writer" where
  "put_repeated key subs = put_seq (map (put_message key) (rev subs))"

section \<open>Marshal\<close>

text \<open>The body of \<open>MarshalToSizedBuffer\<close>: the writes of the fields, then \<open>len(dAtA) - i\<close>.\<close>

definition to_sized_buffer :: "writer list \<Rightarrow> bytes \<Rightarrow> pb_error + bytes \<times> int" where
  "to_sized_buffer ws d =
     rbind (put_seq ws (d, int (length d))) (\<lambda>(d', i). Inr (d', int (length d') - i))"

text \<open>
  \<open>Marshal\<close> allocates \<open>Size()\<close> zero bytes and returns \<open>dAtA[:n]\<close>; \<open>MarshalTo\<close> writes into
  the caller's buffer.
\<close>

definition marshal :: "nat \<Rightarrow> (bytes \<Rightarrow> pb_error + bytes \<times> int) \<Rightarrow> pb_error + bytes" where
  "marshal sz sub =
     rbind (sub (replicate sz 0)) (\<lambda>(d, n). slice d 0 n)"

definition marshal_to ::
  "nat \<Rightarrow> (bytes \<Rightarrow> pb_error + bytes \<times> int) \<Rightarrow> bytes \<Rightarrow> pb_error + bytes \<times> int" where
  "marshal_to sz sub d =
     rbind (slice d 0 (int sz)) (\<lambda>front.
     rbind (sub front) (\<lambda>(front', n). Inr (front' @ drop sz d, n)))"

section \<open>What a writer puts in front\<close>

definition writes :: "writer \<Rightarrow> bytes \<Rightarrow> bool" where
  "writes w bs \<longleftrightarrow> (\<forall>xs zs ys. length zs = length bs \<longrightarrow>
     w (xs @ zs @ ys, int (length xs) + int (length zs)) = Inr (xs @ bs @ ys, int (length xs)))"

lemma writesI:
  "(\<And>xs zs ys. length zs = length bs \<Longrightarrow>
      w (xs @ zs @ ys, int (length xs) + int (length zs)) = Inr (xs @ bs @ ys, int (length xs)))
    \<Longrightarrow> writes w bs"
  by (simp add: writes_def)

lemma writesD:
  "writes w bs \<Longrightarrow> length zs = length bs \<Longrightarrow>
    w (xs @ zs @ ys, int (length xs) + int (length zs)) = Inr (xs @ bs @ ys, int (length xs))"
  by (simp add: writes_def)

lemma writes_skip: "writes Inr []"
  by (simp add: writes_def)

lemma put_seq_nil: "put_seq [] = Inr"
  by (simp add: put_seq_def fun_eq_iff)

lemma writes_byte: "writes (put_byte b) [b]"
proof (rule writesI)
  fix xs zs ys :: bytes
  assume "length zs = length [b]"
  then obtain z where "zs = [z]" by (auto simp: length_Suc_conv)
  then show "put_byte b (xs @ zs @ ys, int (length xs) + int (length zs))
      = Inr (xs @ [b] @ ys, int (length xs))"
    by (simp add: put_byte_def set_byte_def)
qed

lemma writes_copy: "writes (put_copy s) s"
  by (rule writesI) (simp add: put_copy_def Let_def)

lemma write_varint_bytes:
  "length zs = length (varint v) \<Longrightarrow>
    write_varint (xs @ zs @ ys) (int (length xs)) v = Inr (xs @ varint v @ ys)"
proof (induction v arbitrary: xs zs rule: varint.induct)
  case (1 v)
  then obtain z zs' where z: "zs = z # zs'"
    by (cases zs) auto
  show ?case
  proof (cases "v < 0x80")
    case True
    then have "\<not> 0x80 \<le> v" by simp
    with True show ?thesis
      using "1.prems" z
      by (subst write_varint.simps) (simp add: set_byte_def varint.simps [of v])
  next
    case False
    let ?b = "ucast (v AND 0x7F OR 0x80) :: byte"
    have "write_varint ((xs @ [?b]) @ zs' @ ys) (int (length (xs @ [?b]))) (drop_bit 7 v)
        = Inr ((xs @ [?b]) @ varint (drop_bit 7 v) @ ys)"
      using "1.prems" False z by (intro "1.IH") (simp_all add: varint.simps [of v])
    moreover have "0x80 \<le> v" using False by simp
    ultimately show ?thesis
      using False z
      by (subst write_varint.simps) (simp add: set_byte_def varint.simps [of v] add.commute)
  qed
qed

lemma writes_varint: "writes (put_varint v) (varint v)"
  by (rule writesI) (simp add: put_varint_def Let_def write_varint_bytes length_varint)

lemma writes_then:
  assumes "writes w bs" "writes w' bs'"
  shows "writes (\<lambda>c. rbind (w c) w') (bs' @ bs)"
proof (rule writesI)
  fix xs zs ys :: bytes
  assume "length zs = length (bs' @ bs)"
  then obtain zs1 zs2 where z: "zs = zs1 @ zs2" "length zs1 = length bs'" "length zs2 = length bs"
    by (rule split_at_length)
  have "w ((xs @ zs1) @ zs2 @ ys, int (length (xs @ zs1)) + int (length zs2))
      = Inr ((xs @ zs1) @ bs @ ys, int (length (xs @ zs1)))"
    using assms(1) z(3) by (rule writesD)
  moreover have "w' (xs @ zs1 @ bs @ ys, int (length xs) + int (length zs1))
      = Inr (xs @ bs' @ bs @ ys, int (length xs))"
    using assms(2) z(2) by (rule writesD)
  ultimately show "rbind (w (xs @ zs @ ys, int (length xs) + int (length zs))) w'
      = Inr (xs @ (bs' @ bs) @ ys, int (length xs))"
    using z by (simp add: add.assoc)
qed

lemma writes_seq:
  "list_all2 writes ws bss \<Longrightarrow> writes (put_seq ws) (concat (rev bss))"
proof (induction ws bss rule: list_all2_induct)
  case Nil
  show ?case by (simp add: put_seq_nil writes_skip)
next
  case (Cons w ws bs bss)
  have "put_seq (w # ws) = (\<lambda>c. rbind (w c) (put_seq ws))"
    by (simp add: put_seq_def fun_eq_iff)
  then show ?case
    using writes_then [OF Cons.hyps(1) Cons.IH] by simp
qed

section \<open>What the fields of a message put in front\<close>

text \<open>The result of \<open>MarshalToSizedBuffer\<close>: the bytes at the end of the buffer and their number.\<close>

definition fills :: "(bytes \<Rightarrow> pb_error + bytes \<times> int) \<Rightarrow> bytes \<Rightarrow> bool" where
  "fills sub bs \<longleftrightarrow> (\<forall>xs zs. length zs = length bs \<longrightarrow>
     sub (xs @ zs) = Inr (xs @ bs, int (length bs)))"

lemma fillsD: "fills sub bs \<Longrightarrow> length zs = length bs \<Longrightarrow>
    sub (xs @ zs) = Inr (xs @ bs, int (length bs))"
  by (simp add: fills_def)

lemma fills_to_sized_buffer:
  assumes "writes (put_seq ws) bs"
  shows "fills (to_sized_buffer ws) bs"
  using writesD [OF assms, where ys = "[]"]
  by (simp add: fills_def to_sized_buffer_def)

lemma put_seq_two: "put_seq [w, w'] = (\<lambda>c. rbind (w c) w')"
proof
  fix c
  show "put_seq [w, w'] c = rbind (w c) w'"
  proof (cases "w c")
    case (Inr c')
    then show ?thesis by (cases "w' c'") (simp_all add: put_seq_def)
  qed (simp add: put_seq_def)
qed

lemma writes_string:
  "writes (put_string key s)
    (if s = [] then [] else key # varint (of_nat (length s)) @ s)"
proof (cases "s = []")
  case False
  have "list_all2 writes [put_copy s, put_varint (of_nat (length s)), put_byte key]
      [s, varint (of_nat (length s)), [key]]"
    by (simp add: writes_copy writes_varint writes_byte)
  from writes_seq [OF this] False show ?thesis by (simp add: put_string_def)
qed (simp add: put_string_def writes_skip)

lemma writes_varint_key: "writes (put_seq [put_varint v, put_byte key]) (key # varint v)"
proof -
  have "list_all2 writes [put_varint v, put_byte key] [varint v, [key]]"
    by (simp add: writes_varint writes_byte)
  from writes_seq [OF this] show ?thesis by simp
qed

lemma writes_int32:
  "writes (put_int32 key v) (if v = 0 then [] else key # varint (scast v))"
  using writes_varint_key [of "scast v" key] by (simp add: put_int32_def writes_skip)

lemma writes_bool: "writes (put_bool key b) (if b then [key, 1] else [])"
proof (cases b)
  case True
  have "list_all2 writes [put_byte 1, put_byte key] [[1], [key]]"
    by (simp add: writes_byte)
  from writes_seq [OF this] True show ?thesis by (simp add: put_bool_def)
qed (simp add: put_bool_def writes_skip)

lemma writes_message:
  assumes "fills sub bs"
  shows "writes (put_message key sub) (key # varint (of_nat (length bs)) @ bs)"
proof -
  let ?hd = "key # varint (of_nat (length bs))"
  have "writes (put_message key sub) (?hd @ bs)"
  proof (rule writesI)
    fix xs zs ys :: bytes
    assume "length zs = length (?hd @ bs)"
    then obtain zs1 zs2 where z: "zs = zs1 @ zs2" "length zs1 = length ?hd" "length zs2 = length bs"
      by (rule split_at_length)
    have s: "slice (xs @ zs @ ys) 0 (int (length xs) + int (length zs)) = Inr ((xs @ zs1) @ zs2)"
      by (simp add: slice_def z(1) nat_add_distrib)
    have "writes (put_seq [put_varint (of_nat (length bs)), put_byte key]) ?hd"
      by (rule writes_varint_key)
    from writesD [OF this z(2), of xs "bs @ ys"]
    have p: "put_seq [put_varint (of_nat (length bs)), put_byte key]
        (xs @ zs1 @ bs @ ys, int (length xs) + int (length zs1)) = Inr (xs @ (?hd @ bs) @ ys, int (length xs))"
      by simp
    have f: "sub ((xs @ zs1) @ zs2) = Inr ((xs @ zs1) @ bs, int (length bs))"
      using assms z(3) by (rule fillsD)
    have d: "drop (nat (int (length xs) + int (length zs))) (xs @ zs @ ys) = ys"
      by (simp add: nat_int_add)
    have i: "int (length xs) + int (length zs) - int (length bs) = int (length xs) + int (length zs1)"
      using z by simp
    show "put_message key sub (xs @ zs @ ys, int (length xs) + int (length zs))
        = Inr (xs @ (?hd @ bs) @ ys, int (length xs))"
      unfolding put_message_def prod.case s rbind_simps f d i using p by simp
  qed
  then show ?thesis by simp
qed

lemma writes_repeated:
  assumes "list_all2 fills subs bss"
  shows "writes (put_repeated key subs)
    (concat (map (\<lambda>bs. key # varint (of_nat (length bs)) @ bs) bss))"
proof -
  have "list_all2 writes (map (put_message key) subs)
      (map (\<lambda>bs. key # varint (of_nat (length bs)) @ bs) bss)"
    using assms by (simp add: list_all2_map1 list_all2_map2 list_all2_mono writes_message)
  then have "list_all2 writes (map (put_message key) (rev subs))
      (rev (map (\<lambda>bs. key # varint (of_nat (length bs)) @ bs) bss))"
    by (simp only: rev_map [symmetric] list_all2_rev)
  from writes_seq [OF this] show ?thesis by (simp add: put_repeated_def)
qed

lemma marshal_fills: "fills sub bs \<Longrightarrow> marshal (length bs) sub = Inr bs"
  using fillsD [of sub bs "replicate (length bs) 0" "[]"]
  by (simp add: marshal_def slice_def)

lemma marshal_to_fills:
  assumes "fills sub bs" and "length bs \<le> length d"
  shows "marshal_to (length bs) sub d = Inr (bs @ drop (length bs) d, int (length bs))"
  using fillsD [OF assms(1), of "take (length bs) d" "[]"] assms(2)
  by (simp add: marshal_to_def slice_def)

lemma marshal_to_short: "length d < sz \<Longrightarrow> marshal_to sz sub d = Inl Panic"
  by (simp add: marshal_to_def slice_def)

end
