(* ===== verification/Proto_Wire.thy ===== *)
theory Proto_Wire
  imports Proto_Encode
begin

text \<open>
  The abstract wire format: a message is a list of fields, each a number with a payload of one
  of the five wire types.  \<open>enc_field\<close> is the specification of the bytes.  The main result is
  that \<open>Unmarshal\<close>, run on the bytes of any list of fields, does exactly what a fold over the
  fields does: known fields are assigned in order, fields with an unknown number (of every wire
  type, nested groups included) are skipped, and a known number with another wire type is the
  error of its case.
\<close>

section \<open>Fields and their bytes\<close>

datatype wire_field =
    WVarint nat uint64
  | WFixed64 nat bytes
  | WBytes nat bytes
  | WGroup nat "wire_field list"
  | WFixed32 nat bytes

fun field_num :: "wire_field \<Rightarrow> nat" where
  "field_num (WVarint n v) = n"
| "field_num (WFixed64 n b) = n"
| "field_num (WBytes n s) = n"
| "field_num (WGroup n fs) = n"
| "field_num (WFixed32 n b) = n"

fun wire_type :: "wire_field \<Rightarrow> nat" where
  "wire_type (WVarint n v) = 0"
| "wire_type (WFixed64 n b) = 1"
| "wire_type (WBytes n s) = 2"
| "wire_type (WGroup n fs) = 3"
| "wire_type (WFixed32 n b) = 5"

definition wire_key :: "nat \<Rightarrow> nat \<Rightarrow> uint64" where
  "wire_key n t = of_nat (8 * n + t)"

fun enc_field :: "wire_field \<Rightarrow> bytes" where
  "enc_field (WVarint n v) = varint (wire_key n 0) @ varint v"
| "enc_field (WFixed64 n b) = varint (wire_key n 1) @ b"
| "enc_field (WBytes n s) = varint (wire_key n 2) @ varint (of_nat (length s)) @ s"
| "enc_field (WGroup n fs) =
     varint (wire_key n 3) @ concat (map enc_field fs) @ varint (wire_key n 4)"
| "enc_field (WFixed32 n b) = varint (wire_key n 5) @ b"

abbreviation enc_fields :: "wire_field list \<Rightarrow> bytes" where
  "enc_fields fs \<equiv> concat (map enc_field fs)"

text \<open>Field numbers are those protobuf allows; fixed-width payloads have their width.\<close>

fun wf_field :: "wire_field \<Rightarrow> bool" where
  "wf_field (WVarint n v) \<longleftrightarrow> 0 < n \<and> n < 2 ^ 29"
| "wf_field (WFixed64 n b) \<longleftrightarrow> 0 < n \<and> n < 2 ^ 29 \<and> length b = 8"
| "wf_field (WBytes n s) \<longleftrightarrow> 0 < n \<and> n < 2 ^ 29"
| "wf_field (WGroup n fs) \<longleftrightarrow> 0 < n \<and> n < 2 ^ 29 \<and> list_all wf_field fs"
| "wf_field (WFixed32 n b) \<longleftrightarrow> 0 < n \<and> n < 2 ^ 29 \<and> length b = 4"

section \<open>Reading a key\<close>

lemma unat_wire_key: "n < 2 ^ 29 \<Longrightarrow> t < 8 \<Longrightarrow> unat (wire_key n t) = 8 * n + t"
  unfolding wire_key_def by (simp only: unat_of_nat) simp

lemma wire_key_type: "n < 2 ^ 29 \<Longrightarrow> t < 8 \<Longrightarrow> unat (wire_key n t AND 7) = t"
proof -
  assume a: "n < 2 ^ 29" "t < 8"
  have "unat (wire_key n t AND 7) = unat (wire_key n t) AND 7"
    by (simp add: unsigned_and_eq)
  also have "\<dots> = unat (wire_key n t) mod 8"
    using take_bit_eq_mask [of 3 "unat (wire_key n t)"]
    by (simp add: take_bit_eq_mod mask_eq_exp_minus_1)
  also have "\<dots> = t"
    using a by (simp add: unat_wire_key)
  finally show ?thesis .
qed

lemma wire_key_num: "n < 2 ^ 29 \<Longrightarrow> t < 8 \<Longrightarrow>
    (ucast (drop_bit 3 (wire_key n t)) :: int32) = of_nat n"
proof -
  assume a: "n < 2 ^ 29" "t < 8"
  have "unat (drop_bit 3 (wire_key n t)) = n"
    using a drop_bit_eq_div [of 3 "8 * n + t"] by (simp add: unat_drop_bit_eq unat_wire_key)
  then show ?thesis
    using of_nat_unat [of "drop_bit 3 (wire_key n t)", where 'a = int32] by simp
qed

lemma sint_field_num: "0 < n \<Longrightarrow> n < 2 ^ 29 \<Longrightarrow> 0 < sint (of_nat n :: int32)"
  by (simp add: signed_of_nat signed_take_bit_int_eq_self)

lemma sint_of_length: "int n < 2 ^ 63 \<Longrightarrow> sint (of_nat n :: uint64) = int n"
  by (simp add: signed_of_nat signed_take_bit_int_eq_self)

lemma read_key:
  assumes "go_slice (pre @ varint (wire_key n t) @ post)"
  shows "read_varint f (pre @ varint (wire_key n t) @ post) (int (length pre)) 0 (0 :: uint64)
    = Inr (wire_key n t, int (length pre) + int (length (varint (wire_key n t))))"
  using read_varint_0 [OF assms, where 'a = 64] by (simp add: length_varint)

section \<open>skipX skips one field\<close>

lemma go_slice_len: "go_slice (xs @ ys) \<Longrightarrow> wrap64 (int (length xs) + int (length ys))
    = int (length xs) + int (length ys)"
  by (rule wrap64_nonneg_id) (simp_all add: go_slice_def)

text \<open>One turn of the loop on a field that is not a group, and on the two ends of a group.\<close>

lemma skip_step_flat:
  assumes "go_slice (pre @ enc_field x @ post)" and "wf_field x" and "\<And>n fs. x \<noteq> WGroup n fs"
  shows "skip_step f (pre @ enc_field x @ post) (int (length pre)) k
    = Inr (int (length pre) + int (length (enc_field x)), k)"
proof (cases x)
  case (WVarint n v)
  let ?key = "varint (wire_key n 0)"
  have "go_slice (pre @ ?key @ varint v @ post)" "go_slice ((pre @ ?key) @ varint v @ post)"
    using assms(1) WVarint by simp_all
  from read_key [OF this(1), of f] skip_varint_0 [OF this(2), of f] assms(2) WVarint
  show ?thesis
    by (simp add: skip_step_def wire_key_type length_varint add.assoc)
next
  case (WFixed64 n b)
  let ?key = "varint (wire_key n 1)"
  have "go_slice (pre @ ?key @ b @ post)" and w: "go_slice ((pre @ ?key) @ b)"
    using assms(1) WFixed64 by (simp_all add: go_slice_def)
  from read_key [OF this(1), of f] assms(2) WFixed64 go_slice_len [OF w]
  show ?thesis
    by (simp add: skip_step_def wire_key_type length_varint add.assoc)
next
  case (WBytes n s)
  let ?key = "varint (wire_key n 2)" and ?len = "varint (of_nat (length s))"
  have g: "go_slice (pre @ ?key @ ?len @ s @ post)" "go_slice ((pre @ ?key) @ ?len @ s @ post)"
      and w: "go_slice ((pre @ ?key @ ?len) @ s)"
    using assms(1) WBytes by (simp_all add: go_slice_def)
  have "sint (of_nat (length s) :: uint64) = int (length s)"
    using w by (intro sint_of_length) (simp add: go_slice_def)
  with read_key [OF g(1), of f] read_varint_0 [OF g(2), of f, where 'a = 64] assms(2) WBytes go_slice_len [OF w]
  show ?thesis
    by (simp add: skip_step_def wire_key_type length_varint add.assoc)
next
  case (WFixed32 n b)
  let ?key = "varint (wire_key n 5)"
  have "go_slice (pre @ ?key @ b @ post)" and w: "go_slice ((pre @ ?key) @ b)"
    using assms(1) WFixed32 by (simp_all add: go_slice_def)
  from read_key [OF this(1), of f] assms(2) WFixed32 go_slice_len [OF w]
  show ?thesis
    by (simp add: skip_step_def wire_key_type length_varint add.assoc)
qed (use assms(3) in auto)

lemma skip_step_end:
  assumes "go_slice (pre @ varint (wire_key n t) @ post)" and "n < 2 ^ 29" and "t = 3 \<or> t = 4"
  shows "skip_step f (pre @ varint (wire_key n t) @ post) (int (length pre)) k
    = (if t = 3 then Inr (int (length pre) + int (length (varint (wire_key n t))), k + 1)
       else if k = 0 then Inl (ErrUnexpectedEndOfGroup f)
       else Inr (int (length pre) + int (length (varint (wire_key n t))), k - 1))"
  using assms(2,3) read_key [OF assms(1), of f]
  by (auto simp: skip_step_def wire_key_type)

lemma length_enc_field_pos: "0 < length (enc_field x)"
  by (cases x) (simp_all add: length_varint sov_pos)

lemma skip_loop_turn:
  assumes "skip_step f d i k = Inr (j, k')" and "i < int (length d)" and "0 \<le> j"
  shows "skip_loop f d i k = (if k' = 0 then Inr j else skip_loop f d j k')"
  using assms by (subst skip_loop.simps) simp

lemma skip_loop_flat:
  assumes "go_slice (pre @ enc_field x @ post)" and "wf_field x" and "\<And>n fs. x \<noteq> WGroup n fs"
  shows "skip_loop f (pre @ enc_field x @ post) (int (length pre)) k
    = (if k = 0 then Inr (int (length (pre @ enc_field x)))
       else skip_loop f (pre @ enc_field x @ post) (int (length (pre @ enc_field x))) k)"
  using skip_loop_turn [OF skip_step_flat [OF assms]] length_enc_field_pos [of x] by simp

text \<open>
  A field inside a group (depth \<open>k > 0\<close>) moves the index past it; at depth 0 it ends the skip.
  The group case runs over its fields one level deeper.
\<close>

lemma skip_loop_field:
  assumes "go_slice (pre @ enc_field x @ post)" and "wf_field x"
  shows "skip_loop f (pre @ enc_field x @ post) (int (length pre)) k
    = (if k = 0 then Inr (int (length (pre @ enc_field x)))
       else skip_loop f (pre @ enc_field x @ post) (int (length (pre @ enc_field x))) k)"
  using assms
proof (induction x arbitrary: pre post k)
  case (WGroup n fs)
  let ?start = "varint (wire_key n 3)" and ?stop = "varint (wire_key n 4)"
  have inner: "skip_loop f (pre' @ enc_fields gs @ post') (int (length pre')) (Suc k)
      = skip_loop f (pre' @ enc_fields gs @ post') (int (length (pre' @ enc_fields gs))) (Suc k)"
    if "go_slice (pre' @ enc_fields gs @ post')" "set gs \<subseteq> set fs" for pre' gs post'
    using that
  proof (induction gs arbitrary: pre')
    case (Cons g gs)
    have "wf_field g"
      using Cons.prems(2) WGroup.prems(2) by (auto simp: list_all_iff)
    then have "skip_loop f (pre' @ enc_field g @ enc_fields gs @ post') (int (length pre')) (Suc k)
        = skip_loop f (pre' @ enc_field g @ enc_fields gs @ post')
            (int (length (pre' @ enc_field g))) (Suc k)"
      using Cons.prems WGroup.IH [of g pre' "enc_fields gs @ post'" "Suc k"] by simp
    then show ?case
      using Cons.IH [of "pre' @ enc_field g"] Cons.prems by simp
  qed simp
  let ?d = "pre @ ?start @ enc_fields fs @ ?stop @ post"
  have d: "pre @ enc_field (WGroup n fs) @ post = ?d" by simp
  have n: "n < 2 ^ 29" using WGroup.prems(2) by simp
  have g: "go_slice ?d" using WGroup.prems(1) by simp
  have s: "skip_step f ?d (int (length pre)) k = Inr (int (length (pre @ ?start)), Suc k)"
    using skip_step_end [OF g n, of f k] by simp
  have e: "skip_step f ?d (int (length (pre @ ?start @ enc_fields fs))) (Suc k)
      = Inr (int (length (pre @ ?start @ enc_fields fs @ ?stop)), k)"
    using skip_step_end [of "pre @ ?start @ enc_fields fs" n 4 post f "Suc k"] g n by simp
  have pos: "0 < length ?start" "0 < length ?stop"
    by (simp_all add: length_varint sov_pos)
  have "skip_loop f ?d (int (length pre)) k = skip_loop f ?d (int (length (pre @ ?start))) (Suc k)"
    using skip_loop_turn [OF s] pos by simp
  also have "\<dots> = skip_loop f ?d (int (length (pre @ ?start @ enc_fields fs))) (Suc k)"
    using inner [of "pre @ ?start" fs "?stop @ post"] g by simp
  also have "\<dots> = (if k = 0 then Inr (int (length (pre @ ?start @ enc_fields fs @ ?stop)))
      else skip_loop f ?d (int (length (pre @ ?start @ enc_fields fs @ ?stop))) k)"
    using skip_loop_turn [OF e] pos by simp
  finally show ?case by (simp add: d)
qed (rule skip_loop_flat; simp)+

lemma skip_field_enc:
  assumes "go_slice (enc_field x @ post)" and "wf_field x"
  shows "skip_field f (enc_field x @ post) = Inr (int (length (enc_field x)))"
  using skip_loop_field [of "[]" x post f 0] assms by (simp add: skip_field_def)

section \<open>Unmarshal is a fold over the fields\<close>

text \<open>What the case of a known field number does with a field of each wire type.\<close>

fun apply_case :: "string \<Rightarrow> 'm field \<Rightarrow> wire_field \<Rightarrow> 'm \<Rightarrow> pb_error + 'm" where
  "apply_case name (FString upd) (WBytes n s) m = Inr (upd s m)"
| "apply_case name (FInt32 upd) (WVarint n v) m = Inr (upd (ucast v) m)"
| "apply_case name (FBool upd) (WVarint n v) m = Inr (upd (v \<noteq> 0) m)"
| "apply_case name (FMessage dec) (WBytes n s) m = dec s m"
| "apply_case name k x m = Inl (ErrWrongWireType (wire_type x) name)"

definition apply_field :: "'m fields \<Rightarrow> wire_field \<Rightarrow> 'm \<Rightarrow> pb_error + 'm" where
  "apply_field flds x m =
     (case flds (of_nat (field_num x)) of
       None \<Rightarrow> Inr m
     | Some (name, k) \<Rightarrow> apply_case name k x m)"

text \<open>The bytes of a field are its key and the rest.\<close>

definition payload :: "wire_field \<Rightarrow> bytes" where
  "payload x = drop (length (varint (wire_key (field_num x) (wire_type x)))) (enc_field x)"

lemma enc_field_payload:
  "enc_field x = varint (wire_key (field_num x) (wire_type x)) @ payload x"
  by (cases x) (simp_all add: payload_def)

lemma read_len_payload:
  assumes "go_slice (pre @ varint (of_nat (length s)) @ s @ post)"
  shows "read_len f (pre @ varint (of_nat (length s)) @ s @ post) (int (length pre))
    = Inr (int (length (pre @ varint (of_nat (length s)))),
           int (length (pre @ varint (of_nat (length s)))) + int (length s))"
proof -
  let ?len = "varint (of_nat (length s))"
  have g: "go_slice ((pre @ ?len) @ s)"
    using assms by (simp add: go_slice_def)
  have "sint (of_nat (length s) :: uint64) = int (length s)"
    using g by (intro sint_of_length) (simp add: go_slice_def)
  then show ?thesis
    using read_varint_0 [OF assms, where 'a = 64] go_slice_len [OF g]
    by (simp add: read_len_def length_varint)
qed

lemma slice_middle:
  "slice (pre @ s @ post) (int (length pre)) (int (length pre) + int (length s)) = Inr s"
  by (simp add: slice_def)

lemma read_field_payload:
  assumes "go_slice (pre @ payload x @ post)" and "wf_field x"
  shows "read_field f name k (wire_type x) (pre @ payload x @ post) (int (length pre)) m
    = rbind (apply_case name k x m) (\<lambda>m'. Inr (int (length (pre @ payload x)), m'))"
proof (cases x)
  case (WVarint n v)
  then have p: "payload x = varint v" by (simp add: payload_def)
  show ?thesis
    using read_varint_0 [of pre v post f, where 'a = 64]
      read_varint_0 [of pre v post f, where 'a = 32] assms(1) WVarint
    unfolding p by (cases k) (simp_all add: length_varint)
next
  case (WBytes n s)
  let ?len = "varint (of_nat (length s))"
  have p: "payload x = ?len @ s" using WBytes by (simp add: payload_def)
  have "go_slice (pre @ ?len @ s @ post)" using assms(1) p by simp
  then show ?thesis
    using WBytes slice_middle [of "pre @ ?len" s post] unfolding p
    by (cases k) (simp_all add: read_len_payload add.assoc)
qed (cases k; simp)+

lemma unmarshal_step_field:
  assumes "go_slice (pre @ enc_field x @ post)" and "wf_field x"
  shows "unmarshal_step f msg flds (pre @ enc_field x @ post) (int (length pre)) m
    = rbind (apply_field flds x m) (\<lambda>m'. Inr (int (length (pre @ enc_field x)), m'))"
proof -
  let ?key = "wire_key (field_num x) (wire_type x)"
  let ?d = "pre @ enc_field x @ post"
  have n: "0 < field_num x" "field_num x < 2 ^ 29" and t: "wire_type x < 8" "wire_type x \<noteq> 4"
    using assms(2) by (cases x; simp)+
  have d: "?d = pre @ varint ?key @ payload x @ post"
    by (simp add: enc_field_payload)
  have g: "go_slice (pre @ varint ?key @ payload x @ post)"
    using assms(1) d by simp
  have r: "read_varint f ?d (int (length pre)) 0 (0 :: uint64)
      = Inr (?key, int (length (pre @ varint ?key)))"
    using read_key [OF g, of f] d by simp
  note key = wire_key_type [OF n(2) t(1)] wire_key_num [OF n(2) t(1)] sint_field_num [OF n]
  show ?thesis
  proof (cases "flds (of_nat (field_num x))")
    case None
    have s: "slice ?d (int (length pre)) (int (length ?d)) = Inr (enc_field x @ post)"
      by (simp add: slice_def)
    have "skip_field f (enc_field x @ post) = Inr (int (length (enc_field x)))"
      using assms by (intro skip_field_enc) (simp_all add: go_slice_def)
    moreover have "wrap64 (int (length pre) + int (length (enc_field x)))
        = int (length pre) + int (length (enc_field x))"
      using assms(1) by (intro go_slice_len) (simp add: go_slice_def)
    ultimately show ?thesis
      using None r s key t by (simp add: unmarshal_step_def apply_field_def)
  next
    case (Some p)
    obtain name k where p: "p = (name, k)" by (cases p)
    have "go_slice ((pre @ varint ?key) @ payload x @ post)"
      using g by simp
    from read_field_payload [OF this assms(2), of f name k m]
    have "read_field f name k (wire_type x) ?d (int (length (pre @ varint ?key))) m
        = rbind (apply_case name k x m) (\<lambda>m'. Inr (int (length (pre @ enc_field x)), m'))"
      by (simp add: d) (simp add: enc_field_payload)
    then show ?thesis
      using Some p r key t by (simp add: unmarshal_step_def apply_field_def)
  qed
qed

theorem unmarshal_fields:
  assumes "go_slice (enc_fields fs)" and "list_all wf_field fs"
  shows "unmarshal f msg flds (enc_fields fs) m = rfold (apply_field flds) fs m"
proof -
  have "unmarshal_loop f msg flds (pre @ enc_fields fs) (int (length pre)) m
      = rfold (apply_field flds) fs m"
    if "go_slice (pre @ enc_fields fs)" for pre
    using that assms(2)
  proof (induction fs arbitrary: pre m)
    case Nil
    then show ?case by (subst unmarshal_loop.simps) simp
  next
    case (Cons x fs)
    let ?d = "pre @ enc_field x @ enc_fields fs"
    have "unmarshal_step f msg flds ?d (int (length pre)) m
        = rbind (apply_field flds x m) (\<lambda>m'. Inr (int (length (pre @ enc_field x)), m'))"
      using Cons.prems by (intro unmarshal_step_field) simp_all
    moreover have "int (length pre) < int (length ?d)"
      using length_enc_field_pos [of x] by (simp del: length_greater_0_conv)
    moreover have "unmarshal_loop f msg flds ?d (int (length (pre @ enc_field x))) m'
        = rfold (apply_field flds) fs m'" for m'
      using Cons.IH [of "pre @ enc_field x" m'] Cons.prems by simp
    ultimately show ?case
      by (cases "apply_field flds x m") (simp_all add: unmarshal_loop.simps [of f msg flds ?d "int (length pre)"])
  qed
  from this [of "[]"] assms(1) show ?thesis by (simp add: unmarshal_def)
qed

end
