(* ===== verification/Proto_Message.thy ===== *)
theory Proto_Message
  imports Proto_Wire
begin

text \<open>
  The contract of a generated message type and what follows from it.  A message type of the
  repository gives \<open>Size\<close>, \<open>MarshalToSizedBuffer\<close> and the cases of \<open>Unmarshal\<close>; the locale
  \<open>pb_message\<close> asks that they agree with a list of wire fields, and proves the round trip,
  the injectivity of the encoding, the behaviour on trailing and unknown fields and the absence
  of panics once for all messages.
\<close>

section \<open>Wire fields of scalar fields\<close>

text \<open>proto3 leaves a scalar with its zero value out.\<close>

definition w_string :: "nat \<Rightarrow> gostring \<Rightarrow> wire_field list" where
  "w_string n s = (if s = [] then [] else [WBytes n s])"

definition w_int32 :: "nat \<Rightarrow> int32 \<Rightarrow> wire_field list" where
  "w_int32 n v = (if v = 0 then [] else [WVarint n (scast v)])"

definition w_bool :: "nat \<Rightarrow> bool \<Rightarrow> wire_field list" where
  "w_bool n b = (if b then [WVarint n 1] else [])"

named_theorems wire_defs \<open>the wire fields of the scalar fields\<close>

lemmas [wire_defs] = w_string_def w_int32_def w_bool_def

text \<open>A key with a field number up to 15 is the one byte the generator writes for it.\<close>

definition key_byte :: "nat \<Rightarrow> nat \<Rightarrow> byte" where
  "key_byte n t = of_nat (8 * n + t)"

lemma varint_wire_key: "n < 16 \<Longrightarrow> t < 8 \<Longrightarrow> varint (wire_key n t) = [key_byte n t]"
proof -
  assume a: "n < 16" "t < 8"
  then have u: "unat (wire_key n t) = 8 * n + t"
    by (intro unat_wire_key) simp_all
  then have "wire_key n t < 0x80"
    using a by (simp add: word_less_nat_alt)
  moreover have "(ucast (wire_key n t) :: byte) = key_byte n t"
    using of_nat_unat [of "wire_key n t", where 'a = byte] u by (simp add: key_byte_def)
  ultimately show ?thesis by (subst varint.simps) simp
qed

lemma varint_small: "v < 0x80 \<Longrightarrow> varint v = [ucast v]"
  by (subst varint.simps) simp

lemma writes_w_string:
  "n < 16 \<Longrightarrow> key = key_byte n 2 \<Longrightarrow> writes (put_string key s) (enc_fields (w_string n s))"
  using writes_string [of key s] by (cases "s = []") (simp_all add: w_string_def varint_wire_key)

lemma writes_w_int32:
  "n < 16 \<Longrightarrow> key = key_byte n 0 \<Longrightarrow> writes (put_int32 key v) (enc_fields (w_int32 n v))"
  using writes_int32 [of key v] by (cases "v = 0") (simp_all add: w_int32_def varint_wire_key)

lemma writes_w_bool:
  "n < 16 \<Longrightarrow> key = key_byte n 0 \<Longrightarrow> writes (put_bool key b) (enc_fields (w_bool n b))"
  using writes_bool [of key b] by (cases b) (simp_all add: w_bool_def varint_wire_key varint_small)

lemma writes_w_message:
  "fills sub bs \<Longrightarrow> n < 16 \<Longrightarrow> key = key_byte n 2 \<Longrightarrow>
    writes (put_message key sub) (enc_fields [WBytes n bs])"
  using writes_message [of sub bs key] by (simp add: varint_wire_key)

lemma writes_w_repeated:
  "list_all2 fills subs bss \<Longrightarrow> n < 16 \<Longrightarrow> key = key_byte n 2 \<Longrightarrow>
    writes (put_repeated key subs) (enc_fields (map (WBytes n) bss))"
  using writes_repeated [of subs bss key] by (simp add: varint_wire_key comp_def)

lemmas writes_wire = writes_w_string writes_w_int32 writes_w_bool writes_w_message
  writes_w_repeated

text \<open>The sizes \<open>Size\<close> adds up.\<close>

definition size_bytes :: "nat \<Rightarrow> nat" where
  "size_bytes l = 1 + l + sov (of_nat l)"

definition size_string :: "gostring \<Rightarrow> nat" where
  "size_string s = (let l = length s in if 0 < l then size_bytes l else 0)"

definition size_int32 :: "int32 \<Rightarrow> nat" where
  "size_int32 v = (if v \<noteq> 0 then 1 + sov (scast v) else 0)"

definition size_bool :: "bool \<Rightarrow> nat" where
  "size_bool b = (if b then 2 else 0)"

lemma size_le:
  "size_bytes l \<le> 11 + l" "size_string s \<le> 11 + length s" "size_int32 v \<le> 11" "size_bool b \<le> 2"
  using sov_le [of "of_nat l"] sov_le [of "of_nat (length s)"] sov_le [of "scast v"]
  by (simp_all add: size_bytes_def size_string_def size_int32_def size_bool_def)

lemma length_w_string [simp]:
  "n < 16 \<Longrightarrow> length (enc_fields (w_string n s)) = size_string s"
  by (simp add: w_string_def size_string_def size_bytes_def varint_wire_key length_varint)

lemma length_w_int32 [simp]:
  "n < 16 \<Longrightarrow> length (enc_fields (w_int32 n v)) = size_int32 v"
  by (simp add: w_int32_def size_int32_def varint_wire_key length_varint)

lemma length_w_bool [simp]:
  "n < 16 \<Longrightarrow> length (enc_fields (w_bool n b)) = size_bool b"
  by (simp add: w_bool_def size_bool_def varint_wire_key varint_small)

lemma length_w_message [simp]:
  "n < 16 \<Longrightarrow> length (enc_field (WBytes n bs)) = size_bytes (length bs)"
  by (simp add: size_bytes_def varint_wire_key length_varint)

lemma list_all_wf_scalars [simp]:
  "0 < n \<Longrightarrow> n < 16 \<Longrightarrow> list_all wf_field (w_string n s)"
  "0 < n \<Longrightarrow> n < 16 \<Longrightarrow> list_all wf_field (w_int32 n v)"
  "0 < n \<Longrightarrow> n < 16 \<Longrightarrow> list_all wf_field (w_bool n b)"
  by (simp_all add: wire_defs)

section \<open>Decoding the scalar fields\<close>

text \<open>
  A scalar field that is left out leaves the field of the message as it is, and the message
  decoded into starts with the zero value there.
\<close>

lemma scast_int32 [simp]: "(ucast (scast (v :: int32) :: uint64) :: int32) = v"
  by (rule bit_word_eqI) (auto simp: bit_simps)

lemma rfold_w_string:
  assumes "case flds (of_nat n) of Some (name, FString upd) \<Rightarrow> upd [] m = m | _ \<Rightarrow> False"
  shows "rfold (apply_field flds) (w_string n s @ rest) m
    = rfold (apply_field flds) rest
        (case flds (of_nat n) of Some (name, FString upd) \<Rightarrow> upd s m | _ \<Rightarrow> m)"
  using assms by (auto simp: w_string_def apply_field_def split: option.splits field.splits)

lemma rfold_w_int32:
  assumes "case flds (of_nat n) of Some (name, FInt32 upd) \<Rightarrow> upd 0 m = m | _ \<Rightarrow> False"
  shows "rfold (apply_field flds) (w_int32 n v @ rest) m
    = rfold (apply_field flds) rest
        (case flds (of_nat n) of Some (name, FInt32 upd) \<Rightarrow> upd v m | _ \<Rightarrow> m)"
  using assms by (auto simp: w_int32_def apply_field_def split: option.splits field.splits)

lemma rfold_w_bool:
  assumes "case flds (of_nat n) of Some (name, FBool upd) \<Rightarrow> upd False m = m | _ \<Rightarrow> False"
  shows "rfold (apply_field flds) (w_bool n b @ rest) m
    = rfold (apply_field flds) rest
        (case flds (of_nat n) of Some (name, FBool upd) \<Rightarrow> upd b m | _ \<Rightarrow> m)"
  using assms by (auto simp: w_bool_def apply_field_def split: option.splits field.splits)

lemmas rfold_wire = rfold_w_string rfold_w_int32 rfold_w_bool
  rfold_w_string [where rest = "[]", simplified] rfold_w_int32 [where rest = "[]", simplified]
  rfold_w_bool [where rest = "[]", simplified]

section \<open>Nested messages\<close>

lemma length_enc_field_le: "x \<in> set fs \<Longrightarrow> length (enc_field x) \<le> length (enc_fields fs)"
  by (induction fs) auto

lemma go_slice_nested:
  assumes "WBytes n bs \<in> set fs" and "go_slice (enc_fields fs)"
  shows "go_slice bs"
proof -
  have "length bs \<le> length (enc_field (WBytes n bs))" by simp
  also have "\<dots> \<le> length (enc_fields fs)"
    using assms(1) by (rule length_enc_field_le)
  finally show ?thesis
    using assms(2) by (simp add: go_slice_def)
qed

lemma length_w_repeated [simp]:
  "n < 16 \<Longrightarrow> length (concat (map (enc_field \<circ> (\<lambda>e. WBytes n (enc e))) xs))
    = sum_list (map (\<lambda>e. size_bytes (length (enc e))) xs)"
  by (induction xs) (simp_all del: enc_field.simps)

text \<open>A repeated field appends one decoded element per occurrence.\<close>

lemma rfold_w_repeated:
  assumes "flds (of_nat n) = Some (name, FMessage (\<lambda>s m. rbind (dec s z) (\<lambda>x. Inr (upd x m))))"
    and "\<And>e. e \<in> set xs \<Longrightarrow> dec (enc e) z = Inr e"
  shows "rfold (apply_field flds) (map (\<lambda>e. WBytes n (enc e)) xs @ rest) m
    = rfold (apply_field flds) rest (fold upd xs m)"
  using assms(2) by (induction xs arbitrary: m) (simp_all add: apply_field_def assms(1))

section \<open>The contract of a message type\<close>

locale pb_message =
  fixes f :: pbfile
    and msg :: string
    and flds :: "'m fields"
    and zero :: 'm
    and Size :: "'m \<Rightarrow> nat"
    and to_sized :: "'m \<Rightarrow> bytes \<Rightarrow> pb_error + bytes \<times> int"
    and wire :: "'m \<Rightarrow> wire_field list"
  assumes to_sized_fills: "fills (to_sized m) (enc_fields (wire m))"
    and Size_wire: "Size m = length (enc_fields (wire m))"
    and wire_wf: "list_all wf_field (wire m)"
    and wire_fold: "go_slice (enc_fields (wire m)) \<Longrightarrow>
      rfold (apply_field flds) (wire m) zero = Inr m"
    and nested_no_panic: "flds n = Some (name, FMessage dec) \<Longrightarrow> go_slice s \<Longrightarrow>
      dec s x \<noteq> Inl Panic"
begin

lemma marshal_wire: "marshal (Size m) (to_sized m) = Inr (enc_fields (wire m))"
  using marshal_fills [OF to_sized_fills [of m]] by (simp add: Size_wire)

lemma marshal_length:
  "\<exists>bs. marshal (Size m) (to_sized m) = Inr bs \<and> length bs = Size m"
  unfolding marshal_wire by (simp add: Size_wire)

lemma marshal_to_wire:
  "marshal_to (Size m) (to_sized m) d
    = (if Size m \<le> length d
       then Inr (enc_fields (wire m) @ drop (Size m) d, int (Size m)) else Inl Panic)"
  using marshal_to_fills [OF to_sized_fills [of m], of d]
    marshal_to_short [of d "Size m" "to_sized m"]
  by (simp add: Size_wire not_le)

lemma no_panic: "go_slice d \<Longrightarrow> unmarshal f msg flds d m \<noteq> Inl Panic"
  using nested_no_panic by (intro unmarshal_no_panic)

lemma unmarshal_wire:
  assumes "go_slice (enc_fields (wire m))"
  shows "unmarshal f msg flds (enc_fields (wire m)) zero = Inr m"
  unfolding unmarshal_fields [OF assms wire_wf] by (rule wire_fold [OF assms])

lemma roundtrip:
  assumes "int (Size m) < 2 ^ 63" and "marshal (Size m) (to_sized m) = Inr bs"
  shows "unmarshal f msg flds bs zero = Inr m"
proof -
  have bs: "bs = enc_fields (wire m)"
    using assms(2) by (simp add: marshal_wire)
  have g: "go_slice (enc_fields (wire m))"
    using assms(1) by (simp add: go_slice_def Size_wire)
  show ?thesis
    unfolding bs by (rule unmarshal_wire [OF g])
qed

text \<open>
  Fields after those of a message are applied to it: concatenating encodings merges them, and
  unknown fields are ignored.
\<close>

lemma unmarshal_append:
  assumes "go_slice (bs @ enc_fields fs)" and "list_all wf_field fs"
    and "marshal (Size m) (to_sized m) = Inr bs"
  shows "unmarshal f msg flds (bs @ enc_fields fs) zero = rfold (apply_field flds) fs m"
proof -
  have bs: "bs = enc_fields (wire m)"
    using assms(3) by (simp add: marshal_wire)
  have "go_slice (enc_fields (wire m))"
    using assms(1) by (simp add: go_slice_def bs)
  then have "rfold (apply_field flds) (wire m) zero = Inr m"
    by (rule wire_fold)
  moreover have "unmarshal f msg flds (enc_fields (wire m @ fs)) zero
      = rfold (apply_field flds) (wire m @ fs) zero"
    using assms(1,2) wire_wf by (intro unmarshal_fields) (simp_all add: bs)
  ultimately show ?thesis
    by (simp add: bs rfold_append)
qed

lemma unmarshal_unknown:
  assumes "go_slice (bs @ enc_fields fs)" and "list_all wf_field fs"
    and "\<And>x. x \<in> set fs \<Longrightarrow> flds (of_nat (field_num x)) = None"
    and "marshal (Size m) (to_sized m) = Inr bs"
  shows "unmarshal f msg flds (bs @ enc_fields fs) zero = Inr m"
proof -
  have "rfold (apply_field flds) fs m = Inr m"
    using assms(3) by (induction fs) (simp_all add: apply_field_def)
  then show ?thesis using unmarshal_append [OF assms(1,2,4)] by simp
qed

lemma marshal_inject:
  assumes "int (Size m) < 2 ^ 63" and "int (Size m') < 2 ^ 63"
    and "marshal (Size m) (to_sized m) = marshal (Size m') (to_sized m')"
  shows "m = m'"
proof -
  have e: "enc_fields (wire m) = enc_fields (wire m')"
    using assms(3) unfolding marshal_wire by simp
  have "(Inr m :: pb_error + 'm) = unmarshal f msg flds (enc_fields (wire m)) zero"
    by (rule roundtrip [OF assms(1) marshal_wire, symmetric])
  also have "\<dots> = Inr m'"
    unfolding e by (rule roundtrip [OF assms(2) marshal_wire])
  finally show ?thesis by simp
qed

end

section \<open>A message with one embedded message\<close>

text \<open>
  Several messages have one field, an embedded message with number 1.  Their contract follows from
  the contract of the message they embed.
\<close>

lemma embedded_message:
  fixes Size :: "'m \<Rightarrow> nat" and inner :: "'o \<Rightarrow> 'm" and upd :: "'m \<Rightarrow> 'o \<Rightarrow> 'o"
  assumes sub: "pb_message flds zero Size to_sized wire"
    and upd: "\<And>m m'. upd (inner m) m' = m" "inner zero' = zero"
    and flds': "\<And>n. flds' n = (if n = 1 then Some (name, FMessage (\<lambda>s m.
        rbind (unmarshal f msg flds s (inner m)) (\<lambda>x. Inr (upd x m)))) else None)"
    and Size': "\<And>m. Size' m = size_bytes (Size (inner m))"
    and ts': "\<And>m. to_sized' m = to_sized_buffer [put_message 0x0a (to_sized (inner m))]"
    and wire': "\<And>m. wire' m = [WBytes 1 (enc_fields (wire (inner m)))]"
  shows "pb_message flds' zero' Size' to_sized' wire'"
proof
  show "fills (to_sized' m) (enc_fields (wire' m))" for m
  proof -
    have "writes (put_message 0x0a (to_sized (inner m)))
        (enc_fields [WBytes 1 (enc_fields (wire (inner m)))])"
      using pb_message.to_sized_fills [OF sub] by (rule writes_w_message) (simp_all add: key_byte_def)
    then have "list_all2 writes [put_message 0x0a (to_sized (inner m))]
        [enc_fields [WBytes 1 (enc_fields (wire (inner m)))]]"
      by simp
    from fills_to_sized_buffer [OF writes_seq [OF this]] show ?thesis
      unfolding ts' wire' by simp
  qed
  show "Size' m = length (enc_fields (wire' m))" for m
    by (simp add: Size' wire' pb_message.Size_wire [OF sub] del: enc_field.simps)
  show "list_all wf_field (wire' m)" for m
    by (simp add: wire')
  show "rfold (apply_field flds') (wire' m) zero' = Inr m" if g: "go_slice (enc_fields (wire' m))" for m
  proof -
    have "go_slice (enc_fields (wire (inner m)))"
      by (rule go_slice_nested [OF _ g, where n = 1]) (simp add: wire')
    from pb_message.unmarshal_wire [OF sub this] show ?thesis
      by (simp add: wire' apply_field_def flds' upd)
  qed
  show "dec s x \<noteq> Inl Panic" if "flds' n = Some (name', FMessage dec)" and "go_slice s"
    for n name' dec s x
    using that pb_message.no_panic [OF sub, where f = f and msg = msg and d = s and m = "inner x"]
    by (auto simp: flds' rbind_eq_Inl split: if_splits)
qed

end
