(* ===== verification/TF_Params.thy ===== *)
theory TF_Params
  imports Proto_Message
begin

text \<open>
  The parameters of the token factory, \<open>x/tokenfactory/types/params.pb.go\<close>: a message without
  fields, so the parameters have one value and their encoding is empty.
\<close>

abbreviation params_file :: pbfile where
  "params_file \<equiv> (Mod_tokenfactory, PbParams)"

text \<open>The helpers the generator repeats in the file.\<close>

definition encodeVarintParams :: "bytes \<Rightarrow> int \<Rightarrow> uint64 \<Rightarrow> pb_error + bytes \<times> int" where
  "encodeVarintParams dAtA offset v = put_varint v (dAtA, offset)"

definition sovParams :: "uint64 \<Rightarrow> nat" where
  "sovParams x = sov x"

definition sozParams :: "uint64 \<Rightarrow> nat" where
  "sozParams x = soz x"

definition skipParams :: "bytes \<Rightarrow> pb_error + int" where
  "skipParams dAtA = skip_field params_file dAtA"

text \<open>\<open>Params\<close>.\<close>

datatype Params = Params

definition Params_Size :: "Params \<Rightarrow> nat" where
  "Params_Size m = 0"

definition Params_MarshalToSizedBuffer :: "Params \<Rightarrow> bytes \<Rightarrow> pb_error + bytes \<times> int" where
  "Params_MarshalToSizedBuffer m = to_sized_buffer []"

definition Params_Marshal :: "Params \<Rightarrow> pb_error + bytes" where
  "Params_Marshal m = marshal (Params_Size m) (Params_MarshalToSizedBuffer m)"

definition Params_MarshalTo :: "Params \<Rightarrow> bytes \<Rightarrow> pb_error + bytes \<times> int" where
  "Params_MarshalTo m = marshal_to (Params_Size m) (Params_MarshalToSizedBuffer m)"

definition Params_fields :: "Params fields" where
  "Params_fields n = None"

definition Params_Unmarshal :: "bytes \<Rightarrow> Params \<Rightarrow> pb_error + Params" where
  "Params_Unmarshal = unmarshal params_file ''Params'' Params_fields"

definition Params_wire :: "Params \<Rightarrow> wire_field list" where
  "Params_wire m = []"

interpretation params_pb: pb_message params_file "''Params''" Params_fields Params Params_Size
  Params_MarshalToSizedBuffer Params_wire
proof unfold_locales
  show "fills (Params_MarshalToSizedBuffer m) (enc_fields (Params_wire m))" for m
    unfolding Params_MarshalToSizedBuffer_def
    by (rule fills_to_sized_buffer) (simp add: Params_wire_def put_seq_nil writes_skip)
  show "rfold (apply_field Params_fields) (Params_wire m) Params = Inr m" for m
    by (cases m) (simp add: Params_wire_def)
qed (simp_all add: Params_Size_def Params_wire_def Params_fields_def)

end
