(* ===== verification/TF_Tx.thy ===== *)
theory TF_Tx
  imports TF_Params
begin

text \<open>
  The transaction messages of the token factory and their responses, with the code generated for
  them in \<open>x/tokenfactory/types/tx.pb.go\<close>.
\<close>

abbreviation tx_file :: pbfile where
  "tx_file \<equiv> (Mod_tokenfactory, PbTx)"

text \<open>The helpers the generator repeats in the file.\<close>

definition encodeVarintTx :: "bytes \<Rightarrow> int \<Rightarrow> uint64 \<Rightarrow> pb_error + bytes \<times> int" where
  "encodeVarintTx dAtA offset v = put_varint v (dAtA, offset)"

definition sovTx :: "uint64 \<Rightarrow> nat" where
  "sovTx x = sov x"

definition sozTx :: "uint64 \<Rightarrow> nat" where
  "sozTx x = soz x"

definition skipTx :: "bytes \<Rightarrow> pb_error + int" where
  "skipTx dAtA = skip_field tx_file dAtA"

section \<open>MsgUpdateParams\<close>

text \<open>The request of \<open>Msg/UpdateParams\<close>; the parameters are embedded, not optional.\<close>

record MsgUpdateParams =
  MsgUpdateParams_Authority :: gostring
  MsgUpdateParams_Params :: Params

definition MsgUpdateParams_zero :: MsgUpdateParams where
  "MsgUpdateParams_zero = \<lparr>MsgUpdateParams_Authority = [], MsgUpdateParams_Params = Params\<rparr>"

definition MsgUpdateParams_Size :: "MsgUpdateParams \<Rightarrow> nat" where
  "MsgUpdateParams_Size m =
     size_string (MsgUpdateParams_Authority m)
   + size_bytes (Params_Size (MsgUpdateParams_Params m))"

definition MsgUpdateParams_MarshalToSizedBuffer :: "MsgUpdateParams \<Rightarrow> bytes \<Rightarrow> pb_error + bytes \<times> int" where
  "MsgUpdateParams_MarshalToSizedBuffer m = to_sized_buffer
     [put_message 0x12 (Params_MarshalToSizedBuffer (MsgUpdateParams_Params m)),
      put_string 0x0a (MsgUpdateParams_Authority m)]"

definition MsgUpdateParams_Marshal :: "MsgUpdateParams \<Rightarrow> pb_error + bytes" where
  "MsgUpdateParams_Marshal m = marshal (MsgUpdateParams_Size m) (MsgUpdateParams_MarshalToSizedBuffer m)"

definition MsgUpdateParams_MarshalTo :: "MsgUpdateParams \<Rightarrow> bytes \<Rightarrow> pb_error + bytes \<times> int" where
  "MsgUpdateParams_MarshalTo m = marshal_to (MsgUpdateParams_Size m) (MsgUpdateParams_MarshalToSizedBuffer m)"

definition MsgUpdateParams_fields :: "MsgUpdateParams fields" where
  "MsgUpdateParams_fields n =
     (if n = 1 then 
        Some (''Authority'', FString (\<lambda>s m. m\<lparr>MsgUpdateParams_Authority := s\<rparr>))
      else if n = 2 then 
        Some (''Params'', FMessage (\<lambda>s m.
          rbind (Params_Unmarshal s (MsgUpdateParams_Params m)) (\<lambda>x. Inr (m\<lparr>MsgUpdateParams_Params := x\<rparr>))))
      else None)"

definition MsgUpdateParams_Unmarshal :: "bytes \<Rightarrow> MsgUpdateParams \<Rightarrow> pb_error + MsgUpdateParams" where
  "MsgUpdateParams_Unmarshal = unmarshal tx_file ''MsgUpdateParams'' MsgUpdateParams_fields"

definition MsgUpdateParams_wire :: "MsgUpdateParams \<Rightarrow> wire_field list" where
  "MsgUpdateParams_wire m =
     w_string 1 (MsgUpdateParams_Authority m)
   @ [WBytes 2 (enc_fields (Params_wire (MsgUpdateParams_Params m)))]"

lemma MsgUpdateParams_fills:
  "fills (MsgUpdateParams_MarshalToSizedBuffer m) (enc_fields (MsgUpdateParams_wire m))"
proof -
  have "list_all2 writes
      [put_message 0x12 (Params_MarshalToSizedBuffer (MsgUpdateParams_Params m)),
       put_string 0x0a (MsgUpdateParams_Authority m)]
      (map enc_fields [[WBytes 2 (enc_fields (Params_wire (MsgUpdateParams_Params m)))],
        w_string 1 (MsgUpdateParams_Authority m)])"
    using params_pb.to_sized_fills [of "MsgUpdateParams_Params m"]
      writes_w_message [of _ _ 2 "0x12"]
    by (simp add: writes_w_string key_byte_def del: enc_field.simps)
  from fills_to_sized_buffer [OF writes_seq [OF this]] show ?thesis
    by (simp add: MsgUpdateParams_MarshalToSizedBuffer_def MsgUpdateParams_wire_def)
qed

interpretation msg_update_params_pb: pb_message tx_file "''MsgUpdateParams''"
  MsgUpdateParams_fields MsgUpdateParams_zero MsgUpdateParams_Size
  MsgUpdateParams_MarshalToSizedBuffer MsgUpdateParams_wire
proof unfold_locales
  show "fills (MsgUpdateParams_MarshalToSizedBuffer m) (enc_fields (MsgUpdateParams_wire m))" for m
    by (rule MsgUpdateParams_fills)
  show "MsgUpdateParams_Size m = length (enc_fields (MsgUpdateParams_wire m))" for m
    by (simp add: MsgUpdateParams_Size_def MsgUpdateParams_wire_def params_pb.Size_wire
        del: enc_field.simps)
  show "list_all wf_field (MsgUpdateParams_wire m)" for m
    by (simp add: MsgUpdateParams_wire_def)
  show "rfold (apply_field MsgUpdateParams_fields) (MsgUpdateParams_wire m) MsgUpdateParams_zero
      = Inr m" if "go_slice (enc_fields (MsgUpdateParams_wire m))" for m
  proof -
    have "Params_Unmarshal (enc_fields (Params_wire p)) Params = Inr p" for p
      using params_pb.unmarshal_wire [of p]
      by (simp add: Params_wire_def Params_Unmarshal_def go_slice_def)
    then show ?thesis
      by (simp add: MsgUpdateParams_wire_def MsgUpdateParams_zero_def MsgUpdateParams_fields_def
          rfold_wire apply_field_def)
  qed
  show "dec s x \<noteq> Inl Panic"
    if "MsgUpdateParams_fields n = Some (name, FMessage dec)" and "go_slice s" for n name dec s x
    using that params_pb.no_panic
    by (auto simp: MsgUpdateParams_fields_def Params_Unmarshal_def rbind_eq_Inl split: if_splits)
qed

text \<open>Its response.\<close>

datatype MsgUpdateParamsResponse = MsgUpdateParamsResponse

definition MsgUpdateParamsResponse_Size :: "MsgUpdateParamsResponse \<Rightarrow> nat" where
  "MsgUpdateParamsResponse_Size m = 0"

definition MsgUpdateParamsResponse_MarshalToSizedBuffer :: "MsgUpdateParamsResponse \<Rightarrow> bytes \<Rightarrow> pb_error + bytes \<times> int" where
  "MsgUpdateParamsResponse_MarshalToSizedBuffer m = to_sized_buffer []"

definition MsgUpdateParamsResponse_Marshal :: "MsgUpdateParamsResponse \<Rightarrow> pb_error + bytes" where
  "MsgUpdateParamsResponse_Marshal m = marshal (MsgUpdateParamsResponse_Size m) (MsgUpdateParamsResponse_MarshalToSizedBuffer m)"

definition MsgUpdateParamsResponse_MarshalTo :: "MsgUpdateParamsResponse \<Rightarrow> bytes \<Rightarrow> pb_error + bytes \<times> int" where
  "MsgUpdateParamsResponse_MarshalTo m = marshal_to (MsgUpdateParamsResponse_Size m) (MsgUpdateParamsResponse_MarshalToSizedBuffer m)"

definition MsgUpdateParamsResponse_fields :: "MsgUpdateParamsResponse fields" where
  "MsgUpdateParamsResponse_fields n = None"

definition MsgUpdateParamsResponse_Unmarshal :: "bytes \<Rightarrow> MsgUpdateParamsResponse \<Rightarrow> pb_error + MsgUpdateParamsResponse" where
  "MsgUpdateParamsResponse_Unmarshal = unmarshal tx_file ''MsgUpdateParamsResponse'' MsgUpdateParamsResponse_fields"

definition MsgUpdateParamsResponse_wire :: "MsgUpdateParamsResponse \<Rightarrow> wire_field list" where
  "MsgUpdateParamsResponse_wire m = []"

interpretation msg_update_params_response_pb: pb_message tx_file "''MsgUpdateParamsResponse''" MsgUpdateParamsResponse_fields MsgUpdateParamsResponse MsgUpdateParamsResponse_Size
  MsgUpdateParamsResponse_MarshalToSizedBuffer MsgUpdateParamsResponse_wire
proof unfold_locales
  show "fills (MsgUpdateParamsResponse_MarshalToSizedBuffer m) (enc_fields (MsgUpdateParamsResponse_wire m))" for m
    unfolding MsgUpdateParamsResponse_MarshalToSizedBuffer_def
    by (rule fills_to_sized_buffer) (simp add: MsgUpdateParamsResponse_wire_def put_seq_nil writes_skip)
  show "rfold (apply_field MsgUpdateParamsResponse_fields) (MsgUpdateParamsResponse_wire m) MsgUpdateParamsResponse = Inr m" for m
    by (cases m) (simp add: MsgUpdateParamsResponse_wire_def)
qed (simp_all add: MsgUpdateParamsResponse_Size_def MsgUpdateParamsResponse_wire_def MsgUpdateParamsResponse_fields_def)

section \<open>MsgCreateDenom\<close>

text \<open>The request of \<open>Msg/CreateDenom\<close>.\<close>

record MsgCreateDenom =
  MsgCreateDenom_Owner :: gostring
  MsgCreateDenom_Denom :: gostring
  MsgCreateDenom_Description :: gostring
  MsgCreateDenom_Ticker :: gostring
  MsgCreateDenom_Precision :: int32
  MsgCreateDenom_Url :: gostring
  MsgCreateDenom_MaxSupply :: int32
  MsgCreateDenom_Supply :: int32
  MsgCreateDenom_CanChangeMaxSupply :: bool

definition MsgCreateDenom_zero :: MsgCreateDenom where
  "MsgCreateDenom_zero = \<lparr>MsgCreateDenom_Owner = [], MsgCreateDenom_Denom = [], MsgCreateDenom_Description =
     [], MsgCreateDenom_Ticker = [], MsgCreateDenom_Precision = 0, MsgCreateDenom_Url =
     [], MsgCreateDenom_MaxSupply = 0, MsgCreateDenom_Supply = 0,
     MsgCreateDenom_CanChangeMaxSupply = False\<rparr>"

definition MsgCreateDenom_Size :: "MsgCreateDenom \<Rightarrow> nat" where
  "MsgCreateDenom_Size m =
     size_string (MsgCreateDenom_Owner m)
   + size_string (MsgCreateDenom_Denom m)
   + size_string (MsgCreateDenom_Description m)
   + size_string (MsgCreateDenom_Ticker m)
   + size_int32 (MsgCreateDenom_Precision m)
   + size_string (MsgCreateDenom_Url m)
   + size_int32 (MsgCreateDenom_MaxSupply m)
   + size_int32 (MsgCreateDenom_Supply m)
   + size_bool (MsgCreateDenom_CanChangeMaxSupply m)"

definition MsgCreateDenom_MarshalToSizedBuffer :: "MsgCreateDenom \<Rightarrow> bytes \<Rightarrow> pb_error + bytes \<times> int" where
  "MsgCreateDenom_MarshalToSizedBuffer m = to_sized_buffer
     [put_bool 0x48 (MsgCreateDenom_CanChangeMaxSupply m),
      put_int32 0x40 (MsgCreateDenom_Supply m),
      put_int32 0x38 (MsgCreateDenom_MaxSupply m),
      put_string 0x32 (MsgCreateDenom_Url m),
      put_int32 0x28 (MsgCreateDenom_Precision m),
      put_string 0x22 (MsgCreateDenom_Ticker m),
      put_string 0x1a (MsgCreateDenom_Description m),
      put_string 0x12 (MsgCreateDenom_Denom m),
      put_string 0x0a (MsgCreateDenom_Owner m)]"

definition MsgCreateDenom_Marshal :: "MsgCreateDenom \<Rightarrow> pb_error + bytes" where
  "MsgCreateDenom_Marshal m = marshal (MsgCreateDenom_Size m) (MsgCreateDenom_MarshalToSizedBuffer m)"

definition MsgCreateDenom_MarshalTo :: "MsgCreateDenom \<Rightarrow> bytes \<Rightarrow> pb_error + bytes \<times> int" where
  "MsgCreateDenom_MarshalTo m = marshal_to (MsgCreateDenom_Size m) (MsgCreateDenom_MarshalToSizedBuffer m)"

definition MsgCreateDenom_fields :: "MsgCreateDenom fields" where
  "MsgCreateDenom_fields n =
     (if n = 1 then 
        Some (''Owner'', FString (\<lambda>s m. m\<lparr>MsgCreateDenom_Owner := s\<rparr>))
      else if n = 2 then 
        Some (''Denom'', FString (\<lambda>s m. m\<lparr>MsgCreateDenom_Denom := s\<rparr>))
      else if n = 3 then 
        Some (''Description'', FString (\<lambda>s m. m\<lparr>MsgCreateDenom_Description := s\<rparr>))
      else if n = 4 then 
        Some (''Ticker'', FString (\<lambda>s m. m\<lparr>MsgCreateDenom_Ticker := s\<rparr>))
      else if n = 5 then 
        Some (''Precision'', FInt32 (\<lambda>v m. m\<lparr>MsgCreateDenom_Precision := v\<rparr>))
      else if n = 6 then 
        Some (''Url'', FString (\<lambda>s m. m\<lparr>MsgCreateDenom_Url := s\<rparr>))
      else if n = 7 then 
        Some (''MaxSupply'', FInt32 (\<lambda>v m. m\<lparr>MsgCreateDenom_MaxSupply := v\<rparr>))
      else if n = 8 then 
        Some (''Supply'', FInt32 (\<lambda>v m. m\<lparr>MsgCreateDenom_Supply := v\<rparr>))
      else if n = 9 then 
        Some (''CanChangeMaxSupply'', FBool (\<lambda>b m. m\<lparr>MsgCreateDenom_CanChangeMaxSupply := b\<rparr>))
      else None)"

definition MsgCreateDenom_Unmarshal :: "bytes \<Rightarrow> MsgCreateDenom \<Rightarrow> pb_error + MsgCreateDenom" where
  "MsgCreateDenom_Unmarshal = unmarshal tx_file ''MsgCreateDenom'' MsgCreateDenom_fields"

definition MsgCreateDenom_wire :: "MsgCreateDenom \<Rightarrow> wire_field list" where
  "MsgCreateDenom_wire m =
     w_string 1 (MsgCreateDenom_Owner m)
   @ w_string 2 (MsgCreateDenom_Denom m)
   @ w_string 3 (MsgCreateDenom_Description m)
   @ w_string 4 (MsgCreateDenom_Ticker m)
   @ w_int32 5 (MsgCreateDenom_Precision m)
   @ w_string 6 (MsgCreateDenom_Url m)
   @ w_int32 7 (MsgCreateDenom_MaxSupply m)
   @ w_int32 8 (MsgCreateDenom_Supply m)
   @ w_bool 9 (MsgCreateDenom_CanChangeMaxSupply m)"

lemma MsgCreateDenom_fills: "fills (MsgCreateDenom_MarshalToSizedBuffer m) (enc_fields (MsgCreateDenom_wire m))"
proof -
  have "list_all2 writes
      [put_bool 0x48 (MsgCreateDenom_CanChangeMaxSupply m),
       put_int32 0x40 (MsgCreateDenom_Supply m),
       put_int32 0x38 (MsgCreateDenom_MaxSupply m),
       put_string 0x32 (MsgCreateDenom_Url m),
       put_int32 0x28 (MsgCreateDenom_Precision m),
       put_string 0x22 (MsgCreateDenom_Ticker m),
       put_string 0x1a (MsgCreateDenom_Description m),
       put_string 0x12 (MsgCreateDenom_Denom m),
       put_string 0x0a (MsgCreateDenom_Owner m)]
      (map enc_fields [w_bool 9 (MsgCreateDenom_CanChangeMaxSupply m),
        w_int32 8 (MsgCreateDenom_Supply m),
        w_int32 7 (MsgCreateDenom_MaxSupply m),
        w_string 6 (MsgCreateDenom_Url m),
        w_int32 5 (MsgCreateDenom_Precision m),
        w_string 4 (MsgCreateDenom_Ticker m),
        w_string 3 (MsgCreateDenom_Description m),
        w_string 2 (MsgCreateDenom_Denom m),
        w_string 1 (MsgCreateDenom_Owner m)])"
    by (simp add: writes_wire key_byte_def)
  from fills_to_sized_buffer [OF writes_seq [OF this]] show ?thesis
    by (simp add: MsgCreateDenom_MarshalToSizedBuffer_def MsgCreateDenom_wire_def)
qed

interpretation msg_create_denom_pb: pb_message tx_file "''MsgCreateDenom''" MsgCreateDenom_fields MsgCreateDenom_zero
  MsgCreateDenom_Size MsgCreateDenom_MarshalToSizedBuffer MsgCreateDenom_wire
proof unfold_locales
  show "fills (MsgCreateDenom_MarshalToSizedBuffer m) (enc_fields (MsgCreateDenom_wire m))" for m
    by (rule MsgCreateDenom_fills)
  show "MsgCreateDenom_Size m = length (enc_fields (MsgCreateDenom_wire m))" for m
    by (simp add: MsgCreateDenom_Size_def MsgCreateDenom_wire_def)
  show "list_all wf_field (MsgCreateDenom_wire m)" for m
    by (simp add: MsgCreateDenom_wire_def)
  show "rfold (apply_field MsgCreateDenom_fields) (MsgCreateDenom_wire m) MsgCreateDenom_zero = Inr m" for m
    by (simp add: MsgCreateDenom_wire_def MsgCreateDenom_zero_def MsgCreateDenom_fields_def rfold_wire)
  show "dec s x \<noteq> Inl Panic" if "MsgCreateDenom_fields n = Some (name, FMessage dec)"
    for n name dec s x
    using that by (simp add: MsgCreateDenom_fields_def split: if_splits)
qed

text \<open>Its response.\<close>

datatype MsgCreateDenomResponse = MsgCreateDenomResponse

definition MsgCreateDenomResponse_Size :: "MsgCreateDenomResponse \<Rightarrow> nat" where
  "MsgCreateDenomResponse_Size m = 0"

definition MsgCreateDenomResponse_MarshalToSizedBuffer :: "MsgCreateDenomResponse \<Rightarrow> bytes \<Rightarrow> pb_error + bytes \<times> int" where
  "MsgCreateDenomResponse_MarshalToSizedBuffer m = to_sized_buffer []"

definition MsgCreateDenomResponse_Marshal :: "MsgCreateDenomResponse \<Rightarrow> pb_error + bytes" where
  "MsgCreateDenomResponse_Marshal m = marshal (MsgCreateDenomResponse_Size m) (MsgCreateDenomResponse_MarshalToSizedBuffer m)"

definition MsgCreateDenomResponse_MarshalTo :: "MsgCreateDenomResponse \<Rightarrow> bytes \<Rightarrow> pb_error + bytes \<times> int" where
  "MsgCreateDenomResponse_MarshalTo m = marshal_to (MsgCreateDenomResponse_Size m) (MsgCreateDenomResponse_MarshalToSizedBuffer m)"

definition MsgCreateDenomResponse_fields :: "MsgCreateDenomResponse fields" where
  "MsgCreateDenomResponse_fields n = None"

definition MsgCreateDenomResponse_Unmarshal :: "bytes \<Rightarrow> MsgCreateDenomResponse \<Rightarrow> pb_error + MsgCreateDenomResponse" where
  "MsgCreateDenomResponse_Unmarshal = unmarshal tx_file ''MsgCreateDenomResponse'' MsgCreateDenomResponse_fields"

definition MsgCreateDenomResponse_wire :: "MsgCreateDenomResponse \<Rightarrow> wire_field list" where
  "MsgCreateDenomResponse_wire m = []"

interpretation msg_create_denom_response_pb: pb_message tx_file "''MsgCreateDenomResponse''" MsgCreateDenomResponse_fields MsgCreateDenomResponse MsgCreateDenomResponse_Size
  MsgCreateDenomResponse_MarshalToSizedBuffer MsgCreateDenomResponse_wire
proof unfold_locales
  show "fills (MsgCreateDenomResponse_MarshalToSizedBuffer m) (enc_fields (MsgCreateDenomResponse_wire m))" for m
    unfolding MsgCreateDenomResponse_MarshalToSizedBuffer_def
    by (rule fills_to_sized_buffer) (simp add: MsgCreateDenomResponse_wire_def put_seq_nil writes_skip)
  show "rfold (apply_field MsgCreateDenomResponse_fields) (MsgCreateDenomResponse_wire m) MsgCreateDenomResponse = Inr m" for m
    by (cases m) (simp add: MsgCreateDenomResponse_wire_def)
qed (simp_all add: MsgCreateDenomResponse_Size_def MsgCreateDenomResponse_wire_def MsgCreateDenomResponse_fields_def)

section \<open>MsgUpdateDenom\<close>

text \<open>The request of \<open>Msg/UpdateDenom\<close>.\<close>

record MsgUpdateDenom =
  MsgUpdateDenom_Owner :: gostring
  MsgUpdateDenom_Denom :: gostring
  MsgUpdateDenom_Description :: gostring
  MsgUpdateDenom_Ticker :: gostring
  MsgUpdateDenom_Precision :: int32
  MsgUpdateDenom_Url :: gostring
  MsgUpdateDenom_MaxSupply :: int32
  MsgUpdateDenom_Supply :: int32
  MsgUpdateDenom_CanChangeMaxSupply :: bool

definition MsgUpdateDenom_zero :: MsgUpdateDenom where
  "MsgUpdateDenom_zero = \<lparr>MsgUpdateDenom_Owner = [], MsgUpdateDenom_Denom = [], MsgUpdateDenom_Description =
     [], MsgUpdateDenom_Ticker = [], MsgUpdateDenom_Precision = 0, MsgUpdateDenom_Url =
     [], MsgUpdateDenom_MaxSupply = 0, MsgUpdateDenom_Supply = 0,
     MsgUpdateDenom_CanChangeMaxSupply = False\<rparr>"

definition MsgUpdateDenom_Size :: "MsgUpdateDenom \<Rightarrow> nat" where
  "MsgUpdateDenom_Size m =
     size_string (MsgUpdateDenom_Owner m)
   + size_string (MsgUpdateDenom_Denom m)
   + size_string (MsgUpdateDenom_Description m)
   + size_string (MsgUpdateDenom_Ticker m)
   + size_int32 (MsgUpdateDenom_Precision m)
   + size_string (MsgUpdateDenom_Url m)
   + size_int32 (MsgUpdateDenom_MaxSupply m)
   + size_int32 (MsgUpdateDenom_Supply m)
   + size_bool (MsgUpdateDenom_CanChangeMaxSupply m)"

definition MsgUpdateDenom_MarshalToSizedBuffer :: "MsgUpdateDenom \<Rightarrow> bytes \<Rightarrow> pb_error + bytes \<times> int" where
  "MsgUpdateDenom_MarshalToSizedBuffer m = to_sized_buffer
     [put_bool 0x48 (MsgUpdateDenom_CanChangeMaxSupply m),
      put_int32 0x40 (MsgUpdateDenom_Supply m),
      put_int32 0x38 (MsgUpdateDenom_MaxSupply m),
      put_string 0x32 (MsgUpdateDenom_Url m),
      put_int32 0x28 (MsgUpdateDenom_Precision m),
      put_string 0x22 (MsgUpdateDenom_Ticker m),
      put_string 0x1a (MsgUpdateDenom_Description m),
      put_string 0x12 (MsgUpdateDenom_Denom m),
      put_string 0x0a (MsgUpdateDenom_Owner m)]"

definition MsgUpdateDenom_Marshal :: "MsgUpdateDenom \<Rightarrow> pb_error + bytes" where
  "MsgUpdateDenom_Marshal m = marshal (MsgUpdateDenom_Size m) (MsgUpdateDenom_MarshalToSizedBuffer m)"

definition MsgUpdateDenom_MarshalTo :: "MsgUpdateDenom \<Rightarrow> bytes \<Rightarrow> pb_error + bytes \<times> int" where
  "MsgUpdateDenom_MarshalTo m = marshal_to (MsgUpdateDenom_Size m) (MsgUpdateDenom_MarshalToSizedBuffer m)"

definition MsgUpdateDenom_fields :: "MsgUpdateDenom fields" where
  "MsgUpdateDenom_fields n =
     (if n = 1 then 
        Some (''Owner'', FString (\<lambda>s m. m\<lparr>MsgUpdateDenom_Owner := s\<rparr>))
      else if n = 2 then 
        Some (''Denom'', FString (\<lambda>s m. m\<lparr>MsgUpdateDenom_Denom := s\<rparr>))
      else if n = 3 then 
        Some (''Description'', FString (\<lambda>s m. m\<lparr>MsgUpdateDenom_Description := s\<rparr>))
      else if n = 4 then 
        Some (''Ticker'', FString (\<lambda>s m. m\<lparr>MsgUpdateDenom_Ticker := s\<rparr>))
      else if n = 5 then 
        Some (''Precision'', FInt32 (\<lambda>v m. m\<lparr>MsgUpdateDenom_Precision := v\<rparr>))
      else if n = 6 then 
        Some (''Url'', FString (\<lambda>s m. m\<lparr>MsgUpdateDenom_Url := s\<rparr>))
      else if n = 7 then 
        Some (''MaxSupply'', FInt32 (\<lambda>v m. m\<lparr>MsgUpdateDenom_MaxSupply := v\<rparr>))
      else if n = 8 then 
        Some (''Supply'', FInt32 (\<lambda>v m. m\<lparr>MsgUpdateDenom_Supply := v\<rparr>))
      else if n = 9 then 
        Some (''CanChangeMaxSupply'', FBool (\<lambda>b m. m\<lparr>MsgUpdateDenom_CanChangeMaxSupply := b\<rparr>))
      else None)"

definition MsgUpdateDenom_Unmarshal :: "bytes \<Rightarrow> MsgUpdateDenom \<Rightarrow> pb_error + MsgUpdateDenom" where
  "MsgUpdateDenom_Unmarshal = unmarshal tx_file ''MsgUpdateDenom'' MsgUpdateDenom_fields"

definition MsgUpdateDenom_wire :: "MsgUpdateDenom \<Rightarrow> wire_field list" where
  "MsgUpdateDenom_wire m =
     w_string 1 (MsgUpdateDenom_Owner m)
   @ w_string 2 (MsgUpdateDenom_Denom m)
   @ w_string 3 (MsgUpdateDenom_Description m)
   @ w_string 4 (MsgUpdateDenom_Ticker m)
   @ w_int32 5 (MsgUpdateDenom_Precision m)
   @ w_string 6 (MsgUpdateDenom_Url m)
   @ w_int32 7 (MsgUpdateDenom_MaxSupply m)
   @ w_int32 8 (MsgUpdateDenom_Supply m)
   @ w_bool 9 (MsgUpdateDenom_CanChangeMaxSupply m)"

lemma MsgUpdateDenom_fills: "fills (MsgUpdateDenom_MarshalToSizedBuffer m) (enc_fields (MsgUpdateDenom_wire m))"
proof -
  have "list_all2 writes
      [put_bool 0x48 (MsgUpdateDenom_CanChangeMaxSupply m),
       put_int32 0x40 (MsgUpdateDenom_Supply m),
       put_int32 0x38 (MsgUpdateDenom_MaxSupply m),
       put_string 0x32 (MsgUpdateDenom_Url m),
       put_int32 0x28 (MsgUpdateDenom_Precision m),
       put_string 0x22 (MsgUpdateDenom_Ticker m),
       put_string 0x1a (MsgUpdateDenom_Description m),
       put_string 0x12 (MsgUpdateDenom_Denom m),
       put_string 0x0a (MsgUpdateDenom_Owner m)]
      (map enc_fields [w_bool 9 (MsgUpdateDenom_CanChangeMaxSupply m),
        w_int32 8 (MsgUpdateDenom_Supply m),
        w_int32 7 (MsgUpdateDenom_MaxSupply m),
        w_string 6 (MsgUpdateDenom_Url m),
        w_int32 5 (MsgUpdateDenom_Precision m),
        w_string 4 (MsgUpdateDenom_Ticker m),
        w_string 3 (MsgUpdateDenom_Description m),
        w_string 2 (MsgUpdateDenom_Denom m),
        w_string 1 (MsgUpdateDenom_Owner m)])"
    by (simp add: writes_wire key_byte_def)
  from fills_to_sized_buffer [OF writes_seq [OF this]] show ?thesis
    by (simp add: MsgUpdateDenom_MarshalToSizedBuffer_def MsgUpdateDenom_wire_def)
qed

interpretation msg_update_denom_pb: pb_message tx_file "''MsgUpdateDenom''" MsgUpdateDenom_fields MsgUpdateDenom_zero
  MsgUpdateDenom_Size MsgUpdateDenom_MarshalToSizedBuffer MsgUpdateDenom_wire
proof unfold_locales
  show "fills (MsgUpdateDenom_MarshalToSizedBuffer m) (enc_fields (MsgUpdateDenom_wire m))" for m
    by (rule MsgUpdateDenom_fills)
  show "MsgUpdateDenom_Size m = length (enc_fields (MsgUpdateDenom_wire m))" for m
    by (simp add: MsgUpdateDenom_Size_def MsgUpdateDenom_wire_def)
  show "list_all wf_field (MsgUpdateDenom_wire m)" for m
    by (simp add: MsgUpdateDenom_wire_def)
  show "rfold (apply_field MsgUpdateDenom_fields) (MsgUpdateDenom_wire m) MsgUpdateDenom_zero = Inr m" for m
    by (simp add: MsgUpdateDenom_wire_def MsgUpdateDenom_zero_def MsgUpdateDenom_fields_def rfold_wire)
  show "dec s x \<noteq> Inl Panic" if "MsgUpdateDenom_fields n = Some (name, FMessage dec)"
    for n name dec s x
    using that by (simp add: MsgUpdateDenom_fields_def split: if_splits)
qed

text \<open>Its response.\<close>

datatype MsgUpdateDenomResponse = MsgUpdateDenomResponse

definition MsgUpdateDenomResponse_Size :: "MsgUpdateDenomResponse \<Rightarrow> nat" where
  "MsgUpdateDenomResponse_Size m = 0"

definition MsgUpdateDenomResponse_MarshalToSizedBuffer :: "MsgUpdateDenomResponse \<Rightarrow> bytes \<Rightarrow> pb_error + bytes \<times> int" where
  "MsgUpdateDenomResponse_MarshalToSizedBuffer m = to_sized_buffer []"

definition MsgUpdateDenomResponse_Marshal :: "MsgUpdateDenomResponse \<Rightarrow> pb_error + bytes" where
  "MsgUpdateDenomResponse_Marshal m = marshal (MsgUpdateDenomResponse_Size m) (MsgUpdateDenomResponse_MarshalToSizedBuffer m)"

definition MsgUpdateDenomResponse_MarshalTo :: "MsgUpdateDenomResponse \<Rightarrow> bytes \<Rightarrow> pb_error + bytes \<times> int" where
  "MsgUpdateDenomResponse_MarshalTo m = marshal_to (MsgUpdateDenomResponse_Size m) (MsgUpdateDenomResponse_MarshalToSizedBuffer m)"

definition MsgUpdateDenomResponse_fields :: "MsgUpdateDenomResponse fields" where
  "MsgUpdateDenomResponse_fields n = None"

definition MsgUpdateDenomResponse_Unmarshal :: "bytes \<Rightarrow> MsgUpdateDenomResponse \<Rightarrow> pb_error + MsgUpdateDenomResponse" where
  "MsgUpdateDenomResponse_Unmarshal = unmarshal tx_file ''MsgUpdateDenomResponse'' MsgUpdateDenomResponse_fields"

definition MsgUpdateDenomResponse_wire :: "MsgUpdateDenomResponse \<Rightarrow> wire_field list" where
  "MsgUpdateDenomResponse_wire m = []"

interpretation msg_update_denom_response_pb: pb_message tx_file "''MsgUpdateDenomResponse''" MsgUpdateDenomResponse_fields MsgUpdateDenomResponse MsgUpdateDenomResponse_Size
  MsgUpdateDenomResponse_MarshalToSizedBuffer MsgUpdateDenomResponse_wire
proof unfold_locales
  show "fills (MsgUpdateDenomResponse_MarshalToSizedBuffer m) (enc_fields (MsgUpdateDenomResponse_wire m))" for m
    unfolding MsgUpdateDenomResponse_MarshalToSizedBuffer_def
    by (rule fills_to_sized_buffer) (simp add: MsgUpdateDenomResponse_wire_def put_seq_nil writes_skip)
  show "rfold (apply_field MsgUpdateDenomResponse_fields) (MsgUpdateDenomResponse_wire m) MsgUpdateDenomResponse = Inr m" for m
    by (cases m) (simp add: MsgUpdateDenomResponse_wire_def)
qed (simp_all add: MsgUpdateDenomResponse_Size_def MsgUpdateDenomResponse_wire_def MsgUpdateDenomResponse_fields_def)

section \<open>MsgDeleteDenom\<close>

text \<open>The request of \<open>Msg/DeleteDenom\<close>.\<close>

record MsgDeleteDenom =
  MsgDeleteDenom_Owner :: gostring
  MsgDeleteDenom_Denom :: gostring

definition MsgDeleteDenom_zero :: MsgDeleteDenom where
  "MsgDeleteDenom_zero = \<lparr>MsgDeleteDenom_Owner = [], MsgDeleteDenom_Denom = []\<rparr>"

definition MsgDeleteDenom_Size :: "MsgDeleteDenom \<Rightarrow> nat" where
  "MsgDeleteDenom_Size m =
     size_string (MsgDeleteDenom_Owner m)
   + size_string (MsgDeleteDenom_Denom m)"

definition MsgDeleteDenom_MarshalToSizedBuffer :: "MsgDeleteDenom \<Rightarrow> bytes \<Rightarrow> pb_error + bytes \<times> int" where
  "MsgDeleteDenom_MarshalToSizedBuffer m = to_sized_buffer
     [put_string 0x12 (MsgDeleteDenom_Denom m),
      put_string 0x0a (MsgDeleteDenom_Owner m)]"

definition MsgDeleteDenom_Marshal :: "MsgDeleteDenom \<Rightarrow> pb_error + bytes" where
  "MsgDeleteDenom_Marshal m = marshal (MsgDeleteDenom_Size m) (MsgDeleteDenom_MarshalToSizedBuffer m)"

definition MsgDeleteDenom_MarshalTo :: "MsgDeleteDenom \<Rightarrow> bytes \<Rightarrow> pb_error + bytes \<times> int" where
  "MsgDeleteDenom_MarshalTo m = marshal_to (MsgDeleteDenom_Size m) (MsgDeleteDenom_MarshalToSizedBuffer m)"

definition MsgDeleteDenom_fields :: "MsgDeleteDenom fields" where
  "MsgDeleteDenom_fields n =
     (if n = 1 then 
        Some (''Owner'', FString (\<lambda>s m. m\<lparr>MsgDeleteDenom_Owner := s\<rparr>))
      else if n = 2 then 
        Some (''Denom'', FString (\<lambda>s m. m\<lparr>MsgDeleteDenom_Denom := s\<rparr>))
      else None)"

definition MsgDeleteDenom_Unmarshal :: "bytes \<Rightarrow> MsgDeleteDenom \<Rightarrow> pb_error + MsgDeleteDenom" where
  "MsgDeleteDenom_Unmarshal = unmarshal tx_file ''MsgDeleteDenom'' MsgDeleteDenom_fields"

definition MsgDeleteDenom_wire :: "MsgDeleteDenom \<Rightarrow> wire_field list" where
  "MsgDeleteDenom_wire m =
     w_string 1 (MsgDeleteDenom_Owner m)
   @ w_string 2 (MsgDeleteDenom_Denom m)"

lemma MsgDeleteDenom_fills: "fills (MsgDeleteDenom_MarshalToSizedBuffer m) (enc_fields (MsgDeleteDenom_wire m))"
proof -
  have "list_all2 writes
      [put_string 0x12 (MsgDeleteDenom_Denom m),
       put_string 0x0a (MsgDeleteDenom_Owner m)]
      (map enc_fields [w_string 2 (MsgDeleteDenom_Denom m),
        w_string 1 (MsgDeleteDenom_Owner m)])"
    by (simp add: writes_wire key_byte_def)
  from fills_to_sized_buffer [OF writes_seq [OF this]] show ?thesis
    by (simp add: MsgDeleteDenom_MarshalToSizedBuffer_def MsgDeleteDenom_wire_def)
qed

interpretation msg_delete_denom_pb: pb_message tx_file "''MsgDeleteDenom''" MsgDeleteDenom_fields MsgDeleteDenom_zero
  MsgDeleteDenom_Size MsgDeleteDenom_MarshalToSizedBuffer MsgDeleteDenom_wire
proof unfold_locales
  show "fills (MsgDeleteDenom_MarshalToSizedBuffer m) (enc_fields (MsgDeleteDenom_wire m))" for m
    by (rule MsgDeleteDenom_fills)
  show "MsgDeleteDenom_Size m = length (enc_fields (MsgDeleteDenom_wire m))" for m
    by (simp add: MsgDeleteDenom_Size_def MsgDeleteDenom_wire_def)
  show "list_all wf_field (MsgDeleteDenom_wire m)" for m
    by (simp add: MsgDeleteDenom_wire_def)
  show "rfold (apply_field MsgDeleteDenom_fields) (MsgDeleteDenom_wire m) MsgDeleteDenom_zero = Inr m" for m
    by (simp add: MsgDeleteDenom_wire_def MsgDeleteDenom_zero_def MsgDeleteDenom_fields_def rfold_wire)
  show "dec s x \<noteq> Inl Panic" if "MsgDeleteDenom_fields n = Some (name, FMessage dec)"
    for n name dec s x
    using that by (simp add: MsgDeleteDenom_fields_def split: if_splits)
qed

text \<open>Its response.\<close>

datatype MsgDeleteDenomResponse = MsgDeleteDenomResponse

definition MsgDeleteDenomResponse_Size :: "MsgDeleteDenomResponse \<Rightarrow> nat" where
  "MsgDeleteDenomResponse_Size m = 0"

definition MsgDeleteDenomResponse_MarshalToSizedBuffer :: "MsgDeleteDenomResponse \<Rightarrow> bytes \<Rightarrow> pb_error + bytes \<times> int" where
  "MsgDeleteDenomResponse_MarshalToSizedBuffer m = to_sized_buffer []"

definition MsgDeleteDenomResponse_Marshal :: "MsgDeleteDenomResponse \<Rightarrow> pb_error + bytes" where
  "MsgDeleteDenomResponse_Marshal m = marshal (MsgDeleteDenomResponse_Size m) (MsgDeleteDenomResponse_MarshalToSizedBuffer m)"

definition MsgDeleteDenomResponse_MarshalTo :: "MsgDeleteDenomResponse \<Rightarrow> bytes \<Rightarrow> pb_error + bytes \<times> int" where
  "MsgDeleteDenomResponse_MarshalTo m = marshal_to (MsgDeleteDenomResponse_Size m) (MsgDeleteDenomResponse_MarshalToSizedBuffer m)"

definition MsgDeleteDenomResponse_fields :: "MsgDeleteDenomResponse fields" where
  "MsgDeleteDenomResponse_fields n = None"

definition MsgDeleteDenomResponse_Unmarshal :: "bytes \<Rightarrow> MsgDeleteDenomResponse \<Rightarrow> pb_error + MsgDeleteDenomResponse" where
  "MsgDeleteDenomResponse_Unmarshal = unmarshal tx_file ''MsgDeleteDenomResponse'' MsgDeleteDenomResponse_fields"

definition MsgDeleteDenomResponse_wire :: "MsgDeleteDenomResponse \<Rightarrow> wire_field list" where
  "MsgDeleteDenomResponse_wire m = []"

interpretation msg_delete_denom_response_pb: pb_message tx_file "''MsgDeleteDenomResponse''" MsgDeleteDenomResponse_fields MsgDeleteDenomResponse MsgDeleteDenomResponse_Size
  MsgDeleteDenomResponse_MarshalToSizedBuffer MsgDeleteDenomResponse_wire
proof unfold_locales
  show "fills (MsgDeleteDenomResponse_MarshalToSizedBuffer m) (enc_fields (MsgDeleteDenomResponse_wire m))" for m
    unfolding MsgDeleteDenomResponse_MarshalToSizedBuffer_def
    by (rule fills_to_sized_buffer) (simp add: MsgDeleteDenomResponse_wire_def put_seq_nil writes_skip)
  show "rfold (apply_field MsgDeleteDenomResponse_fields) (MsgDeleteDenomResponse_wire m) MsgDeleteDenomResponse = Inr m" for m
    by (cases m) (simp add: MsgDeleteDenomResponse_wire_def)
qed (simp_all add: MsgDeleteDenomResponse_Size_def MsgDeleteDenomResponse_wire_def MsgDeleteDenomResponse_fields_def)

end
