(* ===== verification/TF_Denom.thy ===== *)
theory TF_Denom
  imports Proto_Message
begin

text \<open>
  The stored record of the token factory, \<open>types.Denom\<close>, with the code generated for it in
  \<open>x/tokenfactory/types/denom.pb.go\<close>.
\<close>

abbreviation denom_file :: pbfile where
  "denom_file \<equiv> (Mod_tokenfactory, PbDenom)"

text \<open>The helpers the generator repeats in the file.\<close>

definition encodeVarintDenom :: "bytes \<Rightarrow> int \<Rightarrow> uint64 \<Rightarrow> pb_error + bytes \<times> int" where
  "encodeVarintDenom dAtA offset v = put_varint v (dAtA, offset)"

definition sovDenom :: "uint64 \<Rightarrow> nat" where
  "sovDenom x = sov x"

definition sozDenom :: "uint64 \<Rightarrow> nat" where
  "sozDenom x = soz x"

definition skipDenom :: "bytes \<Rightarrow> pb_error + int" where
  "skipDenom dAtA = skip_field denom_file dAtA"

record Denom =
  Denom_Denom :: gostring
  Denom_Description :: gostring
  Denom_Ticker :: gostring
  Denom_Precision :: int32
  Denom_Url :: gostring
  Denom_MaxSupply :: int32
  Denom_Supply :: int32
  Denom_CanChangeMaxSupply :: bool
  Denom_Owner :: gostring

text \<open>\<open>Denom{}\<close>\<close>

definition Denom_zero :: Denom where
  "Denom_zero = \<lparr>Denom_Denom = [], Denom_Description = [], Denom_Ticker = [],
     Denom_Precision = 0, Denom_Url = [], Denom_MaxSupply = 0, Denom_Supply = 0,
     Denom_CanChangeMaxSupply = False, Denom_Owner = []\<rparr>"

definition Denom_Size :: "Denom \<Rightarrow> nat" where
  "Denom_Size m =
     size_string (Denom_Denom m)
   + size_string (Denom_Description m)
   + size_string (Denom_Ticker m)
   + size_int32 (Denom_Precision m)
   + size_string (Denom_Url m)
   + size_int32 (Denom_MaxSupply m)
   + size_int32 (Denom_Supply m)
   + size_bool (Denom_CanChangeMaxSupply m)
   + size_string (Denom_Owner m)"

lemma Denom_Size_le: "Denom_Size m \<le> 90 + length (Denom_Denom m) + length (Denom_Description m)
    + length (Denom_Ticker m) + length (Denom_Url m) + length (Denom_Owner m)"
  unfolding Denom_Size_def
  using size_le(2) [of "Denom_Denom m"] size_le(2) [of "Denom_Description m"]
    size_le(2) [of "Denom_Ticker m"] size_le(2) [of "Denom_Url m"] size_le(2) [of "Denom_Owner m"]
    size_le(3) [of "Denom_Precision m"] size_le(3) [of "Denom_MaxSupply m"]
    size_le(3) [of "Denom_Supply m"] size_le(4) [of "Denom_CanChangeMaxSupply m"]
  by linarith

definition Denom_MarshalToSizedBuffer :: "Denom \<Rightarrow> bytes \<Rightarrow> pb_error + bytes \<times> int" where
  "Denom_MarshalToSizedBuffer m = to_sized_buffer
     [put_string 0x4a (Denom_Owner m),
      put_bool 0x40 (Denom_CanChangeMaxSupply m),
      put_int32 0x38 (Denom_Supply m),
      put_int32 0x30 (Denom_MaxSupply m),
      put_string 0x2a (Denom_Url m),
      put_int32 0x20 (Denom_Precision m),
      put_string 0x1a (Denom_Ticker m),
      put_string 0x12 (Denom_Description m),
      put_string 0x0a (Denom_Denom m)]"

definition Denom_Marshal :: "Denom \<Rightarrow> pb_error + bytes" where
  "Denom_Marshal m = marshal (Denom_Size m) (Denom_MarshalToSizedBuffer m)"

definition Denom_MarshalTo :: "Denom \<Rightarrow> bytes \<Rightarrow> pb_error + bytes \<times> int" where
  "Denom_MarshalTo m = marshal_to (Denom_Size m) (Denom_MarshalToSizedBuffer m)"

definition Denom_fields :: "Denom fields" where
  "Denom_fields n =
     (if n = 1 then Some (''Denom'', FString (\<lambda>s m. m\<lparr>Denom_Denom := s\<rparr>))
      else if n = 2 then Some (''Description'', FString (\<lambda>s m. m\<lparr>Denom_Description := s\<rparr>))
      else if n = 3 then Some (''Ticker'', FString (\<lambda>s m. m\<lparr>Denom_Ticker := s\<rparr>))
      else if n = 4 then Some (''Precision'', FInt32 (\<lambda>v m. m\<lparr>Denom_Precision := v\<rparr>))
      else if n = 5 then Some (''Url'', FString (\<lambda>s m. m\<lparr>Denom_Url := s\<rparr>))
      else if n = 6 then Some (''MaxSupply'', FInt32 (\<lambda>v m. m\<lparr>Denom_MaxSupply := v\<rparr>))
      else if n = 7 then Some (''Supply'', FInt32 (\<lambda>v m. m\<lparr>Denom_Supply := v\<rparr>))
      else if n = 8 then
        Some (''CanChangeMaxSupply'', FBool (\<lambda>b m. m\<lparr>Denom_CanChangeMaxSupply := b\<rparr>))
      else if n = 9 then Some (''Owner'', FString (\<lambda>s m. m\<lparr>Denom_Owner := s\<rparr>))
      else None)"

definition Denom_Unmarshal :: "bytes \<Rightarrow> Denom \<Rightarrow> pb_error + Denom" where
  "Denom_Unmarshal = unmarshal denom_file ''Denom'' Denom_fields"

text \<open>The abstract content, in the order of the field numbers.\<close>

definition Denom_wire :: "Denom \<Rightarrow> wire_field list" where
  "Denom_wire m =
     w_string 1 (Denom_Denom m) @ w_string 2 (Denom_Description m) @ w_string 3 (Denom_Ticker m)
   @ w_int32 4 (Denom_Precision m) @ w_string 5 (Denom_Url m) @ w_int32 6 (Denom_MaxSupply m)
   @ w_int32 7 (Denom_Supply m) @ w_bool 8 (Denom_CanChangeMaxSupply m)
   @ w_string 9 (Denom_Owner m)"

lemma Denom_fills: "fills (Denom_MarshalToSizedBuffer m) (enc_fields (Denom_wire m))"
proof -
  let ?ws = "[put_string 0x4a (Denom_Owner m), put_bool 0x40 (Denom_CanChangeMaxSupply m),
      put_int32 0x38 (Denom_Supply m), put_int32 0x30 (Denom_MaxSupply m),
      put_string 0x2a (Denom_Url m), put_int32 0x20 (Denom_Precision m),
      put_string 0x1a (Denom_Ticker m), put_string 0x12 (Denom_Description m),
      put_string 0x0a (Denom_Denom m)]"
  have "list_all2 writes ?ws
      (map enc_fields [w_string 9 (Denom_Owner m), w_bool 8 (Denom_CanChangeMaxSupply m),
        w_int32 7 (Denom_Supply m), w_int32 6 (Denom_MaxSupply m), w_string 5 (Denom_Url m),
        w_int32 4 (Denom_Precision m), w_string 3 (Denom_Ticker m),
        w_string 2 (Denom_Description m), w_string 1 (Denom_Denom m)])"
    by (simp add: writes_wire key_byte_def)
  from fills_to_sized_buffer [OF writes_seq [OF this]] show ?thesis
    by (simp add: Denom_MarshalToSizedBuffer_def Denom_wire_def)
qed

interpretation denom_pb: pb_message denom_file "''Denom''" Denom_fields Denom_zero Denom_Size
  Denom_MarshalToSizedBuffer Denom_wire
proof unfold_locales
  show "fills (Denom_MarshalToSizedBuffer m) (enc_fields (Denom_wire m))" for m
    by (rule Denom_fills)
  show "Denom_Size m = length (enc_fields (Denom_wire m))" for m
    by (simp add: Denom_Size_def Denom_wire_def)
  show "list_all wf_field (Denom_wire m)" for m
    by (simp add: Denom_wire_def)
  show "rfold (apply_field Denom_fields) (Denom_wire m) Denom_zero = Inr m" for m
    by (simp add: Denom_wire_def Denom_zero_def Denom_fields_def rfold_wire)
  show "dec s x \<noteq> Inl Panic" if "Denom_fields n = Some (name, FMessage dec)" for n name dec s x
    using that by (simp add: Denom_fields_def split: if_splits)
qed

end
