(* ===== verification/TF_Genesis_Pb.thy ===== *)
theory TF_Genesis_Pb
  imports TF_Params TF_Denom
begin

text \<open>
  The genesis state of the token factory, \<open>x/tokenfactory/types/genesis.pb.go\<close>: the parameters,
  embedded, and the list of denoms, a repeated field.
\<close>

abbreviation genesis_file :: pbfile where
  "genesis_file \<equiv> (Mod_tokenfactory, PbGenesis)"

text \<open>The helpers the generator repeats in the file.\<close>

definition encodeVarintGenesis :: "bytes \<Rightarrow> int \<Rightarrow> uint64 \<Rightarrow> pb_error + bytes \<times> int" where
  "encodeVarintGenesis dAtA offset v = put_varint v (dAtA, offset)"

definition sovGenesis :: "uint64 \<Rightarrow> nat" where
  "sovGenesis x = sov x"

definition sozGenesis :: "uint64 \<Rightarrow> nat" where
  "sozGenesis x = soz x"

definition skipGenesis :: "bytes \<Rightarrow> pb_error + int" where
  "skipGenesis dAtA = skip_field genesis_file dAtA"

text \<open>\<open>GenesisState\<close>.\<close>

record GenesisState =
  GenesisState_Params :: Params
  GenesisState_DenomList :: "Denom list"

definition GenesisState_zero :: GenesisState where
  "GenesisState_zero = \<lparr>GenesisState_Params = Params, GenesisState_DenomList = []\<rparr>"

definition GenesisState_Size :: "GenesisState \<Rightarrow> nat" where
  "GenesisState_Size m =
     size_bytes (Params_Size (GenesisState_Params m))
   + sum_list (map (\<lambda>e. size_bytes (Denom_Size e)) (GenesisState_DenomList m))"

definition GenesisState_MarshalToSizedBuffer :: "GenesisState \<Rightarrow> bytes \<Rightarrow> pb_error + bytes \<times> int" where
  "GenesisState_MarshalToSizedBuffer m = to_sized_buffer
     [put_repeated 0x12 (map Denom_MarshalToSizedBuffer (GenesisState_DenomList m)),
      put_message 0x0a (Params_MarshalToSizedBuffer (GenesisState_Params m))]"

definition GenesisState_Marshal :: "GenesisState \<Rightarrow> pb_error + bytes" where
  "GenesisState_Marshal m = marshal (GenesisState_Size m) (GenesisState_MarshalToSizedBuffer m)"

definition GenesisState_MarshalTo :: "GenesisState \<Rightarrow> bytes \<Rightarrow> pb_error + bytes \<times> int" where
  "GenesisState_MarshalTo m = marshal_to (GenesisState_Size m) (GenesisState_MarshalToSizedBuffer m)"

definition GenesisState_fields :: "GenesisState fields" where
  "GenesisState_fields n =
     (if n = 1 then 
        Some (''Params'', FMessage (\<lambda>s m.
          rbind (Params_Unmarshal s (GenesisState_Params m)) (\<lambda>x. Inr (m\<lparr>GenesisState_Params := x\<rparr>))))
      else if n = 2 then 
        Some (''DenomList'', FMessage (\<lambda>s m.
          rbind (Denom_Unmarshal s Denom_zero) (\<lambda>x. Inr (m\<lparr>GenesisState_DenomList := GenesisState_DenomList m @ [x]\<rparr>))))
      else None)"

definition GenesisState_Unmarshal :: "bytes \<Rightarrow> GenesisState \<Rightarrow> pb_error + GenesisState" where
  "GenesisState_Unmarshal = unmarshal genesis_file ''GenesisState'' GenesisState_fields"

definition GenesisState_wire :: "GenesisState \<Rightarrow> wire_field list" where
  "GenesisState_wire m =
     [WBytes 1 (enc_fields (Params_wire (GenesisState_Params m)))]
   @ map (\<lambda>e. WBytes 2 (enc_fields (Denom_wire e))) (GenesisState_DenomList m)"

lemma GenesisState_fills:
  "fills (GenesisState_MarshalToSizedBuffer m) (enc_fields (GenesisState_wire m))"
proof -
  let ?p = "WBytes 1 (enc_fields (Params_wire (GenesisState_Params m)))"
  let ?ds = "map (\<lambda>e. enc_fields (Denom_wire e)) (GenesisState_DenomList m)"
  have "list_all2 fills (map Denom_MarshalToSizedBuffer (GenesisState_DenomList m)) ?ds"
    by (simp add: list_all2_conv_all_nth Denom_fills)
  then have "writes (put_repeated 0x12 (map Denom_MarshalToSizedBuffer (GenesisState_DenomList m)))
      (enc_fields (map (WBytes 2) ?ds))"
    by (rule writes_w_repeated) (simp_all add: key_byte_def)
  moreover have "writes (put_message 0x0a (Params_MarshalToSizedBuffer (GenesisState_Params m)))
      (enc_fields [?p])"
    using params_pb.to_sized_fills by (rule writes_w_message) (simp_all add: key_byte_def)
  ultimately have "list_all2 writes
      [put_repeated 0x12 (map Denom_MarshalToSizedBuffer (GenesisState_DenomList m)),
       put_message 0x0a (Params_MarshalToSizedBuffer (GenesisState_Params m))]
      [enc_fields (map (WBytes 2) ?ds), enc_fields [?p]]"
    by simp
  from fills_to_sized_buffer [OF writes_seq [OF this]] show ?thesis
    by (simp add: GenesisState_MarshalToSizedBuffer_def GenesisState_wire_def comp_def
        del: enc_field.simps)
qed

text \<open>
  The fields of one genesis state applied to another: the parameters are decoded into the ones
  there (which are the only value), and the denoms are appended.
\<close>

lemma genesis_wire_fold:
  assumes g: "go_slice (enc_fields (GenesisState_wire m))"
  shows "rfold (apply_field GenesisState_fields) (GenesisState_wire m) m0
    = Inr \<lparr>GenesisState_Params = GenesisState_Params m,
        GenesisState_DenomList = GenesisState_DenomList m0 @ GenesisState_DenomList m\<rparr>"
proof -
  have p: "Params_Unmarshal (enc_fields (Params_wire x)) y = Inr x" for x y
    using params_pb.unmarshal_wire [of x]
    by (cases y) (simp add: Params_wire_def Params_Unmarshal_def go_slice_def)
  have d: "Denom_Unmarshal (enc_fields (Denom_wire e)) Denom_zero = Inr e"
    if "e \<in> set (GenesisState_DenomList m)" for e
  proof -
    have "go_slice (enc_fields (Denom_wire e))"
      using that by (intro go_slice_nested [OF _ g, where n = 2]) (simp add: GenesisState_wire_def)
    then show ?thesis
      unfolding Denom_Unmarshal_def by (rule denom_pb.unmarshal_wire)
  qed
  let ?upd = "\<lambda>x m. m\<lparr>GenesisState_DenomList := GenesisState_DenomList m @ [x]\<rparr>"
  have f: "fold ?upd xs r = r\<lparr>GenesisState_DenomList := GenesisState_DenomList r @ xs\<rparr>" for xs r
    by (induction xs arbitrary: r) simp_all
  have r: "rfold (apply_field GenesisState_fields)
      (map (\<lambda>e. WBytes 2 (enc_fields (Denom_wire e))) (GenesisState_DenomList m)) r
    = Inr (fold ?upd (GenesisState_DenomList m) r)" for r
    using rfold_w_repeated [where flds = GenesisState_fields and n = 2 and dec = Denom_Unmarshal
        and z = Denom_zero and upd = ?upd and enc = "\<lambda>e. enc_fields (Denom_wire e)"
        and xs = "GenesisState_DenomList m" and rest = "[]" and m = r, OF _ d]
    by (simp add: GenesisState_fields_def)
  show ?thesis
    by (simp add: GenesisState_wire_def apply_field_def)
      (simp add: r f p GenesisState_fields_def)
qed

interpretation genesis_pb: pb_message genesis_file "''GenesisState''" GenesisState_fields
  GenesisState_zero GenesisState_Size GenesisState_MarshalToSizedBuffer GenesisState_wire
proof unfold_locales
  show "fills (GenesisState_MarshalToSizedBuffer m) (enc_fields (GenesisState_wire m))" for m
    by (rule GenesisState_fills)
  show "GenesisState_Size m = length (enc_fields (GenesisState_wire m))" for m
    by (simp add: GenesisState_Size_def GenesisState_wire_def params_pb.Size_wire
        denom_pb.Size_wire del: enc_field.simps)
  show "list_all wf_field (GenesisState_wire m)" for m
    by (simp add: GenesisState_wire_def list_all_iff)
  show "rfold (apply_field GenesisState_fields) (GenesisState_wire m) GenesisState_zero = Inr m"
    if "go_slice (enc_fields (GenesisState_wire m))" for m
    using genesis_wire_fold [OF that, of GenesisState_zero] by (simp add: GenesisState_zero_def)
  show "dec s x \<noteq> Inl Panic"
    if "GenesisState_fields n = Some (name, FMessage dec)" and "go_slice s" for n name dec s x
    using that params_pb.no_panic denom_pb.no_panic
    by (auto simp: GenesisState_fields_def Params_Unmarshal_def Denom_Unmarshal_def rbind_eq_Inl
        split: if_splits)
qed

end
