(* ===== verification/TF_Query_Pb.thy ===== *)
theory TF_Query_Pb
  imports TF_Params TF_Denom
begin

text \<open>
  The query messages of the token factory, \<open>x/tokenfactory/types/query.pb.go\<close>.  The messages of
  \<open>DenomAll\<close> carry a page request or response of the Cosmos SDK; that type and its generated
  code are a parameter, \<open>ext_message\<close>.
\<close>

abbreviation query_file :: pbfile where
  "query_file \<equiv> (Mod_tokenfactory, PbQuery)"

text \<open>The helpers the generator repeats in the file.\<close>

definition encodeVarintQuery :: "bytes \<Rightarrow> int \<Rightarrow> uint64 \<Rightarrow> pb_error + bytes \<times> int" where
  "encodeVarintQuery dAtA offset v = put_varint v (dAtA, offset)"

definition sovQuery :: "uint64 \<Rightarrow> nat" where
  "sovQuery x = sov x"

definition sozQuery :: "uint64 \<Rightarrow> nat" where
  "sozQuery x = soz x"

definition skipQuery :: "bytes \<Rightarrow> pb_error + int" where
  "skipQuery dAtA = skip_field query_file dAtA"


section \<open>Params\<close>

text \<open>The request of \<open>Query/Params\<close>.\<close>

datatype QueryParamsRequest = QueryParamsRequest

definition QueryParamsRequest_Size :: "QueryParamsRequest \<Rightarrow> nat" where
  "QueryParamsRequest_Size m = 0"

definition QueryParamsRequest_MarshalToSizedBuffer :: "QueryParamsRequest \<Rightarrow> bytes \<Rightarrow> pb_error + bytes \<times> int" where
  "QueryParamsRequest_MarshalToSizedBuffer m = to_sized_buffer []"

definition QueryParamsRequest_Marshal :: "QueryParamsRequest \<Rightarrow> pb_error + bytes" where
  "QueryParamsRequest_Marshal m = marshal (QueryParamsRequest_Size m) (QueryParamsRequest_MarshalToSizedBuffer m)"

definition QueryParamsRequest_MarshalTo :: "QueryParamsRequest \<Rightarrow> bytes \<Rightarrow> pb_error + bytes \<times> int" where
  "QueryParamsRequest_MarshalTo m = marshal_to (QueryParamsRequest_Size m) (QueryParamsRequest_MarshalToSizedBuffer m)"

definition QueryParamsRequest_fields :: "QueryParamsRequest fields" where
  "QueryParamsRequest_fields n = None"

definition QueryParamsRequest_Unmarshal :: "bytes \<Rightarrow> QueryParamsRequest \<Rightarrow> pb_error + QueryParamsRequest" where
  "QueryParamsRequest_Unmarshal = unmarshal query_file ''QueryParamsRequest'' QueryParamsRequest_fields"

definition QueryParamsRequest_wire :: "QueryParamsRequest \<Rightarrow> wire_field list" where
  "QueryParamsRequest_wire m = []"

interpretation query_params_request_pb: pb_message query_file "''QueryParamsRequest''" QueryParamsRequest_fields QueryParamsRequest QueryParamsRequest_Size
  QueryParamsRequest_MarshalToSizedBuffer QueryParamsRequest_wire
proof unfold_locales
  show "fills (QueryParamsRequest_MarshalToSizedBuffer m) (enc_fields (QueryParamsRequest_wire m))" for m
    unfolding QueryParamsRequest_MarshalToSizedBuffer_def
    by (rule fills_to_sized_buffer) (simp add: QueryParamsRequest_wire_def put_seq_nil writes_skip)
  show "rfold (apply_field QueryParamsRequest_fields) (QueryParamsRequest_wire m) QueryParamsRequest = Inr m" for m
    by (cases m) (simp add: QueryParamsRequest_wire_def)
qed (simp_all add: QueryParamsRequest_Size_def QueryParamsRequest_wire_def QueryParamsRequest_fields_def)
text \<open>Its response.\<close>

record QueryParamsResponse =
  QueryParamsResponse_Params :: Params

definition QueryParamsResponse_zero :: QueryParamsResponse where
  "QueryParamsResponse_zero = \<lparr>QueryParamsResponse_Params = Params\<rparr>"

definition QueryParamsResponse_Size :: "QueryParamsResponse \<Rightarrow> nat" where
  "QueryParamsResponse_Size m =
     size_bytes (Params_Size (QueryParamsResponse_Params m))"

definition QueryParamsResponse_MarshalToSizedBuffer :: "QueryParamsResponse \<Rightarrow> bytes \<Rightarrow> pb_error + bytes \<times> int" where
  "QueryParamsResponse_MarshalToSizedBuffer m = to_sized_buffer
     [put_message 0x0a (Params_MarshalToSizedBuffer (QueryParamsResponse_Params m))]"

definition QueryParamsResponse_Marshal :: "QueryParamsResponse \<Rightarrow> pb_error + bytes" where
  "QueryParamsResponse_Marshal m = marshal (QueryParamsResponse_Size m) (QueryParamsResponse_MarshalToSizedBuffer m)"

definition QueryParamsResponse_MarshalTo :: "QueryParamsResponse \<Rightarrow> bytes \<Rightarrow> pb_error + bytes \<times> int" where
  "QueryParamsResponse_MarshalTo m = marshal_to (QueryParamsResponse_Size m) (QueryParamsResponse_MarshalToSizedBuffer m)"

definition QueryParamsResponse_fields :: "QueryParamsResponse fields" where
  "QueryParamsResponse_fields n =
     (if n = 1 then 
        Some (''Params'', FMessage (\<lambda>s m.
          rbind (Params_Unmarshal s (QueryParamsResponse_Params m)) (\<lambda>x. Inr (m\<lparr>QueryParamsResponse_Params := x\<rparr>))))
      else None)"

definition QueryParamsResponse_Unmarshal :: "bytes \<Rightarrow> QueryParamsResponse \<Rightarrow> pb_error + QueryParamsResponse" where
  "QueryParamsResponse_Unmarshal = unmarshal query_file ''QueryParamsResponse'' QueryParamsResponse_fields"

definition QueryParamsResponse_wire :: "QueryParamsResponse \<Rightarrow> wire_field list" where
  "QueryParamsResponse_wire m =
     [WBytes 1 (enc_fields (Params_wire (QueryParamsResponse_Params m)))]"

interpretation query_params_response_pb: pb_message query_file "''QueryParamsResponse''" QueryParamsResponse_fields QueryParamsResponse_zero
  QueryParamsResponse_Size QueryParamsResponse_MarshalToSizedBuffer QueryParamsResponse_wire
  by (rule embedded_message [OF params_pb.pb_message_axioms, where f = params_file
        and msg = "''Params''" and inner = QueryParamsResponse_Params
        and upd = "\<lambda>x m. m\<lparr>QueryParamsResponse_Params := x\<rparr>" and name = "''Params''"])
    (simp_all add: QueryParamsResponse_zero_def QueryParamsResponse_fields_def Params_Unmarshal_def
      QueryParamsResponse_Size_def QueryParamsResponse_MarshalToSizedBuffer_def QueryParamsResponse_wire_def)


section \<open>Denom\<close>

text \<open>The request of \<open>Query/Denom\<close>.\<close>

record QueryGetDenomRequest =
  QueryGetDenomRequest_Denom :: gostring

definition QueryGetDenomRequest_zero :: QueryGetDenomRequest where
  "QueryGetDenomRequest_zero = \<lparr>QueryGetDenomRequest_Denom = []\<rparr>"

definition QueryGetDenomRequest_Size :: "QueryGetDenomRequest \<Rightarrow> nat" where
  "QueryGetDenomRequest_Size m =
     size_string (QueryGetDenomRequest_Denom m)"

definition QueryGetDenomRequest_MarshalToSizedBuffer :: "QueryGetDenomRequest \<Rightarrow> bytes \<Rightarrow> pb_error + bytes \<times> int" where
  "QueryGetDenomRequest_MarshalToSizedBuffer m = to_sized_buffer
     [put_string 0x0a (QueryGetDenomRequest_Denom m)]"

definition QueryGetDenomRequest_Marshal :: "QueryGetDenomRequest \<Rightarrow> pb_error + bytes" where
  "QueryGetDenomRequest_Marshal m = marshal (QueryGetDenomRequest_Size m) (QueryGetDenomRequest_MarshalToSizedBuffer m)"

definition QueryGetDenomRequest_MarshalTo :: "QueryGetDenomRequest \<Rightarrow> bytes \<Rightarrow> pb_error + bytes \<times> int" where
  "QueryGetDenomRequest_MarshalTo m = marshal_to (QueryGetDenomRequest_Size m) (QueryGetDenomRequest_MarshalToSizedBuffer m)"

definition QueryGetDenomRequest_fields :: "QueryGetDenomRequest fields" where
  "QueryGetDenomRequest_fields n =
     (if n = 1 then 
        Some (''Denom'', FString (\<lambda>s m. m\<lparr>QueryGetDenomRequest_Denom := s\<rparr>))
      else None)"

definition QueryGetDenomRequest_Unmarshal :: "bytes \<Rightarrow> QueryGetDenomRequest \<Rightarrow> pb_error + QueryGetDenomRequest" where
  "QueryGetDenomRequest_Unmarshal = unmarshal query_file ''QueryGetDenomRequest'' QueryGetDenomRequest_fields"

definition QueryGetDenomRequest_wire :: "QueryGetDenomRequest \<Rightarrow> wire_field list" where
  "QueryGetDenomRequest_wire m =
     w_string 1 (QueryGetDenomRequest_Denom m)"

lemma QueryGetDenomRequest_fills: "fills (QueryGetDenomRequest_MarshalToSizedBuffer m) (enc_fields (QueryGetDenomRequest_wire m))"
proof -
  have "list_all2 writes
      [put_string 0x0a (QueryGetDenomRequest_Denom m)]
      (map enc_fields [w_string 1 (QueryGetDenomRequest_Denom m)])"
    by (simp add: writes_wire key_byte_def)
  from fills_to_sized_buffer [OF writes_seq [OF this]] show ?thesis
    by (simp add: QueryGetDenomRequest_MarshalToSizedBuffer_def QueryGetDenomRequest_wire_def)
qed

interpretation query_get_denom_request_pb: pb_message query_file "''QueryGetDenomRequest''" QueryGetDenomRequest_fields QueryGetDenomRequest_zero
  QueryGetDenomRequest_Size QueryGetDenomRequest_MarshalToSizedBuffer QueryGetDenomRequest_wire
proof unfold_locales
  show "fills (QueryGetDenomRequest_MarshalToSizedBuffer m) (enc_fields (QueryGetDenomRequest_wire m))" for m
    by (rule QueryGetDenomRequest_fills)
  show "QueryGetDenomRequest_Size m = length (enc_fields (QueryGetDenomRequest_wire m))" for m
    by (simp add: QueryGetDenomRequest_Size_def QueryGetDenomRequest_wire_def)
  show "list_all wf_field (QueryGetDenomRequest_wire m)" for m
    by (simp add: QueryGetDenomRequest_wire_def)
  show "rfold (apply_field QueryGetDenomRequest_fields) (QueryGetDenomRequest_wire m) QueryGetDenomRequest_zero = Inr m" for m
    by (simp add: QueryGetDenomRequest_wire_def QueryGetDenomRequest_zero_def QueryGetDenomRequest_fields_def rfold_wire)
  show "dec s x \<noteq> Inl Panic" if "QueryGetDenomRequest_fields n = Some (name, FMessage dec)"
    for n name dec s x
    using that by (simp add: QueryGetDenomRequest_fields_def split: if_splits)
qed
text \<open>Its response.\<close>

record QueryGetDenomResponse =
  QueryGetDenomResponse_Denom :: Denom

definition QueryGetDenomResponse_zero :: QueryGetDenomResponse where
  "QueryGetDenomResponse_zero = \<lparr>QueryGetDenomResponse_Denom = Denom_zero\<rparr>"

definition QueryGetDenomResponse_Size :: "QueryGetDenomResponse \<Rightarrow> nat" where
  "QueryGetDenomResponse_Size m =
     size_bytes (Denom_Size (QueryGetDenomResponse_Denom m))"

definition QueryGetDenomResponse_MarshalToSizedBuffer :: "QueryGetDenomResponse \<Rightarrow> bytes \<Rightarrow> pb_error + bytes \<times> int" where
  "QueryGetDenomResponse_MarshalToSizedBuffer m = to_sized_buffer
     [put_message 0x0a (Denom_MarshalToSizedBuffer (QueryGetDenomResponse_Denom m))]"

definition QueryGetDenomResponse_Marshal :: "QueryGetDenomResponse \<Rightarrow> pb_error + bytes" where
  "QueryGetDenomResponse_Marshal m = marshal (QueryGetDenomResponse_Size m) (QueryGetDenomResponse_MarshalToSizedBuffer m)"

definition QueryGetDenomResponse_MarshalTo :: "QueryGetDenomResponse \<Rightarrow> bytes \<Rightarrow> pb_error + bytes \<times> int" where
  "QueryGetDenomResponse_MarshalTo m = marshal_to (QueryGetDenomResponse_Size m) (QueryGetDenomResponse_MarshalToSizedBuffer m)"

definition QueryGetDenomResponse_fields :: "QueryGetDenomResponse fields" where
  "QueryGetDenomResponse_fields n =
     (if n = 1 then 
        Some (''Denom'', FMessage (\<lambda>s m.
          rbind (Denom_Unmarshal s (QueryGetDenomResponse_Denom m)) (\<lambda>x. Inr (m\<lparr>QueryGetDenomResponse_Denom := x\<rparr>))))
      else None)"

definition QueryGetDenomResponse_Unmarshal :: "bytes \<Rightarrow> QueryGetDenomResponse \<Rightarrow> pb_error + QueryGetDenomResponse" where
  "QueryGetDenomResponse_Unmarshal = unmarshal query_file ''QueryGetDenomResponse'' QueryGetDenomResponse_fields"

definition QueryGetDenomResponse_wire :: "QueryGetDenomResponse \<Rightarrow> wire_field list" where
  "QueryGetDenomResponse_wire m =
     [WBytes 1 (enc_fields (Denom_wire (QueryGetDenomResponse_Denom m)))]"

interpretation query_get_denom_response_pb: pb_message query_file "''QueryGetDenomResponse''" QueryGetDenomResponse_fields QueryGetDenomResponse_zero
  QueryGetDenomResponse_Size QueryGetDenomResponse_MarshalToSizedBuffer QueryGetDenomResponse_wire
  by (rule embedded_message [OF denom_pb.pb_message_axioms, where f = denom_file
        and msg = "''Denom''" and inner = QueryGetDenomResponse_Denom
        and upd = "\<lambda>x m. m\<lparr>QueryGetDenomResponse_Denom := x\<rparr>" and name = "''Denom''"])
    (simp_all add: QueryGetDenomResponse_zero_def QueryGetDenomResponse_fields_def Denom_Unmarshal_def
      QueryGetDenomResponse_Size_def QueryGetDenomResponse_MarshalToSizedBuffer_def QueryGetDenomResponse_wire_def)


section \<open>DenomAll\<close>

text \<open>
  A message of another module: its zero value, \<open>Size\<close>, \<open>MarshalToSizedBuffer\<close> and
  \<open>Unmarshal\<close>.
\<close>

record 'p ext_message =
  ext_zero :: 'p
  ext_Size :: "'p \<Rightarrow> nat"
  ext_MarshalToSizedBuffer :: "'p \<Rightarrow> bytes \<Rightarrow> pb_error + bytes \<times> int"
  ext_Unmarshal :: "bytes \<Rightarrow> 'p \<Rightarrow> pb_error + 'p"

text \<open>
  What gogoproto documents of a generated message: \<open>MarshalToSizedBuffer\<close> writes the encoding
  of the message, of \<open>Size\<close> bytes, at the end of the buffer, \<open>Unmarshal\<close> of it into the zero
  value gives the message back, and \<open>Unmarshal\<close> returns an error instead of panicking.
\<close>

definition ext_contract :: "'p ext_message \<Rightarrow> ('p \<Rightarrow> bytes) \<Rightarrow> bool" where
  "ext_contract X enc \<longleftrightarrow>
     (\<forall>p. fills (ext_MarshalToSizedBuffer X p) (enc p)
        \<and> ext_Size X p = length (enc p)
        \<and> (go_slice (enc p) \<longrightarrow> ext_Unmarshal X (enc p) (ext_zero X) = Inr p)
        \<and> (\<forall>s. go_slice s \<longrightarrow> ext_Unmarshal X s p \<noteq> Inl Panic))"

lemma ext_contractD:
  assumes "ext_contract X enc"
  shows "fills (ext_MarshalToSizedBuffer X p) (enc p)" "ext_Size X p = length (enc p)"
    "go_slice (enc p) \<Longrightarrow> ext_Unmarshal X (enc p) (ext_zero X) = Inr p"
    "go_slice s \<Longrightarrow> ext_Unmarshal X s p \<noteq> Inl Panic"
  using assms by (auto simp: ext_contract_def)

text \<open>
  A pointer field: nil is left out, and the first occurrence allocates the zero value.
\<close>

definition put_pointer :: "byte \<Rightarrow> 'p ext_message \<Rightarrow> 'p option \<Rightarrow> writer" where
  "put_pointer key X p =
     (case p of None \<Rightarrow> Inr | Some x \<Rightarrow> put_message key (ext_MarshalToSizedBuffer X x))"

definition size_pointer :: "'p ext_message \<Rightarrow> 'p option \<Rightarrow> nat" where
  "size_pointer X p = (case p of None \<Rightarrow> 0 | Some x \<Rightarrow> size_bytes (ext_Size X x))"

definition dec_pointer :: "'p ext_message \<Rightarrow> bytes \<Rightarrow> 'p option \<Rightarrow> pb_error + 'p option" where
  "dec_pointer X s p =
     rbind (ext_Unmarshal X s (case p of None \<Rightarrow> ext_zero X | Some x \<Rightarrow> x)) (\<lambda>x. Inr (Some x))"

definition w_pointer :: "nat \<Rightarrow> ('p \<Rightarrow> bytes) \<Rightarrow> 'p option \<Rightarrow> wire_field list" where
  "w_pointer n enc p = (case p of None \<Rightarrow> [] | Some x \<Rightarrow> [WBytes n (enc x)])"

lemma writes_w_pointer:
  assumes "ext_contract X enc" "n < 16" "key = key_byte n 2"
  shows "writes (put_pointer key X p) (enc_fields (w_pointer n enc p))"
proof (cases p)
  case (Some x)
  have "writes (put_message key (ext_MarshalToSizedBuffer X x)) (enc_fields [WBytes n (enc x)])"
    using ext_contractD(1) [OF assms(1)] assms(2,3) by (rule writes_w_message)
  then show ?thesis using Some by (simp add: put_pointer_def w_pointer_def)
qed (simp add: put_pointer_def w_pointer_def writes_skip)

lemma length_w_pointer:
  "ext_contract X enc \<Longrightarrow> n < 16 \<Longrightarrow>
    length (enc_fields (w_pointer n enc p)) = size_pointer X p"
  by (cases p) (simp_all add: w_pointer_def size_pointer_def ext_contractD(2) del: enc_field.simps)

lemma wf_w_pointer: "0 < n \<Longrightarrow> n < 16 \<Longrightarrow> list_all wf_field (w_pointer n enc p)"
  by (cases p) (simp_all add: w_pointer_def)

lemma dec_pointer_no_panic:
  "ext_contract X enc \<Longrightarrow> go_slice s \<Longrightarrow> dec_pointer X s p \<noteq> Inl Panic"
  by (auto simp: dec_pointer_def rbind_eq_Inl ext_contractD(4) split: option.splits)

lemma dec_pointer_enc:
  "ext_contract X enc \<Longrightarrow> go_slice (enc x) \<Longrightarrow> dec_pointer X (enc x) None = Inr (Some x)"
  by (simp add: dec_pointer_def ext_contractD(3))

text \<open>The request of \<open>Query/DenomAll\<close>.\<close>

record 'p QueryAllDenomRequest =
  QueryAllDenomRequest_Pagination :: "'p option"

definition QueryAllDenomRequest_zero :: "'p QueryAllDenomRequest" where
  "QueryAllDenomRequest_zero = \<lparr>QueryAllDenomRequest_Pagination = None\<rparr>"

definition QueryAllDenomRequest_Size :: "'p ext_message \<Rightarrow> 'p QueryAllDenomRequest \<Rightarrow> nat" where
  "QueryAllDenomRequest_Size X m = size_pointer X (QueryAllDenomRequest_Pagination m)"

definition QueryAllDenomRequest_MarshalToSizedBuffer ::
  "'p ext_message \<Rightarrow> 'p QueryAllDenomRequest \<Rightarrow> bytes \<Rightarrow> pb_error + bytes \<times> int" where
  "QueryAllDenomRequest_MarshalToSizedBuffer X m = to_sized_buffer
     [put_pointer 0x0a X (QueryAllDenomRequest_Pagination m)]"

definition QueryAllDenomRequest_Marshal ::
  "'p ext_message \<Rightarrow> 'p QueryAllDenomRequest \<Rightarrow> pb_error + bytes" where
  "QueryAllDenomRequest_Marshal X m =
     marshal (QueryAllDenomRequest_Size X m) (QueryAllDenomRequest_MarshalToSizedBuffer X m)"

definition QueryAllDenomRequest_MarshalTo ::
  "'p ext_message \<Rightarrow> 'p QueryAllDenomRequest \<Rightarrow> bytes \<Rightarrow> pb_error + bytes \<times> int" where
  "QueryAllDenomRequest_MarshalTo X m =
     marshal_to (QueryAllDenomRequest_Size X m) (QueryAllDenomRequest_MarshalToSizedBuffer X m)"

definition QueryAllDenomRequest_fields ::
  "'p ext_message \<Rightarrow> 'p QueryAllDenomRequest fields" where
  "QueryAllDenomRequest_fields X n =
     (if n = 1 then
        Some (''Pagination'', FMessage (\<lambda>s m.
          rbind (dec_pointer X s (QueryAllDenomRequest_Pagination m)) (\<lambda>p.
            Inr (m\<lparr>QueryAllDenomRequest_Pagination := p\<rparr>))))
      else None)"

definition QueryAllDenomRequest_Unmarshal ::
  "'p ext_message \<Rightarrow> bytes \<Rightarrow> 'p QueryAllDenomRequest \<Rightarrow> pb_error + 'p QueryAllDenomRequest" where
  "QueryAllDenomRequest_Unmarshal X =
     unmarshal query_file ''QueryAllDenomRequest'' (QueryAllDenomRequest_fields X)"

definition QueryAllDenomRequest_wire ::
  "('p \<Rightarrow> bytes) \<Rightarrow> 'p QueryAllDenomRequest \<Rightarrow> wire_field list" where
  "QueryAllDenomRequest_wire enc m = w_pointer 1 enc (QueryAllDenomRequest_Pagination m)"

lemma query_all_denom_request_pb:
  assumes X: "ext_contract X enc"
  shows "pb_message (QueryAllDenomRequest_fields X) QueryAllDenomRequest_zero
    (QueryAllDenomRequest_Size X) (QueryAllDenomRequest_MarshalToSizedBuffer X)
    (QueryAllDenomRequest_wire enc)"
proof
  show "fills (QueryAllDenomRequest_MarshalToSizedBuffer X m)
      (enc_fields (QueryAllDenomRequest_wire enc m))" for m
  proof -
    have "list_all2 writes [put_pointer 0x0a X (QueryAllDenomRequest_Pagination m)]
        [enc_fields (QueryAllDenomRequest_wire enc m)]"
      using writes_w_pointer [OF X, of 1 "0x0a"]
      by (simp add: QueryAllDenomRequest_wire_def key_byte_def)
    from fills_to_sized_buffer [OF writes_seq [OF this]] show ?thesis
      by (simp add: QueryAllDenomRequest_MarshalToSizedBuffer_def)
  qed
  show "QueryAllDenomRequest_Size X m = length (enc_fields (QueryAllDenomRequest_wire enc m))" for m
    by (simp add: QueryAllDenomRequest_Size_def QueryAllDenomRequest_wire_def length_w_pointer [OF X])
  show "list_all wf_field (QueryAllDenomRequest_wire enc m)" for m
    by (simp add: QueryAllDenomRequest_wire_def wf_w_pointer)
  show "rfold (apply_field (QueryAllDenomRequest_fields X)) (QueryAllDenomRequest_wire enc m)
      QueryAllDenomRequest_zero = Inr m"
    if g: "go_slice (enc_fields (QueryAllDenomRequest_wire enc m))" for m
  proof (cases "QueryAllDenomRequest_Pagination m")
    case (Some p)
    have "go_slice (enc p)"
      by (rule go_slice_nested [OF _ g, where n = 1])
        (simp add: QueryAllDenomRequest_wire_def w_pointer_def Some)
    from dec_pointer_enc [OF X this] Some show ?thesis
      by (simp add: QueryAllDenomRequest_wire_def w_pointer_def apply_field_def
          QueryAllDenomRequest_fields_def QueryAllDenomRequest_zero_def)
  qed (simp add: QueryAllDenomRequest_wire_def w_pointer_def QueryAllDenomRequest_zero_def)
  show "dec s x \<noteq> Inl Panic"
    if "QueryAllDenomRequest_fields X n = Some (name, FMessage dec)" and "go_slice s"
    for n name dec s x
    using that dec_pointer_no_panic [OF X that(2)]
    by (auto simp: QueryAllDenomRequest_fields_def rbind_eq_Inl split: if_splits)
qed

text \<open>The response: the denoms of the page and the page response.\<close>

record 'p QueryAllDenomResponse =
  QueryAllDenomResponse_Denom :: "Denom list"
  QueryAllDenomResponse_Pagination :: "'p option"

definition QueryAllDenomResponse_zero :: "'p QueryAllDenomResponse" where
  "QueryAllDenomResponse_zero =
     \<lparr>QueryAllDenomResponse_Denom = [], QueryAllDenomResponse_Pagination = None\<rparr>"

definition QueryAllDenomResponse_Size :: "'p ext_message \<Rightarrow> 'p QueryAllDenomResponse \<Rightarrow> nat" where
  "QueryAllDenomResponse_Size X m =
     sum_list (map (\<lambda>e. size_bytes (Denom_Size e)) (QueryAllDenomResponse_Denom m))
   + size_pointer X (QueryAllDenomResponse_Pagination m)"

definition QueryAllDenomResponse_MarshalToSizedBuffer ::
  "'p ext_message \<Rightarrow> 'p QueryAllDenomResponse \<Rightarrow> bytes \<Rightarrow> pb_error + bytes \<times> int" where
  "QueryAllDenomResponse_MarshalToSizedBuffer X m = to_sized_buffer
     [put_pointer 0x12 X (QueryAllDenomResponse_Pagination m),
      put_repeated 0x0a (map Denom_MarshalToSizedBuffer (QueryAllDenomResponse_Denom m))]"

definition QueryAllDenomResponse_Marshal ::
  "'p ext_message \<Rightarrow> 'p QueryAllDenomResponse \<Rightarrow> pb_error + bytes" where
  "QueryAllDenomResponse_Marshal X m =
     marshal (QueryAllDenomResponse_Size X m) (QueryAllDenomResponse_MarshalToSizedBuffer X m)"

definition QueryAllDenomResponse_MarshalTo ::
  "'p ext_message \<Rightarrow> 'p QueryAllDenomResponse \<Rightarrow> bytes \<Rightarrow> pb_error + bytes \<times> int" where
  "QueryAllDenomResponse_MarshalTo X m =
     marshal_to (QueryAllDenomResponse_Size X m) (QueryAllDenomResponse_MarshalToSizedBuffer X m)"

definition QueryAllDenomResponse_fields ::
  "'p ext_message \<Rightarrow> 'p QueryAllDenomResponse fields" where
  "QueryAllDenomResponse_fields X n =
     (if n = 1 then
        Some (''Denom'', FMessage (\<lambda>s m.
          rbind (Denom_Unmarshal s Denom_zero) (\<lambda>x.
            Inr (m\<lparr>QueryAllDenomResponse_Denom := QueryAllDenomResponse_Denom m @ [x]\<rparr>))))
      else if n = 2 then
        Some (''Pagination'', FMessage (\<lambda>s m.
          rbind (dec_pointer X s (QueryAllDenomResponse_Pagination m)) (\<lambda>p.
            Inr (m\<lparr>QueryAllDenomResponse_Pagination := p\<rparr>))))
      else None)"

definition QueryAllDenomResponse_Unmarshal ::
  "'p ext_message \<Rightarrow> bytes \<Rightarrow> 'p QueryAllDenomResponse \<Rightarrow> pb_error + 'p QueryAllDenomResponse" where
  "QueryAllDenomResponse_Unmarshal X =
     unmarshal query_file ''QueryAllDenomResponse'' (QueryAllDenomResponse_fields X)"

definition QueryAllDenomResponse_wire ::
  "('p \<Rightarrow> bytes) \<Rightarrow> 'p QueryAllDenomResponse \<Rightarrow> wire_field list" where
  "QueryAllDenomResponse_wire enc m =
     map (\<lambda>e. WBytes 1 (enc_fields (Denom_wire e))) (QueryAllDenomResponse_Denom m)
   @ w_pointer 2 enc (QueryAllDenomResponse_Pagination m)"

lemma QueryAllDenomResponse_fills:
  assumes X: "ext_contract X enc"
  shows "fills (QueryAllDenomResponse_MarshalToSizedBuffer X m)
    (enc_fields (QueryAllDenomResponse_wire enc m))"
proof -
  let ?ds = "map (\<lambda>e. enc_fields (Denom_wire e)) (QueryAllDenomResponse_Denom m)"
  have "list_all2 fills (map Denom_MarshalToSizedBuffer (QueryAllDenomResponse_Denom m)) ?ds"
    by (simp add: list_all2_conv_all_nth Denom_fills)
  then have "writes (put_repeated 0x0a (map Denom_MarshalToSizedBuffer (QueryAllDenomResponse_Denom m)))
      (enc_fields (map (WBytes 1) ?ds))"
    by (rule writes_w_repeated) (simp_all add: key_byte_def)
  moreover have "writes (put_pointer 0x12 X (QueryAllDenomResponse_Pagination m))
      (enc_fields (w_pointer 2 enc (QueryAllDenomResponse_Pagination m)))"
    using X by (rule writes_w_pointer) (simp_all add: key_byte_def)
  ultimately have "list_all2 writes
      [put_pointer 0x12 X (QueryAllDenomResponse_Pagination m),
       put_repeated 0x0a (map Denom_MarshalToSizedBuffer (QueryAllDenomResponse_Denom m))]
      [enc_fields (w_pointer 2 enc (QueryAllDenomResponse_Pagination m)),
       enc_fields (map (WBytes 1) ?ds)]"
    by simp
  from fills_to_sized_buffer [OF writes_seq [OF this]] show ?thesis
    by (simp add: QueryAllDenomResponse_MarshalToSizedBuffer_def QueryAllDenomResponse_wire_def
        comp_def del: enc_field.simps)
qed

lemma QueryAllDenomResponse_fold:
  assumes X: "ext_contract X enc" and g: "go_slice (enc_fields (QueryAllDenomResponse_wire enc m))"
  shows "rfold (apply_field (QueryAllDenomResponse_fields X)) (QueryAllDenomResponse_wire enc m)
    QueryAllDenomResponse_zero = Inr m"
proof -
  have d: "Denom_Unmarshal (enc_fields (Denom_wire e)) Denom_zero = Inr e"
    if "e \<in> set (QueryAllDenomResponse_Denom m)" for e
  proof -
    have "go_slice (enc_fields (Denom_wire e))"
      using that
      by (intro go_slice_nested [OF _ g, where n = 1]) (simp add: QueryAllDenomResponse_wire_def)
    then show ?thesis
      unfolding Denom_Unmarshal_def by (rule denom_pb.unmarshal_wire)
  qed
  let ?upd = "\<lambda>x m :: 'a QueryAllDenomResponse.
    m\<lparr>QueryAllDenomResponse_Denom := QueryAllDenomResponse_Denom m @ [x]\<rparr>"
  have f: "fold ?upd xs r
      = r\<lparr>QueryAllDenomResponse_Denom := QueryAllDenomResponse_Denom r @ xs\<rparr>" for xs r
    by (induction xs arbitrary: r) simp_all
  have r: "rfold (apply_field (QueryAllDenomResponse_fields X))
      (map (\<lambda>e. WBytes 1 (enc_fields (Denom_wire e))) (QueryAllDenomResponse_Denom m) @ rest) r
    = rfold (apply_field (QueryAllDenomResponse_fields X)) rest
        (fold ?upd (QueryAllDenomResponse_Denom m) r)" for r rest
    using rfold_w_repeated [where flds = "QueryAllDenomResponse_fields X" and n = 1
        and dec = Denom_Unmarshal and z = Denom_zero and upd = ?upd
        and enc = "\<lambda>e. enc_fields (Denom_wire e)"
        and xs = "QueryAllDenomResponse_Denom m" and rest = rest and m = r, OF _ d]
    by (simp add: QueryAllDenomResponse_fields_def)
  show ?thesis
  proof (cases "QueryAllDenomResponse_Pagination m")
    case None
    then show ?thesis
      using r [of "[]" QueryAllDenomResponse_zero]
      by (simp add: QueryAllDenomResponse_wire_def w_pointer_def f QueryAllDenomResponse_zero_def)
  next
    case (Some p)
    have "go_slice (enc p)"
      by (rule go_slice_nested [OF _ g, where n = 2])
        (simp add: QueryAllDenomResponse_wire_def w_pointer_def Some)
    from dec_pointer_enc [OF X this] Some show ?thesis
      by (simp add: QueryAllDenomResponse_wire_def w_pointer_def r f del: One_nat_def)
        (simp add: apply_field_def QueryAllDenomResponse_fields_def QueryAllDenomResponse_zero_def)
  qed
qed

lemma query_all_denom_response_pb:
  assumes X: "ext_contract X enc"
  shows "pb_message (QueryAllDenomResponse_fields X) QueryAllDenomResponse_zero
    (QueryAllDenomResponse_Size X) (QueryAllDenomResponse_MarshalToSizedBuffer X)
    (QueryAllDenomResponse_wire enc)"
proof
  show "fills (QueryAllDenomResponse_MarshalToSizedBuffer X m)
      (enc_fields (QueryAllDenomResponse_wire enc m))" for m
    using X by (rule QueryAllDenomResponse_fills)
  show "QueryAllDenomResponse_Size X m = length (enc_fields (QueryAllDenomResponse_wire enc m))" for m
    using length_w_pointer [OF X, of 2 "QueryAllDenomResponse_Pagination m"]
    by (simp add: QueryAllDenomResponse_Size_def QueryAllDenomResponse_wire_def denom_pb.Size_wire
        del: enc_field.simps)
  show "list_all wf_field (QueryAllDenomResponse_wire enc m)" for m
    by (simp add: QueryAllDenomResponse_wire_def wf_w_pointer list_all_iff [of _ "map _ _"])
  show "rfold (apply_field (QueryAllDenomResponse_fields X)) (QueryAllDenomResponse_wire enc m)
      QueryAllDenomResponse_zero = Inr m"
    if "go_slice (enc_fields (QueryAllDenomResponse_wire enc m))" for m
    using X that by (rule QueryAllDenomResponse_fold)
  show "dec s x \<noteq> Inl Panic"
    if "QueryAllDenomResponse_fields X n = Some (name, FMessage dec)" and "go_slice s"
    for n name dec s x
    using that dec_pointer_no_panic [OF X that(2)] denom_pb.no_panic
    by (auto simp: QueryAllDenomResponse_fields_def Denom_Unmarshal_def rbind_eq_Inl
        split: if_splits)
qed

end
