(* ===== verification/TF_Codec.thy ===== *)
theory TF_Codec
  imports TF_Tx TF_Genesis_Pb TF_Query_Pb
begin

text \<open>
  What the generated protobuf code of the token factory guarantees: the properties of the
  messages in \<open>denom.pb.go\<close>, \<open>tx.pb.go\<close>, \<open>genesis.pb.go\<close> and \<open>query.pb.go\<close>, each an instance of
  the contract \<open>pb_message\<close> its interpretation provides.
\<close>

section \<open>Varints\<close>

lemma put_varint_bytes:
  assumes "int (sov v) \<le> off" and "off \<le> int (length d)"
  shows "put_varint v (d, off)
    = Inr (take (nat off - sov v) d @ varint v @ drop (nat off) d, off - int (sov v))"
proof -
  let ?xs = "take (nat off - sov v) d"
  let ?zs = "take (sov v) (drop (nat off - sov v) d)"
  have xs: "length ?xs = nat off - sov v" and zs: "length ?zs = sov v"
    using assms by auto
  have "drop (nat off - sov v) d = ?zs @ drop (nat off) d"
    using assms append_take_drop_id [of "sov v" "drop (nat off - sov v) d"]
    by (simp add: add.commute)
  then have d: "?xs @ ?zs @ drop (nat off) d = d"
    using append_take_drop_id [of "nat off - sov v" d] by simp
  have "int (length ?xs) + int (length ?zs) = off" "int (length ?xs) = off - int (sov v)"
    using assms xs zs by auto
  then show ?thesis
    using writesD [OF writes_varint, of ?zs v ?xs "drop (nat off) d"] zs d
    by (simp add: length_varint)
qed

text \<open>
  The varint helpers agree.  \<open>encodeVarint\<close> fills the \<open>sov(v)\<close> bytes before the offset and no
  other byte of the buffer, returns where they start, and the loop of \<open>Unmarshal\<close>, started there,
  reads \<open>v\<close> back and stops at the offset.
\<close>

theorem encodeVarint_roundtrip:
  assumes "int (sovDenom v) \<le> offset" and "offset \<le> int (length dAtA)" and "go_slice dAtA"
  shows "\<exists>d'. encodeVarintDenom dAtA offset v = Inr (d', offset - int (sovDenom v))
    \<and> length d' = length dAtA
    \<and> (\<forall>j < length dAtA. int j < offset - int (sovDenom v) \<or> offset \<le> int j \<longrightarrow> d' ! j = dAtA ! j)
    \<and> read_varint denom_file d' (offset - int (sovDenom v)) 0 (0 :: uint64) = Inr (v, offset)"
proof -
  let ?xs = "take (nat offset - sov v) dAtA" and ?ys = "drop (nat offset) dAtA"
  let ?d = "?xs @ varint v @ ?ys"
  have s: "int (sov v) \<le> offset" using assms(1) by (simp add: sovDenom_def)
  have xs: "int (length ?xs) = offset - int (sov v)" and l: "length ?d = length dAtA"
    using s assms(2) by (auto simp: length_varint)
  have n: "?d ! j = dAtA ! j"
    if "j < length dAtA" "int j < offset - int (sov v) \<or> offset \<le> int j" for j
    using that s assms(2) by (auto simp: nth_append length_varint)
  have "go_slice ?d" using assms(3) l by (simp add: go_slice_def)
  from read_varint_0 [OF this, of denom_file, where 'a = 64] xs
  have "read_varint denom_file ?d (offset - int (sov v)) 0 (0 :: uint64) = Inr (v, offset)"
    by simp
  then show ?thesis
    using put_varint_bytes [OF s assms(2)] l n
    by (auto simp: encodeVarintDenom_def sovDenom_def)
qed

theorem encodeVarint_roundtrip_witness:
  "read_varint denom_file [0, 0xAC, 0x02, 7] 1 0 (0 :: uint64) = Inr (300, 3)"
proof -
  have s: "sovDenom 300 = 2" by code_simp
  have e: "encodeVarintDenom [0, 0, 0, 7] 3 300 = Inr ([0, 0xAC, 0x02, 7], 1)" by code_simp
  show ?thesis
    using encodeVarint_roundtrip [of 300 3 "[0, 0, 0, 7]"] by (simp add: s e go_slice_def)
qed

text \<open>
  \<open>sovX\<close>, computed with \<open>bits.Len64\<close>, is the number of bytes \<open>encodeVarint\<close> writes, at least
  1 and at most 10; \<open>sozX\<close> inherits the bounds.
\<close>

theorem sov_bounds:
  "sovTx v = length (varint v) \<and> 1 \<le> sovTx v \<and> sovTx v \<le> 10 \<and> 1 \<le> sozTx v \<and> sozTx v \<le> 10"
  using sov_pos [of v] sov_pos [of "push_bit 1 v XOR signed_drop_bit 63 v"]
  by (simp add: sovTx_def sozTx_def soz_def length_varint sov_le Suc_le_eq)

section \<open>Unknown fields\<close>

text \<open>
  \<open>skipTx\<close>, at the start of a field of any number and wire type, nested groups included,
  returns exactly the number of bytes the field takes.
\<close>

theorem skipTx_field:
  assumes "go_slice (enc_field x @ rest)" and "wf_field x"
  shows "skipTx (enc_field x @ rest) = Inr (int (length (enc_field x)))"
  unfolding skipTx_def using assms by (rule skip_field_enc)

theorem skipTx_field_witness:
  "skipTx (enc_field (WGroup 3 [WVarint 1 5, WGroup 2 [WBytes 4 [9]]]) @ [1, 2]) = Inr 9"
proof -
  have l: "length (enc_field (WGroup 3 [WVarint 1 5, WGroup 2 [WBytes 4 [9]]])) = 9" by code_simp
  show ?thesis
    using skipTx_field [of "WGroup 3 [WVarint 1 5, WGroup 2 [WBytes 4 [9]]]" "[1, 2]"] l
    by (simp add: go_slice_def)
qed

section \<open>Denom\<close>

text \<open>
  C38: \<open>Denom.Marshal\<close> never fails: every write stays inside the buffer of \<open>Size()\<close> bytes, and the
  buffer is filled completely.
\<close>

theorem Denom_Marshal_total:
  "\<exists>bs. Denom_Marshal m = Inr bs \<and> length bs = Denom_Size m"
  unfolding Denom_Marshal_def by (rule denom_pb.marshal_length)

text \<open>
  \<open>Denom.MarshalTo\<close> writes the same bytes at the start of the caller's buffer and leaves the
  rest of it; a buffer shorter than \<open>Size()\<close> makes it panic.
\<close>

theorem Denom_MarshalTo_spec:
  "Denom_MarshalTo m d =
    (if Denom_Size m \<le> length d
     then rbind (Denom_Marshal m) (\<lambda>bs. Inr (bs @ drop (Denom_Size m) d, int (Denom_Size m)))
     else Inl Panic)"
  by (simp add: Denom_MarshalTo_def Denom_Marshal_def denom_pb.marshal_to_wire
      denom_pb.marshal_wire)

text \<open>Decoding the encoding of a denom gives the denom back.\<close>

lemma Denom_roundtrip:
  assumes "int (Denom_Size m) < 2 ^ 63" and "Denom_Marshal m = Inr bs"
  shows "Denom_Unmarshal bs Denom_zero = Inr m"
  using assms unfolding Denom_Marshal_def Denom_Unmarshal_def by (rule denom_pb.roundtrip)

definition small_denom :: Denom where
  "small_denom = Denom_zero\<lparr>Denom_Denom := [0x61], Denom_Supply := - 1,
     Denom_CanChangeMaxSupply := True\<rparr>"

lemma small_denom_size: "int (Denom_Size small_denom) < 2 ^ 63"
  using Denom_Size_le [of small_denom] by (simp add: small_denom_def Denom_zero_def)

lemma small_denom_bytes: "Denom_Marshal small_denom
    = Inr [0x0a, 1, 0x61, 0x38, 255, 255, 255, 255, 255, 255, 255, 255, 255, 1, 0x40, 1]"
  unfolding Denom_Marshal_def denom_pb.marshal_wire by code_simp

text \<open>
  \<open>Denom.Unmarshal\<close> computes the protobuf semantics.  On the encoding of any list of fields,
  in any order and with repetitions, known or not, it applies them one after the other: a string,
  a 32-bit integer or a boolean sets its field and the last occurrence wins, an unknown field is
  ignored, and a known field of the wrong wire type is the error \<open>wrong wireType\<close>.
\<close>

theorem Denom_Unmarshal_fields:
  assumes "go_slice (enc_fields fs)" and "list_all wf_field fs"
  shows "Denom_Unmarshal (enc_fields fs) m = rfold (apply_field Denom_fields) fs m"
  unfolding Denom_Unmarshal_def using assms by (rule unmarshal_fields)

theorem Denom_Unmarshal_fields_witness:
  "Denom_Unmarshal (enc_fields [WBytes 9 [1], WFixed32 40 [0, 0, 0, 0], WBytes 9 [2]]) Denom_zero
    = Inr (Denom_zero\<lparr>Denom_Owner := [2]\<rparr>)
  \<and> Denom_Unmarshal (enc_fields [WVarint 9 1]) Denom_zero = Inl (ErrWrongWireType 0 ''Owner'')"
proof -
  have l: "length (enc_fields [WBytes 9 [1], WFixed32 40 [0, 0, 0, 0], WBytes 9 [2]]) = 12"
    "length (enc_fields [WVarint 9 1]) = 2"
    by code_simp+
  show ?thesis
    using Denom_Unmarshal_fields [of "[WBytes 9 [1], WFixed32 40 [0, 0, 0, 0], WBytes 9 [2]]"]
      Denom_Unmarshal_fields [of "[WVarint 9 1]"] l
    by (simp add: go_slice_def apply_field_def Denom_fields_def Denom_zero_def)
qed

text \<open>
  Forward compatibility.  Fields with numbers the message does not have, after its encoding,
  do not change what is decoded.
\<close>

theorem Denom_unknown_fields:
  assumes "Denom_Marshal m = Inr bs" and "go_slice (bs @ enc_fields fs)"
    and "list_all wf_field fs" and "\<forall>x \<in> set fs. 9 < field_num x"
  shows "Denom_Unmarshal (bs @ enc_fields fs) Denom_zero = Inr m"
proof -
  have "Denom_fields (of_nat (field_num x)) = None" if x: "x \<in> set fs" for x
  proof -
    have "field_num x < 2 ^ 29" and "9 < field_num x"
      using assms(3,4) x by (cases x, auto simp: list_all_iff)+
    moreover have "unat (of_nat n :: int32) = n" if "n < 2 ^ 29" for n
      using that by (intro of_nat_inverse [OF refl]) simp
    ultimately have "(of_nat (field_num x) :: int32) \<noteq> of_nat j" if "j \<le> 9" for j
      using that by (metis less_imp_le_nat less_le_trans not_less order.strict_trans1)
    from this [of 1] this [of 2] this [of 3] this [of 4] this [of 5] this [of 6] this [of 7]
      this [of 8] this [of 9]
    show ?thesis by (simp add: Denom_fields_def)
  qed
  then show ?thesis
    using assms unfolding Denom_Marshal_def Denom_Unmarshal_def
    by (intro denom_pb.unmarshal_unknown)
qed

theorem Denom_unknown_fields_witness:
  "Denom_Unmarshal ([0x0a, 1, 0x61, 0x38, 255, 255, 255, 255, 255, 255, 255, 255, 255, 1, 0x40, 1]
     @ enc_fields [WGroup 12 [WVarint 1 300]]) Denom_zero = Inr small_denom"
proof -
  have l: "length (enc_fields [WGroup 12 [WVarint 1 300]]) = 5" by code_simp
  show ?thesis
    using Denom_unknown_fields [OF small_denom_bytes, of "[WGroup 12 [WVarint 1 300]]"] l
    by (simp add: go_slice_def)
qed

text \<open>
  No input makes \<open>Denom.Unmarshal\<close> panic: on every byte slice it returns a message or an
  error.  (It also terminates on every input, since its definition is accepted as total.)
\<close>

lemma Denom_Unmarshal_no_panic:
  assumes "go_slice d"
  shows "Denom_Unmarshal d m \<noteq> Inl Panic"
  unfolding Denom_Unmarshal_def using assms by (rule denom_pb.no_panic)

section \<open>Transaction messages\<close>

text \<open>
  Every transaction message of the module is decoded, after encoding, to itself.
\<close>

lemma tx_roundtrip:
  assumes "int (MsgUpdateParams_Size p) < 2 ^ 63" and "int (MsgCreateDenom_Size c) < 2 ^ 63"
    and "int (MsgUpdateDenom_Size u) < 2 ^ 63" and "int (MsgDeleteDenom_Size d) < 2 ^ 63"
  shows "rbind (MsgUpdateParams_Marshal p)
      (\<lambda>bs. MsgUpdateParams_Unmarshal bs MsgUpdateParams_zero) = Inr p
    \<and> rbind (MsgCreateDenom_Marshal c)
      (\<lambda>bs. MsgCreateDenom_Unmarshal bs MsgCreateDenom_zero) = Inr c
    \<and> rbind (MsgUpdateDenom_Marshal u)
      (\<lambda>bs. MsgUpdateDenom_Unmarshal bs MsgUpdateDenom_zero) = Inr u
    \<and> rbind (MsgDeleteDenom_Marshal d)
      (\<lambda>bs. MsgDeleteDenom_Unmarshal bs MsgDeleteDenom_zero) = Inr d"
  unfolding MsgUpdateParams_Marshal_def MsgUpdateParams_Unmarshal_def
    MsgCreateDenom_Marshal_def MsgCreateDenom_Unmarshal_def
    MsgUpdateDenom_Marshal_def MsgUpdateDenom_Unmarshal_def
    MsgDeleteDenom_Marshal_def MsgDeleteDenom_Unmarshal_def
  using msg_update_params_pb.roundtrip [OF assms(1)] msg_create_denom_pb.roundtrip [OF assms(2)]
    msg_update_denom_pb.roundtrip [OF assms(3)] msg_delete_denom_pb.roundtrip [OF assms(4)]
  by (simp add: msg_update_params_pb.marshal_wire msg_create_denom_pb.marshal_wire
      msg_update_denom_pb.marshal_wire msg_delete_denom_pb.marshal_wire)

lemma zero_sizes:
  "MsgUpdateParams_Size MsgUpdateParams_zero = 2" "MsgCreateDenom_Size MsgCreateDenom_zero = 0"
  "MsgUpdateDenom_Size MsgUpdateDenom_zero = 0" "MsgDeleteDenom_Size MsgDeleteDenom_zero = 0"
  by code_simp+

text \<open>
  No input makes the decoder of a transaction message or of a response panic.
\<close>

lemma tx_no_panic:
  assumes "go_slice d"
  shows "MsgUpdateParams_Unmarshal d p \<noteq> Inl Panic
    \<and> MsgUpdateParamsResponse_Unmarshal d pr \<noteq> Inl Panic
    \<and> MsgCreateDenom_Unmarshal d c \<noteq> Inl Panic \<and> MsgCreateDenomResponse_Unmarshal d cr \<noteq> Inl Panic
    \<and> MsgUpdateDenom_Unmarshal d u \<noteq> Inl Panic \<and> MsgUpdateDenomResponse_Unmarshal d ur \<noteq> Inl Panic
    \<and> MsgDeleteDenom_Unmarshal d x \<noteq> Inl Panic \<and> MsgDeleteDenomResponse_Unmarshal d xr \<noteq> Inl Panic"
  unfolding MsgUpdateParams_Unmarshal_def MsgUpdateParamsResponse_Unmarshal_def
    MsgCreateDenom_Unmarshal_def MsgCreateDenomResponse_Unmarshal_def
    MsgUpdateDenom_Unmarshal_def MsgUpdateDenomResponse_Unmarshal_def
    MsgDeleteDenom_Unmarshal_def MsgDeleteDenomResponse_Unmarshal_def
  using assms
  by (intro conjI msg_update_params_pb.no_panic msg_update_params_response_pb.no_panic
      msg_create_denom_pb.no_panic msg_create_denom_response_pb.no_panic
      msg_update_denom_pb.no_panic msg_update_denom_response_pb.no_panic
      msg_delete_denom_pb.no_panic msg_delete_denom_response_pb.no_panic)

section \<open>The genesis state\<close>

text \<open>The genesis state is decoded, after encoding, to itself.\<close>

lemma GenesisState_roundtrip:
  assumes "int (GenesisState_Size g) < 2 ^ 63" and "GenesisState_Marshal g = Inr bs"
  shows "GenesisState_Unmarshal bs GenesisState_zero = Inr g"
  using assms unfolding GenesisState_Marshal_def GenesisState_Unmarshal_def
  by (rule genesis_pb.roundtrip)

text \<open>
  Decoding merges.  The concatenation of the encodings of two genesis states decodes to the
  parameters of the second and the denoms of both, in order.
\<close>

theorem GenesisState_merge:
  assumes "GenesisState_Marshal g = Inr bs" and "GenesisState_Marshal g' = Inr bs'"
    and "go_slice (bs @ bs')"
  shows "GenesisState_Unmarshal (bs @ bs') GenesisState_zero
    = Inr \<lparr>GenesisState_Params = GenesisState_Params g',
        GenesisState_DenomList = GenesisState_DenomList g @ GenesisState_DenomList g'\<rparr>"
proof -
  have bs: "bs' = enc_fields (GenesisState_wire g')"
    using assms(2) by (simp add: GenesisState_Marshal_def genesis_pb.marshal_wire)
  have "go_slice (enc_fields (GenesisState_wire g'))"
    using assms(3) by (simp add: bs go_slice_def)
  then have "rfold (apply_field GenesisState_fields) (GenesisState_wire g') g
      = Inr \<lparr>GenesisState_Params = GenesisState_Params g',
          GenesisState_DenomList = GenesisState_DenomList g @ GenesisState_DenomList g'\<rparr>"
    by (rule genesis_wire_fold)
  then show ?thesis
    using genesis_pb.unmarshal_append [of bs "GenesisState_wire g'" g] assms
    by (simp add: bs GenesisState_Marshal_def GenesisState_Unmarshal_def genesis_pb.wire_wf)
qed

theorem GenesisState_merge_witness:
  "GenesisState_Unmarshal ([0x0a, 0, 0x12, 0] @ [0x0a, 0, 0x12, 3, 0x0a, 1, 0x61]) GenesisState_zero
    = Inr \<lparr>GenesisState_Params = Params,
        GenesisState_DenomList = [Denom_zero, Denom_zero\<lparr>Denom_Denom := [0x61]\<rparr>]\<rparr>"
proof -
  have "GenesisState_Marshal \<lparr>GenesisState_Params = Params, GenesisState_DenomList = [Denom_zero]\<rparr>
      = Inr [0x0a, 0, 0x12, 0]"
    "GenesisState_Marshal \<lparr>GenesisState_Params = Params,
        GenesisState_DenomList = [Denom_zero\<lparr>Denom_Denom := [0x61]\<rparr>]\<rparr>
      = Inr [0x0a, 0, 0x12, 3, 0x0a, 1, 0x61]"
    by code_simp+
  from GenesisState_merge [OF this] show ?thesis by (simp add: go_slice_def)
qed

section \<open>Query messages\<close>

text \<open>
  The query messages round trip.  The page request and response inside the messages of
  \<open>DenomAll\<close> belong to the Cosmos SDK; the hypothesis is the contract of its generated code.
\<close>

theorem query_roundtrip:
  assumes "ext_contract X enc" and "ext_contract Y enc'"
    and "int (QueryAllDenomRequest_Size X q) < 2 ^ 63" and "QueryAllDenomRequest_Marshal X q = Inr bs"
    and "int (QueryAllDenomResponse_Size Y r) < 2 ^ 63"
    and "QueryAllDenomResponse_Marshal Y r = Inr bs'"
  shows "QueryAllDenomRequest_Unmarshal X bs QueryAllDenomRequest_zero = Inr q
    \<and> QueryAllDenomResponse_Unmarshal Y bs' QueryAllDenomResponse_zero = Inr r"
  using pb_message.roundtrip [OF query_all_denom_request_pb [OF assms(1)]]
    pb_message.roundtrip [OF query_all_denom_response_pb [OF assms(2)]] assms(3-6)
  by (simp add: QueryAllDenomRequest_Marshal_def QueryAllDenomRequest_Unmarshal_def
      QueryAllDenomResponse_Marshal_def QueryAllDenomResponse_Unmarshal_def)

text \<open>A message of the module itself stands for the page request in the witness.\<close>

definition sample_ext :: "QueryGetDenomRequest ext_message" where
  "sample_ext = \<lparr>ext_zero = QueryGetDenomRequest_zero, ext_Size = QueryGetDenomRequest_Size,
     ext_MarshalToSizedBuffer = QueryGetDenomRequest_MarshalToSizedBuffer,
     ext_Unmarshal = QueryGetDenomRequest_Unmarshal\<rparr>"

lemma sample_ext_contract:
  "ext_contract sample_ext (\<lambda>m. enc_fields (QueryGetDenomRequest_wire m))"
  using query_get_denom_request_pb.no_panic query_get_denom_request_pb.unmarshal_wire
  by (simp add: ext_contract_def sample_ext_def QueryGetDenomRequest_Unmarshal_def
      query_get_denom_request_pb.to_sized_fills query_get_denom_request_pb.Size_wire)

theorem query_roundtrip_witness:
  "QueryAllDenomResponse_Unmarshal sample_ext [0x0a, 0, 0x12, 3, 0x0a, 1, 7] QueryAllDenomResponse_zero
    = Inr \<lparr>QueryAllDenomResponse_Denom = [Denom_zero],
        QueryAllDenomResponse_Pagination = Some \<lparr>QueryGetDenomRequest_Denom = [7]\<rparr>\<rparr>"
proof -
  let ?r = "\<lparr>QueryAllDenomResponse_Denom = [Denom_zero],
        QueryAllDenomResponse_Pagination = Some \<lparr>QueryGetDenomRequest_Denom = [7]\<rparr>\<rparr>"
  have s: "QueryAllDenomRequest_Size sample_ext QueryAllDenomRequest_zero = 0"
    "QueryAllDenomResponse_Size sample_ext ?r = 7"
    by code_simp+
  have m: "QueryAllDenomRequest_Marshal sample_ext QueryAllDenomRequest_zero = Inr []"
    "QueryAllDenomResponse_Marshal sample_ext ?r = Inr [0x0a, 0, 0x12, 3, 0x0a, 1, 7]"
    by code_simp+
  show ?thesis
    using query_roundtrip [OF sample_ext_contract sample_ext_contract _ m(1) _ m(2)] s by simp
qed

text \<open>No input makes the decoder of a query message or of the genesis state panic.\<close>

lemma query_no_panic:
  assumes "ext_contract X enc" and "go_slice d"
  shows "QueryParamsRequest_Unmarshal d a \<noteq> Inl Panic \<and> QueryParamsResponse_Unmarshal d b \<noteq> Inl Panic
    \<and> QueryGetDenomRequest_Unmarshal d c \<noteq> Inl Panic
    \<and> QueryGetDenomResponse_Unmarshal d r \<noteq> Inl Panic
    \<and> QueryAllDenomRequest_Unmarshal X d e \<noteq> Inl Panic
    \<and> QueryAllDenomResponse_Unmarshal X d g \<noteq> Inl Panic
    \<and> GenesisState_Unmarshal d h \<noteq> Inl Panic"
  unfolding QueryParamsRequest_Unmarshal_def QueryParamsResponse_Unmarshal_def
    QueryGetDenomRequest_Unmarshal_def QueryGetDenomResponse_Unmarshal_def
    QueryAllDenomRequest_Unmarshal_def QueryAllDenomResponse_Unmarshal_def
    GenesisState_Unmarshal_def
  using assms(2)
  by (intro conjI query_params_request_pb.no_panic query_params_response_pb.no_panic
      query_get_denom_request_pb.no_panic query_get_denom_response_pb.no_panic genesis_pb.no_panic
      pb_message.no_panic [OF query_all_denom_request_pb [OF assms(1)]]
      pb_message.no_panic [OF query_all_denom_response_pb [OF assms(1)]])

section \<open>All messages\<close>

text \<open>
  C36: the denom, the genesis state and every transaction message are decoded, after encoding, to
  themselves.
\<close>

theorem messages_roundtrip:
  assumes "int (Denom_Size n) < 2 ^ 63" and "int (GenesisState_Size g) < 2 ^ 63"
    and "int (MsgUpdateParams_Size p) < 2 ^ 63" and "int (MsgCreateDenom_Size c) < 2 ^ 63"
    and "int (MsgUpdateDenom_Size u) < 2 ^ 63" and "int (MsgDeleteDenom_Size d) < 2 ^ 63"
  shows "rbind (Denom_Marshal n) (\<lambda>bs. Denom_Unmarshal bs Denom_zero) = Inr n
    \<and> rbind (GenesisState_Marshal g) (\<lambda>bs. GenesisState_Unmarshal bs GenesisState_zero) = Inr g
    \<and> rbind (MsgUpdateParams_Marshal p)
      (\<lambda>bs. MsgUpdateParams_Unmarshal bs MsgUpdateParams_zero) = Inr p
    \<and> rbind (MsgCreateDenom_Marshal c)
      (\<lambda>bs. MsgCreateDenom_Unmarshal bs MsgCreateDenom_zero) = Inr c
    \<and> rbind (MsgUpdateDenom_Marshal u)
      (\<lambda>bs. MsgUpdateDenom_Unmarshal bs MsgUpdateDenom_zero) = Inr u
    \<and> rbind (MsgDeleteDenom_Marshal d)
      (\<lambda>bs. MsgDeleteDenom_Unmarshal bs MsgDeleteDenom_zero) = Inr d"
proof -
  obtain bs where "Denom_Marshal n = Inr bs"
    using Denom_Marshal_total by blast
  moreover obtain bs' where "GenesisState_Marshal g = Inr bs'"
    by (simp add: GenesisState_Marshal_def genesis_pb.marshal_wire)
  ultimately show ?thesis
    using Denom_roundtrip [OF assms(1)] GenesisState_roundtrip [OF assms(2)]
      tx_roundtrip [OF assms(3-6)] by simp
qed

theorem messages_roundtrip_witness:
  "rbind (Denom_Marshal small_denom) (\<lambda>bs. Denom_Unmarshal bs Denom_zero) = Inr small_denom
    \<and> rbind (MsgDeleteDenom_Marshal \<lparr>MsgDeleteDenom_Owner = [1], MsgDeleteDenom_Denom = [2]\<rparr>)
      (\<lambda>bs. MsgDeleteDenom_Unmarshal bs MsgDeleteDenom_zero)
      = Inr \<lparr>MsgDeleteDenom_Owner = [1], MsgDeleteDenom_Denom = [2]\<rparr>"
proof -
  have "MsgDeleteDenom_Size \<lparr>MsgDeleteDenom_Owner = [1], MsgDeleteDenom_Denom = [2]\<rparr> = 6"
    "GenesisState_Size GenesisState_zero = 2"
    by code_simp+
  then show ?thesis
    using messages_roundtrip [of small_denom GenesisState_zero MsgUpdateParams_zero
        MsgCreateDenom_zero MsgUpdateDenom_zero
        "\<lparr>MsgDeleteDenom_Owner = [1], MsgDeleteDenom_Denom = [2]\<rparr>"] small_denom_size
    by (simp add: zero_sizes)
qed

text \<open>
  C37: no input makes a decoder of the module panic: on every byte slice, the decoder of a denom,
  of the genesis state, of a transaction message or response, and of a query message returns a
  message or an error.  (It also terminates on every input, since its definition is total.)
\<close>

theorem decoders_never_panic:
  assumes "ext_contract X enc" and "go_slice d"
  shows "Denom_Unmarshal d m \<noteq> Inl Panic \<and> GenesisState_Unmarshal d h \<noteq> Inl Panic
    \<and> MsgUpdateParams_Unmarshal d p \<noteq> Inl Panic
    \<and> MsgUpdateParamsResponse_Unmarshal d pr \<noteq> Inl Panic
    \<and> MsgCreateDenom_Unmarshal d c \<noteq> Inl Panic \<and> MsgCreateDenomResponse_Unmarshal d cr \<noteq> Inl Panic
    \<and> MsgUpdateDenom_Unmarshal d u \<noteq> Inl Panic \<and> MsgUpdateDenomResponse_Unmarshal d ur \<noteq> Inl Panic
    \<and> MsgDeleteDenom_Unmarshal d x \<noteq> Inl Panic \<and> MsgDeleteDenomResponse_Unmarshal d xr \<noteq> Inl Panic
    \<and> QueryParamsRequest_Unmarshal d a \<noteq> Inl Panic \<and> QueryParamsResponse_Unmarshal d b \<noteq> Inl Panic
    \<and> QueryGetDenomRequest_Unmarshal d q \<noteq> Inl Panic
    \<and> QueryGetDenomResponse_Unmarshal d r \<noteq> Inl Panic
    \<and> QueryAllDenomRequest_Unmarshal X d e \<noteq> Inl Panic
    \<and> QueryAllDenomResponse_Unmarshal X d g \<noteq> Inl Panic"
  using Denom_Unmarshal_no_panic [OF assms(2), of m] tx_no_panic [OF assms(2), of p pr c cr u ur x xr]
    query_no_panic [OF assms, of a b q r e g h]
  by blast

theorem decoders_never_panic_witness:
  "Denom_Unmarshal [0x0a, 255, 255, 255, 255, 255, 255, 255, 255, 0x7f] Denom_zero \<noteq> Inl Panic"
  using decoders_never_panic [OF sample_ext_contract,
      of "[0x0a, 255, 255, 255, 255, 255, 255, 255, 255, 0x7f]"]
  by (simp add: go_slice_def)

end
