(* ===== verification/Sdk_Interfaces.thy ===== *)
theory Sdk_Interfaces
  imports TF_Denom TF_Params "HOL-Library.List_Lexorder"
begin

text \<open>
  The parts of the Cosmos SDK the modules call, none of which is in the repository: the
  key-value store of a module (opened from \<open>store.KVStoreService\<close>, adapted by
  \<open>runtime.KVStoreAdapter\<close>, and seen through \<open>prefix.NewStore\<close>), the binary codec, the bech32
  address parser and the sentinel errors.  Each is a record of functions the model takes as an
  argument.  The locales state what the SDK documents of them; the keepers rest on nothing else.
\<close>

section \<open>Errors\<close>

text \<open>
  Errors of the handlers: a registered error wrapped with a text (\<open>errorsmod.Wrap\<close>), an error of
  another call wrapped with a text, a gRPC status, an error of the codec passed on, a plain error
  text, \<open>panic(err)\<close> of an error (which is what the \<open>Must\<close> functions do), \<open>panic\<close> of a
  text, and \<open>log.Fatal\<close>, which ends the process.
\<close>

datatype sdk_sentinel =
    ErrInvalidRequest | ErrKeyNotFound | ErrUnauthorized | ErrInvalidAddress | ErrInvalidSigner

datatype grpc_code = InvalidArgument | NotFound | Internal | Unimplemented

datatype go_error =
    Wrap sdk_sentinel gostring
  | WrapText gostring gostring
  | Status grpc_code gostring
  | CodecErr pb_error
  | Errorf gostring
  | Panicked go_error
  | GoPanic gostring
  | LogFatal gostring

section \<open>The key-value store\<close>

text \<open>
  The operations the modules use, on a store state of type \<open>'s\<close>.  The second argument of the
  \<open>prefix\<close> operations is the prefix given to \<open>prefix.NewStore\<close>; \<open>kv_PrefixAll\<close> is what the
  iterator of \<open>KVStorePrefixIterator(store, []byte{})\<close> runs through, keys without the prefix.
  \<open>None\<close> stands for the nil slice \<open>Get\<close> returns for an absent key.
\<close>

record 's kv =
  kv_Get :: "'s \<Rightarrow> bytes \<Rightarrow> bytes option"
  kv_Set :: "'s \<Rightarrow> bytes \<Rightarrow> bytes \<Rightarrow> 's"
  kv_PrefixGet :: "'s \<Rightarrow> bytes \<Rightarrow> bytes \<Rightarrow> bytes option"
  kv_PrefixSet :: "'s \<Rightarrow> bytes \<Rightarrow> bytes \<Rightarrow> bytes \<Rightarrow> 's"
  kv_PrefixDelete :: "'s \<Rightarrow> bytes \<Rightarrow> bytes \<Rightarrow> 's"
  kv_PrefixAll :: "'s \<Rightarrow> bytes \<Rightarrow> (bytes \<times> bytes) list"

text \<open>
  A pair the store accepts: the key is not empty, and the value is at most
  \<open>MaxValueLength\<close>, \<open>2 ^ 31 - 1\<close> bytes, long (\<open>AssertValidKey\<close>, \<open>AssertValidValueLength\<close>).
\<close>

definition kv_valid :: "bytes \<Rightarrow> bytes \<Rightarrow> bool" where
  "kv_valid k v \<longleftrightarrow> k \<noteq> [] \<and> length v < 2 ^ 31"

text \<open>
  The documented contract: a map; a prefix store is the same store with the prefix in front of
  the keys; an iterator visits the entries of the prefix in ascending order of their keys.
\<close>

locale kv_store =
  fixes K :: "'s kv"
  assumes get_set: "kv_valid k v \<Longrightarrow>
      kv_Get K (kv_Set K s k v) j = (if j = k then Some v else kv_Get K s j)"
    and prefix_get: "k \<noteq> [] \<Longrightarrow> kv_PrefixGet K s p k = kv_Get K s (p @ k)"
    and prefix_set: "kv_valid k v \<Longrightarrow>
      kv_Get K (kv_PrefixSet K s p k v) j = (if j = p @ k then Some v else kv_Get K s j)"
    and prefix_delete: "k \<noteq> [] \<Longrightarrow>
      kv_Get K (kv_PrefixDelete K s p k) j = (if j = p @ k then None else kv_Get K s j)"
    and prefix_all: "(k, v) \<in> set (kv_PrefixAll K s p) \<longleftrightarrow> kv_Get K s (p @ k) = Some v"
    and prefix_sorted: "sorted_wrt (<) (map fst (kv_PrefixAll K s p))"
begin

lemma prefix_distinct: "distinct (map fst (kv_PrefixAll K s p))"
  using prefix_sorted by (simp add: strict_sorted_iff)

end

section \<open>The codec\<close>

text \<open>
  \<open>codec.BinaryCodec\<close>, at the two types the keeper stores.  \<open>Unmarshal\<close> resets its target
  first, so the value decoded does not depend on it.
\<close>

record codec =
  cdc_Marshal_Denom :: "Denom \<Rightarrow> pb_error + bytes"
  cdc_Unmarshal_Denom :: "bytes \<Rightarrow> pb_error + Denom"
  cdc_Marshal_Params :: "Params \<Rightarrow> pb_error + bytes"
  cdc_Unmarshal_Params :: "bytes \<Rightarrow> pb_error + Params"

text \<open>The documented contract of the protobuf codec: it calls the generated methods.\<close>

locale proto_codec =
  fixes C :: codec
  assumes marshal_denom: "cdc_Marshal_Denom C d = Denom_Marshal d"
    and unmarshal_denom: "cdc_Unmarshal_Denom C bz = Denom_Unmarshal bz Denom_zero"
    and marshal_params: "cdc_Marshal_Params C p = Params_Marshal p"
    and unmarshal_params: "cdc_Unmarshal_Params C bz = Params_Unmarshal bz Params"
begin

lemma denom_roundtrip:
  "int (Denom_Size d) < 2 ^ 63 \<Longrightarrow> cdc_Marshal_Denom C d = Inr bz \<Longrightarrow>
    cdc_Unmarshal_Denom C bz = Inr d"
  using denom_pb.roundtrip [of d bz]
  by (simp add: marshal_denom unmarshal_denom Denom_Marshal_def Denom_Unmarshal_def)

lemma denom_bytes: "\<exists>bz. cdc_Marshal_Denom C d = Inr bz \<and> length bz = Denom_Size d"
  using denom_pb.marshal_length [of d] by (simp add: marshal_denom Denom_Marshal_def)

lemma params_bytes: "cdc_Marshal_Params C p = Inr []"
  using params_pb.marshal_wire [of p]
  by (simp add: marshal_params Params_Marshal_def Params_wire_def)

lemma params_empty: "cdc_Unmarshal_Params C [] = Inr p"
  using params_pb.unmarshal_wire [of p]
  by (cases p) (simp add: unmarshal_params Params_Unmarshal_def Params_wire_def go_slice_def)

end

text \<open>The \<open>Must\<close> functions of the codec panic with the error.\<close>

definition must :: "pb_error + 'a \<Rightarrow> go_error + 'a" where
  "must r = (case r of Inl e \<Rightarrow> Inl (Panicked (CodecErr e)) | Inr x \<Rightarrow> Inr x)"

lemma must_simps [simp]: "must (Inr x) = Inr x" "must (Inl e) = Inl (Panicked (CodecErr e))"
  by (simp_all add: must_def)

definition codec_result :: "pb_error + 'a \<Rightarrow> go_error + 'a" where
  "codec_result r = (case r of Inl e \<Rightarrow> Inl (CodecErr e) | Inr x \<Rightarrow> Inr x)"

lemma codec_result_simps [simp]:
  "codec_result (Inr x) = Inr x" "codec_result (Inl e) = Inl (CodecErr e)"
  by (simp_all add: codec_result_def)

section \<open>A reference store and codec\<close>

text \<open>
  The keeper of the repository's tests (\<open>testutil/keeper/tokenfactory.go\<close>) runs on a memory
  database with the protobuf codec.  A list of entries satisfies the contract of the store, and
  the witnesses run on it.
\<close>

type_synonym mem_store = "(bytes \<times> bytes) list"

fun mem_insert :: "bytes \<Rightarrow> bytes \<Rightarrow> mem_store \<Rightarrow> mem_store" where
  "mem_insert k v [] = [(k, v)]"
| "mem_insert k v ((j, w) # s) =
     (if k < j then (k, v) # (j, w) # s
      else if k = j then (k, v) # s else (j, w) # mem_insert k v s)"

definition mem_delete :: "bytes \<Rightarrow> mem_store \<Rightarrow> mem_store" where
  "mem_delete k s = filter (\<lambda>e. fst e \<noteq> k) s"

text \<open>The entries in ascending order, and those of a prefix with the prefix taken off.\<close>

definition mem_sort :: "mem_store \<Rightarrow> mem_store" where
  "mem_sort s = foldr (\<lambda>(k, v). mem_insert k v) s []"

fun strip_prefix :: "bytes \<Rightarrow> bytes \<Rightarrow> bytes option" where
  "strip_prefix [] k = Some k"
| "strip_prefix (p # ps) [] = None"
| "strip_prefix (p # ps) (k # ks) = (if p = k then strip_prefix ps ks else None)"

fun strip_all :: "bytes \<Rightarrow> mem_store \<Rightarrow> mem_store" where
  "strip_all p [] = []"
| "strip_all p ((k, v) # s) =
     (case strip_prefix p k of None \<Rightarrow> strip_all p s | Some k' \<Rightarrow> (k', v) # strip_all p s)"

definition mem_kv :: "mem_store kv" where
  "mem_kv = \<lparr>kv_Get = map_of, kv_Set = (\<lambda>s k v. mem_insert k v s),
     kv_PrefixGet = (\<lambda>s p k. map_of s (p @ k)),
     kv_PrefixSet = (\<lambda>s p k v. mem_insert (p @ k) v s),
     kv_PrefixDelete = (\<lambda>s p k. mem_delete (p @ k) s),
     kv_PrefixAll = (\<lambda>s p. strip_all p (mem_sort s))\<rparr>"

lemma map_of_mem_insert: "map_of (mem_insert k v s) = (map_of s)(k \<mapsto> v)"
  by (induction s) auto

lemma map_of_mem_delete: "map_of (mem_delete k s) = (map_of s)(k := None)"
  by (induction s) (auto simp: mem_delete_def)

lemma fst_mem_insert: "fst ` set (mem_insert k v s) = insert k (fst ` set s)"
  by (induction k v s rule: mem_insert.induct) (simp_all add: insert_commute)

lemma sorted_mem_insert:
  "sorted_wrt (<) (map fst s) \<Longrightarrow> sorted_wrt (<) (map fst (mem_insert k v s))"
proof (induction s)
  case (Cons e s)
  obtain j w where e: "e = (j, w)" by (cases e)
  have "\<forall>x \<in> fst ` set (mem_insert k v s). j < x" if "j < k"
    using Cons.prems that by (auto simp: e fst_mem_insert)
  then show ?case
    using Cons by (auto simp: e not_less_iff_gr_or_eq)
qed simp

lemma mem_sort_Cons: "mem_sort (e # s) = mem_insert (fst e) (snd e) (mem_sort s)"
  by (simp add: mem_sort_def split: prod.splits)

lemma sorted_mem_sort: "sorted_wrt (<) (map fst (mem_sort s))"
  by (induction s) (simp_all add: mem_sort_Cons sorted_mem_insert, simp add: mem_sort_def)

lemma map_of_mem_sort: "map_of (mem_sort s) = map_of s"
  by (induction s) (simp_all add: mem_sort_Cons map_of_mem_insert, simp add: mem_sort_def)

lemma strip_prefix_eq: "strip_prefix p k = Some k' \<longleftrightarrow> k = p @ k'"
  by (induction p k rule: strip_prefix.induct) auto

lemma set_strip_all: "(k, v) \<in> set (strip_all p s) \<longleftrightarrow> (p @ k, v) \<in> set s"
proof (induction p s rule: strip_all.induct)
  case (2 p j w s)
  show ?case
  proof (cases "strip_prefix p j")
    case None
    then have "j \<noteq> p @ k" using strip_prefix_eq [of p j k] by simp
    then show ?thesis using 2 None by auto
  next
    case (Some j')
    then have "j = p @ j'" by (simp add: strip_prefix_eq)
    then show ?thesis using 2 Some by auto
  qed
qed simp

lemma append_less_cancel: "p @ a < p @ b \<longleftrightarrow> a < (b :: bytes)"
  by (induction p) simp_all

lemma sorted_strip_all:
  "sorted_wrt (<) (map fst s) \<Longrightarrow> sorted_wrt (<) (map fst (strip_all p s))"
proof (induction p s rule: strip_all.induct)
  case (2 p k v s)
  show ?case
  proof (cases "strip_prefix p k")
    case (Some k')
    have "\<forall>x \<in> fst ` set (strip_all p s). k' < x"
    proof
      fix x assume "x \<in> fst ` set (strip_all p s)"
      then obtain w where "(p @ x, w) \<in> set s" by (auto simp: set_strip_all)
      then have "k < p @ x" using "2.prems" by (auto simp: image_iff dest!: bspec)
      then show "k' < x" using Some by (simp add: strip_prefix_eq append_less_cancel)
    qed
    then show ?thesis using 2 Some by auto
  qed (use 2 in simp)
qed simp

interpretation mem_kv: kv_store mem_kv
proof
  show "(k, v) \<in> set (kv_PrefixAll mem_kv s p) \<longleftrightarrow> kv_Get mem_kv s (p @ k) = Some v" for k v s p
  proof -
    have "distinct (map fst (mem_sort s))"
      using sorted_mem_sort [of s] by (simp add: strict_sorted_iff)
    from map_of_eq_Some_iff [OF this] show ?thesis
      by (simp add: mem_kv_def set_strip_all map_of_mem_sort)
  qed
qed (simp_all add: mem_kv_def map_of_mem_insert map_of_mem_delete sorted_strip_all sorted_mem_sort)

definition mem_codec :: codec where
  "mem_codec = \<lparr>cdc_Marshal_Denom = Denom_Marshal,
     cdc_Unmarshal_Denom = (\<lambda>bz. Denom_Unmarshal bz Denom_zero),
     cdc_Marshal_Params = Params_Marshal,
     cdc_Unmarshal_Params = (\<lambda>bz. Params_Unmarshal bz Params)\<rparr>"

interpretation mem_codec: proto_codec mem_codec
  by unfold_locales (simp_all add: mem_codec_def)

end
