(* ===== verification/TF_Keeper.thy ===== *)
theory TF_Keeper
  imports Sdk_Interfaces
begin

text \<open>
  The keeper of the token factory (\<open>x/tokenfactory/keeper/denom.go\<close>, \<open>params.go\<close>,
  \<open>keeper.go\<close>) and the store keys (\<open>types/keys.go\<close>, \<open>types/key_denom.go\<close>).  The state is the
  state of the module's key-value store.  The abstract view of it is a table, a map from denom
  names to denoms; the locale \<open>denom_table\<close> is the contract the other components use.
\<close>

section \<open>Store keys\<close>

definition ModuleName :: gostring where
  "ModuleName = lit ''tokenfactory''"

definition ParamsKey :: bytes where
  "ParamsKey = lit ''p_tokenfactory''"

definition DenomKeyPrefix :: gostring where
  "DenomKeyPrefix = lit ''Denom/value/''"

definition KeyPrefix :: "gostring \<Rightarrow> bytes" where
  "KeyPrefix p = p"

definition DenomKey :: "gostring \<Rightarrow> bytes" where
  "DenomKey denom = ([] @ denom) @ lit ''/''"

lemma DenomKey_not_Nil [simp]: "DenomKey n \<noteq> []"
  by (simp add: DenomKey_def lit_def)

lemma DenomKey_inject [simp]: "DenomKey n = DenomKey n' \<longleftrightarrow> n = n'"
  by (simp add: DenomKey_def)

lemma ParamsKey_disjoint [simp]: "ParamsKey \<noteq> KeyPrefix DenomKeyPrefix @ key"
  by (simp add: ParamsKey_def KeyPrefix_def DenomKeyPrefix_def lit_def)

lemma ParamsKey_not_Nil [simp]: "ParamsKey \<noteq> []"
  by (simp add: ParamsKey_def lit_def)

section \<open>The keeper\<close>

text \<open>
  The fields of the struct its operations read.  The logger writes to the log only, and the
  account and bank keepers are used by the simulation alone.
\<close>

record 's Keeper =
  Keeper_cdc :: codec
  Keeper_storeService :: "'s kv"
  Keeper_authority :: gostring

text \<open>\<open>bech32\<close> is \<open>sdk.AccAddressFromBech32\<close>; its error is the text of the error.\<close>

definition NewKeeper ::
  "(gostring \<Rightarrow> gostring + bytes) \<Rightarrow> codec \<Rightarrow> 's kv \<Rightarrow> gostring \<Rightarrow> go_error + 's Keeper" where
  "NewKeeper bech32 cdc storeService authority =
     (case bech32 authority of
        Inl err \<Rightarrow> Inl (GoPanic (lit ''invalid authority address: '' @ authority))
      | Inr addr \<Rightarrow> Inr \<lparr>Keeper_cdc = cdc, Keeper_storeService = storeService,
          Keeper_authority = authority\<rparr>)"

definition GetAuthority :: "'s Keeper \<Rightarrow> gostring" where
  "GetAuthority k = Keeper_authority k"

section \<open>Denoms\<close>

definition SetDenom :: "'s Keeper \<Rightarrow> 's \<Rightarrow> Denom \<Rightarrow> go_error + 's" where
  "SetDenom k s denom =
     rbind (must (cdc_Marshal_Denom (Keeper_cdc k) denom)) (\<lambda>b.
       Inr (kv_PrefixSet (Keeper_storeService k) s (KeyPrefix DenomKeyPrefix)
         (DenomKey (Denom_Denom denom)) b))"

text \<open>The value and whether it was found.\<close>

definition GetDenom :: "'s Keeper \<Rightarrow> 's \<Rightarrow> gostring \<Rightarrow> go_error + Denom \<times> bool" where
  "GetDenom k s denom =
     (case kv_PrefixGet (Keeper_storeService k) s (KeyPrefix DenomKeyPrefix) (DenomKey denom) of
        None \<Rightarrow> Inr (Denom_zero, False)
      | Some b \<Rightarrow> rbind (must (cdc_Unmarshal_Denom (Keeper_cdc k) b)) (\<lambda>val. Inr (val, True)))"

definition RemoveDenom :: "'s Keeper \<Rightarrow> 's \<Rightarrow> gostring \<Rightarrow> 's" where
  "RemoveDenom k s denom =
     kv_PrefixDelete (Keeper_storeService k) s (KeyPrefix DenomKeyPrefix) (DenomKey denom)"

definition GetAllDenom :: "'s Keeper \<Rightarrow> 's \<Rightarrow> go_error + Denom list" where
  "GetAllDenom k s =
     rfold (\<lambda>(key, value) list.
         rbind (must (cdc_Unmarshal_Denom (Keeper_cdc k) value)) (\<lambda>val. Inr (list @ [val])))
       (kv_PrefixAll (Keeper_storeService k) s (KeyPrefix DenomKeyPrefix)) []"

section \<open>Parameters\<close>

definition GetParams :: "'s Keeper \<Rightarrow> 's \<Rightarrow> go_error + Params" where
  "GetParams k s =
     (case kv_Get (Keeper_storeService k) s ParamsKey of
        None \<Rightarrow> Inr Params
      | Some bz \<Rightarrow> must (cdc_Unmarshal_Params (Keeper_cdc k) bz))"

definition SetParams :: "'s Keeper \<Rightarrow> 's \<Rightarrow> Params \<Rightarrow> go_error + 's" where
  "SetParams k s params =
     rbind (codec_result (cdc_Marshal_Params (Keeper_cdc k) params)) (\<lambda>bz.
       Inr (kv_Set (Keeper_storeService k) s ParamsKey bz))"

section \<open>The contract of the denom operations\<close>

lemma map_eqI: "(\<And>y. f x = Some y \<longleftrightarrow> g x = Some y) \<Longrightarrow> f x = g x"
  by (cases "f x"; cases "g x") auto

text \<open>
  \<open>wf\<close> is the invariant of the store, \<open>ok\<close> says that a denom is small enough for it, and
  \<open>table\<close> is the abstract content.
\<close>

locale denom_table =
  fixes get_denom :: "'s \<Rightarrow> gostring \<Rightarrow> go_error + Denom \<times> bool"
    and set_denom :: "'s \<Rightarrow> Denom \<Rightarrow> go_error + 's"
    and remove_denom :: "'s \<Rightarrow> gostring \<Rightarrow> 's"
    and all_denoms :: "'s \<Rightarrow> go_error + Denom list"
    and wf :: "'s \<Rightarrow> bool"
    and ok :: "Denom \<Rightarrow> bool"
    and table :: "'s \<Rightarrow> gostring \<rightharpoonup> Denom"
  assumes get: "wf s \<Longrightarrow> get_denom s n
      = Inr (case table s n of None \<Rightarrow> (Denom_zero, False) | Some d \<Rightarrow> (d, True))"
    and set_spec: "wf s \<Longrightarrow> ok d \<Longrightarrow>
      \<exists>s'. set_denom s d = Inr s' \<and> wf s' \<and> table s' = (table s)(Denom_Denom d \<mapsto> d)"
    and remove_spec: "wf s \<Longrightarrow>
      wf (remove_denom s n) \<and> table (remove_denom s n) = (table s)(n := None)"
    and all_spec: "wf s \<Longrightarrow>
      \<exists>ds. all_denoms s = Inr ds \<and> distinct (map Denom_Denom ds) \<and> set ds = ran (table s)"
    and table_name: "wf s \<Longrightarrow> table s n = Some d \<Longrightarrow> Denom_Denom d = n"
begin

lemma setD: "wf s \<Longrightarrow> ok d \<Longrightarrow> set_denom s d = Inr s' \<Longrightarrow>
    wf s' \<and> table s' = (table s)(Denom_Denom d \<mapsto> d)"
  using set_spec [of s d] by auto

lemma get_cases:
  assumes "wf s"
  obtains (absent) "table s n = None" "get_denom s n = Inr (Denom_zero, False)"
  | (present) d where "table s n = Some d" "Denom_Denom d = n" "get_denom s n = Inr (d, True)"
  using get [OF assms, of n] table_name [OF assms, of n] by (cases "table s n") auto

text \<open>Setting a list of denoms one after the other: a later one replaces an earlier one.\<close>

lemma set_all:
  assumes "wf s" and "list_all ok ds"
  shows "\<exists>s'. rfold (\<lambda>d s. set_denom s d) ds s = Inr s' \<and> wf s'
    \<and> table s' = table s ++ map_of (rev (map (\<lambda>d. (Denom_Denom d, d)) ds))"
  using assms
proof (induction ds arbitrary: s)
  case (Cons d ds)
  from Cons.prems obtain s1 where 1: "set_denom s d = Inr s1" "wf s1"
    "table s1 = (table s)(Denom_Denom d \<mapsto> d)"
    using set_spec [of s d] by auto
  from Cons.IH [of s1] 1(2) Cons.prems obtain s' where
    2: "rfold (\<lambda>d s. set_denom s d) ds s1 = Inr s'" "wf s'"
      "table s' = table s1 ++ map_of (rev (map (\<lambda>d. (Denom_Denom d, d)) ds))"
    by auto
  have "table s' = table s ++ map_of (rev (map (\<lambda>d. (Denom_Denom d, d)) (d # ds)))"
    unfolding 2(3) 1(3) by simp
  moreover have "rfold (\<lambda>d s. set_denom s d) (d # ds) s = Inr s'"
    using 1(1) 2(1) by simp
  ultimately show ?case
    using 2(2) by blast
qed simp

lemma all_map:
  assumes "wf s" and "all_denoms s = Inr ds"
  shows "table s = map_of (map (\<lambda>d. (Denom_Denom d, d)) ds)"
proof
  fix n
  have ds: "distinct (map Denom_Denom ds)" "set ds = ran (table s)"
    using all_spec [OF assms(1)] assms(2) by auto
  let ?l = "map (\<lambda>d. (Denom_Denom d, d)) ds"
  have dl: "distinct (map fst ?l)" using ds(1) by (simp add: comp_def)
  have "table s n = Some d \<longleftrightarrow> map_of ?l n = Some d" for d
  proof -
    have "(n, d) \<in> set ?l \<longleftrightarrow> d \<in> ran (table s) \<and> Denom_Denom d = n"
      by (auto simp: ds(2) [symmetric])
    also have "\<dots> \<longleftrightarrow> table s n = Some d"
    proof
      assume "d \<in> ran (table s) \<and> Denom_Denom d = n"
      then obtain m where "table s m = Some d" "Denom_Denom d = n" by (auto simp: ran_def)
      with table_name [OF assms(1), of m d] show "table s n = Some d" by simp
    next
      assume "table s n = Some d"
      with table_name [OF assms(1), of n d] show "d \<in> ran (table s) \<and> Denom_Denom d = n"
        by (simp add: ranI)
    qed
    finally show ?thesis by (simp only: map_of_eq_Some_iff [OF dl])
  qed
  then show "table s n = map_of ?l n"
    by (rule map_eqI)
qed

end

section \<open>The keeper satisfies it\<close>

definition denom_fits :: "Denom \<Rightarrow> bool" where
  "denom_fits d \<longleftrightarrow> Denom_Size d < 2 ^ 31"

text \<open>
  The invariant of the store: a value under the prefix of the denoms decodes to a denom stored
  under its own key, and the value of the parameters decodes.
\<close>

definition store_wf :: "'s Keeper \<Rightarrow> 's \<Rightarrow> bool" where
  "store_wf k s \<longleftrightarrow>
     (\<forall>key v. kv_Get (Keeper_storeService k) s (KeyPrefix DenomKeyPrefix @ key) = Some v \<longrightarrow>
        (\<exists>d. cdc_Unmarshal_Denom (Keeper_cdc k) v = Inr d \<and> key = DenomKey (Denom_Denom d)))
   \<and> (\<forall>v. kv_Get (Keeper_storeService k) s ParamsKey = Some v \<longrightarrow>
        (\<exists>p. cdc_Unmarshal_Params (Keeper_cdc k) v = Inr p))"

definition denoms_of :: "'s Keeper \<Rightarrow> 's \<Rightarrow> gostring \<rightharpoonup> Denom" where
  "denoms_of k s n =
     (case GetDenom k s n of Inr (d, True) \<Rightarrow> Some d | _ \<Rightarrow> None)"

lemma rfold_append_map:
  assumes "\<And>x. x \<in> set xs \<Longrightarrow> g x = Inr (h x)"
  shows "rfold (\<lambda>x acc. rbind (g x) (\<lambda>y. Inr (acc @ [y]))) xs acc = Inr (acc @ map h xs)"
  using assms by (induction xs arbitrary: acc) simp_all

locale tf_keeper = kv_store "Keeper_storeService k" + proto_codec "Keeper_cdc k"
  for k :: "'s Keeper"
begin

abbreviation pfx :: bytes where
  "pfx \<equiv> KeyPrefix DenomKeyPrefix"

abbreviation kvget :: "'s \<Rightarrow> bytes \<Rightarrow> bytes option" where
  "kvget \<equiv> kv_Get (Keeper_storeService k)"

lemma get_denom_wf:
  assumes "store_wf k s"
  shows "GetDenom k s n
    = (case kvget s (pfx @ DenomKey n) of
         None \<Rightarrow> Inr (Denom_zero, False)
       | Some b \<Rightarrow> Inr (projr (cdc_Unmarshal_Denom (Keeper_cdc k) b), True))"
  using assms
  by (fastforce simp: store_wf_def GetDenom_def prefix_get split: option.splits)

lemma denoms_of_wf:
  assumes "store_wf k s"
  shows "denoms_of k s n = Some d \<longleftrightarrow>
    (\<exists>b. kvget s (pfx @ DenomKey n) = Some b \<and> cdc_Unmarshal_Denom (Keeper_cdc k) b = Inr d)"
proof (cases "kvget s (pfx @ DenomKey n)")
  case (Some b)
  with assms obtain d' where "cdc_Unmarshal_Denom (Keeper_cdc k) b = Inr d'"
    unfolding store_wf_def by blast
  with Some show ?thesis by (simp add: denoms_of_def get_denom_wf [OF assms])
qed (simp add: denoms_of_def get_denom_wf [OF assms])

lemma set_denom_bytes:
  assumes "denom_fits d"
  obtains s' b where "SetDenom k s d = Inr s'" "cdc_Unmarshal_Denom (Keeper_cdc k) b = Inr d"
    "\<And>j. kvget s' j = (if j = pfx @ DenomKey (Denom_Denom d) then Some b else kvget s j)"
proof -
  obtain b where b: "cdc_Marshal_Denom (Keeper_cdc k) d = Inr b" "length b = Denom_Size d"
    using denom_bytes [of d] by auto
  show ?thesis
  proof (rule that)
    show "SetDenom k s d = Inr (kv_PrefixSet (Keeper_storeService k) s pfx
        (DenomKey (Denom_Denom d)) b)"
      by (simp add: SetDenom_def b)
    show "cdc_Unmarshal_Denom (Keeper_cdc k) b = Inr d"
      using assms b(1) by (intro denom_roundtrip) (simp_all add: denom_fits_def)
    show "kvget (kv_PrefixSet (Keeper_storeService k) s pfx (DenomKey (Denom_Denom d)) b) j
        = (if j = pfx @ DenomKey (Denom_Denom d) then Some b else kvget s j)" for j
      using assms b(2) by (intro prefix_set) (simp add: kv_valid_def denom_fits_def)
  qed
qed

lemma remove_denom_bytes:
  "kvget (RemoveDenom k s n) j = (if j = pfx @ DenomKey n then None else kvget s j)"
  by (simp add: RemoveDenom_def prefix_delete)

end

sublocale tf_keeper \<subseteq> table: denom_table "GetDenom k" "SetDenom k" "RemoveDenom k"
    "GetAllDenom k" "store_wf k" denom_fits "denoms_of k"
proof
  fix s :: 's
  assume wf: "store_wf k s"
  show "GetDenom k s n
      = Inr (case denoms_of k s n of None \<Rightarrow> (Denom_zero, False) | Some d \<Rightarrow> (d, True))" for n
    by (simp add: denoms_of_def get_denom_wf [OF wf] split: option.splits)
  show name: "Denom_Denom d = n" if "denoms_of k s n = Some d" for n d
    using wf that unfolding denoms_of_wf [OF wf] store_wf_def by fastforce
  show "\<exists>s'. SetDenom k s d = Inr s' \<and> store_wf k s'
      \<and> denoms_of k s' = (denoms_of k s)(Denom_Denom d \<mapsto> d)" if ok: "denom_fits d" for d
  proof -
    obtain s' b where b: "SetDenom k s d = Inr s'" "cdc_Unmarshal_Denom (Keeper_cdc k) b = Inr d"
      "\<And>j. kvget s' j = (if j = pfx @ DenomKey (Denom_Denom d) then Some b else kvget s j)"
      using set_denom_bytes [OF ok, of s] by blast
    have wf': "store_wf k s'"
      using wf b(2) ParamsKey_disjoint unfolding store_wf_def b(3) by auto
    have "denoms_of k s' n = Some x \<longleftrightarrow> ((denoms_of k s)(Denom_Denom d \<mapsto> d)) n = Some x" for n x
      using b(2) by (auto simp: denoms_of_wf [OF wf] denoms_of_wf [OF wf'] b(3))
    then have "denoms_of k s' = (denoms_of k s)(Denom_Denom d \<mapsto> d)"
      by (intro ext map_eqI)
    then show ?thesis using b(1) wf' by blast
  qed
  show "store_wf k (RemoveDenom k s n)
      \<and> denoms_of k (RemoveDenom k s n) = (denoms_of k s)(n := None)" for n
  proof -
    have wf': "store_wf k (RemoveDenom k s n)"
      using wf unfolding store_wf_def remove_denom_bytes by auto
    have "denoms_of k (RemoveDenom k s n) m = Some x
        \<longleftrightarrow> ((denoms_of k s)(n := None)) m = Some x" for m x
      by (auto simp: denoms_of_wf [OF wf] denoms_of_wf [OF wf'] remove_denom_bytes)
    then have "denoms_of k (RemoveDenom k s n) = (denoms_of k s)(n := None)"
      by (intro ext map_eqI)
    then show ?thesis using wf' by blast
  qed
  show "\<exists>ds. GetAllDenom k s = Inr ds \<and> distinct (map Denom_Denom ds)
      \<and> set ds = ran (denoms_of k s)"
  proof -
    let ?es = "kv_PrefixAll (Keeper_storeService k) s pfx"
    let ?dec = "\<lambda>e. projr (cdc_Unmarshal_Denom (Keeper_cdc k) (snd e))"
    have e: "\<exists>d. cdc_Unmarshal_Denom (Keeper_cdc k) (snd e) = Inr d
        \<and> fst e = DenomKey (Denom_Denom d)" if "e \<in> set ?es" for e
      using wf that prefix_all [of "fst e" "snd e" s pfx] by (simp add: store_wf_def)
    have all: "GetAllDenom k s = Inr (map ?dec ?es)"
      using rfold_append_map [of ?es "\<lambda>e. must (cdc_Unmarshal_Denom (Keeper_cdc k) (snd e))"
          ?dec "[]"] e
      by (fastforce simp: GetAllDenom_def split_def)
    have keys: "map fst ?es = map DenomKey (map Denom_Denom (map ?dec ?es))"
      using e by fastforce
    have "distinct (map Denom_Denom (map ?dec ?es))"
      using prefix_distinct [of s pfx] unfolding keys distinct_map [of DenomKey] by (rule conjunct1)
    moreover have "d \<in> set (map ?dec ?es) \<longleftrightarrow> d \<in> ran (denoms_of k s)" for d
    proof
      assume "d \<in> set (map ?dec ?es)"
      then obtain e' where e': "e' \<in> set ?es" "d = ?dec e'" by auto
      with e [OF e'(1)] prefix_all [of "fst e'" "snd e'" s pfx]
      have "denoms_of k s (Denom_Denom d) = Some d"
        by (auto simp: denoms_of_wf [OF wf])
      then show "d \<in> ran (denoms_of k s)" by (rule ranI)
    next
      assume "d \<in> ran (denoms_of k s)"
      then obtain n b where "kvget s (pfx @ DenomKey n) = Some b"
        "cdc_Unmarshal_Denom (Keeper_cdc k) b = Inr d"
        by (auto simp: ran_def denoms_of_wf [OF wf])
      then have "(DenomKey n, b) \<in> set ?es" "?dec (DenomKey n, b) = d"
        by (simp_all add: prefix_all)
      then show "d \<in> set (map ?dec ?es)" by force
    qed
    ultimately show ?thesis using all by blast
  qed
qed

section \<open>Frame properties\<close>

text \<open>Denoms and parameters live under different keys, so neither operation disturbs the other.\<close>

context tf_keeper
begin

lemma set_params:
  assumes "store_wf k s"
  shows "\<exists>s'. SetParams k s p = Inr s' \<and> store_wf k s' \<and> denoms_of k s' = denoms_of k s
    \<and> GetParams k s' = Inr p"
proof -
  let ?s' = "kv_Set (Keeper_storeService k) s ParamsKey []"
  have get: "kvget ?s' j = (if j = ParamsKey then Some [] else kvget s j)" for j
    by (rule get_set) (simp add: kv_valid_def)
  have wf': "store_wf k ?s'"
    using assms params_empty [of p] unfolding store_wf_def get
    by (simp add: ParamsKey_disjoint [symmetric] del: ParamsKey_disjoint)
  have "denoms_of k ?s' n = denoms_of k s n" for n
    by (rule map_eqI)
      (simp add: denoms_of_wf [OF assms] denoms_of_wf [OF wf'] get
        ParamsKey_disjoint [symmetric] del: ParamsKey_disjoint)
  moreover have "SetParams k s p = Inr ?s'"
    by (simp add: SetParams_def params_bytes)
  moreover have "GetParams k ?s' = Inr p"
    using params_empty [of p] by (simp add: GetParams_def get)
  ultimately show ?thesis using wf' by blast
qed

lemma get_params_wf: "store_wf k s \<Longrightarrow> \<exists>p. GetParams k s = Inr p"
  by (fastforce simp: store_wf_def GetParams_def split: option.splits)

lemma get_params_frame:
  "(\<And>j. j = ParamsKey \<Longrightarrow> kvget s' j = kvget s j) \<Longrightarrow> GetParams k s' = GetParams k s"
  by (simp add: GetParams_def)

lemma set_denom_params:
  assumes "denom_fits d" "SetDenom k s d = Inr s'"
  shows "GetParams k s' = GetParams k s"
proof -
  obtain s1 b where "SetDenom k s d = Inr s1"
    "\<And>j. kvget s1 j = (if j = pfx @ DenomKey (Denom_Denom d) then Some b else kvget s j)"
    using set_denom_bytes [OF assms(1), of s] by blast
  with assms(2) show ?thesis by (intro get_params_frame) simp
qed

lemma remove_denom_params: "GetParams k (RemoveDenom k s n) = GetParams k s"
  by (intro get_params_frame) (simp add: remove_denom_bytes)

lemma store_wf_empty: "(\<And>j. kvget s j = None) \<Longrightarrow> store_wf k s \<and> denoms_of k s = Map.empty"
  by (auto simp: store_wf_def denoms_of_def GetDenom_def prefix_get)

end

section \<open>The keeper of the tests\<close>

definition mem_keeper :: "gostring \<Rightarrow> mem_store Keeper" where
  "mem_keeper authority = \<lparr>Keeper_cdc = mem_codec, Keeper_storeService = mem_kv,
     Keeper_authority = authority\<rparr>"

interpretation mem_keeper: tf_keeper "mem_keeper authority"
  using mem_kv.kv_store_axioms mem_codec.proto_codec_axioms
  by (simp add: tf_keeper_def mem_keeper_def)

lemma mem_store_empty: "store_wf (mem_keeper authority) [] \<and> denoms_of (mem_keeper authority) [] = Map.empty"
  by (rule mem_keeper.store_wf_empty) (simp add: mem_keeper_def mem_kv_def)

text \<open>A keeper with an authority, a denom, and the store that holds it, for the witnesses.\<close>

definition gov_keeper :: "mem_store Keeper" where
  "gov_keeper = mem_keeper (lit ''gov'')"

definition sample_denom :: Denom where
  "sample_denom = Denom_zero\<lparr>Denom_Denom := lit ''umedas'', Denom_Precision := 6,
     Denom_MaxSupply := 1000, Denom_Supply := 10, Denom_Owner := lit ''alice''\<rparr>"

definition sample_store :: mem_store where
  "sample_store = (case SetDenom gov_keeper [] sample_denom of Inl e \<Rightarrow> [] | Inr s \<Rightarrow> s)"

lemma gov_keeper_contract: "tf_keeper gov_keeper"
  unfolding gov_keeper_def by (rule mem_keeper.tf_keeper_axioms)

lemma sample_fits: "denom_fits sample_denom"
  using Denom_Size_le [of sample_denom]
  by (simp add: denom_fits_def sample_denom_def Denom_zero_def lit_def)

lemma sample_store:
  "SetDenom gov_keeper [] sample_denom = Inr sample_store"
  "store_wf gov_keeper sample_store"
  "denoms_of gov_keeper sample_store = [lit ''umedas'' \<mapsto> sample_denom]"
  using mem_keeper.table.set_spec [of "lit ''gov''" "[]" sample_denom]
    mem_store_empty [of "lit ''gov''"] sample_fits
  unfolding sample_store_def gov_keeper_def by (auto simp: sample_denom_def Denom_zero_def)

end
