(* ===== verification/TF_MsgServer.thy ===== *)
theory TF_MsgServer
  imports TF_Keeper TF_Tx
begin

text \<open>
  The message server of the token factory: \<open>x/tokenfactory/keeper/msg_server_denom.go\<close>,
  \<open>msg_update_params.go\<close>, and the constructors and \<open>ValidateBasic\<close> methods of the messages in
  \<open>types/messages_denom.go\<close> and \<open>types/msg_update_params.go\<close>.  A handler returns the state it
  leaves and its response, or an error; none of them writes before its last check, so an error
  leaves the state as it was.  The specification below is the same server on an abstract table
  of denoms, and the handlers refine it.
\<close>

section \<open>Messages\<close>

definition NewMsgCreateDenom ::
  "gostring \<Rightarrow> gostring \<Rightarrow> gostring \<Rightarrow> gostring \<Rightarrow> int32 \<Rightarrow> gostring \<Rightarrow> int32 \<Rightarrow> int32 \<Rightarrow> bool
    \<Rightarrow> MsgCreateDenom" where
  "NewMsgCreateDenom owner denom description ticker precision url maxSupply supply
     canChangeMaxSupply =
   \<lparr>MsgCreateDenom_Owner = owner, MsgCreateDenom_Denom = denom,
    MsgCreateDenom_Description = description, MsgCreateDenom_Ticker = ticker,
    MsgCreateDenom_Precision = precision, MsgCreateDenom_Url = url,
    MsgCreateDenom_MaxSupply = maxSupply, MsgCreateDenom_Supply = supply,
    MsgCreateDenom_CanChangeMaxSupply = canChangeMaxSupply\<rparr>"

definition NewMsgUpdateDenom ::
  "gostring \<Rightarrow> gostring \<Rightarrow> gostring \<Rightarrow> gostring \<Rightarrow> int32 \<Rightarrow> gostring \<Rightarrow> int32 \<Rightarrow> int32 \<Rightarrow> bool
    \<Rightarrow> MsgUpdateDenom" where
  "NewMsgUpdateDenom owner denom description ticker precision url maxSupply supply
     canChangeMaxSupply =
   \<lparr>MsgUpdateDenom_Owner = owner, MsgUpdateDenom_Denom = denom,
    MsgUpdateDenom_Description = description, MsgUpdateDenom_Ticker = ticker,
    MsgUpdateDenom_Precision = precision, MsgUpdateDenom_Url = url,
    MsgUpdateDenom_MaxSupply = maxSupply, MsgUpdateDenom_Supply = supply,
    MsgUpdateDenom_CanChangeMaxSupply = canChangeMaxSupply\<rparr>"

definition NewMsgDeleteDenom :: "gostring \<Rightarrow> gostring \<Rightarrow> MsgDeleteDenom" where
  "NewMsgDeleteDenom owner denom =
     \<lparr>MsgDeleteDenom_Owner = owner, MsgDeleteDenom_Denom = denom\<rparr>"

text \<open>The check of the owner field the three messages share; \<open>bech32\<close> is a parameter.\<close>

definition check_owner :: "(gostring \<Rightarrow> gostring + bytes) \<Rightarrow> gostring \<Rightarrow> go_error + unit" where
  "check_owner bech32 owner =
     (case bech32 owner of
        Inl err \<Rightarrow> Inl (Wrap ErrInvalidAddress (lit ''invalid owner address ('' @ err @ lit '')''))
      | Inr addr \<Rightarrow> Inr ())"

definition MsgCreateDenom_ValidateBasic ::
  "(gostring \<Rightarrow> gostring + bytes) \<Rightarrow> MsgCreateDenom \<Rightarrow> go_error + unit" where
  "MsgCreateDenom_ValidateBasic bech32 msg = check_owner bech32 (MsgCreateDenom_Owner msg)"

definition MsgUpdateDenom_ValidateBasic ::
  "(gostring \<Rightarrow> gostring + bytes) \<Rightarrow> MsgUpdateDenom \<Rightarrow> go_error + unit" where
  "MsgUpdateDenom_ValidateBasic bech32 msg = check_owner bech32 (MsgUpdateDenom_Owner msg)"

definition MsgDeleteDenom_ValidateBasic ::
  "(gostring \<Rightarrow> gostring + bytes) \<Rightarrow> MsgDeleteDenom \<Rightarrow> go_error + unit" where
  "MsgDeleteDenom_ValidateBasic bech32 msg = check_owner bech32 (MsgDeleteDenom_Owner msg)"

text \<open>\<open>NewParams\<close>, \<open>DefaultParams\<close> and \<open>Params.Validate\<close> of \<open>types/params.go\<close>.\<close>

definition NewParams :: Params where
  "NewParams = Params"

definition DefaultParams :: Params where
  "DefaultParams = NewParams"

definition Params_Validate :: "Params \<Rightarrow> go_error + unit" where
  "Params_Validate p = Inr ()"

definition MsgUpdateParams_ValidateBasic ::
  "(gostring \<Rightarrow> gostring + bytes) \<Rightarrow> MsgUpdateParams \<Rightarrow> go_error + unit" where
  "MsgUpdateParams_ValidateBasic bech32 m =
     (case bech32 (MsgUpdateParams_Authority m) of
        Inl err \<Rightarrow> Inl (WrapText err (lit ''invalid authority address''))
      | Inr addr \<Rightarrow> rbind (Params_Validate (MsgUpdateParams_Params m)) (\<lambda>u. Inr ()))"

section \<open>Handlers\<close>

definition CreateDenom ::
  "'s Keeper \<Rightarrow> 's \<Rightarrow> MsgCreateDenom \<Rightarrow> go_error + 's \<times> MsgCreateDenomResponse" where
  "CreateDenom k s msg =
     rbind (GetDenom k s (MsgCreateDenom_Denom msg)) (\<lambda>(val, isFound).
     if isFound then Inl (Wrap ErrInvalidRequest (lit ''index already set''))
     else let denom = \<lparr>
         Denom_Denom = MsgCreateDenom_Denom msg,
         Denom_Description = MsgCreateDenom_Description msg,
         Denom_Ticker = MsgCreateDenom_Ticker msg,
         Denom_Precision = MsgCreateDenom_Precision msg,
         Denom_Url = MsgCreateDenom_Url msg,
         Denom_MaxSupply = MsgCreateDenom_MaxSupply msg,
         Denom_Supply = MsgCreateDenom_Supply msg,
         Denom_CanChangeMaxSupply = MsgCreateDenom_CanChangeMaxSupply msg,
         Denom_Owner = MsgCreateDenom_Owner msg\<rparr>
       in rbind (SetDenom k s denom) (\<lambda>s'. Inr (s', MsgCreateDenomResponse)))"

definition UpdateDenom ::
  "'s Keeper \<Rightarrow> 's \<Rightarrow> MsgUpdateDenom \<Rightarrow> go_error + 's \<times> MsgUpdateDenomResponse" where
  "UpdateDenom k s msg =
     rbind (GetDenom k s (MsgUpdateDenom_Denom msg)) (\<lambda>(valFound, isFound).
     if \<not> isFound then Inl (Wrap ErrKeyNotFound (lit ''index not set''))
     else if MsgUpdateDenom_Owner msg \<noteq> Denom_Owner valFound
     then Inl (Wrap ErrUnauthorized (lit ''incorrect owner''))
     else let denom = \<lparr>
         Denom_Denom = MsgUpdateDenom_Denom msg,
         Denom_Description = MsgUpdateDenom_Description msg,
         Denom_Ticker = MsgUpdateDenom_Ticker msg,
         Denom_Precision = MsgUpdateDenom_Precision msg,
         Denom_Url = MsgUpdateDenom_Url msg,
         Denom_MaxSupply = MsgUpdateDenom_MaxSupply msg,
         Denom_Supply = MsgUpdateDenom_Supply msg,
         Denom_CanChangeMaxSupply = MsgUpdateDenom_CanChangeMaxSupply msg,
         Denom_Owner = MsgUpdateDenom_Owner msg\<rparr>
       in rbind (SetDenom k s denom) (\<lambda>s'. Inr (s', MsgUpdateDenomResponse)))"

definition DeleteDenom ::
  "'s Keeper \<Rightarrow> 's \<Rightarrow> MsgDeleteDenom \<Rightarrow> go_error + 's \<times> MsgDeleteDenomResponse" where
  "DeleteDenom k s msg =
     rbind (GetDenom k s (MsgDeleteDenom_Denom msg)) (\<lambda>(valFound, isFound).
     if \<not> isFound then Inl (Wrap ErrKeyNotFound (lit ''index not set''))
     else if MsgDeleteDenom_Owner msg \<noteq> Denom_Owner valFound
     then Inl (Wrap ErrUnauthorized (lit ''incorrect owner''))
     else Inr (RemoveDenom k s (MsgDeleteDenom_Denom msg), MsgDeleteDenomResponse))"

definition UpdateParams ::
  "'s Keeper \<Rightarrow> 's \<Rightarrow> MsgUpdateParams \<Rightarrow> go_error + 's \<times> MsgUpdateParamsResponse" where
  "UpdateParams k s req =
     (if GetAuthority k \<noteq> MsgUpdateParams_Authority req
      then Inl (Wrap ErrInvalidSigner (lit ''invalid authority; expected '' @ GetAuthority k
        @ lit '', got '' @ MsgUpdateParams_Authority req))
      else rbind (SetParams k s (MsgUpdateParams_Params req)) (\<lambda>s'.
        Inr (s', MsgUpdateParamsResponse)))"

text \<open>
  The messages registered with the service (\<open>types/codec.go\<close>, \<open>_Msg_serviceDesc\<close>) and their
  dispatch to the handlers: the checks \<open>ValidateBasic\<close> makes before, and the handler.
\<close>

datatype tf_msg =
    TxUpdateParams MsgUpdateParams
  | TxCreateDenom MsgCreateDenom
  | TxUpdateDenom MsgUpdateDenom
  | TxDeleteDenom MsgDeleteDenom

fun ValidateBasic :: "(gostring \<Rightarrow> gostring + bytes) \<Rightarrow> tf_msg \<Rightarrow> go_error + unit" where
  "ValidateBasic bech32 (TxUpdateParams m) = MsgUpdateParams_ValidateBasic bech32 m"
| "ValidateBasic bech32 (TxCreateDenom m) = MsgCreateDenom_ValidateBasic bech32 m"
| "ValidateBasic bech32 (TxUpdateDenom m) = MsgUpdateDenom_ValidateBasic bech32 m"
| "ValidateBasic bech32 (TxDeleteDenom m) = MsgDeleteDenom_ValidateBasic bech32 m"

fun Msg_Handler :: "'s Keeper \<Rightarrow> 's \<Rightarrow> tf_msg \<Rightarrow> go_error + 's" where
  "Msg_Handler k s (TxUpdateParams m) = rbind (UpdateParams k s m) (\<lambda>(s', r). Inr s')"
| "Msg_Handler k s (TxCreateDenom m) = rbind (CreateDenom k s m) (\<lambda>(s', r). Inr s')"
| "Msg_Handler k s (TxUpdateDenom m) = rbind (UpdateDenom k s m) (\<lambda>(s', r). Inr s')"
| "Msg_Handler k s (TxDeleteDenom m) = rbind (DeleteDenom k s m) (\<lambda>(s', r). Inr s')"

section \<open>The specification\<close>

text \<open>The denom a message describes.\<close>

definition denom_of_create :: "MsgCreateDenom \<Rightarrow> Denom" where
  "denom_of_create m = \<lparr>Denom_Denom = MsgCreateDenom_Denom m,
     Denom_Description = MsgCreateDenom_Description m, Denom_Ticker = MsgCreateDenom_Ticker m,
     Denom_Precision = MsgCreateDenom_Precision m, Denom_Url = MsgCreateDenom_Url m,
     Denom_MaxSupply = MsgCreateDenom_MaxSupply m, Denom_Supply = MsgCreateDenom_Supply m,
     Denom_CanChangeMaxSupply = MsgCreateDenom_CanChangeMaxSupply m,
     Denom_Owner = MsgCreateDenom_Owner m\<rparr>"

definition denom_of_update :: "MsgUpdateDenom \<Rightarrow> Denom" where
  "denom_of_update m = \<lparr>Denom_Denom = MsgUpdateDenom_Denom m,
     Denom_Description = MsgUpdateDenom_Description m, Denom_Ticker = MsgUpdateDenom_Ticker m,
     Denom_Precision = MsgUpdateDenom_Precision m, Denom_Url = MsgUpdateDenom_Url m,
     Denom_MaxSupply = MsgUpdateDenom_MaxSupply m, Denom_Supply = MsgUpdateDenom_Supply m,
     Denom_CanChangeMaxSupply = MsgUpdateDenom_CanChangeMaxSupply m,
     Denom_Owner = MsgUpdateDenom_Owner m\<rparr>"

lemma denom_of_simps [simp]:
  "Denom_Denom (denom_of_create c) = MsgCreateDenom_Denom c"
  "Denom_Owner (denom_of_create c) = MsgCreateDenom_Owner c"
  "Denom_Denom (denom_of_update u) = MsgUpdateDenom_Denom u"
  "Denom_Owner (denom_of_update u) = MsgUpdateDenom_Owner u"
  by (simp_all add: denom_of_create_def denom_of_update_def)

text \<open>
  A denom takes as many bytes as the message it came in, so a message below the size limit of the
  store is enough for the denom to be stored.
\<close>

fun msg_fits :: "tf_msg \<Rightarrow> bool" where
  "msg_fits (TxUpdateParams m) = True"
| "msg_fits (TxCreateDenom m) = (MsgCreateDenom_Size m < 2 ^ 31)"
| "msg_fits (TxUpdateDenom m) = (MsgUpdateDenom_Size m < 2 ^ 31)"
| "msg_fits (TxDeleteDenom m) = True"

lemma fits_create: "denom_fits (denom_of_create m) \<longleftrightarrow> MsgCreateDenom_Size m < 2 ^ 31"
  by (simp add: denom_fits_def Denom_Size_def MsgCreateDenom_Size_def denom_of_create_def add_ac)

lemma fits_update: "denom_fits (denom_of_update m) \<longleftrightarrow> MsgUpdateDenom_Size m < 2 ^ 31"
  by (simp add: denom_fits_def Denom_Size_def MsgUpdateDenom_Size_def denom_of_update_def add_ac)

text \<open>The server on the abstract state: the authority is fixed, the state a table of denoms.\<close>

fun spec_step ::
  "gostring \<Rightarrow> (gostring \<rightharpoonup> Denom) \<Rightarrow> tf_msg \<Rightarrow> go_error + (gostring \<rightharpoonup> Denom)" where
  "spec_step auth t (TxUpdateParams m) =
     (if MsgUpdateParams_Authority m = auth then Inr t
      else Inl (Wrap ErrInvalidSigner (lit ''invalid authority; expected '' @ auth
        @ lit '', got '' @ MsgUpdateParams_Authority m)))"
| "spec_step auth t (TxCreateDenom m) =
     (case t (MsgCreateDenom_Denom m) of
        None \<Rightarrow> Inr (t(MsgCreateDenom_Denom m \<mapsto> denom_of_create m))
      | Some d \<Rightarrow> Inl (Wrap ErrInvalidRequest (lit ''index already set'')))"
| "spec_step auth t (TxUpdateDenom m) =
     (case t (MsgUpdateDenom_Denom m) of
        None \<Rightarrow> Inl (Wrap ErrKeyNotFound (lit ''index not set''))
      | Some d \<Rightarrow>
          if Denom_Owner d = MsgUpdateDenom_Owner m
          then Inr (t(MsgUpdateDenom_Denom m \<mapsto> denom_of_update m))
          else Inl (Wrap ErrUnauthorized (lit ''incorrect owner'')))"
| "spec_step auth t (TxDeleteDenom m) =
     (case t (MsgDeleteDenom_Denom m) of
        None \<Rightarrow> Inl (Wrap ErrKeyNotFound (lit ''index not set''))
      | Some d \<Rightarrow>
          if Denom_Owner d = MsgDeleteDenom_Owner m
          then Inr (t(MsgDeleteDenom_Denom m := None))
          else Inl (Wrap ErrUnauthorized (lit ''incorrect owner'')))"

section \<open>The handlers refine it\<close>

context tf_keeper
begin

lemma set_denom_spec:
  "store_wf k s \<Longrightarrow> denom_fits d \<Longrightarrow>
    \<exists>s'. SetDenom k s d = Inr s' \<and> store_wf k s'
      \<and> denoms_of k s' = (denoms_of k s)(Denom_Denom d \<mapsto> d) \<and> GetParams k s' = GetParams k s"
  using table.set_spec [of s d] set_denom_params [of d s] by blast

lemma create_denom:
  assumes "store_wf k s" "MsgCreateDenom_Size m < 2 ^ 31"
  shows "case denoms_of k s (MsgCreateDenom_Denom m) of
      Some d \<Rightarrow> CreateDenom k s m = Inl (Wrap ErrInvalidRequest (lit ''index already set''))
    | None \<Rightarrow> \<exists>s'. CreateDenom k s m = Inr (s', MsgCreateDenomResponse) \<and> store_wf k s'
        \<and> denoms_of k s' = (denoms_of k s)(MsgCreateDenom_Denom m \<mapsto> denom_of_create m)
        \<and> GetParams k s' = GetParams k s"
  using set_denom_spec [OF assms(1) iffD2 [OF fits_create assms(2)]]
  by (cases rule: table.get_cases [OF assms(1), of "MsgCreateDenom_Denom m"])
    (auto simp: CreateDenom_def denom_of_create_def [symmetric])

lemma update_denom:
  assumes "store_wf k s" "MsgUpdateDenom_Size m < 2 ^ 31"
  shows "case denoms_of k s (MsgUpdateDenom_Denom m) of
      None \<Rightarrow> UpdateDenom k s m = Inl (Wrap ErrKeyNotFound (lit ''index not set''))
    | Some d \<Rightarrow>
        if Denom_Owner d = MsgUpdateDenom_Owner m
        then \<exists>s'. UpdateDenom k s m = Inr (s', MsgUpdateDenomResponse) \<and> store_wf k s'
          \<and> denoms_of k s' = (denoms_of k s)(MsgUpdateDenom_Denom m \<mapsto> denom_of_update m)
          \<and> GetParams k s' = GetParams k s
        else UpdateDenom k s m = Inl (Wrap ErrUnauthorized (lit ''incorrect owner''))"
  using set_denom_spec [OF assms(1) iffD2 [OF fits_update assms(2)]]
  by (cases rule: table.get_cases [OF assms(1), of "MsgUpdateDenom_Denom m"])
    (auto simp: UpdateDenom_def denom_of_update_def [symmetric])

lemma delete_denom:
  assumes "store_wf k s"
  shows "case denoms_of k s (MsgDeleteDenom_Denom m) of
      None \<Rightarrow> DeleteDenom k s m = Inl (Wrap ErrKeyNotFound (lit ''index not set''))
    | Some d \<Rightarrow>
        if Denom_Owner d = MsgDeleteDenom_Owner m
        then \<exists>s'. DeleteDenom k s m = Inr (s', MsgDeleteDenomResponse) \<and> store_wf k s'
          \<and> denoms_of k s' = (denoms_of k s)(MsgDeleteDenom_Denom m := None)
          \<and> GetParams k s' = GetParams k s
        else DeleteDenom k s m = Inl (Wrap ErrUnauthorized (lit ''incorrect owner''))"
  using table.remove_spec [OF assms, of "MsgDeleteDenom_Denom m"]
    remove_denom_params [of s "MsgDeleteDenom_Denom m"]
  by (cases rule: table.get_cases [OF assms, of "MsgDeleteDenom_Denom m"])
    (auto simp: DeleteDenom_def)

lemma update_params:
  assumes "store_wf k s"
  shows "if MsgUpdateParams_Authority m = Keeper_authority k
    then \<exists>s'. UpdateParams k s m = Inr (s', MsgUpdateParamsResponse) \<and> store_wf k s'
      \<and> denoms_of k s' = denoms_of k s \<and> GetParams k s' = Inr (MsgUpdateParams_Params m)
    else UpdateParams k s m = Inl (Wrap ErrInvalidSigner (lit ''invalid authority; expected ''
      @ Keeper_authority k @ lit '', got '' @ MsgUpdateParams_Authority m))"
  using set_params [OF assms, of "MsgUpdateParams_Params m"]
  by (auto simp: UpdateParams_def GetAuthority_def)

lemma handler_refines:
  assumes "store_wf k s" "msg_fits m"
  shows "case Msg_Handler k s m of
      Inl e \<Rightarrow> spec_step (Keeper_authority k) (denoms_of k s) m = Inl e
    | Inr s' \<Rightarrow> store_wf k s' \<and> spec_step (Keeper_authority k) (denoms_of k s) m = Inr (denoms_of k s')"
proof (cases m)
  case (TxUpdateParams p)
  then show ?thesis
    using update_params [OF assms(1), of p] by (auto split: if_splits)
next
  case (TxCreateDenom c)
  then show ?thesis
    using create_denom [OF assms(1), of c] assms(2) by (auto split: option.splits)
next
  case (TxUpdateDenom u)
  then show ?thesis
    using update_denom [OF assms(1), of u] assms(2) by (auto split: option.splits if_splits)
next
  case (TxDeleteDenom d)
  then show ?thesis
    using delete_denom [OF assms(1), of d] by (auto split: option.splits if_splits)
qed

end

section \<open>Properties\<close>

text \<open>
  C7: \<open>CreateDenom\<close>.  A name that is taken is refused with \<open>ErrInvalidRequest\<close>; otherwise the
  denom of the message is stored under its name, every other denom and the parameters stay as
  they are, and the invariant of the store is kept.
\<close>

theorem CreateDenom_correct:
  assumes "tf_keeper k" and "store_wf k s" and "MsgCreateDenom_Size m < 2 ^ 31"
  shows "case denoms_of k s (MsgCreateDenom_Denom m) of
      Some d \<Rightarrow> CreateDenom k s m = Inl (Wrap ErrInvalidRequest (lit ''index already set''))
    | None \<Rightarrow> \<exists>s'. CreateDenom k s m = Inr (s', MsgCreateDenomResponse) \<and> store_wf k s'
        \<and> denoms_of k s' = (denoms_of k s)(MsgCreateDenom_Denom m \<mapsto> denom_of_create m)
        \<and> GetParams k s' = GetParams k s"
  using assms(2,3) by (rule tf_keeper.create_denom [OF assms(1)])

definition sample_create :: MsgCreateDenom where
  "sample_create = NewMsgCreateDenom (lit ''bob'') (lit ''usilver'') (lit ''silver'') (lit ''SLV'')
     6 [] 500 0 True"

definition sample_update :: "gostring \<Rightarrow> MsgUpdateDenom" where
  "sample_update owner = NewMsgUpdateDenom owner (lit ''umedas'') [] [] 6 [] 2000 10 False"

lemma sample_msgs_fit:
  "MsgCreateDenom_Size sample_create < 2 ^ 31"
  "MsgUpdateDenom_Size (sample_update (lit ''alice'')) < 2 ^ 31"
  "MsgUpdateDenom_Size (sample_update (lit ''bob'')) < 2 ^ 31"
  using Denom_Size_le [of "denom_of_create sample_create"]
    Denom_Size_le [of "denom_of_update (sample_update (lit ''alice''))"]
    Denom_Size_le [of "denom_of_update (sample_update (lit ''bob''))"]
  unfolding fits_create [symmetric] fits_update [symmetric]
  by (simp_all add: denom_fits_def sample_create_def sample_update_def NewMsgCreateDenom_def
      NewMsgUpdateDenom_def denom_of_create_def denom_of_update_def lit_def)

theorem CreateDenom_correct_witness:
  "\<exists>s'. CreateDenom gov_keeper sample_store sample_create = Inr (s', MsgCreateDenomResponse)
    \<and> denoms_of gov_keeper s' (lit ''usilver'') = Some (denom_of_create sample_create)
    \<and> denoms_of gov_keeper s' (lit ''umedas'') = Some sample_denom"
  using CreateDenom_correct [OF gov_keeper_contract sample_store(2) sample_msgs_fit(1)]
  by (auto simp: sample_store(3) sample_create_def NewMsgCreateDenom_def lit_def)

text \<open>
  C8: \<open>UpdateDenom\<close>.  An unknown name is refused with \<open>ErrKeyNotFound\<close>, a signer other than the
  owner with \<open>ErrUnauthorized\<close>; otherwise the stored denom becomes the one of the message and
  nothing else changes.
\<close>

theorem UpdateDenom_correct:
  assumes "tf_keeper k" and "store_wf k s" and "MsgUpdateDenom_Size m < 2 ^ 31"
  shows "case denoms_of k s (MsgUpdateDenom_Denom m) of
      None \<Rightarrow> UpdateDenom k s m = Inl (Wrap ErrKeyNotFound (lit ''index not set''))
    | Some d \<Rightarrow>
        if Denom_Owner d = MsgUpdateDenom_Owner m
        then \<exists>s'. UpdateDenom k s m = Inr (s', MsgUpdateDenomResponse) \<and> store_wf k s'
          \<and> denoms_of k s' = (denoms_of k s)(MsgUpdateDenom_Denom m \<mapsto> denom_of_update m)
          \<and> GetParams k s' = GetParams k s
        else UpdateDenom k s m = Inl (Wrap ErrUnauthorized (lit ''incorrect owner''))"
  using assms(2,3) by (rule tf_keeper.update_denom [OF assms(1)])

theorem UpdateDenom_correct_witness:
  "(\<exists>s'. UpdateDenom gov_keeper sample_store (sample_update (lit ''alice''))
      = Inr (s', MsgUpdateDenomResponse))
    \<and> UpdateDenom gov_keeper sample_store (sample_update (lit ''bob''))
      = Inl (Wrap ErrUnauthorized (lit ''incorrect owner''))"
  using UpdateDenom_correct [OF gov_keeper_contract sample_store(2) sample_msgs_fit(2)]
    UpdateDenom_correct [OF gov_keeper_contract sample_store(2) sample_msgs_fit(3)]
  by (auto simp: sample_store(3) sample_update_def NewMsgUpdateDenom_def lit_def sample_denom_def)

text \<open>
  C9: \<open>DeleteDenom\<close>.  As for an update, with the denom removed at the end.
\<close>

theorem DeleteDenom_correct:
  assumes "tf_keeper k" and "store_wf k s"
  shows "case denoms_of k s (MsgDeleteDenom_Denom m) of
      None \<Rightarrow> DeleteDenom k s m = Inl (Wrap ErrKeyNotFound (lit ''index not set''))
    | Some d \<Rightarrow>
        if Denom_Owner d = MsgDeleteDenom_Owner m
        then \<exists>s'. DeleteDenom k s m = Inr (s', MsgDeleteDenomResponse) \<and> store_wf k s'
          \<and> denoms_of k s' = (denoms_of k s)(MsgDeleteDenom_Denom m := None)
          \<and> GetParams k s' = GetParams k s
        else DeleteDenom k s m = Inl (Wrap ErrUnauthorized (lit ''incorrect owner''))"
  using assms(2) by (rule tf_keeper.delete_denom [OF assms(1)])

theorem DeleteDenom_correct_witness:
  "(\<exists>s'. DeleteDenom gov_keeper sample_store (NewMsgDeleteDenom (lit ''alice'') (lit ''umedas''))
      = Inr (s', MsgDeleteDenomResponse) \<and> denoms_of gov_keeper s' = Map.empty)
    \<and> DeleteDenom gov_keeper sample_store (NewMsgDeleteDenom (lit ''bob'') (lit ''umedas''))
      = Inl (Wrap ErrUnauthorized (lit ''incorrect owner''))"
  using DeleteDenom_correct [OF gov_keeper_contract sample_store(2),
      of "NewMsgDeleteDenom (lit ''alice'') (lit ''umedas'')"]
    DeleteDenom_correct [OF gov_keeper_contract sample_store(2),
      of "NewMsgDeleteDenom (lit ''bob'') (lit ''umedas'')"]
  by (auto simp: sample_store(3) NewMsgDeleteDenom_def lit_def sample_denom_def)

text \<open>
  C10: \<open>UpdateParams\<close>.  Only the authority of the keeper may set the parameters; the new ones are
  then what \<open>GetParams\<close> returns, and no denom changes.
\<close>

theorem UpdateParams_correct:
  assumes "tf_keeper k" and "store_wf k s"
  shows "if MsgUpdateParams_Authority m = Keeper_authority k
    then \<exists>s'. UpdateParams k s m = Inr (s', MsgUpdateParamsResponse) \<and> store_wf k s'
      \<and> denoms_of k s' = denoms_of k s \<and> GetParams k s' = Inr (MsgUpdateParams_Params m)
    else UpdateParams k s m = Inl (Wrap ErrInvalidSigner (lit ''invalid authority; expected ''
      @ Keeper_authority k @ lit '', got '' @ MsgUpdateParams_Authority m))"
  using assms(2) by (rule tf_keeper.update_params [OF assms(1)])

theorem UpdateParams_correct_witness:
  "(\<exists>s'. UpdateParams gov_keeper sample_store
        \<lparr>MsgUpdateParams_Authority = lit ''gov'', MsgUpdateParams_Params = Params\<rparr>
      = Inr (s', MsgUpdateParamsResponse) \<and> GetParams gov_keeper s' = Inr Params)
    \<and> UpdateParams gov_keeper sample_store
        \<lparr>MsgUpdateParams_Authority = lit ''eve'', MsgUpdateParams_Params = Params\<rparr>
      = Inl (Wrap ErrInvalidSigner (lit ''invalid authority; expected gov, got eve''))"
  using UpdateParams_correct [OF gov_keeper_contract sample_store(2),
      of "\<lparr>MsgUpdateParams_Authority = lit ''gov'', MsgUpdateParams_Params = Params\<rparr>"]
    UpdateParams_correct [OF gov_keeper_contract sample_store(2),
      of "\<lparr>MsgUpdateParams_Authority = lit ''eve'', MsgUpdateParams_Params = Params\<rparr>"]
  by (auto simp: gov_keeper_def mem_keeper_def lit_def)

text \<open>
  C11: refinement.  Whatever the store provider, the message server computes what the abstract
  server computes on the table of denoms: the same error in the same cases, and otherwise a store
  whose content is the abstract result.  In particular no message makes a handler panic.
\<close>

theorem Msg_Handler_refines:
  assumes "tf_keeper k" and "store_wf k s" and "msg_fits m"
  shows "case Msg_Handler k s m of
      Inl e \<Rightarrow> spec_step (Keeper_authority k) (denoms_of k s) m = Inl e
    | Inr s' \<Rightarrow> store_wf k s'
        \<and> spec_step (Keeper_authority k) (denoms_of k s) m = Inr (denoms_of k s')"
  using assms(2,3) by (rule tf_keeper.handler_refines [OF assms(1)])

theorem Msg_Handler_refines_witness:
  "\<exists>s'. Msg_Handler gov_keeper sample_store (TxUpdateDenom (sample_update (lit ''alice''))) = Inr s'
    \<and> denoms_of gov_keeper s' = [lit ''umedas'' \<mapsto> denom_of_update (sample_update (lit ''alice''))]"
  using Msg_Handler_refines [OF gov_keeper_contract sample_store(2),
      of "TxUpdateDenom (sample_update (lit ''alice''))"] sample_msgs_fit(2)
  by (auto simp: sample_store(3) sample_update_def NewMsgUpdateDenom_def sample_denom_def lit_def
      split: sum.splits)

end
