(* ===== verification/TF_Machine.thy ===== *)
theory TF_Machine
  imports TF_MsgServer
begin

text \<open>
  The token factory as a state machine: the store, stepped by the messages of the transactions.
  A message whose \<open>ValidateBasic\<close> or whose handler fails leaves the store as it was (the SDK
  discards the branch of the store it ran on; the handlers have not written to it).  Runs of the
  machine are related to runs of the abstract server, on which the ownership invariants are
  proved.
\<close>

section \<open>Steps and runs\<close>

inductive tf_step ::
  "(gostring \<Rightarrow> gostring + bytes) \<Rightarrow> 's Keeper \<Rightarrow> 's \<Rightarrow> tf_msg \<Rightarrow> 's \<Rightarrow> bool"
  for bech32 k where
  invalid: "ValidateBasic bech32 m = Inl e \<Longrightarrow> tf_step bech32 k s m s"
| refused: "ValidateBasic bech32 m = Inr () \<Longrightarrow> Msg_Handler k s m = Inl e \<Longrightarrow>
    tf_step bech32 k s m s"
| accepted: "ValidateBasic bech32 m = Inr () \<Longrightarrow> Msg_Handler k s m = Inr s' \<Longrightarrow>
    tf_step bech32 k s m s'"

inductive tf_run ::
  "(gostring \<Rightarrow> gostring + bytes) \<Rightarrow> 's Keeper \<Rightarrow> 's \<Rightarrow> tf_msg list \<Rightarrow> 's \<Rightarrow> bool"
  for bech32 k where
  start: "tf_run bech32 k s [] s"
| step: "tf_run bech32 k s ms s' \<Longrightarrow> tf_step bech32 k s' m s'' \<Longrightarrow> tf_run bech32 k s (ms @ [m]) s''"

inductive_cases tf_stepE: "tf_step bech32 k s m s'"
inductive_simps tf_run_Nil [simp]: "tf_run bech32 k s [] s'"

lemma tf_step_total: "\<exists>s'. tf_step bech32 k s m s'"
proof (cases "ValidateBasic bech32 m")
  case (Inr u)
  then show ?thesis
    by (cases "Msg_Handler k s m") (auto intro: tf_step.intros)
qed (auto intro: tf_step.intros)

lemma tf_step_deterministic:
  "tf_step bech32 k s m s1 \<Longrightarrow> tf_step bech32 k s m s2 \<Longrightarrow> s1 = s2"
  by (auto elim!: tf_stepE)

text \<open>The account that has to sign a message (the \<open>signer\<close> option in \<open>tx.proto\<close>).\<close>

fun signer :: "tf_msg \<Rightarrow> gostring" where
  "signer (TxUpdateParams m) = MsgUpdateParams_Authority m"
| "signer (TxCreateDenom m) = MsgCreateDenom_Owner m"
| "signer (TxUpdateDenom m) = MsgUpdateDenom_Owner m"
| "signer (TxDeleteDenom m) = MsgDeleteDenom_Owner m"

lemma valid_signer: "ValidateBasic bech32 m = Inr () \<Longrightarrow> \<exists>a. bech32 (signer m) = Inr a"
  by (cases m) (auto simp: MsgUpdateParams_ValidateBasic_def MsgCreateDenom_ValidateBasic_def
      MsgUpdateDenom_ValidateBasic_def MsgDeleteDenom_ValidateBasic_def check_owner_def
      split: sum.splits)

section \<open>Runs of the abstract server\<close>

definition spec_tx ::
  "(gostring \<Rightarrow> gostring + bytes) \<Rightarrow> gostring \<Rightarrow> tf_msg \<Rightarrow> (gostring \<rightharpoonup> Denom) \<Rightarrow> (gostring \<rightharpoonup> Denom)"
where
  "spec_tx bech32 auth m t =
     (case ValidateBasic bech32 m of
        Inl e \<Rightarrow> t
      | Inr u \<Rightarrow> (case spec_step auth t m of Inl e \<Rightarrow> t | Inr t' \<Rightarrow> t'))"

definition spec_run ::
  "(gostring \<Rightarrow> gostring + bytes) \<Rightarrow> gostring \<Rightarrow> (gostring \<rightharpoonup> Denom) \<Rightarrow> tf_msg list
    \<Rightarrow> (gostring \<rightharpoonup> Denom)" where
  "spec_run bech32 auth t ms = fold (spec_tx bech32 auth) ms t"

lemma spec_run_simps [simp]:
  "spec_run bech32 auth t [] = t"
  "spec_run bech32 auth t (m # ms) = spec_run bech32 auth (spec_tx bech32 auth m t) ms"
  "spec_run bech32 auth t (ms @ [m]) = spec_tx bech32 auth m (spec_run bech32 auth t ms)"
  by (simp_all add: spec_run_def)

text \<open>
  What one message can do to the entry of a name: nothing; or its signer, whose address is valid,
  created it, updated it or deleted it, in the last two cases as the owner.
\<close>

lemma spec_tx_cases:
  "spec_tx bech32 auth m t n = t n
   \<or> ValidateBasic bech32 m = Inr () \<and>
     ((\<exists>c. m = TxCreateDenom c \<and> MsgCreateDenom_Denom c = n \<and> t n = None
         \<and> spec_tx bech32 auth m t n = Some (denom_of_create c))
    \<or> (\<exists>d u. m = TxUpdateDenom u \<and> MsgUpdateDenom_Denom u = n \<and> t n = Some d
         \<and> Denom_Owner d = MsgUpdateDenom_Owner u
         \<and> spec_tx bech32 auth m t n = Some (denom_of_update u))
    \<or> (\<exists>d x. m = TxDeleteDenom x \<and> MsgDeleteDenom_Denom x = n \<and> t n = Some d
         \<and> Denom_Owner d = MsgDeleteDenom_Owner x \<and> spec_tx bech32 auth m t n = None))"
proof (cases "ValidateBasic bech32 m")
  case (Inr u)
  then show ?thesis
    by (cases m) (auto simp: spec_tx_def split: option.splits)
qed (simp add: spec_tx_def)

lemma spec_tx_entry:
  obtains (same) "spec_tx bech32 auth m t n = t n"
  | (create) c where "m = TxCreateDenom c" "MsgCreateDenom_Denom c = n" "t n = None"
      "spec_tx bech32 auth m t n = Some (denom_of_create c)" "ValidateBasic bech32 m = Inr ()"
  | (update) d u where "m = TxUpdateDenom u" "MsgUpdateDenom_Denom u = n" "t n = Some d"
      "Denom_Owner d = MsgUpdateDenom_Owner u"
      "spec_tx bech32 auth m t n = Some (denom_of_update u)" "ValidateBasic bech32 m = Inr ()"
  | (delete) d x where "m = TxDeleteDenom x" "MsgDeleteDenom_Denom x = n" "t n = Some d"
      "Denom_Owner d = MsgDeleteDenom_Owner x" "spec_tx bech32 auth m t n = None"
      "ValidateBasic bech32 m = Inr ()"
  using spec_tx_cases [of bech32 auth m t n] by blast

text \<open>Without a message signed by its owner, a denom stays exactly as it is.\<close>

lemma spec_run_owner:
  assumes "t n = Some d" and "\<And>m. m \<in> set ms \<Longrightarrow> signer m \<noteq> Denom_Owner d"
  shows "spec_run bech32 auth t ms n = Some d"
  using assms
proof (induction ms arbitrary: t)
  case (Cons m ms)
  have "spec_tx bech32 auth m t n = Some d"
    using Cons.prems(1) Cons.prems(2) [of m]
    by (cases rule: spec_tx_entry [of bech32 auth m t n]) auto
  then show ?case using Cons by simp
qed simp

text \<open>A denom that was not there was created by its owner.\<close>

lemma spec_run_created:
  assumes "t n = None" and "spec_run bech32 auth t ms n = Some d"
  shows "\<exists>c. TxCreateDenom c \<in> set ms \<and> MsgCreateDenom_Denom c = n
    \<and> MsgCreateDenom_Owner c = Denom_Owner d"
  using assms(2)
proof (induction ms arbitrary: d rule: rev_induct)
  case (snoc m ms)
  let ?t = "spec_run bech32 auth t ms"
  show ?case
  proof (cases rule: spec_tx_entry [of bech32 auth m ?t n])
    case (update d' u)
    then show ?thesis using snoc.IH [of d'] snoc.prems by auto
  qed (use snoc in auto)
qed (simp add: assms(1))

text \<open>Owners are valid addresses.\<close>

definition owners_valid :: "(gostring \<Rightarrow> gostring + bytes) \<Rightarrow> (gostring \<rightharpoonup> Denom) \<Rightarrow> bool" where
  "owners_valid bech32 t \<longleftrightarrow> (\<forall>n d. t n = Some d \<longrightarrow> (\<exists>a. bech32 (Denom_Owner d) = Inr a))"

lemma spec_run_owners_valid:
  "owners_valid bech32 t \<Longrightarrow> owners_valid bech32 (spec_run bech32 auth t ms)"
proof (induction ms arbitrary: t)
  case (Cons m ms)
  have "\<exists>a. bech32 (Denom_Owner d) = Inr a" if d: "spec_tx bech32 auth m t n = Some d" for n d
    using Cons.prems d valid_signer [of bech32 m]
    by (cases rule: spec_tx_entry [of bech32 auth m t n]) (auto simp: owners_valid_def)
  then have "owners_valid bech32 (spec_tx bech32 auth m t)"
    by (simp add: owners_valid_def)
  then show ?case using Cons.IH by simp
qed simp

section \<open>Runs of the machine\<close>

context tf_keeper
begin

lemma step_refines:
  assumes "tf_step bech32 k s m s'" "store_wf k s" "msg_fits m"
  shows "store_wf k s' \<and> denoms_of k s' = spec_tx bech32 (Keeper_authority k) m (denoms_of k s)"
  using assms(1) handler_refines [OF assms(2,3)] assms(2)
  by (auto simp: spec_tx_def elim!: tf_stepE)

lemma run_refines:
  assumes "tf_run bech32 k s ms s'" "store_wf k s" "\<forall>m \<in> set ms. msg_fits m"
  shows "store_wf k s' \<and> denoms_of k s' = spec_run bech32 (Keeper_authority k) (denoms_of k s) ms"
  using assms
proof (induction rule: tf_run.induct)
  case (step s ms s' m s'')
  then show ?case using step_refines [of bech32 s' m s''] by simp
qed simp

end

section \<open>Properties\<close>

text \<open>
  C2: trace refinement.  A run of the chain on any list of messages keeps the invariant of the
  store and ends with the table of denoms the abstract server computes from the messages.
\<close>

theorem tf_run_refines:
  assumes "tf_keeper k" and "store_wf k s" and "tf_run bech32 k s ms s'"
    and "\<forall>m \<in> set ms. msg_fits m"
  shows "store_wf k s'
    \<and> denoms_of k s' = spec_run bech32 (Keeper_authority k) (denoms_of k s) ms"
  using assms(3,2,4) by (rule tf_keeper.run_refines [OF assms(1)])

text \<open>A run for the witnesses: bob may not change alice's denom, and creates his own.\<close>

definition sample_run :: "tf_msg list" where
  "sample_run = [TxUpdateDenom (sample_update (lit ''bob'')), TxCreateDenom sample_create]"

lemma sample_run_fits: "\<forall>m \<in> set sample_run. msg_fits m"
  using sample_msgs_fit by (simp add: sample_run_def)

lemma sample_run_exists: "\<exists>s'. tf_run Inr gov_keeper sample_store sample_run s'"
proof -
  obtain s1 where 1: "tf_step Inr gov_keeper sample_store (TxUpdateDenom (sample_update (lit ''bob''))) s1"
    using tf_step_total [of Inr gov_keeper] by blast
  obtain s2 where 2: "tf_step Inr gov_keeper s1 (TxCreateDenom sample_create) s2"
    using tf_step_total [of Inr gov_keeper] by blast
  have "tf_run Inr gov_keeper sample_store (([] @ [TxUpdateDenom (sample_update (lit ''bob''))])
      @ [TxCreateDenom sample_create]) s2"
    by (rule tf_run.step [OF tf_run.step [OF tf_run.start 1] 2])
  then show ?thesis by (auto simp: sample_run_def)
qed

lemma sample_names [simp]: "lit ''umedas'' \<noteq> lit ''usilver''" "lit ''usilver'' \<noteq> lit ''umedas''"
    "lit ''alice'' \<noteq> lit ''bob''" "lit ''bob'' \<noteq> lit ''alice''"
  by (simp_all add: lit_def)

lemma sample_fields [simp]:
  "Denom_Denom sample_denom = lit ''umedas''" "Denom_Owner sample_denom = lit ''alice''"
  "MsgCreateDenom_Denom sample_create = lit ''usilver''"
  "MsgCreateDenom_Owner sample_create = lit ''bob''"
  "MsgUpdateDenom_Denom (sample_update own) = lit ''umedas''"
  "MsgUpdateDenom_Owner (sample_update own) = own"
  by (simp_all add: sample_denom_def sample_create_def sample_update_def NewMsgCreateDenom_def
      NewMsgUpdateDenom_def)

theorem tf_run_refines_witness:
  "\<exists>s'. tf_run Inr gov_keeper sample_store sample_run s'
    \<and> denoms_of gov_keeper s'
      = [lit ''umedas'' \<mapsto> sample_denom, lit ''usilver'' \<mapsto> denom_of_create sample_create]"
proof -
  obtain s' where r: "tf_run Inr gov_keeper sample_store sample_run s'"
    using sample_run_exists by blast
  from tf_run_refines [OF gov_keeper_contract sample_store(2) r sample_run_fits]
  have "denoms_of gov_keeper s'
      = [lit ''umedas'' \<mapsto> sample_denom, lit ''usilver'' \<mapsto> denom_of_create sample_create]"
    by (simp add: sample_store(3) sample_run_def spec_tx_def MsgUpdateDenom_ValidateBasic_def
        MsgCreateDenom_ValidateBasic_def check_owner_def)
  with r show ?thesis by blast
qed

text \<open>
  C1: ownership.  In any run in which no message is signed by the owner of a denom, the denom
  stays exactly as it is: nobody else can change, take over or delete it.
\<close>

theorem denom_owner_safe:
  assumes "tf_keeper k" and "store_wf k s" and "tf_run bech32 k s ms s'"
    and "\<forall>m \<in> set ms. msg_fits m \<and> signer m \<noteq> Denom_Owner d"
    and "denoms_of k s n = Some d"
  shows "denoms_of k s' n = Some d"
  using tf_keeper.run_refines [OF assms(1,3,2)] assms(4,5) by (simp add: spec_run_owner)

theorem denom_owner_safe_witness:
  "\<exists>s'. tf_run Inr gov_keeper sample_store sample_run s'
    \<and> denoms_of gov_keeper s' (lit ''umedas'') = Some sample_denom"
proof -
  obtain s' where r: "tf_run Inr gov_keeper sample_store sample_run s'"
    using sample_run_exists by blast
  have "\<forall>m \<in> set sample_run. msg_fits m \<and> signer m \<noteq> Denom_Owner sample_denom"
    using sample_run_fits by (simp add: sample_run_def)
  from denom_owner_safe [OF gov_keeper_contract sample_store(2) r this, of "lit ''umedas''"] r
  show ?thesis by (auto simp: sample_store(3))
qed

text \<open>
  C3: provenance.  A denom that appears in a run was created in it, under its name, by a message
  of its present owner.
\<close>

theorem denom_created_by_owner:
  assumes "tf_keeper k" and "store_wf k s" and "tf_run bech32 k s ms s'"
    and "\<forall>m \<in> set ms. msg_fits m"
    and "denoms_of k s n = None" and "denoms_of k s' n = Some d"
  shows "\<exists>c. TxCreateDenom c \<in> set ms \<and> MsgCreateDenom_Denom c = n
    \<and> MsgCreateDenom_Owner c = Denom_Owner d"
  using tf_keeper.run_refines [OF assms(1,3,2,4)] assms(5,6) by (simp add: spec_run_created)

theorem denom_created_by_owner_witness:
  "\<exists>c. TxCreateDenom c \<in> set sample_run \<and> MsgCreateDenom_Denom c = lit ''usilver''
    \<and> MsgCreateDenom_Owner c = lit ''bob''"
proof -
  obtain s' where r: "tf_run Inr gov_keeper sample_store sample_run s'"
    using sample_run_exists by blast
  have "denoms_of gov_keeper s' (lit ''usilver'') = Some (denom_of_create sample_create)"
    using tf_keeper.run_refines [OF gov_keeper_contract r sample_store(2) sample_run_fits]
    by (simp add: sample_store(3) sample_run_def spec_tx_def MsgUpdateDenom_ValidateBasic_def
        MsgCreateDenom_ValidateBasic_def check_owner_def)
  from denom_created_by_owner [OF gov_keeper_contract sample_store(2) r sample_run_fits _ this]
  show ?thesis by (simp add: sample_store(3))
qed



text \<open>
  Creating a denom and deleting it again restores the table, whatever was in it, and the
  other way round the name of a deleted denom is free for anyone.
\<close>

theorem create_delete_cycle:
  assumes "tf_keeper k" and "store_wf k s" and "MsgCreateDenom_Size c < 2 ^ 31"
    and "denoms_of k s (MsgCreateDenom_Denom c) = None"
  shows "\<exists>s1 s2. CreateDenom k s c = Inr (s1, MsgCreateDenomResponse)
    \<and> DeleteDenom k s1 (NewMsgDeleteDenom (MsgCreateDenom_Owner c) (MsgCreateDenom_Denom c))
        = Inr (s2, MsgDeleteDenomResponse)
    \<and> denoms_of k s2 = denoms_of k s"
proof -
  obtain s1 where 1: "CreateDenom k s c = Inr (s1, MsgCreateDenomResponse)" "store_wf k s1"
    "denoms_of k s1 = (denoms_of k s)(MsgCreateDenom_Denom c \<mapsto> denom_of_create c)"
    using tf_keeper.create_denom [OF assms(1-3)] assms(4) by auto
  moreover have "(denoms_of k s)(MsgCreateDenom_Denom c := None) = denoms_of k s"
    using assms(4) by (rule fun_upd_idem)
  ultimately show ?thesis
    using tf_keeper.delete_denom [OF assms(1) 1(2),
        of "NewMsgDeleteDenom (MsgCreateDenom_Owner c) (MsgCreateDenom_Denom c)"]
    by (auto simp: NewMsgDeleteDenom_def)
qed

theorem create_delete_cycle_witness:
  "\<exists>s1 s2. CreateDenom gov_keeper sample_store sample_create = Inr (s1, MsgCreateDenomResponse)
    \<and> DeleteDenom gov_keeper s1 (NewMsgDeleteDenom (lit ''bob'') (lit ''usilver''))
        = Inr (s2, MsgDeleteDenomResponse)
    \<and> denoms_of gov_keeper s2 = [lit ''umedas'' \<mapsto> sample_denom]"
  using create_delete_cycle [OF gov_keeper_contract sample_store(2) sample_msgs_fit(1)]
  by (simp add: sample_store(3))

end
