(* ===== verification/TF_Query.thy ===== *)
theory TF_Query
  imports TF_Keeper TF_Query_Pb
begin

text \<open>
  The query server of the token factory: \<open>x/tokenfactory/keeper/query_denom.go\<close> and
  \<open>query_params.go\<close>.  A request is a pointer, nil being \<open>None\<close>.  \<open>query.Paginate\<close> of the SDK is
  a parameter.
\<close>

section \<open>Queries\<close>

definition Query_Params ::
  "'s Keeper \<Rightarrow> 's \<Rightarrow> QueryParamsRequest option \<Rightarrow> go_error + QueryParamsResponse" where
  "Query_Params k s req =
     (case req of
        None \<Rightarrow> Inl (Status InvalidArgument (lit ''invalid request''))
      | Some r \<Rightarrow> rbind (GetParams k s) (\<lambda>p. Inr \<lparr>QueryParamsResponse_Params = p\<rparr>))"

definition Query_Denom ::
  "'s Keeper \<Rightarrow> 's \<Rightarrow> QueryGetDenomRequest option \<Rightarrow> go_error + QueryGetDenomResponse" where
  "Query_Denom k s req =
     (case req of
        None \<Rightarrow> Inl (Status InvalidArgument (lit ''invalid request''))
      | Some r \<Rightarrow>
          rbind (GetDenom k s (QueryGetDenomRequest_Denom r)) (\<lambda>(val, found).
            if \<not> found then Inl (Status NotFound (lit ''not found''))
            else Inr \<lparr>QueryGetDenomResponse_Denom = val\<rparr>))"

text \<open>
  \<open>Paginate(store, pageRequest, onResult)\<close>: on the store state and the prefix of the prefix
  store, with the callback as a function on the list it appends to.  It returns the final list
  and the page response, or the text of an error.  \<open>err_text\<close> is \<open>Error()\<close> of a decoding error.
\<close>

type_synonym ('s, 'p, 'r) paginate =
  "'s \<Rightarrow> bytes \<Rightarrow> 'p option \<Rightarrow> (bytes \<Rightarrow> bytes \<Rightarrow> Denom list \<Rightarrow> gostring + Denom list)
    \<Rightarrow> Denom list \<Rightarrow> gostring + Denom list \<times> 'r"

definition Query_DenomAll ::
  "(pb_error \<Rightarrow> gostring) \<Rightarrow> ('s, 'p, 'r) paginate \<Rightarrow> 's Keeper \<Rightarrow> 's
    \<Rightarrow> 'p QueryAllDenomRequest option \<Rightarrow> go_error + 'r QueryAllDenomResponse" where
  "Query_DenomAll err_text paginate k s req =
     (case req of
        None \<Rightarrow> Inl (Status InvalidArgument (lit ''invalid request''))
      | Some r \<Rightarrow>
          (case paginate s (KeyPrefix DenomKeyPrefix) (QueryAllDenomRequest_Pagination r)
              (\<lambda>key value denoms.
                 case cdc_Unmarshal_Denom (Keeper_cdc k) value of
                   Inl err \<Rightarrow> Inl (err_text err)
                 | Inr denom \<Rightarrow> Inr (denoms @ [denom])) [] of
             Inl err \<Rightarrow> Inl (Status Internal err)
           | Inr (denoms, pageRes) \<Rightarrow>
               Inr \<lparr>QueryAllDenomResponse_Denom = denoms,
                 QueryAllDenomResponse_Pagination = Some pageRes\<rparr>))"

text \<open>
  What the SDK documents of \<open>Paginate\<close>: from the request and the entries of the prefix it
  chooses a page, distinct entries of the prefix, calls \<open>onResult\<close> on them in turn until an error,
  and returns the page response; a bad request is an error.  \<open>page\<close> is the choice.
\<close>

definition paginates ::
  "'s kv \<Rightarrow> ('s, 'p, 'r) paginate
    \<Rightarrow> ('p option \<Rightarrow> (bytes \<times> bytes) list \<Rightarrow> gostring + (bytes \<times> bytes) list \<times> 'r) \<Rightarrow> bool" where
  "paginates K paginate page \<longleftrightarrow>
     (\<forall>s p req cb acc. paginate s p req cb acc =
        rbind (page req (kv_PrefixAll K s p)) (\<lambda>(es, res).
        rbind (rfold (\<lambda>(key, value). cb key value) es acc) (\<lambda>acc'. Inr (acc', res))))
   \<and> (\<forall>req es. distinct es \<longrightarrow>
        (case page req es of Inl err \<Rightarrow> True | Inr (es', res) \<Rightarrow> distinct es' \<and> set es' \<subseteq> set es))"

section \<open>Their results\<close>

context tf_keeper
begin

lemma entry_decodes:
  assumes "store_wf k s" and "(key, v) \<in> set (kv_PrefixAll (Keeper_storeService k) s pfx)"
  obtains d where "cdc_Unmarshal_Denom (Keeper_cdc k) v = Inr d" "key = DenomKey (Denom_Denom d)"
    "denoms_of k s (Denom_Denom d) = Some d"
proof -
  have v: "kvget s (pfx @ key) = Some v" using assms(2) by (simp add: prefix_all)
  then obtain d where "cdc_Unmarshal_Denom (Keeper_cdc k) v = Inr d"
    "key = DenomKey (Denom_Denom d)"
    using assms(1) unfolding store_wf_def by blast
  with v that show thesis by (auto simp: denoms_of_wf [OF assms(1)])
qed

lemma query_denom:
  assumes "store_wf k s"
  shows "Query_Denom k s (Some r) =
    (case denoms_of k s (QueryGetDenomRequest_Denom r) of
       None \<Rightarrow> Inl (Status NotFound (lit ''not found''))
     | Some d \<Rightarrow> Inr \<lparr>QueryGetDenomResponse_Denom = d\<rparr>)"
  by (cases rule: table.get_cases [OF assms, of "QueryGetDenomRequest_Denom r"])
    (simp_all add: Query_Denom_def)

text \<open>Decoding the entries of a page appends their denoms.\<close>

lemma page_denoms:
  assumes "store_wf k s" and "set es \<subseteq> set (kv_PrefixAll (Keeper_storeService k) s pfx)"
    and "distinct es"
  shows "\<exists>ds. rfold (\<lambda>(key, value) denoms.
        case cdc_Unmarshal_Denom (Keeper_cdc k) value of
          Inl err \<Rightarrow> Inl (err_text err) | Inr denom \<Rightarrow> Inr (denoms @ [denom])) es acc
      = Inr (acc @ ds)
    \<and> (\<forall>d \<in> set ds. denoms_of k s (Denom_Denom d) = Some d)
    \<and> map fst es = map (\<lambda>d. DenomKey (Denom_Denom d)) ds"
  using assms(2,3)
proof (induction es arbitrary: acc)
  case (Cons e es)
  obtain key v where e: "e = (key, v)" by (cases e)
  with Cons.prems(1) have "(key, v) \<in> set (kv_PrefixAll (Keeper_storeService k) s pfx)" by simp
  from entry_decodes [OF assms(1) this] obtain d where
    d: "cdc_Unmarshal_Denom (Keeper_cdc k) v = Inr d" "key = DenomKey (Denom_Denom d)"
      "denoms_of k s (Denom_Denom d) = Some d"
    by blast
  obtain ds where "rfold (\<lambda>(key, value) denoms.
        case cdc_Unmarshal_Denom (Keeper_cdc k) value of
          Inl err \<Rightarrow> Inl (err_text err) | Inr denom \<Rightarrow> Inr (denoms @ [denom])) es (acc @ [d])
      = Inr ((acc @ [d]) @ ds)"
    "\<forall>d \<in> set ds. denoms_of k s (Denom_Denom d) = Some d"
    "map fst es = map (\<lambda>d. DenomKey (Denom_Denom d)) ds"
    using Cons.IH [of "acc @ [d]"] Cons.prems by auto
  with d e show ?case by (intro exI [of _ "d # ds"]) simp
qed simp

lemma query_denom_all:
  assumes "store_wf k s" and "paginates (Keeper_storeService k) paginate page"
  shows "case page (QueryAllDenomRequest_Pagination r)
        (kv_PrefixAll (Keeper_storeService k) s (KeyPrefix DenomKeyPrefix)) of
      Inl err \<Rightarrow> Query_DenomAll err_text paginate k s (Some r) = Inl (Status Internal err)
    | Inr (es, res) \<Rightarrow> \<exists>ds. Query_DenomAll err_text paginate k s (Some r)
          = Inr \<lparr>QueryAllDenomResponse_Denom = ds, QueryAllDenomResponse_Pagination = Some res\<rparr>
        \<and> map fst es = map (\<lambda>d. DenomKey (Denom_Denom d)) ds
        \<and> (\<forall>d \<in> set ds. denoms_of k s (Denom_Denom d) = Some d)"
proof -
  let ?all = "kv_PrefixAll (Keeper_storeService k) s (KeyPrefix DenomKeyPrefix)"
  let ?cb = "\<lambda>key value denoms. case cdc_Unmarshal_Denom (Keeper_cdc k) value of
      Inl err \<Rightarrow> Inl (err_text err) | Inr denom \<Rightarrow> Inr (denoms @ [denom])"
  have eq: "paginate s (KeyPrefix DenomKeyPrefix) req ?cb [] =
      rbind (page req ?all) (\<lambda>(es, res).
      rbind (rfold (\<lambda>(key, value). ?cb key value) es []) (\<lambda>acc'. Inr (acc', res)))" for req
    using assms(2) unfolding paginates_def by blast
  have dist: "distinct ?all"
    using prefix_distinct [of s "KeyPrefix DenomKeyPrefix"] by (simp add: distinct_map)
  show ?thesis
  proof (cases "page (QueryAllDenomRequest_Pagination r) ?all")
    case (Inl err)
    then show ?thesis by (simp add: Query_DenomAll_def eq)
  next
    case (Inr er)
    obtain es res where er: "er = (es, res)" by (cases er)
    have "distinct es" "set es \<subseteq> set ?all"
      using assms(2) dist Inr er unfolding paginates_def
      by (auto dest!: spec [of _ "QueryAllDenomRequest_Pagination r"] spec [of _ ?all])
    from page_denoms [OF assms(1) this(2,1), of err_text "[]"]
    show ?thesis using Inr er by (auto simp: Query_DenomAll_def eq)
  qed
qed

end

section \<open>Properties\<close>

text \<open>
  \<open>Denom\<close> answers with the stored denom, \<open>NotFound\<close> for a name that has none, and
  \<open>InvalidArgument\<close> for a nil request.
\<close>

theorem Query_Denom_correct:
  assumes "tf_keeper k" and "store_wf k s"
  shows "Query_Denom k s None = Inl (Status InvalidArgument (lit ''invalid request''))
    \<and> Query_Denom k s (Some r) =
      (case denoms_of k s (QueryGetDenomRequest_Denom r) of
         None \<Rightarrow> Inl (Status NotFound (lit ''not found''))
       | Some d \<Rightarrow> Inr \<lparr>QueryGetDenomResponse_Denom = d\<rparr>)"
  using tf_keeper.query_denom [OF assms] by (simp add: Query_Denom_def)

theorem Query_Denom_correct_witness:
  "Query_Denom gov_keeper sample_store (Some \<lparr>QueryGetDenomRequest_Denom = lit ''umedas''\<rparr>)
      = Inr \<lparr>QueryGetDenomResponse_Denom = sample_denom\<rparr>
    \<and> Query_Denom gov_keeper sample_store (Some \<lparr>QueryGetDenomRequest_Denom = lit ''x''\<rparr>)
      = Inl (Status NotFound (lit ''not found''))"
  using Query_Denom_correct [OF gov_keeper_contract sample_store(2),
      of "\<lparr>QueryGetDenomRequest_Denom = lit ''umedas''\<rparr>"]
    Query_Denom_correct [OF gov_keeper_contract sample_store(2),
      of "\<lparr>QueryGetDenomRequest_Denom = lit ''x''\<rparr>"]
  by (simp add: sample_store(3) lit_def)

text \<open>
  C32: \<open>DenomAll\<close>, with any paginator that satisfies its documentation: an error of the paginator
  becomes \<open>Internal\<close>; otherwise the response has one denom per entry of the page, in its order,
  each of them the stored denom of its name, and the page response.  No entry fails to decode.
\<close>

theorem Query_DenomAll_correct:
  assumes "tf_keeper k" and "store_wf k s" and "paginates (Keeper_storeService k) paginate page"
  shows "Query_DenomAll err_text paginate k s None
      = Inl (Status InvalidArgument (lit ''invalid request''))
    \<and> (case page (QueryAllDenomRequest_Pagination r)
        (kv_PrefixAll (Keeper_storeService k) s (KeyPrefix DenomKeyPrefix)) of
      Inl err \<Rightarrow> Query_DenomAll err_text paginate k s (Some r) = Inl (Status Internal err)
    | Inr (es, res) \<Rightarrow> \<exists>ds. Query_DenomAll err_text paginate k s (Some r)
          = Inr \<lparr>QueryAllDenomResponse_Denom = ds, QueryAllDenomResponse_Pagination = Some res\<rparr>
        \<and> map fst es = map (\<lambda>d. DenomKey (Denom_Denom d)) ds
        \<and> (\<forall>d \<in> set ds. denoms_of k s (Denom_Denom d) = Some d))"
  using tf_keeper.query_denom_all [OF assms, of err_text r] by (simp add: Query_DenomAll_def)

text \<open>A paginator for the witness: the request is a limit, and the response whether there is more.\<close>

definition limit_page ::
  "nat option \<Rightarrow> (bytes \<times> bytes) list \<Rightarrow> gostring + (bytes \<times> bytes) list \<times> bool" where
  "limit_page req es =
     (case req of None \<Rightarrow> Inr (take 100 es, 100 < length es) | Some n \<Rightarrow> Inr (take n es, n < length es))"

definition limit_paginate :: "(mem_store, nat, bool) paginate" where
  "limit_paginate s p req cb acc =
     rbind (limit_page req (kv_PrefixAll mem_kv s p)) (\<lambda>(es, res).
     rbind (rfold (\<lambda>(key, value). cb key value) es acc) (\<lambda>acc'. Inr (acc', res)))"

lemma limit_paginates: "paginates mem_kv limit_paginate limit_page"
  by (auto simp: paginates_def limit_paginate_def limit_page_def split: option.split
      dest: in_set_takeD)

theorem Query_DenomAll_correct_witness:
  "Query_DenomAll (\<lambda>e. []) limit_paginate gov_keeper sample_store
      (Some \<lparr>QueryAllDenomRequest_Pagination = Some 0\<rparr>)
    = Inr \<lparr>QueryAllDenomResponse_Denom = [], QueryAllDenomResponse_Pagination = Some
        (0 < length (kv_PrefixAll mem_kv sample_store (KeyPrefix DenomKeyPrefix)))\<rparr>"
proof -
  have K: "Keeper_storeService gov_keeper = mem_kv" by (simp add: gov_keeper_def mem_keeper_def)
  have "paginates (Keeper_storeService gov_keeper) limit_paginate limit_page"
    unfolding K by (rule limit_paginates)
  from Query_DenomAll_correct [OF gov_keeper_contract sample_store(2) this,
      of "\<lambda>e. []" "\<lparr>QueryAllDenomRequest_Pagination = Some 0\<rparr>"]
  show ?thesis by (simp add: limit_page_def K)
qed

text \<open>\<open>Params\<close> answers with the parameters of the store, and refuses a nil request.\<close>

theorem Query_Params_correct:
  assumes "tf_keeper k" and "store_wf k s"
  shows "Query_Params k s None = Inl (Status InvalidArgument (lit ''invalid request''))
    \<and> (\<exists>p. GetParams k s = Inr p
        \<and> Query_Params k s (Some r) = Inr \<lparr>QueryParamsResponse_Params = p\<rparr>)"
  using tf_keeper.get_params_wf [OF assms] by (auto simp: Query_Params_def)

theorem Query_Params_correct_witness:
  "Query_Params gov_keeper sample_store (Some QueryParamsRequest)
    = Inr \<lparr>QueryParamsResponse_Params = Params\<rparr>"
  using Query_Params_correct [OF gov_keeper_contract sample_store(2), of QueryParamsRequest]
    Params.exhaust by metis

end
