(* ===== verification/TF_Genesis.thy ===== *)
theory TF_Genesis
  imports TF_MsgServer TF_Genesis_Pb "HOL-Library.Multiset"
begin

text \<open>
  Genesis of the token factory: \<open>x/tokenfactory/types/genesis.go\<close> (the default and the
  validation) and \<open>x/tokenfactory/module/genesis.go\<close> (import and export).
\<close>

section \<open>Operations\<close>

definition DefaultGenesis :: GenesisState where
  "DefaultGenesis = \<lparr>GenesisState_Params = DefaultParams, GenesisState_DenomList = []\<rparr>"

text \<open>The loop over the list with the map of the keys seen, a set here.\<close>

fun check_duplicates :: "Denom list \<Rightarrow> bytes set \<Rightarrow> go_error + bytes set" where
  "check_duplicates [] denomIndexMap = Inr denomIndexMap"
| "check_duplicates (elem # ds) denomIndexMap =
     (let index = DenomKey (Denom_Denom elem) in
      if index \<in> denomIndexMap then Inl (Errorf (lit ''duplicated index for denom''))
      else check_duplicates ds (insert index denomIndexMap))"

definition GenesisState_Validate :: "GenesisState \<Rightarrow> go_error + unit" where
  "GenesisState_Validate gs =
     rbind (check_duplicates (GenesisState_DenomList gs) {}) (\<lambda>m.
       Params_Validate (GenesisState_Params gs))"

definition InitGenesis :: "'s Keeper \<Rightarrow> 's \<Rightarrow> GenesisState \<Rightarrow> go_error + 's" where
  "InitGenesis k s genState =
     rbind (rfold (\<lambda>elem s. SetDenom k s elem) (GenesisState_DenomList genState) s) (\<lambda>s'.
       case SetParams k s' (GenesisState_Params genState) of
         Inl err \<Rightarrow> Inl (Panicked err)
       | Inr s'' \<Rightarrow> Inr s'')"

definition ExportGenesis :: "'s Keeper \<Rightarrow> 's \<Rightarrow> go_error + GenesisState" where
  "ExportGenesis k s =
     (let genesis = DefaultGenesis in
      rbind (GetParams k s) (\<lambda>p.
      rbind (GetAllDenom k s) (\<lambda>ds.
        Inr (genesis\<lparr>GenesisState_Params := p, GenesisState_DenomList := ds\<rparr>))))"

section \<open>Validation\<close>

lemma check_duplicates_spec:
  "check_duplicates ds seen =
    (if distinct (map Denom_Denom ds) \<and> (\<forall>d \<in> set ds. DenomKey (Denom_Denom d) \<notin> seen)
     then Inr (seen \<union> DenomKey ` Denom_Denom ` set ds)
     else Inl (Errorf (lit ''duplicated index for denom'')))"
  by (induction ds arbitrary: seen) (auto simp: Let_def, metis image_eqI)

lemma validate_spec:
  "GenesisState_Validate gs =
    (if distinct (map Denom_Denom (GenesisState_DenomList gs)) then Inr ()
     else Inl (Errorf (lit ''duplicated index for denom'')))"
  by (simp add: GenesisState_Validate_def check_duplicates_spec Params_Validate_def)

section \<open>Import and export\<close>

context tf_keeper
begin

lemma init_genesis:
  assumes "store_wf k s" and "list_all denom_fits (GenesisState_DenomList gs)"
  shows "\<exists>s'. InitGenesis k s gs = Inr s' \<and> store_wf k s'
    \<and> denoms_of k s'
      = denoms_of k s ++ map_of (rev (map (\<lambda>d. (Denom_Denom d, d)) (GenesisState_DenomList gs)))
    \<and> GetParams k s' = Inr (GenesisState_Params gs)"
proof -
  obtain s1 where 1: "rfold (\<lambda>d s. SetDenom k s d) (GenesisState_DenomList gs) s = Inr s1"
    "store_wf k s1" "denoms_of k s1
      = denoms_of k s ++ map_of (rev (map (\<lambda>d. (Denom_Denom d, d)) (GenesisState_DenomList gs)))"
    using table.set_all [OF assms] by blast
  with set_params [OF 1(2), of "GenesisState_Params gs"] show ?thesis
    by (auto simp: InitGenesis_def)
qed

lemma export_genesis:
  assumes "store_wf k s"
  shows "\<exists>gs. ExportGenesis k s = Inr gs \<and> GetParams k s = Inr (GenesisState_Params gs)
    \<and> distinct (map Denom_Denom (GenesisState_DenomList gs))
    \<and> denoms_of k s = map_of (map (\<lambda>d. (Denom_Denom d, d)) (GenesisState_DenomList gs))"
proof -
  obtain p where p: "GetParams k s = Inr p" using get_params_wf [OF assms] by blast
  obtain ds where ds: "GetAllDenom k s = Inr ds" "distinct (map Denom_Denom ds)"
    using table.all_spec [OF assms] by blast
  show ?thesis
    using p ds table.all_map [OF assms ds(1)] by (simp add: ExportGenesis_def Let_def)
qed

end

text \<open>Lists of denoms with distinct names and the same table are permutations of each other.\<close>

lemma map_of_names_set:
  assumes "distinct (map Denom_Denom ds)"
  shows "ran (map_of (map (\<lambda>d. (Denom_Denom d, d)) ds)) = set ds"
proof -
  have "distinct (map fst (map (\<lambda>d. (Denom_Denom d, d)) ds))"
    using assms by (simp add: comp_def)
  then have "ran (map_of (map (\<lambda>d. (Denom_Denom d, d)) ds)) = snd ` set (map (\<lambda>d. (Denom_Denom d, d)) ds)"
    by (rule ran_distinct)
  then show ?thesis by (simp add: image_image)
qed

lemma same_table_mset:
  assumes "distinct (map Denom_Denom ds)" "distinct (map Denom_Denom es)"
    and "map_of (map (\<lambda>d. (Denom_Denom d, d)) ds) = map_of (map (\<lambda>d. (Denom_Denom d, d)) es)"
  shows "mset ds = mset es"
proof -
  have "set ds = set es"
    using map_of_names_set [OF assms(1)] map_of_names_set [OF assms(2)] assms(3) by simp
  moreover have "distinct ds" "distinct es"
    using assms(1,2) by (simp_all add: distinct_map)
  ultimately show ?thesis by (simp add: set_eq_iff_mset_eq_distinct)
qed

lemma map_of_rev_names:
  assumes "distinct (map Denom_Denom ds)"
  shows "map_of (rev (map (\<lambda>d. (Denom_Denom d, d)) ds)) = map_of (map (\<lambda>d. (Denom_Denom d, d)) ds)"
  using assms by (intro map_of_inject_set [THEN iffD2]) (simp_all add: comp_def rev_map [symmetric])

context tf_keeper
begin

lemma export_import:
  assumes "store_wf k s" and "store_wf k s0" and "denoms_of k s0 = Map.empty"
    and "\<forall>d \<in> ran (denoms_of k s). denom_fits d"
  shows "\<exists>gs s'. ExportGenesis k s = Inr gs \<and> GenesisState_Validate gs = Inr ()
    \<and> InitGenesis k s0 gs = Inr s' \<and> denoms_of k s' = denoms_of k s
    \<and> GetParams k s' = GetParams k s"
proof -
  obtain gs where gs: "ExportGenesis k s = Inr gs" "GetParams k s = Inr (GenesisState_Params gs)"
    "distinct (map Denom_Denom (GenesisState_DenomList gs))"
    "denoms_of k s = map_of (map (\<lambda>d. (Denom_Denom d, d)) (GenesisState_DenomList gs))"
    using export_genesis [OF assms(1)] by blast
  have "list_all denom_fits (GenesisState_DenomList gs)"
    using assms(4) map_of_names_set [OF gs(3)] gs(4) by (simp add: list_all_iff)
  from init_genesis [OF assms(2) this] gs assms(3) map_of_rev_names [OF gs(3)]
  show ?thesis by (auto simp: validate_spec)
qed

end

section \<open>Properties\<close>

text \<open>
  C31: validation accepts a genesis state exactly when no two denoms have the same name, and the
  default genesis state is accepted.
\<close>

theorem GenesisState_Validate_correct:
  "GenesisState_Validate gs =
    (if distinct (map Denom_Denom (GenesisState_DenomList gs)) then Inr ()
     else Inl (Errorf (lit ''duplicated index for denom'')))
   \<and> GenesisState_Validate DefaultGenesis = Inr ()"
  by (simp add: validate_spec DefaultGenesis_def)

text \<open>
  C12: import of a validated genesis state into an empty store, followed by export, gives the
  parameters and the denoms back, the denoms up to their order (the store sorts them by key).
\<close>

theorem genesis_import_export:
  assumes "tf_keeper k" and "store_wf k s" and "denoms_of k s = Map.empty"
    and "GenesisState_Validate gs = Inr ()"
    and "list_all denom_fits (GenesisState_DenomList gs)"
  shows "\<exists>s' gs'. InitGenesis k s gs = Inr s' \<and> store_wf k s' \<and> ExportGenesis k s' = Inr gs'
    \<and> GenesisState_Params gs' = GenesisState_Params gs
    \<and> mset (GenesisState_DenomList gs') = mset (GenesisState_DenomList gs)"
proof -
  have d: "distinct (map Denom_Denom (GenesisState_DenomList gs))"
    using assms(4) by (simp add: validate_spec split: if_splits)
  obtain s' where s': "InitGenesis k s gs = Inr s'" "store_wf k s'"
    "denoms_of k s' = map_of (map (\<lambda>d. (Denom_Denom d, d)) (GenesisState_DenomList gs))"
    "GetParams k s' = Inr (GenesisState_Params gs)"
    using tf_keeper.init_genesis [OF assms(1,2,5)] assms(3) map_of_rev_names [OF d] by auto
  obtain gs' where gs': "ExportGenesis k s' = Inr gs'"
    "GetParams k s' = Inr (GenesisState_Params gs')"
    "distinct (map Denom_Denom (GenesisState_DenomList gs'))"
    "denoms_of k s' = map_of (map (\<lambda>d. (Denom_Denom d, d)) (GenesisState_DenomList gs'))"
    using tf_keeper.export_genesis [OF assms(1) s'(2)] by blast
  show ?thesis
    using s' gs' same_table_mset [OF gs'(3) d] by auto
qed

definition sample_genesis :: GenesisState where
  "sample_genesis = \<lparr>GenesisState_Params = Params,
     GenesisState_DenomList = [sample_denom, Denom_zero]\<rparr>"

lemma sample_genesis_fits: "list_all denom_fits (GenesisState_DenomList sample_genesis)"
  using sample_fits Denom_Size_le [of Denom_zero]
  by (simp add: sample_genesis_def denom_fits_def Denom_zero_def)

theorem genesis_import_export_witness:
  "\<exists>s' gs'. InitGenesis gov_keeper [] sample_genesis = Inr s' \<and> ExportGenesis gov_keeper s' = Inr gs'
    \<and> mset (GenesisState_DenomList gs') = {#sample_denom, Denom_zero#}"
proof -
  have "GenesisState_Validate sample_genesis = Inr ()"
    by (simp add: validate_spec sample_genesis_def sample_denom_def Denom_zero_def lit_def)
  with genesis_import_export [OF gov_keeper_contract, of "[]" sample_genesis]
    mem_store_empty [of "lit ''gov''"] sample_genesis_fits
  show ?thesis
    unfolding gov_keeper_def [symmetric] by (auto simp: sample_genesis_def)
qed

text \<open>
  Import does not validate.  On any list, with or without duplicates and into any store, it
  succeeds, and of several denoms with one name the last wins.
\<close>

theorem InitGenesis_last_wins:
  assumes "tf_keeper k" and "store_wf k s"
    and "list_all denom_fits (GenesisState_DenomList gs)"
  shows "\<exists>s'. InitGenesis k s gs = Inr s' \<and> store_wf k s'
    \<and> denoms_of k s'
      = denoms_of k s ++ map_of (rev (map (\<lambda>d. (Denom_Denom d, d)) (GenesisState_DenomList gs)))
    \<and> GetParams k s' = Inr (GenesisState_Params gs)"
  using assms(2,3) by (rule tf_keeper.init_genesis [OF assms(1)])

theorem InitGenesis_last_wins_witness:
  "\<exists>s'. InitGenesis gov_keeper sample_store sample_genesis = Inr s'
    \<and> denoms_of gov_keeper s' = [lit ''umedas'' \<mapsto> sample_denom, [] \<mapsto> Denom_zero]"
  using InitGenesis_last_wins [OF gov_keeper_contract sample_store(2) sample_genesis_fits]
  by (auto simp: sample_store(3) sample_genesis_def sample_denom_def Denom_zero_def lit_def)

end
