(* ===== verification/TF_Module.thy ===== *)
theory TF_Module
  imports TF_Genesis
begin

text \<open>
  The application module of the token factory, \<open>x/tokenfactory/module/module.go\<close>: wiring and the
  genesis functions on JSON.
\<close>

section \<open>Operations\<close>

text \<open>
  Addresses of the SDK: \<open>AccAddressFromBech32\<close>, \<open>AccAddress.String\<close>, \<open>NewModuleAddress\<close> and
  \<open>NewModuleAddressOrBech32Address\<close>; and the JSON codec at the genesis state.
\<close>

record addresses =
  FromBech32 :: "gostring \<Rightarrow> gostring + bytes"
  AddrString :: "bytes \<Rightarrow> gostring"
  NewModuleAddress :: "gostring \<Rightarrow> bytes"
  NewModuleAddressOrBech32Address :: "gostring \<Rightarrow> bytes"

record json_codec =
  json_Marshal :: "GenesisState \<Rightarrow> gostring + bytes"
  json_Unmarshal :: "bytes \<Rightarrow> gostring + GenesisState"

record AppModuleBasic =
  AppModule_cdc :: codec

text \<open>The account and bank keepers of the module are stored and never used; they are left out.\<close>

record 's AppModule = AppModuleBasic +
  AppModule_keeper :: "'s Keeper"

definition NewAppModuleBasic :: "codec \<Rightarrow> AppModuleBasic" where
  "NewAppModuleBasic cdc = \<lparr>AppModule_cdc = cdc\<rparr>"

definition AppModule_Name :: gostring where
  "AppModule_Name = ModuleName"

definition NewAppModule :: "codec \<Rightarrow> 's Keeper \<Rightarrow> 's AppModule" where
  "NewAppModule cdc keeper =
     AppModuleBasic.extend (NewAppModuleBasic cdc) (AppModule.fields keeper)"

lemma NewAppModule_simps [simp]:
  "AppModule_cdc (NewAppModule cdc k) = cdc" "AppModule_keeper (NewAppModule cdc k) = k"
  by (simp_all add: NewAppModule_def NewAppModuleBasic_def AppModuleBasic.extend_def AppModule.fields_def)

text \<open>
  \<open>RegisterInterfaces\<close> (\<open>types/codec.go\<close>): the registry is the list of the types registered as
  implementations of \<open>sdk.Msg\<close>; \<open>RegisterMsgServiceDesc\<close> of the SDK is an argument.
\<close>

definition RegisterInterfaces ::
  "(gostring \<Rightarrow> gostring list \<Rightarrow> gostring list) \<Rightarrow> gostring list \<Rightarrow> gostring list" where
  "RegisterInterfaces registerMsgServiceDesc registry =
     (let registry = registry @
        [lit ''MsgCreateDenom'', lit ''MsgUpdateDenom'', lit ''MsgDeleteDenom''];
        registry = registry @ [lit ''MsgUpdateParams'']
      in registerMsgServiceDesc (lit ''medasdigital.tokenfactory.Msg'') registry)"

definition AppModule_RegisterInterfaces ::
  "(gostring \<Rightarrow> gostring list \<Rightarrow> gostring list) \<Rightarrow> gostring list \<Rightarrow> gostring list" where
  "AppModule_RegisterInterfaces registerMsgServiceDesc reg = RegisterInterfaces registerMsgServiceDesc reg"

text \<open>The methods of the module with an empty body, on the registry they are given.\<close>

definition AppModule_RegisterLegacyAminoCodec :: "'r \<Rightarrow> 'r" where
  "AppModule_RegisterLegacyAminoCodec cdc = cdc"

definition AppModule_RegisterInvariants :: "'s AppModule \<Rightarrow> 'r \<Rightarrow> 'r" where
  "AppModule_RegisterInvariants am ir = ir"

definition ProvideModule ::
  "addresses \<Rightarrow> codec \<Rightarrow> 's kv \<Rightarrow> gostring \<Rightarrow> go_error + 's Keeper \<times> 's AppModule" where
  "ProvideModule A cdc storeService config_Authority =
     (let authority =
        (if config_Authority \<noteq> [] then NewModuleAddressOrBech32Address A config_Authority
         else NewModuleAddress A (lit ''gov''))
      in rbind (NewKeeper (FromBech32 A) cdc storeService (AddrString A authority)) (\<lambda>k.
         Inr (k, NewAppModule cdc k)))"

definition AppModule_DefaultGenesis :: "json_codec \<Rightarrow> go_error + bytes" where
  "AppModule_DefaultGenesis J =
     (case json_Marshal J DefaultGenesis of
        Inl err \<Rightarrow> Inl (Panicked (Errorf err)) | Inr bz \<Rightarrow> Inr bz)"

definition AppModule_ValidateGenesis :: "json_codec \<Rightarrow> bytes \<Rightarrow> go_error + unit" where
  "AppModule_ValidateGenesis J bz =
     (case json_Unmarshal J bz of
        Inl err \<Rightarrow> Inl (Errorf (lit ''failed to unmarshal '' @ ModuleName
          @ lit '' genesis state: '' @ err))
      | Inr genState \<Rightarrow> GenesisState_Validate genState)"

definition AppModule_InitGenesis ::
  "'s AppModule \<Rightarrow> json_codec \<Rightarrow> 's \<Rightarrow> bytes \<Rightarrow> go_error + 's" where
  "AppModule_InitGenesis am J s gs =
     (case json_Unmarshal J gs of
        Inl err \<Rightarrow> Inl (Panicked (Errorf err))
      | Inr genState \<Rightarrow> InitGenesis (AppModule_keeper am) s genState)"

definition AppModule_ExportGenesis ::
  "'s AppModule \<Rightarrow> json_codec \<Rightarrow> 's \<Rightarrow> go_error + bytes" where
  "AppModule_ExportGenesis am J s =
     rbind (ExportGenesis (AppModule_keeper am) s) (\<lambda>genState.
       case json_Marshal J genState of
         Inl err \<Rightarrow> Inl (Panicked (Errorf err)) | Inr bz \<Rightarrow> Inr bz)"

definition AppModule_ConsensusVersion :: "'s AppModule \<Rightarrow> 64 word" where
  "AppModule_ConsensusVersion am = 1"

definition AppModule_BeginBlock :: "'s AppModule \<Rightarrow> 's \<Rightarrow> go_error + 's" where
  "AppModule_BeginBlock am s = Inr s"

definition AppModule_EndBlock :: "'s AppModule \<Rightarrow> 's \<Rightarrow> go_error + 's" where
  "AppModule_EndBlock am s = Inr s"

section \<open>Properties\<close>


definition sample_addresses :: addresses where
  "sample_addresses = \<lparr>FromBech32 = Inr, AddrString = (\<lambda>a. a), NewModuleAddress = (\<lambda>n. n),
     NewModuleAddressOrBech32Address = (\<lambda>n. n)\<rparr>"


text \<open>
  Genesis at the level of the module.  When JSON decoding inverts encoding on the exported
  state, its JSON passes \<open>ValidateGenesis\<close>, and \<open>InitGenesis\<close> of it on an empty store reproduces
  the denoms and the parameters.
\<close>

theorem AppModule_genesis_roundtrip:
  assumes "tf_keeper (AppModule_keeper am)" and "store_wf (AppModule_keeper am) s"
    and "store_wf (AppModule_keeper am) s0" and "denoms_of (AppModule_keeper am) s0 = Map.empty"
    and "\<forall>d \<in> ran (denoms_of (AppModule_keeper am) s). denom_fits d"
    and "\<forall>g. ExportGenesis (AppModule_keeper am) s = Inr g \<longrightarrow>
      (\<exists>bz. json_Marshal J g = Inr bz \<and> json_Unmarshal J bz = Inr g)"
  shows "\<exists>bz s'. AppModule_ExportGenesis am J s = Inr bz
    \<and> AppModule_ValidateGenesis J bz = Inr () \<and> AppModule_InitGenesis am J s0 bz = Inr s'
    \<and> denoms_of (AppModule_keeper am) s' = denoms_of (AppModule_keeper am) s
    \<and> GetParams (AppModule_keeper am) s' = GetParams (AppModule_keeper am) s"
proof -
  obtain gs s' where gs: "ExportGenesis (AppModule_keeper am) s = Inr gs"
    "GenesisState_Validate gs = Inr ()" "InitGenesis (AppModule_keeper am) s0 gs = Inr s'"
    "denoms_of (AppModule_keeper am) s' = denoms_of (AppModule_keeper am) s"
    "GetParams (AppModule_keeper am) s' = GetParams (AppModule_keeper am) s"
    using tf_keeper.export_import [OF assms(1-5)] by blast
  obtain bz where "json_Marshal J gs = Inr bz" "json_Unmarshal J bz = Inr gs"
    using assms(6) gs(1) by blast
  with gs show ?thesis
    by (simp add: AppModule_ExportGenesis_def AppModule_ValidateGenesis_def
        AppModule_InitGenesis_def)
qed

text \<open>The generated binary codec stands for the JSON codec in the witness.\<close>

definition binary_codec :: json_codec where
  "binary_codec = \<lparr>
     json_Marshal = (\<lambda>g. case GenesisState_Marshal g of Inl e \<Rightarrow> Inl [] | Inr bz \<Rightarrow> Inr bz),
     json_Unmarshal = (\<lambda>bz. case GenesisState_Unmarshal bz GenesisState_zero of
        Inl e \<Rightarrow> Inl [] | Inr g \<Rightarrow> Inr g)\<rparr>"

lemma binary_codec_roundtrip:
  assumes "int (GenesisState_Size g) < 2 ^ 63"
  shows "\<exists>bz. json_Marshal binary_codec g = Inr bz \<and> json_Unmarshal binary_codec bz = Inr g"
proof -
  obtain bz where bz: "GenesisState_Marshal g = Inr bz"
    using genesis_pb.marshal_length [of g] by (auto simp: GenesisState_Marshal_def)
  then have "GenesisState_Unmarshal bz GenesisState_zero = Inr g"
    using genesis_pb.roundtrip [OF assms, of bz]
    by (simp add: GenesisState_Marshal_def GenesisState_Unmarshal_def)
  with bz show ?thesis by (simp add: binary_codec_def)
qed

lemma singleton_list:
  assumes "distinct (map f xs)" and "set xs = {x}"
  shows "xs = [x]"
proof -
  have "distinct xs" using assms(1) by (simp add: distinct_map)
  then have "length xs = 1" using assms(2) distinct_card [of xs] by simp
  then obtain y where "xs = [y]" by (auto simp: length_Suc_conv)
  with assms(2) show ?thesis by simp
qed

theorem AppModule_genesis_roundtrip_witness:
  "\<exists>bz s'. AppModule_ExportGenesis (NewAppModule mem_codec gov_keeper) binary_codec sample_store
      = Inr bz
    \<and> AppModule_InitGenesis (NewAppModule mem_codec gov_keeper) binary_codec [] bz = Inr s'
    \<and> denoms_of gov_keeper s' = [lit ''umedas'' \<mapsto> sample_denom]"
proof -
  let ?am = "NewAppModule mem_codec gov_keeper"
  have am: "AppModule_keeper ?am = gov_keeper" by simp
  have e: "store_wf gov_keeper [] \<and> denoms_of gov_keeper [] = Map.empty"
    using mem_store_empty [of "lit ''gov''"] by (simp add: gov_keeper_def)
  have j: "\<exists>bz. json_Marshal binary_codec g = Inr bz \<and> json_Unmarshal binary_codec bz = Inr g"
    if g: "ExportGenesis gov_keeper sample_store = Inr g" for g
  proof (rule binary_codec_roundtrip)
    obtain gs where gs: "ExportGenesis gov_keeper sample_store = Inr gs"
      "distinct (map Denom_Denom (GenesisState_DenomList gs))"
      "denoms_of gov_keeper sample_store
        = map_of (map (\<lambda>d. (Denom_Denom d, d)) (GenesisState_DenomList gs))"
      using tf_keeper.export_genesis [OF gov_keeper_contract sample_store(2)] by blast
    have "set (GenesisState_DenomList gs) = ran (denoms_of gov_keeper sample_store)"
      unfolding gs(3) by (rule map_of_names_set [OF gs(2), symmetric])
    then have "set (GenesisState_DenomList gs) = {sample_denom}"
      by (simp add: sample_store(3))
    with gs(2) have "GenesisState_DenomList gs = [sample_denom]"
      by (rule singleton_list)
    then have "GenesisState_DenomList g = [sample_denom]"
      using g gs(1) by simp
    moreover have "size_bytes (Denom_Size sample_denom) \<le> 11 + Denom_Size sample_denom"
      "size_bytes (Params_Size (GenesisState_Params g)) \<le> 11"
      using size_le(1) [of 0] by (auto intro: size_le simp: Params_Size_def)
    ultimately show "int (GenesisState_Size g) < 2 ^ 63"
      using sample_fits by (simp add: GenesisState_Size_def denom_fits_def)
  qed
  have f: "\<forall>d \<in> ran (denoms_of gov_keeper sample_store). denom_fits d"
    by (simp add: sample_store(3) sample_fits)
  obtain bz s' where "AppModule_ExportGenesis ?am binary_codec sample_store = Inr bz"
    "AppModule_InitGenesis ?am binary_codec [] bz = Inr s'"
    "denoms_of gov_keeper s' = denoms_of gov_keeper sample_store"
    using AppModule_genesis_roundtrip [of ?am sample_store "[]" binary_codec, unfolded am,
        OF gov_keeper_contract sample_store(2)] e j f by blast
  then show ?thesis
    unfolding sample_store(3) by blast
qed

end
