(* ===== verification/TF_Simulation.thy ===== *)
theory TF_Simulation
  imports TF_MsgServer
begin

text \<open>
  The simulation operations of the token factory, \<open>x/tokenfactory/simulation/denom.go\<close> and
  \<open>helpers.go\<close>: how each chooses the message it delivers.  Random choices are arguments; building,
  signing and delivering the transaction (\<open>GenAndDeliverTxWithRandFees\<close>) is the SDK's, so the
  result is the message handed to it.
\<close>

section \<open>The SDK's accounts and addresses\<close>

text \<open>
  \<open>sdk.AccAddressFromBech32\<close>, \<open>AccAddress.String\<close>, \<open>simtypes.FindAccount\<close>, the address of a
  simulation account, \<open>simtypes.Account{}\<close> and \<open>sdk.MsgTypeURL\<close>.
\<close>

record 'acc sim_env =
  sim_FromBech32 :: "gostring \<Rightarrow> gostring + bytes"
  sim_String :: "bytes \<Rightarrow> gostring"
  sim_FindAccount :: "'acc list \<Rightarrow> bytes \<Rightarrow> 'acc \<times> bool"
  sim_Address :: "'acc \<Rightarrow> bytes"
  sim_zero :: 'acc
  sim_MsgTypeURL :: "tf_msg \<Rightarrow> gostring"

text \<open>What the SDK documents of \<open>FindAccount\<close>: it finds an account with the address.\<close>

definition finds_accounts :: "'acc sim_env \<Rightarrow> bool" where
  "finds_accounts E \<longleftrightarrow>
     (\<forall>accs addr a. sim_FindAccount E accs addr = (a, True) \<longrightarrow>
        a \<in> set accs \<and> sim_Address E a = addr)"

datatype sim_result =
    NoOpMsg gostring gostring gostring
  | DeliverTx tf_msg

section \<open>Operations\<close>

definition FindAccount :: "'acc sim_env \<Rightarrow> 'acc list \<Rightarrow> gostring \<Rightarrow> go_error + 'acc \<times> bool" where
  "FindAccount E accs address =
     (case sim_FromBech32 E address of
        Inl err \<Rightarrow> Inl (Panicked (Errorf err))
      | Inr creator \<Rightarrow> Inr (sim_FindAccount E accs creator))"

text \<open>\<open>strconv.Itoa\<close> of the non-negative \<open>r.Int()\<close>.\<close>

fun Itoa :: "nat \<Rightarrow> gostring" where
  "Itoa i = (if i < 10 then [of_nat (48 + i)] else Itoa (i div 10) @ [of_nat (48 + i mod 10)])"

declare Itoa.simps [simp del]

definition SimulateMsgCreateDenom ::
  "'acc sim_env \<Rightarrow> 's Keeper \<Rightarrow> 's \<Rightarrow> 'acc \<Rightarrow> nat \<Rightarrow> go_error + sim_result" where
  "SimulateMsgCreateDenom E k s simAccount i =
     (let msg = MsgCreateDenom_zero\<lparr>MsgCreateDenom_Owner := sim_String E (sim_Address E simAccount),
                  MsgCreateDenom_Denom := Itoa i\<rparr> in
      rbind (GetDenom k s (MsgCreateDenom_Denom msg)) (\<lambda>(val, found).
        if found
        then Inr (NoOpMsg ModuleName (sim_MsgTypeURL E (TxCreateDenom msg)) (lit ''Denom already exist''))
        else Inr (DeliverTx (TxCreateDenom msg))))"

text \<open>The loop over all denoms for the first one whose owner is among the accounts.\<close>

fun find_owned ::
  "'acc sim_env \<Rightarrow> 'acc list \<Rightarrow> Denom list \<Rightarrow> 'acc \<times> Denom \<times> bool
    \<Rightarrow> go_error + 'acc \<times> Denom \<times> bool" where
  "find_owned E accs [] st = Inr st"
| "find_owned E accs (obj # allDenom) (simAccount, denom, found) =
     rbind (FindAccount E accs (Denom_Owner obj)) (\<lambda>(simAccount', found').
       if found' then Inr (simAccount', obj, True)
       else find_owned E accs allDenom (simAccount', denom, False))"

definition SimulateMsgUpdateDenom ::
  "'acc sim_env \<Rightarrow> 's Keeper \<Rightarrow> 's \<Rightarrow> 'acc list \<Rightarrow> go_error + sim_result" where
  "SimulateMsgUpdateDenom E k s accs =
     rbind (GetAllDenom k s) (\<lambda>allDenom.
     rbind (find_owned E accs allDenom (sim_zero E, Denom_zero, False)) (\<lambda>(simAccount, denom, found).
       let msg = MsgUpdateDenom_zero in
       if \<not> found
       then Inr (NoOpMsg ModuleName (sim_MsgTypeURL E (TxUpdateDenom msg)) (lit ''denom owner not found''))
       else Inr (DeliverTx (TxUpdateDenom
         (msg\<lparr>MsgUpdateDenom_Owner := sim_String E (sim_Address E simAccount),
           MsgUpdateDenom_Denom := Denom_Denom denom\<rparr>)))))"

text \<open>The operation for deletes builds a \<open>MsgUpdateDenom\<close> as well.\<close>

definition SimulateMsgDeleteDenom ::
  "'acc sim_env \<Rightarrow> 's Keeper \<Rightarrow> 's \<Rightarrow> 'acc list \<Rightarrow> go_error + sim_result" where
  "SimulateMsgDeleteDenom E k s accs =
     rbind (GetAllDenom k s) (\<lambda>allDenom.
     rbind (find_owned E accs allDenom (sim_zero E, Denom_zero, False)) (\<lambda>(simAccount, denom, found).
       let msg = MsgUpdateDenom_zero in
       if \<not> found
       then Inr (NoOpMsg ModuleName (sim_MsgTypeURL E (TxUpdateDenom msg)) (lit ''denom owner not found''))
       else Inr (DeliverTx (TxUpdateDenom
         (msg\<lparr>MsgUpdateDenom_Owner := sim_String E (sim_Address E simAccount),
           MsgUpdateDenom_Denom := Denom_Denom denom\<rparr>)))))"

section \<open>What is delivered\<close>

lemma find_owned_found:
  assumes "find_owned E accs ds (a0, d0, False) = Inr (a, d, True)"
  shows "d \<in> set ds \<and> FindAccount E accs (Denom_Owner d) = Inr (a, True)"
  using assms
proof (induction ds arbitrary: a0)
  case (Cons obj ds)
  from Cons.prems obtain a' f where f: "FindAccount E accs (Denom_Owner obj) = Inr (a', f)"
    by (auto simp: rbind_eq_Inr)
  with Cons show ?case by (cases f) auto
qed simp

lemma find_owned_unfound:
  "find_owned E accs ds (a0, d0, False) = Inr (a, d, False) \<Longrightarrow> d = d0"
  by (induction ds arbitrary: a0) (auto simp: rbind_eq_Inr split: if_splits)

text \<open>The owners in the table are written the way \<open>AccAddress.String\<close> writes addresses.\<close>

definition canonical_owners :: "'acc sim_env \<Rightarrow> (gostring \<rightharpoonup> Denom) \<Rightarrow> bool" where
  "canonical_owners E t \<longleftrightarrow>
     (\<forall>d \<in> ran t. \<forall>a. sim_FromBech32 E (Denom_Owner d) = Inr a \<longrightarrow> sim_String E a = Denom_Owner d)"

context tf_keeper
begin

lemma simulated_update:
  assumes "store_wf k s" "finds_accounts E" "canonical_owners E (denoms_of k s)"
    and "SimulateMsgUpdateDenom E k s accs = Inr (DeliverTx m)"
  shows "\<exists>u d. m = TxUpdateDenom u \<and> denoms_of k s (MsgUpdateDenom_Denom u) = Some d
    \<and> Denom_Owner d = MsgUpdateDenom_Owner u
    \<and> u = MsgUpdateDenom_zero\<lparr>MsgUpdateDenom_Owner := Denom_Owner d, MsgUpdateDenom_Denom := Denom_Denom d\<rparr>"
proof -
  obtain ds where ds: "GetAllDenom k s = Inr ds" "set ds = ran (denoms_of k s)"
    using table.all_spec [OF assms(1)] by blast
  from assms(4) ds(1) obtain a d where
    o: "find_owned E accs ds (sim_zero E, Denom_zero, False) = Inr (a, d, True)"
    and m: "m = TxUpdateDenom (MsgUpdateDenom_zero\<lparr>MsgUpdateDenom_Owner := sim_String E (sim_Address E a),
           MsgUpdateDenom_Denom := Denom_Denom d\<rparr>)"
    by (auto simp: SimulateMsgUpdateDenom_def rbind_eq_Inr Let_def split: if_splits)
  from find_owned_found [OF o] have d: "d \<in> ran (denoms_of k s)"
    and f: "FindAccount E accs (Denom_Owner d) = Inr (a, True)"
    using ds(2) by auto
  from d obtain n where n: "denoms_of k s n = Some d" by (auto simp: ran_def)
  then have "Denom_Denom d = n" by (rule table.table_name [OF assms(1)])
  moreover have "sim_String E (sim_Address E a) = Denom_Owner d"
    using f assms(2,3) d
    by (auto simp: FindAccount_def finds_accounts_def canonical_owners_def split: sum.splits)
  ultimately show ?thesis using m n by auto
qed

end

section \<open>Properties\<close>

text \<open>
  The create operation delivers only messages \<open>CreateDenom\<close> accepts: the name is free in the
  store the operation ran on.
\<close>

theorem SimulateMsgCreateDenom_accepted:
  assumes "tf_keeper k" and "store_wf k s"
    and "SimulateMsgCreateDenom E k s simAccount i = Inr (DeliverTx m)" and "msg_fits m"
  shows "\<exists>c s'. m = TxCreateDenom c \<and> MsgCreateDenom_Denom c = Itoa i
    \<and> CreateDenom k s c = Inr (s', MsgCreateDenomResponse)"
proof -
  let ?c = "MsgCreateDenom_zero\<lparr>MsgCreateDenom_Owner := sim_String E (sim_Address E simAccount),
      MsgCreateDenom_Denom := Itoa i\<rparr>"
  have m: "m = TxCreateDenom ?c" "denoms_of k s (Itoa i) = None"
    using assms(3)
    by (auto simp: SimulateMsgCreateDenom_def rbind_eq_Inr Let_def denoms_of_def split: if_splits)
  have "MsgCreateDenom_Size ?c < 2 ^ 31"
    using assms(4) m(1) by simp
  from tf_keeper.create_denom [OF assms(1,2) this] m show ?thesis by auto
qed

text \<open>Accounts that are their own addresses, for the witnesses.\<close>

definition sample_env :: "bytes sim_env" where
  "sample_env = \<lparr>sim_FromBech32 = Inr, sim_String = (\<lambda>a. a),
     sim_FindAccount = (\<lambda>accs a. if a \<in> set accs then (a, True) else ([], False)),
     sim_Address = (\<lambda>a. a), sim_zero = [], sim_MsgTypeURL = (\<lambda>m. [])\<rparr>"

lemma sample_env_finds: "finds_accounts sample_env"
  by (auto simp: finds_accounts_def sample_env_def split: if_splits)

lemma sample_sim_sizes:
  "MsgCreateDenom_Size (MsgCreateDenom_zero\<lparr>MsgCreateDenom_Owner := [7],
     MsgCreateDenom_Denom := [52, 50]\<rparr>) = 7"
  "MsgUpdateDenom_Size (MsgUpdateDenom_zero\<lparr>MsgUpdateDenom_Owner := lit ''alice'',
     MsgUpdateDenom_Denom := lit ''umedas''\<rparr>) = 15"
  by code_simp+

theorem SimulateMsgCreateDenom_accepted_witness:
  "\<exists>c s'. MsgCreateDenom_Denom c = Itoa 42
    \<and> CreateDenom gov_keeper sample_store c = Inr (s', MsgCreateDenomResponse)"
proof -
  let ?c = "MsgCreateDenom_zero\<lparr>MsgCreateDenom_Owner := [7], MsgCreateDenom_Denom := Itoa 42\<rparr>"
  have i: "Itoa 42 = [52, 50]" by code_simp
  have "GetDenom gov_keeper sample_store (Itoa 42) = Inr (Denom_zero, False)"
    using mem_keeper.table.get [of "lit ''gov''" sample_store "Itoa 42"] sample_store(2,3)
    unfolding gov_keeper_def [symmetric] by (simp add: i lit_def)
  then have d: "SimulateMsgCreateDenom sample_env gov_keeper sample_store [7] 42
      = Inr (DeliverTx (TxCreateDenom ?c))"
    by (simp add: SimulateMsgCreateDenom_def Let_def sample_env_def)
  have "msg_fits (TxCreateDenom ?c)"
    by (simp add: i sample_sim_sizes)
  from SimulateMsgCreateDenom_accepted [OF gov_keeper_contract sample_store(2) d this]
  show ?thesis by blast
qed

text \<open>
  The update operation delivers only messages \<open>UpdateDenom\<close> accepts, when the owners in the
  store are written as \<open>AccAddress.String\<close> writes them.
\<close>

theorem SimulateMsgUpdateDenom_accepted:
  assumes "tf_keeper k" and "store_wf k s" and "finds_accounts E"
    and "canonical_owners E (denoms_of k s)"
    and "SimulateMsgUpdateDenom E k s accs = Inr (DeliverTx m)" and "msg_fits m"
  shows "\<exists>u s'. m = TxUpdateDenom u \<and> UpdateDenom k s u = Inr (s', MsgUpdateDenomResponse)"
proof -
  from tf_keeper.simulated_update [OF assms(1-5)] obtain u d where u: "m = TxUpdateDenom u"
    "denoms_of k s (MsgUpdateDenom_Denom u) = Some d" "Denom_Owner d = MsgUpdateDenom_Owner u"
    by blast
  with tf_keeper.update_denom [OF assms(1,2), of u] assms(6) show ?thesis by auto
qed

lemma sample_simulated_update:
  "SimulateMsgUpdateDenom sample_env gov_keeper sample_store [lit ''alice'']
    = Inr (DeliverTx (TxUpdateDenom (MsgUpdateDenom_zero\<lparr>MsgUpdateDenom_Owner := lit ''alice'',
        MsgUpdateDenom_Denom := lit ''umedas''\<rparr>)))"
proof -
  obtain ds where ds: "GetAllDenom gov_keeper sample_store = Inr ds"
    "distinct (map Denom_Denom ds)" "set ds = {sample_denom}"
    using mem_keeper.table.all_spec [of "lit ''gov''" sample_store] sample_store(2,3)
    unfolding gov_keeper_def [symmetric] by auto
  then have "ds = [sample_denom]"
    by (cases ds; cases "tl ds") auto
  with ds(1) show ?thesis
    by (simp add: SimulateMsgUpdateDenom_def FindAccount_def sample_env_def sample_denom_def Let_def)
qed

lemma sample_canonical: "canonical_owners sample_env t"
  by (simp add: canonical_owners_def sample_env_def)

theorem SimulateMsgUpdateDenom_accepted_witness:
  "\<exists>s'. UpdateDenom gov_keeper sample_store (MsgUpdateDenom_zero\<lparr>MsgUpdateDenom_Owner := lit ''alice'',
        MsgUpdateDenom_Denom := lit ''umedas''\<rparr>) = Inr (s', MsgUpdateDenomResponse)"
proof -
  let ?u = "MsgUpdateDenom_zero\<lparr>MsgUpdateDenom_Owner := lit ''alice'', MsgUpdateDenom_Denom := lit ''umedas''\<rparr>"
  have "msg_fits (TxUpdateDenom ?u)"
    by (simp add: sample_sim_sizes)
  from SimulateMsgUpdateDenom_accepted [OF gov_keeper_contract sample_store(2) sample_env_finds
      sample_canonical sample_simulated_update this]
  show ?thesis by simp
qed

text \<open>
  The delete operation never deletes.  The transaction it delivers leaves the set of names as
  it is; what it does instead is reset every field of the denom but its name and owner.
\<close>

theorem SimulateMsgDeleteDenom_never_deletes:
  assumes "tf_keeper k" and "store_wf k s" and "finds_accounts E"
    and "canonical_owners E (denoms_of k s)"
    and "SimulateMsgDeleteDenom E k s accs = Inr (DeliverTx m)" and "msg_fits m"
  shows "\<exists>s' d. Msg_Handler k s m = Inr s' \<and> dom (denoms_of k s') = dom (denoms_of k s)
    \<and> denoms_of k s (Denom_Denom d) = Some d
    \<and> denoms_of k s' (Denom_Denom d)
      = Some (Denom_zero\<lparr>Denom_Denom := Denom_Denom d, Denom_Owner := Denom_Owner d\<rparr>)"
proof -
  have "SimulateMsgUpdateDenom E k s accs = Inr (DeliverTx m)"
    using assms(5) by (simp only: SimulateMsgDeleteDenom_def SimulateMsgUpdateDenom_def)
  from tf_keeper.simulated_update [OF assms(1-4) this] obtain u d where u: "m = TxUpdateDenom u"
    "denoms_of k s (MsgUpdateDenom_Denom u) = Some d" "Denom_Owner d = MsgUpdateDenom_Owner u"
    "u = MsgUpdateDenom_zero\<lparr>MsgUpdateDenom_Owner := Denom_Owner d,
       MsgUpdateDenom_Denom := Denom_Denom d\<rparr>"
    by blast
  have n: "MsgUpdateDenom_Denom u = Denom_Denom d"
    by (subst u(4)) simp
  have e: "denom_of_update u
      = Denom_zero\<lparr>Denom_Denom := Denom_Denom d, Denom_Owner := Denom_Owner d\<rparr>"
    by (subst u(4)) (simp add: denom_of_update_def MsgUpdateDenom_zero_def Denom_zero_def)
  have "MsgUpdateDenom_Size u < 2 ^ 31" using assms(6) u(1) by simp
  from tf_keeper.update_denom [OF assms(1,2) this] u(2,3) obtain s' where
    s': "UpdateDenom k s u = Inr (s', MsgUpdateDenomResponse)"
    "denoms_of k s' = (denoms_of k s)(MsgUpdateDenom_Denom u \<mapsto> denom_of_update u)"
    by auto
  have "dom (denoms_of k s') = dom (denoms_of k s)"
    using u(2) s'(2) by (auto simp: dom_def)
  then show ?thesis
    using u(1,2) s' n e by (intro exI [of _ s'] exI [of _ d]) simp
qed

theorem SimulateMsgDeleteDenom_never_deletes_witness:
  "SimulateMsgDeleteDenom sample_env gov_keeper sample_store [lit ''alice'']
      = Inr (DeliverTx (TxUpdateDenom (MsgUpdateDenom_zero\<lparr>MsgUpdateDenom_Owner := lit ''alice'',
        MsgUpdateDenom_Denom := lit ''umedas''\<rparr>)))
    \<and> (\<exists>s'. Msg_Handler gov_keeper sample_store
        (TxUpdateDenom (MsgUpdateDenom_zero\<lparr>MsgUpdateDenom_Owner := lit ''alice'',
          MsgUpdateDenom_Denom := lit ''umedas''\<rparr>)) = Inr s'
      \<and> dom (denoms_of gov_keeper s') = {lit ''umedas''})"
proof -
  let ?u = "MsgUpdateDenom_zero\<lparr>MsgUpdateDenom_Owner := lit ''alice'', MsgUpdateDenom_Denom := lit ''umedas''\<rparr>"
  have f: "msg_fits (TxUpdateDenom ?u)"
    by (simp add: sample_sim_sizes)
  have d: "SimulateMsgDeleteDenom sample_env gov_keeper sample_store [lit ''alice'']
      = Inr (DeliverTx (TxUpdateDenom ?u))"
    using sample_simulated_update
    by (simp only: SimulateMsgDeleteDenom_def SimulateMsgUpdateDenom_def)
  from SimulateMsgDeleteDenom_never_deletes [OF gov_keeper_contract sample_store(2) sample_env_finds
      sample_canonical d f] d
  show ?thesis by (auto simp: sample_store(3))
qed

end
