(* ===== verification/TF_Simulation_Module.thy ===== *)
theory TF_Simulation_Module
  imports TF_Simulation TF_Genesis TF_Module
begin

text \<open>
  The simulation of the token factory as a module, \<open>x/tokenfactory/module/simulation.go\<close>: the
  genesis state it starts from and the weighted list of its operations.
\<close>

section \<open>Operations\<close>

definition opWeightMsgCreateDenom :: gostring where
  "opWeightMsgCreateDenom = lit ''op_weight_msg_denom''"

definition opWeightMsgUpdateDenom :: gostring where
  "opWeightMsgUpdateDenom = lit ''op_weight_msg_denom''"

definition opWeightMsgDeleteDenom :: gostring where
  "opWeightMsgDeleteDenom = lit ''op_weight_msg_denom''"

definition defaultWeightMsgCreateDenom :: int where
  "defaultWeightMsgCreateDenom = 100"

definition defaultWeightMsgUpdateDenom :: int where
  "defaultWeightMsgUpdateDenom = 100"

definition defaultWeightMsgDeleteDenom :: int where
  "defaultWeightMsgDeleteDenom = 100"

text \<open>
  The genesis state, with the two random addresses of \<open>sample.AccAddress\<close> as arguments.  The
  addresses of the accounts the function collects first are not used.
\<close>

definition GenerateGenesisState ::
  "json_codec \<Rightarrow> gostring \<Rightarrow> gostring \<Rightarrow> (gostring \<rightharpoonup> bytes) \<Rightarrow> go_error + (gostring \<rightharpoonup> bytes)" where
  "GenerateGenesisState J addr0 addr1 GenState =
     (let tokenfactoryGenesis = \<lparr>GenesisState_Params = DefaultParams,
          GenesisState_DenomList =
            [Denom_zero\<lparr>Denom_Owner := addr0, Denom_Denom := lit ''0''\<rparr>,
             Denom_zero\<lparr>Denom_Owner := addr1, Denom_Denom := lit ''1''\<rparr>]\<rparr>
      in case json_Marshal J tokenfactoryGenesis of
          Inl err \<Rightarrow> Inl (Panicked (Errorf err))
        | Inr bz \<Rightarrow> Inr (GenState(ModuleName \<mapsto> bz)))"

text \<open>
  An operation, on the store, the accounts and two random choices: the index of the account and
  the number that names a new denom.
\<close>

type_synonym ('s, 'acc) sim_operation =
  "'s \<Rightarrow> 'acc list \<Rightarrow> nat \<Rightarrow> nat \<Rightarrow> go_error + sim_result"

text \<open>
  \<open>AppParams.GetOrGenerate\<close> of the SDK is a parameter: from the parameters, a key, the value the
  variable holds and the value the generator would set, it gives the value the variable holds
  afterwards.
\<close>

definition WeightedOperations ::
  "('p \<Rightarrow> gostring \<Rightarrow> int \<Rightarrow> int \<Rightarrow> int) \<Rightarrow> 'p \<Rightarrow> 'acc sim_env \<Rightarrow> 's Keeper
    \<Rightarrow> (int \<times> ('s, 'acc) sim_operation) list" where
  "WeightedOperations GetOrGenerate AppParams E k =
     (let operations = [];
          weightMsgCreateDenom =
            GetOrGenerate AppParams opWeightMsgCreateDenom 0 defaultWeightMsgCreateDenom;
          operations = operations @
            [(weightMsgCreateDenom, \<lambda>s accs n i. SimulateMsgCreateDenom E k s (accs ! n) i)];
          weightMsgUpdateDenom =
            GetOrGenerate AppParams opWeightMsgUpdateDenom 0 defaultWeightMsgUpdateDenom;
          operations = operations @
            [(weightMsgUpdateDenom, \<lambda>s accs n i. SimulateMsgUpdateDenom E k s accs)];
          weightMsgDeleteDenom =
            GetOrGenerate AppParams opWeightMsgDeleteDenom 0 defaultWeightMsgDeleteDenom;
          operations = operations @
            [(weightMsgDeleteDenom, \<lambda>s accs n i. SimulateMsgDeleteDenom E k s accs)]
      in operations)"

text \<open>
  The proposals: a key, a default weight and a message generator.  Each generator builds an
  operation, drops it and returns nil.
\<close>

definition ProposalMsgs :: "(gostring \<times> int \<times> ('acc list \<Rightarrow> tf_msg option)) list" where
  "ProposalMsgs =
     [(opWeightMsgCreateDenom, defaultWeightMsgCreateDenom, \<lambda>accs. None),
      (opWeightMsgUpdateDenom, defaultWeightMsgUpdateDenom, \<lambda>accs. None),
      (opWeightMsgDeleteDenom, defaultWeightMsgDeleteDenom, \<lambda>accs. None)]"

section \<open>Properties\<close>

lemma update_delete_same: "SimulateMsgDeleteDenom E k s accs = SimulateMsgUpdateDenom E k s accs"
  by (simp add: SimulateMsgDeleteDenom_def SimulateMsgUpdateDenom_def)

lemma update_delivers_update:
  "SimulateMsgUpdateDenom E k s accs = Inr (DeliverTx m) \<Longrightarrow> \<exists>u. m = TxUpdateDenom u"
  by (auto simp: SimulateMsgUpdateDenom_def rbind_eq_Inr Let_def split: if_splits)

lemma create_delivers_create:
  "SimulateMsgCreateDenom E k s acc i = Inr (DeliverTx m) \<Longrightarrow> \<exists>c. m = TxCreateDenom c"
  by (auto simp: SimulateMsgCreateDenom_def rbind_eq_Inr Let_def split: if_splits)

text \<open>The genesis state is valid, and its denoms have different names, whatever the addresses.\<close>

lemma GenerateGenesisState_valid:
  assumes "\<forall>g. \<exists>bz. json_Marshal J g = Inr bz \<and> json_Unmarshal J bz = Inr g"
  shows "\<exists>bz. GenerateGenesisState J addr0 addr1 GenState = Inr (GenState(ModuleName \<mapsto> bz))
    \<and> AppModule_ValidateGenesis J bz = Inr ()"
proof -
  let ?g = "\<lparr>GenesisState_Params = DefaultParams, GenesisState_DenomList =
            [Denom_zero\<lparr>Denom_Owner := addr0, Denom_Denom := lit ''0''\<rparr>,
             Denom_zero\<lparr>Denom_Owner := addr1, Denom_Denom := lit ''1''\<rparr>]\<rparr>"
  obtain bz where "json_Marshal J ?g = Inr bz" "json_Unmarshal J bz = Inr ?g"
    using assms by blast
  moreover have "GenesisState_Validate ?g = Inr ()"
    by (simp add: GenesisState_Validate_def DenomKey_def lit_def Params_Validate_def)
  ultimately show ?thesis
    by (intro exI [of _ bz]) (simp add: GenerateGenesisState_def AppModule_ValidateGenesis_def)
qed

text \<open>
  C39: what the simulation exercises.  Whatever parameters are configured, the three operations
  have one weight, since they read one key; two of them are the same operation; and none of
  them, nor a proposal, ever delivers a \<open>MsgDeleteDenom\<close>, so deletes are not simulated.
\<close>

theorem simulation_never_deletes:
  "\<exists>w create update delete.
     WeightedOperations GetOrGenerate AppParams E k = [(w, create), (w, update), (w, delete)]
     \<and> delete = update
     \<and> (\<forall>op \<in> {create, update, delete}. \<forall>s accs n i d. op s accs n i \<noteq> Inr (DeliverTx (TxDeleteDenom d)))
     \<and> (\<forall>(key, weight, gen) \<in> set ProposalMsgs. \<forall>accs. gen accs = None)"
proof -
  have "SimulateMsgUpdateDenom E k s accs \<noteq> Inr (DeliverTx (TxDeleteDenom d))" for s accs d
    using update_delivers_update [of E k s accs "TxDeleteDenom d"] by auto
  moreover have "SimulateMsgCreateDenom E k s acc i \<noteq> Inr (DeliverTx (TxDeleteDenom d))" for s acc i d
    using create_delivers_create [of E k s acc i "TxDeleteDenom d"] by auto
  ultimately show ?thesis
    by (simp add: WeightedOperations_def Let_def update_delete_same ProposalMsgs_def
        opWeightMsgCreateDenom_def opWeightMsgUpdateDenom_def opWeightMsgDeleteDenom_def
        defaultWeightMsgCreateDenom_def defaultWeightMsgUpdateDenom_def defaultWeightMsgDeleteDenom_def)
qed

theorem simulation_never_deletes_witness:
  "\<exists>w create update.
     WeightedOperations (\<lambda>p key v default. default) () sample_env gov_keeper
       = [(w, create), (w, update), (w, update)]
     \<and> (\<forall>s accs n i d. update s accs n i \<noteq> Inr (DeliverTx (TxDeleteDenom d)))"
  using simulation_never_deletes [of "\<lambda>p key v default. default" "()" sample_env gov_keeper]
  by blast

end
