(* ===== verification/Medas_Pb.thy ===== *)
theory Medas_Pb
  imports Proto_Message
begin

text \<open>
  The messages of the module \<open>x/medasdigital\<close> with their generated code in \<open>types/params.pb.go\<close>,
  \<open>types/tx.pb.go\<close>, \<open>types/genesis.pb.go\<close> and \<open>types/query.pb.go\<close>.  The names carry the prefix
  \<open>Medas\<close>, since the token factory has messages of the same names.
\<close>

abbreviation medas_params_file :: pbfile where
  "medas_params_file \<equiv> (Mod_medasdigital, PbParams)"

abbreviation medas_tx_file :: pbfile where
  "medas_tx_file \<equiv> (Mod_medasdigital, PbTx)"

abbreviation medas_genesis_file :: pbfile where
  "medas_genesis_file \<equiv> (Mod_medasdigital, PbGenesis)"

abbreviation medas_query_file :: pbfile where
  "medas_query_file \<equiv> (Mod_medasdigital, PbQuery)"

text \<open>The helpers the generator repeats in \<open>params.pb.go\<close>.\<close>

definition Medas_encodeVarintParams :: "bytes \<Rightarrow> int \<Rightarrow> uint64 \<Rightarrow> pb_error + bytes \<times> int" where
  "Medas_encodeVarintParams dAtA offset v = put_varint v (dAtA, offset)"

definition Medas_sovParams :: "uint64 \<Rightarrow> nat" where
  "Medas_sovParams x = sov x"

definition Medas_sozParams :: "uint64 \<Rightarrow> nat" where
  "Medas_sozParams x = soz x"

definition Medas_skipParams :: "bytes \<Rightarrow> pb_error + int" where
  "Medas_skipParams dAtA = skip_field medas_params_file dAtA"

text \<open>The helpers the generator repeats in \<open>tx.pb.go\<close>.\<close>

definition Medas_encodeVarintTx :: "bytes \<Rightarrow> int \<Rightarrow> uint64 \<Rightarrow> pb_error + bytes \<times> int" where
  "Medas_encodeVarintTx dAtA offset v = put_varint v (dAtA, offset)"

definition Medas_sovTx :: "uint64 \<Rightarrow> nat" where
  "Medas_sovTx x = sov x"

definition Medas_sozTx :: "uint64 \<Rightarrow> nat" where
  "Medas_sozTx x = soz x"

definition Medas_skipTx :: "bytes \<Rightarrow> pb_error + int" where
  "Medas_skipTx dAtA = skip_field medas_tx_file dAtA"

text \<open>The helpers the generator repeats in \<open>genesis.pb.go\<close>.\<close>

definition Medas_encodeVarintGenesis :: "bytes \<Rightarrow> int \<Rightarrow> uint64 \<Rightarrow> pb_error + bytes \<times> int" where
  "Medas_encodeVarintGenesis dAtA offset v = put_varint v (dAtA, offset)"

definition Medas_sovGenesis :: "uint64 \<Rightarrow> nat" where
  "Medas_sovGenesis x = sov x"

definition Medas_sozGenesis :: "uint64 \<Rightarrow> nat" where
  "Medas_sozGenesis x = soz x"

definition Medas_skipGenesis :: "bytes \<Rightarrow> pb_error + int" where
  "Medas_skipGenesis dAtA = skip_field medas_genesis_file dAtA"

text \<open>The helpers the generator repeats in \<open>query.pb.go\<close>.\<close>

definition Medas_encodeVarintQuery :: "bytes \<Rightarrow> int \<Rightarrow> uint64 \<Rightarrow> pb_error + bytes \<times> int" where
  "Medas_encodeVarintQuery dAtA offset v = put_varint v (dAtA, offset)"

definition Medas_sovQuery :: "uint64 \<Rightarrow> nat" where
  "Medas_sovQuery x = sov x"

definition Medas_sozQuery :: "uint64 \<Rightarrow> nat" where
  "Medas_sozQuery x = soz x"

definition Medas_skipQuery :: "bytes \<Rightarrow> pb_error + int" where
  "Medas_skipQuery dAtA = skip_field medas_query_file dAtA"

section \<open>Params\<close>

text \<open>\<open>Params\<close>, a message without fields.\<close>

datatype MedasParams = MedasParams

definition MedasParams_Size :: "MedasParams \<Rightarrow> nat" where
  "MedasParams_Size m = 0"

definition MedasParams_MarshalToSizedBuffer :: "MedasParams \<Rightarrow> bytes \<Rightarrow> pb_error + bytes \<times> int" where
  "MedasParams_MarshalToSizedBuffer m = to_sized_buffer []"

definition MedasParams_Marshal :: "MedasParams \<Rightarrow> pb_error + bytes" where
  "MedasParams_Marshal m = marshal (MedasParams_Size m) (MedasParams_MarshalToSizedBuffer m)"

definition MedasParams_MarshalTo :: "MedasParams \<Rightarrow> bytes \<Rightarrow> pb_error + bytes \<times> int" where
  "MedasParams_MarshalTo m = marshal_to (MedasParams_Size m) (MedasParams_MarshalToSizedBuffer m)"

definition MedasParams_fields :: "MedasParams fields" where
  "MedasParams_fields n = None"

definition MedasParams_Unmarshal :: "bytes \<Rightarrow> MedasParams \<Rightarrow> pb_error + MedasParams" where
  "MedasParams_Unmarshal = unmarshal medas_params_file ''Params'' MedasParams_fields"

definition MedasParams_wire :: "MedasParams \<Rightarrow> wire_field list" where
  "MedasParams_wire m = []"

interpretation medas_params_pb: pb_message medas_params_file "''Params''" MedasParams_fields MedasParams MedasParams_Size
  MedasParams_MarshalToSizedBuffer MedasParams_wire
proof unfold_locales
  show "fills (MedasParams_MarshalToSizedBuffer m) (enc_fields (MedasParams_wire m))" for m
    unfolding MedasParams_MarshalToSizedBuffer_def
    by (rule fills_to_sized_buffer) (simp add: MedasParams_wire_def put_seq_nil writes_skip)
  show "rfold (apply_field MedasParams_fields) (MedasParams_wire m) MedasParams = Inr m" for m
    by (cases m) (simp add: MedasParams_wire_def)
qed (simp_all add: MedasParams_Size_def MedasParams_wire_def MedasParams_fields_def)

section \<open>MsgUpdateParams\<close>

text \<open>The request of \<open>Msg/UpdateParams\<close>.\<close>

record MedasMsgUpdateParams =
  MedasMsgUpdateParams_Authority :: gostring
  MedasMsgUpdateParams_Params :: MedasParams

definition MedasMsgUpdateParams_zero :: MedasMsgUpdateParams where
  "MedasMsgUpdateParams_zero = \<lparr>MedasMsgUpdateParams_Authority = [], MedasMsgUpdateParams_Params = MedasParams\<rparr>"

definition MedasMsgUpdateParams_Size :: "MedasMsgUpdateParams \<Rightarrow> nat" where
  "MedasMsgUpdateParams_Size m =
     size_string (MedasMsgUpdateParams_Authority m)
   + size_bytes (MedasParams_Size (MedasMsgUpdateParams_Params m))"

definition MedasMsgUpdateParams_MarshalToSizedBuffer :: "MedasMsgUpdateParams \<Rightarrow> bytes \<Rightarrow> pb_error + bytes \<times> int" where
  "MedasMsgUpdateParams_MarshalToSizedBuffer m = to_sized_buffer
     [put_message 0x12 (MedasParams_MarshalToSizedBuffer (MedasMsgUpdateParams_Params m)),
      put_string 0x0a (MedasMsgUpdateParams_Authority m)]"

definition MedasMsgUpdateParams_Marshal :: "MedasMsgUpdateParams \<Rightarrow> pb_error + bytes" where
  "MedasMsgUpdateParams_Marshal m = marshal (MedasMsgUpdateParams_Size m) (MedasMsgUpdateParams_MarshalToSizedBuffer m)"

definition MedasMsgUpdateParams_MarshalTo :: "MedasMsgUpdateParams \<Rightarrow> bytes \<Rightarrow> pb_error + bytes \<times> int" where
  "MedasMsgUpdateParams_MarshalTo m = marshal_to (MedasMsgUpdateParams_Size m) (MedasMsgUpdateParams_MarshalToSizedBuffer m)"

definition MedasMsgUpdateParams_fields :: "MedasMsgUpdateParams fields" where
  "MedasMsgUpdateParams_fields n =
     (if n = 1 then 
        Some (''Authority'', FString (\<lambda>s m. m\<lparr>MedasMsgUpdateParams_Authority := s\<rparr>))
      else if n = 2 then 
        Some (''Params'', FMessage (\<lambda>s m.
          rbind (MedasParams_Unmarshal s (MedasMsgUpdateParams_Params m)) (\<lambda>x. Inr (m\<lparr>MedasMsgUpdateParams_Params := x\<rparr>))))
      else None)"

definition MedasMsgUpdateParams_Unmarshal :: "bytes \<Rightarrow> MedasMsgUpdateParams \<Rightarrow> pb_error + MedasMsgUpdateParams" where
  "MedasMsgUpdateParams_Unmarshal = unmarshal medas_tx_file ''MsgUpdateParams'' MedasMsgUpdateParams_fields"

definition MedasMsgUpdateParams_wire :: "MedasMsgUpdateParams \<Rightarrow> wire_field list" where
  "MedasMsgUpdateParams_wire m =
     w_string 1 (MedasMsgUpdateParams_Authority m)
   @ [WBytes 2 (enc_fields (MedasParams_wire (MedasMsgUpdateParams_Params m)))]"

lemma MedasMsgUpdateParams_fills:
  "fills (MedasMsgUpdateParams_MarshalToSizedBuffer m) (enc_fields (MedasMsgUpdateParams_wire m))"
proof -
  have "list_all2 writes
      [put_message 0x12 (MedasParams_MarshalToSizedBuffer (MedasMsgUpdateParams_Params m)),
       put_string 0x0a (MedasMsgUpdateParams_Authority m)]
      (map enc_fields [[WBytes 2 (enc_fields (MedasParams_wire (MedasMsgUpdateParams_Params m)))],
        w_string 1 (MedasMsgUpdateParams_Authority m)])"
    using medas_params_pb.to_sized_fills [of "MedasMsgUpdateParams_Params m"]
      writes_w_message [of _ _ 2 "0x12"]
    by (simp add: writes_w_string key_byte_def del: enc_field.simps)
  from fills_to_sized_buffer [OF writes_seq [OF this]] show ?thesis
    by (simp add: MedasMsgUpdateParams_MarshalToSizedBuffer_def MedasMsgUpdateParams_wire_def)
qed

interpretation medas_msg_update_params_pb: pb_message medas_tx_file "''MsgUpdateParams''"
  MedasMsgUpdateParams_fields MedasMsgUpdateParams_zero MedasMsgUpdateParams_Size
  MedasMsgUpdateParams_MarshalToSizedBuffer MedasMsgUpdateParams_wire
proof unfold_locales
  show "fills (MedasMsgUpdateParams_MarshalToSizedBuffer m) (enc_fields (MedasMsgUpdateParams_wire m))" for m
    by (rule MedasMsgUpdateParams_fills)
  show "MedasMsgUpdateParams_Size m = length (enc_fields (MedasMsgUpdateParams_wire m))" for m
    by (simp add: MedasMsgUpdateParams_Size_def MedasMsgUpdateParams_wire_def medas_params_pb.Size_wire
        del: enc_field.simps)
  show "list_all wf_field (MedasMsgUpdateParams_wire m)" for m
    by (simp add: MedasMsgUpdateParams_wire_def)
  show "rfold (apply_field MedasMsgUpdateParams_fields) (MedasMsgUpdateParams_wire m) MedasMsgUpdateParams_zero
      = Inr m" if "go_slice (enc_fields (MedasMsgUpdateParams_wire m))" for m
  proof -
    have "MedasParams_Unmarshal (enc_fields (MedasParams_wire p)) MedasParams = Inr p" for p
      using medas_params_pb.unmarshal_wire [of p]
      by (simp add: MedasParams_wire_def MedasParams_Unmarshal_def go_slice_def)
    then show ?thesis
      by (simp add: MedasMsgUpdateParams_wire_def MedasMsgUpdateParams_zero_def MedasMsgUpdateParams_fields_def
          rfold_wire apply_field_def)
  qed
  show "dec s x \<noteq> Inl Panic"
    if "MedasMsgUpdateParams_fields n = Some (name, FMessage dec)" and "go_slice s" for n name dec s x
    using that medas_params_pb.no_panic
    by (auto simp: MedasMsgUpdateParams_fields_def MedasParams_Unmarshal_def rbind_eq_Inl split: if_splits)
qed

text \<open>Its response.\<close>

datatype MedasMsgUpdateParamsResponse = MedasMsgUpdateParamsResponse

definition MedasMsgUpdateParamsResponse_Size :: "MedasMsgUpdateParamsResponse \<Rightarrow> nat" where
  "MedasMsgUpdateParamsResponse_Size m = 0"

definition MedasMsgUpdateParamsResponse_MarshalToSizedBuffer :: "MedasMsgUpdateParamsResponse \<Rightarrow> bytes \<Rightarrow> pb_error + bytes \<times> int" where
  "MedasMsgUpdateParamsResponse_MarshalToSizedBuffer m = to_sized_buffer []"

definition MedasMsgUpdateParamsResponse_Marshal :: "MedasMsgUpdateParamsResponse \<Rightarrow> pb_error + bytes" where
  "MedasMsgUpdateParamsResponse_Marshal m = marshal (MedasMsgUpdateParamsResponse_Size m) (MedasMsgUpdateParamsResponse_MarshalToSizedBuffer m)"

definition MedasMsgUpdateParamsResponse_MarshalTo :: "MedasMsgUpdateParamsResponse \<Rightarrow> bytes \<Rightarrow> pb_error + bytes \<times> int" where
  "MedasMsgUpdateParamsResponse_MarshalTo m = marshal_to (MedasMsgUpdateParamsResponse_Size m) (MedasMsgUpdateParamsResponse_MarshalToSizedBuffer m)"

definition MedasMsgUpdateParamsResponse_fields :: "MedasMsgUpdateParamsResponse fields" where
  "MedasMsgUpdateParamsResponse_fields n = None"

definition MedasMsgUpdateParamsResponse_Unmarshal :: "bytes \<Rightarrow> MedasMsgUpdateParamsResponse \<Rightarrow> pb_error + MedasMsgUpdateParamsResponse" where
  "MedasMsgUpdateParamsResponse_Unmarshal = unmarshal medas_tx_file ''MsgUpdateParamsResponse'' MedasMsgUpdateParamsResponse_fields"

definition MedasMsgUpdateParamsResponse_wire :: "MedasMsgUpdateParamsResponse \<Rightarrow> wire_field list" where
  "MedasMsgUpdateParamsResponse_wire m = []"

interpretation medas_msg_update_params_response_pb: pb_message medas_tx_file "''MsgUpdateParamsResponse''" MedasMsgUpdateParamsResponse_fields MedasMsgUpdateParamsResponse MedasMsgUpdateParamsResponse_Size
  MedasMsgUpdateParamsResponse_MarshalToSizedBuffer MedasMsgUpdateParamsResponse_wire
proof unfold_locales
  show "fills (MedasMsgUpdateParamsResponse_MarshalToSizedBuffer m) (enc_fields (MedasMsgUpdateParamsResponse_wire m))" for m
    unfolding MedasMsgUpdateParamsResponse_MarshalToSizedBuffer_def
    by (rule fills_to_sized_buffer) (simp add: MedasMsgUpdateParamsResponse_wire_def put_seq_nil writes_skip)
  show "rfold (apply_field MedasMsgUpdateParamsResponse_fields) (MedasMsgUpdateParamsResponse_wire m) MedasMsgUpdateParamsResponse = Inr m" for m
    by (cases m) (simp add: MedasMsgUpdateParamsResponse_wire_def)
qed (simp_all add: MedasMsgUpdateParamsResponse_Size_def MedasMsgUpdateParamsResponse_wire_def MedasMsgUpdateParamsResponse_fields_def)

section \<open>GenesisState\<close>

text \<open>\<open>GenesisState\<close>: the parameters, embedded.\<close>

record MedasGenesisState =
  MedasGenesisState_Params :: MedasParams

definition MedasGenesisState_zero :: MedasGenesisState where
  "MedasGenesisState_zero = \<lparr>MedasGenesisState_Params = MedasParams\<rparr>"

definition MedasGenesisState_Size :: "MedasGenesisState \<Rightarrow> nat" where
  "MedasGenesisState_Size m =
     size_bytes (MedasParams_Size (MedasGenesisState_Params m))"

definition MedasGenesisState_MarshalToSizedBuffer :: "MedasGenesisState \<Rightarrow> bytes \<Rightarrow> pb_error + bytes \<times> int" where
  "MedasGenesisState_MarshalToSizedBuffer m = to_sized_buffer
     [put_message 0x0a (MedasParams_MarshalToSizedBuffer (MedasGenesisState_Params m))]"

definition MedasGenesisState_Marshal :: "MedasGenesisState \<Rightarrow> pb_error + bytes" where
  "MedasGenesisState_Marshal m = marshal (MedasGenesisState_Size m) (MedasGenesisState_MarshalToSizedBuffer m)"

definition MedasGenesisState_MarshalTo :: "MedasGenesisState \<Rightarrow> bytes \<Rightarrow> pb_error + bytes \<times> int" where
  "MedasGenesisState_MarshalTo m = marshal_to (MedasGenesisState_Size m) (MedasGenesisState_MarshalToSizedBuffer m)"

definition MedasGenesisState_fields :: "MedasGenesisState fields" where
  "MedasGenesisState_fields n =
     (if n = 1 then 
        Some (''Params'', FMessage (\<lambda>s m.
          rbind (MedasParams_Unmarshal s (MedasGenesisState_Params m)) (\<lambda>x. Inr (m\<lparr>MedasGenesisState_Params := x\<rparr>))))
      else None)"

definition MedasGenesisState_Unmarshal :: "bytes \<Rightarrow> MedasGenesisState \<Rightarrow> pb_error + MedasGenesisState" where
  "MedasGenesisState_Unmarshal = unmarshal medas_genesis_file ''GenesisState'' MedasGenesisState_fields"

definition MedasGenesisState_wire :: "MedasGenesisState \<Rightarrow> wire_field list" where
  "MedasGenesisState_wire m =
     [WBytes 1 (enc_fields (MedasParams_wire (MedasGenesisState_Params m)))]"

interpretation medas_genesis_pb: pb_message medas_genesis_file "''GenesisState''" MedasGenesisState_fields MedasGenesisState_zero
  MedasGenesisState_Size MedasGenesisState_MarshalToSizedBuffer MedasGenesisState_wire
  by (rule embedded_message [OF medas_params_pb.pb_message_axioms, where f = medas_params_file
        and msg = "''Params''" and inner = MedasGenesisState_Params
        and upd = "\<lambda>x m. m\<lparr>MedasGenesisState_Params := x\<rparr>" and name = "''Params''"])
    (simp_all add: MedasGenesisState_zero_def MedasGenesisState_fields_def MedasParams_Unmarshal_def
      MedasGenesisState_Size_def MedasGenesisState_MarshalToSizedBuffer_def MedasGenesisState_wire_def)


section \<open>Queries\<close>

text \<open>The request of \<open>Query/Params\<close>.\<close>

datatype MedasQueryParamsRequest = MedasQueryParamsRequest

definition MedasQueryParamsRequest_Size :: "MedasQueryParamsRequest \<Rightarrow> nat" where
  "MedasQueryParamsRequest_Size m = 0"

definition MedasQueryParamsRequest_MarshalToSizedBuffer :: "MedasQueryParamsRequest \<Rightarrow> bytes \<Rightarrow> pb_error + bytes \<times> int" where
  "MedasQueryParamsRequest_MarshalToSizedBuffer m = to_sized_buffer []"

definition MedasQueryParamsRequest_Marshal :: "MedasQueryParamsRequest \<Rightarrow> pb_error + bytes" where
  "MedasQueryParamsRequest_Marshal m = marshal (MedasQueryParamsRequest_Size m) (MedasQueryParamsRequest_MarshalToSizedBuffer m)"

definition MedasQueryParamsRequest_MarshalTo :: "MedasQueryParamsRequest \<Rightarrow> bytes \<Rightarrow> pb_error + bytes \<times> int" where
  "MedasQueryParamsRequest_MarshalTo m = marshal_to (MedasQueryParamsRequest_Size m) (MedasQueryParamsRequest_MarshalToSizedBuffer m)"

definition MedasQueryParamsRequest_fields :: "MedasQueryParamsRequest fields" where
  "MedasQueryParamsRequest_fields n = None"

definition MedasQueryParamsRequest_Unmarshal :: "bytes \<Rightarrow> MedasQueryParamsRequest \<Rightarrow> pb_error + MedasQueryParamsRequest" where
  "MedasQueryParamsRequest_Unmarshal = unmarshal medas_query_file ''QueryParamsRequest'' MedasQueryParamsRequest_fields"

definition MedasQueryParamsRequest_wire :: "MedasQueryParamsRequest \<Rightarrow> wire_field list" where
  "MedasQueryParamsRequest_wire m = []"

interpretation medas_query_params_request_pb: pb_message medas_query_file "''QueryParamsRequest''" MedasQueryParamsRequest_fields MedasQueryParamsRequest MedasQueryParamsRequest_Size
  MedasQueryParamsRequest_MarshalToSizedBuffer MedasQueryParamsRequest_wire
proof unfold_locales
  show "fills (MedasQueryParamsRequest_MarshalToSizedBuffer m) (enc_fields (MedasQueryParamsRequest_wire m))" for m
    unfolding MedasQueryParamsRequest_MarshalToSizedBuffer_def
    by (rule fills_to_sized_buffer) (simp add: MedasQueryParamsRequest_wire_def put_seq_nil writes_skip)
  show "rfold (apply_field MedasQueryParamsRequest_fields) (MedasQueryParamsRequest_wire m) MedasQueryParamsRequest = Inr m" for m
    by (cases m) (simp add: MedasQueryParamsRequest_wire_def)
qed (simp_all add: MedasQueryParamsRequest_Size_def MedasQueryParamsRequest_wire_def MedasQueryParamsRequest_fields_def)
text \<open>Its response.\<close>

record MedasQueryParamsResponse =
  MedasQueryParamsResponse_Params :: MedasParams

definition MedasQueryParamsResponse_zero :: MedasQueryParamsResponse where
  "MedasQueryParamsResponse_zero = \<lparr>MedasQueryParamsResponse_Params = MedasParams\<rparr>"

definition MedasQueryParamsResponse_Size :: "MedasQueryParamsResponse \<Rightarrow> nat" where
  "MedasQueryParamsResponse_Size m =
     size_bytes (MedasParams_Size (MedasQueryParamsResponse_Params m))"

definition MedasQueryParamsResponse_MarshalToSizedBuffer :: "MedasQueryParamsResponse \<Rightarrow> bytes \<Rightarrow> pb_error + bytes \<times> int" where
  "MedasQueryParamsResponse_MarshalToSizedBuffer m = to_sized_buffer
     [put_message 0x0a (MedasParams_MarshalToSizedBuffer (MedasQueryParamsResponse_Params m))]"

definition MedasQueryParamsResponse_Marshal :: "MedasQueryParamsResponse \<Rightarrow> pb_error + bytes" where
  "MedasQueryParamsResponse_Marshal m = marshal (MedasQueryParamsResponse_Size m) (MedasQueryParamsResponse_MarshalToSizedBuffer m)"

definition MedasQueryParamsResponse_MarshalTo :: "MedasQueryParamsResponse \<Rightarrow> bytes \<Rightarrow> pb_error + bytes \<times> int" where
  "MedasQueryParamsResponse_MarshalTo m = marshal_to (MedasQueryParamsResponse_Size m) (MedasQueryParamsResponse_MarshalToSizedBuffer m)"

definition MedasQueryParamsResponse_fields :: "MedasQueryParamsResponse fields" where
  "MedasQueryParamsResponse_fields n =
     (if n = 1 then 
        Some (''Params'', FMessage (\<lambda>s m.
          rbind (MedasParams_Unmarshal s (MedasQueryParamsResponse_Params m)) (\<lambda>x. Inr (m\<lparr>MedasQueryParamsResponse_Params := x\<rparr>))))
      else None)"

definition MedasQueryParamsResponse_Unmarshal :: "bytes \<Rightarrow> MedasQueryParamsResponse \<Rightarrow> pb_error + MedasQueryParamsResponse" where
  "MedasQueryParamsResponse_Unmarshal = unmarshal medas_query_file ''QueryParamsResponse'' MedasQueryParamsResponse_fields"

definition MedasQueryParamsResponse_wire :: "MedasQueryParamsResponse \<Rightarrow> wire_field list" where
  "MedasQueryParamsResponse_wire m =
     [WBytes 1 (enc_fields (MedasParams_wire (MedasQueryParamsResponse_Params m)))]"

interpretation medas_query_params_response_pb: pb_message medas_query_file "''QueryParamsResponse''" MedasQueryParamsResponse_fields MedasQueryParamsResponse_zero
  MedasQueryParamsResponse_Size MedasQueryParamsResponse_MarshalToSizedBuffer MedasQueryParamsResponse_wire
  by (rule embedded_message [OF medas_params_pb.pb_message_axioms, where f = medas_params_file
        and msg = "''Params''" and inner = MedasQueryParamsResponse_Params
        and upd = "\<lambda>x m. m\<lparr>MedasQueryParamsResponse_Params := x\<rparr>" and name = "''Params''"])
    (simp_all add: MedasQueryParamsResponse_zero_def MedasQueryParamsResponse_fields_def MedasParams_Unmarshal_def
      MedasQueryParamsResponse_Size_def MedasQueryParamsResponse_MarshalToSizedBuffer_def MedasQueryParamsResponse_wire_def)

end
