(* ===== verification/Medas_Module.thy ===== *)
theory Medas_Module
  imports Medas_Pb Sdk_Interfaces
begin

text \<open>
  The module \<open>x/medasdigital\<close>: the keeper of its parameters (\<open>keeper/keeper.go\<close>,
  \<open>keeper/params.go\<close>), its message server (\<open>keeper/msg_update_params.go\<close>), query server
  (\<open>keeper/query_params.go\<close>), messages and genesis (\<open>types/\<close>, \<open>module/genesis.go\<close>).
\<close>

section \<open>Keeper\<close>

text \<open>The codec at the one type the module stores.\<close>

record medas_codec =
  mcdc_Marshal :: "MedasParams \<Rightarrow> pb_error + bytes"
  mcdc_Unmarshal :: "bytes \<Rightarrow> pb_error + MedasParams"

definition Medas_ModuleName :: gostring where
  "Medas_ModuleName = lit ''medasdigital''"

definition Medas_ParamsKey :: bytes where
  "Medas_ParamsKey = lit ''p_medasdigital''"

record 's MedasKeeper =
  MedasKeeper_cdc :: medas_codec
  MedasKeeper_storeService :: "'s kv"
  MedasKeeper_authority :: gostring

definition Medas_NewKeeper ::
  "(gostring \<Rightarrow> gostring + bytes) \<Rightarrow> medas_codec \<Rightarrow> 's kv \<Rightarrow> gostring \<Rightarrow> go_error + 's MedasKeeper"
where
  "Medas_NewKeeper bech32 cdc storeService authority =
     (case bech32 authority of
        Inl err \<Rightarrow> Inl (GoPanic (lit ''invalid authority address: '' @ authority))
      | Inr addr \<Rightarrow> Inr \<lparr>MedasKeeper_cdc = cdc, MedasKeeper_storeService = storeService,
          MedasKeeper_authority = authority\<rparr>)"

definition Medas_GetAuthority :: "'s MedasKeeper \<Rightarrow> gostring" where
  "Medas_GetAuthority k = MedasKeeper_authority k"

definition Medas_GetParams :: "'s MedasKeeper \<Rightarrow> 's \<Rightarrow> go_error + MedasParams" where
  "Medas_GetParams k s =
     (case kv_Get (MedasKeeper_storeService k) s Medas_ParamsKey of
        None \<Rightarrow> Inr MedasParams
      | Some bz \<Rightarrow> must (mcdc_Unmarshal (MedasKeeper_cdc k) bz))"

definition Medas_SetParams :: "'s MedasKeeper \<Rightarrow> 's \<Rightarrow> MedasParams \<Rightarrow> go_error + 's" where
  "Medas_SetParams k s params =
     rbind (codec_result (mcdc_Marshal (MedasKeeper_cdc k) params)) (\<lambda>bz.
       Inr (kv_Set (MedasKeeper_storeService k) s Medas_ParamsKey bz))"

section \<open>Messages, queries, genesis\<close>

definition Medas_NewParams :: MedasParams where
  "Medas_NewParams = MedasParams"

definition Medas_DefaultParams :: MedasParams where
  "Medas_DefaultParams = Medas_NewParams"

definition Medas_Params_Validate :: "MedasParams \<Rightarrow> go_error + unit" where
  "Medas_Params_Validate p = Inr ()"

definition Medas_MsgUpdateParams_ValidateBasic ::
  "(gostring \<Rightarrow> gostring + bytes) \<Rightarrow> MedasMsgUpdateParams \<Rightarrow> go_error + unit" where
  "Medas_MsgUpdateParams_ValidateBasic bech32 m =
     (case bech32 (MedasMsgUpdateParams_Authority m) of
        Inl err \<Rightarrow> Inl (WrapText err (lit ''invalid authority address''))
      | Inr addr \<Rightarrow>
          rbind (Medas_Params_Validate (MedasMsgUpdateParams_Params m)) (\<lambda>u. Inr ()))"

definition Medas_UpdateParams ::
  "'s MedasKeeper \<Rightarrow> 's \<Rightarrow> MedasMsgUpdateParams \<Rightarrow> go_error + 's \<times> MedasMsgUpdateParamsResponse"
where
  "Medas_UpdateParams k s req =
     (if Medas_GetAuthority k \<noteq> MedasMsgUpdateParams_Authority req
      then Inl (Wrap ErrInvalidSigner (lit ''invalid authority; expected '' @ Medas_GetAuthority k
        @ lit '', got '' @ MedasMsgUpdateParams_Authority req))
      else rbind (Medas_SetParams k s (MedasMsgUpdateParams_Params req)) (\<lambda>s'.
        Inr (s', MedasMsgUpdateParamsResponse)))"

definition Medas_Query_Params ::
  "'s MedasKeeper \<Rightarrow> 's \<Rightarrow> MedasQueryParamsRequest option \<Rightarrow> go_error + MedasQueryParamsResponse"
where
  "Medas_Query_Params k s req =
     (case req of
        None \<Rightarrow> Inl (Status InvalidArgument (lit ''invalid request''))
      | Some r \<Rightarrow> rbind (Medas_GetParams k s) (\<lambda>p. Inr \<lparr>MedasQueryParamsResponse_Params = p\<rparr>))"

definition Medas_DefaultGenesis :: MedasGenesisState where
  "Medas_DefaultGenesis = \<lparr>MedasGenesisState_Params = Medas_DefaultParams\<rparr>"

definition Medas_GenesisState_Validate :: "MedasGenesisState \<Rightarrow> go_error + unit" where
  "Medas_GenesisState_Validate gs = Medas_Params_Validate (MedasGenesisState_Params gs)"

definition Medas_InitGenesis :: "'s MedasKeeper \<Rightarrow> 's \<Rightarrow> MedasGenesisState \<Rightarrow> go_error + 's" where
  "Medas_InitGenesis k s genState =
     (case Medas_SetParams k s (MedasGenesisState_Params genState) of
        Inl err \<Rightarrow> Inl (Panicked err)
      | Inr s' \<Rightarrow> Inr s')"

definition Medas_ExportGenesis :: "'s MedasKeeper \<Rightarrow> 's \<Rightarrow> go_error + MedasGenesisState" where
  "Medas_ExportGenesis k s =
     (let genesis = Medas_DefaultGenesis in
      rbind (Medas_GetParams k s) (\<lambda>p. Inr (genesis\<lparr>MedasGenesisState_Params := p\<rparr>)))"

section \<open>The parameters\<close>

text \<open>The codec calls the generated methods, as for the token factory.\<close>

locale medas_proto_codec =
  fixes C :: medas_codec
  assumes marshal_params: "mcdc_Marshal C p = MedasParams_Marshal p"
    and unmarshal_params: "mcdc_Unmarshal C bz = MedasParams_Unmarshal bz MedasParams"
begin

lemma params_bytes: "mcdc_Marshal C p = Inr []"
  using medas_params_pb.marshal_wire [of p]
  by (simp add: marshal_params MedasParams_Marshal_def MedasParams_wire_def)

lemma params_empty: "mcdc_Unmarshal C [] = Inr p"
  using medas_params_pb.unmarshal_wire [of p]
  by (cases p)
    (simp add: unmarshal_params MedasParams_Unmarshal_def MedasParams_wire_def go_slice_def)

end

locale medas_keeper = kv_store "MedasKeeper_storeService k" + medas_proto_codec "MedasKeeper_cdc k"
  for k :: "'s MedasKeeper"
begin

lemma set_params:
  "\<exists>s'. Medas_SetParams k s p = Inr s' \<and> Medas_GetParams k s' = Inr p
    \<and> (\<forall>j. j \<noteq> Medas_ParamsKey \<longrightarrow>
        kv_Get (MedasKeeper_storeService k) s' j = kv_Get (MedasKeeper_storeService k) s j)"
proof -
  have v: "kv_valid Medas_ParamsKey []"
    by (simp add: kv_valid_def Medas_ParamsKey_def lit_def)
  show ?thesis
    using get_set [OF v, of s] params_empty [of p]
    by (simp add: Medas_SetParams_def Medas_GetParams_def params_bytes)
qed

end

definition mem_medas_keeper :: "gostring \<Rightarrow> mem_store MedasKeeper" where
  "mem_medas_keeper authority = \<lparr>MedasKeeper_cdc = \<lparr>mcdc_Marshal = MedasParams_Marshal,
       mcdc_Unmarshal = (\<lambda>bz. MedasParams_Unmarshal bz MedasParams)\<rparr>,
     MedasKeeper_storeService = mem_kv, MedasKeeper_authority = authority\<rparr>"

interpretation mem_medas_codec: medas_proto_codec "MedasKeeper_cdc (mem_medas_keeper authority)"
  by unfold_locales (simp_all add: mem_medas_keeper_def)

interpretation mem_medas_keeper: medas_keeper "mem_medas_keeper authority"
  using mem_kv.kv_store_axioms mem_medas_codec.medas_proto_codec_axioms [of authority]
  by (simp add: medas_keeper_def mem_medas_keeper_def)

section \<open>Properties\<close>

text \<open>
  The parameters of \<open>x/medasdigital\<close>.  Only the authority sets them, which writes one key;
  genesis import followed by export gives them back from any store, and the query returns them.
\<close>

theorem medas_params_correct:
  assumes "medas_keeper k"
  shows "(if MedasMsgUpdateParams_Authority m = MedasKeeper_authority k
      then \<exists>s'. Medas_UpdateParams k s m = Inr (s', MedasMsgUpdateParamsResponse)
        \<and> Medas_GetParams k s' = Inr (MedasMsgUpdateParams_Params m)
        \<and> (\<forall>j. j \<noteq> Medas_ParamsKey \<longrightarrow>
            kv_Get (MedasKeeper_storeService k) s' j = kv_Get (MedasKeeper_storeService k) s j)
      else Medas_UpdateParams k s m = Inl (Wrap ErrInvalidSigner
        (lit ''invalid authority; expected '' @ MedasKeeper_authority k
          @ lit '', got '' @ MedasMsgUpdateParams_Authority m)))
    \<and> (\<exists>s'. Medas_InitGenesis k s gs = Inr s' \<and> Medas_ExportGenesis k s' = Inr gs
        \<and> Medas_Query_Params k s' (Some r)
          = Inr \<lparr>MedasQueryParamsResponse_Params = MedasGenesisState_Params gs\<rparr>)"
proof -
  obtain s1 where 1: "Medas_SetParams k s (MedasMsgUpdateParams_Params m) = Inr s1"
    "Medas_GetParams k s1 = Inr (MedasMsgUpdateParams_Params m)"
    "\<forall>j. j \<noteq> Medas_ParamsKey \<longrightarrow>
      kv_Get (MedasKeeper_storeService k) s1 j = kv_Get (MedasKeeper_storeService k) s j"
    using medas_keeper.set_params [OF assms] by blast
  obtain s2 where 2: "Medas_SetParams k s (MedasGenesisState_Params gs) = Inr s2"
    "Medas_GetParams k s2 = Inr (MedasGenesisState_Params gs)"
    using medas_keeper.set_params [OF assms] by blast
  show ?thesis
    using 1 2 by (cases gs) (simp add: Medas_UpdateParams_def Medas_GetAuthority_def
        Medas_InitGenesis_def Medas_ExportGenesis_def Medas_Query_Params_def
        Medas_DefaultGenesis_def Let_def)
qed

theorem medas_params_correct_witness:
  "Medas_UpdateParams (mem_medas_keeper (lit ''gov'')) []
      \<lparr>MedasMsgUpdateParams_Authority = lit ''eve'', MedasMsgUpdateParams_Params = MedasParams\<rparr>
    = Inl (Wrap ErrInvalidSigner (lit ''invalid authority; expected gov, got eve''))"
  using medas_params_correct [OF mem_medas_keeper.medas_keeper_axioms, of
      "\<lparr>MedasMsgUpdateParams_Authority = lit ''eve'', MedasMsgUpdateParams_Params = MedasParams\<rparr>"
      "lit ''gov''" "[]"]
  by (simp add: mem_medas_keeper_def lit_def)

end
