(* ===== verification/Medas_App_Module.thy ===== *)
theory Medas_App_Module
  imports TF_Module Medas_Module
begin

text \<open>
  The application module of \<open>x/medasdigital\<close>: \<open>module/module.go\<close> and, at the end, the genesis
  state its simulation starts from (\<open>module/simulation.go\<close>).
\<close>

section \<open>Operations\<close>

text \<open>The JSON codec at the genesis state.\<close>

record medas_json_codec =
  mjson_Marshal :: "MedasGenesisState \<Rightarrow> gostring + bytes"
  mjson_Unmarshal :: "bytes \<Rightarrow> gostring + MedasGenesisState"

record MedasAppModuleBasic =
  MedasAppModule_cdc :: medas_codec

record 's MedasAppModule = MedasAppModuleBasic +
  MedasAppModule_keeper :: "'s MedasKeeper"

definition Medas_NewAppModuleBasic :: "medas_codec \<Rightarrow> MedasAppModuleBasic" where
  "Medas_NewAppModuleBasic cdc = \<lparr>MedasAppModule_cdc = cdc\<rparr>"

definition Medas_AppModule_Name :: gostring where
  "Medas_AppModule_Name = Medas_ModuleName"

definition Medas_NewAppModule :: "medas_codec \<Rightarrow> 's MedasKeeper \<Rightarrow> 's MedasAppModule" where
  "Medas_NewAppModule cdc keeper =
     MedasAppModuleBasic.extend (Medas_NewAppModuleBasic cdc)
       (MedasAppModule.fields keeper)"

definition Medas_ProvideModule ::
  "addresses \<Rightarrow> medas_codec \<Rightarrow> 's kv \<Rightarrow> gostring \<Rightarrow> go_error + 's MedasKeeper \<times> 's MedasAppModule"
where
  "Medas_ProvideModule A cdc storeService config_Authority =
     (let authority =
        (if config_Authority \<noteq> [] then NewModuleAddressOrBech32Address A config_Authority
         else NewModuleAddress A (lit ''gov''))
      in rbind (Medas_NewKeeper (FromBech32 A) cdc storeService (AddrString A authority)) (\<lambda>k.
         Inr (k, Medas_NewAppModule cdc k)))"

definition Medas_AppModule_DefaultGenesis :: "medas_json_codec \<Rightarrow> go_error + bytes" where
  "Medas_AppModule_DefaultGenesis J =
     (case mjson_Marshal J Medas_DefaultGenesis of
        Inl err \<Rightarrow> Inl (Panicked (Errorf err)) | Inr bz \<Rightarrow> Inr bz)"

definition Medas_AppModule_ValidateGenesis :: "medas_json_codec \<Rightarrow> bytes \<Rightarrow> go_error + unit" where
  "Medas_AppModule_ValidateGenesis J bz =
     (case mjson_Unmarshal J bz of
        Inl err \<Rightarrow> Inl (Errorf (lit ''failed to unmarshal '' @ Medas_ModuleName
          @ lit '' genesis state: '' @ err))
      | Inr genState \<Rightarrow> Medas_GenesisState_Validate genState)"

definition Medas_AppModule_InitGenesis ::
  "'s MedasAppModule \<Rightarrow> medas_json_codec \<Rightarrow> 's \<Rightarrow> bytes \<Rightarrow> go_error + 's" where
  "Medas_AppModule_InitGenesis am J s gs =
     (case mjson_Unmarshal J gs of
        Inl err \<Rightarrow> Inl (Panicked (Errorf err))
      | Inr genState \<Rightarrow> Medas_InitGenesis (MedasAppModule_keeper am) s genState)"

definition Medas_AppModule_ExportGenesis ::
  "'s MedasAppModule \<Rightarrow> medas_json_codec \<Rightarrow> 's \<Rightarrow> go_error + bytes" where
  "Medas_AppModule_ExportGenesis am J s =
     rbind (Medas_ExportGenesis (MedasAppModule_keeper am) s) (\<lambda>genState.
       case mjson_Marshal J genState of
         Inl err \<Rightarrow> Inl (Panicked (Errorf err)) | Inr bz \<Rightarrow> Inr bz)"

definition Medas_AppModule_ConsensusVersion :: "64 word" where
  "Medas_AppModule_ConsensusVersion = 1"

definition Medas_AppModule_BeginBlock :: "'s \<Rightarrow> go_error + 's" where
  "Medas_AppModule_BeginBlock s = Inr s"

definition Medas_AppModule_EndBlock :: "'s \<Rightarrow> go_error + 's" where
  "Medas_AppModule_EndBlock s = Inr s"

text \<open>
  The genesis state of a simulation, a map from module names to JSON.  The addresses of the
  accounts the function collects first are not used.
\<close>

definition Medas_GenerateGenesisState ::
  "medas_json_codec \<Rightarrow> (gostring \<rightharpoonup> bytes) \<Rightarrow> go_error + (gostring \<rightharpoonup> bytes)" where
  "Medas_GenerateGenesisState J GenState =
     (case mjson_Marshal J \<lparr>MedasGenesisState_Params = Medas_DefaultParams\<rparr> of
        Inl err \<Rightarrow> Inl (Panicked (Errorf err))
      | Inr bz \<Rightarrow> Inr (GenState(Medas_ModuleName \<mapsto> bz)))"

text \<open>\<open>FindAccount\<close> of \<open>simulation/helpers.go\<close>, with \<open>simtypes.FindAccount\<close> as an argument.\<close>

definition Medas_FindAccount ::
  "(gostring \<Rightarrow> gostring + bytes) \<Rightarrow> ('acc list \<Rightarrow> bytes \<Rightarrow> 'acc \<times> bool) \<Rightarrow> 'acc list \<Rightarrow> gostring
    \<Rightarrow> go_error + 'acc \<times> bool" where
  "Medas_FindAccount AccAddressFromBech32 simtypes_FindAccount accs address =
     (case AccAddressFromBech32 address of
        Inl err \<Rightarrow> Inl (Panicked (Errorf err))
      | Inr creator \<Rightarrow> Inr (simtypes_FindAccount accs creator))"

section \<open>Properties\<close>

lemma NewAppModule_keeper [simp]: "MedasAppModule_keeper (Medas_NewAppModule cdc k) = k"
  by (simp add: Medas_NewAppModule_def MedasAppModuleBasic.extend_def Medas_NewAppModuleBasic_def
      MedasAppModule.fields_def)

lemma Medas_ProvideModule_ok:
  assumes "\<forall>a. FromBech32 A (AddrString A a) = Inr a"
    and "kv_store storeService" and "medas_proto_codec cdc"
  shows "\<exists>k. Medas_ProvideModule A cdc storeService config = Inr (k, Medas_NewAppModule cdc k)
    \<and> medas_keeper k \<and> MedasKeeper_authority k = AddrString A
        (if config = [] then NewModuleAddress A (lit ''gov'')
         else NewModuleAddressOrBech32Address A config)"
  using assms
  by (auto simp: Medas_ProvideModule_def Medas_NewKeeper_def medas_keeper_def Let_def)


text \<open>An empty object is enough for a genesis state without fields.\<close>

definition empty_json :: medas_json_codec where
  "empty_json = \<lparr>mjson_Marshal = (\<lambda>g. Inr (lit ''{}'')),
     mjson_Unmarshal = (\<lambda>bz. Inr \<lparr>MedasGenesisState_Params = MedasParams\<rparr>)\<rparr>"


end
