(* ===== verification/App_Wiring.thy ===== *)
theory App_Wiring
  imports Sdk_Interfaces
begin

text \<open>
  Decisions of the application in \<open>app/\<close>: the module accounts and which of them may receive funds
  (\<open>app_config.go\<close>, \<open>app.go\<close>), the scoped capability keepers (\<open>app.go\<close>), the store loader and
  the handlers of software upgrades (\<open>upgrades.go\<close>, \<open>upgrades/v2\<close>), and the validation of
  simulation accounts (\<open>genesis_account.go\<close>).
\<close>

section \<open>Module accounts\<close>

text \<open>
  The names of module accounts and permissions are constants of the SDK, of ibc-go and of wasmd;
  here they are constructors, and \<open>account_name\<close>, an argument, gives their values.
\<close>

datatype module_account =
    FeeCollector | Distribution | Mint | BondedPool | NotBondedPool | Gov | Nft | IbcTransfer
  | IbcFee | InterchainAccounts | Tokenfactory | Wasm

datatype permission = Minter | Burner | Staking | StakingModuleName

definition moduleAccPerms :: "(module_account \<times> permission list) list" where
  "moduleAccPerms =
     [(FeeCollector, []),
      (Distribution, []),
      (Mint, [Minter]),
      (BondedPool, [Burner, StakingModuleName]),
      (NotBondedPool, [Burner, StakingModuleName]),
      (Gov, [Burner]),
      (Nft, []),
      (IbcTransfer, [Minter, Burner]),
      (IbcFee, []),
      (InterchainAccounts, []),
      (Tokenfactory, [Minter, Burner, Staking]),
      (Wasm, [Burner])]"

definition blockAccAddrs :: "module_account list" where
  "blockAccAddrs = [FeeCollector, Distribution, Mint, BondedPool, NotBondedPool, Nft]"

text \<open>The copy of the permissions, a map filled in the order of the list.\<close>

definition GetMaccPerms :: "(module_account \<Rightarrow> gostring) \<Rightarrow> gostring \<rightharpoonup> permission list" where
  "GetMaccPerms account_name =
     fold (\<lambda>(acc, perms) dup. dup(account_name acc \<mapsto> perms)) moduleAccPerms Map.empty"

definition BlockedAddresses :: "(module_account \<Rightarrow> gostring) \<Rightarrow> gostring \<rightharpoonup> bool" where
  "BlockedAddresses account_name =
     (if 0 < length blockAccAddrs
      then fold (\<lambda>addr result. result(account_name addr \<mapsto> True)) blockAccAddrs Map.empty
      else (\<lambda>addr. if GetMaccPerms account_name addr \<noteq> None then Some True else None))"

lemma fold_map_upd:
  "fold (\<lambda>a m. m(f a \<mapsto> v)) xs m0 = (\<lambda>x. if x \<in> f ` set xs then Some v else m0 x)"
  by (induction xs arbitrary: m0) (auto simp: fun_eq_iff)

text \<open>
  The blocked accounts.  When the names are different, the accounts that may not receive funds
  are exactly the fee collector, distribution, mint, the two staking pools and nft, all of them
  module accounts.  The other six, not only the governance account, may receive funds, among
  them the token factory, which may mint, burn and stake.
\<close>

theorem BlockedAddresses_exact:
  assumes "inj account_name"
  shows "(\<forall>a. BlockedAddresses account_name (account_name a) = Some True \<longleftrightarrow>
      a \<in> {FeeCollector, Distribution, Mint, BondedPool, NotBondedPool, Nft})
    \<and> (\<forall>n. BlockedAddresses account_name n \<noteq> None \<longrightarrow> GetMaccPerms account_name n \<noteq> None)
    \<and> (\<forall>a. \<exists>perms. GetMaccPerms account_name (account_name a) = Some perms
        \<and> (a, perms) \<in> set moduleAccPerms)"
proof -
  have ne: "account_name a = account_name b \<longleftrightarrow> a = b" for a b
    using assms by (rule inj_eq)
  have b: "BlockedAddresses account_name n
      = (if n \<in> account_name ` set blockAccAddrs then Some True else None)" for n
    by (simp add: BlockedAddresses_def fold_map_upd) (simp add: blockAccAddrs_def)
  have m: "\<exists>perms. GetMaccPerms account_name (account_name a) = Some perms
      \<and> (a, perms) \<in> set moduleAccPerms" for a
    by (cases a) (simp_all add: GetMaccPerms_def moduleAccPerms_def ne)
  have "account_name a \<in> account_name ` set blockAccAddrs \<longleftrightarrow> a \<in> set blockAccAddrs" for a
    using assms by (rule inj_image_mem_iff)
  moreover have "GetMaccPerms account_name n \<noteq> None" if "BlockedAddresses account_name n \<noteq> None" for n
  proof -
    from that obtain a where "n = account_name a"
      by (auto simp: b split: if_splits)
    then show ?thesis using m [of a] by auto
  qed
  ultimately show ?thesis
    using m by (auto simp: b blockAccAddrs_def)
qed

fun sample_name :: "module_account \<Rightarrow> gostring" where
  "sample_name FeeCollector = [1]"
| "sample_name Distribution = [2]"
| "sample_name Mint = [3]"
| "sample_name BondedPool = [4]"
| "sample_name NotBondedPool = [5]"
| "sample_name Gov = [6]"
| "sample_name Nft = [7]"
| "sample_name IbcTransfer = [8]"
| "sample_name IbcFee = [9]"
| "sample_name InterchainAccounts = [10]"
| "sample_name Tokenfactory = [11]"
| "sample_name Wasm = [12]"

theorem BlockedAddresses_exact_witness:
  "BlockedAddresses sample_name (sample_name Mint) = Some True
    \<and> BlockedAddresses sample_name (sample_name Tokenfactory) \<noteq> Some True"
proof -
  have "inj sample_name"
  proof (rule injI)
    fix a b
    show "sample_name a = sample_name b \<Longrightarrow> a = b"
      by (cases a; cases b) simp_all
  qed
  from BlockedAddresses_exact [OF this] show ?thesis by (simp del: sample_name.simps)
qed

section \<open>Scoped capability keepers\<close>

text \<open>
  \<open>GetCapabilityScopedKeeper\<close>, on the state of the capability keeper and the map of the keepers
  handed out.  \<open>ScopeToModule\<close> of ibc-go is a parameter; it panics for a module scoped before.
\<close>

definition GetCapabilityScopedKeeper ::
  "('c \<Rightarrow> gostring \<Rightarrow> go_error + 'k \<times> 'c) \<Rightarrow> 'c \<times> (gostring \<rightharpoonup> 'k) \<Rightarrow> gostring
    \<Rightarrow> go_error + 'k \<times> 'c \<times> (gostring \<rightharpoonup> 'k)" where
  "GetCapabilityScopedKeeper ScopeToModule app moduleName =
     (case app of (c, ScopedKeepers) \<Rightarrow>
       (case ScopedKeepers moduleName of
          Some sk \<Rightarrow> Inr (sk, c, ScopedKeepers)
        | None \<Rightarrow> rbind (ScopeToModule c moduleName) (\<lambda>(sk, c').
            Inr (sk, c', ScopedKeepers(moduleName \<mapsto> sk)))))"

text \<open>The calls of a list of modules, one after the other.\<close>

fun scope_all ::
  "('c \<Rightarrow> gostring \<Rightarrow> go_error + 'k \<times> 'c) \<Rightarrow> 'c \<times> (gostring \<rightharpoonup> 'k) \<Rightarrow> gostring list
    \<Rightarrow> go_error + 'k list \<times> 'c \<times> (gostring \<rightharpoonup> 'k)" where
  "scope_all ScopeToModule app [] = Inr ([], app)"
| "scope_all ScopeToModule app (n # ns) =
     rbind (GetCapabilityScopedKeeper ScopeToModule app n) (\<lambda>(sk, app').
     rbind (scope_all ScopeToModule app' ns) (\<lambda>(sks, app''). Inr (sk # sks, app'')))"

lemma scope_all_once:
  assumes "\<And>c n. n \<notin> used c \<Longrightarrow> \<exists>sk c'. scope c n = Inr (sk, c') \<and> used c' = insert n (used c)"
    and "used c \<inter> set ns \<subseteq> dom sks"
  shows "\<exists>ks c' sks'. scope_all scope (c, sks) ns = Inr (ks, c', sks')
    \<and> dom sks' = dom sks \<union> set ns
    \<and> (\<forall>n k. sks n = Some k \<longrightarrow> sks' n = Some k) \<and> map Some ks = map sks' ns"
  using assms(2)
proof (induction ns arbitrary: c sks)
  case (Cons n ns)
  obtain k c1 sks1 where 1: "GetCapabilityScopedKeeper scope (c, sks) n = Inr (k, c1, sks1)"
    "used c1 \<inter> set ns \<subseteq> dom sks1" "dom sks1 = insert n (dom sks)" "sks1 n = Some k"
    "\<forall>m x. sks m = Some x \<longrightarrow> sks1 m = Some x"
  proof (cases "sks n")
    case None
    then have "n \<notin> used c" using Cons.prems by auto
    from assms(1) [OF this] obtain sk c' where "scope c n = Inr (sk, c')" "used c' = insert n (used c)"
      by blast
    with None Cons.prems show thesis
      by (intro that [of sk c' "sks(n \<mapsto> sk)"]) (auto simp: GetCapabilityScopedKeeper_def)
  next
    case (Some k)
    with Cons.prems show thesis
      by (intro that [of k c sks]) (auto simp: GetCapabilityScopedKeeper_def)
  qed
  from Cons.IH [OF 1(2)] obtain ks c' sks' where
    2: "scope_all scope (c1, sks1) ns = Inr (ks, c', sks')" "dom sks' = dom sks1 \<union> set ns" "\<forall>m x. sks1 m = Some x \<longrightarrow> sks' m = Some x"
      "map Some ks = map sks' ns"
    by blast
  have "scope_all scope (c, sks) (n # ns) = Inr (k # ks, c', sks')"
    using 1(1) 2(1) by simp
  moreover have "map Some (k # ks) = map sks' (n # ns)"
    using 1(4) 2(3,4) by simp
  moreover have "dom sks' = dom sks \<union> set (n # ns)"
    using 1(3) 2(2) by simp
  moreover have "\<forall>m x. sks m = Some x \<longrightarrow> sks' m = Some x"
    using 1(5) 2(3) by blast
  ultimately show ?case
    by blast
qed simp

text \<open>
  The wiring of the modules that go through \<open>GetCapabilityScopedKeeper\<close> asks the capability
  keeper for each of them at most once, however often and in whatever order they are wired, so
  \<open>ScopeToModule\<close> does not panic; every call for a module gets the same keeper.  The modules that
  \<open>ibc.go\<close> and \<open>wasm.go\<close> scope by a direct call (ibc, transfer, the interchain accounts and wasm) may
  be scoped already, as long as none of them is asked for here.
\<close>

theorem scoped_keepers_once:
  assumes "\<forall>c n. n \<notin> used c \<longrightarrow> (\<exists>sk c'. ScopeToModule c n = Inr (sk, c') \<and> used c' = insert n (used c))"
    and "used c \<inter> set ns = {}"
  shows "\<exists>ks c' sks. scope_all ScopeToModule (c, Map.empty) ns = Inr (ks, c', sks)
    \<and> dom sks = set ns \<and> map Some ks = map sks ns"
  using scope_all_once [of used ScopeToModule c ns Map.empty] assms by auto

text \<open>A capability keeper for the witness: the modules scoped so far.\<close>

definition sample_scope :: "gostring list \<Rightarrow> gostring \<Rightarrow> go_error + nat \<times> gostring list" where
  "sample_scope c n =
     (if n \<in> set c then Inl (GoPanic (lit ''cannot create multiple scoped keepers'')) else Inr (length c, n # c))"

theorem scoped_keepers_once_witness:
  "scope_all sample_scope ([[3]], Map.empty) [[1], [2], [1]]
      = Inr ([1, 2, 1], [[2], [1], [3]], [[1] \<mapsto> 1, [2] \<mapsto> 2])
    \<and> (\<exists>ks c' sks. scope_all sample_scope ([[3]], Map.empty) [[1], [2], [1]] = Inr (ks, c', sks)
        \<and> dom sks = {[1], [2]})"
proof -
  have "\<forall>c n. n \<notin> set c \<longrightarrow>
      (\<exists>sk c'. sample_scope c n = Inr (sk, c') \<and> set c' = insert n (set c))"
    by (simp add: sample_scope_def)
  moreover have "set [[3]] \<inter> set [[1], [2], [1 :: byte]] = {}" by simp
  ultimately have "\<exists>ks c' sks. scope_all sample_scope ([[3]], Map.empty) [[1], [2], [1]] = Inr (ks, c', sks)
      \<and> dom sks = set [[1], [2], [1]] \<and> map Some ks = map sks [[1], [2], [1]]"
    by (rule scoped_keepers_once)
  moreover have "scope_all sample_scope ([[3]], Map.empty) [[1], [2], [1]]
      = Inr ([1, 2, 1], [[2], [1], [3]], [[1] \<mapsto> 1, [2] \<mapsto> 2])"
    by (simp add: GetCapabilityScopedKeeper_def sample_scope_def numeral_2_eq_2)
  ultimately show ?thesis by (simp add: insert_commute)
qed

section \<open>Software upgrades\<close>

text \<open>\<open>StoreUpgrades\<close> lists the stores an upgrade adds, renames and deletes.\<close>

record StoreUpgrades =
  Added :: "gostring list"
  Renamed :: "(gostring \<times> gostring) list"
  Deleted :: "gostring list"

record Upgrade =
  UpgradeName :: gostring
  Upgrade_StoreUpgrades :: StoreUpgrades

definition v2_Upgrade :: Upgrade where
  "v2_Upgrade = \<lparr>UpgradeName = lit ''v2'',
     Upgrade_StoreUpgrades = \<lparr>Added = [], Renamed = [], Deleted = []\<rparr>\<rparr>"

definition Upgrades :: "Upgrade list" where
  "Upgrades = [v2_Upgrade]"

text \<open>\<open>upgradetypes.Plan\<close>, as far as it is read.\<close>

record upgrade_info =
  info_Name :: gostring
  info_Height :: "64 word"

fun find_upgrade :: "Upgrade list \<Rightarrow> upgrade_info \<Rightarrow> (64 word \<times> StoreUpgrades) option" where
  "find_upgrade [] info = None"
| "find_upgrade (u # us) info =
     (if UpgradeName u = info_Name info then Some (info_Height info, Upgrade_StoreUpgrades u)
      else find_upgrade us info)"

text \<open>
  The store loader that is set, if any: its height and store upgrades.  Reading the file and the
  skip heights of the upgrade keeper are parameters.
\<close>

definition setUpgradeStoreLoader ::
  "gostring + upgrade_info \<Rightarrow> (64 word \<Rightarrow> bool) \<Rightarrow> go_error + (64 word \<times> StoreUpgrades) option" where
  "setUpgradeStoreLoader ReadUpgradeInfoFromDisk IsSkipHeight =
     (case ReadUpgradeInfoFromDisk of
        Inl err \<Rightarrow> Inl (Errorf (lit ''failed to read upgrade info from disk: '' @ err))
      | Inr upgradeInfo \<Rightarrow>
          if info_Name upgradeInfo = [] \<or> IsSkipHeight (info_Height upgradeInfo) then Inr None
          else Inr (find_upgrade Upgrades upgradeInfo))"

text \<open>
  The handler of \<open>v2\<close>: the module migrations, whose error it passes on.  \<open>RunMigrations\<close> of the
  module manager is a parameter, on a state of type \<open>'s\<close> and a version map.
\<close>

definition v2_handler ::
  "('s \<Rightarrow> 'vm \<Rightarrow> go_error + 's \<times> 'vm) \<Rightarrow> 's \<Rightarrow> 'vm \<Rightarrow> go_error + 's \<times> 'vm" where
  "v2_handler RunMigrations s fromVM = rbind (RunMigrations s fromVM) (\<lambda>(s', toVM). Inr (s', toVM))"

text \<open>
  On start-up a store loader is set exactly for a pending upgrade this binary knows and that
  is not skipped, at the height of the plan; for \<open>v2\<close> it changes no store.  A plan of another name
  starts without one, and an unreadable plan stops the start.
\<close>

theorem setUpgradeStoreLoader_correct:
  "setUpgradeStoreLoader (Inl err) skip
      = Inl (Errorf (lit ''failed to read upgrade info from disk: '' @ err))
   \<and> setUpgradeStoreLoader (Inr info) skip = Inr
      (if info_Name info = lit ''v2'' \<and> \<not> skip (info_Height info)
       then Some (info_Height info, \<lparr>Added = [], Renamed = [], Deleted = []\<rparr>) else None)"
  by (auto simp: setUpgradeStoreLoader_def Upgrades_def v2_Upgrade_def lit_def)

section \<open>Simulation accounts\<close>

text \<open>
  \<open>GenesisAccount\<close>: the zero test of coins and the validation of base and module accounts are the
  SDK's.
\<close>

record ('base, 'coins) GenesisAccount =
  GenesisAccount_BaseAccount :: 'base
  GenesisAccount_OriginalVesting :: 'coins
  GenesisAccount_StartTime :: "64 word"
  GenesisAccount_EndTime :: "64 word"
  GenesisAccount_ModuleName :: gostring
  GenesisAccount_ModulePermissions :: "gostring list"

definition GenesisAccount_Validate ::
  "('coins \<Rightarrow> bool) \<Rightarrow> ('base \<Rightarrow> gostring \<Rightarrow> gostring list \<Rightarrow> go_error + unit)
    \<Rightarrow> ('base \<Rightarrow> go_error + unit) \<Rightarrow> ('base, 'coins) GenesisAccount \<Rightarrow> go_error + unit" where
  "GenesisAccount_Validate IsZero ModuleAccount_Validate BaseAccount_Validate sga =
     (if \<not> IsZero (GenesisAccount_OriginalVesting sga)
         \<and> sint (GenesisAccount_EndTime sga) \<le> sint (GenesisAccount_StartTime sga)
      then Inl (Errorf (lit ''vesting start-time cannot be before end-time''))
      else if GenesisAccount_ModuleName sga \<noteq> []
      then rbind (ModuleAccount_Validate (GenesisAccount_BaseAccount sga)
          (GenesisAccount_ModuleName sga) (GenesisAccount_ModulePermissions sga)) (\<lambda>u.
        BaseAccount_Validate (GenesisAccount_BaseAccount sga))
      else BaseAccount_Validate (GenesisAccount_BaseAccount sga))"

text \<open>
  A simulation account is accepted exactly when its vesting period, if it has vesting coins, is
  not empty or inverted, and the SDK accepts its base account and, if it is one, its module
  account.
\<close>

lemma GenesisAccount_Validate_iff:
  "GenesisAccount_Validate IsZero vm vb sga = Inr () \<longleftrightarrow>
    (IsZero (GenesisAccount_OriginalVesting sga)
      \<or> sint (GenesisAccount_StartTime sga) < sint (GenesisAccount_EndTime sga))
    \<and> (GenesisAccount_ModuleName sga = []
      \<or> vm (GenesisAccount_BaseAccount sga) (GenesisAccount_ModuleName sga)
          (GenesisAccount_ModulePermissions sga) = Inr ())
    \<and> vb (GenesisAccount_BaseAccount sga) = Inr ()"
  by (auto simp: GenesisAccount_Validate_def rbind_eq_Inr)

end
