(* ===== verification/App_Config.thy ===== *)
theory App_Config
  imports App_Wiring "HOL-Library.Multiset"
begin

text \<open>
  The configuration of the application, \<open>app/app_config.go\<close>: the orders in which the modules run
  at genesis and in a block, and the modules that are wired by dependency injection; and the
  modules that are wired by hand, \<open>RegisterIBC\<close> and the calls of \<open>RegisterModules\<close> in
  \<open>app/ibc.go\<close> and \<open>app/wasm.go\<close>.
\<close>

section \<open>Names\<close>

text \<open>
  The \<open>ModuleName\<close> constants, each by the package that defines it.  Two of them are of this
  repository; the others are constants of the SDK, ibc-go and wasmd.
\<close>

datatype mod_name =
    M_capability | M_auth | M_bank | M_distr | M_staking | M_slashing | M_gov | M_mint | M_crisis
  | M_ibc | M_genutil | M_evidence | M_authz | M_transfer | M_ica | M_ibcfee | M_feegrant | M_params
  | M_upgrade | M_vesting | M_nft | M_group | M_consensus | M_circuit | M_medasdigital
  | M_tokenfactory | M_wasm | M_runtime | M_tx | M_ibctm | M_solomachine

section \<open>Orders\<close>

definition genesisModuleOrder :: "mod_name list" where
  "genesisModuleOrder =
     [M_capability, M_auth, M_bank, M_distr, M_staking, M_slashing, M_gov, M_mint, M_crisis, M_ibc,
      M_genutil, M_evidence, M_authz, M_transfer, M_ica, M_ibcfee, M_feegrant, M_params, M_upgrade,
      M_vesting, M_nft, M_group, M_consensus, M_circuit,
      M_medasdigital, M_tokenfactory, M_wasm]"

definition beginBlockers :: "mod_name list" where
  "beginBlockers =
     [M_mint, M_distr, M_slashing, M_evidence, M_staking, M_authz, M_genutil,
      M_capability, M_ibc, M_transfer, M_ica, M_ibcfee,
      M_medasdigital, M_tokenfactory, M_wasm]"

definition endBlockers :: "mod_name list" where
  "endBlockers =
     [M_crisis, M_gov, M_staking, M_feegrant, M_group, M_genutil,
      M_ibc, M_transfer, M_capability, M_ica, M_ibcfee,
      M_medasdigital, M_tokenfactory, M_wasm]"

definition preBlockers :: "mod_name list" where
  "preBlockers = [M_upgrade]"

section \<open>The configuration\<close>

definition AccountAddressPrefix :: gostring where
  "AccountAddressPrefix = lit ''medas''"

definition app_Name :: gostring where
  "app_Name = lit ''medasdigital''"

text \<open>The configuration messages; \<open>PlainConfig\<close> is a message without a field set.\<close>

datatype module_config =
    RuntimeConfig (cfg_AppName: gostring) (cfg_PreBlockers: "mod_name list")
      (cfg_BeginBlockers: "mod_name list") (cfg_EndBlockers: "mod_name list")
      (cfg_InitGenesis: "mod_name list") (cfg_OverrideStoreKeys: "(mod_name \<times> gostring) list")
  | AuthConfig (cfg_Bech32Prefix: gostring)
      (cfg_ModuleAccountPermissions: "(module_account \<times> permission list) list")
  | BankConfig (cfg_BlockedModuleAccountsOverride: "module_account list")
  | StakingConfig (cfg_Bech32PrefixValidator: gostring) (cfg_Bech32PrefixConsensus: gostring)
  | GroupConfig (cfg_MaxExecutionPeriod_seconds: int) (cfg_MaxMetadataLen: "64 word")
  | PlainConfig

definition appConfig :: "(mod_name \<times> module_config) list" where
  "appConfig =
     [(M_runtime, RuntimeConfig app_Name preBlockers beginBlockers endBlockers genesisModuleOrder
         [(M_auth, lit ''acc'')]),
      (M_auth, AuthConfig AccountAddressPrefix moduleAccPerms),
      (M_nft, PlainConfig),
      (M_vesting, PlainConfig),
      (M_bank, BankConfig blockAccAddrs),
      (M_staking, StakingConfig (AccountAddressPrefix @ lit ''valoper'')
         (AccountAddressPrefix @ lit ''valcons'')),
      (M_slashing, PlainConfig),
      (M_params, PlainConfig),
      (M_tx, PlainConfig),
      (M_genutil, PlainConfig),
      (M_authz, PlainConfig),
      (M_upgrade, PlainConfig),
      (M_distr, PlainConfig),
      (M_evidence, PlainConfig),
      (M_mint, PlainConfig),
      (M_group, GroupConfig 1209600 255),
      (M_feegrant, PlainConfig),
      (M_gov, PlainConfig),
      (M_crisis, PlainConfig),
      (M_consensus, PlainConfig),
      (M_circuit, PlainConfig),
      (M_medasdigital, PlainConfig),
      (M_tokenfactory, PlainConfig)]"

section \<open>Modules wired by hand\<close>

text \<open>The arguments of \<open>RegisterModules\<close> in \<open>registerWasmModules\<close> and \<open>registerIBCModules\<close>.\<close>

definition wasmModules :: "mod_name list" where
  "wasmModules = [M_wasm]"

definition ibcModules :: "mod_name list" where
  "ibcModules = [M_ibc, M_transfer, M_ibcfee, M_ica, M_capability, M_ibctm, M_solomachine]"

text \<open>
  The modules \<open>RegisterIBC\<close> registers for the command line; the map is given by its keys, in the
  order of the source.  The adaptor's \<open>RegisterInterfaces\<close>, on the registry, is a parameter; Go
  visits the map in any order.
\<close>

definition RegisterIBC_modules :: "mod_name list" where
  "RegisterIBC_modules =
     [M_ibc, M_transfer, M_ibcfee, M_ica, M_capability, M_ibctm, M_solomachine, M_wasm]"

definition RegisterIBC ::
  "(mod_name \<Rightarrow> 'r \<Rightarrow> 'r) \<Rightarrow> mod_name list \<Rightarrow> 'r \<Rightarrow> 'r" where
  "RegisterIBC RegisterInterfaces visited registry = fold RegisterInterfaces visited registry"

section \<open>Properties\<close>

text \<open>
  The orders.  At genesis capability is first, and genutil is after staking and auth; in the
  begin block slashing is after distribution, and capability before every module of ibc, the fee
  and account middleware and wasm; staking is among the begin and end blockers.  No list names a
  module twice, and the genesis order has exactly the modules with state: those of the
  configuration, without the runtime and the transaction settings, and those wired by hand,
  without the two light clients.  A block runs only such modules, and the command line registers
  exactly the modules wired by hand.
\<close>

theorem module_orders_correct:
  "hd genesisModuleOrder = M_capability
   \<and> precedes M_staking M_genutil genesisModuleOrder \<and> precedes M_auth M_genutil genesisModuleOrder
   \<and> precedes M_distr M_slashing beginBlockers
   \<and> (\<forall>m \<in> {M_ibc, M_transfer, M_ica, M_ibcfee, M_wasm}. precedes M_capability m beginBlockers)
   \<and> M_staking \<in> set beginBlockers \<inter> set endBlockers
   \<and> distinct genesisModuleOrder \<and> distinct beginBlockers \<and> distinct endBlockers
   \<and> distinct preBlockers \<and> distinct (map fst appConfig)
   \<and> set genesisModuleOrder = (fst ` set appConfig - {M_runtime, M_tx})
       \<union> (set ibcModules - {M_ibctm, M_solomachine}) \<union> set wasmModules
   \<and> set beginBlockers \<union> set endBlockers \<union> set preBlockers \<subseteq> set genesisModuleOrder
   \<and> set RegisterIBC_modules = set ibcModules \<union> set wasmModules
   \<and> fst ` set appConfig \<inter> set RegisterIBC_modules = {}"
proof (intro conjI)
  show "set genesisModuleOrder = (fst ` set appConfig - {M_runtime, M_tx})
       \<union> (set ibcModules - {M_ibctm, M_solomachine}) \<union> set wasmModules"
    by (auto simp: genesisModuleOrder_def appConfig_def ibcModules_def wasmModules_def)
  show "set RegisterIBC_modules = set ibcModules \<union> set wasmModules"
    by (auto simp: ibcModules_def wasmModules_def RegisterIBC_modules_def)
qed (simp_all add: genesisModuleOrder_def beginBlockers_def endBlockers_def preBlockers_def
    appConfig_def ibcModules_def wasmModules_def RegisterIBC_modules_def)

theorem module_orders_correct_witness:
  "precedes M_capability M_wasm beginBlockers \<and> precedes M_capability M_transfer beginBlockers"
  using module_orders_correct by simp

text \<open>
  The configuration agrees with the rest of the application: the runtime module runs the orders,
  the bank blocks the accounts of \<open>BlockedAddresses\<close>, the auth module gives the permissions of
  \<open>GetMaccPerms\<close>, and addresses of accounts, validators and consensus nodes have different
  prefixes.
\<close>

lemma appConfig_consistent:
  "map_of appConfig M_runtime
     = Some (RuntimeConfig app_Name preBlockers beginBlockers endBlockers genesisModuleOrder
         [(M_auth, lit ''acc'')])"
  "map_of appConfig M_auth = Some (AuthConfig AccountAddressPrefix moduleAccPerms)"
  "map_of appConfig M_bank = Some (BankConfig blockAccAddrs)"
  "distinct [AccountAddressPrefix, AccountAddressPrefix @ lit ''valoper'',
     AccountAddressPrefix @ lit ''valcons'']"
  by (simp_all add: appConfig_def lit_def)

text \<open>
  When registrations of different modules commute, the order in which Go visits the map of
  \<open>RegisterIBC\<close> does not matter.
\<close>

lemma RegisterIBC_order:
  assumes "\<And>m n. reg m \<circ> reg n = reg n \<circ> reg m"
    and "distinct visited" "set visited = set RegisterIBC_modules"
  shows "RegisterIBC reg visited r = RegisterIBC reg RegisterIBC_modules r"
proof -
  have "distinct RegisterIBC_modules" by (simp add: RegisterIBC_modules_def)
  with assms(2,3) have "mset visited = mset RegisterIBC_modules"
    by (simp add: set_eq_iff_mset_eq_distinct)
  then have "fold reg visited = fold reg RegisterIBC_modules"
    by (intro fold_permuted_eq fold_multiset_equiv) (auto simp: assms(1))
  then show ?thesis by (simp add: RegisterIBC_def)
qed

end
