(* ===== verification/App_Ante.thy ===== *)
theory App_Ante
  imports Sdk_Interfaces
begin

text \<open>
  The checks every transaction passes before its messages run: \<open>NewAnteHandler\<close> in
  \<open>app/ante.go\<close> and its caller \<open>setAnteHandler\<close> in \<open>app/wasm.go\<close>.  The decorators are the SDK's,
  wasmd's and ibc-go's; a decorator is its constructor with its arguments, and
  \<open>ChainAnteDecorators\<close> is a parameter.  The keepers have one opaque type \<open>'o\<close>, and a pointer or
  an interface that may be nil is an option.
\<close>

section \<open>The options\<close>

record 'o HandlerOptions =
  opt_AccountKeeper :: "'o option"
  opt_BankKeeper :: "'o option"
  opt_ExtensionOptionChecker :: "'o option"
  opt_FeegrantKeeper :: "'o option"
  opt_SignModeHandler :: "'o option"
  opt_SigGasConsumer :: "'o option"
  opt_TxFeeChecker :: "'o option"
  opt_IBCKeeper :: "'o option"
  opt_NodeConfig :: "'o option"
  opt_WasmKeeper :: "'o option"
  opt_TXCounterStoreService :: "'o option"
  opt_CircuitKeeper :: "'o option"

datatype 'o decorator =
    SetUpContextDecorator
  | LimitSimulationGasDecorator 'o
  | CountTXDecorator 'o
  | TxContractsDecorator
  | GasRegisterDecorator 'o
  | CircuitBreakerDecorator 'o
  | ExtensionOptionsDecorator "'o option"
  | ValidateBasicDecorator
  | TxTimeoutHeightDecorator
  | ValidateMemoDecorator 'o
  | ConsumeGasForTxSizeDecorator 'o
  | DeductFeeDecorator 'o 'o "'o option" "'o option"
  | SetPubKeyDecorator 'o
  | ValidateSigCountDecorator 'o
  | SigGasConsumeDecorator 'o "'o option"
  | SigVerificationDecorator 'o 'o
  | IncrementSequenceDecorator 'o
  | RedundantRelayDecorator "'o option"

section \<open>The handler\<close>

text \<open>
  Six options are checked; the keeper of wasm, whose \<open>GetGasRegister\<close> is called (and
  may panic on nil), and that of ibc are not.  \<open>SimulationGasLimit\<close> reads a field of the node
  configuration.
\<close>

definition NewAnteHandler ::
  "('o decorator list \<Rightarrow> 'h) \<Rightarrow> ('o \<Rightarrow> 'o) \<Rightarrow> ('o option \<Rightarrow> gostring + 'o) \<Rightarrow> 'o HandlerOptions
    \<Rightarrow> go_error + 'h" where
  "NewAnteHandler ChainAnteDecorators SimulationGasLimit GetGasRegister options =
     (case opt_AccountKeeper options of
        None \<Rightarrow> Inl (Errorf (lit ''account keeper is required for ante builder''))
      | Some ak \<Rightarrow>
     (case opt_BankKeeper options of
        None \<Rightarrow> Inl (Errorf (lit ''bank keeper is required for ante builder''))
      | Some bk \<Rightarrow>
     (case opt_SignModeHandler options of
        None \<Rightarrow> Inl (Errorf (lit ''sign mode handler is required for ante builder''))
      | Some sh \<Rightarrow>
     (case opt_NodeConfig options of
        None \<Rightarrow> Inl (Errorf (lit ''wasm config is required for ante builder''))
      | Some nc \<Rightarrow>
     (case opt_TXCounterStoreService options of
        None \<Rightarrow> Inl (Errorf (lit ''wasm store service is required for ante builder''))
      | Some ss \<Rightarrow>
     (case opt_CircuitKeeper options of
        None \<Rightarrow> Inl (Errorf (lit ''circuit keeper is required for ante builder''))
      | Some ck \<Rightarrow>
     (case GetGasRegister (opt_WasmKeeper options) of
        Inl text \<Rightarrow> Inl (GoPanic text)
      | Inr gr \<Rightarrow>
     let anteDecorators =
       [SetUpContextDecorator,
        LimitSimulationGasDecorator (SimulationGasLimit nc),
        CountTXDecorator ss,
        TxContractsDecorator,
        GasRegisterDecorator gr,
        CircuitBreakerDecorator ck,
        ExtensionOptionsDecorator (opt_ExtensionOptionChecker options),
        ValidateBasicDecorator,
        TxTimeoutHeightDecorator,
        ValidateMemoDecorator ak,
        ConsumeGasForTxSizeDecorator ak,
        DeductFeeDecorator ak bk (opt_FeegrantKeeper options) (opt_TxFeeChecker options),
        SetPubKeyDecorator ak,
        ValidateSigCountDecorator ak,
        SigGasConsumeDecorator ak (opt_SigGasConsumer options),
        SigVerificationDecorator ak sh,
        IncrementSequenceDecorator ak,
        RedundantRelayDecorator (opt_IBCKeeper options)]
     in Inr (ChainAnteDecorators anteDecorators))))))))"

text \<open>
  The keepers of the application the caller passes on.  The keepers of accounts, fee grants, wasm
  and circuit are structs of the application, never nil; those of the bank and of ibc may be.
\<close>

record 'o ante_app =
  app_AccountKeeper :: 'o
  app_BankKeeper :: "'o option"
  app_FeeGrantKeeper :: 'o
  app_IBCKeeper :: "'o option"
  app_WasmKeeper :: 'o
  app_CircuitBreakerKeeper :: 'o

text \<open>
  \<open>setAnteHandler\<close>, which returns the handler it sets.  The arguments are the sign mode handler of
  the transaction configuration, the default consumer of signature gas, the node configuration
  and the store service of the transaction counter.  A panic passes through.
\<close>

definition setAnteHandler ::
  "('o decorator list \<Rightarrow> 'h) \<Rightarrow> ('o \<Rightarrow> 'o) \<Rightarrow> ('o option \<Rightarrow> gostring + 'o)
    \<Rightarrow> 'o ante_app \<Rightarrow> 'o option \<Rightarrow> 'o \<Rightarrow> 'o \<Rightarrow> 'o \<Rightarrow> go_error + 'h" where
  "setAnteHandler ChainAnteDecorators SimulationGasLimit GetGasRegister app
     SignModeHandler DefaultSigGasConsumer nodeConfig txCounterStoreService =
     (case NewAnteHandler ChainAnteDecorators SimulationGasLimit GetGasRegister
        \<lparr>opt_AccountKeeper = Some (app_AccountKeeper app),
         opt_BankKeeper = app_BankKeeper app,
         opt_ExtensionOptionChecker = None,
         opt_FeegrantKeeper = Some (app_FeeGrantKeeper app),
         opt_SignModeHandler = SignModeHandler,
         opt_SigGasConsumer = Some DefaultSigGasConsumer,
         opt_TxFeeChecker = None,
         opt_IBCKeeper = app_IBCKeeper app,
         opt_NodeConfig = Some nodeConfig,
         opt_WasmKeeper = Some (app_WasmKeeper app),
         opt_TXCounterStoreService = Some txCounterStoreService,
         opt_CircuitKeeper = Some (app_CircuitBreakerKeeper app)\<rparr> of
        Inl (Errorf err) \<Rightarrow> Inl (Errorf (lit ''failed to create AnteHandler: '' @ err))
      | Inl e \<Rightarrow> Inl e
      | Inr anteHandler \<Rightarrow> Inr anteHandler)"

section \<open>Properties\<close>

text \<open>The options without which no handler is built, with the text of their error.\<close>

definition required_options :: "'o HandlerOptions \<Rightarrow> ('o option \<times> gostring) list" where
  "required_options opts =
     [(opt_AccountKeeper opts, lit ''account keeper''),
      (opt_BankKeeper opts, lit ''bank keeper''),
      (opt_SignModeHandler opts, lit ''sign mode handler''),
      (opt_NodeConfig opts, lit ''wasm config''),
      (opt_TXCounterStoreService opts, lit ''wasm store service''),
      (opt_CircuitKeeper opts, lit ''circuit keeper'')]"

lemma lit_append: "lit (s @ t) = lit s @ lit t"
  by (simp add: lit_def)

lemma lit_required:
  "lit ''account keeper is required for ante builder'' = lit ''account keeper'' @ lit '' is required for ante builder''"
  "lit ''bank keeper is required for ante builder'' = lit ''bank keeper'' @ lit '' is required for ante builder''"
  "lit ''sign mode handler is required for ante builder'' = lit ''sign mode handler'' @ lit '' is required for ante builder''"
  "lit ''wasm config is required for ante builder'' = lit ''wasm config'' @ lit '' is required for ante builder''"
  "lit ''wasm store service is required for ante builder'' = lit ''wasm store service'' @ lit '' is required for ante builder''"
  "lit ''circuit keeper is required for ante builder'' = lit ''circuit keeper'' @ lit '' is required for ante builder''"
  by (simp_all add: lit_def)

lemma NewAnteHandler_missing:
  assumes "find (\<lambda>(opt, name). opt = None) (required_options opts) = Some (opt, name)"
  shows "NewAnteHandler chain limit gas opts
    = Inl (Errorf (name @ lit '' is required for ante builder''))"
  using assms
  by (simp add: NewAnteHandler_def required_options_def lit_required
      split: option.splits if_splits)

lemma NewAnteHandler_built:
  assumes "find (\<lambda>(opt, name). opt = None) (required_options opts) = None"
    and "gas (opt_WasmKeeper opts) = Inr gr"
  shows "\<exists>ds. NewAnteHandler chain limit gas opts = Inr (chain ds)
    \<and> distinct ds \<and> hd ds = SetUpContextDecorator
    \<and> (\<exists>ak bk sh. opt_AccountKeeper opts = Some ak \<and> opt_BankKeeper opts = Some bk
        \<and> opt_SignModeHandler opts = Some sh
        \<and> precedes ValidateBasicDecorator (DeductFeeDecorator ak bk (opt_FeegrantKeeper opts) (opt_TxFeeChecker opts)) ds
        \<and> precedes (DeductFeeDecorator ak bk (opt_FeegrantKeeper opts) (opt_TxFeeChecker opts))
            (SigVerificationDecorator ak sh) ds
        \<and> (\<forall>d \<in> {ValidateSigCountDecorator ak, SigGasConsumeDecorator ak (opt_SigGasConsumer opts),
              SigVerificationDecorator ak sh}. precedes (SetPubKeyDecorator ak) d ds)
        \<and> precedes (SigVerificationDecorator ak sh) (IncrementSequenceDecorator ak) ds
        \<and> precedes (IncrementSequenceDecorator ak) (RedundantRelayDecorator (opt_IBCKeeper opts)) ds)"
  using assms
  by (auto simp: NewAnteHandler_def required_options_def Let_def
      split: option.splits if_splits)



end
