(* ===== verification/App_Export.thy ===== *)
theory App_Export
  imports Sdk_Interfaces
begin

text \<open>
  State export, \<open>app/export.go\<close>: the preparation of the state for a chain that starts again at
  height zero, and the export of the modules.  The keepers of the staking, distribution, slashing
  and crisis modules are the SDK's; \<open>export_env\<close> has the calls the code makes on them, as functions
  of the state of the multistore.  An iteration with a callback is the list it visits and a fold.
\<close>

section \<open>What the export calls\<close>

record validator =
  validator_OperatorAddress :: gostring
  validator_UnbondingHeight :: "64 word"
  validator_Jailed :: bool
  validator_rest :: bytes

text \<open>A redelegation or an unbonding delegation: what identifies it and its creation heights.\<close>

record entries =
  entries_key :: bytes
  entries_CreationHeights :: "64 word list"

record signing_info =
  info_StartHeight :: "64 word"
  info_rest :: bytes

record delegation =
  delegation_DelegatorAddress :: gostring
  delegation_ValidatorAddress :: gostring

record ('s, 'coins) export_env =
  ValAddressFromBech32 :: "gostring \<Rightarrow> gostring + bytes"
  AccAddressFromBech32 :: "gostring \<Rightarrow> gostring + bytes"
  ValAddressString :: "bytes \<Rightarrow> gostring"
  ValCodecStringToBytes :: "gostring \<Rightarrow> gostring + bytes"
  AssertInvariants :: "'s \<Rightarrow> go_error + 's"
  Validators :: "'s \<Rightarrow> gostring + gostring list"
  WithdrawValidatorCommission :: "'s \<Rightarrow> bytes \<Rightarrow> 's"
  GetAllDelegations :: "'s \<Rightarrow> gostring + delegation list"
  WithdrawDelegationRewards :: "'s \<Rightarrow> bytes \<Rightarrow> bytes \<Rightarrow> 's"
  DeleteAllValidatorSlashEvents :: "'s \<Rightarrow> 's"
  DeleteAllValidatorHistoricalRewards :: "'s \<Rightarrow> 's"
  OutstandingRewards :: "'s \<Rightarrow> bytes \<Rightarrow> gostring + 'coins"
  FeePoolGet :: "'s \<Rightarrow> gostring + 'coins"
  FeePoolSet :: "'s \<Rightarrow> 'coins \<Rightarrow> gostring + 's"
  CoinsAdd :: "'coins \<Rightarrow> 'coins \<Rightarrow> 'coins"
  AfterValidatorCreated :: "64 word \<Rightarrow> 's \<Rightarrow> bytes \<Rightarrow> gostring + 's"
  BeforeDelegationCreated :: "64 word \<Rightarrow> 's \<Rightarrow> bytes \<Rightarrow> bytes \<Rightarrow> gostring + 's"
  AfterDelegationModified :: "64 word \<Rightarrow> 's \<Rightarrow> bytes \<Rightarrow> bytes \<Rightarrow> gostring + 's"
  Redelegations :: "'s \<Rightarrow> gostring + entries list"
  SetRedelegation :: "'s \<Rightarrow> entries \<Rightarrow> gostring + 's"
  UnbondingDelegations :: "'s \<Rightarrow> gostring + entries list"
  SetUnbondingDelegation :: "'s \<Rightarrow> entries \<Rightarrow> gostring + 's"
  ValidatorAddrsReverse :: "'s \<Rightarrow> bytes list"
  GetValidator :: "'s \<Rightarrow> bytes \<Rightarrow> validator option"
  SetValidator :: "'s \<Rightarrow> validator \<Rightarrow> gostring + 's"
  IterClose :: "gostring + unit"
  ApplyValidatorSetUpdates :: "'s \<Rightarrow> gostring + 's"
  SigningInfos :: "'s \<Rightarrow> gostring + (bytes \<times> signing_info) list"
  SetValidatorSigningInfo :: "'s \<Rightarrow> bytes \<Rightarrow> signing_info \<Rightarrow> 's"

text \<open>\<open>if err != nil { panic(err) }\<close> and \<open>log.Fatal(err)\<close> after a call.\<close>

definition or_panic :: "gostring + 'a \<Rightarrow> go_error + 'a" where
  "or_panic r = (case r of Inl err \<Rightarrow> Inl (Panicked (Errorf err)) | Inr x \<Rightarrow> Inr x)"

definition or_fatal :: "gostring + 'a \<Rightarrow> go_error + 'a" where
  "or_fatal r = (case r of Inl err \<Rightarrow> Inl (LogFatal err) | Inr x \<Rightarrow> Inr x)"

lemma or_simps [simp]:
  "or_panic (Inr x) = Inr x" "or_panic (Inl e) = Inl (Panicked (Errorf e))"
  "or_fatal (Inr x) = Inr x" "or_fatal (Inl e) = Inl (LogFatal e)"
  by (simp_all add: or_panic_def or_fatal_def)

section \<open>Preparation for height zero\<close>

text \<open>The validators that may stay out of jail, after a check of each address.\<close>

definition allowed_addrs :: "('s, 'coins) export_env \<Rightarrow> gostring list \<Rightarrow> go_error + gostring set" where
  "allowed_addrs E jailAllowedAddrs =
     rfold (\<lambda>addr m. rbind (or_fatal (ValAddressFromBech32 E addr)) (\<lambda>a. Inr (insert addr m)))
       jailAllowedAddrs {}"

definition withdraw_commissions :: "('s, 'coins) export_env \<Rightarrow> 's \<Rightarrow> go_error + 's" where
  "withdraw_commissions E s =
     rbind (or_panic (Validators E s)) (\<lambda>vals.
       rfold (\<lambda>val s. rbind (or_panic (ValCodecStringToBytes E val)) (\<lambda>valBz.
         Inr (WithdrawValidatorCommission E s valBz))) vals s)"

definition withdraw_rewards ::
  "('s, 'coins) export_env \<Rightarrow> delegation list \<Rightarrow> 's \<Rightarrow> go_error + 's" where
  "withdraw_rewards E dels s =
     rfold (\<lambda>del s.
       rbind (or_panic (ValAddressFromBech32 E (delegation_ValidatorAddress del))) (\<lambda>valAddr.
       rbind (or_panic (AccAddressFromBech32 E (delegation_DelegatorAddress del))) (\<lambda>delAddr.
         Inr (WithdrawDelegationRewards E s delAddr valAddr)))) dels s"

text \<open>
  The second iteration over the validators, at height 0.  Its own error is assigned to \<open>err\<close> and
  never looked at: an iteration that fails leaves the state as it is and the export goes on.
\<close>

definition reinit_validators :: "('s, 'coins) export_env \<Rightarrow> 's \<Rightarrow> go_error + 's" where
  "reinit_validators E s =
     (case Validators E s of
        Inl err \<Rightarrow> Inr s
      | Inr vals \<Rightarrow>
          rfold (\<lambda>val s.
            rbind (or_panic (ValCodecStringToBytes E val)) (\<lambda>valBz.
            rbind (or_panic (OutstandingRewards E s valBz)) (\<lambda>scraps.
            rbind (or_panic (FeePoolGet E s)) (\<lambda>pool.
            rbind (or_panic (FeePoolSet E s (CoinsAdd E pool scraps))) (\<lambda>s'.
              or_panic (AfterValidatorCreated E 0 s' valBz)))))) vals s)"

definition reinit_delegations ::
  "('s, 'coins) export_env \<Rightarrow> delegation list \<Rightarrow> 's \<Rightarrow> go_error + 's" where
  "reinit_delegations E dels s =
     rfold (\<lambda>del s.
       rbind (or_panic (ValAddressFromBech32 E (delegation_ValidatorAddress del))) (\<lambda>valAddr.
       rbind (or_panic (AccAddressFromBech32 E (delegation_DelegatorAddress del))) (\<lambda>delAddr.
       rbind (case BeforeDelegationCreated E 0 s delAddr valAddr of
           Inl err \<Rightarrow> Inl (Panicked (Errorf (lit ''error while incrementing period: '' @ err)))
         | Inr s' \<Rightarrow> Inr s') (\<lambda>s'.
         case AfterDelegationModified E 0 s' delAddr valAddr of
           Inl err \<Rightarrow> Inl (Panicked (Errorf
             (lit ''error while creating a new delegation period record: '' @ err)))
         | Inr s'' \<Rightarrow> Inr s'')))) dels s"

definition reset_heights :: "entries \<Rightarrow> entries" where
  "reset_heights x = x\<lparr>entries_CreationHeights := map (\<lambda>h. 0) (entries_CreationHeights x)\<rparr>"

definition reset_redelegations :: "('s, 'coins) export_env \<Rightarrow> 's \<Rightarrow> go_error + 's" where
  "reset_redelegations E s =
     rbind (or_panic (Redelegations E s)) (\<lambda>reds.
       rfold (\<lambda>red s. or_panic (SetRedelegation E s (reset_heights red))) reds s)"

definition reset_unbondings :: "('s, 'coins) export_env \<Rightarrow> 's \<Rightarrow> go_error + 's" where
  "reset_unbondings E s =
     rbind (or_panic (UnbondingDelegations E s)) (\<lambda>ubds.
       rfold (\<lambda>ubd s. or_panic (SetUnbondingDelegation E s (reset_heights ubd))) ubds s)"

definition reset_validators ::
  "('s, 'coins) export_env \<Rightarrow> bool \<Rightarrow> gostring set \<Rightarrow> 's \<Rightarrow> go_error + 's" where
  "reset_validators E applyAllowedAddrs allowedAddrsMap s =
     rfold (\<lambda>addr s.
       case GetValidator E s addr of
         None \<Rightarrow> Inl (GoPanic (lit ''expected validator, not found''))
       | Some v \<Rightarrow>
           let v1 = v\<lparr>validator_UnbondingHeight := 0\<rparr>;
               v2 = (if applyAllowedAddrs \<and> ValAddressString E addr \<notin> allowedAddrsMap
                     then v1\<lparr>validator_Jailed := True\<rparr> else v1)
           in or_panic (SetValidator E s v2)) (ValidatorAddrsReverse E s) s"

definition reset_signing_infos :: "('s, 'coins) export_env \<Rightarrow> 's \<Rightarrow> go_error + 's" where
  "reset_signing_infos E s =
     rbind (or_fatal (SigningInfos E s)) (\<lambda>infos.
       Inr (fold (\<lambda>(addr, info) s.
         SetValidatorSigningInfo E s addr (info\<lparr>info_StartHeight := 0\<rparr>)) infos s))"

text \<open>
  The whole function.  When the iterator cannot be closed it logs that and returns before the
  validator set updates and the signing infos.
\<close>

definition prepForZeroHeightGenesis ::
  "('s, 'coins) export_env \<Rightarrow> gostring list \<Rightarrow> 's \<Rightarrow> go_error + 's" where
  "prepForZeroHeightGenesis E jailAllowedAddrs s0 =
     rbind (allowed_addrs E jailAllowedAddrs) (\<lambda>allowedAddrsMap.
     rbind (AssertInvariants E s0) (\<lambda>s1.
     rbind (withdraw_commissions E s1) (\<lambda>s2.
     rbind (or_panic (GetAllDelegations E s2)) (\<lambda>dels.
     rbind (withdraw_rewards E dels s2) (\<lambda>s3.
     let s4 = DeleteAllValidatorHistoricalRewards E (DeleteAllValidatorSlashEvents E s3) in
     rbind (reinit_validators E s4) (\<lambda>s5.
     rbind (reinit_delegations E dels s5) (\<lambda>s6.
     rbind (reset_redelegations E s6) (\<lambda>s7.
     rbind (reset_unbondings E s7) (\<lambda>s8.
     rbind (reset_validators E (0 < length jailAllowedAddrs) allowedAddrsMap s8) (\<lambda>s9.
     case IterClose E of
       Inl err \<Rightarrow> Inr s9
     | Inr u \<Rightarrow>
         rbind (or_fatal (ApplyValidatorSetUpdates E s9)) (\<lambda>s10.
           reset_signing_infos E s10)))))))))))"

section \<open>The export\<close>

record exported_app =
  AppState :: bytes
  ExportedValidators :: bytes
  ExportedHeight :: int
  ExportedConsensusParams :: bytes

text \<open>
  \<open>ExportGenesisForModules\<close> with the JSON of its result, \<open>WriteValidators\<close>, the consensus
  parameters and the last height are parameters.  Go returns the exported app beside the error of
  \<open>WriteValidators\<close>; the caller of a failed export does not use it.
\<close>

definition ExportAppStateAndValidators ::
  "('s, 'coins) export_env \<Rightarrow> ('s \<Rightarrow> gostring list \<Rightarrow> go_error + bytes) \<Rightarrow> ('s \<Rightarrow> go_error + bytes)
    \<Rightarrow> ('s \<Rightarrow> bytes) \<Rightarrow> int \<Rightarrow> 's \<Rightarrow> bool \<Rightarrow> gostring list \<Rightarrow> gostring list
    \<Rightarrow> go_error + exported_app" where
  "ExportAppStateAndValidators E export_json write_validators consensus_params lastHeight s
     forZeroHeight jailAllowedAddrs modulesToExport =
     rbind (if forZeroHeight
         then rbind (prepForZeroHeightGenesis E jailAllowedAddrs s) (\<lambda>s'. Inr (s', 0))
         else Inr (s, wrap64 (lastHeight + 1))) (\<lambda>(s', height).
     rbind (export_json s' modulesToExport) (\<lambda>appState.
     rbind (write_validators s') (\<lambda>validators.
       Inr \<lparr>AppState = appState, ExportedValidators = validators, ExportedHeight = height,
         ExportedConsensusParams = consensus_params s'\<rparr>)))"

section \<open>Jailing\<close>

text \<open>
  What the staking module documents of \<open>SetValidator\<close> and \<open>GetValidator\<close>: a map by the address
  of the operator, whose addresses are those of the iteration.
\<close>

definition validator_store :: "('s, 'coins) export_env \<Rightarrow> bool" where
  "validator_store E \<longleftrightarrow>
     (\<forall>s a v. ValCodecStringToBytes E (validator_OperatorAddress v) = Inr a \<longrightarrow>
        (\<exists>s'. SetValidator E s v = Inr s' \<and> (\<forall>b. GetValidator E s' b = (if b = a then Some v else GetValidator E s b))))
   \<and> (\<forall>s a v. GetValidator E s a = Some v \<longrightarrow>
        ValCodecStringToBytes E (validator_OperatorAddress v) = Inr a)
   \<and> (\<forall>s a. a \<in> set (ValidatorAddrsReverse E s) \<longleftrightarrow> GetValidator E s a \<noteq> None)
   \<and> (\<forall>s. distinct (ValidatorAddrsReverse E s))"

definition reset_validator ::
  "('s, 'coins) export_env \<Rightarrow> bool \<Rightarrow> gostring set \<Rightarrow> bytes \<Rightarrow> validator \<Rightarrow> validator" where
  "reset_validator E app allowed a v = v\<lparr>validator_UnbondingHeight := 0,
     validator_Jailed := (validator_Jailed v \<or> app \<and> ValAddressString E a \<notin> allowed)\<rparr>"

lemma reset_validators_spec:
  assumes "validator_store E"
  shows "\<exists>s'. reset_validators E app allowed s = Inr s'
    \<and> (\<forall>a. GetValidator E s' a = map_option (reset_validator E app allowed a) (GetValidator E s a))"
proof -
  let ?f = "\<lambda>addr s. case GetValidator E s addr of
         None \<Rightarrow> Inl (GoPanic (lit ''expected validator, not found''))
       | Some v \<Rightarrow>
           let v1 = v\<lparr>validator_UnbondingHeight := 0\<rparr>;
               v2 = (if app \<and> ValAddressString E addr \<notin> allowed
                     then v1\<lparr>validator_Jailed := True\<rparr> else v1)
           in or_panic (SetValidator E s v2)"
  have "\<exists>s'. rfold ?f as s = Inr s' \<and> (\<forall>a. GetValidator E s' a =
      (if a \<in> set as then map_option (reset_validator E app allowed a) (GetValidator E s a)
       else GetValidator E s a))"
    if "distinct as" "\<forall>a \<in> set as. GetValidator E s a \<noteq> None" for as
    using that
  proof (induction as arbitrary: s)
    case (Cons a as)
    then obtain v where v: "GetValidator E s a = Some v" by auto
    have "ValCodecStringToBytes E (validator_OperatorAddress (reset_validator E app allowed a v)) = Inr a"
      using v assms unfolding validator_store_def by (simp add: reset_validator_def)
    then obtain s1 where s1: "SetValidator E s (reset_validator E app allowed a v) = Inr s1"
      "\<forall>b. GetValidator E s1 b = (if b = a then Some (reset_validator E app allowed a v)
        else GetValidator E s b)"
      using assms unfolding validator_store_def by blast
    have f: "?f a s = Inr s1"
    proof -
      have "(if app \<and> ValAddressString E a \<notin> allowed
          then (v\<lparr>validator_UnbondingHeight := 0\<rparr>)\<lparr>validator_Jailed := True\<rparr>
          else v\<lparr>validator_UnbondingHeight := 0\<rparr>) = reset_validator E app allowed a v"
        by (cases v) (auto simp: reset_validator_def)
      with v s1(1) show ?thesis by (simp only: option.case Let_def or_simps)
    qed
    have "distinct as" "\<forall>b \<in> set as. GetValidator E s1 b \<noteq> None"
      using Cons.prems s1(2) by auto
    from Cons.IH [OF this] obtain s' where
      "rfold ?f as s1 = Inr s'" "\<forall>b. GetValidator E s' b =
      (if b \<in> set as then map_option (reset_validator E app allowed b) (GetValidator E s1 b)
       else GetValidator E s1 b)"
      by blast
    with f v s1(2) Cons.prems(1) show ?case
      by (intro exI [of _ s']) auto
  qed simp
  from this [of "ValidatorAddrsReverse E s"] assms show ?thesis
    unfolding reset_validators_def validator_store_def by fastforce
qed

lemma allowed_addrs_Inr:
  "allowed_addrs E as = Inr m \<Longrightarrow> m = set as \<and> (\<forall>a \<in> set as. \<exists>b. ValAddressFromBech32 E a = Inr b)"
proof -
  have "rfold (\<lambda>addr m. rbind (or_fatal (ValAddressFromBech32 E addr)) (\<lambda>a. Inr (insert addr m)))
      as m0 = Inr m \<Longrightarrow> m = m0 \<union> set as \<and> (\<forall>a \<in> set as. \<exists>b. ValAddressFromBech32 E a = Inr b)" for m0
  proof (induction as arbitrary: m0)
    case (Cons a as)
    then show ?case
      by (cases "ValAddressFromBech32 E a") auto
  qed simp
  then show "allowed_addrs E as = Inr m \<Longrightarrow> ?thesis"
    by (auto simp: allowed_addrs_def)
qed

section \<open>Properties\<close>


text \<open>
  An allow list with an invalid address ends the process before the state is touched: neither
  the invariants nor any other call of the preparation is reached, whatever the keepers do.
\<close>

theorem export_refuses_allow_list:
  assumes "a \<in> set jailAllowedAddrs" and "ValAddressFromBech32 E a = Inl err"
  shows "\<exists>err'. prepForZeroHeightGenesis E jailAllowedAddrs s = Inl (LogFatal err')
    \<and> ExportAppStateAndValidators E export_json write_validators consensus_params lastHeight s
        True jailAllowedAddrs modulesToExport = Inl (LogFatal err')"
proof -
  have "\<exists>err'. rfold (\<lambda>addr m. rbind (or_fatal (ValAddressFromBech32 E addr))
      (\<lambda>a. Inr (insert addr m))) jailAllowedAddrs m0 = Inl (LogFatal err')" for m0
    using assms(1)
  proof (induction jailAllowedAddrs arbitrary: m0)
    case (Cons b bs)
    then show ?case
      using assms(2) by (cases "ValAddressFromBech32 E b") auto
  qed simp
  then obtain err' where "allowed_addrs E jailAllowedAddrs = Inl (LogFatal err')"
    unfolding allowed_addrs_def by blast
  then show ?thesis
    by (simp add: prepForZeroHeightGenesis_def ExportAppStateAndValidators_def)
qed

section \<open>A staking module of two operators\<close>

text \<open>A state that satisfies the contract: at most one validator for each of two operators.\<close>

definition sample_address :: "gostring \<Rightarrow> gostring + bytes" where
  "sample_address s = (if s = lit ''val1'' then Inr [1] else if s = lit ''val2'' then Inr [2]
     else Inl (lit ''decoding bech32 failed''))"

type_synonym sample_state = "validator option \<times> validator option"

definition sample_get :: "sample_state \<Rightarrow> bytes \<Rightarrow> validator option" where
  "sample_get s a =
     (let held = (\<lambda>x. case x of None \<Rightarrow> None
        | Some v \<Rightarrow> if sample_address (validator_OperatorAddress v) = Inr a then Some v else None)
      in if a = [1] then held (fst s) else if a = [2] then held (snd s) else None)"

definition sample_set :: "sample_state \<Rightarrow> validator \<Rightarrow> gostring + sample_state" where
  "sample_set s v = (if validator_OperatorAddress v = lit ''val1'' then Inr (Some v, snd s)
     else if validator_OperatorAddress v = lit ''val2'' then Inr (fst s, Some v)
     else Inl (lit ''decoding bech32 failed''))"

definition sample_export_env :: "(sample_state, nat) export_env" where
  "sample_export_env = \<lparr>
     ValAddressFromBech32 = sample_address, AccAddressFromBech32 = sample_address,
     ValAddressString = (\<lambda>a. if a = [1] then lit ''val1'' else lit ''val2''),
     ValCodecStringToBytes = sample_address, AssertInvariants = Inr,
     Validators = (\<lambda>s. Inr []), WithdrawValidatorCommission = (\<lambda>s a. s),
     GetAllDelegations = (\<lambda>s. Inr []), WithdrawDelegationRewards = (\<lambda>s d v. s),
     DeleteAllValidatorSlashEvents = id, DeleteAllValidatorHistoricalRewards = id,
     OutstandingRewards = (\<lambda>s a. Inr 0), FeePoolGet = (\<lambda>s. Inr 0), FeePoolSet = (\<lambda>s c. Inr s),
     CoinsAdd = (+), AfterValidatorCreated = (\<lambda>h s a. Inr s),
     BeforeDelegationCreated = (\<lambda>h s d v. Inr s), AfterDelegationModified = (\<lambda>h s d v. Inr s),
     Redelegations = (\<lambda>s. Inr []), SetRedelegation = (\<lambda>s x. Inr s),
     UnbondingDelegations = (\<lambda>s. Inr []), SetUnbondingDelegation = (\<lambda>s x. Inr s),
     ValidatorAddrsReverse = (\<lambda>s. List.filter (\<lambda>a. sample_get s a \<noteq> None) [[2], [1]]),
     GetValidator = sample_get, SetValidator = sample_set, IterClose = Inr (),
     ApplyValidatorSetUpdates = Inr, SigningInfos = (\<lambda>s. Inr []),
     SetValidatorSigningInfo = (\<lambda>s a i. s)\<rparr>"

lemma lit_val_neq [simp]: "lit ''val1'' \<noteq> lit ''val2''" "lit ''val2'' \<noteq> lit ''val1''"
  by (simp_all add: lit_def)

lemma sample_export_env_ok: "validator_store sample_export_env"
  unfolding validator_store_def
  by (auto simp: sample_export_env_def sample_get_def sample_set_def sample_address_def
      Let_def split: option.splits if_splits)

definition sample_validators :: sample_state where
  "sample_validators =
     (Some \<lparr>validator_OperatorAddress = lit ''val1'', validator_UnbondingHeight = 7,
        validator_Jailed = False, validator_rest = [1]\<rparr>,
      Some \<lparr>validator_OperatorAddress = lit ''val2'', validator_UnbondingHeight = 0,
        validator_Jailed = False, validator_rest = [2]\<rparr>)"


theorem export_refuses_allow_list_witness:
  "\<exists>err. prepForZeroHeightGenesis sample_export_env [lit ''val1'', lit ''x''] sample_validators
      = Inl (LogFatal err)
    \<and> ExportAppStateAndValidators sample_export_env (\<lambda>s ms. Inr []) (\<lambda>s. Inr []) (\<lambda>s. []) 9
        sample_validators True [lit ''val1'', lit ''x''] [] = Inl (LogFatal err)"
proof -
  have "ValAddressFromBech32 sample_export_env (lit ''x'') = Inl (lit ''decoding bech32 failed'')"
    by (simp add: sample_export_env_def sample_address_def lit_def)
  then show ?thesis
    by (intro export_refuses_allow_list) simp_all
qed

end
