(* ===== verification/App_Keys.thy ===== *)
theory App_Keys
  imports App_Wiring
begin

text \<open>
  The accessors of the application in \<open>app/app.go\<close>: store keys and parameter subspaces by their name.
\<close>

section \<open>Accessors\<close>

text \<open>A store key of the SDK: a concrete type and a name.\<close>

datatype store_key =
    KVStoreKey gostring
  | MemoryStoreKey gostring
  | OtherStoreKey gostring

text \<open>\<open>UnsafeFindStoreKey\<close> finds a key by its name, or nil; the type assertion fails on nil.\<close>

definition GetKey :: "(gostring \<Rightarrow> store_key option) \<Rightarrow> gostring \<Rightarrow> store_key option" where
  "GetKey UnsafeFindStoreKey storeKey =
     (case UnsafeFindStoreKey storeKey of Some (KVStoreKey n) \<Rightarrow> Some (KVStoreKey n) | _ \<Rightarrow> None)"

definition GetMemKey :: "(gostring \<Rightarrow> store_key option) \<Rightarrow> gostring \<Rightarrow> store_key option" where
  "GetMemKey UnsafeFindStoreKey storeKey =
     (case UnsafeFindStoreKey storeKey of Some (MemoryStoreKey n) \<Rightarrow> Some (MemoryStoreKey n) | _ \<Rightarrow> None)"

text \<open>The map of the key-value store keys, by name; the last key of a name wins.\<close>

fun kvStoreKeys :: "store_key list \<Rightarrow> gostring \<rightharpoonup> store_key" where
  "kvStoreKeys ks = fold (\<lambda>k m. case k of KVStoreKey n \<Rightarrow> m(n \<mapsto> k) | _ \<Rightarrow> m) ks Map.empty"

text \<open>A module without a subspace gets the zero subspace.\<close>

definition GetSubspace :: "'sub \<Rightarrow> (gostring \<Rightarrow> 'sub option) \<Rightarrow> gostring \<Rightarrow> 'sub" where
  "GetSubspace zero lookup moduleName = (case lookup moduleName of Some s \<Rightarrow> s | None \<Rightarrow> zero)"

lemma kvStoreKeys_key: "kvStoreKeys ks n = (if KVStoreKey n \<in> set ks then Some (KVStoreKey n) else None)"
proof -
  have "fold (\<lambda>k m. case k of KVStoreKey n \<Rightarrow> m(n \<mapsto> k) | _ \<Rightarrow> m) ks m n
      = (if KVStoreKey n \<in> set ks then Some (KVStoreKey n) else m n)" for m
    by (induction ks arbitrary: m) (auto split: store_key.splits)
  then show ?thesis by simp
qed

definition or_error :: "gostring + 'a \<Rightarrow> go_error + 'a" where
  "or_error r = (case r of Inl err \<Rightarrow> Inl (Errorf err) | Inr x \<Rightarrow> Inr x)"

lemma or_error_simps [simp]: "or_error (Inr x) = Inr x" "or_error (Inl e) = Inl (Errorf e)"
  by (simp_all add: or_error_def)

end
