(* ===== verification/App_Ibc.thy ===== *)
theory App_Ibc
  imports App_Keys App_Ante App_Config
begin

text \<open>
  The modules that are wired by hand: \<open>registerIBCModules\<close> in \<open>app/ibc.go\<close> and
  \<open>registerWasmModules\<close> and \<open>setPostHandler\<close> in \<open>app/wasm.go\<close>.  What they call is the SDK, ibc-go and
  wasmd; \<open>ibc_steps\<close> has the calls as functions of the application \<open>'a\<close> under construction.  Objects
  that are only passed on (keepers, subspaces, configurations) have one opaque type \<open>'o\<close>.
\<close>

section \<open>The calls\<close>

text \<open>Constants of ibc-go, wasmd and the SDK: names of stores and of modules.\<close>

datatype ibc_const =
    capability_StoreKey | capability_MemStoreKey | ibcexported_StoreKey | ibctransfer_StoreKey
  | ibcfee_StoreKey | icahost_StoreKey | icacontroller_StoreKey | params_TStoreKey | wasm_StoreKey
  | ibcexported_ModuleName | ibctransfer_ModuleName | icacontroller_SubModuleName
  | icahost_SubModuleName | wasm_ModuleName | gov_ModuleName

datatype ibc_keeper =
    CapabilityKeeper | IBCKeeper | IBCFeeKeeper | TransferKeeper | ICAHostKeeper
  | ICAControllerKeeper | WasmKeeper

text \<open>
  The arguments of the constructor of a keeper: the store keys, the parameter subspace, the keeper
  that wraps the channel keeper, the scoped capability keeper, the module whose address is the
  authority, and the node configuration.  The other arguments are fields of the application.
\<close>

datatype ics4_wrapper = ChannelKeeper | FeeKeeper

record 'o keeper_args =
  arg_Keys :: "store_key option list"
  arg_Subspace :: "'o option"
  arg_ICS4Wrapper :: "ics4_wrapper option"
  arg_Scoped :: "'o option"
  arg_Authority :: "gostring option"
  arg_NodeConfig :: "'o option"

text \<open>The stack of a route; \<open>NoAuthModule\<close> is the nil module of the interchain accounts controller.\<close>

datatype ibc_stack =
    TransferModule
  | NoAuthModule
  | IcaControllerMiddleware ibc_stack
  | IcaHostModule
  | WasmHandler
  | FeeMiddleware ibc_stack

datatype key_table = ClientAndConnectionTable | TransferTable | IcaControllerTable | IcaHostTable

datatype scoped_field =
    ScopedIBCKeeper | ScopedIBCTransferKeeper | ScopedICAHostKeeper | ScopedICAControllerKeeper
  | ScopedWasmKeeper

record ('a, 'o, 'rt, 'h) ibc_steps =
  const :: "ibc_const \<Rightarrow> gostring"
  RegisterStores :: "store_key list \<Rightarrow> 'a \<Rightarrow> go_error + 'a"
  UnsafeFindStoreKey :: "'a \<Rightarrow> gostring \<Rightarrow> store_key option"
  SubspaceWithKeyTable :: "gostring \<Rightarrow> key_table \<Rightarrow> 'a \<Rightarrow> go_error + 'a"
  ParamsSubspace :: "'a \<Rightarrow> gostring \<Rightarrow> 'o option"
  zero_Subspace :: 'o
  SetKeeper :: "ibc_keeper \<Rightarrow> 'o keeper_args \<Rightarrow> 'a \<Rightarrow> go_error + 'a"
  ScopeToModule :: "gostring \<Rightarrow> 'a \<Rightarrow> go_error + 'o \<times> 'a"
  WithQueryRouter :: "'a \<Rightarrow> 'a"
  SetLegacyRouter :: "'a \<Rightarrow> go_error + 'a"
  NewRouter :: 'rt
  AddRoute :: "gostring \<Rightarrow> ibc_stack \<Rightarrow> 'rt \<Rightarrow> go_error + 'rt"
  SetRouter :: "'rt \<Rightarrow> 'a \<Rightarrow> go_error + 'a"
  SetScoped :: "scoped_field \<Rightarrow> 'o \<Rightarrow> 'a \<Rightarrow> 'a"
  RegisterModules :: "mod_name list \<Rightarrow> 'a \<Rightarrow> go_error + 'a"
  ReadNodeConfig :: "gostring + 'o"
  ChainAnteDecorators :: "'o decorator list \<Rightarrow> 'h"
  SimulationGasLimit :: "'o \<Rightarrow> 'o"
  GetGasRegister :: "'o option \<Rightarrow> gostring + 'o"
  ante_view :: "'a \<Rightarrow> 'o ante_app"
  tx_SignModeHandler :: "'o option"
  DefaultSigGasConsumer :: 'o
  NewKVStoreService :: "store_key option \<Rightarrow> 'o"
  SetAnteHandler :: "'h \<Rightarrow> 'a \<Rightarrow> go_error + 'a"
  SnapshotExtensions :: "'a \<Rightarrow> (gostring + 'a) option"
  NewPostHandler :: "gostring + 'h"
  SetPostHandler :: "'h \<Rightarrow> 'a \<Rightarrow> go_error + 'a"
  MergedRegistry :: "gostring + 'o"
  ValidateProtoAnnotations :: "'o \<Rightarrow> gostring + unit"

section \<open>The wasm module\<close>

definition no_args :: "'o keeper_args" where
  "no_args = \<lparr>arg_Keys = [], arg_Subspace = None, arg_ICS4Wrapper = None, arg_Scoped = None,
     arg_Authority = None, arg_NodeConfig = None\<rparr>"

abbreviation key_of :: "('a, 'o, 'rt, 'h) ibc_steps \<Rightarrow> 'a \<Rightarrow> ibc_const \<Rightarrow> store_key option" where
  "key_of I a c \<equiv> GetKey (UnsafeFindStoreKey I a) (const I c)"

abbreviation subspace_of :: "('a, 'o, 'rt, 'h) ibc_steps \<Rightarrow> 'a \<Rightarrow> ibc_const \<Rightarrow> 'o" where
  "subspace_of I a c \<equiv> GetSubspace (zero_Subspace I) (ParamsSubspace I a) (const I c)"

definition setPostHandler :: "('a, 'o, 'rt, 'h) ibc_steps \<Rightarrow> 'a \<Rightarrow> go_error + 'a" where
  "setPostHandler I app =
     (case NewPostHandler I of
        Inl err \<Rightarrow> Inl (Errorf err)
      | Inr postHandler \<Rightarrow> SetPostHandler I postHandler app)"

definition registerWasmModules ::
  "('a, 'o, 'rt, 'h) ibc_steps \<Rightarrow> 'a \<Rightarrow> go_error + ibc_stack \<times> 'a" where
  "registerWasmModules I a0 =
     rbind (case RegisterStores I [KVStoreKey (const I wasm_StoreKey)] a0 of
         Inl err \<Rightarrow> Inl (Panicked err) | Inr a \<Rightarrow> Inr a) (\<lambda>a1.
     rbind (ScopeToModule I (const I wasm_ModuleName) a1) (\<lambda>(scopedWasmKeeper, a2).
     rbind (case ReadNodeConfig I of
         Inl err \<Rightarrow> Inl (Errorf (lit ''error while reading wasm config: '' @ err))
       | Inr nodeConfig \<Rightarrow> Inr nodeConfig) (\<lambda>nodeConfig.
     rbind (SetKeeper I WasmKeeper (no_args\<lparr>arg_Keys := [key_of I a2 wasm_StoreKey],
         arg_ICS4Wrapper := Some FeeKeeper, arg_Scoped := Some scopedWasmKeeper,
         arg_Authority := Some (const I gov_ModuleName), arg_NodeConfig := Some nodeConfig\<rparr>) a2) (\<lambda>a3.
     rbind (RegisterModules I wasmModules a3) (\<lambda>a4.
     rbind (setAnteHandler (ChainAnteDecorators I) (SimulationGasLimit I) (GetGasRegister I)
         (ante_view I a4) (tx_SignModeHandler I) (DefaultSigGasConsumer I) nodeConfig
         (NewKVStoreService I (key_of I a4 wasm_StoreKey))) (\<lambda>anteHandler.
     rbind (SetAnteHandler I anteHandler a4) (\<lambda>a5.
     rbind (case SnapshotExtensions I a5 of
         None \<Rightarrow> Inr a5
       | Some (Inl err) \<Rightarrow> Inl (Errorf (lit ''failed to register snapshot extension: '' @ err))
       | Some (Inr a) \<Rightarrow> Inr a) (\<lambda>a6.
     let a7 = SetScoped I ScopedWasmKeeper scopedWasmKeeper a6 in
     rbind (setPostHandler I a7) (\<lambda>a8.
     rbind (or_error (MergedRegistry I)) (\<lambda>protoFiles.
     rbind (or_error (ValidateProtoAnnotations I protoFiles)) (\<lambda>u.
       Inr (FeeMiddleware WasmHandler, a8))))))))))))"

section \<open>The modules of ibc\<close>

definition registerIBCModules :: "('a, 'o, 'rt, 'h) ibc_steps \<Rightarrow> 'a \<Rightarrow> go_error + 'a" where
  "registerIBCModules I a0 =
     rbind (RegisterStores I
       [KVStoreKey (const I capability_StoreKey), KVStoreKey (const I ibcexported_StoreKey),
        KVStoreKey (const I ibctransfer_StoreKey), KVStoreKey (const I ibcfee_StoreKey),
        KVStoreKey (const I icahost_StoreKey), KVStoreKey (const I icacontroller_StoreKey),
        MemoryStoreKey (const I capability_MemStoreKey), OtherStoreKey (const I params_TStoreKey)] a0) (\<lambda>a.
     rbind (SubspaceWithKeyTable I (const I ibcexported_ModuleName) ClientAndConnectionTable a) (\<lambda>a.
     rbind (SubspaceWithKeyTable I (const I ibctransfer_ModuleName) TransferTable a) (\<lambda>a.
     rbind (SubspaceWithKeyTable I (const I icacontroller_SubModuleName) IcaControllerTable a) (\<lambda>a.
     rbind (SubspaceWithKeyTable I (const I icahost_SubModuleName) IcaHostTable a) (\<lambda>a.
     rbind (SetKeeper I CapabilityKeeper (no_args\<lparr>arg_Keys := [key_of I a capability_StoreKey,
         GetMemKey (UnsafeFindStoreKey I a) (const I capability_MemStoreKey)]\<rparr>) a) (\<lambda>a.
     rbind (ScopeToModule I (const I ibcexported_ModuleName) a) (\<lambda>(scopedIBCKeeper, a).
     rbind (ScopeToModule I (const I ibctransfer_ModuleName) a) (\<lambda>(scopedIBCTransferKeeper, a).
     rbind (ScopeToModule I (const I icacontroller_SubModuleName) a) (\<lambda>(scopedICAControllerKeeper, a).
     rbind (ScopeToModule I (const I icahost_SubModuleName) a) (\<lambda>(scopedICAHostKeeper, a).
     rbind (SetKeeper I IBCKeeper (no_args\<lparr>arg_Keys := [key_of I a ibcexported_StoreKey],
         arg_Subspace := Some (subspace_of I a ibcexported_ModuleName),
         arg_Scoped := Some scopedIBCKeeper, arg_Authority := Some (const I gov_ModuleName)\<rparr>) a) (\<lambda>a.
     rbind (SetKeeper I IBCFeeKeeper (no_args\<lparr>arg_Keys := [key_of I a ibcfee_StoreKey],
         arg_ICS4Wrapper := Some ChannelKeeper\<rparr>) a) (\<lambda>a.
     rbind (SetKeeper I TransferKeeper (no_args\<lparr>arg_Keys := [key_of I a ibctransfer_StoreKey],
         arg_Subspace := Some (subspace_of I a ibctransfer_ModuleName),
         arg_ICS4Wrapper := Some FeeKeeper, arg_Scoped := Some scopedIBCTransferKeeper,
         arg_Authority := Some (const I gov_ModuleName)\<rparr>) a) (\<lambda>a.
     rbind (SetKeeper I ICAHostKeeper (no_args\<lparr>arg_Keys := [key_of I a icahost_StoreKey],
         arg_Subspace := Some (subspace_of I a icahost_SubModuleName),
         arg_ICS4Wrapper := Some FeeKeeper, arg_Scoped := Some scopedICAHostKeeper,
         arg_Authority := Some (const I gov_ModuleName)\<rparr>) a) (\<lambda>a.
     let a = WithQueryRouter I a in
     rbind (SetKeeper I ICAControllerKeeper (no_args\<lparr>arg_Keys := [key_of I a icacontroller_StoreKey],
         arg_Subspace := Some (subspace_of I a icacontroller_SubModuleName),
         arg_ICS4Wrapper := Some FeeKeeper, arg_Scoped := Some scopedICAControllerKeeper,
         arg_Authority := Some (const I gov_ModuleName)\<rparr>) a) (\<lambda>a.
     rbind (SetLegacyRouter I a) (\<lambda>a.
     rbind (AddRoute I (const I ibctransfer_ModuleName) (FeeMiddleware TransferModule) (NewRouter I)) (\<lambda>r.
     rbind (AddRoute I (const I icacontroller_SubModuleName)
         (FeeMiddleware (IcaControllerMiddleware NoAuthModule)) r) (\<lambda>r.
     rbind (AddRoute I (const I icahost_SubModuleName) (FeeMiddleware IcaHostModule) r) (\<lambda>r.
     rbind (registerWasmModules I a) (\<lambda>(wasmStack, a).
     rbind (AddRoute I (const I wasm_ModuleName) wasmStack r) (\<lambda>r.
     rbind (SetRouter I r a) (\<lambda>a.
     let a = SetScoped I ScopedICAControllerKeeper scopedICAControllerKeeper
         (SetScoped I ScopedICAHostKeeper scopedICAHostKeeper
         (SetScoped I ScopedIBCTransferKeeper scopedIBCTransferKeeper
         (SetScoped I ScopedIBCKeeper scopedIBCKeeper a))) in
     RegisterModules I ibcModules a))))))))))))))))))))))"

section \<open>The contract of the calls\<close>

fun key_name :: "store_key \<Rightarrow> gostring" where
  "key_name (KVStoreKey n) = n"
| "key_name (MemoryStoreKey n) = n"
| "key_name (OtherStoreKey n) = n"

text \<open>What is observed of an application: what has been registered with it so far.\<close>

record ('o, 'h) ibc_view =
  view_keys :: "store_key set"
  view_spaces :: "gostring set"
  view_scopes :: "gostring set"
  view_keepers :: "ibc_keeper \<rightharpoonup> 'o keeper_args"
  view_router :: "(gostring \<rightharpoonup> ibc_stack) option"
  view_modules :: "mod_name set"
  view_ante :: "'h option"

definition succeeds :: "('x \<Rightarrow> bool) \<Rightarrow> go_error + 'x \<Rightarrow> bool" where
  "succeeds P r \<longleftrightarrow> (\<exists>x. r = Inr x \<and> P x)"

lemma succeeds_Inr [simp]: "succeeds P (Inr x) \<longleftrightarrow> P x"
  by (simp add: succeeds_def)

lemma succeeds_mono: "succeeds Q r \<Longrightarrow> (\<And>x. Q x \<Longrightarrow> P x) \<Longrightarrow> succeeds P r"
  by (auto simp: succeeds_def)

lemma succeeds_bind:
  "succeeds Q r \<Longrightarrow> (\<And>x. Q x \<Longrightarrow> succeeds P (k x)) \<Longrightarrow> succeeds P (rbind r k)"
  by (auto simp: succeeds_def)

definition wasm_args :: "('a, 'o, 'rt, 'h) ibc_steps \<Rightarrow> 'o \<Rightarrow> 'o \<Rightarrow> 'o keeper_args" where
  "wasm_args I nc sc = no_args\<lparr>arg_Keys := [Some (KVStoreKey (const I wasm_StoreKey))],
     arg_ICS4Wrapper := Some FeeKeeper, arg_Scoped := Some sc,
     arg_Authority := Some (const I gov_ModuleName), arg_NodeConfig := Some nc\<rparr>"

text \<open>The store keys and the wrapper each keeper should get, and the table of routes.\<close>

fun keeper_keys :: "('a, 'o, 'rt, 'h) ibc_steps \<Rightarrow> ibc_keeper \<Rightarrow> store_key list" where
  "keeper_keys I CapabilityKeeper =
     [KVStoreKey (const I capability_StoreKey), MemoryStoreKey (const I capability_MemStoreKey)]"
| "keeper_keys I IBCKeeper = [KVStoreKey (const I ibcexported_StoreKey)]"
| "keeper_keys I IBCFeeKeeper = [KVStoreKey (const I ibcfee_StoreKey)]"
| "keeper_keys I TransferKeeper = [KVStoreKey (const I ibctransfer_StoreKey)]"
| "keeper_keys I ICAHostKeeper = [KVStoreKey (const I icahost_StoreKey)]"
| "keeper_keys I ICAControllerKeeper = [KVStoreKey (const I icacontroller_StoreKey)]"
| "keeper_keys I WasmKeeper = [KVStoreKey (const I wasm_StoreKey)]"

fun keeper_wrapper :: "ibc_keeper \<Rightarrow> ics4_wrapper option" where
  "keeper_wrapper CapabilityKeeper = None"
| "keeper_wrapper IBCKeeper = None"
| "keeper_wrapper IBCFeeKeeper = Some ChannelKeeper"
| "keeper_wrapper k = Some FeeKeeper"

definition ibc_routes :: "('a, 'o, 'rt, 'h) ibc_steps \<Rightarrow> gostring \<rightharpoonup> ibc_stack" where
  "ibc_routes I =
     [const I ibctransfer_ModuleName \<mapsto> FeeMiddleware TransferModule,
      const I icacontroller_SubModuleName \<mapsto> FeeMiddleware (IcaControllerMiddleware NoAuthModule),
      const I icahost_SubModuleName \<mapsto> FeeMiddleware IcaHostModule,
      const I wasm_ModuleName \<mapsto> FeeMiddleware WasmHandler]"

definition scoped_names :: "('a, 'o, 'rt, 'h) ibc_steps \<Rightarrow> gostring set" where
  "scoped_names I = const I ` {ibcexported_ModuleName, ibctransfer_ModuleName,
      icacontroller_SubModuleName, icahost_SubModuleName, wasm_ModuleName}"

text \<open>Nothing of what is registered here is there before.\<close>

definition not_wired :: "('a, 'o, 'rt, 'h) ibc_steps \<Rightarrow> ('o, 'h) ibc_view \<Rightarrow> bool" where
  "not_wired I v \<longleftrightarrow>
     const I ` {capability_StoreKey, capability_MemStoreKey, ibcexported_StoreKey, ibctransfer_StoreKey,
       ibcfee_StoreKey, icahost_StoreKey, icacontroller_StoreKey, params_TStoreKey, wasm_StoreKey}
       \<inter> key_name ` view_keys v = {}
   \<and> view_spaces v \<inter> scoped_names I = {} \<and> view_scopes v \<inter> scoped_names I = {}
   \<and> view_router v = None \<and> view_modules v \<inter> (set ibcModules \<union> set wasmModules) = {}"

definition ibc_wired ::
  "('a, 'o, 'rt, 'h) ibc_steps \<Rightarrow> ('o, 'h) ibc_view \<Rightarrow> ('o, 'h) ibc_view \<Rightarrow> bool" where
  "ibc_wired I v w \<longleftrightarrow> view_router w = Some (ibc_routes I)
     \<and> (\<forall>k. \<exists>args. view_keepers w k = Some args \<and> arg_Keys args = map Some (keeper_keys I k)
         \<and> arg_ICS4Wrapper args = keeper_wrapper k
         \<and> arg_Authority args = (if k = CapabilityKeeper \<or> k = IBCFeeKeeper then None
             else Some (const I gov_ModuleName)))
     \<and> view_scopes w = view_scopes v \<union> scoped_names I
     \<and> view_modules w = view_modules v \<union> set ibcModules \<union> set wasmModules
     \<and> view_ante w \<noteq> None"

lemma ibc_wiredI:
  assumes "view_router w = Some (ibc_routes I)" and "view_scopes w = view_scopes v \<union> scoped_names I"
    and "view_modules w = view_modules v \<union> set ibcModules \<union> set wasmModules"
    and "view_ante w \<noteq> None"
    and "\<And>k. k \<in> {CapabilityKeeper, IBCKeeper, IBCFeeKeeper, TransferKeeper, ICAHostKeeper,
        ICAControllerKeeper, WasmKeeper} \<Longrightarrow>
      \<exists>args. view_keepers w k = Some args \<and> arg_Keys args = map Some (keeper_keys I k)
         \<and> arg_ICS4Wrapper args = keeper_wrapper k
         \<and> arg_Authority args = (if k = CapabilityKeeper \<or> k = IBCFeeKeeper then None
             else Some (const I gov_ModuleName))"
  shows "ibc_wired I v w"
proof -
  have "k \<in> {CapabilityKeeper, IBCKeeper, IBCFeeKeeper, TransferKeeper, ICAHostKeeper,
        ICAControllerKeeper, WasmKeeper}" for k
    by (cases k) simp_all
  with assms show ?thesis unfolding ibc_wired_def by blast
qed

text \<open>
  What is documented: names of stores, subspaces, scopes, routes and modules are unique, and a
  registration under a fresh name succeeds; a keeper can be built from store keys that are not nil;
  the other calls succeed.  The constants of one kind differ.
\<close>

locale ibc_app =
  fixes I :: "('a, 'o, 'rt, 'h) ibc_steps"
    and view :: "'a \<Rightarrow> ('o, 'h) ibc_view"
    and routes :: "'rt \<Rightarrow> gostring \<rightharpoonup> ibc_stack"
  assumes store_names: "inj_on (const I)
      {capability_StoreKey, capability_MemStoreKey, ibcexported_StoreKey, ibctransfer_StoreKey,
       ibcfee_StoreKey, icahost_StoreKey, icacontroller_StoreKey, params_TStoreKey, wasm_StoreKey}"
    and module_names: "inj_on (const I) {ibcexported_ModuleName, ibctransfer_ModuleName,
      icacontroller_SubModuleName, icahost_SubModuleName, wasm_ModuleName}"
    and stores: "distinct (map key_name ks) \<Longrightarrow> key_name ` set ks \<inter> key_name ` view_keys (view a) = {} \<Longrightarrow>
      succeeds (\<lambda>b. view b = (view a)\<lparr>view_keys := view_keys (view a) \<union> set ks\<rparr>) (RegisterStores I ks a)"
    and find_key: "key \<in> view_keys (view a) \<Longrightarrow> UnsafeFindStoreKey I a (key_name key) = Some key"
    and subspace: "n \<notin> view_spaces (view a) \<Longrightarrow>
      succeeds (\<lambda>b. view b = (view a)\<lparr>view_spaces := insert n (view_spaces (view a))\<rparr>)
        (SubspaceWithKeyTable I n t a)"
    and keeper: "None \<notin> set (arg_Keys args) \<Longrightarrow>
      succeeds (\<lambda>b. view b = (view a)\<lparr>view_keepers := (view_keepers (view a))(k \<mapsto> args)\<rparr>)
        (SetKeeper I k args a)"
    and scope: "n \<notin> view_scopes (view a) \<Longrightarrow>
      succeeds (\<lambda>(sc, b). view b = (view a)\<lparr>view_scopes := insert n (view_scopes (view a))\<rparr>)
        (ScopeToModule I n a)"
    and query_router: "view (WithQueryRouter I a) = view a"
    and legacy_router: "succeeds (\<lambda>b. view b = view a) (SetLegacyRouter I a)"
    and new_router: "routes (NewRouter I) = Map.empty"
    and add_route: "routes r n = None \<Longrightarrow> succeeds (\<lambda>r'. routes r' = (routes r)(n \<mapsto> s)) (AddRoute I n s r)"
    and set_router: "view_router (view a) = None \<Longrightarrow>
      succeeds (\<lambda>b. view b = (view a)\<lparr>view_router := Some (routes r)\<rparr>) (SetRouter I r a)"
    and set_scoped: "view (SetScoped I f sc a) = view a"
    and modules: "distinct ms \<Longrightarrow> set ms \<inter> view_modules (view a) = {} \<Longrightarrow>
      succeeds (\<lambda>b. view b = (view a)\<lparr>view_modules := view_modules (view a) \<union> set ms\<rparr>)
        (RegisterModules I ms a)"
    and set_ante: "succeeds (\<lambda>b. view b = (view a)\<lparr>view_ante := Some h\<rparr>) (SetAnteHandler I h a)"
    and snapshots: "SnapshotExtensions I a = Some res \<Longrightarrow> \<exists>b. res = Inr b \<and> view b = view a"
    and post: "\<exists>h. NewPostHandler I = Inr h" "succeeds (\<lambda>b. view b = view a) (SetPostHandler I h a)"
    and annotations: "\<exists>o'. MergedRegistry I = Inr o' \<and> ValidateProtoAnnotations I o' = Inr ()"
begin

lemma key_of_registered:
  "KVStoreKey (const I c) \<in> view_keys (view a) \<Longrightarrow> key_of I a c = Some (KVStoreKey (const I c))"
  using find_key [of "KVStoreKey (const I c)" a] by (simp add: GetKey_def)

lemma mem_key_registered:
  "MemoryStoreKey n \<in> view_keys (view a) \<Longrightarrow>
    GetMemKey (UnsafeFindStoreKey I a) n = Some (MemoryStoreKey n)"
  using find_key [of "MemoryStoreKey n" a] by (simp add: GetMemKey_def)

lemma snapshot_step:
  "succeeds (\<lambda>b. view b = view a) (case SnapshotExtensions I a of
         None \<Rightarrow> Inr a
       | Some (Inl err) \<Rightarrow> Inl (Errorf (m @ err))
       | Some (Inr b) \<Rightarrow> Inr b)"
  using snapshots [of a] by (auto split: option.splits)

lemma post_step: "succeeds (\<lambda>b. view b = view a) (setPostHandler I a)"
  using post by (auto simp: setPostHandler_def)

lemma ante_step:
  assumes "app_BankKeeper (ante_view I a) \<noteq> None" "tx_SignModeHandler I \<noteq> None"
    and "\<exists>g. GetGasRegister I (Some (app_WasmKeeper (ante_view I a))) = Inr g"
  shows "succeeds (\<lambda>h. True) (setAnteHandler (ChainAnteDecorators I) (SimulationGasLimit I)
    (GetGasRegister I) (ante_view I a) (tx_SignModeHandler I) (DefaultSigGasConsumer I) nc ss)"
  using assms by (auto simp: setAnteHandler_def NewAnteHandler_def Let_def succeeds_def)

lemma wasm_spec:
  assumes "const I wasm_StoreKey \<notin> key_name ` view_keys (view a)"
    and "const I wasm_ModuleName \<notin> view_scopes (view a)" "M_wasm \<notin> view_modules (view a)"
    and "ReadNodeConfig I = Inr nc"
    and ante: "\<And>b. app_BankKeeper (ante_view I b) \<noteq> None" "tx_SignModeHandler I \<noteq> None"
      "\<And>b. \<exists>g. GetGasRegister I (Some (app_WasmKeeper (ante_view I b))) = Inr g"
  shows "succeeds (\<lambda>(st, b). st = FeeMiddleware WasmHandler \<and> (\<exists>sc h.
      view b = (view a)\<lparr>view_keys := insert (KVStoreKey (const I wasm_StoreKey)) (view_keys (view a)),
          view_scopes := insert (const I wasm_ModuleName) (view_scopes (view a)),
          view_keepers := (view_keepers (view a))(WasmKeeper \<mapsto> wasm_args I nc sc),
          view_modules := insert M_wasm (view_modules (view a)), view_ante := Some h\<rparr>))
    (registerWasmModules I a)"
proof -
  have 1: "succeeds (\<lambda>b. view b = (view a)\<lparr>view_keys := insert (KVStoreKey (const I wasm_StoreKey)) (view_keys (view a))\<rparr>)
    (case RegisterStores I [KVStoreKey (const I wasm_StoreKey)] a of
         Inl err \<Rightarrow> Inl (Panicked err) | Inr a \<Rightarrow> Inr a)"
    using stores [of "[KVStoreKey (const I wasm_StoreKey)]" a] assms(1)
    by (auto simp: succeeds_def)
  show ?thesis
    unfolding registerWasmModules_def Let_def assms(4) sum.case wasmModules_def
    apply (rule succeeds_bind [OF 1])
    apply (rule succeeds_bind [OF scope])
     apply (simp add: assms(2))
    apply (clarsimp simp only: rbind_simps split_beta)
    apply (rule succeeds_bind [OF keeper])
     apply (simp add: no_args_def key_of_registered)
    apply (rule succeeds_bind [OF modules])
      apply simp
     apply (simp add: assms(3))
    apply (rule succeeds_bind [OF ante_step [OF ante]])
    apply (rule succeeds_bind [OF set_ante])
    apply (rule succeeds_bind [OF snapshot_step])
    apply (rule succeeds_bind [OF post_step])
    using annotations
    apply (clarsimp simp: set_scoped key_of_registered wasm_args_def)
    apply (rule exI)+
    apply (rule refl)
    done
qed

text \<open>The contract as rules that run the code: each consumes what is known of the state.\<close>

lemma run_stores:
  "view a = v \<Longrightarrow> distinct (map key_name ks) \<Longrightarrow> key_name ` set ks \<inter> key_name ` view_keys v = {} \<Longrightarrow>
    (\<And>b. view b = v\<lparr>view_keys := view_keys v \<union> set ks\<rparr> \<Longrightarrow> succeeds P (k b)) \<Longrightarrow>
    succeeds P (rbind (RegisterStores I ks a) k)"
  using succeeds_bind [OF stores [of ks a]] by blast

lemma run_subspace:
  "view a = v \<Longrightarrow> n \<notin> view_spaces v \<Longrightarrow>
    (\<And>b. view b = v\<lparr>view_spaces := insert n (view_spaces v)\<rparr> \<Longrightarrow> succeeds P (k b)) \<Longrightarrow>
    succeeds P (rbind (SubspaceWithKeyTable I n t a) k)"
  using succeeds_bind [OF subspace [of n a]] by blast

lemma run_keeper:
  "view a = v \<Longrightarrow> None \<notin> set (arg_Keys args) \<Longrightarrow>
    (\<And>b. view b = v\<lparr>view_keepers := (view_keepers v)(kp \<mapsto> args)\<rparr> \<Longrightarrow> succeeds P (k b)) \<Longrightarrow>
    succeeds P (rbind (SetKeeper I kp args a) k)"
  using succeeds_bind [OF keeper [of args a kp]] by blast

lemma run_scope:
  "view a = v \<Longrightarrow> n \<notin> view_scopes v \<Longrightarrow>
    (\<And>sc b. view b = v\<lparr>view_scopes := insert n (view_scopes v)\<rparr> \<Longrightarrow> succeeds P (k sc b)) \<Longrightarrow>
    succeeds P (rbind (ScopeToModule I n a) (\<lambda>(sc, b). k sc b))"
  by (rule succeeds_bind [OF scope [of n a]]) auto

lemma run_legacy:
  "view a = v \<Longrightarrow> (\<And>b. view b = v \<Longrightarrow> succeeds P (k b)) \<Longrightarrow> succeeds P (rbind (SetLegacyRouter I a) k)"
  by (rule succeeds_bind [OF legacy_router]) simp

lemma run_route:
  "routes rt = m \<Longrightarrow> m n = None \<Longrightarrow>
    (\<And>rt'. routes rt' = m(n \<mapsto> s) \<Longrightarrow> succeeds P (k rt')) \<Longrightarrow>
    succeeds P (rbind (AddRoute I n s rt) k)"
  by (rule succeeds_bind [OF add_route]) auto

lemma run_router:
  "view a = v \<Longrightarrow> routes rt = m \<Longrightarrow> view_router v = None \<Longrightarrow>
    (\<And>b. view b = v\<lparr>view_router := Some m\<rparr> \<Longrightarrow> succeeds P (k b)) \<Longrightarrow>
    succeeds P (rbind (SetRouter I rt a) k)"
  by (rule succeeds_bind [OF set_router]) auto

lemma run_wasm:
  assumes "view a = v"
    and "const I wasm_StoreKey \<notin> key_name ` view_keys v"
    and "const I wasm_ModuleName \<notin> view_scopes v" "M_wasm \<notin> view_modules v"
    and "ReadNodeConfig I = Inr nc"
    and ante: "\<And>b. app_BankKeeper (ante_view I b) \<noteq> None" "tx_SignModeHandler I \<noteq> None"
      "\<And>b. \<exists>g. GetGasRegister I (Some (app_WasmKeeper (ante_view I b))) = Inr g"
    and "\<And>b sc h. view b = v\<lparr>view_keys := insert (KVStoreKey (const I wasm_StoreKey)) (view_keys v),
          view_scopes := insert (const I wasm_ModuleName) (view_scopes v),
          view_keepers := (view_keepers v)(WasmKeeper \<mapsto> wasm_args I nc sc),
          view_modules := insert M_wasm (view_modules v), view_ante := Some h\<rparr> \<Longrightarrow>
        succeeds P (k (FeeMiddleware WasmHandler) b)"
  shows "succeeds P (rbind (registerWasmModules I a) (\<lambda>(st, b). k st b))"
  by (rule succeeds_bind [OF wasm_spec [OF _ _ _ assms(5) ante]]) (use assms in auto)

lemma run_modules:
  assumes "view a = v" and "distinct ms" and "set ms \<inter> view_modules v = {}"
    and "\<And>b. view b = v\<lparr>view_modules := view_modules v \<union> set ms\<rparr> \<Longrightarrow> P b"
  shows "succeeds P (RegisterModules I ms a)"
  by (rule succeeds_mono [OF modules]) (use assms in auto)

lemma ibc_spec:
  assumes fresh: "not_wired I (view a)" and "ReadNodeConfig I = Inr nc"
    and ante: "\<And>b. app_BankKeeper (ante_view I b) \<noteq> None" "tx_SignModeHandler I \<noteq> None"
      "\<And>b. \<exists>g. GetGasRegister I (Some (app_WasmKeeper (ante_view I b))) = Inr g"
  shows "succeeds (\<lambda>b. ibc_wired I (view a) (view b)) (registerIBCModules I a)"
proof -
  obtain v where v: "view a = v" by blast
  note f = fresh [unfolded not_wired_def scoped_names_def v]
  note n = inj_on_eq_iff [OF store_names] inj_on_eq_iff [OF module_names]
  note k = key_of_registered mem_key_registered query_router
  show ?thesis
    unfolding registerIBCModules_def Let_def v
    apply (rule run_stores [OF v])
      apply (simp add: n)
     apply (use f in simp)
    apply (erule run_subspace, use f in \<open>simp add: n\<close>, simp)+
    apply (simp add: k)
    apply (erule run_keeper, simp add: no_args_def, simp)
    apply (erule run_scope, use f in \<open>simp add: n\<close>, simp add: k)+
    apply (erule run_keeper, simp add: no_args_def, simp add: k)+
    apply (rule run_keeper, subst query_router, assumption, simp add: no_args_def, simp)
    apply (erule run_legacy)
    apply (rule run_route [OF new_router], simp)
    apply (erule run_route, simp add: n)
    apply (erule run_route, simp add: n)
    apply (erule run_wasm [OF _ _ _ _ assms(2) ante])
       apply (use f in \<open>simp add: n\<close>)
      apply (use f in \<open>simp add: n\<close>)
     apply (use f in \<open>simp add: wasmModules_def\<close>)
    apply (erule run_route, simp add: n)
    apply (erule (1) run_router, use f in simp)
    apply (rule run_modules, simp add: set_scoped)
      apply (simp add: ibcModules_def)
     apply (use f in \<open>auto simp: ibcModules_def wasmModules_def\<close>)[1]
    apply (rule ibc_wiredI)
        apply (simp add: ibc_routes_def)
       apply (simp add: scoped_names_def insert_commute)
      apply (auto simp: wasmModules_def)[1]
     apply simp
    apply (elim insertE emptyE; simp add: no_args_def wasm_args_def)
    done
qed

end

section \<open>What the wiring leaves alone\<close>

text \<open>An observation that no call changes is not changed by the wiring.\<close>

definition ibc_keeps :: "('a \<Rightarrow> 'x) \<Rightarrow> ('a, 'o, 'rt, 'h) ibc_steps \<Rightarrow> bool" where
  "ibc_keeps obs I \<longleftrightarrow>
     (\<forall>ks a b. RegisterStores I ks a = Inr b \<longrightarrow> obs b = obs a)
   \<and> (\<forall>n t a b. SubspaceWithKeyTable I n t a = Inr b \<longrightarrow> obs b = obs a)
   \<and> (\<forall>k args a b. SetKeeper I k args a = Inr b \<longrightarrow> obs b = obs a)
   \<and> (\<forall>n a sc b. ScopeToModule I n a = Inr (sc, b) \<longrightarrow> obs b = obs a)
   \<and> (\<forall>a. obs (WithQueryRouter I a) = obs a)
   \<and> (\<forall>a b. SetLegacyRouter I a = Inr b \<longrightarrow> obs b = obs a)
   \<and> (\<forall>rt a b. SetRouter I rt a = Inr b \<longrightarrow> obs b = obs a)
   \<and> (\<forall>f sc a. obs (SetScoped I f sc a) = obs a)
   \<and> (\<forall>ms a b. RegisterModules I ms a = Inr b \<longrightarrow> obs b = obs a)
   \<and> (\<forall>h a b. SetAnteHandler I h a = Inr b \<longrightarrow> obs b = obs a)
   \<and> (\<forall>a b. SnapshotExtensions I a = Some (Inr b) \<longrightarrow> obs b = obs a)
   \<and> (\<forall>h a b. SetPostHandler I h a = Inr b \<longrightarrow> obs b = obs a)"

definition yields :: "('x \<Rightarrow> bool) \<Rightarrow> go_error + 'x \<Rightarrow> bool" where
  "yields P r \<longleftrightarrow> (\<forall>x. r = Inr x \<longrightarrow> P x)"

lemma yields_simps [simp]: "yields P (Inr x) \<longleftrightarrow> P x" "yields P (Inl e)"
  by (simp_all add: yields_def)

lemma yields_bind:
  "yields Q r \<Longrightarrow> (\<And>x. Q x \<Longrightarrow> yields P (k x)) \<Longrightarrow> yields P (rbind r k)"
  by (cases r) auto

lemma yields_any: "(\<And>x. yields P (k x)) \<Longrightarrow> yields P (rbind r k)"
  by (cases r) auto

lemma keeps_step:
  assumes "ibc_keeps obs I"
  shows "obs a = v \<Longrightarrow> yields (\<lambda>b. obs b = v) (RegisterStores I ks a)"
    "obs a = v \<Longrightarrow> yields (\<lambda>b. obs b = v) (SubspaceWithKeyTable I n t a)"
    "obs a = v \<Longrightarrow> yields (\<lambda>b. obs b = v) (SetKeeper I k args a)"
    "obs a = v \<Longrightarrow> yields (\<lambda>(sc, b). obs b = v) (ScopeToModule I n a)"
    "obs a = v \<Longrightarrow> yields (\<lambda>b. obs b = v) (SetLegacyRouter I a)"
    "obs a = v \<Longrightarrow> yields (\<lambda>b. obs b = v) (SetRouter I rt a)"
    "obs a = v \<Longrightarrow> yields (\<lambda>b. obs b = v) (RegisterModules I ms a)"
    "obs a = v \<Longrightarrow> yields (\<lambda>b. obs b = v) (SetAnteHandler I h a)"
    "obs a = v \<Longrightarrow> yields (\<lambda>b. obs b = v) (setPostHandler I a)"
    "obs (WithQueryRouter I a) = obs a" "obs (SetScoped I f sc a) = obs a"
    "obs a = v \<Longrightarrow> SnapshotExtensions I a = Some (Inr b) \<Longrightarrow> obs b = v"
  using assms by (auto simp: ibc_keeps_def yields_def setPostHandler_def split: sum.splits)

lemma registerWasmModules_keeps:
  assumes "ibc_keeps obs I" and "obs a = v"
  shows "yields (\<lambda>(st, b). obs b = v) (registerWasmModules I a)"
proof -
  note step = keeps_step [OF assms(1)]
  have stores: "yields (\<lambda>b. obs b = v) (case RegisterStores I ks a of
      Inl err \<Rightarrow> Inl (Panicked err) | Inr a \<Rightarrow> Inr a)" for ks
    using step(1) [OF assms(2), of ks] by (auto simp: yields_def split: sum.splits)
  show ?thesis
    unfolding registerWasmModules_def Let_def
    apply (rule yields_bind [OF stores])
    apply (rule yields_bind, erule step(4), clarsimp)
    apply (rule yields_any)
    apply (rule yields_bind, erule step(3))
    apply (rule yields_bind, erule step(7))
    apply (rule yields_any)
    apply (rule yields_bind, erule step(8))
    apply (rule yields_bind [where Q = "\<lambda>b. obs b = v"])
     apply (auto split: option.splits sum.splits dest: step(12))[1]
    apply (rule yields_bind, rule step(9), simp add: step(11))
    apply (rule yields_any)+
    apply simp
    done
qed

lemma registerIBCModules_keeps:
  assumes "ibc_keeps obs I" and "registerIBCModules I a = Inr b"
  shows "obs b = obs a"
proof -
  note step = keeps_step [OF assms(1)]
  have "yields (\<lambda>b. obs b = obs a) (registerIBCModules I a)"
    unfolding registerIBCModules_def Let_def
    apply (rule yields_bind, rule step(1), rule refl)
    apply (rule yields_bind, erule step(2))+
    apply (rule yields_bind, erule step(3))
    apply (rule yields_bind, erule step(4), clarsimp)+
    apply (rule yields_bind, erule step(3))+
    apply (rule yields_bind, rule step(3), simp add: step(10))
    apply (rule yields_bind, erule step(5))
    apply (rule yields_any, rule yields_any, rule yields_any)
    apply (rule yields_bind, erule registerWasmModules_keeps [OF assms(1)], clarsimp)
    apply (rule yields_any)
    apply (rule yields_bind, erule step(6))
    apply (rule step(7), simp add: step(11))
    done
  then show ?thesis
    using assms(2) by (simp add: yields_def)
qed

section \<open>Properties\<close>


text \<open>An application that is what is observed of it.\<close>

fun sample_const :: "ibc_const \<Rightarrow> gostring" where
  "sample_const capability_StoreKey = [1]" | "sample_const capability_MemStoreKey = [2]"
| "sample_const ibcexported_StoreKey = [3]" | "sample_const ibctransfer_StoreKey = [4]"
| "sample_const ibcfee_StoreKey = [5]" | "sample_const icahost_StoreKey = [6]"
| "sample_const icacontroller_StoreKey = [7]" | "sample_const params_TStoreKey = [8]"
| "sample_const wasm_StoreKey = [9]" | "sample_const ibcexported_ModuleName = [3]"
| "sample_const ibctransfer_ModuleName = [4]" | "sample_const icacontroller_SubModuleName = [7]"
| "sample_const icahost_SubModuleName = [6]" | "sample_const wasm_ModuleName = [9]"
| "sample_const gov_ModuleName = [10]"

type_synonym sample_ibc = "(gostring \<rightharpoonup> store_key) \<times> (nat, nat decorator list) ibc_view"

definition sample_view :: "sample_ibc \<Rightarrow> (nat, nat decorator list) ibc_view" where
  "sample_view a = (snd a)\<lparr>view_keys := {k. fst a (key_name k) = Some k}\<rparr>"

definition fresh_or_panic :: "bool \<Rightarrow> 'a \<Rightarrow> go_error + 'a" where
  "fresh_or_panic fresh a = (if fresh then Inr a else Inl (GoPanic (lit ''registered twice'')))"

definition sample_ibc_steps :: "(sample_ibc, nat, gostring \<rightharpoonup> ibc_stack, nat decorator list) ibc_steps" where
  "sample_ibc_steps = \<lparr>
     const = sample_const,
     RegisterStores = (\<lambda>ks (m, v). fresh_or_panic (\<forall>k \<in> set ks. m (key_name k) \<noteq> Some k)
       (fold (\<lambda>k m. m(key_name k \<mapsto> k)) ks m, v)),
     UnsafeFindStoreKey = (\<lambda>(m, v) n. m n),
     SubspaceWithKeyTable = (\<lambda>n t (m, v). fresh_or_panic (n \<notin> view_spaces v)
       (m, v\<lparr>view_spaces := insert n (view_spaces v)\<rparr>)),
     ParamsSubspace = (\<lambda>a n. Some 0), zero_Subspace = 0,
     SetKeeper = (\<lambda>k args (m, v). fresh_or_panic (None \<notin> set (arg_Keys args))
       (m, v\<lparr>view_keepers := (view_keepers v)(k \<mapsto> args)\<rparr>)),
     ScopeToModule = (\<lambda>n (m, v). fresh_or_panic (n \<notin> view_scopes v)
       (0, m, v\<lparr>view_scopes := insert n (view_scopes v)\<rparr>)),
     WithQueryRouter = id, SetLegacyRouter = Inr,
     NewRouter = Map.empty,
     AddRoute = (\<lambda>n s rt. fresh_or_panic (rt n = None) (rt(n \<mapsto> s))),
     SetRouter = (\<lambda>rt (m, v). fresh_or_panic (view_router v = None) (m, v\<lparr>view_router := Some rt\<rparr>)),
     SetScoped = (\<lambda>f sc a. a),
     RegisterModules = (\<lambda>ms (m, v). fresh_or_panic (set ms \<inter> view_modules v = {})
       (m, v\<lparr>view_modules := view_modules v \<union> set ms\<rparr>)),
     ReadNodeConfig = Inr 8,
     ChainAnteDecorators = id, SimulationGasLimit = id,
     GetGasRegister = (\<lambda>w. case w of None \<Rightarrow> Inl [] | Some x \<Rightarrow> Inr x),
     ante_view = (\<lambda>a. \<lparr>app_AccountKeeper = 1, app_BankKeeper = Some 2, app_FeeGrantKeeper = 3,
       app_IBCKeeper = Some 4, app_WasmKeeper = 5, app_CircuitBreakerKeeper = 6\<rparr>),
     tx_SignModeHandler = Some 7, DefaultSigGasConsumer = 9, NewKVStoreService = (\<lambda>k. 10),
     SetAnteHandler = (\<lambda>h (m, v). Inr (m, v\<lparr>view_ante := Some h\<rparr>)),
     SnapshotExtensions = (\<lambda>a. None), NewPostHandler = Inr [],
     SetPostHandler = (\<lambda>h a. Inr a), MergedRegistry = Inr 11, ValidateProtoAnnotations = (\<lambda>r. Inr ())\<rparr>"

lemma fold_keys:
  assumes "distinct (map key_name ks)"
  shows "fold (\<lambda>k m. m(key_name k \<mapsto> k)) ks m n = Some k
    \<longleftrightarrow> (k \<in> set ks \<and> key_name k = n) \<or> (n \<notin> key_name ` set ks \<and> m n = Some k)"
  using assms by (induction ks arbitrary: m) auto

interpretation sample_ibc: ibc_app sample_ibc_steps sample_view "\<lambda>rt. rt"
proof
  fix ks and a :: sample_ibc
  assume d: "distinct (map key_name ks)"
    and f: "key_name ` set ks \<inter> key_name ` view_keys (sample_view a) = {}"
  obtain m v where a: "a = (m, v)" by (cases a)
  have "{k. fold (\<lambda>k m. m(key_name k \<mapsto> k)) ks m (key_name k) = Some k}
      = {k. m (key_name k) = Some k} \<union> set ks"
    using f unfolding fold_keys [OF d] by (auto simp: sample_view_def a)
  moreover have "\<forall>k \<in> set ks. m (key_name k) \<noteq> Some k"
    using f by (auto simp: sample_view_def a)
  ultimately show "succeeds (\<lambda>b. sample_view b
      = (sample_view a)\<lparr>view_keys := view_keys (sample_view a) \<union> set ks\<rparr>) (RegisterStores sample_ibc_steps ks a)"
    by (simp add: a sample_ibc_steps_def fresh_or_panic_def sample_view_def)
qed (auto simp: sample_ibc_steps_def fresh_or_panic_def sample_view_def succeeds_def inj_on_def
    split: if_splits)


end
