(* ===== verification/App_Start.thy ===== *)
theory App_Start
  imports App_Ibc
begin

text \<open>
  The start of the node, \<open>app/app.go\<close>: \<open>New\<close>, which builds the application in a fixed order of
  steps, the handlers of the upgrades (\<open>app/upgrades.go\<close>) and the init chainer it installs.  The
  modules wired by hand are those of \<open>App_Ibc\<close>; what the other steps do is code of the SDK, and
  \<open>app_steps\<close> has them as functions of the application under construction.
\<close>

section \<open>The steps\<close>

text \<open>
  An error of a step is a text; a step that panics gives \<open>Inl\<close> of the panic.  \<open>SetStoreLoader\<close> and
  \<open>SetInitChainer\<close> panic on a sealed application.
\<close>

record 'a app_steps =
  depinject_Inject :: "gostring + 'a"
  SetOptimisticExecution :: "'a \<Rightarrow> 'a"
  appBuilder_Build :: "'a \<Rightarrow> 'a"
  RegisterStreamingServices :: "(gostring \<rightharpoonup> store_key) \<Rightarrow> 'a \<Rightarrow> gostring + 'a"
  GetStoreKeys :: "'a \<Rightarrow> store_key list"
  RegisterInvariants :: "'a \<Rightarrow> 'a"
  NewSimulationManager :: "'a \<Rightarrow> 'a"
  RegisterStoreDecoders :: "'a \<Rightarrow> 'a"
  SetInitChainer :: "'a \<Rightarrow> go_error + 'a"
  SetUpgradeHandler :: "gostring \<Rightarrow> 'a \<Rightarrow> 'a"
  ReadUpgradeInfoFromDisk :: "gostring + upgrade_info"
  IsSkipHeight :: "64 word \<Rightarrow> bool"
  SetStoreLoader :: "64 word \<Rightarrow> StoreUpgrades \<Rightarrow> 'a \<Rightarrow> go_error + 'a"
  app_Load :: "bool \<Rightarrow> 'a \<Rightarrow> gostring + 'a"
  InitializePinnedCodes :: "'a \<Rightarrow> gostring + 'a"

definition setUpgradeHandlers :: "'a app_steps \<Rightarrow> 'a \<Rightarrow> 'a" where
  "setUpgradeHandlers S app = fold (\<lambda>u app. SetUpgradeHandler S (UpgradeName u) app) Upgrades app"

text \<open>\<open>setUpgradeStoreLoader\<close> with the effect of its decision.\<close>

definition apply_store_loader :: "'a app_steps \<Rightarrow> 'a \<Rightarrow> go_error + 'a" where
  "apply_store_loader S app =
     rbind (setUpgradeStoreLoader (ReadUpgradeInfoFromDisk S) (IsSkipHeight S)) (\<lambda>l.
       case l of
         None \<Rightarrow> Inr app
       | Some (height, storeUpgrades) \<Rightarrow> SetStoreLoader S height storeUpgrades app)"

text \<open>
  \<open>New\<close>.  A failure of the dependency injection panics.  The last call returns the application
  beside the error; \<open>newApp\<close> and the export do not use it then.
\<close>

definition New ::
  "'a app_steps \<Rightarrow> ('a, 'o, 'rt, 'h) ibc_steps \<Rightarrow> bool \<Rightarrow> go_error + 'a" where
  "New S I loadLatest =
     rbind (case depinject_Inject S of Inl err \<Rightarrow> Inl (Panicked (Errorf err)) | Inr a \<Rightarrow> Inr a) (\<lambda>a1.
     let a2 = appBuilder_Build S (SetOptimisticExecution S a1) in
     rbind (registerIBCModules I a2) (\<lambda>a3.
     rbind (or_error (RegisterStreamingServices S (kvStoreKeys (GetStoreKeys S a3)) a3)) (\<lambda>a4.
     let a5 = RegisterStoreDecoders S (NewSimulationManager S (RegisterInvariants S a4)) in
     rbind (SetInitChainer S a5) (\<lambda>a6.
     let a7 = setUpgradeHandlers S a6 in
     rbind (apply_store_loader S a7) (\<lambda>a8.
     rbind (or_error (app_Load S loadLatest a8)) (\<lambda>a9.
     or_error (InitializePinnedCodes S a9)))))))"

text \<open>The init chainer: the versions of the modules are stored before the genesis runs.\<close>

definition InitChainer ::
  "('s \<Rightarrow> 'vm \<Rightarrow> go_error + 's) \<Rightarrow> 'vm \<Rightarrow> ('s \<Rightarrow> 'req \<Rightarrow> go_error + 'res) \<Rightarrow> 's \<Rightarrow> 'req
    \<Rightarrow> go_error + 'res" where
  "InitChainer SetModuleVersionMap versionMap initChainer ctx req =
     rbind (SetModuleVersionMap ctx versionMap) (\<lambda>ctx'. initChainer ctx' req)"

section \<open>The contract of the steps\<close>

text \<open>
  What the SDK documents: only \<open>Load\<close> seals the application, the setters panic exactly on a sealed
  one, and the other steps add their modules and handlers and take none away.
\<close>

definition steps_ok ::
  "'a app_steps \<Rightarrow> ('a \<Rightarrow> bool) \<Rightarrow> ('a \<Rightarrow> (64 word \<times> StoreUpgrades) option) \<Rightarrow> ('a \<Rightarrow> gostring set) \<Rightarrow> bool"
where
  "steps_ok S sealed loader handlers \<longleftrightarrow>
     (\<forall>a. depinject_Inject S = Inr a \<longrightarrow> \<not> sealed a \<and> loader a = None \<and> handlers a = {})
   \<and> (\<forall>a b. (b = SetOptimisticExecution S a \<or> b = appBuilder_Build S a \<or> (\<exists>ks. RegisterStreamingServices S ks a = Inr b) \<or> b = RegisterInvariants S a
        \<or> b = NewSimulationManager S a \<or> b = RegisterStoreDecoders S a)
        \<longrightarrow> sealed b = sealed a \<and> loader b = loader a \<and> handlers b = handlers a)
   \<and> (\<forall>a. if sealed a then SetInitChainer S a = Inl (GoPanic (lit ''SetInitChainer() on sealed BaseApp''))
        else \<exists>b. SetInitChainer S a = Inr b \<and> \<not> sealed b \<and> loader b = loader a \<and> handlers b = handlers a)
   \<and> (\<forall>n a. sealed (SetUpgradeHandler S n a) = sealed a \<and> loader (SetUpgradeHandler S n a) = loader a
        \<and> handlers (SetUpgradeHandler S n a) = insert n (handlers a))
   \<and> (\<forall>h u a. if sealed a then SetStoreLoader S h u a = Inl (GoPanic (lit ''SetStoreLoader() on sealed BaseApp''))
        else \<exists>b. SetStoreLoader S h u a = Inr b \<and> \<not> sealed b \<and> loader b = Some (h, u) \<and> handlers b = handlers a)
   \<and> (\<forall>l a b. app_Load S l a = Inr b \<or> InitializePinnedCodes S a = Inr b
        \<longrightarrow> (sealed a \<longrightarrow> sealed b) \<and> loader b = loader a \<and> handlers b = handlers a)
   \<and> (\<forall>l a b. app_Load S l a = Inr b \<longrightarrow> sealed b)"

text \<open>The loader a start installs for a plan.\<close>

definition expected_loader :: "'a app_steps \<Rightarrow> upgrade_info \<Rightarrow> (64 word \<times> StoreUpgrades) option" where
  "expected_loader S info =
     (if info_Name info = lit ''v2'' \<and> \<not> IsSkipHeight S (info_Height info)
      then Some (info_Height info, \<lparr>Added = [], Renamed = [], Deleted = []\<rparr>) else None)"

lemma setUpgradeHandlers_ok:
  assumes "steps_ok S sealed loader handlers"
  shows "sealed (setUpgradeHandlers S a) = sealed a" "loader (setUpgradeHandlers S a) = loader a"
    "handlers (setUpgradeHandlers S a) = UpgradeName ` set Upgrades \<union> handlers a"
proof -
  have h: "sealed (SetUpgradeHandler S n a) = sealed a" "loader (SetUpgradeHandler S n a) = loader a"
    "handlers (SetUpgradeHandler S n a) = insert n (handlers a)" for n a
    using assms unfolding steps_ok_def by blast+
  have "sealed (fold (\<lambda>u app. SetUpgradeHandler S (UpgradeName u) app) us a) = sealed a
    \<and> loader (fold (\<lambda>u app. SetUpgradeHandler S (UpgradeName u) app) us a) = loader a
    \<and> handlers (fold (\<lambda>u app. SetUpgradeHandler S (UpgradeName u) app) us a)
      = UpgradeName ` set us \<union> handlers a" for us
    by (induction us arbitrary: a) (auto simp: h)
  then show "sealed (setUpgradeHandlers S a) = sealed a" "loader (setUpgradeHandlers S a) = loader a"
    "handlers (setUpgradeHandlers S a) = UpgradeName ` set Upgrades \<union> handlers a"
    unfolding setUpgradeHandlers_def by blast+
qed

lemma apply_store_loader_ok:
  assumes "steps_ok S sealed loader handlers" and "\<not> sealed a" and "loader a = None"
  shows "apply_store_loader S a \<noteq> Inl (GoPanic m)"
    and "apply_store_loader S a = Inr b \<Longrightarrow> \<not> sealed b \<and> handlers b = handlers a
      \<and> (\<exists>info. ReadUpgradeInfoFromDisk S = Inr info \<and> loader b = expected_loader S info)"
proof -
  have set_loader: "\<exists>b. SetStoreLoader S h u a = Inr b \<and> \<not> sealed b \<and> loader b = Some (h, u)
      \<and> handlers b = handlers a" for h u
    using assms(1,2) unfolding steps_ok_def by presburger
  show "apply_store_loader S a \<noteq> Inl (GoPanic m)"
    using set_loader
    by (auto simp: apply_store_loader_def setUpgradeStoreLoader_def rbind_eq_Inl split: sum.splits
        option.splits if_splits dest: spec) (metis sum.distinct(1))
  show "\<not> sealed b \<and> handlers b = handlers a
      \<and> (\<exists>info. ReadUpgradeInfoFromDisk S = Inr info \<and> loader b = expected_loader S info)"
    if b: "apply_store_loader S a = Inr b"
  proof -
    obtain info where info: "ReadUpgradeInfoFromDisk S = Inr info"
      using b by (cases "ReadUpgradeInfoFromDisk S")
        (auto simp: apply_store_loader_def setUpgradeStoreLoader_def)
    then have "(case expected_loader S info of None \<Rightarrow> Inr a
        | Some (height, u) \<Rightarrow> SetStoreLoader S height u a) = Inr b"
      using b by (auto simp: apply_store_loader_def setUpgradeStoreLoader_def expected_loader_def
          Upgrades_def v2_Upgrade_def lit_def split: if_splits)
    moreover have "\<not> sealed b \<and> loader b = Some (h, u) \<and> handlers b = handlers a"
      if "SetStoreLoader S h u a = Inr b" for h u
      using set_loader [of h u] that by auto
    ultimately show ?thesis
      using info assms(2,3) by (cases "expected_loader S info") auto
  qed
qed

text \<open>The first half of \<open>New\<close>: the steps in front of the store loader keep the application unsealed.\<close>

lemma New_prepares:
  assumes "steps_ok S sealed loader handlers"
    and "ibc_keeps (\<lambda>a. (sealed a, loader a, handlers a)) I" and "depinject_Inject S = Inr a1"
    and "registerIBCModules I (appBuilder_Build S (SetOptimisticExecution S a1)) = Inr a3"
    and "RegisterStreamingServices S (kvStoreKeys (GetStoreKeys S a3)) a3 = Inr a4"
  shows "\<exists>a7. \<not> sealed a7 \<and> loader a7 = None \<and> handlers a7 = UpgradeName ` set Upgrades
    \<and> New S I loadLatest = rbind (apply_store_loader S a7) (\<lambda>a8.
        rbind (or_error (app_Load S loadLatest a8)) (\<lambda>a9. or_error (InitializePinnedCodes S a9)))"
proof -
  let ?a2 = "appBuilder_Build S (SetOptimisticExecution S a1)"
  let ?a5 = "RegisterStoreDecoders S (NewSimulationManager S (RegisterInvariants S a4))"
  let ?same = "\<lambda>a b. sealed b = sealed a \<and> loader b = loader a \<and> handlers b = handlers a"
  have a2: "\<not> sealed ?a2" "loader ?a2 = None" "handlers ?a2 = {}"
    using assms(1,3) unfolding steps_ok_def by metis+
  have reg: "RegisterStreamingServices S ks a = Inr b \<Longrightarrow> ?same a b"
    "?same a (RegisterInvariants S a)" "?same a (NewSimulationManager S a)"
    "?same a (RegisterStoreDecoders S a)" for a b ks
    using assms(1) unfolding steps_ok_def by blast+
  have chain: "\<exists>b. SetInitChainer S a = Inr b \<and> \<not> sealed b \<and> loader b = loader a \<and> handlers b = handlers a"
    if "\<not> sealed a" for a
    using assms(1) that unfolding steps_ok_def by presburger
  have "?same ?a2 a3"
    using registerIBCModules_keeps [OF assms(2,4)] by blast
  then have "?same ?a2 ?a5"
    using reg(1) [OF assms(5)] reg(2-4) by metis
  with a2 chain [of ?a5] obtain a6 where a6: "SetInitChainer S ?a5 = Inr a6"
    "\<not> sealed a6" "loader a6 = None" "handlers a6 = {}"
    by auto
  show ?thesis
    using a6 setUpgradeHandlers_ok [OF assms(1), of a6] assms(3-5)
    by (intro exI [of _ "setUpgradeHandlers S a6"]) (simp add: New_def Let_def del: kvStoreKeys.simps)
qed

lemma or_error_eq_Inr: "or_error r = Inr x \<longleftrightarrow> r = Inr x"
  by (cases r) (simp_all add: or_error_def)

text \<open>The second half: \<open>Load\<close> seals it.\<close>

lemma load_seals:
  assumes "steps_ok S sealed loader handlers" and "\<not> sealed a7" and "loader a7 = None"
    and "New S I loadLatest = rbind (apply_store_loader S a7) (\<lambda>a8.
        rbind (or_error (app_Load S loadLatest a8)) (\<lambda>a9. or_error (InitializePinnedCodes S a9)))"
  shows "New S I loadLatest \<noteq> Inl (GoPanic m)"
    and "New S I loadLatest = Inr app \<Longrightarrow> sealed app \<and> handlers app = handlers a7
      \<and> (\<exists>info. ReadUpgradeInfoFromDisk S = Inr info \<and> loader app = expected_loader S info)"
proof -
  have load: "sealed b \<and> loader b = loader a \<and> handlers b = handlers a" if "app_Load S l a = Inr b" for l a b
    using assms(1) that unfolding steps_ok_def by blast
  have pin: "(sealed a \<longrightarrow> sealed b) \<and> loader b = loader a \<and> handlers b = handlers a"
    if "InitializePinnedCodes S a = Inr b" for a b
    using assms(1) that unfolding steps_ok_def by blast
  show "New S I loadLatest \<noteq> Inl (GoPanic m)"
    using apply_store_loader_ok(1) [OF assms(1-3), of m]
    by (auto simp: assms(4) rbind_eq_Inl or_error_def split: sum.splits)
  show "sealed app \<and> handlers app = handlers a7
      \<and> (\<exists>info. ReadUpgradeInfoFromDisk S = Inr info \<and> loader app = expected_loader S info)"
    if run: "New S I loadLatest = Inr app"
  proof -
    obtain a8 a9 where "apply_store_loader S a7 = Inr a8" "app_Load S loadLatest a8 = Inr a9"
      "InitializePinnedCodes S a9 = Inr app"
      using run [unfolded assms(4) rbind_eq_Inr or_error_eq_Inr] by blast
    then show ?thesis
      using apply_store_loader_ok(2) [OF assms(1-3)] load pin by metis
  qed
qed

text \<open>
  C14: the order of the start-up.  The setters of the application run before \<open>Load\<close> seals it, so the
  start never panics on a sealed application: the only panic of its own is one of the wiring by
  hand; when it succeeds, the upgrade plan on disk was
  readable, every upgrade of the binary has its handler, and a store loader was installed exactly
  for a pending plan named \<open>v2\<close> whose height is not skipped.
\<close>

theorem New_correct:
  assumes "steps_ok S sealed loader handlers"
    and "ibc_keeps (\<lambda>a. (sealed a, loader a, handlers a)) I"
  shows "(New S I loadLatest = Inl (GoPanic m) \<longrightarrow> (\<exists>a. depinject_Inject S = Inr a
        \<and> registerIBCModules I (appBuilder_Build S (SetOptimisticExecution S a)) = Inl (GoPanic m)))
    \<and> (\<forall>app. New S I loadLatest = Inr app \<longrightarrow>
        sealed app \<and> handlers app = UpgradeName ` set Upgrades
        \<and> (\<exists>info. ReadUpgradeInfoFromDisk S = Inr info \<and> loader app = expected_loader S info))"
proof (cases "depinject_Inject S")
  case (Inl e)
  then show ?thesis by (simp add: New_def)
next
  case (Inr a1)
  let ?a2 = "appBuilder_Build S (SetOptimisticExecution S a1)"
  show ?thesis
  proof (cases "registerIBCModules I ?a2")
    case Inl
    with Inr show ?thesis by (simp add: New_def Let_def)
  next
    case a3: (Inr a3)
    show ?thesis
    proof (cases "RegisterStreamingServices S (kvStoreKeys (GetStoreKeys S a3)) a3")
      case Inl
      with Inr a3 show ?thesis by (simp add: New_def Let_def)
    next
      case (Inr a4)
      from New_prepares [OF assms \<open>depinject_Inject S = Inr a1\<close> a3 this] obtain a7 where a7:
        "\<not> sealed a7" "loader a7 = None" "handlers a7 = UpgradeName ` set Upgrades"
        "New S I loadLatest = rbind (apply_store_loader S a7) (\<lambda>a8.
          rbind (or_error (app_Load S loadLatest a8)) (\<lambda>a9. or_error (InitializePinnedCodes S a9)))"
        by blast
      show ?thesis
        using load_seals [OF assms(1) a7(1,2,4)] unfolding a7(3) by blast
    qed
  qed
qed

text \<open>An application of three fields for the witness, with a pending upgrade at height 7.\<close>

record sample_app =
  sample_sealed :: bool
  sample_loader :: "(64 word \<times> StoreUpgrades) option"
  sample_handlers :: "gostring list"

definition sample_steps :: "sample_app app_steps" where
  "sample_steps =
     \<lparr>depinject_Inject = Inr \<lparr>sample_sealed = False, sample_loader = None, sample_handlers = []\<rparr>,
      SetOptimisticExecution = id, appBuilder_Build = id, 
      RegisterStreamingServices = (\<lambda>ks. Inr), GetStoreKeys = (\<lambda>a. [KVStoreKey (lit ''bank'')]),
      RegisterInvariants = id, NewSimulationManager = id, RegisterStoreDecoders = id,
      SetInitChainer = (\<lambda>a. if sample_sealed a
        then Inl (GoPanic (lit ''SetInitChainer() on sealed BaseApp'')) else Inr a),
      SetUpgradeHandler = (\<lambda>n a. a\<lparr>sample_handlers := n # sample_handlers a\<rparr>),
      ReadUpgradeInfoFromDisk = Inr \<lparr>info_Name = lit ''v2'', info_Height = 7\<rparr>,
      IsSkipHeight = (\<lambda>h. False),
      SetStoreLoader = (\<lambda>h u a. if sample_sealed a
        then Inl (GoPanic (lit ''SetStoreLoader() on sealed BaseApp''))
        else Inr (a\<lparr>sample_loader := Some (h, u)\<rparr>)),
      app_Load = (\<lambda>l a. Inr (a\<lparr>sample_sealed := True\<rparr>)), InitializePinnedCodes = Inr\<rparr>"

text \<open>A wiring that leaves the application as it is.\<close>

definition idle_ibc :: "(sample_app, nat, unit, unit) ibc_steps" where
  "idle_ibc = \<lparr>
     const = sample_const, RegisterStores = (\<lambda>ks. Inr), UnsafeFindStoreKey = (\<lambda>a n. None),
     SubspaceWithKeyTable = (\<lambda>n t. Inr), ParamsSubspace = (\<lambda>a n. None), zero_Subspace = 0,
     SetKeeper = (\<lambda>k args. Inr), ScopeToModule = (\<lambda>n a. Inr (0, a)), WithQueryRouter = id,
     SetLegacyRouter = Inr, NewRouter = (), AddRoute = (\<lambda>n s. Inr), SetRouter = (\<lambda>rt. Inr),
     SetScoped = (\<lambda>f sc a. a), RegisterModules = (\<lambda>ms. Inr), ReadNodeConfig = Inr 0,
     ChainAnteDecorators = (\<lambda>ds. ()), SimulationGasLimit = id, GetGasRegister = (\<lambda>w. Inr 0),
     ante_view = (\<lambda>a. \<lparr>app_AccountKeeper = 1, app_BankKeeper = Some 2, app_FeeGrantKeeper = 3,
       app_IBCKeeper = None, app_WasmKeeper = 5, app_CircuitBreakerKeeper = 6\<rparr>),
     tx_SignModeHandler = Some 7, DefaultSigGasConsumer = 9, NewKVStoreService = (\<lambda>k. 10),
     SetAnteHandler = (\<lambda>h. Inr), SnapshotExtensions = (\<lambda>a. None), NewPostHandler = Inr (),
     SetPostHandler = (\<lambda>h. Inr), MergedRegistry = Inr 11, ValidateProtoAnnotations = (\<lambda>r. Inr ())\<rparr>"

lemma idle_ibc_wiring: "registerIBCModules idle_ibc a = Inr a"
  by (simp add: registerIBCModules_def registerWasmModules_def setPostHandler_def idle_ibc_def
      setAnteHandler_def NewAnteHandler_def Let_def)

theorem New_correct_witness:
  "New sample_steps idle_ibc True = Inr \<lparr>sample_sealed = True,
      sample_loader = Some (7, \<lparr>Added = [], Renamed = [], Deleted = []\<rparr>), sample_handlers = [lit ''v2'']\<rparr>
    \<and> New sample_steps idle_ibc True \<noteq> Inl (GoPanic [])"
proof -
  have s: "steps_ok sample_steps sample_sealed sample_loader (\<lambda>a. set (sample_handlers a))"
    by (auto simp: steps_ok_def sample_steps_def)
  have k: "ibc_keeps (\<lambda>a. (sample_sealed a, sample_loader a, set (sample_handlers a))) idle_ibc"
    by (simp add: ibc_keeps_def idle_ibc_def)
  have "New sample_steps idle_ibc True \<noteq> Inl (GoPanic [])"
    using New_correct [OF s k, of True "[]"] by (auto simp: idle_ibc_wiring)
  moreover have "New sample_steps idle_ibc True = Inr \<lparr>sample_sealed = True,
      sample_loader = Some (7, \<lparr>Added = [], Renamed = [], Deleted = []\<rparr>), sample_handlers = [lit ''v2'']\<rparr>"
    by (simp add: New_def sample_steps_def apply_store_loader_def setUpgradeStoreLoader_def idle_ibc_wiring
        setUpgradeHandlers_def Upgrades_def v2_Upgrade_def lit_def del: kvStoreKeys.simps)
  ultimately show ?thesis by blast
qed

end
