(* ===== verification/Cmd_Node.thy ===== *)
theory Cmd_Node
  imports App_Start App_Export
begin

text \<open>
  The commands of the node, \<open>cmd/medasdigitald/cmd\<close>: starting and exporting (\<open>newApp\<close> and
  \<open>appExport\<close> of \<open>commands.go\<close>) and the default flags of \<open>root.go\<close>.  The options of the
  application, the steps of its start and the option library are arguments.
\<close>

section \<open>Starting and exporting\<close>

text \<open>A panic, as against an error a function returns.\<close>

fun is_panic :: "go_error \<Rightarrow> bool" where
  "is_panic (Panicked e) = True"
| "is_panic (GoPanic m) = True"
| "is_panic (LogFatal m) = True"
| "is_panic e = False"

definition newApp :: "'a app_steps \<Rightarrow> ('a, 'o, 'rt, 'h) ibc_steps \<Rightarrow> go_error + 'a" where
  "newApp S I =
     (case New S I True of
        Inl err \<Rightarrow> if is_panic err then Inl err else Inl (Panicked err)
      | Inr app \<Rightarrow> Inr app)"

text \<open>
  \<open>appExport\<close>: the home directory is a string option; \<open>viper\<close> is the option store when it is one,
  and its method sets the period of the invariant checks to 1 before the application is built.
\<close>

definition appExport ::
  "('o \<Rightarrow> 'a app_steps) \<Rightarrow> ('o \<Rightarrow> ('a, 'k, 'rt, 'h) ibc_steps) \<Rightarrow> ('o \<Rightarrow> gostring option) \<Rightarrow> ('o \<Rightarrow> bool) \<Rightarrow> (int \<Rightarrow> 'o \<Rightarrow> 'o)
    \<Rightarrow> (int \<Rightarrow> 'a \<Rightarrow> gostring + 'a) \<Rightarrow> ('a \<Rightarrow> bool \<Rightarrow> gostring list \<Rightarrow> gostring list \<Rightarrow> go_error + exported_app)
    \<Rightarrow> int \<Rightarrow> bool \<Rightarrow> gostring list \<Rightarrow> 'o \<Rightarrow> gostring list \<Rightarrow> go_error + exported_app" where
  "appExport steps ibc home isViper setInvCheckPeriod LoadHeight export height forZeroHeight
     jailAllowedAddrs appOpts modulesToExport =
     (if home appOpts = None \<or> home appOpts = Some []
      then Inl (Errorf (lit ''application home not set''))
      else if \<not> isViper appOpts then Inl (Errorf (lit ''appOpts is not viper.Viper''))
      else let appOpts' = setInvCheckPeriod 1 appOpts in
        rbind (if height \<noteq> - 1
            then rbind (New (steps appOpts') (ibc appOpts') False) (\<lambda>bApp. or_error (LoadHeight height bApp))
            else New (steps appOpts') (ibc appOpts') True) (\<lambda>bApp.
        export bApp forZeroHeight jailAllowedAddrs modulesToExport))"

section \<open>Default flags\<close>

record flag =
  DefValue :: gostring
  flag_Value :: gostring

text \<open>A command has its usage text, its flags, its persistent flags and its subcommands.\<close>

datatype command = Command gostring "gostring \<rightharpoonup> flag" "gostring \<rightharpoonup> flag" "command list"

text \<open>
  \<open>set\<close>: \<open>Value.Set\<close> parses the text by the type of the flag and may refuse it; its error is
  dropped.  \<open>set_value\<close> is that method.
\<close>

definition set_default ::
  "(flag \<Rightarrow> gostring \<Rightarrow> flag) \<Rightarrow> gostring \<times> gostring \<Rightarrow> (gostring \<rightharpoonup> flag) \<Rightarrow> gostring \<rightharpoonup> flag" where
  "set_default set_value d s = (case d of (key, val) \<Rightarrow>
     (case s key of None \<Rightarrow> s | Some f \<Rightarrow> s(key \<mapsto> set_value (f\<lparr>DefValue := val\<rparr>) val)))"

text \<open>The map of defaults is visited in some order; it is the list in that order.\<close>

fun overwriteFlagDefaults ::
  "(flag \<Rightarrow> gostring \<Rightarrow> flag) \<Rightarrow> (gostring \<times> gostring) list \<Rightarrow> command \<Rightarrow> command" where
  "overwriteFlagDefaults set_value defaults (Command use fs ps cs) =
     Command use (fold (set_default set_value) defaults fs) (fold (set_default set_value) defaults ps)
       (map (overwriteFlagDefaults set_value defaults) cs)"

fun all_flags :: "command \<Rightarrow> (gostring \<times> flag) set" where
  "all_flags (Command use fs ps cs) = {(n, f). fs n = Some f} \<union> {(n, f). ps n = Some f} \<union> \<Union> (set (map all_flags cs))"

definition defaulted ::
  "(flag \<Rightarrow> gostring \<Rightarrow> flag) \<Rightarrow> (gostring \<times> gostring) list \<Rightarrow> gostring \<Rightarrow> flag \<Rightarrow> flag" where
  "defaulted set_value defaults n f =
     (case map_of defaults n of None \<Rightarrow> f | Some v \<Rightarrow> set_value (f\<lparr>DefValue := v\<rparr>) v)"

lemma fold_set_default:
  assumes "distinct (map fst ds)"
  shows "fold (set_default set_value) ds s n = map_option (defaulted set_value ds n) (s n)"
  using assms
proof (induction ds arbitrary: s)
  case Nil
  then show ?case by (simp add: defaulted_def option.map_ident)
next
  case (Cons d ds)
  obtain k v where d: "d = (k, v)" by (cases d)
  have "set_default set_value d s n
      = map_option (\<lambda>f. if n = k then set_value (f\<lparr>DefValue := v\<rparr>) v else f) (s n)"
    by (cases "s n") (auto simp: set_default_def d split: option.splits)
  moreover have "map_of ds k = None"
    using Cons.prems d by (simp add: map_of_eq_None_iff)
  ultimately show ?case
    using Cons by (cases "s n") (auto simp: d defaulted_def split: option.splits)
qed

lemma image_Union_map: "(\<And>c. c \<in> set cs \<Longrightarrow> h c = g ` k c) \<Longrightarrow> \<Union> (h ` set cs) = g ` \<Union> (k ` set cs)"
  by auto

text \<open>
  The flags of the whole command tree, of the root and of every subcommand at any depth, are
  those from before with the named ones set to the given defaults, whatever the order in which the
  map of defaults is visited.
\<close>

theorem overwriteFlagDefaults_correct:
  assumes "distinct (map fst defaults)"
  shows "all_flags (overwriteFlagDefaults set_value defaults c)
    = (\<lambda>(n, f). (n, defaulted set_value defaults n f)) ` all_flags c"
proof (induction c rule: all_flags.induct)
  case (1 use fs ps cs)
  let ?g = "\<lambda>(n, f). (n, defaulted set_value defaults n f)"
  have s: "{(n, f). fold (set_default set_value) defaults s n = Some f} = ?g ` {(n, f). s n = Some f}" for s
    by (auto simp: fold_set_default [OF assms])
  have "\<Union> ((\<lambda>c. all_flags (overwriteFlagDefaults set_value defaults c)) ` set cs)
      = ?g ` \<Union> (all_flags ` set cs)"
    using 1 by (rule image_Union_map)
  then show ?case
    by (simp add: s image_Un image_image)
qed

theorem overwriteFlagDefaults_correct_witness:
  "all_flags (overwriteFlagDefaults (\<lambda>f v. f\<lparr>flag_Value := v\<rparr>)
      [(lit ''chain-id'', lit ''medasdigital''), (lit ''keyring-backend'', lit ''test'')]
      (Command [] Map.empty Map.empty
        [Command [] [lit ''chain-id'' \<mapsto> \<lparr>DefValue = [], flag_Value = []\<rparr>] Map.empty []]))
    = {(lit ''chain-id'', \<lparr>DefValue = lit ''medasdigital'', flag_Value = lit ''medasdigital''\<rparr>)}"
proof -
  have "distinct (map fst [(lit ''chain-id'', lit ''medasdigital''), (lit ''keyring-backend'', lit ''test'')])"
    by (simp add: lit_def)
  note correct = overwriteFlagDefaults_correct [OF this, where set_value = "\<lambda>f v. f\<lparr>flag_Value := v\<rparr>"
    and c = "Command [] Map.empty Map.empty
        [Command [] [lit ''chain-id'' \<mapsto> \<lparr>DefValue = [], flag_Value = []\<rparr>] Map.empty []]"]
  have "all_flags (Command [] Map.empty Map.empty
        [Command [] [lit ''chain-id'' \<mapsto> \<lparr>DefValue = [], flag_Value = []\<rparr>] Map.empty []])
      = {(lit ''chain-id'', \<lparr>DefValue = [], flag_Value = []\<rparr>)}"
    by (auto split: if_splits)
  then show ?thesis
    by (simp only: correct) (simp add: defaulted_def)
qed

end
