(* ===== verification/Cmd_Testnet.thy ===== *)
theory Cmd_Testnet
  imports Cmd_Node "HOL-Library.Sublist"
begin

text \<open>
  The in-place test network, \<open>cmd/medasdigitald/cmd/testnet.go\<close>: the arguments of the command and
  the change it makes to the state, which replaces the validators of a chain by one and funds some
  accounts.  The stores and the keepers are the SDK's; \<open>testnet_env\<close> has the calls the code makes,
  as functions of the state of the multistore, and the locale \<open>testnet_app\<close> what is documented of
  them.
\<close>

section \<open>Arguments\<close>

datatype opt_key =
    KeyNewValAddr | KeyUserPubKey | KeyNewOpAddr | KeyTriggerTestnetUpgrade
  | flagAccountsToFund | FlagHome

text \<open>What \<open>appOpts.Get\<close> gives, by its dynamic type; a public key is its bytes.\<close>

datatype opt_value =
    HexBytesValue bytes | PubKeyValue bytes | StringValue gostring | OtherValue

record valArgs =
  newValAddr :: bytes
  newOperatorAddress :: gostring
  newValPubKey :: bytes
  accountsToFund :: "bytes list"
  upgradeToTrigger :: gostring
  homeDir :: gostring

text \<open>\<open>strings.Split\<close> at a separator of one byte.\<close>

fun Split :: "gostring \<Rightarrow> byte \<Rightarrow> gostring list" where
  "Split [] sep = [[]]"
| "Split (c # cs) sep =
     (if c = sep then [] # Split cs sep
      else (case Split cs sep of p # ps \<Rightarrow> (c # p) # ps | [] \<Rightarrow> [[c]]))"

definition comma :: byte where
  "comma = of_char (CHR '','')"

text \<open>The loop over the parts of the list of accounts.\<close>

definition parse_accounts ::
  "(gostring \<Rightarrow> gostring + bytes) \<Rightarrow> gostring \<Rightarrow> go_error + bytes list" where
  "parse_accounts AccAddress accountsString =
     rfold (\<lambda>account accs.
       if account \<noteq> [] then
         (case AccAddress account of
            Inl err \<Rightarrow> Inl (Errorf (lit ''invalid bech32 address format '' @ err))
          | Inr addr \<Rightarrow> Inr (accs @ [addr]))
       else Inr accs) (Split accountsString comma) []"

definition getCommandArgs ::
  "(gostring \<Rightarrow> gostring + bytes) \<Rightarrow> (opt_value \<Rightarrow> gostring) \<Rightarrow> (opt_key \<Rightarrow> opt_value)
    \<Rightarrow> go_error + valArgs" where
  "getCommandArgs AccAddress ToString appOpts =
     (case appOpts KeyNewValAddr of HexBytesValue newValAddr' \<Rightarrow>
     (case appOpts KeyUserPubKey of PubKeyValue newValPubKey' \<Rightarrow>
     (case appOpts KeyNewOpAddr of StringValue newOperatorAddress' \<Rightarrow>
     (case appOpts KeyTriggerTestnetUpgrade of StringValue upgradeToTrigger' \<Rightarrow>
       rbind (parse_accounts AccAddress (ToString (appOpts flagAccountsToFund))) (\<lambda>accounts.
       let home = ToString (appOpts FlagHome) in
       if home = [] then Inl (Errorf (lit ''invalid home dir''))
       else Inr \<lparr>newValAddr = newValAddr', newOperatorAddress = newOperatorAddress',
         newValPubKey = newValPubKey', accountsToFund = accounts,
         upgradeToTrigger = upgradeToTrigger', homeDir = home\<rparr>)
     | _ \<Rightarrow> Inl (GoPanic (lit ''upgradeToTrigger is not of type string'')))
     | _ \<Rightarrow> Inl (GoPanic (lit ''newOperatorAddress is not of type string'')))
     | _ \<Rightarrow> Inl (GoPanic (lit ''newValPubKey is not of type crypto.PubKey'')))
     | _ \<Rightarrow> Inl (GoPanic (lit ''newValAddr is not of type bytes.HexBytes'')))"

section \<open>The calls on the state\<close>

text \<open>The validator and the signing info the command creates; a \<open>LegacyDec\<close> is its integer.\<close>

record new_validator =
  val_OperatorAddress :: gostring
  val_ConsensusPubkey :: bytes
  val_Jailed :: bool
  val_Bonded :: bool
  val_Tokens :: int
  val_DelegatorShares :: int
  val_Moniker :: gostring
  val_Rate :: int
  val_MaxRate :: int
  val_MaxChangeRate :: int
  val_MinSelfDelegation :: int

record new_signing_info =
  signing_Address :: bytes
  signing_StartHeight :: int
  signing_Tombstoned :: bool

text \<open>
  The calls whose error the code drops give the state after the call.  \<open>StoreKeys\<close> has the keys
  \<open>stakingStore.Iterator(p, PrefixEndBytes(p))\<close> visits, those of the prefix \<open>p\<close>; the code deletes
  each key it visits.
\<close>

record ('s, 'coins) testnet_env =
  NewAnyWithValue :: "bytes \<Rightarrow> gostring + bytes"
  LegacyMustNewDecFromStr :: "gostring \<Rightarrow> int"
  StringToBytes :: "gostring \<Rightarrow> gostring + bytes"
  ValidatorsPowerStoreKeys :: "'s \<Rightarrow> gostring + bytes list"
  LastValidatorsKeys :: "'s \<Rightarrow> gostring + bytes list"
  StoreKeys :: "'s \<Rightarrow> bytes \<Rightarrow> bytes list"
  StoreDelete :: "'s \<Rightarrow> bytes \<Rightarrow> 's"
  ValidatorsKey :: bytes
  ValidatorQueueKey :: bytes
  PutValidator :: "'s \<Rightarrow> new_validator \<Rightarrow> 's"
  SetValidatorByConsAddr :: "'s \<Rightarrow> new_validator \<Rightarrow> gostring + 's"
  SetValidatorByPowerIndex :: "'s \<Rightarrow> new_validator \<Rightarrow> 's"
  SetLastValidatorPower :: "'s \<Rightarrow> bytes \<Rightarrow> int \<Rightarrow> 's"
  HookAfterValidatorCreated :: "'s \<Rightarrow> bytes \<Rightarrow> gostring + 's"
  SetValidatorHistoricalRewards :: "'s \<Rightarrow> bytes \<Rightarrow> nat \<Rightarrow> nat \<Rightarrow> 's"
  SetValidatorCurrentRewards :: "'s \<Rightarrow> bytes \<Rightarrow> nat \<Rightarrow> 's"
  SetValidatorAccumulatedCommission :: "'s \<Rightarrow> bytes \<Rightarrow> 's"
  SetValidatorOutstandingRewards :: "'s \<Rightarrow> bytes \<Rightarrow> 's"
  SetSigningInfo :: "'s \<Rightarrow> bytes \<Rightarrow> new_signing_info \<Rightarrow> 's"
  BondDenom :: "'s \<Rightarrow> gostring + gostring"
  NewCoins :: "gostring \<Rightarrow> int \<Rightarrow> 'coins"
  MintCoins :: "'s \<Rightarrow> 'coins \<Rightarrow> gostring + 's"
  SendCoinsFromModuleToAccount :: "'s \<Rightarrow> bytes \<Rightarrow> 'coins \<Rightarrow> gostring + 's"

definition valVotingPower :: int where
  "valVotingPower = 900000000000000"

section \<open>The change of the state\<close>

definition newVal :: "('s, 'coins) testnet_env \<Rightarrow> valArgs \<Rightarrow> bytes \<Rightarrow> new_validator" where
  "newVal E args pubkeyAny = \<lparr>
     val_OperatorAddress = newOperatorAddress args, val_ConsensusPubkey = pubkeyAny,
     val_Jailed = False, val_Bonded = True, val_Tokens = valVotingPower,
     val_DelegatorShares = LegacyMustNewDecFromStr E (lit ''10000000''),
     val_Moniker = lit ''Testnet Validator'',
     val_Rate = LegacyMustNewDecFromStr E (lit ''0.05''),
     val_MaxRate = LegacyMustNewDecFromStr E (lit ''0.1''),
     val_MaxChangeRate = LegacyMustNewDecFromStr E (lit ''0.05''),
     val_MinSelfDelegation = 1\<rparr>"

definition delete_keys :: "('s, 'coins) testnet_env \<Rightarrow> bytes list \<Rightarrow> 's \<Rightarrow> 's" where
  "delete_keys E ks s = fold (\<lambda>k s. StoreDelete E s k) ks s"

definition remove_validators :: "('s, 'coins) testnet_env \<Rightarrow> 's \<Rightarrow> go_error + 's" where
  "remove_validators E s0 =
     rbind (or_fatal (ValidatorsPowerStoreKeys E s0)) (\<lambda>ks.
     let s1 = delete_keys E ks s0 in
     rbind (or_fatal (LastValidatorsKeys E s1)) (\<lambda>ks.
     let s2 = delete_keys E ks s1;
         s3 = delete_keys E (StoreKeys E s2 (ValidatorsKey E)) s2 in
     Inr (delete_keys E (StoreKeys E s3 (ValidatorQueueKey E)) s3)))"

definition fund_accounts :: "('s, 'coins) testnet_env \<Rightarrow> 'coins \<Rightarrow> bytes list \<Rightarrow> 's \<Rightarrow> go_error + 's" where
  "fund_accounts E defaultCoins accounts s =
     rfold (\<lambda>account s.
       rbind (or_fatal (MintCoins E s defaultCoins)) (\<lambda>s'.
         or_fatal (SendCoinsFromModuleToAccount E s' account defaultCoins))) accounts s"

text \<open>\<open>tmos.Exit\<close> ends the process with the text of the error.\<close>

definition initAppForTestnet ::
  "('s, 'coins) testnet_env \<Rightarrow> int \<Rightarrow> valArgs \<Rightarrow> 's \<Rightarrow> go_error + 's" where
  "initAppForTestnet E lastBlockHeight args s0 =
     rbind (or_fatal (NewAnyWithValue E (newValPubKey args))) (\<lambda>pubkeyAny.
     let v = newVal E args pubkeyAny in
     rbind (or_fatal (StringToBytes E (val_OperatorAddress v))) (\<lambda>validator.
     rbind (remove_validators E s0) (\<lambda>s1.
     rbind (or_fatal (SetValidatorByConsAddr E (PutValidator E s1 v) v)) (\<lambda>s2.
     let s3 = SetLastValidatorPower E (SetValidatorByPowerIndex E s2 v) validator 0 in
     rbind (or_fatal (HookAfterValidatorCreated E s3 validator)) (\<lambda>s4.
     let s5 = SetValidatorHistoricalRewards E s4 validator 0 1;
         s6 = SetValidatorCurrentRewards E s5 validator 1;
         s7 = SetValidatorAccumulatedCommission E s6 validator;
         s8 = SetValidatorOutstandingRewards E s7 validator;
         s9 = SetSigningInfo E s8 (newValAddr args)
           \<lparr>signing_Address = newValAddr args, signing_StartHeight = wrap64 (lastBlockHeight - 1),
            signing_Tombstoned = False\<rparr> in
     rbind (or_fatal (BondDenom E s9)) (\<lambda>bondDenom.
       fund_accounts E (NewCoins E bondDenom 1000000000) (accountsToFund args) s9))))))"

text \<open>\<open>newTestnetApp\<close>: the application, whose type is the one the assertion asks for.\<close>

definition newTestnetApp ::
  "('s, 'coins) testnet_env \<Rightarrow> ('s \<Rightarrow> int) \<Rightarrow> (gostring \<Rightarrow> gostring + bytes) \<Rightarrow> (opt_value \<Rightarrow> gostring)
    \<Rightarrow> 's app_steps \<Rightarrow> ('s, 'o, 'rt, 'h) ibc_steps \<Rightarrow> (opt_key \<Rightarrow> opt_value) \<Rightarrow> go_error + 's" where
  "newTestnetApp E LastBlockHeight AccAddress ToString S I appOpts =
     rbind (newApp S I) (\<lambda>testApp.
     rbind (case getCommandArgs AccAddress ToString appOpts of
         Inl err \<Rightarrow> if is_panic err then Inl err else Inl (Panicked err)
       | Inr args \<Rightarrow> Inr args) (\<lambda>args.
     initAppForTestnet E (LastBlockHeight testApp) args testApp))"

section \<open>The list of accounts\<close>

text \<open>The text of a list of addresses, separated by commas.\<close>

fun joined :: "gostring list \<Rightarrow> gostring" where
  "joined [] = []"
| "joined [p] = p"
| "joined (p # ps) = p @ comma # joined ps"

lemma Split_part: "sep \<notin> set p \<Longrightarrow> Split p sep = [p]"
  by (induction p) auto

lemma Split_cons: "sep \<notin> set p \<Longrightarrow> Split (p @ sep # cs) sep = p # Split cs sep"
  by (induction p) auto

lemma Split_joined: "ps \<noteq> [] \<Longrightarrow> \<forall>p \<in> set ps. comma \<notin> set p \<Longrightarrow> Split (joined ps) comma = ps"
  by (induction ps rule: joined.induct) (auto simp: Split_part Split_cons)

lemma parse_accounts_spec:
  assumes "ps \<noteq> []" "\<forall>p \<in> set ps. comma \<notin> set p"
  shows "parse_accounts A (joined ps) = Inr accs
    \<longleftrightarrow> list_all2 (\<lambda>p a. A p = Inr a) (List.filter (\<lambda>p. p \<noteq> []) ps) accs"
proof -
  let ?f = "\<lambda>account accs. if account \<noteq> [] then
      (case A account of
         Inl err \<Rightarrow> Inl (Errorf (lit ''invalid bech32 address format '' @ err))
       | Inr addr \<Rightarrow> Inr (accs @ [addr]))
     else Inr accs"
  have "rfold ?f ps accs0 = Inr accs
    \<longleftrightarrow> (\<exists>new. accs = accs0 @ new \<and> list_all2 (\<lambda>p a. A p = Inr a) (List.filter (\<lambda>p. p \<noteq> []) ps) new)"
    for ps accs0
  proof (induction ps arbitrary: accs0)
    case (Cons p ps)
    then show ?case
      by (cases "p = []"; cases "A p") (auto simp: list_all2_Cons1)
  qed auto
  then show ?thesis
    by (simp add: parse_accounts_def Split_joined [OF assms])
qed

section \<open>What the calls do\<close>

text \<open>
  \<open>stored s k\<close> says that the staking store has the key \<open>k\<close>, \<open>balance s a\<close> is the balance of an
  account in the bond denomination \<open>bond\<close>, \<open>blocked\<close> has the accounts that may not receive coins,
  the mint module's among them, and \<open>own v a\<close> has the keys the staking module uses for a validator
  \<open>v\<close> with the address \<open>a\<close>.
\<close>

locale testnet_app =
  fixes E :: "('s, 'coins) testnet_env"
    and stored :: "'s \<Rightarrow> bytes \<Rightarrow> bool"
    and balance :: "'s \<Rightarrow> bytes \<Rightarrow> int"
    and bond :: gostring
    and blocked :: "bytes set"
    and own :: "gostring \<Rightarrow> bytes \<Rightarrow> bytes set"
    and powerKey lastKey :: bytes
  assumes store_delete: "stored (StoreDelete E s k) j \<longleftrightarrow> stored s j \<and> j \<noteq> k"
      "balance (StoreDelete E s k) = balance s"
    and power_keys: "\<exists>ks. ValidatorsPowerStoreKeys E s = Inr ks
      \<and> set ks = {k. stored s k \<and> prefix powerKey k}"
    and last_keys: "\<exists>ks. LastValidatorsKeys E s = Inr ks \<and> set ks = {k. stored s k \<and> prefix lastKey k}"
    and store_keys: "set (StoreKeys E s p) = {k. stored s k \<and> prefix p k}"
    and put_validator: "StringToBytes E (val_OperatorAddress v) = Inr a \<Longrightarrow>
        stored (PutValidator E s v) k \<Longrightarrow> stored s k \<or> k \<in> own (val_OperatorAddress v) a"
      "balance (PutValidator E s v) = balance s"
    and cons_addr: "StringToBytes E (val_OperatorAddress v) = Inr a \<Longrightarrow>
        \<exists>s'. SetValidatorByConsAddr E s v = Inr s' \<and> balance s' = balance s
          \<and> (\<forall>k. stored s' k \<longrightarrow> stored s k \<or> k \<in> own (val_OperatorAddress v) a)"
    and power_index: "StringToBytes E (val_OperatorAddress v) = Inr a \<Longrightarrow>
        stored (SetValidatorByPowerIndex E s v) k \<Longrightarrow> stored s k \<or> k \<in> own (val_OperatorAddress v) a"
      "balance (SetValidatorByPowerIndex E s v) = balance s"
    and last_power: "StringToBytes E x = Inr a \<Longrightarrow>
        stored (SetLastValidatorPower E s a n) k \<Longrightarrow> stored s k \<or> k \<in> own x a"
      "balance (SetLastValidatorPower E s a n) = balance s"
    and hook: "\<exists>s'. HookAfterValidatorCreated E s a = Inr s' \<and> balance s' = balance s \<and> stored s' = stored s"
    and distribution:
      "balance (SetValidatorHistoricalRewards E s a period refs) = balance s"
      "stored (SetValidatorHistoricalRewards E s a period refs) = stored s"
      "balance (SetValidatorCurrentRewards E s a period) = balance s"
      "stored (SetValidatorCurrentRewards E s a period) = stored s"
      "balance (SetValidatorAccumulatedCommission E s a) = balance s"
      "stored (SetValidatorAccumulatedCommission E s a) = stored s"
      "balance (SetValidatorOutstandingRewards E s a) = balance s"
      "stored (SetValidatorOutstandingRewards E s a) = stored s"
    and slashing: "balance (SetSigningInfo E s a info) = balance s" "stored (SetSigningInfo E s a info) = stored s"
    and bond_denom: "BondDenom E s = Inr bond"
    and fund: "b \<notin> blocked \<Longrightarrow> \<exists>s1 s2. MintCoins E s (NewCoins E bond amount) = Inr s1
        \<and> SendCoinsFromModuleToAccount E s1 b (NewCoins E bond amount) = Inr s2
        \<and> stored s2 = stored s
        \<and> (\<forall>c. c \<notin> blocked \<longrightarrow> balance s2 c = balance s c + (if c = b then amount else 0))"
begin

lemma delete_keys_spec:
  "stored (delete_keys E ks s) j \<longleftrightarrow> stored s j \<and> j \<notin> set ks"
  "balance (delete_keys E ks s) = balance s"
proof -
  have "stored (fold (\<lambda>k s. StoreDelete E s k) ks s) j \<longleftrightarrow> stored s j \<and> j \<notin> set ks"
    by (induction ks arbitrary: s) (auto simp: store_delete)
  then show "stored (delete_keys E ks s) j \<longleftrightarrow> stored s j \<and> j \<notin> set ks"
    by (simp add: delete_keys_def)
  have "balance (fold (\<lambda>k s. StoreDelete E s k) ks s) = balance s"
    by (induction ks arbitrary: s) (auto simp: store_delete)
  then show "balance (delete_keys E ks s) = balance s"
    by (simp add: delete_keys_def)
qed

lemma remove_validators_spec:
  "\<exists>s'. remove_validators E s = Inr s' \<and> balance s' = balance s
    \<and> (\<forall>k. stored s' k \<longleftrightarrow> stored s k
        \<and> \<not> (\<exists>p \<in> {powerKey, lastKey, ValidatorsKey E, ValidatorQueueKey E}. prefix p k))"
proof -
  obtain ks1 where ks1: "ValidatorsPowerStoreKeys E s = Inr ks1"
    "set ks1 = {k. stored s k \<and> prefix powerKey k}"
    using power_keys by blast
  let ?s1 = "delete_keys E ks1 s"
  obtain ks2 where ks2: "LastValidatorsKeys E ?s1 = Inr ks2"
    "set ks2 = {k. stored ?s1 k \<and> prefix lastKey k}"
    using last_keys by blast
  show ?thesis
    by (auto simp: remove_validators_def ks1 ks2 Let_def delete_keys_spec store_keys)
qed

lemma fund_accounts_spec:
  assumes "set accounts \<inter> blocked = {}"
  shows "\<exists>s'. fund_accounts E (NewCoins E bond amount) accounts s = Inr s' \<and> stored s' = stored s
    \<and> (\<forall>c. c \<notin> blocked \<longrightarrow> balance s' c = balance s c + amount * int (count_list accounts c))"
  using assms
proof (induction accounts arbitrary: s)
  case Nil
  then show ?case by (simp add: fund_accounts_def)
next
  case (Cons b bs)
  obtain s1 s2 where s: "MintCoins E s (NewCoins E bond amount) = Inr s1"
    "SendCoinsFromModuleToAccount E s1 b (NewCoins E bond amount) = Inr s2" "stored s2 = stored s"
    "\<forall>c. c \<notin> blocked \<longrightarrow> balance s2 c = balance s c + (if c = b then amount else 0)"
    using fund [of b s amount] Cons.prems by auto
  obtain s' where "fund_accounts E (NewCoins E bond amount) bs s2 = Inr s'" "stored s' = stored s2"
    "\<forall>c. c \<notin> blocked \<longrightarrow> balance s' c = balance s2 c + amount * int (count_list bs c)"
    using Cons.IH [of s2] Cons.prems by auto
  then show ?case
    using s by (simp add: fund_accounts_def algebra_simps)
qed

lemma init_spec:
  assumes "NewAnyWithValue E (newValPubKey args) = Inr any"
    and a: "StringToBytes E (newOperatorAddress args) = Inr a"
    and "set (accountsToFund args) \<inter> blocked = {}"
  shows "\<exists>s'. initAppForTestnet E h args s = Inr s'
    \<and> (\<forall>k. stored s' k \<longrightarrow> k \<in> own (newOperatorAddress args) a \<or> stored s k
        \<and> \<not> (\<exists>p \<in> {powerKey, lastKey, ValidatorsKey E, ValidatorQueueKey E}. prefix p k))
    \<and> (\<forall>c. c \<notin> blocked \<longrightarrow>
        balance s' c = balance s c + 1000000000 * int (count_list (accountsToFund args) c))"
proof -
  let ?v = "newVal E args any"
  have v: "val_OperatorAddress ?v = newOperatorAddress args"
    by (simp add: newVal_def)
  obtain s1 where s1: "remove_validators E s = Inr s1" "balance s1 = balance s"
    "\<forall>k. stored s1 k \<longleftrightarrow> stored s k
        \<and> \<not> (\<exists>p \<in> {powerKey, lastKey, ValidatorsKey E, ValidatorQueueKey E}. prefix p k)"
    using remove_validators_spec [of s] by blast
  obtain s2 where s2: "SetValidatorByConsAddr E (PutValidator E s1 ?v) ?v = Inr s2"
    "balance s2 = balance s1"
    "\<forall>k. stored s2 k \<longrightarrow> stored s1 k \<or> k \<in> own (newOperatorAddress args) a"
    using cons_addr [of ?v a "PutValidator E s1 ?v"] put_validator(1) [of ?v] put_validator(2) a v by metis
  let ?s3 = "SetLastValidatorPower E (SetValidatorByPowerIndex E s2 ?v) a 0"
  have s3: "balance ?s3 = balance s1"
    "\<forall>k. stored ?s3 k \<longrightarrow> stored s1 k \<or> k \<in> own (newOperatorAddress args) a"
    using s2(2,3) power_index(1) [of ?v a s2] power_index(2) last_power(1) [OF a] last_power(2) a v by metis+
  obtain s4 where s4: "HookAfterValidatorCreated E ?s3 a = Inr s4" "balance s4 = balance ?s3"
    "stored s4 = stored ?s3"
    using hook by blast
  define s9 where "s9 = SetSigningInfo E (SetValidatorOutstandingRewards E
    (SetValidatorAccumulatedCommission E (SetValidatorCurrentRewards E
      (SetValidatorHistoricalRewards E s4 a 0 1) a 1) a) a) (newValAddr args)
           \<lparr>signing_Address = newValAddr args, signing_StartHeight = wrap64 (h - 1),
            signing_Tombstoned = False\<rparr>"
  have s9: "balance s9 = balance s" "stored s9 = stored ?s3"
    using s1(2) s3(1) s4(2,3) by (simp_all add: s9_def distribution slashing)
  obtain s' where s': "fund_accounts E (NewCoins E bond 1000000000) (accountsToFund args) s9 = Inr s'"
    "stored s' = stored s9"
    "\<forall>c. c \<notin> blocked \<longrightarrow>
        balance s' c = balance s9 c + 1000000000 * int (count_list (accountsToFund args) c)"
    using fund_accounts_spec [OF assms(3), of 1000000000 s9] by blast
  have "initAppForTestnet E h args s = Inr s'"
    using s'(1) a v
    by (simp add: initAppForTestnet_def assms(1) s1(1) s2(1) s4(1) bond_denom Let_def s9_def)
  moreover have "\<forall>k. stored s' k \<longrightarrow> k \<in> own (newOperatorAddress args) a \<or> stored s k
        \<and> \<not> (\<exists>p \<in> {powerKey, lastKey, ValidatorsKey E, ValidatorQueueKey E}. prefix p k)"
    using s'(2) s9(2) s3(2) s1(3) by metis
  ultimately show ?thesis
    using s'(3) s9(1) by auto
qed

end

section \<open>Properties\<close>


text \<open>
  The arguments of the command.  With options of the right types and the accounts as a list of
  parts without commas, the call succeeds exactly if every non-empty part is an address and there
  is a home directory, and then the accounts to fund are those addresses in that order.
\<close>

theorem getCommandArgs_correct:
  assumes "appOpts KeyNewValAddr = HexBytesValue va" and "appOpts KeyUserPubKey = PubKeyValue pk"
    and "appOpts KeyNewOpAddr = StringValue oa" and "appOpts KeyTriggerTestnetUpgrade = StringValue up"
    and "ToString (appOpts flagAccountsToFund) = joined ps"
    and "ps \<noteq> []" and "\<forall>p \<in> set ps. comma \<notin> set p"
  shows "getCommandArgs A ToString appOpts = Inr args
    \<longleftrightarrow> list_all2 (\<lambda>p a. A p = Inr a) (List.filter (\<lambda>p. p \<noteq> []) ps) (accountsToFund args)
      \<and> homeDir args \<noteq> []
      \<and> args = \<lparr>newValAddr = va, newOperatorAddress = oa, newValPubKey = pk,
          accountsToFund = accountsToFund args, upgradeToTrigger = up,
          homeDir = ToString (appOpts FlagHome)\<rparr>"
proof -
  have "getCommandArgs A ToString appOpts = Inr args
    \<longleftrightarrow> (\<exists>accs. parse_accounts A (joined ps) = Inr accs \<and> ToString (appOpts FlagHome) \<noteq> []
      \<and> args = \<lparr>newValAddr = va, newOperatorAddress = oa, newValPubKey = pk,
          accountsToFund = accs, upgradeToTrigger = up, homeDir = ToString (appOpts FlagHome)\<rparr>)"
    by (cases "parse_accounts A (joined ps)") (auto simp: getCommandArgs_def assms(1-5) Let_def)
  then show ?thesis
    unfolding parse_accounts_spec [OF assms(6,7)] by (metis valArgs.select_convs(4,6))
qed

definition sample_options :: "opt_key \<Rightarrow> opt_value" where
  "sample_options k = (case k of
     KeyNewValAddr \<Rightarrow> HexBytesValue [7] | KeyUserPubKey \<Rightarrow> PubKeyValue [8]
   | KeyNewOpAddr \<Rightarrow> StringValue [9] | KeyTriggerTestnetUpgrade \<Rightarrow> StringValue []
   | flagAccountsToFund \<Rightarrow> StringValue (joined [[97], [], [98]]) | FlagHome \<Rightarrow> StringValue [47])"

theorem getCommandArgs_correct_witness:
  "getCommandArgs Inr (\<lambda>v. case v of StringValue s \<Rightarrow> s | _ \<Rightarrow> []) sample_options = Inr \<lparr>newValAddr = [7],
     newOperatorAddress = [9], newValPubKey = [8], accountsToFund = [[97], [98]],
     upgradeToTrigger = [], homeDir = [47]\<rparr>"
  by (subst getCommandArgs_correct [where va = "[7]" and pk = "[8]" and oa = "[9]" and up = "[]"
        and ps = "[[97], [], [98]]"])
    (simp_all add: sample_options_def comma_def)

section \<open>A multistore of keys and balances\<close>

type_synonym sample_testnet = "bytes list \<times> (bytes \<times> int) list"

definition sample_testnet_env :: "(sample_testnet, int) testnet_env" where
  "sample_testnet_env = \<lparr>
     NewAnyWithValue = Inr, LegacyMustNewDecFromStr = (\<lambda>s. 0), StringToBytes = Inr,
     ValidatorsPowerStoreKeys = (\<lambda>s. Inr (List.filter (prefix [0x23]) (fst s))),
     LastValidatorsKeys = (\<lambda>s. Inr (List.filter (prefix [0x11]) (fst s))),
     StoreKeys = (\<lambda>s p. List.filter (prefix p) (fst s)),
     StoreDelete = (\<lambda>s k. (removeAll k (fst s), snd s)),
     ValidatorsKey = [0x21], ValidatorQueueKey = [0x43],
     PutValidator = (\<lambda>s v. ((0x21 # val_OperatorAddress v) # fst s, snd s)),
     SetValidatorByConsAddr = (\<lambda>s v. Inr ((0x22 # val_OperatorAddress v) # fst s, snd s)),
     SetValidatorByPowerIndex = (\<lambda>s v. ((0x23 # val_OperatorAddress v) # fst s, snd s)),
     SetLastValidatorPower = (\<lambda>s a n. ((0x11 # a) # fst s, snd s)),
     HookAfterValidatorCreated = (\<lambda>s a. Inr s),
     SetValidatorHistoricalRewards = (\<lambda>s a n m. s), SetValidatorCurrentRewards = (\<lambda>s a n. s),
     SetValidatorAccumulatedCommission = (\<lambda>s a. s), SetValidatorOutstandingRewards = (\<lambda>s a. s),
     SetSigningInfo = (\<lambda>s a i. s), BondDenom = (\<lambda>s. Inr (lit ''umedas'')),
     NewCoins = (\<lambda>d n. n), MintCoins = (\<lambda>s c. Inr s),
     SendCoinsFromModuleToAccount = (\<lambda>s a c. Inr (fst s, (a, c) # snd s))\<rparr>"

definition sample_stored :: "sample_testnet \<Rightarrow> bytes \<Rightarrow> bool" where
  "sample_stored s k = (k \<in> set (fst s))"

definition sample_balance :: "sample_testnet \<Rightarrow> bytes \<Rightarrow> int" where
  "sample_balance s a = sum_list (map snd (List.filter (\<lambda>(b, n). b = a) (snd s)))"

definition sample_own :: "gostring \<Rightarrow> bytes \<Rightarrow> bytes set" where
  "sample_own x a = {0x21 # x, 0x22 # x, 0x23 # x, 0x11 # a}"

interpretation sample_testnet: testnet_app sample_testnet_env sample_stored sample_balance
  "lit ''umedas''" "{}" sample_own "[0x23]" "[0x11]"
  by unfold_locales
    (auto simp: sample_testnet_env_def sample_stored_def sample_balance_def sample_own_def)


end
