(* ===== verification/Pulsar_Codec.thy ===== *)
theory Pulsar_Codec
  imports Proto_Message
begin

text \<open>
  The second generated codec, \<open>api/**/*.pulsar.go\<close>: the functions \<open>size\<close>, \<open>marshal\<close> and
  \<open>unmarshal\<close> in the \<open>ProtoMethods\<close> of every message.  They differ from the code of gogoproto in
  three ways: the helpers come from the package \<open>github.com/cosmos/cosmos-proto/runtime\<close>, a
  message keeps the unknown fields it decodes, and an embedded message is a pointer that goes
  through \<open>options\<close> of the protobuf library.  The helpers and \<open>options\<close> are parameters.
\<close>

section \<open>Parameters\<close>

text \<open>
  \<open>runtime.Sov\<close>, \<open>runtime.EncodeVarint\<close>, which writes into the buffer and returns the new offset,
  and \<open>runtime.Skip\<close>.  The errors of the package, \<open>runtime.ErrIntOverflow\<close> and
  \<open>runtime.ErrInvalidLength\<close>, are those of the file \<open>runtime_file\<close>.
\<close>

record proto_runtime =
  rt_Sov :: "uint64 \<Rightarrow> nat"
  rt_EncodeVarint :: "bytes \<Rightarrow> int \<Rightarrow> uint64 \<Rightarrow> pb_error + bytes \<times> int"
  rt_Skip :: "bytes \<Rightarrow> pb_error + int"

abbreviation runtime_file :: pbfile where
  "runtime_file \<equiv> (Mod_cosmos_proto, PbRuntime)"

text \<open>\<open>options.Size\<close>, \<open>options.Marshal\<close> and \<open>options.Unmarshal\<close> on pointers to one message type.\<close>

record 'm options =
  opt_Size :: "'m option \<Rightarrow> nat"
  opt_Marshal :: "'m option \<Rightarrow> pb_error + bytes"
  opt_Unmarshal :: "bytes \<Rightarrow> 'm \<Rightarrow> pb_error + 'm"

section \<open>Size\<close>

definition api_size_bytes :: "proto_runtime \<Rightarrow> nat \<Rightarrow> nat" where
  "api_size_bytes R l = 1 + l + rt_Sov R (of_nat l)"

definition api_size_string :: "proto_runtime \<Rightarrow> gostring \<Rightarrow> nat" where
  "api_size_string R s = (let l = length s in if 0 < l then api_size_bytes R l else 0)"

definition api_size_int32 :: "proto_runtime \<Rightarrow> int32 \<Rightarrow> nat" where
  "api_size_int32 R v = (if v \<noteq> 0 then 1 + rt_Sov R (scast v) else 0)"

definition api_size_message :: "proto_runtime \<Rightarrow> 'm options \<Rightarrow> 'm option \<Rightarrow> nat" where
  "api_size_message R O1 p = (if p \<noteq> None then api_size_bytes R (opt_Size O1 p) else 0)"

definition api_size_repeated :: "proto_runtime \<Rightarrow> 'm options \<Rightarrow> 'm option list \<Rightarrow> nat" where
  "api_size_repeated R O1 es = sum_list (map (\<lambda>e. api_size_bytes R (opt_Size O1 e)) es)"

text \<open>\<open>size\<close>, on a pointer: the fields, then the unknown fields.\<close>

definition pulsar_size :: "('m \<Rightarrow> bytes) \<Rightarrow> ('m \<Rightarrow> nat) \<Rightarrow> 'm option \<Rightarrow> nat" where
  "pulsar_size unknownFields fields_size x =
     (case x of None \<Rightarrow> 0 | Some m \<Rightarrow> fields_size m + length (unknownFields m))"

section \<open>Marshal\<close>

definition api_varint :: "proto_runtime \<Rightarrow> uint64 \<Rightarrow> writer" where
  "api_varint R v = (\<lambda>(d, i). rt_EncodeVarint R d i v)"

definition api_string :: "proto_runtime \<Rightarrow> byte \<Rightarrow> gostring \<Rightarrow> writer" where
  "api_string R key s =
     (if 0 < length s
      then put_seq [put_copy s, api_varint R (of_nat (length s)), put_byte key] else Inr)"

definition api_int32 :: "proto_runtime \<Rightarrow> byte \<Rightarrow> int32 \<Rightarrow> writer" where
  "api_int32 R key v = (if v \<noteq> 0 then put_seq [api_varint R (scast v), put_byte key] else Inr)"

text \<open>\<^verbatim>\<open>encoded, err := options.Marshal(e); i -= len(encoded); copy(dAtA[i:], encoded); \<dots>\<close>\<close>

definition api_encoded :: "proto_runtime \<Rightarrow> 'm options \<Rightarrow> byte \<Rightarrow> 'm option \<Rightarrow> writer" where
  "api_encoded R O1 key p = (\<lambda>c.
     rbind (opt_Marshal O1 p) (\<lambda>encoded.
       put_seq [put_copy encoded, api_varint R (of_nat (length encoded)), put_byte key] c))"

definition api_message :: "proto_runtime \<Rightarrow> 'm options \<Rightarrow> byte \<Rightarrow> 'm option \<Rightarrow> writer" where
  "api_message R O1 key p = (if p \<noteq> None then api_encoded R O1 key p else Inr)"

definition api_repeated :: "proto_runtime \<Rightarrow> 'm options \<Rightarrow> byte \<Rightarrow> 'm option list \<Rightarrow> writer" where
  "api_repeated R O1 key es = put_seq (map (api_encoded R O1 key) (rev es))"

text \<open>
  \<open>marshal\<close>: the buffer of \<open>size\<close> bytes is filled from its end, the unknown fields first, and
  appended to \<open>input.Buf\<close>, which is \<open>None\<close> when nil.
\<close>

definition pulsar_marshal ::
  "('m \<Rightarrow> bytes) \<Rightarrow> ('m \<Rightarrow> nat) \<Rightarrow> ('m \<Rightarrow> writer list) \<Rightarrow> bytes option \<Rightarrow> 'm option
    \<Rightarrow> pb_error + bytes option" where
  "pulsar_marshal unknownFields fields_size ws buf x =
     (case x of
        None \<Rightarrow> Inr buf
      | Some m \<Rightarrow>
          let size = pulsar_size unknownFields fields_size x in
          rbind (put_seq (put_copy (unknownFields m) # ws m) (replicate size 0, int size))
            (\<lambda>(dAtA, i). Inr (Some (case buf of Some b \<Rightarrow> b @ dAtA | None \<Rightarrow> dAtA))))"

section \<open>Unmarshal\<close>

text \<open>
  One turn of the loop.  The default case hands the rest of the input to \<open>runtime.Skip\<close> and
  keeps the bytes of the field, unless \<open>options.DiscardUnknown\<close>.
\<close>

definition pulsar_step ::
  "proto_runtime \<Rightarrow> bool \<Rightarrow> string \<Rightarrow> 'm fields \<Rightarrow> (bytes \<Rightarrow> 'm \<Rightarrow> 'm) \<Rightarrow> bytes \<Rightarrow> int \<Rightarrow> 'm
    \<Rightarrow> pb_error + int \<times> 'm" where
  "pulsar_step R DiscardUnknown msg flds keep d i m =
     rbind (read_varint runtime_file d i 0 (0 :: uint64)) (\<lambda>(wire, i1).
       let fieldNum = (ucast (drop_bit 3 wire) :: int32); wireType = unat (wire AND 7) in
       if wireType = 4 then Inl (ErrEndGroupForNonGroup msg)
       else if sint fieldNum \<le> 0 then Inl (ErrIllegalTag msg fieldNum wire)
       else case flds fieldNum of
         Some (name, k) \<Rightarrow> read_field runtime_file name k wireType d i1 m
       | None \<Rightarrow>
           rbind (slice d i (int (length d))) (\<lambda>rest.
           rbind (rt_Skip R rest) (\<lambda>skippy.
             let j = wrap64 (i + skippy) in
             if skippy < 0 \<or> j < 0 then Inl (ErrInvalidLength runtime_file)
             else if int (length d) < j then Inl ErrUnexpectedEOF
             else if DiscardUnknown then Inr (j, m)
             else rbind (slice d i j) (\<lambda>raw. Inr (j, keep raw m)))))"

text \<open>
  The loop.  Nothing in the code bounds it when \<open>runtime.Skip\<close> returns 0, so it is a partial
  function: \<open>None\<close> is a loop that does not end.
\<close>

partial_function (option) pulsar_loop ::
  "proto_runtime \<Rightarrow> bool \<Rightarrow> string \<Rightarrow> 'm fields \<Rightarrow> (bytes \<Rightarrow> 'm \<Rightarrow> 'm) \<Rightarrow> bytes \<Rightarrow> int \<Rightarrow> 'm
    \<Rightarrow> (pb_error + 'm) option" where
  "pulsar_loop R DiscardUnknown msg flds keep d i m =
     (if i < int (length d) then
        (case pulsar_step R DiscardUnknown msg flds keep d i m of
          Inl e \<Rightarrow> Some (Inl e)
        | Inr (j, m') \<Rightarrow> pulsar_loop R DiscardUnknown msg flds keep d j m')
      else if int (length d) < i then Some (Inl ErrUnexpectedEOF)
      else Some (Inr m))"

definition pulsar_unmarshal ::
  "proto_runtime \<Rightarrow> bool \<Rightarrow> string \<Rightarrow> 'm fields \<Rightarrow> (bytes \<Rightarrow> 'm \<Rightarrow> 'm) \<Rightarrow> bytes \<Rightarrow> 'm option
    \<Rightarrow> (pb_error + 'm option) option" where
  "pulsar_unmarshal R DiscardUnknown msg flds keep dAtA x =
     (case x of
        None \<Rightarrow> Some (Inr None)
      | Some m \<Rightarrow> map_option (map_sum id Some) (pulsar_loop R DiscardUnknown msg flds keep dAtA 0 m))"

text \<open>
  The case of an embedded message and of a repeated one: a nil pointer is set to a new message,
  an element is appended, and \<open>options.Unmarshal\<close> decodes into it.
\<close>

definition api_dec_message ::
  "'p options \<Rightarrow> 'p \<Rightarrow> ('m \<Rightarrow> 'p option) \<Rightarrow> ('p option \<Rightarrow> 'm \<Rightarrow> 'm) \<Rightarrow> bytes \<Rightarrow> 'm \<Rightarrow> pb_error + 'm" where
  "api_dec_message O1 zero sel upd bs m =
     (let p = (case sel m of None \<Rightarrow> zero | Some p \<Rightarrow> p)
      in rbind (opt_Unmarshal O1 bs p) (\<lambda>p'. Inr (upd (Some p') m)))"

definition api_dec_repeated ::
  "'p options \<Rightarrow> 'p \<Rightarrow> ('m \<Rightarrow> 'p option list) \<Rightarrow> ('p option list \<Rightarrow> 'm \<Rightarrow> 'm) \<Rightarrow> bytes \<Rightarrow> 'm
    \<Rightarrow> pb_error + 'm" where
  "api_dec_repeated O1 zero sel upd bs m =
     rbind (opt_Unmarshal O1 bs zero) (\<lambda>p'. Inr (upd (sel m @ [Some p']) m))"

section \<open>The contract of the runtime\<close>

text \<open>
  What cosmos-proto documents of its helpers: the size and the bytes of a varint, and the length
  of the field at the start of a slice, nested groups included.  They are the functions gogoproto
  writes into every file of \<open>x/*/types\<close>.
\<close>

definition runtime_ok :: "proto_runtime \<Rightarrow> bool" where
  "runtime_ok R \<longleftrightarrow> (\<forall>v. rt_Sov R v = sov v) \<and> (\<forall>d i v. rt_EncodeVarint R d i v = put_varint v (d, i))
     \<and> (\<forall>d. rt_Skip R d = skip_field runtime_file d)"

definition gogo_runtime :: proto_runtime where
  "gogo_runtime = \<lparr>rt_Sov = sov, rt_EncodeVarint = (\<lambda>d i v. put_varint v (d, i)),
     rt_Skip = skip_field runtime_file\<rparr>"

lemma gogo_runtime_ok: "runtime_ok gogo_runtime"
  by (simp add: runtime_ok_def gogo_runtime_def)

lemma runtime_simps:
  assumes "runtime_ok R"
  shows "rt_Sov R = sov" "api_varint R = put_varint" "rt_Skip R = skip_field runtime_file"
    "api_size_bytes R = size_bytes" "api_size_string R = size_string" "api_size_int32 R = size_int32"
    "api_string R = put_string" "api_int32 R = put_int32"
  using assms
  by (simp_all add: runtime_ok_def api_varint_def api_size_bytes_def api_size_string_def
      api_size_int32_def size_bytes_def size_string_def size_int32_def api_string_def api_int32_def
      put_string_def put_int32_def fun_eq_iff Let_def)

section \<open>Encoding\<close>

lemma writes_encoded:
  assumes "runtime_ok R" and "opt_Marshal O1 p = Inr bs" and "n < 16" and "key = key_byte n 2"
  shows "writes (api_encoded R O1 key p) (enc_field (WBytes n bs))"
proof -
  have "list_all2 writes [put_copy bs, put_varint (of_nat (length bs)), put_byte key]
      [bs, varint (of_nat (length bs)), [key]]"
    by (simp add: writes_copy writes_varint writes_byte)
  from writes_seq [OF this] show ?thesis
    using assms by (simp add: api_encoded_def runtime_simps varint_wire_key)
qed

definition w_message :: "nat \<Rightarrow> ('m \<Rightarrow> bytes) \<Rightarrow> 'm option \<Rightarrow> wire_field list" where
  "w_message n enc p = (case p of None \<Rightarrow> [] | Some m \<Rightarrow> [WBytes n (enc m)])"

lemma writes_api_message:
  assumes "runtime_ok R" and "\<And>m. opt_Marshal O1 (Some m) = Inr (enc m)" and "n < 16"
    and "key = key_byte n 2"
  shows "writes (api_message R O1 key p) (enc_fields (w_message n enc p))"
proof (cases p)
  case None
  then show ?thesis by (simp add: api_message_def w_message_def writes_skip)
next
  case (Some m)
  then show ?thesis
    using writes_encoded [OF assms(1) assms(2) [of m] assms(3,4)]
    by (simp add: api_message_def w_message_def)
qed

lemma writes_api_repeated:
  assumes "runtime_ok R" and "\<And>p. opt_Marshal O1 p = Inr (enc p)" and "n < 16"
    and "key = key_byte n 2"
  shows "writes (api_repeated R O1 key es) (enc_fields (map (\<lambda>e. WBytes n (enc e)) es))"
proof -
  have "list_all2 writes (map (api_encoded R O1 key) es)
      (map (enc_field \<circ> (\<lambda>e. WBytes n (enc e))) es)"
    using writes_encoded [OF assms(1) assms(2) assms(3,4)]
    by (simp add: list_all2_conv_all_nth del: enc_field.simps)
  then have "list_all2 writes (map (api_encoded R O1 key) (rev es))
      (rev (map (enc_field \<circ> (\<lambda>e. WBytes n (enc e))) es))"
    by (simp only: rev_map [symmetric] list_all2_rev)
  from writes_seq [OF this] show ?thesis by (simp add: api_repeated_def comp_def)
qed

lemma pulsar_marshal_bytes:
  assumes "writes (put_seq (ws m)) bs" and "fields_size m = length bs"
  shows "pulsar_marshal unknown fields_size ws buf (Some m)
    = Inr (Some (case buf of Some b \<Rightarrow> b @ bs @ unknown m | None \<Rightarrow> bs @ unknown m))"
proof -
  have seq: "put_seq (put_copy (unknown m) # ws m) = (\<lambda>c. rbind (put_copy (unknown m) c) (put_seq (ws m)))"
    by (simp add: put_seq_def fun_eq_iff)
  have "writes (put_seq (put_copy (unknown m) # ws m)) (bs @ unknown m)"
    unfolding seq using writes_copy assms(1) by (rule writes_then)
  from writesD [OF this, where zs = "replicate (length bs + length (unknown m)) 0" and xs = "[]"
      and ys = "[]"]
  show ?thesis
    by (simp add: pulsar_marshal_def pulsar_size_def assms(2) Let_def split: option.splits)
qed

end
