(* ===== verification/Pulsar_Message.thy ===== *)
theory Pulsar_Message
  imports Pulsar_Codec
begin

text \<open>
  What follows from the contract of the runtime.  Decoding ends on every input, takes the same
  decision as the code of gogoproto for the same message, and is a fold over the fields of the
  input that keeps the unknown ones.  The locale \<open>pulsar_message\<close> is the contract of a message
  type; \<open>pulsar_gogo\<close> adds the gogoproto type with the same fields.
\<close>

section \<open>Errors up to the file that declares them\<close>

fun norm_err :: "pb_error \<Rightarrow> pb_error" where
  "norm_err (ErrIntOverflow f) = ErrIntOverflow runtime_file"
| "norm_err (ErrInvalidLength f) = ErrInvalidLength runtime_file"
| "norm_err (ErrUnexpectedEndOfGroup f) = ErrUnexpectedEndOfGroup runtime_file"
| "norm_err e = e"

lemma norm_err_panic [simp]: "norm_err e = Panic \<longleftrightarrow> e = Panic"
  by (cases e) simp_all

lemma norm_err_idem [simp]: "norm_err (norm_err e) = norm_err e"
  by (cases e) simp_all

abbreviation norm :: "('a \<Rightarrow> 'b) \<Rightarrow> pb_error + 'a \<Rightarrow> pb_error + 'b" where
  "norm \<equiv> map_sum norm_err"

lemma norm_rbind: "norm g (rbind r k) = rbind (norm id r) (\<lambda>x. norm g (k x))"
  by (cases r) simp_all

lemma norm_id_eq: "norm id (norm id r) = norm id r"
  by (cases r) simp_all

lemma read_varint_norm: "norm id (read_varint f d i shift v) = read_varint runtime_file d i shift v"
proof (induction f d i shift v rule: read_varint.induct)
  case (1 f d i shift v)
  show ?case
    using 1 by (simp add: read_varint.simps [of f d i shift v]
        read_varint.simps [of runtime_file d i shift v] norm_rbind byte_at_def Let_def)
qed

lemma skip_varint_norm: "norm id (skip_varint f d i shift) = skip_varint runtime_file d i shift"
proof (induction f d i shift rule: skip_varint.induct)
  case (1 f d i shift)
  show ?case
    using 1 by (simp add: skip_varint.simps [of f d i shift]
        skip_varint.simps [of runtime_file d i shift] norm_rbind byte_at_def)
qed

lemma read_len_norm: "norm id (read_len f d i) = read_len runtime_file d i"
  unfolding read_len_def read_varint_norm [of f, symmetric] norm_rbind
  by (cases "read_varint f d i 0 (0 :: uint64)") (auto simp: Let_def)

lemma skip_step_norm: "norm id (skip_step f d i depth) = skip_step runtime_file d i depth"
  unfolding skip_step_def read_varint_norm [of f, symmetric] skip_varint_norm [of f, symmetric]
    norm_rbind
  by (cases "read_varint f d i 0 (0 :: uint64)")
    (auto simp: Let_def norm_rbind rbind_def split: sum.splits)

lemma skip_loop_norm: "norm id (skip_loop f d i depth) = skip_loop runtime_file d i depth"
proof (induction f d i depth rule: skip_loop.induct)
  case (1 f d i depth)
  show ?case
    using 1 unfolding skip_loop.simps [of f d i depth] skip_loop.simps [of runtime_file d i depth]
      skip_step_norm [of f, symmetric]
    by (cases "skip_step f d i depth") auto
qed

lemma skip_field_norm: "norm id (skip_field f d) = skip_field runtime_file d"
  by (simp add: skip_field_def skip_loop_norm)

section \<open>Simulation\<close>

text \<open>Two cases of a switch that set the same field, through an abstraction of the message.\<close>

fun field_sim :: "('m \<Rightarrow> 'g) \<Rightarrow> 'm field \<Rightarrow> 'g field \<Rightarrow> bool" where
  "field_sim \<alpha> (FString u) (FString v) \<longleftrightarrow> (\<forall>s m. \<alpha> (u s m) = v s (\<alpha> m))"
| "field_sim \<alpha> (FInt32 u) (FInt32 v) \<longleftrightarrow> (\<forall>s m. \<alpha> (u s m) = v s (\<alpha> m))"
| "field_sim \<alpha> (FBool u) (FBool v) \<longleftrightarrow> (\<forall>s m. \<alpha> (u s m) = v s (\<alpha> m))"
| "field_sim \<alpha> (FMessage u) (FMessage v) \<longleftrightarrow>
     (\<forall>s m. go_slice s \<longrightarrow> norm \<alpha> (u s m) = norm id (v s (\<alpha> m)))"
| "field_sim \<alpha> k l \<longleftrightarrow> False"

fun case_sim :: "('m \<Rightarrow> 'g) \<Rightarrow> (string \<times> 'm field) option \<Rightarrow> (string \<times> 'g field) option \<Rightarrow> bool" where
  "case_sim \<alpha> None None \<longleftrightarrow> True"
| "case_sim \<alpha> (Some (a, k)) (Some (b, l)) \<longleftrightarrow> a = b \<and> field_sim \<alpha> k l"
| "case_sim \<alpha> x y \<longleftrightarrow> False"

definition fields_sim :: "('m \<Rightarrow> 'g) \<Rightarrow> 'm fields \<Rightarrow> 'g fields \<Rightarrow> bool" where
  "fields_sim \<alpha> flds gflds \<longleftrightarrow> (\<forall>n. case_sim \<alpha> (flds n) (gflds n))"

lemma slice_go: "go_slice d \<Longrightarrow> slice d i j = Inr s \<Longrightarrow> go_slice s"
  by (auto simp: slice_def go_slice_take_drop split: if_splits)

lemma read_field_sim:
  assumes "field_sim \<alpha> k l" and "go_slice d"
  shows "norm (map_prod id \<alpha>) (read_field runtime_file name k wt d i m)
    = norm id (read_field f name l wt d i (\<alpha> m))"
proof (cases k)
  case (FString u)
  then obtain v where l: "l = FString v" and u: "\<And>s m. \<alpha> (u s m) = v s (\<alpha> m)"
    using assms(1) by (cases l) auto
  show ?thesis
    unfolding FString l read_field.simps read_len_norm [of f, symmetric]
    by (cases "read_len f d i") (auto simp: u norm_rbind rbind_def slice_def)
next
  case (FInt32 u)
  then obtain v where l: "l = FInt32 v" and u: "\<And>s m. \<alpha> (u s m) = v s (\<alpha> m)"
    using assms(1) by (cases l) auto
  show ?thesis
    unfolding FInt32 l read_field.simps read_varint_norm [of f, symmetric]
    by (cases "read_varint f d i 0 (0 :: int32)") (auto simp: u)
next
  case (FBool u)
  then obtain v where l: "l = FBool v" and u: "\<And>s m. \<alpha> (u s m) = v s (\<alpha> m)"
    using assms(1) by (cases l) auto
  show ?thesis
    unfolding FBool l read_field.simps read_varint_norm [of f, symmetric]
    by (cases "read_varint f d i 0 (0 :: uint64)") (auto simp: u)
next
  case (FMessage u)
  then obtain v where l: "l = FMessage v"
    and u: "\<And>s m. go_slice s \<Longrightarrow> norm \<alpha> (u s m) = norm id (v s (\<alpha> m))"
    using assms(1) by (cases l) auto
  have r: "norm (map_prod id \<alpha>) (rbind (u s m) (\<lambda>m'. Inr (post, m')))
      = norm id (rbind (v s (\<alpha> m)) (\<lambda>m'. Inr (post, m')))" if "go_slice s" for s post
    using u [OF that, of m] by (cases "u s m"; cases "v s (\<alpha> m)") auto
  show ?thesis
  proof (cases "read_len f d i")
    case (Inl e)
    then show ?thesis
      unfolding FMessage l read_field.simps read_len_norm [of f, symmetric] by auto
  next
    case (Inr p)
    obtain i1 post where p: "p = (i1, post)" by (cases p)
    show ?thesis
    proof (cases "slice d i1 post")
      case (Inl e)
      then show ?thesis
        using Inr p unfolding FMessage l read_field.simps read_len_norm [of f, symmetric] by auto
    next
      case s: (Inr s)
      then show ?thesis
        using Inr p r [OF slice_go [OF assms(2) s], of post]
        unfolding FMessage l read_field.simps read_len_norm [of f, symmetric] by auto
    qed
  qed
qed

text \<open>The index after a turn is a later one.\<close>

lemma read_field_index:
  assumes "go_slice d" and "0 \<le> i" and "read_field f name k wt d i m = Inr (j, m')"
  shows "i < j"
proof -
  have "i < post" if "read_len f d i = Inr (i1, post)" for i1 post
    using read_len_ok [OF assms(1,2), of f] that by auto
  moreover have "i < i1" if "read_varint f d i 0 (0 :: int32) = Inr (v, i1)" for v i1
    using read_varint_ok [OF assms(1,2), of f 0 "0 :: int32"] that by simp
  moreover have "i < i1" if "read_varint f d i 0 (0 :: uint64) = Inr (v, i1)" for v i1
    using read_varint_ok [OF assms(1,2), of f 0 "0 :: uint64"] that by simp
  ultimately show ?thesis
    using assms(3) by (cases k) (auto simp: rbind_eq_Inr split: if_splits)
qed

lemma unmarshal_step_index:
  assumes "go_slice d" and "0 \<le> i" and "unmarshal_step f msg flds d i m = Inr (j, m')"
  shows "0 \<le> j"
proof -
  obtain wire i1 where w: "read_varint f d i 0 (0 :: uint64) = Inr (wire, i1)"
    using assms(3) by (auto simp: unmarshal_step_def rbind_eq_Inr)
  then have i1: "0 \<le> i1"
    using read_varint_ok [OF assms(1,2), of f 0 "0 :: uint64"] assms(2) by simp
  show ?thesis
    using assms(3) w read_field_index [OF assms(1) i1] i1
    by (auto simp: unmarshal_step_def rbind_eq_Inr Let_def dest!: read_field_index [OF assms(1) i1]
        split: if_splits option.splits)
qed

lemma pulsar_step_sim:
  assumes R: "runtime_ok R" and flds: "fields_sim \<alpha> flds gflds"
    and keep: "\<And>raw m. \<alpha> (keep raw m) = \<alpha> m" and d: "go_slice d" and i: "0 \<le> i"
  shows "norm (map_prod id \<alpha>) (pulsar_step R discard msg flds keep d i m)
    = norm id (unmarshal_step f msg gflds d i (\<alpha> m))"
proof (cases "read_varint f d i 0 (0 :: uint64)")
  case (Inl e)
  then show ?thesis
    unfolding pulsar_step_def unmarshal_step_def read_varint_norm [of f, symmetric] by simp
next
  case (Inr r)
  obtain wire i1 where r: "r = (wire, i1)" by (cases r)
  let ?n = "ucast (drop_bit 3 wire) :: int32"
  have rv: "read_varint runtime_file d i 0 (0 :: uint64) = Inr (wire, i1)"
    using Inr r by (simp add: read_varint_norm [of f, symmetric])
  have i1: "i < i1" "i1 \<le> int (length d)"
    using read_varint_ok [OF d i, of f 0 "0 :: uint64"] Inr r by simp_all
  show ?thesis
  proof (cases "flds ?n")
    case None
    then have g: "gflds ?n = None"
      using flds by (simp add: fields_sim_def) (metis case_sim.simps(4) not_None_eq surj_pair)
    let ?rest = "drop (nat i) d"
    have s: "slice d i (int (length d)) = Inr ?rest"
      using i i1 by (simp add: slice_def)
    have "\<exists>raw. slice d i (wrap64 (i + k)) = Inr raw"
      if "skip_field f ?rest = Inr k" "0 \<le> k" "0 \<le> wrap64 (i + k)" "wrap64 (i + k) \<le> int (length d)" for k
      using that i i1 d wrap64_add_cases [of i k] skip_loop_advances [of f ?rest 0 0 k]
      by (auto simp: slice_def skip_field_def advances_def go_slice_def)
    then show ?thesis
      unfolding pulsar_step_def unmarshal_step_def rv Inr r
      using None g s runtime_simps(3) [OF R] skip_field_norm [of f ?rest, symmetric]
      by (cases "skip_field f ?rest") (auto simp: Let_def keep not_less)
  next
    case (Some p)
    obtain name k where p: "p = (name, k)" by (cases p)
    obtain l where g: "gflds ?n = Some (name, l)" "field_sim \<alpha> k l"
    proof -
      have "case_sim \<alpha> (Some (name, k)) (gflds ?n)"
        using flds Some p by (metis fields_sim_def)
      then show thesis
        using that by (cases "gflds ?n") auto
    qed
    show ?thesis
      unfolding pulsar_step_def unmarshal_step_def rv Inr r
      using Some p g read_field_sim [OF g(2) d, of name "unat (wire AND 7)" i1 m f]
      by (auto simp: Let_def)
  qed
qed

text \<open>The loops, one turn at a time.\<close>

lemma pulsar_loop_end:
  "\<not> i < int (length d) \<Longrightarrow> pulsar_loop R discard msg flds keep d i m
    = Some (if int (length d) < i then Inl ErrUnexpectedEOF else Inr m)"
  by (subst pulsar_loop.simps) simp

lemma pulsar_loop_turn:
  "i < int (length d) \<Longrightarrow> pulsar_loop R discard msg flds keep d i m
    = (case pulsar_step R discard msg flds keep d i m of
        Inl e \<Rightarrow> Some (Inl e) | Inr (j, m') \<Rightarrow> pulsar_loop R discard msg flds keep d j m')"
  by (subst pulsar_loop.simps) simp

lemma unmarshal_loop_end:
  "\<not> i < int (length d) \<Longrightarrow> unmarshal_loop f msg flds d i m
    = (if int (length d) < i then Inl ErrUnexpectedEOF else Inr m)"
  by (subst unmarshal_loop.simps) simp

lemma unmarshal_loop_turn:
  "i < int (length d) \<Longrightarrow> unmarshal_loop f msg flds d i m
    = (case unmarshal_step f msg flds d i m of
        Inl e \<Rightarrow> Inl e | Inr (j, m') \<Rightarrow> unmarshal_loop f msg flds d j m')"
  by (subst unmarshal_loop.simps) simp

text \<open>
  The main lemma: decoding returns, and what it returns is what the gogoproto decoder of a
  message with the same fields returns, unknown fields and the names of the errors aside.
\<close>

lemma pulsar_loop_sim:
  assumes "runtime_ok R" and "fields_sim \<alpha> flds gflds" and "\<And>raw m. \<alpha> (keep raw m) = \<alpha> m"
    and "go_slice d" and "0 \<le> i"
  shows "\<exists>r. pulsar_loop R discard msg flds keep d i m = Some r
    \<and> norm \<alpha> r = norm id (unmarshal_loop f msg gflds d i (\<alpha> m))"
  using assms(5)
proof (induction "idx_measure i" arbitrary: i m rule: less_induct)
  case less
  have step: "norm (map_prod id \<alpha>) (pulsar_step R discard msg flds keep d i m)
      = norm id (unmarshal_step f msg gflds d i (\<alpha> m))"
    using assms(1-4) less.prems by (rule pulsar_step_sim)
  show ?case
  proof (cases "i < int (length d)")
    case False
    then show ?thesis
      by (simp add: pulsar_loop_end unmarshal_loop_end)
  next
    case True
    show ?thesis
    proof (cases "unmarshal_step f msg gflds d i (\<alpha> m)")
      case (Inl e)
      then obtain e' where e': "pulsar_step R discard msg flds keep d i m = Inl e'" "norm_err e' = norm_err e"
        using step by (cases "pulsar_step R discard msg flds keep d i m") auto
      have "pulsar_loop R discard msg flds keep d i m = Some (Inl e')"
        using pulsar_loop_turn [OF True, of R discard msg flds keep m] e'(1) by simp
      moreover have "unmarshal_loop f msg gflds d i (\<alpha> m) = Inl e"
        using unmarshal_loop_turn [OF True, of f msg gflds "\<alpha> m"] Inl by simp
      ultimately show ?thesis using e' by simp
    next
      case (Inr p)
      obtain j g where p: "p = (j, g)" by (cases p)
      with step Inr obtain m' where m': "pulsar_step R discard msg flds keep d i m = Inr (j, m')" "\<alpha> m' = g"
        by (cases "pulsar_step R discard msg flds keep d i m") auto
      have adv: "advances i j"
        using unmarshal_step_advances [of f msg gflds d i "\<alpha> m" j g] Inr p by simp
      have "0 \<le> j"
        using unmarshal_step_index [OF assms(4) less.prems, of f msg gflds "\<alpha> m" j g] Inr p by simp
      from less.hyps [OF advances_measure [OF adv] this, of m']
      obtain r where r: "pulsar_loop R discard msg flds keep d j m' = Some r"
        "norm \<alpha> r = norm id (unmarshal_loop f msg gflds d j g)"
        unfolding m'(2) by blast
      have "pulsar_loop R discard msg flds keep d i m = Some r"
        using pulsar_loop_turn [OF True, of R discard msg flds keep m] m'(1) r(1) by simp
      moreover have "unmarshal_loop f msg gflds d i (\<alpha> m) = unmarshal_loop f msg gflds d j g"
        using unmarshal_loop_turn [OF True, of f msg gflds "\<alpha> m"] Inr p by simp
      ultimately show ?thesis using r(2) by simp
    qed
  qed
qed

section \<open>Decoding a list of fields\<close>

text \<open>What a turn does with a field: as gogoproto, but an unknown field is kept with its bytes.\<close>

definition api_apply :: "bool \<Rightarrow> 'm fields \<Rightarrow> (bytes \<Rightarrow> 'm \<Rightarrow> 'm) \<Rightarrow> wire_field \<Rightarrow> 'm \<Rightarrow> pb_error + 'm" where
  "api_apply discard flds keep x m =
     (case flds (of_nat (field_num x)) of
       None \<Rightarrow> Inr (if discard then m else keep (enc_field x) m)
     | Some (name, k) \<Rightarrow> apply_case name k x m)"

lemma api_apply_known:
  "flds (of_nat (field_num x)) \<noteq> None \<Longrightarrow> api_apply discard flds keep x m = apply_field flds x m"
  by (auto simp: api_apply_def apply_field_def)

lemma pulsar_step_known:
  assumes "runtime_ok R" and "read_varint runtime_file d i 0 (0 :: uint64) = Inr (wire, i1)"
  shows "pulsar_step R discard msg flds keep d i m =
    rbind (unmarshal_step runtime_file msg flds d i m) (\<lambda>(j, m').
      if flds (ucast (drop_bit 3 wire)) = None \<and> \<not> discard
      then rbind (slice d i j) (\<lambda>raw. Inr (j, keep raw m')) else Inr (j, m'))"
proof (cases "flds (ucast (drop_bit 3 wire))")
  case None
  then show ?thesis
    unfolding pulsar_step_def unmarshal_step_def assms(2) runtime_simps(3) [OF assms(1)]
    by (cases "slice d i (int (length d))"; cases "skip_field runtime_file (drop (nat i) d)")
      (auto simp: Let_def slice_def split: if_splits)
next
  case (Some p)
  have r: "rbind r Inr = r" for r :: "pb_error + int \<times> 'm"
    by (cases r) auto
  show ?thesis
    using Some unfolding pulsar_step_def unmarshal_step_def assms(2)
    by (cases p) (simp add: Let_def r)
qed

lemma pulsar_step_field:
  assumes R: "runtime_ok R" and g: "go_slice (pre @ enc_field x @ post)" and w: "wf_field x"
  shows "pulsar_step R discard msg flds keep (pre @ enc_field x @ post) (int (length pre)) m
    = rbind (api_apply discard flds keep x m) (\<lambda>m'. Inr (int (length (pre @ enc_field x)), m'))"
proof -
  let ?key = "wire_key (field_num x) (wire_type x)" and ?d = "pre @ enc_field x @ post"
  have n: "field_num x < 2 ^ 29" and t: "wire_type x < 8"
    using w by (cases x; simp)+
  have d: "?d = pre @ varint ?key @ payload x @ post"
    by (simp add: enc_field_payload)
  have "read_varint runtime_file ?d (int (length pre)) 0 (0 :: uint64)
      = Inr (?key, int (length (pre @ varint ?key)))"
    using read_key [of pre "field_num x" "wire_type x" "payload x @ post" runtime_file] g d by simp
  from pulsar_step_known [OF R this, of discard msg flds keep m]
  have s: "pulsar_step R discard msg flds keep ?d (int (length pre)) m
      = rbind (unmarshal_step runtime_file msg flds ?d (int (length pre)) m) (\<lambda>(j, m').
          if flds (of_nat (field_num x)) = None \<and> \<not> discard
          then rbind (slice ?d (int (length pre)) j) (\<lambda>raw. Inr (j, keep raw m')) else Inr (j, m'))"
    by (simp add: wire_key_num [OF n t])
  have raw: "slice ?d (int (length pre)) (int (length (pre @ enc_field x))) = Inr (enc_field x)"
    using slice_middle [of pre "enc_field x" post] by simp
  show ?thesis
  proof (cases "flds (of_nat (field_num x))")
    case None
    then show ?thesis
      using raw unfolding s unmarshal_step_field [OF g w]
      by (simp add: api_apply_def apply_field_def)
  next
    case (Some p)
    then have a: "api_apply discard flds keep x m = apply_field flds x m"
      by (intro api_apply_known) simp
    show ?thesis
      unfolding s unmarshal_step_field [OF g w] a
      by (cases "apply_field flds x m") (simp_all add: Some)
  qed
qed

lemma pulsar_loop_fields:
  assumes "runtime_ok R" and "go_slice (pre @ enc_fields fs)" and "list_all wf_field fs"
  shows "pulsar_loop R discard msg flds keep (pre @ enc_fields fs) (int (length pre)) m
    = Some (rfold (api_apply discard flds keep) fs m)"
  using assms(2,3)
proof (induction fs arbitrary: pre m)
  case Nil
  then show ?case by (simp add: pulsar_loop_end)
next
  case (Cons x fs)
  let ?d = "pre @ enc_field x @ enc_fields fs"
  have "pulsar_step R discard msg flds keep ?d (int (length pre)) m
      = rbind (api_apply discard flds keep x m) (\<lambda>m'. Inr (int (length (pre @ enc_field x)), m'))"
    using Cons.prems by (intro pulsar_step_field [OF assms(1)]) simp_all
  moreover have "int (length pre) < int (length ?d)"
    using length_enc_field_pos [of x] by (simp del: length_greater_0_conv)
  moreover have "pulsar_loop R discard msg flds keep ?d (int (length (pre @ enc_field x))) m'
      = Some (rfold (api_apply discard flds keep) fs m')" for m'
    using Cons.IH [of "pre @ enc_field x" m'] Cons.prems by simp
  ultimately show ?case
    by (cases "api_apply discard flds keep x m")
      (simp_all add: pulsar_loop_turn [of "int (length pre)" ?d])
qed

theorem pulsar_unmarshal_fields:
  assumes "runtime_ok R" and "go_slice (enc_fields fs)" and "list_all wf_field fs"
  shows "pulsar_unmarshal R discard msg flds keep (enc_fields fs) (Some m)
    = Some (map_sum id Some (rfold (api_apply discard flds keep) fs m))"
  using pulsar_loop_fields [OF assms(1), of "[]" fs discard msg flds keep m] assms(2,3)
  by (simp add: pulsar_unmarshal_def)

section \<open>Decoding returns and does not panic\<close>

lemma pulsar_step_ok:
  assumes R: "runtime_ok R" and d: "go_slice d" and i: "0 \<le> i"
    and dec: "\<And>n name dec s m. flds n = Some (name, FMessage dec) \<Longrightarrow> go_slice s \<Longrightarrow>
      dec s m \<noteq> Inl Panic"
  shows "read_ok d i fst (pulsar_step R discard msg flds keep d i m)"
proof (cases "read_varint runtime_file d i 0 (0 :: uint64)")
  case (Inl e)
  then show ?thesis
    using read_varint_ok [OF d i, of runtime_file 0 "0 :: uint64"] by (simp add: pulsar_step_def)
next
  case (Inr r)
  obtain wire i1 where r: "r = (wire, i1)" by (cases r)
  have ok: "read_ok d i fst (unmarshal_step runtime_file msg flds d i m)"
    using dec by (rule unmarshal_step_ok [OF d i])
  show ?thesis
    using pulsar_step_known [OF R Inr [unfolded r], of discard msg flds keep m] ok i
    by (cases "unmarshal_step runtime_file msg flds d i m") (auto simp: slice_def)
qed

lemma pulsar_loop_total:
  assumes "runtime_ok R" and "go_slice d" and "0 \<le> i"
    and dec: "\<And>n name dec s m. flds n = Some (name, FMessage dec) \<Longrightarrow> go_slice s \<Longrightarrow>
      dec s m \<noteq> Inl Panic"
  shows "\<exists>r. pulsar_loop R discard msg flds keep d i m = Some r \<and> r \<noteq> Inl Panic"
  using assms(3)
proof (induction "nat (int (length d) - i)" arbitrary: i m rule: less_induct)
  case less
  have ok: "read_ok d i fst (pulsar_step R discard msg flds keep d i m)"
    using dec by (rule pulsar_step_ok [OF assms(1,2) less.prems])
  show ?case
  proof (cases "i < int (length d)")
    case False
    then show ?thesis by (simp add: pulsar_loop_end)
  next
    case True
    note turn = pulsar_loop_turn [OF True, of R discard msg flds keep m]
    show ?thesis
    proof (cases "pulsar_step R discard msg flds keep d i m")
      case (Inl e)
      then show ?thesis using turn ok by simp
    next
      case (Inr p)
      obtain j m' where p: "p = (j, m')" by (cases p)
      have "nat (int (length d) - j) < nat (int (length d) - i)" "0 \<le> j"
        using ok Inr p True less.prems by auto
      from less.hyps [OF this, of m'] show ?thesis
        using turn Inr p by simp
    qed
  qed
qed

section \<open>The contract of a message type\<close>

locale pulsar_message =
  fixes R :: proto_runtime
    and msg :: string
    and flds :: "'m fields"
    and keep :: "bytes \<Rightarrow> 'm \<Rightarrow> 'm"
    and unknown :: "'m \<Rightarrow> bytes"
    and clean :: "'m \<Rightarrow> 'm"
    and zero :: 'm
    and valid :: "'m \<Rightarrow> bool"
    and fields_size :: "'m \<Rightarrow> nat"
    and ws :: "'m \<Rightarrow> writer list"
    and wire :: "'m \<Rightarrow> wire_field list"
  assumes runtime: "runtime_ok R"
    and ws_writes: "writes (put_seq (ws m)) (enc_fields (wire m))"
    and size_wire: "fields_size m = length (enc_fields (wire m))"
    and wire_wf: "list_all wf_field (wire m)"
    and wire_known: "x \<in> set (wire m) \<Longrightarrow> flds (of_nat (field_num x)) \<noteq> None"
    and wire_fold: "valid m \<Longrightarrow> go_slice (enc_fields (wire m)) \<Longrightarrow>
      rfold (apply_field flds) (wire m) zero = Inr (clean m)"
    and keep_unknown: "keep (unknown m) (clean m) = m"
    and keep_keep: "keep b (keep a m) = keep (a @ b) m"
    and nested_no_panic: "flds n = Some (name, FMessage dec) \<Longrightarrow> go_slice s \<Longrightarrow>
      dec s y \<noteq> Inl Panic"
begin

lemma keep_nil: "keep [] m = m"
  by (metis append_Nil2 keep_keep keep_unknown)

lemma marshal_bytes:
  "pulsar_marshal unknown fields_size ws buf (Some m)
    = Inr (Some (case buf of Some b \<Rightarrow> b @ enc_fields (wire m) @ unknown m
        | None \<Rightarrow> enc_fields (wire m) @ unknown m))"
  using ws_writes size_wire by (rule pulsar_marshal_bytes)

lemma marshal_length:
  "\<exists>bs. pulsar_marshal unknown fields_size ws None (Some m) = Inr (Some bs)
    \<and> length bs = pulsar_size unknown fields_size (Some m)"
  unfolding marshal_bytes by (simp add: pulsar_size_def size_wire)

lemma total:
  assumes "go_slice d"
  shows "\<exists>r. pulsar_unmarshal R discard msg flds keep d (Some m) = Some r \<and> r \<noteq> Inl Panic"
proof -
  obtain r where "pulsar_loop R discard msg flds keep d 0 m = Some r" "r \<noteq> Inl Panic"
    using pulsar_loop_total [OF runtime assms, of 0 flds discard msg keep m] nested_no_panic by auto
  then show ?thesis by (cases r) (auto simp: pulsar_unmarshal_def)
qed

lemma fold_known:
  "rfold (api_apply discard flds keep) (wire m) m' = rfold (apply_field flds) (wire m) m'"
proof -
  have "rfold (api_apply discard flds keep) xs m' = rfold (apply_field flds) xs m'"
    if "set xs \<subseteq> set (wire m)" for xs m'
    using that
  proof (induction xs arbitrary: m')
    case (Cons x xs)
    then have "api_apply discard flds keep x m' = apply_field flds x m'"
      by (intro api_apply_known wire_known [of x m]) simp
    with Cons show ?case by (cases "apply_field flds x m'") simp_all
  qed simp
  then show ?thesis by simp
qed

lemma fold_unknown:
  assumes "\<And>x. x \<in> set us \<Longrightarrow> flds (of_nat (field_num x)) = None"
  shows "rfold (api_apply discard flds keep) us m = Inr (if discard then m else keep (enc_fields us) m)"
  using assms
  by (induction us arbitrary: m) (auto simp: api_apply_def keep_nil keep_keep)

text \<open>Encoding and decoding give the message back, unknown fields included unless discarded.\<close>

lemma roundtrip:
  assumes "valid m" and "unknown m = enc_fields us" and "list_all wf_field us"
    and "\<And>x. x \<in> set us \<Longrightarrow> flds (of_nat (field_num x)) = None"
    and "int (pulsar_size unknown fields_size (Some m)) < 2 ^ 63"
    and "pulsar_marshal unknown fields_size ws None (Some m) = Inr (Some bs)"
  shows "pulsar_unmarshal R discard msg flds keep bs (Some zero)
    = Some (Inr (Some (if discard then clean m else m)))"
proof -
  have bs: "bs = enc_fields (wire m @ us)"
    using assms(2,6) by (simp add: marshal_bytes)
  have g: "go_slice (enc_fields (wire m @ us))" "go_slice (enc_fields (wire m))"
    using assms(2,5) by (simp_all add: go_slice_def pulsar_size_def size_wire)
  have "rfold (api_apply discard flds keep) (wire m @ us) zero
      = Inr (if discard then clean m else m)"
    using wire_fold [OF assms(1) g(2)] fold_unknown [OF assms(4), of us discard "clean m"]
      keep_unknown [of m] assms(2)
    by (simp add: rfold_append fold_known)
  then show ?thesis
    unfolding bs
    using pulsar_unmarshal_fields [OF runtime g(1), of discard msg flds keep zero] wire_wf [of m] assms(3)
    by simp
qed

end

section \<open>Agreement with the gogoproto type\<close>

locale pulsar_gogo =
  pulsar_message R msg flds keep unknown clean zero valid fields_size ws wire
  + gogo: pb_message f msg gflds gzero gSize gto_sized gwire
  for R msg and flds :: "'m fields" and keep unknown clean zero valid fields_size ws wire
    and f and gflds :: "'g fields" and gzero gSize gto_sized gwire
  + fixes \<alpha> :: "'m \<Rightarrow> 'g"
  assumes sim: "fields_sim \<alpha> flds gflds"
    and \<alpha>_keep: "\<alpha> (keep raw m) = \<alpha> m"
    and \<alpha>_zero: "\<alpha> zero = gzero"
begin

text \<open>On every input the two decoders take the same decision, up to the names of errors.\<close>

lemma decode_agree:
  assumes "go_slice d"
  shows "\<exists>r. pulsar_unmarshal R discard msg flds keep d (Some m) = Some r
    \<and> norm (map_option \<alpha>) r = norm Some (unmarshal f msg gflds d (\<alpha> m))"
proof -
  have "\<exists>r. pulsar_loop R discard msg flds keep d 0 m = Some r
      \<and> norm \<alpha> r = norm id (unmarshal_loop f msg gflds d 0 (\<alpha> m))"
    using runtime sim \<alpha>_keep assms by (rule pulsar_loop_sim) simp
  then obtain r where "pulsar_loop R discard msg flds keep d 0 m = Some r"
    "norm \<alpha> r = norm id (unmarshal_loop f msg gflds d 0 (\<alpha> m))"
    by blast
  then show ?thesis
    by (cases r; cases "unmarshal_loop f msg gflds d 0 (\<alpha> m)")
      (auto simp: pulsar_unmarshal_def unmarshal_def)
qed

text \<open>Each decodes what the other encodes.\<close>

lemma from_gogo:
  assumes "int (gSize g) < 2 ^ 63" and "marshal (gSize g) (gto_sized g) = Inr bs"
  shows "\<exists>x. pulsar_unmarshal R discard msg flds keep bs (Some zero) = Some (Inr (Some x)) \<and> \<alpha> x = g"
proof -
  have "go_slice bs"
    using assms gogo.marshal_length [of g] by (simp add: go_slice_def)
  from decode_agree [OF this, of discard zero] gogo.roundtrip [OF assms]
  obtain r where r: "pulsar_unmarshal R discard msg flds keep bs (Some zero) = Some r"
    "norm (map_option \<alpha>) r = Inr (Some g)"
    by (auto simp: \<alpha>_zero)
  then show ?thesis by (cases r) auto
qed

lemma to_gogo:
  assumes "valid m" and "unknown m = enc_fields us" and "list_all wf_field us"
    and "\<And>x. x \<in> set us \<Longrightarrow> flds (of_nat (field_num x)) = None"
    and "int (pulsar_size unknown fields_size (Some m)) < 2 ^ 63"
    and "pulsar_marshal unknown fields_size ws None (Some m) = Inr (Some bs)"
  shows "unmarshal f msg gflds bs gzero = Inr (\<alpha> m)"
proof -
  have "go_slice bs"
    using assms(5,6) marshal_length [of m] by (simp add: go_slice_def)
  from decode_agree [OF this, of False zero] roundtrip [OF assms, of False]
  show ?thesis
    by (cases "unmarshal f msg gflds bs gzero") (auto simp: \<alpha>_zero)
qed

end

end
