(* ===== verification/Pulsar_Nested.thy ===== *)
theory Pulsar_Nested
  imports Pulsar_Message
begin

text \<open>
  Messages inside messages.  The code reaches an embedded message through \<open>options\<close> of the
  protobuf library, which calls the methods of that message; \<open>options_ok\<close> states that, and
  \<open>nested_ok\<close> is what the embedding message uses.  The messages of the Cosmos SDK that the
  repository embeds come with \<open>nested_ok\<close> as their contract.
\<close>

section \<open>Valid messages\<close>

text \<open>
  A message that decoding can give back: its unknown fields are a list of fields that the message
  does not have, and there are none when they are discarded.
\<close>

definition pulsar_valid ::
  "bool \<Rightarrow> ('m \<Rightarrow> bool) \<Rightarrow> ('m \<Rightarrow> bytes) \<Rightarrow> 'm fields \<Rightarrow> 'm \<Rightarrow> bool" where
  "pulsar_valid discard valid unknown flds m \<longleftrightarrow> valid m \<and>
     (\<exists>us. unknown m = enc_fields us \<and> list_all wf_field us
       \<and> (\<forall>x \<in> set us. flds (of_nat (field_num x)) = None) \<and> (discard \<longrightarrow> us = []))"

lemma pulsar_valid_clean: "valid m \<Longrightarrow> unknown m = [] \<Longrightarrow> pulsar_valid discard valid unknown flds m"
  unfolding pulsar_valid_def by (intro conjI exI [of _ "[]"]) simp_all

definition pointer_good :: "('p \<Rightarrow> bool) \<Rightarrow> 'p option \<Rightarrow> bool" where
  "pointer_good good p = (case p of None \<Rightarrow> True | Some m \<Rightarrow> good m)"

text \<open>The elements of a list are not nil: a nil element is encoded as an empty message.\<close>

definition elements_good :: "('p \<Rightarrow> bool) \<Rightarrow> 'p option list \<Rightarrow> bool" where
  "elements_good good es = list_all (\<lambda>e. case e of None \<Rightarrow> False | Some m \<Rightarrow> good m) es"

section \<open>The contract of options\<close>

text \<open>
  \<open>options.Unmarshal\<close> either merges into the message or starts with a new one, depending on how
  the library sets its options.
\<close>

definition options_ok ::
  "('m option \<Rightarrow> nat) \<Rightarrow> (bytes option \<Rightarrow> 'm option \<Rightarrow> pb_error + bytes option)
    \<Rightarrow> (bytes \<Rightarrow> 'm option \<Rightarrow> (pb_error + 'm option) option) \<Rightarrow> 'm \<Rightarrow> 'm options \<Rightarrow> bool" where
  "options_ok sz marsh unmarsh zero O1 \<longleftrightarrow>
     (\<forall>p. opt_Size O1 p = sz p)
   \<and> (\<forall>p. opt_Marshal O1 p = rbind (marsh None p) (\<lambda>b. Inr (case b of None \<Rightarrow> [] | Some bs \<Rightarrow> bs)))
   \<and> (\<exists>merge. \<forall>s p. go_slice s \<longrightarrow>
       unmarsh s (Some (if merge then p else zero)) = Some (map_sum id Some (opt_Unmarshal O1 s p)))"

lemma options_okE:
  assumes "options_ok sz marsh unmarsh zero O1"
  obtains merge where "\<And>p. opt_Size O1 p = sz p"
    and "\<And>p. opt_Marshal O1 p = rbind (marsh None p) (\<lambda>b. Inr (case b of None \<Rightarrow> [] | Some bs \<Rightarrow> bs))"
    and "\<And>s p. go_slice s \<Longrightarrow>
      unmarsh s (Some (if merge then p else zero)) = Some (map_sum id Some (opt_Unmarshal O1 s p))"
  using assms unfolding options_ok_def by blast

definition options_of ::
  "('m option \<Rightarrow> nat) \<Rightarrow> (bytes option \<Rightarrow> 'm option \<Rightarrow> pb_error + bytes option)
    \<Rightarrow> (bytes \<Rightarrow> 'm option \<Rightarrow> (pb_error + 'm option) option) \<Rightarrow> 'm options" where
  "options_of sz marsh unmarsh =
     \<lparr>opt_Size = sz,
      opt_Marshal = (\<lambda>p. rbind (marsh None p) (\<lambda>b. Inr (case b of None \<Rightarrow> [] | Some bs \<Rightarrow> bs))),
      opt_Unmarshal = (\<lambda>s p. case unmarsh s (Some p) of
          Some (Inr (Some m)) \<Rightarrow> Inr m | Some (Inl e) \<Rightarrow> Inl e | _ \<Rightarrow> Inl Panic)\<rparr>"

definition nested_ok :: "'p options \<Rightarrow> ('p \<Rightarrow> bytes) \<Rightarrow> 'p \<Rightarrow> ('p \<Rightarrow> bool) \<Rightarrow> bool" where
  "nested_ok O1 enc zero good \<longleftrightarrow>
     opt_Size O1 None = 0 \<and> (\<forall>m. opt_Size O1 (Some m) = length (enc m))
   \<and> opt_Marshal O1 None = Inr [] \<and> (\<forall>m. opt_Marshal O1 (Some m) = Inr (enc m))
   \<and> (\<forall>s p. go_slice s \<longrightarrow> opt_Unmarshal O1 s p \<noteq> Inl Panic)
   \<and> (\<forall>m. good m \<longrightarrow> go_slice (enc m) \<longrightarrow> opt_Unmarshal O1 (enc m) zero = Inr m)"

lemma nested_okD:
  assumes "nested_ok O1 enc zero good"
  shows "opt_Size O1 None = 0" "opt_Size O1 (Some m) = length (enc m)"
    "opt_Marshal O1 None = Inr []" "opt_Marshal O1 (Some m) = Inr (enc m)"
    "go_slice s \<Longrightarrow> opt_Unmarshal O1 s p \<noteq> Inl Panic"
    "good m \<Longrightarrow> go_slice (enc m) \<Longrightarrow> opt_Unmarshal O1 (enc m) zero = Inr m"
  using assms by (simp_all add: nested_ok_def)

context pulsar_message
begin

lemma roundtrip_valid:
  assumes "pulsar_valid discard valid unknown flds m"
    and "int (pulsar_size unknown fields_size (Some m)) < 2 ^ 63"
    and "pulsar_marshal unknown fields_size ws None (Some m) = Inr (Some bs)"
  shows "pulsar_unmarshal R discard msg flds keep bs (Some zero) = Some (Inr (Some m))"
proof -
  obtain us where us: "valid m" "unknown m = enc_fields us" "list_all wf_field us"
    "\<And>x. x \<in> set us \<Longrightarrow> flds (of_nat (field_num x)) = None" "discard \<Longrightarrow> us = []"
    using assms(1) by (auto simp: pulsar_valid_def)
  have "clean m = m" if discard
    using keep_unknown [of m] us(2,5) that by (simp add: keep_nil)
  then show ?thesis
    using roundtrip [OF us(1-4) assms(2,3), of discard] by simp
qed

text \<open>Decoding into any receiver, nil included, returns.\<close>

lemma total_receiver:
  assumes "go_slice d"
  shows "\<exists>r. pulsar_unmarshal R discard msg flds keep d x = Some r \<and> r \<noteq> Inl Panic"
  using total [OF assms] by (cases x) (simp_all add: pulsar_unmarshal_def)

lemma nested:
  assumes "options_ok (pulsar_size unknown fields_size) (pulsar_marshal unknown fields_size ws)
      (pulsar_unmarshal R discard msg flds keep) zero O1"
  shows "nested_ok O1 (\<lambda>m. enc_fields (wire m) @ unknown m) zero
    (pulsar_valid discard valid unknown flds)"
proof -
  let ?un = "pulsar_unmarshal R discard msg flds keep"
  obtain merge where size: "\<And>p. opt_Size O1 p = pulsar_size unknown fields_size p"
    and marsh: "\<And>p. opt_Marshal O1 p = rbind (pulsar_marshal unknown fields_size ws None p)
        (\<lambda>b. Inr (case b of None \<Rightarrow> [] | Some bs \<Rightarrow> bs))"
    and unmarsh: "\<And>s p. go_slice s \<Longrightarrow>
      ?un s (Some (if merge then p else zero)) = Some (map_sum id Some (opt_Unmarshal O1 s p))"
    using assms by (rule options_okE) blast
  show ?thesis
    unfolding nested_ok_def
  proof (intro conjI allI impI)
    show "opt_Size O1 None = 0" "opt_Marshal O1 None = Inr []"
      by (simp_all add: size marsh pulsar_size_def pulsar_marshal_def)
    show "opt_Size O1 (Some m) = length (enc_fields (wire m) @ unknown m)" for m
      by (simp add: size pulsar_size_def size_wire)
    show "opt_Marshal O1 (Some m) = Inr (enc_fields (wire m) @ unknown m)" for m
      by (simp add: marsh marshal_bytes)
    show "opt_Unmarshal O1 s p \<noteq> Inl Panic" if "go_slice s" for s p
      using total [OF that, of discard "if merge then p else zero"] unmarsh [OF that, of p]
      by (cases "opt_Unmarshal O1 s p") auto
    show "opt_Unmarshal O1 (enc_fields (wire m) @ unknown m) zero = Inr m"
      if "pulsar_valid discard valid unknown flds m" "go_slice (enc_fields (wire m) @ unknown m)" for m
    proof -
      have "?un (enc_fields (wire m) @ unknown m) (Some zero) = Some (Inr (Some m))"
        using that by (intro roundtrip_valid)
          (simp_all add: marshal_bytes pulsar_size_def size_wire go_slice_def)
      then show ?thesis
        using unmarsh [OF that(2), of zero]
        by (cases "opt_Unmarshal O1 (enc_fields (wire m) @ unknown m) zero") auto
    qed
  qed
qed

text \<open>The methods of the message itself give such options.\<close>

lemma options_of_ok:
  "options_ok (pulsar_size unknown fields_size) (pulsar_marshal unknown fields_size ws)
    (pulsar_unmarshal R discard msg flds keep) zero
    (options_of (pulsar_size unknown fields_size) (pulsar_marshal unknown fields_size ws)
      (pulsar_unmarshal R discard msg flds keep))"
proof -
  have "pulsar_unmarshal R discard msg flds keep s (Some p) = Some (map_sum id Some
      (case pulsar_unmarshal R discard msg flds keep s (Some p) of
          Some (Inr (Some m)) \<Rightarrow> Inr m | Some (Inl e) \<Rightarrow> Inl e | _ \<Rightarrow> Inl Panic))"
    if g: "go_slice s" for s p
  proof -
    obtain r where r: "pulsar_loop R discard msg flds keep s 0 p = Some r"
      using pulsar_loop_total [OF runtime g, of 0 flds discard msg keep p] nested_no_panic by auto
    show ?thesis
      by (cases r) (simp_all add: pulsar_unmarshal_def r)
  qed
  then show ?thesis
    unfolding options_ok_def options_of_def by (auto intro!: exI [of _ True])
qed

end

context pulsar_gogo
begin

text \<open>A nested message that is decoded fresh, and one with a single value.\<close>

lemma nested_sim:
  assumes "options_ok (pulsar_size unknown fields_size) (pulsar_marshal unknown fields_size ws)
      (pulsar_unmarshal R discard msg flds keep) zero O1"
    and "go_slice s" and "p = zero \<or> (\<forall>q. \<alpha> q = gzero)"
  shows "norm \<alpha> (opt_Unmarshal O1 s p) = norm id (unmarshal f msg gflds s (\<alpha> p))"
proof -
  obtain merge where u: "pulsar_unmarshal R discard msg flds keep s (Some (if merge then p else zero))
      = Some (map_sum id Some (opt_Unmarshal O1 s p))"
    using assms(1) by (rule options_okE) (use assms(2) in blast)
  have "\<alpha> (if merge then p else zero) = \<alpha> p"
    using assms(3) \<alpha>_zero by (cases merge) metis+
  with decode_agree [OF assms(2), of discard "if merge then p else zero"] u
  show ?thesis
    by (cases "opt_Unmarshal O1 s p"; cases "unmarshal f msg gflds s (\<alpha> p)") auto
qed

text \<open>What one side encodes the other decodes.\<close>

lemma interop:
  assumes "pulsar_valid False valid unknown flds m"
    and "int (pulsar_size unknown fields_size (Some m)) < 2 ^ 63" and "int (gSize g) < 2 ^ 63"
  shows "\<exists>bs. pulsar_marshal unknown fields_size ws None (Some m) = Inr (Some bs)
      \<and> unmarshal f msg gflds bs gzero = Inr (\<alpha> m)"
    and "\<exists>bs x. marshal (gSize g) (gto_sized g) = Inr bs
      \<and> pulsar_unmarshal R discard msg flds keep bs (Some zero) = Some (Inr (Some x)) \<and> \<alpha> x = g"
proof -
  obtain us where us: "valid m" "unknown m = enc_fields us" "list_all wf_field us"
    "\<And>x. x \<in> set us \<Longrightarrow> flds (of_nat (field_num x)) = None"
    using assms(1) by (auto simp: pulsar_valid_def)
  show "\<exists>bs. pulsar_marshal unknown fields_size ws None (Some m) = Inr (Some bs)
      \<and> unmarshal f msg gflds bs gzero = Inr (\<alpha> m)"
    using to_gogo [OF us assms(2)] marshal_length [of m] by blast
  show "\<exists>bs x. marshal (gSize g) (gto_sized g) = Inr bs
      \<and> pulsar_unmarshal R discard msg flds keep bs (Some zero) = Some (Inr (Some x)) \<and> \<alpha> x = g"
    using from_gogo [OF assms(3)] gogo.marshal_length [of g] by blast
qed

end

section \<open>Embedded messages and lists in an encoding\<close>

definition w_elements :: "nat \<Rightarrow> ('p \<Rightarrow> bytes) \<Rightarrow> 'p option list \<Rightarrow> wire_field list" where
  "w_elements n enc es = map (\<lambda>e. WBytes n (case e of None \<Rightarrow> [] | Some m \<Rightarrow> enc m)) es"

lemma writes_nested:
  assumes "runtime_ok R" and "nested_ok O1 enc zero good" and "n < 16" and "key = key_byte n 2"
  shows "writes (api_message R O1 key p) (enc_fields (w_message n enc p))"
    and "writes (api_repeated R O1 key es) (enc_fields (w_elements n enc es))"
proof -
  note D = nested_okD(3,4) [OF assms(2)]
  show "writes (api_message R O1 key p) (enc_fields (w_message n enc p))"
    using assms(1) D(2) assms(3,4) by (rule writes_api_message)
  have "opt_Marshal O1 q = Inr (case q of None \<Rightarrow> [] | Some m \<Rightarrow> enc m)" for q
    by (cases q) (simp_all add: D)
  then show "writes (api_repeated R O1 key es) (enc_fields (w_elements n enc es))"
    unfolding w_elements_def using assms(1,3,4) by (intro writes_api_repeated)
qed

lemma length_nested:
  assumes "runtime_ok R" and "nested_ok O1 enc zero good" and "n < 16"
  shows "length (enc_fields (w_message n enc p)) = api_size_message R O1 p"
    and "length (enc_fields (w_elements n enc es)) = api_size_repeated R O1 es"
proof -
  note D = nested_okD(1,2) [OF assms(2)]
  show "length (enc_fields (w_message n enc p)) = api_size_message R O1 p"
    using assms(3) by (cases p) (simp_all add: w_message_def api_size_message_def
        runtime_simps [OF assms(1)] D del: enc_field.simps)
  show "length (enc_fields (w_elements n enc es)) = api_size_repeated R O1 es"
  proof (induction es)
    case (Cons e es)
    then show ?case
      using assms(3) by (cases e) (simp_all add: w_elements_def api_size_repeated_def
          runtime_simps [OF assms(1)] D del: enc_field.simps)
  qed (simp add: w_elements_def api_size_repeated_def)
qed

lemma wf_nested [simp]:
  "0 < n \<Longrightarrow> n < 16 \<Longrightarrow> list_all wf_field (w_message n enc p)"
  "0 < n \<Longrightarrow> n < 16 \<Longrightarrow> list_all wf_field (w_elements n enc es)"
  by (auto simp: w_message_def w_elements_def list_all_iff split: option.splits)

lemma num_wire:
  "x \<in> set (w_string n s) \<Longrightarrow> field_num x = n" "x \<in> set (w_int32 n v) \<Longrightarrow> field_num x = n"
  "x \<in> set (w_bool n b) \<Longrightarrow> field_num x = n"
  "x \<in> set (w_message n enc p) \<Longrightarrow> field_num x = n"
  "x \<in> set (w_elements n enc es) \<Longrightarrow> field_num x = n"
  by (auto simp: wire_defs w_message_def w_elements_def split: if_splits option.splits)

lemma rfold_nested_message:
  assumes "flds (of_nat n) = Some (name, FMessage (api_dec_message O1 zero sel upd))"
    and "nested_ok O1 enc zero good" and "pointer_good good p"
    and "set (w_message n enc p) \<subseteq> set fs" and "go_slice (enc_fields fs)"
    and "sel m = None" and "upd None m = m"
  shows "rfold (apply_field flds) (w_message n enc p @ rest) m = rfold (apply_field flds) rest (upd p m)"
proof (cases p)
  case None
  then show ?thesis by (simp add: w_message_def assms(7))
next
  case (Some q)
  have "go_slice (enc q)"
    by (rule go_slice_nested [OF _ assms(5), where n = n]) (use assms(4) in \<open>simp add: w_message_def Some\<close>)
  then have "opt_Unmarshal O1 (enc q) zero = Inr q"
    using nested_okD(6) [OF assms(2)] assms(3) Some by (simp add: pointer_good_def)
  then show ?thesis
    by (simp add: w_message_def Some apply_field_def assms(1,6) api_dec_message_def)
qed

lemma rfold_nested_elements:
  assumes "flds (of_nat n) = Some (name, FMessage (api_dec_repeated O1 zero sel upd))"
    and "nested_ok O1 enc zero good" and "elements_good good es"
    and "set (w_elements n enc es) \<subseteq> set fs" and "go_slice (enc_fields fs)"
    and "\<And>xs m. sel (upd xs m) = xs" and "\<And>xs ys m. upd xs (upd ys m) = upd xs m"
    and "upd (sel m) m = m"
  shows "rfold (apply_field flds) (w_elements n enc es @ rest) m
    = rfold (apply_field flds) rest (upd (sel m @ es) m)"
  using assms(3,4,8)
proof (induction es arbitrary: m)
  case Nil
  then show ?case by (simp add: w_elements_def)
next
  case (Cons e es)
  then obtain q where e: "e = Some q" "good q" and es: "elements_good good es"
    by (auto simp: elements_good_def split: option.splits)
  have sub: "WBytes n (enc q) \<in> set fs" "set (w_elements n enc es) \<subseteq> set fs"
    using Cons.prems(2) by (simp_all add: w_elements_def e)
  have q: "opt_Unmarshal O1 (enc q) zero = Inr q"
    using nested_okD(6) [OF assms(2)] e go_slice_nested [OF sub(1) assms(5)] by simp
  from Cons.IH [OF es sub(2), of "upd (sel m @ [Some q]) m"]
  show ?case
    by (simp add: w_elements_def e apply_field_def assms(1,6,7) api_dec_repeated_def q)
qed

lemma api_dec_no_panic:
  assumes "nested_ok O1 enc zero good" and "go_slice s"
  shows "api_dec_message O1 zero sel upd s m \<noteq> Inl Panic"
    and "api_dec_repeated O1 zero sel' upd' s m \<noteq> Inl Panic"
  using nested_okD(5) [OF assms]
  by (auto simp: api_dec_message_def api_dec_repeated_def rbind_eq_Inl Let_def split: option.splits)

text \<open>The corresponding cases of the gogoproto decoders.\<close>

lemma sim_nested_message:
  assumes "\<And>s p. go_slice s \<Longrightarrow> norm \<alpha> (opt_Unmarshal O1 s p) = norm id (gdec s (\<alpha> p))"
    and "\<And>m. gsel (\<beta> m) = \<alpha> (case sel m of None \<Rightarrow> zero | Some p \<Rightarrow> p)"
    and "\<And>p m. \<beta> (upd (Some p) m) = gupd (\<alpha> p) (\<beta> m)"
  shows "field_sim \<beta> (FMessage (api_dec_message O1 zero sel upd))
    (FMessage (\<lambda>s m. rbind (gdec s (gsel m)) (\<lambda>x. Inr (gupd x m))))"
proof -
  have "norm \<beta> (api_dec_message O1 zero sel upd s m) = norm id (rbind (gdec s (gsel (\<beta> m))) (\<lambda>x. Inr (gupd x (\<beta> m))))"
    if "go_slice s" for s m
  proof -
    let ?p = "case sel m of None \<Rightarrow> zero | Some p \<Rightarrow> p"
    show ?thesis
      using assms(1) [OF that, of ?p] unfolding api_dec_message_def Let_def assms(2)
      by (cases "opt_Unmarshal O1 s ?p"; cases "gdec s (\<alpha> ?p)") (auto simp: assms(3))
  qed
  then show ?thesis by simp
qed

lemma sim_nested_repeated:
  assumes "\<And>s. go_slice s \<Longrightarrow> norm \<alpha> (opt_Unmarshal O1 s zero) = norm id (gdec s gzero)"
    and "\<And>p m. \<beta> (upd (sel m @ [Some p]) m) = gupd (\<alpha> p) (\<beta> m)"
  shows "field_sim \<beta> (FMessage (api_dec_repeated O1 zero sel upd))
    (FMessage (\<lambda>s m. rbind (gdec s gzero) (\<lambda>x. Inr (gupd x m))))"
proof -
  have "norm \<beta> (api_dec_repeated O1 zero sel upd s m) = norm id (rbind (gdec s gzero) (\<lambda>x. Inr (gupd x (\<beta> m))))"
    if "go_slice s" for s m
    using assms(1) [OF that] unfolding api_dec_repeated_def
    by (cases "opt_Unmarshal O1 s zero"; cases "gdec s gzero") (auto simp: assms(2))
  then show ?thesis by simp
qed

end
