(* ===== verification/Pulsar_Reflect.thy ===== *)
theory Pulsar_Reflect
  imports Pulsar_Message
begin

text \<open>
  The reflection methods of a generated message, \<open>fastReflection_X\<close> in \<open>api/**/*.pulsar.go\<close>:
  \<open>Range\<close>, \<open>Has\<close>, \<open>Clear\<close>, \<open>Get\<close>, \<open>Set\<close>, \<open>Mutable\<close>, \<open>NewField\<close> and the methods of the list type of a
  repeated field.  The generator writes each as a switch over the names of the fields with one
  case per field; a message is a table of its fields, in the order of the source, and a method
  is the switch over the table.

  A message is a pointer, so the receiver is an option.  A reference that a method returns (to an
  embedded message or to a list) is given by what it refers to.
\<close>

section \<open>Values\<close>

text \<open>
  The panics of the methods: the two of every switch, those of \<open>Mutable\<close> and \<open>WhichOneof\<close>, a
  value of another kind or type than the field (the accessors of \<open>protoreflect.Value\<close> and the
  type assertions), a nil pointer and an index out of range.
\<close>

datatype refl_error =
    NoExtensions string
  | NoField string string
  | NotMutable string string
  | NotOneof string string
  | WrongKind
  | NilDereference
  | IndexOutOfRange

record field_descriptor =
  FullName :: string
  IsExtension :: bool

text \<open>
  \<open>protoreflect.Value\<close>.  A message is a typed pointer, of a type \<open>'v\<close> that sums up the messages of
  a package; a list is its Go type and its elements, or \<open>None\<close> when its pointer is nil.
  \<open>ValueOfOther\<close> stands for the kinds no field of the repository has.
\<close>

datatype 'v pvalue =
    ValueOfBool bool
  | ValueOfInt32 int32
  | ValueOfInt64 "64 word"
  | ValueOfString gostring
  | ValueOfMessage 'v
  | ValueOfList string "'v list option"
  | ValueOfOther

fun value_string :: "'v pvalue \<Rightarrow> refl_error + gostring" where
  "value_string (ValueOfString s) = Inr s"
| "value_string v = Inl WrongKind"

text \<open>\<open>int32(value.Int())\<close>\<close>

fun value_int32 :: "'v pvalue \<Rightarrow> refl_error + int32" where
  "value_int32 (ValueOfInt32 i) = Inr (ucast (scast i :: 64 word))"
| "value_int32 (ValueOfInt64 i) = Inr (ucast i)"
| "value_int32 v = Inl WrongKind"

fun value_bool :: "'v pvalue \<Rightarrow> refl_error + bool" where
  "value_bool (ValueOfBool b) = Inr b"
| "value_bool v = Inl WrongKind"

definition deref :: "'m option \<Rightarrow> refl_error + 'm" where
  "deref x = (case x of None \<Rightarrow> Inl NilDereference | Some m \<Rightarrow> Inr m)"

lemma deref_simps [simp]: "deref None = Inl NilDereference" "deref (Some m) = Inr m"
  by (simp_all add: deref_def)

section \<open>Fields\<close>

text \<open>
  The kinds of fields.  An embedded message has its pointer as a value, a test for nil, the
  assignment, which fails on a message of another type, the nil pointer and a new message.  A
  repeated field has its list type, its elements as values, and the assignment.
\<close>

datatype ('m, 'v) rfield =
    RString "'m \<Rightarrow> gostring" "gostring \<Rightarrow> 'm \<Rightarrow> 'm"
  | RInt32 "'m \<Rightarrow> int32" "int32 \<Rightarrow> 'm \<Rightarrow> 'm"
  | RBool "'m \<Rightarrow> bool" "bool \<Rightarrow> 'm \<Rightarrow> 'm"
  | RMessage "'m \<Rightarrow> 'v" "'m \<Rightarrow> bool" "'v \<Rightarrow> 'm \<Rightarrow> 'm option" 'v 'v
  | RList string "'m \<Rightarrow> 'v list" "'v list \<Rightarrow> 'm \<Rightarrow> 'm option"

definition RPointer ::
  "('p option \<Rightarrow> 'v) \<Rightarrow> ('v \<Rightarrow> 'p option option) \<Rightarrow> 'p \<Rightarrow> ('m \<Rightarrow> 'p option)
    \<Rightarrow> ('p option \<Rightarrow> 'm \<Rightarrow> 'm) \<Rightarrow> ('m, 'v) rfield" where
  "RPointer wrap unwrap zero sel upd =
     RMessage (\<lambda>m. wrap (sel m)) (\<lambda>m. sel m \<noteq> None)
       (\<lambda>v m. case unwrap v of None \<Rightarrow> None | Some p \<Rightarrow> Some (upd p m)) (wrap None) (wrap (Some zero))"

definition RListOf ::
  "string \<Rightarrow> ('p option \<Rightarrow> 'v) \<Rightarrow> ('v \<Rightarrow> 'p option option) \<Rightarrow> ('m \<Rightarrow> 'p option list)
    \<Rightarrow> ('p option list \<Rightarrow> 'm \<Rightarrow> 'm) \<Rightarrow> ('m, 'v) rfield" where
  "RListOf list_type wrap unwrap sel upd =
     RList list_type (\<lambda>m. map wrap (sel m))
       (\<lambda>vs m. case those (map unwrap vs) of None \<Rightarrow> None | Some es \<Rightarrow> Some (upd es m))"

text \<open>One case of each switch.\<close>

fun rf_has :: "('m, 'v) rfield \<Rightarrow> 'm \<Rightarrow> bool" where
  "rf_has (RString sel upd) m \<longleftrightarrow> sel m \<noteq> []"
| "rf_has (RInt32 sel upd) m \<longleftrightarrow> sel m \<noteq> 0"
| "rf_has (RBool sel upd) m \<longleftrightarrow> sel m \<noteq> False"
| "rf_has (RMessage sel present put nilv newv) m \<longleftrightarrow> present m"
| "rf_has (RList t sel put) m \<longleftrightarrow> length (sel m) \<noteq> 0"

fun rf_clear :: "('m, 'v) rfield \<Rightarrow> 'm \<Rightarrow> 'm" where
  "rf_clear (RString sel upd) m = upd [] m"
| "rf_clear (RInt32 sel upd) m = upd 0 m"
| "rf_clear (RBool sel upd) m = upd False m"
| "rf_clear (RMessage sel present put nilv newv) m = (case put nilv m of Some m' \<Rightarrow> m' | None \<Rightarrow> m)"
| "rf_clear (RList t sel put) m = (case put [] m of Some m' \<Rightarrow> m' | None \<Rightarrow> m)"

fun rf_get :: "('m, 'v) rfield \<Rightarrow> 'm \<Rightarrow> 'v pvalue" where
  "rf_get (RString sel upd) m = ValueOfString (sel m)"
| "rf_get (RInt32 sel upd) m = ValueOfInt32 (sel m)"
| "rf_get (RBool sel upd) m = ValueOfBool (sel m)"
| "rf_get (RMessage sel present put nilv newv) m = ValueOfMessage (sel m)"
| "rf_get (RList t sel put) m =
     (if length (sel m) = 0 then ValueOfList t None else ValueOfList t (Some (sel m)))"

fun rf_set :: "('m, 'v) rfield \<Rightarrow> 'v pvalue \<Rightarrow> 'm \<Rightarrow> refl_error + 'm" where
  "rf_set (RString sel upd) v m = rbind (value_string v) (\<lambda>s. Inr (upd s m))"
| "rf_set (RInt32 sel upd) v m = rbind (value_int32 v) (\<lambda>i. Inr (upd i m))"
| "rf_set (RBool sel upd) v m = rbind (value_bool v) (\<lambda>b. Inr (upd b m))"
| "rf_set (RMessage sel present put nilv newv) v m =
     (case v of
        ValueOfMessage p \<Rightarrow> (case put p m of None \<Rightarrow> Inl WrongKind | Some m' \<Rightarrow> Inr m')
      | _ \<Rightarrow> Inl WrongKind)"
| "rf_set (RList t sel put) v m =
     (case v of
        ValueOfList t' vs \<Rightarrow>
          if t' \<noteq> t then Inl WrongKind
          else (case vs of
              None \<Rightarrow> Inl NilDereference
            | Some es \<Rightarrow> (case put es m of None \<Rightarrow> Inl WrongKind | Some m' \<Rightarrow> Inr m'))
      | _ \<Rightarrow> Inl WrongKind)"

fun rf_mutable :: "string \<Rightarrow> string \<Rightarrow> ('m, 'v) rfield \<Rightarrow> 'm option \<Rightarrow> refl_error + 'm \<times> 'v pvalue" where
  "rf_mutable msg name (RMessage sel present put nilv newv) x =
     rbind (deref x) (\<lambda>m.
       let m' = (if \<not> present m then (case put newv m of Some m' \<Rightarrow> m' | None \<Rightarrow> m) else m)
       in Inr (m', ValueOfMessage (sel m')))"
| "rf_mutable msg name (RList t sel put) x =
     rbind (deref x) (\<lambda>m. Inr (m, ValueOfList t (Some (sel m))))"
| "rf_mutable msg name k x = Inl (NotMutable name msg)"

fun rf_new :: "('m, 'v) rfield \<Rightarrow> 'v pvalue" where
  "rf_new (RString sel upd) = ValueOfString []"
| "rf_new (RInt32 sel upd) = ValueOfInt32 0"
| "rf_new (RBool sel upd) = ValueOfBool False"
| "rf_new (RMessage sel present put nilv newv) = ValueOfMessage newv"
| "rf_new (RList t sel put) = ValueOfList t (Some [])"

section \<open>Methods\<close>

type_synonym ('m, 'v) rtable = "(string \<times> ('m, 'v) rfield) list"

text \<open>
  \<open>switch fd.FullName()\<close>: the name of a field is that of the message, a dot and its own.
\<close>

definition refl_switch ::
  "string \<Rightarrow> ('m, 'v) rtable \<Rightarrow> field_descriptor \<Rightarrow> (string \<Rightarrow> ('m, 'v) rfield \<Rightarrow> refl_error + 'r)
    \<Rightarrow> refl_error + 'r" where
  "refl_switch msg tbl fd case_of =
     (case find (\<lambda>(n, k). FullName fd = msg @ ''.'' @ n) tbl of
        Some (n, k) \<Rightarrow> case_of n k
      | None \<Rightarrow> if IsExtension fd then Inl (NoExtensions msg) else Inl (NoField msg (FullName fd)))"

definition refl_Has ::
  "string \<Rightarrow> ('m, 'v) rtable \<Rightarrow> 'm option \<Rightarrow> field_descriptor \<Rightarrow> refl_error + bool" where
  "refl_Has msg tbl x fd =
     refl_switch msg tbl fd (\<lambda>n k. rbind (deref x) (\<lambda>m. Inr (rf_has k m)))"

definition refl_Clear ::
  "string \<Rightarrow> ('m, 'v) rtable \<Rightarrow> 'm option \<Rightarrow> field_descriptor \<Rightarrow> refl_error + 'm option" where
  "refl_Clear msg tbl x fd =
     refl_switch msg tbl fd (\<lambda>n k. rbind (deref x) (\<lambda>m. Inr (Some (rf_clear k m))))"

definition refl_Get ::
  "string \<Rightarrow> ('m, 'v) rtable \<Rightarrow> 'm option \<Rightarrow> field_descriptor \<Rightarrow> refl_error + 'v pvalue" where
  "refl_Get msg tbl x fd =
     refl_switch msg tbl fd (\<lambda>n k. rbind (deref x) (\<lambda>m. Inr (rf_get k m)))"

definition refl_Set ::
  "string \<Rightarrow> ('m, 'v) rtable \<Rightarrow> 'm option \<Rightarrow> field_descriptor \<Rightarrow> 'v pvalue \<Rightarrow> refl_error + 'm option" where
  "refl_Set msg tbl x fd v =
     refl_switch msg tbl fd (\<lambda>n k. rbind (deref x) (\<lambda>m. rbind (rf_set k v m) (\<lambda>m'. Inr (Some m'))))"

definition refl_Mutable ::
  "string \<Rightarrow> ('m, 'v) rtable \<Rightarrow> 'm option \<Rightarrow> field_descriptor \<Rightarrow> refl_error + 'm option \<times> 'v pvalue" where
  "refl_Mutable msg tbl x fd =
     refl_switch msg tbl fd (\<lambda>n k. rbind (rf_mutable msg n k x) (\<lambda>(m', v). Inr (Some m', v)))"

definition refl_NewField ::
  "string \<Rightarrow> ('m, 'v) rtable \<Rightarrow> field_descriptor \<Rightarrow> refl_error + 'v pvalue" where
  "refl_NewField msg tbl fd = refl_switch msg tbl fd (\<lambda>n k. Inr (rf_new k))"

text \<open>
  \<open>Range\<close> calls \<open>f\<close>, which here has a state of its own and leaves the message alone, on the
  populated fields in the order of the source, until it returns false.
\<close>

fun range_fields ::
  "string \<Rightarrow> ('m, 'v) rtable \<Rightarrow> 'm \<Rightarrow> (string \<Rightarrow> 'v pvalue \<Rightarrow> 's \<Rightarrow> bool \<times> 's) \<Rightarrow> 's \<Rightarrow> 's" where
  "range_fields msg [] m f s = s"
| "range_fields msg ((n, k) # tbl) m f s =
     (if rf_has k m
      then (case f (msg @ ''.'' @ n) (rf_get k m) s of
          (go_on, s') \<Rightarrow> if \<not> go_on then s' else range_fields msg tbl m f s')
      else range_fields msg tbl m f s)"

definition refl_Range ::
  "string \<Rightarrow> ('m, 'v) rtable \<Rightarrow> 'm option \<Rightarrow> (string \<Rightarrow> 'v pvalue \<Rightarrow> 's \<Rightarrow> bool \<times> 's) \<Rightarrow> 's
    \<Rightarrow> refl_error + 's" where
  "refl_Range msg tbl x f s =
     (if tbl = [] then Inr s else rbind (deref x) (\<lambda>m. Inr (range_fields msg tbl m f s)))"

definition refl_WhichOneof :: "string \<Rightarrow> string \<Rightarrow> refl_error + field_descriptor" where
  "refl_WhichOneof msg d = Inl (NotOneof d msg)"

definition refl_GetUnknown :: "('m \<Rightarrow> bytes) \<Rightarrow> 'm option \<Rightarrow> refl_error + bytes" where
  "refl_GetUnknown unknownFields x = rbind (deref x) (\<lambda>m. Inr (unknownFields m))"

definition refl_SetUnknown ::
  "(bytes \<Rightarrow> 'm \<Rightarrow> 'm) \<Rightarrow> 'm option \<Rightarrow> bytes \<Rightarrow> refl_error + 'm option" where
  "refl_SetUnknown upd x raw = rbind (deref x) (\<lambda>m. Inr (Some (upd raw m)))"

definition refl_IsValid :: "'m option \<Rightarrow> bool" where
  "refl_IsValid x = (x \<noteq> None)"

text \<open>A getter \<open>x.GetF()\<close>: the field, or its zero value for a nil message.\<close>

definition getter :: "'a \<Rightarrow> ('m \<Rightarrow> 'a) \<Rightarrow> 'm option \<Rightarrow> 'a" where
  "getter zero sel x = (case x of None \<Rightarrow> zero | Some m \<Rightarrow> sel m)"

section \<open>Lists\<close>

text \<open>
  The methods of the list type of a repeated field, on the slice the list points to: \<open>None\<close> for a
  nil pointer, otherwise its elements.  \<open>Truncate\<close> may extend the slice up to its capacity, so
  the elements between length and capacity are an argument.
\<close>

definition list_Len :: "'p option list option \<Rightarrow> int" where
  "list_Len x = (case x of None \<Rightarrow> 0 | Some es \<Rightarrow> int (length es))"

definition list_Get ::
  "('p option \<Rightarrow> 'v) \<Rightarrow> 'p option list option \<Rightarrow> int \<Rightarrow> refl_error + 'v pvalue" where
  "list_Get wrap x i = rbind (deref x) (\<lambda>es.
     if 0 \<le> i \<and> i < int (length es) then Inr (ValueOfMessage (wrap (es ! nat i)))
     else Inl IndexOutOfRange)"

fun concrete :: "('v \<Rightarrow> 'p option option) \<Rightarrow> 'v pvalue \<Rightarrow> refl_error + 'p option" where
  "concrete unwrap (ValueOfMessage v) =
     (case unwrap v of None \<Rightarrow> Inl WrongKind | Some p \<Rightarrow> Inr p)"
| "concrete unwrap v = Inl WrongKind"

definition list_Set ::
  "('v \<Rightarrow> 'p option option) \<Rightarrow> 'p option list option \<Rightarrow> int \<Rightarrow> 'v pvalue
    \<Rightarrow> refl_error + 'p option list option" where
  "list_Set unwrap x i v = rbind (concrete unwrap v) (\<lambda>p. rbind (deref x) (\<lambda>es.
     if 0 \<le> i \<and> i < int (length es) then Inr (Some (es[nat i := p])) else Inl IndexOutOfRange))"

definition list_Append ::
  "('v \<Rightarrow> 'p option option) \<Rightarrow> 'p option list option \<Rightarrow> 'v pvalue
    \<Rightarrow> refl_error + 'p option list option" where
  "list_Append unwrap x v = rbind (concrete unwrap v) (\<lambda>p. rbind (deref x) (\<lambda>es.
     Inr (Some (es @ [p]))))"

definition list_AppendMutable ::
  "('p option \<Rightarrow> 'v) \<Rightarrow> 'p \<Rightarrow> 'p option list option
    \<Rightarrow> refl_error + 'p option list option \<times> 'v pvalue" where
  "list_AppendMutable wrap zero x =
     (let v = Some zero in rbind (deref x) (\<lambda>es.
       Inr (Some (es @ [v]), ValueOfMessage (wrap v))))"

fun nil_from :: "nat \<Rightarrow> 'p option list \<Rightarrow> 'p option list" where
  "nil_from i [] = []"
| "nil_from 0 (e # es) = None # nil_from 0 es"
| "nil_from (Suc i) (e # es) = e # nil_from i es"

definition list_Truncate ::
  "'p option list \<Rightarrow> 'p option list option \<Rightarrow> int \<Rightarrow> refl_error + 'p option list option" where
  "list_Truncate spare x n = rbind (deref x) (\<lambda>es.
     if n < 0 then Inl IndexOutOfRange
     else if n \<le> int (length es + length spare)
     then Inr (Some (take (nat n) (nil_from (nat n) es @ spare)))
     else Inl IndexOutOfRange)"

definition list_NewElement :: "('p option \<Rightarrow> 'v) \<Rightarrow> 'p \<Rightarrow> 'v pvalue" where
  "list_NewElement wrap zero = ValueOfMessage (wrap (Some zero))"

definition list_IsValid :: "'p option list option \<Rightarrow> bool" where
  "list_IsValid x = (x \<noteq> None)"

section \<open>The contract of protoreflect.Message\<close>

text \<open>
  The value of a field that is not populated, and what \<open>Get\<close> returns after \<open>Set\<close>: integers are
  truncated to 32 bits, and an empty list reads as the list without a pointer.
\<close>

fun rf_default :: "('m, 'v) rfield \<Rightarrow> 'v pvalue" where
  "rf_default (RString sel upd) = ValueOfString []"
| "rf_default (RInt32 sel upd) = ValueOfInt32 0"
| "rf_default (RBool sel upd) = ValueOfBool False"
| "rf_default (RMessage sel present put nilv newv) = ValueOfMessage nilv"
| "rf_default (RList t sel put) = ValueOfList t None"

fun rf_stored :: "'v pvalue \<Rightarrow> 'v pvalue" where
  "rf_stored (ValueOfInt64 i) = ValueOfInt32 (ucast i)"
| "rf_stored (ValueOfList t (Some [])) = ValueOfList t None"
| "rf_stored v = v"

text \<open>A well-behaved field, and fields that do not interfere.\<close>

definition rf_ok :: "('m, 'v) rfield \<Rightarrow> bool" where
  "rf_ok k \<longleftrightarrow>
     (\<forall>v m m'. rf_set k v m = Inr m' \<longrightarrow> rf_get k m' = rf_stored v)
   \<and> (\<forall>m. rf_get k (rf_clear k m) = rf_default k)
   \<and> (\<forall>m. rf_has k m \<longleftrightarrow> rf_get k m \<noteq> rf_default k)
   \<and> (\<forall>m. \<exists>m'. rf_set k (rf_new k) m = Inr m')"

definition rf_indep :: "('m, 'v) rfield \<Rightarrow> ('m, 'v) rfield \<Rightarrow> bool" where
  "rf_indep k l \<longleftrightarrow>
     (\<forall>v m m'. rf_set k v m = Inr m' \<longrightarrow> rf_get l m' = rf_get l m)
   \<and> (\<forall>m. rf_get l (rf_clear k m) = rf_get l m)"

lemma rf_ok_scalar:
  "(\<And>s m. sel (upd s m) = s) \<Longrightarrow> rf_ok (RString sel upd)"
  "(\<And>i m. sel32 (upd32 i m) = i) \<Longrightarrow> rf_ok (RInt32 sel32 upd32)"
  "(\<And>b m. selb (updb b m) = b) \<Longrightarrow> rf_ok (RBool selb updb)"
proof -
  assume s: "\<And>s m. sel (upd s m) = s"
  show "rf_ok (RString sel upd)"
    unfolding rf_ok_def by (auto simp: s rbind_eq_Inr elim: value_string.elims)
next
  assume s: "\<And>i m. sel32 (upd32 i m) = i"
  show "rf_ok (RInt32 sel32 upd32)"
    unfolding rf_ok_def by (auto simp: s rbind_eq_Inr elim: value_int32.elims)
next
  assume s: "\<And>b m. selb (updb b m) = b"
  show "rf_ok (RBool selb updb)"
    unfolding rf_ok_def by (auto simp: s rbind_eq_Inr elim: value_bool.elims)
qed

lemma wrap_facts:
  assumes "\<And>v p. unwrap v = Some p \<longleftrightarrow> v = wrap p"
  shows "unwrap (wrap p) = Some p" and "wrap p = wrap q \<longleftrightarrow> p = q"
    and "those (map unwrap (map wrap es)) = Some es"
    and "those (map unwrap vs) = Some es \<longleftrightarrow> vs = map wrap es"
proof -
  have w: "unwrap (wrap p) = Some p" for p by (simp add: assms)
  show "unwrap (wrap p) = Some p" by (rule w)
  have "p = q" if "wrap p = wrap q" using w [of p] w [of q] unfolding that by simp
  then show "wrap p = wrap q \<longleftrightarrow> p = q" by auto
  have l: "those (map unwrap (map wrap es)) = Some es" for es
    by (induction es) (simp_all add: w)
  then show "those (map unwrap (map wrap es)) = Some es" .
  have inv: "v = wrap p" if "unwrap v = Some p" for v p using assms that by blast
  have "vs = map wrap es" if "those (map unwrap vs) = Some es" for es
    using that by (induction vs arbitrary: es) (auto dest: inv split: option.splits)
  then show "those (map unwrap vs) = Some es \<longleftrightarrow> vs = map wrap es" using l [of es] by auto
qed

lemma rf_ok_pointer:
  assumes "\<And>p m. sel (upd p m) = p" and "\<And>v p. unwrap v = Some p \<longleftrightarrow> v = wrap p"
  shows "rf_ok (RPointer wrap unwrap zero sel upd)"
proof -
  note w = wrap_facts(1,2) [of unwrap wrap, OF assms(2)]
  have set_get: "rf_get (RPointer wrap unwrap zero sel upd) m' = rf_stored v"
    if "rf_set (RPointer wrap unwrap zero sel upd) v m = Inr m'" for v m m'
    using that by (auto simp: RPointer_def assms split: pvalue.splits option.splits)
  show ?thesis
    unfolding rf_ok_def using set_get by (auto simp: RPointer_def assms(1) w)
qed

lemma rf_set_list:
  assumes "\<And>v p. unwrap v = Some p \<longleftrightarrow> v = wrap p"
  shows "rf_set (RListOf t wrap unwrap sel upd) v m = Inr m' \<longleftrightarrow>
    (\<exists>es. v = ValueOfList t (Some (map wrap es)) \<and> m' = upd es m)"
proof
  assume "rf_set (RListOf t wrap unwrap sel upd) v m = Inr m'"
  then obtain vs es where "v = ValueOfList t (Some vs)" "those (map unwrap vs) = Some es" "m' = upd es m"
    by (auto simp: RListOf_def split: pvalue.splits option.splits if_splits)
  then show "\<exists>es. v = ValueOfList t (Some (map wrap es)) \<and> m' = upd es m"
    using wrap_facts(4) [of unwrap wrap, OF assms] by blast
next
  assume "\<exists>es. v = ValueOfList t (Some (map wrap es)) \<and> m' = upd es m"
  then show "rf_set (RListOf t wrap unwrap sel upd) v m = Inr m'"
    using wrap_facts(3) [of unwrap wrap, OF assms] by (auto simp: RListOf_def)
qed

lemma rf_ok_list:
  assumes "\<And>p m. sel (upd p m) = p" and "\<And>v p. unwrap v = Some p \<longleftrightarrow> v = wrap p"
  shows "rf_ok (RListOf t wrap unwrap sel upd)"
proof -
  have "rf_get (RListOf t wrap unwrap sel upd) (upd es m) = rf_stored (ValueOfList t (Some (map wrap es)))"
    for es m by (cases es) (simp_all add: RListOf_def assms(1))
  moreover have "rf_new (RListOf t wrap unwrap sel upd) = ValueOfList t (Some (map wrap []))"
    by (simp add: RListOf_def)
  moreover have "rf_get (RListOf t wrap unwrap sel upd) (rf_clear (RListOf t wrap unwrap sel upd) m)
      = rf_default (RListOf t wrap unwrap sel upd)" for m
    by (simp add: RListOf_def assms(1))
  moreover have "rf_has (RListOf t wrap unwrap sel upd) m \<longleftrightarrow>
      rf_get (RListOf t wrap unwrap sel upd) m \<noteq> rf_default (RListOf t wrap unwrap sel upd)" for m
    by (simp add: RListOf_def)
  ultimately show ?thesis
    unfolding rf_ok_def rf_set_list [of unwrap wrap, OF assms(2)] by blast
qed

text \<open>A field of another component of the message does not interfere.\<close>

lemma rf_indep_simps:
  "(\<And>x m. rf_get l (upd x m) = rf_get l m) \<Longrightarrow> rf_indep (RString sel upd) l"
  "(\<And>x m. rf_get l (upd32 x m) = rf_get l m) \<Longrightarrow> rf_indep (RInt32 sel32 upd32) l"
  "(\<And>x m. rf_get l (updb x m) = rf_get l m) \<Longrightarrow> rf_indep (RBool selb updb) l"
  "(\<And>x m. rf_get l (updp x m) = rf_get l m) \<Longrightarrow>
    rf_indep (RPointer wrap unwrap zero selp updp) l"
  "(\<And>x m. rf_get l (updl x m) = rf_get l m) \<Longrightarrow>
    rf_indep (RListOf t wrap' unwrap' sell updl) l"
  by (auto simp: rf_indep_def rbind_eq_Inr RPointer_def RListOf_def
      split: pvalue.splits option.splits if_splits)

lemma rf_get_simps [simp]:
  "rf_get (RPointer wrap unwrap zero sel upd) m = ValueOfMessage (wrap (sel m))"
  "rf_get (RListOf t wrap unwrap sell updl) m
    = (if sell m = [] then ValueOfList t None else ValueOfList t (Some (map wrap (sell m))))"
  by (simp_all add: RPointer_def RListOf_def)

locale pulsar_reflect =
  fixes msg :: string and tbl :: "('m, 'v) rtable"
  assumes names: "distinct (map fst tbl)"
    and field_ok: "(n, k) \<in> set tbl \<Longrightarrow> rf_ok k"
    and field_indep: "(n, k) \<in> set tbl \<Longrightarrow> (n', l) \<in> set tbl \<Longrightarrow> n \<noteq> n' \<Longrightarrow> rf_indep k l"
begin

lemma find_name: "find (\<lambda>(n, k). msg @ ''.'' @ n' = msg @ ''.'' @ n) tbl = Some (n', k)"
  if "(n', k) \<in> set tbl"
  using that names
proof (induction tbl)
  case (Cons p tbl)
  then show ?case by (cases p) (force simp: image_iff)
qed simp

lemma switch_field:
  "(n, k) \<in> set tbl \<Longrightarrow> FullName fd = msg @ ''.'' @ n \<Longrightarrow> refl_switch msg tbl fd f = f n k"
  unfolding refl_switch_def by (simp only: find_name) simp

lemma switch_unknown:
  assumes "\<forall>(n, k) \<in> set tbl. FullName fd \<noteq> msg @ ''.'' @ n"
  shows "refl_switch msg tbl fd f
    = Inl (if IsExtension fd then NoExtensions msg else NoField msg (FullName fd))"
proof -
  have "find (\<lambda>(n, k). FullName fd = msg @ ''.'' @ n) tbl = None"
    using assms by (auto simp: find_None_iff)
  then show ?thesis by (simp only: refl_switch_def) simp
qed

lemma switch_cases:
  assumes "refl_switch msg tbl fd f = Inr y"
  obtains n k where "(n, k) \<in> set tbl" and "FullName fd = msg @ ''.'' @ n" and "f n k = Inr y"
proof (cases "find (\<lambda>(n, k). FullName fd = msg @ ''.'' @ n) tbl")
  case None
  then show thesis using assms by (simp add: refl_switch_def split: if_splits)
next
  case (Some p)
  obtain n k where p: "p = (n, k)" by (cases p)
  with Some have "(n, k) \<in> set tbl" "FullName fd = msg @ ''.'' @ n"
    by (auto simp: find_Some_iff in_set_conv_nth)
  then show thesis
    using assms Some p that [of n k] by (simp add: refl_switch_def)
qed

lemma set_get:
  assumes "refl_Set msg tbl (Some m) fd v = Inr x"
  shows "refl_Get msg tbl x fd = Inr (rf_stored v)"
    and "FullName fd' \<noteq> FullName fd \<Longrightarrow> refl_Get msg tbl x fd' = refl_Get msg tbl (Some m) fd'"
proof -
  obtain n k m' where k: "(n, k) \<in> set tbl" "FullName fd = msg @ ''.'' @ n"
    and m': "rf_set k v m = Inr m'" "x = Some m'"
    using assms unfolding refl_Set_def by (auto elim!: switch_cases simp: rbind_eq_Inr)
  show "refl_Get msg tbl x fd = Inr (rf_stored v)"
    using field_ok [OF k(1)] m' by (simp add: refl_Get_def switch_field [OF k] rf_ok_def)
  show "refl_Get msg tbl x fd' = refl_Get msg tbl (Some m) fd'" if "FullName fd' \<noteq> FullName fd"
  proof (cases "\<exists>l p. (p, l) \<in> set tbl \<and> FullName fd' = msg @ ''.'' @ p")
    case True
    then obtain l p where l: "(p, l) \<in> set tbl" "FullName fd' = msg @ ''.'' @ p" by blast
    then have "rf_indep k l" using field_indep [OF k(1) l(1)] that k(2) by auto
    then show ?thesis
      using m' by (simp add: refl_Get_def switch_field [OF l] rf_indep_def)
  next
    case False
    then have "find (\<lambda>(n, k). FullName fd' = msg @ ''.'' @ n) tbl = None"
      by (auto simp: find_None_iff)
    then show ?thesis by (simp add: refl_Get_def refl_switch_def)
  qed
qed

lemma clear_has:
  assumes "refl_Clear msg tbl (Some m) fd = Inr x"
  shows "refl_Has msg tbl x fd = Inr False"
    and "FullName fd' \<noteq> FullName fd \<Longrightarrow> refl_Get msg tbl x fd' = refl_Get msg tbl (Some m) fd'"
proof -
  obtain n k where k: "(n, k) \<in> set tbl" "FullName fd = msg @ ''.'' @ n"
    and x: "x = Some (rf_clear k m)"
    using assms unfolding refl_Clear_def by (auto elim!: switch_cases simp: rbind_eq_Inr)
  show "refl_Has msg tbl x fd = Inr False"
    using field_ok [OF k(1)] x by (simp add: refl_Has_def switch_field [OF k] rf_ok_def)
  show "refl_Get msg tbl x fd' = refl_Get msg tbl (Some m) fd'" if "FullName fd' \<noteq> FullName fd"
  proof (cases "\<exists>l p. (p, l) \<in> set tbl \<and> FullName fd' = msg @ ''.'' @ p")
    case True
    then obtain l p where l: "(p, l) \<in> set tbl" "FullName fd' = msg @ ''.'' @ p" by blast
    then have "rf_indep k l" using field_indep [OF k(1) l(1)] that k(2) by auto
    then show ?thesis
      using x by (simp add: refl_Get_def switch_field [OF l] rf_indep_def)
  next
    case False
    then have "find (\<lambda>(n, k). FullName fd' = msg @ ''.'' @ n) tbl = None"
      by (auto simp: find_None_iff)
    then show ?thesis by (simp add: refl_Get_def refl_switch_def)
  qed
qed

text \<open>A new value of a field can be stored.\<close>

lemma set_new:
  assumes "refl_NewField msg tbl fd = Inr v"
  shows "\<exists>m'. refl_Set msg tbl (Some m) fd v = Inr (Some m')"
proof -
  obtain n k where k: "(n, k) \<in> set tbl" "FullName fd = msg @ ''.'' @ n" and v: "v = rf_new k"
    using assms unfolding refl_NewField_def by (auto elim!: switch_cases)
  obtain m' where "rf_set k (rf_new k) m = Inr m'"
    using field_ok [OF k(1)] unfolding rf_ok_def by blast
  then show ?thesis
    by (simp add: refl_Set_def switch_field [OF k] v)
qed

text \<open>A nil receiver: a known field cannot be read.\<close>

lemma nil_receiver:
  assumes "(n, k) \<in> set tbl" and "FullName fd = msg @ ''.'' @ n"
  shows "refl_Get msg tbl None fd = Inl NilDereference"
    and "refl_Has msg tbl None fd = Inl NilDereference"
    and "refl_Set msg tbl None fd v = Inl NilDereference"
    and "refl_Range msg tbl None f s = Inl NilDereference"
  using assms
  by (auto simp: refl_Get_def refl_Has_def refl_Set_def refl_Range_def switch_field [OF assms])

text \<open>\<open>Range\<close> visits the fields for which \<open>Has\<close> holds, in order, with the value of \<open>Get\<close>.\<close>

lemma range_all:
  "refl_Range msg tbl (Some m) (\<lambda>n v acc. (True, acc @ [(n, v)])) []
    = Inr (map (\<lambda>(n, k). (msg @ ''.'' @ n, rf_get k m)) (filter (\<lambda>(n, k). rf_has k m) tbl))"
proof -
  have "range_fields msg t m (\<lambda>n v acc. (True, acc @ [(n, v)])) acc
      = acc @ map (\<lambda>(n, k). (msg @ ''.'' @ n, rf_get k m)) (filter (\<lambda>(n, k). rf_has k m) t)" for t acc
    by (induction t arbitrary: acc) auto
  from this [of tbl "[]"] show ?thesis by (simp add: refl_Range_def)
qed

end

text \<open>The conditions, field by field.\<close>

fun tbl_ok :: "('m, 'v) rtable \<Rightarrow> bool" where
  "tbl_ok [] \<longleftrightarrow> True"
| "tbl_ok ((n, k) # tbl) \<longleftrightarrow> n \<notin> set (map fst tbl) \<and> rf_ok k
     \<and> list_all (\<lambda>(n', l). rf_indep k l \<and> rf_indep l k) tbl \<and> tbl_ok tbl"

lemma pulsar_reflectI: "tbl_ok tbl \<Longrightarrow> pulsar_reflect tbl"
proof
  show "distinct (map fst tbl)" if "tbl_ok tbl"
    using that by (induction tbl rule: tbl_ok.induct) auto
  show "rf_ok k" if "tbl_ok tbl" "(n, k) \<in> set tbl" for n k
    using that by (induction tbl rule: tbl_ok.induct) auto
  show "rf_indep k l" if "tbl_ok tbl" "(n, k) \<in> set tbl" "(n', l) \<in> set tbl" "n \<noteq> n'" for n n' k l
    using that by (induction tbl rule: tbl_ok.induct) (auto simp: list_all_iff)
qed

lemmas tbl_ok_simps = rf_ok_scalar rf_ok_pointer rf_ok_list rf_indep_simps

end
