(* ===== verification/Api_Denom.thy ===== *)
theory Api_Denom
  imports Pulsar_Nested Pulsar_Reflect TF_Params TF_Denom
begin

text \<open>
  The messages \<open>Params\<close> and \<open>Denom\<close> of \<open>api/medasdigital/tokenfactory\<close>,
      with the methods the generator
  writes for them: size, marshal and unmarshal, the reflection methods and the getters.  The names
  carry the prefix \<open>Api\<close>.
\<close>

section \<open>Params\<close>

text \<open>\<open>params.pulsar.go\<close>: a message without fields.\<close>

record ApiParams =
  ApiParams_unknownFields :: bytes

definition ApiParams_zero :: "ApiParams" where
  "ApiParams_zero = \<lparr>ApiParams_unknownFields = []\<rparr>"

definition ApiParams_fields_size :: "proto_runtime \<Rightarrow> ApiParams \<Rightarrow> nat" where
  "ApiParams_fields_size R m = 0"

definition ApiParams_size :: "proto_runtime \<Rightarrow> ApiParams option \<Rightarrow> nat" where
  "ApiParams_size R = pulsar_size ApiParams_unknownFields (ApiParams_fields_size R)"

definition ApiParams_writers :: "proto_runtime \<Rightarrow> ApiParams \<Rightarrow> writer list" where
  "ApiParams_writers R m = []"

definition ApiParams_marshal :: "proto_runtime \<Rightarrow> bytes option \<Rightarrow> ApiParams option \<Rightarrow> pb_error
    + bytes option" where
  "ApiParams_marshal R = pulsar_marshal ApiParams_unknownFields (ApiParams_fields_size R)
      (ApiParams_writers R)"

definition ApiParams_keep :: "bytes \<Rightarrow> ApiParams \<Rightarrow> ApiParams" where
  "ApiParams_keep raw m = m\<lparr>ApiParams_unknownFields := ApiParams_unknownFields m @ raw\<rparr>"

definition ApiParams_fields :: "ApiParams fields" where
  "ApiParams_fields n = None"

definition ApiParams_unmarshal :: "proto_runtime \<Rightarrow> bool \<Rightarrow> bytes \<Rightarrow> ApiParams option \<Rightarrow> (pb_error
    + ApiParams option) option" where
  "ApiParams_unmarshal R DiscardUnknown =
     pulsar_unmarshal R DiscardUnknown ''Params'' ApiParams_fields ApiParams_keep"


section \<open>Denom\<close>

text \<open>\<open>denom.pulsar.go\<close>.\<close>

record ApiDenom =
  ApiDenom_Denom :: gostring
  ApiDenom_Description :: gostring
  ApiDenom_Ticker :: gostring
  ApiDenom_Precision :: int32
  ApiDenom_Url :: gostring
  ApiDenom_MaxSupply :: int32
  ApiDenom_Supply :: int32
  ApiDenom_CanChangeMaxSupply :: bool
  ApiDenom_Owner :: gostring
  ApiDenom_unknownFields :: bytes

definition ApiDenom_zero :: "ApiDenom" where
  "ApiDenom_zero = \<lparr>ApiDenom_Denom = [], ApiDenom_Description = [], ApiDenom_Ticker = [],
      ApiDenom_Precision = 0, ApiDenom_Url = [], ApiDenom_MaxSupply = 0, ApiDenom_Supply = 0,
      ApiDenom_CanChangeMaxSupply = False, ApiDenom_Owner = [], ApiDenom_unknownFields = []\<rparr>"

definition ApiDenom_fields_size :: "proto_runtime \<Rightarrow> ApiDenom \<Rightarrow> nat" where
  "ApiDenom_fields_size R m =
     api_size_string R (ApiDenom_Denom m)
   + api_size_string R (ApiDenom_Description m)
   + api_size_string R (ApiDenom_Ticker m)
   + api_size_int32 R (ApiDenom_Precision m)
   + api_size_string R (ApiDenom_Url m)
   + api_size_int32 R (ApiDenom_MaxSupply m)
   + api_size_int32 R (ApiDenom_Supply m)
   + size_bool (ApiDenom_CanChangeMaxSupply m)
   + api_size_string R (ApiDenom_Owner m)"

definition ApiDenom_size :: "proto_runtime \<Rightarrow> ApiDenom option \<Rightarrow> nat" where
  "ApiDenom_size R = pulsar_size ApiDenom_unknownFields (ApiDenom_fields_size R)"

definition ApiDenom_writers :: "proto_runtime \<Rightarrow> ApiDenom \<Rightarrow> writer list" where
  "ApiDenom_writers R m =
     [api_string R 0x4a (ApiDenom_Owner m),
      put_bool 0x40 (ApiDenom_CanChangeMaxSupply m),
      api_int32 R 0x38 (ApiDenom_Supply m),
      api_int32 R 0x30 (ApiDenom_MaxSupply m),
      api_string R 0x2a (ApiDenom_Url m),
      api_int32 R 0x20 (ApiDenom_Precision m),
      api_string R 0x1a (ApiDenom_Ticker m),
      api_string R 0x12 (ApiDenom_Description m),
      api_string R 0x0a (ApiDenom_Denom m)]"

definition ApiDenom_marshal :: "proto_runtime \<Rightarrow> bytes option \<Rightarrow> ApiDenom option \<Rightarrow> pb_error
    + bytes option" where
  "ApiDenom_marshal R = pulsar_marshal ApiDenom_unknownFields (ApiDenom_fields_size R)
      (ApiDenom_writers R)"

definition ApiDenom_keep :: "bytes \<Rightarrow> ApiDenom \<Rightarrow> ApiDenom" where
  "ApiDenom_keep raw m = m\<lparr>ApiDenom_unknownFields := ApiDenom_unknownFields m @ raw\<rparr>"

text \<open>The cases of the switch from field 6 on, and those before them.\<close>

definition ApiDenom_fields_6 :: "ApiDenom fields" where
  "ApiDenom_fields_6 n =
     (if n = 6 then Some (''MaxSupply'', FInt32 (\<lambda>v m. m\<lparr>ApiDenom_MaxSupply := v\<rparr>))
      else if n = 7 then Some (''Supply'', FInt32 (\<lambda>v m. m\<lparr>ApiDenom_Supply := v\<rparr>))
      else if n = 8 then Some (''CanChangeMaxSupply'',
          FBool (\<lambda>b m. m\<lparr>ApiDenom_CanChangeMaxSupply := b\<rparr>))
      else if n = 9 then Some (''Owner'', FString (\<lambda>s m. m\<lparr>ApiDenom_Owner := s\<rparr>))
      else None)"

definition ApiDenom_fields :: "ApiDenom fields" where
  "ApiDenom_fields n =
     (if n = 1 then Some (''Denom'', FString (\<lambda>s m. m\<lparr>ApiDenom_Denom := s\<rparr>))
      else if n = 2 then Some (''Description'', FString (\<lambda>s m. m\<lparr>ApiDenom_Description := s\<rparr>))
      else if n = 3 then Some (''Ticker'', FString (\<lambda>s m. m\<lparr>ApiDenom_Ticker := s\<rparr>))
      else if n = 4 then Some (''Precision'', FInt32 (\<lambda>v m. m\<lparr>ApiDenom_Precision := v\<rparr>))
      else if n = 5 then Some (''Url'', FString (\<lambda>s m. m\<lparr>ApiDenom_Url := s\<rparr>))
      else ApiDenom_fields_6 n)"

definition ApiDenom_unmarshal :: "proto_runtime \<Rightarrow> bool \<Rightarrow> bytes \<Rightarrow> ApiDenom option \<Rightarrow> (pb_error
    + ApiDenom option) option" where
  "ApiDenom_unmarshal R DiscardUnknown =
     pulsar_unmarshal R DiscardUnknown ''Denom'' ApiDenom_fields ApiDenom_keep"


section \<open>Message values\<close>

text \<open>
  The messages of the package that are fields of others, as values of reflection: a typed pointer.
  The functions are the type assertions.
\<close>

datatype tf_ref =
    RefParams "ApiParams option"
  | RefDenom "ApiDenom option"

fun as_Params :: "tf_ref \<Rightarrow> ApiParams option option" where
  "as_Params (RefParams p) = Some p"
| "as_Params v = None"

lemma as_Params_eq: "as_Params v = Some p \<longleftrightarrow> v = RefParams p"
  by (cases v) auto

fun as_Denom :: "tf_ref \<Rightarrow> ApiDenom option option" where
  "as_Denom (RefDenom p) = Some p"
| "as_Denom v = None"

lemma as_Denom_eq: "as_Denom v = Some p \<longleftrightarrow> v = RefDenom p"
  by (cases v) auto


section \<open>Reflection\<close>

definition ApiParams_refl :: "(ApiParams, tf_ref) rtable" where
  "ApiParams_refl = []"

definition fastReflection_Params_Range :: "ApiParams option \<Rightarrow> (string \<Rightarrow> tf_ref pvalue \<Rightarrow> 's
    \<Rightarrow> bool \<times> 's) \<Rightarrow> 's \<Rightarrow> refl_error + 's" where
  "fastReflection_Params_Range = refl_Range ''medasdigital.tokenfactory.Params'' ApiParams_refl"

definition fastReflection_Params_Has :: "ApiParams option \<Rightarrow> field_descriptor \<Rightarrow> refl_error + bool"
    where
  "fastReflection_Params_Has = refl_Has ''medasdigital.tokenfactory.Params'' ApiParams_refl"

definition fastReflection_Params_Clear :: "ApiParams option \<Rightarrow> field_descriptor \<Rightarrow> refl_error
    + ApiParams option" where
  "fastReflection_Params_Clear = refl_Clear ''medasdigital.tokenfactory.Params'' ApiParams_refl"

definition fastReflection_Params_Get :: "ApiParams option \<Rightarrow> field_descriptor \<Rightarrow> refl_error
    + tf_ref pvalue" where
  "fastReflection_Params_Get = refl_Get ''medasdigital.tokenfactory.Params'' ApiParams_refl"

definition fastReflection_Params_Set :: "ApiParams option \<Rightarrow> field_descriptor \<Rightarrow> tf_ref pvalue
    \<Rightarrow> refl_error + ApiParams option" where
  "fastReflection_Params_Set = refl_Set ''medasdigital.tokenfactory.Params'' ApiParams_refl"

definition fastReflection_Params_Mutable :: "ApiParams option \<Rightarrow> field_descriptor \<Rightarrow> refl_error
    + ApiParams option \<times> tf_ref pvalue" where
  "fastReflection_Params_Mutable = refl_Mutable ''medasdigital.tokenfactory.Params'' ApiParams_refl"

definition fastReflection_Params_NewField :: "field_descriptor \<Rightarrow> refl_error + tf_ref pvalue" where
  "fastReflection_Params_NewField = refl_NewField ''medasdigital.tokenfactory.Params''
      ApiParams_refl"

definition fastReflection_Params_WhichOneof :: "string \<Rightarrow> refl_error + field_descriptor" where
  "fastReflection_Params_WhichOneof = refl_WhichOneof ''medasdigital.tokenfactory.Params''"

definition fastReflection_Params_GetUnknown :: "ApiParams option \<Rightarrow> refl_error + bytes" where
  "fastReflection_Params_GetUnknown = refl_GetUnknown ApiParams_unknownFields"

definition fastReflection_Params_SetUnknown :: "ApiParams option \<Rightarrow> bytes \<Rightarrow> refl_error
    + ApiParams option" where
  "fastReflection_Params_SetUnknown = refl_SetUnknown (\<lambda>raw m. m\<lparr>ApiParams_unknownFields := raw\<rparr>)"

definition fastReflection_Params_IsValid :: "ApiParams option \<Rightarrow> bool" where
  "fastReflection_Params_IsValid = refl_IsValid"

definition ApiDenom_refl :: "(ApiDenom, tf_ref) rtable" where
  "ApiDenom_refl =
     [(''denom'', RString ApiDenom_Denom (\<lambda>s m. m\<lparr>ApiDenom_Denom := s\<rparr>)),
      (''description'', RString ApiDenom_Description (\<lambda>s m. m\<lparr>ApiDenom_Description := s\<rparr>)),
      (''ticker'', RString ApiDenom_Ticker (\<lambda>s m. m\<lparr>ApiDenom_Ticker := s\<rparr>)),
      (''precision'', RInt32 ApiDenom_Precision (\<lambda>v m. m\<lparr>ApiDenom_Precision := v\<rparr>)),
      (''url'', RString ApiDenom_Url (\<lambda>s m. m\<lparr>ApiDenom_Url := s\<rparr>)),
      (''maxSupply'', RInt32 ApiDenom_MaxSupply (\<lambda>v m. m\<lparr>ApiDenom_MaxSupply := v\<rparr>)),
      (''supply'', RInt32 ApiDenom_Supply (\<lambda>v m. m\<lparr>ApiDenom_Supply := v\<rparr>)),
      (''canChangeMaxSupply'', RBool ApiDenom_CanChangeMaxSupply (\<lambda>b m.
          m\<lparr>ApiDenom_CanChangeMaxSupply := b\<rparr>)),
      (''owner'', RString ApiDenom_Owner (\<lambda>s m. m\<lparr>ApiDenom_Owner := s\<rparr>))]"

definition fastReflection_Denom_Range :: "ApiDenom option \<Rightarrow> (string \<Rightarrow> tf_ref pvalue \<Rightarrow> 's
    \<Rightarrow> bool \<times> 's) \<Rightarrow> 's \<Rightarrow> refl_error + 's" where
  "fastReflection_Denom_Range = refl_Range ''medasdigital.tokenfactory.Denom'' ApiDenom_refl"

definition fastReflection_Denom_Has :: "ApiDenom option \<Rightarrow> field_descriptor \<Rightarrow> refl_error + bool"
    where
  "fastReflection_Denom_Has = refl_Has ''medasdigital.tokenfactory.Denom'' ApiDenom_refl"

definition fastReflection_Denom_Clear :: "ApiDenom option \<Rightarrow> field_descriptor \<Rightarrow> refl_error
    + ApiDenom option" where
  "fastReflection_Denom_Clear = refl_Clear ''medasdigital.tokenfactory.Denom'' ApiDenom_refl"

definition fastReflection_Denom_Get :: "ApiDenom option \<Rightarrow> field_descriptor \<Rightarrow> refl_error
    + tf_ref pvalue" where
  "fastReflection_Denom_Get = refl_Get ''medasdigital.tokenfactory.Denom'' ApiDenom_refl"

definition fastReflection_Denom_Set :: "ApiDenom option \<Rightarrow> field_descriptor \<Rightarrow> tf_ref pvalue
    \<Rightarrow> refl_error + ApiDenom option" where
  "fastReflection_Denom_Set = refl_Set ''medasdigital.tokenfactory.Denom'' ApiDenom_refl"

definition fastReflection_Denom_Mutable :: "ApiDenom option \<Rightarrow> field_descriptor \<Rightarrow> refl_error
    + ApiDenom option \<times> tf_ref pvalue" where
  "fastReflection_Denom_Mutable = refl_Mutable ''medasdigital.tokenfactory.Denom'' ApiDenom_refl"

definition fastReflection_Denom_NewField :: "field_descriptor \<Rightarrow> refl_error + tf_ref pvalue" where
  "fastReflection_Denom_NewField = refl_NewField ''medasdigital.tokenfactory.Denom'' ApiDenom_refl"

definition fastReflection_Denom_WhichOneof :: "string \<Rightarrow> refl_error + field_descriptor" where
  "fastReflection_Denom_WhichOneof = refl_WhichOneof ''medasdigital.tokenfactory.Denom''"

definition fastReflection_Denom_GetUnknown :: "ApiDenom option \<Rightarrow> refl_error + bytes" where
  "fastReflection_Denom_GetUnknown = refl_GetUnknown ApiDenom_unknownFields"

definition fastReflection_Denom_SetUnknown :: "ApiDenom option \<Rightarrow> bytes \<Rightarrow> refl_error
    + ApiDenom option" where
  "fastReflection_Denom_SetUnknown = refl_SetUnknown (\<lambda>raw m. m\<lparr>ApiDenom_unknownFields := raw\<rparr>)"

definition fastReflection_Denom_IsValid :: "ApiDenom option \<Rightarrow> bool" where
  "fastReflection_Denom_IsValid = refl_IsValid"

definition ApiDenom_GetDenom :: "ApiDenom option \<Rightarrow> gostring" where
  "ApiDenom_GetDenom = getter [] ApiDenom_Denom"

definition ApiDenom_GetDescription :: "ApiDenom option \<Rightarrow> gostring" where
  "ApiDenom_GetDescription = getter [] ApiDenom_Description"

definition ApiDenom_GetTicker :: "ApiDenom option \<Rightarrow> gostring" where
  "ApiDenom_GetTicker = getter [] ApiDenom_Ticker"

definition ApiDenom_GetPrecision :: "ApiDenom option \<Rightarrow> int32" where
  "ApiDenom_GetPrecision = getter 0 ApiDenom_Precision"

definition ApiDenom_GetUrl :: "ApiDenom option \<Rightarrow> gostring" where
  "ApiDenom_GetUrl = getter [] ApiDenom_Url"

definition ApiDenom_GetMaxSupply :: "ApiDenom option \<Rightarrow> int32" where
  "ApiDenom_GetMaxSupply = getter 0 ApiDenom_MaxSupply"

definition ApiDenom_GetSupply :: "ApiDenom option \<Rightarrow> int32" where
  "ApiDenom_GetSupply = getter 0 ApiDenom_Supply"

definition ApiDenom_GetCanChangeMaxSupply :: "ApiDenom option \<Rightarrow> bool" where
  "ApiDenom_GetCanChangeMaxSupply = getter False ApiDenom_CanChangeMaxSupply"

definition ApiDenom_GetOwner :: "ApiDenom option \<Rightarrow> gostring" where
  "ApiDenom_GetOwner = getter [] ApiDenom_Owner"

section \<open>Contracts\<close>

definition ApiParams_wire :: "ApiParams \<Rightarrow> wire_field list" where
  "ApiParams_wire m = []"

lemma ApiParams_contract:
  assumes R: "runtime_ok R"
  shows "pulsar_message R ApiParams_fields ApiParams_keep ApiParams_unknownFields
    (\<lambda>m. m\<lparr>ApiParams_unknownFields := []\<rparr>)
    ApiParams_zero (\<lambda>m. True)
    (ApiParams_fields_size R) (ApiParams_writers R) ApiParams_wire"
proof unfold_locales
  show "runtime_ok R" by (rule R)
  show "writes (put_seq (ApiParams_writers R m)) (enc_fields (ApiParams_wire m))" for m
    by (simp add: ApiParams_writers_def ApiParams_wire_def put_seq_nil writes_skip)
  show "ApiParams_fields_size R m = length (enc_fields (ApiParams_wire m))" for m
    by (simp add: ApiParams_fields_size_def ApiParams_wire_def runtime_simps [OF R])
  show "list_all wf_field (ApiParams_wire m)" for m
    by (simp add: ApiParams_wire_def)
  show "ApiParams_fields (of_nat (field_num x)) \<noteq> None" if "x \<in> set (ApiParams_wire m)" for x m
    using that by (auto simp: ApiParams_wire_def ApiParams_fields_def dest!: num_wire)
  show "rfold (apply_field ApiParams_fields) (ApiParams_wire m) ApiParams_zero
      = Inr (m\<lparr>ApiParams_unknownFields := []\<rparr>)" for m
    by (simp add: ApiParams_wire_def ApiParams_zero_def)
  show "ApiParams_keep (ApiParams_unknownFields m) (m\<lparr>ApiParams_unknownFields := []\<rparr>) = m" for m
    by (simp add: ApiParams_keep_def)
  show "ApiParams_keep b (ApiParams_keep a m) = ApiParams_keep (a @ b) m" for a b m
    by (simp add: ApiParams_keep_def)
  show "dec s y \<noteq> Inl Panic" if "ApiParams_fields n = Some (name, FMessage dec)" and "go_slice s"
    for n name dec s y
    using that by (auto simp: ApiParams_fields_def split: if_splits)
qed

definition ApiDenom_wire :: "ApiDenom \<Rightarrow> wire_field list" where
  "ApiDenom_wire m =
     w_string 1 (ApiDenom_Denom m)
   @ w_string 2 (ApiDenom_Description m)
   @ w_string 3 (ApiDenom_Ticker m)
   @ w_int32 4 (ApiDenom_Precision m)
   @ w_string 5 (ApiDenom_Url m)
   @ w_int32 6 (ApiDenom_MaxSupply m)
   @ w_int32 7 (ApiDenom_Supply m)
   @ w_bool 8 (ApiDenom_CanChangeMaxSupply m)
   @ w_string 9 (ApiDenom_Owner m)"

lemma ApiDenom_contract:
  assumes R: "runtime_ok R"
  shows "pulsar_message R ApiDenom_fields ApiDenom_keep ApiDenom_unknownFields
    (\<lambda>m. m\<lparr>ApiDenom_unknownFields := []\<rparr>)
    ApiDenom_zero (\<lambda>m. True)
    (ApiDenom_fields_size R) (ApiDenom_writers R) ApiDenom_wire"
proof unfold_locales
  show "runtime_ok R" by (rule R)
  show "writes (put_seq (ApiDenom_writers R m)) (enc_fields (ApiDenom_wire m))" for m
  proof -
    have "list_all2 writes (ApiDenom_writers R m)
        [enc_fields (w_string 9 (ApiDenom_Owner m)),
            enc_fields (w_bool 8 (ApiDenom_CanChangeMaxSupply m)),
            enc_fields (w_int32 7 (ApiDenom_Supply m)),
            enc_fields (w_int32 6 (ApiDenom_MaxSupply m)), enc_fields (w_string 5 (ApiDenom_Url m)),
            enc_fields (w_int32 4 (ApiDenom_Precision m)),
            enc_fields (w_string 3 (ApiDenom_Ticker m)),
            enc_fields (w_string 2 (ApiDenom_Description m)),
            enc_fields (w_string 1 (ApiDenom_Denom m))]"
      by (simp add: ApiDenom_writers_def runtime_simps [OF R] writes_wire key_byte_def)
    from writes_seq [OF this] show ?thesis by (simp add: ApiDenom_wire_def)
  qed
  show "ApiDenom_fields_size R m = length (enc_fields (ApiDenom_wire m))" for m
    by (simp add: ApiDenom_fields_size_def ApiDenom_wire_def runtime_simps [OF R])
  show "list_all wf_field (ApiDenom_wire m)" for m
    by (simp add: ApiDenom_wire_def)
  show "ApiDenom_fields (of_nat (field_num x)) \<noteq> None" if "x \<in> set (ApiDenom_wire m)" for x m
    using that by (auto simp: ApiDenom_wire_def ApiDenom_fields_def ApiDenom_fields_6_def dest!: num_wire)
  show "rfold (apply_field ApiDenom_fields) (ApiDenom_wire m) ApiDenom_zero
      = Inr (m\<lparr>ApiDenom_unknownFields := []\<rparr>)" for m
    by (simp add: ApiDenom_wire_def ApiDenom_zero_def ApiDenom_fields_def ApiDenom_fields_6_def rfold_wire)
  show "ApiDenom_keep (ApiDenom_unknownFields m) (m\<lparr>ApiDenom_unknownFields := []\<rparr>) = m" for m
    by (simp add: ApiDenom_keep_def)
  show "ApiDenom_keep b (ApiDenom_keep a m) = ApiDenom_keep (a @ b) m" for a b m
    by (simp add: ApiDenom_keep_def)
  show "dec s y \<noteq> Inl Panic" if "ApiDenom_fields n = Some (name, FMessage dec)" and "go_slice s"
    for n name dec s y
    using that by (auto simp: ApiDenom_fields_def ApiDenom_fields_6_def split: if_splits)
qed

interpretation refl_Denom: pulsar_reflect "''medasdigital.tokenfactory.Denom''" "ApiDenom_refl"
  by (rule pulsar_reflectI) (simp add: ApiDenom_refl_def tbl_ok_simps)

section \<open>Agreement with gogoproto\<close>

text \<open>The gogoproto message with the same fields.\<close>

definition ApiParams_gogo :: "ApiParams \<Rightarrow> Params" where
  "ApiParams_gogo m = Params"

lemma ApiParams_agree:
  assumes R: "runtime_ok R"
  shows "pulsar_gogo R ApiParams_fields ApiParams_keep ApiParams_unknownFields
    (\<lambda>m. m\<lparr>ApiParams_unknownFields := []\<rparr>) ApiParams_zero (\<lambda>m. True)
    (ApiParams_fields_size R) (ApiParams_writers R) ApiParams_wire
    Params_fields Params Params_Size Params_MarshalToSizedBuffer Params_wire ApiParams_gogo"
  using ApiParams_contract [OF R] params_pb.pb_message_axioms
proof (rule pulsar_gogo.intro)
  show "pulsar_gogo_axioms ApiParams_fields ApiParams_keep ApiParams_zero Params_fields Params
      ApiParams_gogo"
    by unfold_locales (simp_all add: fields_sim_def ApiParams_fields_def Params_fields_def
        ApiParams_keep_def ApiParams_gogo_def
        ApiParams_zero_def )
qed

interpretation api_Params: pulsar_gogo gogo_runtime "''Params''" ApiParams_fields ApiParams_keep
    ApiParams_unknownFields
  "\<lambda>m. m\<lparr>ApiParams_unknownFields := []\<rparr>" ApiParams_zero "\<lambda>m. True"
  "ApiParams_fields_size gogo_runtime" "ApiParams_writers gogo_runtime" ApiParams_wire
  params_file Params_fields Params Params_Size Params_MarshalToSizedBuffer Params_wire
      ApiParams_gogo
  by (rule ApiParams_agree [OF gogo_runtime_ok])

text \<open>The gogoproto message with the same fields.\<close>

definition ApiDenom_gogo :: "ApiDenom \<Rightarrow> Denom" where
  "ApiDenom_gogo m = \<lparr>Denom_Denom = ApiDenom_Denom m,
       Denom_Description = ApiDenom_Description m,
       Denom_Ticker = ApiDenom_Ticker m,
       Denom_Precision = ApiDenom_Precision m,
       Denom_Url = ApiDenom_Url m,
       Denom_MaxSupply = ApiDenom_MaxSupply m,
       Denom_Supply = ApiDenom_Supply m,
       Denom_CanChangeMaxSupply = ApiDenom_CanChangeMaxSupply m,
       Denom_Owner = ApiDenom_Owner m\<rparr>"

lemma ApiDenom_agree:
  assumes R: "runtime_ok R"
  shows "pulsar_gogo R ApiDenom_fields ApiDenom_keep ApiDenom_unknownFields
    (\<lambda>m. m\<lparr>ApiDenom_unknownFields := []\<rparr>) ApiDenom_zero (\<lambda>m. True)
    (ApiDenom_fields_size R) (ApiDenom_writers R) ApiDenom_wire
    Denom_fields Denom_zero Denom_Size Denom_MarshalToSizedBuffer Denom_wire ApiDenom_gogo"
  using ApiDenom_contract [OF R] denom_pb.pb_message_axioms
proof (rule pulsar_gogo.intro)
  show "pulsar_gogo_axioms ApiDenom_fields ApiDenom_keep ApiDenom_zero Denom_fields Denom_zero
      ApiDenom_gogo"
    by unfold_locales (simp_all add: fields_sim_def ApiDenom_fields_def ApiDenom_fields_6_def Denom_fields_def
        ApiDenom_keep_def ApiDenom_gogo_def
        ApiDenom_zero_def Denom_zero_def)
qed

interpretation api_Denom: pulsar_gogo gogo_runtime "''Denom''" ApiDenom_fields ApiDenom_keep
    ApiDenom_unknownFields
  "\<lambda>m. m\<lparr>ApiDenom_unknownFields := []\<rparr>" ApiDenom_zero "\<lambda>m. True"
  "ApiDenom_fields_size gogo_runtime" "ApiDenom_writers gogo_runtime" ApiDenom_wire
  denom_file Denom_fields Denom_zero Denom_Size Denom_MarshalToSizedBuffer Denom_wire ApiDenom_gogo
  by (rule ApiDenom_agree [OF gogo_runtime_ok])

end
