(* ===== verification/Api_Genesis.thy ===== *)
theory Api_Genesis
  imports Api_Denom TF_Genesis_Pb
begin

text \<open>
  The genesis state of the token factory, \<open>api/medasdigital/tokenfactory/genesis.pulsar.go\<close>,
      with the
  list type of its repeated field.
\<close>

section \<open>GenesisState\<close>

text \<open>\<open>GenesisState\<close>: a pointer to the parameters and a list of pointers to denoms.\<close>

record ApiGenesisState =
  ApiGenesisState_Params :: "ApiParams option"
  ApiGenesisState_DenomList :: "ApiDenom option list"
  ApiGenesisState_unknownFields :: bytes

definition ApiGenesisState_zero :: "ApiGenesisState" where
  "ApiGenesisState_zero = \<lparr>ApiGenesisState_Params = None, ApiGenesisState_DenomList = [],
      ApiGenesisState_unknownFields = []\<rparr>"

definition ApiGenesisState_fields_size :: "proto_runtime \<Rightarrow> ApiParams options \<Rightarrow> ApiDenom options
    \<Rightarrow> ApiGenesisState \<Rightarrow> nat" where
  "ApiGenesisState_fields_size R O1 O2 m =
     api_size_message R O1 (ApiGenesisState_Params m)
   + api_size_repeated R O2 (ApiGenesisState_DenomList m)"

definition ApiGenesisState_size :: "proto_runtime \<Rightarrow> ApiParams options \<Rightarrow> ApiDenom options
    \<Rightarrow> ApiGenesisState option \<Rightarrow> nat" where
  "ApiGenesisState_size R O1 O2 = pulsar_size ApiGenesisState_unknownFields
      (ApiGenesisState_fields_size R O1 O2)"

definition ApiGenesisState_writers :: "proto_runtime \<Rightarrow> ApiParams options \<Rightarrow> ApiDenom options
    \<Rightarrow> ApiGenesisState \<Rightarrow> writer list" where
  "ApiGenesisState_writers R O1 O2 m =
     [api_repeated R O2 0x12 (ApiGenesisState_DenomList m),
      api_message R O1 0x0a (ApiGenesisState_Params m)]"

definition ApiGenesisState_marshal :: "proto_runtime \<Rightarrow> ApiParams options \<Rightarrow> ApiDenom options
    \<Rightarrow> bytes option \<Rightarrow> ApiGenesisState option \<Rightarrow> pb_error + bytes option" where
  "ApiGenesisState_marshal R O1 O2 = pulsar_marshal ApiGenesisState_unknownFields
      (ApiGenesisState_fields_size R O1 O2) (ApiGenesisState_writers R O1 O2)"

definition ApiGenesisState_keep :: "bytes \<Rightarrow> ApiGenesisState \<Rightarrow> ApiGenesisState" where
  "ApiGenesisState_keep raw m = m\<lparr>ApiGenesisState_unknownFields := ApiGenesisState_unknownFields m
      @ raw\<rparr>"

definition ApiGenesisState_fields :: "ApiParams options \<Rightarrow> ApiDenom options \<Rightarrow> ApiGenesisState fields"
    where
  "ApiGenesisState_fields O1 O2 n =
     (if n = 1 then Some (''Params'', FMessage (api_dec_message O1 ApiParams_zero
         ApiGenesisState_Params
          (\<lambda>p m. m\<lparr>ApiGenesisState_Params := p\<rparr>)))
      else if n = 2 then Some (''DenomList'',
          FMessage (api_dec_repeated O2 ApiDenom_zero ApiGenesisState_DenomList
          (\<lambda>es m. m\<lparr>ApiGenesisState_DenomList := es\<rparr>)))
      else None)"

definition ApiGenesisState_unmarshal :: "proto_runtime \<Rightarrow> bool \<Rightarrow> ApiParams options \<Rightarrow> ApiDenom options
    \<Rightarrow> bytes \<Rightarrow> ApiGenesisState option \<Rightarrow> (pb_error + ApiGenesisState option) option" where
  "ApiGenesisState_unmarshal R DiscardUnknown O1 O2 =
     pulsar_unmarshal R DiscardUnknown ''GenesisState'' (ApiGenesisState_fields O1 O2)
         ApiGenesisState_keep"

definition ApiGenesisState_refl :: "(ApiGenesisState, tf_ref) rtable" where
  "ApiGenesisState_refl =
     [(''params'', RPointer RefParams as_Params ApiParams_zero ApiGenesisState_Params
        (\<lambda>p m. m\<lparr>ApiGenesisState_Params := p\<rparr>)),
      (''denomList'', RListOf ''_GenesisState_2_list'' RefDenom as_Denom ApiGenesisState_DenomList
        (\<lambda>es m. m\<lparr>ApiGenesisState_DenomList := es\<rparr>))]"

definition fastReflection_GenesisState_Range :: "ApiGenesisState option \<Rightarrow> (string \<Rightarrow> tf_ref pvalue
    \<Rightarrow> 's \<Rightarrow> bool \<times> 's) \<Rightarrow> 's \<Rightarrow> refl_error + 's" where
  "fastReflection_GenesisState_Range = refl_Range ''medasdigital.tokenfactory.GenesisState''
      ApiGenesisState_refl"

definition fastReflection_GenesisState_Has :: "ApiGenesisState option \<Rightarrow> field_descriptor
    \<Rightarrow> refl_error + bool" where
  "fastReflection_GenesisState_Has = refl_Has ''medasdigital.tokenfactory.GenesisState''
      ApiGenesisState_refl"

definition fastReflection_GenesisState_Clear :: "ApiGenesisState option \<Rightarrow> field_descriptor
    \<Rightarrow> refl_error + ApiGenesisState option" where
  "fastReflection_GenesisState_Clear = refl_Clear ''medasdigital.tokenfactory.GenesisState''
      ApiGenesisState_refl"

definition fastReflection_GenesisState_Get :: "ApiGenesisState option \<Rightarrow> field_descriptor
    \<Rightarrow> refl_error + tf_ref pvalue" where
  "fastReflection_GenesisState_Get = refl_Get ''medasdigital.tokenfactory.GenesisState''
      ApiGenesisState_refl"

definition fastReflection_GenesisState_Set :: "ApiGenesisState option \<Rightarrow> field_descriptor
    \<Rightarrow> tf_ref pvalue \<Rightarrow> refl_error + ApiGenesisState option" where
  "fastReflection_GenesisState_Set = refl_Set ''medasdigital.tokenfactory.GenesisState''
      ApiGenesisState_refl"

definition fastReflection_GenesisState_Mutable :: "ApiGenesisState option \<Rightarrow> field_descriptor
    \<Rightarrow> refl_error + ApiGenesisState option \<times> tf_ref pvalue" where
  "fastReflection_GenesisState_Mutable = refl_Mutable ''medasdigital.tokenfactory.GenesisState''
      ApiGenesisState_refl"

definition fastReflection_GenesisState_NewField :: "field_descriptor \<Rightarrow> refl_error + tf_ref pvalue"
    where
  "fastReflection_GenesisState_NewField = refl_NewField ''medasdigital.tokenfactory.GenesisState''
      ApiGenesisState_refl"

definition fastReflection_GenesisState_WhichOneof :: "string \<Rightarrow> refl_error + field_descriptor" where
  "fastReflection_GenesisState_WhichOneof
      = refl_WhichOneof ''medasdigital.tokenfactory.GenesisState''"

definition fastReflection_GenesisState_GetUnknown :: "ApiGenesisState option \<Rightarrow> refl_error + bytes"
    where
  "fastReflection_GenesisState_GetUnknown = refl_GetUnknown ApiGenesisState_unknownFields"

definition fastReflection_GenesisState_SetUnknown :: "ApiGenesisState option \<Rightarrow> bytes \<Rightarrow> refl_error
    + ApiGenesisState option" where
  "fastReflection_GenesisState_SetUnknown
      = refl_SetUnknown (\<lambda>raw m. m\<lparr>ApiGenesisState_unknownFields := raw\<rparr>)"

definition fastReflection_GenesisState_IsValid :: "ApiGenesisState option \<Rightarrow> bool" where
  "fastReflection_GenesisState_IsValid = refl_IsValid"

definition ApiGenesisState_GetParams :: "ApiGenesisState option \<Rightarrow> ApiParams option" where
  "ApiGenesisState_GetParams = getter None ApiGenesisState_Params"

definition ApiGenesisState_GetDenomList :: "ApiGenesisState option \<Rightarrow> ApiDenom option list" where
  "ApiGenesisState_GetDenomList = getter [] ApiGenesisState_DenomList"

definition ApiGenesisState_2_list_Len :: "ApiDenom option list option \<Rightarrow> int" where
  "ApiGenesisState_2_list_Len = list_Len"

definition ApiGenesisState_2_list_Get :: "ApiDenom option list option \<Rightarrow> int \<Rightarrow> refl_error
    + tf_ref pvalue" where
  "ApiGenesisState_2_list_Get = list_Get RefDenom"

definition ApiGenesisState_2_list_Set :: "ApiDenom option list option \<Rightarrow> int \<Rightarrow> tf_ref pvalue
    \<Rightarrow> refl_error + ApiDenom option list option" where
  "ApiGenesisState_2_list_Set = list_Set as_Denom"

definition ApiGenesisState_2_list_Append :: "ApiDenom option list option \<Rightarrow> tf_ref pvalue
    \<Rightarrow> refl_error + ApiDenom option list option" where
  "ApiGenesisState_2_list_Append = list_Append as_Denom"

definition ApiGenesisState_2_list_AppendMutable :: "ApiDenom option list option \<Rightarrow> refl_error
    + ApiDenom option list option \<times> tf_ref pvalue" where
  "ApiGenesisState_2_list_AppendMutable = list_AppendMutable RefDenom ApiDenom_zero"

definition ApiGenesisState_2_list_Truncate :: "ApiDenom option list \<Rightarrow> ApiDenom option list option
    \<Rightarrow> int \<Rightarrow> refl_error + ApiDenom option list option" where
  "ApiGenesisState_2_list_Truncate = list_Truncate"

definition ApiGenesisState_2_list_NewElement :: "tf_ref pvalue" where
  "ApiGenesisState_2_list_NewElement = list_NewElement RefDenom ApiDenom_zero"

definition ApiGenesisState_2_list_IsValid :: "ApiDenom option list option \<Rightarrow> bool" where
  "ApiGenesisState_2_list_IsValid = list_IsValid"

definition ApiGenesisState_wire :: "(ApiParams \<Rightarrow> bytes) \<Rightarrow> (ApiDenom \<Rightarrow> bytes) \<Rightarrow> ApiGenesisState
    \<Rightarrow> wire_field list" where
  "ApiGenesisState_wire enc1 enc2 m =
     w_message 1 enc1 (ApiGenesisState_Params m)
   @ w_elements 2 enc2 (ApiGenesisState_DenomList m)"

lemma ApiGenesisState_contract:
  assumes R: "runtime_ok R"
    and N1: "nested_ok O1 enc1 ApiParams_zero good1"
    and N2: "nested_ok O2 enc2 ApiDenom_zero good2"
  shows "pulsar_message R (ApiGenesisState_fields O1 O2) ApiGenesisState_keep
      ApiGenesisState_unknownFields
    (\<lambda>m. m\<lparr>ApiGenesisState_unknownFields := []\<rparr>)
    ApiGenesisState_zero (\<lambda>m. pointer_good good1 (ApiGenesisState_Params m)
        \<and> elements_good good2 (ApiGenesisState_DenomList m))
    (ApiGenesisState_fields_size R O1 O2) (ApiGenesisState_writers R O1 O2) (ApiGenesisState_wire
        enc1 enc2)"
proof unfold_locales
  show "runtime_ok R" by (rule R)
  show "writes (put_seq (ApiGenesisState_writers R O1 O2 m)) (enc_fields (ApiGenesisState_wire enc1
      enc2 m))" for m
  proof -
    have "list_all2 writes (ApiGenesisState_writers R O1 O2 m)
        [enc_fields (w_elements 2 enc2 (ApiGenesisState_DenomList m)),
            enc_fields (w_message 1 enc1 (ApiGenesisState_Params m))]"
      by (simp add: ApiGenesisState_writers_def runtime_simps [OF R] writes_wire key_byte_def
          writes_nested [OF R N1] writes_nested [OF R N2])
    from writes_seq [OF this] show ?thesis by (simp add: ApiGenesisState_wire_def)
  qed
  show "ApiGenesisState_fields_size R O1 O2 m
      = length (enc_fields (ApiGenesisState_wire enc1 enc2 m))" for m
    by (simp add: ApiGenesisState_fields_size_def ApiGenesisState_wire_def runtime_simps [OF R]
        length_nested [OF R N1] length_nested [OF R N2])
  show "list_all wf_field (ApiGenesisState_wire enc1 enc2 m)" for m
    by (simp add: ApiGenesisState_wire_def)
  show "ApiGenesisState_fields O1 O2 (of_nat (field_num x)) \<noteq> None"
      if "x \<in> set (ApiGenesisState_wire enc1 enc2 m)" for x m
    using that by (auto simp: ApiGenesisState_wire_def ApiGenesisState_fields_def dest!: num_wire)
  show "rfold (apply_field (ApiGenesisState_fields O1 O2)) (ApiGenesisState_wire enc1 enc2 m)
      ApiGenesisState_zero = Inr (m\<lparr>ApiGenesisState_unknownFields := []\<rparr>)"
    if v: "pointer_good good1 (ApiGenesisState_Params m)
        \<and> elements_good good2 (ApiGenesisState_DenomList m)"
        and g: "go_slice (enc_fields (ApiGenesisState_wire enc1 enc2 m))" for m
  proof -
    have 1: "rfold (apply_field (ApiGenesisState_fields O1 O2)) (w_message 1 enc1
        (ApiGenesisState_Params m) @ rest) y
        = rfold (apply_field (ApiGenesisState_fields O1 O2)) rest (y\<lparr>ApiGenesisState_Params :=
            ApiGenesisState_Params m\<rparr>)" if "ApiGenesisState_Params y = None" for rest y
      by (rule rfold_nested_message [OF _ N1 v [THEN conjunct1] _ g, where sel
          = ApiGenesisState_Params
          and upd = "\<lambda>p m. m\<lparr>ApiGenesisState_Params := p\<rparr>"]) (use that in \<open>simp_all add:
              ApiGenesisState_fields_def ApiGenesisState_wire_def\<close>)
    have 2: "rfold (apply_field (ApiGenesisState_fields O1 O2)) (w_elements 2 enc2
        (ApiGenesisState_DenomList m) @ rest) y
        = rfold (apply_field (ApiGenesisState_fields O1 O2)) rest (y\<lparr>ApiGenesisState_DenomList :=
            ApiGenesisState_DenomList y @ ApiGenesisState_DenomList m\<rparr>)" for rest y
      by (rule rfold_nested_elements [OF _ N2 v [THEN conjunct2] _ g, where sel
          = ApiGenesisState_DenomList
          and upd = "\<lambda>es m. m\<lparr>ApiGenesisState_DenomList := es\<rparr>"])
              (simp_all add: ApiGenesisState_fields_def ApiGenesisState_wire_def)
    show ?thesis
      using 1 [where rest = "[]", simplified] 1 2 [where rest = "[]", simplified] 2
      by (simp add: ApiGenesisState_wire_def ApiGenesisState_zero_def  rfold_wire)
  qed
  show "ApiGenesisState_keep (ApiGenesisState_unknownFields m) (m\<lparr>ApiGenesisState_unknownFields
      := []\<rparr>) = m" for m
    by (simp add: ApiGenesisState_keep_def)
  show "ApiGenesisState_keep b (ApiGenesisState_keep a m) = ApiGenesisState_keep (a @ b) m"
      for a b m
    by (simp add: ApiGenesisState_keep_def)
  show "dec s y \<noteq> Inl Panic" if "ApiGenesisState_fields O1 O2 n = Some (name, FMessage dec)"
      and "go_slice s"
    for n name dec s y
    using that by (auto simp: ApiGenesisState_fields_def api_dec_no_panic [OF N1]
        api_dec_no_panic [OF N2] split: if_splits)
qed

interpretation refl_GenesisState: pulsar_reflect "''medasdigital.tokenfactory.GenesisState''"
    "ApiGenesisState_refl"
  by (rule pulsar_reflectI) (simp add: ApiGenesisState_refl_def tbl_ok_simps as_Denom_eq
      as_Params_eq)

text \<open>The gogoproto message with the same fields.\<close>

definition ApiGenesisState_gogo :: "ApiGenesisState \<Rightarrow> GenesisState" where
  "ApiGenesisState_gogo m = \<lparr>GenesisState_Params = (case ApiGenesisState_Params m of None
      \<Rightarrow> Params | Some p \<Rightarrow> ApiParams_gogo p),
       GenesisState_DenomList = map (\<lambda>e. case e of None \<Rightarrow> Denom_zero | Some p
           \<Rightarrow> ApiDenom_gogo p) (ApiGenesisState_DenomList m)\<rparr>"

lemma ApiGenesisState_agree:
  assumes R: "runtime_ok R"
    and N1: "nested_ok O1 enc1 ApiParams_zero good1"
    and N2: "nested_ok O2 enc2 ApiDenom_zero good2"
    and S1: "\<forall>s p. go_slice s \<longrightarrow> norm ApiParams_gogo (opt_Unmarshal O1 s p)
        = norm id (Params_Unmarshal s (ApiParams_gogo p))"
    and S2: "\<forall>s. go_slice s \<longrightarrow> norm ApiDenom_gogo (opt_Unmarshal O2 s ApiDenom_zero)
        = norm id (Denom_Unmarshal s Denom_zero)"
  shows "pulsar_gogo R (ApiGenesisState_fields O1 O2) ApiGenesisState_keep
      ApiGenesisState_unknownFields
    (\<lambda>m. m\<lparr>ApiGenesisState_unknownFields := []\<rparr>) ApiGenesisState_zero (\<lambda>m. pointer_good good1
        (ApiGenesisState_Params m) \<and> elements_good good2 (ApiGenesisState_DenomList m))
    (ApiGenesisState_fields_size R O1 O2) (ApiGenesisState_writers R O1 O2)
    (ApiGenesisState_wire enc1 enc2) GenesisState_fields GenesisState_zero GenesisState_Size
        GenesisState_MarshalToSizedBuffer GenesisState_wire ApiGenesisState_gogo"
  using ApiGenesisState_contract [OF R N1 N2] genesis_pb.pb_message_axioms
proof (rule pulsar_gogo.intro)
  show "pulsar_gogo_axioms (ApiGenesisState_fields O1 O2) ApiGenesisState_keep ApiGenesisState_zero
      GenesisState_fields GenesisState_zero ApiGenesisState_gogo"
  proof
    have 1: "field_sim ApiGenesisState_gogo
        (FMessage (api_dec_message O1 ApiParams_zero ApiGenesisState_Params (\<lambda>p m.
            m\<lparr>ApiGenesisState_Params := p\<rparr>)))
        (FMessage (\<lambda>s m. rbind (Params_Unmarshal s (GenesisState_Params m)) (\<lambda>x. Inr
            (m\<lparr>GenesisState_Params := x\<rparr>))))"
      by (rule sim_nested_message [where \<alpha> = ApiParams_gogo])
        (simp_all add: S1 ApiGenesisState_gogo_def ApiParams_gogo_def split: option.splits)
    have 2: "field_sim ApiGenesisState_gogo
        (FMessage (api_dec_repeated O2 ApiDenom_zero ApiGenesisState_DenomList (\<lambda>es m.
            m\<lparr>ApiGenesisState_DenomList := es\<rparr>)))
        (FMessage (\<lambda>s m. rbind (Denom_Unmarshal s Denom_zero)
          (\<lambda>x. Inr (m\<lparr>GenesisState_DenomList := GenesisState_DenomList m @ [x]\<rparr>))))"
      by (rule sim_nested_repeated [where \<alpha> = ApiDenom_gogo])
          (simp_all add: S2 ApiGenesisState_gogo_def)
    show "fields_sim ApiGenesisState_gogo (ApiGenesisState_fields O1 O2) GenesisState_fields"
      using 1 2 by (simp add: fields_sim_def ApiGenesisState_fields_def GenesisState_fields_def del:
          field_sim.simps(4))
  qed (simp_all add: ApiGenesisState_keep_def ApiGenesisState_gogo_def ApiGenesisState_zero_def
      GenesisState_zero_def)
qed

end
