(* ===== verification/Api_Tx.thy ===== *)
theory Api_Tx
  imports Api_Denom TF_Tx
begin

text \<open>
  The transaction messages of the token factory, \<open>api/medasdigital/tokenfactory/tx.pulsar.go\<close>.
\<close>

section \<open>MsgUpdateParams\<close>

text \<open>The request of \<open>Msg/UpdateParams\<close>.\<close>

record ApiMsgUpdateParams =
  ApiMsgUpdateParams_Authority :: gostring
  ApiMsgUpdateParams_Params :: "ApiParams option"
  ApiMsgUpdateParams_unknownFields :: bytes

definition ApiMsgUpdateParams_zero :: "ApiMsgUpdateParams" where
  "ApiMsgUpdateParams_zero = \<lparr>ApiMsgUpdateParams_Authority = [], ApiMsgUpdateParams_Params = None,
      ApiMsgUpdateParams_unknownFields = []\<rparr>"

definition ApiMsgUpdateParams_fields_size :: "proto_runtime \<Rightarrow> ApiParams options \<Rightarrow> ApiMsgUpdateParams
    \<Rightarrow> nat" where
  "ApiMsgUpdateParams_fields_size R O1 m =
     api_size_string R (ApiMsgUpdateParams_Authority m)
   + api_size_message R O1 (ApiMsgUpdateParams_Params m)"

definition ApiMsgUpdateParams_size :: "proto_runtime \<Rightarrow> ApiParams options \<Rightarrow> ApiMsgUpdateParams option
    \<Rightarrow> nat" where
  "ApiMsgUpdateParams_size R O1 = pulsar_size ApiMsgUpdateParams_unknownFields
      (ApiMsgUpdateParams_fields_size R O1)"

definition ApiMsgUpdateParams_writers :: "proto_runtime \<Rightarrow> ApiParams options \<Rightarrow> ApiMsgUpdateParams
    \<Rightarrow> writer list" where
  "ApiMsgUpdateParams_writers R O1 m =
     [api_message R O1 0x12 (ApiMsgUpdateParams_Params m),
      api_string R 0x0a (ApiMsgUpdateParams_Authority m)]"

definition ApiMsgUpdateParams_marshal :: "proto_runtime \<Rightarrow> ApiParams options \<Rightarrow> bytes option
    \<Rightarrow> ApiMsgUpdateParams option \<Rightarrow> pb_error + bytes option" where
  "ApiMsgUpdateParams_marshal R O1 = pulsar_marshal ApiMsgUpdateParams_unknownFields
      (ApiMsgUpdateParams_fields_size R O1) (ApiMsgUpdateParams_writers R O1)"

definition ApiMsgUpdateParams_keep :: "bytes \<Rightarrow> ApiMsgUpdateParams \<Rightarrow> ApiMsgUpdateParams" where
  "ApiMsgUpdateParams_keep raw m = m\<lparr>ApiMsgUpdateParams_unknownFields :=
      ApiMsgUpdateParams_unknownFields m @ raw\<rparr>"

definition ApiMsgUpdateParams_fields :: "ApiParams options \<Rightarrow> ApiMsgUpdateParams fields" where
  "ApiMsgUpdateParams_fields O1 n =
     (if n = 1 then Some (''Authority'', FString (\<lambda>s m. m\<lparr>ApiMsgUpdateParams_Authority := s\<rparr>))
      else if n = 2 then Some (''Params'',
          FMessage (api_dec_message O1 ApiParams_zero ApiMsgUpdateParams_Params
          (\<lambda>p m. m\<lparr>ApiMsgUpdateParams_Params := p\<rparr>)))
      else None)"

definition ApiMsgUpdateParams_unmarshal :: "proto_runtime \<Rightarrow> bool \<Rightarrow> ApiParams options \<Rightarrow> bytes
    \<Rightarrow> ApiMsgUpdateParams option \<Rightarrow> (pb_error + ApiMsgUpdateParams option) option" where
  "ApiMsgUpdateParams_unmarshal R DiscardUnknown O1 =
     pulsar_unmarshal R DiscardUnknown ''MsgUpdateParams'' (ApiMsgUpdateParams_fields O1)
         ApiMsgUpdateParams_keep"

definition ApiMsgUpdateParams_refl :: "(ApiMsgUpdateParams, tf_ref) rtable" where
  "ApiMsgUpdateParams_refl =
     [(''authority'', RString ApiMsgUpdateParams_Authority (\<lambda>s m. m\<lparr>ApiMsgUpdateParams_Authority :=
         s\<rparr>)),
      (''params'', RPointer RefParams as_Params ApiParams_zero ApiMsgUpdateParams_Params
        (\<lambda>p m. m\<lparr>ApiMsgUpdateParams_Params := p\<rparr>))]"

definition fastReflection_MsgUpdateParams_Range :: "ApiMsgUpdateParams option \<Rightarrow> (string
    \<Rightarrow> tf_ref pvalue \<Rightarrow> 's \<Rightarrow> bool \<times> 's) \<Rightarrow> 's \<Rightarrow> refl_error + 's" where
  "fastReflection_MsgUpdateParams_Range = refl_Range ''medasdigital.tokenfactory.MsgUpdateParams''
      ApiMsgUpdateParams_refl"

definition fastReflection_MsgUpdateParams_Has :: "ApiMsgUpdateParams option \<Rightarrow> field_descriptor
    \<Rightarrow> refl_error + bool" where
  "fastReflection_MsgUpdateParams_Has = refl_Has ''medasdigital.tokenfactory.MsgUpdateParams''
      ApiMsgUpdateParams_refl"

definition fastReflection_MsgUpdateParams_Clear :: "ApiMsgUpdateParams option \<Rightarrow> field_descriptor
    \<Rightarrow> refl_error + ApiMsgUpdateParams option" where
  "fastReflection_MsgUpdateParams_Clear = refl_Clear ''medasdigital.tokenfactory.MsgUpdateParams''
      ApiMsgUpdateParams_refl"

definition fastReflection_MsgUpdateParams_Get :: "ApiMsgUpdateParams option \<Rightarrow> field_descriptor
    \<Rightarrow> refl_error + tf_ref pvalue" where
  "fastReflection_MsgUpdateParams_Get = refl_Get ''medasdigital.tokenfactory.MsgUpdateParams''
      ApiMsgUpdateParams_refl"

definition fastReflection_MsgUpdateParams_Set :: "ApiMsgUpdateParams option \<Rightarrow> field_descriptor
    \<Rightarrow> tf_ref pvalue \<Rightarrow> refl_error + ApiMsgUpdateParams option" where
  "fastReflection_MsgUpdateParams_Set = refl_Set ''medasdigital.tokenfactory.MsgUpdateParams''
      ApiMsgUpdateParams_refl"

definition fastReflection_MsgUpdateParams_Mutable :: "ApiMsgUpdateParams option \<Rightarrow> field_descriptor
    \<Rightarrow> refl_error + ApiMsgUpdateParams option \<times> tf_ref pvalue" where
  "fastReflection_MsgUpdateParams_Mutable
      = refl_Mutable ''medasdigital.tokenfactory.MsgUpdateParams'' ApiMsgUpdateParams_refl"

definition fastReflection_MsgUpdateParams_NewField :: "field_descriptor \<Rightarrow> refl_error
    + tf_ref pvalue" where
  "fastReflection_MsgUpdateParams_NewField
      = refl_NewField ''medasdigital.tokenfactory.MsgUpdateParams'' ApiMsgUpdateParams_refl"

definition fastReflection_MsgUpdateParams_WhichOneof :: "string \<Rightarrow> refl_error + field_descriptor"
    where
  "fastReflection_MsgUpdateParams_WhichOneof
      = refl_WhichOneof ''medasdigital.tokenfactory.MsgUpdateParams''"

definition fastReflection_MsgUpdateParams_GetUnknown :: "ApiMsgUpdateParams option \<Rightarrow> refl_error
    + bytes" where
  "fastReflection_MsgUpdateParams_GetUnknown = refl_GetUnknown ApiMsgUpdateParams_unknownFields"

definition fastReflection_MsgUpdateParams_SetUnknown :: "ApiMsgUpdateParams option \<Rightarrow> bytes
    \<Rightarrow> refl_error + ApiMsgUpdateParams option" where
  "fastReflection_MsgUpdateParams_SetUnknown
      = refl_SetUnknown (\<lambda>raw m. m\<lparr>ApiMsgUpdateParams_unknownFields := raw\<rparr>)"

definition fastReflection_MsgUpdateParams_IsValid :: "ApiMsgUpdateParams option \<Rightarrow> bool" where
  "fastReflection_MsgUpdateParams_IsValid = refl_IsValid"

definition ApiMsgUpdateParams_GetAuthority :: "ApiMsgUpdateParams option \<Rightarrow> gostring" where
  "ApiMsgUpdateParams_GetAuthority = getter [] ApiMsgUpdateParams_Authority"

definition ApiMsgUpdateParams_GetParams :: "ApiMsgUpdateParams option \<Rightarrow> ApiParams option" where
  "ApiMsgUpdateParams_GetParams = getter None ApiMsgUpdateParams_Params"

definition ApiMsgUpdateParams_wire :: "(ApiParams \<Rightarrow> bytes) \<Rightarrow> ApiMsgUpdateParams \<Rightarrow> wire_field list"
    where
  "ApiMsgUpdateParams_wire enc1 m =
     w_string 1 (ApiMsgUpdateParams_Authority m)
   @ w_message 2 enc1 (ApiMsgUpdateParams_Params m)"

lemma ApiMsgUpdateParams_contract:
  assumes R: "runtime_ok R"
    and N1: "nested_ok O1 enc1 ApiParams_zero good1"
  shows "pulsar_message R (ApiMsgUpdateParams_fields O1) ApiMsgUpdateParams_keep
      ApiMsgUpdateParams_unknownFields
    (\<lambda>m. m\<lparr>ApiMsgUpdateParams_unknownFields := []\<rparr>)
    ApiMsgUpdateParams_zero (\<lambda>m. pointer_good good1 (ApiMsgUpdateParams_Params m))
    (ApiMsgUpdateParams_fields_size R O1) (ApiMsgUpdateParams_writers R O1) (ApiMsgUpdateParams_wire
        enc1)"
proof unfold_locales
  show "runtime_ok R" by (rule R)
  show "writes (put_seq (ApiMsgUpdateParams_writers R O1 m)) (enc_fields (ApiMsgUpdateParams_wire
      enc1 m))" for m
  proof -
    have "list_all2 writes (ApiMsgUpdateParams_writers R O1 m)
        [enc_fields (w_message 2 enc1 (ApiMsgUpdateParams_Params m)),
            enc_fields (w_string 1 (ApiMsgUpdateParams_Authority m))]"
      by (simp add: ApiMsgUpdateParams_writers_def runtime_simps [OF R] writes_wire key_byte_def
          writes_nested [OF R N1])
    from writes_seq [OF this] show ?thesis by (simp add: ApiMsgUpdateParams_wire_def)
  qed
  show "ApiMsgUpdateParams_fields_size R O1 m
      = length (enc_fields (ApiMsgUpdateParams_wire enc1 m))" for m
    by (simp add: ApiMsgUpdateParams_fields_size_def ApiMsgUpdateParams_wire_def runtime_simps [OF
        R] length_nested [OF R N1])
  show "list_all wf_field (ApiMsgUpdateParams_wire enc1 m)" for m
    by (simp add: ApiMsgUpdateParams_wire_def)
  show "ApiMsgUpdateParams_fields O1 (of_nat (field_num x)) \<noteq> None"
      if "x \<in> set (ApiMsgUpdateParams_wire enc1 m)" for x m
    using that by (auto simp: ApiMsgUpdateParams_wire_def ApiMsgUpdateParams_fields_def dest!:
        num_wire)
  show "rfold (apply_field (ApiMsgUpdateParams_fields O1)) (ApiMsgUpdateParams_wire enc1 m)
      ApiMsgUpdateParams_zero = Inr (m\<lparr>ApiMsgUpdateParams_unknownFields := []\<rparr>)"
    if v: "pointer_good good1 (ApiMsgUpdateParams_Params m)"
        and g: "go_slice (enc_fields (ApiMsgUpdateParams_wire enc1 m))" for m
  proof -
    have 1: "rfold (apply_field (ApiMsgUpdateParams_fields O1)) (w_message 2 enc1
        (ApiMsgUpdateParams_Params m) @ rest) y
        = rfold (apply_field (ApiMsgUpdateParams_fields O1)) rest (y\<lparr>ApiMsgUpdateParams_Params :=
            ApiMsgUpdateParams_Params m\<rparr>)" if "ApiMsgUpdateParams_Params y = None" for rest y
      by (rule rfold_nested_message [OF _ N1 v _ g, where sel = ApiMsgUpdateParams_Params
          and upd = "\<lambda>p m. m\<lparr>ApiMsgUpdateParams_Params := p\<rparr>"]) (use that in \<open>simp_all add:
              ApiMsgUpdateParams_fields_def ApiMsgUpdateParams_wire_def\<close>)
    show ?thesis
      using 1 [where rest = "[]", simplified] 1
      by (simp add: ApiMsgUpdateParams_wire_def ApiMsgUpdateParams_zero_def
          ApiMsgUpdateParams_fields_def rfold_wire)
  qed
  show "ApiMsgUpdateParams_keep (ApiMsgUpdateParams_unknownFields m)
      (m\<lparr>ApiMsgUpdateParams_unknownFields := []\<rparr>) = m" for m
    by (simp add: ApiMsgUpdateParams_keep_def)
  show "ApiMsgUpdateParams_keep b (ApiMsgUpdateParams_keep a m) = ApiMsgUpdateParams_keep (a @ b) m"
      for a b m
    by (simp add: ApiMsgUpdateParams_keep_def)
  show "dec s y \<noteq> Inl Panic" if "ApiMsgUpdateParams_fields O1 n = Some (name, FMessage dec)"
      and "go_slice s"
    for n name dec s y
    using that by (auto simp: ApiMsgUpdateParams_fields_def api_dec_no_panic [OF N1] split:
        if_splits)
qed

interpretation refl_MsgUpdateParams: pulsar_reflect "''medasdigital.tokenfactory.MsgUpdateParams''"
    "ApiMsgUpdateParams_refl"
  by (rule pulsar_reflectI) (simp add: ApiMsgUpdateParams_refl_def tbl_ok_simps as_Params_eq)

text \<open>The gogoproto message with the same fields.\<close>

definition ApiMsgUpdateParams_gogo :: "ApiMsgUpdateParams \<Rightarrow> MsgUpdateParams" where
  "ApiMsgUpdateParams_gogo m = \<lparr>MsgUpdateParams_Authority = ApiMsgUpdateParams_Authority m,
       MsgUpdateParams_Params = (case ApiMsgUpdateParams_Params m of None \<Rightarrow> Params | Some p
           \<Rightarrow> ApiParams_gogo p)\<rparr>"

lemma ApiMsgUpdateParams_agree:
  assumes R: "runtime_ok R"
    and N1: "nested_ok O1 enc1 ApiParams_zero good1"
    and S1: "\<forall>s p. go_slice s \<longrightarrow> norm ApiParams_gogo (opt_Unmarshal O1 s p)
        = norm id (Params_Unmarshal s (ApiParams_gogo p))"
  shows "pulsar_gogo R (ApiMsgUpdateParams_fields O1) ApiMsgUpdateParams_keep
      ApiMsgUpdateParams_unknownFields
    (\<lambda>m. m\<lparr>ApiMsgUpdateParams_unknownFields := []\<rparr>) ApiMsgUpdateParams_zero (\<lambda>m. pointer_good good1
        (ApiMsgUpdateParams_Params m))
    (ApiMsgUpdateParams_fields_size R O1) (ApiMsgUpdateParams_writers R O1)
    (ApiMsgUpdateParams_wire enc1) MsgUpdateParams_fields MsgUpdateParams_zero MsgUpdateParams_Size
        MsgUpdateParams_MarshalToSizedBuffer MsgUpdateParams_wire ApiMsgUpdateParams_gogo"
  using ApiMsgUpdateParams_contract [OF R N1] msg_update_params_pb.pb_message_axioms
proof (rule pulsar_gogo.intro)
  show "pulsar_gogo_axioms (ApiMsgUpdateParams_fields O1) ApiMsgUpdateParams_keep
      ApiMsgUpdateParams_zero MsgUpdateParams_fields MsgUpdateParams_zero ApiMsgUpdateParams_gogo"
  proof
    have 1: "field_sim ApiMsgUpdateParams_gogo
        (FMessage (api_dec_message O1 ApiParams_zero ApiMsgUpdateParams_Params (\<lambda>p m.
            m\<lparr>ApiMsgUpdateParams_Params := p\<rparr>)))
        (FMessage (\<lambda>s m. rbind (Params_Unmarshal s (MsgUpdateParams_Params m)) (\<lambda>x. Inr
            (m\<lparr>MsgUpdateParams_Params := x\<rparr>))))"
      by (rule sim_nested_message [where \<alpha> = ApiParams_gogo])
        (simp_all add: S1 ApiMsgUpdateParams_gogo_def ApiParams_gogo_def split: option.splits)
    show "fields_sim ApiMsgUpdateParams_gogo (ApiMsgUpdateParams_fields O1) MsgUpdateParams_fields"
      using 1 by (simp add: fields_sim_def ApiMsgUpdateParams_fields_def MsgUpdateParams_fields_def
          ApiMsgUpdateParams_gogo_def del: field_sim.simps(4))
  qed (simp_all add: ApiMsgUpdateParams_keep_def ApiMsgUpdateParams_gogo_def
      ApiMsgUpdateParams_zero_def MsgUpdateParams_zero_def)
qed

section \<open>MsgUpdateParamsResponse\<close>

text \<open>Its response.\<close>

record ApiMsgUpdateParamsResponse =
  ApiMsgUpdateParamsResponse_unknownFields :: bytes

definition ApiMsgUpdateParamsResponse_zero :: "ApiMsgUpdateParamsResponse" where
  "ApiMsgUpdateParamsResponse_zero = \<lparr>ApiMsgUpdateParamsResponse_unknownFields = []\<rparr>"

definition ApiMsgUpdateParamsResponse_fields_size :: "proto_runtime \<Rightarrow> ApiMsgUpdateParamsResponse
    \<Rightarrow> nat" where
  "ApiMsgUpdateParamsResponse_fields_size R m = 0"

definition ApiMsgUpdateParamsResponse_size :: "proto_runtime \<Rightarrow> ApiMsgUpdateParamsResponse option
    \<Rightarrow> nat" where
  "ApiMsgUpdateParamsResponse_size R = pulsar_size ApiMsgUpdateParamsResponse_unknownFields
      (ApiMsgUpdateParamsResponse_fields_size R)"

definition ApiMsgUpdateParamsResponse_writers :: "proto_runtime \<Rightarrow> ApiMsgUpdateParamsResponse
    \<Rightarrow> writer list" where
  "ApiMsgUpdateParamsResponse_writers R m = []"

definition ApiMsgUpdateParamsResponse_marshal :: "proto_runtime \<Rightarrow> bytes option
    \<Rightarrow> ApiMsgUpdateParamsResponse option \<Rightarrow> pb_error + bytes option" where
  "ApiMsgUpdateParamsResponse_marshal R = pulsar_marshal ApiMsgUpdateParamsResponse_unknownFields
      (ApiMsgUpdateParamsResponse_fields_size R) (ApiMsgUpdateParamsResponse_writers R)"

definition ApiMsgUpdateParamsResponse_keep :: "bytes \<Rightarrow> ApiMsgUpdateParamsResponse
    \<Rightarrow> ApiMsgUpdateParamsResponse" where
  "ApiMsgUpdateParamsResponse_keep raw m = m\<lparr>ApiMsgUpdateParamsResponse_unknownFields :=
      ApiMsgUpdateParamsResponse_unknownFields m @ raw\<rparr>"

definition ApiMsgUpdateParamsResponse_fields :: "ApiMsgUpdateParamsResponse fields" where
  "ApiMsgUpdateParamsResponse_fields n = None"

definition ApiMsgUpdateParamsResponse_unmarshal :: "proto_runtime \<Rightarrow> bool \<Rightarrow> bytes
    \<Rightarrow> ApiMsgUpdateParamsResponse option \<Rightarrow> (pb_error + ApiMsgUpdateParamsResponse option) option"
    where
  "ApiMsgUpdateParamsResponse_unmarshal R DiscardUnknown =
     pulsar_unmarshal R DiscardUnknown ''MsgUpdateParamsResponse'' ApiMsgUpdateParamsResponse_fields
         ApiMsgUpdateParamsResponse_keep"

definition ApiMsgUpdateParamsResponse_refl :: "(ApiMsgUpdateParamsResponse, tf_ref) rtable" where
  "ApiMsgUpdateParamsResponse_refl = []"

definition fastReflection_MsgUpdateParamsResponse_Range :: "ApiMsgUpdateParamsResponse option
    \<Rightarrow> (string \<Rightarrow> tf_ref pvalue \<Rightarrow> 's \<Rightarrow> bool \<times> 's) \<Rightarrow> 's \<Rightarrow> refl_error + 's" where
  "fastReflection_MsgUpdateParamsResponse_Range
      = refl_Range ''medasdigital.tokenfactory.MsgUpdateParamsResponse''
      ApiMsgUpdateParamsResponse_refl"

definition fastReflection_MsgUpdateParamsResponse_Has :: "ApiMsgUpdateParamsResponse option
    \<Rightarrow> field_descriptor \<Rightarrow> refl_error + bool" where
  "fastReflection_MsgUpdateParamsResponse_Has
      = refl_Has ''medasdigital.tokenfactory.MsgUpdateParamsResponse''
      ApiMsgUpdateParamsResponse_refl"

definition fastReflection_MsgUpdateParamsResponse_Clear :: "ApiMsgUpdateParamsResponse option
    \<Rightarrow> field_descriptor \<Rightarrow> refl_error + ApiMsgUpdateParamsResponse option" where
  "fastReflection_MsgUpdateParamsResponse_Clear
      = refl_Clear ''medasdigital.tokenfactory.MsgUpdateParamsResponse''
      ApiMsgUpdateParamsResponse_refl"

definition fastReflection_MsgUpdateParamsResponse_Get :: "ApiMsgUpdateParamsResponse option
    \<Rightarrow> field_descriptor \<Rightarrow> refl_error + tf_ref pvalue" where
  "fastReflection_MsgUpdateParamsResponse_Get
      = refl_Get ''medasdigital.tokenfactory.MsgUpdateParamsResponse''
      ApiMsgUpdateParamsResponse_refl"

definition fastReflection_MsgUpdateParamsResponse_Set :: "ApiMsgUpdateParamsResponse option
    \<Rightarrow> field_descriptor \<Rightarrow> tf_ref pvalue \<Rightarrow> refl_error + ApiMsgUpdateParamsResponse option" where
  "fastReflection_MsgUpdateParamsResponse_Set
      = refl_Set ''medasdigital.tokenfactory.MsgUpdateParamsResponse''
      ApiMsgUpdateParamsResponse_refl"

definition fastReflection_MsgUpdateParamsResponse_Mutable :: "ApiMsgUpdateParamsResponse option
    \<Rightarrow> field_descriptor \<Rightarrow> refl_error + ApiMsgUpdateParamsResponse option \<times> tf_ref pvalue" where
  "fastReflection_MsgUpdateParamsResponse_Mutable
      = refl_Mutable ''medasdigital.tokenfactory.MsgUpdateParamsResponse''
      ApiMsgUpdateParamsResponse_refl"

definition fastReflection_MsgUpdateParamsResponse_NewField :: "field_descriptor \<Rightarrow> refl_error
    + tf_ref pvalue" where
  "fastReflection_MsgUpdateParamsResponse_NewField
      = refl_NewField ''medasdigital.tokenfactory.MsgUpdateParamsResponse''
      ApiMsgUpdateParamsResponse_refl"

definition fastReflection_MsgUpdateParamsResponse_WhichOneof :: "string \<Rightarrow> refl_error
    + field_descriptor" where
  "fastReflection_MsgUpdateParamsResponse_WhichOneof
      = refl_WhichOneof ''medasdigital.tokenfactory.MsgUpdateParamsResponse''"

definition fastReflection_MsgUpdateParamsResponse_GetUnknown :: "ApiMsgUpdateParamsResponse option
    \<Rightarrow> refl_error + bytes" where
  "fastReflection_MsgUpdateParamsResponse_GetUnknown
      = refl_GetUnknown ApiMsgUpdateParamsResponse_unknownFields"

definition fastReflection_MsgUpdateParamsResponse_SetUnknown :: "ApiMsgUpdateParamsResponse option
    \<Rightarrow> bytes \<Rightarrow> refl_error + ApiMsgUpdateParamsResponse option" where
  "fastReflection_MsgUpdateParamsResponse_SetUnknown
      = refl_SetUnknown (\<lambda>raw m. m\<lparr>ApiMsgUpdateParamsResponse_unknownFields := raw\<rparr>)"

definition fastReflection_MsgUpdateParamsResponse_IsValid :: "ApiMsgUpdateParamsResponse option
    \<Rightarrow> bool" where
  "fastReflection_MsgUpdateParamsResponse_IsValid = refl_IsValid"

definition ApiMsgUpdateParamsResponse_wire :: "ApiMsgUpdateParamsResponse \<Rightarrow> wire_field list" where
  "ApiMsgUpdateParamsResponse_wire m = []"

lemma ApiMsgUpdateParamsResponse_contract:
  assumes R: "runtime_ok R"
  shows "pulsar_message R ApiMsgUpdateParamsResponse_fields ApiMsgUpdateParamsResponse_keep
      ApiMsgUpdateParamsResponse_unknownFields
    (\<lambda>m. m\<lparr>ApiMsgUpdateParamsResponse_unknownFields := []\<rparr>)
    ApiMsgUpdateParamsResponse_zero (\<lambda>m. True)
    (ApiMsgUpdateParamsResponse_fields_size R) (ApiMsgUpdateParamsResponse_writers R)
        ApiMsgUpdateParamsResponse_wire"
proof unfold_locales
  show "runtime_ok R" by (rule R)
  show "writes (put_seq (ApiMsgUpdateParamsResponse_writers R m)) (enc_fields
      (ApiMsgUpdateParamsResponse_wire m))" for m
    by (simp add: ApiMsgUpdateParamsResponse_writers_def ApiMsgUpdateParamsResponse_wire_def
        put_seq_nil writes_skip)
  show "ApiMsgUpdateParamsResponse_fields_size R m
      = length (enc_fields (ApiMsgUpdateParamsResponse_wire m))" for m
    by (simp add: ApiMsgUpdateParamsResponse_fields_size_def ApiMsgUpdateParamsResponse_wire_def
        runtime_simps [OF R])
  show "list_all wf_field (ApiMsgUpdateParamsResponse_wire m)" for m
    by (simp add: ApiMsgUpdateParamsResponse_wire_def)
  show "ApiMsgUpdateParamsResponse_fields (of_nat (field_num x)) \<noteq> None"
      if "x \<in> set (ApiMsgUpdateParamsResponse_wire m)" for x m
    using that by (auto simp: ApiMsgUpdateParamsResponse_wire_def
        ApiMsgUpdateParamsResponse_fields_def dest!: num_wire)
  show "rfold (apply_field ApiMsgUpdateParamsResponse_fields) (ApiMsgUpdateParamsResponse_wire m)
      ApiMsgUpdateParamsResponse_zero = Inr (m\<lparr>ApiMsgUpdateParamsResponse_unknownFields := []\<rparr>)"
      for m
    by (simp add: ApiMsgUpdateParamsResponse_wire_def ApiMsgUpdateParamsResponse_zero_def)
  show "ApiMsgUpdateParamsResponse_keep (ApiMsgUpdateParamsResponse_unknownFields m)
      (m\<lparr>ApiMsgUpdateParamsResponse_unknownFields := []\<rparr>) = m" for m
    by (simp add: ApiMsgUpdateParamsResponse_keep_def)
  show "ApiMsgUpdateParamsResponse_keep b (ApiMsgUpdateParamsResponse_keep a m)
      = ApiMsgUpdateParamsResponse_keep (a @ b) m" for a b m
    by (simp add: ApiMsgUpdateParamsResponse_keep_def)
  show "dec s y \<noteq> Inl Panic" if "ApiMsgUpdateParamsResponse_fields n = Some (name, FMessage dec)"
      and "go_slice s"
    for n name dec s y
    using that by (auto simp: ApiMsgUpdateParamsResponse_fields_def split: if_splits)
qed

text \<open>The gogoproto message with the same fields.\<close>

definition ApiMsgUpdateParamsResponse_gogo :: "ApiMsgUpdateParamsResponse \<Rightarrow> MsgUpdateParamsResponse"
    where
  "ApiMsgUpdateParamsResponse_gogo m = MsgUpdateParamsResponse"

lemma ApiMsgUpdateParamsResponse_agree:
  assumes R: "runtime_ok R"
  shows "pulsar_gogo R ApiMsgUpdateParamsResponse_fields ApiMsgUpdateParamsResponse_keep
      ApiMsgUpdateParamsResponse_unknownFields
    (\<lambda>m. m\<lparr>ApiMsgUpdateParamsResponse_unknownFields := []\<rparr>) ApiMsgUpdateParamsResponse_zero (\<lambda>m.
        True)
    (ApiMsgUpdateParamsResponse_fields_size R) (ApiMsgUpdateParamsResponse_writers R)
        ApiMsgUpdateParamsResponse_wire
    MsgUpdateParamsResponse_fields MsgUpdateParamsResponse MsgUpdateParamsResponse_Size
        MsgUpdateParamsResponse_MarshalToSizedBuffer MsgUpdateParamsResponse_wire
        ApiMsgUpdateParamsResponse_gogo"
  using ApiMsgUpdateParamsResponse_contract [OF R] msg_update_params_response_pb.pb_message_axioms
proof (rule pulsar_gogo.intro)
  show "pulsar_gogo_axioms ApiMsgUpdateParamsResponse_fields ApiMsgUpdateParamsResponse_keep
      ApiMsgUpdateParamsResponse_zero MsgUpdateParamsResponse_fields MsgUpdateParamsResponse
      ApiMsgUpdateParamsResponse_gogo"
    by unfold_locales (simp_all add: fields_sim_def ApiMsgUpdateParamsResponse_fields_def
        MsgUpdateParamsResponse_fields_def ApiMsgUpdateParamsResponse_keep_def
        ApiMsgUpdateParamsResponse_gogo_def
        ApiMsgUpdateParamsResponse_zero_def )
qed

interpretation api_MsgUpdateParamsResponse: pulsar_gogo gogo_runtime "''MsgUpdateParamsResponse''"
    ApiMsgUpdateParamsResponse_fields ApiMsgUpdateParamsResponse_keep
    ApiMsgUpdateParamsResponse_unknownFields
  "\<lambda>m. m\<lparr>ApiMsgUpdateParamsResponse_unknownFields := []\<rparr>" ApiMsgUpdateParamsResponse_zero "\<lambda>m. True"
  "ApiMsgUpdateParamsResponse_fields_size gogo_runtime" "ApiMsgUpdateParamsResponse_writers
      gogo_runtime" ApiMsgUpdateParamsResponse_wire
  tx_file MsgUpdateParamsResponse_fields MsgUpdateParamsResponse MsgUpdateParamsResponse_Size
      MsgUpdateParamsResponse_MarshalToSizedBuffer MsgUpdateParamsResponse_wire
      ApiMsgUpdateParamsResponse_gogo
  by (rule ApiMsgUpdateParamsResponse_agree [OF gogo_runtime_ok])

section \<open>MsgCreateDenom\<close>

text \<open>The request of \<open>Msg/CreateDenom\<close>.\<close>

record ApiMsgCreateDenom =
  ApiMsgCreateDenom_Owner :: gostring
  ApiMsgCreateDenom_Denom :: gostring
  ApiMsgCreateDenom_Description :: gostring
  ApiMsgCreateDenom_Ticker :: gostring
  ApiMsgCreateDenom_Precision :: int32
  ApiMsgCreateDenom_Url :: gostring
  ApiMsgCreateDenom_MaxSupply :: int32
  ApiMsgCreateDenom_Supply :: int32
  ApiMsgCreateDenom_CanChangeMaxSupply :: bool
  ApiMsgCreateDenom_unknownFields :: bytes

definition ApiMsgCreateDenom_zero :: "ApiMsgCreateDenom" where
  "ApiMsgCreateDenom_zero = \<lparr>ApiMsgCreateDenom_Owner = [], ApiMsgCreateDenom_Denom = [],
      ApiMsgCreateDenom_Description = [], ApiMsgCreateDenom_Ticker = [], ApiMsgCreateDenom_Precision
      = 0, ApiMsgCreateDenom_Url = [], ApiMsgCreateDenom_MaxSupply = 0, ApiMsgCreateDenom_Supply
      = 0, ApiMsgCreateDenom_CanChangeMaxSupply = False, ApiMsgCreateDenom_unknownFields = []\<rparr>"

definition ApiMsgCreateDenom_fields_size :: "proto_runtime \<Rightarrow> ApiMsgCreateDenom \<Rightarrow> nat" where
  "ApiMsgCreateDenom_fields_size R m =
     api_size_string R (ApiMsgCreateDenom_Owner m)
   + api_size_string R (ApiMsgCreateDenom_Denom m)
   + api_size_string R (ApiMsgCreateDenom_Description m)
   + api_size_string R (ApiMsgCreateDenom_Ticker m)
   + api_size_int32 R (ApiMsgCreateDenom_Precision m)
   + api_size_string R (ApiMsgCreateDenom_Url m)
   + api_size_int32 R (ApiMsgCreateDenom_MaxSupply m)
   + api_size_int32 R (ApiMsgCreateDenom_Supply m)
   + size_bool (ApiMsgCreateDenom_CanChangeMaxSupply m)"

definition ApiMsgCreateDenom_size :: "proto_runtime \<Rightarrow> ApiMsgCreateDenom option \<Rightarrow> nat" where
  "ApiMsgCreateDenom_size R = pulsar_size ApiMsgCreateDenom_unknownFields
      (ApiMsgCreateDenom_fields_size R)"

definition ApiMsgCreateDenom_writers :: "proto_runtime \<Rightarrow> ApiMsgCreateDenom \<Rightarrow> writer list" where
  "ApiMsgCreateDenom_writers R m =
     [put_bool 0x48 (ApiMsgCreateDenom_CanChangeMaxSupply m),
      api_int32 R 0x40 (ApiMsgCreateDenom_Supply m),
      api_int32 R 0x38 (ApiMsgCreateDenom_MaxSupply m),
      api_string R 0x32 (ApiMsgCreateDenom_Url m),
      api_int32 R 0x28 (ApiMsgCreateDenom_Precision m),
      api_string R 0x22 (ApiMsgCreateDenom_Ticker m),
      api_string R 0x1a (ApiMsgCreateDenom_Description m),
      api_string R 0x12 (ApiMsgCreateDenom_Denom m),
      api_string R 0x0a (ApiMsgCreateDenom_Owner m)]"

definition ApiMsgCreateDenom_marshal :: "proto_runtime \<Rightarrow> bytes option \<Rightarrow> ApiMsgCreateDenom option
    \<Rightarrow> pb_error + bytes option" where
  "ApiMsgCreateDenom_marshal R = pulsar_marshal ApiMsgCreateDenom_unknownFields
      (ApiMsgCreateDenom_fields_size R) (ApiMsgCreateDenom_writers R)"

definition ApiMsgCreateDenom_keep :: "bytes \<Rightarrow> ApiMsgCreateDenom \<Rightarrow> ApiMsgCreateDenom" where
  "ApiMsgCreateDenom_keep raw m = m\<lparr>ApiMsgCreateDenom_unknownFields :=
      ApiMsgCreateDenom_unknownFields m @ raw\<rparr>"

text \<open>The cases of the switch from field 6 on, and those before them.\<close>

definition ApiMsgCreateDenom_fields_6 :: "ApiMsgCreateDenom fields" where
  "ApiMsgCreateDenom_fields_6 n =
     (if n = 6 then Some (''Url'', FString (\<lambda>s m. m\<lparr>ApiMsgCreateDenom_Url := s\<rparr>))
      else if n = 7 then Some (''MaxSupply'', FInt32 (\<lambda>v m. m\<lparr>ApiMsgCreateDenom_MaxSupply := v\<rparr>))
      else if n = 8 then Some (''Supply'', FInt32 (\<lambda>v m. m\<lparr>ApiMsgCreateDenom_Supply := v\<rparr>))
      else if n = 9 then Some (''CanChangeMaxSupply'',
          FBool (\<lambda>b m. m\<lparr>ApiMsgCreateDenom_CanChangeMaxSupply := b\<rparr>))
      else None)"

definition ApiMsgCreateDenom_fields :: "ApiMsgCreateDenom fields" where
  "ApiMsgCreateDenom_fields n =
     (if n = 1 then Some (''Owner'', FString (\<lambda>s m. m\<lparr>ApiMsgCreateDenom_Owner := s\<rparr>))
      else if n = 2 then Some (''Denom'', FString (\<lambda>s m. m\<lparr>ApiMsgCreateDenom_Denom := s\<rparr>))
      else if n = 3 then Some (''Description'',
          FString (\<lambda>s m. m\<lparr>ApiMsgCreateDenom_Description := s\<rparr>))
      else if n = 4 then Some (''Ticker'', FString (\<lambda>s m. m\<lparr>ApiMsgCreateDenom_Ticker := s\<rparr>))
      else if n = 5 then Some (''Precision'', FInt32 (\<lambda>v m. m\<lparr>ApiMsgCreateDenom_Precision := v\<rparr>))
      else ApiMsgCreateDenom_fields_6 n)"

definition ApiMsgCreateDenom_unmarshal :: "proto_runtime \<Rightarrow> bool \<Rightarrow> bytes \<Rightarrow> ApiMsgCreateDenom option
    \<Rightarrow> (pb_error + ApiMsgCreateDenom option) option" where
  "ApiMsgCreateDenom_unmarshal R DiscardUnknown =
     pulsar_unmarshal R DiscardUnknown ''MsgCreateDenom'' ApiMsgCreateDenom_fields
         ApiMsgCreateDenom_keep"

definition ApiMsgCreateDenom_refl :: "(ApiMsgCreateDenom, tf_ref) rtable" where
  "ApiMsgCreateDenom_refl =
     [(''owner'', RString ApiMsgCreateDenom_Owner (\<lambda>s m. m\<lparr>ApiMsgCreateDenom_Owner := s\<rparr>)),
      (''denom'', RString ApiMsgCreateDenom_Denom (\<lambda>s m. m\<lparr>ApiMsgCreateDenom_Denom := s\<rparr>)),
      (''description'', RString ApiMsgCreateDenom_Description (\<lambda>s m. m\<lparr>ApiMsgCreateDenom_Description
          := s\<rparr>)),
      (''ticker'', RString ApiMsgCreateDenom_Ticker (\<lambda>s m. m\<lparr>ApiMsgCreateDenom_Ticker := s\<rparr>)),
      (''precision'', RInt32 ApiMsgCreateDenom_Precision (\<lambda>v m. m\<lparr>ApiMsgCreateDenom_Precision :=
          v\<rparr>)),
      (''url'', RString ApiMsgCreateDenom_Url (\<lambda>s m. m\<lparr>ApiMsgCreateDenom_Url := s\<rparr>)),
      (''maxSupply'', RInt32 ApiMsgCreateDenom_MaxSupply (\<lambda>v m. m\<lparr>ApiMsgCreateDenom_MaxSupply :=
          v\<rparr>)),
      (''supply'', RInt32 ApiMsgCreateDenom_Supply (\<lambda>v m. m\<lparr>ApiMsgCreateDenom_Supply := v\<rparr>)),
      (''canChangeMaxSupply'', RBool ApiMsgCreateDenom_CanChangeMaxSupply (\<lambda>b m.
          m\<lparr>ApiMsgCreateDenom_CanChangeMaxSupply := b\<rparr>))]"

definition fastReflection_MsgCreateDenom_Range :: "ApiMsgCreateDenom option \<Rightarrow> (string
    \<Rightarrow> tf_ref pvalue \<Rightarrow> 's \<Rightarrow> bool \<times> 's) \<Rightarrow> 's \<Rightarrow> refl_error + 's" where
  "fastReflection_MsgCreateDenom_Range = refl_Range ''medasdigital.tokenfactory.MsgCreateDenom''
      ApiMsgCreateDenom_refl"

definition fastReflection_MsgCreateDenom_Has :: "ApiMsgCreateDenom option \<Rightarrow> field_descriptor
    \<Rightarrow> refl_error + bool" where
  "fastReflection_MsgCreateDenom_Has = refl_Has ''medasdigital.tokenfactory.MsgCreateDenom''
      ApiMsgCreateDenom_refl"

definition fastReflection_MsgCreateDenom_Clear :: "ApiMsgCreateDenom option \<Rightarrow> field_descriptor
    \<Rightarrow> refl_error + ApiMsgCreateDenom option" where
  "fastReflection_MsgCreateDenom_Clear = refl_Clear ''medasdigital.tokenfactory.MsgCreateDenom''
      ApiMsgCreateDenom_refl"

definition fastReflection_MsgCreateDenom_Get :: "ApiMsgCreateDenom option \<Rightarrow> field_descriptor
    \<Rightarrow> refl_error + tf_ref pvalue" where
  "fastReflection_MsgCreateDenom_Get = refl_Get ''medasdigital.tokenfactory.MsgCreateDenom''
      ApiMsgCreateDenom_refl"

definition fastReflection_MsgCreateDenom_Set :: "ApiMsgCreateDenom option \<Rightarrow> field_descriptor
    \<Rightarrow> tf_ref pvalue \<Rightarrow> refl_error + ApiMsgCreateDenom option" where
  "fastReflection_MsgCreateDenom_Set = refl_Set ''medasdigital.tokenfactory.MsgCreateDenom''
      ApiMsgCreateDenom_refl"

definition fastReflection_MsgCreateDenom_Mutable :: "ApiMsgCreateDenom option \<Rightarrow> field_descriptor
    \<Rightarrow> refl_error + ApiMsgCreateDenom option \<times> tf_ref pvalue" where
  "fastReflection_MsgCreateDenom_Mutable = refl_Mutable ''medasdigital.tokenfactory.MsgCreateDenom''
      ApiMsgCreateDenom_refl"

definition fastReflection_MsgCreateDenom_NewField :: "field_descriptor \<Rightarrow> refl_error + tf_ref pvalue"
    where
  "fastReflection_MsgCreateDenom_NewField
      = refl_NewField ''medasdigital.tokenfactory.MsgCreateDenom'' ApiMsgCreateDenom_refl"

definition fastReflection_MsgCreateDenom_WhichOneof :: "string \<Rightarrow> refl_error + field_descriptor"
    where
  "fastReflection_MsgCreateDenom_WhichOneof
      = refl_WhichOneof ''medasdigital.tokenfactory.MsgCreateDenom''"

definition fastReflection_MsgCreateDenom_GetUnknown :: "ApiMsgCreateDenom option \<Rightarrow> refl_error
    + bytes" where
  "fastReflection_MsgCreateDenom_GetUnknown = refl_GetUnknown ApiMsgCreateDenom_unknownFields"

definition fastReflection_MsgCreateDenom_SetUnknown :: "ApiMsgCreateDenom option \<Rightarrow> bytes
    \<Rightarrow> refl_error + ApiMsgCreateDenom option" where
  "fastReflection_MsgCreateDenom_SetUnknown
      = refl_SetUnknown (\<lambda>raw m. m\<lparr>ApiMsgCreateDenom_unknownFields := raw\<rparr>)"

definition fastReflection_MsgCreateDenom_IsValid :: "ApiMsgCreateDenom option \<Rightarrow> bool" where
  "fastReflection_MsgCreateDenom_IsValid = refl_IsValid"

definition ApiMsgCreateDenom_GetOwner :: "ApiMsgCreateDenom option \<Rightarrow> gostring" where
  "ApiMsgCreateDenom_GetOwner = getter [] ApiMsgCreateDenom_Owner"

definition ApiMsgCreateDenom_GetDenom :: "ApiMsgCreateDenom option \<Rightarrow> gostring" where
  "ApiMsgCreateDenom_GetDenom = getter [] ApiMsgCreateDenom_Denom"

definition ApiMsgCreateDenom_GetDescription :: "ApiMsgCreateDenom option \<Rightarrow> gostring" where
  "ApiMsgCreateDenom_GetDescription = getter [] ApiMsgCreateDenom_Description"

definition ApiMsgCreateDenom_GetTicker :: "ApiMsgCreateDenom option \<Rightarrow> gostring" where
  "ApiMsgCreateDenom_GetTicker = getter [] ApiMsgCreateDenom_Ticker"

definition ApiMsgCreateDenom_GetPrecision :: "ApiMsgCreateDenom option \<Rightarrow> int32" where
  "ApiMsgCreateDenom_GetPrecision = getter 0 ApiMsgCreateDenom_Precision"

definition ApiMsgCreateDenom_GetUrl :: "ApiMsgCreateDenom option \<Rightarrow> gostring" where
  "ApiMsgCreateDenom_GetUrl = getter [] ApiMsgCreateDenom_Url"

definition ApiMsgCreateDenom_GetMaxSupply :: "ApiMsgCreateDenom option \<Rightarrow> int32" where
  "ApiMsgCreateDenom_GetMaxSupply = getter 0 ApiMsgCreateDenom_MaxSupply"

definition ApiMsgCreateDenom_GetSupply :: "ApiMsgCreateDenom option \<Rightarrow> int32" where
  "ApiMsgCreateDenom_GetSupply = getter 0 ApiMsgCreateDenom_Supply"

definition ApiMsgCreateDenom_GetCanChangeMaxSupply :: "ApiMsgCreateDenom option \<Rightarrow> bool" where
  "ApiMsgCreateDenom_GetCanChangeMaxSupply = getter False ApiMsgCreateDenom_CanChangeMaxSupply"

definition ApiMsgCreateDenom_wire :: "ApiMsgCreateDenom \<Rightarrow> wire_field list" where
  "ApiMsgCreateDenom_wire m =
     w_string 1 (ApiMsgCreateDenom_Owner m)
   @ w_string 2 (ApiMsgCreateDenom_Denom m)
   @ w_string 3 (ApiMsgCreateDenom_Description m)
   @ w_string 4 (ApiMsgCreateDenom_Ticker m)
   @ w_int32 5 (ApiMsgCreateDenom_Precision m)
   @ w_string 6 (ApiMsgCreateDenom_Url m)
   @ w_int32 7 (ApiMsgCreateDenom_MaxSupply m)
   @ w_int32 8 (ApiMsgCreateDenom_Supply m)
   @ w_bool 9 (ApiMsgCreateDenom_CanChangeMaxSupply m)"

lemma ApiMsgCreateDenom_contract:
  assumes R: "runtime_ok R"
  shows "pulsar_message R ApiMsgCreateDenom_fields ApiMsgCreateDenom_keep
      ApiMsgCreateDenom_unknownFields
    (\<lambda>m. m\<lparr>ApiMsgCreateDenom_unknownFields := []\<rparr>)
    ApiMsgCreateDenom_zero (\<lambda>m. True)
    (ApiMsgCreateDenom_fields_size R) (ApiMsgCreateDenom_writers R) ApiMsgCreateDenom_wire"
proof unfold_locales
  show "runtime_ok R" by (rule R)
  show "writes (put_seq (ApiMsgCreateDenom_writers R m)) (enc_fields (ApiMsgCreateDenom_wire m))"
      for m
  proof -
    have "list_all2 writes (ApiMsgCreateDenom_writers R m)
        [enc_fields (w_bool 9 (ApiMsgCreateDenom_CanChangeMaxSupply m)),
            enc_fields (w_int32 8 (ApiMsgCreateDenom_Supply m)),
            enc_fields (w_int32 7 (ApiMsgCreateDenom_MaxSupply m)),
            enc_fields (w_string 6 (ApiMsgCreateDenom_Url m)),
            enc_fields (w_int32 5 (ApiMsgCreateDenom_Precision m)),
            enc_fields (w_string 4 (ApiMsgCreateDenom_Ticker m)),
            enc_fields (w_string 3 (ApiMsgCreateDenom_Description m)),
            enc_fields (w_string 2 (ApiMsgCreateDenom_Denom m)),
            enc_fields (w_string 1 (ApiMsgCreateDenom_Owner m))]"
      by (simp add: ApiMsgCreateDenom_writers_def runtime_simps [OF R] writes_wire key_byte_def)
    from writes_seq [OF this] show ?thesis by (simp add: ApiMsgCreateDenom_wire_def)
  qed
  show "ApiMsgCreateDenom_fields_size R m = length (enc_fields (ApiMsgCreateDenom_wire m))" for m
    by (simp add: ApiMsgCreateDenom_fields_size_def ApiMsgCreateDenom_wire_def runtime_simps [OF R])
  show "list_all wf_field (ApiMsgCreateDenom_wire m)" for m
    by (simp add: ApiMsgCreateDenom_wire_def)
  show "ApiMsgCreateDenom_fields (of_nat (field_num x)) \<noteq> None"
      if "x \<in> set (ApiMsgCreateDenom_wire m)" for x m
    using that by (auto simp: ApiMsgCreateDenom_wire_def ApiMsgCreateDenom_fields_def ApiMsgCreateDenom_fields_6_def dest!:
        num_wire)
  show "rfold (apply_field ApiMsgCreateDenom_fields) (ApiMsgCreateDenom_wire m)
      ApiMsgCreateDenom_zero = Inr (m\<lparr>ApiMsgCreateDenom_unknownFields := []\<rparr>)" for m
    by (simp add: ApiMsgCreateDenom_wire_def ApiMsgCreateDenom_zero_def ApiMsgCreateDenom_fields_def ApiMsgCreateDenom_fields_6_def
        rfold_wire)
  show "ApiMsgCreateDenom_keep (ApiMsgCreateDenom_unknownFields m)
      (m\<lparr>ApiMsgCreateDenom_unknownFields := []\<rparr>) = m" for m
    by (simp add: ApiMsgCreateDenom_keep_def)
  show "ApiMsgCreateDenom_keep b (ApiMsgCreateDenom_keep a m) = ApiMsgCreateDenom_keep (a @ b) m"
      for a b m
    by (simp add: ApiMsgCreateDenom_keep_def)
  show "dec s y \<noteq> Inl Panic" if "ApiMsgCreateDenom_fields n = Some (name, FMessage dec)"
      and "go_slice s"
    for n name dec s y
    using that by (auto simp: ApiMsgCreateDenom_fields_def ApiMsgCreateDenom_fields_6_def split: if_splits)
qed

interpretation refl_MsgCreateDenom: pulsar_reflect "''medasdigital.tokenfactory.MsgCreateDenom''"
    "ApiMsgCreateDenom_refl"
  by (rule pulsar_reflectI) (simp add: ApiMsgCreateDenom_refl_def tbl_ok_simps)

text \<open>The gogoproto message with the same fields.\<close>

definition ApiMsgCreateDenom_gogo :: "ApiMsgCreateDenom \<Rightarrow> MsgCreateDenom" where
  "ApiMsgCreateDenom_gogo m = \<lparr>MsgCreateDenom_Owner = ApiMsgCreateDenom_Owner m,
       MsgCreateDenom_Denom = ApiMsgCreateDenom_Denom m,
       MsgCreateDenom_Description = ApiMsgCreateDenom_Description m,
       MsgCreateDenom_Ticker = ApiMsgCreateDenom_Ticker m,
       MsgCreateDenom_Precision = ApiMsgCreateDenom_Precision m,
       MsgCreateDenom_Url = ApiMsgCreateDenom_Url m,
       MsgCreateDenom_MaxSupply = ApiMsgCreateDenom_MaxSupply m,
       MsgCreateDenom_Supply = ApiMsgCreateDenom_Supply m,
       MsgCreateDenom_CanChangeMaxSupply = ApiMsgCreateDenom_CanChangeMaxSupply m\<rparr>"

lemma ApiMsgCreateDenom_agree:
  assumes R: "runtime_ok R"
  shows "pulsar_gogo R ApiMsgCreateDenom_fields ApiMsgCreateDenom_keep
      ApiMsgCreateDenom_unknownFields
    (\<lambda>m. m\<lparr>ApiMsgCreateDenom_unknownFields := []\<rparr>) ApiMsgCreateDenom_zero (\<lambda>m. True)
    (ApiMsgCreateDenom_fields_size R) (ApiMsgCreateDenom_writers R) ApiMsgCreateDenom_wire
    MsgCreateDenom_fields MsgCreateDenom_zero MsgCreateDenom_Size
        MsgCreateDenom_MarshalToSizedBuffer MsgCreateDenom_wire ApiMsgCreateDenom_gogo"
  using ApiMsgCreateDenom_contract [OF R] msg_create_denom_pb.pb_message_axioms
proof (rule pulsar_gogo.intro)
  show "pulsar_gogo_axioms ApiMsgCreateDenom_fields ApiMsgCreateDenom_keep ApiMsgCreateDenom_zero
      MsgCreateDenom_fields MsgCreateDenom_zero ApiMsgCreateDenom_gogo"
    by unfold_locales (simp_all add: fields_sim_def ApiMsgCreateDenom_fields_def ApiMsgCreateDenom_fields_6_def
        MsgCreateDenom_fields_def ApiMsgCreateDenom_keep_def ApiMsgCreateDenom_gogo_def
        ApiMsgCreateDenom_zero_def MsgCreateDenom_zero_def)
qed

interpretation api_MsgCreateDenom: pulsar_gogo gogo_runtime "''MsgCreateDenom''"
    ApiMsgCreateDenom_fields ApiMsgCreateDenom_keep ApiMsgCreateDenom_unknownFields
  "\<lambda>m. m\<lparr>ApiMsgCreateDenom_unknownFields := []\<rparr>" ApiMsgCreateDenom_zero "\<lambda>m. True"
  "ApiMsgCreateDenom_fields_size gogo_runtime" "ApiMsgCreateDenom_writers gogo_runtime"
      ApiMsgCreateDenom_wire
  tx_file MsgCreateDenom_fields MsgCreateDenom_zero MsgCreateDenom_Size
      MsgCreateDenom_MarshalToSizedBuffer MsgCreateDenom_wire ApiMsgCreateDenom_gogo
  by (rule ApiMsgCreateDenom_agree [OF gogo_runtime_ok])

section \<open>MsgCreateDenomResponse\<close>

text \<open>Its response.\<close>

record ApiMsgCreateDenomResponse =
  ApiMsgCreateDenomResponse_unknownFields :: bytes

definition ApiMsgCreateDenomResponse_zero :: "ApiMsgCreateDenomResponse" where
  "ApiMsgCreateDenomResponse_zero = \<lparr>ApiMsgCreateDenomResponse_unknownFields = []\<rparr>"

definition ApiMsgCreateDenomResponse_fields_size :: "proto_runtime \<Rightarrow> ApiMsgCreateDenomResponse
    \<Rightarrow> nat" where
  "ApiMsgCreateDenomResponse_fields_size R m = 0"

definition ApiMsgCreateDenomResponse_size :: "proto_runtime \<Rightarrow> ApiMsgCreateDenomResponse option
    \<Rightarrow> nat" where
  "ApiMsgCreateDenomResponse_size R = pulsar_size ApiMsgCreateDenomResponse_unknownFields
      (ApiMsgCreateDenomResponse_fields_size R)"

definition ApiMsgCreateDenomResponse_writers :: "proto_runtime \<Rightarrow> ApiMsgCreateDenomResponse
    \<Rightarrow> writer list" where
  "ApiMsgCreateDenomResponse_writers R m = []"

definition ApiMsgCreateDenomResponse_marshal :: "proto_runtime \<Rightarrow> bytes option
    \<Rightarrow> ApiMsgCreateDenomResponse option \<Rightarrow> pb_error + bytes option" where
  "ApiMsgCreateDenomResponse_marshal R = pulsar_marshal ApiMsgCreateDenomResponse_unknownFields
      (ApiMsgCreateDenomResponse_fields_size R) (ApiMsgCreateDenomResponse_writers R)"

definition ApiMsgCreateDenomResponse_keep :: "bytes \<Rightarrow> ApiMsgCreateDenomResponse
    \<Rightarrow> ApiMsgCreateDenomResponse" where
  "ApiMsgCreateDenomResponse_keep raw m = m\<lparr>ApiMsgCreateDenomResponse_unknownFields :=
      ApiMsgCreateDenomResponse_unknownFields m @ raw\<rparr>"

definition ApiMsgCreateDenomResponse_fields :: "ApiMsgCreateDenomResponse fields" where
  "ApiMsgCreateDenomResponse_fields n = None"

definition ApiMsgCreateDenomResponse_unmarshal :: "proto_runtime \<Rightarrow> bool \<Rightarrow> bytes
    \<Rightarrow> ApiMsgCreateDenomResponse option \<Rightarrow> (pb_error + ApiMsgCreateDenomResponse option) option" where
  "ApiMsgCreateDenomResponse_unmarshal R DiscardUnknown =
     pulsar_unmarshal R DiscardUnknown ''MsgCreateDenomResponse'' ApiMsgCreateDenomResponse_fields
         ApiMsgCreateDenomResponse_keep"

definition ApiMsgCreateDenomResponse_refl :: "(ApiMsgCreateDenomResponse, tf_ref) rtable" where
  "ApiMsgCreateDenomResponse_refl = []"

definition fastReflection_MsgCreateDenomResponse_Range :: "ApiMsgCreateDenomResponse option
    \<Rightarrow> (string \<Rightarrow> tf_ref pvalue \<Rightarrow> 's \<Rightarrow> bool \<times> 's) \<Rightarrow> 's \<Rightarrow> refl_error + 's" where
  "fastReflection_MsgCreateDenomResponse_Range
      = refl_Range ''medasdigital.tokenfactory.MsgCreateDenomResponse''
      ApiMsgCreateDenomResponse_refl"

definition fastReflection_MsgCreateDenomResponse_Has :: "ApiMsgCreateDenomResponse option
    \<Rightarrow> field_descriptor \<Rightarrow> refl_error + bool" where
  "fastReflection_MsgCreateDenomResponse_Has
      = refl_Has ''medasdigital.tokenfactory.MsgCreateDenomResponse''
      ApiMsgCreateDenomResponse_refl"

definition fastReflection_MsgCreateDenomResponse_Clear :: "ApiMsgCreateDenomResponse option
    \<Rightarrow> field_descriptor \<Rightarrow> refl_error + ApiMsgCreateDenomResponse option" where
  "fastReflection_MsgCreateDenomResponse_Clear
      = refl_Clear ''medasdigital.tokenfactory.MsgCreateDenomResponse''
      ApiMsgCreateDenomResponse_refl"

definition fastReflection_MsgCreateDenomResponse_Get :: "ApiMsgCreateDenomResponse option
    \<Rightarrow> field_descriptor \<Rightarrow> refl_error + tf_ref pvalue" where
  "fastReflection_MsgCreateDenomResponse_Get
      = refl_Get ''medasdigital.tokenfactory.MsgCreateDenomResponse''
      ApiMsgCreateDenomResponse_refl"

definition fastReflection_MsgCreateDenomResponse_Set :: "ApiMsgCreateDenomResponse option
    \<Rightarrow> field_descriptor \<Rightarrow> tf_ref pvalue \<Rightarrow> refl_error + ApiMsgCreateDenomResponse option" where
  "fastReflection_MsgCreateDenomResponse_Set
      = refl_Set ''medasdigital.tokenfactory.MsgCreateDenomResponse''
      ApiMsgCreateDenomResponse_refl"

definition fastReflection_MsgCreateDenomResponse_Mutable :: "ApiMsgCreateDenomResponse option
    \<Rightarrow> field_descriptor \<Rightarrow> refl_error + ApiMsgCreateDenomResponse option \<times> tf_ref pvalue" where
  "fastReflection_MsgCreateDenomResponse_Mutable
      = refl_Mutable ''medasdigital.tokenfactory.MsgCreateDenomResponse''
      ApiMsgCreateDenomResponse_refl"

definition fastReflection_MsgCreateDenomResponse_NewField :: "field_descriptor \<Rightarrow> refl_error
    + tf_ref pvalue" where
  "fastReflection_MsgCreateDenomResponse_NewField
      = refl_NewField ''medasdigital.tokenfactory.MsgCreateDenomResponse''
      ApiMsgCreateDenomResponse_refl"

definition fastReflection_MsgCreateDenomResponse_WhichOneof :: "string \<Rightarrow> refl_error
    + field_descriptor" where
  "fastReflection_MsgCreateDenomResponse_WhichOneof
      = refl_WhichOneof ''medasdigital.tokenfactory.MsgCreateDenomResponse''"

definition fastReflection_MsgCreateDenomResponse_GetUnknown :: "ApiMsgCreateDenomResponse option
    \<Rightarrow> refl_error + bytes" where
  "fastReflection_MsgCreateDenomResponse_GetUnknown
      = refl_GetUnknown ApiMsgCreateDenomResponse_unknownFields"

definition fastReflection_MsgCreateDenomResponse_SetUnknown :: "ApiMsgCreateDenomResponse option
    \<Rightarrow> bytes \<Rightarrow> refl_error + ApiMsgCreateDenomResponse option" where
  "fastReflection_MsgCreateDenomResponse_SetUnknown
      = refl_SetUnknown (\<lambda>raw m. m\<lparr>ApiMsgCreateDenomResponse_unknownFields := raw\<rparr>)"

definition fastReflection_MsgCreateDenomResponse_IsValid :: "ApiMsgCreateDenomResponse option
    \<Rightarrow> bool" where
  "fastReflection_MsgCreateDenomResponse_IsValid = refl_IsValid"

definition ApiMsgCreateDenomResponse_wire :: "ApiMsgCreateDenomResponse \<Rightarrow> wire_field list" where
  "ApiMsgCreateDenomResponse_wire m = []"

lemma ApiMsgCreateDenomResponse_contract:
  assumes R: "runtime_ok R"
  shows "pulsar_message R ApiMsgCreateDenomResponse_fields ApiMsgCreateDenomResponse_keep
      ApiMsgCreateDenomResponse_unknownFields
    (\<lambda>m. m\<lparr>ApiMsgCreateDenomResponse_unknownFields := []\<rparr>)
    ApiMsgCreateDenomResponse_zero (\<lambda>m. True)
    (ApiMsgCreateDenomResponse_fields_size R) (ApiMsgCreateDenomResponse_writers R)
        ApiMsgCreateDenomResponse_wire"
proof unfold_locales
  show "runtime_ok R" by (rule R)
  show "writes (put_seq (ApiMsgCreateDenomResponse_writers R m)) (enc_fields
      (ApiMsgCreateDenomResponse_wire m))" for m
    by (simp add: ApiMsgCreateDenomResponse_writers_def ApiMsgCreateDenomResponse_wire_def
        put_seq_nil writes_skip)
  show "ApiMsgCreateDenomResponse_fields_size R m
      = length (enc_fields (ApiMsgCreateDenomResponse_wire m))" for m
    by (simp add: ApiMsgCreateDenomResponse_fields_size_def ApiMsgCreateDenomResponse_wire_def
        runtime_simps [OF R])
  show "list_all wf_field (ApiMsgCreateDenomResponse_wire m)" for m
    by (simp add: ApiMsgCreateDenomResponse_wire_def)
  show "ApiMsgCreateDenomResponse_fields (of_nat (field_num x)) \<noteq> None"
      if "x \<in> set (ApiMsgCreateDenomResponse_wire m)" for x m
    using that by (auto simp: ApiMsgCreateDenomResponse_wire_def
        ApiMsgCreateDenomResponse_fields_def dest!: num_wire)
  show "rfold (apply_field ApiMsgCreateDenomResponse_fields) (ApiMsgCreateDenomResponse_wire m)
      ApiMsgCreateDenomResponse_zero = Inr (m\<lparr>ApiMsgCreateDenomResponse_unknownFields := []\<rparr>)" for m
    by (simp add: ApiMsgCreateDenomResponse_wire_def ApiMsgCreateDenomResponse_zero_def)
  show "ApiMsgCreateDenomResponse_keep (ApiMsgCreateDenomResponse_unknownFields m)
      (m\<lparr>ApiMsgCreateDenomResponse_unknownFields := []\<rparr>) = m" for m
    by (simp add: ApiMsgCreateDenomResponse_keep_def)
  show "ApiMsgCreateDenomResponse_keep b (ApiMsgCreateDenomResponse_keep a m)
      = ApiMsgCreateDenomResponse_keep (a @ b) m" for a b m
    by (simp add: ApiMsgCreateDenomResponse_keep_def)
  show "dec s y \<noteq> Inl Panic" if "ApiMsgCreateDenomResponse_fields n = Some (name, FMessage dec)"
      and "go_slice s"
    for n name dec s y
    using that by (auto simp: ApiMsgCreateDenomResponse_fields_def split: if_splits)
qed

text \<open>The gogoproto message with the same fields.\<close>

definition ApiMsgCreateDenomResponse_gogo :: "ApiMsgCreateDenomResponse \<Rightarrow> MsgCreateDenomResponse"
    where
  "ApiMsgCreateDenomResponse_gogo m = MsgCreateDenomResponse"

lemma ApiMsgCreateDenomResponse_agree:
  assumes R: "runtime_ok R"
  shows "pulsar_gogo R ApiMsgCreateDenomResponse_fields ApiMsgCreateDenomResponse_keep
      ApiMsgCreateDenomResponse_unknownFields
    (\<lambda>m. m\<lparr>ApiMsgCreateDenomResponse_unknownFields := []\<rparr>) ApiMsgCreateDenomResponse_zero (\<lambda>m. True)
    (ApiMsgCreateDenomResponse_fields_size R) (ApiMsgCreateDenomResponse_writers R)
        ApiMsgCreateDenomResponse_wire
    MsgCreateDenomResponse_fields MsgCreateDenomResponse MsgCreateDenomResponse_Size
        MsgCreateDenomResponse_MarshalToSizedBuffer MsgCreateDenomResponse_wire
        ApiMsgCreateDenomResponse_gogo"
  using ApiMsgCreateDenomResponse_contract [OF R] msg_create_denom_response_pb.pb_message_axioms
proof (rule pulsar_gogo.intro)
  show "pulsar_gogo_axioms ApiMsgCreateDenomResponse_fields ApiMsgCreateDenomResponse_keep
      ApiMsgCreateDenomResponse_zero MsgCreateDenomResponse_fields MsgCreateDenomResponse
      ApiMsgCreateDenomResponse_gogo"
    by unfold_locales (simp_all add: fields_sim_def ApiMsgCreateDenomResponse_fields_def
        MsgCreateDenomResponse_fields_def ApiMsgCreateDenomResponse_keep_def
        ApiMsgCreateDenomResponse_gogo_def
        ApiMsgCreateDenomResponse_zero_def )
qed

interpretation api_MsgCreateDenomResponse: pulsar_gogo gogo_runtime "''MsgCreateDenomResponse''"
    ApiMsgCreateDenomResponse_fields ApiMsgCreateDenomResponse_keep
    ApiMsgCreateDenomResponse_unknownFields
  "\<lambda>m. m\<lparr>ApiMsgCreateDenomResponse_unknownFields := []\<rparr>" ApiMsgCreateDenomResponse_zero "\<lambda>m. True"
  "ApiMsgCreateDenomResponse_fields_size gogo_runtime" "ApiMsgCreateDenomResponse_writers
      gogo_runtime" ApiMsgCreateDenomResponse_wire
  tx_file MsgCreateDenomResponse_fields MsgCreateDenomResponse MsgCreateDenomResponse_Size
      MsgCreateDenomResponse_MarshalToSizedBuffer MsgCreateDenomResponse_wire
      ApiMsgCreateDenomResponse_gogo
  by (rule ApiMsgCreateDenomResponse_agree [OF gogo_runtime_ok])

section \<open>MsgUpdateDenom\<close>

text \<open>The request of \<open>Msg/UpdateDenom\<close>.\<close>

record ApiMsgUpdateDenom =
  ApiMsgUpdateDenom_Owner :: gostring
  ApiMsgUpdateDenom_Denom :: gostring
  ApiMsgUpdateDenom_Description :: gostring
  ApiMsgUpdateDenom_Ticker :: gostring
  ApiMsgUpdateDenom_Precision :: int32
  ApiMsgUpdateDenom_Url :: gostring
  ApiMsgUpdateDenom_MaxSupply :: int32
  ApiMsgUpdateDenom_Supply :: int32
  ApiMsgUpdateDenom_CanChangeMaxSupply :: bool
  ApiMsgUpdateDenom_unknownFields :: bytes

definition ApiMsgUpdateDenom_zero :: "ApiMsgUpdateDenom" where
  "ApiMsgUpdateDenom_zero = \<lparr>ApiMsgUpdateDenom_Owner = [], ApiMsgUpdateDenom_Denom = [],
      ApiMsgUpdateDenom_Description = [], ApiMsgUpdateDenom_Ticker = [], ApiMsgUpdateDenom_Precision
      = 0, ApiMsgUpdateDenom_Url = [], ApiMsgUpdateDenom_MaxSupply = 0, ApiMsgUpdateDenom_Supply
      = 0, ApiMsgUpdateDenom_CanChangeMaxSupply = False, ApiMsgUpdateDenom_unknownFields = []\<rparr>"

definition ApiMsgUpdateDenom_fields_size :: "proto_runtime \<Rightarrow> ApiMsgUpdateDenom \<Rightarrow> nat" where
  "ApiMsgUpdateDenom_fields_size R m =
     api_size_string R (ApiMsgUpdateDenom_Owner m)
   + api_size_string R (ApiMsgUpdateDenom_Denom m)
   + api_size_string R (ApiMsgUpdateDenom_Description m)
   + api_size_string R (ApiMsgUpdateDenom_Ticker m)
   + api_size_int32 R (ApiMsgUpdateDenom_Precision m)
   + api_size_string R (ApiMsgUpdateDenom_Url m)
   + api_size_int32 R (ApiMsgUpdateDenom_MaxSupply m)
   + api_size_int32 R (ApiMsgUpdateDenom_Supply m)
   + size_bool (ApiMsgUpdateDenom_CanChangeMaxSupply m)"

definition ApiMsgUpdateDenom_size :: "proto_runtime \<Rightarrow> ApiMsgUpdateDenom option \<Rightarrow> nat" where
  "ApiMsgUpdateDenom_size R = pulsar_size ApiMsgUpdateDenom_unknownFields
      (ApiMsgUpdateDenom_fields_size R)"

definition ApiMsgUpdateDenom_writers :: "proto_runtime \<Rightarrow> ApiMsgUpdateDenom \<Rightarrow> writer list" where
  "ApiMsgUpdateDenom_writers R m =
     [put_bool 0x48 (ApiMsgUpdateDenom_CanChangeMaxSupply m),
      api_int32 R 0x40 (ApiMsgUpdateDenom_Supply m),
      api_int32 R 0x38 (ApiMsgUpdateDenom_MaxSupply m),
      api_string R 0x32 (ApiMsgUpdateDenom_Url m),
      api_int32 R 0x28 (ApiMsgUpdateDenom_Precision m),
      api_string R 0x22 (ApiMsgUpdateDenom_Ticker m),
      api_string R 0x1a (ApiMsgUpdateDenom_Description m),
      api_string R 0x12 (ApiMsgUpdateDenom_Denom m),
      api_string R 0x0a (ApiMsgUpdateDenom_Owner m)]"

definition ApiMsgUpdateDenom_marshal :: "proto_runtime \<Rightarrow> bytes option \<Rightarrow> ApiMsgUpdateDenom option
    \<Rightarrow> pb_error + bytes option" where
  "ApiMsgUpdateDenom_marshal R = pulsar_marshal ApiMsgUpdateDenom_unknownFields
      (ApiMsgUpdateDenom_fields_size R) (ApiMsgUpdateDenom_writers R)"

definition ApiMsgUpdateDenom_keep :: "bytes \<Rightarrow> ApiMsgUpdateDenom \<Rightarrow> ApiMsgUpdateDenom" where
  "ApiMsgUpdateDenom_keep raw m = m\<lparr>ApiMsgUpdateDenom_unknownFields :=
      ApiMsgUpdateDenom_unknownFields m @ raw\<rparr>"

text \<open>The cases of the switch from field 6 on, and those before them.\<close>

definition ApiMsgUpdateDenom_fields_6 :: "ApiMsgUpdateDenom fields" where
  "ApiMsgUpdateDenom_fields_6 n =
     (if n = 6 then Some (''Url'', FString (\<lambda>s m. m\<lparr>ApiMsgUpdateDenom_Url := s\<rparr>))
      else if n = 7 then Some (''MaxSupply'', FInt32 (\<lambda>v m. m\<lparr>ApiMsgUpdateDenom_MaxSupply := v\<rparr>))
      else if n = 8 then Some (''Supply'', FInt32 (\<lambda>v m. m\<lparr>ApiMsgUpdateDenom_Supply := v\<rparr>))
      else if n = 9 then Some (''CanChangeMaxSupply'',
          FBool (\<lambda>b m. m\<lparr>ApiMsgUpdateDenom_CanChangeMaxSupply := b\<rparr>))
      else None)"

definition ApiMsgUpdateDenom_fields :: "ApiMsgUpdateDenom fields" where
  "ApiMsgUpdateDenom_fields n =
     (if n = 1 then Some (''Owner'', FString (\<lambda>s m. m\<lparr>ApiMsgUpdateDenom_Owner := s\<rparr>))
      else if n = 2 then Some (''Denom'', FString (\<lambda>s m. m\<lparr>ApiMsgUpdateDenom_Denom := s\<rparr>))
      else if n = 3 then Some (''Description'',
          FString (\<lambda>s m. m\<lparr>ApiMsgUpdateDenom_Description := s\<rparr>))
      else if n = 4 then Some (''Ticker'', FString (\<lambda>s m. m\<lparr>ApiMsgUpdateDenom_Ticker := s\<rparr>))
      else if n = 5 then Some (''Precision'', FInt32 (\<lambda>v m. m\<lparr>ApiMsgUpdateDenom_Precision := v\<rparr>))
      else ApiMsgUpdateDenom_fields_6 n)"

definition ApiMsgUpdateDenom_unmarshal :: "proto_runtime \<Rightarrow> bool \<Rightarrow> bytes \<Rightarrow> ApiMsgUpdateDenom option
    \<Rightarrow> (pb_error + ApiMsgUpdateDenom option) option" where
  "ApiMsgUpdateDenom_unmarshal R DiscardUnknown =
     pulsar_unmarshal R DiscardUnknown ''MsgUpdateDenom'' ApiMsgUpdateDenom_fields
         ApiMsgUpdateDenom_keep"

definition ApiMsgUpdateDenom_refl :: "(ApiMsgUpdateDenom, tf_ref) rtable" where
  "ApiMsgUpdateDenom_refl =
     [(''owner'', RString ApiMsgUpdateDenom_Owner (\<lambda>s m. m\<lparr>ApiMsgUpdateDenom_Owner := s\<rparr>)),
      (''denom'', RString ApiMsgUpdateDenom_Denom (\<lambda>s m. m\<lparr>ApiMsgUpdateDenom_Denom := s\<rparr>)),
      (''description'', RString ApiMsgUpdateDenom_Description (\<lambda>s m. m\<lparr>ApiMsgUpdateDenom_Description
          := s\<rparr>)),
      (''ticker'', RString ApiMsgUpdateDenom_Ticker (\<lambda>s m. m\<lparr>ApiMsgUpdateDenom_Ticker := s\<rparr>)),
      (''precision'', RInt32 ApiMsgUpdateDenom_Precision (\<lambda>v m. m\<lparr>ApiMsgUpdateDenom_Precision :=
          v\<rparr>)),
      (''url'', RString ApiMsgUpdateDenom_Url (\<lambda>s m. m\<lparr>ApiMsgUpdateDenom_Url := s\<rparr>)),
      (''maxSupply'', RInt32 ApiMsgUpdateDenom_MaxSupply (\<lambda>v m. m\<lparr>ApiMsgUpdateDenom_MaxSupply :=
          v\<rparr>)),
      (''supply'', RInt32 ApiMsgUpdateDenom_Supply (\<lambda>v m. m\<lparr>ApiMsgUpdateDenom_Supply := v\<rparr>)),
      (''canChangeMaxSupply'', RBool ApiMsgUpdateDenom_CanChangeMaxSupply (\<lambda>b m.
          m\<lparr>ApiMsgUpdateDenom_CanChangeMaxSupply := b\<rparr>))]"

definition fastReflection_MsgUpdateDenom_Range :: "ApiMsgUpdateDenom option \<Rightarrow> (string
    \<Rightarrow> tf_ref pvalue \<Rightarrow> 's \<Rightarrow> bool \<times> 's) \<Rightarrow> 's \<Rightarrow> refl_error + 's" where
  "fastReflection_MsgUpdateDenom_Range = refl_Range ''medasdigital.tokenfactory.MsgUpdateDenom''
      ApiMsgUpdateDenom_refl"

definition fastReflection_MsgUpdateDenom_Has :: "ApiMsgUpdateDenom option \<Rightarrow> field_descriptor
    \<Rightarrow> refl_error + bool" where
  "fastReflection_MsgUpdateDenom_Has = refl_Has ''medasdigital.tokenfactory.MsgUpdateDenom''
      ApiMsgUpdateDenom_refl"

definition fastReflection_MsgUpdateDenom_Clear :: "ApiMsgUpdateDenom option \<Rightarrow> field_descriptor
    \<Rightarrow> refl_error + ApiMsgUpdateDenom option" where
  "fastReflection_MsgUpdateDenom_Clear = refl_Clear ''medasdigital.tokenfactory.MsgUpdateDenom''
      ApiMsgUpdateDenom_refl"

definition fastReflection_MsgUpdateDenom_Get :: "ApiMsgUpdateDenom option \<Rightarrow> field_descriptor
    \<Rightarrow> refl_error + tf_ref pvalue" where
  "fastReflection_MsgUpdateDenom_Get = refl_Get ''medasdigital.tokenfactory.MsgUpdateDenom''
      ApiMsgUpdateDenom_refl"

definition fastReflection_MsgUpdateDenom_Set :: "ApiMsgUpdateDenom option \<Rightarrow> field_descriptor
    \<Rightarrow> tf_ref pvalue \<Rightarrow> refl_error + ApiMsgUpdateDenom option" where
  "fastReflection_MsgUpdateDenom_Set = refl_Set ''medasdigital.tokenfactory.MsgUpdateDenom''
      ApiMsgUpdateDenom_refl"

definition fastReflection_MsgUpdateDenom_Mutable :: "ApiMsgUpdateDenom option \<Rightarrow> field_descriptor
    \<Rightarrow> refl_error + ApiMsgUpdateDenom option \<times> tf_ref pvalue" where
  "fastReflection_MsgUpdateDenom_Mutable = refl_Mutable ''medasdigital.tokenfactory.MsgUpdateDenom''
      ApiMsgUpdateDenom_refl"

definition fastReflection_MsgUpdateDenom_NewField :: "field_descriptor \<Rightarrow> refl_error + tf_ref pvalue"
    where
  "fastReflection_MsgUpdateDenom_NewField
      = refl_NewField ''medasdigital.tokenfactory.MsgUpdateDenom'' ApiMsgUpdateDenom_refl"

definition fastReflection_MsgUpdateDenom_WhichOneof :: "string \<Rightarrow> refl_error + field_descriptor"
    where
  "fastReflection_MsgUpdateDenom_WhichOneof
      = refl_WhichOneof ''medasdigital.tokenfactory.MsgUpdateDenom''"

definition fastReflection_MsgUpdateDenom_GetUnknown :: "ApiMsgUpdateDenom option \<Rightarrow> refl_error
    + bytes" where
  "fastReflection_MsgUpdateDenom_GetUnknown = refl_GetUnknown ApiMsgUpdateDenom_unknownFields"

definition fastReflection_MsgUpdateDenom_SetUnknown :: "ApiMsgUpdateDenom option \<Rightarrow> bytes
    \<Rightarrow> refl_error + ApiMsgUpdateDenom option" where
  "fastReflection_MsgUpdateDenom_SetUnknown
      = refl_SetUnknown (\<lambda>raw m. m\<lparr>ApiMsgUpdateDenom_unknownFields := raw\<rparr>)"

definition fastReflection_MsgUpdateDenom_IsValid :: "ApiMsgUpdateDenom option \<Rightarrow> bool" where
  "fastReflection_MsgUpdateDenom_IsValid = refl_IsValid"

definition ApiMsgUpdateDenom_GetOwner :: "ApiMsgUpdateDenom option \<Rightarrow> gostring" where
  "ApiMsgUpdateDenom_GetOwner = getter [] ApiMsgUpdateDenom_Owner"

definition ApiMsgUpdateDenom_GetDenom :: "ApiMsgUpdateDenom option \<Rightarrow> gostring" where
  "ApiMsgUpdateDenom_GetDenom = getter [] ApiMsgUpdateDenom_Denom"

definition ApiMsgUpdateDenom_GetDescription :: "ApiMsgUpdateDenom option \<Rightarrow> gostring" where
  "ApiMsgUpdateDenom_GetDescription = getter [] ApiMsgUpdateDenom_Description"

definition ApiMsgUpdateDenom_GetTicker :: "ApiMsgUpdateDenom option \<Rightarrow> gostring" where
  "ApiMsgUpdateDenom_GetTicker = getter [] ApiMsgUpdateDenom_Ticker"

definition ApiMsgUpdateDenom_GetPrecision :: "ApiMsgUpdateDenom option \<Rightarrow> int32" where
  "ApiMsgUpdateDenom_GetPrecision = getter 0 ApiMsgUpdateDenom_Precision"

definition ApiMsgUpdateDenom_GetUrl :: "ApiMsgUpdateDenom option \<Rightarrow> gostring" where
  "ApiMsgUpdateDenom_GetUrl = getter [] ApiMsgUpdateDenom_Url"

definition ApiMsgUpdateDenom_GetMaxSupply :: "ApiMsgUpdateDenom option \<Rightarrow> int32" where
  "ApiMsgUpdateDenom_GetMaxSupply = getter 0 ApiMsgUpdateDenom_MaxSupply"

definition ApiMsgUpdateDenom_GetSupply :: "ApiMsgUpdateDenom option \<Rightarrow> int32" where
  "ApiMsgUpdateDenom_GetSupply = getter 0 ApiMsgUpdateDenom_Supply"

definition ApiMsgUpdateDenom_GetCanChangeMaxSupply :: "ApiMsgUpdateDenom option \<Rightarrow> bool" where
  "ApiMsgUpdateDenom_GetCanChangeMaxSupply = getter False ApiMsgUpdateDenom_CanChangeMaxSupply"

definition ApiMsgUpdateDenom_wire :: "ApiMsgUpdateDenom \<Rightarrow> wire_field list" where
  "ApiMsgUpdateDenom_wire m =
     w_string 1 (ApiMsgUpdateDenom_Owner m)
   @ w_string 2 (ApiMsgUpdateDenom_Denom m)
   @ w_string 3 (ApiMsgUpdateDenom_Description m)
   @ w_string 4 (ApiMsgUpdateDenom_Ticker m)
   @ w_int32 5 (ApiMsgUpdateDenom_Precision m)
   @ w_string 6 (ApiMsgUpdateDenom_Url m)
   @ w_int32 7 (ApiMsgUpdateDenom_MaxSupply m)
   @ w_int32 8 (ApiMsgUpdateDenom_Supply m)
   @ w_bool 9 (ApiMsgUpdateDenom_CanChangeMaxSupply m)"

lemma ApiMsgUpdateDenom_contract:
  assumes R: "runtime_ok R"
  shows "pulsar_message R ApiMsgUpdateDenom_fields ApiMsgUpdateDenom_keep
      ApiMsgUpdateDenom_unknownFields
    (\<lambda>m. m\<lparr>ApiMsgUpdateDenom_unknownFields := []\<rparr>)
    ApiMsgUpdateDenom_zero (\<lambda>m. True)
    (ApiMsgUpdateDenom_fields_size R) (ApiMsgUpdateDenom_writers R) ApiMsgUpdateDenom_wire"
proof unfold_locales
  show "runtime_ok R" by (rule R)
  show "writes (put_seq (ApiMsgUpdateDenom_writers R m)) (enc_fields (ApiMsgUpdateDenom_wire m))"
      for m
  proof -
    have "list_all2 writes (ApiMsgUpdateDenom_writers R m)
        [enc_fields (w_bool 9 (ApiMsgUpdateDenom_CanChangeMaxSupply m)),
            enc_fields (w_int32 8 (ApiMsgUpdateDenom_Supply m)),
            enc_fields (w_int32 7 (ApiMsgUpdateDenom_MaxSupply m)),
            enc_fields (w_string 6 (ApiMsgUpdateDenom_Url m)),
            enc_fields (w_int32 5 (ApiMsgUpdateDenom_Precision m)),
            enc_fields (w_string 4 (ApiMsgUpdateDenom_Ticker m)),
            enc_fields (w_string 3 (ApiMsgUpdateDenom_Description m)),
            enc_fields (w_string 2 (ApiMsgUpdateDenom_Denom m)),
            enc_fields (w_string 1 (ApiMsgUpdateDenom_Owner m))]"
      by (simp add: ApiMsgUpdateDenom_writers_def runtime_simps [OF R] writes_wire key_byte_def)
    from writes_seq [OF this] show ?thesis by (simp add: ApiMsgUpdateDenom_wire_def)
  qed
  show "ApiMsgUpdateDenom_fields_size R m = length (enc_fields (ApiMsgUpdateDenom_wire m))" for m
    by (simp add: ApiMsgUpdateDenom_fields_size_def ApiMsgUpdateDenom_wire_def runtime_simps [OF R])
  show "list_all wf_field (ApiMsgUpdateDenom_wire m)" for m
    by (simp add: ApiMsgUpdateDenom_wire_def)
  show "ApiMsgUpdateDenom_fields (of_nat (field_num x)) \<noteq> None"
      if "x \<in> set (ApiMsgUpdateDenom_wire m)" for x m
    using that by (auto simp: ApiMsgUpdateDenom_wire_def ApiMsgUpdateDenom_fields_def ApiMsgUpdateDenom_fields_6_def dest!:
        num_wire)
  show "rfold (apply_field ApiMsgUpdateDenom_fields) (ApiMsgUpdateDenom_wire m)
      ApiMsgUpdateDenom_zero = Inr (m\<lparr>ApiMsgUpdateDenom_unknownFields := []\<rparr>)" for m
    by (simp add: ApiMsgUpdateDenom_wire_def ApiMsgUpdateDenom_zero_def ApiMsgUpdateDenom_fields_def ApiMsgUpdateDenom_fields_6_def
        rfold_wire)
  show "ApiMsgUpdateDenom_keep (ApiMsgUpdateDenom_unknownFields m)
      (m\<lparr>ApiMsgUpdateDenom_unknownFields := []\<rparr>) = m" for m
    by (simp add: ApiMsgUpdateDenom_keep_def)
  show "ApiMsgUpdateDenom_keep b (ApiMsgUpdateDenom_keep a m) = ApiMsgUpdateDenom_keep (a @ b) m"
      for a b m
    by (simp add: ApiMsgUpdateDenom_keep_def)
  show "dec s y \<noteq> Inl Panic" if "ApiMsgUpdateDenom_fields n = Some (name, FMessage dec)"
      and "go_slice s"
    for n name dec s y
    using that by (auto simp: ApiMsgUpdateDenom_fields_def ApiMsgUpdateDenom_fields_6_def split: if_splits)
qed

interpretation refl_MsgUpdateDenom: pulsar_reflect "''medasdigital.tokenfactory.MsgUpdateDenom''"
    "ApiMsgUpdateDenom_refl"
  by (rule pulsar_reflectI) (simp add: ApiMsgUpdateDenom_refl_def tbl_ok_simps)

text \<open>The gogoproto message with the same fields.\<close>

definition ApiMsgUpdateDenom_gogo :: "ApiMsgUpdateDenom \<Rightarrow> MsgUpdateDenom" where
  "ApiMsgUpdateDenom_gogo m = \<lparr>MsgUpdateDenom_Owner = ApiMsgUpdateDenom_Owner m,
       MsgUpdateDenom_Denom = ApiMsgUpdateDenom_Denom m,
       MsgUpdateDenom_Description = ApiMsgUpdateDenom_Description m,
       MsgUpdateDenom_Ticker = ApiMsgUpdateDenom_Ticker m,
       MsgUpdateDenom_Precision = ApiMsgUpdateDenom_Precision m,
       MsgUpdateDenom_Url = ApiMsgUpdateDenom_Url m,
       MsgUpdateDenom_MaxSupply = ApiMsgUpdateDenom_MaxSupply m,
       MsgUpdateDenom_Supply = ApiMsgUpdateDenom_Supply m,
       MsgUpdateDenom_CanChangeMaxSupply = ApiMsgUpdateDenom_CanChangeMaxSupply m\<rparr>"

lemma ApiMsgUpdateDenom_agree:
  assumes R: "runtime_ok R"
  shows "pulsar_gogo R ApiMsgUpdateDenom_fields ApiMsgUpdateDenom_keep
      ApiMsgUpdateDenom_unknownFields
    (\<lambda>m. m\<lparr>ApiMsgUpdateDenom_unknownFields := []\<rparr>) ApiMsgUpdateDenom_zero (\<lambda>m. True)
    (ApiMsgUpdateDenom_fields_size R) (ApiMsgUpdateDenom_writers R) ApiMsgUpdateDenom_wire
    MsgUpdateDenom_fields MsgUpdateDenom_zero MsgUpdateDenom_Size
        MsgUpdateDenom_MarshalToSizedBuffer MsgUpdateDenom_wire ApiMsgUpdateDenom_gogo"
  using ApiMsgUpdateDenom_contract [OF R] msg_update_denom_pb.pb_message_axioms
proof (rule pulsar_gogo.intro)
  show "pulsar_gogo_axioms ApiMsgUpdateDenom_fields ApiMsgUpdateDenom_keep ApiMsgUpdateDenom_zero
      MsgUpdateDenom_fields MsgUpdateDenom_zero ApiMsgUpdateDenom_gogo"
    by unfold_locales (simp_all add: fields_sim_def ApiMsgUpdateDenom_fields_def ApiMsgUpdateDenom_fields_6_def
        MsgUpdateDenom_fields_def ApiMsgUpdateDenom_keep_def ApiMsgUpdateDenom_gogo_def
        ApiMsgUpdateDenom_zero_def MsgUpdateDenom_zero_def)
qed

interpretation api_MsgUpdateDenom: pulsar_gogo gogo_runtime "''MsgUpdateDenom''"
    ApiMsgUpdateDenom_fields ApiMsgUpdateDenom_keep ApiMsgUpdateDenom_unknownFields
  "\<lambda>m. m\<lparr>ApiMsgUpdateDenom_unknownFields := []\<rparr>" ApiMsgUpdateDenom_zero "\<lambda>m. True"
  "ApiMsgUpdateDenom_fields_size gogo_runtime" "ApiMsgUpdateDenom_writers gogo_runtime"
      ApiMsgUpdateDenom_wire
  tx_file MsgUpdateDenom_fields MsgUpdateDenom_zero MsgUpdateDenom_Size
      MsgUpdateDenom_MarshalToSizedBuffer MsgUpdateDenom_wire ApiMsgUpdateDenom_gogo
  by (rule ApiMsgUpdateDenom_agree [OF gogo_runtime_ok])

section \<open>MsgUpdateDenomResponse\<close>

text \<open>Its response.\<close>

record ApiMsgUpdateDenomResponse =
  ApiMsgUpdateDenomResponse_unknownFields :: bytes

definition ApiMsgUpdateDenomResponse_zero :: "ApiMsgUpdateDenomResponse" where
  "ApiMsgUpdateDenomResponse_zero = \<lparr>ApiMsgUpdateDenomResponse_unknownFields = []\<rparr>"

definition ApiMsgUpdateDenomResponse_fields_size :: "proto_runtime \<Rightarrow> ApiMsgUpdateDenomResponse
    \<Rightarrow> nat" where
  "ApiMsgUpdateDenomResponse_fields_size R m = 0"

definition ApiMsgUpdateDenomResponse_size :: "proto_runtime \<Rightarrow> ApiMsgUpdateDenomResponse option
    \<Rightarrow> nat" where
  "ApiMsgUpdateDenomResponse_size R = pulsar_size ApiMsgUpdateDenomResponse_unknownFields
      (ApiMsgUpdateDenomResponse_fields_size R)"

definition ApiMsgUpdateDenomResponse_writers :: "proto_runtime \<Rightarrow> ApiMsgUpdateDenomResponse
    \<Rightarrow> writer list" where
  "ApiMsgUpdateDenomResponse_writers R m = []"

definition ApiMsgUpdateDenomResponse_marshal :: "proto_runtime \<Rightarrow> bytes option
    \<Rightarrow> ApiMsgUpdateDenomResponse option \<Rightarrow> pb_error + bytes option" where
  "ApiMsgUpdateDenomResponse_marshal R = pulsar_marshal ApiMsgUpdateDenomResponse_unknownFields
      (ApiMsgUpdateDenomResponse_fields_size R) (ApiMsgUpdateDenomResponse_writers R)"

definition ApiMsgUpdateDenomResponse_keep :: "bytes \<Rightarrow> ApiMsgUpdateDenomResponse
    \<Rightarrow> ApiMsgUpdateDenomResponse" where
  "ApiMsgUpdateDenomResponse_keep raw m = m\<lparr>ApiMsgUpdateDenomResponse_unknownFields :=
      ApiMsgUpdateDenomResponse_unknownFields m @ raw\<rparr>"

definition ApiMsgUpdateDenomResponse_fields :: "ApiMsgUpdateDenomResponse fields" where
  "ApiMsgUpdateDenomResponse_fields n = None"

definition ApiMsgUpdateDenomResponse_unmarshal :: "proto_runtime \<Rightarrow> bool \<Rightarrow> bytes
    \<Rightarrow> ApiMsgUpdateDenomResponse option \<Rightarrow> (pb_error + ApiMsgUpdateDenomResponse option) option" where
  "ApiMsgUpdateDenomResponse_unmarshal R DiscardUnknown =
     pulsar_unmarshal R DiscardUnknown ''MsgUpdateDenomResponse'' ApiMsgUpdateDenomResponse_fields
         ApiMsgUpdateDenomResponse_keep"

definition ApiMsgUpdateDenomResponse_refl :: "(ApiMsgUpdateDenomResponse, tf_ref) rtable" where
  "ApiMsgUpdateDenomResponse_refl = []"

definition fastReflection_MsgUpdateDenomResponse_Range :: "ApiMsgUpdateDenomResponse option
    \<Rightarrow> (string \<Rightarrow> tf_ref pvalue \<Rightarrow> 's \<Rightarrow> bool \<times> 's) \<Rightarrow> 's \<Rightarrow> refl_error + 's" where
  "fastReflection_MsgUpdateDenomResponse_Range
      = refl_Range ''medasdigital.tokenfactory.MsgUpdateDenomResponse''
      ApiMsgUpdateDenomResponse_refl"

definition fastReflection_MsgUpdateDenomResponse_Has :: "ApiMsgUpdateDenomResponse option
    \<Rightarrow> field_descriptor \<Rightarrow> refl_error + bool" where
  "fastReflection_MsgUpdateDenomResponse_Has
      = refl_Has ''medasdigital.tokenfactory.MsgUpdateDenomResponse''
      ApiMsgUpdateDenomResponse_refl"

definition fastReflection_MsgUpdateDenomResponse_Clear :: "ApiMsgUpdateDenomResponse option
    \<Rightarrow> field_descriptor \<Rightarrow> refl_error + ApiMsgUpdateDenomResponse option" where
  "fastReflection_MsgUpdateDenomResponse_Clear
      = refl_Clear ''medasdigital.tokenfactory.MsgUpdateDenomResponse''
      ApiMsgUpdateDenomResponse_refl"

definition fastReflection_MsgUpdateDenomResponse_Get :: "ApiMsgUpdateDenomResponse option
    \<Rightarrow> field_descriptor \<Rightarrow> refl_error + tf_ref pvalue" where
  "fastReflection_MsgUpdateDenomResponse_Get
      = refl_Get ''medasdigital.tokenfactory.MsgUpdateDenomResponse''
      ApiMsgUpdateDenomResponse_refl"

definition fastReflection_MsgUpdateDenomResponse_Set :: "ApiMsgUpdateDenomResponse option
    \<Rightarrow> field_descriptor \<Rightarrow> tf_ref pvalue \<Rightarrow> refl_error + ApiMsgUpdateDenomResponse option" where
  "fastReflection_MsgUpdateDenomResponse_Set
      = refl_Set ''medasdigital.tokenfactory.MsgUpdateDenomResponse''
      ApiMsgUpdateDenomResponse_refl"

definition fastReflection_MsgUpdateDenomResponse_Mutable :: "ApiMsgUpdateDenomResponse option
    \<Rightarrow> field_descriptor \<Rightarrow> refl_error + ApiMsgUpdateDenomResponse option \<times> tf_ref pvalue" where
  "fastReflection_MsgUpdateDenomResponse_Mutable
      = refl_Mutable ''medasdigital.tokenfactory.MsgUpdateDenomResponse''
      ApiMsgUpdateDenomResponse_refl"

definition fastReflection_MsgUpdateDenomResponse_NewField :: "field_descriptor \<Rightarrow> refl_error
    + tf_ref pvalue" where
  "fastReflection_MsgUpdateDenomResponse_NewField
      = refl_NewField ''medasdigital.tokenfactory.MsgUpdateDenomResponse''
      ApiMsgUpdateDenomResponse_refl"

definition fastReflection_MsgUpdateDenomResponse_WhichOneof :: "string \<Rightarrow> refl_error
    + field_descriptor" where
  "fastReflection_MsgUpdateDenomResponse_WhichOneof
      = refl_WhichOneof ''medasdigital.tokenfactory.MsgUpdateDenomResponse''"

definition fastReflection_MsgUpdateDenomResponse_GetUnknown :: "ApiMsgUpdateDenomResponse option
    \<Rightarrow> refl_error + bytes" where
  "fastReflection_MsgUpdateDenomResponse_GetUnknown
      = refl_GetUnknown ApiMsgUpdateDenomResponse_unknownFields"

definition fastReflection_MsgUpdateDenomResponse_SetUnknown :: "ApiMsgUpdateDenomResponse option
    \<Rightarrow> bytes \<Rightarrow> refl_error + ApiMsgUpdateDenomResponse option" where
  "fastReflection_MsgUpdateDenomResponse_SetUnknown
      = refl_SetUnknown (\<lambda>raw m. m\<lparr>ApiMsgUpdateDenomResponse_unknownFields := raw\<rparr>)"

definition fastReflection_MsgUpdateDenomResponse_IsValid :: "ApiMsgUpdateDenomResponse option
    \<Rightarrow> bool" where
  "fastReflection_MsgUpdateDenomResponse_IsValid = refl_IsValid"

definition ApiMsgUpdateDenomResponse_wire :: "ApiMsgUpdateDenomResponse \<Rightarrow> wire_field list" where
  "ApiMsgUpdateDenomResponse_wire m = []"

lemma ApiMsgUpdateDenomResponse_contract:
  assumes R: "runtime_ok R"
  shows "pulsar_message R ApiMsgUpdateDenomResponse_fields ApiMsgUpdateDenomResponse_keep
      ApiMsgUpdateDenomResponse_unknownFields
    (\<lambda>m. m\<lparr>ApiMsgUpdateDenomResponse_unknownFields := []\<rparr>)
    ApiMsgUpdateDenomResponse_zero (\<lambda>m. True)
    (ApiMsgUpdateDenomResponse_fields_size R) (ApiMsgUpdateDenomResponse_writers R)
        ApiMsgUpdateDenomResponse_wire"
proof unfold_locales
  show "runtime_ok R" by (rule R)
  show "writes (put_seq (ApiMsgUpdateDenomResponse_writers R m)) (enc_fields
      (ApiMsgUpdateDenomResponse_wire m))" for m
    by (simp add: ApiMsgUpdateDenomResponse_writers_def ApiMsgUpdateDenomResponse_wire_def
        put_seq_nil writes_skip)
  show "ApiMsgUpdateDenomResponse_fields_size R m
      = length (enc_fields (ApiMsgUpdateDenomResponse_wire m))" for m
    by (simp add: ApiMsgUpdateDenomResponse_fields_size_def ApiMsgUpdateDenomResponse_wire_def
        runtime_simps [OF R])
  show "list_all wf_field (ApiMsgUpdateDenomResponse_wire m)" for m
    by (simp add: ApiMsgUpdateDenomResponse_wire_def)
  show "ApiMsgUpdateDenomResponse_fields (of_nat (field_num x)) \<noteq> None"
      if "x \<in> set (ApiMsgUpdateDenomResponse_wire m)" for x m
    using that by (auto simp: ApiMsgUpdateDenomResponse_wire_def
        ApiMsgUpdateDenomResponse_fields_def dest!: num_wire)
  show "rfold (apply_field ApiMsgUpdateDenomResponse_fields) (ApiMsgUpdateDenomResponse_wire m)
      ApiMsgUpdateDenomResponse_zero = Inr (m\<lparr>ApiMsgUpdateDenomResponse_unknownFields := []\<rparr>)" for m
    by (simp add: ApiMsgUpdateDenomResponse_wire_def ApiMsgUpdateDenomResponse_zero_def)
  show "ApiMsgUpdateDenomResponse_keep (ApiMsgUpdateDenomResponse_unknownFields m)
      (m\<lparr>ApiMsgUpdateDenomResponse_unknownFields := []\<rparr>) = m" for m
    by (simp add: ApiMsgUpdateDenomResponse_keep_def)
  show "ApiMsgUpdateDenomResponse_keep b (ApiMsgUpdateDenomResponse_keep a m)
      = ApiMsgUpdateDenomResponse_keep (a @ b) m" for a b m
    by (simp add: ApiMsgUpdateDenomResponse_keep_def)
  show "dec s y \<noteq> Inl Panic" if "ApiMsgUpdateDenomResponse_fields n = Some (name, FMessage dec)"
      and "go_slice s"
    for n name dec s y
    using that by (auto simp: ApiMsgUpdateDenomResponse_fields_def split: if_splits)
qed

text \<open>The gogoproto message with the same fields.\<close>

definition ApiMsgUpdateDenomResponse_gogo :: "ApiMsgUpdateDenomResponse \<Rightarrow> MsgUpdateDenomResponse"
    where
  "ApiMsgUpdateDenomResponse_gogo m = MsgUpdateDenomResponse"

lemma ApiMsgUpdateDenomResponse_agree:
  assumes R: "runtime_ok R"
  shows "pulsar_gogo R ApiMsgUpdateDenomResponse_fields ApiMsgUpdateDenomResponse_keep
      ApiMsgUpdateDenomResponse_unknownFields
    (\<lambda>m. m\<lparr>ApiMsgUpdateDenomResponse_unknownFields := []\<rparr>) ApiMsgUpdateDenomResponse_zero (\<lambda>m. True)
    (ApiMsgUpdateDenomResponse_fields_size R) (ApiMsgUpdateDenomResponse_writers R)
        ApiMsgUpdateDenomResponse_wire
    MsgUpdateDenomResponse_fields MsgUpdateDenomResponse MsgUpdateDenomResponse_Size
        MsgUpdateDenomResponse_MarshalToSizedBuffer MsgUpdateDenomResponse_wire
        ApiMsgUpdateDenomResponse_gogo"
  using ApiMsgUpdateDenomResponse_contract [OF R] msg_update_denom_response_pb.pb_message_axioms
proof (rule pulsar_gogo.intro)
  show "pulsar_gogo_axioms ApiMsgUpdateDenomResponse_fields ApiMsgUpdateDenomResponse_keep
      ApiMsgUpdateDenomResponse_zero MsgUpdateDenomResponse_fields MsgUpdateDenomResponse
      ApiMsgUpdateDenomResponse_gogo"
    by unfold_locales (simp_all add: fields_sim_def ApiMsgUpdateDenomResponse_fields_def
        MsgUpdateDenomResponse_fields_def ApiMsgUpdateDenomResponse_keep_def
        ApiMsgUpdateDenomResponse_gogo_def
        ApiMsgUpdateDenomResponse_zero_def )
qed

interpretation api_MsgUpdateDenomResponse: pulsar_gogo gogo_runtime "''MsgUpdateDenomResponse''"
    ApiMsgUpdateDenomResponse_fields ApiMsgUpdateDenomResponse_keep
    ApiMsgUpdateDenomResponse_unknownFields
  "\<lambda>m. m\<lparr>ApiMsgUpdateDenomResponse_unknownFields := []\<rparr>" ApiMsgUpdateDenomResponse_zero "\<lambda>m. True"
  "ApiMsgUpdateDenomResponse_fields_size gogo_runtime" "ApiMsgUpdateDenomResponse_writers
      gogo_runtime" ApiMsgUpdateDenomResponse_wire
  tx_file MsgUpdateDenomResponse_fields MsgUpdateDenomResponse MsgUpdateDenomResponse_Size
      MsgUpdateDenomResponse_MarshalToSizedBuffer MsgUpdateDenomResponse_wire
      ApiMsgUpdateDenomResponse_gogo
  by (rule ApiMsgUpdateDenomResponse_agree [OF gogo_runtime_ok])

section \<open>MsgDeleteDenom\<close>

text \<open>The request of \<open>Msg/DeleteDenom\<close>.\<close>

record ApiMsgDeleteDenom =
  ApiMsgDeleteDenom_Owner :: gostring
  ApiMsgDeleteDenom_Denom :: gostring
  ApiMsgDeleteDenom_unknownFields :: bytes

definition ApiMsgDeleteDenom_zero :: "ApiMsgDeleteDenom" where
  "ApiMsgDeleteDenom_zero = \<lparr>ApiMsgDeleteDenom_Owner = [], ApiMsgDeleteDenom_Denom = [],
      ApiMsgDeleteDenom_unknownFields = []\<rparr>"

definition ApiMsgDeleteDenom_fields_size :: "proto_runtime \<Rightarrow> ApiMsgDeleteDenom \<Rightarrow> nat" where
  "ApiMsgDeleteDenom_fields_size R m =
     api_size_string R (ApiMsgDeleteDenom_Owner m)
   + api_size_string R (ApiMsgDeleteDenom_Denom m)"

definition ApiMsgDeleteDenom_size :: "proto_runtime \<Rightarrow> ApiMsgDeleteDenom option \<Rightarrow> nat" where
  "ApiMsgDeleteDenom_size R = pulsar_size ApiMsgDeleteDenom_unknownFields
      (ApiMsgDeleteDenom_fields_size R)"

definition ApiMsgDeleteDenom_writers :: "proto_runtime \<Rightarrow> ApiMsgDeleteDenom \<Rightarrow> writer list" where
  "ApiMsgDeleteDenom_writers R m =
     [api_string R 0x12 (ApiMsgDeleteDenom_Denom m),
      api_string R 0x0a (ApiMsgDeleteDenom_Owner m)]"

definition ApiMsgDeleteDenom_marshal :: "proto_runtime \<Rightarrow> bytes option \<Rightarrow> ApiMsgDeleteDenom option
    \<Rightarrow> pb_error + bytes option" where
  "ApiMsgDeleteDenom_marshal R = pulsar_marshal ApiMsgDeleteDenom_unknownFields
      (ApiMsgDeleteDenom_fields_size R) (ApiMsgDeleteDenom_writers R)"

definition ApiMsgDeleteDenom_keep :: "bytes \<Rightarrow> ApiMsgDeleteDenom \<Rightarrow> ApiMsgDeleteDenom" where
  "ApiMsgDeleteDenom_keep raw m = m\<lparr>ApiMsgDeleteDenom_unknownFields :=
      ApiMsgDeleteDenom_unknownFields m @ raw\<rparr>"

definition ApiMsgDeleteDenom_fields :: "ApiMsgDeleteDenom fields" where
  "ApiMsgDeleteDenom_fields n =
     (if n = 1 then Some (''Owner'', FString (\<lambda>s m. m\<lparr>ApiMsgDeleteDenom_Owner := s\<rparr>))
      else if n = 2 then Some (''Denom'', FString (\<lambda>s m. m\<lparr>ApiMsgDeleteDenom_Denom := s\<rparr>))
      else None)"

definition ApiMsgDeleteDenom_unmarshal :: "proto_runtime \<Rightarrow> bool \<Rightarrow> bytes \<Rightarrow> ApiMsgDeleteDenom option
    \<Rightarrow> (pb_error + ApiMsgDeleteDenom option) option" where
  "ApiMsgDeleteDenom_unmarshal R DiscardUnknown =
     pulsar_unmarshal R DiscardUnknown ''MsgDeleteDenom'' ApiMsgDeleteDenom_fields
         ApiMsgDeleteDenom_keep"

definition ApiMsgDeleteDenom_refl :: "(ApiMsgDeleteDenom, tf_ref) rtable" where
  "ApiMsgDeleteDenom_refl =
     [(''owner'', RString ApiMsgDeleteDenom_Owner (\<lambda>s m. m\<lparr>ApiMsgDeleteDenom_Owner := s\<rparr>)),
      (''denom'', RString ApiMsgDeleteDenom_Denom (\<lambda>s m. m\<lparr>ApiMsgDeleteDenom_Denom := s\<rparr>))]"

definition fastReflection_MsgDeleteDenom_Range :: "ApiMsgDeleteDenom option \<Rightarrow> (string
    \<Rightarrow> tf_ref pvalue \<Rightarrow> 's \<Rightarrow> bool \<times> 's) \<Rightarrow> 's \<Rightarrow> refl_error + 's" where
  "fastReflection_MsgDeleteDenom_Range = refl_Range ''medasdigital.tokenfactory.MsgDeleteDenom''
      ApiMsgDeleteDenom_refl"

definition fastReflection_MsgDeleteDenom_Has :: "ApiMsgDeleteDenom option \<Rightarrow> field_descriptor
    \<Rightarrow> refl_error + bool" where
  "fastReflection_MsgDeleteDenom_Has = refl_Has ''medasdigital.tokenfactory.MsgDeleteDenom''
      ApiMsgDeleteDenom_refl"

definition fastReflection_MsgDeleteDenom_Clear :: "ApiMsgDeleteDenom option \<Rightarrow> field_descriptor
    \<Rightarrow> refl_error + ApiMsgDeleteDenom option" where
  "fastReflection_MsgDeleteDenom_Clear = refl_Clear ''medasdigital.tokenfactory.MsgDeleteDenom''
      ApiMsgDeleteDenom_refl"

definition fastReflection_MsgDeleteDenom_Get :: "ApiMsgDeleteDenom option \<Rightarrow> field_descriptor
    \<Rightarrow> refl_error + tf_ref pvalue" where
  "fastReflection_MsgDeleteDenom_Get = refl_Get ''medasdigital.tokenfactory.MsgDeleteDenom''
      ApiMsgDeleteDenom_refl"

definition fastReflection_MsgDeleteDenom_Set :: "ApiMsgDeleteDenom option \<Rightarrow> field_descriptor
    \<Rightarrow> tf_ref pvalue \<Rightarrow> refl_error + ApiMsgDeleteDenom option" where
  "fastReflection_MsgDeleteDenom_Set = refl_Set ''medasdigital.tokenfactory.MsgDeleteDenom''
      ApiMsgDeleteDenom_refl"

definition fastReflection_MsgDeleteDenom_Mutable :: "ApiMsgDeleteDenom option \<Rightarrow> field_descriptor
    \<Rightarrow> refl_error + ApiMsgDeleteDenom option \<times> tf_ref pvalue" where
  "fastReflection_MsgDeleteDenom_Mutable = refl_Mutable ''medasdigital.tokenfactory.MsgDeleteDenom''
      ApiMsgDeleteDenom_refl"

definition fastReflection_MsgDeleteDenom_NewField :: "field_descriptor \<Rightarrow> refl_error + tf_ref pvalue"
    where
  "fastReflection_MsgDeleteDenom_NewField
      = refl_NewField ''medasdigital.tokenfactory.MsgDeleteDenom'' ApiMsgDeleteDenom_refl"

definition fastReflection_MsgDeleteDenom_WhichOneof :: "string \<Rightarrow> refl_error + field_descriptor"
    where
  "fastReflection_MsgDeleteDenom_WhichOneof
      = refl_WhichOneof ''medasdigital.tokenfactory.MsgDeleteDenom''"

definition fastReflection_MsgDeleteDenom_GetUnknown :: "ApiMsgDeleteDenom option \<Rightarrow> refl_error
    + bytes" where
  "fastReflection_MsgDeleteDenom_GetUnknown = refl_GetUnknown ApiMsgDeleteDenom_unknownFields"

definition fastReflection_MsgDeleteDenom_SetUnknown :: "ApiMsgDeleteDenom option \<Rightarrow> bytes
    \<Rightarrow> refl_error + ApiMsgDeleteDenom option" where
  "fastReflection_MsgDeleteDenom_SetUnknown
      = refl_SetUnknown (\<lambda>raw m. m\<lparr>ApiMsgDeleteDenom_unknownFields := raw\<rparr>)"

definition fastReflection_MsgDeleteDenom_IsValid :: "ApiMsgDeleteDenom option \<Rightarrow> bool" where
  "fastReflection_MsgDeleteDenom_IsValid = refl_IsValid"

definition ApiMsgDeleteDenom_GetOwner :: "ApiMsgDeleteDenom option \<Rightarrow> gostring" where
  "ApiMsgDeleteDenom_GetOwner = getter [] ApiMsgDeleteDenom_Owner"

definition ApiMsgDeleteDenom_GetDenom :: "ApiMsgDeleteDenom option \<Rightarrow> gostring" where
  "ApiMsgDeleteDenom_GetDenom = getter [] ApiMsgDeleteDenom_Denom"

definition ApiMsgDeleteDenom_wire :: "ApiMsgDeleteDenom \<Rightarrow> wire_field list" where
  "ApiMsgDeleteDenom_wire m =
     w_string 1 (ApiMsgDeleteDenom_Owner m)
   @ w_string 2 (ApiMsgDeleteDenom_Denom m)"

lemma ApiMsgDeleteDenom_contract:
  assumes R: "runtime_ok R"
  shows "pulsar_message R ApiMsgDeleteDenom_fields ApiMsgDeleteDenom_keep
      ApiMsgDeleteDenom_unknownFields
    (\<lambda>m. m\<lparr>ApiMsgDeleteDenom_unknownFields := []\<rparr>)
    ApiMsgDeleteDenom_zero (\<lambda>m. True)
    (ApiMsgDeleteDenom_fields_size R) (ApiMsgDeleteDenom_writers R) ApiMsgDeleteDenom_wire"
proof unfold_locales
  show "runtime_ok R" by (rule R)
  show "writes (put_seq (ApiMsgDeleteDenom_writers R m)) (enc_fields (ApiMsgDeleteDenom_wire m))"
      for m
  proof -
    have "list_all2 writes (ApiMsgDeleteDenom_writers R m)
        [enc_fields (w_string 2 (ApiMsgDeleteDenom_Denom m)),
            enc_fields (w_string 1 (ApiMsgDeleteDenom_Owner m))]"
      by (simp add: ApiMsgDeleteDenom_writers_def runtime_simps [OF R] writes_wire key_byte_def)
    from writes_seq [OF this] show ?thesis by (simp add: ApiMsgDeleteDenom_wire_def)
  qed
  show "ApiMsgDeleteDenom_fields_size R m = length (enc_fields (ApiMsgDeleteDenom_wire m))" for m
    by (simp add: ApiMsgDeleteDenom_fields_size_def ApiMsgDeleteDenom_wire_def runtime_simps [OF R])
  show "list_all wf_field (ApiMsgDeleteDenom_wire m)" for m
    by (simp add: ApiMsgDeleteDenom_wire_def)
  show "ApiMsgDeleteDenom_fields (of_nat (field_num x)) \<noteq> None"
      if "x \<in> set (ApiMsgDeleteDenom_wire m)" for x m
    using that by (auto simp: ApiMsgDeleteDenom_wire_def ApiMsgDeleteDenom_fields_def dest!:
        num_wire)
  show "rfold (apply_field ApiMsgDeleteDenom_fields) (ApiMsgDeleteDenom_wire m)
      ApiMsgDeleteDenom_zero = Inr (m\<lparr>ApiMsgDeleteDenom_unknownFields := []\<rparr>)" for m
    by (simp add: ApiMsgDeleteDenom_wire_def ApiMsgDeleteDenom_zero_def ApiMsgDeleteDenom_fields_def
        rfold_wire)
  show "ApiMsgDeleteDenom_keep (ApiMsgDeleteDenom_unknownFields m)
      (m\<lparr>ApiMsgDeleteDenom_unknownFields := []\<rparr>) = m" for m
    by (simp add: ApiMsgDeleteDenom_keep_def)
  show "ApiMsgDeleteDenom_keep b (ApiMsgDeleteDenom_keep a m) = ApiMsgDeleteDenom_keep (a @ b) m"
      for a b m
    by (simp add: ApiMsgDeleteDenom_keep_def)
  show "dec s y \<noteq> Inl Panic" if "ApiMsgDeleteDenom_fields n = Some (name, FMessage dec)"
      and "go_slice s"
    for n name dec s y
    using that by (auto simp: ApiMsgDeleteDenom_fields_def split: if_splits)
qed

interpretation refl_MsgDeleteDenom: pulsar_reflect "''medasdigital.tokenfactory.MsgDeleteDenom''"
    "ApiMsgDeleteDenom_refl"
  by (rule pulsar_reflectI) (simp add: ApiMsgDeleteDenom_refl_def tbl_ok_simps)

text \<open>The gogoproto message with the same fields.\<close>

definition ApiMsgDeleteDenom_gogo :: "ApiMsgDeleteDenom \<Rightarrow> MsgDeleteDenom" where
  "ApiMsgDeleteDenom_gogo m = \<lparr>MsgDeleteDenom_Owner = ApiMsgDeleteDenom_Owner m,
       MsgDeleteDenom_Denom = ApiMsgDeleteDenom_Denom m\<rparr>"

lemma ApiMsgDeleteDenom_agree:
  assumes R: "runtime_ok R"
  shows "pulsar_gogo R ApiMsgDeleteDenom_fields ApiMsgDeleteDenom_keep
      ApiMsgDeleteDenom_unknownFields
    (\<lambda>m. m\<lparr>ApiMsgDeleteDenom_unknownFields := []\<rparr>) ApiMsgDeleteDenom_zero (\<lambda>m. True)
    (ApiMsgDeleteDenom_fields_size R) (ApiMsgDeleteDenom_writers R) ApiMsgDeleteDenom_wire
    MsgDeleteDenom_fields MsgDeleteDenom_zero MsgDeleteDenom_Size
        MsgDeleteDenom_MarshalToSizedBuffer MsgDeleteDenom_wire ApiMsgDeleteDenom_gogo"
  using ApiMsgDeleteDenom_contract [OF R] msg_delete_denom_pb.pb_message_axioms
proof (rule pulsar_gogo.intro)
  show "pulsar_gogo_axioms ApiMsgDeleteDenom_fields ApiMsgDeleteDenom_keep ApiMsgDeleteDenom_zero
      MsgDeleteDenom_fields MsgDeleteDenom_zero ApiMsgDeleteDenom_gogo"
    by unfold_locales (simp_all add: fields_sim_def ApiMsgDeleteDenom_fields_def
        MsgDeleteDenom_fields_def ApiMsgDeleteDenom_keep_def ApiMsgDeleteDenom_gogo_def
        ApiMsgDeleteDenom_zero_def MsgDeleteDenom_zero_def)
qed

interpretation api_MsgDeleteDenom: pulsar_gogo gogo_runtime "''MsgDeleteDenom''"
    ApiMsgDeleteDenom_fields ApiMsgDeleteDenom_keep ApiMsgDeleteDenom_unknownFields
  "\<lambda>m. m\<lparr>ApiMsgDeleteDenom_unknownFields := []\<rparr>" ApiMsgDeleteDenom_zero "\<lambda>m. True"
  "ApiMsgDeleteDenom_fields_size gogo_runtime" "ApiMsgDeleteDenom_writers gogo_runtime"
      ApiMsgDeleteDenom_wire
  tx_file MsgDeleteDenom_fields MsgDeleteDenom_zero MsgDeleteDenom_Size
      MsgDeleteDenom_MarshalToSizedBuffer MsgDeleteDenom_wire ApiMsgDeleteDenom_gogo
  by (rule ApiMsgDeleteDenom_agree [OF gogo_runtime_ok])

section \<open>MsgDeleteDenomResponse\<close>

text \<open>Its response.\<close>

record ApiMsgDeleteDenomResponse =
  ApiMsgDeleteDenomResponse_unknownFields :: bytes

definition ApiMsgDeleteDenomResponse_zero :: "ApiMsgDeleteDenomResponse" where
  "ApiMsgDeleteDenomResponse_zero = \<lparr>ApiMsgDeleteDenomResponse_unknownFields = []\<rparr>"

definition ApiMsgDeleteDenomResponse_fields_size :: "proto_runtime \<Rightarrow> ApiMsgDeleteDenomResponse
    \<Rightarrow> nat" where
  "ApiMsgDeleteDenomResponse_fields_size R m = 0"

definition ApiMsgDeleteDenomResponse_size :: "proto_runtime \<Rightarrow> ApiMsgDeleteDenomResponse option
    \<Rightarrow> nat" where
  "ApiMsgDeleteDenomResponse_size R = pulsar_size ApiMsgDeleteDenomResponse_unknownFields
      (ApiMsgDeleteDenomResponse_fields_size R)"

definition ApiMsgDeleteDenomResponse_writers :: "proto_runtime \<Rightarrow> ApiMsgDeleteDenomResponse
    \<Rightarrow> writer list" where
  "ApiMsgDeleteDenomResponse_writers R m = []"

definition ApiMsgDeleteDenomResponse_marshal :: "proto_runtime \<Rightarrow> bytes option
    \<Rightarrow> ApiMsgDeleteDenomResponse option \<Rightarrow> pb_error + bytes option" where
  "ApiMsgDeleteDenomResponse_marshal R = pulsar_marshal ApiMsgDeleteDenomResponse_unknownFields
      (ApiMsgDeleteDenomResponse_fields_size R) (ApiMsgDeleteDenomResponse_writers R)"

definition ApiMsgDeleteDenomResponse_keep :: "bytes \<Rightarrow> ApiMsgDeleteDenomResponse
    \<Rightarrow> ApiMsgDeleteDenomResponse" where
  "ApiMsgDeleteDenomResponse_keep raw m = m\<lparr>ApiMsgDeleteDenomResponse_unknownFields :=
      ApiMsgDeleteDenomResponse_unknownFields m @ raw\<rparr>"

definition ApiMsgDeleteDenomResponse_fields :: "ApiMsgDeleteDenomResponse fields" where
  "ApiMsgDeleteDenomResponse_fields n = None"

definition ApiMsgDeleteDenomResponse_unmarshal :: "proto_runtime \<Rightarrow> bool \<Rightarrow> bytes
    \<Rightarrow> ApiMsgDeleteDenomResponse option \<Rightarrow> (pb_error + ApiMsgDeleteDenomResponse option) option" where
  "ApiMsgDeleteDenomResponse_unmarshal R DiscardUnknown =
     pulsar_unmarshal R DiscardUnknown ''MsgDeleteDenomResponse'' ApiMsgDeleteDenomResponse_fields
         ApiMsgDeleteDenomResponse_keep"

definition ApiMsgDeleteDenomResponse_refl :: "(ApiMsgDeleteDenomResponse, tf_ref) rtable" where
  "ApiMsgDeleteDenomResponse_refl = []"

definition fastReflection_MsgDeleteDenomResponse_Range :: "ApiMsgDeleteDenomResponse option
    \<Rightarrow> (string \<Rightarrow> tf_ref pvalue \<Rightarrow> 's \<Rightarrow> bool \<times> 's) \<Rightarrow> 's \<Rightarrow> refl_error + 's" where
  "fastReflection_MsgDeleteDenomResponse_Range
      = refl_Range ''medasdigital.tokenfactory.MsgDeleteDenomResponse''
      ApiMsgDeleteDenomResponse_refl"

definition fastReflection_MsgDeleteDenomResponse_Has :: "ApiMsgDeleteDenomResponse option
    \<Rightarrow> field_descriptor \<Rightarrow> refl_error + bool" where
  "fastReflection_MsgDeleteDenomResponse_Has
      = refl_Has ''medasdigital.tokenfactory.MsgDeleteDenomResponse''
      ApiMsgDeleteDenomResponse_refl"

definition fastReflection_MsgDeleteDenomResponse_Clear :: "ApiMsgDeleteDenomResponse option
    \<Rightarrow> field_descriptor \<Rightarrow> refl_error + ApiMsgDeleteDenomResponse option" where
  "fastReflection_MsgDeleteDenomResponse_Clear
      = refl_Clear ''medasdigital.tokenfactory.MsgDeleteDenomResponse''
      ApiMsgDeleteDenomResponse_refl"

definition fastReflection_MsgDeleteDenomResponse_Get :: "ApiMsgDeleteDenomResponse option
    \<Rightarrow> field_descriptor \<Rightarrow> refl_error + tf_ref pvalue" where
  "fastReflection_MsgDeleteDenomResponse_Get
      = refl_Get ''medasdigital.tokenfactory.MsgDeleteDenomResponse''
      ApiMsgDeleteDenomResponse_refl"

definition fastReflection_MsgDeleteDenomResponse_Set :: "ApiMsgDeleteDenomResponse option
    \<Rightarrow> field_descriptor \<Rightarrow> tf_ref pvalue \<Rightarrow> refl_error + ApiMsgDeleteDenomResponse option" where
  "fastReflection_MsgDeleteDenomResponse_Set
      = refl_Set ''medasdigital.tokenfactory.MsgDeleteDenomResponse''
      ApiMsgDeleteDenomResponse_refl"

definition fastReflection_MsgDeleteDenomResponse_Mutable :: "ApiMsgDeleteDenomResponse option
    \<Rightarrow> field_descriptor \<Rightarrow> refl_error + ApiMsgDeleteDenomResponse option \<times> tf_ref pvalue" where
  "fastReflection_MsgDeleteDenomResponse_Mutable
      = refl_Mutable ''medasdigital.tokenfactory.MsgDeleteDenomResponse''
      ApiMsgDeleteDenomResponse_refl"

definition fastReflection_MsgDeleteDenomResponse_NewField :: "field_descriptor \<Rightarrow> refl_error
    + tf_ref pvalue" where
  "fastReflection_MsgDeleteDenomResponse_NewField
      = refl_NewField ''medasdigital.tokenfactory.MsgDeleteDenomResponse''
      ApiMsgDeleteDenomResponse_refl"

definition fastReflection_MsgDeleteDenomResponse_WhichOneof :: "string \<Rightarrow> refl_error
    + field_descriptor" where
  "fastReflection_MsgDeleteDenomResponse_WhichOneof
      = refl_WhichOneof ''medasdigital.tokenfactory.MsgDeleteDenomResponse''"

definition fastReflection_MsgDeleteDenomResponse_GetUnknown :: "ApiMsgDeleteDenomResponse option
    \<Rightarrow> refl_error + bytes" where
  "fastReflection_MsgDeleteDenomResponse_GetUnknown
      = refl_GetUnknown ApiMsgDeleteDenomResponse_unknownFields"

definition fastReflection_MsgDeleteDenomResponse_SetUnknown :: "ApiMsgDeleteDenomResponse option
    \<Rightarrow> bytes \<Rightarrow> refl_error + ApiMsgDeleteDenomResponse option" where
  "fastReflection_MsgDeleteDenomResponse_SetUnknown
      = refl_SetUnknown (\<lambda>raw m. m\<lparr>ApiMsgDeleteDenomResponse_unknownFields := raw\<rparr>)"

definition fastReflection_MsgDeleteDenomResponse_IsValid :: "ApiMsgDeleteDenomResponse option
    \<Rightarrow> bool" where
  "fastReflection_MsgDeleteDenomResponse_IsValid = refl_IsValid"

definition ApiMsgDeleteDenomResponse_wire :: "ApiMsgDeleteDenomResponse \<Rightarrow> wire_field list" where
  "ApiMsgDeleteDenomResponse_wire m = []"

lemma ApiMsgDeleteDenomResponse_contract:
  assumes R: "runtime_ok R"
  shows "pulsar_message R ApiMsgDeleteDenomResponse_fields ApiMsgDeleteDenomResponse_keep
      ApiMsgDeleteDenomResponse_unknownFields
    (\<lambda>m. m\<lparr>ApiMsgDeleteDenomResponse_unknownFields := []\<rparr>)
    ApiMsgDeleteDenomResponse_zero (\<lambda>m. True)
    (ApiMsgDeleteDenomResponse_fields_size R) (ApiMsgDeleteDenomResponse_writers R)
        ApiMsgDeleteDenomResponse_wire"
proof unfold_locales
  show "runtime_ok R" by (rule R)
  show "writes (put_seq (ApiMsgDeleteDenomResponse_writers R m)) (enc_fields
      (ApiMsgDeleteDenomResponse_wire m))" for m
    by (simp add: ApiMsgDeleteDenomResponse_writers_def ApiMsgDeleteDenomResponse_wire_def
        put_seq_nil writes_skip)
  show "ApiMsgDeleteDenomResponse_fields_size R m
      = length (enc_fields (ApiMsgDeleteDenomResponse_wire m))" for m
    by (simp add: ApiMsgDeleteDenomResponse_fields_size_def ApiMsgDeleteDenomResponse_wire_def
        runtime_simps [OF R])
  show "list_all wf_field (ApiMsgDeleteDenomResponse_wire m)" for m
    by (simp add: ApiMsgDeleteDenomResponse_wire_def)
  show "ApiMsgDeleteDenomResponse_fields (of_nat (field_num x)) \<noteq> None"
      if "x \<in> set (ApiMsgDeleteDenomResponse_wire m)" for x m
    using that by (auto simp: ApiMsgDeleteDenomResponse_wire_def
        ApiMsgDeleteDenomResponse_fields_def dest!: num_wire)
  show "rfold (apply_field ApiMsgDeleteDenomResponse_fields) (ApiMsgDeleteDenomResponse_wire m)
      ApiMsgDeleteDenomResponse_zero = Inr (m\<lparr>ApiMsgDeleteDenomResponse_unknownFields := []\<rparr>)" for m
    by (simp add: ApiMsgDeleteDenomResponse_wire_def ApiMsgDeleteDenomResponse_zero_def)
  show "ApiMsgDeleteDenomResponse_keep (ApiMsgDeleteDenomResponse_unknownFields m)
      (m\<lparr>ApiMsgDeleteDenomResponse_unknownFields := []\<rparr>) = m" for m
    by (simp add: ApiMsgDeleteDenomResponse_keep_def)
  show "ApiMsgDeleteDenomResponse_keep b (ApiMsgDeleteDenomResponse_keep a m)
      = ApiMsgDeleteDenomResponse_keep (a @ b) m" for a b m
    by (simp add: ApiMsgDeleteDenomResponse_keep_def)
  show "dec s y \<noteq> Inl Panic" if "ApiMsgDeleteDenomResponse_fields n = Some (name, FMessage dec)"
      and "go_slice s"
    for n name dec s y
    using that by (auto simp: ApiMsgDeleteDenomResponse_fields_def split: if_splits)
qed

text \<open>The gogoproto message with the same fields.\<close>

definition ApiMsgDeleteDenomResponse_gogo :: "ApiMsgDeleteDenomResponse \<Rightarrow> MsgDeleteDenomResponse"
    where
  "ApiMsgDeleteDenomResponse_gogo m = MsgDeleteDenomResponse"

lemma ApiMsgDeleteDenomResponse_agree:
  assumes R: "runtime_ok R"
  shows "pulsar_gogo R ApiMsgDeleteDenomResponse_fields ApiMsgDeleteDenomResponse_keep
      ApiMsgDeleteDenomResponse_unknownFields
    (\<lambda>m. m\<lparr>ApiMsgDeleteDenomResponse_unknownFields := []\<rparr>) ApiMsgDeleteDenomResponse_zero (\<lambda>m. True)
    (ApiMsgDeleteDenomResponse_fields_size R) (ApiMsgDeleteDenomResponse_writers R)
        ApiMsgDeleteDenomResponse_wire
    MsgDeleteDenomResponse_fields MsgDeleteDenomResponse MsgDeleteDenomResponse_Size
        MsgDeleteDenomResponse_MarshalToSizedBuffer MsgDeleteDenomResponse_wire
        ApiMsgDeleteDenomResponse_gogo"
  using ApiMsgDeleteDenomResponse_contract [OF R] msg_delete_denom_response_pb.pb_message_axioms
proof (rule pulsar_gogo.intro)
  show "pulsar_gogo_axioms ApiMsgDeleteDenomResponse_fields ApiMsgDeleteDenomResponse_keep
      ApiMsgDeleteDenomResponse_zero MsgDeleteDenomResponse_fields MsgDeleteDenomResponse
      ApiMsgDeleteDenomResponse_gogo"
    by unfold_locales (simp_all add: fields_sim_def ApiMsgDeleteDenomResponse_fields_def
        MsgDeleteDenomResponse_fields_def ApiMsgDeleteDenomResponse_keep_def
        ApiMsgDeleteDenomResponse_gogo_def
        ApiMsgDeleteDenomResponse_zero_def )
qed

interpretation api_MsgDeleteDenomResponse: pulsar_gogo gogo_runtime "''MsgDeleteDenomResponse''"
    ApiMsgDeleteDenomResponse_fields ApiMsgDeleteDenomResponse_keep
    ApiMsgDeleteDenomResponse_unknownFields
  "\<lambda>m. m\<lparr>ApiMsgDeleteDenomResponse_unknownFields := []\<rparr>" ApiMsgDeleteDenomResponse_zero "\<lambda>m. True"
  "ApiMsgDeleteDenomResponse_fields_size gogo_runtime" "ApiMsgDeleteDenomResponse_writers
      gogo_runtime" ApiMsgDeleteDenomResponse_wire
  tx_file MsgDeleteDenomResponse_fields MsgDeleteDenomResponse MsgDeleteDenomResponse_Size
      MsgDeleteDenomResponse_MarshalToSizedBuffer MsgDeleteDenomResponse_wire
      ApiMsgDeleteDenomResponse_gogo
  by (rule ApiMsgDeleteDenomResponse_agree [OF gogo_runtime_ok])

end
