(* ===== verification/Api_Query.thy ===== *)
theory Api_Query
  imports Api_Denom TF_Query_Pb
begin

text \<open>
  The query messages of the token factory, \<open>api/medasdigital/tokenfactory/query.pulsar.go\<close>, and its
  module configuration, \<open>module/module.pulsar.go\<close>.  The page messages of the Cosmos SDK are a
  parameter: their type, their \<open>options\<close> and a new message.
\<close>

section \<open>Message values\<close>

text \<open>
  The page messages of the Cosmos SDK, of a type that is a parameter, beside the messages of the
  package.
\<close>

datatype 'p page_ref =
    RefPage "'p option"
  | RefTF tf_ref

fun as_page :: "'p page_ref \<Rightarrow> 'p option option" where
  "as_page (RefPage p) = Some p"
| "as_page v = None"

lemma as_page_eq: "as_page v = Some p \<longleftrightarrow> v = RefPage p"
  by (cases v) auto

fun as_TF_Denom :: "'p page_ref \<Rightarrow> ApiDenom option option" where
  "as_TF_Denom (RefTF r) = as_Denom r"
| "as_TF_Denom v = None"

lemma as_TF_Denom_eq: "as_TF_Denom v = Some p \<longleftrightarrow> v = RefTF (RefDenom p)"
  by (cases v) (auto simp: as_Denom_eq)


section \<open>QueryParamsRequest\<close>

text \<open>The request of \<open>Query/Params\<close>.\<close>

record ApiQueryParamsRequest =
  ApiQueryParamsRequest_unknownFields :: bytes

definition ApiQueryParamsRequest_zero :: "ApiQueryParamsRequest" where
  "ApiQueryParamsRequest_zero = \<lparr>ApiQueryParamsRequest_unknownFields = []\<rparr>"

definition ApiQueryParamsRequest_fields_size :: "proto_runtime \<Rightarrow> ApiQueryParamsRequest \<Rightarrow> nat" where
  "ApiQueryParamsRequest_fields_size R m = 0"

definition ApiQueryParamsRequest_size :: "proto_runtime \<Rightarrow> ApiQueryParamsRequest option \<Rightarrow> nat" where
  "ApiQueryParamsRequest_size R = pulsar_size ApiQueryParamsRequest_unknownFields
      (ApiQueryParamsRequest_fields_size R)"

definition ApiQueryParamsRequest_writers :: "proto_runtime \<Rightarrow> ApiQueryParamsRequest \<Rightarrow> writer list"
    where
  "ApiQueryParamsRequest_writers R m = []"

definition ApiQueryParamsRequest_marshal :: "proto_runtime \<Rightarrow> bytes option
    \<Rightarrow> ApiQueryParamsRequest option \<Rightarrow> pb_error + bytes option" where
  "ApiQueryParamsRequest_marshal R = pulsar_marshal ApiQueryParamsRequest_unknownFields
      (ApiQueryParamsRequest_fields_size R) (ApiQueryParamsRequest_writers R)"

definition ApiQueryParamsRequest_keep :: "bytes \<Rightarrow> ApiQueryParamsRequest \<Rightarrow> ApiQueryParamsRequest"
    where
  "ApiQueryParamsRequest_keep raw m = m\<lparr>ApiQueryParamsRequest_unknownFields :=
      ApiQueryParamsRequest_unknownFields m @ raw\<rparr>"

definition ApiQueryParamsRequest_fields :: "ApiQueryParamsRequest fields" where
  "ApiQueryParamsRequest_fields n = None"

definition ApiQueryParamsRequest_unmarshal :: "proto_runtime \<Rightarrow> bool \<Rightarrow> bytes
    \<Rightarrow> ApiQueryParamsRequest option \<Rightarrow> (pb_error + ApiQueryParamsRequest option) option" where
  "ApiQueryParamsRequest_unmarshal R DiscardUnknown =
     pulsar_unmarshal R DiscardUnknown ''QueryParamsRequest'' ApiQueryParamsRequest_fields
         ApiQueryParamsRequest_keep"

definition ApiQueryParamsRequest_refl :: "(ApiQueryParamsRequest, tf_ref) rtable" where
  "ApiQueryParamsRequest_refl = []"

definition fastReflection_QueryParamsRequest_Range :: "ApiQueryParamsRequest option \<Rightarrow> (string
    \<Rightarrow> tf_ref pvalue \<Rightarrow> 's \<Rightarrow> bool \<times> 's) \<Rightarrow> 's \<Rightarrow> refl_error + 's" where
  "fastReflection_QueryParamsRequest_Range
      = refl_Range ''medasdigital.tokenfactory.QueryParamsRequest'' ApiQueryParamsRequest_refl"

definition fastReflection_QueryParamsRequest_Has :: "ApiQueryParamsRequest option \<Rightarrow> field_descriptor
    \<Rightarrow> refl_error + bool" where
  "fastReflection_QueryParamsRequest_Has = refl_Has ''medasdigital.tokenfactory.QueryParamsRequest''
      ApiQueryParamsRequest_refl"

definition fastReflection_QueryParamsRequest_Clear :: "ApiQueryParamsRequest option
    \<Rightarrow> field_descriptor \<Rightarrow> refl_error + ApiQueryParamsRequest option" where
  "fastReflection_QueryParamsRequest_Clear
      = refl_Clear ''medasdigital.tokenfactory.QueryParamsRequest'' ApiQueryParamsRequest_refl"

definition fastReflection_QueryParamsRequest_Get :: "ApiQueryParamsRequest option \<Rightarrow> field_descriptor
    \<Rightarrow> refl_error + tf_ref pvalue" where
  "fastReflection_QueryParamsRequest_Get = refl_Get ''medasdigital.tokenfactory.QueryParamsRequest''
      ApiQueryParamsRequest_refl"

definition fastReflection_QueryParamsRequest_Set :: "ApiQueryParamsRequest option \<Rightarrow> field_descriptor
    \<Rightarrow> tf_ref pvalue \<Rightarrow> refl_error + ApiQueryParamsRequest option" where
  "fastReflection_QueryParamsRequest_Set = refl_Set ''medasdigital.tokenfactory.QueryParamsRequest''
      ApiQueryParamsRequest_refl"

definition fastReflection_QueryParamsRequest_Mutable :: "ApiQueryParamsRequest option
    \<Rightarrow> field_descriptor \<Rightarrow> refl_error + ApiQueryParamsRequest option \<times> tf_ref pvalue" where
  "fastReflection_QueryParamsRequest_Mutable
      = refl_Mutable ''medasdigital.tokenfactory.QueryParamsRequest'' ApiQueryParamsRequest_refl"

definition fastReflection_QueryParamsRequest_NewField :: "field_descriptor \<Rightarrow> refl_error
    + tf_ref pvalue" where
  "fastReflection_QueryParamsRequest_NewField
      = refl_NewField ''medasdigital.tokenfactory.QueryParamsRequest'' ApiQueryParamsRequest_refl"

definition fastReflection_QueryParamsRequest_WhichOneof :: "string \<Rightarrow> refl_error + field_descriptor"
    where
  "fastReflection_QueryParamsRequest_WhichOneof
      = refl_WhichOneof ''medasdigital.tokenfactory.QueryParamsRequest''"

definition fastReflection_QueryParamsRequest_GetUnknown :: "ApiQueryParamsRequest option
    \<Rightarrow> refl_error + bytes" where
  "fastReflection_QueryParamsRequest_GetUnknown
      = refl_GetUnknown ApiQueryParamsRequest_unknownFields"

definition fastReflection_QueryParamsRequest_SetUnknown :: "ApiQueryParamsRequest option \<Rightarrow> bytes
    \<Rightarrow> refl_error + ApiQueryParamsRequest option" where
  "fastReflection_QueryParamsRequest_SetUnknown
      = refl_SetUnknown (\<lambda>raw m. m\<lparr>ApiQueryParamsRequest_unknownFields := raw\<rparr>)"

definition fastReflection_QueryParamsRequest_IsValid :: "ApiQueryParamsRequest option \<Rightarrow> bool" where
  "fastReflection_QueryParamsRequest_IsValid = refl_IsValid"

definition ApiQueryParamsRequest_wire :: "ApiQueryParamsRequest \<Rightarrow> wire_field list" where
  "ApiQueryParamsRequest_wire m = []"

lemma ApiQueryParamsRequest_contract:
  assumes R: "runtime_ok R"
  shows "pulsar_message R ApiQueryParamsRequest_fields ApiQueryParamsRequest_keep
      ApiQueryParamsRequest_unknownFields
    (\<lambda>m. m\<lparr>ApiQueryParamsRequest_unknownFields := []\<rparr>)
    ApiQueryParamsRequest_zero (\<lambda>m. True)
    (ApiQueryParamsRequest_fields_size R) (ApiQueryParamsRequest_writers R)
        ApiQueryParamsRequest_wire"
proof unfold_locales
  show "runtime_ok R" by (rule R)
  show "writes (put_seq (ApiQueryParamsRequest_writers R m)) (enc_fields (ApiQueryParamsRequest_wire
      m))" for m
    by (simp add: ApiQueryParamsRequest_writers_def ApiQueryParamsRequest_wire_def put_seq_nil
        writes_skip)
  show "ApiQueryParamsRequest_fields_size R m = length (enc_fields (ApiQueryParamsRequest_wire m))"
      for m
    by (simp add: ApiQueryParamsRequest_fields_size_def ApiQueryParamsRequest_wire_def
        runtime_simps [OF R])
  show "list_all wf_field (ApiQueryParamsRequest_wire m)" for m
    by (simp add: ApiQueryParamsRequest_wire_def)
  show "ApiQueryParamsRequest_fields (of_nat (field_num x)) \<noteq> None"
      if "x \<in> set (ApiQueryParamsRequest_wire m)" for x m
    using that by (auto simp: ApiQueryParamsRequest_wire_def ApiQueryParamsRequest_fields_def dest!:
        num_wire)
  show "rfold (apply_field ApiQueryParamsRequest_fields) (ApiQueryParamsRequest_wire m)
      ApiQueryParamsRequest_zero = Inr (m\<lparr>ApiQueryParamsRequest_unknownFields := []\<rparr>)" for m
    by (simp add: ApiQueryParamsRequest_wire_def ApiQueryParamsRequest_zero_def)
  show "ApiQueryParamsRequest_keep (ApiQueryParamsRequest_unknownFields m)
      (m\<lparr>ApiQueryParamsRequest_unknownFields := []\<rparr>) = m" for m
    by (simp add: ApiQueryParamsRequest_keep_def)
  show "ApiQueryParamsRequest_keep b (ApiQueryParamsRequest_keep a m)
      = ApiQueryParamsRequest_keep (a @ b) m" for a b m
    by (simp add: ApiQueryParamsRequest_keep_def)
  show "dec s y \<noteq> Inl Panic" if "ApiQueryParamsRequest_fields n = Some (name, FMessage dec)"
      and "go_slice s"
    for n name dec s y
    using that by (auto simp: ApiQueryParamsRequest_fields_def split: if_splits)
qed

text \<open>The gogoproto message with the same fields.\<close>

definition ApiQueryParamsRequest_gogo :: "ApiQueryParamsRequest \<Rightarrow> QueryParamsRequest" where
  "ApiQueryParamsRequest_gogo m = QueryParamsRequest"

lemma ApiQueryParamsRequest_agree:
  assumes R: "runtime_ok R"
  shows "pulsar_gogo R ApiQueryParamsRequest_fields ApiQueryParamsRequest_keep
      ApiQueryParamsRequest_unknownFields
    (\<lambda>m. m\<lparr>ApiQueryParamsRequest_unknownFields := []\<rparr>) ApiQueryParamsRequest_zero (\<lambda>m. True)
    (ApiQueryParamsRequest_fields_size R) (ApiQueryParamsRequest_writers R)
        ApiQueryParamsRequest_wire
    QueryParamsRequest_fields QueryParamsRequest QueryParamsRequest_Size
        QueryParamsRequest_MarshalToSizedBuffer QueryParamsRequest_wire ApiQueryParamsRequest_gogo"
  using ApiQueryParamsRequest_contract [OF R] query_params_request_pb.pb_message_axioms
proof (rule pulsar_gogo.intro)
  show "pulsar_gogo_axioms ApiQueryParamsRequest_fields ApiQueryParamsRequest_keep
      ApiQueryParamsRequest_zero QueryParamsRequest_fields QueryParamsRequest
      ApiQueryParamsRequest_gogo"
    by unfold_locales (simp_all add: fields_sim_def ApiQueryParamsRequest_fields_def
        QueryParamsRequest_fields_def ApiQueryParamsRequest_keep_def ApiQueryParamsRequest_gogo_def
        ApiQueryParamsRequest_zero_def )
qed

interpretation api_QueryParamsRequest: pulsar_gogo gogo_runtime "''QueryParamsRequest''"
    ApiQueryParamsRequest_fields ApiQueryParamsRequest_keep ApiQueryParamsRequest_unknownFields
  "\<lambda>m. m\<lparr>ApiQueryParamsRequest_unknownFields := []\<rparr>" ApiQueryParamsRequest_zero "\<lambda>m. True"
  "ApiQueryParamsRequest_fields_size gogo_runtime" "ApiQueryParamsRequest_writers gogo_runtime"
      ApiQueryParamsRequest_wire
  query_file QueryParamsRequest_fields QueryParamsRequest QueryParamsRequest_Size
      QueryParamsRequest_MarshalToSizedBuffer QueryParamsRequest_wire ApiQueryParamsRequest_gogo
  by (rule ApiQueryParamsRequest_agree [OF gogo_runtime_ok])

section \<open>QueryParamsResponse\<close>

text \<open>Its response.\<close>

record ApiQueryParamsResponse =
  ApiQueryParamsResponse_Params :: "ApiParams option"
  ApiQueryParamsResponse_unknownFields :: bytes

definition ApiQueryParamsResponse_zero :: "ApiQueryParamsResponse" where
  "ApiQueryParamsResponse_zero = \<lparr>ApiQueryParamsResponse_Params = None,
      ApiQueryParamsResponse_unknownFields = []\<rparr>"

definition ApiQueryParamsResponse_fields_size :: "proto_runtime \<Rightarrow> ApiParams options
    \<Rightarrow> ApiQueryParamsResponse \<Rightarrow> nat" where
  "ApiQueryParamsResponse_fields_size R O1 m =
     api_size_message R O1 (ApiQueryParamsResponse_Params m)"

definition ApiQueryParamsResponse_size :: "proto_runtime \<Rightarrow> ApiParams options
    \<Rightarrow> ApiQueryParamsResponse option \<Rightarrow> nat" where
  "ApiQueryParamsResponse_size R O1 = pulsar_size ApiQueryParamsResponse_unknownFields
      (ApiQueryParamsResponse_fields_size R O1)"

definition ApiQueryParamsResponse_writers :: "proto_runtime \<Rightarrow> ApiParams options
    \<Rightarrow> ApiQueryParamsResponse \<Rightarrow> writer list" where
  "ApiQueryParamsResponse_writers R O1 m =
     [api_message R O1 0x0a (ApiQueryParamsResponse_Params m)]"

definition ApiQueryParamsResponse_marshal :: "proto_runtime \<Rightarrow> ApiParams options \<Rightarrow> bytes option
    \<Rightarrow> ApiQueryParamsResponse option \<Rightarrow> pb_error + bytes option" where
  "ApiQueryParamsResponse_marshal R O1 = pulsar_marshal ApiQueryParamsResponse_unknownFields
      (ApiQueryParamsResponse_fields_size R O1) (ApiQueryParamsResponse_writers R O1)"

definition ApiQueryParamsResponse_keep :: "bytes \<Rightarrow> ApiQueryParamsResponse \<Rightarrow> ApiQueryParamsResponse"
    where
  "ApiQueryParamsResponse_keep raw m = m\<lparr>ApiQueryParamsResponse_unknownFields :=
      ApiQueryParamsResponse_unknownFields m @ raw\<rparr>"

definition ApiQueryParamsResponse_fields :: "ApiParams options \<Rightarrow> ApiQueryParamsResponse fields"
    where
  "ApiQueryParamsResponse_fields O1 n =
     (if n = 1 then Some (''Params'', FMessage (api_dec_message O1 ApiParams_zero
         ApiQueryParamsResponse_Params
          (\<lambda>p m. m\<lparr>ApiQueryParamsResponse_Params := p\<rparr>)))
      else None)"

definition ApiQueryParamsResponse_unmarshal :: "proto_runtime \<Rightarrow> bool \<Rightarrow> ApiParams options \<Rightarrow> bytes
    \<Rightarrow> ApiQueryParamsResponse option \<Rightarrow> (pb_error + ApiQueryParamsResponse option) option" where
  "ApiQueryParamsResponse_unmarshal R DiscardUnknown O1 =
     pulsar_unmarshal R DiscardUnknown ''QueryParamsResponse'' (ApiQueryParamsResponse_fields O1)
         ApiQueryParamsResponse_keep"

definition ApiQueryParamsResponse_refl :: "(ApiQueryParamsResponse, tf_ref) rtable" where
  "ApiQueryParamsResponse_refl =
     [(''params'', RPointer RefParams as_Params ApiParams_zero ApiQueryParamsResponse_Params
        (\<lambda>p m. m\<lparr>ApiQueryParamsResponse_Params := p\<rparr>))]"

definition fastReflection_QueryParamsResponse_Range :: "ApiQueryParamsResponse option \<Rightarrow> (string
    \<Rightarrow> tf_ref pvalue \<Rightarrow> 's \<Rightarrow> bool \<times> 's) \<Rightarrow> 's \<Rightarrow> refl_error + 's" where
  "fastReflection_QueryParamsResponse_Range
      = refl_Range ''medasdigital.tokenfactory.QueryParamsResponse'' ApiQueryParamsResponse_refl"

definition fastReflection_QueryParamsResponse_Has :: "ApiQueryParamsResponse option
    \<Rightarrow> field_descriptor \<Rightarrow> refl_error + bool" where
  "fastReflection_QueryParamsResponse_Has
      = refl_Has ''medasdigital.tokenfactory.QueryParamsResponse'' ApiQueryParamsResponse_refl"

definition fastReflection_QueryParamsResponse_Clear :: "ApiQueryParamsResponse option
    \<Rightarrow> field_descriptor \<Rightarrow> refl_error + ApiQueryParamsResponse option" where
  "fastReflection_QueryParamsResponse_Clear
      = refl_Clear ''medasdigital.tokenfactory.QueryParamsResponse'' ApiQueryParamsResponse_refl"

definition fastReflection_QueryParamsResponse_Get :: "ApiQueryParamsResponse option
    \<Rightarrow> field_descriptor \<Rightarrow> refl_error + tf_ref pvalue" where
  "fastReflection_QueryParamsResponse_Get
      = refl_Get ''medasdigital.tokenfactory.QueryParamsResponse'' ApiQueryParamsResponse_refl"

definition fastReflection_QueryParamsResponse_Set :: "ApiQueryParamsResponse option
    \<Rightarrow> field_descriptor \<Rightarrow> tf_ref pvalue \<Rightarrow> refl_error + ApiQueryParamsResponse option" where
  "fastReflection_QueryParamsResponse_Set
      = refl_Set ''medasdigital.tokenfactory.QueryParamsResponse'' ApiQueryParamsResponse_refl"

definition fastReflection_QueryParamsResponse_Mutable :: "ApiQueryParamsResponse option
    \<Rightarrow> field_descriptor \<Rightarrow> refl_error + ApiQueryParamsResponse option \<times> tf_ref pvalue" where
  "fastReflection_QueryParamsResponse_Mutable
      = refl_Mutable ''medasdigital.tokenfactory.QueryParamsResponse'' ApiQueryParamsResponse_refl"

definition fastReflection_QueryParamsResponse_NewField :: "field_descriptor \<Rightarrow> refl_error
    + tf_ref pvalue" where
  "fastReflection_QueryParamsResponse_NewField
      = refl_NewField ''medasdigital.tokenfactory.QueryParamsResponse'' ApiQueryParamsResponse_refl"

definition fastReflection_QueryParamsResponse_WhichOneof :: "string \<Rightarrow> refl_error + field_descriptor"
    where
  "fastReflection_QueryParamsResponse_WhichOneof
      = refl_WhichOneof ''medasdigital.tokenfactory.QueryParamsResponse''"

definition fastReflection_QueryParamsResponse_GetUnknown :: "ApiQueryParamsResponse option
    \<Rightarrow> refl_error + bytes" where
  "fastReflection_QueryParamsResponse_GetUnknown
      = refl_GetUnknown ApiQueryParamsResponse_unknownFields"

definition fastReflection_QueryParamsResponse_SetUnknown :: "ApiQueryParamsResponse option \<Rightarrow> bytes
    \<Rightarrow> refl_error + ApiQueryParamsResponse option" where
  "fastReflection_QueryParamsResponse_SetUnknown
      = refl_SetUnknown (\<lambda>raw m. m\<lparr>ApiQueryParamsResponse_unknownFields := raw\<rparr>)"

definition fastReflection_QueryParamsResponse_IsValid :: "ApiQueryParamsResponse option \<Rightarrow> bool"
    where
  "fastReflection_QueryParamsResponse_IsValid = refl_IsValid"

definition ApiQueryParamsResponse_GetParams :: "ApiQueryParamsResponse option \<Rightarrow> ApiParams option"
    where
  "ApiQueryParamsResponse_GetParams = getter None ApiQueryParamsResponse_Params"

definition ApiQueryParamsResponse_wire :: "(ApiParams \<Rightarrow> bytes) \<Rightarrow> ApiQueryParamsResponse
    \<Rightarrow> wire_field list" where
  "ApiQueryParamsResponse_wire enc1 m =
     w_message 1 enc1 (ApiQueryParamsResponse_Params m)"

lemma ApiQueryParamsResponse_contract:
  assumes R: "runtime_ok R"
    and N1: "nested_ok O1 enc1 ApiParams_zero good1"
  shows "pulsar_message R (ApiQueryParamsResponse_fields O1) ApiQueryParamsResponse_keep
      ApiQueryParamsResponse_unknownFields
    (\<lambda>m. m\<lparr>ApiQueryParamsResponse_unknownFields := []\<rparr>)
    ApiQueryParamsResponse_zero (\<lambda>m. pointer_good good1 (ApiQueryParamsResponse_Params m))
    (ApiQueryParamsResponse_fields_size R O1) (ApiQueryParamsResponse_writers R O1)
        (ApiQueryParamsResponse_wire enc1)"
proof unfold_locales
  show "runtime_ok R" by (rule R)
  show "writes (put_seq (ApiQueryParamsResponse_writers R O1 m)) (enc_fields
      (ApiQueryParamsResponse_wire enc1 m))" for m
  proof -
    have "list_all2 writes (ApiQueryParamsResponse_writers R O1 m)
        [enc_fields (w_message 1 enc1 (ApiQueryParamsResponse_Params m))]"
      by (simp add: ApiQueryParamsResponse_writers_def runtime_simps [OF R] writes_wire key_byte_def
          writes_nested [OF R N1])
    from writes_seq [OF this] show ?thesis by (simp add: ApiQueryParamsResponse_wire_def)
  qed
  show "ApiQueryParamsResponse_fields_size R O1 m
      = length (enc_fields (ApiQueryParamsResponse_wire enc1 m))" for m
    by (simp add: ApiQueryParamsResponse_fields_size_def ApiQueryParamsResponse_wire_def
        runtime_simps [OF R] length_nested [OF R N1])
  show "list_all wf_field (ApiQueryParamsResponse_wire enc1 m)" for m
    by (simp add: ApiQueryParamsResponse_wire_def)
  show "ApiQueryParamsResponse_fields O1 (of_nat (field_num x)) \<noteq> None"
      if "x \<in> set (ApiQueryParamsResponse_wire enc1 m)" for x m
    using that by (auto simp: ApiQueryParamsResponse_wire_def ApiQueryParamsResponse_fields_def
        dest!: num_wire)
  show "rfold (apply_field (ApiQueryParamsResponse_fields O1)) (ApiQueryParamsResponse_wire enc1 m)
      ApiQueryParamsResponse_zero = Inr (m\<lparr>ApiQueryParamsResponse_unknownFields := []\<rparr>)"
    if v: "pointer_good good1 (ApiQueryParamsResponse_Params m)"
        and g: "go_slice (enc_fields (ApiQueryParamsResponse_wire enc1 m))" for m
  proof -
    have 1: "rfold (apply_field (ApiQueryParamsResponse_fields O1)) (w_message 1 enc1
        (ApiQueryParamsResponse_Params m) @ rest) y
        = rfold (apply_field (ApiQueryParamsResponse_fields O1)) rest
            (y\<lparr>ApiQueryParamsResponse_Params := ApiQueryParamsResponse_Params m\<rparr>)"
            if "ApiQueryParamsResponse_Params y = None" for rest y
      by (rule rfold_nested_message [OF _ N1 v _ g, where sel = ApiQueryParamsResponse_Params
          and upd = "\<lambda>p m. m\<lparr>ApiQueryParamsResponse_Params := p\<rparr>"]) (use that in \<open>simp_all add:
              ApiQueryParamsResponse_fields_def ApiQueryParamsResponse_wire_def\<close>)
    show ?thesis
      using 1 [where rest = "[]", simplified] 1
      by (simp add: ApiQueryParamsResponse_wire_def ApiQueryParamsResponse_zero_def  rfold_wire)
  qed
  show "ApiQueryParamsResponse_keep (ApiQueryParamsResponse_unknownFields m)
      (m\<lparr>ApiQueryParamsResponse_unknownFields := []\<rparr>) = m" for m
    by (simp add: ApiQueryParamsResponse_keep_def)
  show "ApiQueryParamsResponse_keep b (ApiQueryParamsResponse_keep a m)
      = ApiQueryParamsResponse_keep (a @ b) m" for a b m
    by (simp add: ApiQueryParamsResponse_keep_def)
  show "dec s y \<noteq> Inl Panic" if "ApiQueryParamsResponse_fields O1 n = Some (name, FMessage dec)"
      and "go_slice s"
    for n name dec s y
    using that by (auto simp: ApiQueryParamsResponse_fields_def api_dec_no_panic [OF N1] split:
        if_splits)
qed

interpretation refl_QueryParamsResponse: pulsar_reflect
    "''medasdigital.tokenfactory.QueryParamsResponse''" "ApiQueryParamsResponse_refl"
  by (rule pulsar_reflectI) (simp add: ApiQueryParamsResponse_refl_def tbl_ok_simps as_Params_eq)

text \<open>The gogoproto message with the same fields.\<close>

definition ApiQueryParamsResponse_gogo :: "ApiQueryParamsResponse \<Rightarrow> QueryParamsResponse" where
  "ApiQueryParamsResponse_gogo m = \<lparr>QueryParamsResponse_Params
      = (case ApiQueryParamsResponse_Params m of None \<Rightarrow> Params | Some p \<Rightarrow> ApiParams_gogo p)\<rparr>"

lemma ApiQueryParamsResponse_agree:
  assumes R: "runtime_ok R"
    and N1: "nested_ok O1 enc1 ApiParams_zero good1"
    and S1: "\<forall>s p. go_slice s \<longrightarrow> norm ApiParams_gogo (opt_Unmarshal O1 s p)
        = norm id (Params_Unmarshal s (ApiParams_gogo p))"
  shows "pulsar_gogo R (ApiQueryParamsResponse_fields O1) ApiQueryParamsResponse_keep
      ApiQueryParamsResponse_unknownFields
    (\<lambda>m. m\<lparr>ApiQueryParamsResponse_unknownFields := []\<rparr>) ApiQueryParamsResponse_zero (\<lambda>m.
        pointer_good good1 (ApiQueryParamsResponse_Params m))
    (ApiQueryParamsResponse_fields_size R O1) (ApiQueryParamsResponse_writers R O1)
    (ApiQueryParamsResponse_wire enc1) QueryParamsResponse_fields QueryParamsResponse_zero
        QueryParamsResponse_Size QueryParamsResponse_MarshalToSizedBuffer QueryParamsResponse_wire
        ApiQueryParamsResponse_gogo"
  using ApiQueryParamsResponse_contract [OF R N1] query_params_response_pb.pb_message_axioms
proof (rule pulsar_gogo.intro)
  show "pulsar_gogo_axioms (ApiQueryParamsResponse_fields O1) ApiQueryParamsResponse_keep
      ApiQueryParamsResponse_zero QueryParamsResponse_fields QueryParamsResponse_zero
      ApiQueryParamsResponse_gogo"
  proof
    have 1: "field_sim ApiQueryParamsResponse_gogo
        (FMessage (api_dec_message O1 ApiParams_zero ApiQueryParamsResponse_Params (\<lambda>p m.
            m\<lparr>ApiQueryParamsResponse_Params := p\<rparr>)))
        (FMessage (\<lambda>s m. rbind (Params_Unmarshal s (QueryParamsResponse_Params m)) (\<lambda>x. Inr
            (m\<lparr>QueryParamsResponse_Params := x\<rparr>))))"
      by (rule sim_nested_message [where \<alpha> = ApiParams_gogo])
        (simp_all add: S1 ApiQueryParamsResponse_gogo_def ApiParams_gogo_def split: option.splits)
    show "fields_sim ApiQueryParamsResponse_gogo (ApiQueryParamsResponse_fields O1)
        QueryParamsResponse_fields"
      using 1 by (simp add: fields_sim_def ApiQueryParamsResponse_fields_def
          QueryParamsResponse_fields_def del: field_sim.simps(4))
  qed (simp_all add: ApiQueryParamsResponse_keep_def ApiQueryParamsResponse_gogo_def
      ApiQueryParamsResponse_zero_def QueryParamsResponse_zero_def)
qed

section \<open>QueryGetDenomRequest\<close>

text \<open>The request of \<open>Query/Denom\<close>.\<close>

record ApiQueryGetDenomRequest =
  ApiQueryGetDenomRequest_Denom :: gostring
  ApiQueryGetDenomRequest_unknownFields :: bytes

definition ApiQueryGetDenomRequest_zero :: "ApiQueryGetDenomRequest" where
  "ApiQueryGetDenomRequest_zero = \<lparr>ApiQueryGetDenomRequest_Denom = [],
      ApiQueryGetDenomRequest_unknownFields = []\<rparr>"

definition ApiQueryGetDenomRequest_fields_size :: "proto_runtime \<Rightarrow> ApiQueryGetDenomRequest \<Rightarrow> nat"
    where
  "ApiQueryGetDenomRequest_fields_size R m =
     api_size_string R (ApiQueryGetDenomRequest_Denom m)"

definition ApiQueryGetDenomRequest_size :: "proto_runtime \<Rightarrow> ApiQueryGetDenomRequest option \<Rightarrow> nat"
    where
  "ApiQueryGetDenomRequest_size R = pulsar_size ApiQueryGetDenomRequest_unknownFields
      (ApiQueryGetDenomRequest_fields_size R)"

definition ApiQueryGetDenomRequest_writers :: "proto_runtime \<Rightarrow> ApiQueryGetDenomRequest
    \<Rightarrow> writer list" where
  "ApiQueryGetDenomRequest_writers R m =
     [api_string R 0x0a (ApiQueryGetDenomRequest_Denom m)]"

definition ApiQueryGetDenomRequest_marshal :: "proto_runtime \<Rightarrow> bytes option
    \<Rightarrow> ApiQueryGetDenomRequest option \<Rightarrow> pb_error + bytes option" where
  "ApiQueryGetDenomRequest_marshal R = pulsar_marshal ApiQueryGetDenomRequest_unknownFields
      (ApiQueryGetDenomRequest_fields_size R) (ApiQueryGetDenomRequest_writers R)"

definition ApiQueryGetDenomRequest_keep :: "bytes \<Rightarrow> ApiQueryGetDenomRequest
    \<Rightarrow> ApiQueryGetDenomRequest" where
  "ApiQueryGetDenomRequest_keep raw m = m\<lparr>ApiQueryGetDenomRequest_unknownFields :=
      ApiQueryGetDenomRequest_unknownFields m @ raw\<rparr>"

definition ApiQueryGetDenomRequest_fields :: "ApiQueryGetDenomRequest fields" where
  "ApiQueryGetDenomRequest_fields n =
     (if n = 1 then Some (''Denom'', FString (\<lambda>s m. m\<lparr>ApiQueryGetDenomRequest_Denom := s\<rparr>))
      else None)"

definition ApiQueryGetDenomRequest_unmarshal :: "proto_runtime \<Rightarrow> bool \<Rightarrow> bytes
    \<Rightarrow> ApiQueryGetDenomRequest option \<Rightarrow> (pb_error + ApiQueryGetDenomRequest option) option" where
  "ApiQueryGetDenomRequest_unmarshal R DiscardUnknown =
     pulsar_unmarshal R DiscardUnknown ''QueryGetDenomRequest'' ApiQueryGetDenomRequest_fields
         ApiQueryGetDenomRequest_keep"

definition ApiQueryGetDenomRequest_refl :: "(ApiQueryGetDenomRequest, tf_ref) rtable" where
  "ApiQueryGetDenomRequest_refl =
     [(''denom'', RString ApiQueryGetDenomRequest_Denom (\<lambda>s m. m\<lparr>ApiQueryGetDenomRequest_Denom :=
         s\<rparr>))]"

definition fastReflection_QueryGetDenomRequest_Range :: "ApiQueryGetDenomRequest option \<Rightarrow> (string
    \<Rightarrow> tf_ref pvalue \<Rightarrow> 's \<Rightarrow> bool \<times> 's) \<Rightarrow> 's \<Rightarrow> refl_error + 's" where
  "fastReflection_QueryGetDenomRequest_Range
      = refl_Range ''medasdigital.tokenfactory.QueryGetDenomRequest'' ApiQueryGetDenomRequest_refl"

definition fastReflection_QueryGetDenomRequest_Has :: "ApiQueryGetDenomRequest option
    \<Rightarrow> field_descriptor \<Rightarrow> refl_error + bool" where
  "fastReflection_QueryGetDenomRequest_Has
      = refl_Has ''medasdigital.tokenfactory.QueryGetDenomRequest'' ApiQueryGetDenomRequest_refl"

definition fastReflection_QueryGetDenomRequest_Clear :: "ApiQueryGetDenomRequest option
    \<Rightarrow> field_descriptor \<Rightarrow> refl_error + ApiQueryGetDenomRequest option" where
  "fastReflection_QueryGetDenomRequest_Clear
      = refl_Clear ''medasdigital.tokenfactory.QueryGetDenomRequest'' ApiQueryGetDenomRequest_refl"

definition fastReflection_QueryGetDenomRequest_Get :: "ApiQueryGetDenomRequest option
    \<Rightarrow> field_descriptor \<Rightarrow> refl_error + tf_ref pvalue" where
  "fastReflection_QueryGetDenomRequest_Get
      = refl_Get ''medasdigital.tokenfactory.QueryGetDenomRequest'' ApiQueryGetDenomRequest_refl"

definition fastReflection_QueryGetDenomRequest_Set :: "ApiQueryGetDenomRequest option
    \<Rightarrow> field_descriptor \<Rightarrow> tf_ref pvalue \<Rightarrow> refl_error + ApiQueryGetDenomRequest option" where
  "fastReflection_QueryGetDenomRequest_Set
      = refl_Set ''medasdigital.tokenfactory.QueryGetDenomRequest'' ApiQueryGetDenomRequest_refl"

definition fastReflection_QueryGetDenomRequest_Mutable :: "ApiQueryGetDenomRequest option
    \<Rightarrow> field_descriptor \<Rightarrow> refl_error + ApiQueryGetDenomRequest option \<times> tf_ref pvalue" where
  "fastReflection_QueryGetDenomRequest_Mutable
      = refl_Mutable ''medasdigital.tokenfactory.QueryGetDenomRequest''
      ApiQueryGetDenomRequest_refl"

definition fastReflection_QueryGetDenomRequest_NewField :: "field_descriptor \<Rightarrow> refl_error
    + tf_ref pvalue" where
  "fastReflection_QueryGetDenomRequest_NewField
      = refl_NewField ''medasdigital.tokenfactory.QueryGetDenomRequest''
      ApiQueryGetDenomRequest_refl"

definition fastReflection_QueryGetDenomRequest_WhichOneof :: "string \<Rightarrow> refl_error
    + field_descriptor" where
  "fastReflection_QueryGetDenomRequest_WhichOneof
      = refl_WhichOneof ''medasdigital.tokenfactory.QueryGetDenomRequest''"

definition fastReflection_QueryGetDenomRequest_GetUnknown :: "ApiQueryGetDenomRequest option
    \<Rightarrow> refl_error + bytes" where
  "fastReflection_QueryGetDenomRequest_GetUnknown
      = refl_GetUnknown ApiQueryGetDenomRequest_unknownFields"

definition fastReflection_QueryGetDenomRequest_SetUnknown :: "ApiQueryGetDenomRequest option \<Rightarrow> bytes
    \<Rightarrow> refl_error + ApiQueryGetDenomRequest option" where
  "fastReflection_QueryGetDenomRequest_SetUnknown
      = refl_SetUnknown (\<lambda>raw m. m\<lparr>ApiQueryGetDenomRequest_unknownFields := raw\<rparr>)"

definition fastReflection_QueryGetDenomRequest_IsValid :: "ApiQueryGetDenomRequest option \<Rightarrow> bool"
    where
  "fastReflection_QueryGetDenomRequest_IsValid = refl_IsValid"

definition ApiQueryGetDenomRequest_GetDenom :: "ApiQueryGetDenomRequest option \<Rightarrow> gostring" where
  "ApiQueryGetDenomRequest_GetDenom = getter [] ApiQueryGetDenomRequest_Denom"

definition ApiQueryGetDenomRequest_wire :: "ApiQueryGetDenomRequest \<Rightarrow> wire_field list" where
  "ApiQueryGetDenomRequest_wire m =
     w_string 1 (ApiQueryGetDenomRequest_Denom m)"

lemma ApiQueryGetDenomRequest_contract:
  assumes R: "runtime_ok R"
  shows "pulsar_message R ApiQueryGetDenomRequest_fields ApiQueryGetDenomRequest_keep
      ApiQueryGetDenomRequest_unknownFields
    (\<lambda>m. m\<lparr>ApiQueryGetDenomRequest_unknownFields := []\<rparr>)
    ApiQueryGetDenomRequest_zero (\<lambda>m. True)
    (ApiQueryGetDenomRequest_fields_size R) (ApiQueryGetDenomRequest_writers R)
        ApiQueryGetDenomRequest_wire"
proof unfold_locales
  show "runtime_ok R" by (rule R)
  show "writes (put_seq (ApiQueryGetDenomRequest_writers R m)) (enc_fields
      (ApiQueryGetDenomRequest_wire m))" for m
  proof -
    have "list_all2 writes (ApiQueryGetDenomRequest_writers R m)
        [enc_fields (w_string 1 (ApiQueryGetDenomRequest_Denom m))]"
      by (simp add: ApiQueryGetDenomRequest_writers_def runtime_simps [OF R] writes_wire
          key_byte_def)
    from writes_seq [OF this] show ?thesis by (simp add: ApiQueryGetDenomRequest_wire_def)
  qed
  show "ApiQueryGetDenomRequest_fields_size R m
      = length (enc_fields (ApiQueryGetDenomRequest_wire m))" for m
    by (simp add: ApiQueryGetDenomRequest_fields_size_def ApiQueryGetDenomRequest_wire_def
        runtime_simps [OF R])
  show "list_all wf_field (ApiQueryGetDenomRequest_wire m)" for m
    by (simp add: ApiQueryGetDenomRequest_wire_def)
  show "ApiQueryGetDenomRequest_fields (of_nat (field_num x)) \<noteq> None"
      if "x \<in> set (ApiQueryGetDenomRequest_wire m)" for x m
    using that by (auto simp: ApiQueryGetDenomRequest_wire_def ApiQueryGetDenomRequest_fields_def
        dest!: num_wire)
  show "rfold (apply_field ApiQueryGetDenomRequest_fields) (ApiQueryGetDenomRequest_wire m)
      ApiQueryGetDenomRequest_zero = Inr (m\<lparr>ApiQueryGetDenomRequest_unknownFields := []\<rparr>)" for m
    by (simp add: ApiQueryGetDenomRequest_wire_def ApiQueryGetDenomRequest_zero_def
        ApiQueryGetDenomRequest_fields_def rfold_wire)
  show "ApiQueryGetDenomRequest_keep (ApiQueryGetDenomRequest_unknownFields m)
      (m\<lparr>ApiQueryGetDenomRequest_unknownFields := []\<rparr>) = m" for m
    by (simp add: ApiQueryGetDenomRequest_keep_def)
  show "ApiQueryGetDenomRequest_keep b (ApiQueryGetDenomRequest_keep a m)
      = ApiQueryGetDenomRequest_keep (a @ b) m" for a b m
    by (simp add: ApiQueryGetDenomRequest_keep_def)
  show "dec s y \<noteq> Inl Panic" if "ApiQueryGetDenomRequest_fields n = Some (name, FMessage dec)"
      and "go_slice s"
    for n name dec s y
    using that by (auto simp: ApiQueryGetDenomRequest_fields_def split: if_splits)
qed

interpretation refl_QueryGetDenomRequest: pulsar_reflect
    "''medasdigital.tokenfactory.QueryGetDenomRequest''" "ApiQueryGetDenomRequest_refl"
  by (rule pulsar_reflectI) (simp add: ApiQueryGetDenomRequest_refl_def tbl_ok_simps)

text \<open>The gogoproto message with the same fields.\<close>

definition ApiQueryGetDenomRequest_gogo :: "ApiQueryGetDenomRequest \<Rightarrow> QueryGetDenomRequest" where
  "ApiQueryGetDenomRequest_gogo m = \<lparr>QueryGetDenomRequest_Denom = ApiQueryGetDenomRequest_Denom m\<rparr>"

lemma ApiQueryGetDenomRequest_agree:
  assumes R: "runtime_ok R"
  shows "pulsar_gogo R ApiQueryGetDenomRequest_fields ApiQueryGetDenomRequest_keep
      ApiQueryGetDenomRequest_unknownFields
    (\<lambda>m. m\<lparr>ApiQueryGetDenomRequest_unknownFields := []\<rparr>) ApiQueryGetDenomRequest_zero (\<lambda>m. True)
    (ApiQueryGetDenomRequest_fields_size R) (ApiQueryGetDenomRequest_writers R)
        ApiQueryGetDenomRequest_wire
    QueryGetDenomRequest_fields QueryGetDenomRequest_zero QueryGetDenomRequest_Size
        QueryGetDenomRequest_MarshalToSizedBuffer QueryGetDenomRequest_wire
        ApiQueryGetDenomRequest_gogo"
  using ApiQueryGetDenomRequest_contract [OF R] query_get_denom_request_pb.pb_message_axioms
proof (rule pulsar_gogo.intro)
  show "pulsar_gogo_axioms ApiQueryGetDenomRequest_fields ApiQueryGetDenomRequest_keep
      ApiQueryGetDenomRequest_zero QueryGetDenomRequest_fields QueryGetDenomRequest_zero
      ApiQueryGetDenomRequest_gogo"
    by unfold_locales (simp_all add: fields_sim_def ApiQueryGetDenomRequest_fields_def
        QueryGetDenomRequest_fields_def ApiQueryGetDenomRequest_keep_def
        ApiQueryGetDenomRequest_gogo_def
        ApiQueryGetDenomRequest_zero_def QueryGetDenomRequest_zero_def)
qed

interpretation api_QueryGetDenomRequest: pulsar_gogo gogo_runtime "''QueryGetDenomRequest''"
    ApiQueryGetDenomRequest_fields ApiQueryGetDenomRequest_keep
    ApiQueryGetDenomRequest_unknownFields
  "\<lambda>m. m\<lparr>ApiQueryGetDenomRequest_unknownFields := []\<rparr>" ApiQueryGetDenomRequest_zero "\<lambda>m. True"
  "ApiQueryGetDenomRequest_fields_size gogo_runtime" "ApiQueryGetDenomRequest_writers gogo_runtime"
      ApiQueryGetDenomRequest_wire
  query_file QueryGetDenomRequest_fields QueryGetDenomRequest_zero QueryGetDenomRequest_Size
      QueryGetDenomRequest_MarshalToSizedBuffer QueryGetDenomRequest_wire
      ApiQueryGetDenomRequest_gogo
  by (rule ApiQueryGetDenomRequest_agree [OF gogo_runtime_ok])

section \<open>QueryGetDenomResponse\<close>

text \<open>Its response.\<close>

record ApiQueryGetDenomResponse =
  ApiQueryGetDenomResponse_Denom :: "ApiDenom option"
  ApiQueryGetDenomResponse_unknownFields :: bytes

definition ApiQueryGetDenomResponse_zero :: "ApiQueryGetDenomResponse" where
  "ApiQueryGetDenomResponse_zero = \<lparr>ApiQueryGetDenomResponse_Denom = None,
      ApiQueryGetDenomResponse_unknownFields = []\<rparr>"

definition ApiQueryGetDenomResponse_fields_size :: "proto_runtime \<Rightarrow> ApiDenom options
    \<Rightarrow> ApiQueryGetDenomResponse \<Rightarrow> nat" where
  "ApiQueryGetDenomResponse_fields_size R O1 m =
     api_size_message R O1 (ApiQueryGetDenomResponse_Denom m)"

definition ApiQueryGetDenomResponse_size :: "proto_runtime \<Rightarrow> ApiDenom options
    \<Rightarrow> ApiQueryGetDenomResponse option \<Rightarrow> nat" where
  "ApiQueryGetDenomResponse_size R O1 = pulsar_size ApiQueryGetDenomResponse_unknownFields
      (ApiQueryGetDenomResponse_fields_size R O1)"

definition ApiQueryGetDenomResponse_writers :: "proto_runtime \<Rightarrow> ApiDenom options
    \<Rightarrow> ApiQueryGetDenomResponse \<Rightarrow> writer list" where
  "ApiQueryGetDenomResponse_writers R O1 m =
     [api_message R O1 0x0a (ApiQueryGetDenomResponse_Denom m)]"

definition ApiQueryGetDenomResponse_marshal :: "proto_runtime \<Rightarrow> ApiDenom options \<Rightarrow> bytes option
    \<Rightarrow> ApiQueryGetDenomResponse option \<Rightarrow> pb_error + bytes option" where
  "ApiQueryGetDenomResponse_marshal R O1 = pulsar_marshal ApiQueryGetDenomResponse_unknownFields
      (ApiQueryGetDenomResponse_fields_size R O1) (ApiQueryGetDenomResponse_writers R O1)"

definition ApiQueryGetDenomResponse_keep :: "bytes \<Rightarrow> ApiQueryGetDenomResponse
    \<Rightarrow> ApiQueryGetDenomResponse" where
  "ApiQueryGetDenomResponse_keep raw m = m\<lparr>ApiQueryGetDenomResponse_unknownFields :=
      ApiQueryGetDenomResponse_unknownFields m @ raw\<rparr>"

definition ApiQueryGetDenomResponse_fields :: "ApiDenom options \<Rightarrow> ApiQueryGetDenomResponse fields"
    where
  "ApiQueryGetDenomResponse_fields O1 n =
     (if n = 1 then Some (''Denom'', FMessage (api_dec_message O1 ApiDenom_zero
         ApiQueryGetDenomResponse_Denom
          (\<lambda>p m. m\<lparr>ApiQueryGetDenomResponse_Denom := p\<rparr>)))
      else None)"

definition ApiQueryGetDenomResponse_unmarshal :: "proto_runtime \<Rightarrow> bool \<Rightarrow> ApiDenom options \<Rightarrow> bytes
    \<Rightarrow> ApiQueryGetDenomResponse option \<Rightarrow> (pb_error + ApiQueryGetDenomResponse option) option" where
  "ApiQueryGetDenomResponse_unmarshal R DiscardUnknown O1 =
     pulsar_unmarshal R DiscardUnknown ''QueryGetDenomResponse'' (ApiQueryGetDenomResponse_fields
         O1) ApiQueryGetDenomResponse_keep"

definition ApiQueryGetDenomResponse_refl :: "(ApiQueryGetDenomResponse, tf_ref) rtable" where
  "ApiQueryGetDenomResponse_refl =
     [(''denom'', RPointer RefDenom as_Denom ApiDenom_zero ApiQueryGetDenomResponse_Denom
        (\<lambda>p m. m\<lparr>ApiQueryGetDenomResponse_Denom := p\<rparr>))]"

definition fastReflection_QueryGetDenomResponse_Range :: "ApiQueryGetDenomResponse option \<Rightarrow> (string
    \<Rightarrow> tf_ref pvalue \<Rightarrow> 's \<Rightarrow> bool \<times> 's) \<Rightarrow> 's \<Rightarrow> refl_error + 's" where
  "fastReflection_QueryGetDenomResponse_Range
      = refl_Range ''medasdigital.tokenfactory.QueryGetDenomResponse''
      ApiQueryGetDenomResponse_refl"

definition fastReflection_QueryGetDenomResponse_Has :: "ApiQueryGetDenomResponse option
    \<Rightarrow> field_descriptor \<Rightarrow> refl_error + bool" where
  "fastReflection_QueryGetDenomResponse_Has
      = refl_Has ''medasdigital.tokenfactory.QueryGetDenomResponse'' ApiQueryGetDenomResponse_refl"

definition fastReflection_QueryGetDenomResponse_Clear :: "ApiQueryGetDenomResponse option
    \<Rightarrow> field_descriptor \<Rightarrow> refl_error + ApiQueryGetDenomResponse option" where
  "fastReflection_QueryGetDenomResponse_Clear
      = refl_Clear ''medasdigital.tokenfactory.QueryGetDenomResponse''
      ApiQueryGetDenomResponse_refl"

definition fastReflection_QueryGetDenomResponse_Get :: "ApiQueryGetDenomResponse option
    \<Rightarrow> field_descriptor \<Rightarrow> refl_error + tf_ref pvalue" where
  "fastReflection_QueryGetDenomResponse_Get
      = refl_Get ''medasdigital.tokenfactory.QueryGetDenomResponse'' ApiQueryGetDenomResponse_refl"

definition fastReflection_QueryGetDenomResponse_Set :: "ApiQueryGetDenomResponse option
    \<Rightarrow> field_descriptor \<Rightarrow> tf_ref pvalue \<Rightarrow> refl_error + ApiQueryGetDenomResponse option" where
  "fastReflection_QueryGetDenomResponse_Set
      = refl_Set ''medasdigital.tokenfactory.QueryGetDenomResponse'' ApiQueryGetDenomResponse_refl"

definition fastReflection_QueryGetDenomResponse_Mutable :: "ApiQueryGetDenomResponse option
    \<Rightarrow> field_descriptor \<Rightarrow> refl_error + ApiQueryGetDenomResponse option \<times> tf_ref pvalue" where
  "fastReflection_QueryGetDenomResponse_Mutable
      = refl_Mutable ''medasdigital.tokenfactory.QueryGetDenomResponse''
      ApiQueryGetDenomResponse_refl"

definition fastReflection_QueryGetDenomResponse_NewField :: "field_descriptor \<Rightarrow> refl_error
    + tf_ref pvalue" where
  "fastReflection_QueryGetDenomResponse_NewField
      = refl_NewField ''medasdigital.tokenfactory.QueryGetDenomResponse''
      ApiQueryGetDenomResponse_refl"

definition fastReflection_QueryGetDenomResponse_WhichOneof :: "string \<Rightarrow> refl_error
    + field_descriptor" where
  "fastReflection_QueryGetDenomResponse_WhichOneof
      = refl_WhichOneof ''medasdigital.tokenfactory.QueryGetDenomResponse''"

definition fastReflection_QueryGetDenomResponse_GetUnknown :: "ApiQueryGetDenomResponse option
    \<Rightarrow> refl_error + bytes" where
  "fastReflection_QueryGetDenomResponse_GetUnknown
      = refl_GetUnknown ApiQueryGetDenomResponse_unknownFields"

definition fastReflection_QueryGetDenomResponse_SetUnknown :: "ApiQueryGetDenomResponse option
    \<Rightarrow> bytes \<Rightarrow> refl_error + ApiQueryGetDenomResponse option" where
  "fastReflection_QueryGetDenomResponse_SetUnknown
      = refl_SetUnknown (\<lambda>raw m. m\<lparr>ApiQueryGetDenomResponse_unknownFields := raw\<rparr>)"

definition fastReflection_QueryGetDenomResponse_IsValid :: "ApiQueryGetDenomResponse option \<Rightarrow> bool"
    where
  "fastReflection_QueryGetDenomResponse_IsValid = refl_IsValid"

definition ApiQueryGetDenomResponse_GetDenom :: "ApiQueryGetDenomResponse option \<Rightarrow> ApiDenom option"
    where
  "ApiQueryGetDenomResponse_GetDenom = getter None ApiQueryGetDenomResponse_Denom"

definition ApiQueryGetDenomResponse_wire :: "(ApiDenom \<Rightarrow> bytes) \<Rightarrow> ApiQueryGetDenomResponse
    \<Rightarrow> wire_field list" where
  "ApiQueryGetDenomResponse_wire enc1 m =
     w_message 1 enc1 (ApiQueryGetDenomResponse_Denom m)"

lemma ApiQueryGetDenomResponse_contract:
  assumes R: "runtime_ok R"
    and N1: "nested_ok O1 enc1 ApiDenom_zero good1"
  shows "pulsar_message R (ApiQueryGetDenomResponse_fields O1) ApiQueryGetDenomResponse_keep
      ApiQueryGetDenomResponse_unknownFields
    (\<lambda>m. m\<lparr>ApiQueryGetDenomResponse_unknownFields := []\<rparr>)
    ApiQueryGetDenomResponse_zero (\<lambda>m. pointer_good good1 (ApiQueryGetDenomResponse_Denom m))
    (ApiQueryGetDenomResponse_fields_size R O1) (ApiQueryGetDenomResponse_writers R O1)
        (ApiQueryGetDenomResponse_wire enc1)"
proof unfold_locales
  show "runtime_ok R" by (rule R)
  show "writes (put_seq (ApiQueryGetDenomResponse_writers R O1 m)) (enc_fields
      (ApiQueryGetDenomResponse_wire enc1 m))" for m
  proof -
    have "list_all2 writes (ApiQueryGetDenomResponse_writers R O1 m)
        [enc_fields (w_message 1 enc1 (ApiQueryGetDenomResponse_Denom m))]"
      by (simp add: ApiQueryGetDenomResponse_writers_def runtime_simps [OF R] writes_wire
          key_byte_def writes_nested [OF R N1])
    from writes_seq [OF this] show ?thesis by (simp add: ApiQueryGetDenomResponse_wire_def)
  qed
  show "ApiQueryGetDenomResponse_fields_size R O1 m
      = length (enc_fields (ApiQueryGetDenomResponse_wire enc1 m))" for m
    by (simp add: ApiQueryGetDenomResponse_fields_size_def ApiQueryGetDenomResponse_wire_def
        runtime_simps [OF R] length_nested [OF R N1])
  show "list_all wf_field (ApiQueryGetDenomResponse_wire enc1 m)" for m
    by (simp add: ApiQueryGetDenomResponse_wire_def)
  show "ApiQueryGetDenomResponse_fields O1 (of_nat (field_num x)) \<noteq> None"
      if "x \<in> set (ApiQueryGetDenomResponse_wire enc1 m)" for x m
    using that by (auto simp: ApiQueryGetDenomResponse_wire_def ApiQueryGetDenomResponse_fields_def
        dest!: num_wire)
  show "rfold (apply_field (ApiQueryGetDenomResponse_fields O1)) (ApiQueryGetDenomResponse_wire enc1
      m) ApiQueryGetDenomResponse_zero = Inr (m\<lparr>ApiQueryGetDenomResponse_unknownFields := []\<rparr>)"
    if v: "pointer_good good1 (ApiQueryGetDenomResponse_Denom m)"
        and g: "go_slice (enc_fields (ApiQueryGetDenomResponse_wire enc1 m))" for m
  proof -
    have 1: "rfold (apply_field (ApiQueryGetDenomResponse_fields O1)) (w_message 1 enc1
        (ApiQueryGetDenomResponse_Denom m) @ rest) y
        = rfold (apply_field (ApiQueryGetDenomResponse_fields O1)) rest
            (y\<lparr>ApiQueryGetDenomResponse_Denom := ApiQueryGetDenomResponse_Denom m\<rparr>)"
            if "ApiQueryGetDenomResponse_Denom y = None" for rest y
      by (rule rfold_nested_message [OF _ N1 v _ g, where sel = ApiQueryGetDenomResponse_Denom
          and upd = "\<lambda>p m. m\<lparr>ApiQueryGetDenomResponse_Denom := p\<rparr>"]) (use that in \<open>simp_all add:
              ApiQueryGetDenomResponse_fields_def ApiQueryGetDenomResponse_wire_def\<close>)
    show ?thesis
      using 1 [where rest = "[]", simplified] 1
      by (simp add: ApiQueryGetDenomResponse_wire_def ApiQueryGetDenomResponse_zero_def  rfold_wire)
  qed
  show "ApiQueryGetDenomResponse_keep (ApiQueryGetDenomResponse_unknownFields m)
      (m\<lparr>ApiQueryGetDenomResponse_unknownFields := []\<rparr>) = m" for m
    by (simp add: ApiQueryGetDenomResponse_keep_def)
  show "ApiQueryGetDenomResponse_keep b (ApiQueryGetDenomResponse_keep a m)
      = ApiQueryGetDenomResponse_keep (a @ b) m" for a b m
    by (simp add: ApiQueryGetDenomResponse_keep_def)
  show "dec s y \<noteq> Inl Panic" if "ApiQueryGetDenomResponse_fields O1 n = Some (name, FMessage dec)"
      and "go_slice s"
    for n name dec s y
    using that by (auto simp: ApiQueryGetDenomResponse_fields_def api_dec_no_panic [OF N1] split:
        if_splits)
qed

interpretation refl_QueryGetDenomResponse: pulsar_reflect
    "''medasdigital.tokenfactory.QueryGetDenomResponse''" "ApiQueryGetDenomResponse_refl"
  by (rule pulsar_reflectI) (simp add: ApiQueryGetDenomResponse_refl_def tbl_ok_simps as_Denom_eq)

section \<open>QueryAllDenomRequest\<close>

text \<open>The request of \<open>Query/DenomAll\<close>.\<close>

record 'p ApiQueryAllDenomRequest =
  ApiQueryAllDenomRequest_Pagination :: "'p option"
  ApiQueryAllDenomRequest_unknownFields :: bytes

definition ApiQueryAllDenomRequest_zero :: "'p ApiQueryAllDenomRequest" where
  "ApiQueryAllDenomRequest_zero = \<lparr>ApiQueryAllDenomRequest_Pagination = None,
      ApiQueryAllDenomRequest_unknownFields = []\<rparr>"

definition ApiQueryAllDenomRequest_fields_size :: "proto_runtime \<Rightarrow> 'p options
    \<Rightarrow> 'p ApiQueryAllDenomRequest \<Rightarrow> nat" where
  "ApiQueryAllDenomRequest_fields_size R O1 m =
     api_size_message R O1 (ApiQueryAllDenomRequest_Pagination m)"

definition ApiQueryAllDenomRequest_size :: "proto_runtime \<Rightarrow> 'p options
    \<Rightarrow> 'p ApiQueryAllDenomRequest option \<Rightarrow> nat" where
  "ApiQueryAllDenomRequest_size R O1 = pulsar_size ApiQueryAllDenomRequest_unknownFields
      (ApiQueryAllDenomRequest_fields_size R O1)"

definition ApiQueryAllDenomRequest_writers :: "proto_runtime \<Rightarrow> 'p options
    \<Rightarrow> 'p ApiQueryAllDenomRequest \<Rightarrow> writer list" where
  "ApiQueryAllDenomRequest_writers R O1 m =
     [api_message R O1 0x0a (ApiQueryAllDenomRequest_Pagination m)]"

definition ApiQueryAllDenomRequest_marshal :: "proto_runtime \<Rightarrow> 'p options \<Rightarrow> bytes option
    \<Rightarrow> 'p ApiQueryAllDenomRequest option \<Rightarrow> pb_error + bytes option" where
  "ApiQueryAllDenomRequest_marshal R O1 = pulsar_marshal ApiQueryAllDenomRequest_unknownFields
      (ApiQueryAllDenomRequest_fields_size R O1) (ApiQueryAllDenomRequest_writers R O1)"

definition ApiQueryAllDenomRequest_keep :: "bytes \<Rightarrow> 'p ApiQueryAllDenomRequest
    \<Rightarrow> 'p ApiQueryAllDenomRequest" where
  "ApiQueryAllDenomRequest_keep raw m = m\<lparr>ApiQueryAllDenomRequest_unknownFields :=
      ApiQueryAllDenomRequest_unknownFields m @ raw\<rparr>"

definition ApiQueryAllDenomRequest_fields :: "'p \<Rightarrow> 'p options \<Rightarrow> 'p ApiQueryAllDenomRequest fields"
    where
  "ApiQueryAllDenomRequest_fields zero O1 n =
     (if n = 1 then Some (''Pagination'',
         FMessage (api_dec_message O1 zero ApiQueryAllDenomRequest_Pagination
          (\<lambda>p m. m\<lparr>ApiQueryAllDenomRequest_Pagination := p\<rparr>)))
      else None)"

definition ApiQueryAllDenomRequest_unmarshal :: "proto_runtime \<Rightarrow> bool \<Rightarrow> 'p \<Rightarrow> 'p options \<Rightarrow> bytes
    \<Rightarrow> 'p ApiQueryAllDenomRequest option \<Rightarrow> (pb_error + 'p ApiQueryAllDenomRequest option) option"
    where
  "ApiQueryAllDenomRequest_unmarshal R DiscardUnknown zero O1 =
     pulsar_unmarshal R DiscardUnknown ''QueryAllDenomRequest'' (ApiQueryAllDenomRequest_fields zero
         O1) ApiQueryAllDenomRequest_keep"

definition ApiQueryAllDenomRequest_refl :: "'p \<Rightarrow> ('p ApiQueryAllDenomRequest, 'p page_ref) rtable"
    where
  "ApiQueryAllDenomRequest_refl zero =
     [(''pagination'', RPointer RefPage as_page zero ApiQueryAllDenomRequest_Pagination
        (\<lambda>p m. m\<lparr>ApiQueryAllDenomRequest_Pagination := p\<rparr>))]"

definition fastReflection_QueryAllDenomRequest_Range :: "'p \<Rightarrow> 'p ApiQueryAllDenomRequest option
    \<Rightarrow> (string \<Rightarrow> 'p page_ref pvalue \<Rightarrow> 's \<Rightarrow> bool \<times> 's) \<Rightarrow> 's \<Rightarrow> refl_error + 's" where
  "fastReflection_QueryAllDenomRequest_Range zero
      = refl_Range ''medasdigital.tokenfactory.QueryAllDenomRequest'' (ApiQueryAllDenomRequest_refl
      zero)"

definition fastReflection_QueryAllDenomRequest_Has :: "'p \<Rightarrow> 'p ApiQueryAllDenomRequest option
    \<Rightarrow> field_descriptor \<Rightarrow> refl_error + bool" where
  "fastReflection_QueryAllDenomRequest_Has zero
      = refl_Has ''medasdigital.tokenfactory.QueryAllDenomRequest'' (ApiQueryAllDenomRequest_refl
      zero)"

definition fastReflection_QueryAllDenomRequest_Clear :: "'p \<Rightarrow> 'p ApiQueryAllDenomRequest option
    \<Rightarrow> field_descriptor \<Rightarrow> refl_error + 'p ApiQueryAllDenomRequest option" where
  "fastReflection_QueryAllDenomRequest_Clear zero
      = refl_Clear ''medasdigital.tokenfactory.QueryAllDenomRequest'' (ApiQueryAllDenomRequest_refl
      zero)"

definition fastReflection_QueryAllDenomRequest_Get :: "'p \<Rightarrow> 'p ApiQueryAllDenomRequest option
    \<Rightarrow> field_descriptor \<Rightarrow> refl_error + 'p page_ref pvalue" where
  "fastReflection_QueryAllDenomRequest_Get zero
      = refl_Get ''medasdigital.tokenfactory.QueryAllDenomRequest'' (ApiQueryAllDenomRequest_refl
      zero)"

definition fastReflection_QueryAllDenomRequest_Set :: "'p \<Rightarrow> 'p ApiQueryAllDenomRequest option
    \<Rightarrow> field_descriptor \<Rightarrow> 'p page_ref pvalue \<Rightarrow> refl_error + 'p ApiQueryAllDenomRequest option" where
  "fastReflection_QueryAllDenomRequest_Set zero
      = refl_Set ''medasdigital.tokenfactory.QueryAllDenomRequest'' (ApiQueryAllDenomRequest_refl
      zero)"

definition fastReflection_QueryAllDenomRequest_Mutable :: "'p \<Rightarrow> 'p ApiQueryAllDenomRequest option
    \<Rightarrow> field_descriptor \<Rightarrow> refl_error + 'p ApiQueryAllDenomRequest option \<times> 'p page_ref pvalue" where
  "fastReflection_QueryAllDenomRequest_Mutable zero
      = refl_Mutable ''medasdigital.tokenfactory.QueryAllDenomRequest''
      (ApiQueryAllDenomRequest_refl zero)"

definition fastReflection_QueryAllDenomRequest_NewField :: "'p \<Rightarrow> field_descriptor \<Rightarrow> refl_error
    + 'p page_ref pvalue" where
  "fastReflection_QueryAllDenomRequest_NewField zero
      = refl_NewField ''medasdigital.tokenfactory.QueryAllDenomRequest''
      (ApiQueryAllDenomRequest_refl zero)"

definition fastReflection_QueryAllDenomRequest_WhichOneof :: "string \<Rightarrow> refl_error
    + field_descriptor" where
  "fastReflection_QueryAllDenomRequest_WhichOneof
      = refl_WhichOneof ''medasdigital.tokenfactory.QueryAllDenomRequest''"

definition fastReflection_QueryAllDenomRequest_GetUnknown :: "'p ApiQueryAllDenomRequest option
    \<Rightarrow> refl_error + bytes" where
  "fastReflection_QueryAllDenomRequest_GetUnknown
      = refl_GetUnknown ApiQueryAllDenomRequest_unknownFields"

definition fastReflection_QueryAllDenomRequest_SetUnknown :: "'p ApiQueryAllDenomRequest option
    \<Rightarrow> bytes \<Rightarrow> refl_error + 'p ApiQueryAllDenomRequest option" where
  "fastReflection_QueryAllDenomRequest_SetUnknown
      = refl_SetUnknown (\<lambda>raw m. m\<lparr>ApiQueryAllDenomRequest_unknownFields := raw\<rparr>)"

definition fastReflection_QueryAllDenomRequest_IsValid :: "'p ApiQueryAllDenomRequest option \<Rightarrow> bool"
    where
  "fastReflection_QueryAllDenomRequest_IsValid = refl_IsValid"

definition ApiQueryAllDenomRequest_GetPagination :: "'p ApiQueryAllDenomRequest option \<Rightarrow> 'p option"
    where
  "ApiQueryAllDenomRequest_GetPagination = getter None ApiQueryAllDenomRequest_Pagination"

definition ApiQueryAllDenomRequest_wire :: "('p \<Rightarrow> bytes) \<Rightarrow> 'p ApiQueryAllDenomRequest
    \<Rightarrow> wire_field list" where
  "ApiQueryAllDenomRequest_wire enc1 m =
     w_message 1 enc1 (ApiQueryAllDenomRequest_Pagination m)"

lemma ApiQueryAllDenomRequest_contract:
  assumes R: "runtime_ok R"
    and N1: "nested_ok O1 enc1 zero good1"
  shows "pulsar_message R (ApiQueryAllDenomRequest_fields zero O1) ApiQueryAllDenomRequest_keep
      ApiQueryAllDenomRequest_unknownFields
    (\<lambda>m. m\<lparr>ApiQueryAllDenomRequest_unknownFields := []\<rparr>)
    ApiQueryAllDenomRequest_zero (\<lambda>m. pointer_good good1 (ApiQueryAllDenomRequest_Pagination m))
    (ApiQueryAllDenomRequest_fields_size R O1) (ApiQueryAllDenomRequest_writers R O1)
        (ApiQueryAllDenomRequest_wire enc1)"
proof unfold_locales
  show "runtime_ok R" by (rule R)
  show "writes (put_seq (ApiQueryAllDenomRequest_writers R O1 m)) (enc_fields
      (ApiQueryAllDenomRequest_wire enc1 m))" for m
  proof -
    have "list_all2 writes (ApiQueryAllDenomRequest_writers R O1 m)
        [enc_fields (w_message 1 enc1 (ApiQueryAllDenomRequest_Pagination m))]"
      by (simp add: ApiQueryAllDenomRequest_writers_def runtime_simps [OF R] writes_wire
          key_byte_def writes_nested [OF R N1])
    from writes_seq [OF this] show ?thesis by (simp add: ApiQueryAllDenomRequest_wire_def)
  qed
  show "ApiQueryAllDenomRequest_fields_size R O1 m
      = length (enc_fields (ApiQueryAllDenomRequest_wire enc1 m))" for m
    by (simp add: ApiQueryAllDenomRequest_fields_size_def ApiQueryAllDenomRequest_wire_def
        runtime_simps [OF R] length_nested [OF R N1])
  show "list_all wf_field (ApiQueryAllDenomRequest_wire enc1 m)" for m
    by (simp add: ApiQueryAllDenomRequest_wire_def)
  show "ApiQueryAllDenomRequest_fields zero O1 (of_nat (field_num x)) \<noteq> None"
      if "x \<in> set (ApiQueryAllDenomRequest_wire enc1 m)" for x m
    using that by (auto simp: ApiQueryAllDenomRequest_wire_def ApiQueryAllDenomRequest_fields_def
        dest!: num_wire)
  show "rfold (apply_field (ApiQueryAllDenomRequest_fields zero O1)) (ApiQueryAllDenomRequest_wire
      enc1 m) ApiQueryAllDenomRequest_zero = Inr (m\<lparr>ApiQueryAllDenomRequest_unknownFields := []\<rparr>)"
    if v: "pointer_good good1 (ApiQueryAllDenomRequest_Pagination m)"
        and g: "go_slice (enc_fields (ApiQueryAllDenomRequest_wire enc1 m))" for m
  proof -
    have 1: "rfold (apply_field (ApiQueryAllDenomRequest_fields zero O1)) (w_message 1 enc1
        (ApiQueryAllDenomRequest_Pagination m) @ rest) y
        = rfold (apply_field (ApiQueryAllDenomRequest_fields zero O1)) rest
            (y\<lparr>ApiQueryAllDenomRequest_Pagination := ApiQueryAllDenomRequest_Pagination m\<rparr>)"
            if "ApiQueryAllDenomRequest_Pagination y = None" for rest y
      by (rule rfold_nested_message [OF _ N1 v _ g, where sel = ApiQueryAllDenomRequest_Pagination
          and upd = "\<lambda>p m. m\<lparr>ApiQueryAllDenomRequest_Pagination := p\<rparr>"]) (use that in \<open>simp_all add:
              ApiQueryAllDenomRequest_fields_def ApiQueryAllDenomRequest_wire_def\<close>)
    show ?thesis
      using 1 [where rest = "[]", simplified] 1
      by (simp add: ApiQueryAllDenomRequest_wire_def ApiQueryAllDenomRequest_zero_def  rfold_wire)
  qed
  show "ApiQueryAllDenomRequest_keep (ApiQueryAllDenomRequest_unknownFields m)
      (m\<lparr>ApiQueryAllDenomRequest_unknownFields := []\<rparr>) = m" for m
    by (simp add: ApiQueryAllDenomRequest_keep_def)
  show "ApiQueryAllDenomRequest_keep b (ApiQueryAllDenomRequest_keep a m)
      = ApiQueryAllDenomRequest_keep (a @ b) m" for a b m
    by (simp add: ApiQueryAllDenomRequest_keep_def)
  show "dec s y \<noteq> Inl Panic" if "ApiQueryAllDenomRequest_fields zero O1 n = Some (name,
      FMessage dec)" and "go_slice s"
    for n name dec s y
    using that by (auto simp: ApiQueryAllDenomRequest_fields_def api_dec_no_panic [OF N1] split:
        if_splits)
qed

interpretation refl_QueryAllDenomRequest: pulsar_reflect
    "''medasdigital.tokenfactory.QueryAllDenomRequest''" "ApiQueryAllDenomRequest_refl zero"
    for zero
  by (rule pulsar_reflectI) (simp add: ApiQueryAllDenomRequest_refl_def tbl_ok_simps as_page_eq)

section \<open>QueryAllDenomResponse\<close>

text \<open>Its response.\<close>

record 'p ApiQueryAllDenomResponse =
  ApiQueryAllDenomResponse_Denom :: "ApiDenom option list"
  ApiQueryAllDenomResponse_Pagination :: "'p option"
  ApiQueryAllDenomResponse_unknownFields :: bytes

definition ApiQueryAllDenomResponse_zero :: "'p ApiQueryAllDenomResponse" where
  "ApiQueryAllDenomResponse_zero = \<lparr>ApiQueryAllDenomResponse_Denom = [],
      ApiQueryAllDenomResponse_Pagination = None, ApiQueryAllDenomResponse_unknownFields = []\<rparr>"

definition ApiQueryAllDenomResponse_fields_size :: "proto_runtime \<Rightarrow> ApiDenom options \<Rightarrow> 'p options
    \<Rightarrow> 'p ApiQueryAllDenomResponse \<Rightarrow> nat" where
  "ApiQueryAllDenomResponse_fields_size R O1 O2 m =
     api_size_repeated R O1 (ApiQueryAllDenomResponse_Denom m)
   + api_size_message R O2 (ApiQueryAllDenomResponse_Pagination m)"

definition ApiQueryAllDenomResponse_size :: "proto_runtime \<Rightarrow> ApiDenom options \<Rightarrow> 'p options
    \<Rightarrow> 'p ApiQueryAllDenomResponse option \<Rightarrow> nat" where
  "ApiQueryAllDenomResponse_size R O1 O2 = pulsar_size ApiQueryAllDenomResponse_unknownFields
      (ApiQueryAllDenomResponse_fields_size R O1 O2)"

definition ApiQueryAllDenomResponse_writers :: "proto_runtime \<Rightarrow> ApiDenom options \<Rightarrow> 'p options
    \<Rightarrow> 'p ApiQueryAllDenomResponse \<Rightarrow> writer list" where
  "ApiQueryAllDenomResponse_writers R O1 O2 m =
     [api_message R O2 0x12 (ApiQueryAllDenomResponse_Pagination m),
      api_repeated R O1 0x0a (ApiQueryAllDenomResponse_Denom m)]"

definition ApiQueryAllDenomResponse_marshal :: "proto_runtime \<Rightarrow> ApiDenom options \<Rightarrow> 'p options
    \<Rightarrow> bytes option \<Rightarrow> 'p ApiQueryAllDenomResponse option \<Rightarrow> pb_error + bytes option" where
  "ApiQueryAllDenomResponse_marshal R O1 O2
      = pulsar_marshal ApiQueryAllDenomResponse_unknownFields (ApiQueryAllDenomResponse_fields_size
      R O1 O2) (ApiQueryAllDenomResponse_writers R O1 O2)"

definition ApiQueryAllDenomResponse_keep :: "bytes \<Rightarrow> 'p ApiQueryAllDenomResponse
    \<Rightarrow> 'p ApiQueryAllDenomResponse" where
  "ApiQueryAllDenomResponse_keep raw m = m\<lparr>ApiQueryAllDenomResponse_unknownFields :=
      ApiQueryAllDenomResponse_unknownFields m @ raw\<rparr>"

definition ApiQueryAllDenomResponse_fields :: "'p \<Rightarrow> ApiDenom options \<Rightarrow> 'p options
    \<Rightarrow> 'p ApiQueryAllDenomResponse fields" where
  "ApiQueryAllDenomResponse_fields zero O1 O2 n =
     (if n = 1 then Some (''Denom'', FMessage (api_dec_repeated O1 ApiDenom_zero
         ApiQueryAllDenomResponse_Denom
          (\<lambda>es m. m\<lparr>ApiQueryAllDenomResponse_Denom := es\<rparr>)))
      else if n = 2 then Some (''Pagination'',
          FMessage (api_dec_message O2 zero ApiQueryAllDenomResponse_Pagination
          (\<lambda>p m. m\<lparr>ApiQueryAllDenomResponse_Pagination := p\<rparr>)))
      else None)"

definition ApiQueryAllDenomResponse_unmarshal :: "proto_runtime \<Rightarrow> bool \<Rightarrow> 'p \<Rightarrow> ApiDenom options
    \<Rightarrow> 'p options \<Rightarrow> bytes \<Rightarrow> 'p ApiQueryAllDenomResponse option \<Rightarrow> (pb_error
    + 'p ApiQueryAllDenomResponse option) option" where
  "ApiQueryAllDenomResponse_unmarshal R DiscardUnknown zero O1 O2 =
     pulsar_unmarshal R DiscardUnknown ''QueryAllDenomResponse'' (ApiQueryAllDenomResponse_fields
         zero O1 O2) ApiQueryAllDenomResponse_keep"

definition ApiQueryAllDenomResponse_refl :: "'p \<Rightarrow> ('p ApiQueryAllDenomResponse, 'p page_ref) rtable"
    where
  "ApiQueryAllDenomResponse_refl zero =
     [(''denom'', RListOf ''_QueryAllDenomResponse_1_list'' (\<lambda>p. RefTF (RefDenom p)) as_TF_Denom
         ApiQueryAllDenomResponse_Denom
        (\<lambda>es m. m\<lparr>ApiQueryAllDenomResponse_Denom := es\<rparr>)),
      (''pagination'', RPointer RefPage as_page zero ApiQueryAllDenomResponse_Pagination
        (\<lambda>p m. m\<lparr>ApiQueryAllDenomResponse_Pagination := p\<rparr>))]"

definition fastReflection_QueryAllDenomResponse_Range :: "'p \<Rightarrow> 'p ApiQueryAllDenomResponse option
    \<Rightarrow> (string \<Rightarrow> 'p page_ref pvalue \<Rightarrow> 's \<Rightarrow> bool \<times> 's) \<Rightarrow> 's \<Rightarrow> refl_error + 's" where
  "fastReflection_QueryAllDenomResponse_Range zero
      = refl_Range ''medasdigital.tokenfactory.QueryAllDenomResponse''
      (ApiQueryAllDenomResponse_refl zero)"

definition fastReflection_QueryAllDenomResponse_Has :: "'p \<Rightarrow> 'p ApiQueryAllDenomResponse option
    \<Rightarrow> field_descriptor \<Rightarrow> refl_error + bool" where
  "fastReflection_QueryAllDenomResponse_Has zero
      = refl_Has ''medasdigital.tokenfactory.QueryAllDenomResponse'' (ApiQueryAllDenomResponse_refl
      zero)"

definition fastReflection_QueryAllDenomResponse_Clear :: "'p \<Rightarrow> 'p ApiQueryAllDenomResponse option
    \<Rightarrow> field_descriptor \<Rightarrow> refl_error + 'p ApiQueryAllDenomResponse option" where
  "fastReflection_QueryAllDenomResponse_Clear zero
      = refl_Clear ''medasdigital.tokenfactory.QueryAllDenomResponse''
      (ApiQueryAllDenomResponse_refl zero)"

definition fastReflection_QueryAllDenomResponse_Get :: "'p \<Rightarrow> 'p ApiQueryAllDenomResponse option
    \<Rightarrow> field_descriptor \<Rightarrow> refl_error + 'p page_ref pvalue" where
  "fastReflection_QueryAllDenomResponse_Get zero
      = refl_Get ''medasdigital.tokenfactory.QueryAllDenomResponse'' (ApiQueryAllDenomResponse_refl
      zero)"

definition fastReflection_QueryAllDenomResponse_Set :: "'p \<Rightarrow> 'p ApiQueryAllDenomResponse option
    \<Rightarrow> field_descriptor \<Rightarrow> 'p page_ref pvalue \<Rightarrow> refl_error + 'p ApiQueryAllDenomResponse option" where
  "fastReflection_QueryAllDenomResponse_Set zero
      = refl_Set ''medasdigital.tokenfactory.QueryAllDenomResponse'' (ApiQueryAllDenomResponse_refl
      zero)"

definition fastReflection_QueryAllDenomResponse_Mutable :: "'p \<Rightarrow> 'p ApiQueryAllDenomResponse option
    \<Rightarrow> field_descriptor \<Rightarrow> refl_error + 'p ApiQueryAllDenomResponse option \<times> 'p page_ref pvalue" where
  "fastReflection_QueryAllDenomResponse_Mutable zero
      = refl_Mutable ''medasdigital.tokenfactory.QueryAllDenomResponse''
      (ApiQueryAllDenomResponse_refl zero)"

definition fastReflection_QueryAllDenomResponse_NewField :: "'p \<Rightarrow> field_descriptor \<Rightarrow> refl_error
    + 'p page_ref pvalue" where
  "fastReflection_QueryAllDenomResponse_NewField zero
      = refl_NewField ''medasdigital.tokenfactory.QueryAllDenomResponse''
      (ApiQueryAllDenomResponse_refl zero)"

definition fastReflection_QueryAllDenomResponse_WhichOneof :: "string \<Rightarrow> refl_error
    + field_descriptor" where
  "fastReflection_QueryAllDenomResponse_WhichOneof
      = refl_WhichOneof ''medasdigital.tokenfactory.QueryAllDenomResponse''"

definition fastReflection_QueryAllDenomResponse_GetUnknown :: "'p ApiQueryAllDenomResponse option
    \<Rightarrow> refl_error + bytes" where
  "fastReflection_QueryAllDenomResponse_GetUnknown
      = refl_GetUnknown ApiQueryAllDenomResponse_unknownFields"

definition fastReflection_QueryAllDenomResponse_SetUnknown :: "'p ApiQueryAllDenomResponse option
    \<Rightarrow> bytes \<Rightarrow> refl_error + 'p ApiQueryAllDenomResponse option" where
  "fastReflection_QueryAllDenomResponse_SetUnknown
      = refl_SetUnknown (\<lambda>raw m. m\<lparr>ApiQueryAllDenomResponse_unknownFields := raw\<rparr>)"

definition fastReflection_QueryAllDenomResponse_IsValid :: "'p ApiQueryAllDenomResponse option
    \<Rightarrow> bool" where
  "fastReflection_QueryAllDenomResponse_IsValid = refl_IsValid"

definition ApiQueryAllDenomResponse_GetDenom :: "'p ApiQueryAllDenomResponse option
    \<Rightarrow> ApiDenom option list" where
  "ApiQueryAllDenomResponse_GetDenom = getter [] ApiQueryAllDenomResponse_Denom"

definition ApiQueryAllDenomResponse_GetPagination :: "'p ApiQueryAllDenomResponse option
    \<Rightarrow> 'p option" where
  "ApiQueryAllDenomResponse_GetPagination = getter None ApiQueryAllDenomResponse_Pagination"

definition ApiQueryAllDenomResponse_1_list_Len :: "ApiDenom option list option \<Rightarrow> int" where
  "ApiQueryAllDenomResponse_1_list_Len = list_Len"

definition ApiQueryAllDenomResponse_1_list_Get :: "ApiDenom option list option \<Rightarrow> int \<Rightarrow> refl_error
    + 'p page_ref pvalue" where
  "ApiQueryAllDenomResponse_1_list_Get = list_Get (\<lambda>p. RefTF (RefDenom p))"

definition ApiQueryAllDenomResponse_1_list_Set :: "ApiDenom option list option \<Rightarrow> int
    \<Rightarrow> 'p page_ref pvalue \<Rightarrow> refl_error + ApiDenom option list option" where
  "ApiQueryAllDenomResponse_1_list_Set = list_Set as_TF_Denom"

definition ApiQueryAllDenomResponse_1_list_Append :: "ApiDenom option list option
    \<Rightarrow> 'p page_ref pvalue \<Rightarrow> refl_error + ApiDenom option list option" where
  "ApiQueryAllDenomResponse_1_list_Append = list_Append as_TF_Denom"

definition ApiQueryAllDenomResponse_1_list_AppendMutable :: "ApiDenom option list option
    \<Rightarrow> refl_error + ApiDenom option list option \<times> 'p page_ref pvalue" where
  "ApiQueryAllDenomResponse_1_list_AppendMutable
      = list_AppendMutable (\<lambda>p. RefTF (RefDenom p)) ApiDenom_zero"

definition ApiQueryAllDenomResponse_1_list_Truncate :: "ApiDenom option list
    \<Rightarrow> ApiDenom option list option \<Rightarrow> int \<Rightarrow> refl_error + ApiDenom option list option" where
  "ApiQueryAllDenomResponse_1_list_Truncate = list_Truncate"

definition ApiQueryAllDenomResponse_1_list_NewElement :: "'p page_ref pvalue" where
  "ApiQueryAllDenomResponse_1_list_NewElement
      = list_NewElement (\<lambda>p. RefTF (RefDenom p)) ApiDenom_zero"

definition ApiQueryAllDenomResponse_1_list_IsValid :: "ApiDenom option list option \<Rightarrow> bool" where
  "ApiQueryAllDenomResponse_1_list_IsValid = list_IsValid"

definition ApiQueryAllDenomResponse_wire :: "(ApiDenom \<Rightarrow> bytes) \<Rightarrow> ('p \<Rightarrow> bytes)
    \<Rightarrow> 'p ApiQueryAllDenomResponse \<Rightarrow> wire_field list" where
  "ApiQueryAllDenomResponse_wire enc1 enc2 m =
     w_elements 1 enc1 (ApiQueryAllDenomResponse_Denom m)
   @ w_message 2 enc2 (ApiQueryAllDenomResponse_Pagination m)"

lemma ApiQueryAllDenomResponse_contract:
  assumes R: "runtime_ok R"
    and N1: "nested_ok O1 enc1 ApiDenom_zero good1"
    and N2: "nested_ok O2 enc2 zero good2"
  shows "pulsar_message R (ApiQueryAllDenomResponse_fields zero O1 O2) ApiQueryAllDenomResponse_keep
      ApiQueryAllDenomResponse_unknownFields
    (\<lambda>m. m\<lparr>ApiQueryAllDenomResponse_unknownFields := []\<rparr>)
    ApiQueryAllDenomResponse_zero (\<lambda>m. elements_good good1 (ApiQueryAllDenomResponse_Denom m)
        \<and> pointer_good good2 (ApiQueryAllDenomResponse_Pagination m))
    (ApiQueryAllDenomResponse_fields_size R O1 O2) (ApiQueryAllDenomResponse_writers R O1 O2)
        (ApiQueryAllDenomResponse_wire enc1 enc2)"
proof unfold_locales
  show "runtime_ok R" by (rule R)
  show "writes (put_seq (ApiQueryAllDenomResponse_writers R O1 O2 m)) (enc_fields
      (ApiQueryAllDenomResponse_wire enc1 enc2 m))" for m
  proof -
    have "list_all2 writes (ApiQueryAllDenomResponse_writers R O1 O2 m)
        [enc_fields (w_message 2 enc2 (ApiQueryAllDenomResponse_Pagination m)),
            enc_fields (w_elements 1 enc1 (ApiQueryAllDenomResponse_Denom m))]"
      by (simp add: ApiQueryAllDenomResponse_writers_def runtime_simps [OF R] writes_wire
          key_byte_def writes_nested [OF R N1] writes_nested [OF R N2])
    from writes_seq [OF this] show ?thesis by (simp add: ApiQueryAllDenomResponse_wire_def)
  qed
  show "ApiQueryAllDenomResponse_fields_size R O1 O2 m
      = length (enc_fields (ApiQueryAllDenomResponse_wire enc1 enc2 m))" for m
    by (simp add: ApiQueryAllDenomResponse_fields_size_def ApiQueryAllDenomResponse_wire_def
        runtime_simps [OF R] length_nested [OF R N1] length_nested [OF R N2])
  show "list_all wf_field (ApiQueryAllDenomResponse_wire enc1 enc2 m)" for m
    by (simp add: ApiQueryAllDenomResponse_wire_def)
  show "ApiQueryAllDenomResponse_fields zero O1 O2 (of_nat (field_num x)) \<noteq> None"
      if "x \<in> set (ApiQueryAllDenomResponse_wire enc1 enc2 m)" for x m
    using that by (auto simp: ApiQueryAllDenomResponse_wire_def ApiQueryAllDenomResponse_fields_def
        dest!: num_wire)
  show "rfold (apply_field (ApiQueryAllDenomResponse_fields zero O1 O2))
      (ApiQueryAllDenomResponse_wire enc1 enc2 m) ApiQueryAllDenomResponse_zero
      = Inr (m\<lparr>ApiQueryAllDenomResponse_unknownFields := []\<rparr>)"
    if v: "elements_good good1 (ApiQueryAllDenomResponse_Denom m)
        \<and> pointer_good good2 (ApiQueryAllDenomResponse_Pagination m)"
        and g: "go_slice (enc_fields (ApiQueryAllDenomResponse_wire enc1 enc2 m))" for m
  proof -
    have 1: "rfold (apply_field (ApiQueryAllDenomResponse_fields zero O1 O2)) (w_elements 1 enc1
        (ApiQueryAllDenomResponse_Denom m) @ rest) y
        = rfold (apply_field (ApiQueryAllDenomResponse_fields zero O1 O2)) rest
            (y\<lparr>ApiQueryAllDenomResponse_Denom := ApiQueryAllDenomResponse_Denom y
            @ ApiQueryAllDenomResponse_Denom m\<rparr>)" for rest y
      by (rule rfold_nested_elements [OF _ N1 v [THEN conjunct1] _ g, where sel
          = ApiQueryAllDenomResponse_Denom
          and upd = "\<lambda>es m. m\<lparr>ApiQueryAllDenomResponse_Denom := es\<rparr>"])
              (simp_all add: ApiQueryAllDenomResponse_fields_def ApiQueryAllDenomResponse_wire_def)
    have 2: "rfold (apply_field (ApiQueryAllDenomResponse_fields zero O1 O2)) (w_message 2 enc2
        (ApiQueryAllDenomResponse_Pagination m) @ rest) y
        = rfold (apply_field (ApiQueryAllDenomResponse_fields zero O1 O2)) rest
            (y\<lparr>ApiQueryAllDenomResponse_Pagination := ApiQueryAllDenomResponse_Pagination m\<rparr>)"
            if "ApiQueryAllDenomResponse_Pagination y = None" for rest y
      by (rule rfold_nested_message [OF _ N2 v [THEN conjunct2] _ g, where sel
          = ApiQueryAllDenomResponse_Pagination
          and upd = "\<lambda>p m. m\<lparr>ApiQueryAllDenomResponse_Pagination := p\<rparr>"]) (use that in \<open>simp_all
              add: ApiQueryAllDenomResponse_fields_def ApiQueryAllDenomResponse_wire_def\<close>)
    show ?thesis
      using 1 [where rest = "[]", simplified] 1 2 [where rest = "[]", simplified] 2
      by (simp add: ApiQueryAllDenomResponse_wire_def ApiQueryAllDenomResponse_zero_def  rfold_wire)
  qed
  show "ApiQueryAllDenomResponse_keep (ApiQueryAllDenomResponse_unknownFields m)
      (m\<lparr>ApiQueryAllDenomResponse_unknownFields := []\<rparr>) = m" for m
    by (simp add: ApiQueryAllDenomResponse_keep_def)
  show "ApiQueryAllDenomResponse_keep b (ApiQueryAllDenomResponse_keep a m)
      = ApiQueryAllDenomResponse_keep (a @ b) m" for a b m
    by (simp add: ApiQueryAllDenomResponse_keep_def)
  show "dec s y \<noteq> Inl Panic" if "ApiQueryAllDenomResponse_fields zero O1 O2 n = Some (name,
      FMessage dec)" and "go_slice s"
    for n name dec s y
    using that by (auto simp: ApiQueryAllDenomResponse_fields_def api_dec_no_panic [OF N1]
        api_dec_no_panic [OF N2] split: if_splits)
qed

interpretation refl_QueryAllDenomResponse: pulsar_reflect
    "''medasdigital.tokenfactory.QueryAllDenomResponse''" "ApiQueryAllDenomResponse_refl zero"
    for zero
  by (rule pulsar_reflectI) (simp add: ApiQueryAllDenomResponse_refl_def tbl_ok_simps as_TF_Denom_eq
      as_page_eq)

section \<open>Module\<close>

text \<open>\<open>module.pulsar.go\<close>: the configuration of the module.\<close>

record ApiModule =
  ApiModule_Authority :: gostring
  ApiModule_unknownFields :: bytes

definition ApiModule_zero :: "ApiModule" where
  "ApiModule_zero = \<lparr>ApiModule_Authority = [], ApiModule_unknownFields = []\<rparr>"

definition ApiModule_fields_size :: "proto_runtime \<Rightarrow> ApiModule \<Rightarrow> nat" where
  "ApiModule_fields_size R m =
     api_size_string R (ApiModule_Authority m)"

definition ApiModule_size :: "proto_runtime \<Rightarrow> ApiModule option \<Rightarrow> nat" where
  "ApiModule_size R = pulsar_size ApiModule_unknownFields (ApiModule_fields_size R)"

definition ApiModule_writers :: "proto_runtime \<Rightarrow> ApiModule \<Rightarrow> writer list" where
  "ApiModule_writers R m =
     [api_string R 0x0a (ApiModule_Authority m)]"

definition ApiModule_marshal :: "proto_runtime \<Rightarrow> bytes option \<Rightarrow> ApiModule option \<Rightarrow> pb_error
    + bytes option" where
  "ApiModule_marshal R = pulsar_marshal ApiModule_unknownFields (ApiModule_fields_size R)
      (ApiModule_writers R)"

definition ApiModule_keep :: "bytes \<Rightarrow> ApiModule \<Rightarrow> ApiModule" where
  "ApiModule_keep raw m = m\<lparr>ApiModule_unknownFields := ApiModule_unknownFields m @ raw\<rparr>"

definition ApiModule_fields :: "ApiModule fields" where
  "ApiModule_fields n =
     (if n = 1 then Some (''Authority'', FString (\<lambda>s m. m\<lparr>ApiModule_Authority := s\<rparr>))
      else None)"

definition ApiModule_unmarshal :: "proto_runtime \<Rightarrow> bool \<Rightarrow> bytes \<Rightarrow> ApiModule option \<Rightarrow> (pb_error
    + ApiModule option) option" where
  "ApiModule_unmarshal R DiscardUnknown =
     pulsar_unmarshal R DiscardUnknown ''Module'' ApiModule_fields ApiModule_keep"

definition ApiModule_refl :: "(ApiModule, tf_ref) rtable" where
  "ApiModule_refl =
     [(''authority'', RString ApiModule_Authority (\<lambda>s m. m\<lparr>ApiModule_Authority := s\<rparr>))]"

definition fastReflection_Module_Range :: "ApiModule option \<Rightarrow> (string \<Rightarrow> tf_ref pvalue \<Rightarrow> 's
    \<Rightarrow> bool \<times> 's) \<Rightarrow> 's \<Rightarrow> refl_error + 's" where
  "fastReflection_Module_Range = refl_Range ''medasdigital.tokenfactory.module.Module''
      ApiModule_refl"

definition fastReflection_Module_Has :: "ApiModule option \<Rightarrow> field_descriptor \<Rightarrow> refl_error + bool"
    where
  "fastReflection_Module_Has = refl_Has ''medasdigital.tokenfactory.module.Module'' ApiModule_refl"

definition fastReflection_Module_Clear :: "ApiModule option \<Rightarrow> field_descriptor \<Rightarrow> refl_error
    + ApiModule option" where
  "fastReflection_Module_Clear = refl_Clear ''medasdigital.tokenfactory.module.Module''
      ApiModule_refl"

definition fastReflection_Module_Get :: "ApiModule option \<Rightarrow> field_descriptor \<Rightarrow> refl_error
    + tf_ref pvalue" where
  "fastReflection_Module_Get = refl_Get ''medasdigital.tokenfactory.module.Module'' ApiModule_refl"

definition fastReflection_Module_Set :: "ApiModule option \<Rightarrow> field_descriptor \<Rightarrow> tf_ref pvalue
    \<Rightarrow> refl_error + ApiModule option" where
  "fastReflection_Module_Set = refl_Set ''medasdigital.tokenfactory.module.Module'' ApiModule_refl"

definition fastReflection_Module_Mutable :: "ApiModule option \<Rightarrow> field_descriptor \<Rightarrow> refl_error
    + ApiModule option \<times> tf_ref pvalue" where
  "fastReflection_Module_Mutable = refl_Mutable ''medasdigital.tokenfactory.module.Module''
      ApiModule_refl"

definition fastReflection_Module_NewField :: "field_descriptor \<Rightarrow> refl_error + tf_ref pvalue" where
  "fastReflection_Module_NewField = refl_NewField ''medasdigital.tokenfactory.module.Module''
      ApiModule_refl"

definition fastReflection_Module_WhichOneof :: "string \<Rightarrow> refl_error + field_descriptor" where
  "fastReflection_Module_WhichOneof = refl_WhichOneof ''medasdigital.tokenfactory.module.Module''"

definition fastReflection_Module_GetUnknown :: "ApiModule option \<Rightarrow> refl_error + bytes" where
  "fastReflection_Module_GetUnknown = refl_GetUnknown ApiModule_unknownFields"

definition fastReflection_Module_SetUnknown :: "ApiModule option \<Rightarrow> bytes \<Rightarrow> refl_error
    + ApiModule option" where
  "fastReflection_Module_SetUnknown = refl_SetUnknown (\<lambda>raw m. m\<lparr>ApiModule_unknownFields := raw\<rparr>)"

definition fastReflection_Module_IsValid :: "ApiModule option \<Rightarrow> bool" where
  "fastReflection_Module_IsValid = refl_IsValid"

definition ApiModule_GetAuthority :: "ApiModule option \<Rightarrow> gostring" where
  "ApiModule_GetAuthority = getter [] ApiModule_Authority"

definition ApiModule_wire :: "ApiModule \<Rightarrow> wire_field list" where
  "ApiModule_wire m =
     w_string 1 (ApiModule_Authority m)"

lemma ApiModule_contract:
  assumes R: "runtime_ok R"
  shows "pulsar_message R ApiModule_fields ApiModule_keep ApiModule_unknownFields
    (\<lambda>m. m\<lparr>ApiModule_unknownFields := []\<rparr>)
    ApiModule_zero (\<lambda>m. True)
    (ApiModule_fields_size R) (ApiModule_writers R) ApiModule_wire"
proof unfold_locales
  show "runtime_ok R" by (rule R)
  show "writes (put_seq (ApiModule_writers R m)) (enc_fields (ApiModule_wire m))" for m
  proof -
    have "list_all2 writes (ApiModule_writers R m)
        [enc_fields (w_string 1 (ApiModule_Authority m))]"
      by (simp add: ApiModule_writers_def runtime_simps [OF R] writes_wire key_byte_def)
    from writes_seq [OF this] show ?thesis by (simp add: ApiModule_wire_def)
  qed
  show "ApiModule_fields_size R m = length (enc_fields (ApiModule_wire m))" for m
    by (simp add: ApiModule_fields_size_def ApiModule_wire_def runtime_simps [OF R])
  show "list_all wf_field (ApiModule_wire m)" for m
    by (simp add: ApiModule_wire_def)
  show "ApiModule_fields (of_nat (field_num x)) \<noteq> None" if "x \<in> set (ApiModule_wire m)" for x m
    using that by (auto simp: ApiModule_wire_def ApiModule_fields_def dest!: num_wire)
  show "rfold (apply_field ApiModule_fields) (ApiModule_wire m) ApiModule_zero
      = Inr (m\<lparr>ApiModule_unknownFields := []\<rparr>)" for m
    by (simp add: ApiModule_wire_def ApiModule_zero_def ApiModule_fields_def rfold_wire)
  show "ApiModule_keep (ApiModule_unknownFields m) (m\<lparr>ApiModule_unknownFields := []\<rparr>) = m" for m
    by (simp add: ApiModule_keep_def)
  show "ApiModule_keep b (ApiModule_keep a m) = ApiModule_keep (a @ b) m" for a b m
    by (simp add: ApiModule_keep_def)
  show "dec s y \<noteq> Inl Panic" if "ApiModule_fields n = Some (name, FMessage dec)" and "go_slice s"
    for n name dec s y
    using that by (auto simp: ApiModule_fields_def split: if_splits)
qed

interpretation refl_Module: pulsar_reflect "''medasdigital.tokenfactory.module.Module''"
    "ApiModule_refl"
  by (rule pulsar_reflectI) (simp add: ApiModule_refl_def tbl_ok_simps)

end
