(* ===== verification/Api_Medas.thy ===== *)
theory Api_Medas
  imports Pulsar_Nested Pulsar_Reflect Medas_Pb
begin

text \<open>
  The messages of \<open>api/medasdigital/medasdigital\<close>: \<open>params.pulsar.go\<close>, \<open>genesis.pulsar.go\<close>,
      \<open>tx.pulsar.go\<close>,
  \<open>query.pulsar.go\<close> and \<open>module/module.pulsar.go\<close>.  The names carry the prefix \<open>ApiMedas\<close>.
\<close>

section \<open>Params\<close>

text \<open>\<open>params.pulsar.go\<close>: a message without fields.\<close>

record ApiMedasParams =
  ApiMedasParams_unknownFields :: bytes

definition ApiMedasParams_zero :: "ApiMedasParams" where
  "ApiMedasParams_zero = \<lparr>ApiMedasParams_unknownFields = []\<rparr>"

definition ApiMedasParams_fields_size :: "proto_runtime \<Rightarrow> ApiMedasParams \<Rightarrow> nat" where
  "ApiMedasParams_fields_size R m = 0"

definition ApiMedasParams_size :: "proto_runtime \<Rightarrow> ApiMedasParams option \<Rightarrow> nat" where
  "ApiMedasParams_size R = pulsar_size ApiMedasParams_unknownFields (ApiMedasParams_fields_size R)"

definition ApiMedasParams_writers :: "proto_runtime \<Rightarrow> ApiMedasParams \<Rightarrow> writer list" where
  "ApiMedasParams_writers R m = []"

definition ApiMedasParams_marshal :: "proto_runtime \<Rightarrow> bytes option \<Rightarrow> ApiMedasParams option
    \<Rightarrow> pb_error + bytes option" where
  "ApiMedasParams_marshal R = pulsar_marshal ApiMedasParams_unknownFields
      (ApiMedasParams_fields_size R) (ApiMedasParams_writers R)"

definition ApiMedasParams_keep :: "bytes \<Rightarrow> ApiMedasParams \<Rightarrow> ApiMedasParams" where
  "ApiMedasParams_keep raw m = m\<lparr>ApiMedasParams_unknownFields := ApiMedasParams_unknownFields m
      @ raw\<rparr>"

definition ApiMedasParams_fields :: "ApiMedasParams fields" where
  "ApiMedasParams_fields n = None"

definition ApiMedasParams_unmarshal :: "proto_runtime \<Rightarrow> bool \<Rightarrow> bytes \<Rightarrow> ApiMedasParams option
    \<Rightarrow> (pb_error + ApiMedasParams option) option" where
  "ApiMedasParams_unmarshal R DiscardUnknown =
     pulsar_unmarshal R DiscardUnknown ''Params'' ApiMedasParams_fields ApiMedasParams_keep"


section \<open>Message values\<close>

datatype medas_ref =
    RefMedasParams "ApiMedasParams option"

fun as_MedasParams :: "medas_ref \<Rightarrow> ApiMedasParams option option" where
  "as_MedasParams (RefMedasParams p) = Some p"

lemma as_MedasParams_eq: "as_MedasParams v = Some p \<longleftrightarrow> v = RefMedasParams p"
  by (cases v) auto

definition ApiMedasParams_refl :: "(ApiMedasParams, medas_ref) rtable" where
  "ApiMedasParams_refl = []"

definition fastReflection_MedasParams_Range :: "ApiMedasParams option \<Rightarrow> (string \<Rightarrow> medas_ref pvalue
    \<Rightarrow> 's \<Rightarrow> bool \<times> 's) \<Rightarrow> 's \<Rightarrow> refl_error + 's" where
  "fastReflection_MedasParams_Range = refl_Range ''medasdigital.medasdigital.Params''
      ApiMedasParams_refl"

definition fastReflection_MedasParams_Has :: "ApiMedasParams option \<Rightarrow> field_descriptor \<Rightarrow> refl_error
    + bool" where
  "fastReflection_MedasParams_Has = refl_Has ''medasdigital.medasdigital.Params''
      ApiMedasParams_refl"

definition fastReflection_MedasParams_Clear :: "ApiMedasParams option \<Rightarrow> field_descriptor
    \<Rightarrow> refl_error + ApiMedasParams option" where
  "fastReflection_MedasParams_Clear = refl_Clear ''medasdigital.medasdigital.Params''
      ApiMedasParams_refl"

definition fastReflection_MedasParams_Get :: "ApiMedasParams option \<Rightarrow> field_descriptor \<Rightarrow> refl_error
    + medas_ref pvalue" where
  "fastReflection_MedasParams_Get = refl_Get ''medasdigital.medasdigital.Params''
      ApiMedasParams_refl"

definition fastReflection_MedasParams_Set :: "ApiMedasParams option \<Rightarrow> field_descriptor
    \<Rightarrow> medas_ref pvalue \<Rightarrow> refl_error + ApiMedasParams option" where
  "fastReflection_MedasParams_Set = refl_Set ''medasdigital.medasdigital.Params''
      ApiMedasParams_refl"

definition fastReflection_MedasParams_Mutable :: "ApiMedasParams option \<Rightarrow> field_descriptor
    \<Rightarrow> refl_error + ApiMedasParams option \<times> medas_ref pvalue" where
  "fastReflection_MedasParams_Mutable = refl_Mutable ''medasdigital.medasdigital.Params''
      ApiMedasParams_refl"

definition fastReflection_MedasParams_NewField :: "field_descriptor \<Rightarrow> refl_error + medas_ref pvalue"
    where
  "fastReflection_MedasParams_NewField = refl_NewField ''medasdigital.medasdigital.Params''
      ApiMedasParams_refl"

definition fastReflection_MedasParams_WhichOneof :: "string \<Rightarrow> refl_error + field_descriptor" where
  "fastReflection_MedasParams_WhichOneof = refl_WhichOneof ''medasdigital.medasdigital.Params''"

definition fastReflection_MedasParams_GetUnknown :: "ApiMedasParams option \<Rightarrow> refl_error + bytes"
    where
  "fastReflection_MedasParams_GetUnknown = refl_GetUnknown ApiMedasParams_unknownFields"

definition fastReflection_MedasParams_SetUnknown :: "ApiMedasParams option \<Rightarrow> bytes \<Rightarrow> refl_error
    + ApiMedasParams option" where
  "fastReflection_MedasParams_SetUnknown = refl_SetUnknown (\<lambda>raw m. m\<lparr>ApiMedasParams_unknownFields
      := raw\<rparr>)"

definition fastReflection_MedasParams_IsValid :: "ApiMedasParams option \<Rightarrow> bool" where
  "fastReflection_MedasParams_IsValid = refl_IsValid"

definition ApiMedasParams_wire :: "ApiMedasParams \<Rightarrow> wire_field list" where
  "ApiMedasParams_wire m = []"

lemma ApiMedasParams_contract:
  assumes R: "runtime_ok R"
  shows "pulsar_message R ApiMedasParams_fields ApiMedasParams_keep ApiMedasParams_unknownFields
    (\<lambda>m. m\<lparr>ApiMedasParams_unknownFields := []\<rparr>)
    ApiMedasParams_zero (\<lambda>m. True)
    (ApiMedasParams_fields_size R) (ApiMedasParams_writers R) ApiMedasParams_wire"
proof unfold_locales
  show "runtime_ok R" by (rule R)
  show "writes (put_seq (ApiMedasParams_writers R m)) (enc_fields (ApiMedasParams_wire m))" for m
    by (simp add: ApiMedasParams_writers_def ApiMedasParams_wire_def put_seq_nil writes_skip)
  show "ApiMedasParams_fields_size R m = length (enc_fields (ApiMedasParams_wire m))" for m
    by (simp add: ApiMedasParams_fields_size_def ApiMedasParams_wire_def runtime_simps [OF R])
  show "list_all wf_field (ApiMedasParams_wire m)" for m
    by (simp add: ApiMedasParams_wire_def)
  show "ApiMedasParams_fields (of_nat (field_num x)) \<noteq> None" if "x \<in> set (ApiMedasParams_wire m)"
      for x m
    using that by (auto simp: ApiMedasParams_wire_def ApiMedasParams_fields_def dest!: num_wire)
  show "rfold (apply_field ApiMedasParams_fields) (ApiMedasParams_wire m) ApiMedasParams_zero
      = Inr (m\<lparr>ApiMedasParams_unknownFields := []\<rparr>)" for m
    by (simp add: ApiMedasParams_wire_def ApiMedasParams_zero_def)
  show "ApiMedasParams_keep (ApiMedasParams_unknownFields m) (m\<lparr>ApiMedasParams_unknownFields := []\<rparr>)
      = m" for m
    by (simp add: ApiMedasParams_keep_def)
  show "ApiMedasParams_keep b (ApiMedasParams_keep a m) = ApiMedasParams_keep (a @ b) m" for a b m
    by (simp add: ApiMedasParams_keep_def)
  show "dec s y \<noteq> Inl Panic" if "ApiMedasParams_fields n = Some (name, FMessage dec)"
      and "go_slice s"
    for n name dec s y
    using that by (auto simp: ApiMedasParams_fields_def split: if_splits)
qed

text \<open>The gogoproto message with the same fields.\<close>

definition ApiMedasParams_gogo :: "ApiMedasParams \<Rightarrow> MedasParams" where
  "ApiMedasParams_gogo m = MedasParams"

lemma ApiMedasParams_agree:
  assumes R: "runtime_ok R"
  shows "pulsar_gogo R ApiMedasParams_fields ApiMedasParams_keep ApiMedasParams_unknownFields
    (\<lambda>m. m\<lparr>ApiMedasParams_unknownFields := []\<rparr>) ApiMedasParams_zero (\<lambda>m. True)
    (ApiMedasParams_fields_size R) (ApiMedasParams_writers R) ApiMedasParams_wire
    MedasParams_fields MedasParams MedasParams_Size MedasParams_MarshalToSizedBuffer
        MedasParams_wire ApiMedasParams_gogo"
  using ApiMedasParams_contract [OF R] medas_params_pb.pb_message_axioms
proof (rule pulsar_gogo.intro)
  show "pulsar_gogo_axioms ApiMedasParams_fields ApiMedasParams_keep ApiMedasParams_zero
      MedasParams_fields MedasParams ApiMedasParams_gogo"
    by unfold_locales (simp_all add: fields_sim_def ApiMedasParams_fields_def MedasParams_fields_def
        ApiMedasParams_keep_def ApiMedasParams_gogo_def
        ApiMedasParams_zero_def )
qed

interpretation api_MedasParams: pulsar_gogo gogo_runtime "''Params''" ApiMedasParams_fields
    ApiMedasParams_keep ApiMedasParams_unknownFields
  "\<lambda>m. m\<lparr>ApiMedasParams_unknownFields := []\<rparr>" ApiMedasParams_zero "\<lambda>m. True"
  "ApiMedasParams_fields_size gogo_runtime" "ApiMedasParams_writers gogo_runtime"
      ApiMedasParams_wire
  medas_params_file MedasParams_fields MedasParams MedasParams_Size MedasParams_MarshalToSizedBuffer
      MedasParams_wire ApiMedasParams_gogo
  by (rule ApiMedasParams_agree [OF gogo_runtime_ok])

section \<open>GenesisState\<close>

text \<open>\<open>GenesisState\<close>: a pointer to the parameters.\<close>

record ApiMedasGenesisState =
  ApiMedasGenesisState_Params :: "ApiMedasParams option"
  ApiMedasGenesisState_unknownFields :: bytes

definition ApiMedasGenesisState_zero :: "ApiMedasGenesisState" where
  "ApiMedasGenesisState_zero = \<lparr>ApiMedasGenesisState_Params = None,
      ApiMedasGenesisState_unknownFields = []\<rparr>"

definition ApiMedasGenesisState_fields_size :: "proto_runtime \<Rightarrow> ApiMedasParams options
    \<Rightarrow> ApiMedasGenesisState \<Rightarrow> nat" where
  "ApiMedasGenesisState_fields_size R O1 m =
     api_size_message R O1 (ApiMedasGenesisState_Params m)"

definition ApiMedasGenesisState_size :: "proto_runtime \<Rightarrow> ApiMedasParams options
    \<Rightarrow> ApiMedasGenesisState option \<Rightarrow> nat" where
  "ApiMedasGenesisState_size R O1 = pulsar_size ApiMedasGenesisState_unknownFields
      (ApiMedasGenesisState_fields_size R O1)"

definition ApiMedasGenesisState_writers :: "proto_runtime \<Rightarrow> ApiMedasParams options
    \<Rightarrow> ApiMedasGenesisState \<Rightarrow> writer list" where
  "ApiMedasGenesisState_writers R O1 m =
     [api_message R O1 0x0a (ApiMedasGenesisState_Params m)]"

definition ApiMedasGenesisState_marshal :: "proto_runtime \<Rightarrow> ApiMedasParams options \<Rightarrow> bytes option
    \<Rightarrow> ApiMedasGenesisState option \<Rightarrow> pb_error + bytes option" where
  "ApiMedasGenesisState_marshal R O1 = pulsar_marshal ApiMedasGenesisState_unknownFields
      (ApiMedasGenesisState_fields_size R O1) (ApiMedasGenesisState_writers R O1)"

definition ApiMedasGenesisState_keep :: "bytes \<Rightarrow> ApiMedasGenesisState \<Rightarrow> ApiMedasGenesisState" where
  "ApiMedasGenesisState_keep raw m = m\<lparr>ApiMedasGenesisState_unknownFields :=
      ApiMedasGenesisState_unknownFields m @ raw\<rparr>"

definition ApiMedasGenesisState_fields :: "ApiMedasParams options \<Rightarrow> ApiMedasGenesisState fields"
    where
  "ApiMedasGenesisState_fields O1 n =
     (if n = 1 then Some (''Params'', FMessage (api_dec_message O1 ApiMedasParams_zero
         ApiMedasGenesisState_Params
          (\<lambda>p m. m\<lparr>ApiMedasGenesisState_Params := p\<rparr>)))
      else None)"

definition ApiMedasGenesisState_unmarshal :: "proto_runtime \<Rightarrow> bool \<Rightarrow> ApiMedasParams options \<Rightarrow> bytes
    \<Rightarrow> ApiMedasGenesisState option \<Rightarrow> (pb_error + ApiMedasGenesisState option) option" where
  "ApiMedasGenesisState_unmarshal R DiscardUnknown O1 =
     pulsar_unmarshal R DiscardUnknown ''GenesisState'' (ApiMedasGenesisState_fields O1)
         ApiMedasGenesisState_keep"

definition ApiMedasGenesisState_refl :: "(ApiMedasGenesisState, medas_ref) rtable" where
  "ApiMedasGenesisState_refl =
     [(''params'', RPointer RefMedasParams as_MedasParams ApiMedasParams_zero
         ApiMedasGenesisState_Params
        (\<lambda>p m. m\<lparr>ApiMedasGenesisState_Params := p\<rparr>))]"

definition fastReflection_MedasGenesisState_Range :: "ApiMedasGenesisState option \<Rightarrow> (string
    \<Rightarrow> medas_ref pvalue \<Rightarrow> 's \<Rightarrow> bool \<times> 's) \<Rightarrow> 's \<Rightarrow> refl_error + 's" where
  "fastReflection_MedasGenesisState_Range
      = refl_Range ''medasdigital.medasdigital.GenesisState'' ApiMedasGenesisState_refl"

definition fastReflection_MedasGenesisState_Has :: "ApiMedasGenesisState option \<Rightarrow> field_descriptor
    \<Rightarrow> refl_error + bool" where
  "fastReflection_MedasGenesisState_Has = refl_Has ''medasdigital.medasdigital.GenesisState''
      ApiMedasGenesisState_refl"

definition fastReflection_MedasGenesisState_Clear :: "ApiMedasGenesisState option \<Rightarrow> field_descriptor
    \<Rightarrow> refl_error + ApiMedasGenesisState option" where
  "fastReflection_MedasGenesisState_Clear
      = refl_Clear ''medasdigital.medasdigital.GenesisState'' ApiMedasGenesisState_refl"

definition fastReflection_MedasGenesisState_Get :: "ApiMedasGenesisState option \<Rightarrow> field_descriptor
    \<Rightarrow> refl_error + medas_ref pvalue" where
  "fastReflection_MedasGenesisState_Get = refl_Get ''medasdigital.medasdigital.GenesisState''
      ApiMedasGenesisState_refl"

definition fastReflection_MedasGenesisState_Set :: "ApiMedasGenesisState option \<Rightarrow> field_descriptor
    \<Rightarrow> medas_ref pvalue \<Rightarrow> refl_error + ApiMedasGenesisState option" where
  "fastReflection_MedasGenesisState_Set = refl_Set ''medasdigital.medasdigital.GenesisState''
      ApiMedasGenesisState_refl"

definition fastReflection_MedasGenesisState_Mutable :: "ApiMedasGenesisState option
    \<Rightarrow> field_descriptor \<Rightarrow> refl_error + ApiMedasGenesisState option \<times> medas_ref pvalue" where
  "fastReflection_MedasGenesisState_Mutable
      = refl_Mutable ''medasdigital.medasdigital.GenesisState'' ApiMedasGenesisState_refl"

definition fastReflection_MedasGenesisState_NewField :: "field_descriptor \<Rightarrow> refl_error
    + medas_ref pvalue" where
  "fastReflection_MedasGenesisState_NewField
      = refl_NewField ''medasdigital.medasdigital.GenesisState'' ApiMedasGenesisState_refl"

definition fastReflection_MedasGenesisState_WhichOneof :: "string \<Rightarrow> refl_error + field_descriptor"
    where
  "fastReflection_MedasGenesisState_WhichOneof
      = refl_WhichOneof ''medasdigital.medasdigital.GenesisState''"

definition fastReflection_MedasGenesisState_GetUnknown :: "ApiMedasGenesisState option \<Rightarrow> refl_error
    + bytes" where
  "fastReflection_MedasGenesisState_GetUnknown = refl_GetUnknown ApiMedasGenesisState_unknownFields"

definition fastReflection_MedasGenesisState_SetUnknown :: "ApiMedasGenesisState option \<Rightarrow> bytes
    \<Rightarrow> refl_error + ApiMedasGenesisState option" where
  "fastReflection_MedasGenesisState_SetUnknown
      = refl_SetUnknown (\<lambda>raw m. m\<lparr>ApiMedasGenesisState_unknownFields := raw\<rparr>)"

definition fastReflection_MedasGenesisState_IsValid :: "ApiMedasGenesisState option \<Rightarrow> bool" where
  "fastReflection_MedasGenesisState_IsValid = refl_IsValid"

definition ApiMedasGenesisState_GetParams :: "ApiMedasGenesisState option \<Rightarrow> ApiMedasParams option"
    where
  "ApiMedasGenesisState_GetParams = getter None ApiMedasGenesisState_Params"

definition ApiMedasGenesisState_wire :: "(ApiMedasParams \<Rightarrow> bytes) \<Rightarrow> ApiMedasGenesisState
    \<Rightarrow> wire_field list" where
  "ApiMedasGenesisState_wire enc1 m =
     w_message 1 enc1 (ApiMedasGenesisState_Params m)"

lemma ApiMedasGenesisState_contract:
  assumes R: "runtime_ok R"
    and N1: "nested_ok O1 enc1 ApiMedasParams_zero good1"
  shows "pulsar_message R (ApiMedasGenesisState_fields O1) ApiMedasGenesisState_keep
      ApiMedasGenesisState_unknownFields
    (\<lambda>m. m\<lparr>ApiMedasGenesisState_unknownFields := []\<rparr>)
    ApiMedasGenesisState_zero (\<lambda>m. pointer_good good1 (ApiMedasGenesisState_Params m))
    (ApiMedasGenesisState_fields_size R O1) (ApiMedasGenesisState_writers R O1)
        (ApiMedasGenesisState_wire enc1)"
proof unfold_locales
  show "runtime_ok R" by (rule R)
  show "writes (put_seq (ApiMedasGenesisState_writers R O1 m)) (enc_fields
      (ApiMedasGenesisState_wire enc1 m))" for m
  proof -
    have "list_all2 writes (ApiMedasGenesisState_writers R O1 m)
        [enc_fields (w_message 1 enc1 (ApiMedasGenesisState_Params m))]"
      by (simp add: ApiMedasGenesisState_writers_def runtime_simps [OF R] writes_wire key_byte_def
          writes_nested [OF R N1])
    from writes_seq [OF this] show ?thesis by (simp add: ApiMedasGenesisState_wire_def)
  qed
  show "ApiMedasGenesisState_fields_size R O1 m
      = length (enc_fields (ApiMedasGenesisState_wire enc1 m))" for m
    by (simp add: ApiMedasGenesisState_fields_size_def ApiMedasGenesisState_wire_def
        runtime_simps [OF R] length_nested [OF R N1])
  show "list_all wf_field (ApiMedasGenesisState_wire enc1 m)" for m
    by (simp add: ApiMedasGenesisState_wire_def)
  show "ApiMedasGenesisState_fields O1 (of_nat (field_num x)) \<noteq> None"
      if "x \<in> set (ApiMedasGenesisState_wire enc1 m)" for x m
    using that by (auto simp: ApiMedasGenesisState_wire_def ApiMedasGenesisState_fields_def dest!:
        num_wire)
  show "rfold (apply_field (ApiMedasGenesisState_fields O1)) (ApiMedasGenesisState_wire enc1 m)
      ApiMedasGenesisState_zero = Inr (m\<lparr>ApiMedasGenesisState_unknownFields := []\<rparr>)"
    if v: "pointer_good good1 (ApiMedasGenesisState_Params m)"
        and g: "go_slice (enc_fields (ApiMedasGenesisState_wire enc1 m))" for m
  proof -
    have 1: "rfold (apply_field (ApiMedasGenesisState_fields O1)) (w_message 1 enc1
        (ApiMedasGenesisState_Params m) @ rest) y
        = rfold (apply_field (ApiMedasGenesisState_fields O1)) rest (y\<lparr>ApiMedasGenesisState_Params
            := ApiMedasGenesisState_Params m\<rparr>)" if "ApiMedasGenesisState_Params y = None" for rest y
      by (rule rfold_nested_message [OF _ N1 v _ g, where sel = ApiMedasGenesisState_Params
          and upd = "\<lambda>p m. m\<lparr>ApiMedasGenesisState_Params := p\<rparr>"]) (use that in \<open>simp_all add:
              ApiMedasGenesisState_fields_def ApiMedasGenesisState_wire_def\<close>)
    show ?thesis
      using 1 [where rest = "[]", simplified] 1
      by (simp add: ApiMedasGenesisState_wire_def ApiMedasGenesisState_zero_def  rfold_wire)
  qed
  show "ApiMedasGenesisState_keep (ApiMedasGenesisState_unknownFields m)
      (m\<lparr>ApiMedasGenesisState_unknownFields := []\<rparr>) = m" for m
    by (simp add: ApiMedasGenesisState_keep_def)
  show "ApiMedasGenesisState_keep b (ApiMedasGenesisState_keep a m) = ApiMedasGenesisState_keep (a
      @ b) m" for a b m
    by (simp add: ApiMedasGenesisState_keep_def)
  show "dec s y \<noteq> Inl Panic" if "ApiMedasGenesisState_fields O1 n = Some (name, FMessage dec)"
      and "go_slice s"
    for n name dec s y
    using that by (auto simp: ApiMedasGenesisState_fields_def api_dec_no_panic [OF N1] split:
        if_splits)
qed

interpretation refl_MedasGenesisState: pulsar_reflect "''medasdigital.medasdigital.GenesisState''"
    "ApiMedasGenesisState_refl"
  by (rule pulsar_reflectI) (simp add: ApiMedasGenesisState_refl_def tbl_ok_simps as_MedasParams_eq)

text \<open>The gogoproto message with the same fields.\<close>

definition ApiMedasGenesisState_gogo :: "ApiMedasGenesisState \<Rightarrow> MedasGenesisState" where
  "ApiMedasGenesisState_gogo m = \<lparr>MedasGenesisState_Params
      = (case ApiMedasGenesisState_Params m of None \<Rightarrow> MedasParams | Some p
      \<Rightarrow> ApiMedasParams_gogo p)\<rparr>"

lemma ApiMedasGenesisState_agree:
  assumes R: "runtime_ok R"
    and N1: "nested_ok O1 enc1 ApiMedasParams_zero good1"
    and S1: "\<forall>s p. go_slice s \<longrightarrow> norm ApiMedasParams_gogo (opt_Unmarshal O1 s p)
        = norm id (MedasParams_Unmarshal s (ApiMedasParams_gogo p))"
  shows "pulsar_gogo R (ApiMedasGenesisState_fields O1) ApiMedasGenesisState_keep
      ApiMedasGenesisState_unknownFields
    (\<lambda>m. m\<lparr>ApiMedasGenesisState_unknownFields := []\<rparr>) ApiMedasGenesisState_zero (\<lambda>m. pointer_good
        good1 (ApiMedasGenesisState_Params m))
    (ApiMedasGenesisState_fields_size R O1) (ApiMedasGenesisState_writers R O1)
    (ApiMedasGenesisState_wire enc1) MedasGenesisState_fields MedasGenesisState_zero
        MedasGenesisState_Size MedasGenesisState_MarshalToSizedBuffer MedasGenesisState_wire
        ApiMedasGenesisState_gogo"
  using ApiMedasGenesisState_contract [OF R N1] medas_genesis_pb.pb_message_axioms
proof (rule pulsar_gogo.intro)
  show "pulsar_gogo_axioms (ApiMedasGenesisState_fields O1) ApiMedasGenesisState_keep
      ApiMedasGenesisState_zero MedasGenesisState_fields MedasGenesisState_zero
      ApiMedasGenesisState_gogo"
  proof
    have 1: "field_sim ApiMedasGenesisState_gogo
        (FMessage (api_dec_message O1 ApiMedasParams_zero ApiMedasGenesisState_Params (\<lambda>p m.
            m\<lparr>ApiMedasGenesisState_Params := p\<rparr>)))
        (FMessage (\<lambda>s m. rbind (MedasParams_Unmarshal s (MedasGenesisState_Params m)) (\<lambda>x. Inr
            (m\<lparr>MedasGenesisState_Params := x\<rparr>))))"
      by (rule sim_nested_message [where \<alpha> = ApiMedasParams_gogo])
        (simp_all add: S1 ApiMedasGenesisState_gogo_def ApiMedasParams_gogo_def split:
            option.splits)
    show "fields_sim ApiMedasGenesisState_gogo (ApiMedasGenesisState_fields O1)
        MedasGenesisState_fields"
      using 1 by (simp add: fields_sim_def ApiMedasGenesisState_fields_def
          MedasGenesisState_fields_def del: field_sim.simps(4))
  qed (simp_all add: ApiMedasGenesisState_keep_def ApiMedasGenesisState_gogo_def
      ApiMedasGenesisState_zero_def MedasGenesisState_zero_def)
qed

section \<open>MsgUpdateParams\<close>

text \<open>The request of \<open>Msg/UpdateParams\<close>.\<close>

record ApiMedasMsgUpdateParams =
  ApiMedasMsgUpdateParams_Authority :: gostring
  ApiMedasMsgUpdateParams_Params :: "ApiMedasParams option"
  ApiMedasMsgUpdateParams_unknownFields :: bytes

definition ApiMedasMsgUpdateParams_zero :: "ApiMedasMsgUpdateParams" where
  "ApiMedasMsgUpdateParams_zero = \<lparr>ApiMedasMsgUpdateParams_Authority = [],
      ApiMedasMsgUpdateParams_Params = None, ApiMedasMsgUpdateParams_unknownFields = []\<rparr>"

definition ApiMedasMsgUpdateParams_fields_size :: "proto_runtime \<Rightarrow> ApiMedasParams options
    \<Rightarrow> ApiMedasMsgUpdateParams \<Rightarrow> nat" where
  "ApiMedasMsgUpdateParams_fields_size R O1 m =
     api_size_string R (ApiMedasMsgUpdateParams_Authority m)
   + api_size_message R O1 (ApiMedasMsgUpdateParams_Params m)"

definition ApiMedasMsgUpdateParams_size :: "proto_runtime \<Rightarrow> ApiMedasParams options
    \<Rightarrow> ApiMedasMsgUpdateParams option \<Rightarrow> nat" where
  "ApiMedasMsgUpdateParams_size R O1 = pulsar_size ApiMedasMsgUpdateParams_unknownFields
      (ApiMedasMsgUpdateParams_fields_size R O1)"

definition ApiMedasMsgUpdateParams_writers :: "proto_runtime \<Rightarrow> ApiMedasParams options
    \<Rightarrow> ApiMedasMsgUpdateParams \<Rightarrow> writer list" where
  "ApiMedasMsgUpdateParams_writers R O1 m =
     [api_message R O1 0x12 (ApiMedasMsgUpdateParams_Params m),
      api_string R 0x0a (ApiMedasMsgUpdateParams_Authority m)]"

definition ApiMedasMsgUpdateParams_marshal :: "proto_runtime \<Rightarrow> ApiMedasParams options \<Rightarrow> bytes option
    \<Rightarrow> ApiMedasMsgUpdateParams option \<Rightarrow> pb_error + bytes option" where
  "ApiMedasMsgUpdateParams_marshal R O1 = pulsar_marshal ApiMedasMsgUpdateParams_unknownFields
      (ApiMedasMsgUpdateParams_fields_size R O1) (ApiMedasMsgUpdateParams_writers R O1)"

definition ApiMedasMsgUpdateParams_keep :: "bytes \<Rightarrow> ApiMedasMsgUpdateParams
    \<Rightarrow> ApiMedasMsgUpdateParams" where
  "ApiMedasMsgUpdateParams_keep raw m = m\<lparr>ApiMedasMsgUpdateParams_unknownFields :=
      ApiMedasMsgUpdateParams_unknownFields m @ raw\<rparr>"

definition ApiMedasMsgUpdateParams_fields :: "ApiMedasParams options
    \<Rightarrow> ApiMedasMsgUpdateParams fields" where
  "ApiMedasMsgUpdateParams_fields O1 n =
     (if n = 1 then Some (''Authority'', FString (\<lambda>s m. m\<lparr>ApiMedasMsgUpdateParams_Authority := s\<rparr>))
      else if n = 2 then Some (''Params'',
          FMessage (api_dec_message O1 ApiMedasParams_zero ApiMedasMsgUpdateParams_Params
          (\<lambda>p m. m\<lparr>ApiMedasMsgUpdateParams_Params := p\<rparr>)))
      else None)"

definition ApiMedasMsgUpdateParams_unmarshal :: "proto_runtime \<Rightarrow> bool \<Rightarrow> ApiMedasParams options
    \<Rightarrow> bytes \<Rightarrow> ApiMedasMsgUpdateParams option \<Rightarrow> (pb_error + ApiMedasMsgUpdateParams option) option"
    where
  "ApiMedasMsgUpdateParams_unmarshal R DiscardUnknown O1 =
     pulsar_unmarshal R DiscardUnknown ''MsgUpdateParams'' (ApiMedasMsgUpdateParams_fields O1)
         ApiMedasMsgUpdateParams_keep"

definition ApiMedasMsgUpdateParams_refl :: "(ApiMedasMsgUpdateParams, medas_ref) rtable" where
  "ApiMedasMsgUpdateParams_refl =
     [(''authority'', RString ApiMedasMsgUpdateParams_Authority (\<lambda>s m.
         m\<lparr>ApiMedasMsgUpdateParams_Authority := s\<rparr>)),
      (''params'', RPointer RefMedasParams as_MedasParams ApiMedasParams_zero
          ApiMedasMsgUpdateParams_Params
        (\<lambda>p m. m\<lparr>ApiMedasMsgUpdateParams_Params := p\<rparr>))]"

definition fastReflection_MedasMsgUpdateParams_Range :: "ApiMedasMsgUpdateParams option \<Rightarrow> (string
    \<Rightarrow> medas_ref pvalue \<Rightarrow> 's \<Rightarrow> bool \<times> 's) \<Rightarrow> 's \<Rightarrow> refl_error + 's" where
  "fastReflection_MedasMsgUpdateParams_Range
      = refl_Range ''medasdigital.medasdigital.MsgUpdateParams'' ApiMedasMsgUpdateParams_refl"

definition fastReflection_MedasMsgUpdateParams_Has :: "ApiMedasMsgUpdateParams option
    \<Rightarrow> field_descriptor \<Rightarrow> refl_error + bool" where
  "fastReflection_MedasMsgUpdateParams_Has
      = refl_Has ''medasdigital.medasdigital.MsgUpdateParams'' ApiMedasMsgUpdateParams_refl"

definition fastReflection_MedasMsgUpdateParams_Clear :: "ApiMedasMsgUpdateParams option
    \<Rightarrow> field_descriptor \<Rightarrow> refl_error + ApiMedasMsgUpdateParams option" where
  "fastReflection_MedasMsgUpdateParams_Clear
      = refl_Clear ''medasdigital.medasdigital.MsgUpdateParams'' ApiMedasMsgUpdateParams_refl"

definition fastReflection_MedasMsgUpdateParams_Get :: "ApiMedasMsgUpdateParams option
    \<Rightarrow> field_descriptor \<Rightarrow> refl_error + medas_ref pvalue" where
  "fastReflection_MedasMsgUpdateParams_Get
      = refl_Get ''medasdigital.medasdigital.MsgUpdateParams'' ApiMedasMsgUpdateParams_refl"

definition fastReflection_MedasMsgUpdateParams_Set :: "ApiMedasMsgUpdateParams option
    \<Rightarrow> field_descriptor \<Rightarrow> medas_ref pvalue \<Rightarrow> refl_error + ApiMedasMsgUpdateParams option" where
  "fastReflection_MedasMsgUpdateParams_Set
      = refl_Set ''medasdigital.medasdigital.MsgUpdateParams'' ApiMedasMsgUpdateParams_refl"

definition fastReflection_MedasMsgUpdateParams_Mutable :: "ApiMedasMsgUpdateParams option
    \<Rightarrow> field_descriptor \<Rightarrow> refl_error + ApiMedasMsgUpdateParams option \<times> medas_ref pvalue" where
  "fastReflection_MedasMsgUpdateParams_Mutable
      = refl_Mutable ''medasdigital.medasdigital.MsgUpdateParams'' ApiMedasMsgUpdateParams_refl"

definition fastReflection_MedasMsgUpdateParams_NewField :: "field_descriptor \<Rightarrow> refl_error
    + medas_ref pvalue" where
  "fastReflection_MedasMsgUpdateParams_NewField
      = refl_NewField ''medasdigital.medasdigital.MsgUpdateParams'' ApiMedasMsgUpdateParams_refl"

definition fastReflection_MedasMsgUpdateParams_WhichOneof :: "string \<Rightarrow> refl_error
    + field_descriptor" where
  "fastReflection_MedasMsgUpdateParams_WhichOneof
      = refl_WhichOneof ''medasdigital.medasdigital.MsgUpdateParams''"

definition fastReflection_MedasMsgUpdateParams_GetUnknown :: "ApiMedasMsgUpdateParams option
    \<Rightarrow> refl_error + bytes" where
  "fastReflection_MedasMsgUpdateParams_GetUnknown
      = refl_GetUnknown ApiMedasMsgUpdateParams_unknownFields"

definition fastReflection_MedasMsgUpdateParams_SetUnknown :: "ApiMedasMsgUpdateParams option \<Rightarrow> bytes
    \<Rightarrow> refl_error + ApiMedasMsgUpdateParams option" where
  "fastReflection_MedasMsgUpdateParams_SetUnknown
      = refl_SetUnknown (\<lambda>raw m. m\<lparr>ApiMedasMsgUpdateParams_unknownFields := raw\<rparr>)"

definition fastReflection_MedasMsgUpdateParams_IsValid :: "ApiMedasMsgUpdateParams option \<Rightarrow> bool"
    where
  "fastReflection_MedasMsgUpdateParams_IsValid = refl_IsValid"

definition ApiMedasMsgUpdateParams_GetAuthority :: "ApiMedasMsgUpdateParams option \<Rightarrow> gostring" where
  "ApiMedasMsgUpdateParams_GetAuthority = getter [] ApiMedasMsgUpdateParams_Authority"

definition ApiMedasMsgUpdateParams_GetParams :: "ApiMedasMsgUpdateParams option
    \<Rightarrow> ApiMedasParams option" where
  "ApiMedasMsgUpdateParams_GetParams = getter None ApiMedasMsgUpdateParams_Params"

definition ApiMedasMsgUpdateParams_wire :: "(ApiMedasParams \<Rightarrow> bytes) \<Rightarrow> ApiMedasMsgUpdateParams
    \<Rightarrow> wire_field list" where
  "ApiMedasMsgUpdateParams_wire enc1 m =
     w_string 1 (ApiMedasMsgUpdateParams_Authority m)
   @ w_message 2 enc1 (ApiMedasMsgUpdateParams_Params m)"

lemma ApiMedasMsgUpdateParams_contract:
  assumes R: "runtime_ok R"
    and N1: "nested_ok O1 enc1 ApiMedasParams_zero good1"
  shows "pulsar_message R (ApiMedasMsgUpdateParams_fields O1) ApiMedasMsgUpdateParams_keep
      ApiMedasMsgUpdateParams_unknownFields
    (\<lambda>m. m\<lparr>ApiMedasMsgUpdateParams_unknownFields := []\<rparr>)
    ApiMedasMsgUpdateParams_zero (\<lambda>m. pointer_good good1 (ApiMedasMsgUpdateParams_Params m))
    (ApiMedasMsgUpdateParams_fields_size R O1) (ApiMedasMsgUpdateParams_writers R O1)
        (ApiMedasMsgUpdateParams_wire enc1)"
proof unfold_locales
  show "runtime_ok R" by (rule R)
  show "writes (put_seq (ApiMedasMsgUpdateParams_writers R O1 m)) (enc_fields
      (ApiMedasMsgUpdateParams_wire enc1 m))" for m
  proof -
    have "list_all2 writes (ApiMedasMsgUpdateParams_writers R O1 m)
        [enc_fields (w_message 2 enc1 (ApiMedasMsgUpdateParams_Params m)),
            enc_fields (w_string 1 (ApiMedasMsgUpdateParams_Authority m))]"
      by (simp add: ApiMedasMsgUpdateParams_writers_def runtime_simps [OF R] writes_wire
          key_byte_def writes_nested [OF R N1])
    from writes_seq [OF this] show ?thesis by (simp add: ApiMedasMsgUpdateParams_wire_def)
  qed
  show "ApiMedasMsgUpdateParams_fields_size R O1 m
      = length (enc_fields (ApiMedasMsgUpdateParams_wire enc1 m))" for m
    by (simp add: ApiMedasMsgUpdateParams_fields_size_def ApiMedasMsgUpdateParams_wire_def
        runtime_simps [OF R] length_nested [OF R N1])
  show "list_all wf_field (ApiMedasMsgUpdateParams_wire enc1 m)" for m
    by (simp add: ApiMedasMsgUpdateParams_wire_def)
  show "ApiMedasMsgUpdateParams_fields O1 (of_nat (field_num x)) \<noteq> None"
      if "x \<in> set (ApiMedasMsgUpdateParams_wire enc1 m)" for x m
    using that by (auto simp: ApiMedasMsgUpdateParams_wire_def ApiMedasMsgUpdateParams_fields_def
        dest!: num_wire)
  show "rfold (apply_field (ApiMedasMsgUpdateParams_fields O1)) (ApiMedasMsgUpdateParams_wire enc1
      m) ApiMedasMsgUpdateParams_zero = Inr (m\<lparr>ApiMedasMsgUpdateParams_unknownFields := []\<rparr>)"
    if v: "pointer_good good1 (ApiMedasMsgUpdateParams_Params m)"
        and g: "go_slice (enc_fields (ApiMedasMsgUpdateParams_wire enc1 m))" for m
  proof -
    have 1: "rfold (apply_field (ApiMedasMsgUpdateParams_fields O1)) (w_message 2 enc1
        (ApiMedasMsgUpdateParams_Params m) @ rest) y
        = rfold (apply_field (ApiMedasMsgUpdateParams_fields O1)) rest
            (y\<lparr>ApiMedasMsgUpdateParams_Params := ApiMedasMsgUpdateParams_Params m\<rparr>)"
            if "ApiMedasMsgUpdateParams_Params y = None" for rest y
      by (rule rfold_nested_message [OF _ N1 v _ g, where sel = ApiMedasMsgUpdateParams_Params
          and upd = "\<lambda>p m. m\<lparr>ApiMedasMsgUpdateParams_Params := p\<rparr>"]) (use that in \<open>simp_all add:
              ApiMedasMsgUpdateParams_fields_def ApiMedasMsgUpdateParams_wire_def\<close>)
    show ?thesis
      using 1 [where rest = "[]", simplified] 1
      by (simp add: ApiMedasMsgUpdateParams_wire_def ApiMedasMsgUpdateParams_zero_def
          ApiMedasMsgUpdateParams_fields_def rfold_wire)
  qed
  show "ApiMedasMsgUpdateParams_keep (ApiMedasMsgUpdateParams_unknownFields m)
      (m\<lparr>ApiMedasMsgUpdateParams_unknownFields := []\<rparr>) = m" for m
    by (simp add: ApiMedasMsgUpdateParams_keep_def)
  show "ApiMedasMsgUpdateParams_keep b (ApiMedasMsgUpdateParams_keep a m)
      = ApiMedasMsgUpdateParams_keep (a @ b) m" for a b m
    by (simp add: ApiMedasMsgUpdateParams_keep_def)
  show "dec s y \<noteq> Inl Panic" if "ApiMedasMsgUpdateParams_fields O1 n = Some (name, FMessage dec)"
      and "go_slice s"
    for n name dec s y
    using that by (auto simp: ApiMedasMsgUpdateParams_fields_def api_dec_no_panic [OF N1] split:
        if_splits)
qed

interpretation refl_MedasMsgUpdateParams: pulsar_reflect
    "''medasdigital.medasdigital.MsgUpdateParams''" "ApiMedasMsgUpdateParams_refl"
  by (rule pulsar_reflectI) (simp add: ApiMedasMsgUpdateParams_refl_def tbl_ok_simps
      as_MedasParams_eq)

text \<open>The gogoproto message with the same fields.\<close>

definition ApiMedasMsgUpdateParams_gogo :: "ApiMedasMsgUpdateParams \<Rightarrow> MedasMsgUpdateParams" where
  "ApiMedasMsgUpdateParams_gogo m = \<lparr>MedasMsgUpdateParams_Authority
      = ApiMedasMsgUpdateParams_Authority m,
       MedasMsgUpdateParams_Params = (case ApiMedasMsgUpdateParams_Params m of None
           \<Rightarrow> MedasParams | Some p \<Rightarrow> ApiMedasParams_gogo p)\<rparr>"

lemma ApiMedasMsgUpdateParams_agree:
  assumes R: "runtime_ok R"
    and N1: "nested_ok O1 enc1 ApiMedasParams_zero good1"
    and S1: "\<forall>s p. go_slice s \<longrightarrow> norm ApiMedasParams_gogo (opt_Unmarshal O1 s p)
        = norm id (MedasParams_Unmarshal s (ApiMedasParams_gogo p))"
  shows "pulsar_gogo R (ApiMedasMsgUpdateParams_fields O1) ApiMedasMsgUpdateParams_keep
      ApiMedasMsgUpdateParams_unknownFields
    (\<lambda>m. m\<lparr>ApiMedasMsgUpdateParams_unknownFields := []\<rparr>) ApiMedasMsgUpdateParams_zero (\<lambda>m.
        pointer_good good1 (ApiMedasMsgUpdateParams_Params m))
    (ApiMedasMsgUpdateParams_fields_size R O1) (ApiMedasMsgUpdateParams_writers R O1)
    (ApiMedasMsgUpdateParams_wire enc1) MedasMsgUpdateParams_fields MedasMsgUpdateParams_zero
        MedasMsgUpdateParams_Size MedasMsgUpdateParams_MarshalToSizedBuffer
        MedasMsgUpdateParams_wire ApiMedasMsgUpdateParams_gogo"
  using ApiMedasMsgUpdateParams_contract [OF R N1] medas_msg_update_params_pb.pb_message_axioms
proof (rule pulsar_gogo.intro)
  show "pulsar_gogo_axioms (ApiMedasMsgUpdateParams_fields O1) ApiMedasMsgUpdateParams_keep
      ApiMedasMsgUpdateParams_zero MedasMsgUpdateParams_fields MedasMsgUpdateParams_zero
      ApiMedasMsgUpdateParams_gogo"
  proof
    have 1: "field_sim ApiMedasMsgUpdateParams_gogo
        (FMessage (api_dec_message O1 ApiMedasParams_zero ApiMedasMsgUpdateParams_Params (\<lambda>p m.
            m\<lparr>ApiMedasMsgUpdateParams_Params := p\<rparr>)))
        (FMessage (\<lambda>s m. rbind (MedasParams_Unmarshal s (MedasMsgUpdateParams_Params m)) (\<lambda>x. Inr
            (m\<lparr>MedasMsgUpdateParams_Params := x\<rparr>))))"
      by (rule sim_nested_message [where \<alpha> = ApiMedasParams_gogo])
        (simp_all add: S1 ApiMedasMsgUpdateParams_gogo_def ApiMedasParams_gogo_def split:
            option.splits)
    show "fields_sim ApiMedasMsgUpdateParams_gogo (ApiMedasMsgUpdateParams_fields O1)
        MedasMsgUpdateParams_fields"
      using 1 by (simp add: fields_sim_def ApiMedasMsgUpdateParams_fields_def
          MedasMsgUpdateParams_fields_def ApiMedasMsgUpdateParams_gogo_def del: field_sim.simps(4))
  qed (simp_all add: ApiMedasMsgUpdateParams_keep_def ApiMedasMsgUpdateParams_gogo_def
      ApiMedasMsgUpdateParams_zero_def MedasMsgUpdateParams_zero_def)
qed

section \<open>MsgUpdateParamsResponse\<close>

text \<open>Its response.\<close>

record ApiMedasMsgUpdateParamsResponse =
  ApiMedasMsgUpdateParamsResponse_unknownFields :: bytes

definition ApiMedasMsgUpdateParamsResponse_zero :: "ApiMedasMsgUpdateParamsResponse" where
  "ApiMedasMsgUpdateParamsResponse_zero = \<lparr>ApiMedasMsgUpdateParamsResponse_unknownFields = []\<rparr>"

definition ApiMedasMsgUpdateParamsResponse_fields_size :: "proto_runtime
    \<Rightarrow> ApiMedasMsgUpdateParamsResponse \<Rightarrow> nat" where
  "ApiMedasMsgUpdateParamsResponse_fields_size R m = 0"

definition ApiMedasMsgUpdateParamsResponse_size :: "proto_runtime
    \<Rightarrow> ApiMedasMsgUpdateParamsResponse option \<Rightarrow> nat" where
  "ApiMedasMsgUpdateParamsResponse_size R
      = pulsar_size ApiMedasMsgUpdateParamsResponse_unknownFields
      (ApiMedasMsgUpdateParamsResponse_fields_size R)"

definition ApiMedasMsgUpdateParamsResponse_writers :: "proto_runtime
    \<Rightarrow> ApiMedasMsgUpdateParamsResponse \<Rightarrow> writer list" where
  "ApiMedasMsgUpdateParamsResponse_writers R m = []"

definition ApiMedasMsgUpdateParamsResponse_marshal :: "proto_runtime \<Rightarrow> bytes option
    \<Rightarrow> ApiMedasMsgUpdateParamsResponse option \<Rightarrow> pb_error + bytes option" where
  "ApiMedasMsgUpdateParamsResponse_marshal R
      = pulsar_marshal ApiMedasMsgUpdateParamsResponse_unknownFields
      (ApiMedasMsgUpdateParamsResponse_fields_size R) (ApiMedasMsgUpdateParamsResponse_writers R)"

definition ApiMedasMsgUpdateParamsResponse_keep :: "bytes \<Rightarrow> ApiMedasMsgUpdateParamsResponse
    \<Rightarrow> ApiMedasMsgUpdateParamsResponse" where
  "ApiMedasMsgUpdateParamsResponse_keep raw m
      = m\<lparr>ApiMedasMsgUpdateParamsResponse_unknownFields :=
      ApiMedasMsgUpdateParamsResponse_unknownFields m @ raw\<rparr>"

definition ApiMedasMsgUpdateParamsResponse_fields :: "ApiMedasMsgUpdateParamsResponse fields" where
  "ApiMedasMsgUpdateParamsResponse_fields n = None"

definition ApiMedasMsgUpdateParamsResponse_unmarshal :: "proto_runtime \<Rightarrow> bool \<Rightarrow> bytes
    \<Rightarrow> ApiMedasMsgUpdateParamsResponse option \<Rightarrow> (pb_error
    + ApiMedasMsgUpdateParamsResponse option) option" where
  "ApiMedasMsgUpdateParamsResponse_unmarshal R DiscardUnknown =
     pulsar_unmarshal R DiscardUnknown ''MsgUpdateParamsResponse''
         ApiMedasMsgUpdateParamsResponse_fields ApiMedasMsgUpdateParamsResponse_keep"

definition ApiMedasMsgUpdateParamsResponse_refl :: "(ApiMedasMsgUpdateParamsResponse,
    medas_ref) rtable" where
  "ApiMedasMsgUpdateParamsResponse_refl = []"

definition fastReflection_MedasMsgUpdateParamsResponse_Range :: "ApiMedasMsgUpdateParamsResponse
    option \<Rightarrow> (string \<Rightarrow> medas_ref pvalue \<Rightarrow> 's \<Rightarrow> bool \<times> 's) \<Rightarrow> 's \<Rightarrow> refl_error + 's" where
  "fastReflection_MedasMsgUpdateParamsResponse_Range
      = refl_Range ''medasdigital.medasdigital.MsgUpdateParamsResponse''
      ApiMedasMsgUpdateParamsResponse_refl"

definition fastReflection_MedasMsgUpdateParamsResponse_Has :: "ApiMedasMsgUpdateParamsResponse
    option \<Rightarrow> field_descriptor \<Rightarrow> refl_error + bool" where
  "fastReflection_MedasMsgUpdateParamsResponse_Has
      = refl_Has ''medasdigital.medasdigital.MsgUpdateParamsResponse''
      ApiMedasMsgUpdateParamsResponse_refl"

definition fastReflection_MedasMsgUpdateParamsResponse_Clear :: "ApiMedasMsgUpdateParamsResponse
    option \<Rightarrow> field_descriptor \<Rightarrow> refl_error + ApiMedasMsgUpdateParamsResponse option" where
  "fastReflection_MedasMsgUpdateParamsResponse_Clear
      = refl_Clear ''medasdigital.medasdigital.MsgUpdateParamsResponse''
      ApiMedasMsgUpdateParamsResponse_refl"

definition fastReflection_MedasMsgUpdateParamsResponse_Get :: "ApiMedasMsgUpdateParamsResponse
    option \<Rightarrow> field_descriptor \<Rightarrow> refl_error + medas_ref pvalue" where
  "fastReflection_MedasMsgUpdateParamsResponse_Get
      = refl_Get ''medasdigital.medasdigital.MsgUpdateParamsResponse''
      ApiMedasMsgUpdateParamsResponse_refl"

definition fastReflection_MedasMsgUpdateParamsResponse_Set :: "ApiMedasMsgUpdateParamsResponse
    option \<Rightarrow> field_descriptor \<Rightarrow> medas_ref pvalue \<Rightarrow> refl_error
    + ApiMedasMsgUpdateParamsResponse option" where
  "fastReflection_MedasMsgUpdateParamsResponse_Set
      = refl_Set ''medasdigital.medasdigital.MsgUpdateParamsResponse''
      ApiMedasMsgUpdateParamsResponse_refl"

definition fastReflection_MedasMsgUpdateParamsResponse_Mutable :: "ApiMedasMsgUpdateParamsResponse
    option \<Rightarrow> field_descriptor \<Rightarrow> refl_error
    + ApiMedasMsgUpdateParamsResponse option \<times> medas_ref pvalue" where
  "fastReflection_MedasMsgUpdateParamsResponse_Mutable
      = refl_Mutable ''medasdigital.medasdigital.MsgUpdateParamsResponse''
      ApiMedasMsgUpdateParamsResponse_refl"

definition fastReflection_MedasMsgUpdateParamsResponse_NewField :: "field_descriptor \<Rightarrow> refl_error
    + medas_ref pvalue" where
  "fastReflection_MedasMsgUpdateParamsResponse_NewField
      = refl_NewField ''medasdigital.medasdigital.MsgUpdateParamsResponse''
      ApiMedasMsgUpdateParamsResponse_refl"

definition fastReflection_MedasMsgUpdateParamsResponse_WhichOneof :: "string \<Rightarrow> refl_error
    + field_descriptor" where
  "fastReflection_MedasMsgUpdateParamsResponse_WhichOneof
      = refl_WhichOneof ''medasdigital.medasdigital.MsgUpdateParamsResponse''"

definition fastReflection_MedasMsgUpdateParamsResponse_GetUnknown ::
    "ApiMedasMsgUpdateParamsResponse option \<Rightarrow> refl_error + bytes" where
  "fastReflection_MedasMsgUpdateParamsResponse_GetUnknown
      = refl_GetUnknown ApiMedasMsgUpdateParamsResponse_unknownFields"

definition fastReflection_MedasMsgUpdateParamsResponse_SetUnknown ::
    "ApiMedasMsgUpdateParamsResponse option \<Rightarrow> bytes \<Rightarrow> refl_error
    + ApiMedasMsgUpdateParamsResponse option" where
  "fastReflection_MedasMsgUpdateParamsResponse_SetUnknown
      = refl_SetUnknown (\<lambda>raw m. m\<lparr>ApiMedasMsgUpdateParamsResponse_unknownFields := raw\<rparr>)"

definition fastReflection_MedasMsgUpdateParamsResponse_IsValid :: "ApiMedasMsgUpdateParamsResponse
    option \<Rightarrow> bool" where
  "fastReflection_MedasMsgUpdateParamsResponse_IsValid = refl_IsValid"

definition ApiMedasMsgUpdateParamsResponse_wire :: "ApiMedasMsgUpdateParamsResponse
    \<Rightarrow> wire_field list" where
  "ApiMedasMsgUpdateParamsResponse_wire m = []"

lemma ApiMedasMsgUpdateParamsResponse_contract:
  assumes R: "runtime_ok R"
  shows "pulsar_message R ApiMedasMsgUpdateParamsResponse_fields
      ApiMedasMsgUpdateParamsResponse_keep ApiMedasMsgUpdateParamsResponse_unknownFields
    (\<lambda>m. m\<lparr>ApiMedasMsgUpdateParamsResponse_unknownFields := []\<rparr>)
    ApiMedasMsgUpdateParamsResponse_zero (\<lambda>m. True)
    (ApiMedasMsgUpdateParamsResponse_fields_size R) (ApiMedasMsgUpdateParamsResponse_writers R)
        ApiMedasMsgUpdateParamsResponse_wire"
proof unfold_locales
  show "runtime_ok R" by (rule R)
  show "writes (put_seq (ApiMedasMsgUpdateParamsResponse_writers R m)) (enc_fields
      (ApiMedasMsgUpdateParamsResponse_wire m))" for m
    by (simp add: ApiMedasMsgUpdateParamsResponse_writers_def
        ApiMedasMsgUpdateParamsResponse_wire_def put_seq_nil writes_skip)
  show "ApiMedasMsgUpdateParamsResponse_fields_size R m
      = length (enc_fields (ApiMedasMsgUpdateParamsResponse_wire m))" for m
    by (simp add: ApiMedasMsgUpdateParamsResponse_fields_size_def
        ApiMedasMsgUpdateParamsResponse_wire_def runtime_simps [OF R])
  show "list_all wf_field (ApiMedasMsgUpdateParamsResponse_wire m)" for m
    by (simp add: ApiMedasMsgUpdateParamsResponse_wire_def)
  show "ApiMedasMsgUpdateParamsResponse_fields (of_nat (field_num x)) \<noteq> None"
      if "x \<in> set (ApiMedasMsgUpdateParamsResponse_wire m)" for x m
    using that by (auto simp: ApiMedasMsgUpdateParamsResponse_wire_def
        ApiMedasMsgUpdateParamsResponse_fields_def dest!: num_wire)
  show "rfold (apply_field ApiMedasMsgUpdateParamsResponse_fields)
      (ApiMedasMsgUpdateParamsResponse_wire m) ApiMedasMsgUpdateParamsResponse_zero
      = Inr (m\<lparr>ApiMedasMsgUpdateParamsResponse_unknownFields := []\<rparr>)" for m
    by (simp add: ApiMedasMsgUpdateParamsResponse_wire_def ApiMedasMsgUpdateParamsResponse_zero_def)
  show "ApiMedasMsgUpdateParamsResponse_keep (ApiMedasMsgUpdateParamsResponse_unknownFields m)
      (m\<lparr>ApiMedasMsgUpdateParamsResponse_unknownFields := []\<rparr>) = m" for m
    by (simp add: ApiMedasMsgUpdateParamsResponse_keep_def)
  show "ApiMedasMsgUpdateParamsResponse_keep b (ApiMedasMsgUpdateParamsResponse_keep a m)
      = ApiMedasMsgUpdateParamsResponse_keep (a @ b) m" for a b m
    by (simp add: ApiMedasMsgUpdateParamsResponse_keep_def)
  show "dec s y \<noteq> Inl Panic" if "ApiMedasMsgUpdateParamsResponse_fields n = Some (name,
      FMessage dec)" and "go_slice s"
    for n name dec s y
    using that by (auto simp: ApiMedasMsgUpdateParamsResponse_fields_def split: if_splits)
qed

text \<open>The gogoproto message with the same fields.\<close>

definition ApiMedasMsgUpdateParamsResponse_gogo :: "ApiMedasMsgUpdateParamsResponse
    \<Rightarrow> MedasMsgUpdateParamsResponse" where
  "ApiMedasMsgUpdateParamsResponse_gogo m = MedasMsgUpdateParamsResponse"

lemma ApiMedasMsgUpdateParamsResponse_agree:
  assumes R: "runtime_ok R"
  shows "pulsar_gogo R ApiMedasMsgUpdateParamsResponse_fields ApiMedasMsgUpdateParamsResponse_keep
      ApiMedasMsgUpdateParamsResponse_unknownFields
    (\<lambda>m. m\<lparr>ApiMedasMsgUpdateParamsResponse_unknownFields := []\<rparr>)
        ApiMedasMsgUpdateParamsResponse_zero (\<lambda>m. True)
    (ApiMedasMsgUpdateParamsResponse_fields_size R) (ApiMedasMsgUpdateParamsResponse_writers R)
        ApiMedasMsgUpdateParamsResponse_wire
    MedasMsgUpdateParamsResponse_fields MedasMsgUpdateParamsResponse
        MedasMsgUpdateParamsResponse_Size MedasMsgUpdateParamsResponse_MarshalToSizedBuffer
        MedasMsgUpdateParamsResponse_wire ApiMedasMsgUpdateParamsResponse_gogo"
  using ApiMedasMsgUpdateParamsResponse_contract [OF R]
      medas_msg_update_params_response_pb.pb_message_axioms
proof (rule pulsar_gogo.intro)
  show "pulsar_gogo_axioms ApiMedasMsgUpdateParamsResponse_fields
      ApiMedasMsgUpdateParamsResponse_keep ApiMedasMsgUpdateParamsResponse_zero
      MedasMsgUpdateParamsResponse_fields MedasMsgUpdateParamsResponse
      ApiMedasMsgUpdateParamsResponse_gogo"
    by unfold_locales (simp_all add: fields_sim_def ApiMedasMsgUpdateParamsResponse_fields_def
        MedasMsgUpdateParamsResponse_fields_def ApiMedasMsgUpdateParamsResponse_keep_def
        ApiMedasMsgUpdateParamsResponse_gogo_def
        ApiMedasMsgUpdateParamsResponse_zero_def )
qed

interpretation api_MedasMsgUpdateParamsResponse: pulsar_gogo gogo_runtime
    "''MsgUpdateParamsResponse''" ApiMedasMsgUpdateParamsResponse_fields
    ApiMedasMsgUpdateParamsResponse_keep ApiMedasMsgUpdateParamsResponse_unknownFields
  "\<lambda>m. m\<lparr>ApiMedasMsgUpdateParamsResponse_unknownFields := []\<rparr>" ApiMedasMsgUpdateParamsResponse_zero
      "\<lambda>m. True"
  "ApiMedasMsgUpdateParamsResponse_fields_size gogo_runtime"
      "ApiMedasMsgUpdateParamsResponse_writers gogo_runtime" ApiMedasMsgUpdateParamsResponse_wire
  medas_tx_file MedasMsgUpdateParamsResponse_fields MedasMsgUpdateParamsResponse
      MedasMsgUpdateParamsResponse_Size MedasMsgUpdateParamsResponse_MarshalToSizedBuffer
      MedasMsgUpdateParamsResponse_wire ApiMedasMsgUpdateParamsResponse_gogo
  by (rule ApiMedasMsgUpdateParamsResponse_agree [OF gogo_runtime_ok])

section \<open>QueryParamsRequest\<close>

text \<open>The request of \<open>Query/Params\<close>.\<close>

record ApiMedasQueryParamsRequest =
  ApiMedasQueryParamsRequest_unknownFields :: bytes

definition ApiMedasQueryParamsRequest_zero :: "ApiMedasQueryParamsRequest" where
  "ApiMedasQueryParamsRequest_zero = \<lparr>ApiMedasQueryParamsRequest_unknownFields = []\<rparr>"

definition ApiMedasQueryParamsRequest_fields_size :: "proto_runtime \<Rightarrow> ApiMedasQueryParamsRequest
    \<Rightarrow> nat" where
  "ApiMedasQueryParamsRequest_fields_size R m = 0"

definition ApiMedasQueryParamsRequest_size :: "proto_runtime \<Rightarrow> ApiMedasQueryParamsRequest option
    \<Rightarrow> nat" where
  "ApiMedasQueryParamsRequest_size R = pulsar_size ApiMedasQueryParamsRequest_unknownFields
      (ApiMedasQueryParamsRequest_fields_size R)"

definition ApiMedasQueryParamsRequest_writers :: "proto_runtime \<Rightarrow> ApiMedasQueryParamsRequest
    \<Rightarrow> writer list" where
  "ApiMedasQueryParamsRequest_writers R m = []"

definition ApiMedasQueryParamsRequest_marshal :: "proto_runtime \<Rightarrow> bytes option
    \<Rightarrow> ApiMedasQueryParamsRequest option \<Rightarrow> pb_error + bytes option" where
  "ApiMedasQueryParamsRequest_marshal R = pulsar_marshal ApiMedasQueryParamsRequest_unknownFields
      (ApiMedasQueryParamsRequest_fields_size R) (ApiMedasQueryParamsRequest_writers R)"

definition ApiMedasQueryParamsRequest_keep :: "bytes \<Rightarrow> ApiMedasQueryParamsRequest
    \<Rightarrow> ApiMedasQueryParamsRequest" where
  "ApiMedasQueryParamsRequest_keep raw m = m\<lparr>ApiMedasQueryParamsRequest_unknownFields :=
      ApiMedasQueryParamsRequest_unknownFields m @ raw\<rparr>"

definition ApiMedasQueryParamsRequest_fields :: "ApiMedasQueryParamsRequest fields" where
  "ApiMedasQueryParamsRequest_fields n = None"

definition ApiMedasQueryParamsRequest_unmarshal :: "proto_runtime \<Rightarrow> bool \<Rightarrow> bytes
    \<Rightarrow> ApiMedasQueryParamsRequest option \<Rightarrow> (pb_error + ApiMedasQueryParamsRequest option) option"
    where
  "ApiMedasQueryParamsRequest_unmarshal R DiscardUnknown =
     pulsar_unmarshal R DiscardUnknown ''QueryParamsRequest'' ApiMedasQueryParamsRequest_fields
         ApiMedasQueryParamsRequest_keep"

definition ApiMedasQueryParamsRequest_refl :: "(ApiMedasQueryParamsRequest, medas_ref) rtable" where
  "ApiMedasQueryParamsRequest_refl = []"

definition fastReflection_MedasQueryParamsRequest_Range :: "ApiMedasQueryParamsRequest option
    \<Rightarrow> (string \<Rightarrow> medas_ref pvalue \<Rightarrow> 's \<Rightarrow> bool \<times> 's) \<Rightarrow> 's \<Rightarrow> refl_error + 's" where
  "fastReflection_MedasQueryParamsRequest_Range
      = refl_Range ''medasdigital.medasdigital.QueryParamsRequest'' ApiMedasQueryParamsRequest_refl"

definition fastReflection_MedasQueryParamsRequest_Has :: "ApiMedasQueryParamsRequest option
    \<Rightarrow> field_descriptor \<Rightarrow> refl_error + bool" where
  "fastReflection_MedasQueryParamsRequest_Has
      = refl_Has ''medasdigital.medasdigital.QueryParamsRequest'' ApiMedasQueryParamsRequest_refl"

definition fastReflection_MedasQueryParamsRequest_Clear :: "ApiMedasQueryParamsRequest option
    \<Rightarrow> field_descriptor \<Rightarrow> refl_error + ApiMedasQueryParamsRequest option" where
  "fastReflection_MedasQueryParamsRequest_Clear
      = refl_Clear ''medasdigital.medasdigital.QueryParamsRequest'' ApiMedasQueryParamsRequest_refl"

definition fastReflection_MedasQueryParamsRequest_Get :: "ApiMedasQueryParamsRequest option
    \<Rightarrow> field_descriptor \<Rightarrow> refl_error + medas_ref pvalue" where
  "fastReflection_MedasQueryParamsRequest_Get
      = refl_Get ''medasdigital.medasdigital.QueryParamsRequest'' ApiMedasQueryParamsRequest_refl"

definition fastReflection_MedasQueryParamsRequest_Set :: "ApiMedasQueryParamsRequest option
    \<Rightarrow> field_descriptor \<Rightarrow> medas_ref pvalue \<Rightarrow> refl_error + ApiMedasQueryParamsRequest option" where
  "fastReflection_MedasQueryParamsRequest_Set
      = refl_Set ''medasdigital.medasdigital.QueryParamsRequest'' ApiMedasQueryParamsRequest_refl"

definition fastReflection_MedasQueryParamsRequest_Mutable :: "ApiMedasQueryParamsRequest option
    \<Rightarrow> field_descriptor \<Rightarrow> refl_error + ApiMedasQueryParamsRequest option \<times> medas_ref pvalue" where
  "fastReflection_MedasQueryParamsRequest_Mutable
      = refl_Mutable ''medasdigital.medasdigital.QueryParamsRequest''
      ApiMedasQueryParamsRequest_refl"

definition fastReflection_MedasQueryParamsRequest_NewField :: "field_descriptor \<Rightarrow> refl_error
    + medas_ref pvalue" where
  "fastReflection_MedasQueryParamsRequest_NewField
      = refl_NewField ''medasdigital.medasdigital.QueryParamsRequest''
      ApiMedasQueryParamsRequest_refl"

definition fastReflection_MedasQueryParamsRequest_WhichOneof :: "string \<Rightarrow> refl_error
    + field_descriptor" where
  "fastReflection_MedasQueryParamsRequest_WhichOneof
      = refl_WhichOneof ''medasdigital.medasdigital.QueryParamsRequest''"

definition fastReflection_MedasQueryParamsRequest_GetUnknown :: "ApiMedasQueryParamsRequest option
    \<Rightarrow> refl_error + bytes" where
  "fastReflection_MedasQueryParamsRequest_GetUnknown
      = refl_GetUnknown ApiMedasQueryParamsRequest_unknownFields"

definition fastReflection_MedasQueryParamsRequest_SetUnknown :: "ApiMedasQueryParamsRequest option
    \<Rightarrow> bytes \<Rightarrow> refl_error + ApiMedasQueryParamsRequest option" where
  "fastReflection_MedasQueryParamsRequest_SetUnknown
      = refl_SetUnknown (\<lambda>raw m. m\<lparr>ApiMedasQueryParamsRequest_unknownFields := raw\<rparr>)"

definition fastReflection_MedasQueryParamsRequest_IsValid :: "ApiMedasQueryParamsRequest option
    \<Rightarrow> bool" where
  "fastReflection_MedasQueryParamsRequest_IsValid = refl_IsValid"

definition ApiMedasQueryParamsRequest_wire :: "ApiMedasQueryParamsRequest \<Rightarrow> wire_field list" where
  "ApiMedasQueryParamsRequest_wire m = []"

lemma ApiMedasQueryParamsRequest_contract:
  assumes R: "runtime_ok R"
  shows "pulsar_message R ApiMedasQueryParamsRequest_fields ApiMedasQueryParamsRequest_keep
      ApiMedasQueryParamsRequest_unknownFields
    (\<lambda>m. m\<lparr>ApiMedasQueryParamsRequest_unknownFields := []\<rparr>)
    ApiMedasQueryParamsRequest_zero (\<lambda>m. True)
    (ApiMedasQueryParamsRequest_fields_size R) (ApiMedasQueryParamsRequest_writers R)
        ApiMedasQueryParamsRequest_wire"
proof unfold_locales
  show "runtime_ok R" by (rule R)
  show "writes (put_seq (ApiMedasQueryParamsRequest_writers R m)) (enc_fields
      (ApiMedasQueryParamsRequest_wire m))" for m
    by (simp add: ApiMedasQueryParamsRequest_writers_def ApiMedasQueryParamsRequest_wire_def
        put_seq_nil writes_skip)
  show "ApiMedasQueryParamsRequest_fields_size R m
      = length (enc_fields (ApiMedasQueryParamsRequest_wire m))" for m
    by (simp add: ApiMedasQueryParamsRequest_fields_size_def ApiMedasQueryParamsRequest_wire_def
        runtime_simps [OF R])
  show "list_all wf_field (ApiMedasQueryParamsRequest_wire m)" for m
    by (simp add: ApiMedasQueryParamsRequest_wire_def)
  show "ApiMedasQueryParamsRequest_fields (of_nat (field_num x)) \<noteq> None"
      if "x \<in> set (ApiMedasQueryParamsRequest_wire m)" for x m
    using that by (auto simp: ApiMedasQueryParamsRequest_wire_def
        ApiMedasQueryParamsRequest_fields_def dest!: num_wire)
  show "rfold (apply_field ApiMedasQueryParamsRequest_fields) (ApiMedasQueryParamsRequest_wire m)
      ApiMedasQueryParamsRequest_zero = Inr (m\<lparr>ApiMedasQueryParamsRequest_unknownFields := []\<rparr>)"
      for m
    by (simp add: ApiMedasQueryParamsRequest_wire_def ApiMedasQueryParamsRequest_zero_def)
  show "ApiMedasQueryParamsRequest_keep (ApiMedasQueryParamsRequest_unknownFields m)
      (m\<lparr>ApiMedasQueryParamsRequest_unknownFields := []\<rparr>) = m" for m
    by (simp add: ApiMedasQueryParamsRequest_keep_def)
  show "ApiMedasQueryParamsRequest_keep b (ApiMedasQueryParamsRequest_keep a m)
      = ApiMedasQueryParamsRequest_keep (a @ b) m" for a b m
    by (simp add: ApiMedasQueryParamsRequest_keep_def)
  show "dec s y \<noteq> Inl Panic" if "ApiMedasQueryParamsRequest_fields n = Some (name, FMessage dec)"
      and "go_slice s"
    for n name dec s y
    using that by (auto simp: ApiMedasQueryParamsRequest_fields_def split: if_splits)
qed

text \<open>The gogoproto message with the same fields.\<close>

definition ApiMedasQueryParamsRequest_gogo :: "ApiMedasQueryParamsRequest \<Rightarrow> MedasQueryParamsRequest"
    where
  "ApiMedasQueryParamsRequest_gogo m = MedasQueryParamsRequest"

lemma ApiMedasQueryParamsRequest_agree:
  assumes R: "runtime_ok R"
  shows "pulsar_gogo R ApiMedasQueryParamsRequest_fields ApiMedasQueryParamsRequest_keep
      ApiMedasQueryParamsRequest_unknownFields
    (\<lambda>m. m\<lparr>ApiMedasQueryParamsRequest_unknownFields := []\<rparr>) ApiMedasQueryParamsRequest_zero (\<lambda>m.
        True)
    (ApiMedasQueryParamsRequest_fields_size R) (ApiMedasQueryParamsRequest_writers R)
        ApiMedasQueryParamsRequest_wire
    MedasQueryParamsRequest_fields MedasQueryParamsRequest MedasQueryParamsRequest_Size
        MedasQueryParamsRequest_MarshalToSizedBuffer MedasQueryParamsRequest_wire
        ApiMedasQueryParamsRequest_gogo"
  using ApiMedasQueryParamsRequest_contract [OF R] medas_query_params_request_pb.pb_message_axioms
proof (rule pulsar_gogo.intro)
  show "pulsar_gogo_axioms ApiMedasQueryParamsRequest_fields ApiMedasQueryParamsRequest_keep
      ApiMedasQueryParamsRequest_zero MedasQueryParamsRequest_fields MedasQueryParamsRequest
      ApiMedasQueryParamsRequest_gogo"
    by unfold_locales (simp_all add: fields_sim_def ApiMedasQueryParamsRequest_fields_def
        MedasQueryParamsRequest_fields_def ApiMedasQueryParamsRequest_keep_def
        ApiMedasQueryParamsRequest_gogo_def
        ApiMedasQueryParamsRequest_zero_def )
qed

interpretation api_MedasQueryParamsRequest: pulsar_gogo gogo_runtime "''QueryParamsRequest''"
    ApiMedasQueryParamsRequest_fields ApiMedasQueryParamsRequest_keep
    ApiMedasQueryParamsRequest_unknownFields
  "\<lambda>m. m\<lparr>ApiMedasQueryParamsRequest_unknownFields := []\<rparr>" ApiMedasQueryParamsRequest_zero "\<lambda>m. True"
  "ApiMedasQueryParamsRequest_fields_size gogo_runtime" "ApiMedasQueryParamsRequest_writers
      gogo_runtime" ApiMedasQueryParamsRequest_wire
  medas_query_file MedasQueryParamsRequest_fields MedasQueryParamsRequest
      MedasQueryParamsRequest_Size MedasQueryParamsRequest_MarshalToSizedBuffer
      MedasQueryParamsRequest_wire ApiMedasQueryParamsRequest_gogo
  by (rule ApiMedasQueryParamsRequest_agree [OF gogo_runtime_ok])

section \<open>QueryParamsResponse\<close>

text \<open>Its response.\<close>

record ApiMedasQueryParamsResponse =
  ApiMedasQueryParamsResponse_Params :: "ApiMedasParams option"
  ApiMedasQueryParamsResponse_unknownFields :: bytes

definition ApiMedasQueryParamsResponse_zero :: "ApiMedasQueryParamsResponse" where
  "ApiMedasQueryParamsResponse_zero = \<lparr>ApiMedasQueryParamsResponse_Params = None,
      ApiMedasQueryParamsResponse_unknownFields = []\<rparr>"

definition ApiMedasQueryParamsResponse_fields_size :: "proto_runtime \<Rightarrow> ApiMedasParams options
    \<Rightarrow> ApiMedasQueryParamsResponse \<Rightarrow> nat" where
  "ApiMedasQueryParamsResponse_fields_size R O1 m =
     api_size_message R O1 (ApiMedasQueryParamsResponse_Params m)"

definition ApiMedasQueryParamsResponse_size :: "proto_runtime \<Rightarrow> ApiMedasParams options
    \<Rightarrow> ApiMedasQueryParamsResponse option \<Rightarrow> nat" where
  "ApiMedasQueryParamsResponse_size R O1 = pulsar_size ApiMedasQueryParamsResponse_unknownFields
      (ApiMedasQueryParamsResponse_fields_size R O1)"

definition ApiMedasQueryParamsResponse_writers :: "proto_runtime \<Rightarrow> ApiMedasParams options
    \<Rightarrow> ApiMedasQueryParamsResponse \<Rightarrow> writer list" where
  "ApiMedasQueryParamsResponse_writers R O1 m =
     [api_message R O1 0x0a (ApiMedasQueryParamsResponse_Params m)]"

definition ApiMedasQueryParamsResponse_marshal :: "proto_runtime \<Rightarrow> ApiMedasParams options
    \<Rightarrow> bytes option \<Rightarrow> ApiMedasQueryParamsResponse option \<Rightarrow> pb_error + bytes option" where
  "ApiMedasQueryParamsResponse_marshal R O1
      = pulsar_marshal ApiMedasQueryParamsResponse_unknownFields
      (ApiMedasQueryParamsResponse_fields_size R O1) (ApiMedasQueryParamsResponse_writers R O1)"

definition ApiMedasQueryParamsResponse_keep :: "bytes \<Rightarrow> ApiMedasQueryParamsResponse
    \<Rightarrow> ApiMedasQueryParamsResponse" where
  "ApiMedasQueryParamsResponse_keep raw m
      = m\<lparr>ApiMedasQueryParamsResponse_unknownFields := ApiMedasQueryParamsResponse_unknownFields m
      @ raw\<rparr>"

definition ApiMedasQueryParamsResponse_fields :: "ApiMedasParams options
    \<Rightarrow> ApiMedasQueryParamsResponse fields" where
  "ApiMedasQueryParamsResponse_fields O1 n =
     (if n = 1 then Some (''Params'', FMessage (api_dec_message O1 ApiMedasParams_zero
         ApiMedasQueryParamsResponse_Params
          (\<lambda>p m. m\<lparr>ApiMedasQueryParamsResponse_Params := p\<rparr>)))
      else None)"

definition ApiMedasQueryParamsResponse_unmarshal :: "proto_runtime \<Rightarrow> bool \<Rightarrow> ApiMedasParams options
    \<Rightarrow> bytes \<Rightarrow> ApiMedasQueryParamsResponse option \<Rightarrow> (pb_error
    + ApiMedasQueryParamsResponse option) option" where
  "ApiMedasQueryParamsResponse_unmarshal R DiscardUnknown O1 =
     pulsar_unmarshal R DiscardUnknown ''QueryParamsResponse'' (ApiMedasQueryParamsResponse_fields
         O1) ApiMedasQueryParamsResponse_keep"

definition ApiMedasQueryParamsResponse_refl :: "(ApiMedasQueryParamsResponse, medas_ref) rtable"
    where
  "ApiMedasQueryParamsResponse_refl =
     [(''params'', RPointer RefMedasParams as_MedasParams ApiMedasParams_zero
         ApiMedasQueryParamsResponse_Params
        (\<lambda>p m. m\<lparr>ApiMedasQueryParamsResponse_Params := p\<rparr>))]"

definition fastReflection_MedasQueryParamsResponse_Range :: "ApiMedasQueryParamsResponse option
    \<Rightarrow> (string \<Rightarrow> medas_ref pvalue \<Rightarrow> 's \<Rightarrow> bool \<times> 's) \<Rightarrow> 's \<Rightarrow> refl_error + 's" where
  "fastReflection_MedasQueryParamsResponse_Range
      = refl_Range ''medasdigital.medasdigital.QueryParamsResponse''
      ApiMedasQueryParamsResponse_refl"

definition fastReflection_MedasQueryParamsResponse_Has :: "ApiMedasQueryParamsResponse option
    \<Rightarrow> field_descriptor \<Rightarrow> refl_error + bool" where
  "fastReflection_MedasQueryParamsResponse_Has
      = refl_Has ''medasdigital.medasdigital.QueryParamsResponse'' ApiMedasQueryParamsResponse_refl"

definition fastReflection_MedasQueryParamsResponse_Clear :: "ApiMedasQueryParamsResponse option
    \<Rightarrow> field_descriptor \<Rightarrow> refl_error + ApiMedasQueryParamsResponse option" where
  "fastReflection_MedasQueryParamsResponse_Clear
      = refl_Clear ''medasdigital.medasdigital.QueryParamsResponse''
      ApiMedasQueryParamsResponse_refl"

definition fastReflection_MedasQueryParamsResponse_Get :: "ApiMedasQueryParamsResponse option
    \<Rightarrow> field_descriptor \<Rightarrow> refl_error + medas_ref pvalue" where
  "fastReflection_MedasQueryParamsResponse_Get
      = refl_Get ''medasdigital.medasdigital.QueryParamsResponse'' ApiMedasQueryParamsResponse_refl"

definition fastReflection_MedasQueryParamsResponse_Set :: "ApiMedasQueryParamsResponse option
    \<Rightarrow> field_descriptor \<Rightarrow> medas_ref pvalue \<Rightarrow> refl_error + ApiMedasQueryParamsResponse option" where
  "fastReflection_MedasQueryParamsResponse_Set
      = refl_Set ''medasdigital.medasdigital.QueryParamsResponse'' ApiMedasQueryParamsResponse_refl"

definition fastReflection_MedasQueryParamsResponse_Mutable :: "ApiMedasQueryParamsResponse option
    \<Rightarrow> field_descriptor \<Rightarrow> refl_error + ApiMedasQueryParamsResponse option \<times> medas_ref pvalue" where
  "fastReflection_MedasQueryParamsResponse_Mutable
      = refl_Mutable ''medasdigital.medasdigital.QueryParamsResponse''
      ApiMedasQueryParamsResponse_refl"

definition fastReflection_MedasQueryParamsResponse_NewField :: "field_descriptor \<Rightarrow> refl_error
    + medas_ref pvalue" where
  "fastReflection_MedasQueryParamsResponse_NewField
      = refl_NewField ''medasdigital.medasdigital.QueryParamsResponse''
      ApiMedasQueryParamsResponse_refl"

definition fastReflection_MedasQueryParamsResponse_WhichOneof :: "string \<Rightarrow> refl_error
    + field_descriptor" where
  "fastReflection_MedasQueryParamsResponse_WhichOneof
      = refl_WhichOneof ''medasdigital.medasdigital.QueryParamsResponse''"

definition fastReflection_MedasQueryParamsResponse_GetUnknown :: "ApiMedasQueryParamsResponse option
    \<Rightarrow> refl_error + bytes" where
  "fastReflection_MedasQueryParamsResponse_GetUnknown
      = refl_GetUnknown ApiMedasQueryParamsResponse_unknownFields"

definition fastReflection_MedasQueryParamsResponse_SetUnknown :: "ApiMedasQueryParamsResponse option
    \<Rightarrow> bytes \<Rightarrow> refl_error + ApiMedasQueryParamsResponse option" where
  "fastReflection_MedasQueryParamsResponse_SetUnknown
      = refl_SetUnknown (\<lambda>raw m. m\<lparr>ApiMedasQueryParamsResponse_unknownFields := raw\<rparr>)"

definition fastReflection_MedasQueryParamsResponse_IsValid :: "ApiMedasQueryParamsResponse option
    \<Rightarrow> bool" where
  "fastReflection_MedasQueryParamsResponse_IsValid = refl_IsValid"

definition ApiMedasQueryParamsResponse_GetParams :: "ApiMedasQueryParamsResponse option
    \<Rightarrow> ApiMedasParams option" where
  "ApiMedasQueryParamsResponse_GetParams = getter None ApiMedasQueryParamsResponse_Params"

definition ApiMedasQueryParamsResponse_wire :: "(ApiMedasParams \<Rightarrow> bytes)
    \<Rightarrow> ApiMedasQueryParamsResponse \<Rightarrow> wire_field list" where
  "ApiMedasQueryParamsResponse_wire enc1 m =
     w_message 1 enc1 (ApiMedasQueryParamsResponse_Params m)"

lemma ApiMedasQueryParamsResponse_contract:
  assumes R: "runtime_ok R"
    and N1: "nested_ok O1 enc1 ApiMedasParams_zero good1"
  shows "pulsar_message R (ApiMedasQueryParamsResponse_fields O1) ApiMedasQueryParamsResponse_keep
      ApiMedasQueryParamsResponse_unknownFields
    (\<lambda>m. m\<lparr>ApiMedasQueryParamsResponse_unknownFields := []\<rparr>)
    ApiMedasQueryParamsResponse_zero (\<lambda>m. pointer_good good1 (ApiMedasQueryParamsResponse_Params m))
    (ApiMedasQueryParamsResponse_fields_size R O1) (ApiMedasQueryParamsResponse_writers R O1)
        (ApiMedasQueryParamsResponse_wire enc1)"
proof unfold_locales
  show "runtime_ok R" by (rule R)
  show "writes (put_seq (ApiMedasQueryParamsResponse_writers R O1 m)) (enc_fields
      (ApiMedasQueryParamsResponse_wire enc1 m))" for m
  proof -
    have "list_all2 writes (ApiMedasQueryParamsResponse_writers R O1 m)
        [enc_fields (w_message 1 enc1 (ApiMedasQueryParamsResponse_Params m))]"
      by (simp add: ApiMedasQueryParamsResponse_writers_def runtime_simps [OF R] writes_wire
          key_byte_def writes_nested [OF R N1])
    from writes_seq [OF this] show ?thesis by (simp add: ApiMedasQueryParamsResponse_wire_def)
  qed
  show "ApiMedasQueryParamsResponse_fields_size R O1 m
      = length (enc_fields (ApiMedasQueryParamsResponse_wire enc1 m))" for m
    by (simp add: ApiMedasQueryParamsResponse_fields_size_def ApiMedasQueryParamsResponse_wire_def
        runtime_simps [OF R] length_nested [OF R N1])
  show "list_all wf_field (ApiMedasQueryParamsResponse_wire enc1 m)" for m
    by (simp add: ApiMedasQueryParamsResponse_wire_def)
  show "ApiMedasQueryParamsResponse_fields O1 (of_nat (field_num x)) \<noteq> None"
      if "x \<in> set (ApiMedasQueryParamsResponse_wire enc1 m)" for x m
    using that by (auto simp: ApiMedasQueryParamsResponse_wire_def
        ApiMedasQueryParamsResponse_fields_def dest!: num_wire)
  show "rfold (apply_field (ApiMedasQueryParamsResponse_fields O1))
      (ApiMedasQueryParamsResponse_wire enc1 m) ApiMedasQueryParamsResponse_zero
      = Inr (m\<lparr>ApiMedasQueryParamsResponse_unknownFields := []\<rparr>)"
    if v: "pointer_good good1 (ApiMedasQueryParamsResponse_Params m)"
        and g: "go_slice (enc_fields (ApiMedasQueryParamsResponse_wire enc1 m))" for m
  proof -
    have 1: "rfold (apply_field (ApiMedasQueryParamsResponse_fields O1)) (w_message 1 enc1
        (ApiMedasQueryParamsResponse_Params m) @ rest) y
        = rfold (apply_field (ApiMedasQueryParamsResponse_fields O1)) rest
            (y\<lparr>ApiMedasQueryParamsResponse_Params := ApiMedasQueryParamsResponse_Params m\<rparr>)"
            if "ApiMedasQueryParamsResponse_Params y = None" for rest y
      by (rule rfold_nested_message [OF _ N1 v _ g, where sel = ApiMedasQueryParamsResponse_Params
          and upd = "\<lambda>p m. m\<lparr>ApiMedasQueryParamsResponse_Params := p\<rparr>"]) (use that in \<open>simp_all add:
              ApiMedasQueryParamsResponse_fields_def ApiMedasQueryParamsResponse_wire_def\<close>)
    show ?thesis
      using 1 [where rest = "[]", simplified] 1
      by (simp add: ApiMedasQueryParamsResponse_wire_def ApiMedasQueryParamsResponse_zero_def 
          rfold_wire)
  qed
  show "ApiMedasQueryParamsResponse_keep (ApiMedasQueryParamsResponse_unknownFields m)
      (m\<lparr>ApiMedasQueryParamsResponse_unknownFields := []\<rparr>) = m" for m
    by (simp add: ApiMedasQueryParamsResponse_keep_def)
  show "ApiMedasQueryParamsResponse_keep b (ApiMedasQueryParamsResponse_keep a m)
      = ApiMedasQueryParamsResponse_keep (a @ b) m" for a b m
    by (simp add: ApiMedasQueryParamsResponse_keep_def)
  show "dec s y \<noteq> Inl Panic" if "ApiMedasQueryParamsResponse_fields O1 n = Some (name,
      FMessage dec)" and "go_slice s"
    for n name dec s y
    using that by (auto simp: ApiMedasQueryParamsResponse_fields_def api_dec_no_panic [OF N1] split:
        if_splits)
qed

interpretation refl_MedasQueryParamsResponse: pulsar_reflect
    "''medasdigital.medasdigital.QueryParamsResponse''" "ApiMedasQueryParamsResponse_refl"
  by (rule pulsar_reflectI) (simp add: ApiMedasQueryParamsResponse_refl_def tbl_ok_simps
      as_MedasParams_eq)

text \<open>The gogoproto message with the same fields.\<close>

definition ApiMedasQueryParamsResponse_gogo :: "ApiMedasQueryParamsResponse
    \<Rightarrow> MedasQueryParamsResponse" where
  "ApiMedasQueryParamsResponse_gogo m = \<lparr>MedasQueryParamsResponse_Params
      = (case ApiMedasQueryParamsResponse_Params m of None \<Rightarrow> MedasParams | Some p
      \<Rightarrow> ApiMedasParams_gogo p)\<rparr>"

lemma ApiMedasQueryParamsResponse_agree:
  assumes R: "runtime_ok R"
    and N1: "nested_ok O1 enc1 ApiMedasParams_zero good1"
    and S1: "\<forall>s p. go_slice s \<longrightarrow> norm ApiMedasParams_gogo (opt_Unmarshal O1 s p)
        = norm id (MedasParams_Unmarshal s (ApiMedasParams_gogo p))"
  shows "pulsar_gogo R (ApiMedasQueryParamsResponse_fields O1) ApiMedasQueryParamsResponse_keep
      ApiMedasQueryParamsResponse_unknownFields
    (\<lambda>m. m\<lparr>ApiMedasQueryParamsResponse_unknownFields := []\<rparr>) ApiMedasQueryParamsResponse_zero (\<lambda>m.
        pointer_good good1 (ApiMedasQueryParamsResponse_Params m))
    (ApiMedasQueryParamsResponse_fields_size R O1) (ApiMedasQueryParamsResponse_writers R O1)
    (ApiMedasQueryParamsResponse_wire enc1) MedasQueryParamsResponse_fields
        MedasQueryParamsResponse_zero MedasQueryParamsResponse_Size
        MedasQueryParamsResponse_MarshalToSizedBuffer MedasQueryParamsResponse_wire
        ApiMedasQueryParamsResponse_gogo"
  using ApiMedasQueryParamsResponse_contract [OF R N1]
      medas_query_params_response_pb.pb_message_axioms
proof (rule pulsar_gogo.intro)
  show "pulsar_gogo_axioms (ApiMedasQueryParamsResponse_fields O1) ApiMedasQueryParamsResponse_keep
      ApiMedasQueryParamsResponse_zero MedasQueryParamsResponse_fields MedasQueryParamsResponse_zero
      ApiMedasQueryParamsResponse_gogo"
  proof
    have 1: "field_sim ApiMedasQueryParamsResponse_gogo
        (FMessage (api_dec_message O1 ApiMedasParams_zero ApiMedasQueryParamsResponse_Params (\<lambda>p m.
            m\<lparr>ApiMedasQueryParamsResponse_Params := p\<rparr>)))
        (FMessage (\<lambda>s m. rbind (MedasParams_Unmarshal s (MedasQueryParamsResponse_Params m)) (\<lambda>x.
            Inr (m\<lparr>MedasQueryParamsResponse_Params := x\<rparr>))))"
      by (rule sim_nested_message [where \<alpha> = ApiMedasParams_gogo])
        (simp_all add: S1 ApiMedasQueryParamsResponse_gogo_def ApiMedasParams_gogo_def split:
            option.splits)
    show "fields_sim ApiMedasQueryParamsResponse_gogo (ApiMedasQueryParamsResponse_fields O1)
        MedasQueryParamsResponse_fields"
      using 1 by (simp add: fields_sim_def ApiMedasQueryParamsResponse_fields_def
          MedasQueryParamsResponse_fields_def del: field_sim.simps(4))
  qed (simp_all add: ApiMedasQueryParamsResponse_keep_def ApiMedasQueryParamsResponse_gogo_def
      ApiMedasQueryParamsResponse_zero_def MedasQueryParamsResponse_zero_def)
qed

section \<open>Module\<close>

text \<open>The configuration of the module.\<close>

record ApiMedasModule =
  ApiMedasModule_Authority :: gostring
  ApiMedasModule_unknownFields :: bytes

definition ApiMedasModule_zero :: "ApiMedasModule" where
  "ApiMedasModule_zero = \<lparr>ApiMedasModule_Authority = [], ApiMedasModule_unknownFields = []\<rparr>"

definition ApiMedasModule_fields_size :: "proto_runtime \<Rightarrow> ApiMedasModule \<Rightarrow> nat" where
  "ApiMedasModule_fields_size R m =
     api_size_string R (ApiMedasModule_Authority m)"

definition ApiMedasModule_size :: "proto_runtime \<Rightarrow> ApiMedasModule option \<Rightarrow> nat" where
  "ApiMedasModule_size R = pulsar_size ApiMedasModule_unknownFields (ApiMedasModule_fields_size R)"

definition ApiMedasModule_writers :: "proto_runtime \<Rightarrow> ApiMedasModule \<Rightarrow> writer list" where
  "ApiMedasModule_writers R m =
     [api_string R 0x0a (ApiMedasModule_Authority m)]"

definition ApiMedasModule_marshal :: "proto_runtime \<Rightarrow> bytes option \<Rightarrow> ApiMedasModule option
    \<Rightarrow> pb_error + bytes option" where
  "ApiMedasModule_marshal R = pulsar_marshal ApiMedasModule_unknownFields
      (ApiMedasModule_fields_size R) (ApiMedasModule_writers R)"

definition ApiMedasModule_keep :: "bytes \<Rightarrow> ApiMedasModule \<Rightarrow> ApiMedasModule" where
  "ApiMedasModule_keep raw m = m\<lparr>ApiMedasModule_unknownFields := ApiMedasModule_unknownFields m
      @ raw\<rparr>"

definition ApiMedasModule_fields :: "ApiMedasModule fields" where
  "ApiMedasModule_fields n =
     (if n = 1 then Some (''Authority'', FString (\<lambda>s m. m\<lparr>ApiMedasModule_Authority := s\<rparr>))
      else None)"

definition ApiMedasModule_unmarshal :: "proto_runtime \<Rightarrow> bool \<Rightarrow> bytes \<Rightarrow> ApiMedasModule option
    \<Rightarrow> (pb_error + ApiMedasModule option) option" where
  "ApiMedasModule_unmarshal R DiscardUnknown =
     pulsar_unmarshal R DiscardUnknown ''Module'' ApiMedasModule_fields ApiMedasModule_keep"

definition ApiMedasModule_refl :: "(ApiMedasModule, medas_ref) rtable" where
  "ApiMedasModule_refl =
     [(''authority'', RString ApiMedasModule_Authority (\<lambda>s m. m\<lparr>ApiMedasModule_Authority := s\<rparr>))]"

definition fastReflection_MedasModule_Range :: "ApiMedasModule option \<Rightarrow> (string \<Rightarrow> medas_ref pvalue
    \<Rightarrow> 's \<Rightarrow> bool \<times> 's) \<Rightarrow> 's \<Rightarrow> refl_error + 's" where
  "fastReflection_MedasModule_Range = refl_Range ''medasdigital.medasdigital.module.Module''
      ApiMedasModule_refl"

definition fastReflection_MedasModule_Has :: "ApiMedasModule option \<Rightarrow> field_descriptor \<Rightarrow> refl_error
    + bool" where
  "fastReflection_MedasModule_Has = refl_Has ''medasdigital.medasdigital.module.Module''
      ApiMedasModule_refl"

definition fastReflection_MedasModule_Clear :: "ApiMedasModule option \<Rightarrow> field_descriptor
    \<Rightarrow> refl_error + ApiMedasModule option" where
  "fastReflection_MedasModule_Clear = refl_Clear ''medasdigital.medasdigital.module.Module''
      ApiMedasModule_refl"

definition fastReflection_MedasModule_Get :: "ApiMedasModule option \<Rightarrow> field_descriptor \<Rightarrow> refl_error
    + medas_ref pvalue" where
  "fastReflection_MedasModule_Get = refl_Get ''medasdigital.medasdigital.module.Module''
      ApiMedasModule_refl"

definition fastReflection_MedasModule_Set :: "ApiMedasModule option \<Rightarrow> field_descriptor
    \<Rightarrow> medas_ref pvalue \<Rightarrow> refl_error + ApiMedasModule option" where
  "fastReflection_MedasModule_Set = refl_Set ''medasdigital.medasdigital.module.Module''
      ApiMedasModule_refl"

definition fastReflection_MedasModule_Mutable :: "ApiMedasModule option \<Rightarrow> field_descriptor
    \<Rightarrow> refl_error + ApiMedasModule option \<times> medas_ref pvalue" where
  "fastReflection_MedasModule_Mutable = refl_Mutable ''medasdigital.medasdigital.module.Module''
      ApiMedasModule_refl"

definition fastReflection_MedasModule_NewField :: "field_descriptor \<Rightarrow> refl_error + medas_ref pvalue"
    where
  "fastReflection_MedasModule_NewField = refl_NewField ''medasdigital.medasdigital.module.Module''
      ApiMedasModule_refl"

definition fastReflection_MedasModule_WhichOneof :: "string \<Rightarrow> refl_error + field_descriptor" where
  "fastReflection_MedasModule_WhichOneof = refl_WhichOneof
      ''medasdigital.medasdigital.module.Module''"

definition fastReflection_MedasModule_GetUnknown :: "ApiMedasModule option \<Rightarrow> refl_error + bytes"
    where
  "fastReflection_MedasModule_GetUnknown = refl_GetUnknown ApiMedasModule_unknownFields"

definition fastReflection_MedasModule_SetUnknown :: "ApiMedasModule option \<Rightarrow> bytes \<Rightarrow> refl_error
    + ApiMedasModule option" where
  "fastReflection_MedasModule_SetUnknown = refl_SetUnknown (\<lambda>raw m. m\<lparr>ApiMedasModule_unknownFields
      := raw\<rparr>)"

definition fastReflection_MedasModule_IsValid :: "ApiMedasModule option \<Rightarrow> bool" where
  "fastReflection_MedasModule_IsValid = refl_IsValid"

definition ApiMedasModule_GetAuthority :: "ApiMedasModule option \<Rightarrow> gostring" where
  "ApiMedasModule_GetAuthority = getter [] ApiMedasModule_Authority"

definition ApiMedasModule_wire :: "ApiMedasModule \<Rightarrow> wire_field list" where
  "ApiMedasModule_wire m =
     w_string 1 (ApiMedasModule_Authority m)"

lemma ApiMedasModule_contract:
  assumes R: "runtime_ok R"
  shows "pulsar_message R ApiMedasModule_fields ApiMedasModule_keep ApiMedasModule_unknownFields
    (\<lambda>m. m\<lparr>ApiMedasModule_unknownFields := []\<rparr>)
    ApiMedasModule_zero (\<lambda>m. True)
    (ApiMedasModule_fields_size R) (ApiMedasModule_writers R) ApiMedasModule_wire"
proof unfold_locales
  show "runtime_ok R" by (rule R)
  show "writes (put_seq (ApiMedasModule_writers R m)) (enc_fields (ApiMedasModule_wire m))" for m
  proof -
    have "list_all2 writes (ApiMedasModule_writers R m)
        [enc_fields (w_string 1 (ApiMedasModule_Authority m))]"
      by (simp add: ApiMedasModule_writers_def runtime_simps [OF R] writes_wire key_byte_def)
    from writes_seq [OF this] show ?thesis by (simp add: ApiMedasModule_wire_def)
  qed
  show "ApiMedasModule_fields_size R m = length (enc_fields (ApiMedasModule_wire m))" for m
    by (simp add: ApiMedasModule_fields_size_def ApiMedasModule_wire_def runtime_simps [OF R])
  show "list_all wf_field (ApiMedasModule_wire m)" for m
    by (simp add: ApiMedasModule_wire_def)
  show "ApiMedasModule_fields (of_nat (field_num x)) \<noteq> None" if "x \<in> set (ApiMedasModule_wire m)"
      for x m
    using that by (auto simp: ApiMedasModule_wire_def ApiMedasModule_fields_def dest!: num_wire)
  show "rfold (apply_field ApiMedasModule_fields) (ApiMedasModule_wire m) ApiMedasModule_zero
      = Inr (m\<lparr>ApiMedasModule_unknownFields := []\<rparr>)" for m
    by (simp add: ApiMedasModule_wire_def ApiMedasModule_zero_def ApiMedasModule_fields_def
        rfold_wire)
  show "ApiMedasModule_keep (ApiMedasModule_unknownFields m) (m\<lparr>ApiMedasModule_unknownFields := []\<rparr>)
      = m" for m
    by (simp add: ApiMedasModule_keep_def)
  show "ApiMedasModule_keep b (ApiMedasModule_keep a m) = ApiMedasModule_keep (a @ b) m" for a b m
    by (simp add: ApiMedasModule_keep_def)
  show "dec s y \<noteq> Inl Panic" if "ApiMedasModule_fields n = Some (name, FMessage dec)"
      and "go_slice s"
    for n name dec s y
    using that by (auto simp: ApiMedasModule_fields_def split: if_splits)
qed

interpretation refl_MedasModule: pulsar_reflect "''medasdigital.medasdigital.module.Module''"
    "ApiMedasModule_refl"
  by (rule pulsar_reflectI) (simp add: ApiMedasModule_refl_def tbl_ok_simps)

end
