(* ===== verification/Api_Correct.thy ===== *)
theory Api_Correct
  imports Api_Genesis Api_Tx Api_Query Api_Medas
begin

text \<open>
  The properties of \<open>api/**/*.pulsar.go\<close>: decoding ends, the two generated codecs agree, encodings
  round trip with their unknown fields, and the reflection methods keep the contract of
  \<open>protoreflect.Message\<close>, as far as they do.
\<close>

section \<open>Unfolding the methods\<close>

named_theorems api_defs \<open>the codec methods of the messages\<close>

lemmas [api_defs] = ApiParams_unmarshal_def ApiParams_marshal_def ApiParams_size_def
  ApiDenom_unmarshal_def ApiDenom_marshal_def ApiDenom_size_def
  ApiGenesisState_unmarshal_def ApiGenesisState_marshal_def ApiGenesisState_size_def
  ApiMsgUpdateParams_unmarshal_def ApiMsgUpdateParams_marshal_def ApiMsgUpdateParams_size_def
  ApiMsgCreateDenom_unmarshal_def ApiMsgCreateDenom_marshal_def ApiMsgCreateDenom_size_def
  ApiMsgUpdateDenom_unmarshal_def ApiMsgUpdateDenom_marshal_def ApiMsgUpdateDenom_size_def
  ApiMsgDeleteDenom_unmarshal_def ApiMsgDeleteDenom_marshal_def ApiMsgDeleteDenom_size_def
  ApiQueryAllDenomRequest_unmarshal_def ApiQueryAllDenomRequest_marshal_def
  ApiQueryAllDenomRequest_size_def ApiQueryAllDenomResponse_unmarshal_def
  ApiQueryAllDenomResponse_marshal_def ApiQueryAllDenomResponse_size_def
  ApiQueryGetDenomResponse_unmarshal_def ApiQueryGetDenomResponse_marshal_def
  ApiQueryGetDenomResponse_size_def
  ApiMedasParams_unmarshal_def ApiMedasParams_marshal_def ApiMedasParams_size_def
  ApiMedasGenesisState_unmarshal_def ApiMedasGenesisState_marshal_def ApiMedasGenesisState_size_def
  ApiMedasMsgUpdateParams_unmarshal_def ApiMedasMsgUpdateParams_marshal_def
  ApiMedasMsgUpdateParams_size_def

text \<open>\<open>options\<close> for the embedded messages of the repository, and those of the page messages.\<close>

definition options_Params :: "proto_runtime \<Rightarrow> bool \<Rightarrow> ApiParams options \<Rightarrow> bool" where
  "options_Params R discard =
     options_ok (ApiParams_size R) (ApiParams_marshal R) (ApiParams_unmarshal R discard) ApiParams_zero"

definition options_Denom :: "proto_runtime \<Rightarrow> bool \<Rightarrow> ApiDenom options \<Rightarrow> bool" where
  "options_Denom R discard =
     options_ok (ApiDenom_size R) (ApiDenom_marshal R) (ApiDenom_unmarshal R discard) ApiDenom_zero"

definition options_MedasParams :: "proto_runtime \<Rightarrow> bool \<Rightarrow> ApiMedasParams options \<Rightarrow> bool" where
  "options_MedasParams R discard =
     options_ok (ApiMedasParams_size R) (ApiMedasParams_marshal R) (ApiMedasParams_unmarshal R discard)
       ApiMedasParams_zero"

text \<open>Messages that decoding gives back.\<close>

definition ApiParams_good :: "bool \<Rightarrow> ApiParams \<Rightarrow> bool" where
  "ApiParams_good discard = pulsar_valid discard (\<lambda>m. True) ApiParams_unknownFields ApiParams_fields"

definition ApiDenom_good :: "bool \<Rightarrow> ApiDenom \<Rightarrow> bool" where
  "ApiDenom_good discard = pulsar_valid discard (\<lambda>m. True) ApiDenom_unknownFields ApiDenom_fields"

lemma good_clean:
  "ApiParams_unknownFields p = [] \<Longrightarrow> ApiParams_good discard p"
  "ApiDenom_unknownFields d = [] \<Longrightarrow> ApiDenom_good discard d"
  by (simp_all add: ApiParams_good_def ApiDenom_good_def pulsar_valid_clean)

abbreviation enc_Params :: "ApiParams \<Rightarrow> bytes" where
  "enc_Params m \<equiv> enc_fields (ApiParams_wire m) @ ApiParams_unknownFields m"

abbreviation enc_Denom :: "ApiDenom \<Rightarrow> bytes" where
  "enc_Denom m \<equiv> enc_fields (ApiDenom_wire m) @ ApiDenom_unknownFields m"

abbreviation enc_MedasParams :: "ApiMedasParams \<Rightarrow> bytes" where
  "enc_MedasParams m \<equiv> enc_fields (ApiMedasParams_wire m) @ ApiMedasParams_unknownFields m"

lemma nested_Params:
  assumes "runtime_ok R" and "options_Params R discard O1"
  shows "nested_ok O1 enc_Params ApiParams_zero (ApiParams_good discard)"
  using assms(2) pulsar_message.nested [OF ApiParams_contract [OF assms(1)]]
  by (simp add: options_Params_def ApiParams_good_def api_defs)

lemma nested_Denom:
  assumes "runtime_ok R" and "options_Denom R discard O1"
  shows "nested_ok O1 enc_Denom ApiDenom_zero (ApiDenom_good discard)"
  using assms(2) pulsar_message.nested [OF ApiDenom_contract [OF assms(1)]]
  by (simp add: options_Denom_def ApiDenom_good_def api_defs)

lemma sim_Params:
  assumes "runtime_ok R" and "options_Params R discard O1"
  shows "\<forall>s p. go_slice s \<longrightarrow>
    norm ApiParams_gogo (opt_Unmarshal O1 s p) = norm id (Params_Unmarshal s (ApiParams_gogo p))"
  unfolding Params_Unmarshal_def
  by (intro allI impI pulsar_gogo.nested_sim [OF ApiParams_agree [OF assms(1)], of discard "''Params''" O1])
    (use assms(2) in \<open>simp_all add: options_Params_def api_defs ApiParams_gogo_def\<close>)

lemma sim_Denom:
  assumes "runtime_ok R" and "options_Denom R discard O1"
  shows "\<forall>s. go_slice s \<longrightarrow>
    norm ApiDenom_gogo (opt_Unmarshal O1 s ApiDenom_zero) = norm id (Denom_Unmarshal s Denom_zero)"
proof (intro allI impI)
  fix s :: bytes
  assume "go_slice s"
  then have "norm ApiDenom_gogo (opt_Unmarshal O1 s ApiDenom_zero)
      = norm id (unmarshal denom_file ''Denom'' Denom_fields s (ApiDenom_gogo ApiDenom_zero))"
    by (intro pulsar_gogo.nested_sim [OF ApiDenom_agree [OF assms(1)], of discard "''Denom''" O1])
      (use assms(2) in \<open>simp_all add: options_Denom_def api_defs\<close>)
  then show "norm ApiDenom_gogo (opt_Unmarshal O1 s ApiDenom_zero)
      = norm id (Denom_Unmarshal s Denom_zero)"
    by (simp add: Denom_Unmarshal_def ApiDenom_gogo_def ApiDenom_zero_def Denom_zero_def)
qed

lemma sim_MedasParams:
  assumes "runtime_ok R" and "options_MedasParams R discard O1"
  shows "\<forall>s p. go_slice s \<longrightarrow>
    norm ApiMedasParams_gogo (opt_Unmarshal O1 s p) = norm id (MedasParams_Unmarshal s (ApiMedasParams_gogo p))"
  unfolding MedasParams_Unmarshal_def
  by (intro allI impI pulsar_gogo.nested_sim [OF ApiMedasParams_agree [OF assms(1)], of discard "''Params''" O1])
    (use assms(2) in \<open>simp_all add: options_MedasParams_def api_defs ApiMedasParams_gogo_def\<close>)

lemma nested_MedasParams:
  assumes "runtime_ok R" and "options_MedasParams R discard O1"
  shows "nested_ok O1 enc_MedasParams ApiMedasParams_zero
    (pulsar_valid discard (\<lambda>m. True) ApiMedasParams_unknownFields ApiMedasParams_fields)"
  using assms(2) pulsar_message.nested [OF ApiMedasParams_contract [OF assms(1)]]
  by (simp add: options_MedasParams_def api_defs)

text \<open>Options for the witnesses: the methods of the messages themselves.\<close>

definition own_Params :: "ApiParams options" where
  "own_Params = options_of (ApiParams_size gogo_runtime) (ApiParams_marshal gogo_runtime)
     (ApiParams_unmarshal gogo_runtime False)"

definition own_Denom :: "ApiDenom options" where
  "own_Denom = options_of (ApiDenom_size gogo_runtime) (ApiDenom_marshal gogo_runtime)
     (ApiDenom_unmarshal gogo_runtime False)"

definition own_MedasParams :: "ApiMedasParams options" where
  "own_MedasParams = options_of (ApiMedasParams_size gogo_runtime) (ApiMedasParams_marshal gogo_runtime)
     (ApiMedasParams_unmarshal gogo_runtime False)"

text \<open>A denom with a field the message does not know, and page messages that are their bytes.\<close>

definition odd_denom :: ApiDenom where
  "odd_denom = ApiDenom_zero\<lparr>ApiDenom_Supply := 7, ApiDenom_unknownFields := enc_fields [WVarint 12 5]\<rparr>"

definition raw_page :: "bytes options" where
  "raw_page = \<lparr>opt_Size = (\<lambda>p. case p of None \<Rightarrow> 0 | Some b \<Rightarrow> length b),
     opt_Marshal = (\<lambda>p. Inr (case p of None \<Rightarrow> [] | Some b \<Rightarrow> b)), opt_Unmarshal = (\<lambda>s p. Inr s)\<rparr>"

lemma raw_page_ok: "nested_ok raw_page (\<lambda>b. b) [] (\<lambda>p. True)"
  by (simp add: nested_ok_def raw_page_def)

lemma own_options:
  "options_Params gogo_runtime False own_Params"
  "options_Denom gogo_runtime False own_Denom"
  "options_MedasParams gogo_runtime False own_MedasParams"
  using api_Params.options_of_ok [of False] api_Denom.options_of_ok [of False]
    api_MedasParams.options_of_ok [of False]
  by (simp_all add: options_Params_def options_Denom_def options_MedasParams_def own_Params_def
      own_Denom_def own_MedasParams_def api_defs)

section \<open>Decoding\<close>



text \<open>
  C5: the two codecs the repository generates from one \<open>.proto\<close> file decide alike.  On every input,
  decoding with \<open>api/medasdigital/tokenfactory\<close> succeeds exactly when decoding with
  \<open>x/tokenfactory/types\<close> does, gives the same fields, and otherwise fails with the same error, up
  to the package that declares it.
\<close>

theorem api_decode_agrees:
  assumes "runtime_ok R" and "options_Params R discard O1" and "go_slice d"
  shows "(\<exists>r. ApiMsgCreateDenom_unmarshal R discard d (Some m1) = Some r
      \<and> norm (map_option ApiMsgCreateDenom_gogo) r
        = norm Some (MsgCreateDenom_Unmarshal d (ApiMsgCreateDenom_gogo m1)))
    \<and> (\<exists>r. ApiMsgUpdateDenom_unmarshal R discard d (Some m2) = Some r
      \<and> norm (map_option ApiMsgUpdateDenom_gogo) r
        = norm Some (MsgUpdateDenom_Unmarshal d (ApiMsgUpdateDenom_gogo m2)))
    \<and> (\<exists>r. ApiMsgDeleteDenom_unmarshal R discard d (Some m3) = Some r
      \<and> norm (map_option ApiMsgDeleteDenom_gogo) r
        = norm Some (MsgDeleteDenom_Unmarshal d (ApiMsgDeleteDenom_gogo m3)))
    \<and> (\<exists>r. ApiMsgUpdateParams_unmarshal R discard O1 d (Some m4) = Some r
      \<and> norm (map_option ApiMsgUpdateParams_gogo) r
        = norm Some (MsgUpdateParams_Unmarshal d (ApiMsgUpdateParams_gogo m4)))"
  unfolding api_defs MsgCreateDenom_Unmarshal_def MsgUpdateDenom_Unmarshal_def
    MsgDeleteDenom_Unmarshal_def MsgUpdateParams_Unmarshal_def
  using ApiMsgCreateDenom_agree [OF assms(1)] ApiMsgUpdateDenom_agree [OF assms(1)]
    ApiMsgDeleteDenom_agree [OF assms(1)] ApiMsgUpdateParams_agree [OF assms(1) nested_Params [OF assms(1,2)] sim_Params [OF assms(1,2)]]
  by (intro conjI) (erule pulsar_gogo.decode_agree [OF _ assms(3)])+

theorem api_decode_agrees_witness:
  "\<exists>r. ApiMsgDeleteDenom_unmarshal gogo_runtime False [0x0a, 0x01, 0x61] (Some ApiMsgDeleteDenom_zero)
      = Some r
    \<and> norm (map_option ApiMsgDeleteDenom_gogo) r
      = norm Some (MsgDeleteDenom_Unmarshal [0x0a, 0x01, 0x61] (ApiMsgDeleteDenom_gogo ApiMsgDeleteDenom_zero))"
  using api_decode_agrees [OF gogo_runtime_ok own_options(1), where d = "[0x0a, 0x01, 0x61]"
      and ?m3.0 = ApiMsgDeleteDenom_zero]
  by (simp add: go_slice_def)

text \<open>
  The genesis state.  Both decoders agree on every input, embedded parameters and denoms
  included.
\<close>

theorem api_genesis_agrees:
  assumes "runtime_ok R" and "options_Params R discard O1" and "options_Denom R discard O2"
    and "go_slice d"
  shows "\<exists>r. ApiGenesisState_unmarshal R discard O1 O2 d (Some m) = Some r
    \<and> norm (map_option ApiGenesisState_gogo) r
      = norm Some (GenesisState_Unmarshal d (ApiGenesisState_gogo m))"
  unfolding api_defs GenesisState_Unmarshal_def
  using ApiGenesisState_agree [OF assms(1) nested_Params [OF assms(1,2)] nested_Denom [OF assms(1,3)]
    sim_Params [OF assms(1,2)] sim_Denom [OF assms(1,3)]]
  by (rule pulsar_gogo.decode_agree [OF _ assms(4)])

theorem api_genesis_agrees_witness:
  "\<exists>r. ApiGenesisState_unmarshal gogo_runtime False own_Params own_Denom [0x12, 0x00]
      (Some ApiGenesisState_zero) = Some r
    \<and> norm (map_option ApiGenesisState_gogo) r
      = norm Some (GenesisState_Unmarshal [0x12, 0x00] (ApiGenesisState_gogo ApiGenesisState_zero))"
  by (rule api_genesis_agrees [OF gogo_runtime_ok own_options(1,2)]) (simp add: go_slice_def)

text \<open>
  The same for \<open>api/medasdigital/medasdigital\<close> and \<open>x/medasdigital/types\<close>.
\<close>

theorem api_medas_agrees:
  assumes "runtime_ok R" and "options_MedasParams R discard O1" and "go_slice d"
  shows "(\<exists>r. ApiMedasGenesisState_unmarshal R discard O1 d (Some m1) = Some r
      \<and> norm (map_option ApiMedasGenesisState_gogo) r
        = norm Some (MedasGenesisState_Unmarshal d (ApiMedasGenesisState_gogo m1)))
    \<and> (\<exists>r. ApiMedasMsgUpdateParams_unmarshal R discard O1 d (Some m2) = Some r
      \<and> norm (map_option ApiMedasMsgUpdateParams_gogo) r
        = norm Some (MedasMsgUpdateParams_Unmarshal d (ApiMedasMsgUpdateParams_gogo m2)))"
  unfolding api_defs MedasGenesisState_Unmarshal_def MedasMsgUpdateParams_Unmarshal_def
  using ApiMedasGenesisState_agree
      [OF assms(1) nested_MedasParams [OF assms(1,2)] sim_MedasParams [OF assms(1,2)]]
    ApiMedasMsgUpdateParams_agree
      [OF assms(1) nested_MedasParams [OF assms(1,2)] sim_MedasParams [OF assms(1,2)]]
  by (intro conjI) (erule pulsar_gogo.decode_agree [OF _ assms(3)])+

theorem api_medas_agrees_witness:
  "\<exists>r. ApiMedasGenesisState_unmarshal gogo_runtime False own_MedasParams [0x0a, 0x00]
      (Some ApiMedasGenesisState_zero) = Some r
    \<and> norm (map_option ApiMedasGenesisState_gogo) r
      = norm Some (MedasGenesisState_Unmarshal [0x0a, 0x00] (ApiMedasGenesisState_gogo ApiMedasGenesisState_zero))"
  using api_medas_agrees [OF gogo_runtime_ok own_options(3), where d = "[0x0a, 0x00]"
      and ?m1.0 = ApiMedasGenesisState_zero]
  by (simp add: go_slice_def)

section \<open>Encoding\<close>

text \<open>
  C13: a denom survives encoding and decoding with every field, the ones the message does not know
  included, unless the decoder is told to discard those; \<open>marshal\<close> fills exactly the bytes \<open>size\<close>
  counts and appends them to the buffer it is given.
\<close>

theorem api_denom_roundtrip:
  assumes "runtime_ok R" and "ApiDenom_unknownFields m = enc_fields us" and "list_all wf_field us"
    and "\<forall>x \<in> set us. ApiDenom_fields (of_nat (field_num x)) = None"
    and "int (ApiDenom_size R (Some m)) < 2 ^ 63"
  shows "\<exists>bs. ApiDenom_marshal R None (Some m) = Inr (Some bs)
    \<and> length bs = ApiDenom_size R (Some m)
    \<and> ApiDenom_marshal R (Some pre) (Some m) = Inr (Some (pre @ bs))
    \<and> ApiDenom_unmarshal R False bs (Some ApiDenom_zero) = Some (Inr (Some m))
    \<and> ApiDenom_unmarshal R True bs (Some ApiDenom_zero)
      = Some (Inr (Some (m\<lparr>ApiDenom_unknownFields := []\<rparr>)))"
proof -
  note C = ApiDenom_contract [OF assms(1)]
  obtain bs where bs: "ApiDenom_marshal R None (Some m) = Inr (Some bs)"
      "length bs = ApiDenom_size R (Some m)"
    using pulsar_message.marshal_length [OF C, of m] by (auto simp: api_defs)
  have "ApiDenom_unmarshal R discard bs (Some ApiDenom_zero)
      = Some (Inr (Some (if discard then m\<lparr>ApiDenom_unknownFields := []\<rparr> else m)))" for discard
    using pulsar_message.roundtrip [OF C _ assms(2,3) _ _ bs(1) [unfolded ApiDenom_marshal_def],
        of discard "''Denom''"] assms(4,5)
    by (simp add: api_defs)
  moreover have "ApiDenom_marshal R (Some pre) (Some m) = Inr (Some (pre @ bs))"
    using bs(1) pulsar_message.marshal_bytes [OF C] by (simp add: api_defs)
  ultimately show ?thesis using bs by simp
qed

theorem api_denom_roundtrip_witness:
  "\<exists>bs. ApiDenom_marshal gogo_runtime None (Some odd_denom) = Inr (Some bs)
    \<and> length bs = ApiDenom_size gogo_runtime (Some odd_denom)
    \<and> ApiDenom_marshal gogo_runtime (Some [9]) (Some odd_denom) = Inr (Some ([9] @ bs))
    \<and> ApiDenom_unmarshal gogo_runtime False bs (Some ApiDenom_zero) = Some (Inr (Some odd_denom))
    \<and> ApiDenom_unmarshal gogo_runtime True bs (Some ApiDenom_zero)
      = Some (Inr (Some (odd_denom\<lparr>ApiDenom_unknownFields := []\<rparr>)))"
proof (rule api_denom_roundtrip [OF gogo_runtime_ok])
  show "ApiDenom_unknownFields odd_denom = enc_fields [WVarint 12 5]"
    by (simp add: odd_denom_def)
  show "list_all wf_field [WVarint 12 5]"
    and "\<forall>x \<in> set [WVarint 12 5]. ApiDenom_fields (of_nat (field_num x)) = None"
    by (simp_all add: ApiDenom_fields_def ApiDenom_fields_6_def)
  show "int (ApiDenom_size gogo_runtime (Some odd_denom)) < 2 ^ 63"
    using length_varint [of 5] sov_le [of 5] sov_le [of 7]
    by (simp add: odd_denom_def ApiDenom_size_def pulsar_size_def ApiDenom_fields_size_def
        ApiDenom_zero_def runtime_simps [OF gogo_runtime_ok] size_string_def size_int32_def
        size_bool_def varint_wire_key)
qed

text \<open>
  The genesis state, with its embedded parameters and its list of denoms, survives encoding and
  decoding.  No denom of the list is nil: a nil pointer is encoded as an empty denom.
\<close>

theorem api_genesis_roundtrip:
  assumes "runtime_ok R" and "options_Params R discard O1" and "options_Denom R discard O2"
    and "pulsar_valid discard
      (\<lambda>m. pointer_good (ApiParams_good discard) (ApiGenesisState_Params m)
        \<and> elements_good (ApiDenom_good discard) (ApiGenesisState_DenomList m))
      ApiGenesisState_unknownFields (ApiGenesisState_fields O1 O2) m"
    and "int (ApiGenesisState_size R O1 O2 (Some m)) < 2 ^ 63"
  shows "\<exists>bs. ApiGenesisState_marshal R O1 O2 None (Some m) = Inr (Some bs)
    \<and> length bs = ApiGenesisState_size R O1 O2 (Some m)
    \<and> ApiGenesisState_unmarshal R discard O1 O2 bs (Some ApiGenesisState_zero) = Some (Inr (Some m))"
proof -
  note C = ApiGenesisState_contract
    [OF assms(1) nested_Params [OF assms(1,2)] nested_Denom [OF assms(1,3)]]
  obtain bs where bs: "ApiGenesisState_marshal R O1 O2 None (Some m) = Inr (Some bs)"
      "length bs = ApiGenesisState_size R O1 O2 (Some m)"
    using pulsar_message.marshal_length [OF C, of m] by (auto simp: api_defs)
  with pulsar_message.roundtrip_valid [OF C assms(4), of bs "''GenesisState''"] assms(5)
  show ?thesis by (auto simp: api_defs)
qed

theorem api_genesis_roundtrip_witness:
  "\<exists>bs. ApiGenesisState_marshal gogo_runtime own_Params own_Denom None
      (Some (ApiGenesisState_zero\<lparr>ApiGenesisState_Params := Some ApiParams_zero\<rparr>)) = Inr (Some bs)"
proof -
  let ?m = "ApiGenesisState_zero\<lparr>ApiGenesisState_Params := Some ApiParams_zero\<rparr>"
  note N = nested_Params [OF gogo_runtime_ok own_options(1)]
  have "opt_Size own_Params (Some ApiParams_zero) = 0"
    using nested_okD(2) [OF N] by (simp add: ApiParams_wire_def ApiParams_zero_def)
  then have "int (ApiGenesisState_size gogo_runtime own_Params own_Denom (Some ?m)) < 2 ^ 63"
    using sov_le [of 0]
    by (simp add: ApiGenesisState_size_def pulsar_size_def ApiGenesisState_fields_size_def
        ApiGenesisState_zero_def api_size_message_def api_size_repeated_def api_size_bytes_def
        gogo_runtime_def)
  moreover have "pulsar_valid False
      (\<lambda>m. pointer_good (ApiParams_good False) (ApiGenesisState_Params m)
        \<and> elements_good (ApiDenom_good False) (ApiGenesisState_DenomList m))
      ApiGenesisState_unknownFields (ApiGenesisState_fields own_Params own_Denom) ?m"
    by (rule pulsar_valid_clean)
      (simp_all add: ApiGenesisState_zero_def pointer_good_def elements_good_def good_clean
        ApiParams_zero_def)
  ultimately show ?thesis
    using api_genesis_roundtrip [OF gogo_runtime_ok own_options(1,2), of ?m] by blast
qed

text \<open>
  A client that builds its messages from the API package and the chain, which decodes with the
  code of \<open>x/tokenfactory/types\<close>, understand each other in both directions.
\<close>

theorem api_tx_interop:
  assumes "runtime_ok R"
    and "pulsar_valid False (\<lambda>m. True) ApiMsgCreateDenom_unknownFields ApiMsgCreateDenom_fields m"
    and "int (ApiMsgCreateDenom_size R (Some m)) < 2 ^ 63" and "int (MsgCreateDenom_Size g) < 2 ^ 63"
    and "pulsar_valid False (\<lambda>m. True) ApiMsgUpdateDenom_unknownFields ApiMsgUpdateDenom_fields m'"
    and "int (ApiMsgUpdateDenom_size R (Some m')) < 2 ^ 63" and "int (MsgUpdateDenom_Size g') < 2 ^ 63"
  shows "(\<exists>bs. ApiMsgCreateDenom_marshal R None (Some m) = Inr (Some bs)
      \<and> MsgCreateDenom_Unmarshal bs MsgCreateDenom_zero = Inr (ApiMsgCreateDenom_gogo m))
    \<and> (\<exists>bs x. MsgCreateDenom_Marshal g = Inr bs
      \<and> ApiMsgCreateDenom_unmarshal R discard bs (Some ApiMsgCreateDenom_zero) = Some (Inr (Some x))
      \<and> ApiMsgCreateDenom_gogo x = g)
    \<and> (\<exists>bs. ApiMsgUpdateDenom_marshal R None (Some m') = Inr (Some bs)
      \<and> MsgUpdateDenom_Unmarshal bs MsgUpdateDenom_zero = Inr (ApiMsgUpdateDenom_gogo m'))
    \<and> (\<exists>bs x. MsgUpdateDenom_Marshal g' = Inr bs
      \<and> ApiMsgUpdateDenom_unmarshal R discard bs (Some ApiMsgUpdateDenom_zero) = Some (Inr (Some x))
      \<and> ApiMsgUpdateDenom_gogo x = g')"
  using pulsar_gogo.interop [OF ApiMsgCreateDenom_agree [OF assms(1)] assms(2)
      assms(3) [unfolded ApiMsgCreateDenom_size_def] assms(4)]
    pulsar_gogo.interop [OF ApiMsgUpdateDenom_agree [OF assms(1)] assms(5)
      assms(6) [unfolded ApiMsgUpdateDenom_size_def] assms(7)]
  by (simp add: api_defs MsgCreateDenom_Unmarshal_def MsgCreateDenom_Marshal_def
      MsgUpdateDenom_Unmarshal_def MsgUpdateDenom_Marshal_def)

theorem api_tx_interop_witness:
  "\<exists>bs. ApiMsgCreateDenom_marshal gogo_runtime None (Some ApiMsgCreateDenom_zero) = Inr (Some bs)
    \<and> MsgCreateDenom_Unmarshal bs MsgCreateDenom_zero
      = Inr (ApiMsgCreateDenom_gogo ApiMsgCreateDenom_zero)"
proof -
  have "pulsar_valid False (\<lambda>m. True) ApiMsgCreateDenom_unknownFields ApiMsgCreateDenom_fields
      ApiMsgCreateDenom_zero"
    "pulsar_valid False (\<lambda>m. True) ApiMsgUpdateDenom_unknownFields ApiMsgUpdateDenom_fields
      ApiMsgUpdateDenom_zero"
    by (simp_all add: pulsar_valid_clean ApiMsgCreateDenom_zero_def ApiMsgUpdateDenom_zero_def)
  from api_tx_interop [OF gogo_runtime_ok this(1) _ _ this(2), of MsgCreateDenom_zero MsgUpdateDenom_zero]
  show ?thesis
    by (simp add: api_defs pulsar_size_def ApiMsgCreateDenom_fields_size_def
        ApiMsgUpdateDenom_fields_size_def MsgCreateDenom_Size_def MsgUpdateDenom_Size_def
        ApiMsgCreateDenom_zero_def ApiMsgUpdateDenom_zero_def MsgCreateDenom_zero_def
        MsgUpdateDenom_zero_def runtime_simps [OF gogo_runtime_ok] size_string_def size_int32_def
        size_bool_def)
qed

text \<open>
  The paginated messages of the query service, with any page messages that keep the contract of
  generated code, survive encoding and decoding, the list of denoms in its order.
\<close>

theorem api_query_roundtrip:
  assumes "runtime_ok R" and "options_Denom R discard O1" and "nested_ok O2 enc zero (\<lambda>p. True)"
    and "elements_good (ApiDenom_good discard) ds"
    and "resp = \<lparr>ApiQueryAllDenomResponse_Denom = ds, ApiQueryAllDenomResponse_Pagination = page,
      ApiQueryAllDenomResponse_unknownFields = []\<rparr>"
    and "req = \<lparr>ApiQueryAllDenomRequest_Pagination = page, ApiQueryAllDenomRequest_unknownFields = []\<rparr>"
    and "int (ApiQueryAllDenomResponse_size R O1 O2 (Some resp)) < 2 ^ 63"
    and "int (ApiQueryAllDenomRequest_size R O2 (Some req)) < 2 ^ 63"
  shows "(\<exists>bs. ApiQueryAllDenomResponse_marshal R O1 O2 None (Some resp) = Inr (Some bs)
      \<and> ApiQueryAllDenomResponse_unmarshal R discard zero O1 O2 bs (Some ApiQueryAllDenomResponse_zero)
        = Some (Inr (Some resp)))
    \<and> (\<exists>bs. ApiQueryAllDenomRequest_marshal R O2 None (Some req) = Inr (Some bs)
      \<and> ApiQueryAllDenomRequest_unmarshal R discard zero O2 bs (Some ApiQueryAllDenomRequest_zero)
        = Some (Inr (Some req)))"
proof -
  note C = ApiQueryAllDenomResponse_contract [OF assms(1) nested_Denom [OF assms(1,2)] assms(3)]
    and D = ApiQueryAllDenomRequest_contract [OF assms(1,3)]
  have p: "pointer_good (\<lambda>p. True) page"
    by (cases page) (simp_all add: pointer_good_def)
  have "pulsar_valid discard (\<lambda>m. elements_good (ApiDenom_good discard) (ApiQueryAllDenomResponse_Denom m)
        \<and> pointer_good (\<lambda>p. True) (ApiQueryAllDenomResponse_Pagination m))
      ApiQueryAllDenomResponse_unknownFields (ApiQueryAllDenomResponse_fields zero O1 O2) resp"
    using assms(4) p by (intro pulsar_valid_clean) (simp_all add: assms(5))
  note r = pulsar_message.roundtrip_valid [OF C this assms(7) [unfolded ApiQueryAllDenomResponse_size_def]]
  have "pulsar_valid discard (\<lambda>m. pointer_good (\<lambda>p. True) (ApiQueryAllDenomRequest_Pagination m))
      ApiQueryAllDenomRequest_unknownFields (ApiQueryAllDenomRequest_fields zero O2) req"
    using p by (intro pulsar_valid_clean) (simp_all add: assms(6))
  note q = pulsar_message.roundtrip_valid [OF D this assms(8) [unfolded ApiQueryAllDenomRequest_size_def]]
  show ?thesis
    using r q pulsar_message.marshal_length [OF C, of resp] pulsar_message.marshal_length [OF D, of req]
    by (auto simp: api_defs)
qed

theorem api_query_roundtrip_witness:
  "\<exists>bs. ApiQueryAllDenomResponse_marshal gogo_runtime own_Denom raw_page None
      (Some \<lparr>ApiQueryAllDenomResponse_Denom = [], ApiQueryAllDenomResponse_Pagination = Some [1, 2],
        ApiQueryAllDenomResponse_unknownFields = []\<rparr>) = Inr (Some bs)
    \<and> ApiQueryAllDenomResponse_unmarshal gogo_runtime False [] own_Denom raw_page bs
        (Some ApiQueryAllDenomResponse_zero)
      = Some (Inr (Some \<lparr>ApiQueryAllDenomResponse_Denom = [],
          ApiQueryAllDenomResponse_Pagination = Some [1, 2], ApiQueryAllDenomResponse_unknownFields = []\<rparr>))"
  using api_query_roundtrip [OF gogo_runtime_ok own_options(2) raw_page_ok _ refl refl,
      of "[]" "Some [1, 2]"] sov_le [of 2]
  by (simp add: elements_good_def ApiQueryAllDenomResponse_size_def ApiQueryAllDenomRequest_size_def
      pulsar_size_def ApiQueryAllDenomResponse_fields_size_def ApiQueryAllDenomRequest_fields_size_def
      api_size_message_def api_size_repeated_def api_size_bytes_def raw_page_def gogo_runtime_def)

section \<open>Reflection\<close>

lemma take_nil_from: "n \<le> length es \<Longrightarrow> take n (nil_from n es @ spare) = take n es"
  by (induction n es rule: nil_from.induct) auto



text \<open>
  The same for the genesis state, whose fields are a message and a list.  A list that is
  stored empty reads as the list without a pointer.
\<close>

theorem genesis_reflection:
  assumes "fastReflection_GenesisState_Set (Some m) fd v = Inr x"
  shows "fastReflection_GenesisState_Get x fd = Inr (rf_stored v)
    \<and> (\<forall>fd'. FullName fd' \<noteq> FullName fd \<longrightarrow>
        fastReflection_GenesisState_Get x fd' = fastReflection_GenesisState_Get (Some m) fd')
    \<and> (\<forall>y. fastReflection_GenesisState_Clear x fd = Inr y \<longrightarrow>
        fastReflection_GenesisState_Has y fd = Inr False)"
proof -
  obtain m' where "x = Some m'"
    using assms unfolding fastReflection_GenesisState_Set_def refl_Set_def
    by (auto elim!: refl_GenesisState.switch_cases simp: rbind_eq_Inr)
  then show ?thesis
    using assms refl_GenesisState.set_get [of m fd v x] refl_GenesisState.clear_has [of m' fd]
    by (auto simp: fastReflection_GenesisState_Set_def fastReflection_GenesisState_Get_def
        fastReflection_GenesisState_Clear_def fastReflection_GenesisState_Has_def)
qed

theorem genesis_reflection_witness:
  "fastReflection_GenesisState_Get
      (Some (ApiGenesisState_zero\<lparr>ApiGenesisState_DenomList := [Some ApiDenom_zero]\<rparr>))
      \<lparr>FullName = ''medasdigital.tokenfactory.GenesisState.denomList'', IsExtension = False\<rparr>
    = Inr (ValueOfList ''_GenesisState_2_list'' (Some [RefDenom (Some ApiDenom_zero)]))"
  using genesis_reflection [where m = ApiGenesisState_zero
      and fd = "\<lparr>FullName = ''medasdigital.tokenfactory.GenesisState.denomList'', IsExtension = False\<rparr>"
      and v = "ValueOfList ''_GenesisState_2_list'' (Some [RefDenom (Some ApiDenom_zero)])"
      and x = "Some (ApiGenesisState_zero\<lparr>ApiGenesisState_DenomList := [Some ApiDenom_zero]\<rparr>)"]
  by (simp add: fastReflection_GenesisState_Set_def refl_Set_def refl_switch_def
      ApiGenesisState_refl_def RListOf_def)



text \<open>
  The list of denoms of a genesis state.  \<open>Append\<close> adds at the end what \<open>Get\<close> then reads
  there, \<open>Set\<close> replaces one element, \<open>Truncate\<close> keeps a prefix, and an index outside the list, or a
  list without a pointer, panics.
\<close>

theorem genesis_list_correct:
  "ApiGenesisState_2_list_Append (Some es) (ValueOfMessage (RefDenom p)) = Inr (Some (es @ [p]))
    \<and> ApiGenesisState_2_list_Len (Some (es @ [p])) = ApiGenesisState_2_list_Len (Some es) + 1
    \<and> ApiGenesisState_2_list_Get (Some (es @ [p])) (int (length es)) = Inr (ValueOfMessage (RefDenom p))
    \<and> (\<forall>i. (\<exists>v. ApiGenesisState_2_list_Get (Some es) i = Inr v)
        \<longleftrightarrow> 0 \<le> i \<and> i < ApiGenesisState_2_list_Len (Some es))
    \<and> (\<forall>i j x. ApiGenesisState_2_list_Set (Some es) i (ValueOfMessage (RefDenom p)) = Inr x \<longrightarrow>
        ApiGenesisState_2_list_Get x j
          = (if j = i then Inr (ValueOfMessage (RefDenom p)) else ApiGenesisState_2_list_Get (Some es) j))
    \<and> (\<forall>n \<le> length es. ApiGenesisState_2_list_Truncate spare (Some es) (int n) = Inr (Some (take n es)))
    \<and> ApiGenesisState_2_list_Append None (ValueOfMessage (RefDenom p)) = Inl NilDereference
    \<and> ApiGenesisState_2_list_Append (Some es) (ValueOfMessage (RefParams q)) = Inl WrongKind"
proof -
  have "ApiGenesisState_2_list_Get (Some (es @ [p])) (int (length es)) = Inr (ValueOfMessage (RefDenom p))"
    by (simp add: ApiGenesisState_2_list_Get_def list_Get_def)
  moreover have "(\<exists>v. ApiGenesisState_2_list_Get (Some es) i = Inr v)
      \<longleftrightarrow> 0 \<le> i \<and> i < ApiGenesisState_2_list_Len (Some es)" for i
    by (simp add: ApiGenesisState_2_list_Get_def list_Get_def ApiGenesisState_2_list_Len_def list_Len_def)
  moreover have "ApiGenesisState_2_list_Get x j
      = (if j = i then Inr (ValueOfMessage (RefDenom p)) else ApiGenesisState_2_list_Get (Some es) j)"
    if "ApiGenesisState_2_list_Set (Some es) i (ValueOfMessage (RefDenom p)) = Inr x" for i j x
    using that by (auto simp: ApiGenesisState_2_list_Get_def list_Get_def
        ApiGenesisState_2_list_Set_def list_Set_def nth_list_update split: if_splits)
  moreover have "ApiGenesisState_2_list_Truncate spare (Some es) (int n) = Inr (Some (take n es))"
    if "n \<le> length es" for n
    using that by (simp add: ApiGenesisState_2_list_Truncate_def list_Truncate_def take_nil_from del: take_append)
  ultimately show ?thesis
    by (simp add: ApiGenesisState_2_list_Append_def list_Append_def ApiGenesisState_2_list_Len_def
        list_Len_def)
qed

theorem genesis_list_correct_witness:
  "ApiGenesisState_2_list_Truncate [] (Some [Some ApiDenom_zero, None]) 1 = Inr (Some [Some ApiDenom_zero])"
  using genesis_list_correct [of "[Some ApiDenom_zero, None]" None "[]" None]
  by (simp add: ApiGenesisState_2_list_Truncate_def list_Truncate_def numeral_eq_Suc)

text \<open>
  A descriptor of another message, or of an extension, is refused by every method with the same
  panic, which names the message and the field, whatever the receiver.
\<close>

theorem unknown_field_refused:
  assumes "\<forall>(n, k) \<in> set ApiMsgCreateDenom_refl.
      FullName fd \<noteq> ''medasdigital.tokenfactory.MsgCreateDenom'' @ ''.'' @ n"
    and "e = (if IsExtension fd then NoExtensions ''medasdigital.tokenfactory.MsgCreateDenom''
      else NoField ''medasdigital.tokenfactory.MsgCreateDenom'' (FullName fd))"
  shows "fastReflection_MsgCreateDenom_Has x fd = Inl e
    \<and> fastReflection_MsgCreateDenom_Get x fd = Inl e
    \<and> fastReflection_MsgCreateDenom_Set x fd v = Inl e
    \<and> fastReflection_MsgCreateDenom_Clear x fd = Inl e
    \<and> fastReflection_MsgCreateDenom_Mutable x fd = Inl e
    \<and> fastReflection_MsgCreateDenom_NewField fd = Inl e"
  unfolding fastReflection_MsgCreateDenom_Has_def fastReflection_MsgCreateDenom_Get_def
    fastReflection_MsgCreateDenom_Set_def fastReflection_MsgCreateDenom_Clear_def
    fastReflection_MsgCreateDenom_Mutable_def fastReflection_MsgCreateDenom_NewField_def
    refl_Has_def refl_Get_def refl_Set_def refl_Clear_def refl_Mutable_def refl_NewField_def
    refl_MsgCreateDenom.switch_unknown [OF assms(1)] assms(2)
  by (intro conjI refl)

theorem unknown_field_refused_witness:
  "fastReflection_MsgCreateDenom_Has None \<lparr>FullName = ''x'', IsExtension = False\<rparr>
    = Inl (NoField ''medasdigital.tokenfactory.MsgCreateDenom'' ''x'')"
  using unknown_field_refused [of "\<lparr>FullName = ''x'', IsExtension = False\<rparr>"]
  by (simp add: ApiMsgCreateDenom_refl_def)

end
