(* ===== verification/Grpc_Runtime.thy ===== *)
theory Grpc_Runtime
  imports Sdk_Interfaces
begin

text \<open>
  What the generated gRPC and HTTP plumbing shares (\<open>*.pb.go\<close>, the stubs, and \<open>query.pb.gw.go\<close>):
  service descriptions, interceptors, the handlers a gateway registers with its multiplexer, and
  URL patterns.  The libraries \<open>grpc\<close> and \<open>grpc-gateway\<close> are records of functions with the
  documented contract as a predicate.
\<close>

section \<open>Services\<close>

text \<open>
  An interceptor gets the context, the request, the full name of the method and the handler.  A
  handler of a service description takes the server, the context, the function that decodes the
  request into a new message, and the interceptor, nil being \<open>None\<close>.
\<close>

type_synonym ('ctx, 'q, 'r) interceptor =
  "'ctx \<Rightarrow> 'q \<Rightarrow> gostring \<Rightarrow> ('ctx \<Rightarrow> 'q \<Rightarrow> go_error + 'r) \<Rightarrow> go_error + 'r"

type_synonym ('srv, 'ctx, 'dec, 'q, 'r) method_handler =
  "'srv \<Rightarrow> 'ctx \<Rightarrow> 'dec \<Rightarrow> ('ctx, 'q, 'r) interceptor option \<Rightarrow> go_error + 'r"

record 'h ServiceDesc =
  ServiceName :: gostring
  Methods :: "(gostring \<times> 'h) list"
  ServiceMetadata :: gostring

text \<open>\<open>RegisterService\<close> adds a description and its server to those of a gRPC server.\<close>

type_synonym ('h, 'srv) grpc_server = "('h ServiceDesc \<times> 'srv) list"

definition RegisterService ::
  "'h ServiceDesc \<Rightarrow> 'srv \<Rightarrow> ('h, 'srv) grpc_server \<Rightarrow> ('h, 'srv) grpc_server" where
  "RegisterService sd srv s = s @ [(sd, srv)]"

text \<open>The full name of a method, \<open>/service/method\<close>, and the handler a server has for it.\<close>

definition full_method :: "'h ServiceDesc \<Rightarrow> gostring \<Rightarrow> gostring" where
  "full_method sd m = lit ''/'' @ ServiceName sd @ lit ''/'' @ m"

definition service_methods :: "('h, 'srv) grpc_server \<Rightarrow> (gostring \<times> 'h \<times> 'srv) list" where
  "service_methods s =
     concat (map (\<lambda>(sd, srv). map (\<lambda>(m, h). (full_method sd m, h, srv)) (Methods sd)) s)"

definition find_method :: "('h, 'srv) grpc_server \<Rightarrow> gostring \<Rightarrow> ('h \<times> 'srv) option" where
  "find_method s m = map_of (service_methods s) m"

section \<open>The gateway\<close>

text \<open>
  The header and trailer metadata of a call, and what the client of a web request gets: an error,
  with the metadata when the call was made, or the response with the metadata.
\<close>

record 'md ServerMetadata =
  HeaderMD :: 'md
  TrailerMD :: 'md

datatype ('md, 'r) reply =
    HTTPError "'md ServerMetadata option" go_error
  | ForwardResponseMessage "'md ServerMetadata" 'r

text \<open>
  The functions of \<open>runtime\<close> and \<open>net/http\<close> the gateway calls, on requests of type \<open>'w\<close>:
  the context of the request with a cancel function, \<open>AnnotateContext\<close> and
  \<open>AnnotateIncomingContext\<close>, the conversion \<open>String\<close> of a path parameter, \<open>ParseForm\<close>, and the
  joining of metadata.  \<open>gw_stream\<close> is what a server has put in the transport stream of its context
  when it returns.
\<close>

record ('ctx, 'w, 'form, 'md) gateway =
  gw_Context :: "'w \<Rightarrow> 'ctx"
  AnnotateContext :: "'ctx \<Rightarrow> 'w \<Rightarrow> go_error + 'ctx"
  AnnotateIncomingContext :: "'ctx \<Rightarrow> 'w \<Rightarrow> go_error + 'ctx"
  runtime_String :: "gostring \<Rightarrow> gostring + gostring"
  ParseForm :: "'w \<Rightarrow> gostring + 'form"
  metadata_zero :: 'md
  metadata_Join :: "'md \<Rightarrow> 'md \<Rightarrow> 'md"
  gw_stream :: "'ctx \<Rightarrow> 'md ServerMetadata"

definition no_metadata :: "('ctx, 'w, 'form, 'md) gateway \<Rightarrow> 'md ServerMetadata" where
  "no_metadata G = \<lparr>HeaderMD = metadata_zero G, TrailerMD = metadata_zero G\<rparr>"

text \<open>
  The functions the two registrations pass to \<open>mux.Handle\<close>, one per method, which differ in the
  request function they call.  A request function gets the annotated context, the web request and
  the parameters of the path.
\<close>

type_synonym path_params = "gostring \<rightharpoonup> gostring"

type_synonym ('ctx, 'w, 'md, 'r) request_fun =
  "'ctx \<Rightarrow> 'w \<Rightarrow> path_params \<Rightarrow> 'md ServerMetadata \<times> (go_error + 'r)"

definition handle_server ::
  "('ctx, 'w, 'form, 'md) gateway \<Rightarrow> ('ctx, 'w, 'md, 'r) request_fun
    \<Rightarrow> 'w \<Rightarrow> path_params \<Rightarrow> ('md, 'r) reply" where
  "handle_server G local_request req pathParams =
     (case AnnotateIncomingContext G (gw_Context G req) req of
        Inl err \<Rightarrow> HTTPError None err
      | Inr rctx \<Rightarrow>
          (case local_request rctx req pathParams of (md, r) \<Rightarrow>
           let md' = \<lparr>HeaderMD = metadata_Join G (HeaderMD md) (HeaderMD (gw_stream G rctx)),
             TrailerMD = metadata_Join G (TrailerMD md) (TrailerMD (gw_stream G rctx))\<rparr>
           in (case r of
                Inl err \<Rightarrow> HTTPError (Some md') err
              | Inr resp \<Rightarrow> ForwardResponseMessage md' resp)))"

definition handle_client ::
  "('ctx, 'w, 'form, 'md) gateway \<Rightarrow> ('ctx, 'w, 'md, 'r) request_fun
    \<Rightarrow> 'w \<Rightarrow> path_params \<Rightarrow> ('md, 'r) reply" where
  "handle_client G request req pathParams =
     (case AnnotateContext G (gw_Context G req) req of
        Inl err \<Rightarrow> HTTPError None err
      | Inr rctx \<Rightarrow>
          (case request rctx req pathParams of (md, r) \<Rightarrow>
             (case r of
                Inl err \<Rightarrow> HTTPError (Some md) err
              | Inr resp \<Rightarrow> ForwardResponseMessage md resp)))"

text \<open>\<open>runtime.NewPattern\<close>: the version, the operations, the pool of strings, the verb and the option.\<close>

record pattern =
  pattern_Version :: int
  pattern_Ops :: "int list"
  pattern_Pool :: "gostring list"
  pattern_Verb :: gostring
  AssumeColonVerbOpt :: bool

text \<open>A multiplexer is the list of what was registered with it: method, pattern, function.\<close>

type_synonym ('w, 'md, 'r) mux =
  "(gostring \<times> pattern \<times> ('w \<Rightarrow> path_params \<Rightarrow> ('md, 'r) reply)) list"

definition mux_Handle ::
  "gostring \<Rightarrow> pattern \<Rightarrow> ('w \<Rightarrow> path_params \<Rightarrow> ('md, 'r) reply) \<Rightarrow> ('w, 'md, 'r) mux \<Rightarrow> ('w, 'md, 'r) mux"
where
  "mux_Handle meth pat h mux = mux @ [(meth, pat, h)]"

text \<open>What becomes of the connection \<open>RegisterQueryHandlerFromEndpoint\<close> dials.\<close>

datatype conn_fate = ClosedAtOnce | ClosedWhenDone

section \<open>What the libraries document\<close>

text \<open>
  The operations of a pattern come in pairs of a code and an argument, on a stack of strings:
  1 pushes a component of the path, 2 pushes it when it is the literal of the pool, 4 joins the
  topmost ones, 5 takes one off and binds it to the name in the pool.  All components have to be
  used up.
\<close>

fun join_path :: "gostring list \<Rightarrow> gostring" where
  "join_path [] = []"
| "join_path [c] = c"
| "join_path (c # cs) = c @ lit ''/'' @ join_path cs"

fun run_ops ::
  "int list \<Rightarrow> gostring list \<Rightarrow> gostring list \<Rightarrow> gostring list \<Rightarrow> path_params \<Rightarrow> path_params option" where
  "run_ops [] pool cs st b = (if cs = [] then Some b else None)"
| "run_ops [op] pool cs st b = None"
| "run_ops (op # arg # ops) pool cs st b =
     (if op = 0 then run_ops ops pool cs st b
      else if op = 1 then
        (case cs of [] \<Rightarrow> None | c # cs' \<Rightarrow> run_ops ops pool cs' (c # st) b)
      else if op = 2 then
        (case cs of [] \<Rightarrow> None
         | c # cs' \<Rightarrow> if c = pool ! nat arg then run_ops ops pool cs' (c # st) b else None)
      else if op = 4 then
        run_ops ops pool cs (join_path (rev (take (nat arg) st)) # drop (nat arg) st) b
      else if op = 5 then
        (case st of [] \<Rightarrow> None | c # st' \<Rightarrow> run_ops ops pool cs st' (b(pool ! nat arg \<mapsto> c)))
      else None)"

definition pattern_match :: "pattern \<Rightarrow> gostring list \<Rightarrow> path_params option" where
  "pattern_match p cs = run_ops (pattern_Ops p) (pattern_Pool p) cs [] Map.empty"

definition routes_for :: "('w, 'md, 'r) mux \<Rightarrow> gostring \<Rightarrow> gostring list
    \<Rightarrow> (gostring \<times> pattern \<times> ('w \<Rightarrow> path_params \<Rightarrow> ('md, 'r) reply)) list" where
  "routes_for mux meth path = filter (\<lambda>(m, p, h). m = meth \<and> pattern_match p path \<noteq> None) mux"

text \<open>
  The multiplexer calls the function of the one route that matches, with the parameters of the
  path.  \<open>serve mux meth path req\<close> is its answer to the request \<open>req\<close> for the path with those
  components.
\<close>

definition mux_serves ::
  "(('w, 'md, 'r) mux \<Rightarrow> gostring \<Rightarrow> gostring list \<Rightarrow> 'w \<Rightarrow> ('md, 'r) reply option) \<Rightarrow> bool" where
  "mux_serves serve \<longleftrightarrow>
     (\<forall>mux path req p h. routes_for mux (lit ''GET'') path = [(lit ''GET'', p, h)] \<longrightarrow>
        serve mux (lit ''GET'') path req = Some (h req (the (pattern_match p path))))"

text \<open>A multiplexer that searches the routes in order, for the witnesses.\<close>

definition first_route ::
  "('w, 'md, 'r) mux \<Rightarrow> gostring \<Rightarrow> gostring list \<Rightarrow> 'w \<Rightarrow> ('md, 'r) reply option" where
  "first_route mux meth path req =
     (case routes_for mux meth path of
        [] \<Rightarrow> None
      | (m, p, h) # rs \<Rightarrow> Some (h req (the (pattern_match p path))))"

lemma first_route_serves: "mux_serves first_route"
  by (auto simp: mux_serves_def first_route_def)

text \<open>\<open>runtime.String\<close> just returns its argument.\<close>

definition gateway_ok :: "('ctx, 'w, 'form, 'md) gateway \<Rightarrow> bool" where
  "gateway_ok G \<longleftrightarrow> (\<forall>v. runtime_String G v = Inr v)"

end
