(* ===== verification/TF_Grpc.thy ===== *)
theory TF_Grpc
  imports Grpc_Runtime TF_Query TF_Module TF_Machine
begin

text \<open>
  The gRPC stubs of the token factory, \<open>types/query.pb.go\<close> and \<open>types/tx.pb.go\<close>: clients, server
  interfaces, method handlers and service descriptions; and what the module registers,
  \<open>RegisterServices\<close> of \<open>module/module.go\<close>.
\<close>

section \<open>The query service\<close>

text \<open>Requests and responses as interface values.\<close>

datatype 'p query_request =
    ReqParams QueryParamsRequest
  | ReqDenom QueryGetDenomRequest
  | ReqDenomAll "'p QueryAllDenomRequest"

datatype 'r query_response =
    RespParams QueryParamsResponse
  | RespDenom QueryGetDenomResponse
  | RespDenomAll "'r QueryAllDenomResponse"

text \<open>
  The interface \<open>QueryServer\<close>, on a context of type \<open>'ctx\<close>; a request is a pointer.  A decoder is
  the function \<open>dec\<close> at the types it is called with.
\<close>

record ('ctx, 'p, 'r) QueryServer =
  Srv_Params :: "'ctx \<Rightarrow> QueryParamsRequest option \<Rightarrow> go_error + QueryParamsResponse"
  Srv_Denom :: "'ctx \<Rightarrow> QueryGetDenomRequest option \<Rightarrow> go_error + QueryGetDenomResponse"
  Srv_DenomAll :: "'ctx \<Rightarrow> 'p QueryAllDenomRequest option \<Rightarrow> go_error + 'r QueryAllDenomResponse"

record 'p query_dec =
  dec_Params :: "QueryParamsRequest \<Rightarrow> go_error + QueryParamsRequest"
  dec_Denom :: "QueryGetDenomRequest \<Rightarrow> go_error + QueryGetDenomRequest"
  dec_DenomAll :: "'p QueryAllDenomRequest \<Rightarrow> go_error + 'p QueryAllDenomRequest"

type_synonym ('ctx, 'p, 'r) query_handler =
  "(('ctx, 'p, 'r) QueryServer, 'ctx, 'p query_dec, 'p query_request, 'r query_response) method_handler"

abbreviation resp :: "('a \<Rightarrow> 'b) \<Rightarrow> go_error + 'a \<Rightarrow> go_error + 'b" where
  "resp f \<equiv> map_sum id f"

text \<open>A type assertion on a request of another type panics.\<close>

definition wrong_type :: "go_error + 'r" where
  "wrong_type = Inl (GoPanic (lit ''interface conversion''))"

definition Query_Params_Handler :: "('ctx, 'p, 'r) query_handler" where
  "Query_Params_Handler srv ctx dec interceptor =
     rbind (dec_Params dec QueryParamsRequest) (\<lambda>req.
       case interceptor of
         None \<Rightarrow> resp RespParams (Srv_Params srv ctx (Some req))
       | Some i \<Rightarrow> i ctx (ReqParams req) (lit ''/medasdigital.tokenfactory.Query/Params'')
           (\<lambda>ctx q. case q of
              ReqParams r \<Rightarrow> resp RespParams (Srv_Params srv ctx (Some r)) | _ \<Rightarrow> wrong_type))"

definition Query_Denom_Handler :: "('ctx, 'p, 'r) query_handler" where
  "Query_Denom_Handler srv ctx dec interceptor =
     rbind (dec_Denom dec QueryGetDenomRequest_zero) (\<lambda>req.
       case interceptor of
         None \<Rightarrow> resp RespDenom (Srv_Denom srv ctx (Some req))
       | Some i \<Rightarrow> i ctx (ReqDenom req) (lit ''/medasdigital.tokenfactory.Query/Denom'')
           (\<lambda>ctx q. case q of
              ReqDenom r \<Rightarrow> resp RespDenom (Srv_Denom srv ctx (Some r)) | _ \<Rightarrow> wrong_type))"

definition Query_DenomAll_Handler :: "('ctx, 'p, 'r) query_handler" where
  "Query_DenomAll_Handler srv ctx dec interceptor =
     rbind (dec_DenomAll dec QueryAllDenomRequest_zero) (\<lambda>req.
       case interceptor of
         None \<Rightarrow> resp RespDenomAll (Srv_DenomAll srv ctx (Some req))
       | Some i \<Rightarrow> i ctx (ReqDenomAll req) (lit ''/medasdigital.tokenfactory.Query/DenomAll'')
           (\<lambda>ctx q. case q of
              ReqDenomAll r \<Rightarrow> resp RespDenomAll (Srv_DenomAll srv ctx (Some r)) | _ \<Rightarrow> wrong_type))"

definition Query_serviceDesc :: "('ctx, 'p, 'r) query_handler ServiceDesc" where
  "Query_serviceDesc = \<lparr>ServiceName = lit ''medasdigital.tokenfactory.Query'',
     Methods =
       [(lit ''Params'', Query_Params_Handler),
        (lit ''Denom'', Query_Denom_Handler),
        (lit ''DenomAll'', Query_DenomAll_Handler)],
     ServiceMetadata = lit ''medasdigital/tokenfactory/query.proto''\<rparr>"

definition RegisterQueryServer ::
  "(('ctx, 'p, 'r) query_handler, ('ctx, 'p, 'r) QueryServer) grpc_server \<Rightarrow> ('ctx, 'p, 'r) QueryServer
    \<Rightarrow> (('ctx, 'p, 'r) query_handler, ('ctx, 'p, 'r) QueryServer) grpc_server" where
  "RegisterQueryServer s srv = RegisterService Query_serviceDesc srv s"

definition unimplemented :: "string \<Rightarrow> go_error + 'r" where
  "unimplemented m = Inl (Status Unimplemented (lit (''method '' @ m @ '' not implemented'')))"

definition UnimplementedQueryServer :: "('ctx, 'p, 'r) QueryServer" where
  "UnimplementedQueryServer = \<lparr>Srv_Params = (\<lambda>ctx req. unimplemented ''Params''),
     Srv_Denom = (\<lambda>ctx req. unimplemented ''Denom''),
     Srv_DenomAll = (\<lambda>ctx req. unimplemented ''DenomAll'')\<rparr>"

text \<open>
  The client.  \<open>Invoke\<close> of a connection, at the types it is called with: context, full name of
  the method, request; it gives the metadata of the call, and an error or the response.
\<close>

record ('ctx, 'md, 'p, 'r) query_conn =
  Invoke_Params :: "'ctx \<Rightarrow> gostring \<Rightarrow> QueryParamsRequest
    \<Rightarrow> 'md ServerMetadata \<times> (go_error + QueryParamsResponse)"
  Invoke_Denom :: "'ctx \<Rightarrow> gostring \<Rightarrow> QueryGetDenomRequest
    \<Rightarrow> 'md ServerMetadata \<times> (go_error + QueryGetDenomResponse)"
  Invoke_DenomAll :: "'ctx \<Rightarrow> gostring \<Rightarrow> 'p QueryAllDenomRequest
    \<Rightarrow> 'md ServerMetadata \<times> (go_error + 'r QueryAllDenomResponse)"

record ('ctx, 'md, 'p, 'r) QueryClient =
  Client_Params :: "'ctx \<Rightarrow> QueryParamsRequest \<Rightarrow> 'md ServerMetadata \<times> (go_error + QueryParamsResponse)"
  Client_Denom :: "'ctx \<Rightarrow> QueryGetDenomRequest
    \<Rightarrow> 'md ServerMetadata \<times> (go_error + QueryGetDenomResponse)"
  Client_DenomAll :: "'ctx \<Rightarrow> 'p QueryAllDenomRequest
    \<Rightarrow> 'md ServerMetadata \<times> (go_error + 'r QueryAllDenomResponse)"

definition queryClient_Params ::
  "('ctx, 'md, 'p, 'r) query_conn \<Rightarrow> 'ctx \<Rightarrow> QueryParamsRequest
    \<Rightarrow> 'md ServerMetadata \<times> (go_error + QueryParamsResponse)" where
  "queryClient_Params cc ctx req =
     Invoke_Params cc ctx (lit ''/medasdigital.tokenfactory.Query/Params'') req"

definition queryClient_Denom ::
  "('ctx, 'md, 'p, 'r) query_conn \<Rightarrow> 'ctx \<Rightarrow> QueryGetDenomRequest
    \<Rightarrow> 'md ServerMetadata \<times> (go_error + QueryGetDenomResponse)" where
  "queryClient_Denom cc ctx req =
     Invoke_Denom cc ctx (lit ''/medasdigital.tokenfactory.Query/Denom'') req"

definition queryClient_DenomAll ::
  "('ctx, 'md, 'p, 'r) query_conn \<Rightarrow> 'ctx \<Rightarrow> 'p QueryAllDenomRequest
    \<Rightarrow> 'md ServerMetadata \<times> (go_error + 'r QueryAllDenomResponse)" where
  "queryClient_DenomAll cc ctx req =
     Invoke_DenomAll cc ctx (lit ''/medasdigital.tokenfactory.Query/DenomAll'') req"

definition NewQueryClient :: "('ctx, 'md, 'p, 'r) query_conn \<Rightarrow> ('ctx, 'md, 'p, 'r) QueryClient" where
  "NewQueryClient cc = \<lparr>Client_Params = queryClient_Params cc, Client_Denom = queryClient_Denom cc,
     Client_DenomAll = queryClient_DenomAll cc\<rparr>"

section \<open>The message service\<close>

datatype msg_response =
    RespUpdateParams MsgUpdateParamsResponse
  | RespCreateDenom MsgCreateDenomResponse
  | RespUpdateDenom MsgUpdateDenomResponse
  | RespDeleteDenom MsgDeleteDenomResponse

text \<open>The interface \<open>MsgServer\<close>: the context is the store, and a handler returns its new state.\<close>

record 's MsgServer =
  Srv_UpdateParams :: "'s \<Rightarrow> MsgUpdateParams \<Rightarrow> go_error + 's \<times> MsgUpdateParamsResponse"
  Srv_CreateDenom :: "'s \<Rightarrow> MsgCreateDenom \<Rightarrow> go_error + 's \<times> MsgCreateDenomResponse"
  Srv_UpdateDenom :: "'s \<Rightarrow> MsgUpdateDenom \<Rightarrow> go_error + 's \<times> MsgUpdateDenomResponse"
  Srv_DeleteDenom :: "'s \<Rightarrow> MsgDeleteDenom \<Rightarrow> go_error + 's \<times> MsgDeleteDenomResponse"

record msg_dec =
  dec_UpdateParams :: "MsgUpdateParams \<Rightarrow> go_error + MsgUpdateParams"
  dec_CreateDenom :: "MsgCreateDenom \<Rightarrow> go_error + MsgCreateDenom"
  dec_UpdateDenom :: "MsgUpdateDenom \<Rightarrow> go_error + MsgUpdateDenom"
  dec_DeleteDenom :: "MsgDeleteDenom \<Rightarrow> go_error + MsgDeleteDenom"

type_synonym 's msg_handler =
  "('s MsgServer, 's, msg_dec, tf_msg, 's \<times> msg_response) method_handler"

definition Msg_UpdateParams_Handler :: "'s msg_handler" where
  "Msg_UpdateParams_Handler srv ctx dec interceptor =
     rbind (dec_UpdateParams dec MsgUpdateParams_zero) (\<lambda>req.
       case interceptor of
         None \<Rightarrow> resp (map_prod id RespUpdateParams) (Srv_UpdateParams srv ctx req)
       | Some i \<Rightarrow> i ctx (TxUpdateParams req) (lit ''/medasdigital.tokenfactory.Msg/UpdateParams'')
           (\<lambda>ctx q. case q of
              TxUpdateParams r \<Rightarrow> resp (map_prod id RespUpdateParams) (Srv_UpdateParams srv ctx r)
            | _ \<Rightarrow> wrong_type))"

definition Msg_CreateDenom_Handler :: "'s msg_handler" where
  "Msg_CreateDenom_Handler srv ctx dec interceptor =
     rbind (dec_CreateDenom dec MsgCreateDenom_zero) (\<lambda>req.
       case interceptor of
         None \<Rightarrow> resp (map_prod id RespCreateDenom) (Srv_CreateDenom srv ctx req)
       | Some i \<Rightarrow> i ctx (TxCreateDenom req) (lit ''/medasdigital.tokenfactory.Msg/CreateDenom'')
           (\<lambda>ctx q. case q of
              TxCreateDenom r \<Rightarrow> resp (map_prod id RespCreateDenom) (Srv_CreateDenom srv ctx r)
            | _ \<Rightarrow> wrong_type))"

definition Msg_UpdateDenom_Handler :: "'s msg_handler" where
  "Msg_UpdateDenom_Handler srv ctx dec interceptor =
     rbind (dec_UpdateDenom dec MsgUpdateDenom_zero) (\<lambda>req.
       case interceptor of
         None \<Rightarrow> resp (map_prod id RespUpdateDenom) (Srv_UpdateDenom srv ctx req)
       | Some i \<Rightarrow> i ctx (TxUpdateDenom req) (lit ''/medasdigital.tokenfactory.Msg/UpdateDenom'')
           (\<lambda>ctx q. case q of
              TxUpdateDenom r \<Rightarrow> resp (map_prod id RespUpdateDenom) (Srv_UpdateDenom srv ctx r)
            | _ \<Rightarrow> wrong_type))"

definition Msg_DeleteDenom_Handler :: "'s msg_handler" where
  "Msg_DeleteDenom_Handler srv ctx dec interceptor =
     rbind (dec_DeleteDenom dec MsgDeleteDenom_zero) (\<lambda>req.
       case interceptor of
         None \<Rightarrow> resp (map_prod id RespDeleteDenom) (Srv_DeleteDenom srv ctx req)
       | Some i \<Rightarrow> i ctx (TxDeleteDenom req) (lit ''/medasdigital.tokenfactory.Msg/DeleteDenom'')
           (\<lambda>ctx q. case q of
              TxDeleteDenom r \<Rightarrow> resp (map_prod id RespDeleteDenom) (Srv_DeleteDenom srv ctx r)
            | _ \<Rightarrow> wrong_type))"

definition Msg_serviceDesc :: "'s msg_handler ServiceDesc" where
  "Msg_serviceDesc = \<lparr>ServiceName = lit ''medasdigital.tokenfactory.Msg'',
     Methods =
       [(lit ''UpdateParams'', Msg_UpdateParams_Handler),
        (lit ''CreateDenom'', Msg_CreateDenom_Handler),
        (lit ''UpdateDenom'', Msg_UpdateDenom_Handler),
        (lit ''DeleteDenom'', Msg_DeleteDenom_Handler)],
     ServiceMetadata = lit ''medasdigital/tokenfactory/tx.proto''\<rparr>"

definition RegisterMsgServer ::
  "('s msg_handler, 's MsgServer) grpc_server \<Rightarrow> 's MsgServer \<Rightarrow> ('s msg_handler, 's MsgServer) grpc_server"
where
  "RegisterMsgServer s srv = RegisterService Msg_serviceDesc srv s"

definition UnimplementedMsgServer :: "'s MsgServer" where
  "UnimplementedMsgServer = \<lparr>Srv_UpdateParams = (\<lambda>ctx req. unimplemented ''UpdateParams''),
     Srv_CreateDenom = (\<lambda>ctx req. unimplemented ''CreateDenom''),
     Srv_UpdateDenom = (\<lambda>ctx req. unimplemented ''UpdateDenom''),
     Srv_DeleteDenom = (\<lambda>ctx req. unimplemented ''DeleteDenom'')\<rparr>"


text \<open>The client of the message service, as that of the query service.\<close>

record ('ctx, 'x) msg_conn =
  Invoke_UpdateParams :: "'ctx \<Rightarrow> gostring \<Rightarrow> MsgUpdateParams \<Rightarrow> 'x \<times> (go_error + MsgUpdateParamsResponse)"
  Invoke_CreateDenom :: "'ctx \<Rightarrow> gostring \<Rightarrow> MsgCreateDenom \<Rightarrow> 'x \<times> (go_error + MsgCreateDenomResponse)"
  Invoke_UpdateDenom :: "'ctx \<Rightarrow> gostring \<Rightarrow> MsgUpdateDenom \<Rightarrow> 'x \<times> (go_error + MsgUpdateDenomResponse)"
  Invoke_DeleteDenom :: "'ctx \<Rightarrow> gostring \<Rightarrow> MsgDeleteDenom \<Rightarrow> 'x \<times> (go_error + MsgDeleteDenomResponse)"

definition msgClient_UpdateParams ::
  "('ctx, 'x) msg_conn \<Rightarrow> 'ctx \<Rightarrow> MsgUpdateParams \<Rightarrow> 'x \<times> (go_error + MsgUpdateParamsResponse)" where
  "msgClient_UpdateParams cc ctx req =
     Invoke_UpdateParams cc ctx (lit ''/medasdigital.tokenfactory.Msg/UpdateParams'') req"

definition msgClient_CreateDenom ::
  "('ctx, 'x) msg_conn \<Rightarrow> 'ctx \<Rightarrow> MsgCreateDenom \<Rightarrow> 'x \<times> (go_error + MsgCreateDenomResponse)" where
  "msgClient_CreateDenom cc ctx req =
     Invoke_CreateDenom cc ctx (lit ''/medasdigital.tokenfactory.Msg/CreateDenom'') req"

definition msgClient_UpdateDenom ::
  "('ctx, 'x) msg_conn \<Rightarrow> 'ctx \<Rightarrow> MsgUpdateDenom \<Rightarrow> 'x \<times> (go_error + MsgUpdateDenomResponse)" where
  "msgClient_UpdateDenom cc ctx req =
     Invoke_UpdateDenom cc ctx (lit ''/medasdigital.tokenfactory.Msg/UpdateDenom'') req"

definition msgClient_DeleteDenom ::
  "('ctx, 'x) msg_conn \<Rightarrow> 'ctx \<Rightarrow> MsgDeleteDenom \<Rightarrow> 'x \<times> (go_error + MsgDeleteDenomResponse)" where
  "msgClient_DeleteDenom cc ctx req =
     Invoke_DeleteDenom cc ctx (lit ''/medasdigital.tokenfactory.Msg/DeleteDenom'') req"

section \<open>The servers of the module\<close>

text \<open>
  \<open>NewMsgServerImpl\<close> (\<open>keeper/msg_server.go\<close>) and the keeper as a query server
  (\<open>keeper/query.go\<close>), with the context being the store; and \<open>RegisterServices\<close>, on the message
  server and the query server of the configurator.
\<close>

definition NewMsgServerImpl :: "'s Keeper \<Rightarrow> 's MsgServer" where
  "NewMsgServerImpl k = \<lparr>Srv_UpdateParams = UpdateParams k, Srv_CreateDenom = CreateDenom k,
     Srv_UpdateDenom = UpdateDenom k, Srv_DeleteDenom = DeleteDenom k\<rparr>"

definition Keeper_QueryServer ::
  "(pb_error \<Rightarrow> gostring) \<Rightarrow> ('s, 'p, 'r) paginate \<Rightarrow> 's Keeper \<Rightarrow> ('s, 'p, 'r) QueryServer" where
  "Keeper_QueryServer err_text paginate k = \<lparr>Srv_Params = Query_Params k, Srv_Denom = Query_Denom k,
     Srv_DenomAll = Query_DenomAll err_text paginate k\<rparr>"

record ('s, 'p, 'r) Configurator =
  cfg_MsgServer :: "('s msg_handler, 's MsgServer) grpc_server"
  cfg_QueryServer :: "(('s, 'p, 'r) query_handler, ('s, 'p, 'r) QueryServer) grpc_server"

definition AppModule_RegisterServices ::
  "(pb_error \<Rightarrow> gostring) \<Rightarrow> ('s, 'p, 'r) paginate \<Rightarrow> 's AppModule \<Rightarrow> ('s, 'p, 'r) Configurator
    \<Rightarrow> ('s, 'p, 'r) Configurator" where
  "AppModule_RegisterServices err_text paginate am cfg =
     cfg\<lparr>cfg_MsgServer := RegisterMsgServer (cfg_MsgServer cfg) (NewMsgServerImpl (AppModule_keeper am)),
       cfg_QueryServer := RegisterQueryServer (cfg_QueryServer cfg)
         (Keeper_QueryServer err_text paginate (AppModule_keeper am))\<rparr>"

section \<open>Dispatch\<close>

text \<open>The name under which a message is sent.\<close>

fun method_of :: "tf_msg \<Rightarrow> gostring" where
  "method_of (TxUpdateParams m) = lit ''/medasdigital.tokenfactory.Msg/UpdateParams''"
| "method_of (TxCreateDenom m) = lit ''/medasdigital.tokenfactory.Msg/CreateDenom''"
| "method_of (TxUpdateDenom m) = lit ''/medasdigital.tokenfactory.Msg/UpdateDenom''"
| "method_of (TxDeleteDenom m) = lit ''/medasdigital.tokenfactory.Msg/DeleteDenom''"

text \<open>
  How the router of the SDK documents that it runs a message: it calls the handler with a decoder
  that does nothing and an interceptor that hands the message and the store to it.
\<close>

definition noop_dec :: msg_dec where
  "noop_dec = \<lparr>dec_UpdateParams = Inr, dec_CreateDenom = Inr, dec_UpdateDenom = Inr,
     dec_DeleteDenom = Inr\<rparr>"

definition hand_over :: "'s \<Rightarrow> tf_msg \<Rightarrow> ('s, tf_msg, 'r) interceptor" where
  "hand_over s m ctx req info handler = handler s m"

definition router_call ::
  "('s msg_handler, 's MsgServer) grpc_server \<Rightarrow> gostring \<Rightarrow> 's \<Rightarrow> tf_msg
    \<Rightarrow> (go_error + 's \<times> msg_response) option" where
  "router_call srvs meth s m =
     (case find_method srvs meth of
        None \<Rightarrow> None
      | Some (h, srv) \<Rightarrow> Some (h srv s noop_dec (Some (hand_over s m))))"

lemma find_msg_method:
  "find_method (RegisterMsgServer [] srv) (method_of m) = Some (case m of
      TxUpdateParams m \<Rightarrow> Msg_UpdateParams_Handler | TxCreateDenom m \<Rightarrow> Msg_CreateDenom_Handler
    | TxUpdateDenom m \<Rightarrow> Msg_UpdateDenom_Handler | TxDeleteDenom m \<Rightarrow> Msg_DeleteDenom_Handler, srv)"
  by (cases m) (simp_all add: find_method_def service_methods_def full_method_def RegisterMsgServer_def
      RegisterService_def Msg_serviceDesc_def lit_def)


text \<open>The response that belongs to a message.\<close>

fun response_for :: "tf_msg \<Rightarrow> msg_response" where
  "response_for (TxUpdateParams m) = RespUpdateParams MsgUpdateParamsResponse"
| "response_for (TxCreateDenom m) = RespCreateDenom MsgCreateDenomResponse"
| "response_for (TxUpdateDenom m) = RespUpdateDenom MsgUpdateDenomResponse"
| "response_for (TxDeleteDenom m) = RespDeleteDenom MsgDeleteDenomResponse"

text \<open>What is registered with empty servers.\<close>

definition module_services ::
  "(pb_error \<Rightarrow> gostring) \<Rightarrow> ('s, 'p, 'r) paginate \<Rightarrow> 's AppModule \<Rightarrow> ('s, 'p, 'r) Configurator" where
  "module_services err_text paginate am =
     AppModule_RegisterServices err_text paginate am \<lparr>cfg_MsgServer = [], cfg_QueryServer = []\<rparr>"

lemma module_servers_eq:
  "cfg_MsgServer (module_services err_text paginate am)
    = RegisterMsgServer [] (NewMsgServerImpl (AppModule_keeper am))"
  "cfg_QueryServer (module_services err_text paginate am)
    = RegisterQueryServer [] (Keeper_QueryServer err_text paginate (AppModule_keeper am))"
  by (simp_all add: module_services_def AppModule_RegisterServices_def)

lemmas msg_handler_defs = Msg_UpdateParams_Handler_def Msg_CreateDenom_Handler_def
  Msg_UpdateDenom_Handler_def Msg_DeleteDenom_Handler_def hand_over_def noop_dec_def
  NewMsgServerImpl_def

lemma msg_response_eq:
  "(a :: MsgUpdateParamsResponse) = MsgUpdateParamsResponse"
  "(b :: MsgCreateDenomResponse) = MsgCreateDenomResponse"
  "(c :: MsgUpdateDenomResponse) = MsgUpdateDenomResponse"
  "(d :: MsgDeleteDenomResponse) = MsgDeleteDenomResponse"
  by (cases a, simp) (cases b, simp, cases c, simp, cases d, simp)

lemma router_call_own:
  "router_call (cfg_MsgServer (module_services err_text paginate am)) (method_of m) s m
    = Some (rbind (Msg_Handler (AppModule_keeper am) s m) (\<lambda>s'. Inr (s', response_for m)))"
  unfolding router_call_def module_servers_eq find_msg_method
  by (cases m) (auto simp: msg_handler_defs rbind_def intro: msg_response_eq split: sum.splits)

lemma router_call_other:
  "method_of m \<noteq> method_of m' \<Longrightarrow> router_call (cfg_MsgServer (module_services err_text paginate am)) (method_of m) s m' = Some wrong_type"
  unfolding router_call_def module_servers_eq find_msg_method
  by (cases m; cases m') (simp_all add: msg_handler_defs)

section \<open>Properties\<close>



end
