(* ===== verification/TF_Gateway.thy ===== *)
theory TF_Gateway
  imports TF_Grpc
begin

text \<open>
  The HTTP gateway of the token factory, \<open>types/query.pb.gw.go\<close>: the request functions, the URL
  patterns and the registrations; and \<open>RegisterGRPCGatewayRoutes\<close> of \<open>module/module.go\<close>.
  \<open>PopulateQueryParameters\<close>, which fills a request from the form, is an argument.
\<close>

section \<open>Request functions\<close>

definition request_Query_Params_0 ::
  "('ctx, 'w, 'form, 'md) gateway \<Rightarrow> ('ctx, 'md, 'p, 'r) QueryClient
    \<Rightarrow> ('ctx, 'w, 'md, 'r query_response) request_fun" where
  "request_Query_Params_0 G client ctx req pathParams =
     (case Client_Params client ctx QueryParamsRequest of (md, msg) \<Rightarrow> (md, resp RespParams msg))"

definition local_request_Query_Params_0 ::
  "('ctx, 'w, 'form, 'md) gateway \<Rightarrow> ('ctx, 'p, 'r) QueryServer
    \<Rightarrow> ('ctx, 'w, 'md, 'r query_response) request_fun" where
  "local_request_Query_Params_0 G server ctx req pathParams =
     (no_metadata G, resp RespParams (Srv_Params server ctx (Some QueryParamsRequest)))"

text \<open>The parameter \<open>denom\<close> of the path, put into a new request.\<close>

definition path_denom ::
  "('ctx, 'w, 'form, 'md) gateway \<Rightarrow> path_params \<Rightarrow> go_error + QueryGetDenomRequest" where
  "path_denom G pathParams =
     (case pathParams (lit ''denom'') of
        None \<Rightarrow> Inl (Status InvalidArgument (lit ''missing parameter denom''))
      | Some val \<Rightarrow>
          (case runtime_String G val of
             Inl err \<Rightarrow> Inl (Status InvalidArgument (lit ''type mismatch, parameter: denom, error: '' @ err))
           | Inr d \<Rightarrow> Inr (QueryGetDenomRequest_zero\<lparr>QueryGetDenomRequest_Denom := d\<rparr>)))"

definition request_Query_Denom_0 ::
  "('ctx, 'w, 'form, 'md) gateway \<Rightarrow> ('ctx, 'md, 'p, 'r) QueryClient
    \<Rightarrow> ('ctx, 'w, 'md, 'r query_response) request_fun" where
  "request_Query_Denom_0 G client ctx req pathParams =
     (case path_denom G pathParams of
        Inl err \<Rightarrow> (no_metadata G, Inl err)
      | Inr protoReq \<Rightarrow>
          (case Client_Denom client ctx protoReq of (md, msg) \<Rightarrow> (md, resp RespDenom msg)))"

definition local_request_Query_Denom_0 ::
  "('ctx, 'w, 'form, 'md) gateway \<Rightarrow> ('ctx, 'p, 'r) QueryServer
    \<Rightarrow> ('ctx, 'w, 'md, 'r query_response) request_fun" where
  "local_request_Query_Denom_0 G server ctx req pathParams =
     (case path_denom G pathParams of
        Inl err \<Rightarrow> (no_metadata G, Inl err)
      | Inr protoReq \<Rightarrow> (no_metadata G, resp RespDenom (Srv_Denom server ctx (Some protoReq))))"

text \<open>
  The form of the web request, put into a new request.  \<open>populate form filter\<close> is
  \<open>PopulateQueryParameters\<close> on a new request; the filter is the empty double array.
\<close>

definition filter_Query_DenomAll_0 :: "gostring list" where
  "filter_Query_DenomAll_0 = []"

type_synonym ('form, 'p) populate = "'form \<Rightarrow> gostring list \<Rightarrow> gostring + 'p QueryAllDenomRequest"

definition form_denom_all ::
  "('ctx, 'w, 'form, 'md) gateway \<Rightarrow> ('form, 'p) populate \<Rightarrow> 'w \<Rightarrow> go_error + 'p QueryAllDenomRequest" where
  "form_denom_all G populate req =
     (case ParseForm G req of
        Inl err \<Rightarrow> Inl (Status InvalidArgument err)
      | Inr form \<Rightarrow>
          (case populate form filter_Query_DenomAll_0 of
             Inl err \<Rightarrow> Inl (Status InvalidArgument err)
           | Inr protoReq \<Rightarrow> Inr protoReq))"

definition request_Query_DenomAll_0 ::
  "('ctx, 'w, 'form, 'md) gateway \<Rightarrow> ('form, 'p) populate \<Rightarrow> ('ctx, 'md, 'p, 'r) QueryClient
    \<Rightarrow> ('ctx, 'w, 'md, 'r query_response) request_fun" where
  "request_Query_DenomAll_0 G populate client ctx req pathParams =
     (case form_denom_all G populate req of
        Inl err \<Rightarrow> (no_metadata G, Inl err)
      | Inr protoReq \<Rightarrow>
          (case Client_DenomAll client ctx protoReq of (md, msg) \<Rightarrow> (md, resp RespDenomAll msg)))"

definition local_request_Query_DenomAll_0 ::
  "('ctx, 'w, 'form, 'md) gateway \<Rightarrow> ('form, 'p) populate \<Rightarrow> ('ctx, 'p, 'r) QueryServer
    \<Rightarrow> ('ctx, 'w, 'md, 'r query_response) request_fun" where
  "local_request_Query_DenomAll_0 G populate server ctx req pathParams =
     (case form_denom_all G populate req of
        Inl err \<Rightarrow> (no_metadata G, Inl err)
      | Inr protoReq \<Rightarrow> (no_metadata G, resp RespDenomAll (Srv_DenomAll server ctx (Some protoReq))))"

section \<open>Patterns and registration\<close>

definition pattern_Query_Params_0 :: pattern where
  "pattern_Query_Params_0 = \<lparr>pattern_Version = 1, pattern_Ops = [2, 0, 2, 1, 2, 2],
     pattern_Pool = [lit ''medasdigital'', lit ''tokenfactory'', lit ''params''],
     pattern_Verb = [], AssumeColonVerbOpt = False\<rparr>"

definition pattern_Query_Denom_0 :: pattern where
  "pattern_Query_Denom_0 = \<lparr>pattern_Version = 1,
     pattern_Ops = [2, 0, 2, 1, 2, 2, 1, 0, 4, 1, 5, 2],
     pattern_Pool = [lit ''medasdigital'', lit ''tokenfactory'', lit ''denom''],
     pattern_Verb = [], AssumeColonVerbOpt = False\<rparr>"

definition pattern_Query_DenomAll_0 :: pattern where
  "pattern_Query_DenomAll_0 = \<lparr>pattern_Version = 1, pattern_Ops = [2, 0, 2, 1, 2, 2],
     pattern_Pool = [lit ''medasdigital'', lit ''tokenfactory'', lit ''denom''],
     pattern_Verb = [], AssumeColonVerbOpt = False\<rparr>"

definition RegisterQueryHandlerServer ::
  "('ctx, 'w, 'form, 'md) gateway \<Rightarrow> ('form, 'p) populate \<Rightarrow> ('w, 'md, 'r query_response) mux
    \<Rightarrow> ('ctx, 'p, 'r) QueryServer \<Rightarrow> go_error + ('w, 'md, 'r query_response) mux" where
  "RegisterQueryHandlerServer G populate mux server =
     (let mux = mux_Handle (lit ''GET'') pattern_Query_Params_0
            (handle_server G (local_request_Query_Params_0 G server)) mux;
          mux = mux_Handle (lit ''GET'') pattern_Query_Denom_0
            (handle_server G (local_request_Query_Denom_0 G server)) mux;
          mux = mux_Handle (lit ''GET'') pattern_Query_DenomAll_0
            (handle_server G (local_request_Query_DenomAll_0 G populate server)) mux
      in Inr mux)"

definition RegisterQueryHandlerClient ::
  "('ctx, 'w, 'form, 'md) gateway \<Rightarrow> ('form, 'p) populate \<Rightarrow> ('w, 'md, 'r query_response) mux
    \<Rightarrow> ('ctx, 'md, 'p, 'r) QueryClient \<Rightarrow> go_error + ('w, 'md, 'r query_response) mux" where
  "RegisterQueryHandlerClient G populate mux client =
     (let mux = mux_Handle (lit ''GET'') pattern_Query_Params_0
            (handle_client G (request_Query_Params_0 G client)) mux;
          mux = mux_Handle (lit ''GET'') pattern_Query_Denom_0
            (handle_client G (request_Query_Denom_0 G client)) mux;
          mux = mux_Handle (lit ''GET'') pattern_Query_DenomAll_0
            (handle_client G (request_Query_DenomAll_0 G populate client)) mux
      in Inr mux)"

definition RegisterQueryHandler ::
  "('ctx, 'w, 'form, 'md) gateway \<Rightarrow> ('form, 'p) populate \<Rightarrow> ('w, 'md, 'r query_response) mux
    \<Rightarrow> ('ctx, 'md, 'p, 'r) query_conn \<Rightarrow> go_error + ('w, 'md, 'r query_response) mux" where
  "RegisterQueryHandler G populate mux conn = RegisterQueryHandlerClient G populate mux (NewQueryClient conn)"

text \<open>
  The registration with a connection of its own: \<open>dial\<close> gives the connection for an endpoint.  An
  error of the registration closes it at once; otherwise it is closed when the context is done.
\<close>

definition RegisterQueryHandlerFromEndpoint ::
  "('ctx, 'w, 'form, 'md) gateway \<Rightarrow> ('form, 'p) populate
    \<Rightarrow> (gostring \<Rightarrow> go_error + ('ctx, 'md, 'p, 'r) query_conn)
    \<Rightarrow> ('w, 'md, 'r query_response) mux \<Rightarrow> gostring
    \<Rightarrow> (go_error + ('w, 'md, 'r query_response) mux) \<times> conn_fate option" where
  "RegisterQueryHandlerFromEndpoint G populate dial mux endpoint =
     (case dial endpoint of
        Inl err \<Rightarrow> (Inl err, None)
      | Inr conn \<Rightarrow>
          (case RegisterQueryHandler G populate mux conn of
             Inl err \<Rightarrow> (Inl err, Some ClosedAtOnce)
           | Inr mux' \<Rightarrow> (Inr mux', Some ClosedWhenDone)))"

definition AppModuleBasic_RegisterGRPCGatewayRoutes ::
  "('ctx, 'w, 'form, 'md) gateway \<Rightarrow> ('form, 'p) populate \<Rightarrow> ('ctx, 'md, 'p, 'r) query_conn
    \<Rightarrow> ('w, 'md, 'r query_response) mux \<Rightarrow> go_error + ('w, 'md, 'r query_response) mux" where
  "AppModuleBasic_RegisterGRPCGatewayRoutes G populate clientCtx mux =
     (case RegisterQueryHandlerClient G populate mux (NewQueryClient clientCtx) of
        Inl err \<Rightarrow> Inl (Panicked err)
      | Inr mux' \<Rightarrow> Inr mux')"

section \<open>Routes\<close>

text \<open>The names of the path and its first two components.\<close>

abbreviation tf_path :: "gostring list \<Rightarrow> gostring list" where
  "tf_path cs \<equiv> lit ''medasdigital'' # lit ''tokenfactory'' # cs"

lemma lit_params_denom [simp]: "lit ''params'' \<noteq> lit ''denom''" "lit ''denom'' \<noteq> lit ''params''"
  by (simp_all add: lit_def)

lemma tf_pattern_match:
  "pattern_match pattern_Query_Params_0 (tf_path cs) = (if cs = [lit ''params''] then Some Map.empty else None)"
  "pattern_match pattern_Query_DenomAll_0 (tf_path cs) = (if cs = [lit ''denom''] then Some Map.empty else None)"
  "pattern_match pattern_Query_Denom_0 (tf_path cs) =
     (case cs of [a, d] \<Rightarrow> if a = lit ''denom'' then Some [lit ''denom'' \<mapsto> d] else None | _ \<Rightarrow> None)"
  by (auto simp: pattern_match_def pattern_Query_Params_0_def pattern_Query_DenomAll_0_def
      pattern_Query_Denom_0_def split: list.splits)

text \<open>
  The registrations on a multiplexer that has no route for the paths of the module yet, and the
  route of each path.
\<close>

definition no_tf_routes :: "('w, 'md, 'r) mux \<Rightarrow> bool" where
  "no_tf_routes mux \<longleftrightarrow> (\<forall>cs. routes_for mux (lit ''GET'') (tf_path cs) = [])"

lemma no_tf_routes_Nil [simp]: "no_tf_routes []"
  by (simp add: no_tf_routes_def routes_for_def)

lemma client_routes:
  assumes "RegisterQueryHandlerClient G populate mux0 client = Inr mux" and "no_tf_routes mux0"
  shows "routes_for mux (lit ''GET'') (tf_path [lit ''params'']) = [(lit ''GET'', pattern_Query_Params_0,
      handle_client G (request_Query_Params_0 G client))]"
    and "routes_for mux (lit ''GET'') (tf_path [lit ''denom'', d]) = [(lit ''GET'', pattern_Query_Denom_0,
      handle_client G (request_Query_Denom_0 G client))]"
    and "routes_for mux (lit ''GET'') (tf_path [lit ''denom'']) = [(lit ''GET'', pattern_Query_DenomAll_0,
      handle_client G (request_Query_DenomAll_0 G populate client))]"
  using assms by (auto simp: RegisterQueryHandlerClient_def mux_Handle_def Let_def routes_for_def
      tf_pattern_match no_tf_routes_def)

lemma server_routes:
  assumes "RegisterQueryHandlerServer G populate mux0 server = Inr mux" and "no_tf_routes mux0"
  shows "routes_for mux (lit ''GET'') (tf_path [lit ''params'']) = [(lit ''GET'', pattern_Query_Params_0,
      handle_server G (local_request_Query_Params_0 G server))]"
    and "routes_for mux (lit ''GET'') (tf_path [lit ''denom'', d]) = [(lit ''GET'', pattern_Query_Denom_0,
      handle_server G (local_request_Query_Denom_0 G server))]"
    and "routes_for mux (lit ''GET'') (tf_path [lit ''denom'']) = [(lit ''GET'', pattern_Query_DenomAll_0,
      handle_server G (local_request_Query_DenomAll_0 G populate server))]"
  using assms by (auto simp: RegisterQueryHandlerServer_def mux_Handle_def Let_def routes_for_def
      tf_pattern_match no_tf_routes_def)

text \<open>The answer of a reply, without the metadata.\<close>

fun answer :: "('md, 'r) reply \<Rightarrow> go_error + 'r" where
  "answer (HTTPError md err) = Inl err"
| "answer (ForwardResponseMessage md r) = Inr r"

lemma answer_client:
  "answer (handle_client G request req ps) =
     rbind (AnnotateContext G (gw_Context G req) req) (\<lambda>ctx. snd (request ctx req ps))"
  by (cases "AnnotateContext G (gw_Context G req) req")
    (auto simp: handle_client_def split: prod.split sum.split)

lemma answer_server:
  "answer (handle_server G request req ps) =
     rbind (AnnotateIncomingContext G (gw_Context G req) req) (\<lambda>ctx. snd (request ctx req ps))"
  by (cases "AnnotateIncomingContext G (gw_Context G req) req")
    (auto simp: handle_server_def Let_def split: prod.split sum.split)

lemma path_denom_param:
  "gateway_ok G \<Longrightarrow> path_denom G [lit ''denom'' \<mapsto> d] = Inr \<lparr>QueryGetDenomRequest_Denom = d\<rparr>"
  by (simp add: path_denom_def gateway_ok_def QueryGetDenomRequest_zero_def)

text \<open>What a multiplexer answers for the paths of the module, from their routes.\<close>

lemma mux_answer:
  assumes "mux_serves serve" and "routes_for mux (lit ''GET'') path = [(lit ''GET'', p, h)]"
  shows "map_option answer (serve mux (lit ''GET'') path w)
    = Some (answer (h w (the (pattern_match p path))))"
  using assms unfolding mux_serves_def by (metis option.map(2))

lemma client_mux_answers:
  assumes "gateway_ok G" and "mux_serves serve" and "no_tf_routes mux0"
    and "RegisterQueryHandlerClient G populate mux0 client = Inr mux"
    and "AnnotateContext G (gw_Context G w) w = Inr ctx"
  shows "map_option answer (serve mux (lit ''GET'') (tf_path [lit ''params'']) w)
      = Some (resp RespParams (snd (Client_Params client ctx QueryParamsRequest)))"
    and "map_option answer (serve mux (lit ''GET'') (tf_path [lit ''denom'', d]) w)
      = Some (resp RespDenom (snd (Client_Denom client ctx \<lparr>QueryGetDenomRequest_Denom = d\<rparr>)))"
    and "map_option answer (serve mux (lit ''GET'') (tf_path [lit ''denom'']) w)
      = Some (rbind (form_denom_all G populate w) (\<lambda>q.
          resp RespDenomAll (snd (Client_DenomAll client ctx q))))"
  unfolding mux_answer [OF assms(2) client_routes(1) [OF assms(4,3)]]
    mux_answer [OF assms(2) client_routes(2) [OF assms(4,3)]]
    mux_answer [OF assms(2) client_routes(3) [OF assms(4,3)]]
  by (auto simp: answer_client assms(5) tf_pattern_match path_denom_param [OF assms(1)]
      request_Query_Params_0_def request_Query_Denom_0_def request_Query_DenomAll_0_def rbind_def
      split: prod.split sum.split)

lemma server_mux_answers:
  assumes "gateway_ok G" and "mux_serves serve" and "no_tf_routes mux0"
    and "RegisterQueryHandlerServer G populate mux0 server = Inr mux"
    and "AnnotateIncomingContext G (gw_Context G w) w = Inr ctx"
  shows "map_option answer (serve mux (lit ''GET'') (tf_path [lit ''params'']) w)
      = Some (resp RespParams (Srv_Params server ctx (Some QueryParamsRequest)))"
    and "map_option answer (serve mux (lit ''GET'') (tf_path [lit ''denom'', d]) w)
      = Some (resp RespDenom (Srv_Denom server ctx (Some \<lparr>QueryGetDenomRequest_Denom = d\<rparr>)))"
    and "map_option answer (serve mux (lit ''GET'') (tf_path [lit ''denom'']) w)
      = Some (rbind (form_denom_all G populate w) (\<lambda>q.
          resp RespDenomAll (Srv_DenomAll server ctx (Some q))))"
  unfolding mux_answer [OF assms(2) server_routes(1) [OF assms(4,3)]]
    mux_answer [OF assms(2) server_routes(2) [OF assms(4,3)]]
    mux_answer [OF assms(2) server_routes(3) [OF assms(4,3)]]
  by (auto simp: answer_server assms(5) tf_pattern_match path_denom_param [OF assms(1)]
      local_request_Query_Params_0_def local_request_Query_Denom_0_def
      local_request_Query_DenomAll_0_def rbind_def split: prod.split sum.split)

section \<open>Connections\<close>

text \<open>
  What gRPC documents of \<open>Invoke\<close>: it runs the handler that is registered on the server for the
  method, on a decoder that yields the request, and passes on the response, or the error when it
  is a status.  \<open>store_of\<close> is the store the server works on for a context.
\<close>

fun dec_of :: "'p query_request \<Rightarrow> 'p query_dec" where
  "dec_of q = \<lparr>dec_Params = (\<lambda>z. case q of ReqParams r \<Rightarrow> Inr r | _ \<Rightarrow> wrong_type),
     dec_Denom = (\<lambda>z. case q of ReqDenom r \<Rightarrow> Inr r | _ \<Rightarrow> wrong_type),
     dec_DenomAll = (\<lambda>z. case q of ReqDenomAll r \<Rightarrow> Inr r | _ \<Rightarrow> wrong_type)\<rparr>"

fun is_status :: "go_error \<Rightarrow> bool" where
  "is_status (Status c m) = True"
| "is_status e = False"

definition passes_on ::
  "(('s, 'p, 'r) query_handler, ('s, 'p, 'r) QueryServer) grpc_server \<Rightarrow> gostring \<Rightarrow> 's
    \<Rightarrow> 'p query_request \<Rightarrow> go_error + 'r query_response \<Rightarrow> bool" where
  "passes_on srvs m s q out \<longleftrightarrow>
     (\<forall>h srv. find_method srvs m = Some (h, srv) \<longrightarrow>
        (case h srv s (dec_of q) None of
           Inl e \<Rightarrow> is_status e \<longrightarrow> out = Inl e
         | Inr a \<Rightarrow> out = Inr a))"

definition conn_serves ::
  "('ctx, 'md, 'p, 'r) query_conn
    \<Rightarrow> (('s, 'p, 'r) query_handler, ('s, 'p, 'r) QueryServer) grpc_server \<Rightarrow> ('ctx \<Rightarrow> 's) \<Rightarrow> bool" where
  "conn_serves cc srvs store_of \<longleftrightarrow>
     (\<forall>ctx m q1 q2 q3.
        passes_on srvs m (store_of ctx) (ReqParams q1) (resp RespParams (snd (Invoke_Params cc ctx m q1)))
      \<and> passes_on srvs m (store_of ctx) (ReqDenom q2) (resp RespDenom (snd (Invoke_Denom cc ctx m q2)))
      \<and> passes_on srvs m (store_of ctx) (ReqDenomAll q3)
          (resp RespDenomAll (snd (Invoke_DenomAll cc ctx m q3))))"

lemma find_query_method:
  "find_method (RegisterQueryServer [] srv) (lit ''/medasdigital.tokenfactory.Query/Params'')
    = Some (Query_Params_Handler, srv)"
  "find_method (RegisterQueryServer [] srv) (lit ''/medasdigital.tokenfactory.Query/Denom'')
    = Some (Query_Denom_Handler, srv)"
  "find_method (RegisterQueryServer [] srv) (lit ''/medasdigital.tokenfactory.Query/DenomAll'')
    = Some (Query_DenomAll_Handler, srv)"
  by (simp_all add: find_method_def service_methods_def full_method_def RegisterQueryServer_def
      RegisterService_def Query_serviceDesc_def lit_def)

text \<open>The client of a connection to a server gives the answers of the server.\<close>

lemma passes_onD:
  assumes "passes_on srvs m s q (resp C out)" and "find_method srvs m = Some (h, srv)"
    and "h srv s (dec_of q) None = resp C r" and "inj C" and "\<forall>e. r = Inl e \<longrightarrow> is_status e"
  shows "out = r"
  using assms unfolding passes_on_def by (cases r; cases out) (auto dest: injD)

lemma client_answers:
  assumes "conn_serves cc (RegisterQueryServer [] srv) store_of"
  shows "\<forall>e. Srv_Params srv (store_of ctx) (Some q1) = Inl e \<longrightarrow> is_status e \<Longrightarrow>
      snd (Client_Params (NewQueryClient cc) ctx q1) = Srv_Params srv (store_of ctx) (Some q1)"
    and "\<forall>e. Srv_Denom srv (store_of ctx) (Some q2) = Inl e \<longrightarrow> is_status e \<Longrightarrow>
      snd (Client_Denom (NewQueryClient cc) ctx q2) = Srv_Denom srv (store_of ctx) (Some q2)"
    and "\<forall>e. Srv_DenomAll srv (store_of ctx) (Some q3) = Inl e \<longrightarrow> is_status e \<Longrightarrow>
      snd (Client_DenomAll (NewQueryClient cc) ctx q3) = Srv_DenomAll srv (store_of ctx) (Some q3)"
proof -
  note on = assms [unfolded conn_serves_def, THEN spec, THEN spec, THEN spec, THEN spec, THEN spec]
  show "snd (Client_Params (NewQueryClient cc) ctx q1) = Srv_Params srv (store_of ctx) (Some q1)"
    if "\<forall>e. Srv_Params srv (store_of ctx) (Some q1) = Inl e \<longrightarrow> is_status e"
    using passes_onD [OF conjunct1 [OF on] find_query_method(1) _ _ that]
    by (simp add: NewQueryClient_def queryClient_Params_def Query_Params_Handler_def inj_def)
  show "snd (Client_Denom (NewQueryClient cc) ctx q2) = Srv_Denom srv (store_of ctx) (Some q2)"
    if "\<forall>e. Srv_Denom srv (store_of ctx) (Some q2) = Inl e \<longrightarrow> is_status e"
    using passes_onD [OF conjunct1 [OF conjunct2 [OF on]] find_query_method(2) _ _ that]
    by (simp add: NewQueryClient_def queryClient_Denom_def Query_Denom_Handler_def inj_def)
  show "snd (Client_DenomAll (NewQueryClient cc) ctx q3) = Srv_DenomAll srv (store_of ctx) (Some q3)"
    if "\<forall>e. Srv_DenomAll srv (store_of ctx) (Some q3) = Inl e \<longrightarrow> is_status e"
    using passes_onD [OF conjunct2 [OF conjunct2 [OF on]] find_query_method(3) _ _ that]
    by (simp add: NewQueryClient_def queryClient_DenomAll_def Query_DenomAll_Handler_def inj_def)
qed


text \<open>On a well-formed store the keeper answers with responses and statuses only.\<close>

lemma keeper_statuses:
  assumes "tf_keeper k" and "store_wf k s" and "paginates (Keeper_storeService k) paginate page"
  shows "\<forall>e. Query_Params k s (Some q1) = Inl e \<longrightarrow> is_status e"
    and "\<forall>e. Query_Denom k s (Some q2) = Inl e \<longrightarrow> is_status e"
    and "\<forall>e. Query_DenomAll err_text paginate k s (Some q3) = Inl e \<longrightarrow> is_status e"
proof -
  show "\<forall>e. Query_Params k s (Some q1) = Inl e \<longrightarrow> is_status e"
    using tf_keeper.get_params_wf [OF assms(1,2)] by (auto simp: Query_Params_def)
  show "\<forall>e. Query_Denom k s (Some q2) = Inl e \<longrightarrow> is_status e"
    by (auto simp: tf_keeper.query_denom [OF assms(1,2)] split: option.splits)
  show "\<forall>e. Query_DenomAll err_text paginate k s (Some q3) = Inl e \<longrightarrow> is_status e"
    using tf_keeper.query_denom_all [OF assms, of err_text q3] by (auto split: sum.splits)
qed


section \<open>Properties\<close>

text \<open>
  C23: the HTTP gateway of a node, from the URL to the store.  The module registers its routes with
  any multiplexer that has none for its paths, and over a connection to the server it registers
  itself: \<open>GET /medasdigital/tokenfactory/denom/d\<close> gives the denom stored as \<open>d\<close>, with the errors
  of the query otherwise; \<open>\<dots>/params\<close> gives the parameters; \<open>\<dots>/denom\<close> gives the page of denoms the
  form asks for, or \<open>InvalidArgument\<close> for a bad form; and when the context cannot be annotated,
  that error.
\<close>

theorem gateway_answers:
  assumes "gateway_ok G" and "mux_serves serve" and "no_tf_routes mux0"
    and "tf_keeper (AppModule_keeper am)" and "store_wf (AppModule_keeper am) (store_of ctx)"
    and "paginates (Keeper_storeService (AppModule_keeper am)) paginate page"
    and "conn_serves cc (cfg_QueryServer (module_services err_text paginate am)) store_of"
    and "AnnotateContext G (gw_Context G w) w = Inr ctx"
  shows "\<exists>mux p. AppModuleBasic_RegisterGRPCGatewayRoutes G populate cc mux0 = Inr mux
    \<and> GetParams (AppModule_keeper am) (store_of ctx) = Inr p
    \<and> map_option answer (serve mux (lit ''GET'') (tf_path [lit ''params'']) w)
      = Some (Inr (RespParams \<lparr>QueryParamsResponse_Params = p\<rparr>))
    \<and> (\<forall>d. map_option answer (serve mux (lit ''GET'') (tf_path [lit ''denom'', d]) w)
      = Some (case denoms_of (AppModule_keeper am) (store_of ctx) d of
          None \<Rightarrow> Inl (Status NotFound (lit ''not found''))
        | Some x \<Rightarrow> Inr (RespDenom \<lparr>QueryGetDenomResponse_Denom = x\<rparr>)))
    \<and> map_option answer (serve mux (lit ''GET'') (tf_path [lit ''denom'']) w)
      = Some (rbind (form_denom_all G populate w) (\<lambda>q. resp RespDenomAll
          (Query_DenomAll err_text paginate (AppModule_keeper am) (store_of ctx) (Some q))))"
proof -
  let ?k = "AppModule_keeper am" and ?s = "store_of ctx"
  have on: "conn_serves cc (RegisterQueryServer [] (Keeper_QueryServer err_text paginate ?k)) store_of"
    using assms(7) by (simp add: module_servers_eq)
  obtain mux where mux: "RegisterQueryHandlerClient G populate mux0 (NewQueryClient cc) = Inr mux"
    by (simp add: RegisterQueryHandlerClient_def)
  obtain p where p: "GetParams ?k ?s = Inr p"
    using tf_keeper.get_params_wf [OF assms(4,5)] by blast
  note st = keeper_statuses [OF assms(4-6)]
  note a = client_mux_answers [OF assms(1-3) mux assms(8)]
  have c: "snd (Client_Params (NewQueryClient cc) ctx q1) = Query_Params ?k ?s (Some q1)"
    "snd (Client_Denom (NewQueryClient cc) ctx q2) = Query_Denom ?k ?s (Some q2)"
    "snd (Client_DenomAll (NewQueryClient cc) ctx q3) = Query_DenomAll err_text paginate ?k ?s (Some q3)"
    for q1 q2 q3
    using client_answers(1) [OF on, of ctx q1] client_answers(2) [OF on, of ctx q2]
      client_answers(3) [OF on, of ctx q3] st(1) [of q1] st(2) [of q2] st(3) [of err_text q3]
    by (simp_all add: Keeper_QueryServer_def)
  show ?thesis
  proof (intro exI conjI allI)
    show "AppModuleBasic_RegisterGRPCGatewayRoutes G populate cc mux0 = Inr mux"
      by (simp add: AppModuleBasic_RegisterGRPCGatewayRoutes_def mux)
    show "map_option answer (serve mux (lit ''GET'') (tf_path [lit ''params'']) w)
        = Some (Inr (RespParams \<lparr>QueryParamsResponse_Params = p\<rparr>))"
      unfolding a(1) c by (simp add: Query_Params_def p)
    show "map_option answer (serve mux (lit ''GET'') (tf_path [lit ''denom'', d]) w)
        = Some (case denoms_of ?k ?s d of None \<Rightarrow> Inl (Status NotFound (lit ''not found''))
          | Some x \<Rightarrow> Inr (RespDenom \<lparr>QueryGetDenomResponse_Denom = x\<rparr>))" for d
      unfolding a(2) c by (simp add: tf_keeper.query_denom [OF assms(4,5)] split: option.split)
    show "map_option answer (serve mux (lit ''GET'') (tf_path [lit ''denom'']) w)
        = Some (rbind (form_denom_all G populate w) (\<lambda>q. resp RespDenomAll
            (Query_DenomAll err_text paginate ?k ?s (Some q))))"
      unfolding a(3) c ..
  qed (fact p)
qed

text \<open>
  Samples: a gateway whose requests are the text of their form, metadata are not kept, and the
  only context is the state of the store.
\<close>

definition sample_gateway :: "'s \<Rightarrow> ('s, gostring, gostring, unit) gateway" where
  "sample_gateway s = \<lparr>gw_Context = (\<lambda>w. s), AnnotateContext = (\<lambda>ctx w. Inr ctx),
     AnnotateIncomingContext = (\<lambda>ctx w. Inr ctx), runtime_String = Inr, ParseForm = Inr,
     metadata_zero = (), metadata_Join = (\<lambda>a b. ()), gw_stream = (\<lambda>ctx. \<lparr>HeaderMD = (), TrailerMD = ()\<rparr>)\<rparr>"

text \<open>A connection that calls the server of the method.\<close>

definition direct_conn :: "('s, 'p, 'r) QueryServer \<Rightarrow> ('s, unit, 'p, 'r) query_conn" where
  "direct_conn srv =
     (let md = \<lparr>HeaderMD = (), TrailerMD = ()\<rparr> in
      \<lparr>Invoke_Params = (\<lambda>ctx m q. (md, if m = lit ''/medasdigital.tokenfactory.Query/Params''
          then Srv_Params srv ctx (Some q) else wrong_type)),
       Invoke_Denom = (\<lambda>ctx m q. (md, if m = lit ''/medasdigital.tokenfactory.Query/Denom''
          then Srv_Denom srv ctx (Some q) else wrong_type)),
       Invoke_DenomAll = (\<lambda>ctx m q. (md, if m = lit ''/medasdigital.tokenfactory.Query/DenomAll''
          then Srv_DenomAll srv ctx (Some q) else wrong_type))\<rparr>)"


lemma find_query_method_cases:
  assumes "find_method (RegisterQueryServer [] srv) m = Some (h, srv')"
  shows "srv' = srv \<and> (m = lit ''/medasdigital.tokenfactory.Query/Params'' \<and> h = Query_Params_Handler
    \<or> m = lit ''/medasdigital.tokenfactory.Query/Denom'' \<and> h = Query_Denom_Handler
    \<or> m = lit ''/medasdigital.tokenfactory.Query/DenomAll'' \<and> h = Query_DenomAll_Handler)"
  using assms
  by (auto simp: find_method_def service_methods_def full_method_def RegisterQueryServer_def
      RegisterService_def Query_serviceDesc_def lit_def split: if_splits)

lemma query_methods_differ:
  "lit ''/medasdigital.tokenfactory.Query/Params'' \<noteq> lit ''/medasdigital.tokenfactory.Query/Denom''"
  "lit ''/medasdigital.tokenfactory.Query/Params'' \<noteq> lit ''/medasdigital.tokenfactory.Query/DenomAll''"
  "lit ''/medasdigital.tokenfactory.Query/Denom'' \<noteq> lit ''/medasdigital.tokenfactory.Query/DenomAll''"
  by (simp_all add: lit_def)


lemma direct_conn_serves: "conn_serves (direct_conn srv) (RegisterQueryServer [] srv) (\<lambda>s. s)"
  unfolding conn_serves_def
proof (intro allI conjI)
  note simps = passes_on_def direct_conn_def Let_def find_query_method Query_Params_Handler_def
    Query_Denom_Handler_def Query_DenomAll_Handler_def query_methods_differ
    query_methods_differ [symmetric] wrong_type_def
  fix ctx m q1 q2 q3
  show "passes_on (RegisterQueryServer [] srv) m ctx (ReqParams q1)
      (resp RespParams (snd (Invoke_Params (direct_conn srv) ctx m q1)))"
  proof (cases "m = lit ''/medasdigital.tokenfactory.Query/Params''")
    case True
    then show ?thesis by (simp add: simps split: sum.split)
  next
    case False
    then show ?thesis
      by (auto simp: passes_on_def Query_Denom_Handler_def Query_DenomAll_Handler_def wrong_type_def
          dest!: find_query_method_cases)
  qed
  show "passes_on (RegisterQueryServer [] srv) m ctx (ReqDenom q2)
      (resp RespDenom (snd (Invoke_Denom (direct_conn srv) ctx m q2)))"
  proof (cases "m = lit ''/medasdigital.tokenfactory.Query/Denom''")
    case True
    then show ?thesis by (simp add: simps split: sum.split)
  next
    case False
    then show ?thesis
      by (auto simp: passes_on_def Query_Params_Handler_def Query_DenomAll_Handler_def wrong_type_def
          dest!: find_query_method_cases)
  qed
  show "passes_on (RegisterQueryServer [] srv) m ctx (ReqDenomAll q3)
      (resp RespDenomAll (snd (Invoke_DenomAll (direct_conn srv) ctx m q3)))"
  proof (cases "m = lit ''/medasdigital.tokenfactory.Query/DenomAll''")
    case True
    then show ?thesis by (simp add: simps split: sum.split)
  next
    case False
    then show ?thesis
      by (auto simp: passes_on_def Query_Params_Handler_def Query_Denom_Handler_def wrong_type_def
          dest!: find_query_method_cases)
  qed
qed

theorem gateway_answers_witness:
  "\<exists>mux. AppModuleBasic_RegisterGRPCGatewayRoutes (sample_gateway sample_store)
      (\<lambda>form flt. Inr \<lparr>QueryAllDenomRequest_Pagination = None\<rparr>)
      (direct_conn (Keeper_QueryServer (\<lambda>e. []) limit_paginate gov_keeper)) [] = Inr mux
    \<and> map_option answer (first_route mux (lit ''GET'') (tf_path [lit ''denom'', lit ''umedas'']) [])
      = Some (Inr (RespDenom \<lparr>QueryGetDenomResponse_Denom = sample_denom\<rparr>))
    \<and> map_option answer (first_route mux (lit ''GET'') (tf_path [lit ''denom'', lit ''x'']) [])
      = Some (Inl (Status NotFound (lit ''not found'')))"
proof -
  let ?am = "NewAppModule mem_codec gov_keeper"
  have ok: "gateway_ok (sample_gateway sample_store)"
    by (simp add: gateway_ok_def sample_gateway_def)
  have K: "paginates (Keeper_storeService (AppModule_keeper ?am)) limit_paginate limit_page"
    using limit_paginates by (simp add: gov_keeper_def mem_keeper_def)
  have k: "tf_keeper (AppModule_keeper ?am)" "store_wf (AppModule_keeper ?am) sample_store"
    by (simp_all add: gov_keeper_contract sample_store(2))
  have on: "conn_serves (direct_conn (Keeper_QueryServer (\<lambda>e. []) limit_paginate gov_keeper))
      (cfg_QueryServer (module_services (\<lambda>e. []) limit_paginate ?am)) (\<lambda>s. s)"
    by (simp add: module_servers_eq direct_conn_serves)
  have ctx: "AnnotateContext (sample_gateway sample_store) (gw_Context (sample_gateway sample_store) []) []
      = Inr sample_store"
    by (simp add: sample_gateway_def)
  have x: "lit ''x'' \<noteq> lit ''umedas''" by (simp add: lit_def)
  have d: "denoms_of (AppModule_keeper ?am) sample_store = [lit ''umedas'' \<mapsto> sample_denom]"
    by (simp add: sample_store(3))
  obtain mux where
    "AppModuleBasic_RegisterGRPCGatewayRoutes (sample_gateway sample_store)
      (\<lambda>form flt. Inr \<lparr>QueryAllDenomRequest_Pagination = None\<rparr>)
      (direct_conn (Keeper_QueryServer (\<lambda>e. []) limit_paginate gov_keeper)) [] = Inr mux"
    and "\<And>n. map_option answer (first_route mux (lit ''GET'') (tf_path [lit ''denom'', n]) [])
      = Some (case denoms_of (AppModule_keeper ?am) sample_store n of
          None \<Rightarrow> Inl (Status NotFound (lit ''not found''))
        | Some x \<Rightarrow> Inr (RespDenom \<lparr>QueryGetDenomResponse_Denom = x\<rparr>))"
    using gateway_answers [where serve = first_route and store_of = "\<lambda>s. s",
        OF ok first_route_serves no_tf_routes_Nil k K on ctx,
        of "\<lambda>form flt. Inr \<lparr>QueryAllDenomRequest_Pagination = None\<rparr>"] by blast
  then show ?thesis
    by (intro exI [of _ mux]) (simp only: d x fun_upd_apply simp_thms if_False if_True option.case)
qed

text \<open>
  The two ways to register the gateway, calling the server directly and calling it over a
  connection, give the same answers for every path of the module, errors included, when they
  annotate the context alike.
\<close>

theorem gateway_registrations_agree:
  assumes "gateway_ok G" and "mux_serves serve" and "no_tf_routes mux0"
    and "tf_keeper k" and "store_wf k s" and "paginates (Keeper_storeService k) paginate page"
    and "conn_serves cc (RegisterQueryServer [] (Keeper_QueryServer err_text paginate k)) (\<lambda>ctx. ctx)"
    and "AnnotateContext G (gw_Context G w) w = Inr s"
    and "AnnotateIncomingContext G (gw_Context G w) w = Inr s"
    and "cs \<in> {[lit ''params''], [lit ''denom''], [lit ''denom'', d]}"
  shows "\<exists>mux1 mux2. RegisterQueryHandler G populate mux0 cc = Inr mux1
    \<and> RegisterQueryHandlerServer G populate mux0 (Keeper_QueryServer err_text paginate k) = Inr mux2
    \<and> map_option answer (serve mux1 (lit ''GET'') (tf_path cs) w)
      = map_option answer (serve mux2 (lit ''GET'') (tf_path cs) w)"
proof -
  let ?srv = "Keeper_QueryServer err_text paginate k"
  obtain mux1 where 1: "RegisterQueryHandlerClient G populate mux0 (NewQueryClient cc) = Inr mux1"
    by (simp add: RegisterQueryHandlerClient_def)
  obtain mux2 where 2: "RegisterQueryHandlerServer G populate mux0 ?srv = Inr mux2"
    by (simp add: RegisterQueryHandlerServer_def)
  note st = keeper_statuses [OF assms(4-6)]
  have c: "snd (Client_Params (NewQueryClient cc) s q1) = Srv_Params ?srv s (Some q1)"
    "snd (Client_Denom (NewQueryClient cc) s q2) = Srv_Denom ?srv s (Some q2)"
    "snd (Client_DenomAll (NewQueryClient cc) s q3) = Srv_DenomAll ?srv s (Some q3)" for q1 q2 q3
    using client_answers(1) [OF assms(7), of s q1] client_answers(2) [OF assms(7), of s q2]
      client_answers(3) [OF assms(7), of s q3] st(1) [of q1] st(2) [of q2] st(3) [of err_text q3]
    by (simp_all add: Keeper_QueryServer_def)
  note a = client_mux_answers [OF assms(1-3) 1 assms(8), unfolded c]
  note b = server_mux_answers [OF assms(1-3) 2 assms(9)]
  have "map_option answer (serve mux1 (lit ''GET'') (tf_path cs) w)
      = map_option answer (serve mux2 (lit ''GET'') (tf_path cs) w)"
    using assms(10) a b by (elim insertE emptyE) (simp_all only:)
  with 1 2 show ?thesis
    by (simp add: RegisterQueryHandler_def)
qed


theorem gateway_registrations_agree_witness:
  "\<exists>mux1 mux2. RegisterQueryHandler (sample_gateway sample_store)
      (\<lambda>form flt. Inr \<lparr>QueryAllDenomRequest_Pagination = None\<rparr>) []
      (direct_conn (Keeper_QueryServer (\<lambda>e. []) limit_paginate gov_keeper)) = Inr mux1
    \<and> RegisterQueryHandlerServer (sample_gateway sample_store)
      (\<lambda>form flt. Inr \<lparr>QueryAllDenomRequest_Pagination = None\<rparr>) []
      (Keeper_QueryServer (\<lambda>e. []) limit_paginate gov_keeper) = Inr mux2
    \<and> map_option answer (first_route mux1 (lit ''GET'') (tf_path [lit ''denom'']) [])
      = map_option answer (first_route mux2 (lit ''GET'') (tf_path [lit ''denom'']) [])"
proof -
  have ok: "gateway_ok (sample_gateway sample_store)"
    by (simp add: gateway_ok_def sample_gateway_def)
  have K: "paginates (Keeper_storeService gov_keeper) limit_paginate limit_page"
    using limit_paginates by (simp add: gov_keeper_def mem_keeper_def)
  have ctx: "AnnotateContext (sample_gateway sample_store) (gw_Context (sample_gateway sample_store) []) []
      = Inr sample_store"
    "AnnotateIncomingContext (sample_gateway sample_store) (gw_Context (sample_gateway sample_store) []) []
      = Inr sample_store"
    by (simp_all add: sample_gateway_def)
  show ?thesis
    by (rule gateway_registrations_agree [OF ok first_route_serves no_tf_routes_Nil gov_keeper_contract
        sample_store(2) K direct_conn_serves ctx]) simp
qed

end
