(* ===== verification/Medas_Gateway.thy ===== *)
theory Medas_Gateway
  imports Medas_App_Module TF_Gateway
begin

text \<open>
  The gRPC stubs and the HTTP gateway of \<open>x/medasdigital\<close> (\<open>types/query.pb.go\<close>, \<open>types/tx.pb.go\<close>,
  \<open>types/query.pb.gw.go\<close>), what its module registers (\<open>module/module.go\<close>, \<open>types/codec.go\<close>), and
  the gateway routes of both modules on one multiplexer.
\<close>

section \<open>Stubs\<close>

record 'ctx MedasQueryServer =
  Medas_Srv_Params :: "'ctx \<Rightarrow> MedasQueryParamsRequest option \<Rightarrow> go_error + MedasQueryParamsResponse"

type_synonym 'ctx medas_query_handler =
  "('ctx MedasQueryServer, 'ctx, MedasQueryParamsRequest \<Rightarrow> go_error + MedasQueryParamsRequest,
    MedasQueryParamsRequest, MedasQueryParamsResponse) method_handler"

definition Medas_Query_Params_Handler :: "'ctx medas_query_handler" where
  "Medas_Query_Params_Handler srv ctx dec interceptor =
     rbind (dec MedasQueryParamsRequest) (\<lambda>req.
       case interceptor of
         None \<Rightarrow> Medas_Srv_Params srv ctx (Some req)
       | Some i \<Rightarrow> i ctx req (lit ''/medasdigital.medasdigital.Query/Params'')
           (\<lambda>ctx r. Medas_Srv_Params srv ctx (Some r)))"

definition Medas_Query_serviceDesc :: "'ctx medas_query_handler ServiceDesc" where
  "Medas_Query_serviceDesc = \<lparr>ServiceName = lit ''medasdigital.medasdigital.Query'',
     Methods = [(lit ''Params'', Medas_Query_Params_Handler)],
     ServiceMetadata = lit ''medasdigital/medasdigital/query.proto''\<rparr>"

definition Medas_RegisterQueryServer ::
  "('ctx medas_query_handler, 'ctx MedasQueryServer) grpc_server \<Rightarrow> 'ctx MedasQueryServer
    \<Rightarrow> ('ctx medas_query_handler, 'ctx MedasQueryServer) grpc_server" where
  "Medas_RegisterQueryServer s srv = RegisterService Medas_Query_serviceDesc srv s"

text \<open>The client, given by \<open>Invoke\<close> of its connection.\<close>

type_synonym ('ctx, 'md) medas_conn =
  "'ctx \<Rightarrow> gostring \<Rightarrow> MedasQueryParamsRequest \<Rightarrow> 'md ServerMetadata \<times> (go_error + MedasQueryParamsResponse)"

record ('ctx, 'md) MedasQueryClient =
  Medas_Client_Params :: "'ctx \<Rightarrow> MedasQueryParamsRequest
    \<Rightarrow> 'md ServerMetadata \<times> (go_error + MedasQueryParamsResponse)"

definition Medas_queryClient_Params ::
  "('ctx, 'md) medas_conn \<Rightarrow> 'ctx \<Rightarrow> MedasQueryParamsRequest
    \<Rightarrow> 'md ServerMetadata \<times> (go_error + MedasQueryParamsResponse)" where
  "Medas_queryClient_Params cc ctx req = cc ctx (lit ''/medasdigital.medasdigital.Query/Params'') req"

definition Medas_NewQueryClient :: "('ctx, 'md) medas_conn \<Rightarrow> ('ctx, 'md) MedasQueryClient" where
  "Medas_NewQueryClient cc = \<lparr>Medas_Client_Params = Medas_queryClient_Params cc\<rparr>"

text \<open>The message service; the context is the store.\<close>

record 's MedasMsgServer =
  Medas_Srv_UpdateParams :: "'s \<Rightarrow> MedasMsgUpdateParams \<Rightarrow> go_error + 's \<times> MedasMsgUpdateParamsResponse"

type_synonym 's medas_msg_handler =
  "('s MedasMsgServer, 's, MedasMsgUpdateParams \<Rightarrow> go_error + MedasMsgUpdateParams, MedasMsgUpdateParams,
    's \<times> MedasMsgUpdateParamsResponse) method_handler"

definition Medas_Msg_UpdateParams_Handler :: "'s medas_msg_handler" where
  "Medas_Msg_UpdateParams_Handler srv ctx dec interceptor =
     rbind (dec MedasMsgUpdateParams_zero) (\<lambda>req.
       case interceptor of
         None \<Rightarrow> Medas_Srv_UpdateParams srv ctx req
       | Some i \<Rightarrow> i ctx req (lit ''/medasdigital.medasdigital.Msg/UpdateParams'')
           (\<lambda>ctx r. Medas_Srv_UpdateParams srv ctx r))"

definition Medas_Msg_serviceDesc :: "'s medas_msg_handler ServiceDesc" where
  "Medas_Msg_serviceDesc = \<lparr>ServiceName = lit ''medasdigital.medasdigital.Msg'',
     Methods = [(lit ''UpdateParams'', Medas_Msg_UpdateParams_Handler)],
     ServiceMetadata = lit ''medasdigital/medasdigital/tx.proto''\<rparr>"

definition Medas_RegisterMsgServer ::
  "('s medas_msg_handler, 's MedasMsgServer) grpc_server \<Rightarrow> 's MedasMsgServer
    \<Rightarrow> ('s medas_msg_handler, 's MedasMsgServer) grpc_server" where
  "Medas_RegisterMsgServer s srv = RegisterService Medas_Msg_serviceDesc srv s"

section \<open>The gateway\<close>

definition Medas_request_Query_Params_0 ::
  "('ctx, 'md) MedasQueryClient \<Rightarrow> ('ctx, 'w, 'md, MedasQueryParamsResponse) request_fun" where
  "Medas_request_Query_Params_0 client ctx req pathParams =
     Medas_Client_Params client ctx MedasQueryParamsRequest"

definition Medas_local_request_Query_Params_0 ::
  "('ctx, 'w, 'form, 'md) gateway \<Rightarrow> 'ctx MedasQueryServer
    \<Rightarrow> ('ctx, 'w, 'md, MedasQueryParamsResponse) request_fun" where
  "Medas_local_request_Query_Params_0 G server ctx req pathParams =
     (no_metadata G, Medas_Srv_Params server ctx (Some MedasQueryParamsRequest))"

definition Medas_pattern_Query_Params_0 :: pattern where
  "Medas_pattern_Query_Params_0 = \<lparr>pattern_Version = 1, pattern_Ops = [2, 0, 2, 0, 2, 1],
     pattern_Pool = [lit ''medasdigital'', lit ''params''], pattern_Verb = [],
     AssumeColonVerbOpt = False\<rparr>"


definition Medas_RegisterQueryHandlerServer ::
  "('ctx, 'w, 'form, 'md) gateway \<Rightarrow> ('w, 'md, MedasQueryParamsResponse) mux \<Rightarrow> 'ctx MedasQueryServer
    \<Rightarrow> go_error + ('w, 'md, MedasQueryParamsResponse) mux" where
  "Medas_RegisterQueryHandlerServer G mux server =
     Inr (mux_Handle (lit ''GET'') Medas_pattern_Query_Params_0
       (handle_server G (Medas_local_request_Query_Params_0 G server)) mux)"

definition Medas_RegisterQueryHandlerClient ::
  "('ctx, 'w, 'form, 'md) gateway \<Rightarrow> ('w, 'md, MedasQueryParamsResponse) mux
    \<Rightarrow> ('ctx, 'md) MedasQueryClient \<Rightarrow> go_error + ('w, 'md, MedasQueryParamsResponse) mux" where
  "Medas_RegisterQueryHandlerClient G mux client =
     Inr (mux_Handle (lit ''GET'') Medas_pattern_Query_Params_0
       (handle_client G (Medas_request_Query_Params_0 client)) mux)"

definition Medas_RegisterQueryHandler ::
  "('ctx, 'w, 'form, 'md) gateway \<Rightarrow> ('w, 'md, MedasQueryParamsResponse) mux
    \<Rightarrow> ('ctx, 'md) medas_conn \<Rightarrow> go_error + ('w, 'md, MedasQueryParamsResponse) mux" where
  "Medas_RegisterQueryHandler G mux conn =
     Medas_RegisterQueryHandlerClient G mux (Medas_NewQueryClient conn)"

definition Medas_RegisterQueryHandlerFromEndpoint ::
  "('ctx, 'w, 'form, 'md) gateway \<Rightarrow> (gostring \<Rightarrow> go_error + ('ctx, 'md) medas_conn)
    \<Rightarrow> ('w, 'md, MedasQueryParamsResponse) mux \<Rightarrow> gostring
    \<Rightarrow> (go_error + ('w, 'md, MedasQueryParamsResponse) mux) \<times> conn_fate option" where
  "Medas_RegisterQueryHandlerFromEndpoint G dial mux endpoint =
     (case dial endpoint of
        Inl err \<Rightarrow> (Inl err, None)
      | Inr conn \<Rightarrow>
          (case Medas_RegisterQueryHandler G mux conn of
             Inl err \<Rightarrow> (Inl err, Some ClosedAtOnce)
           | Inr mux' \<Rightarrow> (Inr mux', Some ClosedWhenDone)))"

section \<open>The module\<close>

definition Medas_RegisterInterfaces ::
  "(gostring \<Rightarrow> gostring list \<Rightarrow> gostring list) \<Rightarrow> gostring list \<Rightarrow> gostring list" where
  "Medas_RegisterInterfaces registerMsgServiceDesc registry =
     (let registry = registry @ [lit ''MsgUpdateParams'']
      in registerMsgServiceDesc (lit ''medasdigital.medasdigital.Msg'') registry)"

definition Medas_AppModule_RegisterInterfaces ::
  "(gostring \<Rightarrow> gostring list \<Rightarrow> gostring list) \<Rightarrow> gostring list \<Rightarrow> gostring list" where
  "Medas_AppModule_RegisterInterfaces registerMsgServiceDesc reg =
     Medas_RegisterInterfaces registerMsgServiceDesc reg"

definition Medas_AppModule_RegisterLegacyAminoCodec :: "'r \<Rightarrow> 'r" where
  "Medas_AppModule_RegisterLegacyAminoCodec cdc = cdc"

definition Medas_AppModule_RegisterInvariants :: "'s MedasAppModule \<Rightarrow> 'r \<Rightarrow> 'r" where
  "Medas_AppModule_RegisterInvariants am ir = ir"

definition Medas_NewMsgServerImpl :: "'s MedasKeeper \<Rightarrow> 's MedasMsgServer" where
  "Medas_NewMsgServerImpl k = \<lparr>Medas_Srv_UpdateParams = Medas_UpdateParams k\<rparr>"

definition Medas_QueryServer :: "'s MedasKeeper \<Rightarrow> 's MedasQueryServer" where
  "Medas_QueryServer k = \<lparr>Medas_Srv_Params = Medas_Query_Params k\<rparr>"

record 's MedasConfigurator =
  mcfg_MsgServer :: "('s medas_msg_handler, 's MedasMsgServer) grpc_server"
  mcfg_QueryServer :: "('s medas_query_handler, 's MedasQueryServer) grpc_server"

definition Medas_AppModule_RegisterServices ::
  "'s MedasAppModule \<Rightarrow> 's MedasConfigurator \<Rightarrow> 's MedasConfigurator" where
  "Medas_AppModule_RegisterServices am cfg =
     cfg\<lparr>mcfg_MsgServer := Medas_RegisterMsgServer (mcfg_MsgServer cfg)
         (Medas_NewMsgServerImpl (MedasAppModule_keeper am)),
       mcfg_QueryServer := Medas_RegisterQueryServer (mcfg_QueryServer cfg)
         (Medas_QueryServer (MedasAppModule_keeper am))\<rparr>"

definition Medas_AppModule_RegisterGRPCGatewayRoutes ::
  "('ctx, 'w, 'form, 'md) gateway \<Rightarrow> ('ctx, 'md) medas_conn
    \<Rightarrow> ('w, 'md, MedasQueryParamsResponse) mux \<Rightarrow> go_error + ('w, 'md, MedasQueryParamsResponse) mux" where
  "Medas_AppModule_RegisterGRPCGatewayRoutes G clientCtx mux =
     (case Medas_RegisterQueryHandlerClient G mux (Medas_NewQueryClient clientCtx) of
        Inl err \<Rightarrow> Inl (Panicked err)
      | Inr mux' \<Rightarrow> Inr mux')"

section \<open>Properties\<close>

definition patterns :: "('w, 'md, 'r) mux \<Rightarrow> (gostring \<times> pattern) list" where
  "patterns mux = map (\<lambda>(m, p, h). (m, p)) mux"

lemma path_names_differ [simp]:
  "lit ''medasdigital'' \<noteq> lit ''params''" "lit ''params'' \<noteq> lit ''medasdigital''"
  "lit ''medasdigital'' \<noteq> lit ''tokenfactory''" "lit ''tokenfactory'' \<noteq> lit ''medasdigital''"
  "lit ''tokenfactory'' \<noteq> lit ''params''" "lit ''params'' \<noteq> lit ''tokenfactory''"
  by (simp_all add: lit_def)

lemma medas_pattern_match:
  "pattern_match Medas_pattern_Query_Params_0 cs =
    (if cs = [lit ''medasdigital'', lit ''medasdigital'', lit ''params''] then Some Map.empty else None)"
  by (auto simp: pattern_match_def Medas_pattern_Query_Params_0_def split: list.splits)

lemma tf_patterns_in_tf:
  assumes "pattern_match p cs \<noteq> None"
    and "p \<in> {pattern_Query_Params_0, pattern_Query_Denom_0, pattern_Query_DenomAll_0}"
  shows "\<exists>ds. cs = tf_path ds"
  using assms
  by (auto simp: pattern_match_def pattern_Query_Params_0_def pattern_Query_DenomAll_0_def
      pattern_Query_Denom_0_def split: list.splits if_splits)

text \<open>
  No request path has two routes.  The two modules register four patterns for \<open>GET\<close>; whatever
  the path, at most one of them matches, so the answer does not depend on the order in which the
  modules register theirs.
\<close>

theorem gateway_routes_disjoint:
  "\<exists>mux1 mux2. RegisterQueryHandlerClient G populate [] client = Inr mux1
    \<and> Medas_RegisterQueryHandlerClient G [] mclient = Inr mux2
    \<and> length (patterns mux1 @ patterns mux2) = 4
    \<and> length (filter (\<lambda>(m, p). pattern_match p path \<noteq> None) (patterns mux1 @ patterns mux2)) \<le> 1
    \<and> (\<forall>(m, p) \<in> set (patterns mux1 @ patterns mux2). m = lit ''GET'')"
proof -
  let ?ps = "[(lit ''GET'', pattern_Query_Params_0), (lit ''GET'', pattern_Query_Denom_0),
    (lit ''GET'', pattern_Query_DenomAll_0), (lit ''GET'', Medas_pattern_Query_Params_0)]"
  have "length (filter (\<lambda>(m, p). pattern_match p path \<noteq> None) ?ps) \<le> 1"
  proof (cases "\<exists>ds. path = tf_path ds")
    case True
    then obtain ds where "path = tf_path ds" by blast
    then show ?thesis
      by (auto simp: tf_pattern_match medas_pattern_match split: list.splits)
  next
    case False
    then have "pattern_match p path = None"
      if "p \<in> {pattern_Query_Params_0, pattern_Query_Denom_0, pattern_Query_DenomAll_0}" for p
      using tf_patterns_in_tf [of p path] that by blast
    then show ?thesis by simp
  qed
  moreover obtain mux1 mux2 where mux: "RegisterQueryHandlerClient G populate [] client = Inr mux1"
    "Medas_RegisterQueryHandlerClient G [] mclient = Inr mux2"
    by (simp add: RegisterQueryHandlerClient_def Medas_RegisterQueryHandlerClient_def)
  moreover from mux have ps: "patterns mux1 @ patterns mux2 = ?ps"
    by (auto simp: RegisterQueryHandlerClient_def Medas_RegisterQueryHandlerClient_def mux_Handle_def
        patterns_def)
  moreover have "length ?ps = 4" "\<forall>(m, p) \<in> set ?ps. m = lit ''GET''" by simp_all
  ultimately show ?thesis by metis
qed

theorem gateway_routes_disjoint_witness:
  "\<exists>mux1 mux2. RegisterQueryHandlerClient (sample_gateway sample_store)
      (\<lambda>form flt. Inr \<lparr>QueryAllDenomRequest_Pagination = None\<rparr>) []
      (NewQueryClient (direct_conn (Keeper_QueryServer (\<lambda>e. []) limit_paginate gov_keeper))) = Inr mux1
    \<and> Medas_RegisterQueryHandlerClient (sample_gateway sample_store) []
      (Medas_NewQueryClient (\<lambda>ctx m q. (\<lparr>HeaderMD = (), TrailerMD = ()\<rparr>, wrong_type))) = Inr mux2
    \<and> length (patterns mux1 @ patterns mux2) = 4"
  using gateway_routes_disjoint [of "sample_gateway sample_store"
      "\<lambda>form flt. Inr \<lparr>QueryAllDenomRequest_Pagination = None\<rparr>"
      "NewQueryClient (direct_conn (Keeper_QueryServer (\<lambda>e. []) limit_paginate gov_keeper))"
      "Medas_NewQueryClient (\<lambda>ctx m q. (\<lparr>HeaderMD = (), TrailerMD = ()\<rparr>, wrong_type))" "[]"]
  by blast

end
