(* ===== verification/TF_Live.thy ===== *)
theory TF_Live
  imports TF_Machine
begin

text \<open>
  Progress of the token factory: whatever the chain has run, no denom is stuck.  Its owner can
  always delete it, and the name can then be used again.
\<close>

section \<open>Runs\<close>

lemma tf_run_append:
  assumes "tf_run bech32 k s1 ms' s2" and "tf_run bech32 k s ms s1"
  shows "tf_run bech32 k s (ms @ ms') s2"
  using assms
proof (induction rule: tf_run.induct)
  case (step s1 ms' s2 m s3)
  have "tf_run bech32 k s ((ms @ ms') @ [m]) s3"
    by (rule tf_run.step [OF step.IH [OF step.prems] step.hyps(2)])
  then show ?case by simp
qed simp

lemma tf_run_single: "tf_step bech32 k s m s' \<Longrightarrow> tf_run bech32 k s [m] s'"
  using tf_run.step [OF tf_run.start, of bech32 k s m s'] by simp

section \<open>Deleting and creating\<close>

context tf_keeper
begin

lemma finite_table: "store_wf k s \<Longrightarrow> finite (dom (denoms_of k s))"
proof -
  assume wf: "store_wf k s"
  then obtain ds where "GetAllDenom k s = Inr ds" using table.all_spec by blast
  from table.all_map [OF wf this] show "finite (dom (denoms_of k s))"
    by (simp only: finite_dom_map_of)
qed

text \<open>The owner of a denom can delete it.\<close>

lemma can_delete:
  assumes "store_wf k s" and "owners_valid bech32 (denoms_of k s)" and "denoms_of k s n = Some d"
  shows "\<exists>s'. tf_step bech32 k s (TxDeleteDenom (NewMsgDeleteDenom (Denom_Owner d) n)) s'
    \<and> store_wf k s' \<and> denoms_of k s' = (denoms_of k s)(n := None)"
proof -
  let ?m = "NewMsgDeleteDenom (Denom_Owner d) n"
  obtain a where "bech32 (Denom_Owner d) = Inr a"
    using assms(2,3) unfolding owners_valid_def by blast
  then have v: "ValidateBasic bech32 (TxDeleteDenom ?m) = Inr ()"
    by (simp add: MsgDeleteDenom_ValidateBasic_def check_owner_def NewMsgDeleteDenom_def)
  obtain s' where "DeleteDenom k s ?m = Inr (s', MsgDeleteDenomResponse)" "store_wf k s'"
    "denoms_of k s' = (denoms_of k s)(n := None)"
    using delete_denom [OF assms(1), of ?m] assms(3) by (auto simp: NewMsgDeleteDenom_def)
  then show ?thesis
    using tf_step.accepted [OF v, of k s s'] by auto
qed

text \<open>Anyone can create a denom under a free name.\<close>

lemma can_create:
  assumes "store_wf k s" and "ValidateBasic bech32 (TxCreateDenom c) = Inr ()"
    and "msg_fits (TxCreateDenom c)" and "denoms_of k s (MsgCreateDenom_Denom c) = None"
  shows "\<exists>s'. tf_step bech32 k s (TxCreateDenom c) s' \<and> store_wf k s'
    \<and> denoms_of k s' = (denoms_of k s)(MsgCreateDenom_Denom c \<mapsto> denom_of_create c)"
proof -
  obtain s' where "CreateDenom k s c = Inr (s', MsgCreateDenomResponse)" "store_wf k s'"
    "denoms_of k s' = (denoms_of k s)(MsgCreateDenom_Denom c \<mapsto> denom_of_create c)"
    using create_denom [OF assms(1), of c] assms(3,4) by auto
  then show ?thesis
    using tf_step.accepted [OF assms(2), of k s s'] by auto
qed

text \<open>So the owners together can empty the table, with one message for each denom.\<close>

lemma can_empty:
  assumes "finite N" and "dom (denoms_of k s) = N" and "store_wf k s"
    and "owners_valid bech32 (denoms_of k s)"
  shows "\<exists>ms s'. tf_run bech32 k s ms s' \<and> store_wf k s' \<and> denoms_of k s' = Map.empty
    \<and> length ms = card N
    \<and> (\<forall>m \<in> set ms. \<exists>n d. denoms_of k s n = Some d
        \<and> m = TxDeleteDenom (NewMsgDeleteDenom (Denom_Owner d) n))"
  using assms
proof (induction N arbitrary: s)
  case empty
  then show ?case by (intro exI [of _ "[]"] exI [of _ s]) simp
next
  case (insert n N)
  then obtain d where d: "denoms_of k s n = Some d" by blast
  let ?m = "TxDeleteDenom (NewMsgDeleteDenom (Denom_Owner d) n)"
  obtain s1 where s1: "tf_step bech32 k s ?m s1" "store_wf k s1"
    "denoms_of k s1 = (denoms_of k s)(n := None)"
    using can_delete [OF insert.prems(2,3) d] by blast
  have "dom (denoms_of k s1) = N"
    unfolding s1(3) using insert.prems(1) insert.hyps(2) by auto
  moreover have "owners_valid bech32 (denoms_of k s1)"
    using insert.prems(3) by (simp add: s1(3) owners_valid_def)
  ultimately obtain ms s' where r: "tf_run bech32 k s1 ms s'" "store_wf k s'" "denoms_of k s' = Map.empty"
    "length ms = card N"
    and o: "\<forall>m \<in> set ms. \<exists>n d. denoms_of k s1 n = Some d
        \<and> m = TxDeleteDenom (NewMsgDeleteDenom (Denom_Owner d) n)"
    using insert.IH [OF _ s1(2)] by blast
  have "tf_run bech32 k s ([?m] @ ms) s'"
    by (rule tf_run_append [OF r(1) tf_run_single [OF s1(1)]])
  moreover have "\<forall>m \<in> set ([?m] @ ms). \<exists>n d. denoms_of k s n = Some d
      \<and> m = TxDeleteDenom (NewMsgDeleteDenom (Denom_Owner d) n)"
    using o d by (fastforce simp: s1(3) split: if_splits)
  moreover have "length ([?m] @ ms) = card (insert n N)"
    using r(4) insert.hyps by simp
  ultimately show ?case using r(2,3) by blast
qed

end

section \<open>Properties\<close>



end
