(* ===== verification/Tx_Flow.thy ===== *)
theory Tx_Flow
  imports TF_Grpc TF_Codec Api_Correct
begin

text \<open>
  A transaction from end to end.  A client builds a message of the package \<open>api\<close> and encodes it; the
  node decodes the bytes with \<open>x/tokenfactory/types\<close>, checks the message and hands it to the server
  the module registers.  The components are those of the other theories; what lies between them,
  the transport of bytes under the name of a method, is the SDK's.
\<close>

section \<open>The client\<close>

datatype api_msg =
    ApiUpdateParams ApiMsgUpdateParams
  | ApiCreateDenom ApiMsgCreateDenom
  | ApiUpdateDenom ApiMsgUpdateDenom
  | ApiDeleteDenom ApiMsgDeleteDenom

text \<open>The message meant, and its encoding under the name of its method.\<close>

fun api_meaning :: "api_msg \<Rightarrow> tf_msg" where
  "api_meaning (ApiUpdateParams m) = TxUpdateParams (ApiMsgUpdateParams_gogo m)"
| "api_meaning (ApiCreateDenom m) = TxCreateDenom (ApiMsgCreateDenom_gogo m)"
| "api_meaning (ApiUpdateDenom m) = TxUpdateDenom (ApiMsgUpdateDenom_gogo m)"
| "api_meaning (ApiDeleteDenom m) = TxDeleteDenom (ApiMsgDeleteDenom_gogo m)"

fun api_encode ::
  "proto_runtime \<Rightarrow> ApiParams options \<Rightarrow> api_msg \<Rightarrow> pb_error + bytes option" where
  "api_encode R O1 (ApiUpdateParams m) = ApiMsgUpdateParams_marshal R O1 None (Some m)"
| "api_encode R O1 (ApiCreateDenom m) = ApiMsgCreateDenom_marshal R None (Some m)"
| "api_encode R O1 (ApiUpdateDenom m) = ApiMsgUpdateDenom_marshal R None (Some m)"
| "api_encode R O1 (ApiDeleteDenom m) = ApiMsgDeleteDenom_marshal R None (Some m)"

definition client_tx ::
  "proto_runtime \<Rightarrow> ApiParams options \<Rightarrow> api_msg \<Rightarrow> (gostring \<times> bytes) option" where
  "client_tx R O1 m =
     (case api_encode R O1 m of
        Inr (Some bs) \<Rightarrow> Some (method_of (api_meaning m), bs)
      | _ \<Rightarrow> None)"

text \<open>
  A message a client can send: what it carries as unknown fields is well-formed and unknown, and it
  is below the size limits of a message and of the store.
\<close>

fun api_ok :: "proto_runtime \<Rightarrow> ApiParams options \<Rightarrow> api_msg \<Rightarrow> bool" where
  "api_ok R O1 (ApiUpdateParams m) \<longleftrightarrow>
     pulsar_valid False (\<lambda>m. pointer_good (ApiParams_good False) (ApiMsgUpdateParams_Params m))
       ApiMsgUpdateParams_unknownFields (ApiMsgUpdateParams_fields O1) m
   \<and> int (ApiMsgUpdateParams_size R O1 (Some m)) < 2 ^ 63"
| "api_ok R O1 (ApiCreateDenom m) \<longleftrightarrow>
     pulsar_valid False (\<lambda>m. True) ApiMsgCreateDenom_unknownFields ApiMsgCreateDenom_fields m
   \<and> int (ApiMsgCreateDenom_size R (Some m)) < 2 ^ 63
   \<and> MsgCreateDenom_Size (ApiMsgCreateDenom_gogo m) < 2 ^ 31"
| "api_ok R O1 (ApiUpdateDenom m) \<longleftrightarrow>
     pulsar_valid False (\<lambda>m. True) ApiMsgUpdateDenom_unknownFields ApiMsgUpdateDenom_fields m
   \<and> int (ApiMsgUpdateDenom_size R (Some m)) < 2 ^ 63
   \<and> MsgUpdateDenom_Size (ApiMsgUpdateDenom_gogo m) < 2 ^ 31"
| "api_ok R O1 (ApiDeleteDenom m) \<longleftrightarrow>
     pulsar_valid False (\<lambda>m. True) ApiMsgDeleteDenom_unknownFields ApiMsgDeleteDenom_fields m
   \<and> int (ApiMsgDeleteDenom_size R (Some m)) < 2 ^ 63"

section \<open>The node\<close>

definition decode_tx :: "gostring \<Rightarrow> bytes \<Rightarrow> (pb_error + tf_msg) option" where
  "decode_tx meth bs =
     (if meth = method_of (TxUpdateParams MsgUpdateParams_zero)
      then Some (map_sum id TxUpdateParams (MsgUpdateParams_Unmarshal bs MsgUpdateParams_zero))
      else if meth = method_of (TxCreateDenom MsgCreateDenom_zero)
      then Some (map_sum id TxCreateDenom (MsgCreateDenom_Unmarshal bs MsgCreateDenom_zero))
      else if meth = method_of (TxUpdateDenom MsgUpdateDenom_zero)
      then Some (map_sum id TxUpdateDenom (MsgUpdateDenom_Unmarshal bs MsgUpdateDenom_zero))
      else if meth = method_of (TxDeleteDenom MsgDeleteDenom_zero)
      then Some (map_sum id TxDeleteDenom (MsgDeleteDenom_Unmarshal bs MsgDeleteDenom_zero))
      else None)"

definition deliver ::
  "(gostring \<Rightarrow> gostring + bytes) \<Rightarrow> ('s msg_handler, 's MsgServer) grpc_server \<Rightarrow> gostring \<times> bytes \<Rightarrow> 's \<Rightarrow> 's"
where
  "deliver bech32 srvs tx s =
     (case decode_tx (fst tx) (snd tx) of
        Some (Inr m) \<Rightarrow>
          (case ValidateBasic bech32 m of
             Inl e \<Rightarrow> s
           | Inr u \<Rightarrow>
               (case router_call srvs (fst tx) s m of
                  Some (Inr (s', a)) \<Rightarrow> s'
                | _ \<Rightarrow> s))
      | _ \<Rightarrow> s)"

section \<open>Steps\<close>

lemma methods_differ:
  "method_of (TxCreateDenom c) \<noteq> method_of (TxUpdateParams p)"
  "method_of (TxUpdateDenom u) \<noteq> method_of (TxUpdateParams p)"
  "method_of (TxDeleteDenom d) \<noteq> method_of (TxUpdateParams p)"
  "method_of (TxUpdateDenom u) \<noteq> method_of (TxCreateDenom c)"
  "method_of (TxDeleteDenom d) \<noteq> method_of (TxCreateDenom c)"
  "method_of (TxDeleteDenom d) \<noteq> method_of (TxUpdateDenom u)"
  by (simp_all add: lit_def)

lemma method_same:
  "method_of (TxUpdateParams p) = method_of (TxUpdateParams p') \<longleftrightarrow> True"
  "method_of (TxCreateDenom c) = method_of (TxCreateDenom c') \<longleftrightarrow> True"
  "method_of (TxUpdateDenom u) = method_of (TxUpdateDenom u') \<longleftrightarrow> True"
  "method_of (TxDeleteDenom d) = method_of (TxDeleteDenom d') \<longleftrightarrow> True"
  by simp_all

lemma client_node:
  assumes "runtime_ok R" and "options_Params R False O1" and "api_ok R O1 m"
  shows "\<exists>bs. client_tx R O1 m = Some (method_of (api_meaning m), bs)
    \<and> decode_tx (method_of (api_meaning m)) bs = Some (Inr (api_meaning m))"
proof (cases m)
  case (ApiUpdateParams x)
  then show ?thesis
    using pulsar_gogo.interop(1) [OF ApiMsgUpdateParams_agree [OF assms(1)
          nested_Params [OF assms(1,2)] sim_Params [OF assms(1,2)]],
        where m = x and g = MsgUpdateParams_zero and f = tx_file and msg = "''MsgUpdateParams''"] assms(3)
    by (auto simp: client_tx_def decode_tx_def methods_differ method_same api_defs MsgUpdateParams_Unmarshal_def
        zero_sizes simp del: method_of.simps)
next
  case (ApiCreateDenom x)
  then show ?thesis
    using pulsar_gogo.interop(1) [OF ApiMsgCreateDenom_agree [OF assms(1)],
        where m = x and g = MsgCreateDenom_zero and f = tx_file and msg = "''MsgCreateDenom''"] assms(3)
    by (auto simp: client_tx_def decode_tx_def methods_differ method_same api_defs MsgCreateDenom_Unmarshal_def
        zero_sizes simp del: method_of.simps)
next
  case (ApiUpdateDenom x)
  then show ?thesis
    using pulsar_gogo.interop(1) [OF ApiMsgUpdateDenom_agree [OF assms(1)],
        where m = x and g = MsgUpdateDenom_zero and f = tx_file and msg = "''MsgUpdateDenom''"] assms(3)
    by (auto simp: client_tx_def decode_tx_def methods_differ method_same api_defs MsgUpdateDenom_Unmarshal_def
        zero_sizes simp del: method_of.simps)
next
  case (ApiDeleteDenom x)
  then show ?thesis
    using pulsar_gogo.interop(1) [OF ApiMsgDeleteDenom_agree [OF assms(1)],
        where m = x and g = MsgDeleteDenom_zero and f = tx_file and msg = "''MsgDeleteDenom''"] assms(3)
    by (auto simp: client_tx_def decode_tx_def methods_differ method_same api_defs MsgDeleteDenom_Unmarshal_def
        zero_sizes simp del: method_of.simps)
qed

lemma api_ok_fits: "api_ok R O1 m \<Longrightarrow> msg_fits (api_meaning m)"
  by (cases m) auto

lemma deliver_step:
  assumes "decode_tx (method_of m) bs = Some (Inr m)" and "tf_keeper (AppModule_keeper am)"
    and "store_wf (AppModule_keeper am) s" and "msg_fits m"
    and s': "s' = deliver bech32 (cfg_MsgServer (module_services err_text paginate am)) (method_of m, bs) s"
  shows "store_wf (AppModule_keeper am) s' \<and> denoms_of (AppModule_keeper am) s'
    = spec_tx bech32 (Keeper_authority (AppModule_keeper am)) m (denoms_of (AppModule_keeper am) s)"
proof (cases "ValidateBasic bech32 m")
  case (Inl e)
  then show ?thesis using assms(1,3) by (simp add: s' deliver_def spec_tx_def)
next
  case (Inr u)
  show ?thesis
    using tf_keeper.handler_refines [OF assms(2-4)] assms(3)
    by (cases "Msg_Handler (AppModule_keeper am) s m")
      (simp_all add: s' deliver_def assms(1) Inr router_call_own spec_tx_def)
qed


section \<open>Properties\<close>




end
