(* ===== verification/Cmd_Root.thy ===== *)
theory Cmd_Root
  imports Cmd_Testnet App_Config
begin

text \<open>
  The assembly of the command line, \<open>cmd/medasdigitald\<close>: the root command (\<open>cmd/root.go\<close>), the tree
  of commands (\<open>cmd/commands.go\<close>), the configuration files (\<open>cmd/config.go\<close>), \<open>main.go\<close>, and the
  address prefixes the application sets (\<open>app/config.go\<close>).  The commands, the dependency injection
  and the configuration of the SDK are arguments.
\<close>

section \<open>The tree of commands\<close>

text \<open>The library commands that get no argument of the repository other than \<open>newApp\<close>.\<close>

datatype lib_cmd =
    debug_Cmd | confix_ConfigCommand | snapshot_Cmd | server_StatusCommand | keys_Commands
  | rpc_QueryEventForTxCmd | rpc_ValidatorCommand | server_QueryBlockCmd | authcmd_QueryTxsByEventsCmd
  | server_QueryBlocksCmd | authcmd_QueryTxCmd | server_QueryBlockResultsCmd
  | authcmd_GetSignCommand | authcmd_GetSignBatchCommand | authcmd_GetMultiSignCommand
  | authcmd_GetMultiSignBatchCmd | authcmd_GetValidateSignaturesCommand | flags_LineBreak
  | authcmd_GetBroadcastCommand | authcmd_GetEncodeCommand | authcmd_GetDecodeCommand
  | authcmd_GetSimulateCmd

type_synonym 'm manager = "mod_name \<rightharpoonup> 'm"

text \<open>
  The libraries: commands and functions that change one.  \<open>new_flag\<close> is the flag \<open>String\<close> declares
  with a default value, and \<open>set_value\<close> the method \<open>Value.Set\<close>.
\<close>

record ('m, 't) cli_lib =
  lib_command :: "lib_cmd \<Rightarrow> command"
  genutil_InitCmd :: "'m manager \<Rightarrow> gostring \<Rightarrow> command"
  genutil_Commands :: "'t option \<Rightarrow> 'm manager \<Rightarrow> gostring \<Rightarrow> command"
  InPlaceTestnetCreator :: command
  pruning_Cmd :: "gostring \<Rightarrow> command"
  server_AddCommands :: "gostring \<Rightarrow> (command \<Rightarrow> command) \<Rightarrow> command \<Rightarrow> command"
  crisis_AddModuleInitFlags :: "command \<Rightarrow> command"
  wasm_AddModuleInitFlags :: "command \<Rightarrow> command"
  ExtendUnsafeResetAllCmd :: "command \<Rightarrow> command"
  new_flag :: "gostring \<Rightarrow> flag"
  set_value :: "flag \<Rightarrow> gostring \<Rightarrow> flag"

fun AddCommand :: "command list \<Rightarrow> command \<Rightarrow> command" where
  "AddCommand new (Command use fs ps cs) = Command use fs ps (cs @ new)"

fun AddFlag :: "gostring \<Rightarrow> flag \<Rightarrow> command \<Rightarrow> command" where
  "AddFlag n f (Command use fs ps cs) = Command use (fs(n \<mapsto> f)) ps cs"

fun AddPersistentFlag :: "gostring \<Rightarrow> flag \<Rightarrow> command \<Rightarrow> command" where
  "AddPersistentFlag n f (Command use fs ps cs) = Command use fs (ps(n \<mapsto> f)) cs"

definition FlagChainID :: gostring where
  "FlagChainID = lit ''chain-id''"

definition FlagKeyringBackend :: gostring where
  "FlagKeyringBackend = lit ''keyring-backend''"

definition addModuleInitFlags :: "('m, 't) cli_lib \<Rightarrow> command \<Rightarrow> command" where
  "addModuleInitFlags L startCmd =
     wasm_AddModuleInitFlags L (crisis_AddModuleInitFlags L startCmd)"

text \<open>Of the in-place test network command the texts are left out.\<close>

definition NewInPlaceTestnetCmd :: "('m, 't) cli_lib \<Rightarrow> (command \<Rightarrow> command) \<Rightarrow> command" where
  "NewInPlaceTestnetCmd L addStartFlags =
     AddFlag (lit ''accounts-to-fund'') (new_flag L []) (addStartFlags (InPlaceTestnetCreator L))"

definition genesisCommand ::
  "('m, 't) cli_lib \<Rightarrow> gostring \<Rightarrow> 't option \<Rightarrow> 'm manager \<Rightarrow> command list \<Rightarrow> command" where
  "genesisCommand L DefaultNodeHome txConfig basicManager cmds =
     fold (\<lambda>subCmd. AddCommand [subCmd]) cmds (genutil_Commands L txConfig basicManager DefaultNodeHome)"

definition queryCommand :: "('m, 't) cli_lib \<Rightarrow> command" where
  "queryCommand L =
     AddPersistentFlag FlagChainID (new_flag L [])
       (AddCommand (map (lib_command L)
          [rpc_QueryEventForTxCmd, rpc_ValidatorCommand, server_QueryBlockCmd,
           authcmd_QueryTxsByEventsCmd, server_QueryBlocksCmd, authcmd_QueryTxCmd,
           server_QueryBlockResultsCmd])
        (Command (lit ''query'') Map.empty Map.empty []))"

definition txCommand :: "('m, 't) cli_lib \<Rightarrow> command" where
  "txCommand L =
     AddPersistentFlag FlagChainID (new_flag L [])
       (AddCommand (map (lib_command L)
          [authcmd_GetSignCommand, authcmd_GetSignBatchCommand, authcmd_GetMultiSignCommand,
           authcmd_GetMultiSignBatchCmd, authcmd_GetValidateSignaturesCommand, flags_LineBreak,
           authcmd_GetBroadcastCommand, authcmd_GetEncodeCommand, authcmd_GetDecodeCommand,
           authcmd_GetSimulateCmd])
        (Command (lit ''tx'') Map.empty Map.empty []))"

definition initRootCmd ::
  "('m, 't) cli_lib \<Rightarrow> gostring \<Rightarrow> command \<Rightarrow> 't option \<Rightarrow> 'm manager \<Rightarrow> command" where
  "initRootCmd L DefaultNodeHome rootCmd txConfig basicManager =
     (let rootCmd = AddCommand
            [genutil_InitCmd L basicManager DefaultNodeHome,
             NewInPlaceTestnetCmd L (addModuleInitFlags L),
             lib_command L debug_Cmd, lib_command L confix_ConfigCommand,
             pruning_Cmd L DefaultNodeHome, lib_command L snapshot_Cmd] rootCmd;
          rootCmd = server_AddCommands L DefaultNodeHome (addModuleInitFlags L) rootCmd;
          rootCmd = AddCommand
            [lib_command L server_StatusCommand,
             genesisCommand L DefaultNodeHome txConfig basicManager [],
             queryCommand L, txCommand L, lib_command L keys_Commands] rootCmd
      in ExtendUnsafeResetAllCmd L rootCmd)"

section \<open>The client context\<close>

text \<open>
  The fields of \<open>client.Context\<close> the program sets: codec, interface registry, amino codec, home
  directory, the prefix of the environment variables, transaction configuration and the context of
  the command.  The input and the account retriever are constants of the libraries.
\<close>

record ('c, 'g, 'a, 't, 'k) client_ctx =
  ctx_Codec :: "'c option"
  ctx_InterfaceRegistry :: "'g option"
  ctx_LegacyAmino :: "'a option"
  ctx_HomeDir :: gostring
  ctx_Viper :: gostring
  ctx_TxConfig :: "'t option"
  ctx_CmdContext :: "'k option"

definition empty_ctx :: "('c, 'g, 'a, 't, 'k) client_ctx" where
  "empty_ctx = \<lparr>ctx_Codec = None, ctx_InterfaceRegistry = None, ctx_LegacyAmino = None, ctx_HomeDir = [],
     ctx_Viper = [], ctx_TxConfig = None, ctx_CmdContext = None\<rparr>"

text \<open>
  \<open>ReadFromClientConfig\<close> returns a context with or without an error; the error is dropped here.
  \<open>textual\<close> puts the query function of a context into the options, and \<open>newTxConfig\<close> is
  \<open>NewTxConfigWithOptions\<close>.
\<close>

definition ProvideClientContext ::
  "(('c, 'g, 'a, 't, 'k) client_ctx \<Rightarrow> ('c, 'g, 'a, 't, 'k) client_ctx \<times> go_error option)
    \<Rightarrow> (('c, 'g, 'a, 't, 'k) client_ctx \<Rightarrow> 'o \<Rightarrow> 'o) \<Rightarrow> ('c option \<Rightarrow> 'o \<Rightarrow> go_error + 't) \<Rightarrow> gostring
    \<Rightarrow> 'c \<Rightarrow> 'g \<Rightarrow> 'o \<Rightarrow> 'a \<Rightarrow> go_error + ('c, 'g, 'a, 't, 'k) client_ctx" where
  "ProvideClientContext readConfig textual newTxConfig DefaultNodeHome appCodec interfaceRegistry
     txConfigOpts legacyAmino =
     (let clientCtx = empty_ctx\<lparr>ctx_Codec := Some appCodec, ctx_InterfaceRegistry := Some interfaceRegistry,
            ctx_LegacyAmino := Some legacyAmino, ctx_HomeDir := DefaultNodeHome, ctx_Viper := app_Name\<rparr>;
          clientCtx = fst (readConfig clientCtx);
          txConfigOpts = textual clientCtx txConfigOpts
      in (case newTxConfig (ctx_Codec clientCtx) txConfigOpts of
            Inl err \<Rightarrow> Inl (Panicked err)
          | Inr txConfig \<Rightarrow> Inr (clientCtx\<lparr>ctx_TxConfig := Some txConfig\<rparr>)))"

section \<open>Configuration files\<close>

text \<open>\<open>config.go\<close>: the defaults of CometBFT and of the server are used as they are.\<close>

definition initCometBFTConfig :: "'cmt \<Rightarrow> 'cmt" where
  "initCometBFTConfig DefaultConfig = (let cfg = DefaultConfig in cfg)"

record 'srv CustomAppConfig =
  CustomAppConfig_Config :: 'srv

definition initAppConfig :: "gostring \<Rightarrow> 'srv \<Rightarrow> gostring \<times> 'srv CustomAppConfig" where
  "initAppConfig DefaultConfigTemplate DefaultConfig =
     (let srvCfg = DefaultConfig;
          customAppConfig = \<lparr>CustomAppConfig_Config = srvCfg\<rparr>;
          customAppTemplate = DefaultConfigTemplate
      in (customAppTemplate, customAppConfig))"

text \<open>
  What runs before every command.  The context is the one the root command captured, and the
  command's own context is put into it; each step may fail.  The result is the captured context
  and the error, if any, of the run.
\<close>

record ('c, 'g, 'a, 't, 'k, 'srv, 'cmt) pre_run =
  ReadPersistentCommandFlags :: "('c, 'g, 'a, 't, 'k) client_ctx \<Rightarrow> go_error + ('c, 'g, 'a, 't, 'k) client_ctx"
  ReadFromClientConfig :: "('c, 'g, 'a, 't, 'k) client_ctx \<Rightarrow> go_error + ('c, 'g, 'a, 't, 'k) client_ctx"
  SetCmdClientContextHandler :: "('c, 'g, 'a, 't, 'k) client_ctx \<Rightarrow> go_error + unit"
  InterceptConfigsPreRunHandler :: "gostring \<Rightarrow> 'srv CustomAppConfig \<Rightarrow> 'cmt \<Rightarrow> go_error + unit"
  srv_Template :: gostring
  srv_Default :: 'srv
  cmt_Default :: 'cmt

definition PersistentPreRunE ::
  "('c, 'g, 'a, 't, 'k, 'srv, 'cmt) pre_run \<Rightarrow> 'k \<Rightarrow> ('c, 'g, 'a, 't, 'k) client_ctx
    \<Rightarrow> ('c, 'g, 'a, 't, 'k) client_ctx \<times> (go_error + unit)" where
  "PersistentPreRunE P cmd_Context captured =
     (let captured = captured\<lparr>ctx_CmdContext := Some cmd_Context\<rparr> in
      (captured,
       rbind (ReadPersistentCommandFlags P captured) (\<lambda>clientCtx.
       rbind (ReadFromClientConfig P clientCtx) (\<lambda>clientCtx.
       rbind (SetCmdClientContextHandler P clientCtx) (\<lambda>u.
         case initAppConfig (srv_Template P) (srv_Default P) of (customAppTemplate, customAppConfig) \<Rightarrow>
           InterceptConfigsPreRunHandler P customAppTemplate customAppConfig
             (initCometBFTConfig (cmt_Default P)))))))"

section \<open>The root command\<close>

text \<open>
  The dependency injection gives the options of the generated command line, as its modules, the
  module manager and the client context.  \<open>visited1\<close>, \<open>visited2\<close> and \<open>defaults\<close> are the orders in which
  the three maps are ranged over.
\<close>

record ('m, 'c, 'g, 'a, 't, 'k) root_env =
  Inject :: "go_error + 'm manager \<times> 'm manager \<times> ('c, 'g, 'a, 't, 'k) client_ctx"
  module_of :: "mod_name \<Rightarrow> 'm"
  CoreAppModuleBasicAdaptor :: "mod_name \<Rightarrow> 'm \<Rightarrow> 'm"
  adaptor_RegisterInterfaces :: "mod_name \<Rightarrow> 'g \<Rightarrow> 'g"
  EnhanceRootCommand :: "'m manager \<Rightarrow> command \<Rightarrow> go_error + command"

text \<open>\<open>strings.ReplaceAll(app.Name, "-", "")\<close>.\<close>

definition chain_id_default :: gostring where
  "chain_id_default = filter (\<lambda>c. c \<noteq> of_char (CHR ''-'')) app_Name"

definition flag_defaults :: "(gostring \<times> gostring) list" where
  "flag_defaults = [(FlagChainID, chain_id_default), (FlagKeyringBackend, lit ''test'')]"

definition NewRootCmd ::
  "('m, 't) cli_lib \<Rightarrow> ('m, 'c, 'g, 'a, 't, 'k) root_env \<Rightarrow> gostring \<Rightarrow> mod_name list \<Rightarrow> mod_name list
    \<Rightarrow> (gostring \<times> gostring) list \<Rightarrow> go_error + command \<times> ('c, 'g, 'a, 't, 'k) client_ctx" where
  "NewRootCmd L E DefaultNodeHome visited1 visited2 defaults =
     (case Inject E of
        Inl err \<Rightarrow> Inl (Panicked err)
      | Inr (autoCliOpts, moduleBasicManager, clientCtx) \<Rightarrow>
          let rootCmd = Command (app_Name @ lit ''d'') Map.empty Map.empty [];
              clientCtx = clientCtx\<lparr>ctx_InterfaceRegistry := map_option
                (RegisterIBC (adaptor_RegisterInterfaces E) visited1) (ctx_InterfaceRegistry clientCtx)\<rparr>;
              moduleBasicManager = fold (\<lambda>name mgr. mgr(name \<mapsto>
                CoreAppModuleBasicAdaptor E name (module_of E name))) visited2 moduleBasicManager;
              autoCliOpts = fold (\<lambda>name mgr. mgr(name \<mapsto> module_of E name)) visited2 autoCliOpts;
              rootCmd = initRootCmd L DefaultNodeHome rootCmd (ctx_TxConfig clientCtx) moduleBasicManager;
              rootCmd = overwriteFlagDefaults (set_value L) defaults rootCmd
          in (case EnhanceRootCommand E autoCliOpts rootCmd of
                Inl err \<Rightarrow> Inl (Panicked err)
              | Inr rootCmd \<Rightarrow> Inr (rootCmd, clientCtx)))"

text \<open>
  \<open>main\<close>: the program returns, exits with a code after printing the error, or ends in a panic.
  \<open>execute\<close> runs the root command with the prefix of the environment variables, which \<open>app.go\<close>
  sets to the name of the application, and the home directory.
\<close>

datatype program_end = Returned | Exited int gostring | Crashed go_error

definition main ::
  "(command \<Rightarrow> gostring \<Rightarrow> gostring \<Rightarrow> gostring option) \<Rightarrow> ('m, 't) cli_lib
    \<Rightarrow> ('m, 'c, 'g, 'a, 't, 'k) root_env \<Rightarrow> gostring \<Rightarrow> mod_name list \<Rightarrow> mod_name list
    \<Rightarrow> (gostring \<times> gostring) list \<Rightarrow> program_end" where
  "main execute L E DefaultNodeHome visited1 visited2 defaults =
     (case NewRootCmd L E DefaultNodeHome visited1 visited2 defaults of
        Inl err \<Rightarrow> Crashed err
      | Inr (rootCmd, clientCtx) \<Rightarrow>
          (case execute rootCmd app_Name DefaultNodeHome of
             None \<Rightarrow> Returned
           | Some err \<Rightarrow> Exited 1 err))"

section \<open>Address prefixes\<close>

text \<open>\<open>init\<close> of \<open>app/config.go\<close>, as the calls it makes on the configuration of the SDK.\<close>

datatype config_call =
    SetBech32PrefixForAccount gostring gostring
  | SetBech32PrefixForValidator gostring gostring
  | SetBech32PrefixForConsensusNode gostring gostring
  | Seal

definition config_init :: "config_call list" where
  "config_init =
     (let accountPubKeyPrefix = AccountAddressPrefix @ lit ''pub'';
          validatorAddressPrefix = AccountAddressPrefix @ lit ''valoper'';
          validatorPubKeyPrefix = AccountAddressPrefix @ lit ''valoperpub'';
          consNodeAddressPrefix = AccountAddressPrefix @ lit ''valcons'';
          consNodePubKeyPrefix = AccountAddressPrefix @ lit ''valconspub''
      in [SetBech32PrefixForAccount AccountAddressPrefix accountPubKeyPrefix,
          SetBech32PrefixForValidator validatorAddressPrefix validatorPubKeyPrefix,
          SetBech32PrefixForConsensusNode consNodeAddressPrefix consNodePubKeyPrefix,
          Seal])"

fun call_prefixes :: "config_call \<Rightarrow> gostring list" where
  "call_prefixes (SetBech32PrefixForAccount a p) = [a, p]"
| "call_prefixes (SetBech32PrefixForValidator a p) = [a, p]"
| "call_prefixes (SetBech32PrefixForConsensusNode a p) = [a, p]"
| "call_prefixes Seal = []"

section \<open>Properties\<close>

text \<open>Maps filled from a list do not depend on its order.\<close>

lemma fold_names_upd:
  "fold (\<lambda>name mgr. mgr(name \<mapsto> f name)) names m x = (if x \<in> set names then Some (f x) else m x)"
  by (induction names arbitrary: m) auto

lemma flag_defaults_distinct: "distinct (map fst flag_defaults)"
  by (simp add: flag_defaults_def FlagChainID_def FlagKeyringBackend_def lit_def)

lemma chain_id_default_eq: "chain_id_default = lit ''medasdigital''"
  by (simp add: chain_id_default_def app_Name_def lit_def)


lemma overwrite_order:
  assumes "distinct (map fst ds)" and "distinct (map fst es)" and "set ds = set es"
  shows "overwriteFlagDefaults sv ds c = overwriteFlagDefaults sv es c"
proof -
  have m: "map_of ds = map_of es"
    using assms by (simp add: map_of_inject_set)
  have f: "fold (set_default sv) ds s = fold (set_default sv) es s" for s
  proof
    have "defaulted sv ds x = defaulted sv es x" for x
      by (rule ext) (simp add: defaulted_def m)
    then show "fold (set_default sv) ds s x = fold (set_default sv) es s x" for x
      by (simp add: fold_set_default [OF assms(1)] fold_set_default [OF assms(2)])
  qed
  show ?thesis
    by (induction c) (auto simp: f)
qed

lemma defaulted_flags:
  assumes "\<And>f v. DefValue (sv f v) = DefValue f"
    and "(n, f) \<in> all_flags (overwriteFlagDefaults sv flag_defaults c)"
  shows "n = FlagChainID \<Longrightarrow> DefValue f = lit ''medasdigital''"
    and "n = FlagKeyringBackend \<Longrightarrow> DefValue f = lit ''test''"
proof -
  have ne: "FlagChainID \<noteq> FlagKeyringBackend"
    by (simp add: FlagChainID_def FlagKeyringBackend_def lit_def)
  obtain f0 where "f = defaulted sv flag_defaults n f0"
    using assms(2) unfolding overwriteFlagDefaults_correct [OF flag_defaults_distinct] by auto
  then show "n = FlagChainID \<Longrightarrow> DefValue f = lit ''medasdigital''"
    "n = FlagKeyringBackend \<Longrightarrow> DefValue f = lit ''test''"
    using ne by (auto simp: defaulted_def flag_defaults_def assms(1) chain_id_default_eq)
qed



definition sample_lib :: "(unit, unit) cli_lib" where
  "sample_lib =
     (let c = Command [] Map.empty [lit ''chain-id'' \<mapsto> \<lparr>DefValue = [], flag_Value = []\<rparr>] [] in
      \<lparr>lib_command = (\<lambda>l. c), genutil_InitCmd = (\<lambda>m h. c), genutil_Commands = (\<lambda>t m h. c),
       InPlaceTestnetCreator = c, pruning_Cmd = (\<lambda>h. c), server_AddCommands = (\<lambda>h f c. c),
       crisis_AddModuleInitFlags = (\<lambda>c. c), wasm_AddModuleInitFlags = (\<lambda>c. c),
       ExtendUnsafeResetAllCmd = (\<lambda>c. c), new_flag = (\<lambda>d. \<lparr>DefValue = d, flag_Value = d\<rparr>),
       set_value = (\<lambda>f v. f\<lparr>flag_Value := v\<rparr>)\<rparr>)"

definition sample_root_env :: "(unit, unit, unit, unit, unit, unit) root_env" where
  "sample_root_env = \<lparr>Inject = Inr (Map.empty, Map.empty, empty_ctx), module_of = (\<lambda>m. ()),
     CoreAppModuleBasicAdaptor = (\<lambda>m b. b), adaptor_RegisterInterfaces = (\<lambda>m g. g),
     EnhanceRootCommand = (\<lambda>mods c. Inr c)\<rparr>"


text \<open>
  The address prefixes.  The six prefixes the application sets differ from each other, so no
  address or key reads as one of another kind; the configuration is sealed last and once; and the
  prefixes of accounts, validators and consensus nodes are those the auth and staking modules are
  configured with.
\<close>

theorem address_prefixes_consistent:
  "distinct (concat (map call_prefixes config_init)) \<and> length (concat (map call_prefixes config_init)) = 6
    \<and> (\<exists>calls. config_init = calls @ [Seal] \<and> Seal \<notin> set calls)
    \<and> (\<exists>acc accpub val valpub cons conspub perms.
        config_init = [SetBech32PrefixForAccount acc accpub, SetBech32PrefixForValidator val valpub,
          SetBech32PrefixForConsensusNode cons conspub, Seal]
      \<and> map_of appConfig M_auth = Some (AuthConfig acc perms)
      \<and> map_of appConfig M_staking = Some (StakingConfig val cons))"
proof (intro conjI)
  have c: "config_init = [SetBech32PrefixForAccount (lit ''medas'') (lit ''medaspub''),
      SetBech32PrefixForValidator (lit ''medasvaloper'') (lit ''medasvaloperpub''),
      SetBech32PrefixForConsensusNode (lit ''medasvalcons'') (lit ''medasvalconspub''), Seal]"
    by (simp add: config_init_def AccountAddressPrefix_def lit_def)
  show "distinct (concat (map call_prefixes config_init))" "length (concat (map call_prefixes config_init)) = 6"
    unfolding c by (simp_all add: lit_def)
  show "\<exists>calls. config_init = calls @ [Seal] \<and> Seal \<notin> set calls"
    unfolding c by (rule exI [of _ "butlast config_init"]) (simp add: c)
  show "\<exists>acc accpub val valpub cons conspub perms.
      config_init = [SetBech32PrefixForAccount acc accpub, SetBech32PrefixForValidator val valpub,
        SetBech32PrefixForConsensusNode cons conspub, Seal]
    \<and> map_of appConfig M_auth = Some (AuthConfig acc perms)
    \<and> map_of appConfig M_staking = Some (StakingConfig val cons)"
    by (simp add: appConfig_def config_init_def Let_def)
qed

end
