(* ===== verification/Cmd_AutoCli.thy ===== *)
theory Cmd_AutoCli
  imports Medas_Gateway Api_Tx Api_Query Api_Medas
begin

text \<open>
  The descriptions the command line is generated from, \<open>AutoCLIOptions\<close> in \<open>module/autocli.go\<close> of
  both modules, and the service descriptions of the API package they refer to
  (\<open>api/**/*_grpc.pb.go\<close>).
\<close>

section \<open>Service descriptions of the API package\<close>

text \<open>The name of a service and of its methods.\<close>

record api_service =
  api_ServiceName :: string
  api_Methods :: "string list"

definition Api_Query_ServiceDesc :: api_service where
  "Api_Query_ServiceDesc = \<lparr>api_ServiceName = ''medasdigital.tokenfactory.Query'',
     api_Methods = [''Params'', ''Denom'', ''DenomAll'']\<rparr>"

definition Api_Msg_ServiceDesc :: api_service where
  "Api_Msg_ServiceDesc = \<lparr>api_ServiceName = ''medasdigital.tokenfactory.Msg'',
     api_Methods = [''UpdateParams'', ''CreateDenom'', ''UpdateDenom'', ''DeleteDenom'']\<rparr>"

definition Api_Medas_Query_ServiceDesc :: api_service where
  "Api_Medas_Query_ServiceDesc = \<lparr>api_ServiceName = ''medasdigital.medasdigital.Query'',
     api_Methods = [''Params'']\<rparr>"

definition Api_Medas_Msg_ServiceDesc :: api_service where
  "Api_Medas_Msg_ServiceDesc = \<lparr>api_ServiceName = ''medasdigital.medasdigital.Msg'',
     api_Methods = [''UpdateParams'']\<rparr>"

section \<open>Options\<close>

record rpc_options =
  RpcMethod :: string
  Use :: string
  Short :: string
  Skip :: bool
  PositionalArgs :: "string list"

record service_options =
  Service :: string
  EnhanceCustomCommand :: bool
  RpcCommandOptions :: "rpc_options list"

record module_options =
  Options_Query :: service_options
  Options_Tx :: service_options

text \<open>A command for a method, and a method without one.\<close>

definition rpc_command :: "string \<Rightarrow> string \<Rightarrow> string \<Rightarrow> string list \<Rightarrow> rpc_options" where
  "rpc_command rpc use short args = \<lparr>RpcMethod = rpc, Use = use, Short = short, Skip = False,
     PositionalArgs = args\<rparr>"

definition rpc_skipped :: "string \<Rightarrow> rpc_options" where
  "rpc_skipped rpc = \<lparr>RpcMethod = rpc, Use = '''', Short = '''', Skip = True, PositionalArgs = []\<rparr>"

definition AutoCLIOptions :: "'s AppModule \<Rightarrow> module_options" where
  "AutoCLIOptions am = \<lparr>
     Options_Query = \<lparr>Service = api_ServiceName Api_Query_ServiceDesc, EnhanceCustomCommand = False,
       RpcCommandOptions =
         [rpc_command ''Params'' ''params'' ''Shows the parameters of the module'' [],
          rpc_command ''DenomAll'' ''list-denom'' ''List all Denom'' [],
          rpc_command ''Denom'' ''show-denom [id]'' ''Shows a Denom'' [''denom'']]\<rparr>,
     Options_Tx = \<lparr>Service = api_ServiceName Api_Msg_ServiceDesc, EnhanceCustomCommand = True,
       RpcCommandOptions =
         [rpc_skipped ''UpdateParams'',
          rpc_command ''CreateDenom''
            ''create-denom [denom] [description] [ticker] [precision] [url] [maxSupply] [supply] [canChangeMaxSupply]''
            ''Create a new Denom''
            [''denom'', ''description'', ''ticker'', ''precision'', ''url'', ''maxSupply'', ''supply'',
             ''canChangeMaxSupply''],
          rpc_command ''UpdateDenom''
            ''update-denom [denom] [description] [ticker] [precision] [url] [maxSupply] [supply] [canChangeMaxSupply]''
            ''Update Denom''
            [''denom'', ''description'', ''ticker'', ''precision'', ''url'', ''maxSupply'', ''supply'',
             ''canChangeMaxSupply''],
          rpc_command ''DeleteDenom'' ''delete-denom [denom]'' ''Delete Denom'' [''denom'']]\<rparr>\<rparr>"

definition Medas_AutoCLIOptions :: "'s MedasAppModule \<Rightarrow> module_options" where
  "Medas_AutoCLIOptions am = \<lparr>
     Options_Query = \<lparr>Service = api_ServiceName Api_Medas_Query_ServiceDesc,
       EnhanceCustomCommand = False,
       RpcCommandOptions =
         [rpc_command ''Params'' ''params'' ''Shows the parameters of the module'' []]\<rparr>,
     Options_Tx = \<lparr>Service = api_ServiceName Api_Medas_Msg_ServiceDesc, EnhanceCustomCommand = True,
       RpcCommandOptions = [rpc_skipped ''UpdateParams'']\<rparr>\<rparr>"

section \<open>Properties\<close>

text \<open>A service is covered: its name, and every method described exactly once.\<close>

definition covers :: "service_options \<Rightarrow> api_service \<Rightarrow> bool" where
  "covers opts sd \<longleftrightarrow> Service opts = api_ServiceName sd
     \<and> distinct (map RpcMethod (RpcCommandOptions opts))
     \<and> set (map RpcMethod (RpcCommandOptions opts)) = set (api_Methods sd)"

text \<open>
  The description of the service the chain registers, and that of the API package, agree: the same
  name and the same methods, in the same order.
\<close>

definition same_service :: "'h ServiceDesc \<Rightarrow> api_service \<Rightarrow> bool" where
  "same_service sd api \<longleftrightarrow> ServiceName sd = lit (api_ServiceName api)
     \<and> map fst (Methods sd) = map lit (api_Methods api)"

text \<open>The fields of the request of a method in the order of their numbers, and the signer.\<close>

definition tx_fields :: "string \<Rightarrow> (string \<times> string list) option" where
  "tx_fields rpc =
     (if rpc = ''CreateDenom'' then Some (''owner'', map fst ApiMsgCreateDenom_refl)
      else if rpc = ''UpdateDenom'' then Some (''owner'', map fst ApiMsgUpdateDenom_refl)
      else if rpc = ''DeleteDenom'' then Some (''owner'', map fst ApiMsgDeleteDenom_refl)
      else if rpc = ''UpdateParams'' then Some (''authority'', map fst ApiMsgUpdateParams_refl)
      else None)"

fun usage :: "string list \<Rightarrow> string" where
  "usage [] = ''''"
| "usage (a # as) = '' ['' @ a @ '']'' @ usage as"

text \<open>The name of a command: its \<open>Use\<close> up to the first space.\<close>

definition command_name :: "rpc_options \<Rightarrow> string" where
  "command_name opt = takeWhile (\<lambda>c. c \<noteq> CHR '' '') (Use opt)"

definition tx_command_ok :: "rpc_options \<Rightarrow> bool" where
  "tx_command_ok opt \<longleftrightarrow>
     (case tx_fields (RpcMethod opt) of
        None \<Rightarrow> False
      | Some (sender, fs) \<Rightarrow>
          if sender = ''authority'' then Skip opt
          else \<not> Skip opt \<and> PositionalArgs opt = filter (\<lambda>f. f \<noteq> sender) fs
            \<and> Use opt = command_name opt @ usage (PositionalArgs opt))"

definition commands :: "service_options \<Rightarrow> string list" where
  "commands opts = map command_name (filter (\<lambda>opt. \<not> Skip opt) (RpcCommandOptions opts))"

lemmas api_service_defs = Api_Query_ServiceDesc_def Api_Msg_ServiceDesc_def
  Api_Medas_Query_ServiceDesc_def Api_Medas_Msg_ServiceDesc_def

lemma services_covered:
  "covers (Options_Query (AutoCLIOptions am)) Api_Query_ServiceDesc"
  "covers (Options_Tx (AutoCLIOptions am)) Api_Msg_ServiceDesc"
  "covers (Options_Query (Medas_AutoCLIOptions mam)) Api_Medas_Query_ServiceDesc"
  "covers (Options_Tx (Medas_AutoCLIOptions mam)) Api_Medas_Msg_ServiceDesc"
  by (simp_all add: covers_def AutoCLIOptions_def Medas_AutoCLIOptions_def api_service_defs
      rpc_command_def rpc_skipped_def insert_commute)

lemma services_same:
  "same_service Query_serviceDesc Api_Query_ServiceDesc"
  "same_service Msg_serviceDesc Api_Msg_ServiceDesc"
  "same_service Medas_Query_serviceDesc Api_Medas_Query_ServiceDesc"
  "same_service Medas_Msg_serviceDesc Api_Medas_Msg_ServiceDesc"
  by (simp_all add: same_service_def Query_serviceDesc_def Msg_serviceDesc_def
      Medas_Query_serviceDesc_def Medas_Msg_serviceDesc_def api_service_defs)

lemma tx_field_names:
  "map fst ApiMsgCreateDenom_refl = [''owner'', ''denom'', ''description'', ''ticker'', ''precision'',
    ''url'', ''maxSupply'', ''supply'', ''canChangeMaxSupply'']"
  "map fst ApiMsgUpdateDenom_refl = [''owner'', ''denom'', ''description'', ''ticker'', ''precision'',
    ''url'', ''maxSupply'', ''supply'', ''canChangeMaxSupply'']"
  "map fst ApiMsgDeleteDenom_refl = [''owner'', ''denom'']"
  by (simp_all add: ApiMsgCreateDenom_refl_def ApiMsgUpdateDenom_refl_def ApiMsgDeleteDenom_refl_def)

lemma tx_commands_ok: "opt \<in> set (RpcCommandOptions (Options_Tx (AutoCLIOptions am))) \<Longrightarrow> tx_command_ok opt"
  by (auto simp: AutoCLIOptions_def tx_command_ok_def tx_fields_def tx_field_names rpc_command_def
      rpc_skipped_def command_name_def)

lemma command_names:
  "commands (Options_Query (AutoCLIOptions am)) = [''params'', ''list-denom'', ''show-denom'']"
  "commands (Options_Tx (AutoCLIOptions am)) = [''create-denom'', ''update-denom'', ''delete-denom'']"
  by (simp_all add: commands_def command_name_def AutoCLIOptions_def rpc_command_def rpc_skipped_def)



end
