(* ===== verification/App_Api.thy ===== *)
theory App_Api
  imports App_Start Cmd_Root
begin

text \<open>
  What the application shows to the outside (\<open>app/app.go\<close>): its package variables, the
  configuration it is injected from, its accessors and the routes of its API server, with the
  OpenAPI pages of \<open>docs/docs.go\<close>.
\<close>

section \<open>Package variables and configuration\<close>

text \<open>\<open>init\<close>: the prefix of the environment variables and the home directory of a node.\<close>

definition app_init :: "(gostring \<Rightarrow> gostring + gostring) \<Rightarrow> go_error + gostring \<times> gostring" where
  "app_init getNodeHomeDirectory =
     (let envPrefix = app_Name in
      (case getNodeHomeDirectory (lit ''.'' @ app_Name) of
         Inl err \<Rightarrow> Inl (Panicked (Errorf err))
       | Inr home \<Rightarrow> Inr (envPrefix, home)))"

text \<open>
  \<open>AppConfig\<close>: the modules of the configuration, and the module basics that are supplied, of the
  genesis utilities and of governance, which gets the proposal handlers.
\<close>

datatype proposal_handler = ParamsProposalHandler

datatype module_basic = GenutilBasic | GovBasic "proposal_handler list"

definition getGovProposalHandlers :: "proposal_handler list" where
  "getGovProposalHandlers = (let govProposalHandlers = [] in govProposalHandlers @ [ParamsProposalHandler])"

definition AppConfig :: "(mod_name \<times> module_config) list \<times> (mod_name \<rightharpoonup> module_basic)" where
  "AppConfig = (appConfig, [M_genutil \<mapsto> GenutilBasic, M_gov \<mapsto> GovBasic getGovProposalHandlers])"

section \<open>Accessors\<close>

text \<open>The fields the accessors return.\<close>

record ('c, 'g, 'a, 't, 'ibc, 'sm) App =
  app_legacyAmino :: 'a
  app_appCodec :: 'c
  app_txConfig :: 't
  app_interfaceRegistry :: 'g
  app_IBCKeeper :: 'ibc
  app_sm :: 'sm

definition App_LegacyAmino :: "('c, 'g, 'a, 't, 'ibc, 'sm) App \<Rightarrow> 'a" where
  "App_LegacyAmino app = app_legacyAmino app"

definition App_AppCodec :: "('c, 'g, 'a, 't, 'ibc, 'sm) App \<Rightarrow> 'c" where
  "App_AppCodec app = app_appCodec app"

definition App_InterfaceRegistry :: "('c, 'g, 'a, 't, 'ibc, 'sm) App \<Rightarrow> 'g" where
  "App_InterfaceRegistry app = app_interfaceRegistry app"

definition App_TxConfig :: "('c, 'g, 'a, 't, 'ibc, 'sm) App \<Rightarrow> 't" where
  "App_TxConfig app = app_txConfig app"

definition App_GetIBCKeeper :: "('c, 'g, 'a, 't, 'ibc, 'sm) App \<Rightarrow> 'ibc" where
  "App_GetIBCKeeper app = app_IBCKeeper app"

definition App_SimulationManager :: "('c, 'g, 'a, 't, 'ibc, 'sm) App \<Rightarrow> 'sm" where
  "App_SimulationManager app = app_sm app"

section \<open>Routes\<close>

text \<open>
  A router is the list of its routes.  The console page is the template, parsed when the route is
  registered, run on the title and the path of the specification; \<open>parseFS\<close> and \<open>execute\<close> are the
  template library, whose errors are dropped.  Running a template that did not parse is running a
  nil pointer.
\<close>

datatype 'page http_handler = FileServer gostring | PageHandler "go_error + 'page"

type_synonym 'page router = "(gostring \<times> 'page http_handler) list"

definition apiFile :: gostring where
  "apiFile = lit ''/static/openapi.yml''"

definition indexFile :: gostring where
  "indexFile = lit ''template/index.tpl''"

definition docs_handler ::
  "(gostring \<Rightarrow> gostring + 't) \<Rightarrow> ('t \<Rightarrow> gostring \<Rightarrow> gostring \<Rightarrow> 'page) \<Rightarrow> gostring \<Rightarrow> 'page http_handler" where
  "docs_handler parseFS execute title =
     PageHandler (case parseFS indexFile of
        Inl err \<Rightarrow> Inl (GoPanic (lit ''nil pointer dereference''))
      | Inr t \<Rightarrow> Inr (execute t title apiFile))"

definition RegisterOpenAPIService ::
  "(gostring \<Rightarrow> gostring + 't) \<Rightarrow> ('t \<Rightarrow> gostring \<Rightarrow> gostring \<Rightarrow> 'page) \<Rightarrow> gostring \<Rightarrow> 'page router
    \<Rightarrow> 'page router" where
  "RegisterOpenAPIService parseFS execute appName rtr =
     rtr @ [(apiFile, FileServer (lit ''static'')), (lit ''/'', docs_handler parseFS execute appName)]"

text \<open>
  \<open>RegisterAPIRoutes\<close>: the routes of the modules, those of the Swagger pages, which may fail, and
  the OpenAPI service.
\<close>

definition RegisterAPIRoutes ::
  "('page router \<Rightarrow> 'page router) \<Rightarrow> ('page router \<Rightarrow> gostring + 'page router)
    \<Rightarrow> (gostring \<Rightarrow> gostring + 't) \<Rightarrow> ('t \<Rightarrow> gostring \<Rightarrow> gostring \<Rightarrow> 'page)
    \<Rightarrow> 'page router \<Rightarrow> go_error + 'page router" where
  "RegisterAPIRoutes runtimeRoutes registerSwaggerAPI parseFS execute rtr =
     (let rtr = runtimeRoutes rtr in
      (case registerSwaggerAPI rtr of
         Inl err \<Rightarrow> Inl (Panicked (Errorf err))
       | Inr rtr \<Rightarrow> Inr (RegisterOpenAPIService parseFS execute app_Name rtr)))"

text \<open>The modules that are supplied are those of the configuration with the same names.\<close>

lemma AppConfig_basics: "dom (snd AppConfig) \<subseteq> fst ` set (fst AppConfig)"
  by (auto simp: AppConfig_def appConfig_def)

text \<open>The console is served at the root under the name of the application, when its template parses.\<close>

lemma RegisterAPIRoutes_console:
  assumes "registerSwaggerAPI (runtimeRoutes rtr) = Inr rtr'" and "parseFS indexFile = Inr t"
  shows "\<exists>routes. RegisterAPIRoutes runtimeRoutes registerSwaggerAPI parseFS execute rtr = Inr routes
    \<and> last routes = (lit ''/'', PageHandler (Inr (execute t (lit ''medasdigital'') apiFile)))"
  using assms by (simp add: RegisterAPIRoutes_def RegisterOpenAPIService_def docs_handler_def app_Name_def)

end
