(* ===== verification/Test_Support.thy ===== *)
theory Test_Support
  imports TF_Module Medas_App_Module
begin

text \<open>
  The helpers of the tests, \<open>testutil/\<close>: the keepers on a fresh store (\<open>keeper/\<close>), a sample
  address (\<open>sample/\<close>), the filling of values for comparisons (\<open>nullify/\<close>) and the configuration of
  a test network (\<open>network/\<close>).
\<close>

section \<open>Keepers\<close>

text \<open>
  \<open>TokenfactoryKeeper\<close> and \<open>MedasdigitalKeeper\<close>: \<open>load\<close> mounts the store on an empty database and
  loads it; a failure is a failure of the test.
\<close>

definition TokenfactoryKeeper ::
  "addresses \<Rightarrow> codec \<Rightarrow> 's kv \<Rightarrow> gostring + 's \<Rightarrow> go_error + 's Keeper \<times> 's" where
  "TokenfactoryKeeper A cdc storeService load =
     (case load of
        Inl err \<Rightarrow> Inl (Errorf err)
      | Inr s \<Rightarrow>
          let authority = NewModuleAddress A (lit ''gov'') in
          rbind (NewKeeper (FromBech32 A) cdc storeService (AddrString A authority)) (\<lambda>k.
            case SetParams k s DefaultParams of
              Inl err \<Rightarrow> Inl (Panicked err)
            | Inr s' \<Rightarrow> Inr (k, s')))"

definition MedasdigitalKeeper ::
  "addresses \<Rightarrow> medas_codec \<Rightarrow> 's kv \<Rightarrow> gostring + 's \<Rightarrow> go_error + 's MedasKeeper \<times> 's" where
  "MedasdigitalKeeper A cdc storeService load =
     (case load of
        Inl err \<Rightarrow> Inl (Errorf err)
      | Inr s \<Rightarrow>
          let authority = NewModuleAddress A (lit ''gov'') in
          rbind (Medas_NewKeeper (FromBech32 A) cdc storeService (AddrString A authority)) (\<lambda>k.
            case Medas_SetParams k s Medas_DefaultParams of
              Inl err \<Rightarrow> Inl (Panicked err)
            | Inr s' \<Rightarrow> Inr (k, s')))"

text \<open>\<open>sample.AccAddress\<close>, for the bytes of the address of a new key.\<close>

definition sample_AccAddress :: "addresses \<Rightarrow> bytes \<Rightarrow> gostring" where
  "sample_AccAddress A addr = AddrString A addr"

section \<open>Filling values\<close>

text \<open>
  Go values as reflection sees them: a slice, nil or with elements; a struct with its type and, per
  field, whether the field is exported; a pointer; anything else.
\<close>

datatype go_value =
    GoSlice "go_value list option"
  | GoStruct string "(bool \<times> go_value) list"
  | GoPointer "go_value option"
  | GoOther

datatype fill_panic = SetMismatch | ZeroInterface

text \<open>The value of a struct type with the fields of the given value, all zero.\<close>

fun zero_of :: "go_value \<Rightarrow> go_value" where
  "zero_of (GoSlice es) = GoSlice None"
| "zero_of (GoStruct t fs) = GoStruct t (map (\<lambda>(e, f). (e, zero_of f)) fs)"
| "zero_of (GoPointer p) = GoPointer None"
| "zero_of GoOther = GoOther"

text \<open>
  \<open>Fill\<close>, after the indirection at its start; the flag tells whether the fields of the value can be
  set, that is, whether it was reached through a pointer.  A field is taken through one pointer,
  and what a pointer leads to can be set.  Elements of a slice are filled through their address;
  an element that is a pointer comes back as what it points to, which cannot be stored.  The type
  of coins is a slice, so its case for structs never applies.
\<close>

fun fill :: "bool \<Rightarrow> go_value \<Rightarrow> fill_panic + go_value"
  and fill_elems :: "go_value list \<Rightarrow> fill_panic + go_value list"
  and fill_fields :: "bool \<Rightarrow> (bool \<times> go_value) list \<Rightarrow> fill_panic + (bool \<times> go_value) list"
  and fill_field :: "bool \<Rightarrow> go_value \<Rightarrow> fill_panic + go_value" where
  "fill a (GoSlice None) = Inr (GoSlice None)"
| "fill a (GoSlice (Some es)) = rbind (fill_elems es) (\<lambda>es'. Inr (GoSlice (Some es')))"
| "fill a (GoStruct t fs) = rbind (fill_fields a fs) (\<lambda>fs'. Inr (GoStruct t fs'))"
| "fill a (GoPointer None) = Inl ZeroInterface"
| "fill a (GoPointer (Some v)) = Inr v"
| "fill a GoOther = Inr GoOther"
| "fill_elems [] = Inr []"
| "fill_elems (GoPointer None # vs) = Inl ZeroInterface"
| "fill_elems (GoPointer (Some w) # vs) = Inl SetMismatch"
| "fill_elems (GoSlice es # vs) =
     rbind (fill True (GoSlice es)) (\<lambda>v'. rbind (fill_elems vs) (\<lambda>vs'. Inr (v' # vs')))"
| "fill_elems (GoStruct t fs # vs) =
     rbind (fill True (GoStruct t fs)) (\<lambda>v'. rbind (fill_elems vs) (\<lambda>vs'. Inr (v' # vs')))"
| "fill_elems (GoOther # vs) = rbind (fill_elems vs) (\<lambda>vs'. Inr (GoOther # vs'))"
| "fill_fields a [] = Inr []"
| "fill_fields a ((e, GoPointer None) # fs) =
     rbind (fill_fields a fs) (\<lambda>fs'. Inr ((e, GoPointer None) # fs'))"
| "fill_fields a ((e, GoPointer (Some w)) # fs) =
     rbind (fill_field e w) (\<lambda>w'. rbind (fill_fields a fs) (\<lambda>fs'. Inr ((e, GoPointer (Some w')) # fs')))"
| "fill_fields a ((e, GoSlice es) # fs) =
     rbind (fill_field (e \<and> a) (GoSlice es)) (\<lambda>v'. rbind (fill_fields a fs) (\<lambda>fs'. Inr ((e, v') # fs')))"
| "fill_fields a ((e, GoStruct t gs) # fs) =
     rbind (fill_field (e \<and> a) (GoStruct t gs)) (\<lambda>v'. rbind (fill_fields a fs) (\<lambda>fs'. Inr ((e, v') # fs')))"
| "fill_fields a ((e, GoOther) # fs) = rbind (fill_fields a fs) (\<lambda>fs'. Inr ((e, GoOther) # fs'))"
| "fill_field s (GoSlice es) = Inr (if s then GoSlice (Some []) else GoSlice es)"
| "fill_field s (GoStruct t gs) =
     (if \<not> s then Inr (GoStruct t gs)
      else if t = ''Coin'' then Inr (zero_of (GoStruct t gs))
      else rbind (fill_fields True gs) (\<lambda>gs'. Inr (GoStruct t gs')))"
| "fill_field s (GoPointer p) = Inr (GoPointer p)"
| "fill_field s GoOther = Inr GoOther"

text \<open>\<open>Fill x\<close>: of a value as it is, or of what a pointer points to.\<close>

fun nullify_Fill :: "go_value \<Rightarrow> fill_panic + go_value" where
  "nullify_Fill (GoPointer None) = Inl ZeroInterface"
| "nullify_Fill (GoPointer (Some v)) = fill True v"
| "nullify_Fill v = fill False v"

text \<open>
  A value is filled when no field that can be set is a nil slice or has elements, in the structs
  that \<open>Fill\<close> goes into.
\<close>

fun filled_fields :: "(bool \<times> go_value) list \<Rightarrow> bool"
  and filled_field :: "go_value \<Rightarrow> bool" where
  "filled_fields [] \<longleftrightarrow> True"
| "filled_fields ((e, v) # fs) \<longleftrightarrow> (e \<longrightarrow> filled_field v) \<and> filled_fields fs"
| "filled_field (GoSlice es) \<longleftrightarrow> es = Some []"
| "filled_field (GoStruct t gs) \<longleftrightarrow> t = ''Coin'' \<or> filled_fields gs"
| "filled_field (GoPointer (Some (GoSlice es))) \<longleftrightarrow> es = Some []"
| "filled_field (GoPointer (Some (GoStruct t gs))) \<longleftrightarrow> t = ''Coin'' \<or> filled_fields gs"
| "filled_field (GoPointer p) \<longleftrightarrow> True"
| "filled_field GoOther \<longleftrightarrow> True"

lemma fill_filled:
  "fill a v = Inr v' \<Longrightarrow> True"
  "fill_elems vs = Inr vs' \<Longrightarrow> True"
  "fill_fields a fs = Inr fs' \<Longrightarrow> a \<Longrightarrow> filled_fields fs'"
  "fill_field s v = Inr v' \<Longrightarrow> s \<Longrightarrow> (\<forall>p. v \<noteq> GoPointer p) \<Longrightarrow>
    filled_field v' \<and> (\<forall>p. v' \<noteq> GoPointer p) \<and> filled_field (GoPointer (Some v'))"
proof (induction a v and vs and a fs and s v arbitrary: v' and vs' and fs' and v'
    rule: fill_fill_elems_fill_fields_fill_field.induct)
qed (auto simp: rbind_eq_Inr split: if_splits, case_tac w, auto)

text \<open>On what it has filled, \<open>Fill\<close> does nothing more.\<close>

lemma zero_idem [simp]: "zero_of (zero_of v) = zero_of v"
  by (induction v) auto

lemma fill_again:
  "fill a v = Inr v' \<Longrightarrow> (\<forall>p. v \<noteq> GoPointer p) \<Longrightarrow> fill a v' = Inr v'"
  "fill_elems vs = Inr vs' \<Longrightarrow> fill_elems vs' = Inr vs'"
  "fill_fields a fs = Inr fs' \<Longrightarrow> fill_fields a fs' = Inr fs'"
  "fill_field s v = Inr v' \<Longrightarrow> fill_field s v' = Inr v'"
proof (induction a v and vs and a fs and s v arbitrary: v' and vs' and fs' and v'
    rule: fill_fill_elems_fill_fields_fill_field.induct)
qed (auto simp: rbind_eq_Inr split: if_splits, case_tac es, auto simp: rbind_eq_Inr)


text \<open>
  What \<open>Fill\<close> gives for a pointer to a struct: every field that can be set is an empty slice
  where it is a slice, however deep the structs nest, nil slices included; and filling again
  changes nothing.
\<close>

theorem nullify_Fill_correct:
  assumes "nullify_Fill (GoPointer (Some (GoStruct t fs))) = Inr v"
  shows "\<exists>fs'. v = GoStruct t fs' \<and> filled_fields fs' \<and> nullify_Fill (GoPointer (Some v)) = Inr v"
  using assms fill_filled(3) [of True fs] fill_again(3) [of True fs] by (auto simp: rbind_eq_Inr)

theorem nullify_Fill_correct_witness:
  "\<exists>v. nullify_Fill (GoPointer (Some (GoStruct ''T'' [(True, GoSlice None), (False, GoSlice None)]))) = Inr v
    \<and> v = GoStruct ''T'' [(True, GoSlice (Some [])), (False, GoSlice None)]
    \<and> nullify_Fill (GoPointer (Some v)) = Inr v"
  using nullify_Fill_correct [of "''T''" "[(True, GoSlice None), (False, GoSlice None)]"] by auto

section \<open>The test network\<close>

text \<open>
  \<open>freePorts\<close>: \<open>FreeTCPAddr\<close> opens a listener, gives its port and a function that closes it.  The
  state is the set of ports in use; the first loop opens, the second closes.
\<close>

type_synonym ports = "gostring set"

fun open_ports :: "(ports \<Rightarrow> gostring + gostring) \<Rightarrow> nat \<Rightarrow> ports \<Rightarrow> (gostring + gostring list) \<times> ports" where
  "open_ports freeTCPAddr 0 held = (Inr [], held)"
| "open_ports freeTCPAddr (Suc n) held =
     (case freeTCPAddr held of
        Inl err \<Rightarrow> (Inl err, held)
      | Inr port \<Rightarrow>
          (case open_ports freeTCPAddr n (insert port held) of
             (Inl err, held') \<Rightarrow> (Inl err, held')
           | (Inr ports, held') \<Rightarrow> (Inr (port # ports), held')))"

fun close_ports :: "(gostring \<Rightarrow> gostring option) \<Rightarrow> gostring list \<Rightarrow> ports \<Rightarrow> gostring option \<times> ports" where
  "close_ports closeFn [] held = (None, held)"
| "close_ports closeFn (port # ports) held =
     (case closeFn port of
        Some err \<Rightarrow> (Some err, held)
      | None \<Rightarrow> close_ports closeFn ports (held - {port}))"

definition freePorts ::
  "(ports \<Rightarrow> gostring + gostring) \<Rightarrow> (gostring \<Rightarrow> gostring option) \<Rightarrow> nat \<Rightarrow> ports
    \<Rightarrow> (gostring + gostring list) \<times> ports" where
  "freePorts freeTCPAddr closeFn n held =
     (case open_ports freeTCPAddr n held of
        (Inl err, held') \<Rightarrow> (Inl err, held')
      | (Inr ports, held') \<Rightarrow>
          (case close_ports closeFn ports held' of
             (Some err, held'') \<Rightarrow> (Inl err, held'')
           | (None, held'') \<Rightarrow> (Inr ports, held'')))"

record network_config =
  APIAddress :: gostring
  RPCAddress :: gostring
  GRPCAddress :: gostring

definition network_DefaultConfig ::
  "gostring + network_config \<Rightarrow> (gostring + gostring list) \<times> ports \<Rightarrow> go_error + network_config \<times> ports" where
  "network_DefaultConfig defaultConfigWithAppConfig free =
     (case defaultConfigWithAppConfig of
        Inl err \<Rightarrow> Inl (Panicked (Errorf err))
      | Inr cfg \<Rightarrow>
          (case free of
             (Inl err, held) \<Rightarrow> Inl (Panicked (Errorf err))
           | (Inr ports, held) \<Rightarrow>
               let cfg = (if APIAddress cfg = [] then cfg\<lparr>APIAddress := lit ''tcp://0.0.0.0:'' @ ports ! 0\<rparr> else cfg);
                   cfg = (if RPCAddress cfg = [] then cfg\<lparr>RPCAddress := lit ''tcp://0.0.0.0:'' @ ports ! 1\<rparr> else cfg);
                   cfg = (if GRPCAddress cfg = [] then cfg\<lparr>GRPCAddress := lit ''0.0.0.0:'' @ ports ! 2\<rparr> else cfg)
               in Inr (cfg, held)))"

text \<open>\<open>New\<close>: \<open>start\<close> creates the network, \<open>wait\<close> waits for the first block; an error fails the test.\<close>

definition network_New ::
  "(network_config \<Rightarrow> gostring + 'n) \<Rightarrow> ('n \<Rightarrow> gostring option) \<Rightarrow> go_error + network_config
    \<Rightarrow> network_config list \<Rightarrow> go_error + 'n" where
  "network_New start wait defaultConfig configs =
     (if length configs > 1 then Inl (GoPanic (lit ''at most one config should be provided''))
      else rbind (if configs = [] then defaultConfig else Inr (configs ! 0)) (\<lambda>cfg.
        case start cfg of
          Inl err \<Rightarrow> Inl (Errorf err)
        | Inr net \<Rightarrow> (case wait net of Some err \<Rightarrow> Inl (Errorf err) | None \<Rightarrow> Inr net)))"

lemma open_ports_free:
  assumes "\<And>held port. freeTCPAddr held = Inr port \<Longrightarrow> port \<notin> held"
    and "open_ports freeTCPAddr n held = (Inr ports, held')"
  shows "length ports = n \<and> distinct ports \<and> set ports \<inter> held = {} \<and> held' = set ports \<union> held"
  using assms(2)
proof (induction n arbitrary: held ports)
  case (Suc n)
  then obtain port ps where p: "freeTCPAddr held = Inr port" "ports = port # ps"
    "open_ports freeTCPAddr n (insert port held) = (Inr ps, held')"
    by (auto split: sum.splits prod.splits)
  from Suc.IH [OF p(3)] assms(1) [OF p(1)] p(2) show ?case by auto
qed simp

lemma close_ports_held:
  "close_ports closeFn ports held = (None, held') \<Longrightarrow> held' = held - set ports"
  by (induction ports arbitrary: held) (auto split: option.splits)

text \<open>
  \<open>freePorts\<close>.  When a listener gets a port that is not in use, the ports returned are as many
  as asked for, different from each other and from those in use, and free again.
\<close>

theorem freePorts_distinct:
  assumes "\<forall>held port. freeTCPAddr held = Inr port \<longrightarrow> port \<notin> held"
    and "freePorts freeTCPAddr closeFn n held = (Inr ports, held')"
  shows "length ports = n \<and> distinct ports \<and> set ports \<inter> held = {} \<and> held' = held"
proof -
  obtain h where o: "open_ports freeTCPAddr n held = (Inr ports, h)"
    and c: "close_ports closeFn ports h = (None, held')"
    using assms(2) by (auto simp: freePorts_def split: sum.splits prod.splits option.splits)
  from open_ports_free [OF _ o] assms(1) close_ports_held [OF c] show ?thesis by auto
qed


definition lowest_port :: "ports \<Rightarrow> gostring + gostring" where
  "lowest_port held = (if lit ''1'' \<notin> held then Inr (lit ''1'') else if lit ''2'' \<notin> held then Inr (lit ''2'')
     else Inl (lit ''no free port''))"

theorem freePorts_distinct_witness:
  "\<exists>ports. freePorts lowest_port (\<lambda>p. None) 2 {} = (Inr ports, {}) \<and> distinct ports \<and> length ports = 2"
proof -
  have f: "\<forall>held port. lowest_port held = Inr port \<longrightarrow> port \<notin> held"
    by (auto simp: lowest_port_def)
  obtain held' where "freePorts lowest_port (\<lambda>p. None) 2 {} = (Inr [lit ''1'', lit ''2''], held')"
    by (simp add: freePorts_def numeral_2_eq_2 lowest_port_def lit_def)
  with freePorts_distinct [OF f this] show ?thesis by auto
qed

text \<open>
  The keepers the tests run on.  On an empty store, with addresses that print to strings that
  parse, the helpers do not fail; the token factory's keeper meets the contract of the module, its
  store is well-formed, has no denom and the default parameters, and its authority is governance.
\<close>

theorem test_keepers_ready:
  assumes "\<forall>a. FromBech32 A (AddrString A a) = Inr a" and "kv_store K" and "proto_codec cdc"
    and "medas_proto_codec mcdc" and "\<forall>j. kv_Get K s j = None"
  shows "\<exists>k s' mk ms. TokenfactoryKeeper A cdc K (Inr s) = Inr (k, s') \<and> tf_keeper k \<and> store_wf k s'
    \<and> denoms_of k s' = Map.empty \<and> GetParams k s' = Inr DefaultParams
    \<and> GetAuthority k = AddrString A (NewModuleAddress A (lit ''gov''))
    \<and> MedasdigitalKeeper A mcdc K (Inr s) = Inr (mk, ms) \<and> medas_keeper mk
    \<and> Medas_GetParams mk ms = Inr Medas_DefaultParams"
proof -
  let ?auth = "AddrString A (NewModuleAddress A (lit ''gov''))"
  let ?k = "\<lparr>Keeper_cdc = cdc, Keeper_storeService = K, Keeper_authority = ?auth\<rparr>"
  let ?mk = "\<lparr>MedasKeeper_cdc = mcdc, MedasKeeper_storeService = K, MedasKeeper_authority = ?auth\<rparr>"
  have k: "tf_keeper ?k" using assms(2,3) by (simp add: tf_keeper_def)
  have mk: "medas_keeper ?mk" using assms(2,4) by (simp add: medas_keeper_def)
  have e: "store_wf ?k s \<and> denoms_of ?k s = Map.empty"
    using tf_keeper.store_wf_empty [OF k, of s] assms(5) by simp
  obtain s' where s': "SetParams ?k s DefaultParams = Inr s'" "store_wf ?k s'"
    "denoms_of ?k s' = denoms_of ?k s" "GetParams ?k s' = Inr DefaultParams"
    using tf_keeper.set_params [OF k, of s DefaultParams] e by blast
  obtain ms where ms: "Medas_SetParams ?mk s Medas_DefaultParams = Inr ms"
    "Medas_GetParams ?mk ms = Inr Medas_DefaultParams"
    using medas_keeper.set_params [OF mk, of s Medas_DefaultParams] by blast
  from assms(1) s' ms e k mk show ?thesis
    by (auto simp: TokenfactoryKeeper_def MedasdigitalKeeper_def NewKeeper_def Medas_NewKeeper_def
        GetAuthority_def)
qed


theorem test_keepers_ready_witness:
  "\<exists>k s'. TokenfactoryKeeper sample_addresses mem_codec mem_kv (Inr []) = Inr (k, s') \<and> store_wf k s'
    \<and> denoms_of k s' = Map.empty"
proof -
  have a: "\<forall>a. FromBech32 sample_addresses (AddrString sample_addresses a) = Inr a"
    by (simp add: sample_addresses_def)
  have e: "\<forall>j. kv_Get mem_kv [] j = None"
    by (simp add: mem_kv_def)
  show ?thesis
    using test_keepers_ready [OF a mem_kv.kv_store_axioms mem_codec.proto_codec_axioms
        mem_medas_codec.medas_proto_codec_axioms [of "[]"] e] by blast
qed

end
