(* ===== verification/Proto_Descriptor.thy ===== *)
theory Proto_Descriptor
  imports Proto_Message
begin

text \<open>
  What a \<open>.proto\<close> file declares, and the bytes of its descriptor.  The format is the one
  \<open>google/protobuf/descriptor.proto\<close> documents: a \<open>FileDescriptorProto\<close> is itself a protobuf message,
  so its bytes are those of \<open>Proto_Wire\<close>.  Options are given by their fields, since most are
  extensions of other packages.
\<close>

section \<open>Declarations\<close>

datatype proto_kind = TString | TInt32 | TBool | TMessage string

record field_spec =
  f_name :: string
  f_number :: nat
  f_repeated :: bool
  f_kind :: proto_kind
  f_options :: "wire_field list"

record message_spec =
  m_name :: string
  m_fields :: "field_spec list"
  m_options :: "wire_field list"

record method_spec =
  rpc_name :: string
  rpc_input :: string
  rpc_output :: string
  rpc_options :: "wire_field list"

record service_spec =
  s_name :: string
  s_methods :: "method_spec list"
  s_options :: "wire_field list"

record file_spec =
  p_name :: string
  p_package :: string
  p_imports :: "string list"
  p_messages :: "message_spec list"
  p_services :: "service_spec list"
  p_options :: "wire_field list"

text \<open>The statements of a \<open>.proto\<close> file: a field of a message, with or without options, and a method.\<close>

definition proto_field :: "proto_kind \<Rightarrow> string \<Rightarrow> nat \<Rightarrow> wire_field list \<Rightarrow> field_spec" where
  "proto_field k name n os = \<lparr>f_name = name, f_number = n, f_repeated = False, f_kind = k, f_options = os\<rparr>"

definition proto_repeated :: "proto_kind \<Rightarrow> string \<Rightarrow> nat \<Rightarrow> wire_field list \<Rightarrow> field_spec" where
  "proto_repeated k name n os = \<lparr>f_name = name, f_number = n, f_repeated = True, f_kind = k, f_options = os\<rparr>"

definition proto_message :: "string \<Rightarrow> wire_field list \<Rightarrow> field_spec list \<Rightarrow> message_spec" where
  "proto_message name os fs = \<lparr>m_name = name, m_fields = fs, m_options = os\<rparr>"

definition rpc :: "string \<Rightarrow> string \<Rightarrow> string \<Rightarrow> wire_field list \<Rightarrow> method_spec" where
  "rpc name inp out os = \<lparr>rpc_name = name, rpc_input = inp, rpc_output = out, rpc_options = os\<rparr>"

text \<open>The options the files use, with the numbers of their extensions.\<close>

definition gogoproto_nullable :: "bool \<Rightarrow> wire_field" where
  "gogoproto_nullable b = WVarint 65001 (if b then 1 else 0)"

definition gogoproto_equal :: "bool \<Rightarrow> wire_field" where
  "gogoproto_equal b = WVarint 64013 (if b then 1 else 0)"

definition amino_dont_omitempty :: "bool \<Rightarrow> wire_field" where
  "amino_dont_omitempty b = WVarint 11110005 (if b then 1 else 0)"

definition amino_name :: "string \<Rightarrow> wire_field" where
  "amino_name s = WBytes 11110001 (lit s)"

definition cosmos_msg_signer :: "string \<Rightarrow> wire_field" where
  "cosmos_msg_signer s = WBytes 11110000 (lit s)"

definition cosmos_msg_service :: "bool \<Rightarrow> wire_field" where
  "cosmos_msg_service b = WVarint 11110000 (if b then 1 else 0)"

definition cosmos_proto_scalar :: "string \<Rightarrow> wire_field" where
  "cosmos_proto_scalar s = WBytes 93002 (lit s)"

definition google_api_http_get :: "string \<Rightarrow> wire_field" where
  "google_api_http_get path = WBytes 72295728 (enc_fields [WBytes 2 (lit path)])"

definition cosmos_app_module :: "string \<Rightarrow> wire_field" where
  "cosmos_app_module go_import = WBytes 57193479 (enc_fields [WBytes 1 (lit go_import)])"

text \<open>
  The options \<open>buf\<close> adds to a file in its managed mode, which \<open>buf.gen.pulsar.yaml\<close> enables: the
  packages of other languages, from the name of the package in capitals.
\<close>

definition managed_options ::
  "string \<Rightarrow> string \<Rightarrow> string \<Rightarrow> string \<Rightarrow> string \<Rightarrow> wire_field list" where
  "managed_options java outer_class go_package objc capitals =
     (let backslashed = map (\<lambda>c. if c = CHR ''.'' then CHR 0x5C else c) capitals in
      [WBytes 1 (lit java), WBytes 8 (lit outer_class), WVarint 10 1, WBytes 11 (lit go_package),
       WBytes 36 (lit objc), WBytes 37 (lit capitals), WBytes 41 (lit backslashed),
       WBytes 44 (lit (backslashed @ CHR 0x5C # ''GPBMetadata'')),
       WBytes 45 (lit (concat (map (\<lambda>c. if c = CHR ''.'' then ''::'' else [c]) capitals)))])"

section \<open>Descriptors\<close>

text \<open>The name of a field in JSON: underscores are left out and the letters after them are capitals.\<close>

definition upper_char :: "char \<Rightarrow> char" where
  "upper_char c = (if 97 \<le> (of_char c :: nat) \<and> of_char c \<le> (122 :: nat) then char_of (of_char c - 32 :: nat) else c)"

fun json_chars :: "bool \<Rightarrow> string \<Rightarrow> string" where
  "json_chars cap [] = []"
| "json_chars cap (c # cs) =
     (if c = CHR ''_'' then json_chars True cs
      else (if cap then upper_char c else c) # json_chars False cs)"

definition json_name :: "string \<Rightarrow> string" where
  "json_name name = json_chars False name"

text \<open>The name of the struct field in Go, for names without underscores.\<close>

fun go_name :: "string \<Rightarrow> string" where
  "go_name [] = []"
| "go_name (c # cs) = upper_char c # cs"

fun kind_number :: "proto_kind \<Rightarrow> uint64" where
  "kind_number TString = 9"
| "kind_number TInt32 = 5"
| "kind_number TBool = 8"
| "kind_number (TMessage t) = 11"

fun kind_type_name :: "proto_kind \<Rightarrow> wire_field list" where
  "kind_type_name (TMessage t) = [WBytes 6 (lit (CHR ''.'' # t))]"
| "kind_type_name k = []"

text \<open>Options are written in the order of their numbers.\<close>

definition with_options :: "nat \<Rightarrow> wire_field list \<Rightarrow> wire_field list" where
  "with_options n os = (if os = [] then [] else [WBytes n (enc_fields (sort_key field_num os))])"

definition field_descriptor_bytes :: "field_spec \<Rightarrow> bytes" where
  "field_descriptor_bytes f = enc_fields
     ([WBytes 1 (lit (f_name f)), WVarint 3 (of_nat (f_number f)),
       WVarint 4 (if f_repeated f then 3 else 1), WVarint 5 (kind_number (f_kind f))]
      @ kind_type_name (f_kind f) @ with_options 8 (f_options f)
      @ [WBytes 10 (lit (json_name (f_name f)))])"

definition message_descriptor_bytes :: "message_spec \<Rightarrow> bytes" where
  "message_descriptor_bytes m = enc_fields
     (WBytes 1 (lit (m_name m)) # map (\<lambda>f. WBytes 2 (field_descriptor_bytes f)) (m_fields m)
      @ with_options 7 (m_options m))"

definition method_descriptor_bytes :: "method_spec \<Rightarrow> bytes" where
  "method_descriptor_bytes r = enc_fields
     ([WBytes 1 (lit (rpc_name r)), WBytes 2 (lit (CHR ''.'' # rpc_input r)),
       WBytes 3 (lit (CHR ''.'' # rpc_output r))] @ with_options 4 (rpc_options r))"

definition service_descriptor_bytes :: "service_spec \<Rightarrow> bytes" where
  "service_descriptor_bytes s = enc_fields
     (WBytes 1 (lit (s_name s)) # map (\<lambda>r. WBytes 2 (method_descriptor_bytes r)) (s_methods s)
      @ with_options 3 (s_options s))"

definition file_descriptor_bytes :: "file_spec \<Rightarrow> bytes" where
  "file_descriptor_bytes p = enc_fields
     ([WBytes 1 (lit (p_name p)), WBytes 2 (lit (p_package p))]
      @ map (\<lambda>d. WBytes 3 (lit d)) (p_imports p)
      @ map (\<lambda>m. WBytes 4 (message_descriptor_bytes m)) (p_messages p)
      @ map (\<lambda>s. WBytes 6 (service_descriptor_bytes s)) (p_services p)
      @ with_options 8 (p_options p) @ [WBytes 12 (lit ''proto3'')])"

section \<open>Evaluation\<close>

lemma capitals [simp]:
  "char_of (65 :: nat) = CHR ''A''"
  "char_of (66 :: nat) = CHR ''B''"
  "char_of (67 :: nat) = CHR ''C''"
  "char_of (68 :: nat) = CHR ''D''"
  "char_of (69 :: nat) = CHR ''E''"
  "char_of (70 :: nat) = CHR ''F''"
  "char_of (71 :: nat) = CHR ''G''"
  "char_of (72 :: nat) = CHR ''H''"
  "char_of (73 :: nat) = CHR ''I''"
  "char_of (74 :: nat) = CHR ''J''"
  "char_of (75 :: nat) = CHR ''K''"
  "char_of (76 :: nat) = CHR ''L''"
  "char_of (77 :: nat) = CHR ''M''"
  "char_of (78 :: nat) = CHR ''N''"
  "char_of (79 :: nat) = CHR ''O''"
  "char_of (80 :: nat) = CHR ''P''"
  "char_of (81 :: nat) = CHR ''Q''"
  "char_of (82 :: nat) = CHR ''R''"
  "char_of (83 :: nat) = CHR ''S''"
  "char_of (84 :: nat) = CHR ''T''"
  "char_of (85 :: nat) = CHR ''U''"
  "char_of (86 :: nat) = CHR ''V''"
  "char_of (87 :: nat) = CHR ''W''"
  "char_of (88 :: nat) = CHR ''X''"
  "char_of (89 :: nat) = CHR ''Y''"
  "char_of (90 :: nat) = CHR ''Z''"
  by (simp_all add: char_of_def bit_0)

text \<open>
  The length of a literal list is counted with an accumulator, and the bytes of a field are those
  of its key, its length and its payload.
\<close>

fun count_from :: "nat \<Rightarrow> 'a list \<Rightarrow> nat" where
  "count_from n [] = n"
| "count_from n (x # xs) = count_from (n + 1) xs"

lemma length_count: "length xs = count_from 0 xs"
proof -
  have "count_from n xs = n + length xs" for n
    by (induction xs arbitrary: n) auto
  then show ?thesis by simp
qed

definition counted :: "bytes \<Rightarrow> bytes" where
  "counted bs = varint (of_nat (count_from 0 bs)) @ bs"

lemma enc_bytes_counted: "enc_field (WBytes n bs) = varint (wire_key n 2) @ counted bs"
  by (simp add: counted_def flip: length_count)

lemma wire_key_eq: "wire_key n t = of_nat (8 * n + t)"
  by (simp add: wire_key_def)

lemma message_bytes:
  "message_descriptor_bytes (proto_message n os fs) = enc_fields
     (WBytes 1 (lit n) # map (\<lambda>f. WBytes 2 (field_descriptor_bytes f)) fs @ with_options 7 os)"
  by (simp add: message_descriptor_bytes_def proto_message_def)

lemmas option_defs = gogoproto_nullable_def gogoproto_equal_def amino_dont_omitempty_def amino_name_def
  cosmos_msg_signer_def cosmos_msg_service_def cosmos_proto_scalar_def google_api_http_get_def
  cosmos_app_module_def managed_options_def with_options_def

lemmas bytes_eval = enc_bytes_counted wire_key_eq counted_def varint.simps lit_def

lemmas field_bytes_eval = field_descriptor_bytes_def proto_field_def proto_repeated_def json_name_def
  option_defs bytes_eval

lemmas message_bytes_eval = option_defs bytes_eval

lemmas service_bytes_eval = service_descriptor_bytes_def method_descriptor_bytes_def rpc_def
  option_defs bytes_eval

lemmas file_bytes_eval = file_descriptor_bytes_def option_defs bytes_eval

end
