(* ===== verification/Pulsar_Type.thy ===== *)
theory Pulsar_Type
  imports Proto_Descriptor Pulsar_Reflect
begin

text \<open>
  The types of the generated messages, as every \<open>api/**/*.pulsar.go\<close> sets them up: the tables a file
  hands to \<open>protoimpl.TypeBuilder\<close>, the variables \<open>md_X\<close> and \<open>fd_X_f\<close> that \<open>init\<close> looks up by name, the
  message type, and the methods that reach it.  What the builder makes of a descriptor is a
  parameter, with its documented contract \<open>builds_file\<close>.
\<close>

section \<open>The tables of a file\<close>

text \<open>An entry of \<open>goTypes\<close> is a nil pointer of a type of the package, or of an imported one.\<close>

datatype go_type = LocalType string | ForeignType string string

text \<open>The parts of a message an exporter gives access to.\<close>

datatype exported = ExportState | ExportSizeCache | ExportUnknownFields

type_synonym exporter_fun = "go_type \<Rightarrow> nat \<Rightarrow> refl_error + exported option"

definition exporter :: "go_type \<Rightarrow> exporter_fun" where
  "exporter T v i =
     (if v \<noteq> T then Inl WrongKind
      else Inr (if i = 0 then Some ExportState
        else if i = 1 then Some ExportSizeCache
        else if i = 2 then Some ExportUnknownFields
        else None))"

record type_builder =
  tb_RawDescriptor :: bytes
  tb_NumEnums :: nat
  tb_NumMessages :: nat
  tb_NumExtensions :: nat
  tb_NumServices :: nat
  tb_GoTypes :: "go_type list"
  tb_DependencyIndexes :: "nat list"
  tb_MessageInfos :: nat
  tb_Exporters :: "(nat \<times> exporter_fun) list"

text \<open>
  The documentation of \<open>filetype.Builder\<close>: the indexes are five lists of indexes into \<open>GoTypes\<close>,
  for the message fields, the extended messages, the extension fields, the inputs and the
  outputs of the methods, followed by the offsets of these lists in reverse order.
\<close>

definition sublist :: "nat \<Rightarrow> nat \<Rightarrow> 'a list \<Rightarrow> 'a list" where
  "sublist from to xs = take (to - from) (drop from xs)"

definition dependency_lists :: "nat list \<Rightarrow> nat list list" where
  "dependency_lists ds =
     (let n = length ds - 5; o5 = ds ! n; o4 = ds ! (n + 1); o3 = ds ! (n + 2); o2 = ds ! (n + 3);
          o1 = ds ! (n + 4)
      in [sublist o1 o2 ds, sublist o2 o3 ds, sublist o3 o4 ds, sublist o4 o5 ds, sublist o5 n ds])"

text \<open>The protobuf name of a Go type; the path of a package of the SDK's API spells its package.\<close>

fun go_type_name :: "string \<Rightarrow> go_type \<Rightarrow> string" where
  "go_type_name pkg (LocalType n) = pkg @ CHR ''.'' # n"
| "go_type_name pkg (ForeignType path n) =
     map (\<lambda>c. if c = CHR ''/'' then CHR ''.'' else c) (drop (length ''cosmossdk.io/api/'') path) @ CHR ''.'' # n"

fun kind_message :: "proto_kind \<Rightarrow> string list" where
  "kind_message (TMessage t) = [t]"
| "kind_message k = []"

definition message_dependencies :: "file_spec \<Rightarrow> string list" where
  "message_dependencies p = concat (map (\<lambda>m. concat (map (\<lambda>f. kind_message (f_kind f)) (m_fields m))) (p_messages p))"

definition file_methods :: "file_spec \<Rightarrow> method_spec list" where
  "file_methods p = concat (map s_methods (p_services p))"

text \<open>The tables describe a \<open>.proto\<close> file.\<close>

definition describes :: "type_builder \<Rightarrow> file_spec \<Rightarrow> bool" where
  "describes tb p \<longleftrightarrow>
     tb_RawDescriptor tb = file_descriptor_bytes p
     \<and> tb_NumEnums tb = 0 \<and> tb_NumExtensions tb = 0
     \<and> tb_NumMessages tb = length (p_messages p) \<and> tb_MessageInfos tb = length (p_messages p)
     \<and> tb_NumServices tb = length (p_services p)
     \<and> take (length (p_messages p)) (tb_GoTypes tb) = map (\<lambda>m. LocalType (m_name m)) (p_messages p)
     \<and> tb_Exporters tb \<in>
         {[], map (\<lambda>i. (i, exporter (LocalType (m_name (p_messages p ! i))))) [0..<length (p_messages p)]}
     \<and> map (map (\<lambda>i. go_type_name (p_package p) (tb_GoTypes tb ! i))) (dependency_lists (tb_DependencyIndexes tb))
       = [message_dependencies p, [], [], map rpc_input (file_methods p), map rpc_output (file_methods p)]"

section \<open>Building a file\<close>

text \<open>
  What is built: the file and the type information of its messages, in order.  The variables
  \<open>File_\<dots>\<close> of the packages are a map from the name of the file; the builder reads the files in it,
  which it has registered before.  \<open>file_init\<close> is the function
  \<open>file_\<dots>_init\<close>: it does nothing once the variable of the file is set, and otherwise initializes the
  files this one imports and builds it.  That it sets its tables to nil in the end is left out:
  they are not read again.
\<close>

record built =
  bt_File :: file_spec
  bt_infos :: "(message_spec \<times> go_type) list"

type_synonym file_vars = "string \<rightharpoonup> built"

type_synonym build_fun = "file_vars \<Rightarrow> type_builder \<Rightarrow> refl_error + built"

definition built_of :: "type_builder \<Rightarrow> file_spec \<Rightarrow> built" where
  "built_of tb p = \<lparr>bt_File = p, bt_infos = zip (p_messages p) (tb_GoTypes tb)\<rparr>"

text \<open>
  The contract of the builder: tables that describe a file are built when the files it imports
  from the same module of Go are; those of other modules are built before it starts.
\<close>

definition builds_file :: "build_fun \<Rightarrow> string set \<Rightarrow> type_builder \<Rightarrow> file_spec \<Rightarrow> bool" where
  "builds_file Build names tb p \<longleftrightarrow>
     (describes tb p \<longrightarrow> (\<forall>vars. set (p_imports p) \<inter> names \<subseteq> dom vars \<longrightarrow> Build vars tb = Inr (built_of tb p)))"

definition file_init ::
  "build_fun \<Rightarrow> string \<Rightarrow> (file_vars \<Rightarrow> refl_error + file_vars) list \<Rightarrow> type_builder
    \<Rightarrow> file_vars \<Rightarrow> refl_error + file_vars" where
  "file_init Build name imported tb vars =
     (case vars name of
        Some F \<Rightarrow> Inr vars
      | None \<Rightarrow> rbind (rfold (\<lambda>init vars. init vars) imported vars) (\<lambda>vars.
          rbind (Build vars tb) (\<lambda>F. Inr (vars(name \<mapsto> F)))))"

text \<open>\<open>file_\<dots>_rawDescGZIP\<close>: the descriptor is compressed once.  The state is the variable \<open>\<dots>Data\<close>.\<close>

definition rawDescGZIP :: "(bytes \<Rightarrow> bytes) \<Rightarrow> bool \<times> bytes \<Rightarrow> bytes \<times> bool \<times> bytes" where
  "rawDescGZIP CompressGZIP st =
     (let (done, data) = st;
          data = (if done then data else CompressGZIP data)
      in (data, True, data))"

section \<open>Descriptors of a message\<close>

text \<open>\<open>ByName\<close> returns nil for a name that is not there; calling a method of nil panics.\<close>

definition MessagesByName :: "file_spec \<Rightarrow> string \<Rightarrow> message_spec option" where
  "MessagesByName p name = find (\<lambda>m. m_name m = name) (p_messages p)"

definition FieldsByName :: "message_spec \<Rightarrow> string \<Rightarrow> field_spec option" where
  "FieldsByName m name = find (\<lambda>f. f_name f = name) (m_fields m)"

record message_vars =
  v_md :: "message_spec option"
  v_fds :: "field_spec option list"

definition message_init ::
  "string \<Rightarrow> string \<Rightarrow> string list \<Rightarrow> file_vars \<Rightarrow> refl_error + file_vars \<times> message_vars" where
  "message_init file name field_names vars =
     (case vars file of
        None \<Rightarrow> Inl NilDereference
      | Some F \<Rightarrow>
          let md = MessagesByName (bt_File F) name in
          (case md of
             None \<Rightarrow> if field_names = [] then Inr (vars, \<lparr>v_md = None, v_fds = []\<rparr>) else Inl NilDereference
           | Some m \<Rightarrow> Inr (vars, \<lparr>v_md = md, v_fds = map (FieldsByName m) field_names\<rparr>)))"

section \<open>Message types\<close>

text \<open>
  The message type, and the methods of a message that convert it, make new ones and name their
  type.  A pointer is an option; the conversions between pointers to the struct and to
  \<open>fastReflection_X\<close> keep what they refer to.  \<open>slowProtoReflect\<close> is given by the information the
  message ends with, an index into \<open>msgTypes\<close>, and the library's view of the message.
\<close>

record 'm message_type =
  mt_Zero :: "'m option"
  mt_New :: "'m option"
  mt_Descriptor :: "message_spec option"

datatype 'm reflection = MessageStateOf "nat option" "'m option" | MessageOf nat "'m option"

definition slow_reflect :: "nat \<Rightarrow> bool \<Rightarrow> nat option \<Rightarrow> 'm option \<Rightarrow> nat option \<times> 'm reflection" where
  "slow_reflect mi UnsafeEnabled info x =
     (if UnsafeEnabled \<and> x \<noteq> None
      then let info = (if info = None then Some mi else info) in (info, MessageStateOf info x)
      else (info, MessageOf mi x))"

record 'm message_methods =
  mm_ProtoReflect :: "'m option \<Rightarrow> 'm option"
  mm_slowProtoReflect :: "bool \<Rightarrow> nat option \<Rightarrow> 'm option \<Rightarrow> nat option \<times> 'm reflection"
  mm_Descriptor :: "'m option \<Rightarrow> message_spec option"
  mm_Type :: "'m option \<Rightarrow> 'm message_type"
  mm_New :: "'m option \<Rightarrow> 'm option"
  mm_Interface :: "'m option \<Rightarrow> 'm option"

definition generated_type :: "'m \<Rightarrow> message_spec option \<Rightarrow> 'm message_type" where
  "generated_type zero md = \<lparr>mt_Zero = None, mt_New = Some zero, mt_Descriptor = md\<rparr>"

definition generated_methods :: "nat \<Rightarrow> 'm \<Rightarrow> message_spec option \<Rightarrow> 'm message_methods" where
  "generated_methods mi zero md =
     \<lparr>mm_ProtoReflect = (\<lambda>x. x),
      mm_slowProtoReflect = slow_reflect mi,
      mm_Descriptor = (\<lambda>x. md),
      mm_Type = (\<lambda>x. generated_type zero md),
      mm_New = (\<lambda>x. Some zero),
      mm_Interface = (\<lambda>x. x)\<rparr>"

section \<open>Typing\<close>

text \<open>
  The tables of a codec and of reflection have the fields a \<open>.proto\<close> file declares: with their
  numbers, names and kinds, and in reflection their order.
\<close>

datatype value_kind = KString | KInt32 | KBool | KMessage

fun declared_kind :: "proto_kind \<Rightarrow> value_kind" where
  "declared_kind TString = KString"
| "declared_kind TInt32 = KInt32"
| "declared_kind TBool = KBool"
| "declared_kind (TMessage t) = KMessage"

fun codec_kind :: "'m field \<Rightarrow> value_kind" where
  "codec_kind (FString upd) = KString"
| "codec_kind (FInt32 upd) = KInt32"
| "codec_kind (FBool upd) = KBool"
| "codec_kind (FMessage dec) = KMessage"

definition codec_typed :: "message_spec \<Rightarrow> 'm fields \<Rightarrow> bool" where
  "codec_typed m tbl \<longleftrightarrow>
     (\<forall>n. map_option (\<lambda>(name, f). (name, codec_kind f)) (tbl n)
       = map_option (\<lambda>f. (go_name (f_name f), declared_kind (f_kind f)))
           (find (\<lambda>f. of_nat (f_number f) = n) (m_fields m)))"

fun refl_kind :: "('m, 'v) rfield \<Rightarrow> bool \<times> value_kind" where
  "refl_kind (RString sel upd) = (False, KString)"
| "refl_kind (RInt32 sel upd) = (False, KInt32)"
| "refl_kind (RBool sel upd) = (False, KBool)"
| "refl_kind (RMessage sel present put nilv newv) = (False, KMessage)"
| "refl_kind (RList t sel put) = (True, KMessage)"

definition refl_typed :: "message_spec \<Rightarrow> ('m, 'v) rtable \<Rightarrow> bool" where
  "refl_typed m tbl \<longleftrightarrow>
     map (\<lambda>(name, f). (name, refl_kind f)) tbl
     = map (\<lambda>f. (f_name f, f_repeated f, declared_kind (f_kind f))) (m_fields m)"

text \<open>
  The type of message number \<open>i\<close> of a file: a nil pointer is its zero value, a new message has no
  field set, the conversions are inverse, the information of message \<open>i\<close> is what \<open>slowProtoReflect\<close>
  stores, and \<open>Descriptor\<close> gives the compressed descriptor of the file and the path to the message.
\<close>

definition type_ok ::
  "file_spec \<Rightarrow> nat \<Rightarrow> message_vars \<Rightarrow> ('m, 'v) rtable \<Rightarrow> 'm message_type \<Rightarrow> 'm message_methods
    \<Rightarrow> ((bytes \<Rightarrow> bytes) \<Rightarrow> bytes \<times> nat list) \<Rightarrow> bool" where
  "type_ok p i vars tbl T M desc \<longleftrightarrow>
     mt_Zero T = None \<and> mt_Descriptor T = v_md vars
     \<and> (\<exists>z. mt_New T = Some z \<and> (\<forall>(name, f) \<in> set tbl. \<not> rf_has f z)
         \<and> mm_slowProtoReflect M True None (Some z) = (Some i, MessageStateOf (Some i) (Some z)))
     \<and> (\<forall>x. mm_Type M x = T \<and> mm_New M x = mt_New T \<and> mm_Descriptor M x = mt_Descriptor T
         \<and> mm_Interface M (mm_ProtoReflect M x) = x)
     \<and> (\<forall>gz. desc gz = (gz (file_descriptor_bytes p), [i]))"

definition message_typed ::
  "file_spec \<Rightarrow> nat \<Rightarrow> message_vars \<Rightarrow> 'm fields \<Rightarrow> ('m, 'v) rtable \<Rightarrow> 'm message_type \<Rightarrow> 'm message_methods
    \<Rightarrow> ((bytes \<Rightarrow> bytes) \<Rightarrow> bytes \<times> nat list) \<Rightarrow> bool" where
  "message_typed p i vars codec tbl T M desc \<longleftrightarrow>
     i < length (p_messages p) \<and> codec_typed (p_messages p ! i) codec
     \<and> refl_typed (p_messages p ! i) tbl \<and> type_ok p i vars tbl T M desc"

lemma generated_type_ok:
  assumes "\<And>name f. (name, f) \<in> set tbl \<Longrightarrow> \<not> rf_has f zero"
    and "\<And>gz. desc gz = (gz (file_descriptor_bytes p), [i])"
  shows "type_ok p i vars tbl (generated_type zero (v_md vars)) (generated_methods i zero (v_md vars)) desc"
  using assms by (auto simp: type_ok_def generated_type_def generated_methods_def slow_reflect_def Let_def)

lemma codec_typed_Nil: "m_fields m = [] \<Longrightarrow> (\<And>n. tbl n = None) \<Longrightarrow> codec_typed m tbl"
  by (simp add: codec_typed_def)

lemma gzip_once: "fst (rawDescGZIP gz (False, raw)) = gz raw"
  "rawDescGZIP gz (True, gz raw) = (gz raw, True, gz raw)"
  by (simp_all add: rawDescGZIP_def Let_def)

section \<open>Initialization\<close>

text \<open>
  The variables of a state are what the builder makes of the files of a list, and an initializer
  of a file is good when it sets the variable of that file, keeps the others, and does nothing
  when the variable is set.
\<close>

definition well_built :: "(type_builder \<times> file_spec) list \<Rightarrow> file_vars \<Rightarrow> bool" where
  "well_built files vars \<longleftrightarrow>
     (\<forall>name F. vars name = Some F \<longrightarrow> (\<exists>(tb, p) \<in> set files. name = p_name p \<and> F = built_of tb p))"

definition sets_file ::
  "(type_builder \<times> file_spec) list \<Rightarrow> type_builder \<Rightarrow> file_spec \<Rightarrow> file_vars \<Rightarrow> file_vars \<Rightarrow> bool" where
  "sets_file files tb p vars vars' \<longleftrightarrow>
     well_built files vars' \<and> vars \<subseteq>\<^sub>m vars' \<and> vars' (p_name p) = Some (built_of tb p)
     \<and> (vars (p_name p) \<noteq> None \<longrightarrow> vars' = vars)"

definition init_good ::
  "(type_builder \<times> file_spec) list \<Rightarrow> (file_vars \<Rightarrow> refl_error + file_vars) \<Rightarrow> type_builder \<Rightarrow> file_spec \<Rightarrow> bool"
  where
  "init_good files init tb p \<longleftrightarrow>
     (\<forall>vars. well_built files vars \<longrightarrow> (\<exists>vars'. init vars = Inr vars' \<and> sets_file files tb p vars vars'))"

definition vars_of :: "message_spec \<Rightarrow> message_vars" where
  "vars_of m = \<lparr>v_md = Some m, v_fds = map Some (m_fields m)\<rparr>"

definition message_good ::
  "(type_builder \<times> file_spec) list \<Rightarrow> (file_vars \<Rightarrow> refl_error + file_vars \<times> message_vars)
    \<Rightarrow> type_builder \<Rightarrow> file_spec \<Rightarrow> nat \<Rightarrow> bool" where
  "message_good files init tb p i \<longleftrightarrow>
     (\<forall>vars. well_built files vars \<longrightarrow>
       (\<exists>vars'. init vars = Inr (vars', vars_of (p_messages p ! i)) \<and> sets_file files tb p vars vars'))"

lemma imported_good:
  assumes "\<forall>init \<in> set imported. \<exists>tb p. init_good files init tb p" and "well_built files vars"
  shows "\<exists>vars'. rfold (\<lambda>init. init) imported vars = Inr vars' \<and> well_built files vars' \<and> vars \<subseteq>\<^sub>m vars'
    \<and> (\<forall>init \<in> set imported. \<forall>tb p. init_good files init tb p \<longrightarrow> p_name p \<in> dom vars')"
  using assms
proof (induction imported arbitrary: vars)
  case Nil
  then show ?case by simp
next
  case (Cons init inits)
  then obtain tb p where "init_good files init tb p" by auto
  with Cons.prems(2) obtain v1 where v1: "init vars = Inr v1" "well_built files v1" "vars \<subseteq>\<^sub>m v1"
    unfolding init_good_def sets_file_def by blast
  have set: "p_name p \<in> dom v1" if "init_good files init tb p" for tb p
    using that [unfolded init_good_def, rule_format, OF Cons.prems(2)] v1(1)
    by (auto simp: sets_file_def)
  from Cons.IH [OF _ v1(2)] Cons.prems(1) obtain v2 where
    v2: "rfold (\<lambda>init. init) inits v1 = Inr v2" "well_built files v2" "v1 \<subseteq>\<^sub>m v2"
      "\<forall>init \<in> set inits. \<forall>tb p. init_good files init tb p \<longrightarrow> p_name p \<in> dom v2" by auto
  have "p_name p \<in> dom v2" if "init_good files init tb p" for tb p
    using set [OF that] v2(3) map_le_implies_dom_le by blast
  with v1 v2 show ?case by (auto intro: map_le_trans)
qed

lemma well_built_file:
  assumes "well_built files vars" and "vars (p_name p) = Some F" and "(tb, p) \<in> set files"
    and "distinct (map (\<lambda>(tb, p). p_name p) files)"
  shows "F = built_of tb p"
proof -
  obtain tb' p' where "(tb', p') \<in> set files" "p_name p = p_name p'" "F = built_of tb' p'"
    using assms(1,2) unfolding well_built_def by blast
  moreover have "inj_on (\<lambda>(tb, p). p_name p) (set files)"
    using assms(4) by (simp add: distinct_map)
  from inj_onD [OF this, of "(tb', p')" "(tb, p)"] calculation have "(tb', p') = (tb, p)"
    using assms(3) by simp
  ultimately show ?thesis by simp
qed

lemma file_init_good:
  assumes "(tb, p) \<in> set files" and "builds_file Build ((\<lambda>(tb, p). p_name p) ` set files) tb p" and "describes tb p"
    and "distinct (map (\<lambda>(tb, p). p_name p) files)"
    and "\<forall>init \<in> set imported. \<exists>tb p. init_good files init tb p"
    and deps: "\<And>q tb'. (tb', q) \<in> set files \<Longrightarrow> p_name q \<in> set (p_imports p) \<Longrightarrow>
      \<exists>init \<in> set imported. \<exists>tb. init_good files init tb q"
  shows "init_good files (file_init Build (p_name p) imported tb) tb p"
  unfolding init_good_def
proof (intro allI impI)
  fix vars assume w: "well_built files vars"
  show "\<exists>vars'. file_init Build (p_name p) imported tb vars = Inr vars' \<and> sets_file files tb p vars vars'"
  proof (cases "vars (p_name p)")
    case None
    from imported_good [OF assms(5) w] obtain v1 where
      v1: "rfold (\<lambda>init. init) imported vars = Inr v1" "well_built files v1" "vars \<subseteq>\<^sub>m v1"
      "\<forall>init \<in> set imported. \<forall>tb p. init_good files init tb p \<longrightarrow> p_name p \<in> dom v1" by blast
    have dom: "set (p_imports p) \<inter> (\<lambda>(tb, p). p_name p) ` set files \<subseteq> dom v1"
      using deps v1(4) by fastforce
    let ?v2 = "v1(p_name p \<mapsto> built_of tb p)"
    have "file_init Build (p_name p) imported tb vars = Inr ?v2"
      using assms(2) [unfolded builds_file_def, rule_format, OF assms(3) dom] None v1(1)
      by (simp add: file_init_def)
    moreover have "well_built files ?v2"
      using v1(2) assms(1) by (auto simp: well_built_def)
    moreover have "vars \<subseteq>\<^sub>m ?v2"
      using v1(3) None by (auto simp: map_le_def dom_def)
    ultimately show ?thesis
      using None by (auto simp: sets_file_def)
  next
    case (Some F)
    with well_built_file [OF w Some assms(1,4)] w show ?thesis
      by (simp add: file_init_def sets_file_def)
  qed
qed

lemma find_distinct:
  assumes "distinct (map g xs)" and "i < length xs"
  shows "find (\<lambda>x. g x = g (xs ! i)) xs = Some (xs ! i)"
  using assms by (induction xs arbitrary: i) (auto simp: nth_Cons split: nat.splits)

lemma message_init_good:
  assumes "\<And>vars. f vars = rbind (init vars) (message_init file name names)"
    and "init_good files init tb p" and "file = p_name p" and "i < length (p_messages p)"
    and "distinct (map m_name (p_messages p))" and "distinct (map f_name (m_fields (p_messages p ! i)))"
    and "name = m_name (p_messages p ! i)" and "names = map f_name (m_fields (p_messages p ! i))"
  shows "message_good files f tb p i"
  unfolding message_good_def
proof (intro allI impI)
  fix vars assume "well_built files vars"
  with assms(2) obtain v1 where v1: "init vars = Inr v1" "sets_file files tb p vars v1"
    unfolding init_good_def by blast
  let ?m = "p_messages p ! i"
  have "MessagesByName p name = Some ?m"
    using find_distinct [OF assms(5,4)] by (simp add: MessagesByName_def assms(7))
  moreover have "map (FieldsByName ?m) names = map Some (m_fields ?m)"
    using find_distinct [OF assms(6)] by (auto simp: assms(8) FieldsByName_def list_eq_iff_nth_eq)
  moreover have "v1 (p_name p) = Some (built_of tb p)"
    using v1(2) by (simp add: sets_file_def)
  ultimately have "message_init (p_name p) name names v1 = Inr (v1, vars_of ?m)"
    by (simp add: message_init_def built_of_def vars_of_def)
  with v1 show "\<exists>vars'. f vars = Inr (vars', vars_of ?m) \<and> sets_file files tb p vars vars'"
    by (simp add: assms(1,3))
qed

text \<open>Any sequence of good initializers succeeds, and at its end each of them would change nothing.\<close>

definition run_inits ::
  "(file_vars \<Rightarrow> refl_error + file_vars \<times> message_vars) list \<Rightarrow> file_vars \<Rightarrow> refl_error + file_vars"
  where
  "run_inits inits = rfold (\<lambda>init vars. rbind (init vars) (\<lambda>(vars, mv). Inr vars)) inits"

lemma run_inits_good:
  assumes "\<forall>(init, tb, p, i) \<in> set inits. message_good files init tb p i" and "well_built files vars"
  shows "\<exists>vars'. run_inits (map fst inits) vars = Inr vars' \<and> well_built files vars' \<and> vars \<subseteq>\<^sub>m vars'
    \<and> (\<forall>(init, tb, p, i) \<in> set inits. vars' (p_name p) = Some (built_of tb p)
        \<and> init vars' = Inr (vars', vars_of (p_messages p ! i)))"
  using assms
proof (induction inits arbitrary: vars)
  case Nil
  then show ?case by (simp add: run_inits_def)
next
  case (Cons x inits)
  obtain init tb p i where x: "x = (init, tb, p, i)" by (cases x)
  with Cons.prems have g: "message_good files init tb p i" by simp
  with Cons.prems(2) obtain v1 where v1: "init vars = Inr (v1, vars_of (p_messages p ! i))"
    "sets_file files tb p vars v1" unfolding message_good_def by blast
  then have "well_built files v1" by (simp add: sets_file_def)
  from Cons.IH [OF _ this] Cons.prems(1) obtain v2 where
    v2: "run_inits (map fst inits) v1 = Inr v2" "well_built files v2" "v1 \<subseteq>\<^sub>m v2"
      "\<forall>(init, tb, p, i) \<in> set inits. v2 (p_name p) = Some (built_of tb p)
        \<and> init v2 = Inr (v2, vars_of (p_messages p ! i))"
    by auto
  have s: "v2 (p_name p) = Some (built_of tb p)"
    using v1(2) v2(3) by (auto simp: sets_file_def map_le_def dom_def)
  then have "init v2 = Inr (v2, vars_of (p_messages p ! i))"
    using g v2(2) unfolding message_good_def sets_file_def by fastforce
  moreover have "vars \<subseteq>\<^sub>m v2"
    using v1(2) v2(3) by (auto simp: sets_file_def intro: map_le_trans)
  moreover have "run_inits (map fst (x # inits)) vars = Inr v2"
    using v1(1) v2(1) by (simp add: run_inits_def x)
  ultimately show ?case
    using s v2(2,4) by (auto simp: x)
qed

end
