(* ===== verification/TF_Proto.thy ===== *)
theory TF_Proto
  imports Proto_Descriptor
begin

text \<open>
  The files \<open>proto/medasdigital/tokenfactory/*.proto\<close>, and the descriptors of them embedded in the Go
  files of \<open>api/medasdigital/tokenfactory\<close>, byte by byte.  Each descriptor is the encoding of its file.
\<close>

section \<open>Messages\<close>

definition tokenfactory_proto_Params :: message_spec where
  "tokenfactory_proto_Params = proto_message ''Params'' [gogoproto_equal True, amino_name ''medasdigital/x/tokenfactory/Params'']
     []"

definition tokenfactory_proto_Denom :: message_spec where
  "tokenfactory_proto_Denom = proto_message ''Denom'' []
     [proto_field TString ''denom'' 1 [],
      proto_field TString ''description'' 2 [],
      proto_field TString ''ticker'' 3 [],
      proto_field TInt32 ''precision'' 4 [],
      proto_field TString ''url'' 5 [],
      proto_field TInt32 ''maxSupply'' 6 [],
      proto_field TInt32 ''supply'' 7 [],
      proto_field TBool ''canChangeMaxSupply'' 8 [],
      proto_field TString ''owner'' 9 []]"

definition tokenfactory_proto_GenesisState :: message_spec where
  "tokenfactory_proto_GenesisState = proto_message ''GenesisState'' []
     [proto_field (TMessage ''medasdigital.tokenfactory.Params'') ''params'' 1 [gogoproto_nullable False, amino_dont_omitempty True],
      proto_repeated (TMessage ''medasdigital.tokenfactory.Denom'') ''denomList'' 2 [gogoproto_nullable False]]"

definition tokenfactory_proto_MsgUpdateParams :: message_spec where
  "tokenfactory_proto_MsgUpdateParams = proto_message ''MsgUpdateParams'' [cosmos_msg_signer ''authority'', amino_name ''medasdigital/x/tokenfactory/MsgUpdateParams'']
     [proto_field TString ''authority'' 1 [cosmos_proto_scalar ''cosmos.AddressString''],
      proto_field (TMessage ''medasdigital.tokenfactory.Params'') ''params'' 2 [gogoproto_nullable False, amino_dont_omitempty True]]"

definition tokenfactory_proto_MsgUpdateParamsResponse :: message_spec where
  "tokenfactory_proto_MsgUpdateParamsResponse = proto_message ''MsgUpdateParamsResponse'' []
     []"

definition tokenfactory_proto_MsgCreateDenom :: message_spec where
  "tokenfactory_proto_MsgCreateDenom = proto_message ''MsgCreateDenom'' [cosmos_msg_signer ''owner'']
     [proto_field TString ''owner'' 1 [],
      proto_field TString ''denom'' 2 [],
      proto_field TString ''description'' 3 [],
      proto_field TString ''ticker'' 4 [],
      proto_field TInt32 ''precision'' 5 [],
      proto_field TString ''url'' 6 [],
      proto_field TInt32 ''maxSupply'' 7 [],
      proto_field TInt32 ''supply'' 8 [],
      proto_field TBool ''canChangeMaxSupply'' 9 []]"

definition tokenfactory_proto_MsgCreateDenomResponse :: message_spec where
  "tokenfactory_proto_MsgCreateDenomResponse = proto_message ''MsgCreateDenomResponse'' []
     []"

definition tokenfactory_proto_MsgUpdateDenom :: message_spec where
  "tokenfactory_proto_MsgUpdateDenom = proto_message ''MsgUpdateDenom'' [cosmos_msg_signer ''owner'']
     [proto_field TString ''owner'' 1 [],
      proto_field TString ''denom'' 2 [],
      proto_field TString ''description'' 3 [],
      proto_field TString ''ticker'' 4 [],
      proto_field TInt32 ''precision'' 5 [],
      proto_field TString ''url'' 6 [],
      proto_field TInt32 ''maxSupply'' 7 [],
      proto_field TInt32 ''supply'' 8 [],
      proto_field TBool ''canChangeMaxSupply'' 9 []]"

definition tokenfactory_proto_MsgUpdateDenomResponse :: message_spec where
  "tokenfactory_proto_MsgUpdateDenomResponse = proto_message ''MsgUpdateDenomResponse'' []
     []"

definition tokenfactory_proto_MsgDeleteDenom :: message_spec where
  "tokenfactory_proto_MsgDeleteDenom = proto_message ''MsgDeleteDenom'' [cosmos_msg_signer ''owner'']
     [proto_field TString ''owner'' 1 [],
      proto_field TString ''denom'' 2 []]"

definition tokenfactory_proto_MsgDeleteDenomResponse :: message_spec where
  "tokenfactory_proto_MsgDeleteDenomResponse = proto_message ''MsgDeleteDenomResponse'' []
     []"

definition tokenfactory_proto_QueryParamsRequest :: message_spec where
  "tokenfactory_proto_QueryParamsRequest = proto_message ''QueryParamsRequest'' []
     []"

definition tokenfactory_proto_QueryParamsResponse :: message_spec where
  "tokenfactory_proto_QueryParamsResponse = proto_message ''QueryParamsResponse'' []
     [proto_field (TMessage ''medasdigital.tokenfactory.Params'') ''params'' 1 [gogoproto_nullable False, amino_dont_omitempty True]]"

definition tokenfactory_proto_QueryGetDenomRequest :: message_spec where
  "tokenfactory_proto_QueryGetDenomRequest = proto_message ''QueryGetDenomRequest'' []
     [proto_field TString ''denom'' 1 []]"

definition tokenfactory_proto_QueryGetDenomResponse :: message_spec where
  "tokenfactory_proto_QueryGetDenomResponse = proto_message ''QueryGetDenomResponse'' []
     [proto_field (TMessage ''medasdigital.tokenfactory.Denom'') ''denom'' 1 [gogoproto_nullable False]]"

definition tokenfactory_proto_QueryAllDenomRequest :: message_spec where
  "tokenfactory_proto_QueryAllDenomRequest = proto_message ''QueryAllDenomRequest'' []
     [proto_field (TMessage ''cosmos.base.query.v1beta1.PageRequest'') ''pagination'' 1 []]"

definition tokenfactory_proto_QueryAllDenomResponse :: message_spec where
  "tokenfactory_proto_QueryAllDenomResponse = proto_message ''QueryAllDenomResponse'' []
     [proto_repeated (TMessage ''medasdigital.tokenfactory.Denom'') ''denom'' 1 [gogoproto_nullable False],
      proto_field (TMessage ''cosmos.base.query.v1beta1.PageResponse'') ''pagination'' 2 []]"

definition tokenfactory_proto_Module :: message_spec where
  "tokenfactory_proto_Module = proto_message ''Module'' [cosmos_app_module ''medasdigital/x/tokenfactory'']
     [proto_field TString ''authority'' 1 []]"

section \<open>Files\<close>

definition tokenfactory_params_proto :: file_spec where
  "tokenfactory_params_proto = \<lparr>p_name = ''medasdigital/tokenfactory/params.proto'', p_package = ''medasdigital.tokenfactory'',
     p_imports = [''amino/amino.proto'',
       ''gogoproto/gogo.proto''],
     p_messages = [tokenfactory_proto_Params],
     p_services = [],
     p_options = managed_options
       ''com.medasdigital.tokenfactory'' ''ParamsProto''
       ''medasdigital/api/medasdigital/tokenfactory'' ''MTX'' ''Medasdigital.Tokenfactory''\<rparr>"

definition tokenfactory_denom_proto :: file_spec where
  "tokenfactory_denom_proto = \<lparr>p_name = ''medasdigital/tokenfactory/denom.proto'', p_package = ''medasdigital.tokenfactory'',
     p_imports = [],
     p_messages = [tokenfactory_proto_Denom],
     p_services = [],
     p_options = managed_options
       ''com.medasdigital.tokenfactory'' ''DenomProto''
       ''medasdigital/api/medasdigital/tokenfactory'' ''MTX'' ''Medasdigital.Tokenfactory''\<rparr>"

definition tokenfactory_genesis_proto :: file_spec where
  "tokenfactory_genesis_proto = \<lparr>p_name = ''medasdigital/tokenfactory/genesis.proto'', p_package = ''medasdigital.tokenfactory'',
     p_imports = [''amino/amino.proto'',
       ''gogoproto/gogo.proto'',
       ''medasdigital/tokenfactory/params.proto'',
       ''medasdigital/tokenfactory/denom.proto''],
     p_messages = [tokenfactory_proto_GenesisState],
     p_services = [],
     p_options = managed_options
       ''com.medasdigital.tokenfactory'' ''GenesisProto''
       ''medasdigital/api/medasdigital/tokenfactory'' ''MTX'' ''Medasdigital.Tokenfactory''\<rparr>"

definition tokenfactory_proto_Msg :: service_spec where
  "tokenfactory_proto_Msg = \<lparr>s_name = ''Msg'', s_methods =
       [rpc ''UpdateParams'' ''medasdigital.tokenfactory.MsgUpdateParams''
          ''medasdigital.tokenfactory.MsgUpdateParamsResponse'' [],
        rpc ''CreateDenom'' ''medasdigital.tokenfactory.MsgCreateDenom''
          ''medasdigital.tokenfactory.MsgCreateDenomResponse'' [],
        rpc ''UpdateDenom'' ''medasdigital.tokenfactory.MsgUpdateDenom''
          ''medasdigital.tokenfactory.MsgUpdateDenomResponse'' [],
        rpc ''DeleteDenom'' ''medasdigital.tokenfactory.MsgDeleteDenom''
          ''medasdigital.tokenfactory.MsgDeleteDenomResponse'' []],
     s_options = [cosmos_msg_service True]\<rparr>"

definition tokenfactory_tx_proto :: file_spec where
  "tokenfactory_tx_proto = \<lparr>p_name = ''medasdigital/tokenfactory/tx.proto'', p_package = ''medasdigital.tokenfactory'',
     p_imports = [''amino/amino.proto'',
       ''cosmos/msg/v1/msg.proto'',
       ''cosmos_proto/cosmos.proto'',
       ''gogoproto/gogo.proto'',
       ''medasdigital/tokenfactory/params.proto'',
       ''medasdigital/tokenfactory/denom.proto''],
     p_messages = [tokenfactory_proto_MsgUpdateParams, tokenfactory_proto_MsgUpdateParamsResponse, tokenfactory_proto_MsgCreateDenom, tokenfactory_proto_MsgCreateDenomResponse, tokenfactory_proto_MsgUpdateDenom, tokenfactory_proto_MsgUpdateDenomResponse, tokenfactory_proto_MsgDeleteDenom, tokenfactory_proto_MsgDeleteDenomResponse],
     p_services = [tokenfactory_proto_Msg],
     p_options = managed_options
       ''com.medasdigital.tokenfactory'' ''TxProto''
       ''medasdigital/api/medasdigital/tokenfactory'' ''MTX'' ''Medasdigital.Tokenfactory''\<rparr>"

definition tokenfactory_proto_Query :: service_spec where
  "tokenfactory_proto_Query = \<lparr>s_name = ''Query'', s_methods =
       [rpc ''Params'' ''medasdigital.tokenfactory.QueryParamsRequest''
          ''medasdigital.tokenfactory.QueryParamsResponse'' [google_api_http_get ''/medasdigital/tokenfactory/params''],
        rpc ''Denom'' ''medasdigital.tokenfactory.QueryGetDenomRequest''
          ''medasdigital.tokenfactory.QueryGetDenomResponse'' [google_api_http_get ''/medasdigital/tokenfactory/denom/{denom}''],
        rpc ''DenomAll'' ''medasdigital.tokenfactory.QueryAllDenomRequest''
          ''medasdigital.tokenfactory.QueryAllDenomResponse'' [google_api_http_get ''/medasdigital/tokenfactory/denom'']],
     s_options = []\<rparr>"

definition tokenfactory_query_proto :: file_spec where
  "tokenfactory_query_proto = \<lparr>p_name = ''medasdigital/tokenfactory/query.proto'', p_package = ''medasdigital.tokenfactory'',
     p_imports = [''amino/amino.proto'',
       ''gogoproto/gogo.proto'',
       ''google/api/annotations.proto'',
       ''cosmos/base/query/v1beta1/pagination.proto'',
       ''medasdigital/tokenfactory/params.proto'',
       ''medasdigital/tokenfactory/denom.proto''],
     p_messages = [tokenfactory_proto_QueryParamsRequest, tokenfactory_proto_QueryParamsResponse, tokenfactory_proto_QueryGetDenomRequest, tokenfactory_proto_QueryGetDenomResponse, tokenfactory_proto_QueryAllDenomRequest, tokenfactory_proto_QueryAllDenomResponse],
     p_services = [tokenfactory_proto_Query],
     p_options = managed_options
       ''com.medasdigital.tokenfactory'' ''QueryProto''
       ''medasdigital/api/medasdigital/tokenfactory'' ''MTX'' ''Medasdigital.Tokenfactory''\<rparr>"

definition tokenfactory_module_proto :: file_spec where
  "tokenfactory_module_proto = \<lparr>p_name = ''medasdigital/tokenfactory/module/module.proto'', p_package = ''medasdigital.tokenfactory.module'',
     p_imports = [''cosmos/app/v1alpha1/module.proto''],
     p_messages = [tokenfactory_proto_Module],
     p_services = [],
     p_options = managed_options
       ''com.medasdigital.tokenfactory.module'' ''ModuleProto''
       ''medasdigital/api/medasdigital/tokenfactory/module'' ''MTM'' ''Medasdigital.Tokenfactory.Module''\<rparr>"

section \<open>Descriptors\<close>

definition tokenfactory_params_rawDesc :: bytes where
  "tokenfactory_params_rawDesc = concat
    [[0x0a, 0x26, 0x6d, 0x65, 0x64, 0x61, 0x73, 0x64, 0x69, 0x67, 0x69, 0x74, 0x61, 0x6c, 0x2f, 0x74],
     [0x6f, 0x6b, 0x65, 0x6e, 0x66, 0x61, 0x63, 0x74, 0x6f, 0x72, 0x79, 0x2f, 0x70, 0x61, 0x72, 0x61],
     [0x6d, 0x73, 0x2e, 0x70, 0x72, 0x6f, 0x74, 0x6f, 0x12, 0x19, 0x6d, 0x65, 0x64, 0x61, 0x73, 0x64],
     [0x69, 0x67, 0x69, 0x74, 0x61, 0x6c, 0x2e, 0x74, 0x6f, 0x6b, 0x65, 0x6e, 0x66, 0x61, 0x63, 0x74],
     [0x6f, 0x72, 0x79, 0x1a, 0x11, 0x61, 0x6d, 0x69, 0x6e, 0x6f, 0x2f, 0x61, 0x6d, 0x69, 0x6e, 0x6f],
     [0x2e, 0x70, 0x72, 0x6f, 0x74, 0x6f, 0x1a, 0x14, 0x67, 0x6f, 0x67, 0x6f, 0x70, 0x72, 0x6f, 0x74],
     [0x6f, 0x2f, 0x67, 0x6f, 0x67, 0x6f, 0x2e, 0x70, 0x72, 0x6f, 0x74, 0x6f, 0x22, 0x35, 0x0a, 0x06],
     [0x50, 0x61, 0x72, 0x61, 0x6d, 0x73, 0x3a, 0x2b, 0xe8, 0xa0, 0x1f, 0x01, 0x8a, 0xe7, 0xb0, 0x2a],
     [0x22, 0x6d, 0x65, 0x64, 0x61, 0x73, 0x64, 0x69, 0x67, 0x69, 0x74, 0x61, 0x6c, 0x2f, 0x78, 0x2f],
     [0x74, 0x6f, 0x6b, 0x65, 0x6e, 0x66, 0x61, 0x63, 0x74, 0x6f, 0x72, 0x79, 0x2f, 0x50, 0x61, 0x72],
     [0x61, 0x6d, 0x73, 0x42, 0xdd, 0x01, 0x0a, 0x1d, 0x63, 0x6f, 0x6d, 0x2e, 0x6d, 0x65, 0x64, 0x61],
     [0x73, 0x64, 0x69, 0x67, 0x69, 0x74, 0x61, 0x6c, 0x2e, 0x74, 0x6f, 0x6b, 0x65, 0x6e, 0x66, 0x61],
     [0x63, 0x74, 0x6f, 0x72, 0x79, 0x42, 0x0b, 0x50, 0x61, 0x72, 0x61, 0x6d, 0x73, 0x50, 0x72, 0x6f],
     [0x74, 0x6f, 0x50, 0x01, 0x5a, 0x2a, 0x6d, 0x65, 0x64, 0x61, 0x73, 0x64, 0x69, 0x67, 0x69, 0x74],
     [0x61, 0x6c, 0x2f, 0x61, 0x70, 0x69, 0x2f, 0x6d, 0x65, 0x64, 0x61, 0x73, 0x64, 0x69, 0x67, 0x69],
     [0x74, 0x61, 0x6c, 0x2f, 0x74, 0x6f, 0x6b, 0x65, 0x6e, 0x66, 0x61, 0x63, 0x74, 0x6f, 0x72, 0x79],
     [0xa2, 0x02, 0x03, 0x4d, 0x54, 0x58, 0xaa, 0x02, 0x19, 0x4d, 0x65, 0x64, 0x61, 0x73, 0x64, 0x69],
     [0x67, 0x69, 0x74, 0x61, 0x6c, 0x2e, 0x54, 0x6f, 0x6b, 0x65, 0x6e, 0x66, 0x61, 0x63, 0x74, 0x6f],
     [0x72, 0x79, 0xca, 0x02, 0x19, 0x4d, 0x65, 0x64, 0x61, 0x73, 0x64, 0x69, 0x67, 0x69, 0x74, 0x61],
     [0x6c, 0x5c, 0x54, 0x6f, 0x6b, 0x65, 0x6e, 0x66, 0x61, 0x63, 0x74, 0x6f, 0x72, 0x79, 0xe2, 0x02],
     [0x25, 0x4d, 0x65, 0x64, 0x61, 0x73, 0x64, 0x69, 0x67, 0x69, 0x74, 0x61, 0x6c, 0x5c, 0x54, 0x6f],
     [0x6b, 0x65, 0x6e, 0x66, 0x61, 0x63, 0x74, 0x6f, 0x72, 0x79, 0x5c, 0x47, 0x50, 0x42, 0x4d, 0x65],
     [0x74, 0x61, 0x64, 0x61, 0x74, 0x61, 0xea, 0x02, 0x1a, 0x4d, 0x65, 0x64, 0x61, 0x73, 0x64, 0x69],
     [0x67, 0x69, 0x74, 0x61, 0x6c, 0x3a, 0x3a, 0x54, 0x6f, 0x6b, 0x65, 0x6e, 0x66, 0x61, 0x63, 0x74],
     [0x6f, 0x72, 0x79, 0x62, 0x06, 0x70, 0x72, 0x6f, 0x74, 0x6f, 0x33]]"

definition tokenfactory_denom_rawDesc :: bytes where
  "tokenfactory_denom_rawDesc = concat
    [[0x0a, 0x25, 0x6d, 0x65, 0x64, 0x61, 0x73, 0x64, 0x69, 0x67, 0x69, 0x74, 0x61, 0x6c, 0x2f, 0x74],
     [0x6f, 0x6b, 0x65, 0x6e, 0x66, 0x61, 0x63, 0x74, 0x6f, 0x72, 0x79, 0x2f, 0x64, 0x65, 0x6e, 0x6f],
     [0x6d, 0x2e, 0x70, 0x72, 0x6f, 0x74, 0x6f, 0x12, 0x19, 0x6d, 0x65, 0x64, 0x61, 0x73, 0x64, 0x69],
     [0x67, 0x69, 0x74, 0x61, 0x6c, 0x2e, 0x74, 0x6f, 0x6b, 0x65, 0x6e, 0x66, 0x61, 0x63, 0x74, 0x6f],
     [0x72, 0x79, 0x22, 0x83, 0x02, 0x0a, 0x05, 0x44, 0x65, 0x6e, 0x6f, 0x6d, 0x12, 0x14, 0x0a, 0x05],
     [0x64, 0x65, 0x6e, 0x6f, 0x6d, 0x18, 0x01, 0x20, 0x01, 0x28, 0x09, 0x52, 0x05, 0x64, 0x65, 0x6e],
     [0x6f, 0x6d, 0x12, 0x20, 0x0a, 0x0b, 0x64, 0x65, 0x73, 0x63, 0x72, 0x69, 0x70, 0x74, 0x69, 0x6f],
     [0x6e, 0x18, 0x02, 0x20, 0x01, 0x28, 0x09, 0x52, 0x0b, 0x64, 0x65, 0x73, 0x63, 0x72, 0x69, 0x70],
     [0x74, 0x69, 0x6f, 0x6e, 0x12, 0x16, 0x0a, 0x06, 0x74, 0x69, 0x63, 0x6b, 0x65, 0x72, 0x18, 0x03],
     [0x20, 0x01, 0x28, 0x09, 0x52, 0x06, 0x74, 0x69, 0x63, 0x6b, 0x65, 0x72, 0x12, 0x1c, 0x0a, 0x09],
     [0x70, 0x72, 0x65, 0x63, 0x69, 0x73, 0x69, 0x6f, 0x6e, 0x18, 0x04, 0x20, 0x01, 0x28, 0x05, 0x52],
     [0x09, 0x70, 0x72, 0x65, 0x63, 0x69, 0x73, 0x69, 0x6f, 0x6e, 0x12, 0x10, 0x0a, 0x03, 0x75, 0x72],
     [0x6c, 0x18, 0x05, 0x20, 0x01, 0x28, 0x09, 0x52, 0x03, 0x75, 0x72, 0x6c, 0x12, 0x1c, 0x0a, 0x09],
     [0x6d, 0x61, 0x78, 0x53, 0x75, 0x70, 0x70, 0x6c, 0x79, 0x18, 0x06, 0x20, 0x01, 0x28, 0x05, 0x52],
     [0x09, 0x6d, 0x61, 0x78, 0x53, 0x75, 0x70, 0x70, 0x6c, 0x79, 0x12, 0x16, 0x0a, 0x06, 0x73, 0x75],
     [0x70, 0x70, 0x6c, 0x79, 0x18, 0x07, 0x20, 0x01, 0x28, 0x05, 0x52, 0x06, 0x73, 0x75, 0x70, 0x70],
     [0x6c, 0x79, 0x12, 0x2e, 0x0a, 0x12, 0x63, 0x61, 0x6e, 0x43, 0x68, 0x61, 0x6e, 0x67, 0x65, 0x4d],
     [0x61, 0x78, 0x53, 0x75, 0x70, 0x70, 0x6c, 0x79, 0x18, 0x08, 0x20, 0x01, 0x28, 0x08, 0x52, 0x12],
     [0x63, 0x61, 0x6e, 0x43, 0x68, 0x61, 0x6e, 0x67, 0x65, 0x4d, 0x61, 0x78, 0x53, 0x75, 0x70, 0x70],
     [0x6c, 0x79, 0x12, 0x14, 0x0a, 0x05, 0x6f, 0x77, 0x6e, 0x65, 0x72, 0x18, 0x09, 0x20, 0x01, 0x28],
     [0x09, 0x52, 0x05, 0x6f, 0x77, 0x6e, 0x65, 0x72, 0x42, 0xdc, 0x01, 0x0a, 0x1d, 0x63, 0x6f, 0x6d],
     [0x2e, 0x6d, 0x65, 0x64, 0x61, 0x73, 0x64, 0x69, 0x67, 0x69, 0x74, 0x61, 0x6c, 0x2e, 0x74, 0x6f],
     [0x6b, 0x65, 0x6e, 0x66, 0x61, 0x63, 0x74, 0x6f, 0x72, 0x79, 0x42, 0x0a, 0x44, 0x65, 0x6e, 0x6f],
     [0x6d, 0x50, 0x72, 0x6f, 0x74, 0x6f, 0x50, 0x01, 0x5a, 0x2a, 0x6d, 0x65, 0x64, 0x61, 0x73, 0x64],
     [0x69, 0x67, 0x69, 0x74, 0x61, 0x6c, 0x2f, 0x61, 0x70, 0x69, 0x2f, 0x6d, 0x65, 0x64, 0x61, 0x73],
     [0x64, 0x69, 0x67, 0x69, 0x74, 0x61, 0x6c, 0x2f, 0x74, 0x6f, 0x6b, 0x65, 0x6e, 0x66, 0x61, 0x63],
     [0x74, 0x6f, 0x72, 0x79, 0xa2, 0x02, 0x03, 0x4d, 0x54, 0x58, 0xaa, 0x02, 0x19, 0x4d, 0x65, 0x64],
     [0x61, 0x73, 0x64, 0x69, 0x67, 0x69, 0x74, 0x61, 0x6c, 0x2e, 0x54, 0x6f, 0x6b, 0x65, 0x6e, 0x66],
     [0x61, 0x63, 0x74, 0x6f, 0x72, 0x79, 0xca, 0x02, 0x19, 0x4d, 0x65, 0x64, 0x61, 0x73, 0x64, 0x69],
     [0x67, 0x69, 0x74, 0x61, 0x6c, 0x5c, 0x54, 0x6f, 0x6b, 0x65, 0x6e, 0x66, 0x61, 0x63, 0x74, 0x6f],
     [0x72, 0x79, 0xe2, 0x02, 0x25, 0x4d, 0x65, 0x64, 0x61, 0x73, 0x64, 0x69, 0x67, 0x69, 0x74, 0x61],
     [0x6c, 0x5c, 0x54, 0x6f, 0x6b, 0x65, 0x6e, 0x66, 0x61, 0x63, 0x74, 0x6f, 0x72, 0x79, 0x5c, 0x47],
     [0x50, 0x42, 0x4d, 0x65, 0x74, 0x61, 0x64, 0x61, 0x74, 0x61, 0xea, 0x02, 0x1a, 0x4d, 0x65, 0x64],
     [0x61, 0x73, 0x64, 0x69, 0x67, 0x69, 0x74, 0x61, 0x6c, 0x3a, 0x3a, 0x54, 0x6f, 0x6b, 0x65, 0x6e],
     [0x66, 0x61, 0x63, 0x74, 0x6f, 0x72, 0x79, 0x62, 0x06, 0x70, 0x72, 0x6f, 0x74, 0x6f, 0x33]]"

definition tokenfactory_genesis_rawDesc :: bytes where
  "tokenfactory_genesis_rawDesc = concat
    [[0x0a, 0x27, 0x6d, 0x65, 0x64, 0x61, 0x73, 0x64, 0x69, 0x67, 0x69, 0x74, 0x61, 0x6c, 0x2f, 0x74],
     [0x6f, 0x6b, 0x65, 0x6e, 0x66, 0x61, 0x63, 0x74, 0x6f, 0x72, 0x79, 0x2f, 0x67, 0x65, 0x6e, 0x65],
     [0x73, 0x69, 0x73, 0x2e, 0x70, 0x72, 0x6f, 0x74, 0x6f, 0x12, 0x19, 0x6d, 0x65, 0x64, 0x61, 0x73],
     [0x64, 0x69, 0x67, 0x69, 0x74, 0x61, 0x6c, 0x2e, 0x74, 0x6f, 0x6b, 0x65, 0x6e, 0x66, 0x61, 0x63],
     [0x74, 0x6f, 0x72, 0x79, 0x1a, 0x11, 0x61, 0x6d, 0x69, 0x6e, 0x6f, 0x2f, 0x61, 0x6d, 0x69, 0x6e],
     [0x6f, 0x2e, 0x70, 0x72, 0x6f, 0x74, 0x6f, 0x1a, 0x14, 0x67, 0x6f, 0x67, 0x6f, 0x70, 0x72, 0x6f],
     [0x74, 0x6f, 0x2f, 0x67, 0x6f, 0x67, 0x6f, 0x2e, 0x70, 0x72, 0x6f, 0x74, 0x6f, 0x1a, 0x26, 0x6d],
     [0x65, 0x64, 0x61, 0x73, 0x64, 0x69, 0x67, 0x69, 0x74, 0x61, 0x6c, 0x2f, 0x74, 0x6f, 0x6b, 0x65],
     [0x6e, 0x66, 0x61, 0x63, 0x74, 0x6f, 0x72, 0x79, 0x2f, 0x70, 0x61, 0x72, 0x61, 0x6d, 0x73, 0x2e],
     [0x70, 0x72, 0x6f, 0x74, 0x6f, 0x1a, 0x25, 0x6d, 0x65, 0x64, 0x61, 0x73, 0x64, 0x69, 0x67, 0x69],
     [0x74, 0x61, 0x6c, 0x2f, 0x74, 0x6f, 0x6b, 0x65, 0x6e, 0x66, 0x61, 0x63, 0x74, 0x6f, 0x72, 0x79],
     [0x2f, 0x64, 0x65, 0x6e, 0x6f, 0x6d, 0x2e, 0x70, 0x72, 0x6f, 0x74, 0x6f, 0x22, 0x9a, 0x01, 0x0a],
     [0x0c, 0x47, 0x65, 0x6e, 0x65, 0x73, 0x69, 0x73, 0x53, 0x74, 0x61, 0x74, 0x65, 0x12, 0x44, 0x0a],
     [0x06, 0x70, 0x61, 0x72, 0x61, 0x6d, 0x73, 0x18, 0x01, 0x20, 0x01, 0x28, 0x0b, 0x32, 0x21, 0x2e],
     [0x6d, 0x65, 0x64, 0x61, 0x73, 0x64, 0x69, 0x67, 0x69, 0x74, 0x61, 0x6c, 0x2e, 0x74, 0x6f, 0x6b],
     [0x65, 0x6e, 0x66, 0x61, 0x63, 0x74, 0x6f, 0x72, 0x79, 0x2e, 0x50, 0x61, 0x72, 0x61, 0x6d, 0x73],
     [0x42, 0x09, 0xc8, 0xde, 0x1f, 0x00, 0xa8, 0xe7, 0xb0, 0x2a, 0x01, 0x52, 0x06, 0x70, 0x61, 0x72],
     [0x61, 0x6d, 0x73, 0x12, 0x44, 0x0a, 0x09, 0x64, 0x65, 0x6e, 0x6f, 0x6d, 0x4c, 0x69, 0x73, 0x74],
     [0x18, 0x02, 0x20, 0x03, 0x28, 0x0b, 0x32, 0x20, 0x2e, 0x6d, 0x65, 0x64, 0x61, 0x73, 0x64, 0x69],
     [0x67, 0x69, 0x74, 0x61, 0x6c, 0x2e, 0x74, 0x6f, 0x6b, 0x65, 0x6e, 0x66, 0x61, 0x63, 0x74, 0x6f],
     [0x72, 0x79, 0x2e, 0x44, 0x65, 0x6e, 0x6f, 0x6d, 0x42, 0x04, 0xc8, 0xde, 0x1f, 0x00, 0x52, 0x09],
     [0x64, 0x65, 0x6e, 0x6f, 0x6d, 0x4c, 0x69, 0x73, 0x74, 0x42, 0xde, 0x01, 0x0a, 0x1d, 0x63, 0x6f],
     [0x6d, 0x2e, 0x6d, 0x65, 0x64, 0x61, 0x73, 0x64, 0x69, 0x67, 0x69, 0x74, 0x61, 0x6c, 0x2e, 0x74],
     [0x6f, 0x6b, 0x65, 0x6e, 0x66, 0x61, 0x63, 0x74, 0x6f, 0x72, 0x79, 0x42, 0x0c, 0x47, 0x65, 0x6e],
     [0x65, 0x73, 0x69, 0x73, 0x50, 0x72, 0x6f, 0x74, 0x6f, 0x50, 0x01, 0x5a, 0x2a, 0x6d, 0x65, 0x64],
     [0x61, 0x73, 0x64, 0x69, 0x67, 0x69, 0x74, 0x61, 0x6c, 0x2f, 0x61, 0x70, 0x69, 0x2f, 0x6d, 0x65],
     [0x64, 0x61, 0x73, 0x64, 0x69, 0x67, 0x69, 0x74, 0x61, 0x6c, 0x2f, 0x74, 0x6f, 0x6b, 0x65, 0x6e],
     [0x66, 0x61, 0x63, 0x74, 0x6f, 0x72, 0x79, 0xa2, 0x02, 0x03, 0x4d, 0x54, 0x58, 0xaa, 0x02, 0x19],
     [0x4d, 0x65, 0x64, 0x61, 0x73, 0x64, 0x69, 0x67, 0x69, 0x74, 0x61, 0x6c, 0x2e, 0x54, 0x6f, 0x6b],
     [0x65, 0x6e, 0x66, 0x61, 0x63, 0x74, 0x6f, 0x72, 0x79, 0xca, 0x02, 0x19, 0x4d, 0x65, 0x64, 0x61],
     [0x73, 0x64, 0x69, 0x67, 0x69, 0x74, 0x61, 0x6c, 0x5c, 0x54, 0x6f, 0x6b, 0x65, 0x6e, 0x66, 0x61],
     [0x63, 0x74, 0x6f, 0x72, 0x79, 0xe2, 0x02, 0x25, 0x4d, 0x65, 0x64, 0x61, 0x73, 0x64, 0x69, 0x67],
     [0x69, 0x74, 0x61, 0x6c, 0x5c, 0x54, 0x6f, 0x6b, 0x65, 0x6e, 0x66, 0x61, 0x63, 0x74, 0x6f, 0x72],
     [0x79, 0x5c, 0x47, 0x50, 0x42, 0x4d, 0x65, 0x74, 0x61, 0x64, 0x61, 0x74, 0x61, 0xea, 0x02, 0x1a],
     [0x4d, 0x65, 0x64, 0x61, 0x73, 0x64, 0x69, 0x67, 0x69, 0x74, 0x61, 0x6c, 0x3a, 0x3a, 0x54, 0x6f],
     [0x6b, 0x65, 0x6e, 0x66, 0x61, 0x63, 0x74, 0x6f, 0x72, 0x79, 0x62, 0x06, 0x70, 0x72, 0x6f, 0x74],
     [0x6f, 0x33]]"

definition tokenfactory_tx_rawDesc :: bytes where
  "tokenfactory_tx_rawDesc = concat
    [[0x0a, 0x22, 0x6d, 0x65, 0x64, 0x61, 0x73, 0x64, 0x69, 0x67, 0x69, 0x74, 0x61, 0x6c, 0x2f, 0x74],
     [0x6f, 0x6b, 0x65, 0x6e, 0x66, 0x61, 0x63, 0x74, 0x6f, 0x72, 0x79, 0x2f, 0x74, 0x78, 0x2e, 0x70],
     [0x72, 0x6f, 0x74, 0x6f, 0x12, 0x19, 0x6d, 0x65, 0x64, 0x61, 0x73, 0x64, 0x69, 0x67, 0x69, 0x74],
     [0x61, 0x6c, 0x2e, 0x74, 0x6f, 0x6b, 0x65, 0x6e, 0x66, 0x61, 0x63, 0x74, 0x6f, 0x72, 0x79, 0x1a],
     [0x11, 0x61, 0x6d, 0x69, 0x6e, 0x6f, 0x2f, 0x61, 0x6d, 0x69, 0x6e, 0x6f, 0x2e, 0x70, 0x72, 0x6f],
     [0x74, 0x6f, 0x1a, 0x17, 0x63, 0x6f, 0x73, 0x6d, 0x6f, 0x73, 0x2f, 0x6d, 0x73, 0x67, 0x2f, 0x76],
     [0x31, 0x2f, 0x6d, 0x73, 0x67, 0x2e, 0x70, 0x72, 0x6f, 0x74, 0x6f, 0x1a, 0x19, 0x63, 0x6f, 0x73],
     [0x6d, 0x6f, 0x73, 0x5f, 0x70, 0x72, 0x6f, 0x74, 0x6f, 0x2f, 0x63, 0x6f, 0x73, 0x6d, 0x6f, 0x73],
     [0x2e, 0x70, 0x72, 0x6f, 0x74, 0x6f, 0x1a, 0x14, 0x67, 0x6f, 0x67, 0x6f, 0x70, 0x72, 0x6f, 0x74],
     [0x6f, 0x2f, 0x67, 0x6f, 0x67, 0x6f, 0x2e, 0x70, 0x72, 0x6f, 0x74, 0x6f, 0x1a, 0x26, 0x6d, 0x65],
     [0x64, 0x61, 0x73, 0x64, 0x69, 0x67, 0x69, 0x74, 0x61, 0x6c, 0x2f, 0x74, 0x6f, 0x6b, 0x65, 0x6e],
     [0x66, 0x61, 0x63, 0x74, 0x6f, 0x72, 0x79, 0x2f, 0x70, 0x61, 0x72, 0x61, 0x6d, 0x73, 0x2e, 0x70],
     [0x72, 0x6f, 0x74, 0x6f, 0x1a, 0x25, 0x6d, 0x65, 0x64, 0x61, 0x73, 0x64, 0x69, 0x67, 0x69, 0x74],
     [0x61, 0x6c, 0x2f, 0x74, 0x6f, 0x6b, 0x65, 0x6e, 0x66, 0x61, 0x63, 0x74, 0x6f, 0x72, 0x79, 0x2f],
     [0x64, 0x65, 0x6e, 0x6f, 0x6d, 0x2e, 0x70, 0x72, 0x6f, 0x74, 0x6f, 0x22, 0xcf, 0x01, 0x0a, 0x0f],
     [0x4d, 0x73, 0x67, 0x55, 0x70, 0x64, 0x61, 0x74, 0x65, 0x50, 0x61, 0x72, 0x61, 0x6d, 0x73, 0x12],
     [0x36, 0x0a, 0x09, 0x61, 0x75, 0x74, 0x68, 0x6f, 0x72, 0x69, 0x74, 0x79, 0x18, 0x01, 0x20, 0x01],
     [0x28, 0x09, 0x42, 0x18, 0xd2, 0xb4, 0x2d, 0x14, 0x63, 0x6f, 0x73, 0x6d, 0x6f, 0x73, 0x2e, 0x41],
     [0x64, 0x64, 0x72, 0x65, 0x73, 0x73, 0x53, 0x74, 0x72, 0x69, 0x6e, 0x67, 0x52, 0x09, 0x61, 0x75],
     [0x74, 0x68, 0x6f, 0x72, 0x69, 0x74, 0x79, 0x12, 0x44, 0x0a, 0x06, 0x70, 0x61, 0x72, 0x61, 0x6d],
     [0x73, 0x18, 0x02, 0x20, 0x01, 0x28, 0x0b, 0x32, 0x21, 0x2e, 0x6d, 0x65, 0x64, 0x61, 0x73, 0x64],
     [0x69, 0x67, 0x69, 0x74, 0x61, 0x6c, 0x2e, 0x74, 0x6f, 0x6b, 0x65, 0x6e, 0x66, 0x61, 0x63, 0x74],
     [0x6f, 0x72, 0x79, 0x2e, 0x50, 0x61, 0x72, 0x61, 0x6d, 0x73, 0x42, 0x09, 0xc8, 0xde, 0x1f, 0x00],
     [0xa8, 0xe7, 0xb0, 0x2a, 0x01, 0x52, 0x06, 0x70, 0x61, 0x72, 0x61, 0x6d, 0x73, 0x3a, 0x3e, 0x82],
     [0xe7, 0xb0, 0x2a, 0x09, 0x61, 0x75, 0x74, 0x68, 0x6f, 0x72, 0x69, 0x74, 0x79, 0x8a, 0xe7, 0xb0],
     [0x2a, 0x2b, 0x6d, 0x65, 0x64, 0x61, 0x73, 0x64, 0x69, 0x67, 0x69, 0x74, 0x61, 0x6c, 0x2f, 0x78],
     [0x2f, 0x74, 0x6f, 0x6b, 0x65, 0x6e, 0x66, 0x61, 0x63, 0x74, 0x6f, 0x72, 0x79, 0x2f, 0x4d, 0x73],
     [0x67, 0x55, 0x70, 0x64, 0x61, 0x74, 0x65, 0x50, 0x61, 0x72, 0x61, 0x6d, 0x73, 0x22, 0x19, 0x0a],
     [0x17, 0x4d, 0x73, 0x67, 0x55, 0x70, 0x64, 0x61, 0x74, 0x65, 0x50, 0x61, 0x72, 0x61, 0x6d, 0x73],
     [0x52, 0x65, 0x73, 0x70, 0x6f, 0x6e, 0x73, 0x65, 0x22, 0x98, 0x02, 0x0a, 0x0e, 0x4d, 0x73, 0x67],
     [0x43, 0x72, 0x65, 0x61, 0x74, 0x65, 0x44, 0x65, 0x6e, 0x6f, 0x6d, 0x12, 0x14, 0x0a, 0x05, 0x6f],
     [0x77, 0x6e, 0x65, 0x72, 0x18, 0x01, 0x20, 0x01, 0x28, 0x09, 0x52, 0x05, 0x6f, 0x77, 0x6e, 0x65],
     [0x72, 0x12, 0x14, 0x0a, 0x05, 0x64, 0x65, 0x6e, 0x6f, 0x6d, 0x18, 0x02, 0x20, 0x01, 0x28, 0x09],
     [0x52, 0x05, 0x64, 0x65, 0x6e, 0x6f, 0x6d, 0x12, 0x20, 0x0a, 0x0b, 0x64, 0x65, 0x73, 0x63, 0x72],
     [0x69, 0x70, 0x74, 0x69, 0x6f, 0x6e, 0x18, 0x03, 0x20, 0x01, 0x28, 0x09, 0x52, 0x0b, 0x64, 0x65],
     [0x73, 0x63, 0x72, 0x69, 0x70, 0x74, 0x69, 0x6f, 0x6e, 0x12, 0x16, 0x0a, 0x06, 0x74, 0x69, 0x63],
     [0x6b, 0x65, 0x72, 0x18, 0x04, 0x20, 0x01, 0x28, 0x09, 0x52, 0x06, 0x74, 0x69, 0x63, 0x6b, 0x65],
     [0x72, 0x12, 0x1c, 0x0a, 0x09, 0x70, 0x72, 0x65, 0x63, 0x69, 0x73, 0x69, 0x6f, 0x6e, 0x18, 0x05],
     [0x20, 0x01, 0x28, 0x05, 0x52, 0x09, 0x70, 0x72, 0x65, 0x63, 0x69, 0x73, 0x69, 0x6f, 0x6e, 0x12],
     [0x10, 0x0a, 0x03, 0x75, 0x72, 0x6c, 0x18, 0x06, 0x20, 0x01, 0x28, 0x09, 0x52, 0x03, 0x75, 0x72],
     [0x6c, 0x12, 0x1c, 0x0a, 0x09, 0x6d, 0x61, 0x78, 0x53, 0x75, 0x70, 0x70, 0x6c, 0x79, 0x18, 0x07],
     [0x20, 0x01, 0x28, 0x05, 0x52, 0x09, 0x6d, 0x61, 0x78, 0x53, 0x75, 0x70, 0x70, 0x6c, 0x79, 0x12],
     [0x16, 0x0a, 0x06, 0x73, 0x75, 0x70, 0x70, 0x6c, 0x79, 0x18, 0x08, 0x20, 0x01, 0x28, 0x05, 0x52],
     [0x06, 0x73, 0x75, 0x70, 0x70, 0x6c, 0x79, 0x12, 0x2e, 0x0a, 0x12, 0x63, 0x61, 0x6e, 0x43, 0x68],
     [0x61, 0x6e, 0x67, 0x65, 0x4d, 0x61, 0x78, 0x53, 0x75, 0x70, 0x70, 0x6c, 0x79, 0x18, 0x09, 0x20],
     [0x01, 0x28, 0x08, 0x52, 0x12, 0x63, 0x61, 0x6e, 0x43, 0x68, 0x61, 0x6e, 0x67, 0x65, 0x4d, 0x61],
     [0x78, 0x53, 0x75, 0x70, 0x70, 0x6c, 0x79, 0x3a, 0x0a, 0x82, 0xe7, 0xb0, 0x2a, 0x05, 0x6f, 0x77],
     [0x6e, 0x65, 0x72, 0x22, 0x18, 0x0a, 0x16, 0x4d, 0x73, 0x67, 0x43, 0x72, 0x65, 0x61, 0x74, 0x65],
     [0x44, 0x65, 0x6e, 0x6f, 0x6d, 0x52, 0x65, 0x73, 0x70, 0x6f, 0x6e, 0x73, 0x65, 0x22, 0x98, 0x02],
     [0x0a, 0x0e, 0x4d, 0x73, 0x67, 0x55, 0x70, 0x64, 0x61, 0x74, 0x65, 0x44, 0x65, 0x6e, 0x6f, 0x6d],
     [0x12, 0x14, 0x0a, 0x05, 0x6f, 0x77, 0x6e, 0x65, 0x72, 0x18, 0x01, 0x20, 0x01, 0x28, 0x09, 0x52],
     [0x05, 0x6f, 0x77, 0x6e, 0x65, 0x72, 0x12, 0x14, 0x0a, 0x05, 0x64, 0x65, 0x6e, 0x6f, 0x6d, 0x18],
     [0x02, 0x20, 0x01, 0x28, 0x09, 0x52, 0x05, 0x64, 0x65, 0x6e, 0x6f, 0x6d, 0x12, 0x20, 0x0a, 0x0b],
     [0x64, 0x65, 0x73, 0x63, 0x72, 0x69, 0x70, 0x74, 0x69, 0x6f, 0x6e, 0x18, 0x03, 0x20, 0x01, 0x28],
     [0x09, 0x52, 0x0b, 0x64, 0x65, 0x73, 0x63, 0x72, 0x69, 0x70, 0x74, 0x69, 0x6f, 0x6e, 0x12, 0x16],
     [0x0a, 0x06, 0x74, 0x69, 0x63, 0x6b, 0x65, 0x72, 0x18, 0x04, 0x20, 0x01, 0x28, 0x09, 0x52, 0x06],
     [0x74, 0x69, 0x63, 0x6b, 0x65, 0x72, 0x12, 0x1c, 0x0a, 0x09, 0x70, 0x72, 0x65, 0x63, 0x69, 0x73],
     [0x69, 0x6f, 0x6e, 0x18, 0x05, 0x20, 0x01, 0x28, 0x05, 0x52, 0x09, 0x70, 0x72, 0x65, 0x63, 0x69],
     [0x73, 0x69, 0x6f, 0x6e, 0x12, 0x10, 0x0a, 0x03, 0x75, 0x72, 0x6c, 0x18, 0x06, 0x20, 0x01, 0x28],
     [0x09, 0x52, 0x03, 0x75, 0x72, 0x6c, 0x12, 0x1c, 0x0a, 0x09, 0x6d, 0x61, 0x78, 0x53, 0x75, 0x70],
     [0x70, 0x6c, 0x79, 0x18, 0x07, 0x20, 0x01, 0x28, 0x05, 0x52, 0x09, 0x6d, 0x61, 0x78, 0x53, 0x75],
     [0x70, 0x70, 0x6c, 0x79, 0x12, 0x16, 0x0a, 0x06, 0x73, 0x75, 0x70, 0x70, 0x6c, 0x79, 0x18, 0x08],
     [0x20, 0x01, 0x28, 0x05, 0x52, 0x06, 0x73, 0x75, 0x70, 0x70, 0x6c, 0x79, 0x12, 0x2e, 0x0a, 0x12],
     [0x63, 0x61, 0x6e, 0x43, 0x68, 0x61, 0x6e, 0x67, 0x65, 0x4d, 0x61, 0x78, 0x53, 0x75, 0x70, 0x70],
     [0x6c, 0x79, 0x18, 0x09, 0x20, 0x01, 0x28, 0x08, 0x52, 0x12, 0x63, 0x61, 0x6e, 0x43, 0x68, 0x61],
     [0x6e, 0x67, 0x65, 0x4d, 0x61, 0x78, 0x53, 0x75, 0x70, 0x70, 0x6c, 0x79, 0x3a, 0x0a, 0x82, 0xe7],
     [0xb0, 0x2a, 0x05, 0x6f, 0x77, 0x6e, 0x65, 0x72, 0x22, 0x18, 0x0a, 0x16, 0x4d, 0x73, 0x67, 0x55],
     [0x70, 0x64, 0x61, 0x74, 0x65, 0x44, 0x65, 0x6e, 0x6f, 0x6d, 0x52, 0x65, 0x73, 0x70, 0x6f, 0x6e],
     [0x73, 0x65, 0x22, 0x48, 0x0a, 0x0e, 0x4d, 0x73, 0x67, 0x44, 0x65, 0x6c, 0x65, 0x74, 0x65, 0x44],
     [0x65, 0x6e, 0x6f, 0x6d, 0x12, 0x14, 0x0a, 0x05, 0x6f, 0x77, 0x6e, 0x65, 0x72, 0x18, 0x01, 0x20],
     [0x01, 0x28, 0x09, 0x52, 0x05, 0x6f, 0x77, 0x6e, 0x65, 0x72, 0x12, 0x14, 0x0a, 0x05, 0x64, 0x65],
     [0x6e, 0x6f, 0x6d, 0x18, 0x02, 0x20, 0x01, 0x28, 0x09, 0x52, 0x05, 0x64, 0x65, 0x6e, 0x6f, 0x6d],
     [0x3a, 0x0a, 0x82, 0xe7, 0xb0, 0x2a, 0x05, 0x6f, 0x77, 0x6e, 0x65, 0x72, 0x22, 0x18, 0x0a, 0x16],
     [0x4d, 0x73, 0x67, 0x44, 0x65, 0x6c, 0x65, 0x74, 0x65, 0x44, 0x65, 0x6e, 0x6f, 0x6d, 0x52, 0x65],
     [0x73, 0x70, 0x6f, 0x6e, 0x73, 0x65, 0x32, 0xc3, 0x03, 0x0a, 0x03, 0x4d, 0x73, 0x67, 0x12, 0x6e],
     [0x0a, 0x0c, 0x55, 0x70, 0x64, 0x61, 0x74, 0x65, 0x50, 0x61, 0x72, 0x61, 0x6d, 0x73, 0x12, 0x2a],
     [0x2e, 0x6d, 0x65, 0x64, 0x61, 0x73, 0x64, 0x69, 0x67, 0x69, 0x74, 0x61, 0x6c, 0x2e, 0x74, 0x6f],
     [0x6b, 0x65, 0x6e, 0x66, 0x61, 0x63, 0x74, 0x6f, 0x72, 0x79, 0x2e, 0x4d, 0x73, 0x67, 0x55, 0x70],
     [0x64, 0x61, 0x74, 0x65, 0x50, 0x61, 0x72, 0x61, 0x6d, 0x73, 0x1a, 0x32, 0x2e, 0x6d, 0x65, 0x64],
     [0x61, 0x73, 0x64, 0x69, 0x67, 0x69, 0x74, 0x61, 0x6c, 0x2e, 0x74, 0x6f, 0x6b, 0x65, 0x6e, 0x66],
     [0x61, 0x63, 0x74, 0x6f, 0x72, 0x79, 0x2e, 0x4d, 0x73, 0x67, 0x55, 0x70, 0x64, 0x61, 0x74, 0x65],
     [0x50, 0x61, 0x72, 0x61, 0x6d, 0x73, 0x52, 0x65, 0x73, 0x70, 0x6f, 0x6e, 0x73, 0x65, 0x12, 0x6b],
     [0x0a, 0x0b, 0x43, 0x72, 0x65, 0x61, 0x74, 0x65, 0x44, 0x65, 0x6e, 0x6f, 0x6d, 0x12, 0x29, 0x2e],
     [0x6d, 0x65, 0x64, 0x61, 0x73, 0x64, 0x69, 0x67, 0x69, 0x74, 0x61, 0x6c, 0x2e, 0x74, 0x6f, 0x6b],
     [0x65, 0x6e, 0x66, 0x61, 0x63, 0x74, 0x6f, 0x72, 0x79, 0x2e, 0x4d, 0x73, 0x67, 0x43, 0x72, 0x65],
     [0x61, 0x74, 0x65, 0x44, 0x65, 0x6e, 0x6f, 0x6d, 0x1a, 0x31, 0x2e, 0x6d, 0x65, 0x64, 0x61, 0x73],
     [0x64, 0x69, 0x67, 0x69, 0x74, 0x61, 0x6c, 0x2e, 0x74, 0x6f, 0x6b, 0x65, 0x6e, 0x66, 0x61, 0x63],
     [0x74, 0x6f, 0x72, 0x79, 0x2e, 0x4d, 0x73, 0x67, 0x43, 0x72, 0x65, 0x61, 0x74, 0x65, 0x44, 0x65],
     [0x6e, 0x6f, 0x6d, 0x52, 0x65, 0x73, 0x70, 0x6f, 0x6e, 0x73, 0x65, 0x12, 0x6b, 0x0a, 0x0b, 0x55],
     [0x70, 0x64, 0x61, 0x74, 0x65, 0x44, 0x65, 0x6e, 0x6f, 0x6d, 0x12, 0x29, 0x2e, 0x6d, 0x65, 0x64],
     [0x61, 0x73, 0x64, 0x69, 0x67, 0x69, 0x74, 0x61, 0x6c, 0x2e, 0x74, 0x6f, 0x6b, 0x65, 0x6e, 0x66],
     [0x61, 0x63, 0x74, 0x6f, 0x72, 0x79, 0x2e, 0x4d, 0x73, 0x67, 0x55, 0x70, 0x64, 0x61, 0x74, 0x65],
     [0x44, 0x65, 0x6e, 0x6f, 0x6d, 0x1a, 0x31, 0x2e, 0x6d, 0x65, 0x64, 0x61, 0x73, 0x64, 0x69, 0x67],
     [0x69, 0x74, 0x61, 0x6c, 0x2e, 0x74, 0x6f, 0x6b, 0x65, 0x6e, 0x66, 0x61, 0x63, 0x74, 0x6f, 0x72],
     [0x79, 0x2e, 0x4d, 0x73, 0x67, 0x55, 0x70, 0x64, 0x61, 0x74, 0x65, 0x44, 0x65, 0x6e, 0x6f, 0x6d],
     [0x52, 0x65, 0x73, 0x70, 0x6f, 0x6e, 0x73, 0x65, 0x12, 0x6b, 0x0a, 0x0b, 0x44, 0x65, 0x6c, 0x65],
     [0x74, 0x65, 0x44, 0x65, 0x6e, 0x6f, 0x6d, 0x12, 0x29, 0x2e, 0x6d, 0x65, 0x64, 0x61, 0x73, 0x64],
     [0x69, 0x67, 0x69, 0x74, 0x61, 0x6c, 0x2e, 0x74, 0x6f, 0x6b, 0x65, 0x6e, 0x66, 0x61, 0x63, 0x74],
     [0x6f, 0x72, 0x79, 0x2e, 0x4d, 0x73, 0x67, 0x44, 0x65, 0x6c, 0x65, 0x74, 0x65, 0x44, 0x65, 0x6e],
     [0x6f, 0x6d, 0x1a, 0x31, 0x2e, 0x6d, 0x65, 0x64, 0x61, 0x73, 0x64, 0x69, 0x67, 0x69, 0x74, 0x61],
     [0x6c, 0x2e, 0x74, 0x6f, 0x6b, 0x65, 0x6e, 0x66, 0x61, 0x63, 0x74, 0x6f, 0x72, 0x79, 0x2e, 0x4d],
     [0x73, 0x67, 0x44, 0x65, 0x6c, 0x65, 0x74, 0x65, 0x44, 0x65, 0x6e, 0x6f, 0x6d, 0x52, 0x65, 0x73],
     [0x70, 0x6f, 0x6e, 0x73, 0x65, 0x1a, 0x05, 0x80, 0xe7, 0xb0, 0x2a, 0x01, 0x42, 0xd9, 0x01, 0x0a],
     [0x1d, 0x63, 0x6f, 0x6d, 0x2e, 0x6d, 0x65, 0x64, 0x61, 0x73, 0x64, 0x69, 0x67, 0x69, 0x74, 0x61],
     [0x6c, 0x2e, 0x74, 0x6f, 0x6b, 0x65, 0x6e, 0x66, 0x61, 0x63, 0x74, 0x6f, 0x72, 0x79, 0x42, 0x07],
     [0x54, 0x78, 0x50, 0x72, 0x6f, 0x74, 0x6f, 0x50, 0x01, 0x5a, 0x2a, 0x6d, 0x65, 0x64, 0x61, 0x73],
     [0x64, 0x69, 0x67, 0x69, 0x74, 0x61, 0x6c, 0x2f, 0x61, 0x70, 0x69, 0x2f, 0x6d, 0x65, 0x64, 0x61],
     [0x73, 0x64, 0x69, 0x67, 0x69, 0x74, 0x61, 0x6c, 0x2f, 0x74, 0x6f, 0x6b, 0x65, 0x6e, 0x66, 0x61],
     [0x63, 0x74, 0x6f, 0x72, 0x79, 0xa2, 0x02, 0x03, 0x4d, 0x54, 0x58, 0xaa, 0x02, 0x19, 0x4d, 0x65],
     [0x64, 0x61, 0x73, 0x64, 0x69, 0x67, 0x69, 0x74, 0x61, 0x6c, 0x2e, 0x54, 0x6f, 0x6b, 0x65, 0x6e],
     [0x66, 0x61, 0x63, 0x74, 0x6f, 0x72, 0x79, 0xca, 0x02, 0x19, 0x4d, 0x65, 0x64, 0x61, 0x73, 0x64],
     [0x69, 0x67, 0x69, 0x74, 0x61, 0x6c, 0x5c, 0x54, 0x6f, 0x6b, 0x65, 0x6e, 0x66, 0x61, 0x63, 0x74],
     [0x6f, 0x72, 0x79, 0xe2, 0x02, 0x25, 0x4d, 0x65, 0x64, 0x61, 0x73, 0x64, 0x69, 0x67, 0x69, 0x74],
     [0x61, 0x6c, 0x5c, 0x54, 0x6f, 0x6b, 0x65, 0x6e, 0x66, 0x61, 0x63, 0x74, 0x6f, 0x72, 0x79, 0x5c],
     [0x47, 0x50, 0x42, 0x4d, 0x65, 0x74, 0x61, 0x64, 0x61, 0x74, 0x61, 0xea, 0x02, 0x1a, 0x4d, 0x65],
     [0x64, 0x61, 0x73, 0x64, 0x69, 0x67, 0x69, 0x74, 0x61, 0x6c, 0x3a, 0x3a, 0x54, 0x6f, 0x6b, 0x65],
     [0x6e, 0x66, 0x61, 0x63, 0x74, 0x6f, 0x72, 0x79, 0x62, 0x06, 0x70, 0x72, 0x6f, 0x74, 0x6f, 0x33]]"

definition tokenfactory_query_rawDesc :: bytes where
  "tokenfactory_query_rawDesc = concat
    [[0x0a, 0x25, 0x6d, 0x65, 0x64, 0x61, 0x73, 0x64, 0x69, 0x67, 0x69, 0x74, 0x61, 0x6c, 0x2f, 0x74],
     [0x6f, 0x6b, 0x65, 0x6e, 0x66, 0x61, 0x63, 0x74, 0x6f, 0x72, 0x79, 0x2f, 0x71, 0x75, 0x65, 0x72],
     [0x79, 0x2e, 0x70, 0x72, 0x6f, 0x74, 0x6f, 0x12, 0x19, 0x6d, 0x65, 0x64, 0x61, 0x73, 0x64, 0x69],
     [0x67, 0x69, 0x74, 0x61, 0x6c, 0x2e, 0x74, 0x6f, 0x6b, 0x65, 0x6e, 0x66, 0x61, 0x63, 0x74, 0x6f],
     [0x72, 0x79, 0x1a, 0x11, 0x61, 0x6d, 0x69, 0x6e, 0x6f, 0x2f, 0x61, 0x6d, 0x69, 0x6e, 0x6f, 0x2e],
     [0x70, 0x72, 0x6f, 0x74, 0x6f, 0x1a, 0x14, 0x67, 0x6f, 0x67, 0x6f, 0x70, 0x72, 0x6f, 0x74, 0x6f],
     [0x2f, 0x67, 0x6f, 0x67, 0x6f, 0x2e, 0x70, 0x72, 0x6f, 0x74, 0x6f, 0x1a, 0x1c, 0x67, 0x6f, 0x6f],
     [0x67, 0x6c, 0x65, 0x2f, 0x61, 0x70, 0x69, 0x2f, 0x61, 0x6e, 0x6e, 0x6f, 0x74, 0x61, 0x74, 0x69],
     [0x6f, 0x6e, 0x73, 0x2e, 0x70, 0x72, 0x6f, 0x74, 0x6f, 0x1a, 0x2a, 0x63, 0x6f, 0x73, 0x6d, 0x6f],
     [0x73, 0x2f, 0x62, 0x61, 0x73, 0x65, 0x2f, 0x71, 0x75, 0x65, 0x72, 0x79, 0x2f, 0x76, 0x31, 0x62],
     [0x65, 0x74, 0x61, 0x31, 0x2f, 0x70, 0x61, 0x67, 0x69, 0x6e, 0x61, 0x74, 0x69, 0x6f, 0x6e, 0x2e],
     [0x70, 0x72, 0x6f, 0x74, 0x6f, 0x1a, 0x26, 0x6d, 0x65, 0x64, 0x61, 0x73, 0x64, 0x69, 0x67, 0x69],
     [0x74, 0x61, 0x6c, 0x2f, 0x74, 0x6f, 0x6b, 0x65, 0x6e, 0x66, 0x61, 0x63, 0x74, 0x6f, 0x72, 0x79],
     [0x2f, 0x70, 0x61, 0x72, 0x61, 0x6d, 0x73, 0x2e, 0x70, 0x72, 0x6f, 0x74, 0x6f, 0x1a, 0x25, 0x6d],
     [0x65, 0x64, 0x61, 0x73, 0x64, 0x69, 0x67, 0x69, 0x74, 0x61, 0x6c, 0x2f, 0x74, 0x6f, 0x6b, 0x65],
     [0x6e, 0x66, 0x61, 0x63, 0x74, 0x6f, 0x72, 0x79, 0x2f, 0x64, 0x65, 0x6e, 0x6f, 0x6d, 0x2e, 0x70],
     [0x72, 0x6f, 0x74, 0x6f, 0x22, 0x14, 0x0a, 0x12, 0x51, 0x75, 0x65, 0x72, 0x79, 0x50, 0x61, 0x72],
     [0x61, 0x6d, 0x73, 0x52, 0x65, 0x71, 0x75, 0x65, 0x73, 0x74, 0x22, 0x5b, 0x0a, 0x13, 0x51, 0x75],
     [0x65, 0x72, 0x79, 0x50, 0x61, 0x72, 0x61, 0x6d, 0x73, 0x52, 0x65, 0x73, 0x70, 0x6f, 0x6e, 0x73],
     [0x65, 0x12, 0x44, 0x0a, 0x06, 0x70, 0x61, 0x72, 0x61, 0x6d, 0x73, 0x18, 0x01, 0x20, 0x01, 0x28],
     [0x0b, 0x32, 0x21, 0x2e, 0x6d, 0x65, 0x64, 0x61, 0x73, 0x64, 0x69, 0x67, 0x69, 0x74, 0x61, 0x6c],
     [0x2e, 0x74, 0x6f, 0x6b, 0x65, 0x6e, 0x66, 0x61, 0x63, 0x74, 0x6f, 0x72, 0x79, 0x2e, 0x50, 0x61],
     [0x72, 0x61, 0x6d, 0x73, 0x42, 0x09, 0xc8, 0xde, 0x1f, 0x00, 0xa8, 0xe7, 0xb0, 0x2a, 0x01, 0x52],
     [0x06, 0x70, 0x61, 0x72, 0x61, 0x6d, 0x73, 0x22, 0x2c, 0x0a, 0x14, 0x51, 0x75, 0x65, 0x72, 0x79],
     [0x47, 0x65, 0x74, 0x44, 0x65, 0x6e, 0x6f, 0x6d, 0x52, 0x65, 0x71, 0x75, 0x65, 0x73, 0x74, 0x12],
     [0x14, 0x0a, 0x05, 0x64, 0x65, 0x6e, 0x6f, 0x6d, 0x18, 0x01, 0x20, 0x01, 0x28, 0x09, 0x52, 0x05],
     [0x64, 0x65, 0x6e, 0x6f, 0x6d, 0x22, 0x55, 0x0a, 0x15, 0x51, 0x75, 0x65, 0x72, 0x79, 0x47, 0x65],
     [0x74, 0x44, 0x65, 0x6e, 0x6f, 0x6d, 0x52, 0x65, 0x73, 0x70, 0x6f, 0x6e, 0x73, 0x65, 0x12, 0x3c],
     [0x0a, 0x05, 0x64, 0x65, 0x6e, 0x6f, 0x6d, 0x18, 0x01, 0x20, 0x01, 0x28, 0x0b, 0x32, 0x20, 0x2e],
     [0x6d, 0x65, 0x64, 0x61, 0x73, 0x64, 0x69, 0x67, 0x69, 0x74, 0x61, 0x6c, 0x2e, 0x74, 0x6f, 0x6b],
     [0x65, 0x6e, 0x66, 0x61, 0x63, 0x74, 0x6f, 0x72, 0x79, 0x2e, 0x44, 0x65, 0x6e, 0x6f, 0x6d, 0x42],
     [0x04, 0xc8, 0xde, 0x1f, 0x00, 0x52, 0x05, 0x64, 0x65, 0x6e, 0x6f, 0x6d, 0x22, 0x5e, 0x0a, 0x14],
     [0x51, 0x75, 0x65, 0x72, 0x79, 0x41, 0x6c, 0x6c, 0x44, 0x65, 0x6e, 0x6f, 0x6d, 0x52, 0x65, 0x71],
     [0x75, 0x65, 0x73, 0x74, 0x12, 0x46, 0x0a, 0x0a, 0x70, 0x61, 0x67, 0x69, 0x6e, 0x61, 0x74, 0x69],
     [0x6f, 0x6e, 0x18, 0x01, 0x20, 0x01, 0x28, 0x0b, 0x32, 0x26, 0x2e, 0x63, 0x6f, 0x73, 0x6d, 0x6f],
     [0x73, 0x2e, 0x62, 0x61, 0x73, 0x65, 0x2e, 0x71, 0x75, 0x65, 0x72, 0x79, 0x2e, 0x76, 0x31, 0x62],
     [0x65, 0x74, 0x61, 0x31, 0x2e, 0x50, 0x61, 0x67, 0x65, 0x52, 0x65, 0x71, 0x75, 0x65, 0x73, 0x74],
     [0x52, 0x0a, 0x70, 0x61, 0x67, 0x69, 0x6e, 0x61, 0x74, 0x69, 0x6f, 0x6e, 0x22, 0x9e, 0x01, 0x0a],
     [0x15, 0x51, 0x75, 0x65, 0x72, 0x79, 0x41, 0x6c, 0x6c, 0x44, 0x65, 0x6e, 0x6f, 0x6d, 0x52, 0x65],
     [0x73, 0x70, 0x6f, 0x6e, 0x73, 0x65, 0x12, 0x3c, 0x0a, 0x05, 0x64, 0x65, 0x6e, 0x6f, 0x6d, 0x18],
     [0x01, 0x20, 0x03, 0x28, 0x0b, 0x32, 0x20, 0x2e, 0x6d, 0x65, 0x64, 0x61, 0x73, 0x64, 0x69, 0x67],
     [0x69, 0x74, 0x61, 0x6c, 0x2e, 0x74, 0x6f, 0x6b, 0x65, 0x6e, 0x66, 0x61, 0x63, 0x74, 0x6f, 0x72],
     [0x79, 0x2e, 0x44, 0x65, 0x6e, 0x6f, 0x6d, 0x42, 0x04, 0xc8, 0xde, 0x1f, 0x00, 0x52, 0x05, 0x64],
     [0x65, 0x6e, 0x6f, 0x6d, 0x12, 0x47, 0x0a, 0x0a, 0x70, 0x61, 0x67, 0x69, 0x6e, 0x61, 0x74, 0x69],
     [0x6f, 0x6e, 0x18, 0x02, 0x20, 0x01, 0x28, 0x0b, 0x32, 0x27, 0x2e, 0x63, 0x6f, 0x73, 0x6d, 0x6f],
     [0x73, 0x2e, 0x62, 0x61, 0x73, 0x65, 0x2e, 0x71, 0x75, 0x65, 0x72, 0x79, 0x2e, 0x76, 0x31, 0x62],
     [0x65, 0x74, 0x61, 0x31, 0x2e, 0x50, 0x61, 0x67, 0x65, 0x52, 0x65, 0x73, 0x70, 0x6f, 0x6e, 0x73],
     [0x65, 0x52, 0x0a, 0x70, 0x61, 0x67, 0x69, 0x6e, 0x61, 0x74, 0x69, 0x6f, 0x6e, 0x32, 0xd5, 0x03],
     [0x0a, 0x05, 0x51, 0x75, 0x65, 0x72, 0x79, 0x12, 0x92, 0x01, 0x0a, 0x06, 0x50, 0x61, 0x72, 0x61],
     [0x6d, 0x73, 0x12, 0x2d, 0x2e, 0x6d, 0x65, 0x64, 0x61, 0x73, 0x64, 0x69, 0x67, 0x69, 0x74, 0x61],
     [0x6c, 0x2e, 0x74, 0x6f, 0x6b, 0x65, 0x6e, 0x66, 0x61, 0x63, 0x74, 0x6f, 0x72, 0x79, 0x2e, 0x51],
     [0x75, 0x65, 0x72, 0x79, 0x50, 0x61, 0x72, 0x61, 0x6d, 0x73, 0x52, 0x65, 0x71, 0x75, 0x65, 0x73],
     [0x74, 0x1a, 0x2e, 0x2e, 0x6d, 0x65, 0x64, 0x61, 0x73, 0x64, 0x69, 0x67, 0x69, 0x74, 0x61, 0x6c],
     [0x2e, 0x74, 0x6f, 0x6b, 0x65, 0x6e, 0x66, 0x61, 0x63, 0x74, 0x6f, 0x72, 0x79, 0x2e, 0x51, 0x75],
     [0x65, 0x72, 0x79, 0x50, 0x61, 0x72, 0x61, 0x6d, 0x73, 0x52, 0x65, 0x73, 0x70, 0x6f, 0x6e, 0x73],
     [0x65, 0x22, 0x29, 0x82, 0xd3, 0xe4, 0x93, 0x02, 0x23, 0x12, 0x21, 0x2f, 0x6d, 0x65, 0x64, 0x61],
     [0x73, 0x64, 0x69, 0x67, 0x69, 0x74, 0x61, 0x6c, 0x2f, 0x74, 0x6f, 0x6b, 0x65, 0x6e, 0x66, 0x61],
     [0x63, 0x74, 0x6f, 0x72, 0x79, 0x2f, 0x70, 0x61, 0x72, 0x61, 0x6d, 0x73, 0x12, 0x9c, 0x01, 0x0a],
     [0x05, 0x44, 0x65, 0x6e, 0x6f, 0x6d, 0x12, 0x2f, 0x2e, 0x6d, 0x65, 0x64, 0x61, 0x73, 0x64, 0x69],
     [0x67, 0x69, 0x74, 0x61, 0x6c, 0x2e, 0x74, 0x6f, 0x6b, 0x65, 0x6e, 0x66, 0x61, 0x63, 0x74, 0x6f],
     [0x72, 0x79, 0x2e, 0x51, 0x75, 0x65, 0x72, 0x79, 0x47, 0x65, 0x74, 0x44, 0x65, 0x6e, 0x6f, 0x6d],
     [0x52, 0x65, 0x71, 0x75, 0x65, 0x73, 0x74, 0x1a, 0x30, 0x2e, 0x6d, 0x65, 0x64, 0x61, 0x73, 0x64],
     [0x69, 0x67, 0x69, 0x74, 0x61, 0x6c, 0x2e, 0x74, 0x6f, 0x6b, 0x65, 0x6e, 0x66, 0x61, 0x63, 0x74],
     [0x6f, 0x72, 0x79, 0x2e, 0x51, 0x75, 0x65, 0x72, 0x79, 0x47, 0x65, 0x74, 0x44, 0x65, 0x6e, 0x6f],
     [0x6d, 0x52, 0x65, 0x73, 0x70, 0x6f, 0x6e, 0x73, 0x65, 0x22, 0x30, 0x82, 0xd3, 0xe4, 0x93, 0x02],
     [0x2a, 0x12, 0x28, 0x2f, 0x6d, 0x65, 0x64, 0x61, 0x73, 0x64, 0x69, 0x67, 0x69, 0x74, 0x61, 0x6c],
     [0x2f, 0x74, 0x6f, 0x6b, 0x65, 0x6e, 0x66, 0x61, 0x63, 0x74, 0x6f, 0x72, 0x79, 0x2f, 0x64, 0x65],
     [0x6e, 0x6f, 0x6d, 0x2f, 0x7b, 0x64, 0x65, 0x6e, 0x6f, 0x6d, 0x7d, 0x12, 0x97, 0x01, 0x0a, 0x08],
     [0x44, 0x65, 0x6e, 0x6f, 0x6d, 0x41, 0x6c, 0x6c, 0x12, 0x2f, 0x2e, 0x6d, 0x65, 0x64, 0x61, 0x73],
     [0x64, 0x69, 0x67, 0x69, 0x74, 0x61, 0x6c, 0x2e, 0x74, 0x6f, 0x6b, 0x65, 0x6e, 0x66, 0x61, 0x63],
     [0x74, 0x6f, 0x72, 0x79, 0x2e, 0x51, 0x75, 0x65, 0x72, 0x79, 0x41, 0x6c, 0x6c, 0x44, 0x65, 0x6e],
     [0x6f, 0x6d, 0x52, 0x65, 0x71, 0x75, 0x65, 0x73, 0x74, 0x1a, 0x30, 0x2e, 0x6d, 0x65, 0x64, 0x61],
     [0x73, 0x64, 0x69, 0x67, 0x69, 0x74, 0x61, 0x6c, 0x2e, 0x74, 0x6f, 0x6b, 0x65, 0x6e, 0x66, 0x61],
     [0x63, 0x74, 0x6f, 0x72, 0x79, 0x2e, 0x51, 0x75, 0x65, 0x72, 0x79, 0x41, 0x6c, 0x6c, 0x44, 0x65],
     [0x6e, 0x6f, 0x6d, 0x52, 0x65, 0x73, 0x70, 0x6f, 0x6e, 0x73, 0x65, 0x22, 0x28, 0x82, 0xd3, 0xe4],
     [0x93, 0x02, 0x22, 0x12, 0x20, 0x2f, 0x6d, 0x65, 0x64, 0x61, 0x73, 0x64, 0x69, 0x67, 0x69, 0x74],
     [0x61, 0x6c, 0x2f, 0x74, 0x6f, 0x6b, 0x65, 0x6e, 0x66, 0x61, 0x63, 0x74, 0x6f, 0x72, 0x79, 0x2f],
     [0x64, 0x65, 0x6e, 0x6f, 0x6d, 0x42, 0xdc, 0x01, 0x0a, 0x1d, 0x63, 0x6f, 0x6d, 0x2e, 0x6d, 0x65],
     [0x64, 0x61, 0x73, 0x64, 0x69, 0x67, 0x69, 0x74, 0x61, 0x6c, 0x2e, 0x74, 0x6f, 0x6b, 0x65, 0x6e],
     [0x66, 0x61, 0x63, 0x74, 0x6f, 0x72, 0x79, 0x42, 0x0a, 0x51, 0x75, 0x65, 0x72, 0x79, 0x50, 0x72],
     [0x6f, 0x74, 0x6f, 0x50, 0x01, 0x5a, 0x2a, 0x6d, 0x65, 0x64, 0x61, 0x73, 0x64, 0x69, 0x67, 0x69],
     [0x74, 0x61, 0x6c, 0x2f, 0x61, 0x70, 0x69, 0x2f, 0x6d, 0x65, 0x64, 0x61, 0x73, 0x64, 0x69, 0x67],
     [0x69, 0x74, 0x61, 0x6c, 0x2f, 0x74, 0x6f, 0x6b, 0x65, 0x6e, 0x66, 0x61, 0x63, 0x74, 0x6f, 0x72],
     [0x79, 0xa2, 0x02, 0x03, 0x4d, 0x54, 0x58, 0xaa, 0x02, 0x19, 0x4d, 0x65, 0x64, 0x61, 0x73, 0x64],
     [0x69, 0x67, 0x69, 0x74, 0x61, 0x6c, 0x2e, 0x54, 0x6f, 0x6b, 0x65, 0x6e, 0x66, 0x61, 0x63, 0x74],
     [0x6f, 0x72, 0x79, 0xca, 0x02, 0x19, 0x4d, 0x65, 0x64, 0x61, 0x73, 0x64, 0x69, 0x67, 0x69, 0x74],
     [0x61, 0x6c, 0x5c, 0x54, 0x6f, 0x6b, 0x65, 0x6e, 0x66, 0x61, 0x63, 0x74, 0x6f, 0x72, 0x79, 0xe2],
     [0x02, 0x25, 0x4d, 0x65, 0x64, 0x61, 0x73, 0x64, 0x69, 0x67, 0x69, 0x74, 0x61, 0x6c, 0x5c, 0x54],
     [0x6f, 0x6b, 0x65, 0x6e, 0x66, 0x61, 0x63, 0x74, 0x6f, 0x72, 0x79, 0x5c, 0x47, 0x50, 0x42, 0x4d],
     [0x65, 0x74, 0x61, 0x64, 0x61, 0x74, 0x61, 0xea, 0x02, 0x1a, 0x4d, 0x65, 0x64, 0x61, 0x73, 0x64],
     [0x69, 0x67, 0x69, 0x74, 0x61, 0x6c, 0x3a, 0x3a, 0x54, 0x6f, 0x6b, 0x65, 0x6e, 0x66, 0x61, 0x63],
     [0x74, 0x6f, 0x72, 0x79, 0x62, 0x06, 0x70, 0x72, 0x6f, 0x74, 0x6f, 0x33]]"

definition tokenfactory_module_rawDesc :: bytes where
  "tokenfactory_module_rawDesc = concat
    [[0x0a, 0x2d, 0x6d, 0x65, 0x64, 0x61, 0x73, 0x64, 0x69, 0x67, 0x69, 0x74, 0x61, 0x6c, 0x2f, 0x74],
     [0x6f, 0x6b, 0x65, 0x6e, 0x66, 0x61, 0x63, 0x74, 0x6f, 0x72, 0x79, 0x2f, 0x6d, 0x6f, 0x64, 0x75],
     [0x6c, 0x65, 0x2f, 0x6d, 0x6f, 0x64, 0x75, 0x6c, 0x65, 0x2e, 0x70, 0x72, 0x6f, 0x74, 0x6f, 0x12],
     [0x20, 0x6d, 0x65, 0x64, 0x61, 0x73, 0x64, 0x69, 0x67, 0x69, 0x74, 0x61, 0x6c, 0x2e, 0x74, 0x6f],
     [0x6b, 0x65, 0x6e, 0x66, 0x61, 0x63, 0x74, 0x6f, 0x72, 0x79, 0x2e, 0x6d, 0x6f, 0x64, 0x75, 0x6c],
     [0x65, 0x1a, 0x20, 0x63, 0x6f, 0x73, 0x6d, 0x6f, 0x73, 0x2f, 0x61, 0x70, 0x70, 0x2f, 0x76, 0x31],
     [0x61, 0x6c, 0x70, 0x68, 0x61, 0x31, 0x2f, 0x6d, 0x6f, 0x64, 0x75, 0x6c, 0x65, 0x2e, 0x70, 0x72],
     [0x6f, 0x74, 0x6f, 0x22, 0x4b, 0x0a, 0x06, 0x4d, 0x6f, 0x64, 0x75, 0x6c, 0x65, 0x12, 0x1c, 0x0a],
     [0x09, 0x61, 0x75, 0x74, 0x68, 0x6f, 0x72, 0x69, 0x74, 0x79, 0x18, 0x01, 0x20, 0x01, 0x28, 0x09],
     [0x52, 0x09, 0x61, 0x75, 0x74, 0x68, 0x6f, 0x72, 0x69, 0x74, 0x79, 0x3a, 0x23, 0xba, 0xc0, 0x96],
     [0xda, 0x01, 0x1d, 0x0a, 0x1b, 0x6d, 0x65, 0x64, 0x61, 0x73, 0x64, 0x69, 0x67, 0x69, 0x74, 0x61],
     [0x6c, 0x2f, 0x78, 0x2f, 0x74, 0x6f, 0x6b, 0x65, 0x6e, 0x66, 0x61, 0x63, 0x74, 0x6f, 0x72, 0x79],
     [0x42, 0x88, 0x02, 0x0a, 0x24, 0x63, 0x6f, 0x6d, 0x2e, 0x6d, 0x65, 0x64, 0x61, 0x73, 0x64, 0x69],
     [0x67, 0x69, 0x74, 0x61, 0x6c, 0x2e, 0x74, 0x6f, 0x6b, 0x65, 0x6e, 0x66, 0x61, 0x63, 0x74, 0x6f],
     [0x72, 0x79, 0x2e, 0x6d, 0x6f, 0x64, 0x75, 0x6c, 0x65, 0x42, 0x0b, 0x4d, 0x6f, 0x64, 0x75, 0x6c],
     [0x65, 0x50, 0x72, 0x6f, 0x74, 0x6f, 0x50, 0x01, 0x5a, 0x31, 0x6d, 0x65, 0x64, 0x61, 0x73, 0x64],
     [0x69, 0x67, 0x69, 0x74, 0x61, 0x6c, 0x2f, 0x61, 0x70, 0x69, 0x2f, 0x6d, 0x65, 0x64, 0x61, 0x73],
     [0x64, 0x69, 0x67, 0x69, 0x74, 0x61, 0x6c, 0x2f, 0x74, 0x6f, 0x6b, 0x65, 0x6e, 0x66, 0x61, 0x63],
     [0x74, 0x6f, 0x72, 0x79, 0x2f, 0x6d, 0x6f, 0x64, 0x75, 0x6c, 0x65, 0xa2, 0x02, 0x03, 0x4d, 0x54],
     [0x4d, 0xaa, 0x02, 0x20, 0x4d, 0x65, 0x64, 0x61, 0x73, 0x64, 0x69, 0x67, 0x69, 0x74, 0x61, 0x6c],
     [0x2e, 0x54, 0x6f, 0x6b, 0x65, 0x6e, 0x66, 0x61, 0x63, 0x74, 0x6f, 0x72, 0x79, 0x2e, 0x4d, 0x6f],
     [0x64, 0x75, 0x6c, 0x65, 0xca, 0x02, 0x20, 0x4d, 0x65, 0x64, 0x61, 0x73, 0x64, 0x69, 0x67, 0x69],
     [0x74, 0x61, 0x6c, 0x5c, 0x54, 0x6f, 0x6b, 0x65, 0x6e, 0x66, 0x61, 0x63, 0x74, 0x6f, 0x72, 0x79],
     [0x5c, 0x4d, 0x6f, 0x64, 0x75, 0x6c, 0x65, 0xe2, 0x02, 0x2c, 0x4d, 0x65, 0x64, 0x61, 0x73, 0x64],
     [0x69, 0x67, 0x69, 0x74, 0x61, 0x6c, 0x5c, 0x54, 0x6f, 0x6b, 0x65, 0x6e, 0x66, 0x61, 0x63, 0x74],
     [0x6f, 0x72, 0x79, 0x5c, 0x4d, 0x6f, 0x64, 0x75, 0x6c, 0x65, 0x5c, 0x47, 0x50, 0x42, 0x4d, 0x65],
     [0x74, 0x61, 0x64, 0x61, 0x74, 0x61, 0xea, 0x02, 0x22, 0x4d, 0x65, 0x64, 0x61, 0x73, 0x64, 0x69],
     [0x67, 0x69, 0x74, 0x61, 0x6c, 0x3a, 0x3a, 0x54, 0x6f, 0x6b, 0x65, 0x6e, 0x66, 0x61, 0x63, 0x74],
     [0x6f, 0x72, 0x79, 0x3a, 0x3a, 0x4d, 0x6f, 0x64, 0x75, 0x6c, 0x65, 0x62, 0x06, 0x70, 0x72, 0x6f],
     [0x74, 0x6f, 0x33]]"

section \<open>Their bytes\<close>

text \<open>The fields, the messages and the services, then the files.\<close>

lemma tokenfactory_field_bytes:
  "field_descriptor_bytes (proto_field TString ''denom'' 1 []) =
    [0x0a, 0x05, 0x64, 0x65, 0x6e, 0x6f, 0x6d, 0x18, 0x01, 0x20, 0x01, 0x28, 0x09, 0x52, 0x05, 0x64,
     0x65, 0x6e, 0x6f, 0x6d]"
  "field_descriptor_bytes (proto_field TString ''description'' 2 []) =
    [0x0a, 0x0b, 0x64, 0x65, 0x73, 0x63, 0x72, 0x69, 0x70, 0x74, 0x69, 0x6f, 0x6e, 0x18, 0x02, 0x20,
     0x01, 0x28, 0x09, 0x52, 0x0b, 0x64, 0x65, 0x73, 0x63, 0x72, 0x69, 0x70, 0x74, 0x69, 0x6f, 0x6e]"
  "field_descriptor_bytes (proto_field TString ''ticker'' 3 []) =
    [0x0a, 0x06, 0x74, 0x69, 0x63, 0x6b, 0x65, 0x72, 0x18, 0x03, 0x20, 0x01, 0x28, 0x09, 0x52, 0x06,
     0x74, 0x69, 0x63, 0x6b, 0x65, 0x72]"
  "field_descriptor_bytes (proto_field TInt32 ''precision'' 4 []) =
    [0x0a, 0x09, 0x70, 0x72, 0x65, 0x63, 0x69, 0x73, 0x69, 0x6f, 0x6e, 0x18, 0x04, 0x20, 0x01, 0x28,
     0x05, 0x52, 0x09, 0x70, 0x72, 0x65, 0x63, 0x69, 0x73, 0x69, 0x6f, 0x6e]"
  "field_descriptor_bytes (proto_field TString ''url'' 5 []) =
    [0x0a, 0x03, 0x75, 0x72, 0x6c, 0x18, 0x05, 0x20, 0x01, 0x28, 0x09, 0x52, 0x03, 0x75, 0x72, 0x6c]"
  "field_descriptor_bytes (proto_field TInt32 ''maxSupply'' 6 []) =
    [0x0a, 0x09, 0x6d, 0x61, 0x78, 0x53, 0x75, 0x70, 0x70, 0x6c, 0x79, 0x18, 0x06, 0x20, 0x01, 0x28,
     0x05, 0x52, 0x09, 0x6d, 0x61, 0x78, 0x53, 0x75, 0x70, 0x70, 0x6c, 0x79]"
  "field_descriptor_bytes (proto_field TInt32 ''supply'' 7 []) =
    [0x0a, 0x06, 0x73, 0x75, 0x70, 0x70, 0x6c, 0x79, 0x18, 0x07, 0x20, 0x01, 0x28, 0x05, 0x52, 0x06,
     0x73, 0x75, 0x70, 0x70, 0x6c, 0x79]"
  "field_descriptor_bytes (proto_field TBool ''canChangeMaxSupply'' 8 []) =
    [0x0a, 0x12, 0x63, 0x61, 0x6e, 0x43, 0x68, 0x61, 0x6e, 0x67, 0x65, 0x4d, 0x61, 0x78, 0x53, 0x75,
     0x70, 0x70, 0x6c, 0x79, 0x18, 0x08, 0x20, 0x01, 0x28, 0x08, 0x52, 0x12, 0x63, 0x61, 0x6e, 0x43,
     0x68, 0x61, 0x6e, 0x67, 0x65, 0x4d, 0x61, 0x78, 0x53, 0x75, 0x70, 0x70, 0x6c, 0x79]"
  "field_descriptor_bytes (proto_field TString ''owner'' 9 []) =
    [0x0a, 0x05, 0x6f, 0x77, 0x6e, 0x65, 0x72, 0x18, 0x09, 0x20, 0x01, 0x28, 0x09, 0x52, 0x05, 0x6f,
     0x77, 0x6e, 0x65, 0x72]"
  "field_descriptor_bytes (proto_field (TMessage ''medasdigital.tokenfactory.Params'') ''params'' 1 [gogoproto_nullable False, amino_dont_omitempty True]) =
    [0x0a, 0x06, 0x70, 0x61, 0x72, 0x61, 0x6d, 0x73, 0x18, 0x01, 0x20, 0x01, 0x28, 0x0b, 0x32, 0x21,
     0x2e, 0x6d, 0x65, 0x64, 0x61, 0x73, 0x64, 0x69, 0x67, 0x69, 0x74, 0x61, 0x6c, 0x2e, 0x74, 0x6f,
     0x6b, 0x65, 0x6e, 0x66, 0x61, 0x63, 0x74, 0x6f, 0x72, 0x79, 0x2e, 0x50, 0x61, 0x72, 0x61, 0x6d,
     0x73, 0x42, 0x09, 0xc8, 0xde, 0x1f, 0x00, 0xa8, 0xe7, 0xb0, 0x2a, 0x01, 0x52, 0x06, 0x70, 0x61,
     0x72, 0x61, 0x6d, 0x73]"
  "field_descriptor_bytes (proto_repeated (TMessage ''medasdigital.tokenfactory.Denom'') ''denomList'' 2 [gogoproto_nullable False]) =
    [0x0a, 0x09, 0x64, 0x65, 0x6e, 0x6f, 0x6d, 0x4c, 0x69, 0x73, 0x74, 0x18, 0x02, 0x20, 0x03, 0x28,
     0x0b, 0x32, 0x20, 0x2e, 0x6d, 0x65, 0x64, 0x61, 0x73, 0x64, 0x69, 0x67, 0x69, 0x74, 0x61, 0x6c,
     0x2e, 0x74, 0x6f, 0x6b, 0x65, 0x6e, 0x66, 0x61, 0x63, 0x74, 0x6f, 0x72, 0x79, 0x2e, 0x44, 0x65,
     0x6e, 0x6f, 0x6d, 0x42, 0x04, 0xc8, 0xde, 0x1f, 0x00, 0x52, 0x09, 0x64, 0x65, 0x6e, 0x6f, 0x6d,
     0x4c, 0x69, 0x73, 0x74]"
  "field_descriptor_bytes (proto_field TString ''authority'' 1 [cosmos_proto_scalar ''cosmos.AddressString'']) =
    [0x0a, 0x09, 0x61, 0x75, 0x74, 0x68, 0x6f, 0x72, 0x69, 0x74, 0x79, 0x18, 0x01, 0x20, 0x01, 0x28,
     0x09, 0x42, 0x18, 0xd2, 0xb4, 0x2d, 0x14, 0x63, 0x6f, 0x73, 0x6d, 0x6f, 0x73, 0x2e, 0x41, 0x64,
     0x64, 0x72, 0x65, 0x73, 0x73, 0x53, 0x74, 0x72, 0x69, 0x6e, 0x67, 0x52, 0x09, 0x61, 0x75, 0x74,
     0x68, 0x6f, 0x72, 0x69, 0x74, 0x79]"
  "field_descriptor_bytes (proto_field (TMessage ''medasdigital.tokenfactory.Params'') ''params'' 2 [gogoproto_nullable False, amino_dont_omitempty True]) =
    [0x0a, 0x06, 0x70, 0x61, 0x72, 0x61, 0x6d, 0x73, 0x18, 0x02, 0x20, 0x01, 0x28, 0x0b, 0x32, 0x21,
     0x2e, 0x6d, 0x65, 0x64, 0x61, 0x73, 0x64, 0x69, 0x67, 0x69, 0x74, 0x61, 0x6c, 0x2e, 0x74, 0x6f,
     0x6b, 0x65, 0x6e, 0x66, 0x61, 0x63, 0x74, 0x6f, 0x72, 0x79, 0x2e, 0x50, 0x61, 0x72, 0x61, 0x6d,
     0x73, 0x42, 0x09, 0xc8, 0xde, 0x1f, 0x00, 0xa8, 0xe7, 0xb0, 0x2a, 0x01, 0x52, 0x06, 0x70, 0x61,
     0x72, 0x61, 0x6d, 0x73]"
  "field_descriptor_bytes (proto_field TString ''owner'' 1 []) =
    [0x0a, 0x05, 0x6f, 0x77, 0x6e, 0x65, 0x72, 0x18, 0x01, 0x20, 0x01, 0x28, 0x09, 0x52, 0x05, 0x6f,
     0x77, 0x6e, 0x65, 0x72]"
  "field_descriptor_bytes (proto_field TString ''denom'' 2 []) =
    [0x0a, 0x05, 0x64, 0x65, 0x6e, 0x6f, 0x6d, 0x18, 0x02, 0x20, 0x01, 0x28, 0x09, 0x52, 0x05, 0x64,
     0x65, 0x6e, 0x6f, 0x6d]"
  "field_descriptor_bytes (proto_field TString ''description'' 3 []) =
    [0x0a, 0x0b, 0x64, 0x65, 0x73, 0x63, 0x72, 0x69, 0x70, 0x74, 0x69, 0x6f, 0x6e, 0x18, 0x03, 0x20,
     0x01, 0x28, 0x09, 0x52, 0x0b, 0x64, 0x65, 0x73, 0x63, 0x72, 0x69, 0x70, 0x74, 0x69, 0x6f, 0x6e]"
  "field_descriptor_bytes (proto_field TString ''ticker'' 4 []) =
    [0x0a, 0x06, 0x74, 0x69, 0x63, 0x6b, 0x65, 0x72, 0x18, 0x04, 0x20, 0x01, 0x28, 0x09, 0x52, 0x06,
     0x74, 0x69, 0x63, 0x6b, 0x65, 0x72]"
  "field_descriptor_bytes (proto_field TInt32 ''precision'' 5 []) =
    [0x0a, 0x09, 0x70, 0x72, 0x65, 0x63, 0x69, 0x73, 0x69, 0x6f, 0x6e, 0x18, 0x05, 0x20, 0x01, 0x28,
     0x05, 0x52, 0x09, 0x70, 0x72, 0x65, 0x63, 0x69, 0x73, 0x69, 0x6f, 0x6e]"
  "field_descriptor_bytes (proto_field TString ''url'' 6 []) =
    [0x0a, 0x03, 0x75, 0x72, 0x6c, 0x18, 0x06, 0x20, 0x01, 0x28, 0x09, 0x52, 0x03, 0x75, 0x72, 0x6c]"
  "field_descriptor_bytes (proto_field TInt32 ''maxSupply'' 7 []) =
    [0x0a, 0x09, 0x6d, 0x61, 0x78, 0x53, 0x75, 0x70, 0x70, 0x6c, 0x79, 0x18, 0x07, 0x20, 0x01, 0x28,
     0x05, 0x52, 0x09, 0x6d, 0x61, 0x78, 0x53, 0x75, 0x70, 0x70, 0x6c, 0x79]"
  "field_descriptor_bytes (proto_field TInt32 ''supply'' 8 []) =
    [0x0a, 0x06, 0x73, 0x75, 0x70, 0x70, 0x6c, 0x79, 0x18, 0x08, 0x20, 0x01, 0x28, 0x05, 0x52, 0x06,
     0x73, 0x75, 0x70, 0x70, 0x6c, 0x79]"
  "field_descriptor_bytes (proto_field TBool ''canChangeMaxSupply'' 9 []) =
    [0x0a, 0x12, 0x63, 0x61, 0x6e, 0x43, 0x68, 0x61, 0x6e, 0x67, 0x65, 0x4d, 0x61, 0x78, 0x53, 0x75,
     0x70, 0x70, 0x6c, 0x79, 0x18, 0x09, 0x20, 0x01, 0x28, 0x08, 0x52, 0x12, 0x63, 0x61, 0x6e, 0x43,
     0x68, 0x61, 0x6e, 0x67, 0x65, 0x4d, 0x61, 0x78, 0x53, 0x75, 0x70, 0x70, 0x6c, 0x79]"
  "field_descriptor_bytes (proto_field (TMessage ''medasdigital.tokenfactory.Denom'') ''denom'' 1 [gogoproto_nullable False]) =
    [0x0a, 0x05, 0x64, 0x65, 0x6e, 0x6f, 0x6d, 0x18, 0x01, 0x20, 0x01, 0x28, 0x0b, 0x32, 0x20, 0x2e,
     0x6d, 0x65, 0x64, 0x61, 0x73, 0x64, 0x69, 0x67, 0x69, 0x74, 0x61, 0x6c, 0x2e, 0x74, 0x6f, 0x6b,
     0x65, 0x6e, 0x66, 0x61, 0x63, 0x74, 0x6f, 0x72, 0x79, 0x2e, 0x44, 0x65, 0x6e, 0x6f, 0x6d, 0x42,
     0x04, 0xc8, 0xde, 0x1f, 0x00, 0x52, 0x05, 0x64, 0x65, 0x6e, 0x6f, 0x6d]"
  "field_descriptor_bytes (proto_field (TMessage ''cosmos.base.query.v1beta1.PageRequest'') ''pagination'' 1 []) =
    [0x0a, 0x0a, 0x70, 0x61, 0x67, 0x69, 0x6e, 0x61, 0x74, 0x69, 0x6f, 0x6e, 0x18, 0x01, 0x20, 0x01,
     0x28, 0x0b, 0x32, 0x26, 0x2e, 0x63, 0x6f, 0x73, 0x6d, 0x6f, 0x73, 0x2e, 0x62, 0x61, 0x73, 0x65,
     0x2e, 0x71, 0x75, 0x65, 0x72, 0x79, 0x2e, 0x76, 0x31, 0x62, 0x65, 0x74, 0x61, 0x31, 0x2e, 0x50,
     0x61, 0x67, 0x65, 0x52, 0x65, 0x71, 0x75, 0x65, 0x73, 0x74, 0x52, 0x0a, 0x70, 0x61, 0x67, 0x69,
     0x6e, 0x61, 0x74, 0x69, 0x6f, 0x6e]"
  "field_descriptor_bytes (proto_repeated (TMessage ''medasdigital.tokenfactory.Denom'') ''denom'' 1 [gogoproto_nullable False]) =
    [0x0a, 0x05, 0x64, 0x65, 0x6e, 0x6f, 0x6d, 0x18, 0x01, 0x20, 0x03, 0x28, 0x0b, 0x32, 0x20, 0x2e,
     0x6d, 0x65, 0x64, 0x61, 0x73, 0x64, 0x69, 0x67, 0x69, 0x74, 0x61, 0x6c, 0x2e, 0x74, 0x6f, 0x6b,
     0x65, 0x6e, 0x66, 0x61, 0x63, 0x74, 0x6f, 0x72, 0x79, 0x2e, 0x44, 0x65, 0x6e, 0x6f, 0x6d, 0x42,
     0x04, 0xc8, 0xde, 0x1f, 0x00, 0x52, 0x05, 0x64, 0x65, 0x6e, 0x6f, 0x6d]"
  "field_descriptor_bytes (proto_field (TMessage ''cosmos.base.query.v1beta1.PageResponse'') ''pagination'' 2 []) =
    [0x0a, 0x0a, 0x70, 0x61, 0x67, 0x69, 0x6e, 0x61, 0x74, 0x69, 0x6f, 0x6e, 0x18, 0x02, 0x20, 0x01,
     0x28, 0x0b, 0x32, 0x27, 0x2e, 0x63, 0x6f, 0x73, 0x6d, 0x6f, 0x73, 0x2e, 0x62, 0x61, 0x73, 0x65,
     0x2e, 0x71, 0x75, 0x65, 0x72, 0x79, 0x2e, 0x76, 0x31, 0x62, 0x65, 0x74, 0x61, 0x31, 0x2e, 0x50,
     0x61, 0x67, 0x65, 0x52, 0x65, 0x73, 0x70, 0x6f, 0x6e, 0x73, 0x65, 0x52, 0x0a, 0x70, 0x61, 0x67,
     0x69, 0x6e, 0x61, 0x74, 0x69, 0x6f, 0x6e]"
  "field_descriptor_bytes (proto_field TString ''authority'' 1 []) =
    [0x0a, 0x09, 0x61, 0x75, 0x74, 0x68, 0x6f, 0x72, 0x69, 0x74, 0x79, 0x18, 0x01, 0x20, 0x01, 0x28,
     0x09, 0x52, 0x09, 0x61, 0x75, 0x74, 0x68, 0x6f, 0x72, 0x69, 0x74, 0x79]"
  by (simp_all add: field_bytes_eval del: enc_field.simps(3))

lemma tokenfactory_proto_Params_bytes:
  "message_descriptor_bytes tokenfactory_proto_Params =
    concat [[0x0a, 0x06, 0x50, 0x61, 0x72, 0x61, 0x6d, 0x73, 0x3a, 0x2b, 0xe8, 0xa0, 0x1f, 0x01, 0x8a, 0xe7],
     [0xb0, 0x2a, 0x22, 0x6d, 0x65, 0x64, 0x61, 0x73, 0x64, 0x69, 0x67, 0x69, 0x74, 0x61, 0x6c, 0x2f],
     [0x78, 0x2f, 0x74, 0x6f, 0x6b, 0x65, 0x6e, 0x66, 0x61, 0x63, 0x74, 0x6f, 0x72, 0x79, 0x2f, 0x50],
     [0x61, 0x72, 0x61, 0x6d, 0x73]]"
  by (simp only: tokenfactory_proto_Params_def message_bytes list.map tokenfactory_field_bytes) (simp add: message_bytes_eval del: enc_field.simps(3))

lemma tokenfactory_proto_Denom_bytes:
  "message_descriptor_bytes tokenfactory_proto_Denom =
    concat [[0x0a, 0x05, 0x44, 0x65, 0x6e, 0x6f, 0x6d, 0x12, 0x14, 0x0a, 0x05, 0x64, 0x65, 0x6e, 0x6f, 0x6d],
     [0x18, 0x01, 0x20, 0x01, 0x28, 0x09, 0x52, 0x05, 0x64, 0x65, 0x6e, 0x6f, 0x6d, 0x12, 0x20, 0x0a],
     [0x0b, 0x64, 0x65, 0x73, 0x63, 0x72, 0x69, 0x70, 0x74, 0x69, 0x6f, 0x6e, 0x18, 0x02, 0x20, 0x01],
     [0x28, 0x09, 0x52, 0x0b, 0x64, 0x65, 0x73, 0x63, 0x72, 0x69, 0x70, 0x74, 0x69, 0x6f, 0x6e, 0x12],
     [0x16, 0x0a, 0x06, 0x74, 0x69, 0x63, 0x6b, 0x65, 0x72, 0x18, 0x03, 0x20, 0x01, 0x28, 0x09, 0x52],
     [0x06, 0x74, 0x69, 0x63, 0x6b, 0x65, 0x72, 0x12, 0x1c, 0x0a, 0x09, 0x70, 0x72, 0x65, 0x63, 0x69],
     [0x73, 0x69, 0x6f, 0x6e, 0x18, 0x04, 0x20, 0x01, 0x28, 0x05, 0x52, 0x09, 0x70, 0x72, 0x65, 0x63],
     [0x69, 0x73, 0x69, 0x6f, 0x6e, 0x12, 0x10, 0x0a, 0x03, 0x75, 0x72, 0x6c, 0x18, 0x05, 0x20, 0x01],
     [0x28, 0x09, 0x52, 0x03, 0x75, 0x72, 0x6c, 0x12, 0x1c, 0x0a, 0x09, 0x6d, 0x61, 0x78, 0x53, 0x75],
     [0x70, 0x70, 0x6c, 0x79, 0x18, 0x06, 0x20, 0x01, 0x28, 0x05, 0x52, 0x09, 0x6d, 0x61, 0x78, 0x53],
     [0x75, 0x70, 0x70, 0x6c, 0x79, 0x12, 0x16, 0x0a, 0x06, 0x73, 0x75, 0x70, 0x70, 0x6c, 0x79, 0x18],
     [0x07, 0x20, 0x01, 0x28, 0x05, 0x52, 0x06, 0x73, 0x75, 0x70, 0x70, 0x6c, 0x79, 0x12, 0x2e, 0x0a],
     [0x12, 0x63, 0x61, 0x6e, 0x43, 0x68, 0x61, 0x6e, 0x67, 0x65, 0x4d, 0x61, 0x78, 0x53, 0x75, 0x70],
     [0x70, 0x6c, 0x79, 0x18, 0x08, 0x20, 0x01, 0x28, 0x08, 0x52, 0x12, 0x63, 0x61, 0x6e, 0x43, 0x68],
     [0x61, 0x6e, 0x67, 0x65, 0x4d, 0x61, 0x78, 0x53, 0x75, 0x70, 0x70, 0x6c, 0x79, 0x12, 0x14, 0x0a],
     [0x05, 0x6f, 0x77, 0x6e, 0x65, 0x72, 0x18, 0x09, 0x20, 0x01, 0x28, 0x09, 0x52, 0x05, 0x6f, 0x77],
     [0x6e, 0x65, 0x72]]"
  by (simp only: tokenfactory_proto_Denom_def message_bytes list.map tokenfactory_field_bytes) (simp add: message_bytes_eval del: enc_field.simps(3))

lemma tokenfactory_proto_GenesisState_bytes:
  "message_descriptor_bytes tokenfactory_proto_GenesisState =
    concat [[0x0a, 0x0c, 0x47, 0x65, 0x6e, 0x65, 0x73, 0x69, 0x73, 0x53, 0x74, 0x61, 0x74, 0x65, 0x12, 0x44],
     [0x0a, 0x06, 0x70, 0x61, 0x72, 0x61, 0x6d, 0x73, 0x18, 0x01, 0x20, 0x01, 0x28, 0x0b, 0x32, 0x21],
     [0x2e, 0x6d, 0x65, 0x64, 0x61, 0x73, 0x64, 0x69, 0x67, 0x69, 0x74, 0x61, 0x6c, 0x2e, 0x74, 0x6f],
     [0x6b, 0x65, 0x6e, 0x66, 0x61, 0x63, 0x74, 0x6f, 0x72, 0x79, 0x2e, 0x50, 0x61, 0x72, 0x61, 0x6d],
     [0x73, 0x42, 0x09, 0xc8, 0xde, 0x1f, 0x00, 0xa8, 0xe7, 0xb0, 0x2a, 0x01, 0x52, 0x06, 0x70, 0x61],
     [0x72, 0x61, 0x6d, 0x73, 0x12, 0x44, 0x0a, 0x09, 0x64, 0x65, 0x6e, 0x6f, 0x6d, 0x4c, 0x69, 0x73],
     [0x74, 0x18, 0x02, 0x20, 0x03, 0x28, 0x0b, 0x32, 0x20, 0x2e, 0x6d, 0x65, 0x64, 0x61, 0x73, 0x64],
     [0x69, 0x67, 0x69, 0x74, 0x61, 0x6c, 0x2e, 0x74, 0x6f, 0x6b, 0x65, 0x6e, 0x66, 0x61, 0x63, 0x74],
     [0x6f, 0x72, 0x79, 0x2e, 0x44, 0x65, 0x6e, 0x6f, 0x6d, 0x42, 0x04, 0xc8, 0xde, 0x1f, 0x00, 0x52],
     [0x09, 0x64, 0x65, 0x6e, 0x6f, 0x6d, 0x4c, 0x69, 0x73, 0x74]]"
  by (simp only: tokenfactory_proto_GenesisState_def message_bytes list.map tokenfactory_field_bytes) (simp add: message_bytes_eval del: enc_field.simps(3))

lemma tokenfactory_proto_MsgUpdateParams_bytes:
  "message_descriptor_bytes tokenfactory_proto_MsgUpdateParams =
    concat [[0x0a, 0x0f, 0x4d, 0x73, 0x67, 0x55, 0x70, 0x64, 0x61, 0x74, 0x65, 0x50, 0x61, 0x72, 0x61, 0x6d],
     [0x73, 0x12, 0x36, 0x0a, 0x09, 0x61, 0x75, 0x74, 0x68, 0x6f, 0x72, 0x69, 0x74, 0x79, 0x18, 0x01],
     [0x20, 0x01, 0x28, 0x09, 0x42, 0x18, 0xd2, 0xb4, 0x2d, 0x14, 0x63, 0x6f, 0x73, 0x6d, 0x6f, 0x73],
     [0x2e, 0x41, 0x64, 0x64, 0x72, 0x65, 0x73, 0x73, 0x53, 0x74, 0x72, 0x69, 0x6e, 0x67, 0x52, 0x09],
     [0x61, 0x75, 0x74, 0x68, 0x6f, 0x72, 0x69, 0x74, 0x79, 0x12, 0x44, 0x0a, 0x06, 0x70, 0x61, 0x72],
     [0x61, 0x6d, 0x73, 0x18, 0x02, 0x20, 0x01, 0x28, 0x0b, 0x32, 0x21, 0x2e, 0x6d, 0x65, 0x64, 0x61],
     [0x73, 0x64, 0x69, 0x67, 0x69, 0x74, 0x61, 0x6c, 0x2e, 0x74, 0x6f, 0x6b, 0x65, 0x6e, 0x66, 0x61],
     [0x63, 0x74, 0x6f, 0x72, 0x79, 0x2e, 0x50, 0x61, 0x72, 0x61, 0x6d, 0x73, 0x42, 0x09, 0xc8, 0xde],
     [0x1f, 0x00, 0xa8, 0xe7, 0xb0, 0x2a, 0x01, 0x52, 0x06, 0x70, 0x61, 0x72, 0x61, 0x6d, 0x73, 0x3a],
     [0x3e, 0x82, 0xe7, 0xb0, 0x2a, 0x09, 0x61, 0x75, 0x74, 0x68, 0x6f, 0x72, 0x69, 0x74, 0x79, 0x8a],
     [0xe7, 0xb0, 0x2a, 0x2b, 0x6d, 0x65, 0x64, 0x61, 0x73, 0x64, 0x69, 0x67, 0x69, 0x74, 0x61, 0x6c],
     [0x2f, 0x78, 0x2f, 0x74, 0x6f, 0x6b, 0x65, 0x6e, 0x66, 0x61, 0x63, 0x74, 0x6f, 0x72, 0x79, 0x2f],
     [0x4d, 0x73, 0x67, 0x55, 0x70, 0x64, 0x61, 0x74, 0x65, 0x50, 0x61, 0x72, 0x61, 0x6d, 0x73]]"
  by (simp only: tokenfactory_proto_MsgUpdateParams_def message_bytes list.map tokenfactory_field_bytes) (simp add: message_bytes_eval del: enc_field.simps(3))

lemma tokenfactory_proto_MsgUpdateParamsResponse_bytes:
  "message_descriptor_bytes tokenfactory_proto_MsgUpdateParamsResponse =
    concat [[0x0a, 0x17, 0x4d, 0x73, 0x67, 0x55, 0x70, 0x64, 0x61, 0x74, 0x65, 0x50, 0x61, 0x72, 0x61, 0x6d],
     [0x73, 0x52, 0x65, 0x73, 0x70, 0x6f, 0x6e, 0x73, 0x65]]"
  by (simp only: tokenfactory_proto_MsgUpdateParamsResponse_def message_bytes list.map tokenfactory_field_bytes) (simp add: message_bytes_eval del: enc_field.simps(3))

lemma tokenfactory_proto_MsgCreateDenom_bytes:
  "message_descriptor_bytes tokenfactory_proto_MsgCreateDenom =
    concat [[0x0a, 0x0e, 0x4d, 0x73, 0x67, 0x43, 0x72, 0x65, 0x61, 0x74, 0x65, 0x44, 0x65, 0x6e, 0x6f, 0x6d],
     [0x12, 0x14, 0x0a, 0x05, 0x6f, 0x77, 0x6e, 0x65, 0x72, 0x18, 0x01, 0x20, 0x01, 0x28, 0x09, 0x52],
     [0x05, 0x6f, 0x77, 0x6e, 0x65, 0x72, 0x12, 0x14, 0x0a, 0x05, 0x64, 0x65, 0x6e, 0x6f, 0x6d, 0x18],
     [0x02, 0x20, 0x01, 0x28, 0x09, 0x52, 0x05, 0x64, 0x65, 0x6e, 0x6f, 0x6d, 0x12, 0x20, 0x0a, 0x0b],
     [0x64, 0x65, 0x73, 0x63, 0x72, 0x69, 0x70, 0x74, 0x69, 0x6f, 0x6e, 0x18, 0x03, 0x20, 0x01, 0x28],
     [0x09, 0x52, 0x0b, 0x64, 0x65, 0x73, 0x63, 0x72, 0x69, 0x70, 0x74, 0x69, 0x6f, 0x6e, 0x12, 0x16],
     [0x0a, 0x06, 0x74, 0x69, 0x63, 0x6b, 0x65, 0x72, 0x18, 0x04, 0x20, 0x01, 0x28, 0x09, 0x52, 0x06],
     [0x74, 0x69, 0x63, 0x6b, 0x65, 0x72, 0x12, 0x1c, 0x0a, 0x09, 0x70, 0x72, 0x65, 0x63, 0x69, 0x73],
     [0x69, 0x6f, 0x6e, 0x18, 0x05, 0x20, 0x01, 0x28, 0x05, 0x52, 0x09, 0x70, 0x72, 0x65, 0x63, 0x69],
     [0x73, 0x69, 0x6f, 0x6e, 0x12, 0x10, 0x0a, 0x03, 0x75, 0x72, 0x6c, 0x18, 0x06, 0x20, 0x01, 0x28],
     [0x09, 0x52, 0x03, 0x75, 0x72, 0x6c, 0x12, 0x1c, 0x0a, 0x09, 0x6d, 0x61, 0x78, 0x53, 0x75, 0x70],
     [0x70, 0x6c, 0x79, 0x18, 0x07, 0x20, 0x01, 0x28, 0x05, 0x52, 0x09, 0x6d, 0x61, 0x78, 0x53, 0x75],
     [0x70, 0x70, 0x6c, 0x79, 0x12, 0x16, 0x0a, 0x06, 0x73, 0x75, 0x70, 0x70, 0x6c, 0x79, 0x18, 0x08],
     [0x20, 0x01, 0x28, 0x05, 0x52, 0x06, 0x73, 0x75, 0x70, 0x70, 0x6c, 0x79, 0x12, 0x2e, 0x0a, 0x12],
     [0x63, 0x61, 0x6e, 0x43, 0x68, 0x61, 0x6e, 0x67, 0x65, 0x4d, 0x61, 0x78, 0x53, 0x75, 0x70, 0x70],
     [0x6c, 0x79, 0x18, 0x09, 0x20, 0x01, 0x28, 0x08, 0x52, 0x12, 0x63, 0x61, 0x6e, 0x43, 0x68, 0x61],
     [0x6e, 0x67, 0x65, 0x4d, 0x61, 0x78, 0x53, 0x75, 0x70, 0x70, 0x6c, 0x79, 0x3a, 0x0a, 0x82, 0xe7],
     [0xb0, 0x2a, 0x05, 0x6f, 0x77, 0x6e, 0x65, 0x72]]"
  by (simp only: tokenfactory_proto_MsgCreateDenom_def message_bytes list.map tokenfactory_field_bytes) (simp add: message_bytes_eval del: enc_field.simps(3))

lemma tokenfactory_proto_MsgCreateDenomResponse_bytes:
  "message_descriptor_bytes tokenfactory_proto_MsgCreateDenomResponse =
    concat [[0x0a, 0x16, 0x4d, 0x73, 0x67, 0x43, 0x72, 0x65, 0x61, 0x74, 0x65, 0x44, 0x65, 0x6e, 0x6f, 0x6d],
     [0x52, 0x65, 0x73, 0x70, 0x6f, 0x6e, 0x73, 0x65]]"
  by (simp only: tokenfactory_proto_MsgCreateDenomResponse_def message_bytes list.map tokenfactory_field_bytes) (simp add: message_bytes_eval del: enc_field.simps(3))

lemma tokenfactory_proto_MsgUpdateDenom_bytes:
  "message_descriptor_bytes tokenfactory_proto_MsgUpdateDenom =
    concat [[0x0a, 0x0e, 0x4d, 0x73, 0x67, 0x55, 0x70, 0x64, 0x61, 0x74, 0x65, 0x44, 0x65, 0x6e, 0x6f, 0x6d],
     [0x12, 0x14, 0x0a, 0x05, 0x6f, 0x77, 0x6e, 0x65, 0x72, 0x18, 0x01, 0x20, 0x01, 0x28, 0x09, 0x52],
     [0x05, 0x6f, 0x77, 0x6e, 0x65, 0x72, 0x12, 0x14, 0x0a, 0x05, 0x64, 0x65, 0x6e, 0x6f, 0x6d, 0x18],
     [0x02, 0x20, 0x01, 0x28, 0x09, 0x52, 0x05, 0x64, 0x65, 0x6e, 0x6f, 0x6d, 0x12, 0x20, 0x0a, 0x0b],
     [0x64, 0x65, 0x73, 0x63, 0x72, 0x69, 0x70, 0x74, 0x69, 0x6f, 0x6e, 0x18, 0x03, 0x20, 0x01, 0x28],
     [0x09, 0x52, 0x0b, 0x64, 0x65, 0x73, 0x63, 0x72, 0x69, 0x70, 0x74, 0x69, 0x6f, 0x6e, 0x12, 0x16],
     [0x0a, 0x06, 0x74, 0x69, 0x63, 0x6b, 0x65, 0x72, 0x18, 0x04, 0x20, 0x01, 0x28, 0x09, 0x52, 0x06],
     [0x74, 0x69, 0x63, 0x6b, 0x65, 0x72, 0x12, 0x1c, 0x0a, 0x09, 0x70, 0x72, 0x65, 0x63, 0x69, 0x73],
     [0x69, 0x6f, 0x6e, 0x18, 0x05, 0x20, 0x01, 0x28, 0x05, 0x52, 0x09, 0x70, 0x72, 0x65, 0x63, 0x69],
     [0x73, 0x69, 0x6f, 0x6e, 0x12, 0x10, 0x0a, 0x03, 0x75, 0x72, 0x6c, 0x18, 0x06, 0x20, 0x01, 0x28],
     [0x09, 0x52, 0x03, 0x75, 0x72, 0x6c, 0x12, 0x1c, 0x0a, 0x09, 0x6d, 0x61, 0x78, 0x53, 0x75, 0x70],
     [0x70, 0x6c, 0x79, 0x18, 0x07, 0x20, 0x01, 0x28, 0x05, 0x52, 0x09, 0x6d, 0x61, 0x78, 0x53, 0x75],
     [0x70, 0x70, 0x6c, 0x79, 0x12, 0x16, 0x0a, 0x06, 0x73, 0x75, 0x70, 0x70, 0x6c, 0x79, 0x18, 0x08],
     [0x20, 0x01, 0x28, 0x05, 0x52, 0x06, 0x73, 0x75, 0x70, 0x70, 0x6c, 0x79, 0x12, 0x2e, 0x0a, 0x12],
     [0x63, 0x61, 0x6e, 0x43, 0x68, 0x61, 0x6e, 0x67, 0x65, 0x4d, 0x61, 0x78, 0x53, 0x75, 0x70, 0x70],
     [0x6c, 0x79, 0x18, 0x09, 0x20, 0x01, 0x28, 0x08, 0x52, 0x12, 0x63, 0x61, 0x6e, 0x43, 0x68, 0x61],
     [0x6e, 0x67, 0x65, 0x4d, 0x61, 0x78, 0x53, 0x75, 0x70, 0x70, 0x6c, 0x79, 0x3a, 0x0a, 0x82, 0xe7],
     [0xb0, 0x2a, 0x05, 0x6f, 0x77, 0x6e, 0x65, 0x72]]"
  by (simp only: tokenfactory_proto_MsgUpdateDenom_def message_bytes list.map tokenfactory_field_bytes) (simp add: message_bytes_eval del: enc_field.simps(3))

lemma tokenfactory_proto_MsgUpdateDenomResponse_bytes:
  "message_descriptor_bytes tokenfactory_proto_MsgUpdateDenomResponse =
    concat [[0x0a, 0x16, 0x4d, 0x73, 0x67, 0x55, 0x70, 0x64, 0x61, 0x74, 0x65, 0x44, 0x65, 0x6e, 0x6f, 0x6d],
     [0x52, 0x65, 0x73, 0x70, 0x6f, 0x6e, 0x73, 0x65]]"
  by (simp only: tokenfactory_proto_MsgUpdateDenomResponse_def message_bytes list.map tokenfactory_field_bytes) (simp add: message_bytes_eval del: enc_field.simps(3))

lemma tokenfactory_proto_MsgDeleteDenom_bytes:
  "message_descriptor_bytes tokenfactory_proto_MsgDeleteDenom =
    concat [[0x0a, 0x0e, 0x4d, 0x73, 0x67, 0x44, 0x65, 0x6c, 0x65, 0x74, 0x65, 0x44, 0x65, 0x6e, 0x6f, 0x6d],
     [0x12, 0x14, 0x0a, 0x05, 0x6f, 0x77, 0x6e, 0x65, 0x72, 0x18, 0x01, 0x20, 0x01, 0x28, 0x09, 0x52],
     [0x05, 0x6f, 0x77, 0x6e, 0x65, 0x72, 0x12, 0x14, 0x0a, 0x05, 0x64, 0x65, 0x6e, 0x6f, 0x6d, 0x18],
     [0x02, 0x20, 0x01, 0x28, 0x09, 0x52, 0x05, 0x64, 0x65, 0x6e, 0x6f, 0x6d, 0x3a, 0x0a, 0x82, 0xe7],
     [0xb0, 0x2a, 0x05, 0x6f, 0x77, 0x6e, 0x65, 0x72]]"
  by (simp only: tokenfactory_proto_MsgDeleteDenom_def message_bytes list.map tokenfactory_field_bytes) (simp add: message_bytes_eval del: enc_field.simps(3))

lemma tokenfactory_proto_MsgDeleteDenomResponse_bytes:
  "message_descriptor_bytes tokenfactory_proto_MsgDeleteDenomResponse =
    concat [[0x0a, 0x16, 0x4d, 0x73, 0x67, 0x44, 0x65, 0x6c, 0x65, 0x74, 0x65, 0x44, 0x65, 0x6e, 0x6f, 0x6d],
     [0x52, 0x65, 0x73, 0x70, 0x6f, 0x6e, 0x73, 0x65]]"
  by (simp only: tokenfactory_proto_MsgDeleteDenomResponse_def message_bytes list.map tokenfactory_field_bytes) (simp add: message_bytes_eval del: enc_field.simps(3))

lemma tokenfactory_proto_Msg_bytes:
  "service_descriptor_bytes tokenfactory_proto_Msg =
    concat [[0x0a, 0x03, 0x4d, 0x73, 0x67, 0x12, 0x6e, 0x0a, 0x0c, 0x55, 0x70, 0x64, 0x61, 0x74, 0x65, 0x50],
     [0x61, 0x72, 0x61, 0x6d, 0x73, 0x12, 0x2a, 0x2e, 0x6d, 0x65, 0x64, 0x61, 0x73, 0x64, 0x69, 0x67],
     [0x69, 0x74, 0x61, 0x6c, 0x2e, 0x74, 0x6f, 0x6b, 0x65, 0x6e, 0x66, 0x61, 0x63, 0x74, 0x6f, 0x72],
     [0x79, 0x2e, 0x4d, 0x73, 0x67, 0x55, 0x70, 0x64, 0x61, 0x74, 0x65, 0x50, 0x61, 0x72, 0x61, 0x6d],
     [0x73, 0x1a, 0x32, 0x2e, 0x6d, 0x65, 0x64, 0x61, 0x73, 0x64, 0x69, 0x67, 0x69, 0x74, 0x61, 0x6c],
     [0x2e, 0x74, 0x6f, 0x6b, 0x65, 0x6e, 0x66, 0x61, 0x63, 0x74, 0x6f, 0x72, 0x79, 0x2e, 0x4d, 0x73],
     [0x67, 0x55, 0x70, 0x64, 0x61, 0x74, 0x65, 0x50, 0x61, 0x72, 0x61, 0x6d, 0x73, 0x52, 0x65, 0x73],
     [0x70, 0x6f, 0x6e, 0x73, 0x65, 0x12, 0x6b, 0x0a, 0x0b, 0x43, 0x72, 0x65, 0x61, 0x74, 0x65, 0x44],
     [0x65, 0x6e, 0x6f, 0x6d, 0x12, 0x29, 0x2e, 0x6d, 0x65, 0x64, 0x61, 0x73, 0x64, 0x69, 0x67, 0x69],
     [0x74, 0x61, 0x6c, 0x2e, 0x74, 0x6f, 0x6b, 0x65, 0x6e, 0x66, 0x61, 0x63, 0x74, 0x6f, 0x72, 0x79],
     [0x2e, 0x4d, 0x73, 0x67, 0x43, 0x72, 0x65, 0x61, 0x74, 0x65, 0x44, 0x65, 0x6e, 0x6f, 0x6d, 0x1a],
     [0x31, 0x2e, 0x6d, 0x65, 0x64, 0x61, 0x73, 0x64, 0x69, 0x67, 0x69, 0x74, 0x61, 0x6c, 0x2e, 0x74],
     [0x6f, 0x6b, 0x65, 0x6e, 0x66, 0x61, 0x63, 0x74, 0x6f, 0x72, 0x79, 0x2e, 0x4d, 0x73, 0x67, 0x43],
     [0x72, 0x65, 0x61, 0x74, 0x65, 0x44, 0x65, 0x6e, 0x6f, 0x6d, 0x52, 0x65, 0x73, 0x70, 0x6f, 0x6e],
     [0x73, 0x65, 0x12, 0x6b, 0x0a, 0x0b, 0x55, 0x70, 0x64, 0x61, 0x74, 0x65, 0x44, 0x65, 0x6e, 0x6f],
     [0x6d, 0x12, 0x29, 0x2e, 0x6d, 0x65, 0x64, 0x61, 0x73, 0x64, 0x69, 0x67, 0x69, 0x74, 0x61, 0x6c],
     [0x2e, 0x74, 0x6f, 0x6b, 0x65, 0x6e, 0x66, 0x61, 0x63, 0x74, 0x6f, 0x72, 0x79, 0x2e, 0x4d, 0x73],
     [0x67, 0x55, 0x70, 0x64, 0x61, 0x74, 0x65, 0x44, 0x65, 0x6e, 0x6f, 0x6d, 0x1a, 0x31, 0x2e, 0x6d],
     [0x65, 0x64, 0x61, 0x73, 0x64, 0x69, 0x67, 0x69, 0x74, 0x61, 0x6c, 0x2e, 0x74, 0x6f, 0x6b, 0x65],
     [0x6e, 0x66, 0x61, 0x63, 0x74, 0x6f, 0x72, 0x79, 0x2e, 0x4d, 0x73, 0x67, 0x55, 0x70, 0x64, 0x61],
     [0x74, 0x65, 0x44, 0x65, 0x6e, 0x6f, 0x6d, 0x52, 0x65, 0x73, 0x70, 0x6f, 0x6e, 0x73, 0x65, 0x12],
     [0x6b, 0x0a, 0x0b, 0x44, 0x65, 0x6c, 0x65, 0x74, 0x65, 0x44, 0x65, 0x6e, 0x6f, 0x6d, 0x12, 0x29],
     [0x2e, 0x6d, 0x65, 0x64, 0x61, 0x73, 0x64, 0x69, 0x67, 0x69, 0x74, 0x61, 0x6c, 0x2e, 0x74, 0x6f],
     [0x6b, 0x65, 0x6e, 0x66, 0x61, 0x63, 0x74, 0x6f, 0x72, 0x79, 0x2e, 0x4d, 0x73, 0x67, 0x44, 0x65],
     [0x6c, 0x65, 0x74, 0x65, 0x44, 0x65, 0x6e, 0x6f, 0x6d, 0x1a, 0x31, 0x2e, 0x6d, 0x65, 0x64, 0x61],
     [0x73, 0x64, 0x69, 0x67, 0x69, 0x74, 0x61, 0x6c, 0x2e, 0x74, 0x6f, 0x6b, 0x65, 0x6e, 0x66, 0x61],
     [0x63, 0x74, 0x6f, 0x72, 0x79, 0x2e, 0x4d, 0x73, 0x67, 0x44, 0x65, 0x6c, 0x65, 0x74, 0x65, 0x44],
     [0x65, 0x6e, 0x6f, 0x6d, 0x52, 0x65, 0x73, 0x70, 0x6f, 0x6e, 0x73, 0x65, 0x1a, 0x05, 0x80, 0xe7],
     [0xb0, 0x2a, 0x01]]"
  by (simp add: tokenfactory_proto_Msg_def service_bytes_eval del: enc_field.simps(3))

lemma tokenfactory_proto_QueryParamsRequest_bytes:
  "message_descriptor_bytes tokenfactory_proto_QueryParamsRequest =
    concat [[0x0a, 0x12, 0x51, 0x75, 0x65, 0x72, 0x79, 0x50, 0x61, 0x72, 0x61, 0x6d, 0x73, 0x52, 0x65, 0x71],
     [0x75, 0x65, 0x73, 0x74]]"
  by (simp only: tokenfactory_proto_QueryParamsRequest_def message_bytes list.map tokenfactory_field_bytes) (simp add: message_bytes_eval del: enc_field.simps(3))

lemma tokenfactory_proto_QueryParamsResponse_bytes:
  "message_descriptor_bytes tokenfactory_proto_QueryParamsResponse =
    concat [[0x0a, 0x13, 0x51, 0x75, 0x65, 0x72, 0x79, 0x50, 0x61, 0x72, 0x61, 0x6d, 0x73, 0x52, 0x65, 0x73],
     [0x70, 0x6f, 0x6e, 0x73, 0x65, 0x12, 0x44, 0x0a, 0x06, 0x70, 0x61, 0x72, 0x61, 0x6d, 0x73, 0x18],
     [0x01, 0x20, 0x01, 0x28, 0x0b, 0x32, 0x21, 0x2e, 0x6d, 0x65, 0x64, 0x61, 0x73, 0x64, 0x69, 0x67],
     [0x69, 0x74, 0x61, 0x6c, 0x2e, 0x74, 0x6f, 0x6b, 0x65, 0x6e, 0x66, 0x61, 0x63, 0x74, 0x6f, 0x72],
     [0x79, 0x2e, 0x50, 0x61, 0x72, 0x61, 0x6d, 0x73, 0x42, 0x09, 0xc8, 0xde, 0x1f, 0x00, 0xa8, 0xe7],
     [0xb0, 0x2a, 0x01, 0x52, 0x06, 0x70, 0x61, 0x72, 0x61, 0x6d, 0x73]]"
  by (simp only: tokenfactory_proto_QueryParamsResponse_def message_bytes list.map tokenfactory_field_bytes) (simp add: message_bytes_eval del: enc_field.simps(3))

lemma tokenfactory_proto_QueryGetDenomRequest_bytes:
  "message_descriptor_bytes tokenfactory_proto_QueryGetDenomRequest =
    concat [[0x0a, 0x14, 0x51, 0x75, 0x65, 0x72, 0x79, 0x47, 0x65, 0x74, 0x44, 0x65, 0x6e, 0x6f, 0x6d, 0x52],
     [0x65, 0x71, 0x75, 0x65, 0x73, 0x74, 0x12, 0x14, 0x0a, 0x05, 0x64, 0x65, 0x6e, 0x6f, 0x6d, 0x18],
     [0x01, 0x20, 0x01, 0x28, 0x09, 0x52, 0x05, 0x64, 0x65, 0x6e, 0x6f, 0x6d]]"
  by (simp only: tokenfactory_proto_QueryGetDenomRequest_def message_bytes list.map tokenfactory_field_bytes) (simp add: message_bytes_eval del: enc_field.simps(3))

lemma tokenfactory_proto_QueryGetDenomResponse_bytes:
  "message_descriptor_bytes tokenfactory_proto_QueryGetDenomResponse =
    concat [[0x0a, 0x15, 0x51, 0x75, 0x65, 0x72, 0x79, 0x47, 0x65, 0x74, 0x44, 0x65, 0x6e, 0x6f, 0x6d, 0x52],
     [0x65, 0x73, 0x70, 0x6f, 0x6e, 0x73, 0x65, 0x12, 0x3c, 0x0a, 0x05, 0x64, 0x65, 0x6e, 0x6f, 0x6d],
     [0x18, 0x01, 0x20, 0x01, 0x28, 0x0b, 0x32, 0x20, 0x2e, 0x6d, 0x65, 0x64, 0x61, 0x73, 0x64, 0x69],
     [0x67, 0x69, 0x74, 0x61, 0x6c, 0x2e, 0x74, 0x6f, 0x6b, 0x65, 0x6e, 0x66, 0x61, 0x63, 0x74, 0x6f],
     [0x72, 0x79, 0x2e, 0x44, 0x65, 0x6e, 0x6f, 0x6d, 0x42, 0x04, 0xc8, 0xde, 0x1f, 0x00, 0x52, 0x05],
     [0x64, 0x65, 0x6e, 0x6f, 0x6d]]"
  by (simp only: tokenfactory_proto_QueryGetDenomResponse_def message_bytes list.map tokenfactory_field_bytes) (simp add: message_bytes_eval del: enc_field.simps(3))

lemma tokenfactory_proto_QueryAllDenomRequest_bytes:
  "message_descriptor_bytes tokenfactory_proto_QueryAllDenomRequest =
    concat [[0x0a, 0x14, 0x51, 0x75, 0x65, 0x72, 0x79, 0x41, 0x6c, 0x6c, 0x44, 0x65, 0x6e, 0x6f, 0x6d, 0x52],
     [0x65, 0x71, 0x75, 0x65, 0x73, 0x74, 0x12, 0x46, 0x0a, 0x0a, 0x70, 0x61, 0x67, 0x69, 0x6e, 0x61],
     [0x74, 0x69, 0x6f, 0x6e, 0x18, 0x01, 0x20, 0x01, 0x28, 0x0b, 0x32, 0x26, 0x2e, 0x63, 0x6f, 0x73],
     [0x6d, 0x6f, 0x73, 0x2e, 0x62, 0x61, 0x73, 0x65, 0x2e, 0x71, 0x75, 0x65, 0x72, 0x79, 0x2e, 0x76],
     [0x31, 0x62, 0x65, 0x74, 0x61, 0x31, 0x2e, 0x50, 0x61, 0x67, 0x65, 0x52, 0x65, 0x71, 0x75, 0x65],
     [0x73, 0x74, 0x52, 0x0a, 0x70, 0x61, 0x67, 0x69, 0x6e, 0x61, 0x74, 0x69, 0x6f, 0x6e]]"
  by (simp only: tokenfactory_proto_QueryAllDenomRequest_def message_bytes list.map tokenfactory_field_bytes) (simp add: message_bytes_eval del: enc_field.simps(3))

lemma tokenfactory_proto_QueryAllDenomResponse_bytes:
  "message_descriptor_bytes tokenfactory_proto_QueryAllDenomResponse =
    concat [[0x0a, 0x15, 0x51, 0x75, 0x65, 0x72, 0x79, 0x41, 0x6c, 0x6c, 0x44, 0x65, 0x6e, 0x6f, 0x6d, 0x52],
     [0x65, 0x73, 0x70, 0x6f, 0x6e, 0x73, 0x65, 0x12, 0x3c, 0x0a, 0x05, 0x64, 0x65, 0x6e, 0x6f, 0x6d],
     [0x18, 0x01, 0x20, 0x03, 0x28, 0x0b, 0x32, 0x20, 0x2e, 0x6d, 0x65, 0x64, 0x61, 0x73, 0x64, 0x69],
     [0x67, 0x69, 0x74, 0x61, 0x6c, 0x2e, 0x74, 0x6f, 0x6b, 0x65, 0x6e, 0x66, 0x61, 0x63, 0x74, 0x6f],
     [0x72, 0x79, 0x2e, 0x44, 0x65, 0x6e, 0x6f, 0x6d, 0x42, 0x04, 0xc8, 0xde, 0x1f, 0x00, 0x52, 0x05],
     [0x64, 0x65, 0x6e, 0x6f, 0x6d, 0x12, 0x47, 0x0a, 0x0a, 0x70, 0x61, 0x67, 0x69, 0x6e, 0x61, 0x74],
     [0x69, 0x6f, 0x6e, 0x18, 0x02, 0x20, 0x01, 0x28, 0x0b, 0x32, 0x27, 0x2e, 0x63, 0x6f, 0x73, 0x6d],
     [0x6f, 0x73, 0x2e, 0x62, 0x61, 0x73, 0x65, 0x2e, 0x71, 0x75, 0x65, 0x72, 0x79, 0x2e, 0x76, 0x31],
     [0x62, 0x65, 0x74, 0x61, 0x31, 0x2e, 0x50, 0x61, 0x67, 0x65, 0x52, 0x65, 0x73, 0x70, 0x6f, 0x6e],
     [0x73, 0x65, 0x52, 0x0a, 0x70, 0x61, 0x67, 0x69, 0x6e, 0x61, 0x74, 0x69, 0x6f, 0x6e]]"
  by (simp only: tokenfactory_proto_QueryAllDenomResponse_def message_bytes list.map tokenfactory_field_bytes) (simp add: message_bytes_eval del: enc_field.simps(3))

lemma tokenfactory_proto_Query_bytes:
  "service_descriptor_bytes tokenfactory_proto_Query =
    concat [[0x0a, 0x05, 0x51, 0x75, 0x65, 0x72, 0x79, 0x12, 0x92, 0x01, 0x0a, 0x06, 0x50, 0x61, 0x72, 0x61],
     [0x6d, 0x73, 0x12, 0x2d, 0x2e, 0x6d, 0x65, 0x64, 0x61, 0x73, 0x64, 0x69, 0x67, 0x69, 0x74, 0x61],
     [0x6c, 0x2e, 0x74, 0x6f, 0x6b, 0x65, 0x6e, 0x66, 0x61, 0x63, 0x74, 0x6f, 0x72, 0x79, 0x2e, 0x51],
     [0x75, 0x65, 0x72, 0x79, 0x50, 0x61, 0x72, 0x61, 0x6d, 0x73, 0x52, 0x65, 0x71, 0x75, 0x65, 0x73],
     [0x74, 0x1a, 0x2e, 0x2e, 0x6d, 0x65, 0x64, 0x61, 0x73, 0x64, 0x69, 0x67, 0x69, 0x74, 0x61, 0x6c],
     [0x2e, 0x74, 0x6f, 0x6b, 0x65, 0x6e, 0x66, 0x61, 0x63, 0x74, 0x6f, 0x72, 0x79, 0x2e, 0x51, 0x75],
     [0x65, 0x72, 0x79, 0x50, 0x61, 0x72, 0x61, 0x6d, 0x73, 0x52, 0x65, 0x73, 0x70, 0x6f, 0x6e, 0x73],
     [0x65, 0x22, 0x29, 0x82, 0xd3, 0xe4, 0x93, 0x02, 0x23, 0x12, 0x21, 0x2f, 0x6d, 0x65, 0x64, 0x61],
     [0x73, 0x64, 0x69, 0x67, 0x69, 0x74, 0x61, 0x6c, 0x2f, 0x74, 0x6f, 0x6b, 0x65, 0x6e, 0x66, 0x61],
     [0x63, 0x74, 0x6f, 0x72, 0x79, 0x2f, 0x70, 0x61, 0x72, 0x61, 0x6d, 0x73, 0x12, 0x9c, 0x01, 0x0a],
     [0x05, 0x44, 0x65, 0x6e, 0x6f, 0x6d, 0x12, 0x2f, 0x2e, 0x6d, 0x65, 0x64, 0x61, 0x73, 0x64, 0x69],
     [0x67, 0x69, 0x74, 0x61, 0x6c, 0x2e, 0x74, 0x6f, 0x6b, 0x65, 0x6e, 0x66, 0x61, 0x63, 0x74, 0x6f],
     [0x72, 0x79, 0x2e, 0x51, 0x75, 0x65, 0x72, 0x79, 0x47, 0x65, 0x74, 0x44, 0x65, 0x6e, 0x6f, 0x6d],
     [0x52, 0x65, 0x71, 0x75, 0x65, 0x73, 0x74, 0x1a, 0x30, 0x2e, 0x6d, 0x65, 0x64, 0x61, 0x73, 0x64],
     [0x69, 0x67, 0x69, 0x74, 0x61, 0x6c, 0x2e, 0x74, 0x6f, 0x6b, 0x65, 0x6e, 0x66, 0x61, 0x63, 0x74],
     [0x6f, 0x72, 0x79, 0x2e, 0x51, 0x75, 0x65, 0x72, 0x79, 0x47, 0x65, 0x74, 0x44, 0x65, 0x6e, 0x6f],
     [0x6d, 0x52, 0x65, 0x73, 0x70, 0x6f, 0x6e, 0x73, 0x65, 0x22, 0x30, 0x82, 0xd3, 0xe4, 0x93, 0x02],
     [0x2a, 0x12, 0x28, 0x2f, 0x6d, 0x65, 0x64, 0x61, 0x73, 0x64, 0x69, 0x67, 0x69, 0x74, 0x61, 0x6c],
     [0x2f, 0x74, 0x6f, 0x6b, 0x65, 0x6e, 0x66, 0x61, 0x63, 0x74, 0x6f, 0x72, 0x79, 0x2f, 0x64, 0x65],
     [0x6e, 0x6f, 0x6d, 0x2f, 0x7b, 0x64, 0x65, 0x6e, 0x6f, 0x6d, 0x7d, 0x12, 0x97, 0x01, 0x0a, 0x08],
     [0x44, 0x65, 0x6e, 0x6f, 0x6d, 0x41, 0x6c, 0x6c, 0x12, 0x2f, 0x2e, 0x6d, 0x65, 0x64, 0x61, 0x73],
     [0x64, 0x69, 0x67, 0x69, 0x74, 0x61, 0x6c, 0x2e, 0x74, 0x6f, 0x6b, 0x65, 0x6e, 0x66, 0x61, 0x63],
     [0x74, 0x6f, 0x72, 0x79, 0x2e, 0x51, 0x75, 0x65, 0x72, 0x79, 0x41, 0x6c, 0x6c, 0x44, 0x65, 0x6e],
     [0x6f, 0x6d, 0x52, 0x65, 0x71, 0x75, 0x65, 0x73, 0x74, 0x1a, 0x30, 0x2e, 0x6d, 0x65, 0x64, 0x61],
     [0x73, 0x64, 0x69, 0x67, 0x69, 0x74, 0x61, 0x6c, 0x2e, 0x74, 0x6f, 0x6b, 0x65, 0x6e, 0x66, 0x61],
     [0x63, 0x74, 0x6f, 0x72, 0x79, 0x2e, 0x51, 0x75, 0x65, 0x72, 0x79, 0x41, 0x6c, 0x6c, 0x44, 0x65],
     [0x6e, 0x6f, 0x6d, 0x52, 0x65, 0x73, 0x70, 0x6f, 0x6e, 0x73, 0x65, 0x22, 0x28, 0x82, 0xd3, 0xe4],
     [0x93, 0x02, 0x22, 0x12, 0x20, 0x2f, 0x6d, 0x65, 0x64, 0x61, 0x73, 0x64, 0x69, 0x67, 0x69, 0x74],
     [0x61, 0x6c, 0x2f, 0x74, 0x6f, 0x6b, 0x65, 0x6e, 0x66, 0x61, 0x63, 0x74, 0x6f, 0x72, 0x79, 0x2f],
     [0x64, 0x65, 0x6e, 0x6f, 0x6d]]"
  by (simp add: tokenfactory_proto_Query_def service_bytes_eval del: enc_field.simps(3))

lemma tokenfactory_proto_Module_bytes:
  "message_descriptor_bytes tokenfactory_proto_Module =
    concat [[0x0a, 0x06, 0x4d, 0x6f, 0x64, 0x75, 0x6c, 0x65, 0x12, 0x1c, 0x0a, 0x09, 0x61, 0x75, 0x74, 0x68],
     [0x6f, 0x72, 0x69, 0x74, 0x79, 0x18, 0x01, 0x20, 0x01, 0x28, 0x09, 0x52, 0x09, 0x61, 0x75, 0x74],
     [0x68, 0x6f, 0x72, 0x69, 0x74, 0x79, 0x3a, 0x23, 0xba, 0xc0, 0x96, 0xda, 0x01, 0x1d, 0x0a, 0x1b],
     [0x6d, 0x65, 0x64, 0x61, 0x73, 0x64, 0x69, 0x67, 0x69, 0x74, 0x61, 0x6c, 0x2f, 0x78, 0x2f, 0x74],
     [0x6f, 0x6b, 0x65, 0x6e, 0x66, 0x61, 0x63, 0x74, 0x6f, 0x72, 0x79]]"
  by (simp only: tokenfactory_proto_Module_def message_bytes list.map tokenfactory_field_bytes) (simp add: message_bytes_eval del: enc_field.simps(3))

lemma tokenfactory_params_rawDesc: "tokenfactory_params_rawDesc = file_descriptor_bytes tokenfactory_params_proto"
  by (simp add: tokenfactory_params_rawDesc_def tokenfactory_params_proto_def tokenfactory_proto_Params_bytes file_bytes_eval del: enc_field.simps(3))

lemma tokenfactory_denom_rawDesc: "tokenfactory_denom_rawDesc = file_descriptor_bytes tokenfactory_denom_proto"
  by (simp add: tokenfactory_denom_rawDesc_def tokenfactory_denom_proto_def tokenfactory_proto_Denom_bytes file_bytes_eval del: enc_field.simps(3))

lemma tokenfactory_genesis_rawDesc: "tokenfactory_genesis_rawDesc = file_descriptor_bytes tokenfactory_genesis_proto"
  by (simp add: tokenfactory_genesis_rawDesc_def tokenfactory_genesis_proto_def tokenfactory_proto_GenesisState_bytes file_bytes_eval del: enc_field.simps(3))

lemma tokenfactory_tx_rawDesc: "tokenfactory_tx_rawDesc = file_descriptor_bytes tokenfactory_tx_proto"
  by (simp add: tokenfactory_tx_rawDesc_def tokenfactory_tx_proto_def tokenfactory_proto_MsgUpdateParams_bytes tokenfactory_proto_MsgUpdateParamsResponse_bytes tokenfactory_proto_MsgCreateDenom_bytes tokenfactory_proto_MsgCreateDenomResponse_bytes tokenfactory_proto_MsgUpdateDenom_bytes tokenfactory_proto_MsgUpdateDenomResponse_bytes tokenfactory_proto_MsgDeleteDenom_bytes tokenfactory_proto_MsgDeleteDenomResponse_bytes tokenfactory_proto_Msg_bytes file_bytes_eval del: enc_field.simps(3))

lemma tokenfactory_query_rawDesc: "tokenfactory_query_rawDesc = file_descriptor_bytes tokenfactory_query_proto"
  by (simp add: tokenfactory_query_rawDesc_def tokenfactory_query_proto_def tokenfactory_proto_QueryParamsRequest_bytes tokenfactory_proto_QueryParamsResponse_bytes tokenfactory_proto_QueryGetDenomRequest_bytes tokenfactory_proto_QueryGetDenomResponse_bytes tokenfactory_proto_QueryAllDenomRequest_bytes tokenfactory_proto_QueryAllDenomResponse_bytes tokenfactory_proto_Query_bytes file_bytes_eval del: enc_field.simps(3))

lemma tokenfactory_module_rawDesc: "tokenfactory_module_rawDesc = file_descriptor_bytes tokenfactory_module_proto"
  by (simp add: tokenfactory_module_rawDesc_def tokenfactory_module_proto_def tokenfactory_proto_Module_bytes file_bytes_eval del: enc_field.simps(3))

end
