(* ===== verification/TF_Types.thy ===== *)
theory TF_Types
  imports Pulsar_Type TF_Proto Api_Genesis Api_Tx Api_Query
begin

text \<open>
  The types of the messages of \<open>api/medasdigital/tokenfactory\<close>: the tables of each file, and for each message
  what \<open>init\<close> looks up, its message type, its methods and the path of its descriptor.
\<close>

section \<open>medasdigital/tokenfactory/params.proto\<close>

definition tokenfactory_params_goTypes :: "go_type list" where
  "tokenfactory_params_goTypes =
    [LocalType ''Params'']"

definition tokenfactory_params_depIdxs :: "nat list" where
  "tokenfactory_params_depIdxs = [0, 0, 0, 0, 0]"

definition tokenfactory_params_msgTypes :: nat where
  "tokenfactory_params_msgTypes = 1"

definition tokenfactory_params_builder :: "bool \<Rightarrow> type_builder" where
  "tokenfactory_params_builder UnsafeEnabled =
     \<lparr>tb_RawDescriptor = tokenfactory_params_rawDesc,
      tb_NumEnums = 0, tb_NumMessages = 1, tb_NumExtensions = 0, tb_NumServices = 0,
      tb_GoTypes = tokenfactory_params_goTypes, tb_DependencyIndexes = tokenfactory_params_depIdxs,
      tb_MessageInfos = tokenfactory_params_msgTypes,
      tb_Exporters = (if UnsafeEnabled then [] else
        [(0, exporter (LocalType ''Params''))])\<rparr>"

definition tokenfactory_params_init ::
  "build_fun \<Rightarrow> bool \<Rightarrow> file_vars \<Rightarrow> refl_error + file_vars" where
  "tokenfactory_params_init Build UnsafeEnabled = file_init Build ''medasdigital/tokenfactory/params.proto''
     []
     (tokenfactory_params_builder UnsafeEnabled)"

definition tokenfactory_params_rawDescGZIP :: "(bytes \<Rightarrow> bytes) \<Rightarrow> bytes" where
  "tokenfactory_params_rawDescGZIP CompressGZIP = fst (rawDescGZIP CompressGZIP (False, tokenfactory_params_rawDesc))"

definition init_Params ::
  "build_fun \<Rightarrow> bool \<Rightarrow> file_vars \<Rightarrow> refl_error + file_vars \<times> message_vars" where
  "init_Params Build UnsafeEnabled vars = rbind (tokenfactory_params_init Build UnsafeEnabled vars)
     (message_init ''medasdigital/tokenfactory/params.proto'' ''Params''
       [])"

definition Params_messageType :: "message_vars \<Rightarrow> ApiParams message_type" where
  "Params_messageType vars = generated_type ApiParams_zero (v_md vars)"

definition Params_methods :: "message_vars \<Rightarrow> ApiParams message_methods" where
  "Params_methods vars = generated_methods 0 ApiParams_zero (v_md vars)"

definition ApiParams_Descriptor :: "(bytes \<Rightarrow> bytes) \<Rightarrow> bytes \<times> nat list" where
  "ApiParams_Descriptor CompressGZIP = (tokenfactory_params_rawDescGZIP CompressGZIP, [0])"

section \<open>medasdigital/tokenfactory/denom.proto\<close>

definition tokenfactory_denom_goTypes :: "go_type list" where
  "tokenfactory_denom_goTypes =
    [LocalType ''Denom'']"

definition tokenfactory_denom_depIdxs :: "nat list" where
  "tokenfactory_denom_depIdxs = [0, 0, 0, 0, 0]"

definition tokenfactory_denom_msgTypes :: nat where
  "tokenfactory_denom_msgTypes = 1"

definition tokenfactory_denom_builder :: "bool \<Rightarrow> type_builder" where
  "tokenfactory_denom_builder UnsafeEnabled =
     \<lparr>tb_RawDescriptor = tokenfactory_denom_rawDesc,
      tb_NumEnums = 0, tb_NumMessages = 1, tb_NumExtensions = 0, tb_NumServices = 0,
      tb_GoTypes = tokenfactory_denom_goTypes, tb_DependencyIndexes = tokenfactory_denom_depIdxs,
      tb_MessageInfos = tokenfactory_denom_msgTypes,
      tb_Exporters = (if UnsafeEnabled then [] else
        [(0, exporter (LocalType ''Denom''))])\<rparr>"

definition tokenfactory_denom_init ::
  "build_fun \<Rightarrow> bool \<Rightarrow> file_vars \<Rightarrow> refl_error + file_vars" where
  "tokenfactory_denom_init Build UnsafeEnabled = file_init Build ''medasdigital/tokenfactory/denom.proto''
     []
     (tokenfactory_denom_builder UnsafeEnabled)"

definition tokenfactory_denom_rawDescGZIP :: "(bytes \<Rightarrow> bytes) \<Rightarrow> bytes" where
  "tokenfactory_denom_rawDescGZIP CompressGZIP = fst (rawDescGZIP CompressGZIP (False, tokenfactory_denom_rawDesc))"

definition init_Denom ::
  "build_fun \<Rightarrow> bool \<Rightarrow> file_vars \<Rightarrow> refl_error + file_vars \<times> message_vars" where
  "init_Denom Build UnsafeEnabled vars = rbind (tokenfactory_denom_init Build UnsafeEnabled vars)
     (message_init ''medasdigital/tokenfactory/denom.proto'' ''Denom''
       [''denom'', ''description'', ''ticker'', ''precision'', ''url'', ''maxSupply'',
        ''supply'', ''canChangeMaxSupply'', ''owner''])"

definition Denom_messageType :: "message_vars \<Rightarrow> ApiDenom message_type" where
  "Denom_messageType vars = generated_type ApiDenom_zero (v_md vars)"

definition Denom_methods :: "message_vars \<Rightarrow> ApiDenom message_methods" where
  "Denom_methods vars = generated_methods 0 ApiDenom_zero (v_md vars)"

definition ApiDenom_Descriptor :: "(bytes \<Rightarrow> bytes) \<Rightarrow> bytes \<times> nat list" where
  "ApiDenom_Descriptor CompressGZIP = (tokenfactory_denom_rawDescGZIP CompressGZIP, [0])"

section \<open>medasdigital/tokenfactory/genesis.proto\<close>

definition tokenfactory_genesis_goTypes :: "go_type list" where
  "tokenfactory_genesis_goTypes =
    [LocalType ''GenesisState'',
     LocalType ''Params'',
     LocalType ''Denom'']"

definition tokenfactory_genesis_depIdxs :: "nat list" where
  "tokenfactory_genesis_depIdxs = [1, 2, 2, 2, 2, 2, 0]"

definition tokenfactory_genesis_msgTypes :: nat where
  "tokenfactory_genesis_msgTypes = 1"

definition tokenfactory_genesis_builder :: "bool \<Rightarrow> type_builder" where
  "tokenfactory_genesis_builder UnsafeEnabled =
     \<lparr>tb_RawDescriptor = tokenfactory_genesis_rawDesc,
      tb_NumEnums = 0, tb_NumMessages = 1, tb_NumExtensions = 0, tb_NumServices = 0,
      tb_GoTypes = tokenfactory_genesis_goTypes, tb_DependencyIndexes = tokenfactory_genesis_depIdxs,
      tb_MessageInfos = tokenfactory_genesis_msgTypes,
      tb_Exporters = (if UnsafeEnabled then [] else
        [(0, exporter (LocalType ''GenesisState''))])\<rparr>"

definition tokenfactory_genesis_init ::
  "build_fun \<Rightarrow> bool \<Rightarrow> file_vars \<Rightarrow> refl_error + file_vars" where
  "tokenfactory_genesis_init Build UnsafeEnabled = file_init Build ''medasdigital/tokenfactory/genesis.proto''
     [tokenfactory_params_init Build UnsafeEnabled, tokenfactory_denom_init Build UnsafeEnabled]
     (tokenfactory_genesis_builder UnsafeEnabled)"

definition tokenfactory_genesis_rawDescGZIP :: "(bytes \<Rightarrow> bytes) \<Rightarrow> bytes" where
  "tokenfactory_genesis_rawDescGZIP CompressGZIP = fst (rawDescGZIP CompressGZIP (False, tokenfactory_genesis_rawDesc))"

definition init_GenesisState ::
  "build_fun \<Rightarrow> bool \<Rightarrow> file_vars \<Rightarrow> refl_error + file_vars \<times> message_vars" where
  "init_GenesisState Build UnsafeEnabled vars = rbind (tokenfactory_genesis_init Build UnsafeEnabled vars)
     (message_init ''medasdigital/tokenfactory/genesis.proto'' ''GenesisState''
       [''params'', ''denomList''])"

definition GenesisState_messageType :: "message_vars \<Rightarrow> ApiGenesisState message_type" where
  "GenesisState_messageType vars = generated_type ApiGenesisState_zero (v_md vars)"

definition GenesisState_methods :: "message_vars \<Rightarrow> ApiGenesisState message_methods" where
  "GenesisState_methods vars = generated_methods 0 ApiGenesisState_zero (v_md vars)"

definition ApiGenesisState_Descriptor :: "(bytes \<Rightarrow> bytes) \<Rightarrow> bytes \<times> nat list" where
  "ApiGenesisState_Descriptor CompressGZIP = (tokenfactory_genesis_rawDescGZIP CompressGZIP, [0])"

section \<open>medasdigital/tokenfactory/tx.proto\<close>

definition tokenfactory_tx_goTypes :: "go_type list" where
  "tokenfactory_tx_goTypes =
    [LocalType ''MsgUpdateParams'',
     LocalType ''MsgUpdateParamsResponse'',
     LocalType ''MsgCreateDenom'',
     LocalType ''MsgCreateDenomResponse'',
     LocalType ''MsgUpdateDenom'',
     LocalType ''MsgUpdateDenomResponse'',
     LocalType ''MsgDeleteDenom'',
     LocalType ''MsgDeleteDenomResponse'',
     LocalType ''Params'']"

definition tokenfactory_tx_depIdxs :: "nat list" where
  "tokenfactory_tx_depIdxs = [8, 0, 2, 4, 6, 1, 3, 5, 7, 5, 1, 1, 1, 0]"

definition tokenfactory_tx_msgTypes :: nat where
  "tokenfactory_tx_msgTypes = 8"

definition tokenfactory_tx_builder :: "bool \<Rightarrow> type_builder" where
  "tokenfactory_tx_builder UnsafeEnabled =
     \<lparr>tb_RawDescriptor = tokenfactory_tx_rawDesc,
      tb_NumEnums = 0, tb_NumMessages = 8, tb_NumExtensions = 0, tb_NumServices = 1,
      tb_GoTypes = tokenfactory_tx_goTypes, tb_DependencyIndexes = tokenfactory_tx_depIdxs,
      tb_MessageInfos = tokenfactory_tx_msgTypes,
      tb_Exporters = (if UnsafeEnabled then [] else
        [(0, exporter (LocalType ''MsgUpdateParams'')),
         (1, exporter (LocalType ''MsgUpdateParamsResponse'')),
         (2, exporter (LocalType ''MsgCreateDenom'')),
         (3, exporter (LocalType ''MsgCreateDenomResponse'')),
         (4, exporter (LocalType ''MsgUpdateDenom'')),
         (5, exporter (LocalType ''MsgUpdateDenomResponse'')),
         (6, exporter (LocalType ''MsgDeleteDenom'')),
         (7, exporter (LocalType ''MsgDeleteDenomResponse''))])\<rparr>"

definition tokenfactory_tx_init ::
  "build_fun \<Rightarrow> bool \<Rightarrow> file_vars \<Rightarrow> refl_error + file_vars" where
  "tokenfactory_tx_init Build UnsafeEnabled = file_init Build ''medasdigital/tokenfactory/tx.proto''
     [tokenfactory_params_init Build UnsafeEnabled, tokenfactory_denom_init Build UnsafeEnabled]
     (tokenfactory_tx_builder UnsafeEnabled)"

definition tokenfactory_tx_rawDescGZIP :: "(bytes \<Rightarrow> bytes) \<Rightarrow> bytes" where
  "tokenfactory_tx_rawDescGZIP CompressGZIP = fst (rawDescGZIP CompressGZIP (False, tokenfactory_tx_rawDesc))"

definition init_MsgUpdateParams ::
  "build_fun \<Rightarrow> bool \<Rightarrow> file_vars \<Rightarrow> refl_error + file_vars \<times> message_vars" where
  "init_MsgUpdateParams Build UnsafeEnabled vars = rbind (tokenfactory_tx_init Build UnsafeEnabled vars)
     (message_init ''medasdigital/tokenfactory/tx.proto'' ''MsgUpdateParams''
       [''authority'', ''params''])"

definition MsgUpdateParams_messageType :: "message_vars \<Rightarrow> ApiMsgUpdateParams message_type" where
  "MsgUpdateParams_messageType vars = generated_type ApiMsgUpdateParams_zero (v_md vars)"

definition MsgUpdateParams_methods :: "message_vars \<Rightarrow> ApiMsgUpdateParams message_methods" where
  "MsgUpdateParams_methods vars = generated_methods 0 ApiMsgUpdateParams_zero (v_md vars)"

definition ApiMsgUpdateParams_Descriptor :: "(bytes \<Rightarrow> bytes) \<Rightarrow> bytes \<times> nat list" where
  "ApiMsgUpdateParams_Descriptor CompressGZIP = (tokenfactory_tx_rawDescGZIP CompressGZIP, [0])"

definition init_MsgUpdateParamsResponse ::
  "build_fun \<Rightarrow> bool \<Rightarrow> file_vars \<Rightarrow> refl_error + file_vars \<times> message_vars" where
  "init_MsgUpdateParamsResponse Build UnsafeEnabled vars = rbind (tokenfactory_tx_init Build UnsafeEnabled vars)
     (message_init ''medasdigital/tokenfactory/tx.proto'' ''MsgUpdateParamsResponse''
       [])"

definition MsgUpdateParamsResponse_messageType :: "message_vars \<Rightarrow> ApiMsgUpdateParamsResponse message_type" where
  "MsgUpdateParamsResponse_messageType vars = generated_type ApiMsgUpdateParamsResponse_zero (v_md vars)"

definition MsgUpdateParamsResponse_methods :: "message_vars \<Rightarrow> ApiMsgUpdateParamsResponse message_methods" where
  "MsgUpdateParamsResponse_methods vars = generated_methods 1 ApiMsgUpdateParamsResponse_zero (v_md vars)"

definition ApiMsgUpdateParamsResponse_Descriptor :: "(bytes \<Rightarrow> bytes) \<Rightarrow> bytes \<times> nat list" where
  "ApiMsgUpdateParamsResponse_Descriptor CompressGZIP = (tokenfactory_tx_rawDescGZIP CompressGZIP, [1])"

definition init_MsgCreateDenom ::
  "build_fun \<Rightarrow> bool \<Rightarrow> file_vars \<Rightarrow> refl_error + file_vars \<times> message_vars" where
  "init_MsgCreateDenom Build UnsafeEnabled vars = rbind (tokenfactory_tx_init Build UnsafeEnabled vars)
     (message_init ''medasdigital/tokenfactory/tx.proto'' ''MsgCreateDenom''
       [''owner'', ''denom'', ''description'', ''ticker'', ''precision'', ''url'',
        ''maxSupply'', ''supply'', ''canChangeMaxSupply''])"

definition MsgCreateDenom_messageType :: "message_vars \<Rightarrow> ApiMsgCreateDenom message_type" where
  "MsgCreateDenom_messageType vars = generated_type ApiMsgCreateDenom_zero (v_md vars)"

definition MsgCreateDenom_methods :: "message_vars \<Rightarrow> ApiMsgCreateDenom message_methods" where
  "MsgCreateDenom_methods vars = generated_methods 2 ApiMsgCreateDenom_zero (v_md vars)"

definition ApiMsgCreateDenom_Descriptor :: "(bytes \<Rightarrow> bytes) \<Rightarrow> bytes \<times> nat list" where
  "ApiMsgCreateDenom_Descriptor CompressGZIP = (tokenfactory_tx_rawDescGZIP CompressGZIP, [2])"

definition init_MsgCreateDenomResponse ::
  "build_fun \<Rightarrow> bool \<Rightarrow> file_vars \<Rightarrow> refl_error + file_vars \<times> message_vars" where
  "init_MsgCreateDenomResponse Build UnsafeEnabled vars = rbind (tokenfactory_tx_init Build UnsafeEnabled vars)
     (message_init ''medasdigital/tokenfactory/tx.proto'' ''MsgCreateDenomResponse''
       [])"

definition MsgCreateDenomResponse_messageType :: "message_vars \<Rightarrow> ApiMsgCreateDenomResponse message_type" where
  "MsgCreateDenomResponse_messageType vars = generated_type ApiMsgCreateDenomResponse_zero (v_md vars)"

definition MsgCreateDenomResponse_methods :: "message_vars \<Rightarrow> ApiMsgCreateDenomResponse message_methods" where
  "MsgCreateDenomResponse_methods vars = generated_methods 3 ApiMsgCreateDenomResponse_zero (v_md vars)"

definition ApiMsgCreateDenomResponse_Descriptor :: "(bytes \<Rightarrow> bytes) \<Rightarrow> bytes \<times> nat list" where
  "ApiMsgCreateDenomResponse_Descriptor CompressGZIP = (tokenfactory_tx_rawDescGZIP CompressGZIP, [3])"

definition init_MsgUpdateDenom ::
  "build_fun \<Rightarrow> bool \<Rightarrow> file_vars \<Rightarrow> refl_error + file_vars \<times> message_vars" where
  "init_MsgUpdateDenom Build UnsafeEnabled vars = rbind (tokenfactory_tx_init Build UnsafeEnabled vars)
     (message_init ''medasdigital/tokenfactory/tx.proto'' ''MsgUpdateDenom''
       [''owner'', ''denom'', ''description'', ''ticker'', ''precision'', ''url'',
        ''maxSupply'', ''supply'', ''canChangeMaxSupply''])"

definition MsgUpdateDenom_messageType :: "message_vars \<Rightarrow> ApiMsgUpdateDenom message_type" where
  "MsgUpdateDenom_messageType vars = generated_type ApiMsgUpdateDenom_zero (v_md vars)"

definition MsgUpdateDenom_methods :: "message_vars \<Rightarrow> ApiMsgUpdateDenom message_methods" where
  "MsgUpdateDenom_methods vars = generated_methods 4 ApiMsgUpdateDenom_zero (v_md vars)"

definition ApiMsgUpdateDenom_Descriptor :: "(bytes \<Rightarrow> bytes) \<Rightarrow> bytes \<times> nat list" where
  "ApiMsgUpdateDenom_Descriptor CompressGZIP = (tokenfactory_tx_rawDescGZIP CompressGZIP, [4])"

definition init_MsgUpdateDenomResponse ::
  "build_fun \<Rightarrow> bool \<Rightarrow> file_vars \<Rightarrow> refl_error + file_vars \<times> message_vars" where
  "init_MsgUpdateDenomResponse Build UnsafeEnabled vars = rbind (tokenfactory_tx_init Build UnsafeEnabled vars)
     (message_init ''medasdigital/tokenfactory/tx.proto'' ''MsgUpdateDenomResponse''
       [])"

definition MsgUpdateDenomResponse_messageType :: "message_vars \<Rightarrow> ApiMsgUpdateDenomResponse message_type" where
  "MsgUpdateDenomResponse_messageType vars = generated_type ApiMsgUpdateDenomResponse_zero (v_md vars)"

definition MsgUpdateDenomResponse_methods :: "message_vars \<Rightarrow> ApiMsgUpdateDenomResponse message_methods" where
  "MsgUpdateDenomResponse_methods vars = generated_methods 5 ApiMsgUpdateDenomResponse_zero (v_md vars)"

definition ApiMsgUpdateDenomResponse_Descriptor :: "(bytes \<Rightarrow> bytes) \<Rightarrow> bytes \<times> nat list" where
  "ApiMsgUpdateDenomResponse_Descriptor CompressGZIP = (tokenfactory_tx_rawDescGZIP CompressGZIP, [5])"

definition init_MsgDeleteDenom ::
  "build_fun \<Rightarrow> bool \<Rightarrow> file_vars \<Rightarrow> refl_error + file_vars \<times> message_vars" where
  "init_MsgDeleteDenom Build UnsafeEnabled vars = rbind (tokenfactory_tx_init Build UnsafeEnabled vars)
     (message_init ''medasdigital/tokenfactory/tx.proto'' ''MsgDeleteDenom''
       [''owner'', ''denom''])"

definition MsgDeleteDenom_messageType :: "message_vars \<Rightarrow> ApiMsgDeleteDenom message_type" where
  "MsgDeleteDenom_messageType vars = generated_type ApiMsgDeleteDenom_zero (v_md vars)"

definition MsgDeleteDenom_methods :: "message_vars \<Rightarrow> ApiMsgDeleteDenom message_methods" where
  "MsgDeleteDenom_methods vars = generated_methods 6 ApiMsgDeleteDenom_zero (v_md vars)"

definition ApiMsgDeleteDenom_Descriptor :: "(bytes \<Rightarrow> bytes) \<Rightarrow> bytes \<times> nat list" where
  "ApiMsgDeleteDenom_Descriptor CompressGZIP = (tokenfactory_tx_rawDescGZIP CompressGZIP, [6])"

definition init_MsgDeleteDenomResponse ::
  "build_fun \<Rightarrow> bool \<Rightarrow> file_vars \<Rightarrow> refl_error + file_vars \<times> message_vars" where
  "init_MsgDeleteDenomResponse Build UnsafeEnabled vars = rbind (tokenfactory_tx_init Build UnsafeEnabled vars)
     (message_init ''medasdigital/tokenfactory/tx.proto'' ''MsgDeleteDenomResponse''
       [])"

definition MsgDeleteDenomResponse_messageType :: "message_vars \<Rightarrow> ApiMsgDeleteDenomResponse message_type" where
  "MsgDeleteDenomResponse_messageType vars = generated_type ApiMsgDeleteDenomResponse_zero (v_md vars)"

definition MsgDeleteDenomResponse_methods :: "message_vars \<Rightarrow> ApiMsgDeleteDenomResponse message_methods" where
  "MsgDeleteDenomResponse_methods vars = generated_methods 7 ApiMsgDeleteDenomResponse_zero (v_md vars)"

definition ApiMsgDeleteDenomResponse_Descriptor :: "(bytes \<Rightarrow> bytes) \<Rightarrow> bytes \<times> nat list" where
  "ApiMsgDeleteDenomResponse_Descriptor CompressGZIP = (tokenfactory_tx_rawDescGZIP CompressGZIP, [7])"

section \<open>medasdigital/tokenfactory/query.proto\<close>

definition tokenfactory_query_goTypes :: "go_type list" where
  "tokenfactory_query_goTypes =
    [LocalType ''QueryParamsRequest'',
     LocalType ''QueryParamsResponse'',
     LocalType ''QueryGetDenomRequest'',
     LocalType ''QueryGetDenomResponse'',
     LocalType ''QueryAllDenomRequest'',
     LocalType ''QueryAllDenomResponse'',
     LocalType ''Params'',
     LocalType ''Denom'',
     ForeignType ''cosmossdk.io/api/cosmos/base/query/v1beta1'' ''PageRequest'',
     ForeignType ''cosmossdk.io/api/cosmos/base/query/v1beta1'' ''PageResponse'']"

definition tokenfactory_query_depIdxs :: "nat list" where
  "tokenfactory_query_depIdxs = [6, 7, 8, 7, 9, 0, 2, 4, 1, 3, 5, 8, 5, 5, 5, 0]"

definition tokenfactory_query_msgTypes :: nat where
  "tokenfactory_query_msgTypes = 6"

definition tokenfactory_query_builder :: "bool \<Rightarrow> type_builder" where
  "tokenfactory_query_builder UnsafeEnabled =
     \<lparr>tb_RawDescriptor = tokenfactory_query_rawDesc,
      tb_NumEnums = 0, tb_NumMessages = 6, tb_NumExtensions = 0, tb_NumServices = 1,
      tb_GoTypes = tokenfactory_query_goTypes, tb_DependencyIndexes = tokenfactory_query_depIdxs,
      tb_MessageInfos = tokenfactory_query_msgTypes,
      tb_Exporters = (if UnsafeEnabled then [] else
        [(0, exporter (LocalType ''QueryParamsRequest'')),
         (1, exporter (LocalType ''QueryParamsResponse'')),
         (2, exporter (LocalType ''QueryGetDenomRequest'')),
         (3, exporter (LocalType ''QueryGetDenomResponse'')),
         (4, exporter (LocalType ''QueryAllDenomRequest'')),
         (5, exporter (LocalType ''QueryAllDenomResponse''))])\<rparr>"

definition tokenfactory_query_init ::
  "build_fun \<Rightarrow> bool \<Rightarrow> file_vars \<Rightarrow> refl_error + file_vars" where
  "tokenfactory_query_init Build UnsafeEnabled = file_init Build ''medasdigital/tokenfactory/query.proto''
     [tokenfactory_params_init Build UnsafeEnabled, tokenfactory_denom_init Build UnsafeEnabled]
     (tokenfactory_query_builder UnsafeEnabled)"

definition tokenfactory_query_rawDescGZIP :: "(bytes \<Rightarrow> bytes) \<Rightarrow> bytes" where
  "tokenfactory_query_rawDescGZIP CompressGZIP = fst (rawDescGZIP CompressGZIP (False, tokenfactory_query_rawDesc))"

definition init_QueryParamsRequest ::
  "build_fun \<Rightarrow> bool \<Rightarrow> file_vars \<Rightarrow> refl_error + file_vars \<times> message_vars" where
  "init_QueryParamsRequest Build UnsafeEnabled vars = rbind (tokenfactory_query_init Build UnsafeEnabled vars)
     (message_init ''medasdigital/tokenfactory/query.proto'' ''QueryParamsRequest''
       [])"

definition QueryParamsRequest_messageType :: "message_vars \<Rightarrow> ApiQueryParamsRequest message_type" where
  "QueryParamsRequest_messageType vars = generated_type ApiQueryParamsRequest_zero (v_md vars)"

definition QueryParamsRequest_methods :: "message_vars \<Rightarrow> ApiQueryParamsRequest message_methods" where
  "QueryParamsRequest_methods vars = generated_methods 0 ApiQueryParamsRequest_zero (v_md vars)"

definition ApiQueryParamsRequest_Descriptor :: "(bytes \<Rightarrow> bytes) \<Rightarrow> bytes \<times> nat list" where
  "ApiQueryParamsRequest_Descriptor CompressGZIP = (tokenfactory_query_rawDescGZIP CompressGZIP, [0])"

definition init_QueryParamsResponse ::
  "build_fun \<Rightarrow> bool \<Rightarrow> file_vars \<Rightarrow> refl_error + file_vars \<times> message_vars" where
  "init_QueryParamsResponse Build UnsafeEnabled vars = rbind (tokenfactory_query_init Build UnsafeEnabled vars)
     (message_init ''medasdigital/tokenfactory/query.proto'' ''QueryParamsResponse''
       [''params''])"

definition QueryParamsResponse_messageType :: "message_vars \<Rightarrow> ApiQueryParamsResponse message_type" where
  "QueryParamsResponse_messageType vars = generated_type ApiQueryParamsResponse_zero (v_md vars)"

definition QueryParamsResponse_methods :: "message_vars \<Rightarrow> ApiQueryParamsResponse message_methods" where
  "QueryParamsResponse_methods vars = generated_methods 1 ApiQueryParamsResponse_zero (v_md vars)"

definition ApiQueryParamsResponse_Descriptor :: "(bytes \<Rightarrow> bytes) \<Rightarrow> bytes \<times> nat list" where
  "ApiQueryParamsResponse_Descriptor CompressGZIP = (tokenfactory_query_rawDescGZIP CompressGZIP, [1])"

definition init_QueryGetDenomRequest ::
  "build_fun \<Rightarrow> bool \<Rightarrow> file_vars \<Rightarrow> refl_error + file_vars \<times> message_vars" where
  "init_QueryGetDenomRequest Build UnsafeEnabled vars = rbind (tokenfactory_query_init Build UnsafeEnabled vars)
     (message_init ''medasdigital/tokenfactory/query.proto'' ''QueryGetDenomRequest''
       [''denom''])"

definition QueryGetDenomRequest_messageType :: "message_vars \<Rightarrow> ApiQueryGetDenomRequest message_type" where
  "QueryGetDenomRequest_messageType vars = generated_type ApiQueryGetDenomRequest_zero (v_md vars)"

definition QueryGetDenomRequest_methods :: "message_vars \<Rightarrow> ApiQueryGetDenomRequest message_methods" where
  "QueryGetDenomRequest_methods vars = generated_methods 2 ApiQueryGetDenomRequest_zero (v_md vars)"

definition ApiQueryGetDenomRequest_Descriptor :: "(bytes \<Rightarrow> bytes) \<Rightarrow> bytes \<times> nat list" where
  "ApiQueryGetDenomRequest_Descriptor CompressGZIP = (tokenfactory_query_rawDescGZIP CompressGZIP, [2])"

definition init_QueryGetDenomResponse ::
  "build_fun \<Rightarrow> bool \<Rightarrow> file_vars \<Rightarrow> refl_error + file_vars \<times> message_vars" where
  "init_QueryGetDenomResponse Build UnsafeEnabled vars = rbind (tokenfactory_query_init Build UnsafeEnabled vars)
     (message_init ''medasdigital/tokenfactory/query.proto'' ''QueryGetDenomResponse''
       [''denom''])"

definition QueryGetDenomResponse_messageType :: "message_vars \<Rightarrow> ApiQueryGetDenomResponse message_type" where
  "QueryGetDenomResponse_messageType vars = generated_type ApiQueryGetDenomResponse_zero (v_md vars)"

definition QueryGetDenomResponse_methods :: "message_vars \<Rightarrow> ApiQueryGetDenomResponse message_methods" where
  "QueryGetDenomResponse_methods vars = generated_methods 3 ApiQueryGetDenomResponse_zero (v_md vars)"

definition ApiQueryGetDenomResponse_Descriptor :: "(bytes \<Rightarrow> bytes) \<Rightarrow> bytes \<times> nat list" where
  "ApiQueryGetDenomResponse_Descriptor CompressGZIP = (tokenfactory_query_rawDescGZIP CompressGZIP, [3])"

definition init_QueryAllDenomRequest ::
  "build_fun \<Rightarrow> bool \<Rightarrow> file_vars \<Rightarrow> refl_error + file_vars \<times> message_vars" where
  "init_QueryAllDenomRequest Build UnsafeEnabled vars = rbind (tokenfactory_query_init Build UnsafeEnabled vars)
     (message_init ''medasdigital/tokenfactory/query.proto'' ''QueryAllDenomRequest''
       [''pagination''])"

definition QueryAllDenomRequest_messageType :: "message_vars \<Rightarrow> 'p ApiQueryAllDenomRequest message_type" where
  "QueryAllDenomRequest_messageType vars = generated_type ApiQueryAllDenomRequest_zero (v_md vars)"

definition QueryAllDenomRequest_methods :: "message_vars \<Rightarrow> 'p ApiQueryAllDenomRequest message_methods" where
  "QueryAllDenomRequest_methods vars = generated_methods 4 ApiQueryAllDenomRequest_zero (v_md vars)"

definition ApiQueryAllDenomRequest_Descriptor :: "(bytes \<Rightarrow> bytes) \<Rightarrow> bytes \<times> nat list" where
  "ApiQueryAllDenomRequest_Descriptor CompressGZIP = (tokenfactory_query_rawDescGZIP CompressGZIP, [4])"

definition init_QueryAllDenomResponse ::
  "build_fun \<Rightarrow> bool \<Rightarrow> file_vars \<Rightarrow> refl_error + file_vars \<times> message_vars" where
  "init_QueryAllDenomResponse Build UnsafeEnabled vars = rbind (tokenfactory_query_init Build UnsafeEnabled vars)
     (message_init ''medasdigital/tokenfactory/query.proto'' ''QueryAllDenomResponse''
       [''denom'', ''pagination''])"

definition QueryAllDenomResponse_messageType :: "message_vars \<Rightarrow> 'p ApiQueryAllDenomResponse message_type" where
  "QueryAllDenomResponse_messageType vars = generated_type ApiQueryAllDenomResponse_zero (v_md vars)"

definition QueryAllDenomResponse_methods :: "message_vars \<Rightarrow> 'p ApiQueryAllDenomResponse message_methods" where
  "QueryAllDenomResponse_methods vars = generated_methods 5 ApiQueryAllDenomResponse_zero (v_md vars)"

definition ApiQueryAllDenomResponse_Descriptor :: "(bytes \<Rightarrow> bytes) \<Rightarrow> bytes \<times> nat list" where
  "ApiQueryAllDenomResponse_Descriptor CompressGZIP = (tokenfactory_query_rawDescGZIP CompressGZIP, [5])"

section \<open>medasdigital/tokenfactory/module/module.proto\<close>

definition tokenfactory_module_goTypes :: "go_type list" where
  "tokenfactory_module_goTypes =
    [LocalType ''Module'']"

definition tokenfactory_module_depIdxs :: "nat list" where
  "tokenfactory_module_depIdxs = [0, 0, 0, 0, 0]"

definition tokenfactory_module_msgTypes :: nat where
  "tokenfactory_module_msgTypes = 1"

definition tokenfactory_module_builder :: "bool \<Rightarrow> type_builder" where
  "tokenfactory_module_builder UnsafeEnabled =
     \<lparr>tb_RawDescriptor = tokenfactory_module_rawDesc,
      tb_NumEnums = 0, tb_NumMessages = 1, tb_NumExtensions = 0, tb_NumServices = 0,
      tb_GoTypes = tokenfactory_module_goTypes, tb_DependencyIndexes = tokenfactory_module_depIdxs,
      tb_MessageInfos = tokenfactory_module_msgTypes,
      tb_Exporters = (if UnsafeEnabled then [] else
        [(0, exporter (LocalType ''Module''))])\<rparr>"

definition tokenfactory_module_init ::
  "build_fun \<Rightarrow> bool \<Rightarrow> file_vars \<Rightarrow> refl_error + file_vars" where
  "tokenfactory_module_init Build UnsafeEnabled = file_init Build ''medasdigital/tokenfactory/module/module.proto''
     []
     (tokenfactory_module_builder UnsafeEnabled)"

definition tokenfactory_module_rawDescGZIP :: "(bytes \<Rightarrow> bytes) \<Rightarrow> bytes" where
  "tokenfactory_module_rawDescGZIP CompressGZIP = fst (rawDescGZIP CompressGZIP (False, tokenfactory_module_rawDesc))"

definition init_Module ::
  "build_fun \<Rightarrow> bool \<Rightarrow> file_vars \<Rightarrow> refl_error + file_vars \<times> message_vars" where
  "init_Module Build UnsafeEnabled vars = rbind (tokenfactory_module_init Build UnsafeEnabled vars)
     (message_init ''medasdigital/tokenfactory/module/module.proto'' ''Module''
       [''authority''])"

definition Module_messageType :: "message_vars \<Rightarrow> ApiModule message_type" where
  "Module_messageType vars = generated_type ApiModule_zero (v_md vars)"

definition Module_methods :: "message_vars \<Rightarrow> ApiModule message_methods" where
  "Module_methods vars = generated_methods 0 ApiModule_zero (v_md vars)"

definition ApiModule_Descriptor :: "(bytes \<Rightarrow> bytes) \<Rightarrow> bytes \<times> nat list" where
  "ApiModule_Descriptor CompressGZIP = (tokenfactory_module_rawDescGZIP CompressGZIP, [0])"

end
