(* ===== verification/Medas_Proto.thy ===== *)
theory Medas_Proto
  imports Proto_Descriptor
begin

text \<open>
  The files \<open>proto/medasdigital/medasdigital/*.proto\<close>, and the descriptors of them embedded in the Go
  files of \<open>api/medasdigital/medasdigital\<close>, byte by byte.  Each descriptor is the encoding of its file.
\<close>

section \<open>Messages\<close>

definition medasdigital_proto_Params :: message_spec where
  "medasdigital_proto_Params = proto_message ''Params'' [gogoproto_equal True, amino_name ''medasdigital/x/medasdigital/Params'']
     []"

definition medasdigital_proto_GenesisState :: message_spec where
  "medasdigital_proto_GenesisState = proto_message ''GenesisState'' []
     [proto_field (TMessage ''medasdigital.medasdigital.Params'') ''params'' 1 [gogoproto_nullable False, amino_dont_omitempty True]]"

definition medasdigital_proto_MsgUpdateParams :: message_spec where
  "medasdigital_proto_MsgUpdateParams = proto_message ''MsgUpdateParams'' [cosmos_msg_signer ''authority'', amino_name ''medasdigital/x/medasdigital/MsgUpdateParams'']
     [proto_field TString ''authority'' 1 [cosmos_proto_scalar ''cosmos.AddressString''],
      proto_field (TMessage ''medasdigital.medasdigital.Params'') ''params'' 2 [gogoproto_nullable False, amino_dont_omitempty True]]"

definition medasdigital_proto_MsgUpdateParamsResponse :: message_spec where
  "medasdigital_proto_MsgUpdateParamsResponse = proto_message ''MsgUpdateParamsResponse'' []
     []"

definition medasdigital_proto_QueryParamsRequest :: message_spec where
  "medasdigital_proto_QueryParamsRequest = proto_message ''QueryParamsRequest'' []
     []"

definition medasdigital_proto_QueryParamsResponse :: message_spec where
  "medasdigital_proto_QueryParamsResponse = proto_message ''QueryParamsResponse'' []
     [proto_field (TMessage ''medasdigital.medasdigital.Params'') ''params'' 1 [gogoproto_nullable False, amino_dont_omitempty True]]"

definition medasdigital_proto_Module :: message_spec where
  "medasdigital_proto_Module = proto_message ''Module'' [cosmos_app_module ''medasdigital/x/medasdigital'']
     [proto_field TString ''authority'' 1 []]"

section \<open>Files\<close>

definition medasdigital_params_proto :: file_spec where
  "medasdigital_params_proto = \<lparr>p_name = ''medasdigital/medasdigital/params.proto'', p_package = ''medasdigital.medasdigital'',
     p_imports = [''amino/amino.proto'',
       ''gogoproto/gogo.proto''],
     p_messages = [medasdigital_proto_Params],
     p_services = [],
     p_options = managed_options
       ''com.medasdigital.medasdigital'' ''ParamsProto''
       ''medasdigital/api/medasdigital/medasdigital'' ''MMX'' ''Medasdigital.Medasdigital''\<rparr>"

definition medasdigital_genesis_proto :: file_spec where
  "medasdigital_genesis_proto = \<lparr>p_name = ''medasdigital/medasdigital/genesis.proto'', p_package = ''medasdigital.medasdigital'',
     p_imports = [''amino/amino.proto'',
       ''gogoproto/gogo.proto'',
       ''medasdigital/medasdigital/params.proto''],
     p_messages = [medasdigital_proto_GenesisState],
     p_services = [],
     p_options = managed_options
       ''com.medasdigital.medasdigital'' ''GenesisProto''
       ''medasdigital/api/medasdigital/medasdigital'' ''MMX'' ''Medasdigital.Medasdigital''\<rparr>"

definition medasdigital_proto_Msg :: service_spec where
  "medasdigital_proto_Msg = \<lparr>s_name = ''Msg'', s_methods =
       [rpc ''UpdateParams'' ''medasdigital.medasdigital.MsgUpdateParams''
          ''medasdigital.medasdigital.MsgUpdateParamsResponse'' []],
     s_options = [cosmos_msg_service True]\<rparr>"

definition medasdigital_tx_proto :: file_spec where
  "medasdigital_tx_proto = \<lparr>p_name = ''medasdigital/medasdigital/tx.proto'', p_package = ''medasdigital.medasdigital'',
     p_imports = [''amino/amino.proto'',
       ''cosmos/msg/v1/msg.proto'',
       ''cosmos_proto/cosmos.proto'',
       ''gogoproto/gogo.proto'',
       ''medasdigital/medasdigital/params.proto''],
     p_messages = [medasdigital_proto_MsgUpdateParams, medasdigital_proto_MsgUpdateParamsResponse],
     p_services = [medasdigital_proto_Msg],
     p_options = managed_options
       ''com.medasdigital.medasdigital'' ''TxProto''
       ''medasdigital/api/medasdigital/medasdigital'' ''MMX'' ''Medasdigital.Medasdigital''\<rparr>"

definition medasdigital_proto_Query :: service_spec where
  "medasdigital_proto_Query = \<lparr>s_name = ''Query'', s_methods =
       [rpc ''Params'' ''medasdigital.medasdigital.QueryParamsRequest''
          ''medasdigital.medasdigital.QueryParamsResponse'' [google_api_http_get ''/medasdigital/medasdigital/params'']],
     s_options = []\<rparr>"

definition medasdigital_query_proto :: file_spec where
  "medasdigital_query_proto = \<lparr>p_name = ''medasdigital/medasdigital/query.proto'', p_package = ''medasdigital.medasdigital'',
     p_imports = [''amino/amino.proto'',
       ''gogoproto/gogo.proto'',
       ''google/api/annotations.proto'',
       ''cosmos/base/query/v1beta1/pagination.proto'',
       ''medasdigital/medasdigital/params.proto''],
     p_messages = [medasdigital_proto_QueryParamsRequest, medasdigital_proto_QueryParamsResponse],
     p_services = [medasdigital_proto_Query],
     p_options = managed_options
       ''com.medasdigital.medasdigital'' ''QueryProto''
       ''medasdigital/api/medasdigital/medasdigital'' ''MMX'' ''Medasdigital.Medasdigital''\<rparr>"

definition medasdigital_module_proto :: file_spec where
  "medasdigital_module_proto = \<lparr>p_name = ''medasdigital/medasdigital/module/module.proto'', p_package = ''medasdigital.medasdigital.module'',
     p_imports = [''cosmos/app/v1alpha1/module.proto''],
     p_messages = [medasdigital_proto_Module],
     p_services = [],
     p_options = managed_options
       ''com.medasdigital.medasdigital.module'' ''ModuleProto''
       ''medasdigital/api/medasdigital/medasdigital/module'' ''MMM'' ''Medasdigital.Medasdigital.Module''\<rparr>"

section \<open>Descriptors\<close>

definition medasdigital_params_rawDesc :: bytes where
  "medasdigital_params_rawDesc = concat
    [[0x0a, 0x26, 0x6d, 0x65, 0x64, 0x61, 0x73, 0x64, 0x69, 0x67, 0x69, 0x74, 0x61, 0x6c, 0x2f, 0x6d],
     [0x65, 0x64, 0x61, 0x73, 0x64, 0x69, 0x67, 0x69, 0x74, 0x61, 0x6c, 0x2f, 0x70, 0x61, 0x72, 0x61],
     [0x6d, 0x73, 0x2e, 0x70, 0x72, 0x6f, 0x74, 0x6f, 0x12, 0x19, 0x6d, 0x65, 0x64, 0x61, 0x73, 0x64],
     [0x69, 0x67, 0x69, 0x74, 0x61, 0x6c, 0x2e, 0x6d, 0x65, 0x64, 0x61, 0x73, 0x64, 0x69, 0x67, 0x69],
     [0x74, 0x61, 0x6c, 0x1a, 0x11, 0x61, 0x6d, 0x69, 0x6e, 0x6f, 0x2f, 0x61, 0x6d, 0x69, 0x6e, 0x6f],
     [0x2e, 0x70, 0x72, 0x6f, 0x74, 0x6f, 0x1a, 0x14, 0x67, 0x6f, 0x67, 0x6f, 0x70, 0x72, 0x6f, 0x74],
     [0x6f, 0x2f, 0x67, 0x6f, 0x67, 0x6f, 0x2e, 0x70, 0x72, 0x6f, 0x74, 0x6f, 0x22, 0x35, 0x0a, 0x06],
     [0x50, 0x61, 0x72, 0x61, 0x6d, 0x73, 0x3a, 0x2b, 0xe8, 0xa0, 0x1f, 0x01, 0x8a, 0xe7, 0xb0, 0x2a],
     [0x22, 0x6d, 0x65, 0x64, 0x61, 0x73, 0x64, 0x69, 0x67, 0x69, 0x74, 0x61, 0x6c, 0x2f, 0x78, 0x2f],
     [0x6d, 0x65, 0x64, 0x61, 0x73, 0x64, 0x69, 0x67, 0x69, 0x74, 0x61, 0x6c, 0x2f, 0x50, 0x61, 0x72],
     [0x61, 0x6d, 0x73, 0x42, 0xdd, 0x01, 0x0a, 0x1d, 0x63, 0x6f, 0x6d, 0x2e, 0x6d, 0x65, 0x64, 0x61],
     [0x73, 0x64, 0x69, 0x67, 0x69, 0x74, 0x61, 0x6c, 0x2e, 0x6d, 0x65, 0x64, 0x61, 0x73, 0x64, 0x69],
     [0x67, 0x69, 0x74, 0x61, 0x6c, 0x42, 0x0b, 0x50, 0x61, 0x72, 0x61, 0x6d, 0x73, 0x50, 0x72, 0x6f],
     [0x74, 0x6f, 0x50, 0x01, 0x5a, 0x2a, 0x6d, 0x65, 0x64, 0x61, 0x73, 0x64, 0x69, 0x67, 0x69, 0x74],
     [0x61, 0x6c, 0x2f, 0x61, 0x70, 0x69, 0x2f, 0x6d, 0x65, 0x64, 0x61, 0x73, 0x64, 0x69, 0x67, 0x69],
     [0x74, 0x61, 0x6c, 0x2f, 0x6d, 0x65, 0x64, 0x61, 0x73, 0x64, 0x69, 0x67, 0x69, 0x74, 0x61, 0x6c],
     [0xa2, 0x02, 0x03, 0x4d, 0x4d, 0x58, 0xaa, 0x02, 0x19, 0x4d, 0x65, 0x64, 0x61, 0x73, 0x64, 0x69],
     [0x67, 0x69, 0x74, 0x61, 0x6c, 0x2e, 0x4d, 0x65, 0x64, 0x61, 0x73, 0x64, 0x69, 0x67, 0x69, 0x74],
     [0x61, 0x6c, 0xca, 0x02, 0x19, 0x4d, 0x65, 0x64, 0x61, 0x73, 0x64, 0x69, 0x67, 0x69, 0x74, 0x61],
     [0x6c, 0x5c, 0x4d, 0x65, 0x64, 0x61, 0x73, 0x64, 0x69, 0x67, 0x69, 0x74, 0x61, 0x6c, 0xe2, 0x02],
     [0x25, 0x4d, 0x65, 0x64, 0x61, 0x73, 0x64, 0x69, 0x67, 0x69, 0x74, 0x61, 0x6c, 0x5c, 0x4d, 0x65],
     [0x64, 0x61, 0x73, 0x64, 0x69, 0x67, 0x69, 0x74, 0x61, 0x6c, 0x5c, 0x47, 0x50, 0x42, 0x4d, 0x65],
     [0x74, 0x61, 0x64, 0x61, 0x74, 0x61, 0xea, 0x02, 0x1a, 0x4d, 0x65, 0x64, 0x61, 0x73, 0x64, 0x69],
     [0x67, 0x69, 0x74, 0x61, 0x6c, 0x3a, 0x3a, 0x4d, 0x65, 0x64, 0x61, 0x73, 0x64, 0x69, 0x67, 0x69],
     [0x74, 0x61, 0x6c, 0x62, 0x06, 0x70, 0x72, 0x6f, 0x74, 0x6f, 0x33]]"

definition medasdigital_genesis_rawDesc :: bytes where
  "medasdigital_genesis_rawDesc = concat
    [[0x0a, 0x27, 0x6d, 0x65, 0x64, 0x61, 0x73, 0x64, 0x69, 0x67, 0x69, 0x74, 0x61, 0x6c, 0x2f, 0x6d],
     [0x65, 0x64, 0x61, 0x73, 0x64, 0x69, 0x67, 0x69, 0x74, 0x61, 0x6c, 0x2f, 0x67, 0x65, 0x6e, 0x65],
     [0x73, 0x69, 0x73, 0x2e, 0x70, 0x72, 0x6f, 0x74, 0x6f, 0x12, 0x19, 0x6d, 0x65, 0x64, 0x61, 0x73],
     [0x64, 0x69, 0x67, 0x69, 0x74, 0x61, 0x6c, 0x2e, 0x6d, 0x65, 0x64, 0x61, 0x73, 0x64, 0x69, 0x67],
     [0x69, 0x74, 0x61, 0x6c, 0x1a, 0x11, 0x61, 0x6d, 0x69, 0x6e, 0x6f, 0x2f, 0x61, 0x6d, 0x69, 0x6e],
     [0x6f, 0x2e, 0x70, 0x72, 0x6f, 0x74, 0x6f, 0x1a, 0x14, 0x67, 0x6f, 0x67, 0x6f, 0x70, 0x72, 0x6f],
     [0x74, 0x6f, 0x2f, 0x67, 0x6f, 0x67, 0x6f, 0x2e, 0x70, 0x72, 0x6f, 0x74, 0x6f, 0x1a, 0x26, 0x6d],
     [0x65, 0x64, 0x61, 0x73, 0x64, 0x69, 0x67, 0x69, 0x74, 0x61, 0x6c, 0x2f, 0x6d, 0x65, 0x64, 0x61],
     [0x73, 0x64, 0x69, 0x67, 0x69, 0x74, 0x61, 0x6c, 0x2f, 0x70, 0x61, 0x72, 0x61, 0x6d, 0x73, 0x2e],
     [0x70, 0x72, 0x6f, 0x74, 0x6f, 0x22, 0x54, 0x0a, 0x0c, 0x47, 0x65, 0x6e, 0x65, 0x73, 0x69, 0x73],
     [0x53, 0x74, 0x61, 0x74, 0x65, 0x12, 0x44, 0x0a, 0x06, 0x70, 0x61, 0x72, 0x61, 0x6d, 0x73, 0x18],
     [0x01, 0x20, 0x01, 0x28, 0x0b, 0x32, 0x21, 0x2e, 0x6d, 0x65, 0x64, 0x61, 0x73, 0x64, 0x69, 0x67],
     [0x69, 0x74, 0x61, 0x6c, 0x2e, 0x6d, 0x65, 0x64, 0x61, 0x73, 0x64, 0x69, 0x67, 0x69, 0x74, 0x61],
     [0x6c, 0x2e, 0x50, 0x61, 0x72, 0x61, 0x6d, 0x73, 0x42, 0x09, 0xc8, 0xde, 0x1f, 0x00, 0xa8, 0xe7],
     [0xb0, 0x2a, 0x01, 0x52, 0x06, 0x70, 0x61, 0x72, 0x61, 0x6d, 0x73, 0x42, 0xde, 0x01, 0x0a, 0x1d],
     [0x63, 0x6f, 0x6d, 0x2e, 0x6d, 0x65, 0x64, 0x61, 0x73, 0x64, 0x69, 0x67, 0x69, 0x74, 0x61, 0x6c],
     [0x2e, 0x6d, 0x65, 0x64, 0x61, 0x73, 0x64, 0x69, 0x67, 0x69, 0x74, 0x61, 0x6c, 0x42, 0x0c, 0x47],
     [0x65, 0x6e, 0x65, 0x73, 0x69, 0x73, 0x50, 0x72, 0x6f, 0x74, 0x6f, 0x50, 0x01, 0x5a, 0x2a, 0x6d],
     [0x65, 0x64, 0x61, 0x73, 0x64, 0x69, 0x67, 0x69, 0x74, 0x61, 0x6c, 0x2f, 0x61, 0x70, 0x69, 0x2f],
     [0x6d, 0x65, 0x64, 0x61, 0x73, 0x64, 0x69, 0x67, 0x69, 0x74, 0x61, 0x6c, 0x2f, 0x6d, 0x65, 0x64],
     [0x61, 0x73, 0x64, 0x69, 0x67, 0x69, 0x74, 0x61, 0x6c, 0xa2, 0x02, 0x03, 0x4d, 0x4d, 0x58, 0xaa],
     [0x02, 0x19, 0x4d, 0x65, 0x64, 0x61, 0x73, 0x64, 0x69, 0x67, 0x69, 0x74, 0x61, 0x6c, 0x2e, 0x4d],
     [0x65, 0x64, 0x61, 0x73, 0x64, 0x69, 0x67, 0x69, 0x74, 0x61, 0x6c, 0xca, 0x02, 0x19, 0x4d, 0x65],
     [0x64, 0x61, 0x73, 0x64, 0x69, 0x67, 0x69, 0x74, 0x61, 0x6c, 0x5c, 0x4d, 0x65, 0x64, 0x61, 0x73],
     [0x64, 0x69, 0x67, 0x69, 0x74, 0x61, 0x6c, 0xe2, 0x02, 0x25, 0x4d, 0x65, 0x64, 0x61, 0x73, 0x64],
     [0x69, 0x67, 0x69, 0x74, 0x61, 0x6c, 0x5c, 0x4d, 0x65, 0x64, 0x61, 0x73, 0x64, 0x69, 0x67, 0x69],
     [0x74, 0x61, 0x6c, 0x5c, 0x47, 0x50, 0x42, 0x4d, 0x65, 0x74, 0x61, 0x64, 0x61, 0x74, 0x61, 0xea],
     [0x02, 0x1a, 0x4d, 0x65, 0x64, 0x61, 0x73, 0x64, 0x69, 0x67, 0x69, 0x74, 0x61, 0x6c, 0x3a, 0x3a],
     [0x4d, 0x65, 0x64, 0x61, 0x73, 0x64, 0x69, 0x67, 0x69, 0x74, 0x61, 0x6c, 0x62, 0x06, 0x70, 0x72],
     [0x6f, 0x74, 0x6f, 0x33]]"

definition medasdigital_tx_rawDesc :: bytes where
  "medasdigital_tx_rawDesc = concat
    [[0x0a, 0x22, 0x6d, 0x65, 0x64, 0x61, 0x73, 0x64, 0x69, 0x67, 0x69, 0x74, 0x61, 0x6c, 0x2f, 0x6d],
     [0x65, 0x64, 0x61, 0x73, 0x64, 0x69, 0x67, 0x69, 0x74, 0x61, 0x6c, 0x2f, 0x74, 0x78, 0x2e, 0x70],
     [0x72, 0x6f, 0x74, 0x6f, 0x12, 0x19, 0x6d, 0x65, 0x64, 0x61, 0x73, 0x64, 0x69, 0x67, 0x69, 0x74],
     [0x61, 0x6c, 0x2e, 0x6d, 0x65, 0x64, 0x61, 0x73, 0x64, 0x69, 0x67, 0x69, 0x74, 0x61, 0x6c, 0x1a],
     [0x11, 0x61, 0x6d, 0x69, 0x6e, 0x6f, 0x2f, 0x61, 0x6d, 0x69, 0x6e, 0x6f, 0x2e, 0x70, 0x72, 0x6f],
     [0x74, 0x6f, 0x1a, 0x17, 0x63, 0x6f, 0x73, 0x6d, 0x6f, 0x73, 0x2f, 0x6d, 0x73, 0x67, 0x2f, 0x76],
     [0x31, 0x2f, 0x6d, 0x73, 0x67, 0x2e, 0x70, 0x72, 0x6f, 0x74, 0x6f, 0x1a, 0x19, 0x63, 0x6f, 0x73],
     [0x6d, 0x6f, 0x73, 0x5f, 0x70, 0x72, 0x6f, 0x74, 0x6f, 0x2f, 0x63, 0x6f, 0x73, 0x6d, 0x6f, 0x73],
     [0x2e, 0x70, 0x72, 0x6f, 0x74, 0x6f, 0x1a, 0x14, 0x67, 0x6f, 0x67, 0x6f, 0x70, 0x72, 0x6f, 0x74],
     [0x6f, 0x2f, 0x67, 0x6f, 0x67, 0x6f, 0x2e, 0x70, 0x72, 0x6f, 0x74, 0x6f, 0x1a, 0x26, 0x6d, 0x65],
     [0x64, 0x61, 0x73, 0x64, 0x69, 0x67, 0x69, 0x74, 0x61, 0x6c, 0x2f, 0x6d, 0x65, 0x64, 0x61, 0x73],
     [0x64, 0x69, 0x67, 0x69, 0x74, 0x61, 0x6c, 0x2f, 0x70, 0x61, 0x72, 0x61, 0x6d, 0x73, 0x2e, 0x70],
     [0x72, 0x6f, 0x74, 0x6f, 0x22, 0xcf, 0x01, 0x0a, 0x0f, 0x4d, 0x73, 0x67, 0x55, 0x70, 0x64, 0x61],
     [0x74, 0x65, 0x50, 0x61, 0x72, 0x61, 0x6d, 0x73, 0x12, 0x36, 0x0a, 0x09, 0x61, 0x75, 0x74, 0x68],
     [0x6f, 0x72, 0x69, 0x74, 0x79, 0x18, 0x01, 0x20, 0x01, 0x28, 0x09, 0x42, 0x18, 0xd2, 0xb4, 0x2d],
     [0x14, 0x63, 0x6f, 0x73, 0x6d, 0x6f, 0x73, 0x2e, 0x41, 0x64, 0x64, 0x72, 0x65, 0x73, 0x73, 0x53],
     [0x74, 0x72, 0x69, 0x6e, 0x67, 0x52, 0x09, 0x61, 0x75, 0x74, 0x68, 0x6f, 0x72, 0x69, 0x74, 0x79],
     [0x12, 0x44, 0x0a, 0x06, 0x70, 0x61, 0x72, 0x61, 0x6d, 0x73, 0x18, 0x02, 0x20, 0x01, 0x28, 0x0b],
     [0x32, 0x21, 0x2e, 0x6d, 0x65, 0x64, 0x61, 0x73, 0x64, 0x69, 0x67, 0x69, 0x74, 0x61, 0x6c, 0x2e],
     [0x6d, 0x65, 0x64, 0x61, 0x73, 0x64, 0x69, 0x67, 0x69, 0x74, 0x61, 0x6c, 0x2e, 0x50, 0x61, 0x72],
     [0x61, 0x6d, 0x73, 0x42, 0x09, 0xc8, 0xde, 0x1f, 0x00, 0xa8, 0xe7, 0xb0, 0x2a, 0x01, 0x52, 0x06],
     [0x70, 0x61, 0x72, 0x61, 0x6d, 0x73, 0x3a, 0x3e, 0x82, 0xe7, 0xb0, 0x2a, 0x09, 0x61, 0x75, 0x74],
     [0x68, 0x6f, 0x72, 0x69, 0x74, 0x79, 0x8a, 0xe7, 0xb0, 0x2a, 0x2b, 0x6d, 0x65, 0x64, 0x61, 0x73],
     [0x64, 0x69, 0x67, 0x69, 0x74, 0x61, 0x6c, 0x2f, 0x78, 0x2f, 0x6d, 0x65, 0x64, 0x61, 0x73, 0x64],
     [0x69, 0x67, 0x69, 0x74, 0x61, 0x6c, 0x2f, 0x4d, 0x73, 0x67, 0x55, 0x70, 0x64, 0x61, 0x74, 0x65],
     [0x50, 0x61, 0x72, 0x61, 0x6d, 0x73, 0x22, 0x19, 0x0a, 0x17, 0x4d, 0x73, 0x67, 0x55, 0x70, 0x64],
     [0x61, 0x74, 0x65, 0x50, 0x61, 0x72, 0x61, 0x6d, 0x73, 0x52, 0x65, 0x73, 0x70, 0x6f, 0x6e, 0x73],
     [0x65, 0x32, 0x7c, 0x0a, 0x03, 0x4d, 0x73, 0x67, 0x12, 0x6e, 0x0a, 0x0c, 0x55, 0x70, 0x64, 0x61],
     [0x74, 0x65, 0x50, 0x61, 0x72, 0x61, 0x6d, 0x73, 0x12, 0x2a, 0x2e, 0x6d, 0x65, 0x64, 0x61, 0x73],
     [0x64, 0x69, 0x67, 0x69, 0x74, 0x61, 0x6c, 0x2e, 0x6d, 0x65, 0x64, 0x61, 0x73, 0x64, 0x69, 0x67],
     [0x69, 0x74, 0x61, 0x6c, 0x2e, 0x4d, 0x73, 0x67, 0x55, 0x70, 0x64, 0x61, 0x74, 0x65, 0x50, 0x61],
     [0x72, 0x61, 0x6d, 0x73, 0x1a, 0x32, 0x2e, 0x6d, 0x65, 0x64, 0x61, 0x73, 0x64, 0x69, 0x67, 0x69],
     [0x74, 0x61, 0x6c, 0x2e, 0x6d, 0x65, 0x64, 0x61, 0x73, 0x64, 0x69, 0x67, 0x69, 0x74, 0x61, 0x6c],
     [0x2e, 0x4d, 0x73, 0x67, 0x55, 0x70, 0x64, 0x61, 0x74, 0x65, 0x50, 0x61, 0x72, 0x61, 0x6d, 0x73],
     [0x52, 0x65, 0x73, 0x70, 0x6f, 0x6e, 0x73, 0x65, 0x1a, 0x05, 0x80, 0xe7, 0xb0, 0x2a, 0x01, 0x42],
     [0xd9, 0x01, 0x0a, 0x1d, 0x63, 0x6f, 0x6d, 0x2e, 0x6d, 0x65, 0x64, 0x61, 0x73, 0x64, 0x69, 0x67],
     [0x69, 0x74, 0x61, 0x6c, 0x2e, 0x6d, 0x65, 0x64, 0x61, 0x73, 0x64, 0x69, 0x67, 0x69, 0x74, 0x61],
     [0x6c, 0x42, 0x07, 0x54, 0x78, 0x50, 0x72, 0x6f, 0x74, 0x6f, 0x50, 0x01, 0x5a, 0x2a, 0x6d, 0x65],
     [0x64, 0x61, 0x73, 0x64, 0x69, 0x67, 0x69, 0x74, 0x61, 0x6c, 0x2f, 0x61, 0x70, 0x69, 0x2f, 0x6d],
     [0x65, 0x64, 0x61, 0x73, 0x64, 0x69, 0x67, 0x69, 0x74, 0x61, 0x6c, 0x2f, 0x6d, 0x65, 0x64, 0x61],
     [0x73, 0x64, 0x69, 0x67, 0x69, 0x74, 0x61, 0x6c, 0xa2, 0x02, 0x03, 0x4d, 0x4d, 0x58, 0xaa, 0x02],
     [0x19, 0x4d, 0x65, 0x64, 0x61, 0x73, 0x64, 0x69, 0x67, 0x69, 0x74, 0x61, 0x6c, 0x2e, 0x4d, 0x65],
     [0x64, 0x61, 0x73, 0x64, 0x69, 0x67, 0x69, 0x74, 0x61, 0x6c, 0xca, 0x02, 0x19, 0x4d, 0x65, 0x64],
     [0x61, 0x73, 0x64, 0x69, 0x67, 0x69, 0x74, 0x61, 0x6c, 0x5c, 0x4d, 0x65, 0x64, 0x61, 0x73, 0x64],
     [0x69, 0x67, 0x69, 0x74, 0x61, 0x6c, 0xe2, 0x02, 0x25, 0x4d, 0x65, 0x64, 0x61, 0x73, 0x64, 0x69],
     [0x67, 0x69, 0x74, 0x61, 0x6c, 0x5c, 0x4d, 0x65, 0x64, 0x61, 0x73, 0x64, 0x69, 0x67, 0x69, 0x74],
     [0x61, 0x6c, 0x5c, 0x47, 0x50, 0x42, 0x4d, 0x65, 0x74, 0x61, 0x64, 0x61, 0x74, 0x61, 0xea, 0x02],
     [0x1a, 0x4d, 0x65, 0x64, 0x61, 0x73, 0x64, 0x69, 0x67, 0x69, 0x74, 0x61, 0x6c, 0x3a, 0x3a, 0x4d],
     [0x65, 0x64, 0x61, 0x73, 0x64, 0x69, 0x67, 0x69, 0x74, 0x61, 0x6c, 0x62, 0x06, 0x70, 0x72, 0x6f],
     [0x74, 0x6f, 0x33]]"

definition medasdigital_query_rawDesc :: bytes where
  "medasdigital_query_rawDesc = concat
    [[0x0a, 0x25, 0x6d, 0x65, 0x64, 0x61, 0x73, 0x64, 0x69, 0x67, 0x69, 0x74, 0x61, 0x6c, 0x2f, 0x6d],
     [0x65, 0x64, 0x61, 0x73, 0x64, 0x69, 0x67, 0x69, 0x74, 0x61, 0x6c, 0x2f, 0x71, 0x75, 0x65, 0x72],
     [0x79, 0x2e, 0x70, 0x72, 0x6f, 0x74, 0x6f, 0x12, 0x19, 0x6d, 0x65, 0x64, 0x61, 0x73, 0x64, 0x69],
     [0x67, 0x69, 0x74, 0x61, 0x6c, 0x2e, 0x6d, 0x65, 0x64, 0x61, 0x73, 0x64, 0x69, 0x67, 0x69, 0x74],
     [0x61, 0x6c, 0x1a, 0x11, 0x61, 0x6d, 0x69, 0x6e, 0x6f, 0x2f, 0x61, 0x6d, 0x69, 0x6e, 0x6f, 0x2e],
     [0x70, 0x72, 0x6f, 0x74, 0x6f, 0x1a, 0x14, 0x67, 0x6f, 0x67, 0x6f, 0x70, 0x72, 0x6f, 0x74, 0x6f],
     [0x2f, 0x67, 0x6f, 0x67, 0x6f, 0x2e, 0x70, 0x72, 0x6f, 0x74, 0x6f, 0x1a, 0x1c, 0x67, 0x6f, 0x6f],
     [0x67, 0x6c, 0x65, 0x2f, 0x61, 0x70, 0x69, 0x2f, 0x61, 0x6e, 0x6e, 0x6f, 0x74, 0x61, 0x74, 0x69],
     [0x6f, 0x6e, 0x73, 0x2e, 0x70, 0x72, 0x6f, 0x74, 0x6f, 0x1a, 0x2a, 0x63, 0x6f, 0x73, 0x6d, 0x6f],
     [0x73, 0x2f, 0x62, 0x61, 0x73, 0x65, 0x2f, 0x71, 0x75, 0x65, 0x72, 0x79, 0x2f, 0x76, 0x31, 0x62],
     [0x65, 0x74, 0x61, 0x31, 0x2f, 0x70, 0x61, 0x67, 0x69, 0x6e, 0x61, 0x74, 0x69, 0x6f, 0x6e, 0x2e],
     [0x70, 0x72, 0x6f, 0x74, 0x6f, 0x1a, 0x26, 0x6d, 0x65, 0x64, 0x61, 0x73, 0x64, 0x69, 0x67, 0x69],
     [0x74, 0x61, 0x6c, 0x2f, 0x6d, 0x65, 0x64, 0x61, 0x73, 0x64, 0x69, 0x67, 0x69, 0x74, 0x61, 0x6c],
     [0x2f, 0x70, 0x61, 0x72, 0x61, 0x6d, 0x73, 0x2e, 0x70, 0x72, 0x6f, 0x74, 0x6f, 0x22, 0x14, 0x0a],
     [0x12, 0x51, 0x75, 0x65, 0x72, 0x79, 0x50, 0x61, 0x72, 0x61, 0x6d, 0x73, 0x52, 0x65, 0x71, 0x75],
     [0x65, 0x73, 0x74, 0x22, 0x5b, 0x0a, 0x13, 0x51, 0x75, 0x65, 0x72, 0x79, 0x50, 0x61, 0x72, 0x61],
     [0x6d, 0x73, 0x52, 0x65, 0x73, 0x70, 0x6f, 0x6e, 0x73, 0x65, 0x12, 0x44, 0x0a, 0x06, 0x70, 0x61],
     [0x72, 0x61, 0x6d, 0x73, 0x18, 0x01, 0x20, 0x01, 0x28, 0x0b, 0x32, 0x21, 0x2e, 0x6d, 0x65, 0x64],
     [0x61, 0x73, 0x64, 0x69, 0x67, 0x69, 0x74, 0x61, 0x6c, 0x2e, 0x6d, 0x65, 0x64, 0x61, 0x73, 0x64],
     [0x69, 0x67, 0x69, 0x74, 0x61, 0x6c, 0x2e, 0x50, 0x61, 0x72, 0x61, 0x6d, 0x73, 0x42, 0x09, 0xc8],
     [0xde, 0x1f, 0x00, 0xa8, 0xe7, 0xb0, 0x2a, 0x01, 0x52, 0x06, 0x70, 0x61, 0x72, 0x61, 0x6d, 0x73],
     [0x32, 0x9c, 0x01, 0x0a, 0x05, 0x51, 0x75, 0x65, 0x72, 0x79, 0x12, 0x92, 0x01, 0x0a, 0x06, 0x50],
     [0x61, 0x72, 0x61, 0x6d, 0x73, 0x12, 0x2d, 0x2e, 0x6d, 0x65, 0x64, 0x61, 0x73, 0x64, 0x69, 0x67],
     [0x69, 0x74, 0x61, 0x6c, 0x2e, 0x6d, 0x65, 0x64, 0x61, 0x73, 0x64, 0x69, 0x67, 0x69, 0x74, 0x61],
     [0x6c, 0x2e, 0x51, 0x75, 0x65, 0x72, 0x79, 0x50, 0x61, 0x72, 0x61, 0x6d, 0x73, 0x52, 0x65, 0x71],
     [0x75, 0x65, 0x73, 0x74, 0x1a, 0x2e, 0x2e, 0x6d, 0x65, 0x64, 0x61, 0x73, 0x64, 0x69, 0x67, 0x69],
     [0x74, 0x61, 0x6c, 0x2e, 0x6d, 0x65, 0x64, 0x61, 0x73, 0x64, 0x69, 0x67, 0x69, 0x74, 0x61, 0x6c],
     [0x2e, 0x51, 0x75, 0x65, 0x72, 0x79, 0x50, 0x61, 0x72, 0x61, 0x6d, 0x73, 0x52, 0x65, 0x73, 0x70],
     [0x6f, 0x6e, 0x73, 0x65, 0x22, 0x29, 0x82, 0xd3, 0xe4, 0x93, 0x02, 0x23, 0x12, 0x21, 0x2f, 0x6d],
     [0x65, 0x64, 0x61, 0x73, 0x64, 0x69, 0x67, 0x69, 0x74, 0x61, 0x6c, 0x2f, 0x6d, 0x65, 0x64, 0x61],
     [0x73, 0x64, 0x69, 0x67, 0x69, 0x74, 0x61, 0x6c, 0x2f, 0x70, 0x61, 0x72, 0x61, 0x6d, 0x73, 0x42],
     [0xdc, 0x01, 0x0a, 0x1d, 0x63, 0x6f, 0x6d, 0x2e, 0x6d, 0x65, 0x64, 0x61, 0x73, 0x64, 0x69, 0x67],
     [0x69, 0x74, 0x61, 0x6c, 0x2e, 0x6d, 0x65, 0x64, 0x61, 0x73, 0x64, 0x69, 0x67, 0x69, 0x74, 0x61],
     [0x6c, 0x42, 0x0a, 0x51, 0x75, 0x65, 0x72, 0x79, 0x50, 0x72, 0x6f, 0x74, 0x6f, 0x50, 0x01, 0x5a],
     [0x2a, 0x6d, 0x65, 0x64, 0x61, 0x73, 0x64, 0x69, 0x67, 0x69, 0x74, 0x61, 0x6c, 0x2f, 0x61, 0x70],
     [0x69, 0x2f, 0x6d, 0x65, 0x64, 0x61, 0x73, 0x64, 0x69, 0x67, 0x69, 0x74, 0x61, 0x6c, 0x2f, 0x6d],
     [0x65, 0x64, 0x61, 0x73, 0x64, 0x69, 0x67, 0x69, 0x74, 0x61, 0x6c, 0xa2, 0x02, 0x03, 0x4d, 0x4d],
     [0x58, 0xaa, 0x02, 0x19, 0x4d, 0x65, 0x64, 0x61, 0x73, 0x64, 0x69, 0x67, 0x69, 0x74, 0x61, 0x6c],
     [0x2e, 0x4d, 0x65, 0x64, 0x61, 0x73, 0x64, 0x69, 0x67, 0x69, 0x74, 0x61, 0x6c, 0xca, 0x02, 0x19],
     [0x4d, 0x65, 0x64, 0x61, 0x73, 0x64, 0x69, 0x67, 0x69, 0x74, 0x61, 0x6c, 0x5c, 0x4d, 0x65, 0x64],
     [0x61, 0x73, 0x64, 0x69, 0x67, 0x69, 0x74, 0x61, 0x6c, 0xe2, 0x02, 0x25, 0x4d, 0x65, 0x64, 0x61],
     [0x73, 0x64, 0x69, 0x67, 0x69, 0x74, 0x61, 0x6c, 0x5c, 0x4d, 0x65, 0x64, 0x61, 0x73, 0x64, 0x69],
     [0x67, 0x69, 0x74, 0x61, 0x6c, 0x5c, 0x47, 0x50, 0x42, 0x4d, 0x65, 0x74, 0x61, 0x64, 0x61, 0x74],
     [0x61, 0xea, 0x02, 0x1a, 0x4d, 0x65, 0x64, 0x61, 0x73, 0x64, 0x69, 0x67, 0x69, 0x74, 0x61, 0x6c],
     [0x3a, 0x3a, 0x4d, 0x65, 0x64, 0x61, 0x73, 0x64, 0x69, 0x67, 0x69, 0x74, 0x61, 0x6c, 0x62, 0x06],
     [0x70, 0x72, 0x6f, 0x74, 0x6f, 0x33]]"

definition medasdigital_module_rawDesc :: bytes where
  "medasdigital_module_rawDesc = concat
    [[0x0a, 0x2d, 0x6d, 0x65, 0x64, 0x61, 0x73, 0x64, 0x69, 0x67, 0x69, 0x74, 0x61, 0x6c, 0x2f, 0x6d],
     [0x65, 0x64, 0x61, 0x73, 0x64, 0x69, 0x67, 0x69, 0x74, 0x61, 0x6c, 0x2f, 0x6d, 0x6f, 0x64, 0x75],
     [0x6c, 0x65, 0x2f, 0x6d, 0x6f, 0x64, 0x75, 0x6c, 0x65, 0x2e, 0x70, 0x72, 0x6f, 0x74, 0x6f, 0x12],
     [0x20, 0x6d, 0x65, 0x64, 0x61, 0x73, 0x64, 0x69, 0x67, 0x69, 0x74, 0x61, 0x6c, 0x2e, 0x6d, 0x65],
     [0x64, 0x61, 0x73, 0x64, 0x69, 0x67, 0x69, 0x74, 0x61, 0x6c, 0x2e, 0x6d, 0x6f, 0x64, 0x75, 0x6c],
     [0x65, 0x1a, 0x20, 0x63, 0x6f, 0x73, 0x6d, 0x6f, 0x73, 0x2f, 0x61, 0x70, 0x70, 0x2f, 0x76, 0x31],
     [0x61, 0x6c, 0x70, 0x68, 0x61, 0x31, 0x2f, 0x6d, 0x6f, 0x64, 0x75, 0x6c, 0x65, 0x2e, 0x70, 0x72],
     [0x6f, 0x74, 0x6f, 0x22, 0x4b, 0x0a, 0x06, 0x4d, 0x6f, 0x64, 0x75, 0x6c, 0x65, 0x12, 0x1c, 0x0a],
     [0x09, 0x61, 0x75, 0x74, 0x68, 0x6f, 0x72, 0x69, 0x74, 0x79, 0x18, 0x01, 0x20, 0x01, 0x28, 0x09],
     [0x52, 0x09, 0x61, 0x75, 0x74, 0x68, 0x6f, 0x72, 0x69, 0x74, 0x79, 0x3a, 0x23, 0xba, 0xc0, 0x96],
     [0xda, 0x01, 0x1d, 0x0a, 0x1b, 0x6d, 0x65, 0x64, 0x61, 0x73, 0x64, 0x69, 0x67, 0x69, 0x74, 0x61],
     [0x6c, 0x2f, 0x78, 0x2f, 0x6d, 0x65, 0x64, 0x61, 0x73, 0x64, 0x69, 0x67, 0x69, 0x74, 0x61, 0x6c],
     [0x42, 0x88, 0x02, 0x0a, 0x24, 0x63, 0x6f, 0x6d, 0x2e, 0x6d, 0x65, 0x64, 0x61, 0x73, 0x64, 0x69],
     [0x67, 0x69, 0x74, 0x61, 0x6c, 0x2e, 0x6d, 0x65, 0x64, 0x61, 0x73, 0x64, 0x69, 0x67, 0x69, 0x74],
     [0x61, 0x6c, 0x2e, 0x6d, 0x6f, 0x64, 0x75, 0x6c, 0x65, 0x42, 0x0b, 0x4d, 0x6f, 0x64, 0x75, 0x6c],
     [0x65, 0x50, 0x72, 0x6f, 0x74, 0x6f, 0x50, 0x01, 0x5a, 0x31, 0x6d, 0x65, 0x64, 0x61, 0x73, 0x64],
     [0x69, 0x67, 0x69, 0x74, 0x61, 0x6c, 0x2f, 0x61, 0x70, 0x69, 0x2f, 0x6d, 0x65, 0x64, 0x61, 0x73],
     [0x64, 0x69, 0x67, 0x69, 0x74, 0x61, 0x6c, 0x2f, 0x6d, 0x65, 0x64, 0x61, 0x73, 0x64, 0x69, 0x67],
     [0x69, 0x74, 0x61, 0x6c, 0x2f, 0x6d, 0x6f, 0x64, 0x75, 0x6c, 0x65, 0xa2, 0x02, 0x03, 0x4d, 0x4d],
     [0x4d, 0xaa, 0x02, 0x20, 0x4d, 0x65, 0x64, 0x61, 0x73, 0x64, 0x69, 0x67, 0x69, 0x74, 0x61, 0x6c],
     [0x2e, 0x4d, 0x65, 0x64, 0x61, 0x73, 0x64, 0x69, 0x67, 0x69, 0x74, 0x61, 0x6c, 0x2e, 0x4d, 0x6f],
     [0x64, 0x75, 0x6c, 0x65, 0xca, 0x02, 0x20, 0x4d, 0x65, 0x64, 0x61, 0x73, 0x64, 0x69, 0x67, 0x69],
     [0x74, 0x61, 0x6c, 0x5c, 0x4d, 0x65, 0x64, 0x61, 0x73, 0x64, 0x69, 0x67, 0x69, 0x74, 0x61, 0x6c],
     [0x5c, 0x4d, 0x6f, 0x64, 0x75, 0x6c, 0x65, 0xe2, 0x02, 0x2c, 0x4d, 0x65, 0x64, 0x61, 0x73, 0x64],
     [0x69, 0x67, 0x69, 0x74, 0x61, 0x6c, 0x5c, 0x4d, 0x65, 0x64, 0x61, 0x73, 0x64, 0x69, 0x67, 0x69],
     [0x74, 0x61, 0x6c, 0x5c, 0x4d, 0x6f, 0x64, 0x75, 0x6c, 0x65, 0x5c, 0x47, 0x50, 0x42, 0x4d, 0x65],
     [0x74, 0x61, 0x64, 0x61, 0x74, 0x61, 0xea, 0x02, 0x22, 0x4d, 0x65, 0x64, 0x61, 0x73, 0x64, 0x69],
     [0x67, 0x69, 0x74, 0x61, 0x6c, 0x3a, 0x3a, 0x4d, 0x65, 0x64, 0x61, 0x73, 0x64, 0x69, 0x67, 0x69],
     [0x74, 0x61, 0x6c, 0x3a, 0x3a, 0x4d, 0x6f, 0x64, 0x75, 0x6c, 0x65, 0x62, 0x06, 0x70, 0x72, 0x6f],
     [0x74, 0x6f, 0x33]]"

section \<open>Their bytes\<close>

text \<open>The fields, the messages and the services, then the files.\<close>

lemma medasdigital_field_bytes:
  "field_descriptor_bytes (proto_field (TMessage ''medasdigital.medasdigital.Params'') ''params'' 1 [gogoproto_nullable False, amino_dont_omitempty True]) =
    [0x0a, 0x06, 0x70, 0x61, 0x72, 0x61, 0x6d, 0x73, 0x18, 0x01, 0x20, 0x01, 0x28, 0x0b, 0x32, 0x21,
     0x2e, 0x6d, 0x65, 0x64, 0x61, 0x73, 0x64, 0x69, 0x67, 0x69, 0x74, 0x61, 0x6c, 0x2e, 0x6d, 0x65,
     0x64, 0x61, 0x73, 0x64, 0x69, 0x67, 0x69, 0x74, 0x61, 0x6c, 0x2e, 0x50, 0x61, 0x72, 0x61, 0x6d,
     0x73, 0x42, 0x09, 0xc8, 0xde, 0x1f, 0x00, 0xa8, 0xe7, 0xb0, 0x2a, 0x01, 0x52, 0x06, 0x70, 0x61,
     0x72, 0x61, 0x6d, 0x73]"
  "field_descriptor_bytes (proto_field TString ''authority'' 1 [cosmos_proto_scalar ''cosmos.AddressString'']) =
    [0x0a, 0x09, 0x61, 0x75, 0x74, 0x68, 0x6f, 0x72, 0x69, 0x74, 0x79, 0x18, 0x01, 0x20, 0x01, 0x28,
     0x09, 0x42, 0x18, 0xd2, 0xb4, 0x2d, 0x14, 0x63, 0x6f, 0x73, 0x6d, 0x6f, 0x73, 0x2e, 0x41, 0x64,
     0x64, 0x72, 0x65, 0x73, 0x73, 0x53, 0x74, 0x72, 0x69, 0x6e, 0x67, 0x52, 0x09, 0x61, 0x75, 0x74,
     0x68, 0x6f, 0x72, 0x69, 0x74, 0x79]"
  "field_descriptor_bytes (proto_field (TMessage ''medasdigital.medasdigital.Params'') ''params'' 2 [gogoproto_nullable False, amino_dont_omitempty True]) =
    [0x0a, 0x06, 0x70, 0x61, 0x72, 0x61, 0x6d, 0x73, 0x18, 0x02, 0x20, 0x01, 0x28, 0x0b, 0x32, 0x21,
     0x2e, 0x6d, 0x65, 0x64, 0x61, 0x73, 0x64, 0x69, 0x67, 0x69, 0x74, 0x61, 0x6c, 0x2e, 0x6d, 0x65,
     0x64, 0x61, 0x73, 0x64, 0x69, 0x67, 0x69, 0x74, 0x61, 0x6c, 0x2e, 0x50, 0x61, 0x72, 0x61, 0x6d,
     0x73, 0x42, 0x09, 0xc8, 0xde, 0x1f, 0x00, 0xa8, 0xe7, 0xb0, 0x2a, 0x01, 0x52, 0x06, 0x70, 0x61,
     0x72, 0x61, 0x6d, 0x73]"
  "field_descriptor_bytes (proto_field TString ''authority'' 1 []) =
    [0x0a, 0x09, 0x61, 0x75, 0x74, 0x68, 0x6f, 0x72, 0x69, 0x74, 0x79, 0x18, 0x01, 0x20, 0x01, 0x28,
     0x09, 0x52, 0x09, 0x61, 0x75, 0x74, 0x68, 0x6f, 0x72, 0x69, 0x74, 0x79]"
  by (simp_all add: field_bytes_eval del: enc_field.simps(3))

lemma medasdigital_proto_Params_bytes:
  "message_descriptor_bytes medasdigital_proto_Params =
    concat [[0x0a, 0x06, 0x50, 0x61, 0x72, 0x61, 0x6d, 0x73, 0x3a, 0x2b, 0xe8, 0xa0, 0x1f, 0x01, 0x8a, 0xe7],
     [0xb0, 0x2a, 0x22, 0x6d, 0x65, 0x64, 0x61, 0x73, 0x64, 0x69, 0x67, 0x69, 0x74, 0x61, 0x6c, 0x2f],
     [0x78, 0x2f, 0x6d, 0x65, 0x64, 0x61, 0x73, 0x64, 0x69, 0x67, 0x69, 0x74, 0x61, 0x6c, 0x2f, 0x50],
     [0x61, 0x72, 0x61, 0x6d, 0x73]]"
  by (simp only: medasdigital_proto_Params_def message_bytes list.map medasdigital_field_bytes) (simp add: message_bytes_eval del: enc_field.simps(3))

lemma medasdigital_proto_GenesisState_bytes:
  "message_descriptor_bytes medasdigital_proto_GenesisState =
    concat [[0x0a, 0x0c, 0x47, 0x65, 0x6e, 0x65, 0x73, 0x69, 0x73, 0x53, 0x74, 0x61, 0x74, 0x65, 0x12, 0x44],
     [0x0a, 0x06, 0x70, 0x61, 0x72, 0x61, 0x6d, 0x73, 0x18, 0x01, 0x20, 0x01, 0x28, 0x0b, 0x32, 0x21],
     [0x2e, 0x6d, 0x65, 0x64, 0x61, 0x73, 0x64, 0x69, 0x67, 0x69, 0x74, 0x61, 0x6c, 0x2e, 0x6d, 0x65],
     [0x64, 0x61, 0x73, 0x64, 0x69, 0x67, 0x69, 0x74, 0x61, 0x6c, 0x2e, 0x50, 0x61, 0x72, 0x61, 0x6d],
     [0x73, 0x42, 0x09, 0xc8, 0xde, 0x1f, 0x00, 0xa8, 0xe7, 0xb0, 0x2a, 0x01, 0x52, 0x06, 0x70, 0x61],
     [0x72, 0x61, 0x6d, 0x73]]"
  by (simp only: medasdigital_proto_GenesisState_def message_bytes list.map medasdigital_field_bytes) (simp add: message_bytes_eval del: enc_field.simps(3))

lemma medasdigital_proto_MsgUpdateParams_bytes:
  "message_descriptor_bytes medasdigital_proto_MsgUpdateParams =
    concat [[0x0a, 0x0f, 0x4d, 0x73, 0x67, 0x55, 0x70, 0x64, 0x61, 0x74, 0x65, 0x50, 0x61, 0x72, 0x61, 0x6d],
     [0x73, 0x12, 0x36, 0x0a, 0x09, 0x61, 0x75, 0x74, 0x68, 0x6f, 0x72, 0x69, 0x74, 0x79, 0x18, 0x01],
     [0x20, 0x01, 0x28, 0x09, 0x42, 0x18, 0xd2, 0xb4, 0x2d, 0x14, 0x63, 0x6f, 0x73, 0x6d, 0x6f, 0x73],
     [0x2e, 0x41, 0x64, 0x64, 0x72, 0x65, 0x73, 0x73, 0x53, 0x74, 0x72, 0x69, 0x6e, 0x67, 0x52, 0x09],
     [0x61, 0x75, 0x74, 0x68, 0x6f, 0x72, 0x69, 0x74, 0x79, 0x12, 0x44, 0x0a, 0x06, 0x70, 0x61, 0x72],
     [0x61, 0x6d, 0x73, 0x18, 0x02, 0x20, 0x01, 0x28, 0x0b, 0x32, 0x21, 0x2e, 0x6d, 0x65, 0x64, 0x61],
     [0x73, 0x64, 0x69, 0x67, 0x69, 0x74, 0x61, 0x6c, 0x2e, 0x6d, 0x65, 0x64, 0x61, 0x73, 0x64, 0x69],
     [0x67, 0x69, 0x74, 0x61, 0x6c, 0x2e, 0x50, 0x61, 0x72, 0x61, 0x6d, 0x73, 0x42, 0x09, 0xc8, 0xde],
     [0x1f, 0x00, 0xa8, 0xe7, 0xb0, 0x2a, 0x01, 0x52, 0x06, 0x70, 0x61, 0x72, 0x61, 0x6d, 0x73, 0x3a],
     [0x3e, 0x82, 0xe7, 0xb0, 0x2a, 0x09, 0x61, 0x75, 0x74, 0x68, 0x6f, 0x72, 0x69, 0x74, 0x79, 0x8a],
     [0xe7, 0xb0, 0x2a, 0x2b, 0x6d, 0x65, 0x64, 0x61, 0x73, 0x64, 0x69, 0x67, 0x69, 0x74, 0x61, 0x6c],
     [0x2f, 0x78, 0x2f, 0x6d, 0x65, 0x64, 0x61, 0x73, 0x64, 0x69, 0x67, 0x69, 0x74, 0x61, 0x6c, 0x2f],
     [0x4d, 0x73, 0x67, 0x55, 0x70, 0x64, 0x61, 0x74, 0x65, 0x50, 0x61, 0x72, 0x61, 0x6d, 0x73]]"
  by (simp only: medasdigital_proto_MsgUpdateParams_def message_bytes list.map medasdigital_field_bytes) (simp add: message_bytes_eval del: enc_field.simps(3))

lemma medasdigital_proto_MsgUpdateParamsResponse_bytes:
  "message_descriptor_bytes medasdigital_proto_MsgUpdateParamsResponse =
    concat [[0x0a, 0x17, 0x4d, 0x73, 0x67, 0x55, 0x70, 0x64, 0x61, 0x74, 0x65, 0x50, 0x61, 0x72, 0x61, 0x6d],
     [0x73, 0x52, 0x65, 0x73, 0x70, 0x6f, 0x6e, 0x73, 0x65]]"
  by (simp only: medasdigital_proto_MsgUpdateParamsResponse_def message_bytes list.map medasdigital_field_bytes) (simp add: message_bytes_eval del: enc_field.simps(3))

lemma medasdigital_proto_Msg_bytes:
  "service_descriptor_bytes medasdigital_proto_Msg =
    concat [[0x0a, 0x03, 0x4d, 0x73, 0x67, 0x12, 0x6e, 0x0a, 0x0c, 0x55, 0x70, 0x64, 0x61, 0x74, 0x65, 0x50],
     [0x61, 0x72, 0x61, 0x6d, 0x73, 0x12, 0x2a, 0x2e, 0x6d, 0x65, 0x64, 0x61, 0x73, 0x64, 0x69, 0x67],
     [0x69, 0x74, 0x61, 0x6c, 0x2e, 0x6d, 0x65, 0x64, 0x61, 0x73, 0x64, 0x69, 0x67, 0x69, 0x74, 0x61],
     [0x6c, 0x2e, 0x4d, 0x73, 0x67, 0x55, 0x70, 0x64, 0x61, 0x74, 0x65, 0x50, 0x61, 0x72, 0x61, 0x6d],
     [0x73, 0x1a, 0x32, 0x2e, 0x6d, 0x65, 0x64, 0x61, 0x73, 0x64, 0x69, 0x67, 0x69, 0x74, 0x61, 0x6c],
     [0x2e, 0x6d, 0x65, 0x64, 0x61, 0x73, 0x64, 0x69, 0x67, 0x69, 0x74, 0x61, 0x6c, 0x2e, 0x4d, 0x73],
     [0x67, 0x55, 0x70, 0x64, 0x61, 0x74, 0x65, 0x50, 0x61, 0x72, 0x61, 0x6d, 0x73, 0x52, 0x65, 0x73],
     [0x70, 0x6f, 0x6e, 0x73, 0x65, 0x1a, 0x05, 0x80, 0xe7, 0xb0, 0x2a, 0x01]]"
  by (simp add: medasdigital_proto_Msg_def service_bytes_eval del: enc_field.simps(3))

lemma medasdigital_proto_QueryParamsRequest_bytes:
  "message_descriptor_bytes medasdigital_proto_QueryParamsRequest =
    concat [[0x0a, 0x12, 0x51, 0x75, 0x65, 0x72, 0x79, 0x50, 0x61, 0x72, 0x61, 0x6d, 0x73, 0x52, 0x65, 0x71],
     [0x75, 0x65, 0x73, 0x74]]"
  by (simp only: medasdigital_proto_QueryParamsRequest_def message_bytes list.map medasdigital_field_bytes) (simp add: message_bytes_eval del: enc_field.simps(3))

lemma medasdigital_proto_QueryParamsResponse_bytes:
  "message_descriptor_bytes medasdigital_proto_QueryParamsResponse =
    concat [[0x0a, 0x13, 0x51, 0x75, 0x65, 0x72, 0x79, 0x50, 0x61, 0x72, 0x61, 0x6d, 0x73, 0x52, 0x65, 0x73],
     [0x70, 0x6f, 0x6e, 0x73, 0x65, 0x12, 0x44, 0x0a, 0x06, 0x70, 0x61, 0x72, 0x61, 0x6d, 0x73, 0x18],
     [0x01, 0x20, 0x01, 0x28, 0x0b, 0x32, 0x21, 0x2e, 0x6d, 0x65, 0x64, 0x61, 0x73, 0x64, 0x69, 0x67],
     [0x69, 0x74, 0x61, 0x6c, 0x2e, 0x6d, 0x65, 0x64, 0x61, 0x73, 0x64, 0x69, 0x67, 0x69, 0x74, 0x61],
     [0x6c, 0x2e, 0x50, 0x61, 0x72, 0x61, 0x6d, 0x73, 0x42, 0x09, 0xc8, 0xde, 0x1f, 0x00, 0xa8, 0xe7],
     [0xb0, 0x2a, 0x01, 0x52, 0x06, 0x70, 0x61, 0x72, 0x61, 0x6d, 0x73]]"
  by (simp only: medasdigital_proto_QueryParamsResponse_def message_bytes list.map medasdigital_field_bytes) (simp add: message_bytes_eval del: enc_field.simps(3))

lemma medasdigital_proto_Query_bytes:
  "service_descriptor_bytes medasdigital_proto_Query =
    concat [[0x0a, 0x05, 0x51, 0x75, 0x65, 0x72, 0x79, 0x12, 0x92, 0x01, 0x0a, 0x06, 0x50, 0x61, 0x72, 0x61],
     [0x6d, 0x73, 0x12, 0x2d, 0x2e, 0x6d, 0x65, 0x64, 0x61, 0x73, 0x64, 0x69, 0x67, 0x69, 0x74, 0x61],
     [0x6c, 0x2e, 0x6d, 0x65, 0x64, 0x61, 0x73, 0x64, 0x69, 0x67, 0x69, 0x74, 0x61, 0x6c, 0x2e, 0x51],
     [0x75, 0x65, 0x72, 0x79, 0x50, 0x61, 0x72, 0x61, 0x6d, 0x73, 0x52, 0x65, 0x71, 0x75, 0x65, 0x73],
     [0x74, 0x1a, 0x2e, 0x2e, 0x6d, 0x65, 0x64, 0x61, 0x73, 0x64, 0x69, 0x67, 0x69, 0x74, 0x61, 0x6c],
     [0x2e, 0x6d, 0x65, 0x64, 0x61, 0x73, 0x64, 0x69, 0x67, 0x69, 0x74, 0x61, 0x6c, 0x2e, 0x51, 0x75],
     [0x65, 0x72, 0x79, 0x50, 0x61, 0x72, 0x61, 0x6d, 0x73, 0x52, 0x65, 0x73, 0x70, 0x6f, 0x6e, 0x73],
     [0x65, 0x22, 0x29, 0x82, 0xd3, 0xe4, 0x93, 0x02, 0x23, 0x12, 0x21, 0x2f, 0x6d, 0x65, 0x64, 0x61],
     [0x73, 0x64, 0x69, 0x67, 0x69, 0x74, 0x61, 0x6c, 0x2f, 0x6d, 0x65, 0x64, 0x61, 0x73, 0x64, 0x69],
     [0x67, 0x69, 0x74, 0x61, 0x6c, 0x2f, 0x70, 0x61, 0x72, 0x61, 0x6d, 0x73]]"
  by (simp add: medasdigital_proto_Query_def service_bytes_eval del: enc_field.simps(3))

lemma medasdigital_proto_Module_bytes:
  "message_descriptor_bytes medasdigital_proto_Module =
    concat [[0x0a, 0x06, 0x4d, 0x6f, 0x64, 0x75, 0x6c, 0x65, 0x12, 0x1c, 0x0a, 0x09, 0x61, 0x75, 0x74, 0x68],
     [0x6f, 0x72, 0x69, 0x74, 0x79, 0x18, 0x01, 0x20, 0x01, 0x28, 0x09, 0x52, 0x09, 0x61, 0x75, 0x74],
     [0x68, 0x6f, 0x72, 0x69, 0x74, 0x79, 0x3a, 0x23, 0xba, 0xc0, 0x96, 0xda, 0x01, 0x1d, 0x0a, 0x1b],
     [0x6d, 0x65, 0x64, 0x61, 0x73, 0x64, 0x69, 0x67, 0x69, 0x74, 0x61, 0x6c, 0x2f, 0x78, 0x2f, 0x6d],
     [0x65, 0x64, 0x61, 0x73, 0x64, 0x69, 0x67, 0x69, 0x74, 0x61, 0x6c]]"
  by (simp only: medasdigital_proto_Module_def message_bytes list.map medasdigital_field_bytes) (simp add: message_bytes_eval del: enc_field.simps(3))

lemma medasdigital_params_rawDesc: "medasdigital_params_rawDesc = file_descriptor_bytes medasdigital_params_proto"
  by (simp add: medasdigital_params_rawDesc_def medasdigital_params_proto_def medasdigital_proto_Params_bytes file_bytes_eval del: enc_field.simps(3))

lemma medasdigital_genesis_rawDesc: "medasdigital_genesis_rawDesc = file_descriptor_bytes medasdigital_genesis_proto"
  by (simp add: medasdigital_genesis_rawDesc_def medasdigital_genesis_proto_def medasdigital_proto_GenesisState_bytes file_bytes_eval del: enc_field.simps(3))

lemma medasdigital_tx_rawDesc: "medasdigital_tx_rawDesc = file_descriptor_bytes medasdigital_tx_proto"
  by (simp add: medasdigital_tx_rawDesc_def medasdigital_tx_proto_def medasdigital_proto_MsgUpdateParams_bytes medasdigital_proto_MsgUpdateParamsResponse_bytes medasdigital_proto_Msg_bytes file_bytes_eval del: enc_field.simps(3))

lemma medasdigital_query_rawDesc: "medasdigital_query_rawDesc = file_descriptor_bytes medasdigital_query_proto"
  by (simp add: medasdigital_query_rawDesc_def medasdigital_query_proto_def medasdigital_proto_QueryParamsRequest_bytes medasdigital_proto_QueryParamsResponse_bytes medasdigital_proto_Query_bytes file_bytes_eval del: enc_field.simps(3))

lemma medasdigital_module_rawDesc: "medasdigital_module_rawDesc = file_descriptor_bytes medasdigital_module_proto"
  by (simp add: medasdigital_module_rawDesc_def medasdigital_module_proto_def medasdigital_proto_Module_bytes file_bytes_eval del: enc_field.simps(3))

end
