(* ===== verification/Medas_Types.thy ===== *)
theory Medas_Types
  imports Pulsar_Type Medas_Proto Api_Medas
begin

text \<open>
  The types of the messages of \<open>api/medasdigital/medasdigital\<close>: the tables of each file, and for each message
  what \<open>init\<close> looks up, its message type, its methods and the path of its descriptor.
\<close>

section \<open>medasdigital/medasdigital/params.proto\<close>

definition medasdigital_params_goTypes :: "go_type list" where
  "medasdigital_params_goTypes =
    [LocalType ''Params'']"

definition medasdigital_params_depIdxs :: "nat list" where
  "medasdigital_params_depIdxs = [0, 0, 0, 0, 0]"

definition medasdigital_params_msgTypes :: nat where
  "medasdigital_params_msgTypes = 1"

definition medasdigital_params_builder :: "bool \<Rightarrow> type_builder" where
  "medasdigital_params_builder UnsafeEnabled =
     \<lparr>tb_RawDescriptor = medasdigital_params_rawDesc,
      tb_NumEnums = 0, tb_NumMessages = 1, tb_NumExtensions = 0, tb_NumServices = 0,
      tb_GoTypes = medasdigital_params_goTypes, tb_DependencyIndexes = medasdigital_params_depIdxs,
      tb_MessageInfos = medasdigital_params_msgTypes,
      tb_Exporters = (if UnsafeEnabled then [] else
        [(0, exporter (LocalType ''Params''))])\<rparr>"

definition medasdigital_params_init ::
  "build_fun \<Rightarrow> bool \<Rightarrow> file_vars \<Rightarrow> refl_error + file_vars" where
  "medasdigital_params_init Build UnsafeEnabled = file_init Build ''medasdigital/medasdigital/params.proto''
     []
     (medasdigital_params_builder UnsafeEnabled)"

definition medasdigital_params_rawDescGZIP :: "(bytes \<Rightarrow> bytes) \<Rightarrow> bytes" where
  "medasdigital_params_rawDescGZIP CompressGZIP = fst (rawDescGZIP CompressGZIP (False, medasdigital_params_rawDesc))"

definition init_MedasParams ::
  "build_fun \<Rightarrow> bool \<Rightarrow> file_vars \<Rightarrow> refl_error + file_vars \<times> message_vars" where
  "init_MedasParams Build UnsafeEnabled vars = rbind (medasdigital_params_init Build UnsafeEnabled vars)
     (message_init ''medasdigital/medasdigital/params.proto'' ''Params''
       [])"

definition MedasParams_messageType :: "message_vars \<Rightarrow> ApiMedasParams message_type" where
  "MedasParams_messageType vars = generated_type ApiMedasParams_zero (v_md vars)"

definition MedasParams_methods :: "message_vars \<Rightarrow> ApiMedasParams message_methods" where
  "MedasParams_methods vars = generated_methods 0 ApiMedasParams_zero (v_md vars)"

definition ApiMedasParams_Descriptor :: "(bytes \<Rightarrow> bytes) \<Rightarrow> bytes \<times> nat list" where
  "ApiMedasParams_Descriptor CompressGZIP = (medasdigital_params_rawDescGZIP CompressGZIP, [0])"

section \<open>medasdigital/medasdigital/genesis.proto\<close>

definition medasdigital_genesis_goTypes :: "go_type list" where
  "medasdigital_genesis_goTypes =
    [LocalType ''GenesisState'',
     LocalType ''Params'']"

definition medasdigital_genesis_depIdxs :: "nat list" where
  "medasdigital_genesis_depIdxs = [1, 1, 1, 1, 1, 0]"

definition medasdigital_genesis_msgTypes :: nat where
  "medasdigital_genesis_msgTypes = 1"

definition medasdigital_genesis_builder :: "bool \<Rightarrow> type_builder" where
  "medasdigital_genesis_builder UnsafeEnabled =
     \<lparr>tb_RawDescriptor = medasdigital_genesis_rawDesc,
      tb_NumEnums = 0, tb_NumMessages = 1, tb_NumExtensions = 0, tb_NumServices = 0,
      tb_GoTypes = medasdigital_genesis_goTypes, tb_DependencyIndexes = medasdigital_genesis_depIdxs,
      tb_MessageInfos = medasdigital_genesis_msgTypes,
      tb_Exporters = (if UnsafeEnabled then [] else
        [(0, exporter (LocalType ''GenesisState''))])\<rparr>"

definition medasdigital_genesis_init ::
  "build_fun \<Rightarrow> bool \<Rightarrow> file_vars \<Rightarrow> refl_error + file_vars" where
  "medasdigital_genesis_init Build UnsafeEnabled = file_init Build ''medasdigital/medasdigital/genesis.proto''
     [medasdigital_params_init Build UnsafeEnabled]
     (medasdigital_genesis_builder UnsafeEnabled)"

definition medasdigital_genesis_rawDescGZIP :: "(bytes \<Rightarrow> bytes) \<Rightarrow> bytes" where
  "medasdigital_genesis_rawDescGZIP CompressGZIP = fst (rawDescGZIP CompressGZIP (False, medasdigital_genesis_rawDesc))"

definition init_MedasGenesisState ::
  "build_fun \<Rightarrow> bool \<Rightarrow> file_vars \<Rightarrow> refl_error + file_vars \<times> message_vars" where
  "init_MedasGenesisState Build UnsafeEnabled vars = rbind (medasdigital_genesis_init Build UnsafeEnabled vars)
     (message_init ''medasdigital/medasdigital/genesis.proto'' ''GenesisState''
       [''params''])"

definition MedasGenesisState_messageType :: "message_vars \<Rightarrow> ApiMedasGenesisState message_type" where
  "MedasGenesisState_messageType vars = generated_type ApiMedasGenesisState_zero (v_md vars)"

definition MedasGenesisState_methods :: "message_vars \<Rightarrow> ApiMedasGenesisState message_methods" where
  "MedasGenesisState_methods vars = generated_methods 0 ApiMedasGenesisState_zero (v_md vars)"

definition ApiMedasGenesisState_Descriptor :: "(bytes \<Rightarrow> bytes) \<Rightarrow> bytes \<times> nat list" where
  "ApiMedasGenesisState_Descriptor CompressGZIP = (medasdigital_genesis_rawDescGZIP CompressGZIP, [0])"

section \<open>medasdigital/medasdigital/tx.proto\<close>

definition medasdigital_tx_goTypes :: "go_type list" where
  "medasdigital_tx_goTypes =
    [LocalType ''MsgUpdateParams'',
     LocalType ''MsgUpdateParamsResponse'',
     LocalType ''Params'']"

definition medasdigital_tx_depIdxs :: "nat list" where
  "medasdigital_tx_depIdxs = [2, 0, 1, 2, 1, 1, 1, 0]"

definition medasdigital_tx_msgTypes :: nat where
  "medasdigital_tx_msgTypes = 2"

definition medasdigital_tx_builder :: "bool \<Rightarrow> type_builder" where
  "medasdigital_tx_builder UnsafeEnabled =
     \<lparr>tb_RawDescriptor = medasdigital_tx_rawDesc,
      tb_NumEnums = 0, tb_NumMessages = 2, tb_NumExtensions = 0, tb_NumServices = 1,
      tb_GoTypes = medasdigital_tx_goTypes, tb_DependencyIndexes = medasdigital_tx_depIdxs,
      tb_MessageInfos = medasdigital_tx_msgTypes,
      tb_Exporters = (if UnsafeEnabled then [] else
        [(0, exporter (LocalType ''MsgUpdateParams'')),
         (1, exporter (LocalType ''MsgUpdateParamsResponse''))])\<rparr>"

definition medasdigital_tx_init ::
  "build_fun \<Rightarrow> bool \<Rightarrow> file_vars \<Rightarrow> refl_error + file_vars" where
  "medasdigital_tx_init Build UnsafeEnabled = file_init Build ''medasdigital/medasdigital/tx.proto''
     [medasdigital_params_init Build UnsafeEnabled]
     (medasdigital_tx_builder UnsafeEnabled)"

definition medasdigital_tx_rawDescGZIP :: "(bytes \<Rightarrow> bytes) \<Rightarrow> bytes" where
  "medasdigital_tx_rawDescGZIP CompressGZIP = fst (rawDescGZIP CompressGZIP (False, medasdigital_tx_rawDesc))"

definition init_MedasMsgUpdateParams ::
  "build_fun \<Rightarrow> bool \<Rightarrow> file_vars \<Rightarrow> refl_error + file_vars \<times> message_vars" where
  "init_MedasMsgUpdateParams Build UnsafeEnabled vars = rbind (medasdigital_tx_init Build UnsafeEnabled vars)
     (message_init ''medasdigital/medasdigital/tx.proto'' ''MsgUpdateParams''
       [''authority'', ''params''])"

definition MedasMsgUpdateParams_messageType :: "message_vars \<Rightarrow> ApiMedasMsgUpdateParams message_type" where
  "MedasMsgUpdateParams_messageType vars = generated_type ApiMedasMsgUpdateParams_zero (v_md vars)"

definition MedasMsgUpdateParams_methods :: "message_vars \<Rightarrow> ApiMedasMsgUpdateParams message_methods" where
  "MedasMsgUpdateParams_methods vars = generated_methods 0 ApiMedasMsgUpdateParams_zero (v_md vars)"

definition ApiMedasMsgUpdateParams_Descriptor :: "(bytes \<Rightarrow> bytes) \<Rightarrow> bytes \<times> nat list" where
  "ApiMedasMsgUpdateParams_Descriptor CompressGZIP = (medasdigital_tx_rawDescGZIP CompressGZIP, [0])"

definition init_MedasMsgUpdateParamsResponse ::
  "build_fun \<Rightarrow> bool \<Rightarrow> file_vars \<Rightarrow> refl_error + file_vars \<times> message_vars" where
  "init_MedasMsgUpdateParamsResponse Build UnsafeEnabled vars = rbind (medasdigital_tx_init Build UnsafeEnabled vars)
     (message_init ''medasdigital/medasdigital/tx.proto'' ''MsgUpdateParamsResponse''
       [])"

definition MedasMsgUpdateParamsResponse_messageType :: "message_vars \<Rightarrow> ApiMedasMsgUpdateParamsResponse message_type" where
  "MedasMsgUpdateParamsResponse_messageType vars = generated_type ApiMedasMsgUpdateParamsResponse_zero (v_md vars)"

definition MedasMsgUpdateParamsResponse_methods :: "message_vars \<Rightarrow> ApiMedasMsgUpdateParamsResponse message_methods" where
  "MedasMsgUpdateParamsResponse_methods vars = generated_methods 1 ApiMedasMsgUpdateParamsResponse_zero (v_md vars)"

definition ApiMedasMsgUpdateParamsResponse_Descriptor :: "(bytes \<Rightarrow> bytes) \<Rightarrow> bytes \<times> nat list" where
  "ApiMedasMsgUpdateParamsResponse_Descriptor CompressGZIP = (medasdigital_tx_rawDescGZIP CompressGZIP, [1])"

section \<open>medasdigital/medasdigital/query.proto\<close>

definition medasdigital_query_goTypes :: "go_type list" where
  "medasdigital_query_goTypes =
    [LocalType ''QueryParamsRequest'',
     LocalType ''QueryParamsResponse'',
     LocalType ''Params'']"

definition medasdigital_query_depIdxs :: "nat list" where
  "medasdigital_query_depIdxs = [2, 0, 1, 2, 1, 1, 1, 0]"

definition medasdigital_query_msgTypes :: nat where
  "medasdigital_query_msgTypes = 2"

definition medasdigital_query_builder :: "bool \<Rightarrow> type_builder" where
  "medasdigital_query_builder UnsafeEnabled =
     \<lparr>tb_RawDescriptor = medasdigital_query_rawDesc,
      tb_NumEnums = 0, tb_NumMessages = 2, tb_NumExtensions = 0, tb_NumServices = 1,
      tb_GoTypes = medasdigital_query_goTypes, tb_DependencyIndexes = medasdigital_query_depIdxs,
      tb_MessageInfos = medasdigital_query_msgTypes,
      tb_Exporters = (if UnsafeEnabled then [] else
        [(0, exporter (LocalType ''QueryParamsRequest'')),
         (1, exporter (LocalType ''QueryParamsResponse''))])\<rparr>"

definition medasdigital_query_init ::
  "build_fun \<Rightarrow> bool \<Rightarrow> file_vars \<Rightarrow> refl_error + file_vars" where
  "medasdigital_query_init Build UnsafeEnabled = file_init Build ''medasdigital/medasdigital/query.proto''
     [medasdigital_params_init Build UnsafeEnabled]
     (medasdigital_query_builder UnsafeEnabled)"

definition medasdigital_query_rawDescGZIP :: "(bytes \<Rightarrow> bytes) \<Rightarrow> bytes" where
  "medasdigital_query_rawDescGZIP CompressGZIP = fst (rawDescGZIP CompressGZIP (False, medasdigital_query_rawDesc))"

definition init_MedasQueryParamsRequest ::
  "build_fun \<Rightarrow> bool \<Rightarrow> file_vars \<Rightarrow> refl_error + file_vars \<times> message_vars" where
  "init_MedasQueryParamsRequest Build UnsafeEnabled vars = rbind (medasdigital_query_init Build UnsafeEnabled vars)
     (message_init ''medasdigital/medasdigital/query.proto'' ''QueryParamsRequest''
       [])"

definition MedasQueryParamsRequest_messageType :: "message_vars \<Rightarrow> ApiMedasQueryParamsRequest message_type" where
  "MedasQueryParamsRequest_messageType vars = generated_type ApiMedasQueryParamsRequest_zero (v_md vars)"

definition MedasQueryParamsRequest_methods :: "message_vars \<Rightarrow> ApiMedasQueryParamsRequest message_methods" where
  "MedasQueryParamsRequest_methods vars = generated_methods 0 ApiMedasQueryParamsRequest_zero (v_md vars)"

definition ApiMedasQueryParamsRequest_Descriptor :: "(bytes \<Rightarrow> bytes) \<Rightarrow> bytes \<times> nat list" where
  "ApiMedasQueryParamsRequest_Descriptor CompressGZIP = (medasdigital_query_rawDescGZIP CompressGZIP, [0])"

definition init_MedasQueryParamsResponse ::
  "build_fun \<Rightarrow> bool \<Rightarrow> file_vars \<Rightarrow> refl_error + file_vars \<times> message_vars" where
  "init_MedasQueryParamsResponse Build UnsafeEnabled vars = rbind (medasdigital_query_init Build UnsafeEnabled vars)
     (message_init ''medasdigital/medasdigital/query.proto'' ''QueryParamsResponse''
       [''params''])"

definition MedasQueryParamsResponse_messageType :: "message_vars \<Rightarrow> ApiMedasQueryParamsResponse message_type" where
  "MedasQueryParamsResponse_messageType vars = generated_type ApiMedasQueryParamsResponse_zero (v_md vars)"

definition MedasQueryParamsResponse_methods :: "message_vars \<Rightarrow> ApiMedasQueryParamsResponse message_methods" where
  "MedasQueryParamsResponse_methods vars = generated_methods 1 ApiMedasQueryParamsResponse_zero (v_md vars)"

definition ApiMedasQueryParamsResponse_Descriptor :: "(bytes \<Rightarrow> bytes) \<Rightarrow> bytes \<times> nat list" where
  "ApiMedasQueryParamsResponse_Descriptor CompressGZIP = (medasdigital_query_rawDescGZIP CompressGZIP, [1])"

section \<open>medasdigital/medasdigital/module/module.proto\<close>

definition medasdigital_module_goTypes :: "go_type list" where
  "medasdigital_module_goTypes =
    [LocalType ''Module'']"

definition medasdigital_module_depIdxs :: "nat list" where
  "medasdigital_module_depIdxs = [0, 0, 0, 0, 0]"

definition medasdigital_module_msgTypes :: nat where
  "medasdigital_module_msgTypes = 1"

definition medasdigital_module_builder :: "bool \<Rightarrow> type_builder" where
  "medasdigital_module_builder UnsafeEnabled =
     \<lparr>tb_RawDescriptor = medasdigital_module_rawDesc,
      tb_NumEnums = 0, tb_NumMessages = 1, tb_NumExtensions = 0, tb_NumServices = 0,
      tb_GoTypes = medasdigital_module_goTypes, tb_DependencyIndexes = medasdigital_module_depIdxs,
      tb_MessageInfos = medasdigital_module_msgTypes,
      tb_Exporters = (if UnsafeEnabled then [] else
        [(0, exporter (LocalType ''Module''))])\<rparr>"

definition medasdigital_module_init ::
  "build_fun \<Rightarrow> bool \<Rightarrow> file_vars \<Rightarrow> refl_error + file_vars" where
  "medasdigital_module_init Build UnsafeEnabled = file_init Build ''medasdigital/medasdigital/module/module.proto''
     []
     (medasdigital_module_builder UnsafeEnabled)"

definition medasdigital_module_rawDescGZIP :: "(bytes \<Rightarrow> bytes) \<Rightarrow> bytes" where
  "medasdigital_module_rawDescGZIP CompressGZIP = fst (rawDescGZIP CompressGZIP (False, medasdigital_module_rawDesc))"

definition init_MedasModule ::
  "build_fun \<Rightarrow> bool \<Rightarrow> file_vars \<Rightarrow> refl_error + file_vars \<times> message_vars" where
  "init_MedasModule Build UnsafeEnabled vars = rbind (medasdigital_module_init Build UnsafeEnabled vars)
     (message_init ''medasdigital/medasdigital/module/module.proto'' ''Module''
       [''authority''])"

definition MedasModule_messageType :: "message_vars \<Rightarrow> ApiMedasModule message_type" where
  "MedasModule_messageType vars = generated_type ApiMedasModule_zero (v_md vars)"

definition MedasModule_methods :: "message_vars \<Rightarrow> ApiMedasModule message_methods" where
  "MedasModule_methods vars = generated_methods 0 ApiMedasModule_zero (v_md vars)"

definition ApiMedasModule_Descriptor :: "(bytes \<Rightarrow> bytes) \<Rightarrow> bytes \<times> nat list" where
  "ApiMedasModule_Descriptor CompressGZIP = (medasdigital_module_rawDescGZIP CompressGZIP, [0])"

end
