(* ===== verification/Api_Typed.thy ===== *)
theory Api_Typed
  imports TF_Types Medas_Types TF_Codec Medas_Pb
begin

text \<open>
  The descriptors embedded in \<open>api/\<close> against the \<open>.proto\<close> files, and the tables of both codecs and of
  reflection against the descriptors: every message is typed as its file declares it, and the
  packages initialize in any order.
\<close>

section \<open>The files\<close>

definition api_files :: "bool \<Rightarrow> (type_builder \<times> file_spec) list" where
  "api_files UnsafeEnabled =
     [(tokenfactory_params_builder UnsafeEnabled, tokenfactory_params_proto),
      (tokenfactory_denom_builder UnsafeEnabled, tokenfactory_denom_proto),
      (tokenfactory_genesis_builder UnsafeEnabled, tokenfactory_genesis_proto),
      (tokenfactory_tx_builder UnsafeEnabled, tokenfactory_tx_proto),
      (tokenfactory_query_builder UnsafeEnabled, tokenfactory_query_proto),
      (tokenfactory_module_builder UnsafeEnabled, tokenfactory_module_proto),
      (medasdigital_params_builder UnsafeEnabled, medasdigital_params_proto),
      (medasdigital_genesis_builder UnsafeEnabled, medasdigital_genesis_proto),
      (medasdigital_tx_builder UnsafeEnabled, medasdigital_tx_proto),
      (medasdigital_query_builder UnsafeEnabled, medasdigital_query_proto),
      (medasdigital_module_builder UnsafeEnabled, medasdigital_module_proto)]"

lemmas message_protos = tokenfactory_proto_Params_def
  tokenfactory_proto_Denom_def
  tokenfactory_proto_GenesisState_def
  tokenfactory_proto_MsgUpdateParams_def
  tokenfactory_proto_MsgUpdateParamsResponse_def
  tokenfactory_proto_MsgCreateDenom_def
  tokenfactory_proto_MsgCreateDenomResponse_def
  tokenfactory_proto_MsgUpdateDenom_def
  tokenfactory_proto_MsgUpdateDenomResponse_def
  tokenfactory_proto_MsgDeleteDenom_def
  tokenfactory_proto_MsgDeleteDenomResponse_def
  tokenfactory_proto_QueryParamsRequest_def
  tokenfactory_proto_QueryParamsResponse_def
  tokenfactory_proto_QueryGetDenomRequest_def
  tokenfactory_proto_QueryGetDenomResponse_def
  tokenfactory_proto_QueryAllDenomRequest_def
  tokenfactory_proto_QueryAllDenomResponse_def
  tokenfactory_proto_Module_def
  medasdigital_proto_Params_def
  medasdigital_proto_GenesisState_def
  medasdigital_proto_MsgUpdateParams_def
  medasdigital_proto_MsgUpdateParamsResponse_def
  medasdigital_proto_QueryParamsRequest_def
  medasdigital_proto_QueryParamsResponse_def
  medasdigital_proto_Module_def

lemmas file_protos = tokenfactory_params_proto_def
  tokenfactory_denom_proto_def
  tokenfactory_genesis_proto_def
  tokenfactory_tx_proto_def
  tokenfactory_query_proto_def
  tokenfactory_module_proto_def
  medasdigital_params_proto_def
  medasdigital_genesis_proto_def
  medasdigital_tx_proto_def
  medasdigital_query_proto_def
  medasdigital_module_proto_def

lemmas describes_eval = describes_def dependency_lists_def sublist_def message_dependencies_def
  file_methods_def proto_message_def proto_field_def proto_repeated_def rpc_def message_protos

text \<open>The tables of each file describe it.\<close>

lemma tokenfactory_params_described: "describes (tokenfactory_params_builder U) tokenfactory_params_proto"
  by (simp add: describes_eval tokenfactory_params_builder_def tokenfactory_params_rawDesc tokenfactory_params_goTypes_def
      tokenfactory_params_depIdxs_def tokenfactory_params_msgTypes_def tokenfactory_params_proto_def)

lemma tokenfactory_denom_described: "describes (tokenfactory_denom_builder U) tokenfactory_denom_proto"
  by (simp add: describes_eval tokenfactory_denom_builder_def tokenfactory_denom_rawDesc tokenfactory_denom_goTypes_def
      tokenfactory_denom_depIdxs_def tokenfactory_denom_msgTypes_def tokenfactory_denom_proto_def)

lemma tokenfactory_genesis_described: "describes (tokenfactory_genesis_builder U) tokenfactory_genesis_proto"
  by (simp add: describes_eval tokenfactory_genesis_builder_def tokenfactory_genesis_rawDesc tokenfactory_genesis_goTypes_def
      tokenfactory_genesis_depIdxs_def tokenfactory_genesis_msgTypes_def tokenfactory_genesis_proto_def)

lemma tokenfactory_tx_described: "describes (tokenfactory_tx_builder U) tokenfactory_tx_proto"
  by (simp add: describes_eval tokenfactory_tx_builder_def tokenfactory_tx_rawDesc tokenfactory_tx_goTypes_def
      tokenfactory_tx_depIdxs_def tokenfactory_tx_msgTypes_def tokenfactory_tx_proto_def tokenfactory_proto_Msg_def)

lemma tokenfactory_query_described: "describes (tokenfactory_query_builder U) tokenfactory_query_proto"
  by (simp add: describes_eval tokenfactory_query_builder_def tokenfactory_query_rawDesc tokenfactory_query_goTypes_def
      tokenfactory_query_depIdxs_def tokenfactory_query_msgTypes_def tokenfactory_query_proto_def tokenfactory_proto_Query_def)

lemma tokenfactory_module_described: "describes (tokenfactory_module_builder U) tokenfactory_module_proto"
  by (simp add: describes_eval tokenfactory_module_builder_def tokenfactory_module_rawDesc tokenfactory_module_goTypes_def
      tokenfactory_module_depIdxs_def tokenfactory_module_msgTypes_def tokenfactory_module_proto_def)

lemma medasdigital_params_described: "describes (medasdigital_params_builder U) medasdigital_params_proto"
  by (simp add: describes_eval medasdigital_params_builder_def medasdigital_params_rawDesc medasdigital_params_goTypes_def
      medasdigital_params_depIdxs_def medasdigital_params_msgTypes_def medasdigital_params_proto_def)

lemma medasdigital_genesis_described: "describes (medasdigital_genesis_builder U) medasdigital_genesis_proto"
  by (simp add: describes_eval medasdigital_genesis_builder_def medasdigital_genesis_rawDesc medasdigital_genesis_goTypes_def
      medasdigital_genesis_depIdxs_def medasdigital_genesis_msgTypes_def medasdigital_genesis_proto_def)

lemma medasdigital_tx_described: "describes (medasdigital_tx_builder U) medasdigital_tx_proto"
  by (simp add: describes_eval medasdigital_tx_builder_def medasdigital_tx_rawDesc medasdigital_tx_goTypes_def
      medasdigital_tx_depIdxs_def medasdigital_tx_msgTypes_def medasdigital_tx_proto_def medasdigital_proto_Msg_def)

lemma medasdigital_query_described: "describes (medasdigital_query_builder U) medasdigital_query_proto"
  by (simp add: describes_eval medasdigital_query_builder_def medasdigital_query_rawDesc medasdigital_query_goTypes_def
      medasdigital_query_depIdxs_def medasdigital_query_msgTypes_def medasdigital_query_proto_def medasdigital_proto_Query_def)

lemma medasdigital_module_described: "describes (medasdigital_module_builder U) medasdigital_module_proto"
  by (simp add: describes_eval medasdigital_module_builder_def medasdigital_module_rawDesc medasdigital_module_goTypes_def
      medasdigital_module_depIdxs_def medasdigital_module_msgTypes_def medasdigital_module_proto_def)

lemmas files_described = tokenfactory_params_described
  tokenfactory_denom_described
  tokenfactory_genesis_described
  tokenfactory_tx_described
  tokenfactory_query_described
  tokenfactory_module_described
  medasdigital_params_described
  medasdigital_genesis_described
  medasdigital_tx_described
  medasdigital_query_described
  medasdigital_module_described

lemma api_files_distinct: "distinct (map (\<lambda>(tb, p). p_name p) (api_files U))"
  by (simp add: api_files_def file_protos)

section \<open>The messages\<close>

lemmas typed_eval = proto_message_def proto_field_def proto_repeated_def upper_char_def
  RPointer_def RListOf_def

lemma Params_typed:
  "message_typed tokenfactory_params_proto 0 vars ApiParams_fields ApiParams_refl
    (Params_messageType vars) (Params_methods vars) ApiParams_Descriptor"
  unfolding message_typed_def Params_messageType_def Params_methods_def
  by (intro conjI generated_type_ok)
    (simp_all add: tokenfactory_params_proto_def tokenfactory_proto_Params_def typed_eval codec_typed_def refl_typed_def
      ApiParams_fields_def ApiParams_refl_def ApiParams_Descriptor_def tokenfactory_params_rawDescGZIP_def gzip_once tokenfactory_params_rawDesc)

lemma Denom_typed:
  "message_typed tokenfactory_denom_proto 0 vars ApiDenom_fields ApiDenom_refl
    (Denom_messageType vars) (Denom_methods vars) ApiDenom_Descriptor"
  unfolding message_typed_def Denom_messageType_def Denom_methods_def
  by (intro conjI generated_type_ok)
    (simp_all add: tokenfactory_denom_proto_def tokenfactory_proto_Denom_def typed_eval codec_typed_def refl_typed_def
      ApiDenom_fields_def ApiDenom_fields_6_def ApiDenom_refl_def ApiDenom_Descriptor_def tokenfactory_denom_rawDescGZIP_def gzip_once tokenfactory_denom_rawDesc,
     auto simp: ApiDenom_refl_def ApiDenom_zero_def RPointer_def RListOf_def)

lemma GenesisState_typed:
  "message_typed tokenfactory_genesis_proto 0 vars (ApiGenesisState_fields PO DO) ApiGenesisState_refl
    (GenesisState_messageType vars) (GenesisState_methods vars) ApiGenesisState_Descriptor"
  unfolding message_typed_def GenesisState_messageType_def GenesisState_methods_def
  by (intro conjI generated_type_ok)
    (simp_all add: tokenfactory_genesis_proto_def tokenfactory_proto_GenesisState_def typed_eval codec_typed_def refl_typed_def
      ApiGenesisState_fields_def ApiGenesisState_refl_def ApiGenesisState_Descriptor_def tokenfactory_genesis_rawDescGZIP_def gzip_once tokenfactory_genesis_rawDesc,
     auto simp: ApiGenesisState_refl_def ApiGenesisState_zero_def RPointer_def RListOf_def)

lemma MsgUpdateParams_typed:
  "message_typed tokenfactory_tx_proto 0 vars (ApiMsgUpdateParams_fields PO) ApiMsgUpdateParams_refl
    (MsgUpdateParams_messageType vars) (MsgUpdateParams_methods vars) ApiMsgUpdateParams_Descriptor"
  unfolding message_typed_def MsgUpdateParams_messageType_def MsgUpdateParams_methods_def
  by (intro conjI generated_type_ok)
    (simp_all add: tokenfactory_tx_proto_def tokenfactory_proto_MsgUpdateParams_def typed_eval codec_typed_def refl_typed_def
      ApiMsgUpdateParams_fields_def ApiMsgUpdateParams_refl_def ApiMsgUpdateParams_Descriptor_def tokenfactory_tx_rawDescGZIP_def gzip_once tokenfactory_tx_rawDesc,
     auto simp: ApiMsgUpdateParams_refl_def ApiMsgUpdateParams_zero_def RPointer_def RListOf_def)

lemma MsgUpdateParamsResponse_typed:
  "message_typed tokenfactory_tx_proto 1 vars ApiMsgUpdateParamsResponse_fields ApiMsgUpdateParamsResponse_refl
    (MsgUpdateParamsResponse_messageType vars) (MsgUpdateParamsResponse_methods vars) ApiMsgUpdateParamsResponse_Descriptor"
  unfolding message_typed_def MsgUpdateParamsResponse_messageType_def MsgUpdateParamsResponse_methods_def
  by (intro conjI generated_type_ok)
    (simp_all add: tokenfactory_tx_proto_def tokenfactory_proto_MsgUpdateParamsResponse_def typed_eval codec_typed_def refl_typed_def
      ApiMsgUpdateParamsResponse_fields_def ApiMsgUpdateParamsResponse_refl_def ApiMsgUpdateParamsResponse_Descriptor_def tokenfactory_tx_rawDescGZIP_def gzip_once tokenfactory_tx_rawDesc)

lemma MsgCreateDenom_typed:
  "message_typed tokenfactory_tx_proto 2 vars ApiMsgCreateDenom_fields ApiMsgCreateDenom_refl
    (MsgCreateDenom_messageType vars) (MsgCreateDenom_methods vars) ApiMsgCreateDenom_Descriptor"
  unfolding message_typed_def MsgCreateDenom_messageType_def MsgCreateDenom_methods_def
  by (intro conjI generated_type_ok)
    (simp_all add: tokenfactory_tx_proto_def tokenfactory_proto_MsgCreateDenom_def typed_eval codec_typed_def refl_typed_def
      ApiMsgCreateDenom_fields_def ApiMsgCreateDenom_fields_6_def ApiMsgCreateDenom_refl_def ApiMsgCreateDenom_Descriptor_def tokenfactory_tx_rawDescGZIP_def gzip_once tokenfactory_tx_rawDesc,
     auto simp: ApiMsgCreateDenom_refl_def ApiMsgCreateDenom_zero_def RPointer_def RListOf_def)

lemma MsgCreateDenomResponse_typed:
  "message_typed tokenfactory_tx_proto 3 vars ApiMsgCreateDenomResponse_fields ApiMsgCreateDenomResponse_refl
    (MsgCreateDenomResponse_messageType vars) (MsgCreateDenomResponse_methods vars) ApiMsgCreateDenomResponse_Descriptor"
  unfolding message_typed_def MsgCreateDenomResponse_messageType_def MsgCreateDenomResponse_methods_def
  by (intro conjI generated_type_ok)
    (simp_all add: tokenfactory_tx_proto_def tokenfactory_proto_MsgCreateDenomResponse_def typed_eval codec_typed_def refl_typed_def
      ApiMsgCreateDenomResponse_fields_def ApiMsgCreateDenomResponse_refl_def ApiMsgCreateDenomResponse_Descriptor_def tokenfactory_tx_rawDescGZIP_def gzip_once tokenfactory_tx_rawDesc)

lemma MsgUpdateDenom_typed:
  "message_typed tokenfactory_tx_proto 4 vars ApiMsgUpdateDenom_fields ApiMsgUpdateDenom_refl
    (MsgUpdateDenom_messageType vars) (MsgUpdateDenom_methods vars) ApiMsgUpdateDenom_Descriptor"
  unfolding message_typed_def MsgUpdateDenom_messageType_def MsgUpdateDenom_methods_def
  by (intro conjI generated_type_ok)
    (simp_all add: tokenfactory_tx_proto_def tokenfactory_proto_MsgUpdateDenom_def typed_eval codec_typed_def refl_typed_def
      ApiMsgUpdateDenom_fields_def ApiMsgUpdateDenom_fields_6_def ApiMsgUpdateDenom_refl_def ApiMsgUpdateDenom_Descriptor_def tokenfactory_tx_rawDescGZIP_def gzip_once tokenfactory_tx_rawDesc,
     auto simp: ApiMsgUpdateDenom_refl_def ApiMsgUpdateDenom_zero_def RPointer_def RListOf_def)

lemma MsgUpdateDenomResponse_typed:
  "message_typed tokenfactory_tx_proto 5 vars ApiMsgUpdateDenomResponse_fields ApiMsgUpdateDenomResponse_refl
    (MsgUpdateDenomResponse_messageType vars) (MsgUpdateDenomResponse_methods vars) ApiMsgUpdateDenomResponse_Descriptor"
  unfolding message_typed_def MsgUpdateDenomResponse_messageType_def MsgUpdateDenomResponse_methods_def
  by (intro conjI generated_type_ok)
    (simp_all add: tokenfactory_tx_proto_def tokenfactory_proto_MsgUpdateDenomResponse_def typed_eval codec_typed_def refl_typed_def
      ApiMsgUpdateDenomResponse_fields_def ApiMsgUpdateDenomResponse_refl_def ApiMsgUpdateDenomResponse_Descriptor_def tokenfactory_tx_rawDescGZIP_def gzip_once tokenfactory_tx_rawDesc)

lemma MsgDeleteDenom_typed:
  "message_typed tokenfactory_tx_proto 6 vars ApiMsgDeleteDenom_fields ApiMsgDeleteDenom_refl
    (MsgDeleteDenom_messageType vars) (MsgDeleteDenom_methods vars) ApiMsgDeleteDenom_Descriptor"
  unfolding message_typed_def MsgDeleteDenom_messageType_def MsgDeleteDenom_methods_def
  by (intro conjI generated_type_ok)
    (simp_all add: tokenfactory_tx_proto_def tokenfactory_proto_MsgDeleteDenom_def typed_eval codec_typed_def refl_typed_def
      ApiMsgDeleteDenom_fields_def ApiMsgDeleteDenom_refl_def ApiMsgDeleteDenom_Descriptor_def tokenfactory_tx_rawDescGZIP_def gzip_once tokenfactory_tx_rawDesc,
     auto simp: ApiMsgDeleteDenom_refl_def ApiMsgDeleteDenom_zero_def RPointer_def RListOf_def)

lemma MsgDeleteDenomResponse_typed:
  "message_typed tokenfactory_tx_proto 7 vars ApiMsgDeleteDenomResponse_fields ApiMsgDeleteDenomResponse_refl
    (MsgDeleteDenomResponse_messageType vars) (MsgDeleteDenomResponse_methods vars) ApiMsgDeleteDenomResponse_Descriptor"
  unfolding message_typed_def MsgDeleteDenomResponse_messageType_def MsgDeleteDenomResponse_methods_def
  by (intro conjI generated_type_ok)
    (simp_all add: tokenfactory_tx_proto_def tokenfactory_proto_MsgDeleteDenomResponse_def typed_eval codec_typed_def refl_typed_def
      ApiMsgDeleteDenomResponse_fields_def ApiMsgDeleteDenomResponse_refl_def ApiMsgDeleteDenomResponse_Descriptor_def tokenfactory_tx_rawDescGZIP_def gzip_once tokenfactory_tx_rawDesc)

lemma QueryParamsRequest_typed:
  "message_typed tokenfactory_query_proto 0 vars ApiQueryParamsRequest_fields ApiQueryParamsRequest_refl
    (QueryParamsRequest_messageType vars) (QueryParamsRequest_methods vars) ApiQueryParamsRequest_Descriptor"
  unfolding message_typed_def QueryParamsRequest_messageType_def QueryParamsRequest_methods_def
  by (intro conjI generated_type_ok)
    (simp_all add: tokenfactory_query_proto_def tokenfactory_proto_QueryParamsRequest_def typed_eval codec_typed_def refl_typed_def
      ApiQueryParamsRequest_fields_def ApiQueryParamsRequest_refl_def ApiQueryParamsRequest_Descriptor_def tokenfactory_query_rawDescGZIP_def gzip_once tokenfactory_query_rawDesc)

lemma QueryParamsResponse_typed:
  "message_typed tokenfactory_query_proto 1 vars (ApiQueryParamsResponse_fields PO) ApiQueryParamsResponse_refl
    (QueryParamsResponse_messageType vars) (QueryParamsResponse_methods vars) ApiQueryParamsResponse_Descriptor"
  unfolding message_typed_def QueryParamsResponse_messageType_def QueryParamsResponse_methods_def
  by (intro conjI generated_type_ok)
    (simp_all add: tokenfactory_query_proto_def tokenfactory_proto_QueryParamsResponse_def typed_eval codec_typed_def refl_typed_def
      ApiQueryParamsResponse_fields_def ApiQueryParamsResponse_refl_def ApiQueryParamsResponse_Descriptor_def tokenfactory_query_rawDescGZIP_def gzip_once tokenfactory_query_rawDesc,
     auto simp: ApiQueryParamsResponse_refl_def ApiQueryParamsResponse_zero_def RPointer_def RListOf_def)

lemma QueryGetDenomRequest_typed:
  "message_typed tokenfactory_query_proto 2 vars ApiQueryGetDenomRequest_fields ApiQueryGetDenomRequest_refl
    (QueryGetDenomRequest_messageType vars) (QueryGetDenomRequest_methods vars) ApiQueryGetDenomRequest_Descriptor"
  unfolding message_typed_def QueryGetDenomRequest_messageType_def QueryGetDenomRequest_methods_def
  by (intro conjI generated_type_ok)
    (simp_all add: tokenfactory_query_proto_def tokenfactory_proto_QueryGetDenomRequest_def typed_eval codec_typed_def refl_typed_def
      ApiQueryGetDenomRequest_fields_def ApiQueryGetDenomRequest_refl_def ApiQueryGetDenomRequest_Descriptor_def tokenfactory_query_rawDescGZIP_def gzip_once tokenfactory_query_rawDesc,
     auto simp: ApiQueryGetDenomRequest_refl_def ApiQueryGetDenomRequest_zero_def RPointer_def RListOf_def)

lemma QueryGetDenomResponse_typed:
  "message_typed tokenfactory_query_proto 3 vars (ApiQueryGetDenomResponse_fields DO) ApiQueryGetDenomResponse_refl
    (QueryGetDenomResponse_messageType vars) (QueryGetDenomResponse_methods vars) ApiQueryGetDenomResponse_Descriptor"
  unfolding message_typed_def QueryGetDenomResponse_messageType_def QueryGetDenomResponse_methods_def
  by (intro conjI generated_type_ok)
    (simp_all add: tokenfactory_query_proto_def tokenfactory_proto_QueryGetDenomResponse_def typed_eval codec_typed_def refl_typed_def
      ApiQueryGetDenomResponse_fields_def ApiQueryGetDenomResponse_refl_def ApiQueryGetDenomResponse_Descriptor_def tokenfactory_query_rawDescGZIP_def gzip_once tokenfactory_query_rawDesc,
     auto simp: ApiQueryGetDenomResponse_refl_def ApiQueryGetDenomResponse_zero_def RPointer_def RListOf_def)

lemma QueryAllDenomRequest_typed:
  "message_typed tokenfactory_query_proto 4 vars (ApiQueryAllDenomRequest_fields page_p page_pO) (ApiQueryAllDenomRequest_refl page_p)
    (QueryAllDenomRequest_messageType vars) (QueryAllDenomRequest_methods vars) ApiQueryAllDenomRequest_Descriptor"
  unfolding message_typed_def QueryAllDenomRequest_messageType_def QueryAllDenomRequest_methods_def
  by (intro conjI generated_type_ok)
    (simp_all add: tokenfactory_query_proto_def tokenfactory_proto_QueryAllDenomRequest_def typed_eval codec_typed_def refl_typed_def
      ApiQueryAllDenomRequest_fields_def ApiQueryAllDenomRequest_refl_def ApiQueryAllDenomRequest_Descriptor_def tokenfactory_query_rawDescGZIP_def gzip_once tokenfactory_query_rawDesc,
     auto simp: ApiQueryAllDenomRequest_refl_def ApiQueryAllDenomRequest_zero_def RPointer_def RListOf_def)

lemma QueryAllDenomResponse_typed:
  "message_typed tokenfactory_query_proto 5 vars (ApiQueryAllDenomResponse_fields page_r DO page_rO) (ApiQueryAllDenomResponse_refl page_r)
    (QueryAllDenomResponse_messageType vars) (QueryAllDenomResponse_methods vars) ApiQueryAllDenomResponse_Descriptor"
  unfolding message_typed_def QueryAllDenomResponse_messageType_def QueryAllDenomResponse_methods_def
  by (intro conjI generated_type_ok)
    (simp_all add: tokenfactory_query_proto_def tokenfactory_proto_QueryAllDenomResponse_def typed_eval codec_typed_def refl_typed_def
      ApiQueryAllDenomResponse_fields_def ApiQueryAllDenomResponse_refl_def ApiQueryAllDenomResponse_Descriptor_def tokenfactory_query_rawDescGZIP_def gzip_once tokenfactory_query_rawDesc,
     auto simp: ApiQueryAllDenomResponse_refl_def ApiQueryAllDenomResponse_zero_def RPointer_def RListOf_def)

lemma Module_typed:
  "message_typed tokenfactory_module_proto 0 vars ApiModule_fields ApiModule_refl
    (Module_messageType vars) (Module_methods vars) ApiModule_Descriptor"
  unfolding message_typed_def Module_messageType_def Module_methods_def
  by (intro conjI generated_type_ok)
    (simp_all add: tokenfactory_module_proto_def tokenfactory_proto_Module_def typed_eval codec_typed_def refl_typed_def
      ApiModule_fields_def ApiModule_refl_def ApiModule_Descriptor_def tokenfactory_module_rawDescGZIP_def gzip_once tokenfactory_module_rawDesc,
     auto simp: ApiModule_refl_def ApiModule_zero_def RPointer_def RListOf_def)

lemma MedasParams_typed:
  "message_typed medasdigital_params_proto 0 vars ApiMedasParams_fields ApiMedasParams_refl
    (MedasParams_messageType vars) (MedasParams_methods vars) ApiMedasParams_Descriptor"
  unfolding message_typed_def MedasParams_messageType_def MedasParams_methods_def
  by (intro conjI generated_type_ok)
    (simp_all add: medasdigital_params_proto_def medasdigital_proto_Params_def typed_eval codec_typed_def refl_typed_def
      ApiMedasParams_fields_def ApiMedasParams_refl_def ApiMedasParams_Descriptor_def medasdigital_params_rawDescGZIP_def gzip_once medasdigital_params_rawDesc)

lemma MedasGenesisState_typed:
  "message_typed medasdigital_genesis_proto 0 vars (ApiMedasGenesisState_fields MO) ApiMedasGenesisState_refl
    (MedasGenesisState_messageType vars) (MedasGenesisState_methods vars) ApiMedasGenesisState_Descriptor"
  unfolding message_typed_def MedasGenesisState_messageType_def MedasGenesisState_methods_def
  by (intro conjI generated_type_ok)
    (simp_all add: medasdigital_genesis_proto_def medasdigital_proto_GenesisState_def typed_eval codec_typed_def refl_typed_def
      ApiMedasGenesisState_fields_def ApiMedasGenesisState_refl_def ApiMedasGenesisState_Descriptor_def medasdigital_genesis_rawDescGZIP_def gzip_once medasdigital_genesis_rawDesc,
     auto simp: ApiMedasGenesisState_refl_def ApiMedasGenesisState_zero_def RPointer_def RListOf_def)

lemma MedasMsgUpdateParams_typed:
  "message_typed medasdigital_tx_proto 0 vars (ApiMedasMsgUpdateParams_fields MO) ApiMedasMsgUpdateParams_refl
    (MedasMsgUpdateParams_messageType vars) (MedasMsgUpdateParams_methods vars) ApiMedasMsgUpdateParams_Descriptor"
  unfolding message_typed_def MedasMsgUpdateParams_messageType_def MedasMsgUpdateParams_methods_def
  by (intro conjI generated_type_ok)
    (simp_all add: medasdigital_tx_proto_def medasdigital_proto_MsgUpdateParams_def typed_eval codec_typed_def refl_typed_def
      ApiMedasMsgUpdateParams_fields_def ApiMedasMsgUpdateParams_refl_def ApiMedasMsgUpdateParams_Descriptor_def medasdigital_tx_rawDescGZIP_def gzip_once medasdigital_tx_rawDesc,
     auto simp: ApiMedasMsgUpdateParams_refl_def ApiMedasMsgUpdateParams_zero_def RPointer_def RListOf_def)

lemma MedasMsgUpdateParamsResponse_typed:
  "message_typed medasdigital_tx_proto 1 vars ApiMedasMsgUpdateParamsResponse_fields ApiMedasMsgUpdateParamsResponse_refl
    (MedasMsgUpdateParamsResponse_messageType vars) (MedasMsgUpdateParamsResponse_methods vars) ApiMedasMsgUpdateParamsResponse_Descriptor"
  unfolding message_typed_def MedasMsgUpdateParamsResponse_messageType_def MedasMsgUpdateParamsResponse_methods_def
  by (intro conjI generated_type_ok)
    (simp_all add: medasdigital_tx_proto_def medasdigital_proto_MsgUpdateParamsResponse_def typed_eval codec_typed_def refl_typed_def
      ApiMedasMsgUpdateParamsResponse_fields_def ApiMedasMsgUpdateParamsResponse_refl_def ApiMedasMsgUpdateParamsResponse_Descriptor_def medasdigital_tx_rawDescGZIP_def gzip_once medasdigital_tx_rawDesc)

lemma MedasQueryParamsRequest_typed:
  "message_typed medasdigital_query_proto 0 vars ApiMedasQueryParamsRequest_fields ApiMedasQueryParamsRequest_refl
    (MedasQueryParamsRequest_messageType vars) (MedasQueryParamsRequest_methods vars) ApiMedasQueryParamsRequest_Descriptor"
  unfolding message_typed_def MedasQueryParamsRequest_messageType_def MedasQueryParamsRequest_methods_def
  by (intro conjI generated_type_ok)
    (simp_all add: medasdigital_query_proto_def medasdigital_proto_QueryParamsRequest_def typed_eval codec_typed_def refl_typed_def
      ApiMedasQueryParamsRequest_fields_def ApiMedasQueryParamsRequest_refl_def ApiMedasQueryParamsRequest_Descriptor_def medasdigital_query_rawDescGZIP_def gzip_once medasdigital_query_rawDesc)

lemma MedasQueryParamsResponse_typed:
  "message_typed medasdigital_query_proto 1 vars (ApiMedasQueryParamsResponse_fields MO) ApiMedasQueryParamsResponse_refl
    (MedasQueryParamsResponse_messageType vars) (MedasQueryParamsResponse_methods vars) ApiMedasQueryParamsResponse_Descriptor"
  unfolding message_typed_def MedasQueryParamsResponse_messageType_def MedasQueryParamsResponse_methods_def
  by (intro conjI generated_type_ok)
    (simp_all add: medasdigital_query_proto_def medasdigital_proto_QueryParamsResponse_def typed_eval codec_typed_def refl_typed_def
      ApiMedasQueryParamsResponse_fields_def ApiMedasQueryParamsResponse_refl_def ApiMedasQueryParamsResponse_Descriptor_def medasdigital_query_rawDescGZIP_def gzip_once medasdigital_query_rawDesc,
     auto simp: ApiMedasQueryParamsResponse_refl_def ApiMedasQueryParamsResponse_zero_def RPointer_def RListOf_def)

lemma MedasModule_typed:
  "message_typed medasdigital_module_proto 0 vars ApiMedasModule_fields ApiMedasModule_refl
    (MedasModule_messageType vars) (MedasModule_methods vars) ApiMedasModule_Descriptor"
  unfolding message_typed_def MedasModule_messageType_def MedasModule_methods_def
  by (intro conjI generated_type_ok)
    (simp_all add: medasdigital_module_proto_def medasdigital_proto_Module_def typed_eval codec_typed_def refl_typed_def
      ApiMedasModule_fields_def ApiMedasModule_refl_def ApiMedasModule_Descriptor_def medasdigital_module_rawDescGZIP_def gzip_once medasdigital_module_rawDesc,
     auto simp: ApiMedasModule_refl_def ApiMedasModule_zero_def RPointer_def RListOf_def)

text \<open>The codec of \<open>x/*/types\<close>.\<close>

lemma Params_codec_typed: "codec_typed tokenfactory_proto_Params Params_fields"
  by (simp add: codec_typed_def tokenfactory_proto_Params_def typed_eval Params_fields_def)

lemma Denom_codec_typed: "codec_typed tokenfactory_proto_Denom Denom_fields"
  by (simp add: codec_typed_def tokenfactory_proto_Denom_def typed_eval Denom_fields_def)

lemma GenesisState_codec_typed: "codec_typed tokenfactory_proto_GenesisState GenesisState_fields"
  by (simp add: codec_typed_def tokenfactory_proto_GenesisState_def typed_eval GenesisState_fields_def)

lemma MsgUpdateParams_codec_typed: "codec_typed tokenfactory_proto_MsgUpdateParams MsgUpdateParams_fields"
  by (simp add: codec_typed_def tokenfactory_proto_MsgUpdateParams_def typed_eval MsgUpdateParams_fields_def)

lemma MsgUpdateParamsResponse_codec_typed: "codec_typed tokenfactory_proto_MsgUpdateParamsResponse MsgUpdateParamsResponse_fields"
  by (simp add: codec_typed_def tokenfactory_proto_MsgUpdateParamsResponse_def typed_eval MsgUpdateParamsResponse_fields_def)

lemma MsgCreateDenom_codec_typed: "codec_typed tokenfactory_proto_MsgCreateDenom MsgCreateDenom_fields"
  by (simp add: codec_typed_def tokenfactory_proto_MsgCreateDenom_def typed_eval MsgCreateDenom_fields_def)

lemma MsgCreateDenomResponse_codec_typed: "codec_typed tokenfactory_proto_MsgCreateDenomResponse MsgCreateDenomResponse_fields"
  by (simp add: codec_typed_def tokenfactory_proto_MsgCreateDenomResponse_def typed_eval MsgCreateDenomResponse_fields_def)

lemma MsgUpdateDenom_codec_typed: "codec_typed tokenfactory_proto_MsgUpdateDenom MsgUpdateDenom_fields"
  by (simp add: codec_typed_def tokenfactory_proto_MsgUpdateDenom_def typed_eval MsgUpdateDenom_fields_def)

lemma MsgUpdateDenomResponse_codec_typed: "codec_typed tokenfactory_proto_MsgUpdateDenomResponse MsgUpdateDenomResponse_fields"
  by (simp add: codec_typed_def tokenfactory_proto_MsgUpdateDenomResponse_def typed_eval MsgUpdateDenomResponse_fields_def)

lemma MsgDeleteDenom_codec_typed: "codec_typed tokenfactory_proto_MsgDeleteDenom MsgDeleteDenom_fields"
  by (simp add: codec_typed_def tokenfactory_proto_MsgDeleteDenom_def typed_eval MsgDeleteDenom_fields_def)

lemma MsgDeleteDenomResponse_codec_typed: "codec_typed tokenfactory_proto_MsgDeleteDenomResponse MsgDeleteDenomResponse_fields"
  by (simp add: codec_typed_def tokenfactory_proto_MsgDeleteDenomResponse_def typed_eval MsgDeleteDenomResponse_fields_def)

lemma QueryParamsRequest_codec_typed: "codec_typed tokenfactory_proto_QueryParamsRequest QueryParamsRequest_fields"
  by (simp add: codec_typed_def tokenfactory_proto_QueryParamsRequest_def typed_eval QueryParamsRequest_fields_def)

lemma QueryParamsResponse_codec_typed: "codec_typed tokenfactory_proto_QueryParamsResponse QueryParamsResponse_fields"
  by (simp add: codec_typed_def tokenfactory_proto_QueryParamsResponse_def typed_eval QueryParamsResponse_fields_def)

lemma QueryGetDenomRequest_codec_typed: "codec_typed tokenfactory_proto_QueryGetDenomRequest QueryGetDenomRequest_fields"
  by (simp add: codec_typed_def tokenfactory_proto_QueryGetDenomRequest_def typed_eval QueryGetDenomRequest_fields_def)

lemma QueryGetDenomResponse_codec_typed: "codec_typed tokenfactory_proto_QueryGetDenomResponse QueryGetDenomResponse_fields"
  by (simp add: codec_typed_def tokenfactory_proto_QueryGetDenomResponse_def typed_eval QueryGetDenomResponse_fields_def)

lemma QueryAllDenomRequest_codec_typed: "codec_typed tokenfactory_proto_QueryAllDenomRequest (QueryAllDenomRequest_fields Ep)"
  by (simp add: codec_typed_def tokenfactory_proto_QueryAllDenomRequest_def typed_eval QueryAllDenomRequest_fields_def)

lemma QueryAllDenomResponse_codec_typed: "codec_typed tokenfactory_proto_QueryAllDenomResponse (QueryAllDenomResponse_fields Er)"
  by (simp add: codec_typed_def tokenfactory_proto_QueryAllDenomResponse_def typed_eval QueryAllDenomResponse_fields_def)

lemma MedasParams_codec_typed: "codec_typed medasdigital_proto_Params MedasParams_fields"
  by (simp add: codec_typed_def medasdigital_proto_Params_def typed_eval MedasParams_fields_def)

lemma MedasGenesisState_codec_typed: "codec_typed medasdigital_proto_GenesisState MedasGenesisState_fields"
  by (simp add: codec_typed_def medasdigital_proto_GenesisState_def typed_eval MedasGenesisState_fields_def)

lemma MedasMsgUpdateParams_codec_typed: "codec_typed medasdigital_proto_MsgUpdateParams MedasMsgUpdateParams_fields"
  by (simp add: codec_typed_def medasdigital_proto_MsgUpdateParams_def typed_eval MedasMsgUpdateParams_fields_def)

lemma MedasMsgUpdateParamsResponse_codec_typed: "codec_typed medasdigital_proto_MsgUpdateParamsResponse MedasMsgUpdateParamsResponse_fields"
  by (simp add: codec_typed_def medasdigital_proto_MsgUpdateParamsResponse_def typed_eval MedasMsgUpdateParamsResponse_fields_def)

lemma MedasQueryParamsRequest_codec_typed: "codec_typed medasdigital_proto_QueryParamsRequest MedasQueryParamsRequest_fields"
  by (simp add: codec_typed_def medasdigital_proto_QueryParamsRequest_def typed_eval MedasQueryParamsRequest_fields_def)

lemma MedasQueryParamsResponse_codec_typed: "codec_typed medasdigital_proto_QueryParamsResponse MedasQueryParamsResponse_fields"
  by (simp add: codec_typed_def medasdigital_proto_QueryParamsResponse_def typed_eval MedasQueryParamsResponse_fields_def)

section \<open>Initialization\<close>

lemma api_files_described: "(tb, p) \<in> set (api_files U) \<Longrightarrow> describes tb p"
  by (auto simp: api_files_def files_described)

definition api_built :: "build_fun \<Rightarrow> bool \<Rightarrow> bool" where
  "api_built Build U \<longleftrightarrow> (\<forall>(tb, p) \<in> set (api_files U). builds_file Build ((\<lambda>(tb, p). p_name p) ` set (api_files U)) tb p)"

lemma api_init_good:
  assumes "api_built Build U" and "(tb, p) \<in> set (api_files U)"
    and "\<forall>init \<in> set imported. \<exists>tb p. init_good (api_files U) init tb p" and "name = p_name p"
    and "\<And>q tb'. (tb', q) \<in> set (api_files U) \<Longrightarrow> p_name q \<in> set (p_imports p) \<Longrightarrow>
      \<exists>init \<in> set imported. \<exists>tb. init_good (api_files U) init tb q"
  shows "init_good (api_files U) (file_init Build name imported tb) tb p"
proof -
  have "describes tb p"
    using assms(2) by (rule api_files_described)
  then show ?thesis
    using file_init_good [OF assms(2) _ _ api_files_distinct assms(3,5)] assms(1,2)
    by (auto simp: assms(4) api_built_def)
qed

text \<open>The files of the repository that each of them imports.\<close>

lemma file_names:
  "p_name tokenfactory_params_proto = ''medasdigital/tokenfactory/params.proto''"
  "p_name tokenfactory_denom_proto = ''medasdigital/tokenfactory/denom.proto''"
  "p_name tokenfactory_genesis_proto = ''medasdigital/tokenfactory/genesis.proto''"
  "p_name tokenfactory_tx_proto = ''medasdigital/tokenfactory/tx.proto''"
  "p_name tokenfactory_query_proto = ''medasdigital/tokenfactory/query.proto''"
  "p_name tokenfactory_module_proto = ''medasdigital/tokenfactory/module/module.proto''"
  "p_name medasdigital_params_proto = ''medasdigital/medasdigital/params.proto''"
  "p_name medasdigital_genesis_proto = ''medasdigital/medasdigital/genesis.proto''"
  "p_name medasdigital_tx_proto = ''medasdigital/medasdigital/tx.proto''"
  "p_name medasdigital_query_proto = ''medasdigital/medasdigital/query.proto''"
  "p_name medasdigital_module_proto = ''medasdigital/medasdigital/module/module.proto''"
  by (simp_all add: file_protos)

lemma file_imports:
  "p_imports tokenfactory_params_proto = [''amino/amino.proto'',
      ''gogoproto/gogo.proto'']"
  "p_imports tokenfactory_denom_proto = []"
  "p_imports tokenfactory_genesis_proto = [''amino/amino.proto'',
      ''gogoproto/gogo.proto'',
      ''medasdigital/tokenfactory/params.proto'',
      ''medasdigital/tokenfactory/denom.proto'']"
  "p_imports tokenfactory_tx_proto = [''amino/amino.proto'',
      ''cosmos/msg/v1/msg.proto'',
      ''cosmos_proto/cosmos.proto'',
      ''gogoproto/gogo.proto'',
      ''medasdigital/tokenfactory/params.proto'',
      ''medasdigital/tokenfactory/denom.proto'']"
  "p_imports tokenfactory_query_proto = [''amino/amino.proto'',
      ''gogoproto/gogo.proto'',
      ''google/api/annotations.proto'',
      ''cosmos/base/query/v1beta1/pagination.proto'',
      ''medasdigital/tokenfactory/params.proto'',
      ''medasdigital/tokenfactory/denom.proto'']"
  "p_imports tokenfactory_module_proto = [''cosmos/app/v1alpha1/module.proto'']"
  "p_imports medasdigital_params_proto = [''amino/amino.proto'',
      ''gogoproto/gogo.proto'']"
  "p_imports medasdigital_genesis_proto = [''amino/amino.proto'',
      ''gogoproto/gogo.proto'',
      ''medasdigital/medasdigital/params.proto'']"
  "p_imports medasdigital_tx_proto = [''amino/amino.proto'',
      ''cosmos/msg/v1/msg.proto'',
      ''cosmos_proto/cosmos.proto'',
      ''gogoproto/gogo.proto'',
      ''medasdigital/medasdigital/params.proto'']"
  "p_imports medasdigital_query_proto = [''amino/amino.proto'',
      ''gogoproto/gogo.proto'',
      ''google/api/annotations.proto'',
      ''cosmos/base/query/v1beta1/pagination.proto'',
      ''medasdigital/medasdigital/params.proto'']"
  "p_imports medasdigital_module_proto = [''cosmos/app/v1alpha1/module.proto'']"
  by (simp_all add: file_protos)

lemma api_imports:
  assumes "(tb, q) \<in> set (api_files U)"
  shows "p_name q \<in> set (p_imports tokenfactory_params_proto) \<Longrightarrow> False"
    "p_name q \<in> set (p_imports tokenfactory_denom_proto) \<Longrightarrow> False"
    "p_name q \<in> set (p_imports tokenfactory_genesis_proto) \<Longrightarrow> q \<in> {tokenfactory_params_proto, tokenfactory_denom_proto}"
    "p_name q \<in> set (p_imports tokenfactory_tx_proto) \<Longrightarrow> q \<in> {tokenfactory_params_proto, tokenfactory_denom_proto}"
    "p_name q \<in> set (p_imports tokenfactory_query_proto) \<Longrightarrow> q \<in> {tokenfactory_params_proto, tokenfactory_denom_proto}"
    "p_name q \<in> set (p_imports tokenfactory_module_proto) \<Longrightarrow> False"
    "p_name q \<in> set (p_imports medasdigital_params_proto) \<Longrightarrow> False"
    "p_name q \<in> set (p_imports medasdigital_genesis_proto) \<Longrightarrow> q \<in> {medasdigital_params_proto}"
    "p_name q \<in> set (p_imports medasdigital_tx_proto) \<Longrightarrow> q \<in> {medasdigital_params_proto}"
    "p_name q \<in> set (p_imports medasdigital_query_proto) \<Longrightarrow> q \<in> {medasdigital_params_proto}"
    "p_name q \<in> set (p_imports medasdigital_module_proto) \<Longrightarrow> False"
proof -
  have "q \<in> snd ` set (api_files U)" using assms by force
  then have q: "q \<in> {tokenfactory_params_proto,
      tokenfactory_denom_proto,
      tokenfactory_genesis_proto,
      tokenfactory_tx_proto,
      tokenfactory_query_proto,
      tokenfactory_module_proto,
      medasdigital_params_proto,
      medasdigital_genesis_proto,
      medasdigital_tx_proto,
      medasdigital_query_proto,
      medasdigital_module_proto}"
    by (simp add: api_files_def)
  show "p_name q \<in> set (p_imports tokenfactory_params_proto) \<Longrightarrow> False"
    using q by (elim insertE emptyE; simp add: file_names file_imports)
  show "p_name q \<in> set (p_imports tokenfactory_denom_proto) \<Longrightarrow> False"
    using q by (elim insertE emptyE; simp add: file_names file_imports)
  show "p_name q \<in> set (p_imports tokenfactory_genesis_proto) \<Longrightarrow> q \<in> {tokenfactory_params_proto, tokenfactory_denom_proto}"
    using q by (elim insertE emptyE; simp add: file_names file_imports)
  show "p_name q \<in> set (p_imports tokenfactory_tx_proto) \<Longrightarrow> q \<in> {tokenfactory_params_proto, tokenfactory_denom_proto}"
    using q by (elim insertE emptyE; simp add: file_names file_imports)
  show "p_name q \<in> set (p_imports tokenfactory_query_proto) \<Longrightarrow> q \<in> {tokenfactory_params_proto, tokenfactory_denom_proto}"
    using q by (elim insertE emptyE; simp add: file_names file_imports)
  show "p_name q \<in> set (p_imports tokenfactory_module_proto) \<Longrightarrow> False"
    using q by (elim insertE emptyE; simp add: file_names file_imports)
  show "p_name q \<in> set (p_imports medasdigital_params_proto) \<Longrightarrow> False"
    using q by (elim insertE emptyE; simp add: file_names file_imports)
  show "p_name q \<in> set (p_imports medasdigital_genesis_proto) \<Longrightarrow> q \<in> {medasdigital_params_proto}"
    using q by (elim insertE emptyE; simp add: file_names file_imports)
  show "p_name q \<in> set (p_imports medasdigital_tx_proto) \<Longrightarrow> q \<in> {medasdigital_params_proto}"
    using q by (elim insertE emptyE; simp add: file_names file_imports)
  show "p_name q \<in> set (p_imports medasdigital_query_proto) \<Longrightarrow> q \<in> {medasdigital_params_proto}"
    using q by (elim insertE emptyE; simp add: file_names file_imports)
  show "p_name q \<in> set (p_imports medasdigital_module_proto) \<Longrightarrow> False"
    using q by (elim insertE emptyE; simp add: file_names file_imports)
qed

lemma tokenfactory_params_good:
  assumes "api_built Build U"
  shows "init_good (api_files U) (tokenfactory_params_init Build U) (tokenfactory_params_builder U) tokenfactory_params_proto"
  unfolding tokenfactory_params_init_def
  by (rule api_init_good [OF assms])
    (simp add: api_files_def, simp, simp add: file_protos, drule (1) api_imports(1), simp)

lemma tokenfactory_denom_good:
  assumes "api_built Build U"
  shows "init_good (api_files U) (tokenfactory_denom_init Build U) (tokenfactory_denom_builder U) tokenfactory_denom_proto"
  unfolding tokenfactory_denom_init_def
  by (rule api_init_good [OF assms])
    (simp add: api_files_def, simp, simp add: file_protos, drule (1) api_imports(2), simp)

lemma tokenfactory_genesis_good:
  assumes "api_built Build U"
  shows "init_good (api_files U) (tokenfactory_genesis_init Build U) (tokenfactory_genesis_builder U) tokenfactory_genesis_proto"
  unfolding tokenfactory_genesis_init_def
  by (rule api_init_good [OF assms])
    (simp add: api_files_def, use tokenfactory_params_good [OF assms] tokenfactory_denom_good [OF assms] in auto,
      simp add: file_protos, drule (1) api_imports(3), use tokenfactory_params_good [OF assms] tokenfactory_denom_good [OF assms] in auto)

lemma tokenfactory_tx_good:
  assumes "api_built Build U"
  shows "init_good (api_files U) (tokenfactory_tx_init Build U) (tokenfactory_tx_builder U) tokenfactory_tx_proto"
  unfolding tokenfactory_tx_init_def
  by (rule api_init_good [OF assms])
    (simp add: api_files_def, use tokenfactory_params_good [OF assms] tokenfactory_denom_good [OF assms] in auto,
      simp add: file_protos, drule (1) api_imports(4), use tokenfactory_params_good [OF assms] tokenfactory_denom_good [OF assms] in auto)

lemma tokenfactory_query_good:
  assumes "api_built Build U"
  shows "init_good (api_files U) (tokenfactory_query_init Build U) (tokenfactory_query_builder U) tokenfactory_query_proto"
  unfolding tokenfactory_query_init_def
  by (rule api_init_good [OF assms])
    (simp add: api_files_def, use tokenfactory_params_good [OF assms] tokenfactory_denom_good [OF assms] in auto,
      simp add: file_protos, drule (1) api_imports(5), use tokenfactory_params_good [OF assms] tokenfactory_denom_good [OF assms] in auto)

lemma tokenfactory_module_good:
  assumes "api_built Build U"
  shows "init_good (api_files U) (tokenfactory_module_init Build U) (tokenfactory_module_builder U) tokenfactory_module_proto"
  unfolding tokenfactory_module_init_def
  by (rule api_init_good [OF assms])
    (simp add: api_files_def, simp, simp add: file_protos, drule (1) api_imports(6), simp)

lemma medasdigital_params_good:
  assumes "api_built Build U"
  shows "init_good (api_files U) (medasdigital_params_init Build U) (medasdigital_params_builder U) medasdigital_params_proto"
  unfolding medasdigital_params_init_def
  by (rule api_init_good [OF assms])
    (simp add: api_files_def, simp, simp add: file_protos, drule (1) api_imports(7), simp)

lemma medasdigital_genesis_good:
  assumes "api_built Build U"
  shows "init_good (api_files U) (medasdigital_genesis_init Build U) (medasdigital_genesis_builder U) medasdigital_genesis_proto"
  unfolding medasdigital_genesis_init_def
  by (rule api_init_good [OF assms])
    (simp add: api_files_def, use medasdigital_params_good [OF assms] in auto,
      simp add: file_protos, drule (1) api_imports(8), use medasdigital_params_good [OF assms] in auto)

lemma medasdigital_tx_good:
  assumes "api_built Build U"
  shows "init_good (api_files U) (medasdigital_tx_init Build U) (medasdigital_tx_builder U) medasdigital_tx_proto"
  unfolding medasdigital_tx_init_def
  by (rule api_init_good [OF assms])
    (simp add: api_files_def, use medasdigital_params_good [OF assms] in auto,
      simp add: file_protos, drule (1) api_imports(9), use medasdigital_params_good [OF assms] in auto)

lemma medasdigital_query_good:
  assumes "api_built Build U"
  shows "init_good (api_files U) (medasdigital_query_init Build U) (medasdigital_query_builder U) medasdigital_query_proto"
  unfolding medasdigital_query_init_def
  by (rule api_init_good [OF assms])
    (simp add: api_files_def, use medasdigital_params_good [OF assms] in auto,
      simp add: file_protos, drule (1) api_imports(10), use medasdigital_params_good [OF assms] in auto)

lemma medasdigital_module_good:
  assumes "api_built Build U"
  shows "init_good (api_files U) (medasdigital_module_init Build U) (medasdigital_module_builder U) medasdigital_module_proto"
  unfolding medasdigital_module_init_def
  by (rule api_init_good [OF assms])
    (simp add: api_files_def, simp, simp add: file_protos, drule (1) api_imports(11), simp)

lemma init_Params_good:
  assumes "api_built Build U"
  shows "message_good (api_files U) (init_Params Build U) (tokenfactory_params_builder U) tokenfactory_params_proto 0"
  by (rule message_init_good [OF init_Params_def tokenfactory_params_good [OF assms]])
    (simp_all add: tokenfactory_params_proto_def message_protos typed_eval)

lemma init_Denom_good:
  assumes "api_built Build U"
  shows "message_good (api_files U) (init_Denom Build U) (tokenfactory_denom_builder U) tokenfactory_denom_proto 0"
  by (rule message_init_good [OF init_Denom_def tokenfactory_denom_good [OF assms]])
    (simp_all add: tokenfactory_denom_proto_def message_protos typed_eval)

lemma init_GenesisState_good:
  assumes "api_built Build U"
  shows "message_good (api_files U) (init_GenesisState Build U) (tokenfactory_genesis_builder U) tokenfactory_genesis_proto 0"
  by (rule message_init_good [OF init_GenesisState_def tokenfactory_genesis_good [OF assms]])
    (simp_all add: tokenfactory_genesis_proto_def message_protos typed_eval)

lemma init_MsgUpdateParams_good:
  assumes "api_built Build U"
  shows "message_good (api_files U) (init_MsgUpdateParams Build U) (tokenfactory_tx_builder U) tokenfactory_tx_proto 0"
  by (rule message_init_good [OF init_MsgUpdateParams_def tokenfactory_tx_good [OF assms]])
    (simp_all add: tokenfactory_tx_proto_def message_protos typed_eval)

lemma init_MsgUpdateParamsResponse_good:
  assumes "api_built Build U"
  shows "message_good (api_files U) (init_MsgUpdateParamsResponse Build U) (tokenfactory_tx_builder U) tokenfactory_tx_proto 1"
  by (rule message_init_good [OF init_MsgUpdateParamsResponse_def tokenfactory_tx_good [OF assms]])
    (simp_all add: tokenfactory_tx_proto_def message_protos typed_eval)

lemma init_MsgCreateDenom_good:
  assumes "api_built Build U"
  shows "message_good (api_files U) (init_MsgCreateDenom Build U) (tokenfactory_tx_builder U) tokenfactory_tx_proto 2"
  by (rule message_init_good [OF init_MsgCreateDenom_def tokenfactory_tx_good [OF assms]])
    (simp_all add: tokenfactory_tx_proto_def message_protos typed_eval)

lemma init_MsgCreateDenomResponse_good:
  assumes "api_built Build U"
  shows "message_good (api_files U) (init_MsgCreateDenomResponse Build U) (tokenfactory_tx_builder U) tokenfactory_tx_proto 3"
  by (rule message_init_good [OF init_MsgCreateDenomResponse_def tokenfactory_tx_good [OF assms]])
    (simp_all add: tokenfactory_tx_proto_def message_protos typed_eval)

lemma init_MsgUpdateDenom_good:
  assumes "api_built Build U"
  shows "message_good (api_files U) (init_MsgUpdateDenom Build U) (tokenfactory_tx_builder U) tokenfactory_tx_proto 4"
  by (rule message_init_good [OF init_MsgUpdateDenom_def tokenfactory_tx_good [OF assms]])
    (simp_all add: tokenfactory_tx_proto_def message_protos typed_eval)

lemma init_MsgUpdateDenomResponse_good:
  assumes "api_built Build U"
  shows "message_good (api_files U) (init_MsgUpdateDenomResponse Build U) (tokenfactory_tx_builder U) tokenfactory_tx_proto 5"
  by (rule message_init_good [OF init_MsgUpdateDenomResponse_def tokenfactory_tx_good [OF assms]])
    (simp_all add: tokenfactory_tx_proto_def message_protos typed_eval)

lemma init_MsgDeleteDenom_good:
  assumes "api_built Build U"
  shows "message_good (api_files U) (init_MsgDeleteDenom Build U) (tokenfactory_tx_builder U) tokenfactory_tx_proto 6"
  by (rule message_init_good [OF init_MsgDeleteDenom_def tokenfactory_tx_good [OF assms]])
    (simp_all add: tokenfactory_tx_proto_def message_protos typed_eval)

lemma init_MsgDeleteDenomResponse_good:
  assumes "api_built Build U"
  shows "message_good (api_files U) (init_MsgDeleteDenomResponse Build U) (tokenfactory_tx_builder U) tokenfactory_tx_proto 7"
  by (rule message_init_good [OF init_MsgDeleteDenomResponse_def tokenfactory_tx_good [OF assms]])
    (simp_all add: tokenfactory_tx_proto_def message_protos typed_eval)

lemma init_QueryParamsRequest_good:
  assumes "api_built Build U"
  shows "message_good (api_files U) (init_QueryParamsRequest Build U) (tokenfactory_query_builder U) tokenfactory_query_proto 0"
  by (rule message_init_good [OF init_QueryParamsRequest_def tokenfactory_query_good [OF assms]])
    (simp_all add: tokenfactory_query_proto_def message_protos typed_eval)

lemma init_QueryParamsResponse_good:
  assumes "api_built Build U"
  shows "message_good (api_files U) (init_QueryParamsResponse Build U) (tokenfactory_query_builder U) tokenfactory_query_proto 1"
  by (rule message_init_good [OF init_QueryParamsResponse_def tokenfactory_query_good [OF assms]])
    (simp_all add: tokenfactory_query_proto_def message_protos typed_eval)

lemma init_QueryGetDenomRequest_good:
  assumes "api_built Build U"
  shows "message_good (api_files U) (init_QueryGetDenomRequest Build U) (tokenfactory_query_builder U) tokenfactory_query_proto 2"
  by (rule message_init_good [OF init_QueryGetDenomRequest_def tokenfactory_query_good [OF assms]])
    (simp_all add: tokenfactory_query_proto_def message_protos typed_eval)

lemma init_QueryGetDenomResponse_good:
  assumes "api_built Build U"
  shows "message_good (api_files U) (init_QueryGetDenomResponse Build U) (tokenfactory_query_builder U) tokenfactory_query_proto 3"
  by (rule message_init_good [OF init_QueryGetDenomResponse_def tokenfactory_query_good [OF assms]])
    (simp_all add: tokenfactory_query_proto_def message_protos typed_eval)

lemma init_QueryAllDenomRequest_good:
  assumes "api_built Build U"
  shows "message_good (api_files U) (init_QueryAllDenomRequest Build U) (tokenfactory_query_builder U) tokenfactory_query_proto 4"
  by (rule message_init_good [OF init_QueryAllDenomRequest_def tokenfactory_query_good [OF assms]])
    (simp_all add: tokenfactory_query_proto_def message_protos typed_eval)

lemma init_QueryAllDenomResponse_good:
  assumes "api_built Build U"
  shows "message_good (api_files U) (init_QueryAllDenomResponse Build U) (tokenfactory_query_builder U) tokenfactory_query_proto 5"
  by (rule message_init_good [OF init_QueryAllDenomResponse_def tokenfactory_query_good [OF assms]])
    (simp_all add: tokenfactory_query_proto_def message_protos typed_eval)

lemma init_Module_good:
  assumes "api_built Build U"
  shows "message_good (api_files U) (init_Module Build U) (tokenfactory_module_builder U) tokenfactory_module_proto 0"
  by (rule message_init_good [OF init_Module_def tokenfactory_module_good [OF assms]])
    (simp_all add: tokenfactory_module_proto_def message_protos typed_eval)

lemma init_MedasParams_good:
  assumes "api_built Build U"
  shows "message_good (api_files U) (init_MedasParams Build U) (medasdigital_params_builder U) medasdigital_params_proto 0"
  by (rule message_init_good [OF init_MedasParams_def medasdigital_params_good [OF assms]])
    (simp_all add: medasdigital_params_proto_def message_protos typed_eval)

lemma init_MedasGenesisState_good:
  assumes "api_built Build U"
  shows "message_good (api_files U) (init_MedasGenesisState Build U) (medasdigital_genesis_builder U) medasdigital_genesis_proto 0"
  by (rule message_init_good [OF init_MedasGenesisState_def medasdigital_genesis_good [OF assms]])
    (simp_all add: medasdigital_genesis_proto_def message_protos typed_eval)

lemma init_MedasMsgUpdateParams_good:
  assumes "api_built Build U"
  shows "message_good (api_files U) (init_MedasMsgUpdateParams Build U) (medasdigital_tx_builder U) medasdigital_tx_proto 0"
  by (rule message_init_good [OF init_MedasMsgUpdateParams_def medasdigital_tx_good [OF assms]])
    (simp_all add: medasdigital_tx_proto_def message_protos typed_eval)

lemma init_MedasMsgUpdateParamsResponse_good:
  assumes "api_built Build U"
  shows "message_good (api_files U) (init_MedasMsgUpdateParamsResponse Build U) (medasdigital_tx_builder U) medasdigital_tx_proto 1"
  by (rule message_init_good [OF init_MedasMsgUpdateParamsResponse_def medasdigital_tx_good [OF assms]])
    (simp_all add: medasdigital_tx_proto_def message_protos typed_eval)

lemma init_MedasQueryParamsRequest_good:
  assumes "api_built Build U"
  shows "message_good (api_files U) (init_MedasQueryParamsRequest Build U) (medasdigital_query_builder U) medasdigital_query_proto 0"
  by (rule message_init_good [OF init_MedasQueryParamsRequest_def medasdigital_query_good [OF assms]])
    (simp_all add: medasdigital_query_proto_def message_protos typed_eval)

lemma init_MedasQueryParamsResponse_good:
  assumes "api_built Build U"
  shows "message_good (api_files U) (init_MedasQueryParamsResponse Build U) (medasdigital_query_builder U) medasdigital_query_proto 1"
  by (rule message_init_good [OF init_MedasQueryParamsResponse_def medasdigital_query_good [OF assms]])
    (simp_all add: medasdigital_query_proto_def message_protos typed_eval)

lemma init_MedasModule_good:
  assumes "api_built Build U"
  shows "message_good (api_files U) (init_MedasModule Build U) (medasdigital_module_builder U) medasdigital_module_proto 0"
  by (rule message_init_good [OF init_MedasModule_def medasdigital_module_good [OF assms]])
    (simp_all add: medasdigital_module_proto_def message_protos typed_eval)

definition api_inits ::
  "build_fun \<Rightarrow> bool \<Rightarrow> ((file_vars \<Rightarrow> refl_error + file_vars \<times> message_vars) \<times> type_builder \<times> file_spec \<times> nat) list"
where
  "api_inits Build U =
     [(init_Params Build U, tokenfactory_params_builder U, tokenfactory_params_proto, 0),
      (init_Denom Build U, tokenfactory_denom_builder U, tokenfactory_denom_proto, 0),
      (init_GenesisState Build U, tokenfactory_genesis_builder U, tokenfactory_genesis_proto, 0),
      (init_MsgUpdateParams Build U, tokenfactory_tx_builder U, tokenfactory_tx_proto, 0),
      (init_MsgUpdateParamsResponse Build U, tokenfactory_tx_builder U, tokenfactory_tx_proto, 1),
      (init_MsgCreateDenom Build U, tokenfactory_tx_builder U, tokenfactory_tx_proto, 2),
      (init_MsgCreateDenomResponse Build U, tokenfactory_tx_builder U, tokenfactory_tx_proto, 3),
      (init_MsgUpdateDenom Build U, tokenfactory_tx_builder U, tokenfactory_tx_proto, 4),
      (init_MsgUpdateDenomResponse Build U, tokenfactory_tx_builder U, tokenfactory_tx_proto, 5),
      (init_MsgDeleteDenom Build U, tokenfactory_tx_builder U, tokenfactory_tx_proto, 6),
      (init_MsgDeleteDenomResponse Build U, tokenfactory_tx_builder U, tokenfactory_tx_proto, 7),
      (init_QueryParamsRequest Build U, tokenfactory_query_builder U, tokenfactory_query_proto, 0),
      (init_QueryParamsResponse Build U, tokenfactory_query_builder U, tokenfactory_query_proto, 1),
      (init_QueryGetDenomRequest Build U, tokenfactory_query_builder U, tokenfactory_query_proto, 2),
      (init_QueryGetDenomResponse Build U, tokenfactory_query_builder U, tokenfactory_query_proto, 3),
      (init_QueryAllDenomRequest Build U, tokenfactory_query_builder U, tokenfactory_query_proto, 4),
      (init_QueryAllDenomResponse Build U, tokenfactory_query_builder U, tokenfactory_query_proto, 5),
      (init_Module Build U, tokenfactory_module_builder U, tokenfactory_module_proto, 0),
      (init_MedasParams Build U, medasdigital_params_builder U, medasdigital_params_proto, 0),
      (init_MedasGenesisState Build U, medasdigital_genesis_builder U, medasdigital_genesis_proto, 0),
      (init_MedasMsgUpdateParams Build U, medasdigital_tx_builder U, medasdigital_tx_proto, 0),
      (init_MedasMsgUpdateParamsResponse Build U, medasdigital_tx_builder U, medasdigital_tx_proto, 1),
      (init_MedasQueryParamsRequest Build U, medasdigital_query_builder U, medasdigital_query_proto, 0),
      (init_MedasQueryParamsResponse Build U, medasdigital_query_builder U, medasdigital_query_proto, 1),
      (init_MedasModule Build U, medasdigital_module_builder U, medasdigital_module_proto, 0)]"

lemma api_inits_good:
  assumes "api_built Build U"
  shows "\<forall>(init, tb, p, i) \<in> set (api_inits Build U). message_good (api_files U) init tb p i"
  unfolding api_inits_def
  by (simp add: init_Params_good [OF assms]
      init_Denom_good [OF assms]
      init_GenesisState_good [OF assms]
      init_MsgUpdateParams_good [OF assms]
      init_MsgUpdateParamsResponse_good [OF assms]
      init_MsgCreateDenom_good [OF assms]
      init_MsgCreateDenomResponse_good [OF assms]
      init_MsgUpdateDenom_good [OF assms]
      init_MsgUpdateDenomResponse_good [OF assms]
      init_MsgDeleteDenom_good [OF assms]
      init_MsgDeleteDenomResponse_good [OF assms]
      init_QueryParamsRequest_good [OF assms]
      init_QueryParamsResponse_good [OF assms]
      init_QueryGetDenomRequest_good [OF assms]
      init_QueryGetDenomResponse_good [OF assms]
      init_QueryAllDenomRequest_good [OF assms]
      init_QueryAllDenomResponse_good [OF assms]
      init_Module_good [OF assms]
      init_MedasParams_good [OF assms]
      init_MedasGenesisState_good [OF assms]
      init_MedasMsgUpdateParams_good [OF assms]
      init_MedasMsgUpdateParamsResponse_good [OF assms]
      init_MedasQueryParamsRequest_good [OF assms]
      init_MedasQueryParamsResponse_good [OF assms]
      init_MedasModule_good [OF assms]
      del: One_nat_def)

lemma api_inits_index: "\<forall>(init, tb, p, i) \<in> set (api_inits Build U). i < length (p_messages p)"
  by (simp add: api_inits_def file_protos)

lemma api_inits_files: "\<forall>(init, tb, p, i) \<in> set (api_inits Build U). (tb, p) \<in> set (api_files U)"
  by (simp add: api_inits_def api_files_def)

lemma built_of_info:
  assumes "describes tb p" and "i < length (p_messages p)"
  shows "bt_infos (built_of tb p) ! i = (p_messages p ! i, LocalType (m_name (p_messages p ! i)))"
proof -
  let ?n = "length (p_messages p)"
  have t: "take ?n (tb_GoTypes tb) = map (\<lambda>m. LocalType (m_name m)) (p_messages p)"
    using assms(1) by (simp add: describes_def)
  from arg_cong [OF t, of length] have "?n \<le> length (tb_GoTypes tb)"
    by simp
  moreover from arg_cong [OF t, of "\<lambda>ts. ts ! i"] have "tb_GoTypes tb ! i = LocalType (m_name (p_messages p ! i))"
    using assms(2) by simp
  ultimately show ?thesis
    using assms(2) by (simp add: built_of_def)
qed

section \<open>Properties\<close>

text \<open>
  C27: the descriptors.  In each of the eleven generated files the embedded bytes are the descriptor
  of its \<open>.proto\<close> file, the numbers of messages and services are right, the Go types are those of
  the messages in order, and every index of a dependency leads to the Go type of the message that
  the field, the input or the output names; and no two files have the same name.
\<close>

theorem descriptors_embedded:
  "list_all (\<lambda>(tb, p). describes tb p) (api_files UnsafeEnabled)
    \<and> length (api_files UnsafeEnabled) = 11
    \<and> distinct (map (\<lambda>(tb, p). p_name p) (api_files UnsafeEnabled))"
  using api_files_distinct by (simp add: api_files_def files_described)

lemmas message_typings =
  Params_typed Denom_typed GenesisState_typed MsgUpdateParams_typed
  MsgUpdateParamsResponse_typed MsgCreateDenom_typed MsgCreateDenomResponse_typed
  MsgUpdateDenom_typed MsgUpdateDenomResponse_typed MsgDeleteDenom_typed
  MsgDeleteDenomResponse_typed QueryParamsRequest_typed QueryParamsResponse_typed
  QueryGetDenomRequest_typed QueryGetDenomResponse_typed QueryAllDenomRequest_typed
  QueryAllDenomResponse_typed Module_typed MedasParams_typed MedasGenesisState_typed
  MedasMsgUpdateParams_typed MedasMsgUpdateParamsResponse_typed MedasQueryParamsRequest_typed
  MedasQueryParamsResponse_typed MedasModule_typed Params_codec_typed Denom_codec_typed
  GenesisState_codec_typed MsgUpdateParams_codec_typed MsgUpdateParamsResponse_codec_typed
  MsgCreateDenom_codec_typed MsgCreateDenomResponse_codec_typed MsgUpdateDenom_codec_typed
  MsgUpdateDenomResponse_codec_typed MsgDeleteDenom_codec_typed
  MsgDeleteDenomResponse_codec_typed QueryParamsRequest_codec_typed
  QueryParamsResponse_codec_typed QueryGetDenomRequest_codec_typed
  QueryGetDenomResponse_codec_typed QueryAllDenomRequest_codec_typed
  QueryAllDenomResponse_codec_typed MedasParams_codec_typed MedasGenesisState_codec_typed
  MedasMsgUpdateParams_codec_typed MedasMsgUpdateParamsResponse_codec_typed
  MedasQueryParamsRequest_codec_typed MedasQueryParamsResponse_codec_typed



text \<open>
  A builder that knows the files by their first Go type and a letter of their name, and fails
  when a file it imports is not built.
\<close>

definition sample_files :: "((go_type \<times> byte) \<times> file_spec) list" where
  "sample_files =
     [((LocalType ''Params'', 0x74), tokenfactory_params_proto),
      ((LocalType ''Denom'', 0x74), tokenfactory_denom_proto),
      ((LocalType ''GenesisState'', 0x74), tokenfactory_genesis_proto),
      ((LocalType ''MsgUpdateParams'', 0x74), tokenfactory_tx_proto),
      ((LocalType ''QueryParamsRequest'', 0x74), tokenfactory_query_proto),
      ((LocalType ''Module'', 0x74), tokenfactory_module_proto),
      ((LocalType ''Params'', 0x6d), medasdigital_params_proto),
      ((LocalType ''GenesisState'', 0x6d), medasdigital_genesis_proto),
      ((LocalType ''MsgUpdateParams'', 0x6d), medasdigital_tx_proto),
      ((LocalType ''QueryParamsRequest'', 0x6d), medasdigital_query_proto),
      ((LocalType ''Module'', 0x6d), medasdigital_module_proto)]"

definition sample_build :: build_fun where
  "sample_build vars tb =
     (case map_of sample_files (tb_GoTypes tb ! 0, tb_RawDescriptor tb ! 15) of
        None \<Rightarrow> Inl NilDereference
      | Some p \<Rightarrow>
          if \<forall>(key, q) \<in> set sample_files. p_name q \<in> set (p_imports p) \<longrightarrow> vars (p_name q) \<noteq> None
          then Inr (built_of tb p) else Inl NilDereference)"

lemma raw_letters:
  "tokenfactory_params_rawDesc ! 15 = 0x74"
  "tokenfactory_denom_rawDesc ! 15 = 0x74"
  "tokenfactory_genesis_rawDesc ! 15 = 0x74"
  "tokenfactory_tx_rawDesc ! 15 = 0x74"
  "tokenfactory_query_rawDesc ! 15 = 0x74"
  "tokenfactory_module_rawDesc ! 15 = 0x74"
  "medasdigital_params_rawDesc ! 15 = 0x6d"
  "medasdigital_genesis_rawDesc ! 15 = 0x6d"
  "medasdigital_tx_rawDesc ! 15 = 0x6d"
  "medasdigital_query_rawDesc ! 15 = 0x6d"
  "medasdigital_module_rawDesc ! 15 = 0x6d"
  by (simp_all add: tokenfactory_params_rawDesc_def
      tokenfactory_denom_rawDesc_def
      tokenfactory_genesis_rawDesc_def
      tokenfactory_tx_rawDesc_def
      tokenfactory_query_rawDesc_def
      tokenfactory_module_rawDesc_def
      medasdigital_params_rawDesc_def
      medasdigital_genesis_rawDesc_def
      medasdigital_tx_rawDesc_def
      medasdigital_query_rawDesc_def
      medasdigital_module_rawDesc_def)

lemma sample_known:
  "\<forall>(tb, p) \<in> set (api_files True).
     map_of sample_files (tb_GoTypes tb ! 0, tb_RawDescriptor tb ! 15) = Some p"
  by (simp add: api_files_def sample_files_def raw_letters
      tokenfactory_params_builder_def tokenfactory_params_goTypes_def
      tokenfactory_denom_builder_def tokenfactory_denom_goTypes_def
      tokenfactory_genesis_builder_def tokenfactory_genesis_goTypes_def
      tokenfactory_tx_builder_def tokenfactory_tx_goTypes_def
      tokenfactory_query_builder_def tokenfactory_query_goTypes_def
      tokenfactory_module_builder_def tokenfactory_module_goTypes_def
      medasdigital_params_builder_def medasdigital_params_goTypes_def
      medasdigital_genesis_builder_def medasdigital_genesis_goTypes_def
      medasdigital_tx_builder_def medasdigital_tx_goTypes_def
      medasdigital_query_builder_def medasdigital_query_goTypes_def
      medasdigital_module_builder_def medasdigital_module_goTypes_def)

lemma sample_same: "map snd sample_files = map snd (api_files True)"
  by (simp add: sample_files_def api_files_def)

lemma sample_built: "api_built sample_build True"
  unfolding api_built_def
proof (rule ballI, rule case_prodI2)
  fix x tb p
  assume x: "x \<in> set (api_files True)" and "x = (tb, p)"
  then have known: "map_of sample_files (tb_GoTypes tb ! 0, tb_RawDescriptor tb ! 15) = Some p"
    using sample_known by blast
  show "builds_file sample_build ((\<lambda>(tb, p). p_name p) ` set (api_files True)) tb p"
    unfolding builds_file_def
  proof (intro impI allI)
    fix vars :: file_vars
    assume dom: "set (p_imports p) \<inter> (\<lambda>(tb, p). p_name p) ` set (api_files True) \<subseteq> dom vars"
    have "vars (p_name q) \<noteq> None" if "(key, q) \<in> set sample_files" "p_name q \<in> set (p_imports p)" for key q
    proof -
      have "q \<in> set (map snd (api_files True))"
        using that(1) unfolding sample_same [symmetric] by force
      then obtain tb' where "(tb', q) \<in> set (api_files True)" by auto
      then have "p_name q \<in> (\<lambda>(tb, p). p_name p) ` set (api_files True)"
        by (rule rev_image_eqI) simp
      then show ?thesis using dom that(2) by blast
    qed
    then have "\<forall>(key, q) \<in> set sample_files. p_name q \<in> set (p_imports p) \<longrightarrow> vars (p_name q) \<noteq> None"
      by blast
    with known show "sample_build vars tb = Inr (built_of tb p)"
      by (simp add: sample_build_def)
  qed
qed


end
