(* ===== verification/Proto_Services.thy ===== *)
theory Proto_Services
  imports TF_Proto Medas_Proto Medas_Gateway Tx_Flow
begin

text \<open>
  The services of the \<open>.proto\<close> files against the code generated from them: the descriptions grpc-go
  gets, the patterns of the HTTP gateway, and the accounts that have to sign a message.
\<close>

section \<open>Descriptions of services\<close>

definition service_declared :: "file_spec \<Rightarrow> 'h ServiceDesc \<Rightarrow> bool" where
  "service_declared p sd \<longleftrightarrow>
     (\<exists>s. p_services p = [s]
       \<and> ServiceName sd = lit (p_package p @ CHR ''.'' # s_name s)
       \<and> map fst (Methods sd) = map (\<lambda>r. lit (rpc_name r)) (s_methods s)
       \<and> ServiceMetadata sd = lit (p_name p))"

section \<open>Paths\<close>

text \<open>
  The template of an HTTP rule is split at its slashes; a component in braces is a variable.  This
  is the part of the syntax of \<open>google/api/http.proto\<close> the files use.
\<close>

fun path_components :: "string \<Rightarrow> string \<Rightarrow> string list" where
  "path_components acc [] = [rev acc]"
| "path_components acc (c # cs) =
     (if c = CHR ''/'' then rev acc # path_components [] cs else path_components (c # acc) cs)"

fun variable_name :: "string \<Rightarrow> string option" where
  "variable_name [] = None"
| "variable_name (c # cs) = (if c = CHR ''{'' then Some (butlast cs) else None)"

fun match_components :: "string list \<Rightarrow> gostring list \<Rightarrow> path_params option" where
  "match_components [] [] = Some Map.empty"
| "match_components (t # ts) (c # cs) =
     (case variable_name t of
        Some x \<Rightarrow> map_option (\<lambda>b. b(lit x \<mapsto> c)) (match_components ts cs)
      | None \<Rightarrow> if c = lit t then match_components ts cs else None)"
| "match_components [] (c # cs) = None"
| "match_components (t # ts) [] = None"

definition template_match :: "string \<Rightarrow> gostring list \<Rightarrow> path_params option" where
  "template_match path cs = match_components (tl (path_components [] path)) cs"

definition route_declared :: "method_spec \<Rightarrow> pattern \<Rightarrow> bool" where
  "route_declared r pat \<longleftrightarrow>
     (\<exists>path. rpc_options r = [google_api_http_get path] \<and> pattern_match pat = template_match path)"

lemma match_components_cases:
  "match_components [] cs = (if cs = [] then Some Map.empty else None)"
  "match_components (t # ts) cs =
     (case cs of
        [] \<Rightarrow> None
      | c # cs' \<Rightarrow> (case variable_name t of
            Some x \<Rightarrow> map_option (\<lambda>b. b(lit x \<mapsto> c)) (match_components ts cs')
          | None \<Rightarrow> if c = lit t then match_components ts cs' else None))"
  by (cases cs; simp)+

lemma tf_components:
  "tl (path_components [] ''/medasdigital/tokenfactory/params'') = [''medasdigital'', ''tokenfactory'', ''params'']"
  "tl (path_components [] ''/medasdigital/tokenfactory/denom'') = [''medasdigital'', ''tokenfactory'', ''denom'']"
  "tl (path_components [] ''/medasdigital/tokenfactory/denom/{denom}'')
    = [''medasdigital'', ''tokenfactory'', ''denom'', ''{denom}'']"
  "tl (path_components [] ''/medasdigital/medasdigital/params'') = [''medasdigital'', ''medasdigital'', ''params'']"
  by simp_all

lemma patterns_match:
  "pattern_match pattern_Query_Params_0 = template_match ''/medasdigital/tokenfactory/params''"
  "pattern_match pattern_Query_Denom_0 = template_match ''/medasdigital/tokenfactory/denom/{denom}''"
  "pattern_match pattern_Query_DenomAll_0 = template_match ''/medasdigital/tokenfactory/denom''"
  "pattern_match Medas_pattern_Query_Params_0 = template_match ''/medasdigital/medasdigital/params''"
  unfolding template_match_def tf_components
  by (rule ext, auto simp: pattern_match_def match_components_cases pattern_Query_Params_0_def pattern_Query_Denom_0_def
      pattern_Query_DenomAll_0_def Medas_pattern_Query_Params_0_def simp del: match_components.simps split: list.splits)+

section \<open>Signers\<close>

text \<open>
  The account the option \<open>cosmos.msg.v1.signer\<close> of a message names: the value of that field, read
  through the reflection of \<open>api/\<close>, as the SDK does.
\<close>

definition declared_signer :: "message_spec \<Rightarrow> ('m, 'v) rtable \<Rightarrow> 'm \<Rightarrow> gostring option" where
  "declared_signer m tbl x =
     (case filter (\<lambda>w. field_num w = 11110000) (m_options m) of
        [WBytes n s] \<Rightarrow>
          (case find (\<lambda>(name, f). lit name = s) tbl of
             Some (name, RString sel upd) \<Rightarrow> Some (sel x)
           | _ \<Rightarrow> None)
      | _ \<Rightarrow> None)"

fun api_signer :: "api_msg \<Rightarrow> gostring option" where
  "api_signer (ApiUpdateParams m) = declared_signer tokenfactory_proto_MsgUpdateParams ApiMsgUpdateParams_refl m"
| "api_signer (ApiCreateDenom m) = declared_signer tokenfactory_proto_MsgCreateDenom ApiMsgCreateDenom_refl m"
| "api_signer (ApiUpdateDenom m) = declared_signer tokenfactory_proto_MsgUpdateDenom ApiMsgUpdateDenom_refl m"
| "api_signer (ApiDeleteDenom m) = declared_signer tokenfactory_proto_MsgDeleteDenom ApiMsgDeleteDenom_refl m"

section \<open>Properties\<close>

text \<open>
  C29: the services are those the \<open>.proto\<close> files declare.  Each description registered with the server
  has the name, the methods in their order and the file of the declared service; and the pattern
  the gateway registers for a query matches exactly the paths of its HTTP rule, with the same
  parameters.
\<close>

theorem services_declared:
  "service_declared tokenfactory_query_proto Query_serviceDesc
    \<and> service_declared tokenfactory_tx_proto Msg_serviceDesc
    \<and> service_declared medasdigital_query_proto Medas_Query_serviceDesc
    \<and> service_declared medasdigital_tx_proto Medas_Msg_serviceDesc
    \<and> list_all2 route_declared (s_methods tokenfactory_proto_Query)
        [pattern_Query_Params_0, pattern_Query_Denom_0, pattern_Query_DenomAll_0]
    \<and> list_all2 route_declared (s_methods medasdigital_proto_Query) [Medas_pattern_Query_Params_0]"
  by (simp add: service_declared_def rpc_def tokenfactory_query_proto_def tokenfactory_tx_proto_def
      medasdigital_query_proto_def medasdigital_tx_proto_def tokenfactory_proto_Query_def
      tokenfactory_proto_Msg_def medasdigital_proto_Query_def medasdigital_proto_Msg_def
      Query_serviceDesc_def Msg_serviceDesc_def Medas_Query_serviceDesc_def Medas_Msg_serviceDesc_def
      route_declared_def patterns_match)
    (auto)


end
