(* ===== verification/Api_Methods.thy ===== *)
theory Api_Methods
  imports Pulsar_Nested Api_Correct
begin

text \<open>
  \<open>ProtoMethods\<close> of every message in \<open>api/\<close>: the functions the protobuf library calls when it
  sizes, encodes or decodes a message, its own or one embedded in another.
\<close>

section \<open>The methods\<close>

record 'm proto_methods =
  pm_Flags :: "string list"
  pm_Size :: "'m option \<Rightarrow> nat"
  pm_Marshal :: "bytes option \<Rightarrow> 'm option \<Rightarrow> pb_error + bytes option"
  pm_Unmarshal :: "bool \<Rightarrow> bytes \<Rightarrow> 'm option \<Rightarrow> (pb_error + 'm option) option"
  pm_Merge :: "unit option"
  pm_CheckInitialized :: "unit option"

definition ApiParams_ProtoMethods :: "proto_runtime \<Rightarrow> ApiParams proto_methods" where
  "ApiParams_ProtoMethods R =
     \<lparr>pm_Flags = [''SupportMarshalDeterministic'', ''SupportUnmarshalDiscardUnknown''],
      pm_Size = ApiParams_size R,
      pm_Marshal = ApiParams_marshal R,
      pm_Unmarshal = (\<lambda>DiscardUnknown. ApiParams_unmarshal R DiscardUnknown),
      pm_Merge = None, pm_CheckInitialized = None\<rparr>"

definition ApiDenom_ProtoMethods :: "proto_runtime \<Rightarrow> ApiDenom proto_methods" where
  "ApiDenom_ProtoMethods R =
     \<lparr>pm_Flags = [''SupportMarshalDeterministic'', ''SupportUnmarshalDiscardUnknown''],
      pm_Size = ApiDenom_size R,
      pm_Marshal = ApiDenom_marshal R,
      pm_Unmarshal = (\<lambda>DiscardUnknown. ApiDenom_unmarshal R DiscardUnknown),
      pm_Merge = None, pm_CheckInitialized = None\<rparr>"

definition ApiGenesisState_ProtoMethods :: "proto_runtime \<Rightarrow> ApiParams options \<Rightarrow> ApiDenom options \<Rightarrow> ApiGenesisState proto_methods" where
  "ApiGenesisState_ProtoMethods R PO DO =
     \<lparr>pm_Flags = [''SupportMarshalDeterministic'', ''SupportUnmarshalDiscardUnknown''],
      pm_Size = ApiGenesisState_size R PO DO,
      pm_Marshal = ApiGenesisState_marshal R PO DO,
      pm_Unmarshal = (\<lambda>DiscardUnknown. ApiGenesisState_unmarshal R DiscardUnknown PO DO),
      pm_Merge = None, pm_CheckInitialized = None\<rparr>"

definition ApiMsgUpdateParams_ProtoMethods :: "proto_runtime \<Rightarrow> ApiParams options \<Rightarrow> ApiMsgUpdateParams proto_methods" where
  "ApiMsgUpdateParams_ProtoMethods R PO =
     \<lparr>pm_Flags = [''SupportMarshalDeterministic'', ''SupportUnmarshalDiscardUnknown''],
      pm_Size = ApiMsgUpdateParams_size R PO,
      pm_Marshal = ApiMsgUpdateParams_marshal R PO,
      pm_Unmarshal = (\<lambda>DiscardUnknown. ApiMsgUpdateParams_unmarshal R DiscardUnknown PO),
      pm_Merge = None, pm_CheckInitialized = None\<rparr>"

definition ApiMsgUpdateParamsResponse_ProtoMethods :: "proto_runtime \<Rightarrow> ApiMsgUpdateParamsResponse proto_methods" where
  "ApiMsgUpdateParamsResponse_ProtoMethods R =
     \<lparr>pm_Flags = [''SupportMarshalDeterministic'', ''SupportUnmarshalDiscardUnknown''],
      pm_Size = ApiMsgUpdateParamsResponse_size R,
      pm_Marshal = ApiMsgUpdateParamsResponse_marshal R,
      pm_Unmarshal = (\<lambda>DiscardUnknown. ApiMsgUpdateParamsResponse_unmarshal R DiscardUnknown),
      pm_Merge = None, pm_CheckInitialized = None\<rparr>"

definition ApiMsgCreateDenom_ProtoMethods :: "proto_runtime \<Rightarrow> ApiMsgCreateDenom proto_methods" where
  "ApiMsgCreateDenom_ProtoMethods R =
     \<lparr>pm_Flags = [''SupportMarshalDeterministic'', ''SupportUnmarshalDiscardUnknown''],
      pm_Size = ApiMsgCreateDenom_size R,
      pm_Marshal = ApiMsgCreateDenom_marshal R,
      pm_Unmarshal = (\<lambda>DiscardUnknown. ApiMsgCreateDenom_unmarshal R DiscardUnknown),
      pm_Merge = None, pm_CheckInitialized = None\<rparr>"

definition ApiMsgCreateDenomResponse_ProtoMethods :: "proto_runtime \<Rightarrow> ApiMsgCreateDenomResponse proto_methods" where
  "ApiMsgCreateDenomResponse_ProtoMethods R =
     \<lparr>pm_Flags = [''SupportMarshalDeterministic'', ''SupportUnmarshalDiscardUnknown''],
      pm_Size = ApiMsgCreateDenomResponse_size R,
      pm_Marshal = ApiMsgCreateDenomResponse_marshal R,
      pm_Unmarshal = (\<lambda>DiscardUnknown. ApiMsgCreateDenomResponse_unmarshal R DiscardUnknown),
      pm_Merge = None, pm_CheckInitialized = None\<rparr>"

definition ApiMsgUpdateDenom_ProtoMethods :: "proto_runtime \<Rightarrow> ApiMsgUpdateDenom proto_methods" where
  "ApiMsgUpdateDenom_ProtoMethods R =
     \<lparr>pm_Flags = [''SupportMarshalDeterministic'', ''SupportUnmarshalDiscardUnknown''],
      pm_Size = ApiMsgUpdateDenom_size R,
      pm_Marshal = ApiMsgUpdateDenom_marshal R,
      pm_Unmarshal = (\<lambda>DiscardUnknown. ApiMsgUpdateDenom_unmarshal R DiscardUnknown),
      pm_Merge = None, pm_CheckInitialized = None\<rparr>"

definition ApiMsgUpdateDenomResponse_ProtoMethods :: "proto_runtime \<Rightarrow> ApiMsgUpdateDenomResponse proto_methods" where
  "ApiMsgUpdateDenomResponse_ProtoMethods R =
     \<lparr>pm_Flags = [''SupportMarshalDeterministic'', ''SupportUnmarshalDiscardUnknown''],
      pm_Size = ApiMsgUpdateDenomResponse_size R,
      pm_Marshal = ApiMsgUpdateDenomResponse_marshal R,
      pm_Unmarshal = (\<lambda>DiscardUnknown. ApiMsgUpdateDenomResponse_unmarshal R DiscardUnknown),
      pm_Merge = None, pm_CheckInitialized = None\<rparr>"

definition ApiMsgDeleteDenom_ProtoMethods :: "proto_runtime \<Rightarrow> ApiMsgDeleteDenom proto_methods" where
  "ApiMsgDeleteDenom_ProtoMethods R =
     \<lparr>pm_Flags = [''SupportMarshalDeterministic'', ''SupportUnmarshalDiscardUnknown''],
      pm_Size = ApiMsgDeleteDenom_size R,
      pm_Marshal = ApiMsgDeleteDenom_marshal R,
      pm_Unmarshal = (\<lambda>DiscardUnknown. ApiMsgDeleteDenom_unmarshal R DiscardUnknown),
      pm_Merge = None, pm_CheckInitialized = None\<rparr>"

definition ApiMsgDeleteDenomResponse_ProtoMethods :: "proto_runtime \<Rightarrow> ApiMsgDeleteDenomResponse proto_methods" where
  "ApiMsgDeleteDenomResponse_ProtoMethods R =
     \<lparr>pm_Flags = [''SupportMarshalDeterministic'', ''SupportUnmarshalDiscardUnknown''],
      pm_Size = ApiMsgDeleteDenomResponse_size R,
      pm_Marshal = ApiMsgDeleteDenomResponse_marshal R,
      pm_Unmarshal = (\<lambda>DiscardUnknown. ApiMsgDeleteDenomResponse_unmarshal R DiscardUnknown),
      pm_Merge = None, pm_CheckInitialized = None\<rparr>"

definition ApiQueryParamsRequest_ProtoMethods :: "proto_runtime \<Rightarrow> ApiQueryParamsRequest proto_methods" where
  "ApiQueryParamsRequest_ProtoMethods R =
     \<lparr>pm_Flags = [''SupportMarshalDeterministic'', ''SupportUnmarshalDiscardUnknown''],
      pm_Size = ApiQueryParamsRequest_size R,
      pm_Marshal = ApiQueryParamsRequest_marshal R,
      pm_Unmarshal = (\<lambda>DiscardUnknown. ApiQueryParamsRequest_unmarshal R DiscardUnknown),
      pm_Merge = None, pm_CheckInitialized = None\<rparr>"

definition ApiQueryParamsResponse_ProtoMethods :: "proto_runtime \<Rightarrow> ApiParams options \<Rightarrow> ApiQueryParamsResponse proto_methods" where
  "ApiQueryParamsResponse_ProtoMethods R PO =
     \<lparr>pm_Flags = [''SupportMarshalDeterministic'', ''SupportUnmarshalDiscardUnknown''],
      pm_Size = ApiQueryParamsResponse_size R PO,
      pm_Marshal = ApiQueryParamsResponse_marshal R PO,
      pm_Unmarshal = (\<lambda>DiscardUnknown. ApiQueryParamsResponse_unmarshal R DiscardUnknown PO),
      pm_Merge = None, pm_CheckInitialized = None\<rparr>"

definition ApiQueryGetDenomRequest_ProtoMethods :: "proto_runtime \<Rightarrow> ApiQueryGetDenomRequest proto_methods" where
  "ApiQueryGetDenomRequest_ProtoMethods R =
     \<lparr>pm_Flags = [''SupportMarshalDeterministic'', ''SupportUnmarshalDiscardUnknown''],
      pm_Size = ApiQueryGetDenomRequest_size R,
      pm_Marshal = ApiQueryGetDenomRequest_marshal R,
      pm_Unmarshal = (\<lambda>DiscardUnknown. ApiQueryGetDenomRequest_unmarshal R DiscardUnknown),
      pm_Merge = None, pm_CheckInitialized = None\<rparr>"

definition ApiQueryGetDenomResponse_ProtoMethods :: "proto_runtime \<Rightarrow> ApiDenom options \<Rightarrow> ApiQueryGetDenomResponse proto_methods" where
  "ApiQueryGetDenomResponse_ProtoMethods R DO =
     \<lparr>pm_Flags = [''SupportMarshalDeterministic'', ''SupportUnmarshalDiscardUnknown''],
      pm_Size = ApiQueryGetDenomResponse_size R DO,
      pm_Marshal = ApiQueryGetDenomResponse_marshal R DO,
      pm_Unmarshal = (\<lambda>DiscardUnknown. ApiQueryGetDenomResponse_unmarshal R DiscardUnknown DO),
      pm_Merge = None, pm_CheckInitialized = None\<rparr>"

definition ApiQueryAllDenomRequest_ProtoMethods :: "proto_runtime \<Rightarrow> 'p \<Rightarrow> 'p options \<Rightarrow> 'p ApiQueryAllDenomRequest proto_methods" where
  "ApiQueryAllDenomRequest_ProtoMethods R page page_O =
     \<lparr>pm_Flags = [''SupportMarshalDeterministic'', ''SupportUnmarshalDiscardUnknown''],
      pm_Size = ApiQueryAllDenomRequest_size R page_O,
      pm_Marshal = ApiQueryAllDenomRequest_marshal R page_O,
      pm_Unmarshal = (\<lambda>DiscardUnknown. ApiQueryAllDenomRequest_unmarshal R DiscardUnknown page page_O),
      pm_Merge = None, pm_CheckInitialized = None\<rparr>"

definition ApiQueryAllDenomResponse_ProtoMethods :: "proto_runtime \<Rightarrow> 'p \<Rightarrow> ApiDenom options \<Rightarrow> 'p options \<Rightarrow> 'p ApiQueryAllDenomResponse proto_methods" where
  "ApiQueryAllDenomResponse_ProtoMethods R page DO page_O =
     \<lparr>pm_Flags = [''SupportMarshalDeterministic'', ''SupportUnmarshalDiscardUnknown''],
      pm_Size = ApiQueryAllDenomResponse_size R DO page_O,
      pm_Marshal = ApiQueryAllDenomResponse_marshal R DO page_O,
      pm_Unmarshal = (\<lambda>DiscardUnknown. ApiQueryAllDenomResponse_unmarshal R DiscardUnknown page DO page_O),
      pm_Merge = None, pm_CheckInitialized = None\<rparr>"

definition ApiModule_ProtoMethods :: "proto_runtime \<Rightarrow> ApiModule proto_methods" where
  "ApiModule_ProtoMethods R =
     \<lparr>pm_Flags = [''SupportMarshalDeterministic'', ''SupportUnmarshalDiscardUnknown''],
      pm_Size = ApiModule_size R,
      pm_Marshal = ApiModule_marshal R,
      pm_Unmarshal = (\<lambda>DiscardUnknown. ApiModule_unmarshal R DiscardUnknown),
      pm_Merge = None, pm_CheckInitialized = None\<rparr>"

definition ApiMedasParams_ProtoMethods :: "proto_runtime \<Rightarrow> ApiMedasParams proto_methods" where
  "ApiMedasParams_ProtoMethods R =
     \<lparr>pm_Flags = [''SupportMarshalDeterministic'', ''SupportUnmarshalDiscardUnknown''],
      pm_Size = ApiMedasParams_size R,
      pm_Marshal = ApiMedasParams_marshal R,
      pm_Unmarshal = (\<lambda>DiscardUnknown. ApiMedasParams_unmarshal R DiscardUnknown),
      pm_Merge = None, pm_CheckInitialized = None\<rparr>"

definition ApiMedasGenesisState_ProtoMethods :: "proto_runtime \<Rightarrow> ApiMedasParams options \<Rightarrow> ApiMedasGenesisState proto_methods" where
  "ApiMedasGenesisState_ProtoMethods R MO =
     \<lparr>pm_Flags = [''SupportMarshalDeterministic'', ''SupportUnmarshalDiscardUnknown''],
      pm_Size = ApiMedasGenesisState_size R MO,
      pm_Marshal = ApiMedasGenesisState_marshal R MO,
      pm_Unmarshal = (\<lambda>DiscardUnknown. ApiMedasGenesisState_unmarshal R DiscardUnknown MO),
      pm_Merge = None, pm_CheckInitialized = None\<rparr>"

definition ApiMedasMsgUpdateParams_ProtoMethods :: "proto_runtime \<Rightarrow> ApiMedasParams options \<Rightarrow> ApiMedasMsgUpdateParams proto_methods" where
  "ApiMedasMsgUpdateParams_ProtoMethods R MO =
     \<lparr>pm_Flags = [''SupportMarshalDeterministic'', ''SupportUnmarshalDiscardUnknown''],
      pm_Size = ApiMedasMsgUpdateParams_size R MO,
      pm_Marshal = ApiMedasMsgUpdateParams_marshal R MO,
      pm_Unmarshal = (\<lambda>DiscardUnknown. ApiMedasMsgUpdateParams_unmarshal R DiscardUnknown MO),
      pm_Merge = None, pm_CheckInitialized = None\<rparr>"

definition ApiMedasMsgUpdateParamsResponse_ProtoMethods :: "proto_runtime \<Rightarrow> ApiMedasMsgUpdateParamsResponse proto_methods" where
  "ApiMedasMsgUpdateParamsResponse_ProtoMethods R =
     \<lparr>pm_Flags = [''SupportMarshalDeterministic'', ''SupportUnmarshalDiscardUnknown''],
      pm_Size = ApiMedasMsgUpdateParamsResponse_size R,
      pm_Marshal = ApiMedasMsgUpdateParamsResponse_marshal R,
      pm_Unmarshal = (\<lambda>DiscardUnknown. ApiMedasMsgUpdateParamsResponse_unmarshal R DiscardUnknown),
      pm_Merge = None, pm_CheckInitialized = None\<rparr>"

definition ApiMedasQueryParamsRequest_ProtoMethods :: "proto_runtime \<Rightarrow> ApiMedasQueryParamsRequest proto_methods" where
  "ApiMedasQueryParamsRequest_ProtoMethods R =
     \<lparr>pm_Flags = [''SupportMarshalDeterministic'', ''SupportUnmarshalDiscardUnknown''],
      pm_Size = ApiMedasQueryParamsRequest_size R,
      pm_Marshal = ApiMedasQueryParamsRequest_marshal R,
      pm_Unmarshal = (\<lambda>DiscardUnknown. ApiMedasQueryParamsRequest_unmarshal R DiscardUnknown),
      pm_Merge = None, pm_CheckInitialized = None\<rparr>"

definition ApiMedasQueryParamsResponse_ProtoMethods :: "proto_runtime \<Rightarrow> ApiMedasParams options \<Rightarrow> ApiMedasQueryParamsResponse proto_methods" where
  "ApiMedasQueryParamsResponse_ProtoMethods R MO =
     \<lparr>pm_Flags = [''SupportMarshalDeterministic'', ''SupportUnmarshalDiscardUnknown''],
      pm_Size = ApiMedasQueryParamsResponse_size R MO,
      pm_Marshal = ApiMedasQueryParamsResponse_marshal R MO,
      pm_Unmarshal = (\<lambda>DiscardUnknown. ApiMedasQueryParamsResponse_unmarshal R DiscardUnknown MO),
      pm_Merge = None, pm_CheckInitialized = None\<rparr>"

definition ApiMedasModule_ProtoMethods :: "proto_runtime \<Rightarrow> ApiMedasModule proto_methods" where
  "ApiMedasModule_ProtoMethods R =
     \<lparr>pm_Flags = [''SupportMarshalDeterministic'', ''SupportUnmarshalDiscardUnknown''],
      pm_Size = ApiMedasModule_size R,
      pm_Marshal = ApiMedasModule_marshal R,
      pm_Unmarshal = (\<lambda>DiscardUnknown. ApiMedasModule_unmarshal R DiscardUnknown),
      pm_Merge = None, pm_CheckInitialized = None\<rparr>"

section \<open>Embedded messages\<close>

text \<open>
  \<open>options.Size\<close>, \<open>options.Marshal\<close> and \<open>options.Unmarshal\<close> of the library call the methods of the
  message they are given.
\<close>

definition library_options :: "bool \<Rightarrow> 'm proto_methods \<Rightarrow> 'm options" where
  "library_options DiscardUnknown M = options_of (pm_Size M) (pm_Marshal M) (pm_Unmarshal M DiscardUnknown)"

text \<open>So the options the decoders of \<open>api/\<close> use for the embedded messages keep their contract.\<close>

lemma embedded_options:
  assumes "runtime_ok R"
  shows "options_Params R discard (library_options discard (ApiParams_ProtoMethods R))"
    "options_Denom R discard (library_options discard (ApiDenom_ProtoMethods R))"
    "options_MedasParams R discard (library_options discard (ApiMedasParams_ProtoMethods R))"
  using pulsar_message.options_of_ok [OF ApiParams_contract [OF assms], of discard]
    pulsar_message.options_of_ok [OF ApiDenom_contract [OF assms], of discard]
    pulsar_message.options_of_ok [OF ApiMedasParams_contract [OF assms], of discard]
  by (simp_all add: options_Params_def options_Denom_def options_MedasParams_def library_options_def
      ApiParams_ProtoMethods_def ApiDenom_ProtoMethods_def ApiMedasParams_ProtoMethods_def api_defs)

text \<open>
  With them no assumption on the options is left: through the tables of methods of the genesis state
  and of the messages in it, the library decodes what the node's codec decodes, and reads back what
  it has written.
\<close>

definition library_genesis :: "proto_runtime \<Rightarrow> bool \<Rightarrow> ApiGenesisState proto_methods" where
  "library_genesis R discard = ApiGenesisState_ProtoMethods R
     (library_options discard (ApiParams_ProtoMethods R)) (library_options discard (ApiDenom_ProtoMethods R))"

lemma library_genesis_agrees:
  assumes "runtime_ok R" and "go_slice d"
  shows "\<exists>r. pm_Unmarshal (library_genesis R discard) discard d (Some m) = Some r
    \<and> norm (map_option ApiGenesisState_gogo) r
      = norm Some (GenesisState_Unmarshal d (ApiGenesisState_gogo m))"
  using api_genesis_agrees [OF assms(1) embedded_options(1,2) [OF assms(1)] assms(2)]
  by (simp add: library_genesis_def ApiGenesisState_ProtoMethods_def)

lemma library_genesis_roundtrip:
  assumes "runtime_ok R"
    and "pulsar_valid discard
      (\<lambda>m. pointer_good (ApiParams_good discard) (ApiGenesisState_Params m)
        \<and> elements_good (ApiDenom_good discard) (ApiGenesisState_DenomList m))
      ApiGenesisState_unknownFields (ApiGenesisState_fields
        (library_options discard (ApiParams_ProtoMethods R))
        (library_options discard (ApiDenom_ProtoMethods R))) m"
    and "int (pm_Size (library_genesis R discard) (Some m)) < 2 ^ 63"
  shows "\<exists>bs. pm_Marshal (library_genesis R discard) None (Some m) = Inr (Some bs)
    \<and> length bs = pm_Size (library_genesis R discard) (Some m)
    \<and> pm_Unmarshal (library_genesis R discard) discard bs (Some ApiGenesisState_zero) = Some (Inr (Some m))"
  using api_genesis_roundtrip [OF assms(1) embedded_options(1,2) [OF assms(1)] assms(2)] assms(3)
  by (simp add: library_genesis_def ApiGenesisState_ProtoMethods_def)

end
