(* ===== verification/App_Inject.thy ===== *)
theory App_Inject
  imports App_Start App_Config Medas_App_Module TF_Simulation_Module
begin

text \<open>
  Dependency injection: what the two modules of the repository register with it
  (\<open>x/*/module/module.go\<close>), the legacy parameters and the logger of their keepers
  (\<open>types/params.go\<close>, \<open>keeper/keeper.go\<close>), and the fields of the application, which the
  start sets before it reads them (\<open>app/app.go\<close>, \<open>app/ibc.go\<close>, \<open>app/wasm.go\<close>).
\<close>

section \<open>What the modules register\<close>

text \<open>
  The types of the fields of \<open>ModuleInputs\<close> and \<open>ModuleOutputs\<close>.  The keepers of accounts and coins
  are interfaces each package declares for itself, with the methods they need.
\<close>

datatype wiring_type =
    T_KVStoreService | T_Codec | T_Logger | T_AppModule
  | T_Config gostring | T_Keeper mod_name | T_Expected mod_name "gostring list"

definition AccountKeeper_methods :: "gostring list" where
  "AccountKeeper_methods = [lit ''GetAccount'']"

definition BankKeeper_methods :: "gostring list" where
  "BankKeeper_methods = [lit ''SpendableCoins'']"

definition ParamSubspace_methods :: "gostring list" where
  "ParamSubspace_methods = [lit ''Get'', lit ''Set'']"

definition Medas_AccountKeeper_methods :: "gostring list" where
  "Medas_AccountKeeper_methods = [lit ''GetAccount'']"

definition Medas_BankKeeper_methods :: "gostring list" where
  "Medas_BankKeeper_methods = [lit ''SpendableCoins'']"

definition Medas_ParamSubspace_methods :: "gostring list" where
  "Medas_ParamSubspace_methods = [lit ''Get'', lit ''Set'']"

definition ModuleInputs :: "(gostring \<times> wiring_type) list" where
  "ModuleInputs =
     [(lit ''StoreService'', T_KVStoreService), (lit ''Cdc'', T_Codec),
      (lit ''Config'', T_Config (lit ''medasdigital.tokenfactory.module.Module'')),
      (lit ''Logger'', T_Logger),
      (lit ''AccountKeeper'', T_Expected M_auth AccountKeeper_methods),
      (lit ''BankKeeper'', T_Expected M_bank BankKeeper_methods)]"

definition ModuleOutputs :: "(gostring \<times> wiring_type) list" where
  "ModuleOutputs =
     [(lit ''TokenfactoryKeeper'', T_Keeper M_tokenfactory), (lit ''Module'', T_AppModule)]"

definition Medas_ModuleInputs :: "(gostring \<times> wiring_type) list" where
  "Medas_ModuleInputs =
     [(lit ''StoreService'', T_KVStoreService), (lit ''Cdc'', T_Codec),
      (lit ''Config'', T_Config (lit ''medasdigital.medasdigital.module.Module'')),
      (lit ''Logger'', T_Logger),
      (lit ''AccountKeeper'', T_Expected M_auth Medas_AccountKeeper_methods),
      (lit ''BankKeeper'', T_Expected M_bank Medas_BankKeeper_methods)]"

definition Medas_ModuleOutputs :: "(gostring \<times> wiring_type) list" where
  "Medas_ModuleOutputs =
     [(lit ''MedasdigitalKeeper'', T_Keeper M_medasdigital), (lit ''Module'', T_AppModule)]"

text \<open>
  \<open>init\<close> registers the provider of the module under the message its configuration is written in; the
  registry is a map from the names of these messages to the inputs and outputs of the provider.
\<close>

type_synonym module_registry =
  "gostring \<rightharpoonup> (gostring \<times> wiring_type) list \<times> (gostring \<times> wiring_type) list"

definition module_register :: "module_registry \<Rightarrow> module_registry" where
  "module_register reg =
     reg(lit ''medasdigital.tokenfactory.module.Module'' \<mapsto> (ModuleInputs, ModuleOutputs))"

definition Medas_module_register :: "module_registry \<Rightarrow> module_registry" where
  "Medas_module_register reg =
     reg(lit ''medasdigital.medasdigital.module.Module'' \<mapsto> (Medas_ModuleInputs, Medas_ModuleOutputs))"

section \<open>Parameters, logger and simulation hooks\<close>

text \<open>
  The legacy parameters: \<open>registerParamSet\<close> of the SDK adds the pairs of a parameter set to a key
  table.  Neither set has pairs.
\<close>

definition ParamSetPairs :: "Params \<Rightarrow> (bytes \<times> gostring) list" where
  "ParamSetPairs p = []"

definition ParamKeyTable :: "'t \<Rightarrow> ('t \<Rightarrow> (bytes \<times> gostring) list \<Rightarrow> 't) \<Rightarrow> 't" where
  "ParamKeyTable newKeyTable registerParamSet = registerParamSet newKeyTable (ParamSetPairs Params)"

definition Medas_ParamSetPairs :: "MedasParams \<Rightarrow> (bytes \<times> gostring) list" where
  "Medas_ParamSetPairs p = []"

definition Medas_ParamKeyTable :: "'t \<Rightarrow> ('t \<Rightarrow> (bytes \<times> gostring) list \<Rightarrow> 't) \<Rightarrow> 't" where
  "Medas_ParamKeyTable newKeyTable registerParamSet =
     registerParamSet newKeyTable (Medas_ParamSetPairs MedasParams)"

text \<open>\<open>with\<close> is \<open>Logger.With\<close>.\<close>

definition Keeper_Logger :: "('l \<Rightarrow> gostring \<Rightarrow> gostring \<Rightarrow> 'l) \<Rightarrow> 'l \<Rightarrow> 'l" where
  "Keeper_Logger with_fields logger = with_fields logger (lit ''module'') (lit ''x/'' @ ModuleName)"

definition Medas_Keeper_Logger :: "('l \<Rightarrow> gostring \<Rightarrow> gostring \<Rightarrow> 'l) \<Rightarrow> 'l \<Rightarrow> 'l" where
  "Medas_Keeper_Logger with_fields logger =
     with_fields logger (lit ''module'') (lit ''x/'' @ Medas_ModuleName)"

definition AppModule_RegisterStoreDecoder :: "'r \<Rightarrow> 'r" where
  "AppModule_RegisterStoreDecoder registry = registry"

definition Medas_AppModule_RegisterStoreDecoder :: "'r \<Rightarrow> 'r" where
  "Medas_AppModule_RegisterStoreDecoder registry = registry"

definition Medas_WeightedOperations :: "'simState \<Rightarrow> (int \<times> ('s, 'acc) sim_operation) list" where
  "Medas_WeightedOperations simState = (let operations = [] in operations)"

definition Medas_ProposalMsgs :: "'simState \<Rightarrow> (gostring \<times> int \<times> ('acc list \<Rightarrow> tf_msg option)) list" where
  "Medas_ProposalMsgs simState = []"

section \<open>The fields of the application\<close>

datatype app_field =
    F_runtime | F_legacyAmino | F_appCodec | F_txConfig | F_interfaceRegistry
  | F_AccountKeeper | F_BankKeeper | F_StakingKeeper | F_DistrKeeper | F_ConsensusParamsKeeper
  | F_SlashingKeeper | F_MintKeeper | F_GovKeeper | F_CrisisKeeper | F_UpgradeKeeper | F_ParamsKeeper
  | F_AuthzKeeper | F_EvidenceKeeper | F_FeeGrantKeeper | F_GroupKeeper | F_NFTKeeper
  | F_CircuitBreakerKeeper | F_ibc ibc_keeper | F_scoped scoped_field | F_ScopedKeepers
  | F_MedasdigitalKeeper | F_TokenfactoryKeeper | F_sm

text \<open>\<open>App\<close>: each field, and whether its zero value is nil or a struct that was never set up.\<close>

datatype zero_value = NilValue | ZeroStruct

definition App_struct :: "(app_field \<times> zero_value) list" where
  "App_struct =
     [(F_runtime, NilValue), (F_legacyAmino, NilValue), (F_appCodec, NilValue),
      (F_txConfig, NilValue), (F_interfaceRegistry, NilValue),
      (F_AccountKeeper, ZeroStruct), (F_BankKeeper, NilValue), (F_StakingKeeper, NilValue),
      (F_DistrKeeper, ZeroStruct), (F_ConsensusParamsKeeper, ZeroStruct),
      (F_SlashingKeeper, ZeroStruct), (F_MintKeeper, ZeroStruct), (F_GovKeeper, NilValue),
      (F_CrisisKeeper, NilValue), (F_UpgradeKeeper, NilValue), (F_ParamsKeeper, ZeroStruct),
      (F_AuthzKeeper, ZeroStruct), (F_EvidenceKeeper, ZeroStruct), (F_FeeGrantKeeper, ZeroStruct),
      (F_GroupKeeper, ZeroStruct), (F_NFTKeeper, ZeroStruct), (F_CircuitBreakerKeeper, ZeroStruct),
      (F_ibc IBCKeeper, NilValue), (F_ibc CapabilityKeeper, NilValue), (F_ibc IBCFeeKeeper, ZeroStruct),
      (F_ibc ICAControllerKeeper, ZeroStruct), (F_ibc ICAHostKeeper, ZeroStruct),
      (F_ibc TransferKeeper, ZeroStruct),
      (F_scoped ScopedIBCKeeper, ZeroStruct), (F_scoped ScopedIBCTransferKeeper, ZeroStruct),
      (F_scoped ScopedICAControllerKeeper, ZeroStruct), (F_scoped ScopedICAHostKeeper, ZeroStruct),
      (F_ScopedKeepers, NilValue),
      (F_MedasdigitalKeeper, ZeroStruct), (F_TokenfactoryKeeper, ZeroStruct),
      (F_ibc WasmKeeper, ZeroStruct), (F_scoped ScopedWasmKeeper, ZeroStruct), (F_sm, NilValue)]"

text \<open>The pointers \<open>New\<close> gives to the injection; the application builder beside them is local.\<close>

definition injected_fields :: "app_field list" where
  "injected_fields =
     [F_appCodec, F_legacyAmino, F_txConfig, F_interfaceRegistry, F_AccountKeeper, F_BankKeeper,
      F_StakingKeeper, F_DistrKeeper, F_ConsensusParamsKeeper, F_SlashingKeeper, F_MintKeeper,
      F_GovKeeper, F_CrisisKeeper, F_UpgradeKeeper, F_ParamsKeeper, F_AuthzKeeper, F_EvidenceKeeper,
      F_FeeGrantKeeper, F_NFTKeeper, F_GroupKeeper, F_CircuitBreakerKeeper, F_MedasdigitalKeeper,
      F_TokenfactoryKeeper]"

section \<open>No field is read before it is set\<close>

text \<open>
  The fields the code reads for a call, from its arguments and its receiver; a method of the
  embedded \<open>runtime.App\<close> reads that field, and so do \<open>GetKey\<close>, \<open>GetMemKey\<close> and the routers.  A pointer
  to a field, as the modules of wasm and of interchain accounts get, is not a read of it.
\<close>

fun keeper_reads :: "ibc_keeper \<Rightarrow> app_field set" where
  "keeper_reads CapabilityKeeper = {F_runtime, F_appCodec}"
| "keeper_reads IBCKeeper =
     {F_runtime, F_appCodec, F_ParamsKeeper, F_StakingKeeper, F_UpgradeKeeper}"
| "keeper_reads IBCFeeKeeper =
     {F_runtime, F_appCodec, F_ibc IBCKeeper, F_AccountKeeper, F_BankKeeper}"
| "keeper_reads TransferKeeper =
     {F_runtime, F_appCodec, F_ParamsKeeper, F_ibc IBCFeeKeeper, F_ibc IBCKeeper, F_AccountKeeper,
      F_BankKeeper}"
| "keeper_reads ICAHostKeeper =
     {F_runtime, F_appCodec, F_ParamsKeeper, F_ibc IBCFeeKeeper, F_ibc IBCKeeper, F_AccountKeeper}"
| "keeper_reads ICAControllerKeeper =
     {F_runtime, F_appCodec, F_ParamsKeeper, F_ibc IBCFeeKeeper, F_ibc IBCKeeper}"
| "keeper_reads WasmKeeper =
     {F_runtime, F_appCodec, F_AccountKeeper, F_BankKeeper, F_StakingKeeper, F_DistrKeeper,
      F_ibc IBCFeeKeeper, F_ibc IBCKeeper, F_ibc TransferKeeper}"

fun stack_reads :: "ibc_stack \<Rightarrow> app_field set" where
  "stack_reads TransferModule = {F_ibc TransferKeeper}"
| "stack_reads NoAuthModule = {}"
| "stack_reads (IcaControllerMiddleware s) = insert (F_ibc ICAControllerKeeper) (stack_reads s)"
| "stack_reads IcaHostModule = {F_ibc ICAHostKeeper}"
| "stack_reads WasmHandler = {F_ibc WasmKeeper, F_ibc IBCKeeper, F_ibc IBCFeeKeeper}"
| "stack_reads (FeeMiddleware s) = insert (F_ibc IBCFeeKeeper) (stack_reads s)"

fun module_reads :: "mod_name \<Rightarrow> app_field set" where
  "module_reads M_ibc = {F_ibc IBCKeeper}"
| "module_reads M_transfer = {F_ibc TransferKeeper}"
| "module_reads M_ibcfee = {F_ibc IBCFeeKeeper}"
| "module_reads M_capability = {F_appCodec, F_ibc CapabilityKeeper}"
| "module_reads M_wasm =
     {F_appCodec, F_StakingKeeper, F_AccountKeeper, F_BankKeeper, F_ParamsKeeper}"
| "module_reads m = {}"

definition ante_reads :: "app_field set" where
  "ante_reads = {F_txConfig, F_AccountKeeper, F_BankKeeper, F_FeeGrantKeeper, F_ibc IBCKeeper}"

text \<open>
  A tracked application carries the fields that are set and whether every read was of such a field.
  The stacks of the transfer and interchain account routes are built right after the legacy router
  is set, and that of wasm after the post handler, in the same state: their reads are counted there.
\<close>

type_synonym 'a tracked = "(app_field set \<times> bool) \<times> 'a"

fun track :: "app_field set \<Rightarrow> app_field set \<Rightarrow> app_field set \<times> bool \<Rightarrow> app_field set \<times> bool" where
  "track rs ws (filled, ok) = (filled \<union> ws, ok \<and> rs \<subseteq> filled)"

fun on_state :: "app_field set \<Rightarrow> app_field set \<Rightarrow> ('a \<Rightarrow> 'a) \<Rightarrow> 'a tracked \<Rightarrow> 'a tracked" where
  "on_state rs ws f (t, a) = (track rs ws t, f a)"

fun on_call :: "app_field set \<Rightarrow> app_field set \<Rightarrow> ('a \<Rightarrow> 'e + 'a) \<Rightarrow> 'a tracked \<Rightarrow> 'e + 'a tracked" where
  "on_call rs ws f (t, a) = map_sum id (Pair (track rs ws t)) (f a)"

fun on_scope :: "app_field set \<Rightarrow> ('a \<Rightarrow> 'e + 'o \<times> 'a) \<Rightarrow> 'a tracked \<Rightarrow> 'e + 'o \<times> 'a tracked" where
  "on_scope rs f (t, a) = map_sum id (\<lambda>(sc, b). (sc, track rs {} t, b)) (f a)"

definition track_ibc :: "('a, 'o, 'rt, 'h) ibc_steps \<Rightarrow> ('a tracked, 'o, 'rt, 'h) ibc_steps" where
  "track_ibc I = \<lparr>
     const = const I,
     RegisterStores = (\<lambda>ks. on_call {F_runtime} {} (RegisterStores I ks)),
     UnsafeFindStoreKey = (\<lambda>(t, a). UnsafeFindStoreKey I a),
     SubspaceWithKeyTable = (\<lambda>n tbl. on_call {F_ParamsKeeper} {} (SubspaceWithKeyTable I n tbl)),
     ParamsSubspace = (\<lambda>(t, a). ParamsSubspace I a),
     zero_Subspace = zero_Subspace I,
     SetKeeper = (\<lambda>k args. on_call (keeper_reads k) {F_ibc k} (SetKeeper I k args)),
     ScopeToModule = (\<lambda>n. on_scope {F_ibc CapabilityKeeper} (ScopeToModule I n)),
     WithQueryRouter = on_state {F_runtime, F_ibc ICAHostKeeper} {} (WithQueryRouter I),
     SetLegacyRouter = on_call ({F_GovKeeper} \<union> stack_reads (FeeMiddleware TransferModule)
         \<union> stack_reads (FeeMiddleware (IcaControllerMiddleware NoAuthModule))
         \<union> stack_reads (FeeMiddleware IcaHostModule)) {} (SetLegacyRouter I),
     NewRouter = NewRouter I,
     AddRoute = AddRoute I,
     SetRouter = (\<lambda>rt. on_call {F_ibc IBCKeeper} {} (SetRouter I rt)),
     SetScoped = (\<lambda>f sc. on_state {} {F_scoped f} (SetScoped I f sc)),
     RegisterModules = (\<lambda>ms. on_call (insert F_runtime (\<Union> (set (map module_reads ms)))) {} (RegisterModules I ms)),
     ReadNodeConfig = ReadNodeConfig I,
     ChainAnteDecorators = ChainAnteDecorators I,
     SimulationGasLimit = SimulationGasLimit I,
     GetGasRegister = GetGasRegister I,
     ante_view = (\<lambda>(t, a). ante_view I a),
     tx_SignModeHandler = tx_SignModeHandler I,
     DefaultSigGasConsumer = DefaultSigGasConsumer I,
     NewKVStoreService = NewKVStoreService I,
     SetAnteHandler = (\<lambda>h. on_call (insert F_runtime ante_reads) {} (SetAnteHandler I h)),
     SnapshotExtensions = (\<lambda>(t, a).
       map_option (map_sum id (Pair (track {F_runtime} {} t))) (SnapshotExtensions I a)),
     NewPostHandler = NewPostHandler I,
     SetPostHandler = (\<lambda>h. on_call (insert F_runtime (stack_reads (FeeMiddleware WasmHandler))) {}
       (SetPostHandler I h)),
     MergedRegistry = MergedRegistry I,
     ValidateProtoAnnotations = ValidateProtoAnnotations I\<rparr>"

text \<open>The steps of \<open>New\<close>; before the injection only the map of the scoped keepers is there.\<close>

definition track_app :: "'a app_steps \<Rightarrow> 'a tracked app_steps" where
  "track_app S = \<lparr>
     depinject_Inject = map_sum id (Pair (track {} (set injected_fields) ({F_ScopedKeepers}, True)))
       (depinject_Inject S),
     SetOptimisticExecution = on_state {} {} (SetOptimisticExecution S),
     appBuilder_Build = on_state {} {F_runtime} (appBuilder_Build S),
     RegisterStreamingServices = (\<lambda>ks. on_call {F_runtime} {} (RegisterStreamingServices S ks)),
     GetStoreKeys = (\<lambda>(t, a). GetStoreKeys S a),
     RegisterInvariants = on_state {F_runtime, F_CrisisKeeper} {} (RegisterInvariants S),
     NewSimulationManager = on_state {F_runtime, F_appCodec, F_AccountKeeper, F_ParamsKeeper} {F_sm}
       (NewSimulationManager S),
     RegisterStoreDecoders = on_state {F_sm} {} (RegisterStoreDecoders S),
     SetInitChainer = on_call {F_runtime} {} (SetInitChainer S),
     SetUpgradeHandler = (\<lambda>n. on_state {F_runtime, F_UpgradeKeeper} {} (SetUpgradeHandler S n)),
     ReadUpgradeInfoFromDisk = ReadUpgradeInfoFromDisk S,
     IsSkipHeight = IsSkipHeight S,
     SetStoreLoader = (\<lambda>h u. on_call {F_runtime} {} (SetStoreLoader S h u)),
     app_Load = (\<lambda>l. on_call {F_runtime} {} (app_Load S l)),
     InitializePinnedCodes = on_call {F_runtime, F_ibc WasmKeeper} {} (InitializePinnedCodes S)\<rparr>"

lemma rbind_map_sum: "rbind (map_sum id f r) k = rbind r (\<lambda>b. k (f b))"
  by (cases r) simp_all

lemma map_sum_rbind: "map_sum id f (rbind r k) = rbind r (\<lambda>b. map_sum id f (k b))"
  by (cases r) simp_all

lemma rbind_ext: "(\<And>b. r = Inr b \<Longrightarrow> k b = k' b) \<Longrightarrow> rbind r k = rbind r k'"
  by (cases r) simp_all

lemma track_ok: "R \<subseteq> F \<Longrightarrow> track R W (F, True) = (F \<union> W, True)"
  by simp

lemma or_error_map_sum: "or_error (map_sum id f r) = map_sum id f (or_error r)"
  by (cases r) (simp_all add: or_error_def)

lemma track_ibc_simps:
  "const (track_ibc I) = const I"
  "RegisterStores (track_ibc I) ks = on_call {F_runtime} {} (RegisterStores I ks)"
  "UnsafeFindStoreKey (track_ibc I) (t, a) = UnsafeFindStoreKey I a"
  "SubspaceWithKeyTable (track_ibc I) n tbl = on_call {F_ParamsKeeper} {} (SubspaceWithKeyTable I n tbl)"
  "ParamsSubspace (track_ibc I) (t, a) = ParamsSubspace I a"
  "zero_Subspace (track_ibc I) = zero_Subspace I"
  "SetKeeper (track_ibc I) k args = on_call (keeper_reads k) {F_ibc k} (SetKeeper I k args)"
  "ScopeToModule (track_ibc I) n = on_scope {F_ibc CapabilityKeeper} (ScopeToModule I n)"
  "WithQueryRouter (track_ibc I) = on_state {F_runtime, F_ibc ICAHostKeeper} {} (WithQueryRouter I)"
  "SetLegacyRouter (track_ibc I) = on_call {F_GovKeeper, F_ibc IBCFeeKeeper, F_ibc TransferKeeper,
     F_ibc ICAControllerKeeper, F_ibc ICAHostKeeper} {} (SetLegacyRouter I)"
  "NewRouter (track_ibc I) = NewRouter I" "AddRoute (track_ibc I) = AddRoute I"
  "SetRouter (track_ibc I) rt = on_call {F_ibc IBCKeeper} {} (SetRouter I rt)"
  "SetScoped (track_ibc I) f sc = on_state {} {F_scoped f} (SetScoped I f sc)"
  "RegisterModules (track_ibc I) ms
     = on_call (insert F_runtime (\<Union> (set (map module_reads ms)))) {} (RegisterModules I ms)"
  "ReadNodeConfig (track_ibc I) = ReadNodeConfig I"
  "ChainAnteDecorators (track_ibc I) = ChainAnteDecorators I"
  "SimulationGasLimit (track_ibc I) = SimulationGasLimit I"
  "GetGasRegister (track_ibc I) = GetGasRegister I"
  "ante_view (track_ibc I) (t, a) = ante_view I a"
  "tx_SignModeHandler (track_ibc I) = tx_SignModeHandler I"
  "DefaultSigGasConsumer (track_ibc I) = DefaultSigGasConsumer I"
  "NewKVStoreService (track_ibc I) = NewKVStoreService I"
  "SetAnteHandler (track_ibc I) h = on_call (insert F_runtime ante_reads) {} (SetAnteHandler I h)"
  "SnapshotExtensions (track_ibc I) (t, a)
     = map_option (map_sum id (Pair (track {F_runtime} {} t))) (SnapshotExtensions I a)"
  "NewPostHandler (track_ibc I) = NewPostHandler I"
  "SetPostHandler (track_ibc I) h
     = on_call {F_runtime, F_ibc IBCFeeKeeper, F_ibc WasmKeeper, F_ibc IBCKeeper} {} (SetPostHandler I h)"
  "MergedRegistry (track_ibc I) = MergedRegistry I"
  "ValidateProtoAnnotations (track_ibc I) = ValidateProtoAnnotations I"
  by (simp_all add: track_ibc_def insert_commute)

lemma case_map_sum:
  "(case map_sum id f r of Inl e \<Rightarrow> Inl (g e) | Inr a \<Rightarrow> Inr a)
    = map_sum id f (case r of Inl e \<Rightarrow> Inl (g e) | Inr a \<Rightarrow> Inr a)"
  by (cases r) simp_all

lemma snapshot_map_sum:
  "(case map_option (map_sum id (Pair t)) s of None \<Rightarrow> Inr (t, a) | Some (Inl e) \<Rightarrow> Inl (g e) | Some (Inr b) \<Rightarrow> Inr b)
    = map_sum id (Pair t) (case s of None \<Rightarrow> Inr a | Some (Inl e) \<Rightarrow> Inl (g e) | Some (Inr b) \<Rightarrow> Inr b)"
  by (simp split: option.split sum.split)

lemmas tracked = track_ibc_simps on_call.simps on_state.simps on_scope.simps rbind_map_sum
  map_sum_rbind case_map_sum snapshot_map_sum

text \<open>The fields the injection and the build of the application have set.\<close>

definition base_fields :: "app_field set" where
  "base_fields = {F_ScopedKeepers, F_runtime} \<union> set injected_fields"

lemma setPostHandler_tracked:
  assumes "{F_runtime, F_ibc IBCFeeKeeper, F_ibc WasmKeeper, F_ibc IBCKeeper} \<subseteq> F"
  shows "setPostHandler (track_ibc I) ((F, True), a) = map_sum id (Pair (F, True)) (setPostHandler I a)"
  using assms by (cases "NewPostHandler I") (simp_all add: setPostHandler_def tracked)

lemma registerWasmModules_tracked:
  assumes "base_fields \<subseteq> F"
    and "{F_ibc CapabilityKeeper, F_ibc IBCKeeper, F_ibc IBCFeeKeeper, F_ibc TransferKeeper} \<subseteq> F"
  shows "registerWasmModules (track_ibc I) ((F, True), a)
    = map_sum id (\<lambda>(st, b). (st, (insert (F_scoped ScopedWasmKeeper) (insert (F_ibc WasmKeeper) F), True), b))
        (registerWasmModules I a)"
  using assms
  by (simp add: registerWasmModules_def tracked base_fields_def injected_fields_def wasmModules_def
      ante_reads_def setPostHandler_tracked Let_def case_prod_beta del: case_map_option)

text \<open>And those set after the modules that are wired by hand.\<close>

definition wired_fields :: "app_field set" where
  "wired_fields = range F_ibc \<union> range F_scoped \<union> base_fields"

lemma wired_insert:
  "wired_fields = insert (F_scoped ScopedICAControllerKeeper) (insert (F_scoped ScopedICAHostKeeper)
      (insert (F_scoped ScopedIBCTransferKeeper) (insert (F_scoped ScopedIBCKeeper)
      (insert (F_scoped ScopedWasmKeeper) (insert (F_ibc WasmKeeper)
      (insert (F_ibc ICAControllerKeeper) (insert (F_ibc ICAHostKeeper)
      (insert (F_ibc TransferKeeper) (insert (F_ibc IBCFeeKeeper) (insert (F_ibc IBCKeeper)
      (insert (F_ibc CapabilityKeeper) base_fields)))))))))))" (is "?l = ?r")
proof
  have "F_ibc k \<in> ?r" for k by (cases k) simp_all
  moreover have "F_scoped s \<in> ?r" for s by (cases s) simp_all
  ultimately show "?l \<subseteq> ?r" unfolding wired_fields_def by blast
qed (auto simp: wired_fields_def)

lemma base_members:
  "{F_ScopedKeepers, F_runtime, F_appCodec, F_txConfig, F_AccountKeeper, F_BankKeeper, F_StakingKeeper,
    F_DistrKeeper, F_GovKeeper, F_CrisisKeeper, F_UpgradeKeeper, F_ParamsKeeper, F_FeeGrantKeeper} \<subseteq> base_fields"
  by (simp add: base_fields_def injected_fields_def)

lemma registerIBCModules_tracked:
  "registerIBCModules (track_ibc I) ((base_fields, True), a)
    = map_sum id (Pair (wired_fields, True)) (registerIBCModules I a)"
  using base_members unfolding wired_insert
  by (simp add: registerIBCModules_def tracked ibcModules_def
      registerWasmModules_tracked Let_def case_prod_beta subset_insertI2 del: case_map_option)

lemma track_app_simps:
  "depinject_Inject (track_app S)
     = map_sum id (Pair (insert F_ScopedKeepers (set injected_fields), True)) (depinject_Inject S)"
  "SetOptimisticExecution (track_app S) ((F, ok), a) = ((F, ok), SetOptimisticExecution S a)"
  "appBuilder_Build (track_app S) ((F, ok), a) = ((insert F_runtime F, ok), appBuilder_Build S a)"
  "RegisterStreamingServices (track_app S) ks = on_call {F_runtime} {} (RegisterStreamingServices S ks)"
  "GetStoreKeys (track_app S) (t, a) = GetStoreKeys S a"
  "RegisterInvariants (track_app S) = on_state {F_runtime, F_CrisisKeeper} {} (RegisterInvariants S)"
  "NewSimulationManager (track_app S)
     = on_state {F_runtime, F_appCodec, F_AccountKeeper, F_ParamsKeeper} {F_sm} (NewSimulationManager S)"
  "RegisterStoreDecoders (track_app S) = on_state {F_sm} {} (RegisterStoreDecoders S)"
  "SetInitChainer (track_app S) = on_call {F_runtime} {} (SetInitChainer S)"
  "SetUpgradeHandler (track_app S) n = on_state {F_runtime, F_UpgradeKeeper} {} (SetUpgradeHandler S n)"
  "ReadUpgradeInfoFromDisk (track_app S) = ReadUpgradeInfoFromDisk S"
  "IsSkipHeight (track_app S) = IsSkipHeight S"
  "SetStoreLoader (track_app S) h u = on_call {F_runtime} {} (SetStoreLoader S h u)"
  "app_Load (track_app S) l = on_call {F_runtime} {} (app_Load S l)"
  "InitializePinnedCodes (track_app S) = on_call {F_runtime, F_ibc WasmKeeper} {} (InitializePinnedCodes S)"
  by (simp_all add: track_app_def)

lemma setUpgradeHandlers_tracked:
  "setUpgradeHandlers (track_app S) ((UNIV, True), a) = ((UNIV, True), setUpgradeHandlers S a)"
proof -
  have "fold (\<lambda>u app. SetUpgradeHandler (track_app S) (UpgradeName u) app) us ((UNIV, True), a)
      = ((UNIV, True), fold (\<lambda>u app. SetUpgradeHandler S (UpgradeName u) app) us a)" for us
    by (induction us arbitrary: a) (simp_all add: track_app_simps)
  then show ?thesis by (simp add: setUpgradeHandlers_def)
qed

lemma apply_store_loader_tracked:
  "apply_store_loader (track_app S) ((UNIV, True), a)
    = map_sum id (Pair (UNIV, True)) (apply_store_loader S a)"
  by (auto simp: apply_store_loader_def map_sum_rbind track_app_simps intro!: rbind_ext split: option.split)

text \<open>The fields of the struct are all the fields, each once.\<close>

lemma App_struct_complete: "fst ` set App_struct = UNIV" "distinct (map fst App_struct)"
proof -
  have "f \<in> fst ` set App_struct" for f
  proof (cases f)
    case (F_ibc k)
    then show ?thesis by (cases k) (simp_all add: App_struct_def)
  next
    case (F_scoped s)
    then show ?thesis by (cases s) (simp_all add: App_struct_def)
  qed (simp_all add: App_struct_def)
  then show "fst ` set App_struct = UNIV" by blast
  show "distinct (map fst App_struct)" by (simp add: App_struct_def)
qed

lemma all_fields:
  "set injected_fields \<union> {F_ScopedKeepers, F_runtime, F_sm} \<union> range F_ibc \<union> range F_scoped = UNIV"
proof -
  have "f \<in> set injected_fields \<union> {F_ScopedKeepers, F_runtime, F_sm} \<union> range F_ibc \<union> range F_scoped" for f
    by (cases f) (simp_all add: injected_fields_def)
  then show ?thesis by blast
qed

text \<open>
  C15: definite initialization of the application.  Whatever the steps of the start do, tracking the
  fields changes nothing in the run of \<open>New\<close>, and when the start succeeds every read was of a field
  that had been set before, and all fields of the struct are set: no keeper is handed on as nil or as a
  zero struct, although the keepers of ibc and wasm are built by hand and copied into each other.
\<close>

theorem fields_before_use:
  "New (track_app S) (track_ibc I) loadLatest
    = map_sum id (Pair (fst ` set App_struct, True)) (New S I loadLatest)"
proof -
  have base: "insert F_runtime (insert F_ScopedKeepers (set injected_fields)) = base_fields"
    by (auto simp: base_fields_def)
  have sm: "insert F_sm wired_fields = UNIV"
    using all_fields by (auto simp: wired_fields_def base_fields_def)
  have w: "{F_runtime, F_appCodec, F_AccountKeeper, F_ParamsKeeper, F_CrisisKeeper} \<subseteq> wired_fields"
    using base_members by (auto simp: wired_fields_def)
  show ?thesis
    using w
    by (simp add: New_def Let_def App_struct_complete(1) track_app_simps rbind_map_sum map_sum_rbind base
        registerIBCModules_tracked or_error_map_sum sm setUpgradeHandlers_tracked
        apply_store_loader_tracked case_map_sum case_prod_beta)
qed

text \<open>
  The keepers of the two modules are outputs of the providers these register, in either order, under
  the messages their configuration is written in, and both modules are configured.
\<close>

lemma providers_registered:
  "module_register (Medas_module_register reg) = Medas_module_register (module_register reg)"
  "module_register (Medas_module_register reg) (lit ''medasdigital.tokenfactory.module.Module'')
     = Some (ModuleInputs, ModuleOutputs)"
  "module_register (Medas_module_register reg) (lit ''medasdigital.medasdigital.module.Module'')
     = Some (Medas_ModuleInputs, Medas_ModuleOutputs)"
  "T_Keeper M_tokenfactory \<in> snd ` set ModuleOutputs \<and> M_tokenfactory \<in> fst ` set appConfig"
  "T_Keeper M_medasdigital \<in> snd ` set Medas_ModuleOutputs \<and> M_medasdigital \<in> fst ` set appConfig"
  by (simp_all add: module_register_def Medas_module_register_def lit_def ModuleOutputs_def
      Medas_ModuleOutputs_def appConfig_def fun_upd_twist)

end
