(* ===== verification/Spec2Isabelle.thy ===== *)
theory Spec2Isabelle
  imports TF_Codec TF_Machine TF_Query TF_Module TF_Simulation_Module Medas_App_Module
    App_Config App_Ante App_Export Cmd_Testnet Api_Correct
    TF_Gateway Medas_Gateway TF_Live Tx_Flow Cmd_Root Cmd_AutoCli App_Api Test_Support
    Api_Typed Proto_Services Api_Methods App_Inject
begin

text \<open>
  A verification library for the MedasDigital chain (Go, Cosmos SDK): the token factory module and
  its messages, the module \<open>x/medasdigital\<close>, the wiring of the application and the node commands.
  This theory imports all others and holds no definition of its own.


  \<^bold>\<open>The program.\<close>  The chain is an application of the Cosmos SDK.  A transaction carries messages in the
  protobuf format; the messages of \<open>x/tokenfactory\<close> create, update and delete denoms and set the
  parameters of the module.  The generated code of \<open>x/*/types/*.pb.go\<close> decodes a message,
  \<open>ValidateBasic\<close> checks it without the state, the handler of \<open>keeper/msg_server_*.go\<close> checks it
  against the store and changes the store through the keeper.  Queries read the store, genesis
  imports and exports it.  \<open>app/\<close> wires the modules with those of the SDK, ibc-go and wasmd, and
  \<open>cmd/\<close> has the commands that start, export and test the node.  \<open>api/\<close> has a second generated codec
  for the same messages, with reflection.


  \<^bold>\<open>Theories and code.\<close>

  \<^item> \<open>Go_Prelude\<close>: bytes, strings, 64-bit integers and their wrap-around, calls that return an error
    as sums, loops that may fail.
  \<^item> \<open>Proto_Decode\<close>, \<open>Proto_Varint\<close>, \<open>Proto_Encode\<close>, \<open>Proto_Wire\<close>, \<open>Proto_Message\<close>: the code gogoproto
    repeats in every \<open>.pb.go\<close> file: the varint loop, \<open>skipX\<close> with its groups, the loop of \<open>Unmarshal\<close> and
    its cases, \<open>MarshalToSizedBuffer\<close> from the end of the buffer, \<open>Size\<close>; and the locale \<open>pb_message\<close>,
    the contract of a generated message.
  \<^item> \<open>TF_Denom\<close>, \<open>TF_Params\<close>, \<open>TF_Tx\<close>, \<open>TF_Genesis_Pb\<close>, \<open>TF_Query_Pb\<close>, \<open>TF_Codec\<close>: the messages of
    \<open>x/tokenfactory/types\<close>, each an interpretation of \<open>pb_message\<close>, and what holds of them.
  \<^item> \<open>Sdk_Interfaces\<close>: the key-value store, the codec, the addresses and the errors of the SDK, as
    parameters with the locales \<open>kv_store\<close> and \<open>proto_codec\<close>.
  \<^item> \<open>TF_Keeper\<close>, \<open>TF_MsgServer\<close>, \<open>TF_Machine\<close>, \<open>TF_Query\<close>, \<open>TF_Genesis\<close>, \<open>TF_Module\<close>: \<open>x/tokenfactory\<close>, its
    keeper, handlers, runs of the chain, queries, genesis and module.
  \<^item> \<open>TF_Simulation\<close>, \<open>TF_Simulation_Module\<close>: \<open>x/tokenfactory/simulation\<close> and \<open>module/simulation.go\<close>.
  \<^item> \<open>Medas_Pb\<close>, \<open>Medas_Module\<close>, \<open>Medas_App_Module\<close>: the same for \<open>x/medasdigital\<close>.
  \<^item> \<open>Pulsar_Codec\<close>, \<open>Pulsar_Message\<close>, \<open>Pulsar_Nested\<close>, \<open>Pulsar_Reflect\<close>: what the generator of \<open>api/\<close>
    repeats for every message: size, marshal and unmarshal with unknown fields and pointers, the
    locale \<open>pulsar_message\<close>, its relation to \<open>pb_message\<close> in the locale \<open>pulsar_gogo\<close>, and the reflection
    methods with the locale \<open>pulsar_reflect\<close>.
  \<^item> \<open>Api_Denom\<close>, \<open>Api_Genesis\<close>, \<open>Api_Tx\<close>, \<open>Api_Query\<close>, \<open>Api_Medas\<close>, \<open>Api_Correct\<close>: the 25 messages of
    \<open>api/medasdigital\<close>, each an interpretation of these locales, and what holds of them.
  \<^item> \<open>Api_Methods\<close>: \<open>ProtoMethods\<close> of the 25 messages, the table the protobuf library calls; with it the
    options for embedded messages keep their contract.
  \<^item> \<open>Proto_Descriptor\<close>, \<open>TF_Proto\<close>, \<open>Medas_Proto\<close>: descriptors of \<open>.proto\<close> files with their encoding, the
    eleven files under \<open>proto/\<close>, and the bytes \<open>file_\<dots>_rawDesc\<close> of \<open>api/\<close>, which are equal to it.
  \<^item> \<open>Pulsar_Type\<close>, \<open>TF_Types\<close>, \<open>Medas_Types\<close>: the tables of types and dependencies, the \<open>init\<close> functions,
    the message types and their methods; \<open>Api_Typed\<close>, \<open>Proto_Services\<close>: both codecs, the reflection, the
    services, routes and signers against the \<open>.proto\<close> files.
  \<^item> \<open>App_Wiring\<close>, \<open>App_Config\<close>, \<open>App_Ante\<close>, \<open>App_Ibc\<close>, \<open>App_Start\<close>, \<open>App_Export\<close>: \<open>app/\<close>.  \<open>App_Inject\<close>: what
    the modules register with the dependency injection, and the fields of \<open>App\<close>.
  \<^item> \<open>Grpc_Runtime\<close>, \<open>TF_Grpc\<close>, \<open>TF_Gateway\<close>, \<open>Medas_Gateway\<close>: the generated gRPC stubs and HTTP gateways
    of both modules (\<open>query.pb.go\<close>, \<open>tx.pb.go\<close>, \<open>query.pb.gw.go\<close>) with the registrations of
    \<open>module.go\<close>, on what grpc-go and grpc-gateway document.
  \<^item> \<open>Tx_Flow\<close>: a message from the client's API through the codec of the node to the store.
    \<open>TF_Live\<close>: what an owner can still do in every reachable state.
  \<^item> \<open>Cmd_Node\<close>, \<open>Cmd_Testnet\<close>, \<open>Cmd_Root\<close>, \<open>Cmd_AutoCli\<close>: \<open>cmd/medasdigitald\<close> and the \<open>autocli.go\<close> of both
    modules.  \<open>App_Api\<close>: accessors and API routes of \<open>app/app.go\<close> and \<open>docs/docs.go\<close>.
  \<^item> \<open>Test_Support\<close>: \<open>testutil\<close>.


  \<^bold>\<open>Groups of properties.\<close>  The handlers refine an abstract server on a table of denoms, on every
  message and every error, and runs of the chain keep the store well formed, change a denom only
  by messages of its owner and keep owners valid.  The decoders of both codecs return on every
  input, never panic, agree with each other and invert the encoders; sizes are exact.
  A message sent through the API package has, from its bytes on, the effect of the abstract
  server, and no denom is ever stuck.  The services are dispatched to their own handlers, the
  gateway answers each path with the query it names, the command line covers every method.
  Genesis import and export are inverse up to order.  Reflection reads back what it sets.
  The start-up sets handlers and loaders before the application is sealed, the ante handler has
  its decorators in order, the export jails what it should, the test network leaves one validator.
  No field of the application is read before it is set, and a start that succeeds sets them all.
  The embedded descriptors are those of the \<open>.proto\<close> files; every message has the declared fields with
  their kinds in both codecs and in reflection; the \<open>init\<close> functions succeed in every order; services,
  routes and signers are the declared ones.


  \<^bold>\<open>Parameters.\<close>  Code outside the repository is an argument: the store and the codec of the SDK,
  bech32, \<open>query.Paginate\<close>, the keepers of staking, distribution, slashing and bank, the steps of
  \<open>baseapp\<close> and of dependency injection, the decorators, ibc-go, wasmd, the runtime of cosmos-proto, the
  options of the protobuf library and its builder of types.  A property that relies on it names the documented contract
  as a hypothesis, and its witness satisfies that contract with a concrete instance.
  \<open>options.Size(x)\<close> and the like, on the message itself, are the functions of that message; on an
  embedded message they are a parameter, which \<open>Api_Methods\<close> instantiates.


  \<^bold>\<open>Bounds.\<close>  \<open>int\<close> is 64 bits wide.  Lengths of slices are below \<open>2 ^ 63\<close>, which \<open>go_slice\<close> states and the
  language guarantees; a value in the store is below \<open>2 ^ 31\<close> bytes, which the SDK checks.  No fuel
  is used: the loops of gogoproto are total functions with a measure, and the loop of the pulsar
  decoders is a partial function whose termination is a theorem.


  \<^bold>\<open>Limits of the model.\<close>  A buffer has its length as its capacity.  The receiver of \<open>Unmarshal\<close> after an
  error is not modelled, nor is the difference between a nil and an empty slice in a message.  A
  reference a reflection method returns is given by what it refers to.  Gas, events and logs are
  left out.


  \<^bold>\<open>Not modelled.\<close>  The help texts of the commands, \<open>String\<close> and the \<open>XXX\<close> methods of messages, which only
  call the library, and the compressed descriptors of \<open>x/*/types\<close>, whose compression is the library's.
  The stubs of \<open>api/*_grpc.pb.go\<close> repeat those of \<open>x/*/types\<close>.  The code generators under \<open>tools\<close>, the scripts and
  the tests are not part of the node.
\<close>

end
